(* ===== verification/Prelude.thy ===== *)
theory Prelude
  imports Main
begin

text \<open>
  The vocabulary the components share: Go's fixed-width integers, byte strings and the
  functions of the packages \<^verbatim>\<open>strings\<close>, \<^verbatim>\<open>strconv\<close> and \<^verbatim>\<open>unicode/utf8\<close> the
  operator calls, the sequencing of Go's \<^verbatim>\<open>if err := ...; err != nil\<close> checks, and loops over
  slices that stop at the first error. A Go string is a byte sequence, which is what
  \<^typ>\<open>string\<close> (a list of 8-bit characters) is. Case folding and white space are those of
  ASCII: the functions are exact on ASCII text and leave the other bytes alone.
\<close>

named_theorems go_defs \<open>definitions of the Go library functions, for evaluation\<close>
named_theorems check_simps \<open>characterisations of the sequencing of checks\<close>

section \<open>Fixed-width integers\<close>

text \<open>
  A signed integer of Go is an \<^typ>\<open>int\<close> in range; an operation that may leave the range is
  followed by the wrap-around of two's complement.
\<close>

type_synonym int32 = int
type_synonym int64 = int

definition wrap_signed :: "nat \<Rightarrow> int \<Rightarrow> int" where
  "wrap_signed w x = (x + 2 ^ (w - 1)) mod 2 ^ w - 2 ^ (w - 1)"

definition wrap32 :: "int \<Rightarrow> int32" where
  "wrap32 x = (x + 2147483648) mod 4294967296 - 2147483648"

definition wrap64 :: "int \<Rightarrow> int64" where
  "wrap64 x = (x + 9223372036854775808) mod 18446744073709551616 - 9223372036854775808"

definition in_int32 :: "int \<Rightarrow> bool" where
  "in_int32 x \<longleftrightarrow> -2147483648 \<le> x \<and> x \<le> 2147483647"

definition in_int64 :: "int \<Rightarrow> bool" where
  "in_int64 x \<longleftrightarrow> -9223372036854775808 \<le> x \<and> x \<le> 9223372036854775807"

section \<open>Byte strings\<close>

definition is_space :: "char \<Rightarrow> bool" where
  "is_space c \<longleftrightarrow> c = CHR '' '' \<or> (9 \<le> (of_char c :: nat) \<and> (of_char c :: nat) \<le> 13)"

definition TrimSpace :: "string \<Rightarrow> string" where
  "TrimSpace s = rev (dropWhile is_space (rev (dropWhile is_space s)))"

text \<open>\<open>Fields_acc w s\<close>: \<open>w\<close> is the word being read, in reverse.\<close>

fun Fields_acc :: "string \<Rightarrow> string \<Rightarrow> string list" where
  "Fields_acc w [] = (if w = [] then [] else [rev w])"
| "Fields_acc w (c # s) =
     (if is_space c then (if w = [] then Fields_acc [] s else rev w # Fields_acc [] s)
      else Fields_acc (c # w) s)"

definition Fields :: "string \<Rightarrow> string list" where
  "Fields s = Fields_acc [] s"

text \<open>\<^verbatim>\<open>strings.Cut\<close> at a one-byte separator: before, after, found.\<close>

fun Cut :: "string \<Rightarrow> char \<Rightarrow> string \<times> string \<times> bool" where
  "Cut [] sep = ([], [], False)"
| "Cut (c # s) sep =
     (if c = sep then ([], s, True)
      else (case Cut s sep of (a, b, found) \<Rightarrow> (c # a, b, found)))"

text \<open>\<^verbatim>\<open>strings.Split\<close> at a one-byte separator: never empty.\<close>

fun Split :: "string \<Rightarrow> char \<Rightarrow> string list" where
  "Split [] sep = [[]]"
| "Split (c # s) sep =
     (if c = sep then [] # Split s sep
      else (case Split s sep of [] \<Rightarrow> [[c]] | w # ws \<Rightarrow> (c # w) # ws))"

definition HasPrefix :: "string \<Rightarrow> string \<Rightarrow> bool" where
  "HasPrefix s p \<longleftrightarrow> take (length p) s = p"

fun Contains :: "string \<Rightarrow> string \<Rightarrow> bool" where
  "Contains [] sub \<longleftrightarrow> sub = []"
| "Contains (c # s) sub \<longleftrightarrow> HasPrefix (c # s) sub \<or> Contains s sub"

definition lower_char :: "char \<Rightarrow> char" where
  "lower_char c =
     (if 65 \<le> (of_char c :: nat) \<and> (of_char c :: nat) \<le> 90 then char_of (of_char c + 32 :: nat) else c)"

definition ToLower :: "string \<Rightarrow> string" where
  "ToLower s = map lower_char s"

definition EqualFold :: "string \<Rightarrow> string \<Rightarrow> bool" where
  "EqualFold a b \<longleftrightarrow> ToLower a = ToLower b"

fun Join :: "string list \<Rightarrow> string \<Rightarrow> string" where
  "Join [] sep = []"
| "Join [w] sep = w"
| "Join (w # v # ws) sep = w @ sep @ Join (v # ws) sep"

subsection \<open>Numbers in text\<close>

definition is_digit :: "char \<Rightarrow> bool" where
  "is_digit c \<longleftrightarrow> 48 \<le> (of_char c :: nat) \<and> (of_char c :: nat) \<le> 57"

definition digit_val :: "char \<Rightarrow> nat" where
  "digit_val c = of_char c - 48"

fun digits_val :: "nat \<Rightarrow> string \<Rightarrow> nat" where
  "digits_val acc [] = acc"
| "digits_val acc (c # s) = digits_val (10 * acc + digit_val c) s"

text \<open>
  \<^verbatim>\<open>strconv.Atoi\<close>: an optional sign, at least one decimal digit and nothing else, and a value
  that fits the 64-bit \<^verbatim>\<open>int\<close>.
\<close>

definition Atoi_unsigned :: "string \<Rightarrow> nat option" where
  "Atoi_unsigned s = (if s \<noteq> [] \<and> list_all is_digit s then Some (digits_val 0 s) else None)"

definition Atoi :: "string \<Rightarrow> int option" where
  "Atoi s =
     (case s of
        [] \<Rightarrow> None
      | c # r \<Rightarrow>
          (let (neg, body) = (if c = CHR ''-'' then (True, r)
                              else if c = CHR ''+'' then (False, r) else (False, s))
           in case Atoi_unsigned body of
                None \<Rightarrow> None
              | Some n \<Rightarrow>
                  (let v = (if neg then - int n else int n)
                   in if in_int64 v then Some v else None)))"

text \<open>\<^verbatim>\<open>%d\<close> of a non-negative integer.\<close>

definition digit_char :: "nat \<Rightarrow> char" where
  "digit_char d = char_of (48 + d)"

fun show_nat :: "nat \<Rightarrow> string" where
  "show_nat n = (if n < 10 then [digit_char n] else show_nat (n div 10) @ [digit_char (n mod 10)])"

declare show_nat.simps [simp del]

subsection \<open>Runes\<close>

text \<open>
  The width of the first rune of a byte string, after \<^verbatim>\<open>utf8.DecodeRune\<close>: an invalid or
  truncated sequence counts as one rune of one byte. \<^verbatim>\<open>len([]rune(s))\<close> is the number of runes.
\<close>

definition cont_byte :: "nat \<Rightarrow> bool" where
  "cont_byte b \<longleftrightarrow> 128 \<le> b \<and> b \<le> 191"

fun rune_width :: "nat list \<Rightarrow> nat" where
  "rune_width (b0 # b1 # bs) =
     (if 194 \<le> b0 \<and> b0 \<le> 223 then (if cont_byte b1 then 2 else 1)
      else if 224 \<le> b0 \<and> b0 \<le> 239 then
        (if (if b0 = 224 then 160 else 128) \<le> b1 \<and> b1 \<le> (if b0 = 237 then 159 else 191)
         then (case bs of b2 # _ \<Rightarrow> (if cont_byte b2 then 3 else 1) | [] \<Rightarrow> 1) else 1)
      else if 240 \<le> b0 \<and> b0 \<le> 244 then
        (if (if b0 = 240 then 144 else 128) \<le> b1 \<and> b1 \<le> (if b0 = 244 then 143 else 191)
         then (case bs of b2 # b3 # _ \<Rightarrow> (if cont_byte b2 \<and> cont_byte b3 then 4 else 1) | _ \<Rightarrow> 1)
         else 1)
      else 1)"
| "rune_width _ = 1"

lemma rune_width_pos: "0 < rune_width bs"
  by (cases bs rule: rune_width.cases) (auto split: list.splits)

function rune_count :: "nat list \<Rightarrow> nat" where
  "rune_count bs = (if bs = [] then 0 else Suc (rune_count (drop (rune_width bs) bs)))"
  by pat_completeness auto
termination
  by (relation "measure length") (auto simp: rune_width_pos)

declare rune_count.simps [simp del]

definition RuneCount :: "string \<Rightarrow> nat" where
  "RuneCount s = rune_count (map of_char s)"

section \<open>Checks that stop at the first error\<close>

text \<open>
  Go's \<^verbatim>\<open>error\<close> is \<open>None\<close> for nil and \<open>Some e\<close> for a failure. \<open>first_err\<close> is the chain
  \<^verbatim>\<open>if err := a(); err != nil { return err }; ...\<close>, \<open>reject\<close> is one guarded return and
  \<open>check_all f i xs\<close> is \<^verbatim>\<open>for i, x := range xs\<close> with a check in its body.
\<close>

fun first_err :: "'e option list \<Rightarrow> 'e option" where
  "first_err [] = None"
| "first_err (Some e # rest) = Some e"
| "first_err (None # rest) = first_err rest"

definition reject :: "bool \<Rightarrow> 'e \<Rightarrow> 'e option" where
  "reject c e = (if c then Some e else None)"

fun check_all :: "(nat \<Rightarrow> 'a \<Rightarrow> 'e option) \<Rightarrow> nat \<Rightarrow> 'a list \<Rightarrow> 'e option" where
  "check_all f i [] = None"
| "check_all f i (x # xs) =
     (case f i x of Some e \<Rightarrow> Some e | None \<Rightarrow> check_all f (Suc i) xs)"

section \<open>Lemmas\<close>

subsection \<open>Integers\<close>

lemma wrap32_wrap_signed: "wrap32 = wrap_signed 32"
  by (simp add: fun_eq_iff wrap32_def wrap_signed_def)

lemma wrap64_wrap_signed: "wrap64 = wrap_signed 64"
  by (simp add: fun_eq_iff wrap64_def wrap_signed_def)

lemma wrap32_id [simp]: "in_int32 x \<Longrightarrow> wrap32 x = x"
  by (simp add: wrap32_def in_int32_def)

lemma wrap64_id [simp]: "in_int64 x \<Longrightarrow> wrap64 x = x"
  by (simp add: wrap64_def in_int64_def)

lemma wrap32_in_range [simp, intro]: "in_int32 (wrap32 x)"
  unfolding wrap32_def in_int32_def
  using pos_mod_bound [of 4294967296 "x + 2147483648"] pos_mod_sign [of 4294967296 "x + 2147483648"]
  by linarith

lemma wrap64_in_range [simp, intro]: "in_int64 (wrap64 x)"
  unfolding wrap64_def in_int64_def
  using pos_mod_bound [of 18446744073709551616 "x + 9223372036854775808"]
    pos_mod_sign [of 18446744073709551616 "x + 9223372036854775808"]
  by linarith

subsection \<open>Text\<close>

lemma of_char_digit_char: "d < 10 \<Longrightarrow> (of_char (digit_char d) :: nat) = 48 + d"
  by (simp add: digit_char_def)

lemma digit_char_digit [simp]: "d < 10 \<Longrightarrow> is_digit (digit_char d)" "d < 10 \<Longrightarrow> digit_val (digit_char d) = d"
  by (simp_all add: is_digit_def digit_val_def of_char_digit_char)

lemma digits_val_append: "digits_val acc (s @ t) = digits_val (digits_val acc s) t"
  by (induction s arbitrary: acc) auto

lemma show_nat_digits: "list_all is_digit (show_nat n)"
  by (induction n rule: show_nat.induct) (simp add: show_nat.simps list_all_append)

lemma show_nat_nonempty [simp]: "show_nat n \<noteq> []"
  by (subst show_nat.simps) simp

lemma digits_val_show_nat [simp]: "digits_val 0 (show_nat n) = n"
proof (induction n rule: show_nat.induct)
  case (1 n)
  then show ?case by (cases "n < 10") (simp_all add: show_nat.simps [of n] digits_val_append)
qed

lemma show_nat_no: "\<not> is_digit c \<Longrightarrow> c \<notin> set (show_nat n)"
  using show_nat_digits [of n] by (auto simp: list_all_iff)

lemma not_digit [simp]:
  "\<not> is_digit CHR ''-''" "\<not> is_digit CHR ''+''" "\<not> is_digit CHR ''/''" "\<not> is_digit CHR '',''"
  "\<not> is_digit CHR ''.''" "\<not> is_digit CHR '':''" "\<not> is_digit CHR ''*''"
  by (simp_all add: is_digit_def)

lemma digit_not_space: "is_digit c \<Longrightarrow> \<not> is_space c"
  by (auto simp: is_digit_def is_space_def)

text \<open>Reading back a printed number.\<close>

lemma Atoi_show_nat [simp]: "n \<le> 9223372036854775807 \<Longrightarrow> Atoi (show_nat n) = Some (int n)"
proof -
  assume n: "n \<le> 9223372036854775807"
  obtain c r where cr: "show_nat n = c # r" by (cases "show_nat n") auto
  then have "c \<noteq> CHR ''-''" "c \<noteq> CHR ''+''"
    using show_nat_no [of "CHR ''-''" n] show_nat_no [of "CHR ''+''" n] by auto
  moreover have "Atoi_unsigned (show_nat n) = Some n"
    by (simp add: Atoi_unsigned_def show_nat_digits)
  ultimately show ?thesis using n cr by (simp add: Atoi_def in_int64_def)
qed

lemma Cut_found [simp]: "sep \<notin> set a \<Longrightarrow> Cut (a @ sep # b) sep = (a, b, True)"
  by (induction a) auto

lemma Cut_absent [simp]: "sep \<notin> set a \<Longrightarrow> Cut a sep = (a, [], False)"
  by (induction a) auto

lemma Split_absent [simp]: "sep \<notin> set a \<Longrightarrow> Split a sep = [a]"
  by (induction a) auto

lemma Fields_acc_word:
  "\<forall>c \<in> set w. \<not> is_space c \<Longrightarrow> Fields_acc acc (w @ s) = Fields_acc (rev w @ acc) s"
  by (induction w arbitrary: acc) auto

lemma Fields_word [simp]:
  "w \<noteq> [] \<Longrightarrow> \<forall>c \<in> set w. \<not> is_space c \<Longrightarrow> Fields (w @ CHR '' '' # s) = w # Fields s"
  by (simp add: Fields_def Fields_acc_word is_space_def)

lemma Fields_last [simp]: "w \<noteq> [] \<Longrightarrow> \<forall>c \<in> set w. \<not> is_space c \<Longrightarrow> Fields w = [w]"
  using Fields_acc_word [of w "[]" "[]"] by (simp add: Fields_def)

lemma TrimSpace_trimmed:
  "s \<noteq> [] \<Longrightarrow> \<not> is_space (hd s) \<Longrightarrow> \<not> is_space (last s) \<Longrightarrow> TrimSpace s = s"
  by (simp add: TrimSpace_def dropWhile_eq_self_iff [THEN iffD2] hd_rev)

lemma HasPrefix_iff: "HasPrefix s p \<longleftrightarrow> (\<exists>r. s = p @ r)"
  by (metis HasPrefix_def append_eq_conv_conj append_take_drop_id)

lemma Contains_iff: "Contains s sub \<longleftrightarrow> (\<exists>a b. s = a @ sub @ b)"
proof (induction s)
  case (Cons c s)
  have "(\<exists>a b. c # s = a @ sub @ b) \<longleftrightarrow> (\<exists>b. c # s = sub @ b) \<or> (\<exists>a b. s = a @ sub @ b)"
    by (metis append_Cons append_Nil list.inject neq_Nil_conv)
  then show ?case using Cons by (simp add: HasPrefix_iff)
qed simp

subsection \<open>Checks\<close>

lemma first_err_None [simp, check_simps]: "first_err xs = None \<longleftrightarrow> (\<forall>x \<in> set xs. x = None)"
  by (induction xs rule: first_err.induct) auto

lemma first_err_in: "first_err xs = Some e \<Longrightarrow> Some e \<in> set xs"
  by (induction xs rule: first_err.induct) auto

lemma reject_None [simp, check_simps]: "reject c e = None \<longleftrightarrow> \<not> c"
  by (simp add: reject_def)

lemma reject_Some [simp]: "reject c e = Some e' \<longleftrightarrow> c \<and> e' = e"
  by (auto simp: reject_def)

lemma Some_reject [simp]: "Some e' = reject c e \<longleftrightarrow> c \<and> e' = e"
  by (auto simp: reject_def)

lemma Some_map_option [simp]: "Some y = map_option f x \<longleftrightarrow> (\<exists>z. x = Some z \<and> y = f z)"
  by (cases x) auto

lemma reject_True [simp]: "reject True e = Some e" and reject_False [simp]: "reject False e = None"
  by (simp_all add: reject_def)

lemma check_all_None [check_simps]:
  "check_all f i xs = None \<longleftrightarrow> (\<forall>j < length xs. f (i + j) (xs ! j) = None)"
proof (induction xs arbitrary: i)
  case Nil
  then show ?case by simp
next
  case (Cons x xs)
  have "(\<forall>j < length (x # xs). f (i + j) ((x # xs) ! j) = None) \<longleftrightarrow>
      f i x = None \<and> (\<forall>j < length xs. f (Suc i + j) (xs ! j) = None)"
    by (auto simp: less_Suc_eq_0_disj)
  then show ?case using Cons.IH [of "Suc i"] by (auto split: option.splits)
qed

lemma check_all_in: "check_all f i xs = Some e \<Longrightarrow> \<exists>j < length xs. f (i + j) (xs ! j) = Some e"
proof (induction xs arbitrary: i)
  case (Cons x xs)
  show ?case
  proof (cases "f i x")
    case None
    then obtain j where "j < length xs" "f (Suc i + j) (xs ! j) = Some e"
      using Cons.IH [of "Suc i"] Cons.prems by auto
    then show ?thesis by (intro exI [of _ "Suc j"]) simp
  qed (use Cons in auto)
qed simp

end
