(* ===== verification/Conditions.thy ===== *)
theory Conditions
  imports Prelude
begin

text \<open>
  Status conditions, after \<^verbatim>\<open>internal/util/conditions.go\<close>. A condition slice is a list; the
  helpers read and write the first entry of a type. The clock reading \<^verbatim>\<open>time.Now()\<close> is an
  argument. The contract of the helpers is that of a map from condition types to conditions in
  which a write keeps the transition time unless the status changes.
\<close>

section \<open>Model\<close>

text \<open>The fields of \<^verbatim>\<open>metav1.Condition\<close>; times are nanoseconds.\<close>

record Condition =
  Cond_Type :: string
  Cond_Status :: string
  Cond_ObservedGeneration :: int64
  Cond_LastTransitionTime :: int
  Cond_Reason :: string
  Cond_Message :: string

abbreviation ConditionTrue :: string where "ConditionTrue \<equiv> ''True''"
abbreviation ConditionFalse :: string where "ConditionFalse \<equiv> ''False''"

fun SetCondition ::
  "int \<Rightarrow> Condition list \<Rightarrow> string \<Rightarrow> string \<Rightarrow> string \<Rightarrow> string \<Rightarrow> Condition list" where
  "SetCondition now [] condType status reason message =
     [\<lparr>Cond_Type = condType, Cond_Status = status, Cond_ObservedGeneration = 0,
       Cond_LastTransitionTime = now, Cond_Reason = reason, Cond_Message = message\<rparr>]"
| "SetCondition now (c # cs) condType status reason message =
     (if Cond_Type c \<noteq> condType
      then c # SetCondition now cs condType status reason message
      else if Cond_Status c = status
      then c\<lparr>Cond_Reason := reason, Cond_Message := message\<rparr> # cs
      else c\<lparr>Cond_Status := status, Cond_Reason := reason, Cond_Message := message,
              Cond_LastTransitionTime := now\<rparr> # cs)"

fun FindCondition :: "Condition list \<Rightarrow> string \<Rightarrow> Condition option" where
  "FindCondition [] condType = None"
| "FindCondition (c # cs) condType =
     (if Cond_Type c = condType then Some c else FindCondition cs condType)"

definition IsConditionTrue :: "Condition list \<Rightarrow> string \<Rightarrow> bool" where
  "IsConditionTrue cs condType =
     (case FindCondition cs condType of None \<Rightarrow> False | Some c \<Rightarrow> Cond_Status c = ConditionTrue)"

definition IsConditionFalse :: "Condition list \<Rightarrow> string \<Rightarrow> bool" where
  "IsConditionFalse cs condType =
     (case FindCondition cs condType of None \<Rightarrow> False | Some c \<Rightarrow> Cond_Status c = ConditionFalse)"

definition RemoveCondition :: "Condition list \<Rightarrow> string \<Rightarrow> Condition list" where
  "RemoveCondition cs condType = filter (\<lambda>c. Cond_Type c \<noteq> condType) cs"

text \<open>The well-formed slices: at most one condition of each type.\<close>

definition conditions_wf :: "Condition list \<Rightarrow> bool" where
  "conditions_wf cs \<longleftrightarrow> distinct (map Cond_Type cs)"

text \<open>What a write does to the condition it finds: the abstract view of \<open>SetCondition\<close>.\<close>

definition write_condition ::
  "int \<Rightarrow> Condition option \<Rightarrow> string \<Rightarrow> string \<Rightarrow> string \<Rightarrow> string \<Rightarrow> Condition" where
  "write_condition now old condType status reason message =
     \<lparr>Cond_Type = condType, Cond_Status = status,
      Cond_ObservedGeneration = (case old of None \<Rightarrow> 0 | Some c \<Rightarrow> Cond_ObservedGeneration c),
      Cond_LastTransitionTime =
        (case old of None \<Rightarrow> now
         | Some c \<Rightarrow> if Cond_Status c = status then Cond_LastTransitionTime c else now),
      Cond_Reason = reason, Cond_Message = message\<rparr>"

text \<open>
  A run of writes: the controllers report status by calling \<open>SetCondition\<close> again and again, here
  a list of (clock, type, status, reason, message).
\<close>

type_synonym cond_write = "int \<times> string \<times> string \<times> string \<times> string"

fun run_writes :: "Condition list \<Rightarrow> cond_write list \<Rightarrow> Condition list" where
  "run_writes cs [] = cs"
| "run_writes cs ((now, t, st, r, m) # ws) = run_writes (SetCondition now cs t st r m) ws"

fun run_find :: "(string \<rightharpoonup> Condition) \<Rightarrow> cond_write list \<Rightarrow> (string \<rightharpoonup> Condition)" where
  "run_find f [] = f"
| "run_find f ((now, t, st, r, m) # ws) = run_find (f(t \<mapsto> write_condition now (f t) t st r m)) ws"

section \<open>The interface other components rely on\<close>

text \<open>
  What the controllers assume of a condition store: a read after a write of the same type gives
  what was written, writes and removals of one type do not touch another type.
\<close>

locale condition_store =
  fixes cset :: "int \<Rightarrow> 's \<Rightarrow> string \<Rightarrow> string \<Rightarrow> string \<Rightarrow> string \<Rightarrow> 's"
    and cfind :: "'s \<Rightarrow> string \<Rightarrow> Condition option"
    and cremove :: "'s \<Rightarrow> string \<Rightarrow> 's"
  assumes find_set: "cfind (cset now s t st r m) = (cfind s)(t \<mapsto> write_condition now (cfind s t) t st r m)"
    and find_remove: "cfind (cremove s t) = (cfind s)(t := None)"
begin

lemma find_set_same: "cfind (cset now s t st r m) t = Some (write_condition now (cfind s t) t st r m)"
  by (simp add: find_set)

lemma find_set_other: "t' \<noteq> t \<Longrightarrow> cfind (cset now s t st r m) t' = cfind s t'"
  by (simp add: find_set)

lemma set_status: "map_option Cond_Status (cfind (cset now s t st r m) t) = Some st"
  by (simp add: find_set write_condition_def)

text \<open>A repeated write of the same status never moves the transition time.\<close>

lemma set_twice_time:
  "map_option Cond_LastTransitionTime (cfind (cset now' (cset now s t st r m) t st r' m') t) =
   map_option Cond_LastTransitionTime (cfind (cset now s t st r m) t)"
  by (simp add: find_set write_condition_def)

lemma sets_commute:
  "t \<noteq> t' \<Longrightarrow> cfind (cset n (cset n' s t' st' r' m') t st r m) =
    cfind (cset n' (cset n s t st r m) t' st' r' m')"
  by (simp add: find_set fun_upd_twist)

lemma remove_set: "cfind (cremove (cset now s t st r m) t) = cfind (cremove s t)"
  by (simp add: find_set find_remove)

end

section \<open>Lemmas\<close>

lemma FindCondition_SetCondition_same [simp]:
  "FindCondition (SetCondition now cs t st r m) t =
     Some (write_condition now (FindCondition cs t) t st r m)"
  by (induction cs) (auto simp: write_condition_def)

lemma FindCondition_SetCondition_other [simp]:
  "t' \<noteq> t \<Longrightarrow> FindCondition (SetCondition now cs t st r m) t' = FindCondition cs t'"
  by (induction cs) auto

lemma FindCondition_RemoveCondition [simp]:
  "FindCondition (RemoveCondition cs t) t' = (if t' = t then None else FindCondition cs t')"
  by (induction cs) (auto simp: RemoveCondition_def)

interpretation cond: condition_store SetCondition FindCondition RemoveCondition
  by unfold_locales (auto simp: fun_eq_iff)

lemma FindCondition_type: "FindCondition cs t = Some c \<Longrightarrow> Cond_Type c = t"
  by (induction cs) (auto split: if_splits)

lemma FindCondition_in: "FindCondition cs t = Some c \<Longrightarrow> c \<in> set cs"
  by (induction cs) (auto split: if_splits)

lemma FindCondition_None: "FindCondition cs t = None \<longleftrightarrow> t \<notin> Cond_Type ` set cs"
  by (induction cs) auto

lemma types_SetCondition:
  "map Cond_Type (SetCondition now cs t st r m) =
     (if t \<in> Cond_Type ` set cs then map Cond_Type cs else map Cond_Type cs @ [t])"
  by (induction cs) auto

lemma conditions_wf_SetCondition [simp, intro]:
  "conditions_wf cs \<Longrightarrow> conditions_wf (SetCondition now cs t st r m)"
  by (auto simp: conditions_wf_def types_SetCondition)

lemma conditions_wf_RemoveCondition [simp, intro]:
  "conditions_wf cs \<Longrightarrow> conditions_wf (RemoveCondition cs t)"
  by (auto simp: conditions_wf_def RemoveCondition_def distinct_map_filter)

lemma conditions_wf_find:
  "conditions_wf cs \<Longrightarrow> c \<in> set cs \<Longrightarrow> FindCondition cs (Cond_Type c) = Some c"
  by (induction cs) (auto simp: conditions_wf_def)

lemma IsConditionTrue_SetCondition [simp]:
  "IsConditionTrue (SetCondition now cs t st r m) t' =
     (if t' = t then st = ConditionTrue else IsConditionTrue cs t')"
  by (simp add: IsConditionTrue_def write_condition_def)

lemma IsConditionFalse_SetCondition [simp]:
  "IsConditionFalse (SetCondition now cs t st r m) t' =
     (if t' = t then st = ConditionFalse else IsConditionFalse cs t')"
  by (simp add: IsConditionFalse_def write_condition_def)

lemma run_writes_wf: "conditions_wf cs \<Longrightarrow> conditions_wf (run_writes cs ws)"
  by (induction cs ws rule: run_writes.induct) auto

lemma run_writes_find: "FindCondition (run_writes cs ws) = run_find (FindCondition cs) ws"
  by (induction cs ws rule: run_writes.induct) (simp_all add: cond.find_set fun_upd_def)

lemma run_find_time:
  "f t = Some c \<Longrightarrow> \<forall>(now, t', st, r, m) \<in> set ws. t' = t \<longrightarrow> st = Cond_Status c \<Longrightarrow>
     map_option Cond_LastTransitionTime (run_find f ws t) = Some (Cond_LastTransitionTime c)"
proof (induction f ws arbitrary: c rule: run_find.induct)
  case (2 f now t' st r m ws)
  show ?case
  proof (cases "t' = t")
    case True
    with 2 have "Cond_Status c = st" by simp
    with 2 True have "map_option Cond_LastTransitionTime (run_find f ((now, t', st, r, m) # ws) t) =
      Some (Cond_LastTransitionTime (write_condition now (Some c) t st r m))"
      by (auto simp: write_condition_def fun_upd_def)
    with \<open>Cond_Status c = st\<close> show ?thesis by (simp add: write_condition_def)
  qed (use 2 in \<open>auto simp: fun_upd_def\<close>)
qed simp

section \<open>Properties\<close>

text \<open>
  Any run of \<open>SetCondition\<close> calls refines the same run of writes on a map from condition
  types to conditions, and a slice built by \<open>SetCondition\<close> alone never holds two conditions of
  one type.
\<close>

theorem SetCondition_refines_map:
  "FindCondition (run_writes cs ws) = run_find (FindCondition cs) ws \<and>
   conditions_wf (run_writes [] ws)"
  using run_writes_wf [of "[]" ws] by (simp add: run_writes_find conditions_wf_def)

text \<open>
  Reporting the status a condition already has never moves its transition time, however many
  writes of any types happen in between: \<open>LastTransitionTime\<close> changes only with the status.
\<close>

theorem SetCondition_keeps_transition_time:
  assumes "FindCondition cs t = Some c"
    and "\<forall>(now, t', st, r, m) \<in> set ws. t' = t \<longrightarrow> st = Cond_Status c"
  shows "map_option Cond_LastTransitionTime (FindCondition (run_writes cs ws) t) =
    Some (Cond_LastTransitionTime c)"
  using assms by (simp add: run_writes_find run_find_time)

end
