(* ===== verification/ApiTypes.thy ===== *)
theory ApiTypes
  imports Conditions
begin

text \<open>
  The data model of the operator: the CloudberryCluster resource of \<^verbatim>\<open>api/v1alpha1/types.go\<close>,
  one record per struct and one field per struct field, in the order of the source. A pointer is
  an \<^typ>\<open>'a option\<close>, a slice a list, a map a partial function, a string-typed enum a string with
  the source's constants as abbreviations (the API server stores whatever text it is given, so
  values outside the enum exist). The zero value of a struct that the code allocates
  with \<^verbatim>\<open>&T{}\<close> is a definition of its own.
\<close>

section \<open>Enumerations\<close>

type_synonym ClusterPhase = string

abbreviation ClusterPhasePending :: ClusterPhase where "ClusterPhasePending \<equiv> ''Pending''"
abbreviation ClusterPhaseInitializing :: ClusterPhase where "ClusterPhaseInitializing \<equiv> ''Initializing''"
abbreviation ClusterPhaseRunning :: ClusterPhase where "ClusterPhaseRunning \<equiv> ''Running''"
abbreviation ClusterPhaseUpdating :: ClusterPhase where "ClusterPhaseUpdating \<equiv> ''Updating''"
abbreviation ClusterPhaseScaling :: ClusterPhase where "ClusterPhaseScaling \<equiv> ''Scaling''"
abbreviation ClusterPhaseFailed :: ClusterPhase where "ClusterPhaseFailed \<equiv> ''Failed''"
abbreviation ClusterPhaseDeleting :: ClusterPhase where "ClusterPhaseDeleting \<equiv> ''Deleting''"
abbreviation ClusterPhaseStopped :: ClusterPhase where "ClusterPhaseStopped \<equiv> ''Stopped''"
abbreviation ClusterPhaseStopping :: ClusterPhase where "ClusterPhaseStopping \<equiv> ''Stopping''"
abbreviation ClusterPhaseRestricted :: ClusterPhase where "ClusterPhaseRestricted \<equiv> ''Restricted''"
abbreviation ClusterPhaseMaintenance :: ClusterPhase where "ClusterPhaseMaintenance \<equiv> ''Maintenance''"

type_synonym MirroringStatus = string

abbreviation MirroringNotConfigured :: MirroringStatus where "MirroringNotConfigured \<equiv> ''NotConfigured''"
abbreviation MirroringInSync :: MirroringStatus where "MirroringInSync \<equiv> ''InSync''"
abbreviation MirroringSyncing :: MirroringStatus where "MirroringSyncing \<equiv> ''Syncing''"
abbreviation MirroringDegraded :: MirroringStatus where "MirroringDegraded \<equiv> ''Degraded''"
abbreviation MirroringDown :: MirroringStatus where "MirroringDown \<equiv> ''Down''"
abbreviation MirroringInitializing :: MirroringStatus where "MirroringInitializing \<equiv> ''Initializing''"

type_synonym MirroringLayout = string

abbreviation MirroringLayoutGroup :: MirroringLayout where "MirroringLayoutGroup \<equiv> ''group''"
abbreviation MirroringLayoutSpread :: MirroringLayout where "MirroringLayoutSpread \<equiv> ''spread''"

type_synonym DeletionPolicy = string

abbreviation DeletionPolicyRetain :: DeletionPolicy where "DeletionPolicyRetain \<equiv> ''Retain''"
abbreviation DeletionPolicyDelete :: DeletionPolicy where "DeletionPolicyDelete \<equiv> ''Delete''"

type_synonym AntiAffinityType = string

abbreviation AntiAffinityPreferred :: AntiAffinityType where "AntiAffinityPreferred \<equiv> ''preferred''"
abbreviation AntiAffinityRequired :: AntiAffinityType where "AntiAffinityRequired \<equiv> ''required''"

type_synonym ClusterAntiAffinityMode = string

abbreviation ClusterAntiAffinityModeSegmentMirror :: ClusterAntiAffinityMode where
  "ClusterAntiAffinityModeSegmentMirror \<equiv> ''segment-mirror''"
abbreviation ClusterAntiAffinityModeFull :: ClusterAntiAffinityMode where
  "ClusterAntiAffinityModeFull \<equiv> ''full''"

abbreviation ImagePullIfNotPresent :: string where "ImagePullIfNotPresent \<equiv> ''IfNotPresent''"
abbreviation RoleClaimSourceIDToken :: string where "RoleClaimSourceIDToken \<equiv> ''id_token''"
abbreviation RoleMatchExact :: string where "RoleMatchExact \<equiv> ''exact''"

text \<open>The condition types the cluster controller writes.\<close>

abbreviation ConditionClusterReady :: string where "ConditionClusterReady \<equiv> ''ClusterReady''"
abbreviation ConditionDataRedistribution :: string where "ConditionDataRedistribution \<equiv> ''DataRedistribution''"
abbreviation ConditionScaleOutFailed :: string where "ConditionScaleOutFailed \<equiv> ''ScaleOutFailed''"
abbreviation ConditionUpgradeCompleted :: string where "ConditionUpgradeCompleted \<equiv> ''UpgradeCompleted''"
abbreviation ConditionUpgradeFailed :: string where "ConditionUpgradeFailed \<equiv> ''UpgradeFailed''"

type_synonym string_map = "string \<rightharpoonup> string"
text \<open>A \<^verbatim>\<open>float64\<close> field that is only stored: mantissa and exponent.\<close>
type_synonym float64 = "int \<times> int"

section \<open>Shared building blocks\<close>

record ImagePullSecret = IPS_Name :: string

record ResourceList =
  RL_CPU :: string
  RL_Memory :: string

record ResourceRequirements =
  RR_Requests :: "ResourceList option"
  RR_Limits :: "ResourceList option"

record StorageSpec =
  Storage_StorageClass :: string
  Storage_Size :: string

record Toleration =
  Tol_Key :: string
  Tol_Operator :: string
  Tol_Value :: string
  Tol_Effect :: string
  Tol_TolerationSeconds :: "int64 option"

record SecretKeyRef =
  SKR_Name :: string
  SKR_Key :: string

record SecretReference =
  SR_Name :: string
  SR_Key :: string

section \<open>Coordinator, segments, affinity\<close>

record ClusterAffinitySpec =
  Aff_Mode :: ClusterAntiAffinityMode
  Aff_SegmentMirrorAntiAffinity :: "bool option"
  Aff_CoordinatorBackupAntiAffinity :: "bool option"
  Aff_CoordinatorStandbyAntiAffinity :: "bool option"
  Aff_Type :: AntiAffinityType
  Aff_TopologyKey :: string

record CoordinatorSpec =
  Coord_Replicas :: "int32 option"
  Coord_Resources :: "ResourceRequirements option"
  Coord_Storage :: StorageSpec
  Coord_NodeSelector :: string_map
  Coord_Tolerations :: "Toleration list"
  Coord_Port :: int32

record StandbySpec =
  Standby_Enabled :: bool
  Standby_Resources :: "ResourceRequirements option"
  Standby_Storage :: "StorageSpec option"
  Standby_NodeSelector :: string_map
  Standby_Tolerations :: "Toleration list"

record RebalanceSpec =
  Reb_SkewThreshold :: int32
  Reb_Parallelism :: int32
  Reb_ExcludeTables :: "string list"

record MirroringSpec =
  Mir_Enabled :: bool
  Mir_Layout :: MirroringLayout

record SegmentsSpec =
  Seg_Count :: int32
  Seg_PrimariesPerHost :: int32
  Seg_Mirroring :: "MirroringSpec option"
  Seg_Rebalance :: "RebalanceSpec option"
  Seg_Resources :: "ResourceRequirements option"
  Seg_Storage :: StorageSpec
  Seg_NodeSelector :: string_map
  Seg_Tolerations :: "Toleration list"
  Seg_AntiAffinity :: AntiAffinityType

section \<open>Authentication, configuration, availability, monitoring\<close>

record BasicAuthSpec =
  Basic_Enabled :: bool
  Basic_AdminUser :: string
  Basic_AdminPasswordSecret :: "SecretKeyRef option"

record OIDCSecretRef = OSR_SecretRef :: "SecretKeyRef option"

record OIDCSpec =
  OIDC_Enabled :: bool
  OIDC_IssuerURL :: string
  OIDC_ClientID :: string
  OIDC_ClientSecret :: "OIDCSecretRef option"
  OIDC_Scopes :: "string list"
  OIDC_RoleClaimPath :: string
  OIDC_RoleClaimSource :: string
  OIDC_RoleMatchMode :: string
  OIDC_RoleMapping :: string_map
  OIDC_PKCE :: bool
  OIDC_AllowLocalSignIn :: bool

record HBARule =
  HBA_Type :: string
  HBA_Database :: string
  HBA_User :: string
  HBA_Address :: string
  HBA_Method :: string
  HBA_Options :: string

record CertSecretRef = CSR_Name :: string

record SSLSpec =
  SSL_Enabled :: bool
  SSL_CertSecret :: "CertSecretRef option"
  SSL_MinTLSVersion :: string

record AuthSpec =
  Auth_Basic :: "BasicAuthSpec option"
  Auth_OIDC :: "OIDCSpec option"
  Auth_HBARules :: "HBARule list"
  Auth_SSL :: "SSLSpec option"

definition zero_AuthSpec :: AuthSpec where
  "zero_AuthSpec = \<lparr>Auth_Basic = None, Auth_OIDC = None, Auth_HBARules = [], Auth_SSL = None\<rparr>"

record ConfigSpec =
  Config_Parameters :: string_map
  Config_CoordinatorParameters :: string_map
  Config_DatabaseParameters :: "string \<rightharpoonup> string_map"
  Config_RoleParameters :: "string \<rightharpoonup> string_map"

record HASpec =
  HA_FTSProbeInterval :: int32
  HA_FTSProbeTimeout :: int32
  HA_FTSProbeRetries :: int32
  HA_Checksums :: bool

definition zero_HASpec :: HASpec where
  "zero_HASpec = \<lparr>HA_FTSProbeInterval = 0, HA_FTSProbeTimeout = 0, HA_FTSProbeRetries = 0,
     HA_Checksums = False\<rparr>"

record VaultTLSSecret = VTS_Name :: string

record VaultSpec =
  Vault_Enabled :: bool
  Vault_Address :: string
  Vault_AuthMethod :: string
  Vault_AuthPath :: string
  Vault_Role :: string
  Vault_SecretPath :: string
  Vault_TLSSecret :: "VaultTLSSecret option"

record MonitoringSpec =
  Mon_Enabled :: bool
  Mon_MetricsPort :: int32
  Mon_ServiceMonitor :: bool

record TelemetrySpec =
  Tel_Enabled :: bool
  Tel_OTLPEndpoint :: string
  Tel_OTLPProtocol :: string
  Tel_SamplingRate :: float64

section \<open>Workload management and query monitoring\<close>

record TablespaceIOLimitSpec =
  IOL_Tablespace :: string
  IOL_ReadBytesPerSec :: int64
  IOL_WriteBytesPerSec :: int64
  IOL_ReadIOPS :: int32
  IOL_WriteIOPS :: int32

record ResourceGroupSpec =
  RG_Name :: string
  RG_Concurrency :: int32
  RG_CPUMaxPercent :: int32
  RG_CPUWeight :: int32
  RG_MemoryLimit :: int32
  RG_MinCost :: int32
  RG_IOLimits :: "TablespaceIOLimitSpec list"

record WorkloadRule =
  WR_Name :: string
  WR_Enabled :: bool
  WR_ResourceGroup :: string
  WR_QueryTag :: string
  WR_Role :: string
  WR_Action :: string
  WR_MoveTarget :: string
  WR_Threshold :: string
  WR_ThresholdType :: string
  WR_Priority :: int32

record IdleSessionRule =
  ISR_Name :: string
  ISR_Enabled :: bool
  ISR_ResourceGroup :: string
  ISR_IdleTimeout :: string
  ISR_ExcludeInTransaction :: bool
  ISR_TerminateMessage :: string

record WorkloadSpec =
  WL_Enabled :: bool
  WL_ResourceGroups :: "ResourceGroupSpec list"
  WL_Rules :: "WorkloadRule list"
  WL_IdleRules :: "IdleSessionRule list"

record ExporterSpec =
  Exp_Enabled :: bool
  Exp_Image :: string
  Exp_Port :: int32
  Exp_Resources :: "ResourceRequirements option"
  Exp_Segments :: bool
  Exp_Mirrors :: bool

record QueryServiceMonitorSpec =
  QSM_Enabled :: bool
  QSM_Namespace :: string
  QSM_Interval :: string
  QSM_ScrapeTimeout :: string
  QSM_Labels :: string_map

record QueryPrometheusRuleSpec =
  QPR_Enabled :: bool
  QPR_Namespace :: string
  QPR_Labels :: string_map

record QueryMonitoringExportersSpec =
  Exps_PostgresExporter :: "ExporterSpec option"
  Exps_NodeExporter :: "ExporterSpec option"
  Exps_CloudberryQueryExporter :: "ExporterSpec option"
  Exps_ServiceMonitor :: "QueryServiceMonitorSpec option"
  Exps_PrometheusRule :: "QueryPrometheusRuleSpec option"

record QueryMonitoringSpec =
  QM_Enabled :: bool
  QM_HistoryRetention :: string
  QM_SamplingInterval :: int32
  QM_GuestAccess :: bool
  QM_PlanCollection :: bool
  QM_SlowQueryThreshold :: string
  QM_Exporters :: "QueryMonitoringExportersSpec option"

section \<open>Backup\<close>

record BackupValidation =
  BV_Enabled :: "bool option"
  BV_HealthCheckQuery :: string
  BV_RunAnalyze :: bool

record BackupRetention =
  Ret_FullCount :: int32
  Ret_IncrementalCount :: int32
  Ret_MaxAge :: string

record S3VaultSecret =
  SVS_Path :: string
  SVS_AccessKeyField :: string
  SVS_SecretKeyField :: string

record S3CredentialSecret =
  SCS_Name :: string
  SCS_AccessKeyField :: string
  SCS_SecretKeyField :: string

record S3Multipart =
  SMP_BackupMaxConcurrentRequests :: int32
  SMP_BackupMultipartChunksize :: string
  SMP_RestoreMaxConcurrentRequests :: int32
  SMP_RestoreMultipartChunksize :: string

record S3Destination =
  S3_Bucket :: string
  S3_Endpoint :: string
  S3_Region :: string
  S3_Folder :: string
  S3_Encryption :: string
  S3_ForcePathStyle :: bool
  S3_CredentialSecret :: "S3CredentialSecret option"
  S3_VaultSecret :: "S3VaultSecret option"
  S3_Multipart :: "S3Multipart option"

record LocalDestination =
  Local_Path :: string
  Local_PersistentVolumeClaim :: string

record BackupDestination =
  Dest_Type :: string
  Dest_S3 :: "S3Destination option"
  Dest_Local :: "LocalDestination option"

record GpbackupOptions =
  Gpb_CompressionLevel :: int32
  Gpb_CompressionType :: string
  Gpb_SingleDataFile :: bool
  Gpb_CopyQueueSize :: int32
  Gpb_Jobs :: int32
  Gpb_Incremental :: bool
  Gpb_LeafPartitionData :: bool
  Gpb_WithStats :: "bool option"
  Gpb_WithoutGlobals :: bool
  Gpb_NoCompression :: bool

definition zero_GpbackupOptions :: GpbackupOptions where
  "zero_GpbackupOptions = \<lparr>Gpb_CompressionLevel = 0, Gpb_CompressionType = [],
     Gpb_SingleDataFile = False, Gpb_CopyQueueSize = 0, Gpb_Jobs = 0, Gpb_Incremental = False,
     Gpb_LeafPartitionData = False, Gpb_WithStats = None, Gpb_WithoutGlobals = False,
     Gpb_NoCompression = False\<rparr>"

record GprestoreOptions =
  Gpr_Jobs :: int32
  Gpr_CreateDb :: bool
  Gpr_WithGlobals :: bool
  Gpr_WithStats :: "bool option"
  Gpr_RunAnalyze :: bool
  Gpr_OnErrorContinue :: bool
  Gpr_TruncateTable :: bool
  Gpr_DataOnly :: bool
  Gpr_MetadataOnly :: bool
  Gpr_ResizeCluster :: bool

definition zero_GprestoreOptions :: GprestoreOptions where
  "zero_GprestoreOptions = \<lparr>Gpr_Jobs = 0, Gpr_CreateDb = False, Gpr_WithGlobals = False,
     Gpr_WithStats = None, Gpr_RunAnalyze = False, Gpr_OnErrorContinue = False,
     Gpr_TruncateTable = False, Gpr_DataOnly = False, Gpr_MetadataOnly = False,
     Gpr_ResizeCluster = False\<rparr>"

record BackupJobTemplate =
  BJT_Resources :: "ResourceRequirements option"
  BJT_NodeSelector :: string_map
  BJT_Tolerations :: "Toleration list"
  BJT_ServiceAccountName :: string
  BJT_BackoffLimit :: "int32 option"
  BJT_ActiveDeadlineSeconds :: "int64 option"
  BJT_TTLSecondsAfterFinished :: "int32 option"
  BJT_ImagePullSecrets :: "ImagePullSecret list"

definition zero_BackupJobTemplate :: BackupJobTemplate where
  "zero_BackupJobTemplate = \<lparr>BJT_Resources = None, BJT_NodeSelector = Map.empty,
     BJT_Tolerations = [], BJT_ServiceAccountName = [], BJT_BackoffLimit = None,
     BJT_ActiveDeadlineSeconds = None, BJT_TTLSecondsAfterFinished = None,
     BJT_ImagePullSecrets = []\<rparr>"

record BackupSpec =
  Backup_Enabled :: bool
  Backup_Schedule :: string
  Backup_Retention :: BackupRetention
  Backup_Destination :: BackupDestination
  Backup_Gpbackup :: "GpbackupOptions option"
  Backup_Gprestore :: "GprestoreOptions option"
  Backup_JobTemplate :: "BackupJobTemplate option"
  Backup_Image :: string
  Backup_Validation :: "BackupValidation option"

record BackupHistoryEntry =
  BHE_Timestamp :: string
  BHE_Type :: string
  BHE_Status :: string
  BHE_Size :: string
  BHE_Duration :: string

section \<open>Data loading\<close>

record DataLoadHealthChecksSpec =
  HC_Enabled :: "bool option"
  HC_DiskMinFreeMB :: int32
  HC_ScratchSizeLimit :: string

record PxfExtensionsSpec =
  PxfExt_Pxf :: "bool option"
  PxfExt_PxfFdw :: "bool option"

definition zero_PxfExtensionsSpec :: PxfExtensionsSpec where
  "zero_PxfExtensionsSpec = \<lparr>PxfExt_Pxf = None, PxfExt_PxfFdw = None\<rparr>"

record PxfKerberosSpec =
  Krb_Principal :: string
  Krb_KeytabSecret :: SecretReference
  Krb_Krb5ConfigMap :: string
  Krb_Realm :: string

record PxfServerSpec =
  Srv_Name :: string
  Srv_Type :: string
  Srv_Config :: string_map
  Srv_Hive :: string_map
  Srv_Hbase :: string_map
  Srv_Jdbc :: string_map
  Srv_CredentialSecrets :: "SecretReference list"
  Srv_Kerberos :: "PxfKerberosSpec option"

record PxfCustomConnector =
  Conn_Name :: string
  Conn_JarURL :: string

record PxfSpec =
  Pxf_Enabled :: bool
  Pxf_Image :: string
  Pxf_Port :: int32
  Pxf_JvmOpts :: string
  Pxf_LogLevel :: string
  Pxf_Extensions :: "PxfExtensionsSpec option"
  Pxf_Servers :: "PxfServerSpec list"
  Pxf_CustomConnectors :: "PxfCustomConnector list"
  Pxf_Resources :: "ResourceRequirements option"
  Pxf_DataLoaderRole :: string

record GpfdistSpec =
  Gpf_Enabled :: bool
  Gpf_Replicas :: "int32 option"
  Gpf_Image :: string
  Gpf_Port :: int32

record PartitioningSpec =
  Part_Column :: string
  Part_Range :: string
  Part_Interval :: string

record ErrorHandlingSpec =
  EH_SegmentRejectLimit :: int32
  EH_SegmentRejectLimitType :: string
  EH_LogErrors :: "bool option"

record PxfJobSpec =
  PJ_Server :: string
  PJ_Profile :: string
  PJ_Resource :: string
  PJ_TargetTable :: string
  PJ_Mode :: string
  PJ_LoadMethod :: string
  PJ_SourceFilter :: string
  PJ_FilterPushdown :: "bool option"
  PJ_ColumnProjection :: "bool option"
  PJ_Partitioning :: "PartitioningSpec option"
  PJ_ErrorHandling :: "ErrorHandlingSpec option"
  PJ_Continuous :: "bool option"
  PJ_BatchSize :: int32
  PJ_FlushInterval :: string

record GploadInputSourceSpec =
  GIS_Type :: string
  GIS_Host :: string
  GIS_Port :: int32

record GploadPreloadSpec = GPL_Truncate :: "bool option"

record GploadJobSpec =
  GJ_TargetTable :: string
  GJ_Mode :: string
  GJ_Format :: string
  GJ_InputSource :: "GploadInputSourceSpec option"
  GJ_FilePaths :: "string list"
  GJ_Delimiter :: string
  GJ_Header :: "bool option"
  GJ_Encoding :: string
  GJ_MatchColumns :: "string list"
  GJ_UpdateColumns :: "string list"
  GJ_Preload :: "GploadPreloadSpec option"
  GJ_PostActions :: "string list"
  GJ_ErrorHandling :: "ErrorHandlingSpec option"

record DataLoadingJob =
  Job_Name :: string
  Job_Type :: string
  Job_Enabled :: bool
  Job_Schedule :: string
  Job_PxfJob :: "PxfJobSpec option"
  Job_GploadJob :: "GploadJobSpec option"

record DataLoadingJobTemplate =
  DJT_Resources :: "ResourceRequirements option"
  DJT_NodeSelector :: string_map
  DJT_Tolerations :: "Toleration list"
  DJT_ServiceAccountName :: string
  DJT_BackoffLimit :: "int32 option"
  DJT_ActiveDeadlineSeconds :: "int64 option"
  DJT_TTLSecondsAfterFinished :: "int32 option"

definition zero_DataLoadingJobTemplate :: DataLoadingJobTemplate where
  "zero_DataLoadingJobTemplate = \<lparr>DJT_Resources = None, DJT_NodeSelector = Map.empty,
     DJT_Tolerations = [], DJT_ServiceAccountName = [], DJT_BackoffLimit = None,
     DJT_ActiveDeadlineSeconds = None, DJT_TTLSecondsAfterFinished = None\<rparr>"

record DataLoadingSpec =
  DL_Enabled :: bool
  DL_Pxf :: "PxfSpec option"
  DL_Gpfdist :: "GpfdistSpec option"
  DL_Jobs :: "DataLoadingJob list"
  DL_JobTemplate :: "DataLoadingJobTemplate option"
  DL_HealthChecks :: "DataLoadHealthChecksSpec option"

section \<open>Storage management\<close>

record RecommendationScanSpec =
  Scan_Enabled :: bool
  Scan_Schedule :: string
  Scan_BloatThreshold :: int32
  Scan_SkewThreshold :: int32
  Scan_AgeThreshold :: int64
  Scan_IndexBloatThreshold :: int32
  Scan_ScanDuration :: string

record UsageReportSpec =
  UR_Enabled :: bool
  UR_Monthly :: bool

record StorageManagementSpec =
  SM_DiskMonitoring :: bool
  SM_RecommendationScan :: "RecommendationScanSpec option"
  SM_UsageReport :: "UsageReportSpec option"

section \<open>The resource\<close>

record CloudberryClusterSpec =
  Spec_Version :: string
  Spec_Image :: string
  Spec_ImagePullPolicy :: string
  Spec_ImagePullSecrets :: "ImagePullSecret list"
  Spec_Coordinator :: CoordinatorSpec
  Spec_Standby :: "StandbySpec option"
  Spec_Segments :: SegmentsSpec
  Spec_Affinity :: "ClusterAffinitySpec option"
  Spec_Auth :: "AuthSpec option"
  Spec_Config :: "ConfigSpec option"
  Spec_HA :: "HASpec option"
  Spec_Vault :: "VaultSpec option"
  Spec_Monitoring :: "MonitoringSpec option"
  Spec_Telemetry :: "TelemetrySpec option"
  Spec_Workload :: "WorkloadSpec option"
  Spec_QueryMonitoring :: "QueryMonitoringSpec option"
  Spec_Backup :: "BackupSpec option"
  Spec_DataLoading :: "DataLoadingSpec option"
  Spec_Storage :: "StorageManagementSpec option"
  Spec_DeletionPolicy :: DeletionPolicy
  Spec_BackupOnDelete :: bool

record FailedSegment =
  FS_ContentID :: int32
  FS_Hostname :: string
  FS_Role :: string
  FS_Status :: string

record DataLoadingPxfStatus =
  DPS_Configured :: bool
  DPS_Servers :: int32
  DPS_Status :: string
  DPS_ExtensionsInstalled :: "string list"

record DataLoadingJobStatus =
  DJS_Name :: string
  DJS_Enabled :: bool
  DJS_LastRun :: "int option"
  DJS_LastStatus :: string
  DJS_RowsLoaded :: "int64 option"
  DJS_Duration :: string

record DataLoadingStatus =
  DLS_Phase :: string
  DLS_ConfiguredJobs :: int32
  DLS_ActiveJobs :: int32
  DLS_Jobs :: "DataLoadingJobStatus list"
  DLS_Pxf :: "DataLoadingPxfStatus option"

record CloudberryClusterStatus =
  St_Phase :: ClusterPhase
  St_CoordinatorReady :: bool
  St_StandbyReady :: bool
  St_SegmentsReady :: int32
  St_SegmentsTotal :: int32
  St_MirroringStatus :: MirroringStatus
  St_ClusterVersion :: string
  St_LastReconcileTime :: "int option"
  St_LastConfigChangeTime :: "int option"
  St_ActiveQueries :: int32
  St_QueuedQueries :: int32
  St_BlockedQueries :: int32
  St_LastBackupTime :: "int option"
  St_LastBackupStatus :: string
  St_LastBackupTimestamp :: string
  St_LastBackupType :: string
  St_LastBackupJobName :: string
  St_CronJobName :: string
  St_BackupHistory :: "BackupHistoryEntry list"
  St_DataLoadingJobs :: int32
  St_DataLoading :: "DataLoadingStatus option"
  St_DiskUsagePercent :: int32
  St_RecommendationCount :: int32
  St_RecommendationScanTruncated :: bool
  St_LastRecommendationScanTime :: "int option"
  St_ObservedGeneration :: int64
  St_Conditions :: "Condition list"
  St_FailedSegments :: "FailedSegment list"

text \<open>
  The metadata of the resource that the operator reads: name, namespace, generation,
  annotations, finalizers, and whether a deletion timestamp is set.
\<close>

record CloudberryCluster =
  CC_Name :: string
  CC_Namespace :: string
  CC_Generation :: int64
  CC_Annotations :: string_map
  CC_Finalizers :: "string list"
  CC_DeletionTimestamp :: "int option"
  CC_Spec :: CloudberryClusterSpec
  CC_Status :: CloudberryClusterStatus

end
