(* ===== verification/Defaulting.thy ===== *)
theory Defaulting
  imports ApiTypes
begin

text \<open>
  The mutating admission webhook, \<^verbatim>\<open>internal/webhook/mutating.go\<close>: one definition per
  \<^verbatim>\<open>set...Defaults\<close> function, on the same part of the resource as the source, and their
  composition \<open>setClusterDefaults\<close> in the source's order. The Go code mutates the object in
  place; the definitions return the updated record. The admission metric and the tracing span
  are not modelled.
\<close>

section \<open>Model\<close>

subsection \<open>Default values\<close>

abbreviation DefaultVersion :: string where "DefaultVersion \<equiv> ''2.1.0''"
abbreviation DefaultImage :: string where "DefaultImage \<equiv> ''cloudberrydb/cloudberry:2.1.0''"
abbreviation DefaultBackupImage :: string where "DefaultBackupImage \<equiv> ''cloudberry-backup:2.1.0''"
abbreviation DefaultAdminUser :: string where "DefaultAdminUser \<equiv> ''gpadmin''"
abbreviation DefaultPostgresExporterImage :: string where
  "DefaultPostgresExporterImage \<equiv> ''prometheuscommunity/postgres-exporter:v0.16.0''"
abbreviation DefaultCloudberryQueryExporterImage :: string where
  "DefaultCloudberryQueryExporterImage \<equiv> ''cloudberry-query-exporter:1.0.0''"
abbreviation DefaultNodeExporterImage :: string where
  "DefaultNodeExporterImage \<equiv> ''prom/node-exporter:v1.8.2''"

text \<open>\<^verbatim>\<open>if x == "" { x = d }\<close>, \<^verbatim>\<open>if x == 0 { x = d }\<close>, \<^verbatim>\<open>if x == nil { x = &d }\<close>.\<close>

definition or_string :: "string \<Rightarrow> string \<Rightarrow> string" where
  "or_string d x = (if x = [] then d else x)"

definition or_int :: "int \<Rightarrow> int \<Rightarrow> int" where
  "or_int d x = (if x = 0 then d else x)"

definition or_some :: "'a \<Rightarrow> 'a option \<Rightarrow> 'a option" where
  "or_some d x = (case x of None \<Rightarrow> Some d | Some v \<Rightarrow> Some v)"

subsection \<open>Core\<close>

definition setSpecDefaults :: "CloudberryClusterSpec \<Rightarrow> CloudberryClusterSpec" where
  "setSpecDefaults spec = spec\<lparr>
     Spec_Version := or_string DefaultVersion (Spec_Version spec),
     Spec_Image := or_string DefaultImage (Spec_Image spec),
     Spec_ImagePullPolicy := or_string ImagePullIfNotPresent (Spec_ImagePullPolicy spec)\<rparr>"

definition setCoordinatorDefaults :: "CoordinatorSpec \<Rightarrow> CoordinatorSpec" where
  "setCoordinatorDefaults coord = coord\<lparr>
     Coord_Replicas := or_some 1 (Coord_Replicas coord),
     Coord_Port := or_int 5432 (Coord_Port coord),
     Coord_Storage := (Coord_Storage coord)\<lparr>
       Storage_Size := or_string ''10Gi'' (Storage_Size (Coord_Storage coord))\<rparr>\<rparr>"

definition setSegmentDefaults :: "SegmentsSpec \<Rightarrow> SegmentsSpec" where
  "setSegmentDefaults seg = seg\<lparr>
     Seg_PrimariesPerHost := or_int 2 (Seg_PrimariesPerHost seg),
     Seg_Storage := (Seg_Storage seg)\<lparr>
       Storage_Size := or_string ''20Gi'' (Storage_Size (Seg_Storage seg))\<rparr>,
     Seg_AntiAffinity := or_string AntiAffinityPreferred (Seg_AntiAffinity seg),
     Seg_Mirroring :=
       map_option (\<lambda>m. m\<lparr>Mir_Layout := or_string MirroringLayoutGroup (Mir_Layout m)\<rparr>)
         (or_some \<lparr>Mir_Enabled = True, Mir_Layout = MirroringLayoutGroup\<rparr> (Seg_Mirroring seg))\<rparr>"

definition setOIDCDefaults :: "OIDCSpec \<Rightarrow> OIDCSpec" where
  "setOIDCDefaults oidc =
     (if \<not> OIDC_Enabled oidc then oidc
      else oidc\<lparr>
        OIDC_Scopes := (if OIDC_Scopes oidc = [] then [''openid'', ''profile'', ''email'']
                        else OIDC_Scopes oidc),
        OIDC_RoleClaimPath := or_string ''realm_access.roles'' (OIDC_RoleClaimPath oidc),
        OIDC_RoleClaimSource := or_string RoleClaimSourceIDToken (OIDC_RoleClaimSource oidc),
        OIDC_RoleMatchMode := or_string RoleMatchExact (OIDC_RoleMatchMode oidc)\<rparr>)"

definition setBasicAuthDefaults :: "BasicAuthSpec option \<Rightarrow> BasicAuthSpec" where
  "setBasicAuthDefaults basic =
     (let b = (case basic of None \<Rightarrow> \<lparr>Basic_Enabled = True, Basic_AdminUser = DefaultAdminUser,
                                      Basic_AdminPasswordSecret = None\<rparr>
               | Some b \<Rightarrow> b)
      in b\<lparr>Basic_AdminUser := or_string DefaultAdminUser (Basic_AdminUser b)\<rparr>)"

definition setAuthDefaults :: "AuthSpec option \<Rightarrow> AuthSpec" where
  "setAuthDefaults auth =
     (let a = (case auth of None \<Rightarrow> zero_AuthSpec | Some a \<Rightarrow> a)
      in a\<lparr>Auth_Basic := Some (setBasicAuthDefaults (Auth_Basic a)),
           Auth_OIDC := map_option setOIDCDefaults (Auth_OIDC a)\<rparr>)"

definition setHADefaults :: "HASpec option \<Rightarrow> HASpec" where
  "setHADefaults ha =
     (let h = (case ha of None \<Rightarrow> zero_HASpec | Some h \<Rightarrow> h)
      in h\<lparr>HA_FTSProbeInterval := or_int 60 (HA_FTSProbeInterval h),
           HA_FTSProbeTimeout := or_int 20 (HA_FTSProbeTimeout h),
           HA_FTSProbeRetries := or_int 5 (HA_FTSProbeRetries h)\<rparr>)"

definition setMonitoringDefaults :: "MonitoringSpec option \<Rightarrow> MonitoringSpec" where
  "setMonitoringDefaults mon =
     (let m = (case mon of None \<Rightarrow> \<lparr>Mon_Enabled = True, Mon_MetricsPort = 9187,
                                    Mon_ServiceMonitor = False\<rparr>
               | Some m \<Rightarrow> m)
      in m\<lparr>Mon_MetricsPort := or_int 9187 (Mon_MetricsPort m)\<rparr>)"

definition setResourceGroupDefaults :: "ResourceGroupSpec \<Rightarrow> ResourceGroupSpec" where
  "setResourceGroupDefaults rg = rg\<lparr>
     RG_Concurrency := or_int 20 (RG_Concurrency rg),
     RG_CPUMaxPercent := or_int 100 (RG_CPUMaxPercent rg),
     RG_CPUWeight := or_int 100 (RG_CPUWeight rg)\<rparr>"

definition setWorkloadDefaults :: "WorkloadSpec option \<Rightarrow> WorkloadSpec option" where
  "setWorkloadDefaults = map_option (\<lambda>w. w\<lparr>WL_ResourceGroups :=
     map setResourceGroupDefaults (WL_ResourceGroups w)\<rparr>)"

subsection \<open>Query monitoring\<close>

definition defaultExporterImage :: "string \<Rightarrow> ExporterSpec option \<Rightarrow> ExporterSpec option" where
  "defaultExporterImage defaultImage exporter =
     (case exporter of None \<Rightarrow> None
      | Some e \<Rightarrow> if \<not> Exp_Enabled e \<or> Exp_Image e \<noteq> [] then Some e
                  else Some (e\<lparr>Exp_Image := defaultImage\<rparr>))"

definition setExporterImageDefaults ::
  "QueryMonitoringExportersSpec \<Rightarrow> QueryMonitoringExportersSpec" where
  "setExporterImageDefaults exps = exps\<lparr>
     Exps_PostgresExporter :=
       defaultExporterImage DefaultPostgresExporterImage (Exps_PostgresExporter exps),
     Exps_NodeExporter := defaultExporterImage DefaultNodeExporterImage (Exps_NodeExporter exps),
     Exps_CloudberryQueryExporter :=
       defaultExporterImage DefaultCloudberryQueryExporterImage (Exps_CloudberryQueryExporter exps)\<rparr>"

definition setQueryMonitoringDefaults :: "QueryMonitoringSpec option \<Rightarrow> QueryMonitoringSpec option" where
  "setQueryMonitoringDefaults = map_option (\<lambda>q. q\<lparr>
     QM_HistoryRetention := or_string ''30d'' (QM_HistoryRetention q),
     QM_SamplingInterval := or_int 15 (QM_SamplingInterval q),
     QM_SlowQueryThreshold := or_string ''1000ms'' (QM_SlowQueryThreshold q),
     QM_Exporters := map_option setExporterImageDefaults (QM_Exporters q)\<rparr>)"

subsection \<open>Backup\<close>

definition setGpbackupDefaults :: "GpbackupOptions option \<Rightarrow> GpbackupOptions" where
  "setGpbackupDefaults gpb =
     (let gp = (case gpb of None \<Rightarrow> zero_GpbackupOptions | Some g \<Rightarrow> g)
      in gp\<lparr>Gpb_CompressionLevel := or_int 1 (Gpb_CompressionLevel gp),
            Gpb_CompressionType := or_string ''gzip'' (Gpb_CompressionType gp),
            Gpb_Jobs := or_int 1 (Gpb_Jobs gp),
            Gpb_WithStats := or_some True (Gpb_WithStats gp)\<rparr>)"

definition setGprestoreDefaults :: "GprestoreOptions option \<Rightarrow> GprestoreOptions" where
  "setGprestoreDefaults gpr =
     (let gr = (case gpr of None \<Rightarrow> zero_GprestoreOptions | Some g \<Rightarrow> g)
      in gr\<lparr>Gpr_Jobs := or_int 1 (Gpr_Jobs gr),
            Gpr_WithStats := or_some False (Gpr_WithStats gr)\<rparr>)"

definition setBackupRetentionDefaults :: "BackupRetention \<Rightarrow> BackupRetention" where
  "setBackupRetentionDefaults ret = ret\<lparr>
     Ret_FullCount := or_int 3 (Ret_FullCount ret),
     Ret_MaxAge := or_string ''30d'' (Ret_MaxAge ret)\<rparr>"

definition setBackupJobTemplateDefaults :: "BackupJobTemplate option \<Rightarrow> BackupJobTemplate" where
  "setBackupJobTemplateDefaults tmpl =
     (let jt = (case tmpl of None \<Rightarrow> zero_BackupJobTemplate | Some t \<Rightarrow> t)
      in jt\<lparr>BJT_BackoffLimit := or_some 2 (BJT_BackoffLimit jt),
            BJT_ActiveDeadlineSeconds := or_some 7200 (BJT_ActiveDeadlineSeconds jt),
            BJT_TTLSecondsAfterFinished := or_some 86400 (BJT_TTLSecondsAfterFinished jt)\<rparr>)"

definition setBackupDefaults :: "BackupSpec option \<Rightarrow> BackupSpec option" where
  "setBackupDefaults backup =
     (case backup of None \<Rightarrow> None
      | Some b \<Rightarrow>
          if \<not> Backup_Enabled b then Some b
          else Some (b\<lparr>
            Backup_Image := or_string DefaultBackupImage (Backup_Image b),
            Backup_Gpbackup := Some (setGpbackupDefaults (Backup_Gpbackup b)),
            Backup_Gprestore := Some (setGprestoreDefaults (Backup_Gprestore b)),
            Backup_Retention := setBackupRetentionDefaults (Backup_Retention b),
            Backup_JobTemplate := Some (setBackupJobTemplateDefaults (Backup_JobTemplate b))\<rparr>))"

subsection \<open>Data loading\<close>

definition setPxfDefaults :: "PxfSpec \<Rightarrow> PxfSpec" where
  "setPxfDefaults pxf = pxf\<lparr>
     Pxf_Port := or_int 5888 (Pxf_Port pxf),
     Pxf_JvmOpts := or_string ''-Xmx1g -Xms256m'' (Pxf_JvmOpts pxf),
     Pxf_LogLevel := or_string ''INFO'' (Pxf_LogLevel pxf),
     Pxf_Extensions :=
       map_option (\<lambda>e. e\<lparr>PxfExt_Pxf := or_some True (PxfExt_Pxf e),
                        PxfExt_PxfFdw := or_some True (PxfExt_PxfFdw e)\<rparr>)
         (or_some zero_PxfExtensionsSpec (Pxf_Extensions pxf))\<rparr>"

definition setGpfdistDefaults :: "GpfdistSpec \<Rightarrow> GpfdistSpec" where
  "setGpfdistDefaults g = g\<lparr>
     Gpf_Replicas := or_some 1 (Gpf_Replicas g),
     Gpf_Port := or_int 8080 (Gpf_Port g)\<rparr>"

definition setPxfJobDefaults :: "PxfJobSpec \<Rightarrow> PxfJobSpec" where
  "setPxfJobDefaults j = j\<lparr>
     PJ_Mode := or_string ''insert'' (PJ_Mode j),
     PJ_FilterPushdown := or_some True (PJ_FilterPushdown j),
     PJ_ColumnProjection := or_some True (PJ_ColumnProjection j)\<rparr>"

definition setGploadJobDefaults :: "GploadJobSpec \<Rightarrow> GploadJobSpec" where
  "setGploadJobDefaults j = j\<lparr>GJ_Mode := or_string ''insert'' (GJ_Mode j)\<rparr>"

definition setDataLoadingJobDefaults :: "DataLoadingJob list \<Rightarrow> DataLoadingJob list" where
  "setDataLoadingJobDefaults = map (\<lambda>j. j\<lparr>
     Job_PxfJob := map_option setPxfJobDefaults (Job_PxfJob j),
     Job_GploadJob := map_option setGploadJobDefaults (Job_GploadJob j)\<rparr>)"

definition setDataLoadingJobTemplateDefaults ::
  "DataLoadingJobTemplate option \<Rightarrow> DataLoadingJobTemplate" where
  "setDataLoadingJobTemplateDefaults tmpl =
     (let jt = (case tmpl of None \<Rightarrow> zero_DataLoadingJobTemplate | Some t \<Rightarrow> t)
      in jt\<lparr>DJT_BackoffLimit := or_some 3 (DJT_BackoffLimit jt),
            DJT_ActiveDeadlineSeconds := or_some 14400 (DJT_ActiveDeadlineSeconds jt),
            DJT_TTLSecondsAfterFinished := or_some 86400 (DJT_TTLSecondsAfterFinished jt)\<rparr>)"

definition setDataLoadingDefaults :: "DataLoadingSpec option \<Rightarrow> DataLoadingSpec option" where
  "setDataLoadingDefaults dataLoading =
     (case dataLoading of None \<Rightarrow> None
      | Some dl \<Rightarrow>
          if \<not> DL_Enabled dl then Some dl
          else Some (dl\<lparr>
            DL_Pxf := map_option setPxfDefaults (DL_Pxf dl),
            DL_Gpfdist := map_option setGpfdistDefaults (DL_Gpfdist dl),
            DL_Jobs := setDataLoadingJobDefaults (DL_Jobs dl),
            DL_JobTemplate := Some (setDataLoadingJobTemplateDefaults (DL_JobTemplate dl))\<rparr>))"

subsection \<open>Storage management and affinity\<close>

definition setRecommendationScanDefaults :: "RecommendationScanSpec \<Rightarrow> RecommendationScanSpec" where
  "setRecommendationScanDefaults scan =
     (if \<not> Scan_Enabled scan then scan
      else scan\<lparr>
        Scan_Schedule := or_string ''0 3 * * 0'' (Scan_Schedule scan),
        Scan_BloatThreshold := or_int 20 (Scan_BloatThreshold scan),
        Scan_SkewThreshold := or_int 50 (Scan_SkewThreshold scan),
        Scan_AgeThreshold := or_int 500000000 (Scan_AgeThreshold scan),
        Scan_IndexBloatThreshold := or_int 30 (Scan_IndexBloatThreshold scan),
        Scan_ScanDuration := or_string ''2h'' (Scan_ScanDuration scan)\<rparr>)"

definition setStorageManagementDefaults ::
  "StorageManagementSpec option \<Rightarrow> StorageManagementSpec option" where
  "setStorageManagementDefaults = map_option (\<lambda>s. s\<lparr>
     SM_RecommendationScan := map_option setRecommendationScanDefaults (SM_RecommendationScan s)\<rparr>)"

definition setAffinityDefaults :: "ClusterAffinitySpec option \<Rightarrow> ClusterAffinitySpec option" where
  "setAffinityDefaults = map_option (\<lambda>aff. aff\<lparr>
     Aff_Type := or_string AntiAffinityPreferred (Aff_Type aff),
     Aff_TopologyKey := or_string ''kubernetes.io/hostname'' (Aff_TopologyKey aff)\<rparr>)"

subsection \<open>The whole defaulter\<close>

definition setClusterSpecDefaults :: "CloudberryClusterSpec \<Rightarrow> CloudberryClusterSpec" where
  "setClusterSpecDefaults spec0 =
     (let s = setSpecDefaults spec0;
          s = s\<lparr>Spec_Coordinator := setCoordinatorDefaults (Spec_Coordinator s)\<rparr>;
          s = s\<lparr>Spec_Segments := setSegmentDefaults (Spec_Segments s)\<rparr>;
          s = s\<lparr>Spec_Auth := Some (setAuthDefaults (Spec_Auth s))\<rparr>;
          s = s\<lparr>Spec_HA := Some (setHADefaults (Spec_HA s))\<rparr>;
          s = s\<lparr>Spec_Monitoring := Some (setMonitoringDefaults (Spec_Monitoring s))\<rparr>;
          s = s\<lparr>Spec_Workload := setWorkloadDefaults (Spec_Workload s)\<rparr>;
          s = s\<lparr>Spec_QueryMonitoring := setQueryMonitoringDefaults (Spec_QueryMonitoring s)\<rparr>;
          s = s\<lparr>Spec_Backup := setBackupDefaults (Spec_Backup s)\<rparr>;
          s = s\<lparr>Spec_DataLoading := setDataLoadingDefaults (Spec_DataLoading s)\<rparr>;
          s = s\<lparr>Spec_Storage := setStorageManagementDefaults (Spec_Storage s)\<rparr>;
          s = s\<lparr>Spec_Affinity := setAffinityDefaults (Spec_Affinity s)\<rparr>
      in s\<lparr>Spec_DeletionPolicy := or_string DeletionPolicyRetain (Spec_DeletionPolicy s)\<rparr>)"

definition setClusterDefaults :: "CloudberryCluster \<Rightarrow> CloudberryCluster" where
  "setClusterDefaults cluster = cluster\<lparr>CC_Spec := setClusterSpecDefaults (CC_Spec cluster)\<rparr>"

section \<open>The contract of a defaulting step\<close>

text \<open>
  A defaulting step fills what the user left at its zero value and touches nothing else. The
  contract of one step: applied twice it does what it does once, and it keeps a value the user
  set. \<open>is_zero\<close> says which values count as unset.
\<close>

locale filler =
  fixes fill :: "'a \<Rightarrow> 'a" and is_zero :: "'a \<Rightarrow> bool"
  assumes fill_keeps: "\<not> is_zero x \<Longrightarrow> fill x = x"
    and fill_sets: "\<not> is_zero (fill x)"
begin

lemma fill_idem [simp]: "fill (fill x) = fill x"
  by (simp add: fill_keeps fill_sets)

lemma fill_fixpoint: "fill x = x \<longleftrightarrow> \<not> is_zero x"
  by (metis fill_keeps fill_sets)

lemma fill_only_zero: "fill x \<noteq> x \<Longrightarrow> is_zero x"
  by (metis fill_keeps)

end

text \<open>The three primitive steps meet the contract whenever the default itself is not zero.\<close>

locale nonzero_string =
  fixes dflt :: string
  assumes nonzero: "dflt \<noteq> []"

sublocale nonzero_string \<subseteq> str: filler "or_string dflt" "\<lambda>x. x = []"
  by unfold_locales (auto simp: or_string_def nonzero)

interpretation size10: nonzero_string "''10Gi''"
  by unfold_locales simp

interpretation some_fill: filler "or_some d" "\<lambda>x. x = None"
  by unfold_locales (auto simp: or_some_def split: option.splits)

interpretation int_port: filler "or_int 5432" "\<lambda>x. x = 0"
  by unfold_locales (auto simp: or_int_def)

section \<open>Lemmas\<close>

lemma or_string_idem [simp]: "or_string d (or_string d x) = or_string d x"
  by (simp add: or_string_def)

lemma or_int_idem [simp]: "or_int d (or_int d x) = or_int d x"
  by (simp add: or_int_def)

lemma or_some_idem [simp]: "or_some d (or_some d x) = or_some d x"
  by (rule some_fill.fill_idem)

lemma or_some_simps [simp]: "or_some d None = Some d" "or_some d (Some v) = Some v"
  by (simp_all add: or_some_def)

lemma or_string_nonempty [simp]: "d \<noteq> [] \<Longrightarrow> or_string d x \<noteq> []"
  by (simp add: or_string_def)

lemma or_string_keep [simp]: "x \<noteq> [] \<Longrightarrow> or_string d x = x" "or_string d [] = d"
  by (simp_all add: or_string_def)

lemma or_int_keep [simp]: "x \<noteq> 0 \<Longrightarrow> or_int d x = x" "or_int d 0 = d"
  by (simp_all add: or_int_def)

text \<open>Each step is idempotent.\<close>

named_theorems default_idem \<open>idempotence of the defaulting steps\<close>

lemma setCoordinatorDefaults_idem [default_idem]:
  "setCoordinatorDefaults (setCoordinatorDefaults c) = setCoordinatorDefaults c"
  by (simp add: setCoordinatorDefaults_def)

lemma setSegmentDefaults_idem [default_idem]:
  "setSegmentDefaults (setSegmentDefaults s) = setSegmentDefaults s"
  by (cases "Seg_Mirroring s") (simp_all add: setSegmentDefaults_def)

lemma setOIDCDefaults_idem [default_idem]: "setOIDCDefaults (setOIDCDefaults x) = setOIDCDefaults x"
  by (simp add: setOIDCDefaults_def)

lemma setAuthDefaults_idem [default_idem]:
  "setAuthDefaults (Some (setAuthDefaults a)) = setAuthDefaults a"
  by (simp add: setAuthDefaults_def setBasicAuthDefaults_def Let_def option.map_comp comp_def
      default_idem split: option.split)

lemma setHADefaults_idem [default_idem]: "setHADefaults (Some (setHADefaults a)) = setHADefaults a"
  by (simp add: setHADefaults_def Let_def)

lemma setMonitoringDefaults_idem [default_idem]:
  "setMonitoringDefaults (Some (setMonitoringDefaults a)) = setMonitoringDefaults a"
  by (simp add: setMonitoringDefaults_def Let_def)

lemma setResourceGroupDefaults_idem [default_idem]:
  "setResourceGroupDefaults (setResourceGroupDefaults a) = setResourceGroupDefaults a"
  by (simp add: setResourceGroupDefaults_def)

lemma setWorkloadDefaults_idem [default_idem]:
  "setWorkloadDefaults (setWorkloadDefaults a) = setWorkloadDefaults a"
  by (simp add: setWorkloadDefaults_def option.map_comp comp_def default_idem)

lemma defaultExporterImage_idem [default_idem]:
  "defaultExporterImage d (defaultExporterImage d e) = defaultExporterImage d e"
  by (auto simp: defaultExporterImage_def split: option.splits)

lemma setExporterImageDefaults_idem [default_idem]:
  "setExporterImageDefaults (setExporterImageDefaults e) = setExporterImageDefaults e"
  by (simp add: setExporterImageDefaults_def default_idem)

lemma setQueryMonitoringDefaults_idem [default_idem]:
  "setQueryMonitoringDefaults (setQueryMonitoringDefaults a) = setQueryMonitoringDefaults a"
  by (simp add: setQueryMonitoringDefaults_def option.map_comp comp_def default_idem)

lemma setGpbackupDefaults_idem [default_idem]:
  "setGpbackupDefaults (Some (setGpbackupDefaults a)) = setGpbackupDefaults a"
  by (simp add: setGpbackupDefaults_def Let_def)

lemma setGprestoreDefaults_idem [default_idem]:
  "setGprestoreDefaults (Some (setGprestoreDefaults a)) = setGprestoreDefaults a"
  by (simp add: setGprestoreDefaults_def Let_def)

lemma setBackupRetentionDefaults_idem [default_idem]:
  "setBackupRetentionDefaults (setBackupRetentionDefaults a) = setBackupRetentionDefaults a"
  by (simp add: setBackupRetentionDefaults_def)

lemma setBackupJobTemplateDefaults_idem [default_idem]:
  "setBackupJobTemplateDefaults (Some (setBackupJobTemplateDefaults a)) = setBackupJobTemplateDefaults a"
  by (simp add: setBackupJobTemplateDefaults_def Let_def)

lemma setBackupDefaults_idem [default_idem]:
  "setBackupDefaults (setBackupDefaults a) = setBackupDefaults a"
  by (cases a) (simp_all add: setBackupDefaults_def default_idem)

lemma setPxfDefaults_idem [default_idem]: "setPxfDefaults (setPxfDefaults a) = setPxfDefaults a"
  by (cases "Pxf_Extensions a") (simp_all add: setPxfDefaults_def)

lemma setGpfdistDefaults_idem [default_idem]:
  "setGpfdistDefaults (setGpfdistDefaults a) = setGpfdistDefaults a"
  by (simp add: setGpfdistDefaults_def)

lemma setPxfJobDefaults_idem [default_idem]:
  "setPxfJobDefaults (setPxfJobDefaults a) = setPxfJobDefaults a"
  by (simp add: setPxfJobDefaults_def)

lemma setGploadJobDefaults_idem [default_idem]:
  "setGploadJobDefaults (setGploadJobDefaults a) = setGploadJobDefaults a"
  by (simp add: setGploadJobDefaults_def)

lemma setDataLoadingJobDefaults_idem [default_idem]:
  "setDataLoadingJobDefaults (setDataLoadingJobDefaults a) = setDataLoadingJobDefaults a"
  by (simp add: setDataLoadingJobDefaults_def option.map_comp comp_def default_idem)

lemma setDataLoadingJobTemplateDefaults_idem [default_idem]:
  "setDataLoadingJobTemplateDefaults (Some (setDataLoadingJobTemplateDefaults a)) =
     setDataLoadingJobTemplateDefaults a"
  by (simp add: setDataLoadingJobTemplateDefaults_def Let_def)

lemma setDataLoadingDefaults_idem [default_idem]:
  "setDataLoadingDefaults (setDataLoadingDefaults a) = setDataLoadingDefaults a"
  by (cases a)
    (simp_all add: setDataLoadingDefaults_def option.map_comp comp_def default_idem)

lemma setRecommendationScanDefaults_idem [default_idem]:
  "setRecommendationScanDefaults (setRecommendationScanDefaults a) = setRecommendationScanDefaults a"
  by (simp add: setRecommendationScanDefaults_def)

lemma setStorageManagementDefaults_idem [default_idem]:
  "setStorageManagementDefaults (setStorageManagementDefaults a) = setStorageManagementDefaults a"
  by (simp add: setStorageManagementDefaults_def option.map_comp comp_def default_idem)

lemma setAffinityDefaults_idem [default_idem]:
  "setAffinityDefaults (setAffinityDefaults a) = setAffinityDefaults a"
  by (simp add: setAffinityDefaults_def option.map_comp comp_def)

text \<open>What each field of the defaulted spec is, so that later proofs need not unfold the chain.\<close>

lemma setClusterSpecDefaults_fields [simp]:
  "Spec_Version (setClusterSpecDefaults s) = or_string DefaultVersion (Spec_Version s)"
  "Spec_Image (setClusterSpecDefaults s) = or_string DefaultImage (Spec_Image s)"
  "Spec_Coordinator (setClusterSpecDefaults s) = setCoordinatorDefaults (Spec_Coordinator s)"
  "Spec_Standby (setClusterSpecDefaults s) = Spec_Standby s"
  "Spec_Segments (setClusterSpecDefaults s) = setSegmentDefaults (Spec_Segments s)"
  "Spec_Affinity (setClusterSpecDefaults s) = setAffinityDefaults (Spec_Affinity s)"
  "Spec_Auth (setClusterSpecDefaults s) = Some (setAuthDefaults (Spec_Auth s))"
  "Spec_Vault (setClusterSpecDefaults s) = Spec_Vault s"
  "Spec_Workload (setClusterSpecDefaults s) = setWorkloadDefaults (Spec_Workload s)"
  "Spec_QueryMonitoring (setClusterSpecDefaults s) = setQueryMonitoringDefaults (Spec_QueryMonitoring s)"
  "Spec_Backup (setClusterSpecDefaults s) = setBackupDefaults (Spec_Backup s)"
  "Spec_DataLoading (setClusterSpecDefaults s) = setDataLoadingDefaults (Spec_DataLoading s)"
  "Spec_Storage (setClusterSpecDefaults s) = setStorageManagementDefaults (Spec_Storage s)"
  "Spec_DeletionPolicy (setClusterSpecDefaults s) = or_string DeletionPolicyRetain (Spec_DeletionPolicy s)"
  by (simp_all add: setClusterSpecDefaults_def setSpecDefaults_def Let_def)

text \<open>The chain over the parts of a spec.\<close>

lemma setClusterSpecDefaults_rest [simp]:
  "Spec_ImagePullPolicy (setClusterSpecDefaults s) =
     or_string ImagePullIfNotPresent (Spec_ImagePullPolicy s)"
  "Spec_HA (setClusterSpecDefaults s) = Some (setHADefaults (Spec_HA s))"
  "Spec_Monitoring (setClusterSpecDefaults s) = Some (setMonitoringDefaults (Spec_Monitoring s))"
  by (simp_all add: setClusterSpecDefaults_def setSpecDefaults_def Let_def)

lemma setClusterSpecDefaults_idem [default_idem]:
  "setClusterSpecDefaults (setClusterSpecDefaults s) = setClusterSpecDefaults s"
  by (simp add: setClusterSpecDefaults_def setSpecDefaults_def Let_def default_idem)

section \<open>Properties\<close>

text \<open>
  Defaulting is idempotent: admitting a resource that has already been defaulted (as the API
  server does on every update, and as the reinvocation policy may do within one request)
  changes nothing.
\<close>

theorem setClusterDefaults_idempotent:
  "setClusterDefaults (setClusterDefaults cluster) = setClusterDefaults cluster"
  by (simp add: setClusterDefaults_def default_idem)

end
