(* ===== verification/Samples.thy ===== *)
theory Samples
  imports ApiTypes
begin

text \<open>
  Concrete resources on which the theorems about admission and reconciliation are applied: a
  minimal cluster, and a data-loading section with an object-store server, a server backed by a
  custom connector, and one job on each.
\<close>

definition base_spec :: CloudberryClusterSpec where
  "base_spec = \<lparr>Spec_Version = ''2.1.0'', Spec_Image = ''img'', Spec_ImagePullPolicy = [],
     Spec_ImagePullSecrets = [],
     Spec_Coordinator = \<lparr>Coord_Replicas = None, Coord_Resources = None,
       Coord_Storage = \<lparr>Storage_StorageClass = [], Storage_Size = ''10Gi''\<rparr>,
       Coord_NodeSelector = Map.empty, Coord_Tolerations = [], Coord_Port = 5432\<rparr>,
     Spec_Standby = None,
     Spec_Segments = \<lparr>Seg_Count = 4, Seg_PrimariesPerHost = 2, Seg_Mirroring = None, Seg_Rebalance = None,
       Seg_Resources = None, Seg_Storage = \<lparr>Storage_StorageClass = [], Storage_Size = ''20Gi''\<rparr>,
       Seg_NodeSelector = Map.empty, Seg_Tolerations = [], Seg_AntiAffinity = []\<rparr>,
     Spec_Affinity = None, Spec_Auth = None, Spec_Config = None, Spec_HA = None, Spec_Vault = None,
     Spec_Monitoring = None, Spec_Telemetry = None, Spec_Workload = None, Spec_QueryMonitoring = None,
     Spec_Backup = None, Spec_DataLoading = None, Spec_Storage = None, Spec_DeletionPolicy = [],
     Spec_BackupOnDelete = False\<rparr>"

definition base_status :: CloudberryClusterStatus where
  "base_status = \<lparr>St_Phase = ClusterPhaseRunning, St_CoordinatorReady = True, St_StandbyReady = False,
     St_SegmentsReady = 4, St_SegmentsTotal = 4, St_MirroringStatus = MirroringNotConfigured,
     St_ClusterVersion = ''2.1.0'', St_LastReconcileTime = None, St_LastConfigChangeTime = None,
     St_ActiveQueries = 0, St_QueuedQueries = 0, St_BlockedQueries = 0, St_LastBackupTime = None,
     St_LastBackupStatus = [], St_LastBackupTimestamp = [], St_LastBackupType = [],
     St_LastBackupJobName = [], St_CronJobName = [], St_BackupHistory = [], St_DataLoadingJobs = 0,
     St_DataLoading = None, St_DiskUsagePercent = 0, St_RecommendationCount = 0,
     St_RecommendationScanTruncated = False, St_LastRecommendationScanTime = None,
     St_ObservedGeneration = 1, St_Conditions = [], St_FailedSegments = []\<rparr>"

definition base_cluster :: CloudberryCluster where
  "base_cluster = \<lparr>CC_Name = ''c'', CC_Namespace = ''ns'', CC_Generation = 1, CC_Annotations = Map.empty,
     CC_Finalizers = [], CC_DeletionTimestamp = None, CC_Spec = base_spec, CC_Status = base_status\<rparr>"

definition with_mirroring :: "MirroringLayout \<Rightarrow> CloudberryCluster \<Rightarrow> CloudberryCluster" where
  "with_mirroring layout c = c\<lparr>CC_Spec := (CC_Spec c)\<lparr>Spec_Segments := (Spec_Segments (CC_Spec c))\<lparr>
     Seg_Mirroring := Some \<lparr>Mir_Enabled = True, Mir_Layout = layout\<rparr>\<rparr>\<rparr>\<rparr>"

definition s3_server :: PxfServerSpec where
  "s3_server = \<lparr>Srv_Name = ''lake'', Srv_Type = ''s3'', Srv_Config = [''fs.s3a.endpoint'' \<mapsto> ''http://minio''],
     Srv_Hive = Map.empty, Srv_Hbase = Map.empty, Srv_Jdbc = Map.empty,
     Srv_CredentialSecrets = [\<lparr>SR_Name = ''s'', SR_Key = ''k''\<rparr>], Srv_Kerberos = None\<rparr>"

definition kafka_server :: PxfServerSpec where
  "kafka_server = \<lparr>Srv_Name = ''bus'', Srv_Type = ''custom'', Srv_Config = Map.empty,
     Srv_Hive = Map.empty, Srv_Hbase = Map.empty, Srv_Jdbc = Map.empty,
     Srv_CredentialSecrets = [], Srv_Kerberos = None\<rparr>"

definition base_job :: PxfJobSpec where
  "base_job = \<lparr>PJ_Server = ''lake'', PJ_Profile = ''s3:parquet'', PJ_Resource = ''r'', PJ_TargetTable = ''t'',
     PJ_Mode = ''writable'', PJ_LoadMethod = [], PJ_SourceFilter = ''x > 1'', PJ_FilterPushdown = None,
     PJ_ColumnProjection = None, PJ_Partitioning = None, PJ_ErrorHandling = None, PJ_Continuous = None,
     PJ_BatchSize = 0, PJ_FlushInterval = []\<rparr>"

definition export_job :: DataLoadingJob where
  "export_job = \<lparr>Job_Name = ''export'', Job_Type = ''pxf'', Job_Enabled = True, Job_Schedule = [],
     Job_PxfJob = Some base_job, Job_GploadJob = None\<rparr>"

definition stream_job :: DataLoadingJob where
  "stream_job = \<lparr>Job_Name = ''stream'', Job_Type = ''pxf'', Job_Enabled = True, Job_Schedule = [],
     Job_PxfJob = Some (base_job\<lparr>PJ_Server := ''bus'', PJ_Profile := ''Kafka:json'', PJ_Mode := ''insert'',
       PJ_SourceFilter := [], PJ_Continuous := Some True\<rparr>), Job_GploadJob = None\<rparr>"

definition sample_loading :: DataLoadingSpec where
  "sample_loading = \<lparr>DL_Enabled = True,
     DL_Pxf = Some \<lparr>Pxf_Enabled = True, Pxf_Image = ''pxf'', Pxf_Port = 0, Pxf_JvmOpts = [], Pxf_LogLevel = [],
       Pxf_Extensions = None, Pxf_Servers = [s3_server, kafka_server],
       Pxf_CustomConnectors = [\<lparr>Conn_Name = ''bus'', Conn_JarURL = ''u''\<rparr>], Pxf_Resources = None,
       Pxf_DataLoaderRole = []\<rparr>,
     DL_Gpfdist = None, DL_Jobs = [export_job, stream_job], DL_JobTemplate = None, DL_HealthChecks = None\<rparr>"

definition loading_cluster :: CloudberryCluster where
  "loading_cluster = base_cluster\<lparr>CC_Spec := base_spec\<lparr>Spec_DataLoading := Some sample_loading\<rparr>\<rparr>"

lemmas sample_defs = base_spec_def base_status_def base_cluster_def with_mirroring_def s3_server_def
  kafka_server_def base_job_def export_job_def stream_job_def sample_loading_def loading_cluster_def

end
