(* ===== verification/GoTime.thy ===== *)
theory GoTime
  imports Prelude
begin

text \<open>
  The part of Go's package \<^verbatim>\<open>time\<close> the operator uses: instants as nanoseconds since the Unix
  epoch, durations as 64-bit nanosecond counts, \<^verbatim>\<open>Truncate\<close>, \<^verbatim>\<open>ParseDuration\<close>, and the clock
  reading (minute, hour, day, month, weekday) of an instant in a location. A location is the
  function that gives the offset from UTC, in seconds, in force at an instant (in Unix seconds);
  the rules of a time zone are data the caller supplies.
\<close>

section \<open>Model\<close>

abbreviation Second :: int where "Second \<equiv> 1000000000"
abbreviation Minute :: int where "Minute \<equiv> 60000000000"
abbreviation Hour :: int where "Hour \<equiv> 3600000000000"

type_synonym Duration = int64
type_synonym Location = "int \<Rightarrow> int"

definition UTC :: Location where "UTC = (\<lambda>_. 0)"

text \<open>\<^verbatim>\<open>t.Truncate(d)\<close> for a \<open>d\<close> that divides a minute, as the epoch is a whole minute.\<close>

definition Truncate :: "int \<Rightarrow> Duration \<Rightarrow> int" where
  "Truncate t d = t - t mod d"

text \<open>
  \<^verbatim>\<open>t.Sub(u)\<close> saturates at the ends of the 64-bit range.
\<close>

definition Sub :: "int \<Rightarrow> int \<Rightarrow> Duration" where
  "Sub t u = (let d = t - u in if d < -9223372036854775808 then -9223372036854775808
     else if d > 9223372036854775807 then 9223372036854775807 else d)"

subsection \<open>The proleptic Gregorian calendar\<close>

definition leap_year :: "int \<Rightarrow> bool" where
  "leap_year y \<longleftrightarrow> 4 dvd y \<and> (\<not> 100 dvd y \<or> 400 dvd y)"

definition year_len :: "int \<Rightarrow> nat" where
  "year_len y = (if leap_year y then 366 else 365)"

definition month_lens :: "int \<Rightarrow> nat list" where
  "month_lens y = [31, if leap_year y then 29 else 28, 31, 30, 31, 30, 31, 31, 30, 31, 30, 31]"

text \<open>The year that holds the \<open>d\<close>-th day counted from the first of January of year \<open>y\<close>.\<close>

function split_year :: "int \<Rightarrow> nat \<Rightarrow> int \<times> nat" where
  "split_year y d = (if d < year_len y then (y, d) else split_year (y + 1) (d - year_len y))"
  by pat_completeness auto
termination
  by (relation "measure snd") (auto simp: year_len_def)

declare split_year.simps [simp del]

text \<open>The month (counted from \<open>m\<close>) and the day of the month of the \<open>d\<close>-th day.\<close>

fun split_month :: "nat list \<Rightarrow> nat \<Rightarrow> nat \<Rightarrow> nat \<times> nat" where
  "split_month [] m d = (m, Suc d)"
| "split_month [l] m d = (m, Suc d)"
| "split_month (l # ls) m d = (if d < l then (m, Suc d) else split_month ls (Suc m) (d - l))"

text \<open>400 years have 146097 days, whatever the first of them is.\<close>

definition date_of_day :: "int \<Rightarrow> int \<times> nat \<times> nat" where
  "date_of_day day =
     (let (y, doy) = split_year 1970 (nat (day mod 146097)); (m, d) = split_month (month_lens y) 1 doy
      in (y + 400 * (day div 146097), m, d))"

text \<open>What \<^verbatim>\<open>t.Minute()\<close>, \<^verbatim>\<open>t.Hour()\<close>, \<^verbatim>\<open>t.Day()\<close>, \<^verbatim>\<open>t.Month()\<close> and \<^verbatim>\<open>t.Weekday()\<close> read.\<close>

record clock =
  Clk_Minute :: int
  Clk_Hour :: int
  Clk_Day :: int
  Clk_Month :: int
  Clk_Weekday :: int

definition clock_of_second :: "int \<Rightarrow> clock" where
  "clock_of_second s =
     (let (y, m, d) = date_of_day (s div 86400)
      in \<lparr>Clk_Minute = s div 60 mod 60, Clk_Hour = s div 3600 mod 24, Clk_Day = int d,
          Clk_Month = int m, Clk_Weekday = (s div 86400 + 4) mod 7\<rparr>)"

definition read_clock :: "Location \<Rightarrow> int \<Rightarrow> clock" where
  "read_clock loc t = (let s = t div Second in clock_of_second (s + loc s))"

subsection \<open>Binary64 arithmetic on non-negative rationals\<close>

text \<open>
  A non-negative binary64 value as a fraction (numerator, denominator). \<open>round_even p q\<close> is
  \<open>p / q\<close> rounded to an integer, ties to even, and \<open>fl p q\<close> is \<open>p / q\<close> rounded to 53 bits: the
  loops of \<open>scale_down\<close> and \<open>scale_up\<close> bring the quotient into \<open>[2^52, 2^53)\<close> and remember the
  power of two. The values \<^verbatim>\<open>ParseDuration\<close> computes with are between \<open>10^-19\<close> and \<open>2^63\<close>, far
  from the subnormals and from overflow.
\<close>

definition round_even :: "nat \<Rightarrow> nat \<Rightarrow> nat" where
  "round_even p q =
     (let n = p div q; r = 2 * (p mod q)
      in if r < q \<or> (r = q \<and> even n) then n else Suc n)"

fun bit_len :: "nat \<Rightarrow> nat" where
  "bit_len n = (if n = 0 then 0 else Suc (bit_len (n div 2)))"

declare bit_len.simps [simp del]

definition fl :: "nat \<Rightarrow> nat \<Rightarrow> nat \<times> nat" where
  "fl p q =
     (if p = 0 then (0, 1)
      else
        (let k = 54 + bit_len q - bit_len p;
             j = bit_len p - (54 + bit_len q);
             \<comment> \<open>\<open>(p * 2^k) / (q * 2^j)\<close> lies in \<open>[2^53, 2^55)\<close>\<close>
             p' = p * 2 ^ k; q' = q * 2 ^ j;
             c = (if p' < q' * 2 ^ 54 then 1 else 2)
         in (round_even p' (q' * 2 ^ c) * 2 ^ j * 2 ^ c, 2 ^ k)))"

subsection \<open>ParseDuration\<close>

text \<open>The units; the micro sign is U+00B5 or U+03BC, both as UTF-8.\<close>

definition unit_value :: "string \<Rightarrow> nat option" where
  "unit_value u =
     (if u = ''ns'' then Some 1
      else if u = ''us'' \<or> u = [CHR 0xC2, CHR 0xB5, CHR ''s''] \<or> u = [CHR 0xCE, CHR 0xBC, CHR ''s'']
      then Some 1000
      else if u = ''ms'' then Some 1000000
      else if u = ''s'' then Some 1000000000
      else if u = ''m'' then Some 60000000000
      else if u = ''h'' then Some 3600000000000
      else None)"

fun leadingInt :: "nat \<Rightarrow> string \<Rightarrow> (nat \<times> string) option" where
  "leadingInt x [] = Some (x, [])"
| "leadingInt x (c # s) =
     (if \<not> is_digit c then Some (x, c # s)
      else if x > 922337203685477580 then None
      else (let y = x * 10 + digit_val c
            in if y > 9223372036854775808 then None else leadingInt y s))"

fun leadingFraction :: "nat \<Rightarrow> nat \<Rightarrow> bool \<Rightarrow> string \<Rightarrow> nat \<times> nat \<times> string" where
  "leadingFraction x scale ovf [] = (x, scale, [])"
| "leadingFraction x scale ovf (c # s) =
     (if \<not> is_digit c then (x, scale, c # s)
      else if ovf \<or> x > 922337203685477580 then leadingFraction x scale True s
      else (let y = x * 10 + digit_val c
            in if y > 9223372036854775808 then leadingFraction x scale True s
               else leadingFraction y (scale * 10) False s))"

text \<open>\<^verbatim>\<open>uint64(float64(f) * (float64(unit) / scale))\<close>, with a rounding after each operation.\<close>

definition fraction_ns :: "nat \<Rightarrow> nat \<Rightarrow> nat \<Rightarrow> nat" where
  "fraction_ns f unit scale =
     (let (a, b) = fl unit scale; (c, d) = fl f 1; (p, q) = fl (a * c) (b * d) in p div q)"

definition not_unit_char :: "char \<Rightarrow> bool" where
  "not_unit_char c \<longleftrightarrow> c = CHR ''.'' \<or> is_digit c"

text \<open>One round of the loop: the value in nanoseconds of \<^verbatim>\<open>[0-9]*(.[0-9]*)?unit\<close> and the rest.\<close>

definition parse_term :: "string \<Rightarrow> (nat \<times> string) option" where
  "parse_term s =
     (if s = [] \<or> \<not> not_unit_char (hd s) then None
      else case leadingInt 0 s of None \<Rightarrow> None
      | Some (v, s1) \<Rightarrow>
          let pre = (length s1 \<noteq> length s);
              dot = (s1 \<noteq> [] \<and> hd s1 = CHR ''.'');
              (f, scale, s2) = (if dot then leadingFraction 0 1 False (tl s1) else (0, 1, s1));
              post = (dot \<and> length s2 \<noteq> length (tl s1));
              u = takeWhile (\<lambda>c. \<not> not_unit_char c) s2;
              s3 = dropWhile (\<lambda>c. \<not> not_unit_char c) s2
          in if \<not> pre \<and> \<not> post then None
             else if u = [] then None
             else case unit_value u of None \<Rightarrow> None
             | Some unit \<Rightarrow>
                 if v > 9223372036854775808 div unit then None
                 else (let w = v * unit + (if f > 0 then fraction_ns f unit scale else 0)
                       in if f > 0 \<and> w > 9223372036854775808 then None else Some (w, s3)))"

text \<open>The loop consumes at least the unit in each round, so the length of the text bounds it. The
  sum \<^verbatim>\<open>d += v\<close> is a 64-bit unsigned one.\<close>

fun parse_terms :: "nat \<Rightarrow> nat \<Rightarrow> string \<Rightarrow> nat option" where
  "parse_terms 0 d s = (if s = [] then Some d else None)"
| "parse_terms (Suc n) d s =
     (if s = [] then Some d
      else case parse_term s of None \<Rightarrow> None
      | Some (v, r) \<Rightarrow>
          (let d' = (d + v) mod 18446744073709551616
           in if d' > 9223372036854775808 then None else parse_terms n d' r))"

definition ParseDuration :: "string \<Rightarrow> Duration option" where
  "ParseDuration s =
     (let neg = (s \<noteq> [] \<and> hd s = CHR ''-'');
          r = (if s \<noteq> [] \<and> (hd s = CHR ''-'' \<or> hd s = CHR ''+'') then tl s else s)
      in if r = ''0'' then Some 0
         else if r = [] then None
         else case parse_terms (length r) 0 r of None \<Rightarrow> None
         | Some d \<Rightarrow>
             if neg then Some (- int d)
             else if d > 9223372036854775807 then None else Some (int d))"

section \<open>Lemmas\<close>

lemma split_year_bound: "split_year y d = (y', r) \<Longrightarrow> r < year_len y'"
  by (induction y d rule: split_year.induct) (metis prod.inject split_year.simps)

lemma split_month_bounds:
  "d < sum_list ls \<Longrightarrow> \<forall>l \<in> set ls. l \<le> 31 \<Longrightarrow> split_month ls m d = (m', d') \<Longrightarrow>
     m \<le> m' \<and> m' < m + length ls \<and> 1 \<le> d' \<and> d' \<le> 31"
  by (induction ls m d rule: split_month.induct) (fastforce split: if_splits)+

lemma month_lens_sum: "sum_list (month_lens y) = year_len y"
  by (simp add: month_lens_def year_len_def)

lemma date_of_day_bounds:
  assumes "date_of_day day = (y, m, d)"
  shows "1 \<le> m" "m \<le> 12" "1 \<le> d" "d \<le> 31"
proof -
  obtain y0 doy where sy: "split_year 1970 (nat (day mod 146097)) = (y0, doy)" by fastforce
  with assms have sm: "split_month (month_lens y0) 1 doy = (m, d)"
    by (simp add: date_of_day_def split: prod.splits)
  have "doy < sum_list (month_lens y0)" using split_year_bound [OF sy] by (simp add: month_lens_sum)
  moreover have "\<forall>l \<in> set (month_lens y0). l \<le> 31" by (simp add: month_lens_def)
  ultimately have "1 \<le> m \<and> m < 1 + length (month_lens y0) \<and> 1 \<le> d \<and> d \<le> 31"
    using sm by (rule split_month_bounds)
  then show "1 \<le> m" "m \<le> 12" "1 \<le> d" "d \<le> 31" by (simp_all add: month_lens_def)
qed

lemma clock_bounds:
  "Clk_Minute (read_clock loc t) \<in> {0..59}" "Clk_Hour (read_clock loc t) \<in> {0..23}"
  "Clk_Day (read_clock loc t) \<in> {1..31}" "Clk_Month (read_clock loc t) \<in> {1..12}"
  "Clk_Weekday (read_clock loc t) \<in> {0..6}"
  using date_of_day_bounds
  by (auto simp: read_clock_def clock_of_second_def Let_def split: prod.splits)

lemma Truncate_bounds:
  assumes "0 < d"
  shows "Truncate t d \<le> t" "t < Truncate t d + d" "d dvd Truncate t d"
  using assms pos_mod_bound [of d t] pos_mod_sign [of d t]
  by (simp_all add: Truncate_def)

lemma Sub_in_range: "in_int64 (Sub t u)"
  by (simp add: Sub_def in_int64_def Let_def)

lemma Sub_exact: "in_int64 (t - u) \<Longrightarrow> Sub t u = t - u"
  by (simp add: Sub_def in_int64_def Let_def)

lemma leadingInt_bound: "leadingInt x s = Some (v, r) \<Longrightarrow> x \<le> 9223372036854775808 \<Longrightarrow> v \<le> 9223372036854775808"
  by (induction x s rule: leadingInt.induct) (auto simp: Let_def split: if_splits)

lemma parse_terms_bound:
  "parse_terms n d s = Some v \<Longrightarrow> d \<le> 9223372036854775808 \<Longrightarrow> v \<le> 9223372036854775808"
  by (induction n d s rule: parse_terms.induct) (auto simp: Let_def split: if_splits option.splits)

lemma ParseDuration_in_range: "ParseDuration s = Some d \<Longrightarrow> in_int64 d"
  using parse_terms_bound [of _ 0]
  by (fastforce simp: ParseDuration_def in_int64_def Let_def split: if_splits option.splits)

end
