(* ===== verification/Cron.thy ===== *)
theory Cron
  imports GoTime
begin

text \<open>
  The cron engine, \<^verbatim>\<open>internal/cron/cron.go\<close>: the parser of five-field expressions and the
  search for the next run. A \<^verbatim>\<open>map[int]bool\<close> that only ever stores true is a set of integers.
  Go's \<^verbatim>\<open>int\<close> has 64 bits, so the step of the range loop wraps around. The loop is bounded by
  a fuel of 64 rounds, and \<open>range_loop_returns\<close> shows that it leaves by its own condition before
  the fuel is spent, so the error \<open>Loop_Diverges\<close> never occurs.
\<close>

section \<open>Model\<close>

subsection \<open>Parsing\<close>

datatype part_error =
    Empty_Field
  | No_Values
  | Bad_Step string
  | Not_An_Integer string
  | Out_Of_Range int int int
  | Bad_Range int int
  | Loop_Diverges

datatype cron_error =
    Field_Count nat
  | Bad_Field string string part_error

record fieldBounds =
  FB_name :: string
  FB_min :: int
  FB_max :: int

abbreviation dayOfWeekFieldName :: string where "dayOfWeekFieldName \<equiv> ''day-of-week''"

definition bounds :: "fieldBounds list" where
  "bounds = [
     \<lparr>FB_name = ''minute'', FB_min = 0, FB_max = 59\<rparr>,
     \<lparr>FB_name = ''hour'', FB_min = 0, FB_max = 23\<rparr>,
     \<lparr>FB_name = ''day-of-month'', FB_min = 1, FB_max = 31\<rparr>,
     \<lparr>FB_name = ''month'', FB_min = 1, FB_max = 12\<rparr>,
     \<lparr>FB_name = ''day-of-week'', FB_min = 0, FB_max = 7\<rparr>]"

record Schedule =
  Sch_minutes :: "int set"
  Sch_hours :: "int set"
  Sch_days :: "int set"
  Sch_months :: "int set"
  Sch_weekdays :: "int set"
  Sch_domIsStar :: bool
  Sch_dowIsStar :: bool

definition parseBounded :: "string \<Rightarrow> fieldBounds \<Rightarrow> part_error + int" where
  "parseBounded s b =
     (case Atoi s of None \<Rightarrow> Inl (Not_An_Integer s)
      | Some v \<Rightarrow>
          if v < FB_min b \<or> v > FB_max b then Inl (Out_Of_Range v (FB_min b) (FB_max b)) else Inr v)"

definition parseRange :: "string \<Rightarrow> fieldBounds \<Rightarrow> part_error + (int \<times> int)" where
  "parseRange spec b =
     (if spec = ''*'' then Inr (FB_min b, FB_max b)
      else case Cut spec CHR ''-'' of (loStr, hiStr, hasRange) \<Rightarrow>
        if \<not> hasRange
        then (case parseBounded loStr b of Inl e \<Rightarrow> Inl e | Inr v \<Rightarrow> Inr (v, v))
        else
          (case parseBounded loStr b of Inl e \<Rightarrow> Inl e
           | Inr loVal \<Rightarrow>
               (case parseBounded hiStr b of Inl e \<Rightarrow> Inl e
                | Inr hiVal \<Rightarrow>
                    if hiVal < loVal then Inl (Bad_Range loVal hiVal) else Inr (loVal, hiVal))))"

definition splitStep :: "string \<Rightarrow> part_error + (string \<times> int)" where
  "splitStep part =
     (case Cut part CHR ''/'' of (spec, stepStr, hasStep) \<Rightarrow>
        if \<not> hasStep then Inr (spec, 1)
        else case Atoi stepStr of None \<Rightarrow> Inl (Bad_Step stepStr)
        | Some n \<Rightarrow> if n \<le> 0 then Inl (Bad_Step stepStr) else Inr (spec, n))"

text \<open>\<^verbatim>\<open>for v := lo; v <= hi; v += step\<close>, with the Sunday normalisation of its body.\<close>

definition record_value :: "fieldBounds \<Rightarrow> int \<Rightarrow> int set \<Rightarrow> int set" where
  "record_value b v result = (if FB_name b = dayOfWeekFieldName \<and> v = 7 then insert 0 result else insert v result)"

fun range_loop :: "nat \<Rightarrow> fieldBounds \<Rightarrow> int \<Rightarrow> int \<Rightarrow> int \<Rightarrow> int set \<Rightarrow> int set option" where
  "range_loop 0 b v hi step result = (if v \<le> hi then None else Some result)"
| "range_loop (Suc n) b v hi step result =
     (if v \<le> hi then range_loop n b (wrap64 (v + step)) hi step (record_value b v result)
      else Some result)"

abbreviation range_fuel :: nat where "range_fuel \<equiv> 64"

definition parsePart :: "string \<Rightarrow> fieldBounds \<Rightarrow> int set \<Rightarrow> part_error + int set" where
  "parsePart part b result =
     (case splitStep part of Inl e \<Rightarrow> Inl e
      | Inr (rangeSpec, step) \<Rightarrow>
          (case parseRange rangeSpec b of Inl e \<Rightarrow> Inl e
           | Inr (lo, hi) \<Rightarrow>
               (case range_loop range_fuel b lo hi step result of
                  None \<Rightarrow> Inl Loop_Diverges
                | Some r \<Rightarrow> Inr r)))"

fun parseParts :: "string list \<Rightarrow> fieldBounds \<Rightarrow> int set \<Rightarrow> part_error + int set" where
  "parseParts [] b result = Inr result"
| "parseParts (part # parts) b result =
     (case parsePart part b result of Inl e \<Rightarrow> Inl e | Inr r \<Rightarrow> parseParts parts b r)"

definition parseField :: "string \<Rightarrow> fieldBounds \<Rightarrow> part_error + int set" where
  "parseField field b =
     (if field = [] then Inl Empty_Field
      else case parseParts (Split field CHR '','') b {} of Inl e \<Rightarrow> Inl e
      | Inr result \<Rightarrow> if result = {} then Inl No_Values else Inr result)"

fun parseFields :: "string list \<Rightarrow> fieldBounds list \<Rightarrow> cron_error + int set list" where
  "parseFields (field # flds) (b # bs) =
     (case parseField field b of Inl e \<Rightarrow> Inl (Bad_Field (FB_name b) field e)
      | Inr s \<Rightarrow> (case parseFields flds bs of Inl e \<Rightarrow> Inl e | Inr sets \<Rightarrow> Inr (s # sets)))"
| "parseFields _ _ = Inr []"

definition Parse :: "string \<Rightarrow> cron_error + Schedule" where
  "Parse expr =
     (let flds = Fields (TrimSpace expr)
      in if length flds \<noteq> length bounds then Inl (Field_Count (length flds))
         else case parseFields flds bounds of Inl e \<Rightarrow> Inl e
         | Inr sets \<Rightarrow> Inr
             \<lparr>Sch_minutes = sets ! 0, Sch_hours = sets ! 1, Sch_days = sets ! 2,
              Sch_months = sets ! 3, Sch_weekdays = sets ! 4,
              Sch_domIsStar = HasPrefix (flds ! 2) ''*'',
              Sch_dowIsStar = HasPrefix (flds ! 4) ''*''\<rparr>)"

definition Validate :: "string \<Rightarrow> cron_error option" where
  "Validate expr = (case Parse expr of Inl e \<Rightarrow> Some e | Inr _ \<Rightarrow> None)"

text \<open>\<^verbatim>\<open>internal/webhook/cron.go\<close> delegates to the engine.\<close>

definition validateCron :: "string \<Rightarrow> cron_error option" where
  "validateCron expr = Validate expr"

subsection \<open>The next run\<close>

definition dayMatches :: "Schedule \<Rightarrow> clock \<Rightarrow> bool" where
  "dayMatches s c =
     (let domRestricted = \<not> Sch_domIsStar s; dowRestricted = \<not> Sch_dowIsStar s;
          dom = Clk_Day c \<in> Sch_days s; dow = Clk_Weekday c \<in> Sch_weekdays s
      in if domRestricted \<and> dowRestricted then dom \<or> dow else dom \<and> dow)"

definition matches :: "Location \<Rightarrow> Schedule \<Rightarrow> int \<Rightarrow> bool" where
  "matches loc s t =
     (let c = read_clock loc t
      in if Clk_Minute c \<notin> Sch_minutes s \<or> Clk_Hour c \<notin> Sch_hours s \<or> Clk_Month c \<notin> Sch_months s
         then False else dayMatches s c)"

abbreviation maxSearchMinutes :: nat where "maxSearchMinutes \<equiv> 527040"

text \<open>\<open>next_search n\<close>: \<open>n\<close> rounds of the search are left.\<close>

fun next_search :: "nat \<Rightarrow> Location \<Rightarrow> Schedule \<Rightarrow> int \<Rightarrow> int option" where
  "next_search 0 loc s t = None"
| "next_search (Suc n) loc s t = (if matches loc s t then Some t else next_search n loc s (t + Minute))"

definition Next :: "Location \<Rightarrow> Schedule \<Rightarrow> int \<Rightarrow> int option" where
  "Next loc s from = next_search maxSearchMinutes loc s (Truncate from Minute + Minute)"

definition NextAfter :: "Location \<Rightarrow> string \<Rightarrow> int \<Rightarrow> int option" where
  "NextAfter loc expr from = (case Parse expr of Inl _ \<Rightarrow> None | Inr schedule \<Rightarrow> Next loc schedule from)"

subsection \<open>What a field means\<close>

text \<open>
  The meaning of a range with a step, without the machine arithmetic, and the range of values a
  field may hold once Sunday is normalised.
\<close>

definition range_values :: "fieldBounds \<Rightarrow> int \<Rightarrow> int \<Rightarrow> int \<Rightarrow> int set" where
  "range_values b lo hi step =
     (\<lambda>v. if FB_name b = dayOfWeekFieldName \<and> v = 7 then 0 else v) `
       {v. lo \<le> v \<and> v \<le> hi \<and> step dvd (v - lo)}"

definition field_values :: "fieldBounds \<Rightarrow> int set" where
  "field_values b =
     (if FB_name b = dayOfWeekFieldName then {0..6} else {FB_min b..FB_max b})"

text \<open>
  The meaning of one comma-separated part and of a field, from the text alone; \<open>None\<close> when the
  text is not a range with a step.
\<close>

definition part_meaning :: "fieldBounds \<Rightarrow> string \<Rightarrow> int set option" where
  "part_meaning b part =
     (case splitStep part of Inl _ \<Rightarrow> None
      | Inr (rangeSpec, step) \<Rightarrow>
          (case parseRange rangeSpec b of Inl _ \<Rightarrow> None
           | Inr (lo, hi) \<Rightarrow> Some (range_values b lo hi step)))"

definition field_meaning :: "fieldBounds \<Rightarrow> string \<Rightarrow> int set option" where
  "field_meaning b field =
     (let ps = map (part_meaning b) (Split field CHR '','')
      in if field = [] \<or> None \<in> set ps then None else Some (\<Union> (the ` set ps)))"

text \<open>
  A step is small when the counter of the range loop cannot wrap around: the largest value of
  any field is 59.
\<close>

definition small_steps :: "string \<Rightarrow> bool" where
  "small_steps field \<longleftrightarrow>
     (\<forall>part \<in> set (Split field CHR '','').
        case splitStep part of Inl _ \<Rightarrow> True | Inr (_, step) \<Rightarrow> step \<le> 9223372036854775748)"

text \<open>What every parsed schedule satisfies unless a step wrapped around.\<close>

definition schedule_wf :: "Schedule \<Rightarrow> bool" where
  "schedule_wf s \<longleftrightarrow>
     Sch_minutes s \<noteq> {} \<and> Sch_minutes s \<subseteq> {0..59} \<and> Sch_hours s \<noteq> {} \<and> Sch_hours s \<subseteq> {0..23} \<and>
     Sch_days s \<noteq> {} \<and> Sch_days s \<subseteq> {1..31} \<and> Sch_months s \<noteq> {} \<and> Sch_months s \<subseteq> {1..12} \<and>
     Sch_weekdays s \<noteq> {} \<and> Sch_weekdays s \<subseteq> {0..6}"

text \<open>The least matching whole minute after \<open>from\<close>, within 366 days.\<close>

definition is_next_run :: "Location \<Rightarrow> Schedule \<Rightarrow> int \<Rightarrow> int \<Rightarrow> bool" where
  "is_next_run loc s from t \<longleftrightarrow>
     from < t \<and> t \<le> from + 31622400 * Second \<and> Minute dvd t \<and> matches loc s t \<and>
     (\<forall>u. from < u \<and> u < t \<and> Minute dvd u \<longrightarrow> \<not> matches loc s u)"

text \<open>The expression of a daily run at a given hour and minute.\<close>

definition daily_expr :: "nat \<Rightarrow> nat \<Rightarrow> string" where
  "daily_expr h m = show_nat m @ '' '' @ show_nat h @ '' * * *''"

section \<open>Lemmas\<close>

subsection \<open>The range loop\<close>

lemma record_value_eq:
  "record_value b v result = result \<union> range_values b v v 1"
  by (auto simp: record_value_def range_values_def)

lemma range_values_step:
  assumes "v \<le> hi" "0 < step"
  shows "range_values b v hi step = range_values b v v 1 \<union> range_values b (v + step) hi step"
proof -
  have "{w. v \<le> w \<and> w \<le> hi \<and> step dvd (w - v)} =
      insert v {w. v + step \<le> w \<and> w \<le> hi \<and> step dvd (w - (v + step))}" (is "?L = ?R")
  proof (intro equalityI subsetI)
    fix w assume w: "w \<in> ?L"
    show "w \<in> ?R"
    proof (cases "w = v")
      case False
      with w have "step \<le> w - v" by (intro zdvd_imp_le) auto
      moreover have "step dvd (w - v - step)" using w by simp
      ultimately show ?thesis using w by (auto simp: algebra_simps)
    qed simp
  next
    fix w assume "w \<in> ?R"
    then consider "w = v" | "v + step \<le> w" "w \<le> hi" "step dvd (w - (v + step))" by auto
    then show "w \<in> ?L"
    proof cases
      case 2
      then have "step dvd (w - (v + step) + step)" by (intro dvd_add) auto
      with 2 assms show ?thesis by simp
    qed (use assms in simp)
  qed
  moreover have "{w. v \<le> w \<and> w \<le> v \<and> (1::int) dvd (w - v)} = {v}" by auto
  ultimately show ?thesis unfolding range_values_def by (simp only:) blast
qed

lemma range_values_empty: "hi < v \<Longrightarrow> range_values b v hi step = {}"
  by (auto simp: range_values_def)

text \<open>While the counter stays in range the loop adds exactly the meaning of the range.\<close>

lemma range_loop_exact:
  "0 \<le> v \<Longrightarrow> 0 < step \<Longrightarrow> hi + step \<le> 9223372036854775807 \<Longrightarrow> hi - v < int n \<Longrightarrow>
     range_loop n b v hi step result = Some (result \<union> range_values b v hi step)"
proof (induction n arbitrary: v result)
  case 0
  then show ?case by (simp add: range_values_empty)
next
  case (Suc n)
  show ?case
  proof (cases "v \<le> hi")
    case True
    then have w: "wrap64 (v + step) = v + step" using Suc.prems by (intro wrap64_id) (simp add: in_int64_def)
    have "range_loop n b (v + step) hi step (record_value b v result) =
        Some (record_value b v result \<union> range_values b (v + step) hi step)"
      using Suc.prems True by (intro Suc.IH) auto
    then show ?thesis
      using True w Suc.prems range_values_step [OF True, of step b]
      by (auto simp: record_value_eq)
  qed (simp add: range_values_empty)
qed

text \<open>
  With a step so large that the counter wraps (\<open>2^63 - j\<close> with a small \<open>j\<close>), two rounds take the
  counter from \<open>v\<close> to \<open>v - 2 * j\<close>, so the loop still ends.
\<close>

lemma range_loop_wraps:
  assumes "hi \<le> 59" "step = 9223372036854775808 - j" "0 < j" "j \<le> 59"
  shows "-59 \<le> v \<Longrightarrow> v \<le> 59 \<Longrightarrow> v + 3 \<le> int n \<Longrightarrow> 2 \<le> n \<Longrightarrow> \<exists>r. range_loop n b v hi step result = Some r"
proof (induction n arbitrary: v result rule: less_induct)
  case (less n)
  obtain m where n: "n = Suc (Suc m)" using less.prems(4) by (metis add_2_eq_Suc le_Suc_ex)
  consider "hi < v" | "v \<le> hi" "v < j" | "v \<le> hi" "j \<le> v" by linarith
  then show ?case
  proof cases
    case 2
    then have "wrap64 (v + step) = v + step"
      using assms less.prems by (intro wrap64_id) (simp add: in_int64_def)
    moreover have "hi < v + step" using assms less.prems by simp
    ultimately show ?thesis using 2 n by simp
  next
    case 3
    have w1: "wrap64 (v + step) = v - j - 9223372036854775808"
      using assms 3 less.prems by (simp add: wrap64_def)
    have "wrap64 (v - j - 9223372036854775808 + step) = v - 2 * j"
      using assms 3 less.prems by (subst wrap64_id) (simp_all add: in_int64_def)
    with w1 3 assms less.prems n have
      "range_loop n b v hi step result =
        range_loop m b (v - 2 * j) hi step (record_value b (v - j - 9223372036854775808) (record_value b v result))"
      by simp
    moreover have "\<exists>r. range_loop m b (v - 2 * j) hi step
        (record_value b (v - j - 9223372036854775808) (record_value b v result)) = Some r"
      using assms 3 less.prems n by (intro less.IH) auto
    ultimately show ?thesis by simp
  qed (simp add: n)
qed

lemma range_loop_returns:
  assumes "0 \<le> lo" "lo \<le> hi" "hi \<le> 59" "0 < step" "step \<le> 9223372036854775807"
  shows "\<exists>r. range_loop range_fuel b lo hi step result = Some r"
proof (cases "hi + step \<le> 9223372036854775807")
  case True
  then show ?thesis using range_loop_exact [of lo step hi 64 b result] assms by auto
next
  case False
  show ?thesis
    using assms False
    by (intro range_loop_wraps [where j = "9223372036854775808 - step"]) auto
qed

subsection \<open>Parsing\<close>

lemma Atoi_in_range: "Atoi s = Some v \<Longrightarrow> in_int64 v"
  by (auto simp: Atoi_def Let_def split: list.splits option.splits if_splits prod.splits)

lemma splitStep_step: "splitStep part = Inr (spec, step) \<Longrightarrow> 0 < step \<and> step \<le> 9223372036854775807"
  by (auto simp: splitStep_def in_int64_def dest!: Atoi_in_range split: prod.splits if_splits option.splits)

lemma parseBounded_Inr: "parseBounded s b = Inr v \<Longrightarrow> FB_min b \<le> v \<and> v \<le> FB_max b"
  by (auto simp: parseBounded_def split: option.splits if_splits)

lemma parseRange_Inr:
  assumes "parseRange spec b = Inr (lo, hi)" "FB_min b \<le> FB_max b"
  shows "FB_min b \<le> lo \<and> lo \<le> hi \<and> hi \<le> FB_max b"
  using assms
  by (auto simp: parseRange_def dest: parseBounded_Inr split: prod.splits if_splits sum.splits)

lemma bounds_ok: "b \<in> set bounds \<Longrightarrow> 0 \<le> FB_min b \<and> FB_min b \<le> FB_max b \<and> FB_max b \<le> 59"
  by (auto simp: bounds_def)

lemma range_values_nonempty: "lo \<le> hi \<Longrightarrow> range_values b lo hi step \<noteq> {}"
  by (auto simp: range_values_def)

lemma range_values_bounds:
  assumes "b \<in> set bounds" "FB_min b \<le> lo" "hi \<le> FB_max b"
  shows "range_values b lo hi step \<subseteq> field_values b"
  using assms by (auto simp: bounds_def range_values_def field_values_def)

lemma part_meaning_bounds:
  "b \<in> set bounds \<Longrightarrow> part_meaning b part = Some S \<Longrightarrow> S \<noteq> {} \<and> S \<subseteq> field_values b"
  using bounds_ok [of b]
  by (auto simp: part_meaning_def split: sum.splits prod.splits
      dest!: parseRange_Inr dest: range_values_nonempty range_values_bounds [THEN subsetD])

lemma parsePart_result:
  assumes "b \<in> set bounds"
  shows "(case part_meaning b part of
      None \<Rightarrow> \<exists>e. parsePart part b result = Inl e \<and> e \<noteq> Loop_Diverges
    | Some S \<Rightarrow> \<exists>r. parsePart part b result = Inr r)"
proof (cases "splitStep part")
  case (Inl e)
  then have "e \<noteq> Loop_Diverges"
    by (auto simp: splitStep_def split: prod.splits if_splits option.splits)
  with Inl show ?thesis by (simp add: part_meaning_def parsePart_def)
next
  case (Inr p)
  obtain spec step where p: "splitStep part = Inr (spec, step)" using Inr by (cases p) auto
  show ?thesis
  proof (cases "parseRange spec b")
    case (Inl e)
    then have "e \<noteq> Loop_Diverges"
      by (auto simp: parseRange_def parseBounded_def
          split: prod.splits if_splits option.splits sum.splits)
    with p Inl show ?thesis by (simp add: part_meaning_def parsePart_def)
  next
    case (Inr q)
    obtain lo hi where q: "parseRange spec b = Inr (lo, hi)" using Inr by (cases q) auto
    have "\<exists>r. range_loop range_fuel b lo hi step result = Some r"
      using parseRange_Inr [OF q] bounds_ok [OF assms] splitStep_step [OF p]
      by (intro range_loop_returns) auto
    with p q show ?thesis by (auto simp: part_meaning_def parsePart_def)
  qed
qed

lemma parsePart_exact:
  assumes "b \<in> set bounds" "part_meaning b part = Some S"
    and "\<And>spec step. splitStep part = Inr (spec, step) \<Longrightarrow> step \<le> 9223372036854775748"
  shows "parsePart part b result = Inr (result \<union> S)"
proof -
  obtain spec step lo hi where p: "splitStep part = Inr (spec, step)"
    and q: "parseRange spec b = Inr (lo, hi)" and S: "S = range_values b lo hi step"
    using assms(2) by (auto simp: part_meaning_def split: sum.splits prod.splits)
  have "range_loop range_fuel b lo hi step result = Some (result \<union> S)"
    unfolding S
    using parseRange_Inr [OF q] bounds_ok [OF assms(1)] splitStep_step [OF p] assms(3) [OF p]
    by (intro range_loop_exact) auto
  with p q show ?thesis by (simp add: parsePart_def)
qed

lemma parseParts_exact:
  assumes "b \<in> set bounds"
    and "\<forall>part \<in> set parts. case splitStep part of Inl _ \<Rightarrow> True | Inr (_, step) \<Rightarrow> step \<le> 9223372036854775748"
  shows "None \<notin> part_meaning b ` set parts \<Longrightarrow>
    parseParts parts b result = Inr (result \<union> \<Union> (the ` part_meaning b ` set parts))"
  using assms(2)
proof (induction parts arbitrary: result)
  case (Cons part parts)
  obtain S where S: "part_meaning b part = Some S"
    using Cons.prems(1) by (cases "part_meaning b part") auto
  have "parsePart part b result = Inr (result \<union> S)"
    using assms(1) S Cons.prems(2) by (intro parsePart_exact) auto
  with Cons S show ?case by (auto simp: Un_assoc)
qed simp

lemma parseParts_fails:
  assumes "b \<in> set bounds"
  shows "None \<in> part_meaning b ` set parts \<Longrightarrow>
    \<exists>e. parseParts parts b result = Inl e \<and> e \<noteq> Loop_Diverges"
proof (induction parts arbitrary: result)
  case (Cons part parts)
  show ?case
  proof (cases "part_meaning b part")
    case None
    then show ?thesis using parsePart_result [OF assms, of part result] by auto
  next
    case (Some S)
    then obtain r where "parsePart part b result = Inr r"
      using parsePart_result [OF assms, of part result] by auto
    with Cons Some show ?thesis by auto
  qed
qed simp

lemma range_loop_grows:
  "range_loop n b v hi step result = Some r \<Longrightarrow> result \<subseteq> r \<and> (v \<le> hi \<longrightarrow> r \<noteq> {})"
proof (induction n arbitrary: v result)
  case (Suc n)
  then show ?case by (fastforce simp: record_value_def split: if_splits)
qed (simp split: if_splits)

lemma parsePart_grows:
  assumes "b \<in> set bounds" "parsePart part b result = Inr r"
  shows "result \<subseteq> r \<and> r \<noteq> {}"
  using assms bounds_ok [of b]
  by (auto simp: parsePart_def dest!: range_loop_grows parseRange_Inr
      split: sum.splits prod.splits option.splits)

lemma parseParts_succeeds:
  assumes "b \<in> set bounds"
  shows "None \<notin> part_meaning b ` set parts \<Longrightarrow>
    \<exists>r. parseParts parts b result = Inr r \<and> result \<subseteq> r \<and> (parts \<noteq> [] \<longrightarrow> r \<noteq> {})"
proof (induction parts arbitrary: result)
  case (Cons part parts)
  obtain S where "part_meaning b part = Some S"
    using Cons.prems by (cases "part_meaning b part") auto
  then obtain r where r: "parsePart part b result = Inr r"
    using parsePart_result [OF assms, of part result] by auto
  moreover obtain r' where "parseParts parts b r = Inr r'" "r \<subseteq> r'"
    using Cons.IH [of r] Cons.prems by auto
  ultimately show ?case using parsePart_grows [OF assms r] by auto
qed simp

lemma image_not_None: "None \<notin> f ` A \<Longrightarrow> x \<in> A \<Longrightarrow> \<exists>y. f x = Some y"
  by (cases "f x") force+

lemma Split_nonempty [simp]: "Split s sep \<noteq> []"
  by (induction s) (auto split: list.splits)

lemma field_meaning_None:
  "field_meaning b field = None \<longleftrightarrow> field = [] \<or> None \<in> part_meaning b ` set (Split field CHR '','')"
  by (simp add: field_meaning_def Let_def)

text \<open>A field parses exactly when it has a meaning, and the loop error never occurs.\<close>

lemma parseField_Inl:
  assumes "b \<in> set bounds"
  shows "(\<exists>e. parseField field b = Inl e) \<longleftrightarrow> field_meaning b field = None"
proof (cases "None \<in> part_meaning b ` set (Split field CHR '','')")
  case True
  then show ?thesis
    using parseParts_fails [OF assms True, of "{}"] by (auto simp: parseField_def field_meaning_None)
next
  case False
  then show ?thesis
    using parseParts_succeeds [OF assms False, of "{}"]
    by (auto simp: parseField_def field_meaning_None split: if_splits)
qed

lemma parseField_never_diverges:
  assumes "b \<in> set bounds"
  shows "parseField field b \<noteq> Inl Loop_Diverges"
proof (cases "None \<in> part_meaning b ` set (Split field CHR '','')")
  case True
  then show ?thesis using parseParts_fails [OF assms True, of "{}"] by (auto simp: parseField_def)
next
  case False
  then show ?thesis
    using parseParts_succeeds [OF assms False, of "{}"] by (auto simp: parseField_def split: if_splits)
qed

lemma parseField_exact:
  assumes "b \<in> set bounds" "field_meaning b field = Some S" "small_steps field"
  shows "parseField field b = Inr S" and "S \<noteq> {}" and "S \<subseteq> field_values b"
proof -
  let ?ps = "Split field CHR '',''"
  have m: "field \<noteq> []" "None \<notin> part_meaning b ` set ?ps" "S = \<Union> (the ` part_meaning b ` set ?ps)"
    using assms(2) by (auto simp: field_meaning_def Let_def image_image split: if_splits)
  have "parseParts ?ps b {} = Inr ({} \<union> \<Union> (the ` part_meaning b ` set ?ps))"
    using assms m by (intro parseParts_exact) (auto simp: small_steps_def)
  then have p: "parseParts ?ps b {} = Inr S" using m by simp
  have hd: "hd ?ps \<in> set ?ps" by simp
  obtain S' where S': "part_meaning b (hd ?ps) = Some S'" using image_not_None [OF m(2) hd] by auto
  have "the (part_meaning b (hd ?ps)) \<subseteq> S" unfolding m(3) using hd by blast
  then show ne: "S \<noteq> {}" using S' part_meaning_bounds [OF assms(1) S'] by auto
  show "parseField field b = Inr S" using p ne m by (simp add: parseField_def)
  show "S \<subseteq> field_values b"
  proof
    fix v assume "v \<in> S"
    then obtain part where "part \<in> set ?ps" "v \<in> the (part_meaning b part)" using m(3) by auto
    moreover from this obtain S' where "part_meaning b part = Some S'"
      using image_not_None [OF m(2)] by blast
    ultimately show "v \<in> field_values b" using part_meaning_bounds [OF assms(1)] by auto
  qed
qed

lemma parseFields_Inr:
  "set bs \<subseteq> set bounds \<Longrightarrow> length fs = length bs \<Longrightarrow>
     ((\<exists>sets. parseFields fs bs = Inr sets) \<longleftrightarrow> list_all2 (\<lambda>f b. field_meaning b f \<noteq> None) fs bs)"
proof (induction fs bs rule: parseFields.induct)
  case (1 f fs b bs)
  then have b: "b \<in> set bounds" by simp
  show ?case
  proof (cases "parseField f b")
    case (Inl e)
    then show ?thesis using parseField_Inl [OF b, of f] by auto
  next
    case (Inr S)
    then have "field_meaning b f \<noteq> None" using parseField_Inl [OF b, of f] by auto
    then show ?thesis using 1 Inr by (auto split: sum.splits)
  qed
qed auto

lemma parseFields_exact:
  "set bs \<subseteq> set bounds \<Longrightarrow> list_all2 (\<lambda>f b. field_meaning b f \<noteq> None) fs bs \<Longrightarrow>
     list_all small_steps fs \<Longrightarrow>
     parseFields fs bs = Inr (map2 (\<lambda>f b. the (field_meaning b f)) fs bs)"
proof (induction fs bs rule: parseFields.induct)
  case (1 f fs b bs)
  then obtain S where "field_meaning b f = Some S" by auto
  with 1 have "parseField f b = Inr S" by (intro parseField_exact) auto
  with 1 \<open>field_meaning b f = Some S\<close> show ?case by simp
qed auto

lemma length_bounds [simp]: "length bounds = 5"
  by (simp add: bounds_def)

lemma range_loop_numeral [simp]:
  "range_loop (numeral k) b v hi step result =
     (if v \<le> hi then range_loop (pred_numeral k) b (wrap64 (v + step)) hi step (record_value b v result)
      else Some result)"
  by (simp add: numeral_eq_Suc)

lemma five: "length xs = 5 \<longleftrightarrow> (\<exists>a b c d e. xs = [a, b, c, d, e])"
  by (auto simp: numeral_eq_Suc length_Suc_conv)

lemma Parse_Inr:
  "(\<exists>s. Parse expr = Inr s) \<longleftrightarrow> list_all2 (\<lambda>f b. field_meaning b f \<noteq> None) (Fields (TrimSpace expr)) bounds"
proof (cases "length (Fields (TrimSpace expr)) = length bounds")
  case True
  then show ?thesis using parseFields_Inr [of bounds "Fields (TrimSpace expr)"]
    by (auto simp: Parse_def Let_def split: sum.splits)
next
  case False
  then show ?thesis by (auto simp: Parse_def dest: list_all2_lengthD)
qed

lemma Parse_exact:
  assumes "Fields (TrimSpace expr) = [a, b, c, d, e]" "list_all small_steps [a, b, c, d, e]"
    and "list_all2 (\<lambda>f b. field_meaning b f \<noteq> None) [a, b, c, d, e] bounds"
  shows "Parse expr = Inr
    \<lparr>Sch_minutes = the (field_meaning (bounds ! 0) a), Sch_hours = the (field_meaning (bounds ! 1) b),
     Sch_days = the (field_meaning (bounds ! 2) c), Sch_months = the (field_meaning (bounds ! 3) d),
     Sch_weekdays = the (field_meaning (bounds ! 4) e),
     Sch_domIsStar = HasPrefix c ''*'', Sch_dowIsStar = HasPrefix e ''*''\<rparr>"
proof -
  have "parseFields [a, b, c, d, e] bounds =
      Inr (map2 (\<lambda>f b. the (field_meaning b f)) [a, b, c, d, e] bounds)"
    using assms by (intro parseFields_exact) auto
  then show ?thesis using assms(1)
    by (simp add: Parse_def Let_def bounds_def del: parseFields.simps)
qed

subsection \<open>The next run\<close>

lemma next_search_Some:
  "next_search n loc s t = Some u \<longleftrightarrow>
     (\<exists>k < n. u = t + int k * Minute \<and> matches loc s u \<and> (\<forall>j < k. \<not> matches loc s (t + int j * Minute)))"
proof (induction n arbitrary: t)
  case (Suc n)
  show ?case
  proof (cases "matches loc s t")
    case True
    then show ?thesis by (auto intro!: exI [of _ 0] dest: spec [of _ 0])
  next
    case False
    have "(\<exists>k < Suc n. u = t + int k * Minute \<and> matches loc s u \<and> (\<forall>j < k. \<not> matches loc s (t + int j * Minute)))
      \<longleftrightarrow> (\<exists>k < n. u = t + int (Suc k) * Minute \<and> matches loc s u \<and>
            (\<forall>j < Suc k. \<not> matches loc s (t + int j * Minute)))" (is "?L = ?R")
    proof
      assume ?L
      then obtain k where k: "k < Suc n" "u = t + int k * Minute" "matches loc s u"
        "\<forall>j < k. \<not> matches loc s (t + int j * Minute)" by blast
      with False obtain k' where "k = Suc k'" by (cases k) auto
      with k show ?R by auto
    qed auto
    also have "\<dots> \<longleftrightarrow> (\<exists>k < n. u = t + Minute + int k * Minute \<and> matches loc s u \<and>
            (\<forall>j < k. \<not> matches loc s (t + Minute + int j * Minute)))"
      using False by (simp add: All_less_Suc2 algebra_simps)
    finally show ?thesis using False Suc.IH [of "t + Minute"] by simp
  qed
qed simp

lemma next_search_None:
  "next_search n loc s t = None \<longleftrightarrow> (\<forall>k < n. \<not> matches loc s (t + int k * Minute))"
proof (induction n arbitrary: t)
  case (Suc n)
  then show ?case by (simp add: All_less_Suc2 algebra_simps)
qed simp

text \<open>The minutes the search visits are the whole minutes of the window.\<close>

lemma window_arith:
  "T \<le> f \<Longrightarrow> f < T + Minute \<Longrightarrow> u = T + Minute + k * Minute \<Longrightarrow> 0 \<le> k \<Longrightarrow> k \<le> 527039 \<Longrightarrow>
     f < u \<and> u \<le> f + 31622400 * Second"
  by linarith

lemma window:
  "(\<exists>k < maxSearchMinutes. u = Truncate from Minute + Minute + int k * Minute) \<longleftrightarrow>
     from < u \<and> u \<le> from + 31622400 * Second \<and> Minute dvd u" (is "?L \<longleftrightarrow> ?R")
proof
  have T: "Truncate from Minute \<le> from" "from < Truncate from Minute + Minute"
    by (simp_all add: Truncate_bounds)
  obtain c where c: "Truncate from Minute = Minute * c"
    using Truncate_bounds(3) [of Minute "from"] by (auto elim: dvdE)
  show ?R if ?L
  proof -
    from that obtain k where k: "k < maxSearchMinutes" "u = Truncate from Minute + Minute + int k * Minute"
      by blast
    then have "int k \<le> 527039" by linarith
    moreover have "u = Minute * (c + 1 + int k)" using k(2) c by (simp add: algebra_simps)
    moreover have "0 \<le> int k" by simp
    ultimately show ?thesis using T k(2) by (metis dvd_triv_left window_arith)
  qed
  show ?L if ?R
  proof -
    from that obtain a where a: "u = Minute * a" by (blast elim: dvdE)
    have b: "c < a" "a - c - 1 < 527040" using that T a c by linarith+
    then obtain k where k: "a - c - 1 = int k" using zero_le_imp_eq_int [of "a - c - 1"] by auto
    have "u = Truncate from Minute + Minute + int k * Minute" using a c k by linarith
    moreover have "int k < int maxSearchMinutes" using b(2) unfolding k by simp
    then have "k < maxSearchMinutes" by (simp only: of_nat_less_iff)
    ultimately show ?thesis by blast
  qed
qed

lemma search_window:
  "(\<exists>u. from < u \<and> u \<le> from + 31622400 * Second \<and> Minute dvd u \<and> P u) \<longleftrightarrow>
     (\<exists>k < maxSearchMinutes. P (Truncate from Minute + Minute + int k * Minute))"
proof -
  have "(\<exists>u. from < u \<and> u \<le> from + 31622400 * Second \<and> Minute dvd u \<and> P u) \<longleftrightarrow>
      (\<exists>u. (from < u \<and> u \<le> from + 31622400 * Second \<and> Minute dvd u) \<and> P u)"
    by (simp only: conj_assoc)
  also have "\<dots> \<longleftrightarrow> (\<exists>u. (\<exists>k < maxSearchMinutes. u = Truncate from Minute + Minute + int k * Minute) \<and> P u)"
    by (simp only: window)
  also have "\<dots> \<longleftrightarrow> (\<exists>k < maxSearchMinutes. P (Truncate from Minute + Minute + int k * Minute))"
    by metis
  finally show ?thesis .
qed

lemma Next_None:
  "Next loc s from = None \<longleftrightarrow>
     \<not> (\<exists>u. from < u \<and> u \<le> from + 31622400 * Second \<and> Minute dvd u \<and> matches loc s u)"
  unfolding Next_def next_search_None search_window by (simp only: not_ex de_Morgan_conj imp_conv_disj)

lemma Next_Some:
  assumes "Next loc s from = Some t"
  shows "is_next_run loc s from t"
proof -
  let ?g = "\<lambda>k. Truncate from Minute + Minute + int k * Minute"
  obtain k where k: "k < maxSearchMinutes" "t = ?g k" "matches loc s t" "\<forall>j < k. \<not> matches loc s (?g j)"
    using assms unfolding Next_def next_search_Some by blast
  have t: "from < t \<and> t \<le> from + 31622400 * Second \<and> Minute dvd t"
    unfolding window [symmetric] using k(1,2) by blast
  have "\<not> matches loc s u" if u: "from < u" "u < t" "Minute dvd u" for u
  proof -
    have "from < u \<and> u \<le> from + 31622400 * Second \<and> Minute dvd u" using u t by linarith
    then obtain j where "u = ?g j" unfolding window [symmetric] by blast
    moreover have "j < k" using u(2) k(2) \<open>u = ?g j\<close> by simp
    ultimately show ?thesis using k(4) by blast
  qed
  with t k(3) show ?thesis unfolding is_next_run_def by blast
qed

lemma is_next_run_unique: "is_next_run loc s from t \<Longrightarrow> is_next_run loc s from u \<Longrightarrow> t = u"
  unfolding is_next_run_def by (meson linorder_neqE_linordered_idom)

lemma Next_iff: "Next loc s from = Some t \<longleftrightarrow> is_next_run loc s from t"
proof
  assume t: "is_next_run loc s from t"
  then have "Next loc s from \<noteq> None" unfolding Next_None is_next_run_def by blast
  then obtain u where "Next loc s from = Some u" by blast
  with t is_next_run_unique [OF t Next_Some] show "Next loc s from = Some t" by simp
qed (rule Next_Some)

subsection \<open>Daily schedules\<close>

lemma splitStep_plain: "CHR ''/'' \<notin> set part \<Longrightarrow> splitStep part = Inr (part, 1)"
  by (simp add: splitStep_def)

lemma small_steps_plain:
  assumes "CHR ''/'' \<notin> set field" "CHR '','' \<notin> set field"
  shows "small_steps field"
  using assms by (simp add: small_steps_def splitStep_plain)

lemma field_meaning_one:
  assumes "CHR '','' \<notin> set field" "field \<noteq> []" "part_meaning b field = Some S"
  shows "field_meaning b field = Some S"
  using assms by (simp add: field_meaning_def)

lemma star_values:
  "b \<in> set bounds \<Longrightarrow> range_values b (FB_min b) (FB_max b) 1 = field_values b"
  by (auto simp: bounds_def range_values_def field_values_def image_iff)

lemma field_meaning_star: "b \<in> set bounds \<Longrightarrow> field_meaning b ''*'' = Some (field_values b)"
  by (rule field_meaning_one) (simp_all add: part_meaning_def splitStep_plain parseRange_def star_values)

lemma field_meaning_number:
  assumes "b \<in> set bounds" "FB_min b \<le> int n" "int n \<le> FB_max b" "FB_name b \<noteq> dayOfWeekFieldName"
  shows "field_meaning b (show_nat n) = Some {int n}"
proof (rule field_meaning_one)
  have "parseBounded (show_nat n) b = Inr (int n)"
    using assms bounds_ok [OF assms(1)] by (simp add: parseBounded_def)
  moreover have "show_nat n \<noteq> ''*''" using show_nat_no [of "CHR ''*''" n] by auto
  moreover have "range_values b (int n) (int n) 1 = {int n}" using assms(4) by (auto simp: range_values_def)
  ultimately show "part_meaning b (show_nat n) = Some {int n}"
    by (simp add: part_meaning_def splitStep_plain show_nat_no parseRange_def)
qed (simp_all add: show_nat_no)

lemma show_nat_no_space: "\<forall>c \<in> set (show_nat n). \<not> is_space c"
  using show_nat_digits [of n] digit_not_space by (auto simp: list_all_iff)

lemma Fields_daily_expr:
  "Fields (TrimSpace (daily_expr h m)) = [show_nat m, show_nat h, ''*'', ''*'', ''*'']"
proof -
  have star: "Fields ''* * *'' = [''*'', ''*'', ''*'']" by (simp add: Fields_def is_space_def)
  have "hd (show_nat m) \<in> set (show_nat m)" by simp
  then have "\<not> is_space (hd (daily_expr h m))"
    using show_nat_no_space [of m] unfolding daily_expr_def by simp
  then have "TrimSpace (daily_expr h m) = daily_expr h m"
    by (intro TrimSpace_trimmed) (simp_all add: daily_expr_def is_space_def)
  also have "daily_expr h m = show_nat m @ CHR '' '' # show_nat h @ CHR '' '' # ''* * *''"
    by (simp add: daily_expr_def)
  finally show ?thesis by (simp add: show_nat_no_space star)
qed

lemma Parse_daily:
  assumes "h < 24" "m < 60"
  shows "Parse (daily_expr h m) = Inr
    \<lparr>Sch_minutes = {int m}, Sch_hours = {int h}, Sch_days = {1..31}, Sch_months = {1..12},
     Sch_weekdays = {0..6}, Sch_domIsStar = True, Sch_dowIsStar = True\<rparr>"
proof -
  have f: "field_meaning (bounds ! 0) (show_nat m) = Some {int m}"
    "field_meaning (bounds ! 1) (show_nat h) = Some {int h}"
    "field_meaning (bounds ! 2) ''*'' = Some {1..31}" "field_meaning (bounds ! 3) ''*'' = Some {1..12}"
    "field_meaning (bounds ! 4) ''*'' = Some {0..6}"
    using assms by (simp_all add: field_meaning_number field_meaning_star bounds_def field_values_def)
  have "list_all small_steps [show_nat m, show_nat h, ''*'', ''*'', ''*'']"
    by (simp add: small_steps_plain show_nat_no)
  moreover have "list_all2 (\<lambda>f b. field_meaning b f \<noteq> None) [show_nat m, show_nat h, ''*'', ''*'', ''*''] bounds"
    using f by (simp add: bounds_def)
  ultimately show ?thesis
    using Parse_exact [OF Fields_daily_expr, of m h] f by (simp add: HasPrefix_def)
qed

lemma time_of_day:
  assumes "0 \<le> (m :: int)" "m < 60" "0 \<le> h" "h < 24"
  shows "(day * 86400 + h * 3600 + m * 60) div 60 mod 60 = m"
    "(day * 86400 + h * 3600 + m * 60) div 3600 mod 24 = h"
proof -
  have "(day * 86400 + h * 3600 + m * 60) div 60 = m + 60 * (24 * day + h)" by simp
  moreover have "(m + 60 * (24 * day + h)) mod 60 = m" using assms by (simp only: mod_mult_self2) simp
  ultimately show "(day * 86400 + h * 3600 + m * 60) div 60 mod 60 = m" by (simp only:)
  have "(day * 86400 + h * 3600 + m * 60) div 3600 = h + 24 * day" using assms by linarith
  moreover have "(h + 24 * day) mod 24 = h" using assms by (simp only: mod_mult_self2) simp
  ultimately show "(day * 86400 + h * 3600 + m * 60) div 3600 mod 24 = h" by (simp only:)
qed

lemma clock_of_time:
  assumes "t = day * 86400 * Second + int h * Hour + int m * Minute" "h < 24" "m < 60"
  shows "Clk_Minute (read_clock UTC t) = int m" "Clk_Hour (read_clock UTC t) = int h"
proof -
  have "t div Second = day * 86400 + int h * 3600 + int m * 60" using assms(1) by linarith
  then have "read_clock UTC t = clock_of_second (day * 86400 + int h * 3600 + int m * 60)"
    by (simp add: read_clock_def UTC_def)
  then show "Clk_Minute (read_clock UTC t) = int m" "Clk_Hour (read_clock UTC t) = int h"
    using assms(2,3) time_of_day [of "int m" "int h" day]
    by (simp_all only: clock_of_second_def Let_def split: prod.splits) simp_all
qed

lemma daily_instant:
  assumes "h < 24" "m < 60"
  obtains u where "from < u" "u \<le> from + 86400 * Second" "Minute dvd u"
    "Clk_Minute (read_clock UTC u) = int m" "Clk_Hour (read_clock UTC u) = int h"
proof -
  let ?x = "int h * Hour + int m * Minute"
  obtain q r where qr: "from - ?x = 86400 * Second * q + r" "0 \<le> r" "r < 86400 * Second"
    by (metis (no_types) mult_div_mod_eq pos_mod_bound pos_mod_sign zero_less_numeral
        mult_pos_pos)
  define u where "u = (q + 1) * 86400 * Second + int h * Hour + int m * Minute"
  have "from < u" "u \<le> from + 86400 * Second" using qr unfolding u_def by simp_all
  moreover have "u = Minute * ((q + 1) * 1440 + int h * 60 + int m)" unfolding u_def by (simp add: algebra_simps)
  then have "Minute dvd u" by (rule dvdI)
  ultimately show ?thesis using that clock_of_time [OF u_def assms] by blast
qed

lemma matches_daily:
  "matches loc \<lparr>Sch_minutes = {int m}, Sch_hours = {int h}, Sch_days = {1..31}, Sch_months = {1..12},
     Sch_weekdays = {0..6}, Sch_domIsStar = True, Sch_dowIsStar = True\<rparr> t \<longleftrightarrow>
   Clk_Minute (read_clock loc t) = int m \<and> Clk_Hour (read_clock loc t) = int h"
  using clock_bounds(3-5) [of loc t] by (auto simp: matches_def dayMatches_def Let_def)

subsection \<open>The 29th of February\<close>

lemma split_year_skip:
  "sum_list (map (\<lambda>i. year_len (y + int i)) [0..<k]) \<le> d \<Longrightarrow>
     split_year y d = split_year (y + int k) (d - sum_list (map (\<lambda>i. year_len (y + int i)) [0..<k]))"
proof (induction k)
  case (Suc k)
  let ?s = "sum_list (map (\<lambda>i. year_len (y + int i)) [0..<k])"
  have "split_year y d = split_year (y + int k) (d - ?s)" using Suc by simp
  moreover have "\<not> d - ?s < year_len (y + int k)" using Suc.prems by (auto simp: less_diff_conv2)
  then have "split_year (y + int k) (d - ?s) = split_year (y + int k + 1) (d - ?s - year_len (y + int k))"
    by (subst split_year.simps) simp
  ultimately show ?case by (simp add: algebra_simps)
qed simp

lemma days_before_2025: "sum_list (map (\<lambda>i. year_len (1970 + int i)) [0..<55]) = 20089"
  by code_simp

lemma no_leap_day_in_2025:
  assumes "20089 \<le> day" "day \<le> 20455"
  shows "date_of_day day \<noteq> (y, 2, 29)"
proof -
  define e where "e = nat day - 20089"
  have e: "e \<le> 366" "day mod 146097 = day" "nat day = 20089 + e" using assms by (auto simp: e_def)
  have "split_year 1970 (nat day) = split_year 2025 e"
    using split_year_skip [of 1970 55 "nat day", unfolded days_before_2025] e(3) by simp
  also have "\<dots> = (if e < 365 then (2025, e) else (2026, e - 365))"
  proof (cases "e < 365")
    case False
    then have "e - 365 < 365" using e(1) by simp
    with False show ?thesis
      by (simp add: split_year.simps [of 2025] split_year.simps [of 2026] year_len_def leap_year_def)
  qed (simp add: split_year.simps [of 2025] year_len_def leap_year_def)
  finally show ?thesis
    using e by (auto simp: date_of_day_def Let_def month_lens_def leap_year_def split: if_splits)
qed

section \<open>Properties\<close>

text \<open>
  The validator accepts exactly the expressions with five fields each of which has a meaning
  (a comma-separated list of ranges with steps inside the bounds of the field).
\<close>

theorem Validate_accepts_iff:
  "Validate expr = None \<longleftrightarrow>
     list_all2 (\<lambda>f b. field_meaning b f \<noteq> None) (Fields (TrimSpace expr)) bounds"
  unfolding Parse_Inr [symmetric] by (simp add: Validate_def split: sum.splits)

text \<open>
  Parsing always returns: the range loop leaves by its own condition, whatever the step, so
  the fuel of the model is never spent.
\<close>

theorem parse_loop_terminates:
  assumes "b \<in> set bounds"
  shows "parseField field b \<noteq> Inl Loop_Diverges"
  using assms by (rule parseField_never_diverges)

text \<open>
  A parsed schedule allows exactly the meaning of its fields, and its sets are non-empty and
  inside the ranges of the clock (with Sunday only as 0), provided no step is so large that the
  64-bit counter wraps around.
\<close>

theorem Parse_schedule_meaning:
  assumes "Parse expr = Inr s" "list_all small_steps (Fields (TrimSpace expr))"
  shows "schedule_wf s \<and>
    map2 field_meaning bounds (Fields (TrimSpace expr)) =
      map Some [Sch_minutes s, Sch_hours s, Sch_days s, Sch_months s, Sch_weekdays s]"
proof -
  let ?fs = "Fields (TrimSpace expr)"
  have m: "list_all2 (\<lambda>f b. field_meaning b f \<noteq> None) ?fs bounds"
    using assms(1) Parse_Inr by blast
  then obtain a b c d e where fs: "?fs = [a, b, c, d, e]"
    using five [of ?fs] list_all2_lengthD [OF m] by (auto simp: bounds_def)
  have ex: "Parse expr = Inr
    \<lparr>Sch_minutes = the (field_meaning (bounds ! 0) a), Sch_hours = the (field_meaning (bounds ! 1) b),
     Sch_days = the (field_meaning (bounds ! 2) c), Sch_months = the (field_meaning (bounds ! 3) d),
     Sch_weekdays = the (field_meaning (bounds ! 4) e),
     Sch_domIsStar = HasPrefix c ''*'', Sch_dowIsStar = HasPrefix e ''*''\<rparr>"
    using fs m assms(2) by (intro Parse_exact) simp_all
  have ok: "S \<noteq> {} \<and> S \<subseteq> field_values (bounds ! i)"
    if "i < 5" "field_meaning (bounds ! i) (?fs ! i) = Some S" for i S
    using that fs assms(2) parseField_exact(2,3) [of "bounds ! i" "?fs ! i" S]
    by (metis length_bounds list_all2_lengthD list_all_length m nth_mem)
  obtain A B C D E where "field_meaning (bounds ! 0) a = Some A" "field_meaning (bounds ! 1) b = Some B"
    "field_meaning (bounds ! 2) c = Some C" "field_meaning (bounds ! 3) d = Some D"
    "field_meaning (bounds ! 4) e = Some E"
    using m fs by (auto simp: bounds_def)
  with ok [of 0] ok [of 1] ok [of 2] ok [of 3] ok [of 4] ex assms(1) fs show ?thesis
    by (simp add: schedule_wf_def field_values_def bounds_def)
qed

text \<open>
  C39. From an instant that is not itself a whole minute, the next run of an expression is the first
  whole minute at or after it that matches the schedule: whenever such a minute exists within the
  following 366 days, \<open>NextAfter\<close> finds one, it matches, and no earlier minute does.
\<close>

theorem Next_least_match:
  assumes "Parse expr = Inr s" "\<not> Minute dvd from"
    "from \<le> u" "u \<le> from + 366 * 86400 * Second" "Minute dvd u" "matches loc s u"
  shows "\<exists>t. NextAfter loc expr from = Some t \<and> from \<le> t \<and> t \<le> u \<and> Minute dvd t \<and> matches loc s t \<and>
    (\<forall>v. from \<le> v \<and> v < t \<and> Minute dvd v \<longrightarrow> \<not> matches loc s v)"
proof -
  have u: "from < u" "u \<le> from + 31622400 * Second" using assms(2-5) by (auto simp: order_le_less)
  then have "Next loc s from \<noteq> None" using assms(5,6) unfolding Next_None by blast
  then obtain t where t: "Next loc s from = Some t" by blast
  then have r: "is_next_run loc s from t" by (simp only: Next_iff)
  then have "t \<le> u" using assms(5,6) u(1) unfolding is_next_run_def by (meson not_le)
  moreover have "\<not> matches loc s v" if "from \<le> v" "v < t" "Minute dvd v" for v
    using r that assms(2) unfolding is_next_run_def by (metis order_le_less)
  ultimately show ?thesis using r t assms(1) unfolding is_next_run_def by (auto simp: NextAfter_def)
qed

theorem Next_least_match_witness:
  "\<exists>t. NextAfter UTC (daily_expr 6 30) 1 = Some t \<and> t \<le> 23400 * Second"
proof -
  define s where "s = \<lparr>Sch_minutes = {30}, Sch_hours = {6}, Sch_days = {1..31}, Sch_months = {1..12},
     Sch_weekdays = {0..6}, Sch_domIsStar = True, Sch_dowIsStar = True\<rparr>"
  have "Parse (daily_expr 6 30) = Inr s" using Parse_daily [of 6 30] by (simp add: s_def)
  moreover have "matches UTC s (23400 * Second)" unfolding s_def by code_simp
  ultimately show ?thesis using Next_least_match [of "daily_expr 6 30" s 1 "23400 * Second" UTC] by auto
qed

text \<open>
  The expression \<open>m h * * *\<close> parses for every hour and minute of the day, and from any instant
  its next run in UTC exists, is at most 24 hours away and is at that hour and minute.
\<close>

theorem NextAfter_daily:
  assumes "h < 24" "m < 60"
  shows "\<exists>t. NextAfter UTC (daily_expr h m) from = Some t \<and> from < t \<and> t \<le> from + 86400 * Second \<and>
    Clk_Hour (read_clock UTC t) = int h \<and> Clk_Minute (read_clock UTC t) = int m"
proof -
  define s where "s = \<lparr>Sch_minutes = {int m}, Sch_hours = {int h}, Sch_days = {1..31}, Sch_months = {1..12},
     Sch_weekdays = {0..6}, Sch_domIsStar = True, Sch_dowIsStar = True\<rparr>"
  obtain u where u: "from < u" "u \<le> from + 86400 * Second" "Minute dvd u"
    "Clk_Minute (read_clock UTC u) = int m" "Clk_Hour (read_clock UTC u) = int h"
    using daily_instant [OF assms] .
  have m: "matches UTC s u" unfolding s_def matches_daily using u by blast
  have "u \<le> from + 31622400 * Second" using u(2) by linarith
  with u m have "Next UTC s from \<noteq> None" unfolding Next_None by blast
  then obtain t where t: "Next UTC s from = Some t" by blast
  have r: "is_next_run UTC s from t" using Next_Some [OF t] .
  have "t \<le> u" using r m u(1,3) unfolding is_next_run_def by (meson not_le)
  moreover have "NextAfter UTC (daily_expr h m) from = Some t"
    using t by (simp add: NextAfter_def Parse_daily [OF assms] s_def)
  moreover have "Clk_Minute (read_clock UTC t) = int m \<and> Clk_Hour (read_clock UTC t) = int h" "from < t"
    using r unfolding is_next_run_def s_def matches_daily by blast+
  ultimately show ?thesis using u(2) by (intro exI [of _ t]) auto
qed

text \<open>
  The search window is too short for a yearly date that exists only in leap years: from the
  first of January 2025 the schedule \<open>0 0 29 2 *\<close> is reported as having no next run, although it
  matches midnight of the 29th of February 2028.
\<close>

lemma leap_day_schedule_missed:
  "NextAfter UTC ''0 0 29 2 *'' (1735689600 * Second) = None \<and>
   (\<exists>s. Parse ''0 0 29 2 *'' = Inr s \<and> matches UTC s (1835395200 * Second))"
proof -
  define s where "s = \<lparr>Sch_minutes = {0}, Sch_hours = {0}, Sch_days = {29}, Sch_months = {2},
     Sch_weekdays = {0..6}, Sch_domIsStar = False, Sch_dowIsStar = True\<rparr>"
  have "show_nat 0 = ''0''" "show_nat 29 = ''29''" "show_nat 2 = ''2''"
    by code_simp+
  then have f: "field_meaning (bounds ! 0) ''0'' = Some {0}" "field_meaning (bounds ! 1) ''0'' = Some {0}"
    "field_meaning (bounds ! 2) ''29'' = Some {29}" "field_meaning (bounds ! 3) ''2'' = Some {2}"
    "field_meaning (bounds ! 4) ''*'' = Some {0..6}"
    using field_meaning_number [of "bounds ! 0" 0] field_meaning_number [of "bounds ! 1" 0]
      field_meaning_number [of "bounds ! 2" 29] field_meaning_number [of "bounds ! 3" 2]
    by (simp_all add: field_meaning_star bounds_def field_values_def)
  have p: "Parse ''0 0 29 2 *'' = Inr s"
    using Parse_exact [of "''0 0 29 2 *''" "''0''" "''0''" "''29''" "''2''" "''*''"] f
    by (simp add: s_def TrimSpace_def Fields_def is_space_def small_steps_plain HasPrefix_def)
      (simp add: bounds_def)
  have "\<not> matches UTC s u" if u: "1735689600 * Second < u" "u \<le> 1735689600 * Second + 31622400 * Second" for u
  proof -
    have "20089 \<le> u div Second div 86400" "u div Second div 86400 \<le> 20455" using u by linarith+
    note no = no_leap_day_in_2025 [OF this]
    obtain y m d where dt: "date_of_day (u div Second div 86400) = (y, m, d)" by (metis prod_cases3)
    then have "Clk_Day (read_clock UTC u) = int d" "Clk_Month (read_clock UTC u) = int m"
      by (simp_all only: read_clock_def UTC_def clock_of_second_def Let_def add_0_right prod.case) simp_all
    then show ?thesis using no dt by (auto simp: s_def matches_def dayMatches_def Let_def)
  qed
  then have "Next UTC s (1735689600 * Second) = None" unfolding Next_None by blast
  moreover have "matches UTC s (1835395200 * Second)" unfolding s_def by code_simp
  ultimately show ?thesis using p by (simp add: NextAfter_def)
qed

text \<open>
  With a huge step the 64-bit counter of the range loop wraps around, so the range \<open>10-20\<close> of
  the minute field comes to allow the minutes 6 and 2, which lie outside it, and negative values.
\<close>

lemma huge_step_escapes_range:
  "parseField ''10-20/9223372036854775806'' (bounds ! 0) =
     Inr {10, -9223372036854775800, 6, -9223372036854775804, 2, -9223372036854775808, -2}"
  by (simp add: parseField_def parsePart_def splitStep_def parseRange_def parseBounded_def Atoi_def
      Atoi_unsigned_def is_digit_def digit_val_def in_int64_def bounds_def record_value_def wrap64_def
      insert_commute)

end
