(* ===== verification/PxfPolicy.thy ===== *)
theory PxfPolicy
  imports Prelude
begin

text \<open>
  The write-capability policy of PXF profiles, \<^verbatim>\<open>internal/pxfpolicy/policy.go\<close>, and the profile
  allow-list of the validating webhook (\<^verbatim>\<open>isValidPxfProfile\<close> and \<^verbatim>\<open>isCustomConnectorProfile\<close> of
  \<^verbatim>\<open>internal/webhook/validating.go\<close>), which parses profiles the same way. A Go set
  \<^verbatim>\<open>map[string]struct{}\<close> is a list of its keys.
\<close>

section \<open>Model\<close>

abbreviation ModeWritable :: string where "ModeWritable \<equiv> ''writable''"
abbreviation FormatText :: string where "FormatText \<equiv> ''text''"
abbreviation FormatParquet :: string where "FormatParquet \<equiv> ''parquet''"
abbreviation FormatAvro :: string where "FormatAvro \<equiv> ''avro''"
abbreviation FormatJSON :: string where "FormatJSON \<equiv> ''json''"
abbreviation FormatORC :: string where "FormatORC \<equiv> ''orc''"
abbreviation FormatSequenceFile :: string where "FormatSequenceFile \<equiv> ''sequencefile''"

definition WritableFormats :: "string list" where
  "WritableFormats = [FormatText, FormatParquet, FormatAvro, FormatSequenceFile]"

definition bareWritableProfiles :: "string list" where
  "bareWritableProfiles = [''jdbc'']"

definition readOnlySchemes :: "string list" where
  "readOnlySchemes = [''hive'', ''hbase'']"

definition IsProfileWritable :: "string \<Rightarrow> bool" where
  "IsProfileWritable profile =
     (if profile = [] then False
      else case Cut (ToLower profile) CHR '':'' of (scheme, format, hasSep) \<Rightarrow>
        if scheme \<in> set readOnlySchemes then False
        else if \<not> hasSep then scheme \<in> set bareWritableProfiles
        else format \<in> set WritableFormats)"

definition objectStoreFormats :: "string list" where
  "objectStoreFormats = [FormatText, FormatParquet, FormatAvro, FormatJSON, FormatORC]"

definition hdfsFormats :: "string list" where
  "hdfsFormats = objectStoreFormats @ [FormatSequenceFile]"

definition pxfProfileSchemes :: "string \<Rightarrow> string list option" where
  "pxfProfileSchemes = map_of [
     (''s3'', objectStoreFormats), (''gs'', objectStoreFormats), (''abfss'', objectStoreFormats),
     (''wasbs'', objectStoreFormats), (''hdfs'', hdfsFormats),
     (''hive'', [[], FormatText, FormatORC, ''rc'']), (''jdbc'', [[]]), (''hbase'', [[]])]"

definition isValidPxfProfile :: "string \<Rightarrow> bool" where
  "isValidPxfProfile profile =
     (if profile = [] then False
      else case Cut (ToLower profile) CHR '':'' of (scheme, format, hasSep) \<Rightarrow>
        (case pxfProfileSchemes scheme of None \<Rightarrow> False
         | Some formats \<Rightarrow> if \<not> hasSep then [] \<in> set formats else format \<in> set formats))"

definition pxfCustomConnectorSchemes :: "string list" where
  "pxfCustomConnectorSchemes = [''kafka'', ''rabbitmq'']"

definition isCustomConnectorProfile :: "string \<Rightarrow> bool" where
  "isCustomConnectorProfile profile =
     (if profile = [] then False
      else fst (Cut (ToLower profile) CHR '':'') \<in> set pxfCustomConnectorSchemes)"

text \<open>
  The documented matrix, row by row: the profiles (in lower case) for which a writable external
  table exists.
\<close>

definition documented_writable :: "string list" where
  "documented_writable =
     ''jdbc'' # [scheme @ '':'' @ format. scheme \<leftarrow> [''s3'', ''gs'', ''abfss'', ''wasbs''],
                                        format \<leftarrow> [FormatText, FormatParquet, FormatAvro]]
     @ [''hdfs:'' @ format. format \<leftarrow> [FormatText, FormatParquet, FormatAvro, FormatSequenceFile]]"

section \<open>Lemmas\<close>

lemma lower_char_idem [simp]: "lower_char (lower_char c) = lower_char c"
  by (simp add: lower_char_def)

lemma ToLower_idem [simp]: "ToLower (ToLower s) = ToLower s"
  by (simp add: ToLower_def)

lemma ToLower_Nil [simp]: "ToLower s = [] \<longleftrightarrow> s = []"
  by (simp add: ToLower_def)

lemma Cut_join: "Cut s sep = (a, b, True) \<Longrightarrow> s = a @ sep # b"
  by (induction s arbitrary: a) (auto split: prod.splits if_splits)

lemma Cut_no: "Cut s sep = (a, b, False) \<Longrightarrow> s = a \<and> b = [] \<and> sep \<notin> set s"
  by (induction s arbitrary: a) (auto split: prod.splits if_splits)

lemma Cut_scheme: "Cut s sep = (a, b, f) \<Longrightarrow> sep \<notin> set a"
  by (induction s arbitrary: a) (auto split: prod.splits if_splits)

text \<open>The policies look at the lower-cased profile only.\<close>

lemma case_insensitive:
  "IsProfileWritable (ToLower p) = IsProfileWritable p" "isValidPxfProfile (ToLower p) = isValidPxfProfile p"
  "isCustomConnectorProfile (ToLower p) = isCustomConnectorProfile p"
  by (simp_all add: IsProfileWritable_def isValidPxfProfile_def isCustomConnectorProfile_def)

lemma profile_schemes_distinct:
  "pxfProfileSchemes scheme = Some formats \<Longrightarrow> scheme \<notin> set pxfCustomConnectorSchemes"
  by (auto simp: pxfProfileSchemes_def pxfCustomConnectorSchemes_def split: if_splits)

lemma valid_writable_forward:
  assumes "isValidPxfProfile p" "IsProfileWritable p"
  shows "ToLower p \<in> set documented_writable"
proof -
  obtain scheme format hasSep where cut: "Cut (ToLower p) CHR '':'' = (scheme, format, hasSep)"
    by (metis prod_cases3)
  show ?thesis
  proof (cases hasSep)
    case True
    then have "ToLower p = scheme @ CHR '':'' # format" using Cut_join cut by simp
    moreover have "(scheme, format) \<in> set [(s, f). s \<leftarrow> [''s3'', ''gs'', ''abfss'', ''wasbs''],
        f \<leftarrow> [FormatText, FormatParquet, FormatAvro]] \<or>
      scheme = ''hdfs'' \<and> format \<in> set [FormatText, FormatParquet, FormatAvro, FormatSequenceFile]"
      using assms cut True
      by (auto simp: IsProfileWritable_def isValidPxfProfile_def pxfProfileSchemes_def WritableFormats_def
          objectStoreFormats_def hdfsFormats_def readOnlySchemes_def split: if_splits)
    ultimately show ?thesis by (auto simp: documented_writable_def)
  next
    case False
    then have "ToLower p = scheme" using Cut_no cut by simp
    then show ?thesis
      using assms cut False
      by (auto simp: IsProfileWritable_def bareWritableProfiles_def documented_writable_def split: if_splits)
  qed
qed

lemma valid_writable_backward:
  assumes "ToLower p \<in> set documented_writable"
  shows "isValidPxfProfile p \<and> IsProfileWritable p"
proof -
  have "\<forall>q \<in> set documented_writable. ToLower q = q \<and> isValidPxfProfile q \<and> IsProfileWritable q"
    by code_simp
  with assms show ?thesis by (metis case_insensitive(1,2))
qed

section \<open>Properties\<close>

text \<open>
  Among the profiles the webhook recognises, those that may be written are exactly the rows of
  the documented matrix: jdbc, the text, parquet and avro formats of the object stores, and these
  plus SequenceFile on HDFS, in any mixture of upper and lower case.
\<close>

theorem writable_profiles_match_matrix:
  "isValidPxfProfile p \<and> IsProfileWritable p \<longleftrightarrow> ToLower p \<in> set documented_writable"
  using valid_writable_forward valid_writable_backward by blast

text \<open>
  A streaming profile is never also a built-in one, so the two allow-lists of the webhook
  cannot both apply to a job.
\<close>

lemma streaming_profiles_not_builtin:
  "\<not> (isValidPxfProfile p \<and> isCustomConnectorProfile p)"
  by (auto simp: isValidPxfProfile_def isCustomConnectorProfile_def
      split: if_splits prod.splits option.splits dest: profile_schemes_distinct)

end
