(* ===== verification/Validation.thy ===== *)
theory Validation
  imports Samples Cron PxfPolicy
begin

text \<open>
  The validating admission webhook, \<^verbatim>\<open>internal/webhook/validating.go\<close>: one definition per
  function of the source. An error is a value of \<open>verror\<close>, one constructor per
  \<^verbatim>\<open>fmt.Errorf\<close> of the source with the index and the values its message prints; a warning is a
  value of \<open>vwarning\<close>. The functions that append to \<^verbatim>\<open>*warnings\<close> take the warnings so far and
  return them with the verdict. The client that lists the clusters is an argument.
\<close>

section \<open>Model\<close>

datatype core_error =
    Err_AffinityMode string
  | Err_AffinityType string
  | Err_SegmentsCount int
  | Err_OIDCIssuerURL
  | Err_OIDCClientID
  | Err_VaultAddress
  | Err_DeletionPolicy string
  | Err_CoordinatorStorageSize
  | Err_SegmentsStorageSize
  | Err_SamplingInterval

datatype workload_error =
    Err_IOLimitTablespaceRequired nat nat
  | Err_IOLimitTablespaceInvalid nat nat string
  | Err_ResourceGroupName nat
  | Err_RuleName nat
  | Err_RuleAction nat
  | Err_IdleRuleName nat
  | Err_IdleRuleResourceGroup nat
  | Err_IdleRuleTimeout nat

datatype backup_error =
    Err_BackupSchedule cron_error
  | Err_BackupImage
  | Err_BackupDestinationTypeRequired
  | Err_BackupDestinationType string
  | Err_BackupS3Bucket
  | Err_BackupS3Credentials
  | Err_VaultSecretPathEmpty
  | Err_VaultSecretPathSlash string
  | Err_CompressionLevel int
  | Err_CompressionType string
  | Err_CopyQueueSize
  | Err_JobsSingleDataFile
  | Err_IncrementalLeafPartition
  | Err_GprestoreDataMetadata

datatype scan_error =
    Err_BloatThreshold int
  | Err_SkewThreshold int
  | Err_IndexBloatThreshold int
  | Err_AgeThreshold int
  | Err_ScanDuration string

datatype mirroring_error =
    Err_MirroringLayoutChange string string
  | Err_MirroringPhase string
  | Err_GroupMirroring int int int
  | Err_SpreadMirroring int int

text \<open>The errors of one PXF server and of one data-loading job; \<open>verror\<close> adds the index.\<close>

datatype server_error =
    Err_ServerNameRequired
  | Err_ServerNameDuplicate string
  | Err_ServerType string
  | Err_KerberosUnsupported string
  | Err_KerberosPrincipal
  | Err_KeytabName
  | Err_KeytabKey
  | Err_CustomServerConnector string
  | Err_S3Endpoint string
  | Err_S3CredentialSecrets
  | Err_JDBCDriver
  | Err_JDBCURL
  | Err_DefaultFS

datatype pxfjob_error =
    Err_PxfJobRequired
  | Err_PxfJobServer string
  | Err_PxfJobProfile string
  | Err_PxfJobConnectorProfile string string
  | Err_BatchSize int
  | Err_FlushInterval string
  | Err_ProfileNotWritable string
  | Err_LoadMethod string
  | Err_FDWWritable
  | Err_FDWContinuous
  | Err_SourceFilterMode
  | Err_SourceFilterUnsafe string
  | Err_PxfJobTargetTable
  | Err_Partitioning
  | Err_SegmentRejectLimitType string

datatype gpload_error =
    Err_GploadTargetTable
  | Err_GploadFilePath nat
  | Err_GploadInputType
  | Err_GploadInputHostPort
  | Err_GploadDelimiter
  | Err_GploadMatchColumns string
  | Err_GploadPostAction nat string

datatype job_error =
    Err_JobNameRequired
  | Err_JobNameDuplicate string
  | Err_JobType string
  | Err_JobSchedule cron_error
  | Err_ContinuousScheduled
  | Err_PxfJob pxfjob_error
  | Err_GploadJob gpload_error

datatype verror =
    Err_AdmissionInternal string
  | Err_DuplicateName string string
  | Err_Core core_error
  | Err_Workload workload_error
  | Err_Backup backup_error
  | Err_Scan scan_error
  | Err_Mirroring mirroring_error
  | Err_PxfImage
  | Err_Server nat server_error
  | Err_Job nat job_error

datatype vwarning =
    Warn_AffinityBestEffort
  | Warn_SpreadHosts
  | Warn_VaultDataPath string string
  | Warn_SpreadMarginal

type_synonym 'e verdict = "vwarning list \<times> 'e option"

text \<open>
  \<open>run_checks\<close> is the chain \<^verbatim>\<open>if err := f(cluster, &warnings); err != nil { return warnings, err }\<close>;
  \<open>no_warnings\<close> lifts a check that does not touch the warnings.
\<close>

fun run_checks :: "(vwarning list \<Rightarrow> 'e verdict) list \<Rightarrow> vwarning list \<Rightarrow> 'e verdict" where
  "run_checks [] ws = (ws, None)"
| "run_checks (f # fs) ws =
     (case f ws of (ws', Some e) \<Rightarrow> (ws', Some e) | (ws', None) \<Rightarrow> run_checks fs ws')"

definition no_warnings :: "'e option \<Rightarrow> vwarning list \<Rightarrow> 'e verdict" where
  "no_warnings e ws = (ws, e)"

text \<open>Wrapping the error of a part as an error of the whole.\<close>

definition lift_check :: "('e \<Rightarrow> 'f) \<Rightarrow> (vwarning list \<Rightarrow> 'e verdict) \<Rightarrow> vwarning list \<Rightarrow> 'f verdict" where
  "lift_check wrap f ws = (case f ws of (ws', e) \<Rightarrow> (ws', map_option wrap e))"

subsection \<open>Core checks\<close>

definition validateAffinity :: "CloudberryCluster \<Rightarrow> vwarning list \<Rightarrow> core_error verdict" where
  "validateAffinity cluster warnings =
     (case Spec_Affinity (CC_Spec cluster) of None \<Rightarrow> (warnings, None)
      | Some aff \<Rightarrow>
          if Aff_Mode aff \<notin> {[], ClusterAntiAffinityModeSegmentMirror, ClusterAntiAffinityModeFull}
          then (warnings, Some (Err_AffinityMode (Aff_Mode aff)))
          else if Aff_Type aff \<notin> {[], AntiAffinityPreferred, AntiAffinityRequired}
          then (warnings, Some (Err_AffinityType (Aff_Type aff)))
          else
            (let segmentModeActive = (Aff_Mode aff = ClusterAntiAffinityModeSegmentMirror \<or>
                                      Aff_Mode aff = ClusterAntiAffinityModeFull)
             in if Aff_Type aff = AntiAffinityRequired \<and> segmentModeActive
                then (warnings @ [Warn_AffinityBestEffort], None) else (warnings, None)))"

definition validateSegments :: "CloudberryCluster \<Rightarrow> vwarning list \<Rightarrow> core_error verdict" where
  "validateSegments cluster warnings =
     (let seg = Spec_Segments (CC_Spec cluster)
      in if Seg_Count seg < 1 then (warnings, Some (Err_SegmentsCount (Seg_Count seg)))
         else case Seg_Mirroring seg of None \<Rightarrow> (warnings, None)
         | Some mirroring \<Rightarrow>
             if Mir_Enabled mirroring \<and> Mir_Layout mirroring = MirroringLayoutSpread
             then (let primariesPerHost =
                         (if Seg_PrimariesPerHost seg = 0 then 2 else Seg_PrimariesPerHost seg)
                   in if Seg_Count seg \<le> primariesPerHost
                      then (warnings @ [Warn_SpreadHosts], None) else (warnings, None))
             else (warnings, None))"

definition validateOIDC :: "CloudberryCluster \<Rightarrow> core_error option" where
  "validateOIDC cluster =
     (case Spec_Auth (CC_Spec cluster) of None \<Rightarrow> None
      | Some auth \<Rightarrow>
          (case Auth_OIDC auth of None \<Rightarrow> None
           | Some oidc \<Rightarrow>
               if \<not> OIDC_Enabled oidc then None
               else first_err [
                 reject (OIDC_IssuerURL oidc = []) Err_OIDCIssuerURL,
                 reject (OIDC_ClientID oidc = []) Err_OIDCClientID]))"

definition validateVault :: "CloudberryCluster \<Rightarrow> core_error option" where
  "validateVault cluster =
     (case Spec_Vault (CC_Spec cluster) of None \<Rightarrow> None
      | Some vault \<Rightarrow> reject (Vault_Enabled vault \<and> Vault_Address vault = []) Err_VaultAddress)"

definition validateDeletionPolicy :: "CloudberryCluster \<Rightarrow> core_error option" where
  "validateDeletionPolicy cluster =
     (let dp = Spec_DeletionPolicy (CC_Spec cluster)
      in reject (dp \<noteq> [] \<and> dp \<noteq> DeletionPolicyRetain \<and> dp \<noteq> DeletionPolicyDelete) (Err_DeletionPolicy dp))"

definition validateStorage :: "CloudberryCluster \<Rightarrow> core_error option" where
  "validateStorage cluster = first_err [
     reject (Storage_Size (Coord_Storage (Spec_Coordinator (CC_Spec cluster))) = []) Err_CoordinatorStorageSize,
     reject (Storage_Size (Seg_Storage (Spec_Segments (CC_Spec cluster))) = []) Err_SegmentsStorageSize]"

subsection \<open>Workload and query monitoring\<close>

text \<open>The regular expression \<^verbatim>\<open>^[A-Za-z_][A-Za-z0-9_]*$|^\*$\<close>.\<close>

definition ident_start :: "char \<Rightarrow> bool" where
  "ident_start c \<longleftrightarrow>
     (let n = (of_char c :: nat) in (65 \<le> n \<and> n \<le> 90) \<or> (97 \<le> n \<and> n \<le> 122) \<or> c = CHR ''_'')"

definition tablespacePattern :: "string \<Rightarrow> bool" where
  "tablespacePattern s \<longleftrightarrow>
     (case s of [] \<Rightarrow> False
      | c # r \<Rightarrow> ident_start c \<and> list_all (\<lambda>d. ident_start d \<or> is_digit d) r) \<or> s = ''*''"

definition validateResourceGroupIOLimits :: "nat \<Rightarrow> TablespaceIOLimitSpec list \<Rightarrow> workload_error option" where
  "validateResourceGroupIOLimits rgIndex = check_all (\<lambda>j ioLimit. first_err [
     reject (IOL_Tablespace ioLimit = []) (Err_IOLimitTablespaceRequired rgIndex j),
     reject (\<not> tablespacePattern (IOL_Tablespace ioLimit))
       (Err_IOLimitTablespaceInvalid rgIndex j (IOL_Tablespace ioLimit))]) 0"

definition validateWorkload :: "CloudberryCluster \<Rightarrow> workload_error option" where
  "validateWorkload cluster =
     (case Spec_Workload (CC_Spec cluster) of None \<Rightarrow> None
      | Some w \<Rightarrow>
          if \<not> WL_Enabled w then None
          else first_err [
            check_all (\<lambda>i rg. first_err [
              reject (RG_Name rg = []) (Err_ResourceGroupName i),
              validateResourceGroupIOLimits i (RG_IOLimits rg)]) 0 (WL_ResourceGroups w),
            check_all (\<lambda>i rule. first_err [
              reject (WR_Name rule = []) (Err_RuleName i),
              reject (WR_Action rule = []) (Err_RuleAction i)]) 0 (WL_Rules w),
            check_all (\<lambda>i rule. first_err [
              reject (ISR_Name rule = []) (Err_IdleRuleName i),
              reject (ISR_ResourceGroup rule = []) (Err_IdleRuleResourceGroup i),
              reject (ISR_IdleTimeout rule = []) (Err_IdleRuleTimeout i)]) 0 (WL_IdleRules w)])"

definition validateQueryMonitoring :: "CloudberryCluster \<Rightarrow> core_error option" where
  "validateQueryMonitoring cluster =
     (case Spec_QueryMonitoring (CC_Spec cluster) of None \<Rightarrow> None
      | Some q \<Rightarrow> if \<not> QM_Enabled q then None else reject (QM_SamplingInterval q < 0) Err_SamplingInterval)"

subsection \<open>Backup\<close>

abbreviation backupDestinationTypeS3 :: string where "backupDestinationTypeS3 \<equiv> ''s3''"
abbreviation backupDestinationTypeLocal :: string where "backupDestinationTypeLocal \<equiv> ''local''"

text \<open>\<^verbatim>\<open>strings.SplitN(path, "/", 3)\<close>.\<close>

definition SplitN3 :: "string \<Rightarrow> string list" where
  "SplitN3 path =
     (case Cut path CHR ''/'' of (a, rest, found) \<Rightarrow>
        if \<not> found then [a]
        else case Cut rest CHR ''/'' of (b, c, found2) \<Rightarrow> if found2 then [a, b, c] else [a, b])"

definition validateS3VaultSecretPath :: "string \<Rightarrow> vwarning list \<Rightarrow> backup_error verdict" where
  "validateS3VaultSecretPath path warnings =
     (if path = [] then (warnings, Some Err_VaultSecretPathEmpty)
      else if HasPrefix path ''/'' then (warnings, Some (Err_VaultSecretPathSlash path))
      else
        (let segments = SplitN3 path
         in if length segments \<ge> 2 \<and> segments ! 1 = ''data''
            then (warnings @ [Warn_VaultDataPath path (segments ! 0 @ ''/'' @ last segments)], None)
            else (warnings, None)))"

definition validateBackupDestination :: "BackupDestination \<Rightarrow> vwarning list \<Rightarrow> backup_error verdict" where
  "validateBackupDestination dest warnings =
     (if Dest_Type dest = [] then (warnings, Some Err_BackupDestinationTypeRequired)
      else if Dest_Type dest \<noteq> backupDestinationTypeS3 \<and> Dest_Type dest \<noteq> backupDestinationTypeLocal
      then (warnings, Some (Err_BackupDestinationType (Dest_Type dest)))
      else if Dest_Type dest \<noteq> backupDestinationTypeS3 then (warnings, None)
      else case Dest_S3 dest of None \<Rightarrow> (warnings, Some Err_BackupS3Bucket)
      | Some s3 \<Rightarrow>
          if S3_Bucket s3 = [] then (warnings, Some Err_BackupS3Bucket)
          else
            (let hasSecret = (case S3_CredentialSecret s3 of None \<Rightarrow> False | Some c \<Rightarrow> SCS_Name c \<noteq> []);
                 hasVault = (case S3_VaultSecret s3 of None \<Rightarrow> False | Some v \<Rightarrow> SVS_Path v \<noteq> [])
             in if \<not> hasSecret \<and> \<not> hasVault then (warnings, Some Err_BackupS3Credentials)
                else case S3_VaultSecret s3 of None \<Rightarrow> (warnings, None)
                | Some v \<Rightarrow> validateS3VaultSecretPath (SVS_Path v) warnings))"

definition validateBackupGpbackup :: "GpbackupOptions option \<Rightarrow> backup_error option" where
  "validateBackupGpbackup gpb =
     (case gpb of None \<Rightarrow> None
      | Some gp \<Rightarrow> first_err [
          reject (Gpb_CompressionLevel gp < 1 \<or> Gpb_CompressionLevel gp > 9)
            (Err_CompressionLevel (Gpb_CompressionLevel gp)),
          reject (Gpb_CompressionType gp \<noteq> [] \<and> Gpb_CompressionType gp \<noteq> ''gzip'' \<and>
              Gpb_CompressionType gp \<noteq> ''zstd'') (Err_CompressionType (Gpb_CompressionType gp)),
          reject (Gpb_CopyQueueSize gp > 0 \<and> \<not> Gpb_SingleDataFile gp) Err_CopyQueueSize,
          reject (Gpb_Jobs gp > 1 \<and> Gpb_SingleDataFile gp) Err_JobsSingleDataFile,
          reject (Gpb_Incremental gp \<and> \<not> Gpb_LeafPartitionData gp) Err_IncrementalLeafPartition])"

definition validateBackupGprestore :: "GprestoreOptions option \<Rightarrow> backup_error option" where
  "validateBackupGprestore gpr =
     (case gpr of None \<Rightarrow> None
      | Some gr \<Rightarrow> reject (Gpr_DataOnly gr \<and> Gpr_MetadataOnly gr) Err_GprestoreDataMetadata)"

definition validateBackup :: "CloudberryCluster \<Rightarrow> vwarning list \<Rightarrow> backup_error verdict" where
  "validateBackup cluster warnings =
     (case Spec_Backup (CC_Spec cluster) of None \<Rightarrow> (warnings, None)
      | Some backup \<Rightarrow>
          if \<not> Backup_Enabled backup then (warnings, None)
          else run_checks [
            validateBackupDestination (Backup_Destination backup),
            no_warnings (validateBackupGpbackup (Backup_Gpbackup backup)),
            no_warnings (validateBackupGprestore (Backup_Gprestore backup)),
            no_warnings (if Backup_Schedule backup = [] then None
              else map_option Err_BackupSchedule (validateCron (Backup_Schedule backup))),
            no_warnings (reject (Backup_Image backup = []) Err_BackupImage)] warnings)"

subsection \<open>Storage management\<close>

definition validateStorageManagement :: "CloudberryCluster \<Rightarrow> scan_error option" where
  "validateStorageManagement cluster =
     (case Spec_Storage (CC_Spec cluster) of None \<Rightarrow> None
      | Some st \<Rightarrow>
          (case SM_RecommendationScan st of None \<Rightarrow> None
           | Some scan \<Rightarrow>
               if \<not> Scan_Enabled scan then None
               else first_err [
                 reject (Scan_BloatThreshold scan < 0 \<or> Scan_BloatThreshold scan > 100)
                   (Err_BloatThreshold (Scan_BloatThreshold scan)),
                 reject (Scan_SkewThreshold scan < 0 \<or> Scan_SkewThreshold scan > 100)
                   (Err_SkewThreshold (Scan_SkewThreshold scan)),
                 reject (Scan_IndexBloatThreshold scan < 0 \<or> Scan_IndexBloatThreshold scan > 100)
                   (Err_IndexBloatThreshold (Scan_IndexBloatThreshold scan)),
                 reject (Scan_AgeThreshold scan < 0) (Err_AgeThreshold (Scan_AgeThreshold scan)),
                 reject (Scan_ScanDuration scan \<noteq> [] \<and> ParseDuration (Scan_ScanDuration scan) = None)
                   (Err_ScanDuration (Scan_ScanDuration scan))]))"

subsection \<open>Mirroring transitions\<close>

definition isMirroringEnabled :: "CloudberryCluster \<Rightarrow> bool" where
  "isMirroringEnabled cluster =
     (case Seg_Mirroring (Spec_Segments (CC_Spec cluster)) of None \<Rightarrow> False | Some m \<Rightarrow> Mir_Enabled m)"

text \<open>
  The layout of a cluster whose mirroring section is present; the source reads it only after
  \<open>isMirroringEnabled\<close>, so the pointer is never nil there.
\<close>

definition mirroring_layout :: "CloudberryCluster \<Rightarrow> MirroringLayout" where
  "mirroring_layout cluster =
     (case Seg_Mirroring (Spec_Segments (CC_Spec cluster)) of None \<Rightarrow> [] | Some m \<Rightarrow> Mir_Layout m)"

definition validateMirroringLayoutChange ::
  "CloudberryCluster \<Rightarrow> CloudberryCluster \<Rightarrow> bool \<Rightarrow> mirroring_error verdict" where
  "validateMirroringLayoutChange oldCluster newCluster bothEnabled =
     (if \<not> bothEnabled then ([], None)
      else (let oldLayout = mirroring_layout oldCluster; newLayout = mirroring_layout newCluster
            in ([], reject (oldLayout \<noteq> newLayout) (Err_MirroringLayoutChange oldLayout newLayout))))"

definition validateNodeCountForMirroring ::
  "MirroringLayout \<Rightarrow> int32 \<Rightarrow> int32 \<Rightarrow> mirroring_error option" where
  "validateNodeCountForMirroring layout segmentCount primariesPerHost =
     (if layout = MirroringLayoutGroup then
        (let minCount = wrap32 (2 * primariesPerHost)
         in reject (segmentCount < minCount) (Err_GroupMirroring minCount primariesPerHost segmentCount))
      else if layout = MirroringLayoutSpread then
        reject (segmentCount \<le> primariesPerHost) (Err_SpreadMirroring primariesPerHost segmentCount)
      else None)"

definition validateMirroringEnable ::
  "CloudberryCluster \<Rightarrow> CloudberryCluster \<Rightarrow> mirroring_error verdict" where
  "validateMirroringEnable oldCluster newCluster =
     (let phase = St_Phase (CC_Status oldCluster); seg = Spec_Segments (CC_Spec newCluster)
      in if phase = [] \<or> phase = ClusterPhaseInitializing then ([], None)
         else if phase \<noteq> ClusterPhaseRunning then ([], Some (Err_MirroringPhase phase))
         else
           (let layout = (if mirroring_layout newCluster = [] then MirroringLayoutGroup
                          else mirroring_layout newCluster);
                primariesPerHost = (if Seg_PrimariesPerHost seg = 0 then 2 else Seg_PrimariesPerHost seg)
            in case validateNodeCountForMirroring layout (Seg_Count seg) primariesPerHost of
                 Some e \<Rightarrow> ([], Some e)
               | None \<Rightarrow>
                   if layout = MirroringLayoutSpread \<and> Seg_Count seg \<le> wrap32 (primariesPerHost + 1)
                   then ([Warn_SpreadMarginal], None) else ([], None)))"

definition validateMirroringTransition ::
  "CloudberryCluster \<Rightarrow> CloudberryCluster \<Rightarrow> mirroring_error verdict" where
  "validateMirroringTransition oldCluster newCluster =
     (let oldEnabled = isMirroringEnabled oldCluster; newEnabled = isMirroringEnabled newCluster
      in if oldEnabled = newEnabled then validateMirroringLayoutChange oldCluster newCluster oldEnabled
         else if \<not> oldEnabled \<and> newEnabled then validateMirroringEnable oldCluster newCluster
         else ([], None))"

subsection \<open>PXF servers\<close>

abbreviation pxfServerTypeCustom :: string where "pxfServerTypeCustom \<equiv> ''custom''"

definition pxfServerTypes :: "string list" where
  "pxfServerTypes =
     [''s3'', ''hdfs'', ''jdbc'', ''hbase'', ''hive'', ''gs'', ''abfss'', ''wasbs'', pxfServerTypeCustom]"

definition pxfObjectStoreServerTypes :: "string list" where
  "pxfObjectStoreServerTypes = [''s3'', ''gs'', ''abfss'', ''wasbs'']"

definition pxfKerberosServerTypes :: "string list" where
  "pxfKerberosServerTypes = [''hdfs'', ''hive'', ''hbase'']"

definition pxfCustomConnectorNames :: "PxfCustomConnector list \<Rightarrow> string set" where
  "pxfCustomConnectorNames connectors = set (map Conn_Name connectors)"

definition validatePxfObjectStoreServer :: "PxfServerSpec \<Rightarrow> server_error option" where
  "validatePxfObjectStoreServer srv = first_err [
     reject (Srv_Config srv ''fs.s3a.endpoint'' = None) (Err_S3Endpoint (Srv_Type srv)),
     reject (Srv_Type srv = ''s3'' \<and> Srv_CredentialSecrets srv = []) Err_S3CredentialSecrets]"

definition validatePxfJDBCServer :: "PxfServerSpec \<Rightarrow> server_error option" where
  "validatePxfJDBCServer srv = first_err [
     reject (Srv_Config srv ''jdbc.driver'' = None) Err_JDBCDriver,
     reject (Srv_Config srv ''jdbc.url'' = None) Err_JDBCURL]"

definition validatePxfHDFSServer :: "PxfServerSpec \<Rightarrow> server_error option" where
  "validatePxfHDFSServer srv = reject (Srv_Config srv ''fs.defaultFS'' = None) Err_DefaultFS"

definition validatePxfServerType :: "PxfServerSpec \<Rightarrow> server_error option" where
  "validatePxfServerType srv =
     (if Srv_Type srv \<notin> set pxfServerTypes then Some (Err_ServerType (Srv_Type srv))
      else if Srv_Type srv = pxfServerTypeCustom then None
      else if Srv_Type srv \<in> set pxfObjectStoreServerTypes then validatePxfObjectStoreServer srv
      else if Srv_Type srv = ''jdbc'' then validatePxfJDBCServer srv
      else if Srv_Type srv = ''hdfs'' then validatePxfHDFSServer srv
      else None)"

definition validatePxfServerKerberos :: "PxfServerSpec \<Rightarrow> server_error option" where
  "validatePxfServerKerberos srv =
     (case Srv_Kerberos srv of None \<Rightarrow> None
      | Some krb \<Rightarrow> first_err [
          reject (Srv_Type srv \<notin> set pxfKerberosServerTypes) (Err_KerberosUnsupported (Srv_Type srv)),
          reject (Krb_Principal krb = []) Err_KerberosPrincipal,
          reject (SR_Name (Krb_KeytabSecret krb) = []) Err_KeytabName,
          reject (SR_Key (Krb_KeytabSecret krb) = []) Err_KeytabKey])"

text \<open>
  One round of the loop over \<^verbatim>\<open>servers\<close>, given the names recorded so far, and the loop, which
  returns the recorded names and the connector-backed ones.
\<close>

definition validatePxfServer :: "string set \<Rightarrow> string set \<Rightarrow> PxfServerSpec \<Rightarrow> server_error option" where
  "validatePxfServer customConnectorNames serverNames srv = first_err [
     reject (Srv_Name srv = []) Err_ServerNameRequired,
     reject (Srv_Name srv \<in> serverNames) (Err_ServerNameDuplicate (Srv_Name srv)),
     validatePxfServerType srv,
     validatePxfServerKerberos srv,
     reject (Srv_Type srv = pxfServerTypeCustom \<and> Srv_Name srv \<notin> customConnectorNames)
       (Err_CustomServerConnector (Srv_Name srv))]"

fun validatePxfServers ::
  "string set \<Rightarrow> nat \<Rightarrow> PxfServerSpec list \<Rightarrow> string set \<Rightarrow> string set \<Rightarrow> verror + (string set \<times> string set)" where
  "validatePxfServers customConnectorNames i [] serverNames connectorBacked = Inr (serverNames, connectorBacked)"
| "validatePxfServers customConnectorNames i (srv # servers) serverNames connectorBacked =
     (case validatePxfServer customConnectorNames serverNames srv of
        Some e \<Rightarrow> Inl (Err_Server i e)
      | None \<Rightarrow> validatePxfServers customConnectorNames (Suc i) servers (insert (Srv_Name srv) serverNames)
          (if Srv_Type srv = pxfServerTypeCustom then insert (Srv_Name srv) connectorBacked else connectorBacked))"

definition validatePxf :: "PxfSpec option \<Rightarrow> verror + (string set \<times> string set)" where
  "validatePxf pxf =
     (case pxf of None \<Rightarrow> Inr ({}, {})
      | Some pxf \<Rightarrow>
          if Pxf_Enabled pxf \<and> Pxf_Image pxf = [] then Inl Err_PxfImage
          else validatePxfServers (pxfCustomConnectorNames (Pxf_CustomConnectors pxf)) 0 (Pxf_Servers pxf) {} {})"

subsection \<open>Data-loading jobs\<close>

abbreviation loadMethodFDW :: string where "loadMethodFDW \<equiv> ''fdw''"

definition is_true :: "bool option \<Rightarrow> bool" where
  "is_true b = (case b of None \<Rightarrow> False | Some v \<Rightarrow> v)"

definition validateStreamingParams :: "PxfJobSpec \<Rightarrow> pxfjob_error option" where
  "validateStreamingParams j = first_err [
     reject (PJ_BatchSize j \<noteq> 0 \<and> PJ_BatchSize j < 1) (Err_BatchSize (PJ_BatchSize j)),
     reject (PJ_FlushInterval j \<noteq> [] \<and> ParseDuration (PJ_FlushInterval j) = None)
       (Err_FlushInterval (PJ_FlushInterval j))]"

definition sqlPredicateForbidden :: "string list" where
  "sqlPredicateForbidden = ['';'', ''--'', ''/*'']"

fun first_contained :: "string list \<Rightarrow> string \<Rightarrow> string" where
  "first_contained [] s = []"
| "first_contained (bad # rest) s = (if Contains s bad then bad else first_contained rest s)"

definition containsUnsafeSQLFragment :: "string \<Rightarrow> string" where
  "containsUnsafeSQLFragment s = first_contained sqlPredicateForbidden s"

definition validateLoadMethod :: "PxfJobSpec \<Rightarrow> pxfjob_error option" where
  "validateLoadMethod j =
     (if PJ_LoadMethod j \<notin> {[], ''external-table'', loadMethodFDW} then Some (Err_LoadMethod (PJ_LoadMethod j))
      else if \<not> EqualFold (PJ_LoadMethod j) loadMethodFDW then None
      else first_err [
        reject (EqualFold (PJ_Mode j) ModeWritable) Err_FDWWritable,
        reject (is_true (PJ_Continuous j)) Err_FDWContinuous])"

definition validateSourceFilter :: "PxfJobSpec \<Rightarrow> pxfjob_error option" where
  "validateSourceFilter j =
     (if PJ_SourceFilter j = [] then None
      else
        (let isWritableExport = EqualFold (PJ_Mode j) ModeWritable;
             isFDWRead = EqualFold (PJ_LoadMethod j) loadMethodFDW \<and> \<not> isWritableExport;
             bad = containsUnsafeSQLFragment (PJ_SourceFilter j)
         in first_err [
              reject (\<not> isWritableExport \<and> \<not> isFDWRead) Err_SourceFilterMode,
              reject (bad \<noteq> []) (Err_SourceFilterUnsafe bad)]))"

definition validatePartitioning :: "PartitioningSpec option \<Rightarrow> pxfjob_error option" where
  "validatePartitioning part =
     (case part of None \<Rightarrow> None
      | Some p \<Rightarrow>
          if Part_Column p = [] then None else reject (Part_Range p = [] \<or> Part_Interval p = []) Err_Partitioning)"

definition validateErrorHandling :: "ErrorHandlingSpec option \<Rightarrow> pxfjob_error option" where
  "validateErrorHandling eh =
     (case eh of None \<Rightarrow> None
      | Some e \<Rightarrow>
          if EH_SegmentRejectLimitType e = [] then None
          else reject (EH_SegmentRejectLimitType e \<noteq> ''rows'' \<and> EH_SegmentRejectLimitType e \<noteq> ''percent'')
            (Err_SegmentRejectLimitType (EH_SegmentRejectLimitType e)))"

definition validatePxfJob :: "PxfJobSpec option \<Rightarrow> string set \<Rightarrow> string set \<Rightarrow> pxfjob_error option" where
  "validatePxfJob pxfJob serverNames connectorBackedServers =
     (case pxfJob of None \<Rightarrow> Some Err_PxfJobRequired
      | Some j \<Rightarrow> first_err [
          reject (PJ_Server j \<notin> serverNames) (Err_PxfJobServer (PJ_Server j)),
          reject (\<not> isValidPxfProfile (PJ_Profile j) \<and> \<not> isCustomConnectorProfile (PJ_Profile j))
            (Err_PxfJobProfile (PJ_Profile j)),
          reject (isCustomConnectorProfile (PJ_Profile j) \<and> PJ_Server j \<notin> connectorBackedServers)
            (Err_PxfJobConnectorProfile (PJ_Profile j) (PJ_Server j)),
          validateStreamingParams j,
          reject (EqualFold (PJ_Mode j) ModeWritable \<and> \<not> IsProfileWritable (PJ_Profile j))
            (Err_ProfileNotWritable (PJ_Profile j)),
          validateLoadMethod j,
          validateSourceFilter j,
          reject (PJ_TargetTable j = []) Err_PxfJobTargetTable,
          validatePartitioning (PJ_Partitioning j),
          validateErrorHandling (PJ_ErrorHandling j)])"

definition validateGploadInputSource :: "GploadInputSourceSpec option \<Rightarrow> gpload_error option" where
  "validateGploadInputSource src =
     (case src of None \<Rightarrow> None
      | Some s \<Rightarrow> first_err [
          reject (GIS_Type s \<noteq> [] \<and> \<not> EqualFold (GIS_Type s) ''gpfdist'' \<and> \<not> EqualFold (GIS_Type s) ''local'')
            Err_GploadInputType,
          reject (EqualFold (GIS_Type s) ''local'' \<and> (GIS_Host s \<noteq> [] \<or> GIS_Port s \<noteq> 0))
            Err_GploadInputHostPort])"

definition validateGploadDelimiter :: "string \<Rightarrow> gpload_error option" where
  "validateGploadDelimiter delimiter =
     (if delimiter = [] then None else reject (RuneCount delimiter \<noteq> 1) Err_GploadDelimiter)"

definition validateGploadMode :: "GploadJobSpec \<Rightarrow> gpload_error option" where
  "validateGploadMode j =
     reject ((EqualFold (GJ_Mode j) ''update'' \<or> EqualFold (GJ_Mode j) ''merge'') \<and> GJ_MatchColumns j = [])
       (Err_GploadMatchColumns (GJ_Mode j))"

definition validateGploadPostActions :: "string list \<Rightarrow> gpload_error option" where
  "validateGploadPostActions = check_all (\<lambda>j action.
     let bad = containsUnsafeSQLFragment action in reject (bad \<noteq> []) (Err_GploadPostAction j bad)) 0"

definition validateGploadFilePaths :: "string list \<Rightarrow> gpload_error option" where
  "validateGploadFilePaths = check_all (\<lambda>j p.
     reject (HasPrefix (TrimSpace p) ''file://'') (Err_GploadFilePath j)) 0"

definition validateGploadJob :: "GploadJobSpec option \<Rightarrow> gpload_error option" where
  "validateGploadJob gploadJob =
     (case gploadJob of None \<Rightarrow> Some Err_GploadTargetTable
      | Some j \<Rightarrow> first_err [
          reject (GJ_TargetTable j = []) Err_GploadTargetTable,
          validateGploadFilePaths (GJ_FilePaths j),
          validateGploadInputSource (GJ_InputSource j),
          validateGploadDelimiter (GJ_Delimiter j),
          validateGploadMode j,
          validateGploadPostActions (GJ_PostActions j)])"

definition validateDataLoadingJobBody :: "DataLoadingJob \<Rightarrow> string set \<Rightarrow> string set \<Rightarrow> job_error option" where
  "validateDataLoadingJobBody job serverNames connectorBackedServers =
     (if Job_Type job \<noteq> ''pxf'' then map_option Err_GploadJob (validateGploadJob (Job_GploadJob job))
      else first_err [
        map_option Err_PxfJob (validatePxfJob (Job_PxfJob job) serverNames connectorBackedServers),
        reject ((case Job_PxfJob job of None \<Rightarrow> False | Some j \<Rightarrow> is_true (PJ_Continuous j)) \<and>
            Job_Schedule job \<noteq> []) Err_ContinuousScheduled])"

definition dataLoadingJobTypes :: "string list" where
  "dataLoadingJobTypes = [''pxf'', ''gpload'']"

definition validateDataLoadingJob ::
  "string set \<Rightarrow> string set \<Rightarrow> string set \<Rightarrow> DataLoadingJob \<Rightarrow> job_error option" where
  "validateDataLoadingJob serverNames connectorBackedServers seen job = first_err [
     reject (Job_Name job = []) Err_JobNameRequired,
     reject (Job_Name job \<in> seen) (Err_JobNameDuplicate (Job_Name job)),
     reject (Job_Type job \<notin> set dataLoadingJobTypes) (Err_JobType (Job_Type job)),
     validateDataLoadingJobBody job serverNames connectorBackedServers,
     (if Job_Schedule job = [] then None else map_option Err_JobSchedule (validateCron (Job_Schedule job)))]"

fun validateDataLoadingJobs ::
  "string set \<Rightarrow> string set \<Rightarrow> nat \<Rightarrow> DataLoadingJob list \<Rightarrow> string set \<Rightarrow> verror option" where
  "validateDataLoadingJobs serverNames connectorBackedServers i [] seen = None"
| "validateDataLoadingJobs serverNames connectorBackedServers i (job # jobs) seen =
     (case validateDataLoadingJob serverNames connectorBackedServers seen job of
        Some e \<Rightarrow> Some (Err_Job i e)
      | None \<Rightarrow> validateDataLoadingJobs serverNames connectorBackedServers (Suc i) jobs (insert (Job_Name job) seen))"

definition validateDataLoading :: "CloudberryCluster \<Rightarrow> verror option" where
  "validateDataLoading cluster =
     (case Spec_DataLoading (CC_Spec cluster) of None \<Rightarrow> None
      | Some dl \<Rightarrow>
          if \<not> DL_Enabled dl then None
          else (case validatePxf (DL_Pxf dl) of Inl e \<Rightarrow> Some e
                | Inr (serverNames, connectorBackedServers) \<Rightarrow>
                    validateDataLoadingJobs serverNames connectorBackedServers 0 (DL_Jobs dl) {}))"

subsection \<open>The whole validator\<close>

definition cluster_checks :: "CloudberryCluster \<Rightarrow> (vwarning list \<Rightarrow> verror verdict) list" where
  "cluster_checks cluster = [
     lift_check Err_Core (validateSegments cluster),
     no_warnings (map_option Err_Core (validateOIDC cluster)),
     no_warnings (map_option Err_Core (validateVault cluster)),
     no_warnings (map_option Err_Core (validateDeletionPolicy cluster)),
     no_warnings (map_option Err_Core (validateStorage cluster)),
     no_warnings (map_option Err_Workload (validateWorkload cluster)),
     no_warnings (map_option Err_Core (validateQueryMonitoring cluster)),
     lift_check Err_Backup (validateBackup cluster),
     no_warnings (validateDataLoading cluster),
     no_warnings (map_option Err_Scan (validateStorageManagement cluster)),
     lift_check Err_Core (validateAffinity cluster)]"

definition validateCluster :: "CloudberryCluster \<Rightarrow> verror verdict" where
  "validateCluster cluster = run_checks (cluster_checks cluster) []"

definition validateUpdate :: "CloudberryCluster \<Rightarrow> CloudberryCluster \<Rightarrow> verror verdict" where
  "validateUpdate oldCluster newCluster =
     (case validateCluster newCluster of
        (warnings, Some e) \<Rightarrow> (warnings, Some e)
      | (warnings, None) \<Rightarrow>
          (case validateMirroringTransition oldCluster newCluster of
             (mirrorWarnings, e) \<Rightarrow> (warnings @ mirrorWarnings, map_option Err_Mirroring e)))"

text \<open>\<open>listing\<close> is what \<^verbatim>\<open>v.reader.List\<close> answers: a failure or the clusters of all namespaces.\<close>

definition checkDuplicateName :: "string + CloudberryCluster list \<Rightarrow> CloudberryCluster \<Rightarrow> verror option" where
  "checkDuplicateName listing cluster =
     (case listing of Inl err \<Rightarrow> Some (Err_AdmissionInternal err)
      | Inr items \<Rightarrow> check_all (\<lambda>i existing.
          reject (CC_Name existing = CC_Name cluster \<and> CC_Namespace existing \<noteq> CC_Namespace cluster)
            (Err_DuplicateName (CC_Name existing) (CC_Namespace existing))) 0 items)"

text \<open>\<open>reader\<close> is \<open>None\<close> when the validator was built without a client.\<close>

definition validateCreate ::
  "(string + CloudberryCluster list) option \<Rightarrow> CloudberryCluster \<Rightarrow> verror verdict" where
  "validateCreate reader cluster =
     (case reader of None \<Rightarrow> validateCluster cluster
      | Some listing \<Rightarrow>
          (case checkDuplicateName listing cluster of
             Some e \<Rightarrow> ([], Some e) | None \<Rightarrow> validateCluster cluster))"

text \<open>\<^verbatim>\<open>ValidateDelete\<close> admits every deletion, without warnings.\<close>

definition ValidateDelete :: "CloudberryCluster \<Rightarrow> verror verdict" where
  "ValidateDelete cluster = ([], None)"

text \<open>The result label of the admission metric.\<close>

definition recordAdmission :: "verror option \<Rightarrow> string" where
  "recordAdmission err =
     (case err of None \<Rightarrow> ''allowed'' | Some (Err_AdmissionInternal _) \<Rightarrow> ''error'' | Some _ \<Rightarrow> ''denied'')"

section \<open>The rules, declaratively\<close>

text \<open>
  What an admitted data-loading section satisfies, without the order of the checks: server and job
  names are non-empty and unique, every server has what its type needs, every job refers to a
  declared server, a streaming profile only to a server backed by a custom connector.
\<close>

definition server_rules :: "string set \<Rightarrow> PxfServerSpec \<Rightarrow> bool" where
  "server_rules connectors srv \<longleftrightarrow>
     Srv_Name srv \<noteq> [] \<and> validatePxfServerType srv = None \<and> validatePxfServerKerberos srv = None \<and>
     (Srv_Type srv = pxfServerTypeCustom \<longrightarrow> Srv_Name srv \<in> connectors)"

definition declared_servers :: "DataLoadingSpec \<Rightarrow> PxfServerSpec list" where
  "declared_servers dl = (case DL_Pxf dl of None \<Rightarrow> [] | Some pxf \<Rightarrow> Pxf_Servers pxf)"

definition declared_connectors :: "DataLoadingSpec \<Rightarrow> string set" where
  "declared_connectors dl =
     (case DL_Pxf dl of None \<Rightarrow> {} | Some pxf \<Rightarrow> pxfCustomConnectorNames (Pxf_CustomConnectors pxf))"

definition server_names :: "DataLoadingSpec \<Rightarrow> string set" where
  "server_names dl = set (map Srv_Name (declared_servers dl))"

definition connector_backed :: "DataLoadingSpec \<Rightarrow> string set" where
  "connector_backed dl =
     set (map Srv_Name (filter (\<lambda>srv. Srv_Type srv = pxfServerTypeCustom) (declared_servers dl)))"

definition job_rules :: "DataLoadingSpec \<Rightarrow> DataLoadingJob \<Rightarrow> bool" where
  "job_rules dl job \<longleftrightarrow>
     Job_Name job \<noteq> [] \<and> Job_Type job \<in> set dataLoadingJobTypes \<and>
     validateDataLoadingJobBody job (server_names dl) (connector_backed dl) = None \<and>
     (Job_Schedule job \<noteq> [] \<longrightarrow> Validate (Job_Schedule job) = None)"

definition data_loading_rules :: "DataLoadingSpec \<Rightarrow> bool" where
  "data_loading_rules dl \<longleftrightarrow>
     (\<forall>pxf. DL_Pxf dl = Some pxf \<longrightarrow> Pxf_Enabled pxf \<longrightarrow> Pxf_Image pxf \<noteq> []) \<and>
     distinct (map Srv_Name (declared_servers dl)) \<and>
     (\<forall>srv \<in> set (declared_servers dl). server_rules (declared_connectors dl) srv) \<and>
     distinct (map Job_Name (DL_Jobs dl)) \<and> (\<forall>job \<in> set (DL_Jobs dl). job_rules dl job)"

text \<open>A check whose verdict does not depend on the warnings so far.\<close>

definition pure_verdict :: "(vwarning list \<Rightarrow> 'e verdict) \<Rightarrow> 'e option \<Rightarrow> bool" where
  "pure_verdict f e \<longleftrightarrow> (\<forall>w. snd (f w) = e)"

section \<open>Lemmas\<close>

subsection \<open>Sequencing\<close>

lemma pure_verdictD: "pure_verdict f e \<Longrightarrow> snd (f w) = e"
  by (simp add: pure_verdict_def)

lemma run_checks_first_err:
  "list_all2 pure_verdict fs es \<Longrightarrow> snd (run_checks fs ws) = first_err es"
proof (induction fs es arbitrary: ws rule: list_all2_induct)
  case (Cons f fs e es)
  obtain ws' where f: "f ws = (ws', e)" using pure_verdictD [OF Cons.hyps(1), of ws] by (cases "f ws") auto
  then show ?case using Cons.IH [of ws'] by (cases e) auto
qed simp

lemma snd_no_warnings [simp]: "snd (no_warnings e w) = e"
  by (simp add: no_warnings_def)

lemma snd_lift_check [simp]: "snd (lift_check wrap f w) = map_option wrap (snd (f w))"
  by (simp add: lift_check_def split: prod.splits)

lemma pure_no_warnings [simp]: "pure_verdict (no_warnings e) e"
  by (simp add: pure_verdict_def)

lemma pure_lift_check: "pure_verdict f e \<Longrightarrow> pure_verdict (lift_check wrap f) (map_option wrap e)"
  by (simp add: pure_verdict_def)

lemma pure_validateSegments: "pure_verdict (validateSegments c) (snd (validateSegments c []))"
  by (simp add: pure_verdict_def validateSegments_def Let_def split: option.split)

lemma pure_validateAffinity: "pure_verdict (validateAffinity c) (snd (validateAffinity c []))"
  by (simp add: pure_verdict_def validateAffinity_def Let_def split: option.split)

lemma pure_validateS3VaultSecretPath:
  "pure_verdict (validateS3VaultSecretPath p) (snd (validateS3VaultSecretPath p []))"
  by (simp add: pure_verdict_def validateS3VaultSecretPath_def Let_def)

lemma pure_validateBackupDestination:
  "pure_verdict (validateBackupDestination d) (snd (validateBackupDestination d []))"
  using pure_verdictD [OF pure_validateS3VaultSecretPath]
  by (auto simp: pure_verdict_def validateBackupDestination_def Let_def split: option.split)

lemma validateBackup_verdict:
  assumes "Spec_Backup (CC_Spec c) = Some b" "Backup_Enabled b"
  shows "snd (validateBackup c w) = first_err [
     snd (validateBackupDestination (Backup_Destination b) []),
     validateBackupGpbackup (Backup_Gpbackup b), validateBackupGprestore (Backup_Gprestore b),
     (if Backup_Schedule b = [] then None else map_option Err_BackupSchedule (validateCron (Backup_Schedule b))),
     reject (Backup_Image b = []) Err_BackupImage]"
  using assms unfolding validateBackup_def
  by (simp add: run_checks_first_err pure_validateBackupDestination del: run_checks.simps)

lemma validateBackup_skipped:
  "\<not> (\<exists>b. Spec_Backup (CC_Spec c) = Some b \<and> Backup_Enabled b) \<Longrightarrow> validateBackup c w = (w, None)"
  by (auto simp: validateBackup_def split: option.split)

lemma pure_validateBackup: "pure_verdict (validateBackup c) (snd (validateBackup c []))"
proof (cases "\<exists>b. Spec_Backup (CC_Spec c) = Some b \<and> Backup_Enabled b")
  case True
  then show ?thesis unfolding pure_verdict_def by (auto simp: validateBackup_verdict)
next
  case False
  then show ?thesis unfolding pure_verdict_def by (simp add: validateBackup_skipped)
qed

lemma validateCluster_verdict:
  "snd (validateCluster c) = first_err [
     map_option Err_Core (snd (validateSegments c [])), map_option Err_Core (validateOIDC c),
     map_option Err_Core (validateVault c), map_option Err_Core (validateDeletionPolicy c),
     map_option Err_Core (validateStorage c), map_option Err_Workload (validateWorkload c),
     map_option Err_Core (validateQueryMonitoring c), map_option Err_Backup (snd (validateBackup c [])),
     validateDataLoading c, map_option Err_Scan (validateStorageManagement c),
     map_option Err_Core (snd (validateAffinity c []))]"
  unfolding validateCluster_def cluster_checks_def
  by (rule run_checks_first_err)
    (simp add: pure_lift_check pure_validateSegments pure_validateBackup pure_validateAffinity)

lemma validateCluster_None:
  "snd (validateCluster c) = None \<longleftrightarrow>
     snd (validateSegments c []) = None \<and> validateOIDC c = None \<and> validateVault c = None \<and>
     validateDeletionPolicy c = None \<and> validateStorage c = None \<and> validateWorkload c = None \<and>
     validateQueryMonitoring c = None \<and> snd (validateBackup c []) = None \<and> validateDataLoading c = None \<and>
     validateStorageManagement c = None \<and> snd (validateAffinity c []) = None"
  unfolding validateCluster_verdict by simp

subsection \<open>Data loading\<close>

lemma validatePxfServer_None:
  "validatePxfServer conns names srv = None \<longleftrightarrow> Srv_Name srv \<notin> names \<and> server_rules conns srv"
  by (auto simp: validatePxfServer_def server_rules_def)

lemma validatePxfServers_Inr:
  "validatePxfServers conns i srvs names backed = Inr (N, B) \<longleftrightarrow>
     distinct (map Srv_Name srvs) \<and> names \<inter> set (map Srv_Name srvs) = {} \<and>
     (\<forall>srv \<in> set srvs. server_rules conns srv) \<and> N = names \<union> set (map Srv_Name srvs) \<and>
     B = backed \<union> set (map Srv_Name (filter (\<lambda>srv. Srv_Type srv = pxfServerTypeCustom) srvs))"
proof (induction srvs arbitrary: i names backed)
  case (Cons srv srvs)
  show ?case
  proof (cases "validatePxfServer conns names srv")
    case None
    then have "Srv_Name srv \<notin> names" "server_rules conns srv" by (simp_all add: validatePxfServer_None)
    then show ?thesis by (auto simp: None Cons.IH)
  next
    case (Some e)
    then have "\<not> (Srv_Name srv \<notin> names \<and> server_rules conns srv)"
      using validatePxfServer_None [of conns names srv] by simp
    then show ?thesis by (auto simp: Some)
  qed
qed auto

lemma validatePxf_Inr:
  "validatePxf (DL_Pxf dl) = Inr (N, B) \<longleftrightarrow>
     (\<forall>pxf. DL_Pxf dl = Some pxf \<longrightarrow> Pxf_Enabled pxf \<longrightarrow> Pxf_Image pxf \<noteq> []) \<and>
     distinct (map Srv_Name (declared_servers dl)) \<and>
     (\<forall>srv \<in> set (declared_servers dl). server_rules (declared_connectors dl) srv) \<and>
     N = server_names dl \<and> B = connector_backed dl"
  by (cases "DL_Pxf dl")
    (auto simp: validatePxf_def declared_servers_def declared_connectors_def server_names_def
      connector_backed_def validatePxfServers_Inr)

lemma validateDataLoadingJob_None:
  "validateDataLoadingJob (server_names dl) (connector_backed dl) seen job = None \<longleftrightarrow>
     Job_Name job \<notin> seen \<and> job_rules dl job"
  by (auto simp: validateDataLoadingJob_def job_rules_def validateCron_def)

lemma validateDataLoadingJobs_None:
  "validateDataLoadingJobs (server_names dl) (connector_backed dl) i jobs seen = None \<longleftrightarrow>
     distinct (map Job_Name jobs) \<and> seen \<inter> set (map Job_Name jobs) = {} \<and>
     (\<forall>job \<in> set jobs. job_rules dl job)"
proof (induction jobs arbitrary: i seen)
  case (Cons job jobs)
  show ?case
  proof (cases "validateDataLoadingJob (server_names dl) (connector_backed dl) seen job")
    case None
    then have "Job_Name job \<notin> seen" "job_rules dl job" by (simp_all add: validateDataLoadingJob_None)
    then show ?thesis by (auto simp: None Cons.IH)
  next
    case (Some e)
    then have "\<not> (Job_Name job \<notin> seen \<and> job_rules dl job)"
      using validateDataLoadingJob_None [of dl seen job] by simp
    then show ?thesis by (auto simp: Some)
  qed
qed simp

lemma validateDataLoading_None:
  assumes "Spec_DataLoading (CC_Spec c) = Some dl" "DL_Enabled dl"
  shows "validateDataLoading c = None \<longleftrightarrow> data_loading_rules dl"
proof (cases "validatePxf (DL_Pxf dl)")
  case (Inl e)
  then have "\<not> data_loading_rules dl"
    using validatePxf_Inr [of dl "server_names dl" "connector_backed dl"] by (auto simp: data_loading_rules_def)
  then show ?thesis using assms Inl by (simp add: validateDataLoading_def)
next
  case (Inr p)
  obtain N B where p: "validatePxf (DL_Pxf dl) = Inr (N, B)" using Inr by (cases p) simp
  then show ?thesis
    using assms iffD1 [OF validatePxf_Inr p]
    by (auto simp: validateDataLoading_def data_loading_rules_def validateDataLoadingJobs_None)
qed

lemma pxf_job_rules:
  assumes "data_loading_rules dl" "job \<in> set (DL_Jobs dl)" "Job_Type job = ''pxf''"
  obtains j where "Job_PxfJob job = Some j" "validatePxfJob (Some j) (server_names dl) (connector_backed dl) = None"
proof -
  have "validateDataLoadingJobBody job (server_names dl) (connector_backed dl) = None"
    using assms by (auto simp: data_loading_rules_def job_rules_def)
  then show ?thesis using assms(3) that
    by (cases "Job_PxfJob job") (auto simp: validateDataLoadingJobBody_def validatePxfJob_def)
qed

lemma validatePxfServers_error:
  "validatePxfServers conns i srvs names backed = Inl e \<Longrightarrow> \<exists>k x. e = Err_Server k x"
  by (induction srvs arbitrary: i names backed) (auto split: option.splits)

lemma validateDataLoadingJobs_error:
  "validateDataLoadingJobs names backed i jobs seen = Some e \<Longrightarrow> \<exists>k x. e = Err_Job k x"
  by (induction jobs arbitrary: i seen) (auto split: option.splits)

lemma validateDataLoading_not_internal: "validateDataLoading c \<noteq> Some (Err_AdmissionInternal e)"
  by (auto simp: validateDataLoading_def validatePxf_def split: option.splits sum.splits if_splits
      dest: validatePxfServers_error validateDataLoadingJobs_error)

lemma validateCluster_not_internal: "snd (validateCluster c) \<noteq> Some (Err_AdmissionInternal e)"
proof
  assume "snd (validateCluster c) = Some (Err_AdmissionInternal e)"
  from first_err_in [OF this [unfolded validateCluster_verdict]] show False
    using validateDataLoading_not_internal [of c e]
    by (auto dest!: sym [of "Some (Err_AdmissionInternal e)"])
qed

lemma checkDuplicateName_None:
  "checkDuplicateName (Inr items) c = None \<longleftrightarrow>
     \<not> (\<exists>existing \<in> set items. CC_Name existing = CC_Name c \<and> CC_Namespace existing \<noteq> CC_Namespace c)"
  by (fastforce simp: checkDuplicateName_def check_all_None in_set_conv_nth)

lemma validateCreate_None:
  "snd (validateCreate (Some (Inr items)) c) = None \<longleftrightarrow> snd (validateCluster c) = None \<and>
     \<not> (\<exists>existing \<in> set items. CC_Name existing = CC_Name c \<and> CC_Namespace existing \<noteq> CC_Namespace c)"
  unfolding checkDuplicateName_None [symmetric] by (simp add: validateCreate_def split: option.split)

subsection \<open>Unsafe fragments\<close>

lemma containsUnsafe_Nil:
  "containsUnsafeSQLFragment s = [] \<longleftrightarrow> (\<forall>bad \<in> set sqlPredicateForbidden. \<not> Contains s bad)"
  by (simp add: containsUnsafeSQLFragment_def sqlPredicateForbidden_def)

subsection \<open>Evaluation of the samples\<close>

lemma valid_profiles:
  "isValidPxfProfile ''s3:parquet''" "\<not> isCustomConnectorProfile ''s3:parquet''" "IsProfileWritable ''s3:parquet''"
  "isCustomConnectorProfile ''Kafka:json''" "EqualFold ''writable'' ''writable''" "\<not> EqualFold ''insert'' ''writable''"
  "\<not> EqualFold [] ''fdw''" "containsUnsafeSQLFragment ''x > 1'' = []"
  by code_simp+

lemma loading_cluster_rules: "data_loading_rules sample_loading"
  by (auto simp: data_loading_rules_def sample_defs declared_servers_def server_rules_def job_rules_def
      validatePxfServerType_def pxfServerTypes_def pxfObjectStoreServerTypes_def validatePxfObjectStoreServer_def
      validatePxfServerKerberos_def declared_connectors_def pxfCustomConnectorNames_def dataLoadingJobTypes_def
      validateDataLoadingJobBody_def validatePxfJob_def server_names_def connector_backed_def
      validateStreamingParams_def validateLoadMethod_def validateSourceFilter_def is_true_def
      validatePartitioning_def validateErrorHandling_def valid_profiles)

lemma base_cluster_accepted: "snd (validateCluster (base_cluster\<lparr>CC_Spec := base_spec\<lparr>Spec_DataLoading := dl\<rparr>\<rparr>)) = None
    \<longleftrightarrow> validateDataLoading (base_cluster\<lparr>CC_Spec := base_spec\<lparr>Spec_DataLoading := dl\<rparr>\<rparr>) = None"
  unfolding validateCluster_None
  by (simp add: validateSegments_def validateOIDC_def validateVault_def validateDeletionPolicy_def
      validateStorage_def validateWorkload_def validateQueryMonitoring_def validateBackup_def
      validateStorageManagement_def validateAffinity_def base_spec_def)

lemma loading_cluster_accepted: "snd (validateCluster loading_cluster) = None"
  unfolding loading_cluster_def base_cluster_accepted
  by (subst validateDataLoading_None [where dl = sample_loading])
    (simp_all add: loading_cluster_rules, simp add: sample_loading_def)

section \<open>Properties\<close>

text \<open>
  The validator admits an enabled data-loading section exactly when it obeys the rules,
  whatever the order in which the loops check them: unique non-empty server and job names,
  complete servers, jobs that refer to declared servers, valid schedules.
\<close>

lemma data_loading_admitted_iff:
  assumes "Spec_DataLoading (CC_Spec c) = Some dl" "DL_Enabled dl"
  shows "validateDataLoading c = None \<longleftrightarrow> data_loading_rules dl"
  using assms by (rule validateDataLoading_None)

text \<open>
  No built-in streaming: in an admitted cluster, a job with a streaming (Kafka or RabbitMQ)
  profile runs on a declared server of type custom for which a connector of the same name is
  declared.
\<close>

lemma streaming_jobs_have_connectors:
  assumes "snd (validateCluster c) = None"
    and "Spec_DataLoading (CC_Spec c) = Some dl" "DL_Enabled dl" "job \<in> set (DL_Jobs dl)"
    and "Job_Type job = ''pxf''" "Job_PxfJob job = Some j" "isCustomConnectorProfile (PJ_Profile j)"
  shows "\<exists>pxf srv conn. DL_Pxf dl = Some pxf \<and> srv \<in> set (Pxf_Servers pxf) \<and> Srv_Name srv = PJ_Server j \<and>
    Srv_Type srv = pxfServerTypeCustom \<and> conn \<in> set (Pxf_CustomConnectors pxf) \<and> Conn_Name conn = PJ_Server j"
proof -
  have rules: "data_loading_rules dl"
    using assms(1-3) by (simp add: validateCluster_None validateDataLoading_None)
  obtain j' where "Job_PxfJob job = Some j'"
    "validatePxfJob (Some j') (server_names dl) (connector_backed dl) = None"
    using pxf_job_rules [OF rules assms(4,5)] .
  then have "PJ_Server j \<in> connector_backed dl" using assms(6,7) by (simp add: validatePxfJob_def)
  then obtain srv where srv: "srv \<in> set (declared_servers dl)" "Srv_Type srv = pxfServerTypeCustom"
    "Srv_Name srv = PJ_Server j"
    by (auto simp: connector_backed_def)
  then obtain pxf where pxf: "DL_Pxf dl = Some pxf" "srv \<in> set (Pxf_Servers pxf)"
    by (cases "DL_Pxf dl") (auto simp: declared_servers_def)
  have "server_rules (declared_connectors dl) srv" using rules srv(1) by (auto simp: data_loading_rules_def)
  then have "PJ_Server j \<in> pxfCustomConnectorNames (Pxf_CustomConnectors pxf)"
    using srv(2,3) pxf by (simp add: server_rules_def declared_connectors_def)
  then obtain conn where "conn \<in> set (Pxf_CustomConnectors pxf)" "Conn_Name conn = PJ_Server j"
    by (auto simp: pxfCustomConnectorNames_def)
  then show ?thesis using srv pxf by blast
qed



text \<open>
  While mirroring stays enabled an admitted update keeps its layout, and enabling the group
  layout on a running cluster is admitted only with at least two segments per primary of a host,
  as long as twice the number of primaries per host fits 32 bits.
\<close>

theorem mirroring_update_rules:
  assumes "snd (validateUpdate old new) = None" "isMirroringEnabled new"
    and "in_int32 (2 * Seg_PrimariesPerHost (Spec_Segments (CC_Spec new)))"
  shows "(isMirroringEnabled old \<longrightarrow> mirroring_layout new = mirroring_layout old) \<and>
    (\<not> isMirroringEnabled old \<longrightarrow> St_Phase (CC_Status old) = ClusterPhaseRunning \<longrightarrow>
      mirroring_layout new = MirroringLayoutGroup \<longrightarrow>
      2 * Seg_PrimariesPerHost (Spec_Segments (CC_Spec new)) \<le> Seg_Count (Spec_Segments (CC_Spec new)))"
proof -
  have t: "snd (validateMirroringTransition old new) = None"
    using assms(1) by (auto simp: validateUpdate_def split: prod.splits option.splits)
  have "snd (validateCluster new) = None"
    using assms(1) by (auto simp: validateUpdate_def split: prod.splits option.splits)
  then have "snd (validateSegments new []) = None" by (simp add: validateCluster_None)
  then have "1 \<le> Seg_Count (Spec_Segments (CC_Spec new))"
    by (auto simp: validateSegments_def Let_def split: if_splits)
  with t assms(2,3) show ?thesis
    by (auto simp: validateMirroringTransition_def validateMirroringLayoutChange_def validateMirroringEnable_def
        validateNodeCountForMirroring_def Let_def reject_def split: if_splits option.splits)
qed

text \<open>
  The bound of the group layout wraps around in 32 bits: with 2^30 primaries per host one
  segment is accepted as enough.
\<close>

lemma group_mirroring_bound_wraps:
  "validateNodeCountForMirroring MirroringLayoutGroup 1 1073741824 = None"
  by (simp add: validateNodeCountForMirroring_def wrap32_def)

text \<open>
  A creation is admitted only if no cluster of the same name is listed in another namespace;
  a failing list call never admits, and it alone is recorded as an error instead of a denial.
\<close>

theorem create_needs_unique_name:
  "(snd (validateCreate (Some (Inr items)) c) = None \<longleftrightarrow>
     snd (validateCluster c) = None \<and>
     \<not> (\<exists>existing \<in> set items. CC_Name existing = CC_Name c \<and> CC_Namespace existing \<noteq> CC_Namespace c)) \<and>
   snd (validateCreate (Some (Inl err)) c) = Some (Err_AdmissionInternal err) \<and>
   (recordAdmission (snd (validateCreate reader c)) = ''error'' \<longleftrightarrow>
     (\<exists>e. reader = Some (Inl e)))"
proof (intro conjI)
  have not_internal: "checkDuplicateName (Inr items) c \<noteq> Some (Err_AdmissionInternal e)" for items e
    by (auto simp: checkDuplicateName_def dest: check_all_in)
  have err: "recordAdmission e = ''error'' \<longleftrightarrow> (\<exists>x. e = Some (Err_AdmissionInternal x))" for e
    by (auto simp: recordAdmission_def split: option.splits verror.splits)
  show "snd (validateCreate (Some (Inr items)) c) = None \<longleftrightarrow> snd (validateCluster c) = None \<and>
     \<not> (\<exists>existing \<in> set items. CC_Name existing = CC_Name c \<and> CC_Namespace existing \<noteq> CC_Namespace c)"
    by (rule validateCreate_None)
  show internal: "snd (validateCreate (Some (Inl err)) c) = Some (Err_AdmissionInternal err)" for err
    by (simp add: validateCreate_def checkDuplicateName_def)
  show "recordAdmission (snd (validateCreate reader c)) = ''error'' \<longleftrightarrow> (\<exists>e. reader = Some (Inl e))"
    unfolding err
  proof (cases reader)
    case None
    then show "(\<exists>x. snd (validateCreate reader c) = Some (Err_AdmissionInternal x)) \<longleftrightarrow> (\<exists>e. reader = Some (Inl e))"
      by (simp add: validateCreate_def validateCluster_not_internal)
  next
    case (Some l)
    then show "(\<exists>x. snd (validateCreate reader c) = Some (Err_AdmissionInternal x)) \<longleftrightarrow> (\<exists>e. reader = Some (Inl e))"
      using not_internal internal
      by (cases l) (auto simp: validateCreate_def validateCluster_not_internal split: option.splits)
  qed
qed

end
