(* ===== verification/Admission.thy ===== *)
theory Admission
  imports Defaulting Validation
begin

text \<open>
  The admission chain: the mutating webhook fills defaults, the validating webhook then judges the
  result, and the API server stores what was admitted. A request is judged and written at different
  instants: between the review of a creation and its write other requests are judged and written.
  The validator lists the clusters through the manager's client
  (\<^verbatim>\<open>registerWebhooks\<close> hands it \<^verbatim>\<open>mgr.GetClient()\<close>), whose reads a cache
  answers: the list is some state the store has been in, not the present one. An update carries the
  object it replaces; the API server repeats the admission when that object has changed, so that the
  review of an update and its write see the same object. The status and the bookkeeping of the API
  server (generation, deletion time) change without the webhooks. The webhooks are registered with the
  chart's default failure policy, so that a request they did not answer is refused.
\<close>

section \<open>Model\<close>

type_synonym registry = "CloudberryCluster list"

text \<open>
  The store, every state it has been in, the creations that were admitted and are not yet written
  (with the list their review was given), and for each stored cluster the list its creation was
  judged on.
\<close>

record admission_state =
  Adm_Store :: registry
  Adm_Past :: "registry list"
  Adm_Pending :: "(registry \<times> CloudberryCluster) list"
  Adm_Seen :: "string \<times> string \<Rightarrow> registry option"

definition object_key :: "CloudberryCluster \<Rightarrow> string \<times> string" where
  "object_key c = (CC_Namespace c, CC_Name c)"

definition admission_init :: admission_state where
  "admission_init = \<lparr>Adm_Store = [], Adm_Past = [[]], Adm_Pending = [], Adm_Seen = (\<lambda>_. None)\<rparr>"

definition store_write :: "registry \<Rightarrow> admission_state \<Rightarrow> admission_state" where
  "store_write reg s = s\<lparr>Adm_Store := reg, Adm_Past := reg # Adm_Past s\<rparr>"

inductive admission_step :: "admission_state \<Rightarrow> admission_state \<Rightarrow> bool" where
  review: "\<lbrakk>listed \<in> set (Adm_Past s);
     snd (validateCreate (Some (Inr listed)) (setClusterDefaults c)) = None\<rbrakk>
     \<Longrightarrow> admission_step s (s\<lparr>Adm_Pending := (listed, setClusterDefaults c) # Adm_Pending s\<rparr>)"
| create: "\<lbrakk>(listed, c) \<in> set (Adm_Pending s); object_key c \<notin> object_key ` set (Adm_Store s)\<rbrakk>
     \<Longrightarrow> admission_step s (store_write (Adm_Store s @ [c])
           (s\<lparr>Adm_Pending := remove1 (listed, c) (Adm_Pending s),
              Adm_Seen := (Adm_Seen s)(object_key c \<mapsto> listed)\<rparr>))"
| refuse: "admission_step s (s\<lparr>Adm_Pending := remove1 req (Adm_Pending s)\<rparr>)"
| update: "\<lbrakk>i < length (Adm_Store s); object_key new = object_key (Adm_Store s ! i);
     snd (validateUpdate (Adm_Store s ! i) (setClusterDefaults new)) = None\<rbrakk>
     \<Longrightarrow> admission_step s (store_write ((Adm_Store s)[i := setClusterDefaults new]) s)"
| bookkeeping: "\<lbrakk>i < length (Adm_Store s); object_key new = object_key (Adm_Store s ! i);
     CC_Spec new = CC_Spec (Adm_Store s ! i)\<rbrakk>
     \<Longrightarrow> admission_step s (store_write ((Adm_Store s)[i := new]) s)"
| delete: "\<lbrakk>i < length (Adm_Store s); snd (ValidateDelete (Adm_Store s ! i)) = None\<rbrakk>
     \<Longrightarrow> admission_step s (store_write (take i (Adm_Store s) @ drop (Suc i) (Adm_Store s)) s)"

inductive_cases admission_stepE: "admission_step s s'"

text \<open>A cluster the webhooks have let through: valid, with its defaults filled in.\<close>

definition passed_admission :: "CloudberryCluster \<Rightarrow> bool" where
  "passed_admission c \<longleftrightarrow> snd (validateCluster c) = None \<and> setClusterDefaults c = c"

text \<open>\<open>listed\<close> shows no cluster of that name in another namespace.\<close>

definition name_free :: "registry \<Rightarrow> string \<times> string \<Rightarrow> bool" where
  "name_free listed k \<longleftrightarrow> (\<forall>e \<in> set listed. CC_Name e = snd k \<longrightarrow> CC_Namespace e = fst k)"

definition judged :: "admission_state \<Rightarrow> string \<times> string \<Rightarrow> registry option \<Rightarrow> bool" where
  "judged s k seen \<longleftrightarrow> (\<exists>listed \<in> set (Adm_Past s). seen = Some listed \<and> name_free listed k)"

definition admission_inv :: "admission_state \<Rightarrow> bool" where
  "admission_inv s \<longleftrightarrow> distinct (map object_key (Adm_Store s)) \<and>
     (\<forall>c \<in> set (Adm_Store s). passed_admission c \<and> judged s (object_key c) (Adm_Seen s (object_key c))) \<and>
     (\<forall>(listed, c) \<in> set (Adm_Pending s). passed_admission c \<and> judged s (object_key c) (Some listed))"

text \<open>What \<open>setDataLoadingJobDefaults\<close> does to one job.\<close>

definition default_job :: "DataLoadingJob \<Rightarrow> DataLoadingJob" where
  "default_job j = j\<lparr>Job_PxfJob := map_option setPxfJobDefaults (Job_PxfJob j),
     Job_GploadJob := map_option setGploadJobDefaults (Job_GploadJob j)\<rparr>"

section \<open>Lemmas\<close>

lemma setClusterDefaults_frame [simp]:
  "CC_Name (setClusterDefaults c) = CC_Name c" "CC_Namespace (setClusterDefaults c) = CC_Namespace c"
  "CC_Status (setClusterDefaults c) = CC_Status c" "CC_Annotations (setClusterDefaults c) = CC_Annotations c"
  "CC_Generation (setClusterDefaults c) = CC_Generation c" "CC_Finalizers (setClusterDefaults c) = CC_Finalizers c"
  "CC_DeletionTimestamp (setClusterDefaults c) = CC_DeletionTimestamp c"
  "CC_Spec (setClusterDefaults c) = setClusterSpecDefaults (CC_Spec c)"
  by (simp_all add: setClusterDefaults_def)

lemma setClusterDefaults_fixpoint:
  "setClusterDefaults c = c \<longleftrightarrow> setClusterSpecDefaults (CC_Spec c) = CC_Spec c"
  by (cases c) (simp add: setClusterDefaults_def)

text \<open>The verdict on a cluster depends on its spec alone.\<close>

lemma check_spec_only:
  assumes "CC_Spec c = CC_Spec d"
  shows "validateSegments c = validateSegments d" "validateOIDC c = validateOIDC d"
    "validateVault c = validateVault d" "validateDeletionPolicy c = validateDeletionPolicy d"
    "validateStorage c = validateStorage d" "validateWorkload c = validateWorkload d"
    "validateQueryMonitoring c = validateQueryMonitoring d" "validateBackup c = validateBackup d"
    "validateDataLoading c = validateDataLoading d" "validateStorageManagement c = validateStorageManagement d"
    "validateAffinity c = validateAffinity d"
  unfolding fun_eq_iff validateSegments_def validateOIDC_def validateVault_def validateDeletionPolicy_def
    validateStorage_def validateWorkload_def validateQueryMonitoring_def validateBackup_def
    validateDataLoading_def validateStorageManagement_def validateAffinity_def assms
  by (rule refl allI)+

lemma validateCluster_spec_only: "CC_Spec c = CC_Spec d \<Longrightarrow> validateCluster c = validateCluster d"
  by (simp add: validateCluster_def cluster_checks_def check_spec_only [of c d])

subsection \<open>Defaulting keeps what was admissible\<close>

lemma default_segments:
  "snd (validateSegments (setClusterDefaults c) []) = snd (validateSegments c [])"
  by (simp add: validateSegments_def setSegmentDefaults_def Let_def split: option.split)

lemma default_OIDC: "validateOIDC (setClusterDefaults c) = validateOIDC c"
  by (auto simp: validateOIDC_def setAuthDefaults_def setOIDCDefaults_def zero_AuthSpec_def Let_def
      split: option.split)

lemma default_vault: "validateVault (setClusterDefaults c) = validateVault c"
  by (simp add: validateVault_def)

lemma default_deletion: "validateDeletionPolicy (setClusterDefaults c) = validateDeletionPolicy c"
  by (simp add: validateDeletionPolicy_def or_string_def Let_def)

lemma default_storage: "validateStorage (setClusterDefaults c) = None"
  by (simp add: validateStorage_def setCoordinatorDefaults_def setSegmentDefaults_def)

lemma default_workload: "validateWorkload (setClusterDefaults c) = validateWorkload c"
proof -
  have "check_all f i (map setResourceGroupDefaults xs) = check_all (\<lambda>k x. f k (setResourceGroupDefaults x)) i xs"
    for f :: "nat \<Rightarrow> ResourceGroupSpec \<Rightarrow> workload_error option" and i xs
    by (induction xs arbitrary: i) (auto split: option.split)
  then show ?thesis
    by (simp add: validateWorkload_def setWorkloadDefaults_def setResourceGroupDefaults_def split: option.split)
qed

lemma default_query: "validateQueryMonitoring c = None \<Longrightarrow> validateQueryMonitoring (setClusterDefaults c) = None"
  by (simp add: validateQueryMonitoring_def setQueryMonitoringDefaults_def or_int_def split: option.splits if_splits)

lemma default_affinity:
  "snd (validateAffinity c []) = None \<Longrightarrow> snd (validateAffinity (setClusterDefaults c) []) = None"
  by (auto simp: validateAffinity_def setAffinityDefaults_def or_string_def Let_def split: option.splits if_splits)

lemma parse_2h: "ParseDuration ''2h'' = Some (2 * Hour)"
  by (simp add: ParseDuration_def parse_term_def Let_def is_digit_def digit_val_def not_unit_char_def
      unit_value_def)

lemma default_scan:
  "validateStorageManagement c = None \<Longrightarrow> validateStorageManagement (setClusterDefaults c) = None"
  using parse_2h
  by (auto simp: validateStorageManagement_def setStorageManagementDefaults_def setRecommendationScanDefaults_def
      or_string_def or_int_def split: option.splits if_splits)

lemma default_gpbackup:
  "validateBackupGpbackup g = None \<Longrightarrow> validateBackupGpbackup (Some (setGpbackupDefaults g)) = None"
  by (cases g)
    (auto simp: validateBackupGpbackup_def setGpbackupDefaults_def zero_GpbackupOptions_def or_string_def
      or_int_def Let_def)

lemma default_gprestore:
  "validateBackupGprestore g = None \<Longrightarrow> validateBackupGprestore (Some (setGprestoreDefaults g)) = None"
  by (cases g) (auto simp: validateBackupGprestore_def setGprestoreDefaults_def zero_GprestoreOptions_def Let_def)

lemma default_backup:
  assumes "snd (validateBackup c []) = None"
  shows "snd (validateBackup (setClusterDefaults c) []) = None"
proof (cases "\<exists>b. Spec_Backup (CC_Spec c) = Some b \<and> Backup_Enabled b")
  case True
  then obtain b where b: "Spec_Backup (CC_Spec c) = Some b" "Backup_Enabled b" by blast
  note v = assms [unfolded validateBackup_verdict [OF b]]
  obtain b' where b': "Spec_Backup (CC_Spec (setClusterDefaults c)) = Some b'" "Backup_Enabled b'"
    "Backup_Destination b' = Backup_Destination b" "Backup_Schedule b' = Backup_Schedule b"
    "Backup_Image b' = or_string DefaultBackupImage (Backup_Image b)"
    "Backup_Gpbackup b' = Some (setGpbackupDefaults (Backup_Gpbackup b))"
    "Backup_Gprestore b' = Some (setGprestoreDefaults (Backup_Gprestore b))"
    using b by (simp add: setBackupDefaults_def)
  show ?thesis unfolding validateBackup_verdict [OF b'(1,2)]
    using v by (auto simp: b' default_gpbackup default_gprestore)
next
  case False
  then have "\<not> (\<exists>b. Spec_Backup (CC_Spec (setClusterDefaults c)) = Some b \<and> Backup_Enabled b)"
    by (auto simp: setBackupDefaults_def split: option.splits if_splits)
  then show ?thesis by (simp add: validateBackup_skipped)
qed

subsection \<open>Data loading\<close>

lemma EqualFold_mode:
  "EqualFold (or_string ''insert'' m) ''writable'' = EqualFold m ''writable''"
  "EqualFold (or_string ''insert'' m) ''update'' = EqualFold m ''update''"
  "EqualFold (or_string ''insert'' m) ''merge'' = EqualFold m ''merge''"
proof -
  have "\<not> EqualFold ''insert'' ''writable''" "\<not> EqualFold ''insert'' ''update''" "\<not> EqualFold ''insert'' ''merge''"
    "\<not> EqualFold [] ''writable''" "\<not> EqualFold [] ''update''" "\<not> EqualFold [] ''merge''"
    by code_simp+
  then show "EqualFold (or_string ''insert'' m) ''writable'' = EqualFold m ''writable''"
    "EqualFold (or_string ''insert'' m) ''update'' = EqualFold m ''update''"
    "EqualFold (or_string ''insert'' m) ''merge'' = EqualFold m ''merge''"
    by (auto simp: or_string_def)
qed

lemma default_pxf_job:
  "validatePxfJob (map_option setPxfJobDefaults j) names backed = validatePxfJob j names backed"
  by (cases j)
    (simp_all add: validatePxfJob_def setPxfJobDefaults_def validateStreamingParams_def validateLoadMethod_def
      validateSourceFilter_def EqualFold_mode)

lemma default_gpload_job: "validateGploadJob (map_option setGploadJobDefaults j) = None \<longleftrightarrow> validateGploadJob j = None"
  by (cases j) (simp_all add: validateGploadJob_def setGploadJobDefaults_def validateGploadMode_def EqualFold_mode)

lemma default_job_fields [simp]:
  "Job_Name (default_job j) = Job_Name j" "Job_Type (default_job j) = Job_Type j"
  "Job_Schedule (default_job j) = Job_Schedule j"
  by (simp_all add: default_job_def)

lemma default_job_body:
  "validateDataLoadingJobBody (default_job j) names backed = None \<longleftrightarrow>
     validateDataLoadingJobBody j names backed = None"
proof (cases "Job_Type j = ''pxf''")
  case True
  have "(case Job_PxfJob (default_job j) of None \<Rightarrow> False | Some p \<Rightarrow> is_true (PJ_Continuous p)) =
      (case Job_PxfJob j of None \<Rightarrow> False | Some p \<Rightarrow> is_true (PJ_Continuous p))"
    by (cases "Job_PxfJob j") (simp_all add: default_job_def setPxfJobDefaults_def)
  with True show ?thesis
    by (simp add: validateDataLoadingJobBody_def default_job_def default_pxf_job)
next
  case False
  then show ?thesis
    by (simp add: validateDataLoadingJobBody_def default_job_def default_gpload_job)
qed

lemma default_data_loading_rules:
  assumes "DL_Enabled dl"
  shows "\<exists>dl'. setDataLoadingDefaults (Some dl) = Some dl' \<and> DL_Enabled dl' \<and>
    data_loading_rules dl' = data_loading_rules dl"
proof -
  define dl' where "dl' = the (setDataLoadingDefaults (Some dl))"
  have dl': "setDataLoadingDefaults (Some dl) = Some dl'" "DL_Enabled dl'"
    "DL_Jobs dl' = map default_job (DL_Jobs dl)" "DL_Pxf dl' = map_option setPxfDefaults (DL_Pxf dl)"
    using assms by (simp_all add: dl'_def setDataLoadingDefaults_def setDataLoadingJobDefaults_def default_job_def)
  have srv: "declared_servers dl' = declared_servers dl" "declared_connectors dl' = declared_connectors dl"
    by (simp_all add: declared_servers_def declared_connectors_def dl' setPxfDefaults_def split: option.split)
  then have "job_rules dl' (default_job j) = job_rules dl j" for j
    by (simp add: job_rules_def server_names_def connector_backed_def default_job_body)
  moreover have "map Job_Name (DL_Jobs dl') = map Job_Name (DL_Jobs dl)" by (simp add: dl' comp_def)
  ultimately have "data_loading_rules dl' = data_loading_rules dl"
    by (auto simp: data_loading_rules_def srv dl'(3,4) setPxfDefaults_def comp_def)
  with dl' show ?thesis by blast
qed

lemma default_data_loading:
  "validateDataLoading (setClusterDefaults c) = None \<longleftrightarrow> validateDataLoading c = None"
proof (cases "\<exists>dl. Spec_DataLoading (CC_Spec c) = Some dl \<and> DL_Enabled dl")
  case True
  then obtain dl where dl: "Spec_DataLoading (CC_Spec c) = Some dl" "DL_Enabled dl" by blast
  then obtain dl' where "setDataLoadingDefaults (Some dl) = Some dl'" "DL_Enabled dl'"
    "data_loading_rules dl' = data_loading_rules dl" using default_data_loading_rules by blast
  then show ?thesis using dl validateDataLoading_None [of "setClusterDefaults c" dl'] by (simp add: validateDataLoading_None)
next
  case False
  then show ?thesis by (auto simp: validateDataLoading_def setDataLoadingDefaults_def split: option.splits)
qed

lemmas default_checks = default_segments default_OIDC default_vault default_deletion default_storage
  default_workload default_query default_backup default_data_loading default_scan default_affinity

lemma default_keeps_admission:
  "snd (validateCluster c) = None \<Longrightarrow> snd (validateCluster (setClusterDefaults c)) = None"
  by (simp add: validateCluster_None default_checks)

subsection \<open>Errors that defaulting rules out\<close>

lemma core_errors:
  assumes "e \<in> {Err_CoordinatorStorageSize, Err_SegmentsStorageSize}"
  shows "snd (validateSegments c []) \<noteq> Some e" "validateOIDC c \<noteq> Some e" "validateVault c \<noteq> Some e"
    "validateDeletionPolicy c \<noteq> Some e" "validateQueryMonitoring c \<noteq> Some e" "snd (validateAffinity c []) \<noteq> Some e"
  using assms
  by (auto simp: validateSegments_def validateOIDC_def validateVault_def validateDeletionPolicy_def
      validateQueryMonitoring_def validateAffinity_def Let_def split: option.splits if_splits dest!: first_err_in)

lemma destination_errors:
  "snd (validateBackupDestination d w) \<notin> {Some Err_BackupImage, Some (Err_CompressionLevel 0)}"
  by (simp add: validateBackupDestination_def validateS3VaultSecretPath_def Let_def split: option.split)

lemma gpbackup_errors:
  "validateBackupGpbackup (Some (setGpbackupDefaults g)) \<notin> {Some Err_BackupImage, Some (Err_CompressionLevel 0)}"
  by (auto simp: validateBackupGpbackup_def setGpbackupDefaults_def or_int_def Let_def dest!: first_err_in
      split: if_splits)

lemma default_backup_errors:
  "snd (validateBackup (setClusterDefaults c) []) \<notin> {Some Err_BackupImage, Some (Err_CompressionLevel 0)}"
proof (cases "\<exists>b. Spec_Backup (CC_Spec c) = Some b \<and> Backup_Enabled b")
  case True
  then obtain b' g where b': "Spec_Backup (CC_Spec (setClusterDefaults c)) = Some b'" "Backup_Enabled b'"
    "Backup_Image b' \<noteq> []" "Backup_Gpbackup b' = Some (setGpbackupDefaults g)"
    by (auto simp: setBackupDefaults_def)
  show ?thesis
    unfolding validateBackup_verdict [OF b'(1,2)]
    using b'(3,4) destination_errors [of "Backup_Destination b'" "[]"] gpbackup_errors [of g]
    by (auto simp: validateBackupGprestore_def dest!: first_err_in split: option.splits if_splits)
next
  case False
  then have "\<not> (\<exists>b. Spec_Backup (CC_Spec (setClusterDefaults c)) = Some b \<and> Backup_Enabled b)"
    by (auto simp: setBackupDefaults_def split: option.splits if_splits)
  then show ?thesis by (simp add: validateBackup_skipped)
qed

lemma data_loading_errors: "validateDataLoading c \<notin> {Some (Err_Core e), Some (Err_Backup b)}"
  by (auto simp: validateDataLoading_def validatePxf_def split: option.splits sum.splits if_splits
      dest: validatePxfServers_error validateDataLoadingJobs_error)

subsection \<open>The store\<close>

lemma object_key_defaults [simp]: "object_key (setClusterDefaults c) = object_key c"
  by (simp add: object_key_def)

lemma judged_mono [intro]:
  "\<lbrakk>judged s k seen; set (Adm_Past s) \<subseteq> set (Adm_Past s')\<rbrakk> \<Longrightarrow> judged s' k seen"
  by (auto simp: judged_def)

lemma judged_cong: "Adm_Past s' = Adm_Past s \<Longrightarrow> judged s' k seen = judged s k seen"
  by (simp add: judged_def)

lemma store_write_simps [simp]:
  "Adm_Store (store_write reg s) = reg" "Adm_Past (store_write reg s) = reg # Adm_Past s"
  "Adm_Pending (store_write reg s) = Adm_Pending s" "Adm_Seen (store_write reg s) = Adm_Seen s"
  by (simp_all add: store_write_def)

lemma passed_defaults: "snd (validateCluster (setClusterDefaults c)) = None \<Longrightarrow> passed_admission (setClusterDefaults c)"
  by (simp add: passed_admission_def setClusterDefaults_fixpoint setClusterSpecDefaults_idem)

lemma passed_spec_only: "\<lbrakk>passed_admission c; CC_Spec d = CC_Spec c\<rbrakk> \<Longrightarrow> passed_admission d"
  using validateCluster_spec_only [of d c] by (simp add: passed_admission_def setClusterDefaults_fixpoint)

lemma review_name_free:
  "snd (validateCreate (Some (Inr listed)) (setClusterDefaults c)) = None \<Longrightarrow> name_free listed (object_key c)"
  unfolding validateCreate_None by (auto simp: name_free_def object_key_def)

text \<open>A write that keeps the keys, or drops some, of clusters that stay admitted.\<close>

lemma admission_inv_write:
  assumes "admission_inv s" "distinct (map object_key reg)" "\<forall>c \<in> set reg. passed_admission c"
    "object_key ` set reg \<subseteq> object_key ` set (Adm_Store s)"
  shows "admission_inv (store_write reg s)"
proof -
  have "judged (store_write reg s) (object_key c) (Adm_Seen s (object_key c))" if c: "c \<in> set reg" for c
  proof -
    obtain d where d: "d \<in> set (Adm_Store s)" "object_key d = object_key c"
      using assms(4) c by (metis (no_types, lifting) imageE imageI subsetD)
    then have "judged s (object_key c) (Adm_Seen s (object_key c))"
      using assms(1) by (metis admission_inv_def)
    then show ?thesis by (rule judged_mono) auto
  qed
  moreover have "judged (store_write reg s) k seen" if "judged s k seen" for k seen
    using that by (rule judged_mono) auto
  ultimately show ?thesis using assms(1-3) by (auto simp: admission_inv_def)
qed

lemma map_same_update: "\<lbrakk>i < length xs; f y = f (xs ! i)\<rbrakk> \<Longrightarrow> map f (xs[i := y]) = map f xs"
  by (simp add: map_update) (metis list_update_id nth_map)

lemma admission_inv_replace:
  assumes "admission_inv s" "i < length (Adm_Store s)" "object_key new = object_key (Adm_Store s ! i)" "passed_admission new"
  shows "admission_inv (store_write ((Adm_Store s)[i := new]) s)"
proof (rule admission_inv_write [OF assms(1)])
  have keys: "map object_key ((Adm_Store s)[i := new]) = map object_key (Adm_Store s)"
    using assms(2,3) by (rule map_same_update)
  then show "distinct (map object_key ((Adm_Store s)[i := new]))"
    using assms(1) by (simp only: admission_inv_def)
  show "object_key ` set ((Adm_Store s)[i := new]) \<subseteq> object_key ` set (Adm_Store s)"
    by (simp only: set_map [symmetric] keys subset_refl)
  show "\<forall>c \<in> set ((Adm_Store s)[i := new]). passed_admission c"
    using assms(1,4) set_update_subset_insert [of "Adm_Store s" i new] by (auto simp: admission_inv_def)
qed

lemma admission_inv_step:
  assumes "admission_step s s'" "admission_inv s"
  shows "admission_inv s'"
  using assms
proof (induction rule: admission_step.induct)
  case (review listed s c)
  then have "passed_admission (setClusterDefaults c)" "name_free listed (object_key c)"
    using review_name_free by (auto simp: validateCreate_None intro: passed_defaults)
  with review show ?case by (auto simp: admission_inv_def judged_def)
next
  case (create listed c s)
  let ?s = "s\<lparr>Adm_Pending := remove1 (listed, c) (Adm_Pending s),
    Adm_Seen := (Adm_Seen s)(object_key c \<mapsto> listed)\<rparr>"
  have "judged (store_write (Adm_Store s @ [c]) ?s) k seen" if "judged s k seen" for k seen
    using that by (rule judged_mono) auto
  moreover have "passed_admission c" "judged s (object_key c) (Some listed)"
    using create by (auto simp: admission_inv_def)
  moreover have "object_key e \<noteq> object_key c" if "e \<in> set (Adm_Store s)" for e
    using create.hyps(2) that by (metis imageI)
  ultimately show ?case using create
    by (auto simp: admission_inv_def dest!: set_remove1_subset [THEN subsetD])
next
  case (refuse s req)
  then show ?case by (auto simp: admission_inv_def judged_def dest!: set_remove1_subset [THEN subsetD])
next
  case (update i s new)
  have "snd (validateCluster (setClusterDefaults new)) = None"
    using update.hyps(3) by (auto simp: validateUpdate_def split: prod.splits option.splits)
  then have "passed_admission (setClusterDefaults new)" by (rule passed_defaults)
  with update show ?case by (intro admission_inv_replace) simp_all
next
  case (bookkeeping i s new)
  have "passed_admission (Adm_Store s ! i)"
    using bookkeeping.prems nth_mem [OF bookkeeping.hyps(1)] unfolding admission_inv_def by blast
  then have "passed_admission new" using bookkeeping.hyps(3) by (rule passed_spec_only)
  with bookkeeping show ?case by (intro admission_inv_replace) simp_all
next
  case (delete i s)
  let ?reg = "take i (Adm_Store s) @ drop (Suc i) (Adm_Store s)"
  have "distinct (map object_key ?reg)"
    using delete.prems set_take_disj_set_drop_if_distinct [of "map object_key (Adm_Store s)" i "Suc i"]
      distinct_take [of "map object_key (Adm_Store s)" i] distinct_drop [of "map object_key (Adm_Store s)" "Suc i"]
    by (simp add: admission_inv_def take_map drop_map)
  then show ?case using delete.prems
    by (intro admission_inv_write) (auto simp: admission_inv_def dest: in_set_takeD in_set_dropD)
qed

lemma admission_inv_reachable:
  "admission_step\<^sup>*\<^sup>* admission_init s \<Longrightarrow> admission_inv s"
proof (induction rule: rtranclp_induct)
  case base
  show ?case by (simp add: admission_inv_def admission_init_def)
next
  case step
  then show ?case using admission_inv_step by blast
qed

text \<open>
  A creation judged on the present store and written before anything else keeps the names unique
  across namespaces.
\<close>

lemma undisturbed_creation_keeps_names:
  assumes "distinct (map CC_Name (Adm_Store s))" "name_free (Adm_Store s) (object_key c)"
    "object_key c \<notin> object_key ` set (Adm_Store s)"
  shows "distinct (map CC_Name (Adm_Store s @ [c]))"
  using assms by (auto simp: name_free_def object_key_def image_iff prod_eq_iff)

text \<open>Two creations judged before either is written both go through: the name is then taken twice.\<close>

lemma concurrent_creations_share_a_name:
  assumes "passed_admission c" "CC_Namespace d \<noteq> CC_Namespace c" "CC_Name d = CC_Name c" "CC_Spec d = CC_Spec c"
  shows "\<exists>s. admission_step\<^sup>*\<^sup>* admission_init s \<and> Adm_Store s = [c, d]"
proof -
  have d: "setClusterDefaults d = d" "snd (validateCluster d) = None" "passed_admission d"
    using passed_spec_only [OF assms(1,4)] by (auto simp: passed_admission_def)
  have c: "setClusterDefaults c = c" "snd (validateCluster c) = None" using assms(1) by (auto simp: passed_admission_def)
  let ?s1 = "admission_init\<lparr>Adm_Pending := [([], c)]\<rparr>"
  let ?s2 = "admission_init\<lparr>Adm_Pending := [([], d), ([], c)]\<rparr>"
  have 1: "admission_step admission_init ?s1"
    using admission_step.review [of "[]" admission_init c] c by (simp add: admission_init_def validateCreate_None)
  have 2: "admission_step ?s1 ?s2"
    using admission_step.review [of "[]" ?s1 d] d by (simp add: admission_init_def validateCreate_None)
  obtain s3 where 3: "admission_step ?s2 s3" "Adm_Store s3 = [c]" "([], d) \<in> set (Adm_Pending s3)"
    using admission_step.create [of "[]" c ?s2] assms(2)
    by (auto simp: admission_init_def object_key_def intro!: that [OF _ _ _])
  obtain s4 where 4: "admission_step s3 s4" "Adm_Store s4 = [c, d]"
    using admission_step.create [OF 3(3)] 3(2) assms(2) by (simp add: object_key_def)
  have "admission_step\<^sup>*\<^sup>* admission_init s4"
    using 1 2 3(1) 4(1) by (meson rtranclp.rtrancl_into_rtrancl rtranclp.rtrancl_refl)
  with 4(2) show ?thesis by blast
qed

section \<open>Properties\<close>

text \<open>
  C2. Defaulting never turns an admissible cluster into a rejected one: whatever the validator
  accepts as written, it accepts after the mutating webhook has filled the defaults.
\<close>

theorem defaulting_keeps_admission:
  assumes "snd (validateCluster c) = None"
  shows "snd (validateCluster (setClusterDefaults c)) = None"
  using assms by (rule default_keeps_admission)

theorem defaulting_keeps_admission_witness:
  "snd (validateCluster (setClusterDefaults loading_cluster)) = None"
  using defaulting_keeps_admission loading_cluster_accepted by blast

text \<open>
  After defaulting, the rejections that only guard against a missing default cannot occur:
  missing storage sizes, a missing backup image and a backup compression level of 0.
\<close>

lemma defaulted_cluster_not_rejected_for_defaults:
  "snd (validateCluster (setClusterDefaults c)) \<notin>
     {Some (Err_Core Err_CoordinatorStorageSize), Some (Err_Core Err_SegmentsStorageSize),
      Some (Err_Backup Err_BackupImage), Some (Err_Backup (Err_CompressionLevel 0))}"
proof -
  have "snd (validateCluster (setClusterDefaults c)) = Some e \<Longrightarrow> e \<noteq> Err_Core x"
    if "x \<in> {Err_CoordinatorStorageSize, Err_SegmentsStorageSize}" for e x
    using core_errors [OF that, of "setClusterDefaults c"] data_loading_errors [of "setClusterDefaults c" x]
    unfolding validateCluster_verdict default_storage
    by (auto dest!: first_err_in)
  moreover have "snd (validateCluster (setClusterDefaults c)) = Some e \<Longrightarrow> e \<noteq> Err_Backup x"
    if "x \<in> {Err_BackupImage, Err_CompressionLevel 0}" for e x
    using default_backup_errors [of c] data_loading_errors [of "setClusterDefaults c" _ x] that
    unfolding validateCluster_verdict default_storage
    by (auto dest!: first_err_in)
  ultimately show ?thesis by blast
qed

text \<open>
  C1. In every state the store can reach from an empty one, with creations judged on cached lists
  and written later, in any interleaving with other creations, updates, status writes and deletions:
  no namespace holds two clusters of one name, every stored cluster passes validation, defaulting
  would not change it, and its creation was judged on an earlier state of the store that held no
  cluster of its name in another namespace.
\<close>

theorem admission_invariant:
  assumes "admission_step\<^sup>*\<^sup>* admission_init s"
  shows "distinct (map (\<lambda>c. (CC_Namespace c, CC_Name c)) (Adm_Store s)) \<and>
    (\<forall>c \<in> set (Adm_Store s). snd (validateCluster c) = None \<and> setClusterDefaults c = c \<and>
       (\<exists>listed \<in> set (Adm_Past s). Adm_Seen s (CC_Namespace c, CC_Name c) = Some listed \<and>
          (\<forall>e \<in> set listed. CC_Name e = CC_Name c \<longrightarrow> CC_Namespace e = CC_Namespace c)))"
  using admission_inv_reachable [OF assms]
  by (auto simp: admission_inv_def passed_admission_def judged_def name_free_def object_key_def [abs_def])

theorem admission_invariant_witness:
  "\<exists>s :: admission_state. Adm_Store s = [setClusterDefaults loading_cluster] \<and>
     snd (validateCluster (setClusterDefaults loading_cluster)) = None"
proof -
  let ?c = "setClusterDefaults loading_cluster"
  let ?s = "admission_init\<lparr>Adm_Pending := [([], ?c)]\<rparr>"
  have 1: "admission_step admission_init ?s"
    using admission_step.review [of "[]" admission_init loading_cluster]
    by (simp add: admission_init_def validateCreate_None default_keeps_admission loading_cluster_accepted)
  obtain s where s: "admission_step ?s s" "Adm_Store s = [?c]"
    using admission_step.create [of "[]" ?c ?s] by (force simp: admission_init_def)
  have "admission_step\<^sup>*\<^sup>* admission_init s" using 1 s(1) by (meson rtranclp.rtrancl_into_rtrancl rtranclp.rtrancl_refl)
  note inv = admission_invariant [OF this]
  have "snd (validateCluster ?c) = None" using inv s(2) by (metis list.set_intros(1))
  with s(2) show ?thesis by blast
qed

end
