(* ===== verification/Names.thy ===== *)
theory Names
  imports Prelude
begin

text \<open>
  Resource names and string helpers, \<^verbatim>\<open>internal/util/strings.go\<close> and \<^verbatim>\<open>internal/util/names.go\<close>.
  The replacement of invalid characters works on runes, as Go's regular expressions do. The
  password generator reads a random source and is not modelled.
\<close>

section \<open>Model\<close>

subsection \<open>Strings\<close>

definition TruncateName :: "string \<Rightarrow> nat \<Rightarrow> string" where
  "TruncateName name maxLen = (if length name \<le> maxLen then name else take maxLen name)"

text \<open>The characters \<^verbatim>\<open>[a-z0-9-]\<close>.\<close>

definition name_char :: "char \<Rightarrow> bool" where
  "name_char c \<longleftrightarrow>
     (let n = (of_char c :: nat) in (97 \<le> n \<and> n \<le> 122) \<or> (48 \<le> n \<and> n \<le> 57) \<or> c = CHR ''-'')"

text \<open>\<^verbatim>\<open>k8sNameRegex.ReplaceAllString(s, "-")\<close>: every rune outside the class becomes a hyphen.\<close>

function replace_invalid :: "string \<Rightarrow> string" where
  "replace_invalid s =
     (case s of [] \<Rightarrow> []
      | c # _ \<Rightarrow>
          (let w = rune_width (map of_char s)
           in (if w = 1 \<and> name_char c then c else CHR ''-'') # replace_invalid (drop w s)))"
  by pat_completeness auto
termination
  by (relation "measure length") (auto simp: rune_width_pos)

declare replace_invalid.simps [simp del]

definition trim_char :: "char \<Rightarrow> string \<Rightarrow> string" where
  "trim_char x s = rev (dropWhile (\<lambda>c. c = x) (rev (dropWhile (\<lambda>c. c = x) s)))"

definition SanitizeK8sName :: "string \<Rightarrow> string" where
  "SanitizeK8sName name = TruncateName (trim_char CHR ''-'' (replace_invalid (ToLower name))) 63"

fun ContainsString :: "string list \<Rightarrow> string \<Rightarrow> bool" where
  "ContainsString [] s = False"
| "ContainsString (item # slice) s = (if item = s then True else ContainsString slice s)"

definition RemoveString :: "string list \<Rightarrow> string \<Rightarrow> string list" where
  "RemoveString slice s = filter (\<lambda>item. item \<noteq> s) slice"

definition IsGpbackupTimestamp :: "string \<Rightarrow> bool" where
  "IsGpbackupTimestamp ts \<longleftrightarrow> length ts = 14 \<and> list_all is_digit ts"

subsection \<open>Resource names\<close>

text \<open>\<^verbatim>\<open>%d\<close>.\<close>

definition show_int :: "int \<Rightarrow> string" where
  "show_int i = (if i < 0 then CHR ''-'' # show_nat (nat (- i)) else show_nat (nat i))"

definition CoordinatorName :: "string \<Rightarrow> string" where
  "CoordinatorName cluster = SanitizeK8sName (cluster @ ''-coordinator'')"

definition StandbyName :: "string \<Rightarrow> string" where
  "StandbyName cluster = SanitizeK8sName (cluster @ ''-coordinator-standby'')"

definition SegmentPrimaryName :: "string \<Rightarrow> string" where
  "SegmentPrimaryName cluster = SanitizeK8sName (cluster @ ''-segment-primary'')"

definition SegmentMirrorName :: "string \<Rightarrow> string" where
  "SegmentMirrorName cluster = SanitizeK8sName (cluster @ ''-segment-mirror'')"

definition PxfNetworkPolicyName :: "string \<Rightarrow> string" where
  "PxfNetworkPolicyName cluster = SanitizeK8sName (cluster @ ''-pxf'')"

definition CoordinatorPodName :: "string \<Rightarrow> string" where
  "CoordinatorPodName cluster = SanitizeK8sName (cluster @ ''-coordinator-0'')"

definition CoordinatorServiceName :: "string \<Rightarrow> string" where
  "CoordinatorServiceName cluster = SanitizeK8sName (cluster @ ''-coord-hl'')"

definition StandbyServiceName :: "string \<Rightarrow> string" where
  "StandbyServiceName cluster = SanitizeK8sName (cluster @ ''-standby-hl'')"

definition SegmentServiceName :: "string \<Rightarrow> string" where
  "SegmentServiceName cluster = SanitizeK8sName (cluster @ ''-seg-hl'')"

definition ClientServiceName :: "string \<Rightarrow> string" where
  "ClientServiceName cluster = SanitizeK8sName (cluster @ ''-client'')"

definition PostgresqlConfConfigMapName :: "string \<Rightarrow> string" where
  "PostgresqlConfConfigMapName cluster = SanitizeK8sName (cluster @ ''-postgresql-conf'')"

definition PgHBAConfConfigMapName :: "string \<Rightarrow> string" where
  "PgHBAConfConfigMapName cluster = SanitizeK8sName (cluster @ ''-pg-hba-conf'')"

definition AdminPasswordSecretName :: "string \<Rightarrow> string" where
  "AdminPasswordSecretName cluster = SanitizeK8sName (cluster @ ''-admin-password'')"

definition RecoveryJobName :: "string \<Rightarrow> string \<Rightarrow> string" where
  "RecoveryJobName cluster timestamp = SanitizeK8sName (cluster @ ''-recovery-'' @ timestamp)"

definition MaintenanceJobName :: "string \<Rightarrow> string \<Rightarrow> string \<Rightarrow> string" where
  "MaintenanceJobName cluster operation timestamp = SanitizeK8sName (cluster @ ''-'' @ operation @ ''-'' @ timestamp)"

definition ExporterCredentialsSecretName :: "string \<Rightarrow> string" where
  "ExporterCredentialsSecretName cluster = SanitizeK8sName (cluster @ ''-exporter-credentials'')"

definition ExporterQueriesConfigMapName :: "string \<Rightarrow> string" where
  "ExporterQueriesConfigMapName cluster = SanitizeK8sName (cluster @ ''-exporter-queries'')"

definition ExporterMetricsServiceName :: "string \<Rightarrow> string" where
  "ExporterMetricsServiceName cluster = SanitizeK8sName (cluster @ ''-exporter-metrics'')"

definition NodeExporterDaemonSetName :: "string \<Rightarrow> string" where
  "NodeExporterDaemonSetName cluster = SanitizeK8sName (cluster @ ''-node-exporter'')"

definition QueryMetricsServiceMonitorName :: "string \<Rightarrow> string" where
  "QueryMetricsServiceMonitorName cluster = SanitizeK8sName (cluster @ ''-query-metrics'')"

definition QueryAlertsPrometheusRuleName :: "string \<Rightarrow> string" where
  "QueryAlertsPrometheusRuleName cluster = SanitizeK8sName (cluster @ ''-query-alerts'')"

definition BackupS3ConfigMapName :: "string \<Rightarrow> string" where
  "BackupS3ConfigMapName cluster = SanitizeK8sName (cluster @ ''-backup-s3-config'')"

definition BackupS3VaultCredentialsSecretName :: "string \<Rightarrow> string" where
  "BackupS3VaultCredentialsSecretName cluster = SanitizeK8sName (cluster @ ''-backup-s3-vault-creds'')"

definition BackupCronJobName :: "string \<Rightarrow> string" where
  "BackupCronJobName cluster = SanitizeK8sName (cluster @ ''-backup-schedule'')"

definition RecommendationScanCronJobName :: "string \<Rightarrow> string" where
  "RecommendationScanCronJobName cluster = SanitizeK8sName (cluster @ ''-recommendation-scan'')"

definition DataLoadJobName :: "string \<Rightarrow> string \<Rightarrow> string" where
  "DataLoadJobName cluster job = SanitizeK8sName (cluster @ ''-dataload-'' @ job)"

definition GpfdistServiceName2 :: "string \<Rightarrow> string" where
  "GpfdistServiceName2 cluster = SanitizeK8sName (cluster @ ''-gpfdist-svc'')"

definition GpfdistDataPVCName :: "string \<Rightarrow> string" where
  "GpfdistDataPVCName cluster = SanitizeK8sName (cluster @ ''-gpfdist-data-pvc'')"

definition GploadControlFileConfigMapName :: "string \<Rightarrow> string \<Rightarrow> string" where
  "GploadControlFileConfigMapName cluster job = SanitizeK8sName (cluster @ ''-gpload-'' @ job)"

definition ClusterSSHSecretName :: "string \<Rightarrow> string" where
  "ClusterSSHSecretName cluster = SanitizeK8sName (cluster @ ''-ssh-keys'')"

definition BackupJobName :: "string \<Rightarrow> string \<Rightarrow> string" where
  "BackupJobName cluster timestamp = SanitizeK8sName (cluster @ ''-backup-'' @ timestamp)"

definition RestoreJobName :: "string \<Rightarrow> string \<Rightarrow> string" where
  "RestoreJobName cluster timestamp = SanitizeK8sName (cluster @ ''-restore-'' @ timestamp)"

definition RetentionCleanupJobName :: "string \<Rightarrow> string \<Rightarrow> string" where
  "RetentionCleanupJobName cluster timestamp = SanitizeK8sName (cluster @ ''-cleanup-'' @ timestamp)"

definition PostRestoreValidationJobName :: "string \<Rightarrow> string \<Rightarrow> string" where
  "PostRestoreValidationJobName cluster timestamp = SanitizeK8sName (cluster @ ''-validate-'' @ timestamp)"

definition MigrateBackupJobName :: "string \<Rightarrow> string \<Rightarrow> string" where
  "MigrateBackupJobName cluster timestamp = SanitizeK8sName (cluster @ ''-migrate-backup-'' @ timestamp)"

definition MigrateRestoreJobName :: "string \<Rightarrow> string \<Rightarrow> string" where
  "MigrateRestoreJobName cluster timestamp = SanitizeK8sName (cluster @ ''-migrate-restore-'' @ timestamp)"

definition MigrationJobName :: "string \<Rightarrow> string \<Rightarrow> string" where
  "MigrationJobName sourceCluster timestamp = SanitizeK8sName (sourceCluster @ ''-migration-'' @ timestamp)"

definition GpexpandJobName :: "string \<Rightarrow> int32 \<Rightarrow> int32 \<Rightarrow> string" where
  "GpexpandJobName cluster oldCount newCount = SanitizeK8sName (cluster @ ''-gpexpand-'' @ show_int oldCount @ ''-'' @ show_int newCount)"

definition BackupServiceAccountName :: "string \<Rightarrow> string" where
  "BackupServiceAccountName cluster = ''cloudberry-backup-sa''"

definition CommonLabels :: "string \<Rightarrow> string \<Rightarrow> (string \<rightharpoonup> string)" where
  "CommonLabels cluster component =
     [''app.kubernetes.io/managed-by'' \<mapsto> ''cloudberry-operator'', ''avsoft.io/cluster'' \<mapsto> cluster,
      ''avsoft.io/component'' \<mapsto> component]"

text \<open>A DNS label as Kubernetes defines it.\<close>

definition dns_label :: "string \<Rightarrow> bool" where
  "dns_label s \<longleftrightarrow>
     s \<noteq> [] \<and> length s \<le> 63 \<and> list_all name_char s \<and> hd s \<noteq> CHR ''-'' \<and> last s \<noteq> CHR ''-''"

section \<open>Lemmas\<close>

lemma rune_width_ascii: "b < 128 \<Longrightarrow> rune_width (b # bs) = 1"
  by (cases bs) auto

lemma name_char_ascii: "name_char c \<Longrightarrow> (of_char c :: nat) < 128"
  by (auto simp: name_char_def Let_def)

lemma replace_invalid_valid: "list_all name_char s \<Longrightarrow> replace_invalid s = s"
proof (induction s)
  case (Cons c s)
  then have "rune_width (map of_char (c # s)) = 1"
    using rune_width_ascii name_char_ascii by simp
  then show ?case using Cons by (subst replace_invalid.simps) simp
qed (simp add: replace_invalid.simps)

lemma replace_invalid_chars: "list_all name_char (replace_invalid s)"
proof (induction s rule: replace_invalid.induct)
  case (1 s)
  show ?case
  proof (cases s)
    case (Cons c r)
    have "name_char CHR ''-''" by (simp add: name_char_def)
    with 1 Cons show ?thesis by (subst replace_invalid.simps) (simp add: Let_def)
  qed (simp add: replace_invalid.simps)
qed

lemma lower_name_char: "name_char c \<Longrightarrow> lower_char c = c"
  by (auto simp: name_char_def lower_char_def Let_def)

lemma ToLower_valid: "list_all name_char s \<Longrightarrow> ToLower s = s"
  by (induction s) (auto simp: ToLower_def lower_name_char)

lemma set_trim_char: "set (trim_char x s) \<subseteq> set s"
  unfolding trim_char_def by (metis set_dropWhileD set_rev subsetI)

lemma hd_trim_char: "trim_char x s \<noteq> [] \<Longrightarrow> hd (trim_char x s) \<noteq> x"
proof -
  let ?t = "dropWhile (\<lambda>c. c = x) s"
  let ?u = "dropWhile (\<lambda>c. c = x) (rev ?t)"
  assume ne: "trim_char x s \<noteq> []"
  then have u: "?u \<noteq> []" by (simp add: trim_char_def)
  then have t: "?t \<noteq> []" by (metis dropWhile.simps(1) rev.simps(1))
  have "last ?u = last (rev ?t)"
    by (metis u last_appendR takeWhile_dropWhile_id)
  then show ?thesis using t u hd_dropWhile [OF t] by (simp add: trim_char_def hd_rev last_rev)
qed

lemma trim_char_id: "s \<noteq> [] \<Longrightarrow> hd s \<noteq> x \<Longrightarrow> last s \<noteq> x \<Longrightarrow> trim_char x s = s"
  by (simp add: trim_char_def dropWhile_eq_self_iff [THEN iffD2] hd_rev)

lemma SanitizeK8sName_short:
  assumes "list_all name_char s" "s \<noteq> []" "hd s \<noteq> CHR ''-''" "last s \<noteq> CHR ''-''"
  shows "SanitizeK8sName s = take 63 s"
  using assms by (simp add: SanitizeK8sName_def ToLower_valid replace_invalid_valid trim_char_id TruncateName_def)

lemma SanitizeK8sName_label: "dns_label s \<Longrightarrow> SanitizeK8sName s = s"
  by (simp add: dns_label_def SanitizeK8sName_short)

lemma dns_label_append:
  assumes "dns_label c" "list_all name_char t" "t \<noteq> []" "last t \<noteq> CHR ''-''" "length c + length t \<le> 63"
  shows "dns_label (c @ t)"
  using assms by (simp add: dns_label_def list_all_append)

lemma name_suffixes:
  "list_all name_char ''-coordinator''" "list_all name_char ''-coordinator-standby''"
  "list_all name_char ''-segment-primary''" "list_all name_char ''-segment-mirror''"
  by code_simp+

lemma component_names:
  assumes "dns_label c" "length c \<le> 43"
  shows "CoordinatorName c = c @ ''-coordinator''" "StandbyName c = c @ ''-coordinator-standby''"
    "SegmentPrimaryName c = c @ ''-segment-primary''" "SegmentMirrorName c = c @ ''-segment-mirror''"
    "dns_label (CoordinatorName c)" "dns_label (StandbyName c)" "dns_label (SegmentPrimaryName c)"
    "dns_label (SegmentMirrorName c)"
  using assms dns_label_append [OF assms(1) name_suffixes(1)] dns_label_append [OF assms(1) name_suffixes(2)]
    dns_label_append [OF assms(1) name_suffixes(3)] dns_label_append [OF assms(1) name_suffixes(4)]
  by (simp_all add: CoordinatorName_def StandbyName_def SegmentPrimaryName_def SegmentMirrorName_def
      SanitizeK8sName_label)

section \<open>Properties\<close>

text \<open>
  Every name the operator derives has at most 63 characters, all of them lower-case letters,
  digits or hyphens, and does not begin with a hyphen.
\<close>

lemma SanitizeK8sName_wellformed:
  "length (SanitizeK8sName name) \<le> 63 \<and> list_all name_char (SanitizeK8sName name) \<and>
   take 1 (SanitizeK8sName name) \<noteq> ''-''"
proof -
  let ?t = "trim_char CHR ''-'' (replace_invalid (ToLower name))"
  have "list_all name_char ?t"
    using replace_invalid_chars [of "ToLower name"] set_trim_char by (fastforce simp: list_all_iff)
  then have "list_all name_char (take 63 ?t)" by (auto simp: list_all_iff dest: in_set_takeD)
  moreover have "take 1 (take 63 ?t) \<noteq> ''-''"
    using hd_trim_char [of "CHR ''-''" "replace_invalid (ToLower name)"] by (cases ?t) auto
  moreover have "SanitizeK8sName name = take 63 ?t" by (simp add: SanitizeK8sName_def TruncateName_def)
  ultimately show ?thesis by simp
qed

text \<open>
  For a cluster named by a DNS label of at most 43 characters the StatefulSets of the
  coordinator, the standby, the primaries and the mirrors have four different names, each a DNS
  label, and clusters with different names have different ones.
\<close>

theorem component_names_distinct:
  assumes "dns_label c" "length c \<le> 43" "dns_label d" "length d \<le> 43" "c \<noteq> d"
  shows "distinct [CoordinatorName c, StandbyName c, SegmentPrimaryName c, SegmentMirrorName c] \<and>
    list_all dns_label [CoordinatorName c, StandbyName c, SegmentPrimaryName c, SegmentMirrorName c] \<and>
    CoordinatorName c \<noteq> CoordinatorName d \<and> StandbyName c \<noteq> StandbyName d \<and>
    SegmentPrimaryName c \<noteq> SegmentPrimaryName d \<and> SegmentMirrorName c \<noteq> SegmentMirrorName d"
  using assms component_names [OF assms(1,2)] component_names(1-4) [OF assms(3,4)] by simp

text \<open>
  Truncation makes names collide: for a cluster name of 51 characters the standby StatefulSet
  has the name of the coordinator StatefulSet.
\<close>

lemma long_names_collide:
  "StandbyName (replicate 51 CHR ''a'') = CoordinatorName (replicate 51 CHR ''a'') \<and>
   dns_label (replicate 51 CHR ''a'')"
  by code_simp

text \<open>
  Truncation after trimming can leave a trailing hyphen, which no DNS label has.
\<close>

lemma truncated_name_ends_in_hyphen:
  "last (SegmentMirrorName (replicate 62 CHR ''a'')) = CHR ''-'' \<and>
   \<not> dns_label (SegmentMirrorName (replicate 62 CHR ''a''))"
  by code_simp

end
