(* ===== verification/Kube.thy ===== *)
theory Kube
  imports Samples Names
begin

text \<open>
  The interface of the controllers to the outside: the Kubernetes API client, the event recorder,
  the database client and the clock. None of it is code of the repository, so a controller takes
  it as an argument, a record of operations on an arbitrary world \<open>'w\<close>; every operation may fail
  and may change the world. The locale \<open>healthy_api\<close> states what an API server without failures
  and without interference does, in terms of the objects stored in a world. The in-memory client at
  the end satisfies it.
\<close>

section \<open>Model\<close>

text \<open>The part of a StatefulSet the controllers read and write.\<close>

record StatefulSet =
  Sts_Namespace :: string
  Sts_Name :: string
  Sts_Replicas :: "int32 option"
  Sts_StatusReplicas :: int32
  Sts_ReadyReplicas :: int32
  Sts_UpdatedReplicas :: int32

datatype api_error = NotFound | AlreadyExists | Other_Error string

text \<open>
  A merge patch of the status: the JSON of a whole status, from which the fields tagged
  \<^verbatim>\<open>omitempty\<close> are missing when they are zero, the explicit readiness reset with a phase, or the
  explicit readiness counters (coordinator, standby, segments).
\<close>

datatype status_patch =
    Full_Status CloudberryClusterStatus
  | Clear_Readiness ClusterPhase
  | Set_Readiness bool bool int32

record 'w kube_client =
  k_get_sts :: "string \<Rightarrow> string \<Rightarrow> 'w \<Rightarrow> (api_error + StatefulSet) \<times> 'w"
  k_update_sts :: "StatefulSet \<Rightarrow> 'w \<Rightarrow> api_error option \<times> 'w"
  k_get_cluster :: "string \<Rightarrow> string \<Rightarrow> 'w \<Rightarrow> (api_error + CloudberryCluster) \<times> 'w"
  k_update_cluster :: "CloudberryCluster \<Rightarrow> 'w \<Rightarrow> (api_error + CloudberryCluster) \<times> 'w"
  k_patch_annotation ::
    "string \<Rightarrow> string \<Rightarrow> string \<Rightarrow> string option \<Rightarrow> 'w \<Rightarrow> (api_error + CloudberryCluster) \<times> 'w"
  k_patch_status :: "string \<Rightarrow> string \<Rightarrow> status_patch \<Rightarrow> 'w \<Rightarrow> (api_error + CloudberryCluster) \<times> 'w"
  k_update_status :: "CloudberryCluster \<Rightarrow> 'w \<Rightarrow> (api_error + CloudberryCluster) \<times> 'w"
  k_event :: "CloudberryCluster \<Rightarrow> string \<Rightarrow> string \<Rightarrow> 'w \<Rightarrow> 'w"
  k_now :: "'w \<Rightarrow> int"

text \<open>The operations of \<^verbatim>\<open>db.DBClientFactory\<close> and \<^verbatim>\<open>db.Client\<close> a shutdown uses.\<close>

record 'w db_client =
  d_new :: "CloudberryCluster \<Rightarrow> 'w \<Rightarrow> (string + unit) \<times> 'w"
  d_cancel_all_queries :: "'w \<Rightarrow> (string + int) \<times> 'w"
  d_terminate_all_backends :: "'w \<Rightarrow> (string + int) \<times> 'w"
  d_close :: "'w \<Rightarrow> 'w"

text \<open>
  A reconciler: its client, its database factory, which may be nil, and its
  \<^verbatim>\<open>reconcileIntervals\<close> in nanoseconds.
\<close>

record 'w reconciler =
  r_client :: "'w kube_client"
  r_dbFactory :: "'w db_client option"
  r_reconcileInterval :: int
  r_operationTimeout :: int

text \<open>What the merge patch leaves in the status fields the lifecycle handlers rely on.\<close>

definition patched_phase :: "status_patch \<Rightarrow> ClusterPhase \<Rightarrow> ClusterPhase" where
  "patched_phase p old = (case p of Full_Status s \<Rightarrow> if St_Phase s = [] then old else St_Phase s
     | Clear_Readiness ph \<Rightarrow> ph | Set_Readiness _ _ _ \<Rightarrow> old)"

definition patched_coordinator :: "status_patch \<Rightarrow> bool \<Rightarrow> bool" where
  "patched_coordinator p old = (case p of Full_Status s \<Rightarrow> St_CoordinatorReady s \<or> old
     | Clear_Readiness _ \<Rightarrow> False | Set_Readiness c _ _ \<Rightarrow> c)"

definition patched_standby :: "status_patch \<Rightarrow> bool \<Rightarrow> bool" where
  "patched_standby p old = (case p of Full_Status s \<Rightarrow> St_StandbyReady s \<or> old
     | Clear_Readiness _ \<Rightarrow> False | Set_Readiness _ s _ \<Rightarrow> s)"

definition patched_segments :: "status_patch \<Rightarrow> int32 \<Rightarrow> int32" where
  "patched_segments p old = (case p of Full_Status s \<Rightarrow> if St_SegmentsReady s = 0 then old else St_SegmentsReady s
     | Clear_Readiness _ \<Rightarrow> 0 | Set_Readiness _ _ n \<Rightarrow> n)"

lemmas patched_defs = patched_phase_def patched_coordinator_def patched_standby_def patched_segments_def

section \<open>A healthy API server\<close>

text \<open>
  \<open>sts_of\<close> and \<open>cluster_of\<close> are the stored objects and \<open>writes_of\<close> the history of StatefulSet
  updates (name and requested replicas). Reads return what is stored, an update of a StatefulSet
  replaces its spec and keeps its status (a subresource), an update of the metadata of the cluster
  keeps its status, patches of the cluster answer the stored
  object, and neither events nor the database touch the stored objects.
\<close>

locale healthy_api =
  fixes r :: "'w reconciler"
    and sts_of :: "'w \<Rightarrow> string \<Rightarrow> string \<Rightarrow> StatefulSet option"
    and cluster_of :: "'w \<Rightarrow> string \<Rightarrow> string \<Rightarrow> CloudberryCluster option"
    and writes_of :: "'w \<Rightarrow> (string \<times> int32 option) list"
  assumes get_sts: "k_get_sts (r_client r) ns n w =
      ((case sts_of w ns n of None \<Rightarrow> Inl NotFound | Some s \<Rightarrow> Inr s), w)"
    and sts_key: "sts_of w ns n = Some s \<Longrightarrow> Sts_Namespace s = ns \<and> Sts_Name s = n"
    and update_sts: "sts_of w (Sts_Namespace s) (Sts_Name s) = Some old \<Longrightarrow>
      \<exists>w'. k_update_sts (r_client r) s w = (None, w') \<and>
        sts_of w' = (sts_of w)(Sts_Namespace s := (sts_of w (Sts_Namespace s))(Sts_Name s \<mapsto>
          old\<lparr>Sts_Replicas := Sts_Replicas s\<rparr>)) \<and>
        cluster_of w' = cluster_of w \<and> writes_of w' = writes_of w @ [(Sts_Name s, Sts_Replicas s)]"
    and get_cluster: "k_get_cluster (r_client r) ns n w =
      ((case cluster_of w ns n of None \<Rightarrow> Inl NotFound | Some c \<Rightarrow> Inr c), w)"
    and cluster_key: "cluster_of w ns n = Some c \<Longrightarrow> CC_Namespace c = ns \<and> CC_Name c = n"
    and update_cluster: "cluster_of w (CC_Namespace d) (CC_Name d) = Some c \<Longrightarrow>
      CC_Spec d = CC_Spec c \<Longrightarrow> CC_Generation d = CC_Generation c \<Longrightarrow>
      \<exists>w' c'. k_update_cluster (r_client r) d w = (Inr c', w') \<and> c' = d\<lparr>CC_Status := CC_Status c\<rparr> \<and>
        cluster_of w' = (cluster_of w)(CC_Namespace d := (cluster_of w (CC_Namespace d))(CC_Name d \<mapsto> c')) \<and>
        sts_of w' = sts_of w \<and> writes_of w' = writes_of w"
    and patch_annotation: "cluster_of w ns n = Some c \<Longrightarrow>
      \<exists>w' c'. k_patch_annotation (r_client r) ns n key val w = (Inr c', w') \<and>
        c' = c\<lparr>CC_Annotations := (CC_Annotations c)(key := val)\<rparr> \<and>
        cluster_of w' = (cluster_of w)(ns := (cluster_of w ns)(n \<mapsto> c')) \<and>
        sts_of w' = sts_of w \<and> writes_of w' = writes_of w"
    and patch_status: "cluster_of w ns n = Some c \<Longrightarrow>
      \<exists>w' c'. k_patch_status (r_client r) ns n p w = (Inr c', w') \<and>
        (\<exists>st. c' = c\<lparr>CC_Status := st\<rparr> \<and> St_Phase st = patched_phase p (St_Phase (CC_Status c)) \<and>
          St_CoordinatorReady st = patched_coordinator p (St_CoordinatorReady (CC_Status c)) \<and>
          St_StandbyReady st = patched_standby p (St_StandbyReady (CC_Status c)) \<and>
          St_SegmentsReady st = patched_segments p (St_SegmentsReady (CC_Status c))) \<and>
        cluster_of w' = (cluster_of w)(ns := (cluster_of w ns)(n \<mapsto> c')) \<and>
        sts_of w' = sts_of w \<and> writes_of w' = writes_of w"
    and update_status: "cluster_of w (CC_Namespace d) (CC_Name d) = Some c \<Longrightarrow>
      \<exists>w' c'. k_update_status (r_client r) d w = (Inr c', w') \<and> c' = c\<lparr>CC_Status := CC_Status d\<rparr> \<and>
        cluster_of w' = (cluster_of w)(CC_Namespace d := (cluster_of w (CC_Namespace d))(CC_Name d \<mapsto> c')) \<and>
        sts_of w' = sts_of w \<and> writes_of w' = writes_of w"
    and event: "cluster_of (k_event (r_client r) c t m w) = cluster_of w"
      "sts_of (k_event (r_client r) c t m w) = sts_of w"
      "writes_of (k_event (r_client r) c t m w) = writes_of w"
    and db_frame: "r_dbFactory r = Some db \<Longrightarrow>
      cluster_of (snd (d_new db c w)) = cluster_of w \<and> sts_of (snd (d_new db c w)) = sts_of w \<and>
      writes_of (snd (d_new db c w)) = writes_of w \<and>
      cluster_of (snd (d_cancel_all_queries db w)) = cluster_of w \<and>
      sts_of (snd (d_cancel_all_queries db w)) = sts_of w \<and>
      writes_of (snd (d_cancel_all_queries db w)) = writes_of w \<and>
      cluster_of (snd (d_terminate_all_backends db w)) = cluster_of w \<and>
      sts_of (snd (d_terminate_all_backends db w)) = sts_of w \<and>
      writes_of (snd (d_terminate_all_backends db w)) = writes_of w \<and>
      cluster_of (d_close db w) = cluster_of w \<and> sts_of (d_close db w) = sts_of w \<and>
      writes_of (d_close db w) = writes_of w"

section \<open>An in-memory API server\<close>

text \<open>The stored objects get the name they are stored under, so that a key never lies.\<close>

record mem_world =
  mem_sts :: "string \<Rightarrow> string \<Rightarrow> StatefulSet option"
  mem_cluster :: "string \<Rightarrow> string \<Rightarrow> CloudberryCluster option"
  mem_writes :: "(string \<times> int32 option) list"

definition mem_sts_of :: "mem_world \<Rightarrow> string \<Rightarrow> string \<Rightarrow> StatefulSet option" where
  "mem_sts_of w ns n = map_option (\<lambda>s. s\<lparr>Sts_Namespace := ns, Sts_Name := n\<rparr>) (mem_sts w ns n)"

definition mem_cluster_of :: "mem_world \<Rightarrow> string \<Rightarrow> string \<Rightarrow> CloudberryCluster option" where
  "mem_cluster_of w ns n = map_option (\<lambda>c. c\<lparr>CC_Namespace := ns, CC_Name := n\<rparr>) (mem_cluster w ns n)"

definition mem_put_cluster :: "CloudberryCluster \<Rightarrow> mem_world \<Rightarrow> mem_world" where
  "mem_put_cluster c w = w\<lparr>mem_cluster := (mem_cluster w)(CC_Namespace c := (mem_cluster w (CC_Namespace c))(CC_Name c \<mapsto> c))\<rparr>"

definition mem_merge :: "status_patch \<Rightarrow> CloudberryClusterStatus \<Rightarrow> CloudberryClusterStatus" where
  "mem_merge p st = st\<lparr>St_Phase := patched_phase p (St_Phase st),
     St_CoordinatorReady := patched_coordinator p (St_CoordinatorReady st),
     St_StandbyReady := patched_standby p (St_StandbyReady st),
     St_SegmentsReady := patched_segments p (St_SegmentsReady st)\<rparr>"

definition mem_change :: "(CloudberryCluster \<Rightarrow> CloudberryCluster) \<Rightarrow> string \<Rightarrow> string \<Rightarrow> mem_world \<Rightarrow>
    (api_error + CloudberryCluster) \<times> mem_world" where
  "mem_change f ns n w =
     (case mem_cluster_of w ns n of None \<Rightarrow> (Inl NotFound, w)
      | Some c \<Rightarrow> (let c' = f c in (Inr c', mem_put_cluster c' w)))"

definition mem_client :: "mem_world kube_client" where
  "mem_client = \<lparr>
     k_get_sts = (\<lambda>ns n w. ((case mem_sts_of w ns n of None \<Rightarrow> Inl NotFound | Some s \<Rightarrow> Inr s), w)),
     k_update_sts = (\<lambda>s w.
       (case mem_sts_of w (Sts_Namespace s) (Sts_Name s) of None \<Rightarrow> (Some NotFound, w)
        | Some old \<Rightarrow>
            (None, w\<lparr>mem_sts := (mem_sts w)(Sts_Namespace s := (mem_sts w (Sts_Namespace s))(Sts_Name s \<mapsto>
               old\<lparr>Sts_Replicas := Sts_Replicas s\<rparr>)), mem_writes := mem_writes w @ [(Sts_Name s, Sts_Replicas s)]\<rparr>))),
     k_get_cluster = (\<lambda>ns n w. ((case mem_cluster_of w ns n of None \<Rightarrow> Inl NotFound | Some c \<Rightarrow> Inr c), w)),
     k_update_cluster = (\<lambda>d. mem_change (\<lambda>c. d\<lparr>CC_Status := CC_Status c\<rparr>) (CC_Namespace d) (CC_Name d)),
     k_patch_annotation = (\<lambda>ns n key val. mem_change (\<lambda>c. c\<lparr>CC_Annotations := (CC_Annotations c)(key := val)\<rparr>) ns n),
     k_patch_status = (\<lambda>ns n p. mem_change (\<lambda>c. c\<lparr>CC_Status := mem_merge p (CC_Status c)\<rparr>) ns n),
     k_update_status = (\<lambda>d. mem_change (\<lambda>c. c\<lparr>CC_Status := CC_Status d\<rparr>) (CC_Namespace d) (CC_Name d)),
     k_event = (\<lambda>c t m w. w), k_now = (\<lambda>w. 0)\<rparr>"

definition mem_db :: "mem_world db_client" where
  "mem_db = \<lparr>d_new = (\<lambda>c w. (Inr (), w)), d_cancel_all_queries = (\<lambda>w. (Inr 0, w)),
     d_terminate_all_backends = (\<lambda>w. (Inr 0, w)), d_close = (\<lambda>w. w)\<rparr>"

definition mem_reconciler :: "mem_world reconciler" where
  "mem_reconciler = \<lparr>r_client = mem_client, r_dbFactory = Some mem_db,
     r_reconcileInterval = 0, r_operationTimeout = 0\<rparr>"

section \<open>Lemmas\<close>

lemma mem_cluster_of_put:
  "mem_cluster_of (mem_put_cluster c w) =
     (mem_cluster_of w)(CC_Namespace c := (mem_cluster_of w (CC_Namespace c))(CC_Name c \<mapsto> c))"
  by (auto simp: fun_eq_iff mem_cluster_of_def mem_put_cluster_def)

lemma mem_put_frame: "mem_sts_of (mem_put_cluster c w) = mem_sts_of w" "mem_writes (mem_put_cluster c w) = mem_writes w"
  by (simp_all add: mem_sts_of_def [abs_def] mem_put_cluster_def)

lemma mem_cluster_key: "mem_cluster_of w ns n = Some c \<Longrightarrow> CC_Namespace c = ns \<and> CC_Name c = n"
  by (auto simp: mem_cluster_of_def)

lemma mem_sts_key: "mem_sts_of w ns n = Some s \<Longrightarrow> Sts_Namespace s = ns \<and> Sts_Name s = n"
  by (auto simp: mem_sts_of_def)

lemma mem_change_ok:
  assumes "mem_cluster_of w ns n = Some c" "CC_Namespace (f c) = ns" "CC_Name (f c) = n"
  shows "mem_change f ns n w = (Inr (f c), mem_put_cluster (f c) w) \<and>
    mem_cluster_of (mem_put_cluster (f c) w) = (mem_cluster_of w)(ns := (mem_cluster_of w ns)(n \<mapsto> f c)) \<and>
    mem_sts_of (mem_put_cluster (f c) w) = mem_sts_of w \<and> mem_writes (mem_put_cluster (f c) w) = mem_writes w"
  using assms by (simp add: mem_change_def Let_def mem_cluster_of_put mem_put_frame)

interpretation mem: healthy_api mem_reconciler mem_sts_of mem_cluster_of mem_writes
proof unfold_locales
  fix w and s old :: StatefulSet assume old: "mem_sts_of w (Sts_Namespace s) (Sts_Name s) = Some old"
  let ?w = "w\<lparr>mem_sts := (mem_sts w)(Sts_Namespace s := (mem_sts w (Sts_Namespace s))(Sts_Name s \<mapsto>
       old\<lparr>Sts_Replicas := Sts_Replicas s\<rparr>)), mem_writes := mem_writes w @ [(Sts_Name s, Sts_Replicas s)]\<rparr>"
  have "mem_sts_of ?w = (mem_sts_of w)(Sts_Namespace s := (mem_sts_of w (Sts_Namespace s))(Sts_Name s \<mapsto>
      old\<lparr>Sts_Replicas := Sts_Replicas s\<rparr>))"
    using mem_sts_key [OF old] by (auto simp: fun_eq_iff mem_sts_of_def)
  then show "\<exists>w'. k_update_sts (r_client mem_reconciler) s w = (None, w') \<and>
      mem_sts_of w' = (mem_sts_of w)(Sts_Namespace s := (mem_sts_of w (Sts_Namespace s))(Sts_Name s \<mapsto>
        old\<lparr>Sts_Replicas := Sts_Replicas s\<rparr>)) \<and>
      mem_cluster_of w' = mem_cluster_of w \<and> mem_writes w' = mem_writes w @ [(Sts_Name s, Sts_Replicas s)]"
    using old by (simp add: mem_reconciler_def mem_client_def mem_cluster_of_def [abs_def])
next
  fix w and d c :: CloudberryCluster assume c: "mem_cluster_of w (CC_Namespace d) (CC_Name d) = Some c"
  then show "\<exists>w' c'. k_update_cluster (r_client mem_reconciler) d w = (Inr c', w') \<and> c' = d\<lparr>CC_Status := CC_Status c\<rparr> \<and>
      mem_cluster_of w' = (mem_cluster_of w)(CC_Namespace d := (mem_cluster_of w (CC_Namespace d))(CC_Name d \<mapsto> c')) \<and>
      mem_sts_of w' = mem_sts_of w \<and> mem_writes w' = mem_writes w"
    using mem_change_ok [OF c, of "\<lambda>c. d\<lparr>CC_Status := CC_Status c\<rparr>"]
    by (simp add: mem_reconciler_def mem_client_def)
next
  fix w ns n c key val assume c: "mem_cluster_of w ns n = Some c"
  then show "\<exists>w' c'. k_patch_annotation (r_client mem_reconciler) ns n key val w = (Inr c', w') \<and>
      c' = c\<lparr>CC_Annotations := (CC_Annotations c)(key := val)\<rparr> \<and>
      mem_cluster_of w' = (mem_cluster_of w)(ns := (mem_cluster_of w ns)(n \<mapsto> c')) \<and>
      mem_sts_of w' = mem_sts_of w \<and> mem_writes w' = mem_writes w"
    using mem_change_ok [OF c, of "\<lambda>c. c\<lparr>CC_Annotations := (CC_Annotations c)(key := val)\<rparr>"] mem_cluster_key [OF c]
    by (simp add: mem_reconciler_def mem_client_def)
next
  fix w ns n c p assume c: "mem_cluster_of w ns n = Some c"
  then show "\<exists>w' c'. k_patch_status (r_client mem_reconciler) ns n p w = (Inr c', w') \<and>
      (\<exists>st. c' = c\<lparr>CC_Status := st\<rparr> \<and> St_Phase st = patched_phase p (St_Phase (CC_Status c)) \<and>
        St_CoordinatorReady st = patched_coordinator p (St_CoordinatorReady (CC_Status c)) \<and>
        St_StandbyReady st = patched_standby p (St_StandbyReady (CC_Status c)) \<and>
        St_SegmentsReady st = patched_segments p (St_SegmentsReady (CC_Status c))) \<and>
      mem_cluster_of w' = (mem_cluster_of w)(ns := (mem_cluster_of w ns)(n \<mapsto> c')) \<and>
      mem_sts_of w' = mem_sts_of w \<and> mem_writes w' = mem_writes w"
    using mem_change_ok [OF c, of "\<lambda>c. c\<lparr>CC_Status := mem_merge p (CC_Status c)\<rparr>"] mem_cluster_key [OF c]
    by (auto simp: mem_reconciler_def mem_client_def intro!: exI [of _ "mem_merge p (CC_Status c)"])
      (simp_all add: mem_merge_def)
next
  fix w and d c :: CloudberryCluster assume c: "mem_cluster_of w (CC_Namespace d) (CC_Name d) = Some c"
  then show "\<exists>w' c'. k_update_status (r_client mem_reconciler) d w = (Inr c', w') \<and> c' = c\<lparr>CC_Status := CC_Status d\<rparr> \<and>
      mem_cluster_of w' = (mem_cluster_of w)(CC_Namespace d := (mem_cluster_of w (CC_Namespace d))(CC_Name d \<mapsto> c')) \<and>
      mem_sts_of w' = mem_sts_of w \<and> mem_writes w' = mem_writes w"
    using mem_change_ok [OF c, of "\<lambda>c. c\<lparr>CC_Status := CC_Status d\<rparr>"] mem_cluster_key [OF c]
    by (simp add: mem_reconciler_def mem_client_def)
qed (auto simp: mem_reconciler_def mem_client_def mem_db_def dest: mem_cluster_key mem_sts_key)

end
