(* ===== verification/Lifecycle.thy ===== *)
theory Lifecycle
  imports Kube Conditions
begin

text \<open>
  The lifecycle of a cluster in \<^verbatim>\<open>internal/controller/cluster_controller.go\<close>: the order of the
  gates of \<^verbatim>\<open>Reconcile\<close>, the action handlers (start, stop, restart), the scaling of StatefulSets
  and the status update. Handlers are state transformers on the world of the reconciler; the Go
  code mutates the cluster object in place and the client overwrites it with the server's answer,
  here the answered object takes its place. Logging, metrics and spans are left out. The operations
  the gates lead to (deletion, scaling, mirroring, upgrade and the two steps of the main
  reconciliation) are arguments, the record \<open>flows\<close>.
\<close>

section \<open>Model\<close>

subsection \<open>Constants and results\<close>

abbreviation requeueAfterDefault :: int where "requeueAfterDefault \<equiv> 30000000000"
abbreviation requeueAfterStopping :: int where "requeueAfterStopping \<equiv> 5000000000"
abbreviation requeueAfterImmediate :: int where "requeueAfterImmediate \<equiv> 1000000000"
abbreviation AnnotationAction :: string where "AnnotationAction \<equiv> ''avsoft.io/action''"
abbreviation AnnotationRestartPending :: string where "AnnotationRestartPending \<equiv> ''avsoft.io/restart-pending''"
abbreviation AnnotationUpgrade :: string where "AnnotationUpgrade \<equiv> ''avsoft.io/upgrade''"
abbreviation AnnotationMirroringState :: string where "AnnotationMirroringState \<equiv> ''avsoft.io/mirroring-state''"
abbreviation AnnotationConfirmScaleIn :: string where "AnnotationConfirmScaleIn \<equiv> ''avsoft.io/confirm-scale-in''"
abbreviation annotationScaleState :: string where "annotationScaleState \<equiv> ''avsoft.io/scale-state''"
abbreviation annotationScaleInState :: string where "annotationScaleInState \<equiv> ''avsoft.io/scale-in-state''"
abbreviation FinalizerName :: string where "FinalizerName \<equiv> ''avsoft.io/finalizer''"

abbreviation ActionStart :: string where "ActionStart \<equiv> ''start''"
abbreviation ActionStartRestricted :: string where "ActionStartRestricted \<equiv> ''start-restricted''"
abbreviation ActionStartMaintenance :: string where "ActionStartMaintenance \<equiv> ''start-maintenance''"
abbreviation ActionStop :: string where "ActionStop \<equiv> ''stop''"
abbreviation ActionStopFast :: string where "ActionStopFast \<equiv> ''stop-fast''"
abbreviation ActionStopImmediate :: string where "ActionStopImmediate \<equiv> ''stop-immediate''"
abbreviation ActionRestart :: string where "ActionRestart \<equiv> ''restart''"

text \<open>An error with the context \<^verbatim>\<open>fmt.Errorf\<close> adds; a result is the requeue delay, 0 for none.\<close>

datatype ctrl_error = Ctrl_Error string api_error

type_synonym 'w handler = "'w \<Rightarrow> (ctrl_error + int) \<times> 'w"

definition with_phase :: "ClusterPhase \<Rightarrow> CloudberryCluster \<Rightarrow> CloudberryCluster" where
  "with_phase ph cluster = cluster\<lparr>CC_Status := (CC_Status cluster)\<lparr>St_Phase := ph\<rparr>\<rparr>"

definition requeueDefault :: "'w reconciler \<Rightarrow> int" where
  "requeueDefault r = (if r_reconcileInterval r > 0 then r_reconcileInterval r else requeueAfterDefault)"

subsection \<open>StatefulSets\<close>

definition getScaleDownOrder :: "CloudberryCluster \<Rightarrow> string list" where
  "getScaleDownOrder cluster =
     (case Seg_Mirroring (Spec_Segments (CC_Spec cluster)) of
        Some m \<Rightarrow> if Mir_Enabled m then [SegmentMirrorName (CC_Name cluster)] else [] | None \<Rightarrow> []) @
     [SegmentPrimaryName (CC_Name cluster)] @
     (case Spec_Standby (CC_Spec cluster) of
        Some s \<Rightarrow> if Standby_Enabled s then [StandbyName (CC_Name cluster)] else [] | None \<Rightarrow> []) @
     [CoordinatorName (CC_Name cluster)]"

definition getScaleUpOrder :: "CloudberryCluster \<Rightarrow> string list" where
  "getScaleUpOrder cluster =
     [CoordinatorName (CC_Name cluster)] @
     (case Spec_Standby (CC_Spec cluster) of
        Some s \<Rightarrow> if Standby_Enabled s then [StandbyName (CC_Name cluster)] else [] | None \<Rightarrow> []) @
     [SegmentPrimaryName (CC_Name cluster)] @
     (case Seg_Mirroring (Spec_Segments (CC_Spec cluster)) of
        Some m \<Rightarrow> if Mir_Enabled m then [SegmentMirrorName (CC_Name cluster)] else [] | None \<Rightarrow> [])"

definition getDesiredReplicas :: "CloudberryCluster \<Rightarrow> string \<Rightarrow> int32" where
  "getDesiredReplicas cluster stsName =
     (if stsName = CoordinatorName (CC_Name cluster) then 1
      else if stsName = StandbyName (CC_Name cluster) then 1
      else if stsName = SegmentPrimaryName (CC_Name cluster) then Seg_Count (Spec_Segments (CC_Spec cluster))
      else if stsName = SegmentMirrorName (CC_Name cluster) then Seg_Count (Spec_Segments (CC_Spec cluster))
      else 1)"

definition scaleStatefulSet ::
  "'w reconciler \<Rightarrow> string \<Rightarrow> string \<Rightarrow> int32 \<Rightarrow> 'w \<Rightarrow> ctrl_error option \<times> 'w" where
  "scaleStatefulSet r namespace name replicas w =
     (case k_get_sts (r_client r) namespace name w of
        (Inl NotFound, w1) \<Rightarrow> (None, w1)
      | (Inl e, w1) \<Rightarrow> (Some (Ctrl_Error ''getting statefulset for scaling'' e), w1)
      | (Inr sts, w1) \<Rightarrow>
          if Sts_Replicas sts = Some replicas then (None, w1)
          else (case k_update_sts (r_client r) (sts\<lparr>Sts_Replicas := Some replicas\<rparr>) w1 of
                  (Some e, w2) \<Rightarrow> (Some (Ctrl_Error ''scaling statefulset'' e), w2)
                | (None, w2) \<Rightarrow> (None, w2)))"

definition isStatefulSetAtScale ::
  "'w reconciler \<Rightarrow> string \<Rightarrow> string \<Rightarrow> int32 \<Rightarrow> 'w \<Rightarrow> (bool \<times> ctrl_error option) \<times> 'w" where
  "isStatefulSetAtScale r namespace name replicas w =
     (case k_get_sts (r_client r) namespace name w of
        (Inl NotFound, w1) \<Rightarrow> ((True, None), w1)
      | (Inl e, w1) \<Rightarrow> ((False, Some (Ctrl_Error ''getting statefulset for scale check'' e)), w1)
      | (Inr sts, w1) \<Rightarrow>
          ((if replicas = 0 then Sts_StatusReplicas sts = 0 else Sts_ReadyReplicas sts \<ge> replicas, None), w1))"

fun all_at_scale :: "'w reconciler \<Rightarrow> string \<Rightarrow> string list \<Rightarrow> int32 \<Rightarrow> 'w \<Rightarrow> bool \<times> 'w" where
  "all_at_scale r namespace [] replicas w = (True, w)"
| "all_at_scale r namespace (name # stsNames) replicas w =
     (case isStatefulSetAtScale r namespace name replicas w of
        ((ready, _), w1) \<Rightarrow> if \<not> ready then (False, w1) else all_at_scale r namespace stsNames replicas w1)"

definition allStatefulSetsAtScale :: "'w reconciler \<Rightarrow> CloudberryCluster \<Rightarrow> int32 \<Rightarrow> 'w \<Rightarrow> bool \<times> 'w" where
  "allStatefulSetsAtScale r cluster replicas =
     all_at_scale r (CC_Namespace cluster) (getScaleDownOrder cluster) replicas"

text \<open>
  The loops of the handlers: scaling to zero logs an error and goes on, scaling up stops at the
  first error.
\<close>

fun scale_down_all :: "'w reconciler \<Rightarrow> string \<Rightarrow> string list \<Rightarrow> 'w \<Rightarrow> 'w" where
  "scale_down_all r namespace [] w = w"
| "scale_down_all r namespace (name # stsNames) w =
     scale_down_all r namespace stsNames (snd (scaleStatefulSet r namespace name 0 w))"

fun scale_up_all :: "'w reconciler \<Rightarrow> CloudberryCluster \<Rightarrow> string list \<Rightarrow> 'w \<Rightarrow> ctrl_error option \<times> 'w" where
  "scale_up_all r cluster [] w = (None, w)"
| "scale_up_all r cluster (name # stsNames) w =
     (case scaleStatefulSet r (CC_Namespace cluster) name (getDesiredReplicas cluster name) w of
        (Some (Ctrl_Error _ e), w1) \<Rightarrow> (Some (Ctrl_Error ''scaling for restricted start'' e), w1)
      | (None, w1) \<Rightarrow> scale_up_all r cluster stsNames w1)"

subsection \<open>Patches of the cluster\<close>

definition patchStatus :: "'w reconciler \<Rightarrow> CloudberryCluster \<Rightarrow> 'w \<Rightarrow> (api_error + CloudberryCluster) \<times> 'w" where
  "patchStatus r cluster =
     k_patch_status (r_client r) (CC_Namespace cluster) (CC_Name cluster) (Full_Status (CC_Status cluster))"

definition patchClearReadinessStatus ::
  "'w reconciler \<Rightarrow> CloudberryCluster \<Rightarrow> 'w \<Rightarrow> (api_error + CloudberryCluster) \<times> 'w" where
  "patchClearReadinessStatus r cluster =
     k_patch_status (r_client r) (CC_Namespace cluster) (CC_Name cluster)
       (Clear_Readiness (St_Phase (CC_Status cluster)))"

definition setAnnotationPatch ::
  "'w reconciler \<Rightarrow> CloudberryCluster \<Rightarrow> string \<Rightarrow> string \<Rightarrow> 'w \<Rightarrow> (api_error + CloudberryCluster) \<times> 'w" where
  "setAnnotationPatch r cluster key value =
     k_patch_annotation (r_client r) (CC_Namespace cluster) (CC_Name cluster) key (Some value)"

definition removeAnnotationPatch ::
  "'w reconciler \<Rightarrow> CloudberryCluster \<Rightarrow> string \<Rightarrow> 'w \<Rightarrow> (api_error + CloudberryCluster) \<times> 'w" where
  "removeAnnotationPatch r cluster key w =
     (case k_patch_annotation (r_client r) (CC_Namespace cluster) (CC_Name cluster) key None w of
        (Inl e, w1) \<Rightarrow> (Inl e, w1)
      | (Inr _, w1) \<Rightarrow> k_get_cluster (r_client r) (CC_Namespace cluster) (CC_Name cluster) w1)"

subsection \<open>Stop\<close>

definition performGracefulShutdown :: "'w reconciler \<Rightarrow> CloudberryCluster \<Rightarrow> string \<Rightarrow> 'w \<Rightarrow> 'w" where
  "performGracefulShutdown r cluster mode w =
     (case r_dbFactory r of None \<Rightarrow> w
      | Some db \<Rightarrow>
          (case d_new db cluster w of
             (Inl err, w1) \<Rightarrow> w1
           | (Inr _, w1) \<Rightarrow>
               d_close db
                 (if mode = ActionStop
                  then snd (d_terminate_all_backends db (snd (d_cancel_all_queries db w1)))
                  else if mode = ActionStopFast then snd (d_terminate_all_backends db w1)
                  else w1)))"

definition handleStop :: "'w reconciler \<Rightarrow> CloudberryCluster \<Rightarrow> string \<Rightarrow> 'w handler" where
  "handleStop r cluster0 mode w =
     (case patchStatus r (with_phase ClusterPhaseStopping cluster0) w of
        (Inl e, w1) \<Rightarrow> (Inl (Ctrl_Error ''setting stopping phase'' e), w1)
      | (Inr cluster, w1) \<Rightarrow>
          (let w2 = k_event (r_client r) cluster ''Stopping'' (''Cluster stop initiated (mode: '' @ mode @ '')'') w1;
               w3 = (if mode \<noteq> ActionStopImmediate then performGracefulShutdown r cluster mode w2 else w2);
               w4 = scale_down_all r (CC_Namespace cluster) (getScaleDownOrder cluster) w3
           in case allStatefulSetsAtScale r cluster 0 w4 of
                (False, w5) \<Rightarrow> (Inr requeueAfterStopping, w5)
              | (True, w5) \<Rightarrow>
                  (case patchClearReadinessStatus r (with_phase ClusterPhaseStopped cluster) w5 of
                     (Inl e, w6) \<Rightarrow> (Inl (Ctrl_Error ''setting stopped phase'' e), w6)
                   | (Inr cluster, w6) \<Rightarrow>
                       (Inr 0, k_event (r_client r) cluster ''Stopped'' (''Cluster stopped (mode: '' @ mode @ '')'') w6))))"

subsection \<open>Start and restart\<close>

definition handleStart ::
  "'w reconciler \<Rightarrow> (CloudberryCluster \<Rightarrow> 'w handler) \<Rightarrow> CloudberryCluster \<Rightarrow> string \<Rightarrow> 'w handler" where
  "handleStart r reconcileCluster cluster mode w0 =
     (let w = k_event (r_client r) cluster ''Starting'' (''Cluster start initiated (mode: '' @ mode @ '')'') w0
      in if mode = ActionStartRestricted then
           (case scale_up_all r cluster (getScaleUpOrder cluster) w of
              (Some e, w1) \<Rightarrow> (Inl e, w1)
            | (None, w1) \<Rightarrow>
                (case patchStatus r (with_phase ClusterPhaseRestricted cluster) w1 of
                   (Inl e, w2) \<Rightarrow> (Inl (Ctrl_Error ''setting restricted phase'' e), w2)
                 | (Inr c, w2) \<Rightarrow>
                     (Inr 0, k_event (r_client r) c ''Started''
                        ''Cluster started in restricted mode (superuser connections only)'' w2)))
         else if mode = ActionStartMaintenance then
           (case scaleStatefulSet r (CC_Namespace cluster) (CoordinatorName (CC_Name cluster)) 1 w of
              (Some (Ctrl_Error _ e), w1) \<Rightarrow> (Inl (Ctrl_Error ''scaling coordinator for maintenance start'' e), w1)
            | (None, w1) \<Rightarrow>
                (case patchStatus r (with_phase ClusterPhaseMaintenance cluster) w1 of
                   (Inl e, w2) \<Rightarrow> (Inl (Ctrl_Error ''setting maintenance phase'' e), w2)
                 | (Inr c, w2) \<Rightarrow>
                     (Inr 0, k_event (r_client r) c ''Started'' ''Cluster started in maintenance mode'' w2)))
         else
           (case patchStatus r (with_phase ClusterPhaseInitializing cluster) w of
              (Inl e, w1) \<Rightarrow> (Inl (Ctrl_Error ''resetting phase for normal start'' e), w1)
            | (Inr c, w1) \<Rightarrow>
                (case k_get_cluster (r_client r) (CC_Namespace c) (CC_Name c) w1 of
                   (Inl e, w2) \<Rightarrow> (Inl (Ctrl_Error ''re-fetching cluster for start'' e), w2)
                 | (Inr c, w2) \<Rightarrow> reconcileCluster c w2)))"

definition completeRestart ::
  "'w reconciler \<Rightarrow> (CloudberryCluster \<Rightarrow> 'w handler) \<Rightarrow> CloudberryCluster \<Rightarrow> 'w handler" where
  "completeRestart r reconcileCluster cluster w =
     (case removeAnnotationPatch r cluster AnnotationRestartPending w of
        (Inl e, w1) \<Rightarrow> (Inl (Ctrl_Error ''removing restart-pending annotation'' e), w1)
      | (Inr cluster, w1) \<Rightarrow>
          (case patchClearReadinessStatus r (with_phase ClusterPhaseInitializing cluster) w1 of
             (Inl e, w2) \<Rightarrow> (Inl (Ctrl_Error ''resetting phase for restart'' e), w2)
           | (Inr cluster, w2) \<Rightarrow>
               (case k_get_cluster (r_client r) (CC_Namespace cluster) (CC_Name cluster) w2 of
                  (Inl e, w3) \<Rightarrow> (Inl (Ctrl_Error ''re-fetching cluster for restart'' e), w3)
                | (Inr cluster, w3) \<Rightarrow>
                    reconcileCluster cluster
                      (k_event (r_client r) cluster ''Restarted'' ''Cluster restart: scaling back up'' w3))))"

definition handleRestart ::
  "'w reconciler \<Rightarrow> (CloudberryCluster \<Rightarrow> 'w handler) \<Rightarrow> CloudberryCluster \<Rightarrow> 'w handler" where
  "handleRestart r reconcileCluster cluster w0 =
     (let w = k_event (r_client r) cluster ''Restarting'' ''Cluster restart initiated'' w0
      in case setAnnotationPatch r cluster AnnotationRestartPending ''true'' w of
           (Inl e, w1) \<Rightarrow> (Inl (Ctrl_Error ''setting restart-pending annotation'' e), w1)
         | (Inr cluster, w1) \<Rightarrow>
             (case patchStatus r (with_phase ClusterPhaseStopping cluster) w1 of
                (Inl e, w2) \<Rightarrow> (Inl (Ctrl_Error ''setting stopping phase for restart'' e), w2)
              | (Inr cluster, w2) \<Rightarrow>
                  (let w3 = scale_down_all r (CC_Namespace cluster) (getScaleDownOrder cluster) w2
                   in case allStatefulSetsAtScale r cluster 0 w3 of
                        (True, w4) \<Rightarrow> completeRestart r reconcileCluster cluster w4
                      | (False, w4) \<Rightarrow> (Inr requeueAfterStopping, w4))))"

definition checkStopProgress ::
  "'w reconciler \<Rightarrow> (CloudberryCluster \<Rightarrow> 'w handler) \<Rightarrow> CloudberryCluster \<Rightarrow> 'w handler" where
  "checkStopProgress r reconcileCluster cluster w =
     (case allStatefulSetsAtScale r cluster 0 w of
        (False, w1) \<Rightarrow> (Inr requeueAfterStopping, w1)
      | (True, w1) \<Rightarrow>
          if CC_Annotations cluster AnnotationRestartPending \<noteq> None
          then completeRestart r reconcileCluster cluster w1
          else (case patchClearReadinessStatus r (with_phase ClusterPhaseStopped cluster) w1 of
                  (Inl e, w2) \<Rightarrow> (Inl (Ctrl_Error ''setting stopped phase'' e), w2)
                | (Inr c, w2) \<Rightarrow> (Inr 0, k_event (r_client r) c ''Stopped'' ''Cluster stopped'' w2)))"

definition handleAction ::
  "'w reconciler \<Rightarrow> (CloudberryCluster \<Rightarrow> 'w handler) \<Rightarrow> CloudberryCluster \<Rightarrow> string \<Rightarrow> 'w handler" where
  "handleAction r reconcileCluster cluster action w =
     (case (if action \<in> {ActionStart, ActionStartRestricted, ActionStartMaintenance}
            then handleStart r reconcileCluster cluster action w
            else if action \<in> {ActionStop, ActionStopFast, ActionStopImmediate}
            then handleStop r cluster action w
            else if action = ActionRestart then handleRestart r reconcileCluster cluster w
            else (Inr 0, w)) of
        (Inl e, w1) \<Rightarrow> (Inl e, w1)
      | (Inr result, w1) \<Rightarrow>
          (case k_patch_annotation (r_client r) (CC_Namespace cluster) (CC_Name cluster) AnnotationAction None w1 of
             (Inl e, w2) \<Rightarrow> (Inl (Ctrl_Error ''removing action annotation'' e), w2)
           | (Inr _, w2) \<Rightarrow>
               (case k_get_cluster (r_client r) (CC_Namespace cluster) (CC_Name cluster) w2 of
                  (Inl e, w3) \<Rightarrow> (Inl (Ctrl_Error ''re-fetching cluster after annotation removal'' e), w3)
                | (Inr _, w3) \<Rightarrow> (Inr result, w3))))"

subsection \<open>Status\<close>

definition isUpgradeRolledBack :: "CloudberryCluster \<Rightarrow> bool" where
  "isUpgradeRolledBack cluster =
     list_ex (\<lambda>c. Cond_Type c = ConditionUpgradeFailed \<and> Cond_Status c = ConditionTrue)
       (St_Conditions (CC_Status cluster))"

definition annotation :: "CloudberryCluster \<Rightarrow> string \<Rightarrow> string" where
  "annotation cluster key = (case CC_Annotations cluster key of None \<Rightarrow> [] | Some v \<Rightarrow> v)"

definition isUpgradeNeeded :: "CloudberryCluster \<Rightarrow> bool" where
  "isUpgradeNeeded cluster =
     (if annotation cluster AnnotationUpgrade \<noteq> [] then True
      else if list_ex (\<lambda>c. Cond_Type c = ConditionUpgradeFailed \<and> Cond_Status c = ConditionTrue)
                (St_Conditions (CC_Status cluster)) then False
      else St_ClusterVersion (CC_Status cluster) \<noteq> [] \<and>
           St_ClusterVersion (CC_Status cluster) \<noteq> Spec_Version (CC_Spec cluster))"

definition updateObservedGeneration :: "'w reconciler \<Rightarrow> CloudberryCluster \<Rightarrow> 'w \<Rightarrow> CloudberryCluster \<times> 'w" where
  "updateObservedGeneration r cluster w =
     (let advanced = cluster\<lparr>CC_Status := (CC_Status cluster)\<lparr>St_ObservedGeneration := CC_Generation cluster\<rparr>\<rparr>
      in case k_get_sts (r_client r) (CC_Namespace cluster) (SegmentPrimaryName (CC_Name cluster)) w of
           (Inr sts, w1) \<Rightarrow>
             (case Sts_Replicas sts of
                Some currentReplicas \<Rightarrow>
                  if Seg_Count (Spec_Segments (CC_Spec cluster)) < currentReplicas \<and>
                     CC_Annotations cluster annotationScaleInState = None
                  then (cluster, w1) else (advanced, w1)
              | None \<Rightarrow> (advanced, w1))
         | (Inl _, w1) \<Rightarrow> (advanced, w1))"

definition updateComponentReadiness :: "'w reconciler \<Rightarrow> CloudberryCluster \<Rightarrow> 'w \<Rightarrow> CloudberryCluster \<times> 'w" where
  "updateComponentReadiness r cluster w =
     (let ns = CC_Namespace cluster; n = CC_Name cluster;
          (coord, w1) = k_get_sts (r_client r) ns (CoordinatorName n) w;
          st = CC_Status cluster;
          st = (case coord of Inr s \<Rightarrow> st\<lparr>St_CoordinatorReady := Sts_ReadyReplicas s > 0\<rparr> | Inl _ \<Rightarrow> st);
          (st, w2) =
            (if (case Spec_Standby (CC_Spec cluster) of None \<Rightarrow> False | Some s \<Rightarrow> Standby_Enabled s)
             then (case k_get_sts (r_client r) ns (StandbyName n) w1 of
                     (Inr s, w2) \<Rightarrow> (st\<lparr>St_StandbyReady := Sts_ReadyReplicas s > 0\<rparr>, w2)
                   | (Inl _, w2) \<Rightarrow> (st, w2))
             else (st, w1));
          (prim, w3) = k_get_sts (r_client r) ns (SegmentPrimaryName n) w2;
          st = (case prim of Inr s \<Rightarrow> st\<lparr>St_SegmentsReady := Sts_ReadyReplicas s\<rparr> | Inl _ \<Rightarrow> st)
      in (cluster\<lparr>CC_Status := st\<rparr>, w3))"

definition updateMirroringStatus :: "'w reconciler \<Rightarrow> CloudberryCluster \<Rightarrow> 'w \<Rightarrow> CloudberryCluster \<times> 'w" where
  "updateMirroringStatus r cluster w =
     (let set_status = (\<lambda>m. cluster\<lparr>CC_Status := (CC_Status cluster)\<lparr>St_MirroringStatus := m\<rparr>\<rparr>)
      in if (case Seg_Mirroring (Spec_Segments (CC_Spec cluster)) of None \<Rightarrow> True | Some m \<Rightarrow> \<not> Mir_Enabled m)
         then (set_status MirroringNotConfigured, w)
         else (case k_get_sts (r_client r) (CC_Namespace cluster) (SegmentMirrorName (CC_Name cluster)) w of
                 (Inr sts, w1) \<Rightarrow>
                   (set_status (if Sts_Replicas sts = Some (Sts_ReadyReplicas sts) then MirroringInSync
                                else MirroringDegraded), w1)
               | (Inl _, w1) \<Rightarrow> (set_status MirroringDegraded, w1)))"

definition lifecycle_phases :: "ClusterPhase list" where
  "lifecycle_phases = [ClusterPhaseDeleting, ClusterPhaseStopped, ClusterPhaseStopping, ClusterPhaseRestricted,
     ClusterPhaseMaintenance, ClusterPhaseScaling, ClusterPhaseUpdating]"

definition determineOverallPhase :: "int \<Rightarrow> CloudberryCluster \<Rightarrow> CloudberryCluster" where
  "determineOverallPhase now cluster =
     (let st = CC_Status cluster
      in if St_Phase st \<in> set lifecycle_phases then cluster
         else if St_CoordinatorReady st \<and> St_SegmentsReady st = St_SegmentsTotal st
         then cluster\<lparr>CC_Status := st\<lparr>St_Phase := ClusterPhaseRunning,
                St_Conditions := SetCondition now (St_Conditions st) ConditionClusterReady ConditionTrue
                  ''AllComponentsReady'' ''All cluster components are running and healthy''\<rparr>\<rparr>
         else cluster\<lparr>CC_Status := st\<lparr>
                St_Phase := (if St_Phase st = ClusterPhasePending then ClusterPhaseInitializing else St_Phase st),
                St_Conditions := SetCondition now (St_Conditions st) ConditionClusterReady ConditionFalse
                  ''ComponentsNotReady'' ''Some cluster components are not yet ready''\<rparr>\<rparr>)"

definition updateStatus ::
  "'w reconciler \<Rightarrow> CloudberryCluster \<Rightarrow> 'w \<Rightarrow> (api_error + CloudberryCluster) \<times> 'w" where
  "updateStatus r cluster w =
     (let st = (CC_Status cluster)\<lparr>St_LastReconcileTime := Some (k_now (r_client r) w)\<rparr>;
          st = (if isUpgradeNeeded (cluster\<lparr>CC_Status := st\<rparr>) then st
                else st\<lparr>St_ClusterVersion := Spec_Version (CC_Spec cluster)\<rparr>);
          st = st\<lparr>St_SegmentsTotal := Seg_Count (Spec_Segments (CC_Spec cluster))\<rparr>;
          (c, w1) = updateObservedGeneration r (cluster\<lparr>CC_Status := st\<rparr>) w;
          (c, w2) = updateComponentReadiness r c w1;
          (c, w3) = updateMirroringStatus r c w2
      in k_update_status (r_client r) (determineOverallPhase (k_now (r_client r) w3) c) w3)"

text \<open>The result of the patch is logged and dropped.\<close>

definition refreshSteadyStateReadiness :: "'w reconciler \<Rightarrow> CloudberryCluster \<Rightarrow> 'w \<Rightarrow> 'w" where
  "refreshSteadyStateReadiness r cluster w =
     (let (c, w1) = updateComponentReadiness r cluster w; st = CC_Status c; prev = CC_Status cluster
      in if St_CoordinatorReady st = St_CoordinatorReady prev \<and> St_StandbyReady st = St_StandbyReady prev \<and>
            St_SegmentsReady st = St_SegmentsReady prev then w1
         else snd (k_patch_status (r_client r) (CC_Namespace c) (CC_Name c)
                (Set_Readiness (St_CoordinatorReady st) (St_StandbyReady st) (St_SegmentsReady st)) w1))"

subsection \<open>The gates of a reconciliation\<close>

text \<open>
  The long-running operations \<^verbatim>\<open>Reconcile\<close> hands the cluster to; they are arguments here. The two
  steps of the main reconciliation answer the cluster object as they leave it.
\<close>

record 'w flows =
  fl_handleDeletion :: "CloudberryCluster \<Rightarrow> 'w handler"
  fl_checkScaleProgress :: "CloudberryCluster \<Rightarrow> 'w handler"
  fl_checkMirroringProgress :: "CloudberryCluster \<Rightarrow> 'w handler"
  fl_continueUpgrade :: "CloudberryCluster \<Rightarrow> 'w handler"
  fl_handleUpgrade :: "CloudberryCluster \<Rightarrow> 'w handler"
  fl_reconcileCoreResources :: "CloudberryCluster \<Rightarrow> 'w \<Rightarrow> (ctrl_error + CloudberryCluster) \<times> 'w"
  fl_reconcileStatefulSets :: "CloudberryCluster \<Rightarrow> 'w \<Rightarrow> (ctrl_error + CloudberryCluster) \<times> 'w"

definition updatePhase :: "'w reconciler \<Rightarrow> CloudberryCluster \<Rightarrow> ClusterPhase \<Rightarrow> 'w handler" where
  "updatePhase r cluster phase w =
     (case k_update_status (r_client r) (with_phase phase cluster) w of
        (Inl e, w1) \<Rightarrow> (Inl (Ctrl_Error (''updating phase to '' @ phase) e), w1)
      | (Inr _, w1) \<Rightarrow> (Inr requeueAfterImmediate, w1))"

definition finish_reconcile :: "'w reconciler \<Rightarrow> CloudberryCluster \<Rightarrow> 'w handler" where
  "finish_reconcile r cluster w =
     (case updateStatus r cluster w of
        (Inl e, w1) \<Rightarrow> (Inl (Ctrl_Error ''updating status'' e), w1)
      | (Inr _, w1) \<Rightarrow> (Inr (requeueDefault r), w1))"

definition reconcileCluster :: "'w reconciler \<Rightarrow> 'w flows \<Rightarrow> CloudberryCluster \<Rightarrow> 'w handler" where
  "reconcileCluster r fl cluster0 w =
     (if St_Phase (CC_Status cluster0) = [] then updatePhase r cluster0 ClusterPhasePending w
      else case fl_reconcileCoreResources fl cluster0 w of
        (Inl e, w1) \<Rightarrow> (Inl e, w1)
      | (Inr cluster, w1) \<Rightarrow>
          if isUpgradeNeeded cluster then fl_handleUpgrade fl cluster w1
          else if isUpgradeRolledBack cluster then finish_reconcile r cluster w1
          else (case fl_reconcileStatefulSets fl cluster w1 of
                  (Inl e, w2) \<Rightarrow> (Inl e, w2)
                | (Inr cluster, w2) \<Rightarrow> finish_reconcile r cluster w2))"

text \<open>\<open>None\<close> is the source's \<^verbatim>\<open>handled == false\<close>, which comes with an untouched world.\<close>

definition handleLifecyclePhase ::
  "'w reconciler \<Rightarrow> 'w flows \<Rightarrow> CloudberryCluster \<Rightarrow> 'w \<Rightarrow> ((ctrl_error + int) \<times> 'w) option" where
  "handleLifecyclePhase r fl cluster w =
     (let phase = St_Phase (CC_Status cluster)
      in if CC_Annotations cluster AnnotationAction \<noteq> None then None
         else if phase = ClusterPhaseStopped then Some (Inr 0, w)
         else if phase = ClusterPhaseStopping
         then Some (checkStopProgress r (reconcileCluster r fl) cluster w)
         else if phase = ClusterPhaseRestricted \<or> phase = ClusterPhaseMaintenance
         then Some (Inr (requeueDefault r), w)
         else if phase = ClusterPhaseScaling then Some (fl_checkScaleProgress fl cluster w)
         else if phase = ClusterPhaseUpdating then
           (if annotation cluster AnnotationMirroringState \<noteq> []
            then Some (fl_checkMirroringProgress fl cluster w)
            else Some (fl_continueUpgrade fl cluster w))
         else None)"

definition handleGenerationUnchanged ::
  "'w reconciler \<Rightarrow> CloudberryCluster \<Rightarrow> 'w \<Rightarrow> ((ctrl_error + int) \<times> 'w) option" where
  "handleGenerationUnchanged r cluster w =
     (if CC_Annotations cluster annotationScaleState \<noteq> None \<or>
         CC_Annotations cluster annotationScaleInState \<noteq> None
      then Some (case k_update_status (r_client r) (with_phase ClusterPhaseScaling cluster) w of
             (Inl e, w1) \<Rightarrow> (Inl (Ctrl_Error ''restoring scaling phase'' e), w1)
           | (Inr _, w1) \<Rightarrow> (Inr requeueAfterImmediate, w1))
      else if annotation cluster AnnotationConfirmScaleIn = ''true'' then None
      else Some (Inr (requeueDefault r), refreshSteadyStateReadiness r cluster w))"

definition Reconcile :: "'w reconciler \<Rightarrow> 'w flows \<Rightarrow> string \<Rightarrow> string \<Rightarrow> 'w handler" where
  "Reconcile r fl namespace name w =
     (case k_get_cluster (r_client r) namespace name w of
        (Inl NotFound, w1) \<Rightarrow> (Inr 0, w1)
      | (Inl e, w1) \<Rightarrow> (Inl (Ctrl_Error ''fetching cluster'' e), w1)
      | (Inr cluster, w1) \<Rightarrow>
          if CC_DeletionTimestamp cluster \<noteq> None then fl_handleDeletion fl cluster w1
          else (case CC_Annotations cluster AnnotationAction of
              Some action \<Rightarrow> handleAction r (reconcileCluster r fl) cluster action w1
            | None \<Rightarrow>
          (case handleLifecyclePhase r fl cluster w1 of Some res \<Rightarrow> res
            | None \<Rightarrow>
          (case (if St_ObservedGeneration (CC_Status cluster) = CC_Generation cluster \<and>
                    St_Phase (CC_Status cluster) = ClusterPhaseRunning
                 then handleGenerationUnchanged r cluster w1 else None) of
              Some res \<Rightarrow> res
            | None \<Rightarrow>
                if FinalizerName \<notin> set (CC_Finalizers cluster)
                then (case k_update_cluster (r_client r)
                        (cluster\<lparr>CC_Finalizers := CC_Finalizers cluster @ [FinalizerName]\<rparr>) w1 of
                        (Inl e, w2) \<Rightarrow> (Inl (Ctrl_Error ''adding finalizer'' e), w2)
                      | (Inr _, w2) \<Rightarrow> (Inr requeueAfterImmediate, w2))
                else reconcileCluster r fl cluster w1))))"

section \<open>Specification of the gates\<close>

text \<open>
  What \<^verbatim>\<open>Reconcile\<close> does is a function of the fetched cluster alone: the first gate of the list
  whose guard holds.
\<close>

datatype route =
    Route_Deletion
  | Route_Action
  | Route_Stopped
  | Route_StopProgress
  | Route_Limited
  | Route_ScaleProgress
  | Route_MirroringProgress
  | Route_ContinueUpgrade
  | Route_RestoreScaling
  | Route_SteadyState
  | Route_AddFinalizer
  | Route_Reconcile

definition steady :: "CloudberryCluster \<Rightarrow> bool" where
  "steady c = (St_Phase (CC_Status c) = ClusterPhaseRunning \<and> St_ObservedGeneration (CC_Status c) = CC_Generation c)"

definition gates :: "CloudberryCluster \<Rightarrow> (bool \<times> route) list" where
  "gates c =
     [(CC_DeletionTimestamp c \<noteq> None, Route_Deletion),
      (CC_Annotations c AnnotationAction \<noteq> None, Route_Action),
      (St_Phase (CC_Status c) = ClusterPhaseStopped, Route_Stopped),
      (St_Phase (CC_Status c) = ClusterPhaseStopping, Route_StopProgress),
      (St_Phase (CC_Status c) \<in> {ClusterPhaseRestricted, ClusterPhaseMaintenance}, Route_Limited),
      (St_Phase (CC_Status c) = ClusterPhaseScaling, Route_ScaleProgress),
      (St_Phase (CC_Status c) = ClusterPhaseUpdating \<and> annotation c AnnotationMirroringState \<noteq> [],
         Route_MirroringProgress),
      (St_Phase (CC_Status c) = ClusterPhaseUpdating, Route_ContinueUpgrade),
      (steady c \<and> (CC_Annotations c annotationScaleState \<noteq> None \<or> CC_Annotations c annotationScaleInState \<noteq> None),
         Route_RestoreScaling),
      (steady c \<and> annotation c AnnotationConfirmScaleIn \<noteq> ''true'', Route_SteadyState),
      (FinalizerName \<notin> set (CC_Finalizers c), Route_AddFinalizer),
      (True, Route_Reconcile)]"

definition first_gate :: "CloudberryCluster \<Rightarrow> route" where
  "first_gate c = snd (hd (filter fst (gates c)))"

section \<open>The handlers on a healthy API server\<close>

definition below_scale :: "int32 \<Rightarrow> StatefulSet option \<Rightarrow> bool" where
  "below_scale k s = (case s of None \<Rightarrow> False | Some s \<Rightarrow> Sts_Replicas s \<noteq> Some k)"

definition at_scale :: "int32 \<Rightarrow> StatefulSet option \<Rightarrow> bool" where
  "at_scale k s = (case s of None \<Rightarrow> True
     | Some s \<Rightarrow> if k = 0 then Sts_StatusReplicas s = 0 else Sts_ReadyReplicas s \<ge> k)"

text \<open>The readiness a status gets from a StatefulSet; a missing one leaves the old value.\<close>

definition ready_of :: "bool \<Rightarrow> StatefulSet option \<Rightarrow> bool" where
  "ready_of old s = (case s of None \<Rightarrow> old | Some s \<Rightarrow> Sts_ReadyReplicas s > 0)"

definition ready_count :: "int32 \<Rightarrow> StatefulSet option \<Rightarrow> int32" where
  "ready_count old s = (case s of None \<Rightarrow> old | Some s \<Rightarrow> Sts_ReadyReplicas s)"

definition standby_on :: "CloudberryCluster \<Rightarrow> bool" where
  "standby_on c = (case Spec_Standby (CC_Spec c) of None \<Rightarrow> False | Some s \<Rightarrow> Standby_Enabled s)"

text \<open>A scale-in that waits for its confirmation.\<close>

definition blocked_scale_in :: "StatefulSet option \<Rightarrow> CloudberryCluster \<Rightarrow> bool" where
  "blocked_scale_in prim c = (case prim of None \<Rightarrow> False | Some s \<Rightarrow>
     (case Sts_Replicas s of None \<Rightarrow> False
      | Some k \<Rightarrow> Seg_Count (Spec_Segments (CC_Spec c)) < k \<and> CC_Annotations c annotationScaleInState = None))"

context healthy_api
begin

lemma scale_one:
  "\<exists>w'. scaleStatefulSet r ns n k w = (None, w') \<and> cluster_of w' = cluster_of w \<and>
     sts_of w' = (sts_of w)(ns := (sts_of w ns)(n := map_option (Sts_Replicas_update (\<lambda>_. Some k)) (sts_of w ns n))) \<and>
     writes_of w' = writes_of w @ (if below_scale k (sts_of w ns n) then [(n, Some k)] else [])"
proof (cases "sts_of w ns n")
  case None
  then have "sts_of w = (sts_of w)(ns := (sts_of w ns)(n := None))" by (metis fun_upd_triv)
  then show ?thesis using None by (simp add: scaleStatefulSet_def get_sts below_scale_def)
next
  case (Some s)
  then have key: "Sts_Namespace s = ns" "Sts_Name s = n" using sts_key by auto
  show ?thesis
  proof (cases "Sts_Replicas s = Some k")
    case True
    then have "s\<lparr>Sts_Replicas := Some k\<rparr> = s" by simp
    then have "sts_of w = (sts_of w)(ns := (sts_of w ns)(n := map_option (Sts_Replicas_update (\<lambda>_. Some k)) (sts_of w ns n)))"
      using Some by (simp add: fun_upd_idem)
    then show ?thesis using Some True by (simp add: scaleStatefulSet_def get_sts below_scale_def)
  next
    case False
    obtain w' where "k_update_sts (r_client r) (s\<lparr>Sts_Replicas := Some k\<rparr>) w = (None, w')"
      "sts_of w' = (sts_of w)(ns := (sts_of w ns)(n \<mapsto> s\<lparr>Sts_Replicas := Some k\<rparr>))"
      "cluster_of w' = cluster_of w" "writes_of w' = writes_of w @ [(n, Some k)]"
      using update_sts [of w "s\<lparr>Sts_Replicas := Some k\<rparr>" s] key Some by auto
    then show ?thesis using Some False by (simp add: scaleStatefulSet_def get_sts below_scale_def)
  qed
qed

lemma scale_down_all_healthy:
  "distinct names \<Longrightarrow>
     cluster_of (scale_down_all r ns names w) = cluster_of w \<and>
     (\<forall>n. sts_of (scale_down_all r ns names w) ns n =
        (if n \<in> set names then map_option (Sts_Replicas_update (\<lambda>_. Some 0)) (sts_of w ns n) else sts_of w ns n)) \<and>
     writes_of (scale_down_all r ns names w) =
       writes_of w @ map (\<lambda>n. (n, Some 0)) (filter (\<lambda>n. below_scale 0 (sts_of w ns n)) names)"
proof (induction names arbitrary: w)
  case (Cons n names)
  obtain w' where w': "scaleStatefulSet r ns n 0 w = (None, w')" "cluster_of w' = cluster_of w"
    "sts_of w' = (sts_of w)(ns := (sts_of w ns)(n := map_option (Sts_Replicas_update (\<lambda>_. Some 0)) (sts_of w ns n)))"
    "writes_of w' = writes_of w @ (if below_scale 0 (sts_of w ns n) then [(n, Some 0)] else [])"
    using scale_one by blast
  then have same: "sts_of w' ns m = sts_of w ns m" if "m \<noteq> n" for m using that by simp
  have "filter (\<lambda>m. below_scale 0 (sts_of w' ns m)) names = filter (\<lambda>m. below_scale 0 (sts_of w ns m)) names"
    using Cons.prems by (intro filter_cong refl) (metis distinct.simps(2) same)
  then show ?case using Cons.IH [of w'] Cons.prems w' by auto
qed simp

lemma at_scale_one:
  "isStatefulSetAtScale r ns n k w = ((at_scale k (sts_of w ns n), None), w)"
  by (simp add: isStatefulSetAtScale_def get_sts at_scale_def split: option.split)

lemma all_at_scale_healthy:
  "all_at_scale r ns names k w = (list_all (\<lambda>n. at_scale k (sts_of w ns n)) names, w)"
  by (induction names) (simp_all add: at_scale_one)

lemma shutdown_frame:
  "cluster_of (performGracefulShutdown r c mode w) = cluster_of w"
  "sts_of (performGracefulShutdown r c mode w) = sts_of w"
  "writes_of (performGracefulShutdown r c mode w) = writes_of w"
  using db_frame by (auto simp: performGracefulShutdown_def split: option.split prod.split sum.split)
    (metis snd_conv)+

lemma patch_phase:
  assumes "cluster_of w (CC_Namespace c) (CC_Name c) = Some c0" "ph \<noteq> []"
  shows "\<exists>c1 w1 st. patchStatus r (with_phase ph c) w = (Inr c1, w1) \<and> c1 = c0\<lparr>CC_Status := st\<rparr> \<and>
    CC_Namespace c1 = CC_Namespace c \<and> CC_Name c1 = CC_Name c \<and> St_Phase st = ph \<and>
    cluster_of w1 (CC_Namespace c) (CC_Name c) = Some c1 \<and> sts_of w1 = sts_of w \<and> writes_of w1 = writes_of w"
proof -
  let ?p = "Full_Status ((CC_Status c)\<lparr>St_Phase := ph\<rparr>)"
  obtain w1 c1 st where *: "k_patch_status (r_client r) (CC_Namespace c) (CC_Name c) ?p w = (Inr c1, w1)"
    "c1 = c0\<lparr>CC_Status := st\<rparr>" "St_Phase st = patched_phase ?p (St_Phase (CC_Status c0))"
    "cluster_of w1 = (cluster_of w)(CC_Namespace c := (cluster_of w (CC_Namespace c))(CC_Name c \<mapsto> c1))"
    "sts_of w1 = sts_of w" "writes_of w1 = writes_of w"
    using patch_status [OF assms(1), of ?p] by blast
  show ?thesis
    using * assms(2) cluster_key [OF assms(1)]
    by (intro exI [of _ c1] exI [of _ w1] exI [of _ st]) (simp add: patchStatus_def with_phase_def patched_phase_def)
qed

lemma patch_clear:
  assumes "cluster_of w (CC_Namespace c) (CC_Name c) = Some c0"
  shows "\<exists>c1 w1 st. patchClearReadinessStatus r (with_phase ph c) w = (Inr c1, w1) \<and> c1 = c0\<lparr>CC_Status := st\<rparr> \<and>
    CC_Namespace c1 = CC_Namespace c \<and> CC_Name c1 = CC_Name c \<and> St_Phase st = ph \<and>
    \<not> St_CoordinatorReady st \<and> \<not> St_StandbyReady st \<and> St_SegmentsReady st = 0 \<and>
    cluster_of w1 (CC_Namespace c) (CC_Name c) = Some c1 \<and> sts_of w1 = sts_of w \<and> writes_of w1 = writes_of w"
proof -
  let ?p = "Clear_Readiness ph"
  obtain w1 c1 st where *: "k_patch_status (r_client r) (CC_Namespace c) (CC_Name c) ?p w = (Inr c1, w1)"
    "c1 = c0\<lparr>CC_Status := st\<rparr>" "St_Phase st = patched_phase ?p (St_Phase (CC_Status c0))"
    "St_CoordinatorReady st = patched_coordinator ?p (St_CoordinatorReady (CC_Status c0))"
    "St_StandbyReady st = patched_standby ?p (St_StandbyReady (CC_Status c0))"
    "St_SegmentsReady st = patched_segments ?p (St_SegmentsReady (CC_Status c0))"
    "cluster_of w1 = (cluster_of w)(CC_Namespace c := (cluster_of w (CC_Namespace c))(CC_Name c \<mapsto> c1))"
    "sts_of w1 = sts_of w" "writes_of w1 = writes_of w"
    using patch_status [OF assms(1), of ?p] by blast
  show ?thesis
    using * cluster_key [OF assms(1)]
    by (intro exI [of _ c1] exI [of _ w1] exI [of _ st])
      (simp add: patchClearReadinessStatus_def with_phase_def patched_defs)
qed

lemma order_of_status: "getScaleDownOrder (c\<lparr>CC_Status := st\<rparr>) = getScaleDownOrder c"
  by (simp add: getScaleDownOrder_def cong: option.case_cong if_cong)

lemma stop_healthy:
  assumes "cluster_of w (CC_Namespace c) (CC_Name c) = Some c0" "distinct (getScaleDownOrder c0)"
  shows "\<exists>res w' c'. handleStop r c mode w = (Inr res, w') \<and>
    (\<forall>n \<in> set (getScaleDownOrder c0). \<not> below_scale 0 (sts_of w' (CC_Namespace c) n)) \<and>
    writes_of w' = writes_of w @ map (\<lambda>n. (n, Some 0))
      (filter (\<lambda>n. below_scale 0 (sts_of w (CC_Namespace c) n)) (getScaleDownOrder c0)) \<and>
    cluster_of w' (CC_Namespace c) (CC_Name c) = Some c' \<and> CC_Spec c' = CC_Spec c0 \<and>
    CC_Annotations c' = CC_Annotations c0 \<and>
    (if list_all (\<lambda>n. at_scale 0 (sts_of w (CC_Namespace c) n)) (getScaleDownOrder c0)
     then res = 0 \<and> St_Phase (CC_Status c') = ClusterPhaseStopped \<and> \<not> St_CoordinatorReady (CC_Status c') \<and>
       \<not> St_StandbyReady (CC_Status c') \<and> St_SegmentsReady (CC_Status c') = 0
     else res = requeueAfterStopping \<and> St_Phase (CC_Status c') = ClusterPhaseStopping)"
proof -
  let ?ns = "CC_Namespace c" and ?order = "getScaleDownOrder c0"
  obtain c1 w1 st where p1: "patchStatus r (with_phase ClusterPhaseStopping c) w = (Inr c1, w1)"
    and c1: "c1 = c0\<lparr>CC_Status := st\<rparr>" "CC_Namespace c1 = ?ns" "CC_Name c1 = CC_Name c"
      "St_Phase st = ClusterPhaseStopping" "cluster_of w1 ?ns (CC_Name c) = Some c1"
      "sts_of w1 = sts_of w" "writes_of w1 = writes_of w"
    using patch_phase [OF assms(1), of ClusterPhaseStopping] by blast
  define w2 where "w2 = k_event (r_client r) c1 ''Stopping'' (''Cluster stop initiated (mode: '' @ mode @ '')'') w1"
  define w3 where "w3 = (if mode \<noteq> ActionStopImmediate then performGracefulShutdown r c1 mode w2 else w2)"
  define w4 where "w4 = scale_down_all r ?ns ?order w3"
  have w3: "cluster_of w3 = cluster_of w1" "sts_of w3 = sts_of w" "writes_of w3 = writes_of w"
    using c1 by (simp_all add: w3_def w2_def shutdown_frame event)
  have w4: "cluster_of w4 = cluster_of w1"
    "\<And>n. n \<in> set ?order \<Longrightarrow> sts_of w4 ?ns n = map_option (Sts_Replicas_update (\<lambda>_. Some 0)) (sts_of w ?ns n)"
    "writes_of w4 = writes_of w @ map (\<lambda>n. (n, Some 0)) (filter (\<lambda>n. below_scale 0 (sts_of w ?ns n)) ?order)"
    using scale_down_all_healthy [OF assms(2), of ?ns w3] w3 by (simp_all add: w4_def)
  have order: "getScaleDownOrder c1 = ?order" by (simp add: c1(1) order_of_status)
  have at: "list_all (\<lambda>n. at_scale 0 (sts_of w4 ?ns n)) ?order = list_all (\<lambda>n. at_scale 0 (sts_of w ?ns n)) ?order"
    using w4(2) by (auto simp: list_all_iff at_scale_def split: option.splits)
  have run: "handleStop r c mode w =
    (if list_all (\<lambda>n. at_scale 0 (sts_of w ?ns n)) ?order
     then (case patchClearReadinessStatus r (with_phase ClusterPhaseStopped c1) w4 of
             (Inl e, w6) \<Rightarrow> (Inl (Ctrl_Error ''setting stopped phase'' e), w6)
           | (Inr cluster, w6) \<Rightarrow>
               (Inr 0, k_event (r_client r) cluster ''Stopped'' (''Cluster stopped (mode: '' @ mode @ '')'') w6))
     else (Inr requeueAfterStopping, w4))"
    by (simp only: handleStop_def p1 Let_def prod.case sum.case allStatefulSetsAtScale_def all_at_scale_healthy
        order c1(2) at w2_def [symmetric] w3_def [symmetric] w4_def [symmetric] case_bool_if)
  have below: "\<not> below_scale 0 (sts_of w4 ?ns n)" if "n \<in> set ?order" for n
    using w4(2) [OF that] by (simp add: below_scale_def split: option.split)
  show ?thesis
  proof (cases "list_all (\<lambda>n. at_scale 0 (sts_of w ?ns n)) ?order")
    case False
    then show ?thesis using run w4(1,3) c1 below by simp
  next
    case True
    have "cluster_of w4 (CC_Namespace c1) (CC_Name c1) = Some c1" using w4(1) c1 by simp
    from patch_clear [OF this, of ClusterPhaseStopped]
    obtain c2 w5 st2 where p2: "patchClearReadinessStatus r (with_phase ClusterPhaseStopped c1) w4 = (Inr c2, w5)"
      and c2: "c2 = c1\<lparr>CC_Status := st2\<rparr>" "St_Phase st2 = ClusterPhaseStopped" "\<not> St_CoordinatorReady st2"
        "\<not> St_StandbyReady st2" "St_SegmentsReady st2 = 0" "cluster_of w5 (CC_Namespace c1) (CC_Name c1) = Some c2"
        "sts_of w5 = sts_of w4" "writes_of w5 = writes_of w4"
      by blast
    show ?thesis using True run p2 c2 c1 below w4(3) by (simp add: event)
  qed
qed

lemma remove_annotation:
  assumes "cluster_of w ns n = Some c0"
  shows "\<exists>w1. k_patch_annotation (r_client r) ns n key None w =
      (Inr (c0\<lparr>CC_Annotations := (CC_Annotations c0)(key := None)\<rparr>), w1) \<and>
    cluster_of w1 ns n = Some (c0\<lparr>CC_Annotations := (CC_Annotations c0)(key := None)\<rparr>) \<and>
    k_get_cluster (r_client r) ns n w1 = (Inr (c0\<lparr>CC_Annotations := (CC_Annotations c0)(key := None)\<rparr>), w1) \<and>
    sts_of w1 = sts_of w \<and> writes_of w1 = writes_of w"
  using patch_annotation [OF assms, of key None] by (auto simp: get_cluster)

lemma action_done:
  assumes "cluster_of w1 (CC_Namespace c) (CC_Name c) = Some c1"
    and "(if action \<in> {ActionStart, ActionStartRestricted, ActionStartMaintenance}
            then handleStart r rc c action w
            else if action \<in> {ActionStop, ActionStopFast, ActionStopImmediate}
            then handleStop r c action w
            else if action = ActionRestart then handleRestart r rc c w
            else (Inr 0, w)) = (Inr res, w1)"
  shows "\<exists>w2. handleAction r rc c action w = (Inr res, w2) \<and>
    cluster_of w2 (CC_Namespace c) (CC_Name c) =
      Some (c1\<lparr>CC_Annotations := (CC_Annotations c1)(AnnotationAction := None)\<rparr>) \<and>
    sts_of w2 = sts_of w1 \<and> writes_of w2 = writes_of w1"
proof -
  obtain w2 where "k_patch_annotation (r_client r) (CC_Namespace c) (CC_Name c) AnnotationAction None w1 =
      (Inr (c1\<lparr>CC_Annotations := (CC_Annotations c1)(AnnotationAction := None)\<rparr>), w2)"
    "cluster_of w2 (CC_Namespace c) (CC_Name c) =
      Some (c1\<lparr>CC_Annotations := (CC_Annotations c1)(AnnotationAction := None)\<rparr>)"
    "k_get_cluster (r_client r) (CC_Namespace c) (CC_Name c) w2 =
      (Inr (c1\<lparr>CC_Annotations := (CC_Annotations c1)(AnnotationAction := None)\<rparr>), w2)"
    "sts_of w2 = sts_of w1" "writes_of w2 = writes_of w1"
    using remove_annotation [OF assms(1), of AnnotationAction] by blast
  then show ?thesis
    by (simp only: handleAction_def assms(2) prod.case sum.case) simp
qed

lemma stop_action_healthy:
  assumes "cluster_of w (CC_Namespace c) (CC_Name c) = Some c0" "distinct (getScaleDownOrder c0)"
    and "action \<in> {ActionStop, ActionStopFast, ActionStopImmediate}"
  shows "\<exists>res w' c'. handleAction r rc c action w = (Inr res, w') \<and>
    (\<forall>n \<in> set (getScaleDownOrder c0). \<not> below_scale 0 (sts_of w' (CC_Namespace c) n)) \<and>
    writes_of w' = writes_of w @ map (\<lambda>n. (n, Some 0))
      (filter (\<lambda>n. below_scale 0 (sts_of w (CC_Namespace c) n)) (getScaleDownOrder c0)) \<and>
    cluster_of w' (CC_Namespace c) (CC_Name c) = Some c' \<and>
    CC_Annotations c' = (CC_Annotations c0)(AnnotationAction := None) \<and>
    (if list_all (\<lambda>n. at_scale 0 (sts_of w (CC_Namespace c) n)) (getScaleDownOrder c0)
     then res = 0 \<and> St_Phase (CC_Status c') = ClusterPhaseStopped \<and> \<not> St_CoordinatorReady (CC_Status c') \<and>
       \<not> St_StandbyReady (CC_Status c') \<and> St_SegmentsReady (CC_Status c') = 0
     else res = requeueAfterStopping \<and> St_Phase (CC_Status c') = ClusterPhaseStopping)"
proof -
  obtain res w1 c1 where s: "handleStop r c action w = (Inr res, w1)"
    "\<forall>n \<in> set (getScaleDownOrder c0). \<not> below_scale 0 (sts_of w1 (CC_Namespace c) n)"
    "writes_of w1 = writes_of w @ map (\<lambda>n. (n, Some 0))
      (filter (\<lambda>n. below_scale 0 (sts_of w (CC_Namespace c) n)) (getScaleDownOrder c0))"
    "cluster_of w1 (CC_Namespace c) (CC_Name c) = Some c1" "CC_Annotations c1 = CC_Annotations c0"
    "if list_all (\<lambda>n. at_scale 0 (sts_of w (CC_Namespace c) n)) (getScaleDownOrder c0)
     then res = 0 \<and> St_Phase (CC_Status c1) = ClusterPhaseStopped \<and> \<not> St_CoordinatorReady (CC_Status c1) \<and>
       \<not> St_StandbyReady (CC_Status c1) \<and> St_SegmentsReady (CC_Status c1) = 0
     else res = requeueAfterStopping \<and> St_Phase (CC_Status c1) = ClusterPhaseStopping"
    using stop_healthy [OF assms(1,2), of action] by blast
  have "(if action \<in> {ActionStart, ActionStartRestricted, ActionStartMaintenance} then handleStart r rc c action w
      else if action \<in> {ActionStop, ActionStopFast, ActionStopImmediate} then handleStop r c action w
      else if action = ActionRestart then handleRestart r rc c w else (Inr 0, w)) = (Inr res, w1)"
    using assms(3) s(1) by auto
  from action_done [OF s(4) this] obtain w2 where
    "handleAction r rc c action w = (Inr res, w2)"
    "cluster_of w2 (CC_Namespace c) (CC_Name c) =
      Some (c1\<lparr>CC_Annotations := (CC_Annotations c1)(AnnotationAction := None)\<rparr>)"
    "sts_of w2 = sts_of w1" "writes_of w2 = writes_of w1" by blast
  then show ?thesis using s by (intro exI [of _ res] exI [of _ w2]
      exI [of _ "c1\<lparr>CC_Annotations := (CC_Annotations c1)(AnnotationAction := None)\<rparr>"]) simp
qed

lemma restart_progress_healthy:
  assumes "cluster_of w (CC_Namespace c) (CC_Name c) = Some c"
    and "CC_Annotations c AnnotationRestartPending \<noteq> None"
    and "list_all (\<lambda>n. at_scale 0 (sts_of w (CC_Namespace c) n)) (getScaleDownOrder c)"
  shows "\<exists>w' c'. checkStopProgress r rc c w = rc c' w' \<and> cluster_of w' (CC_Namespace c) (CC_Name c) = Some c' \<and>
    CC_Annotations c' = (CC_Annotations c)(AnnotationRestartPending := None) \<and> CC_Spec c' = CC_Spec c \<and>
    St_Phase (CC_Status c') = ClusterPhaseInitializing \<and> \<not> St_CoordinatorReady (CC_Status c') \<and>
    \<not> St_StandbyReady (CC_Status c') \<and> St_SegmentsReady (CC_Status c') = 0"
proof -
  let ?c1 = "c\<lparr>CC_Annotations := (CC_Annotations c)(AnnotationRestartPending := None)\<rparr>"
  obtain w1 where w1: "removeAnnotationPatch r c AnnotationRestartPending w = (Inr ?c1, w1)"
    "cluster_of w1 (CC_Namespace c) (CC_Name c) = Some ?c1"
    using remove_annotation [OF assms(1), of AnnotationRestartPending] by (auto simp: removeAnnotationPatch_def)
  have "cluster_of w1 (CC_Namespace ?c1) (CC_Name ?c1) = Some ?c1" using w1 by simp
  from patch_clear [OF this, of ClusterPhaseInitializing] obtain c2 w2 st where c2:
    "patchClearReadinessStatus r (with_phase ClusterPhaseInitializing ?c1) w1 = (Inr c2, w2)"
    "c2 = ?c1\<lparr>CC_Status := st\<rparr>" "St_Phase st = ClusterPhaseInitializing"
    "\<not> St_CoordinatorReady st" "\<not> St_StandbyReady st" "St_SegmentsReady st = 0"
    "cluster_of w2 (CC_Namespace c) (CC_Name c) = Some c2" by auto
  have names: "CC_Namespace c2 = CC_Namespace c" "CC_Name c2 = CC_Name c" by (simp_all add: c2(2))
  define w3 where "w3 = k_event (r_client r) c2 ''Restarted'' ''Cluster restart: scaling back up'' w2"
  have "k_get_cluster (r_client r) (CC_Namespace c2) (CC_Name c2) w2 = (Inr c2, w2)"
    by (simp add: names get_cluster c2(7))
  then have "checkStopProgress r rc c w = rc c2 w3"
    using assms(2,3)
    by (simp only: checkStopProgress_def allStatefulSetsAtScale_def all_at_scale_healthy prod.case case_bool_if
        completeRestart_def w1(1) sum.case c2(1) w3_def if_True not_False_eq_True)
  moreover have "cluster_of w3 (CC_Namespace c) (CC_Name c) = Some c2" by (simp add: w3_def event c2(7))
  ultimately show ?thesis using c2 by (intro exI [of _ w3] exI [of _ c2]) simp
qed

lemma readiness_healthy:
  "updateComponentReadiness r c w = (c\<lparr>CC_Status := (CC_Status c)\<lparr>
     St_CoordinatorReady := ready_of (St_CoordinatorReady (CC_Status c)) (sts_of w (CC_Namespace c) (CoordinatorName (CC_Name c))),
     St_StandbyReady := (if standby_on c
       then ready_of (St_StandbyReady (CC_Status c)) (sts_of w (CC_Namespace c) (StandbyName (CC_Name c)))
       else St_StandbyReady (CC_Status c)),
     St_SegmentsReady := ready_count (St_SegmentsReady (CC_Status c)) (sts_of w (CC_Namespace c) (SegmentPrimaryName (CC_Name c)))\<rparr>\<rparr>, w)"
  by (simp add: updateComponentReadiness_def Let_def get_sts ready_of_def ready_count_def standby_on_def
      split: option.split)

lemma generation_healthy:
  "\<exists>g. updateObservedGeneration r c w = (c\<lparr>CC_Status := (CC_Status c)\<lparr>St_ObservedGeneration := g\<rparr>\<rparr>, w) \<and>
     g = (if blocked_scale_in (sts_of w (CC_Namespace c) (SegmentPrimaryName (CC_Name c))) c
          then St_ObservedGeneration (CC_Status c) else CC_Generation c)"
  by (auto simp: updateObservedGeneration_def get_sts Let_def blocked_scale_in_def split: option.split)

lemma mirroring_healthy:
  "\<exists>m. updateMirroringStatus r c w = (c\<lparr>CC_Status := (CC_Status c)\<lparr>St_MirroringStatus := m\<rparr>\<rparr>, w)"
  by (auto simp: updateMirroringStatus_def get_sts Let_def split: option.split)

end

end
