(* ===== verification/LifecycleTheorems.thy ===== *)
theory LifecycleTheorems
  imports Lifecycle
begin

text \<open>
  Theorems about the lifecycle of a cluster. \<open>Reconcile\<close> takes the first gate that applies to the
  fetched cluster. On a healthy API server a stop scales every StatefulSet to zero in the order
  mirrors, primaries, standby, coordinator and ends in the phase Stopped, a restart comes back
  through Initializing, and the status update reports what the StatefulSets show.
\<close>

text \<open>Actions of the annotation that the HA controller carries out.\<close>

abbreviation ActionRebalance :: string where "ActionRebalance \<equiv> ''rebalance''"
abbreviation ActionActivateStandby :: string where "ActionActivateStandby \<equiv> ''activate-standby''"

section \<open>The order of the components\<close>

text \<open>
  The StatefulSets of a cluster in the order a stop takes them: the mirrors and the standby only
  when they are enabled.
\<close>

definition mirrors_on :: "CloudberryCluster \<Rightarrow> bool" where
  "mirrors_on c = (case Seg_Mirroring (Spec_Segments (CC_Spec c)) of None \<Rightarrow> False | Some m \<Rightarrow> Mir_Enabled m)"

definition component_order :: "CloudberryCluster \<Rightarrow> string list" where
  "component_order c = map snd (filter fst
     [(mirrors_on c, SegmentMirrorName (CC_Name c)), (True, SegmentPrimaryName (CC_Name c)),
      (standby_on c, StandbyName (CC_Name c)), (True, CoordinatorName (CC_Name c))])"

section \<open>The stop machine\<close>

text \<open>
  A stopped or stopping cluster between two user actions: the controller reconciles, and the
  StatefulSet controller changes the observed replicas of StatefulSets, never above what was
  observed before when none are requested.
\<close>

definition pods_move :: "StatefulSet option \<Rightarrow> StatefulSet option \<Rightarrow> bool" where
  "pods_move s s' = (case (s, s') of
      (None, None) \<Rightarrow> True
    | (Some a, Some b) \<Rightarrow> Sts_Replicas b = Sts_Replicas a \<and>
        (Sts_Replicas a = Some 0 \<longrightarrow> 0 \<le> Sts_StatusReplicas b \<and> Sts_StatusReplicas b \<le> Sts_StatusReplicas a)
    | _ \<Rightarrow> False)"

inductive cluster_step ::
  "'w reconciler \<Rightarrow> 'w flows \<Rightarrow> ('w \<Rightarrow> string \<Rightarrow> string \<Rightarrow> StatefulSet option) \<Rightarrow>
   ('w \<Rightarrow> string \<Rightarrow> string \<Rightarrow> CloudberryCluster option) \<Rightarrow> ('w \<Rightarrow> (string \<times> int32 option) list) \<Rightarrow>
   string \<Rightarrow> string \<Rightarrow> 'w \<Rightarrow> 'w \<Rightarrow> bool"
  for r fl sts_of cluster_of writes_of ns n where
  reconciles: "Reconcile r fl ns n w = (res, w') \<Longrightarrow> cluster_step r fl sts_of cluster_of writes_of ns n w w'"
| pods: "cluster_of w' = cluster_of w \<Longrightarrow> writes_of w' = writes_of w \<Longrightarrow> (\<And>m. pods_move (sts_of w ns m) (sts_of w' ns m)) \<Longrightarrow>
    cluster_step r fl sts_of cluster_of writes_of ns n w w'"

text \<open>Down: in the phase Stopped, with the readiness cleared and no pod of a StatefulSet left.\<close>

definition is_down :: "('w \<Rightarrow> string \<Rightarrow> string \<Rightarrow> StatefulSet option) \<Rightarrow>
    ('w \<Rightarrow> string \<Rightarrow> string \<Rightarrow> CloudberryCluster option) \<Rightarrow> string \<Rightarrow> string \<Rightarrow> 'w \<Rightarrow> bool" where
  "is_down sts_of cluster_of ns n w = (case cluster_of w ns n of None \<Rightarrow> False | Some c \<Rightarrow>
     St_Phase (CC_Status c) = ClusterPhaseStopped \<and> \<not> St_CoordinatorReady (CC_Status c) \<and>
     \<not> St_StandbyReady (CC_Status c) \<and> St_SegmentsReady (CC_Status c) = 0 \<and>
     list_all (\<lambda>m. at_scale 0 (sts_of w ns m)) (getScaleDownOrder c))"

text \<open>Going down: no action and no restart is pending, and no StatefulSet requests a pod; the
  cluster is stopping or down.\<close>

definition going_down :: "('w \<Rightarrow> string \<Rightarrow> string \<Rightarrow> StatefulSet option) \<Rightarrow>
    ('w \<Rightarrow> string \<Rightarrow> string \<Rightarrow> CloudberryCluster option) \<Rightarrow> string \<Rightarrow> string \<Rightarrow> 'w \<Rightarrow> bool" where
  "going_down sts_of cluster_of ns n w = (case cluster_of w ns n of None \<Rightarrow> False | Some c \<Rightarrow>
     CC_DeletionTimestamp c = None \<and> CC_Annotations c AnnotationAction = None \<and>
     CC_Annotations c AnnotationRestartPending = None \<and>
     list_all (\<lambda>m. \<not> below_scale 0 (sts_of w ns m)) (getScaleDownOrder c) \<and>
     (St_Phase (CC_Status c) = ClusterPhaseStopping \<or> is_down sts_of cluster_of ns n w))"

section \<open>Sample worlds\<close>

definition sample_flows :: "'w flows" where
  "sample_flows = \<lparr>fl_handleDeletion = (\<lambda>c w. (Inr 0, w)), fl_checkScaleProgress = (\<lambda>c w. (Inr 0, w)),
     fl_checkMirroringProgress = (\<lambda>c w. (Inr 0, w)), fl_continueUpgrade = (\<lambda>c w. (Inr 0, w)),
     fl_handleUpgrade = (\<lambda>c w. (Inr 0, w)), fl_reconcileCoreResources = (\<lambda>c w. (Inr c, w)),
     fl_reconcileStatefulSets = (\<lambda>c w. (Inr c, w))\<rparr>"

definition sample_sts :: "string \<Rightarrow> int32 \<Rightarrow> int32 \<Rightarrow> StatefulSet" where
  "sample_sts name k up = \<lparr>Sts_Namespace = ''ns'', Sts_Name = name, Sts_Replicas = Some k, Sts_StatusReplicas = up,
     Sts_ReadyReplicas = up, Sts_UpdatedReplicas = up\<rparr>"

text \<open>
  A world with the cluster \<^verbatim>\<open>ns/c\<close> and its two StatefulSets; a pair is the requested and the
  running replicas.
\<close>

definition sample_world :: "CloudberryCluster \<Rightarrow> int32 \<times> int32 \<Rightarrow> int32 \<times> int32 \<Rightarrow> mem_world" where
  "sample_world c coord prim = \<lparr>
     mem_sts = (\<lambda>_. Map.empty)(''ns'' := [''c-coordinator'' \<mapsto> sample_sts ''c-coordinator'' (fst coord) (snd coord),
       ''c-segment-primary'' \<mapsto> sample_sts ''c-segment-primary'' (fst prim) (snd prim)]),
     mem_cluster = (\<lambda>_. Map.empty)(''ns'' := [''c'' \<mapsto> c]), mem_writes = []\<rparr>"

section \<open>Lemmas\<close>

subsection \<open>Dispatch\<close>

lemmas gate_defs = first_gate_def gates_def steady_def

lemma Reconcile_by_gate:
  assumes "k_get_cluster (r_client r) ns n w = (Inr c, w1)"
  shows "Reconcile r fl ns n w = (case first_gate c of
      Route_Deletion \<Rightarrow> fl_handleDeletion fl c w1
    | Route_Action \<Rightarrow> handleAction r (reconcileCluster r fl) c (annotation c AnnotationAction) w1
    | Route_Stopped \<Rightarrow> (Inr 0, w1)
    | Route_StopProgress \<Rightarrow> checkStopProgress r (reconcileCluster r fl) c w1
    | Route_Limited \<Rightarrow> (Inr (requeueDefault r), w1)
    | Route_ScaleProgress \<Rightarrow> fl_checkScaleProgress fl c w1
    | Route_MirroringProgress \<Rightarrow> fl_checkMirroringProgress fl c w1
    | Route_ContinueUpgrade \<Rightarrow> fl_continueUpgrade fl c w1
    | Route_RestoreScaling \<Rightarrow>
        (case k_update_status (r_client r) (with_phase ClusterPhaseScaling c) w1 of
           (Inl e, w2) \<Rightarrow> (Inl (Ctrl_Error ''restoring scaling phase'' e), w2)
         | (Inr _, w2) \<Rightarrow> (Inr requeueAfterImmediate, w2))
    | Route_SteadyState \<Rightarrow> (Inr (requeueDefault r), refreshSteadyStateReadiness r c w1)
    | Route_AddFinalizer \<Rightarrow>
        (case k_update_cluster (r_client r) (c\<lparr>CC_Finalizers := CC_Finalizers c @ [FinalizerName]\<rparr>) w1 of
           (Inl e, w2) \<Rightarrow> (Inl (Ctrl_Error ''adding finalizer'' e), w2)
         | (Inr _, w2) \<Rightarrow> (Inr requeueAfterImmediate, w2))
    | Route_Reconcile \<Rightarrow> reconcileCluster r fl c w1)"
proof -
  have action: "CC_Annotations c AnnotationAction = Some a \<Longrightarrow> annotation c AnnotationAction = a" for a
    by (simp add: annotation_def)
  consider (del) "CC_DeletionTimestamp c \<noteq> None"
    | (act) a where "CC_DeletionTimestamp c = None" "CC_Annotations c AnnotationAction = Some a"
    | (rest) "CC_DeletionTimestamp c = None" "CC_Annotations c AnnotationAction = None"
    by blast
  then show ?thesis
  proof cases
    case del then show ?thesis by (simp add: Reconcile_def assms gate_defs)
  next
    case (act a)
    then have "first_gate c = Route_Action" by (simp add: gate_defs)
    then show ?thesis using act by (simp only: Reconcile_def assms prod.case sum.case route.case option.case action) simp
  next
    case rest
    then show ?thesis
      by (simp add: Reconcile_def assms gate_defs handleLifecyclePhase_def handleGenerationUnchanged_def Let_def)
  qed
qed

lemma handleAction_error:
  "action \<in> {ActionStop, ActionStopFast, ActionStopImmediate} \<Longrightarrow>
     handleStop r c action w = (Inl e, w1) \<Longrightarrow> handleAction r rc c action w = (Inl e, w1)"
  by (auto simp: handleAction_def)

subsection \<open>Orders\<close>

lemma rev_down_order: "rev (getScaleDownOrder c) = getScaleUpOrder c"
  by (simp add: getScaleDownOrder_def getScaleUpOrder_def split: option.split)

lemma down_order: "getScaleDownOrder c = component_order c"
  by (simp add: getScaleDownOrder_def component_order_def mirrors_on_def standby_on_def split: option.split)

lemma down_order_distinct:
  assumes "dns_label (CC_Name c)" "length (CC_Name c) \<le> 43"
  shows "distinct (getScaleDownOrder c)"
  by (simp add: getScaleDownOrder_def component_names [OF assms] split: option.split)

lemma status_irrelevant [simp]:
  "blocked_scale_in s (c\<lparr>CC_Status := st\<rparr>) = blocked_scale_in s c"
  "standby_on (c\<lparr>CC_Status := st\<rparr>) = standby_on c"
  "annotation (c\<lparr>CC_Status := st\<rparr>) k = annotation c k"
  by (simp_all add: blocked_scale_in_def standby_on_def annotation_def cong: option.case_cong)

lemma overall_phase:
  assumes "d = determineOverallPhase now x"
  shows "CC_Namespace d = CC_Namespace x" "CC_Name d = CC_Name x"
    "St_ClusterVersion (CC_Status d) = St_ClusterVersion (CC_Status x)"
    "St_SegmentsTotal (CC_Status d) = St_SegmentsTotal (CC_Status x)"
    "St_ObservedGeneration (CC_Status d) = St_ObservedGeneration (CC_Status x)"
    "St_CoordinatorReady (CC_Status d) = St_CoordinatorReady (CC_Status x)"
    "St_StandbyReady (CC_Status d) = St_StandbyReady (CC_Status x)"
    "St_SegmentsReady (CC_Status d) = St_SegmentsReady (CC_Status x)"
    "St_MirroringStatus (CC_Status d) = St_MirroringStatus (CC_Status x)"
    "St_Phase (CC_Status x) \<in> set lifecycle_phases \<Longrightarrow> d = x"
    "St_Phase (CC_Status x) \<notin> set lifecycle_phases \<Longrightarrow>
       (St_CoordinatorReady (CC_Status x) \<and> St_SegmentsReady (CC_Status x) = St_SegmentsTotal (CC_Status x) \<longrightarrow>
          St_Phase (CC_Status d) = ClusterPhaseRunning) \<and>
       IsConditionTrue (St_Conditions (CC_Status d)) ConditionClusterReady =
         (St_CoordinatorReady (CC_Status x) \<and> St_SegmentsReady (CC_Status x) = St_SegmentsTotal (CC_Status x)) \<and>
       (\<forall>t. t \<noteq> ConditionClusterReady \<longrightarrow>
          FindCondition (St_Conditions (CC_Status d)) t = FindCondition (St_Conditions (CC_Status x)) t)"
  by (simp_all add: assms determineOverallPhase_def Let_def)

subsection \<open>On a healthy API server\<close>

context healthy_api
begin

lemma get_stored: "cluster_of w ns n = Some c \<Longrightarrow> k_get_cluster (r_client r) ns n w = (Inr c, w)"
  by (simp add: get_cluster)

lemma reconcile_action:
  assumes "cluster_of w ns n = Some c" "CC_DeletionTimestamp c = None" "CC_Annotations c AnnotationAction = Some a"
  shows "Reconcile r fl ns n w = handleAction r (reconcileCluster r fl) c a w"
  using assms by (simp add: Reconcile_def get_stored)

lemma reconcile_stopping:
  assumes "cluster_of w ns n = Some c" "CC_DeletionTimestamp c = None" "CC_Annotations c AnnotationAction = None"
    and "St_Phase (CC_Status c) = ClusterPhaseStopping"
  shows "Reconcile r fl ns n w = checkStopProgress r (reconcileCluster r fl) c w"
  using assms by (simp add: Reconcile_def get_stored handleLifecyclePhase_def Let_def)

lemma scale_up_all_healthy:
  "distinct names \<Longrightarrow> \<exists>w'. scale_up_all r c names w = (None, w') \<and> cluster_of w' = cluster_of w \<and>
     (\<forall>n. sts_of w' (CC_Namespace c) n =
        (if n \<in> set names then map_option (Sts_Replicas_update (\<lambda>_. Some (getDesiredReplicas c n))) (sts_of w (CC_Namespace c) n)
         else sts_of w (CC_Namespace c) n)) \<and>
     writes_of w' = writes_of w @ map (\<lambda>n. (n, Some (getDesiredReplicas c n)))
       (filter (\<lambda>n. below_scale (getDesiredReplicas c n) (sts_of w (CC_Namespace c) n)) names)"
proof (induction names arbitrary: w)
  case (Cons n names)
  let ?ns = "CC_Namespace c" and ?k = "getDesiredReplicas c"
  obtain w1 where w1: "scaleStatefulSet r ?ns n (?k n) w = (None, w1)" "cluster_of w1 = cluster_of w"
    "sts_of w1 = (sts_of w)(?ns := (sts_of w ?ns)(n := map_option (Sts_Replicas_update (\<lambda>_. Some (?k n))) (sts_of w ?ns n)))"
    "writes_of w1 = writes_of w @ (if below_scale (?k n) (sts_of w ?ns n) then [(n, Some (?k n))] else [])"
    using scale_one by blast
  then have same: "sts_of w1 ?ns m = sts_of w ?ns m" if "m \<noteq> n" for m using that by simp
  have eq: "filter (\<lambda>m. below_scale (?k m) (sts_of w1 ?ns m)) names = filter (\<lambda>m. below_scale (?k m) (sts_of w ?ns m)) names"
    using Cons.prems by (intro filter_cong refl) (metis distinct.simps(2) same)
  obtain w2 where w2: "scale_up_all r c names w1 = (None, w2)" "cluster_of w2 = cluster_of w1"
    "\<And>m. sts_of w2 ?ns m = (if m \<in> set names then map_option (Sts_Replicas_update (\<lambda>_. Some (?k m))) (sts_of w1 ?ns m)
       else sts_of w1 ?ns m)"
    "writes_of w2 = writes_of w1 @ map (\<lambda>m. (m, Some (?k m)))
       (filter (\<lambda>m. below_scale (?k m) (sts_of w1 ?ns m)) names)"
    using Cons.IH [of w1] Cons.prems by auto
  show ?case using w1 w2 eq Cons.prems by (intro exI [of _ w2]) auto
qed simp

lemma stop_progress_healthy:
  assumes "cluster_of w (CC_Namespace c) (CC_Name c) = Some c" "CC_Annotations c AnnotationRestartPending = None"
    and "list_all (\<lambda>n. at_scale 0 (sts_of w (CC_Namespace c) n)) (getScaleDownOrder c)"
  shows "\<exists>w' c'. checkStopProgress r rc c w = (Inr 0, w') \<and> cluster_of w' (CC_Namespace c) (CC_Name c) = Some c' \<and>
    CC_Spec c' = CC_Spec c \<and> CC_Annotations c' = CC_Annotations c \<and> St_Phase (CC_Status c') = ClusterPhaseStopped \<and>
    \<not> St_CoordinatorReady (CC_Status c') \<and> \<not> St_StandbyReady (CC_Status c') \<and> St_SegmentsReady (CC_Status c') = 0 \<and>
    sts_of w' = sts_of w"
proof -
  obtain c2 w2 st where c2: "patchClearReadinessStatus r (with_phase ClusterPhaseStopped c) w = (Inr c2, w2)"
    "c2 = c\<lparr>CC_Status := st\<rparr>" "St_Phase st = ClusterPhaseStopped" "\<not> St_CoordinatorReady st"
    "\<not> St_StandbyReady st" "St_SegmentsReady st = 0" "cluster_of w2 (CC_Namespace c) (CC_Name c) = Some c2"
    "sts_of w2 = sts_of w"
    using patch_clear [OF assms(1), of ClusterPhaseStopped] by blast
  then show ?thesis
    using assms(2,3) by (simp add: checkStopProgress_def allStatefulSetsAtScale_def all_at_scale_healthy event)
qed

lemma update_status_healthy:
  assumes "cluster_of w (CC_Namespace c) (CC_Name c) = Some c0"
  shows "\<exists>c' w'. updateStatus r c w = (Inr c', w') \<and> cluster_of w' (CC_Namespace c) (CC_Name c) = Some c' \<and>
    c' = c0\<lparr>CC_Status := CC_Status c'\<rparr> \<and> sts_of w' = sts_of w \<and> writes_of w' = writes_of w \<and>
    St_ClusterVersion (CC_Status c') =
      (if isUpgradeNeeded c then St_ClusterVersion (CC_Status c) else Spec_Version (CC_Spec c)) \<and>
    St_SegmentsTotal (CC_Status c') = Seg_Count (Spec_Segments (CC_Spec c)) \<and>
    St_ObservedGeneration (CC_Status c') =
      (if blocked_scale_in (sts_of w (CC_Namespace c) (SegmentPrimaryName (CC_Name c))) c
       then St_ObservedGeneration (CC_Status c) else CC_Generation c) \<and>
    St_CoordinatorReady (CC_Status c') =
      ready_of (St_CoordinatorReady (CC_Status c)) (sts_of w (CC_Namespace c) (CoordinatorName (CC_Name c))) \<and>
    St_SegmentsReady (CC_Status c') =
      ready_count (St_SegmentsReady (CC_Status c)) (sts_of w (CC_Namespace c) (SegmentPrimaryName (CC_Name c))) \<and>
    (let ready = St_CoordinatorReady (CC_Status c') \<and> St_SegmentsReady (CC_Status c') = St_SegmentsTotal (CC_Status c')
     in if St_Phase (CC_Status c) \<in> set lifecycle_phases
        then St_Phase (CC_Status c') = St_Phase (CC_Status c) \<and> St_Conditions (CC_Status c') = St_Conditions (CC_Status c)
        else (ready \<longrightarrow> St_Phase (CC_Status c') = ClusterPhaseRunning) \<and>
          IsConditionTrue (St_Conditions (CC_Status c')) ConditionClusterReady = ready \<and>
          (\<forall>t. t \<noteq> ConditionClusterReady \<longrightarrow>
             FindCondition (St_Conditions (CC_Status c')) t = FindCondition (St_Conditions (CC_Status c)) t))"
proof -
  define st where "st = (CC_Status c)\<lparr>St_LastReconcileTime := Some (k_now (r_client r) w),
    St_ClusterVersion := (if isUpgradeNeeded c then St_ClusterVersion (CC_Status c) else Spec_Version (CC_Spec c)),
    St_SegmentsTotal := Seg_Count (Spec_Segments (CC_Spec c))\<rparr>"
  have need: "isUpgradeNeeded (c\<lparr>CC_Status := (CC_Status c)\<lparr>St_LastReconcileTime := t\<rparr>\<rparr>) = isUpgradeNeeded c" for t
    by (simp add: isUpgradeNeeded_def)
  have st_eq: "(if isUpgradeNeeded (c\<lparr>CC_Status := (CC_Status c)\<lparr>St_LastReconcileTime := Some (k_now (r_client r) w)\<rparr>\<rparr>)
      then (CC_Status c)\<lparr>St_LastReconcileTime := Some (k_now (r_client r) w)\<rparr>
      else (CC_Status c)\<lparr>St_LastReconcileTime := Some (k_now (r_client r) w)\<rparr>
        \<lparr>St_ClusterVersion := Spec_Version (CC_Spec c)\<rparr>)
      \<lparr>St_SegmentsTotal := Seg_Count (Spec_Segments (CC_Spec c))\<rparr> = st"
    by (simp add: need st_def)
  have gen: "St_ObservedGeneration st = St_ObservedGeneration (CC_Status c)" by (simp add: st_def)
  obtain g where g: "updateObservedGeneration r (c\<lparr>CC_Status := st\<rparr>) w =
      (c\<lparr>CC_Status := st\<lparr>St_ObservedGeneration := g\<rparr>\<rparr>, w)"
    "g = (if blocked_scale_in (sts_of w (CC_Namespace c) (SegmentPrimaryName (CC_Name c))) c
      then St_ObservedGeneration (CC_Status c) else CC_Generation c)"
    using generation_healthy [of "c\<lparr>CC_Status := st\<rparr>" w] by (simp add: gen)
  define c1 where "c1 = fst (updateComponentReadiness r (c\<lparr>CC_Status := st\<lparr>St_ObservedGeneration := g\<rparr>\<rparr>) w)"
  have c1: "updateComponentReadiness r (c\<lparr>CC_Status := st\<lparr>St_ObservedGeneration := g\<rparr>\<rparr>) w = (c1, w)"
    by (simp add: c1_def readiness_healthy)
  obtain m where m: "updateMirroringStatus r c1 w = (c1\<lparr>CC_Status := (CC_Status c1)\<lparr>St_MirroringStatus := m\<rparr>\<rparr>, w)"
    using mirroring_healthy by blast
  define x where "x = c1\<lparr>CC_Status := (CC_Status c1)\<lparr>St_MirroringStatus := m\<rparr>\<rparr>"
  define d where "d = determineOverallPhase (k_now (r_client r) w) x"
  note d = overall_phase [OF d_def]
  have x: "CC_Namespace x = CC_Namespace c" "CC_Name x = CC_Name c" "St_ObservedGeneration (CC_Status x) = g"
    "St_ClusterVersion (CC_Status x) =
      (if isUpgradeNeeded c then St_ClusterVersion (CC_Status c) else Spec_Version (CC_Spec c))"
    "St_SegmentsTotal (CC_Status x) = Seg_Count (Spec_Segments (CC_Spec c))"
    "St_CoordinatorReady (CC_Status x) =
      ready_of (St_CoordinatorReady (CC_Status c)) (sts_of w (CC_Namespace c) (CoordinatorName (CC_Name c)))"
    "St_SegmentsReady (CC_Status x) =
      ready_count (St_SegmentsReady (CC_Status c)) (sts_of w (CC_Namespace c) (SegmentPrimaryName (CC_Name c)))"
    "St_Phase (CC_Status x) = St_Phase (CC_Status c)" "St_Conditions (CC_Status x) = St_Conditions (CC_Status c)"
    by (simp_all add: x_def c1_def readiness_healthy st_def)
  obtain w' where w': "k_update_status (r_client r) d w = (Inr (c0\<lparr>CC_Status := CC_Status d\<rparr>), w')"
    "cluster_of w' (CC_Namespace c) (CC_Name c) = Some (c0\<lparr>CC_Status := CC_Status d\<rparr>)"
    "sts_of w' = sts_of w" "writes_of w' = writes_of w"
    using update_status [of w d c0] assms d(1,2) x(1,2) by auto
  have "updateStatus r c w = k_update_status (r_client r) d w"
    by (simp only: updateStatus_def Let_def st_eq g(1) c1 m prod.case d_def x_def)
  then show ?thesis
    using w' by (intro exI [of _ "c0\<lparr>CC_Status := CC_Status d\<rparr>"] exI [of _ w'])
      (use d(10,11) in \<open>simp add: d(3-9) x g(2) Let_def\<close>)
qed

lemma steady_refresh:
  assumes "cluster_of w (CC_Namespace c) (CC_Name c) = Some c"
  shows "\<exists>c'. cluster_of (refreshSteadyStateReadiness r c w) (CC_Namespace c) (CC_Name c) = Some c' \<and>
    c' = c\<lparr>CC_Status := CC_Status c'\<rparr> \<and> St_Phase (CC_Status c') = St_Phase (CC_Status c) \<and>
    St_CoordinatorReady (CC_Status c') =
      ready_of (St_CoordinatorReady (CC_Status c)) (sts_of w (CC_Namespace c) (CoordinatorName (CC_Name c))) \<and>
    (standby_on c \<longrightarrow> St_StandbyReady (CC_Status c') =
      ready_of (St_StandbyReady (CC_Status c)) (sts_of w (CC_Namespace c) (StandbyName (CC_Name c)))) \<and>
    St_SegmentsReady (CC_Status c') =
      ready_count (St_SegmentsReady (CC_Status c)) (sts_of w (CC_Namespace c) (SegmentPrimaryName (CC_Name c))) \<and>
    sts_of (refreshSteadyStateReadiness r c w) = sts_of w \<and> writes_of (refreshSteadyStateReadiness r c w) = writes_of w"
proof -
  define c1 where "c1 = fst (updateComponentReadiness r c w)"
  have c1: "updateComponentReadiness r c w = (c1, w)" by (simp add: c1_def readiness_healthy)
  let ?st = "CC_Status c1"
  have st: "St_CoordinatorReady ?st =
      ready_of (St_CoordinatorReady (CC_Status c)) (sts_of w (CC_Namespace c) (CoordinatorName (CC_Name c)))"
    "standby_on c \<longrightarrow> St_StandbyReady ?st =
      ready_of (St_StandbyReady (CC_Status c)) (sts_of w (CC_Namespace c) (StandbyName (CC_Name c)))"
    "St_SegmentsReady ?st =
      ready_count (St_SegmentsReady (CC_Status c)) (sts_of w (CC_Namespace c) (SegmentPrimaryName (CC_Name c)))"
    "CC_Namespace c1 = CC_Namespace c" "CC_Name c1 = CC_Name c"
    by (simp_all add: c1_def readiness_healthy)
  let ?same = "St_CoordinatorReady ?st = St_CoordinatorReady (CC_Status c) \<and>
    St_StandbyReady ?st = St_StandbyReady (CC_Status c) \<and> St_SegmentsReady ?st = St_SegmentsReady (CC_Status c)"
  show ?thesis
  proof (cases ?same)
    case True
    then have "refreshSteadyStateReadiness r c w = w" by (simp add: refreshSteadyStateReadiness_def c1 Let_def)
    then show ?thesis using assms True st by simp
  next
    case False
    let ?p = "Set_Readiness (St_CoordinatorReady ?st) (St_StandbyReady ?st) (St_SegmentsReady ?st)"
    obtain w2 c2 st2 where p: "k_patch_status (r_client r) (CC_Namespace c) (CC_Name c) ?p w = (Inr c2, w2)"
      "c2 = c\<lparr>CC_Status := st2\<rparr>" "St_Phase st2 = patched_phase ?p (St_Phase (CC_Status c))"
      "St_CoordinatorReady st2 = patched_coordinator ?p (St_CoordinatorReady (CC_Status c))"
      "St_StandbyReady st2 = patched_standby ?p (St_StandbyReady (CC_Status c))"
      "St_SegmentsReady st2 = patched_segments ?p (St_SegmentsReady (CC_Status c))"
      "cluster_of w2 = (cluster_of w)(CC_Namespace c := (cluster_of w (CC_Namespace c))(CC_Name c \<mapsto> c2))"
      "sts_of w2 = sts_of w" "writes_of w2 = writes_of w"
      using patch_status [OF assms, of ?p] by blast
    have "refreshSteadyStateReadiness r c w = w2"
      using False
      by (simp only: refreshSteadyStateReadiness_def c1 Let_def prod.case if_False st(4,5) p(1) snd_conv)
    then show ?thesis using p(2-) st(1-3) by (simp add: patched_defs)
  qed
qed

lemma restricted_start_healthy:
  assumes "cluster_of w (CC_Namespace c) (CC_Name c) = Some c" "distinct (getScaleUpOrder c)"
  shows "\<exists>w' c'. handleAction r rc c ActionStartRestricted w = (Inr 0, w') \<and>
    cluster_of w' (CC_Namespace c) (CC_Name c) = Some c' \<and> St_Phase (CC_Status c') = ClusterPhaseRestricted \<and>
    CC_Annotations c' = (CC_Annotations c)(AnnotationAction := None) \<and> CC_Spec c' = CC_Spec c \<and>
    (\<forall>n \<in> set (getScaleUpOrder c). \<not> below_scale (getDesiredReplicas c n) (sts_of w' (CC_Namespace c) n)) \<and>
    writes_of w' = writes_of w @ map (\<lambda>n. (n, Some (getDesiredReplicas c n)))
      (filter (\<lambda>n. below_scale (getDesiredReplicas c n) (sts_of w (CC_Namespace c) n)) (getScaleUpOrder c))"
proof -
  let ?ns = "CC_Namespace c" and ?k = "getDesiredReplicas c"
  define w0 where "w0 = k_event (r_client r) c ''Starting'' (''Cluster start initiated (mode: '' @ ActionStartRestricted @ '')'') w"
  have w0: "cluster_of w0 = cluster_of w" "sts_of w0 = sts_of w" "writes_of w0 = writes_of w"
    by (simp_all add: w0_def event)
  obtain w1 where w1: "scale_up_all r c (getScaleUpOrder c) w0 = (None, w1)" "cluster_of w1 = cluster_of w"
    "\<And>n. n \<in> set (getScaleUpOrder c) \<Longrightarrow> sts_of w1 ?ns n = map_option (Sts_Replicas_update (\<lambda>_. Some (?k n))) (sts_of w ?ns n)"
    "writes_of w1 = writes_of w @ map (\<lambda>n. (n, Some (?k n)))
      (filter (\<lambda>n. below_scale (?k n) (sts_of w ?ns n)) (getScaleUpOrder c))"
    using scale_up_all_healthy [OF assms(2), of c w0] w0 by auto
  have "cluster_of w1 ?ns (CC_Name c) = Some c" using w1 assms(1) by simp
  from patch_phase [OF this, of ClusterPhaseRestricted] obtain c2 w2 st where p:
    "patchStatus r (with_phase ClusterPhaseRestricted c) w1 = (Inr c2, w2)" "c2 = c\<lparr>CC_Status := st\<rparr>"
    "St_Phase st = ClusterPhaseRestricted" "cluster_of w2 ?ns (CC_Name c) = Some c2" "sts_of w2 = sts_of w1"
    "writes_of w2 = writes_of w1" by blast
  define w3 where "w3 = k_event (r_client r) c2 ''Started''
    ''Cluster started in restricted mode (superuser connections only)'' w2"
  have "handleStart r rc c ActionStartRestricted w = (Inr 0, w3)"
    by (simp only: handleStart_def Let_def w0_def [symmetric] w1(1) p(1) prod.case option.case sum.case w3_def
        simp_thms if_True)
  moreover have "cluster_of w3 ?ns (CC_Name c) = Some c2" by (simp add: w3_def event p(4))
  ultimately obtain w4 where w4: "handleAction r rc c ActionStartRestricted w = (Inr 0, w4)"
    "cluster_of w4 ?ns (CC_Name c) = Some (c2\<lparr>CC_Annotations := (CC_Annotations c2)(AnnotationAction := None)\<rparr>)"
    "sts_of w4 = sts_of w3" "writes_of w4 = writes_of w3"
    using action_done [of w3 c c2 ActionStartRestricted rc w 0] by auto
  have "\<not> below_scale (?k n) (sts_of w4 ?ns n)" if "n \<in> set (getScaleUpOrder c)" for n
    using w1(3) [OF that] by (simp add: w4 w3_def event p below_scale_def split: option.split)
  then show ?thesis using w4 w1(4) p by (simp add: w3_def event)
qed

lemma pods_move_scale:
  "pods_move s s' \<Longrightarrow> below_scale 0 s' = below_scale 0 s"
  "pods_move s s' \<Longrightarrow> \<not> below_scale 0 s \<Longrightarrow> at_scale 0 s \<Longrightarrow> at_scale 0 s'"
  by (auto simp: pods_move_def below_scale_def at_scale_def split: option.splits)

lemma stop_progress_waits:
  assumes "\<not> list_all (\<lambda>n. at_scale 0 (sts_of w (CC_Namespace c) n)) (getScaleDownOrder c)"
  shows "checkStopProgress r rc c w = (Inr requeueAfterStopping, w)"
  using assms by (simp only: checkStopProgress_def allStatefulSetsAtScale_def all_at_scale_healthy prod.case case_bool_if
      if_False)

lemma reconcile_down_waits:
  assumes "going_down sts_of cluster_of ns n w"
    and "\<not> (\<exists>c. cluster_of w ns n = Some c \<and> St_Phase (CC_Status c) = ClusterPhaseStopping \<and>
      list_all (\<lambda>m. at_scale 0 (sts_of w ns m)) (getScaleDownOrder c))"
  shows "snd (Reconcile r fl ns n w) = w"
proof -
  obtain c where c: "cluster_of w ns n = Some c" "CC_DeletionTimestamp c = None" "CC_Annotations c AnnotationAction = None"
    "St_Phase (CC_Status c) = ClusterPhaseStopping \<or> is_down sts_of cluster_of ns n w"
    using assms(1) by (auto simp: going_down_def split: option.splits)
  show ?thesis
  proof (cases "St_Phase (CC_Status c) = ClusterPhaseStopping")
    case True
    then show ?thesis
      using reconcile_stopping [OF c(1,2,3) True] stop_progress_waits [of w c] assms(2) c(1) cluster_key [OF c(1)] by simp
  next
    case False
    then have "St_Phase (CC_Status c) = ClusterPhaseStopped" using c by (simp add: is_down_def)
    then show ?thesis using c by (simp add: Reconcile_def get_stored handleLifecyclePhase_def)
  qed
qed

lemma reconcile_down_finishes:
  assumes "going_down sts_of cluster_of ns n w" "cluster_of w ns n = Some c"
    and "St_Phase (CC_Status c) = ClusterPhaseStopping"
    and "list_all (\<lambda>m. at_scale 0 (sts_of w ns m)) (getScaleDownOrder c)"
  shows "\<exists>w'. Reconcile r fl ns n w = (Inr 0, w') \<and> going_down sts_of cluster_of ns n w' \<and>
    is_down sts_of cluster_of ns n w' \<and> sts_of w' = sts_of w \<and> writes_of w' = writes_of w"
proof -
  have key: "CC_Namespace c = ns" "CC_Name c = n" using cluster_key [OF assms(2)] by auto
  have c: "CC_DeletionTimestamp c = None" "CC_Annotations c AnnotationAction = None"
    "CC_Annotations c AnnotationRestartPending = None"
    "list_all (\<lambda>m. \<not> below_scale 0 (sts_of w ns m)) (getScaleDownOrder c)"
    using assms(1,2) by (auto simp: going_down_def)
  obtain c2 w2 st where c2: "patchClearReadinessStatus r (with_phase ClusterPhaseStopped c) w = (Inr c2, w2)"
    "c2 = c\<lparr>CC_Status := st\<rparr>" "St_Phase st = ClusterPhaseStopped" "\<not> St_CoordinatorReady st"
    "\<not> St_StandbyReady st" "St_SegmentsReady st = 0" "cluster_of w2 ns n = Some c2"
    "sts_of w2 = sts_of w" "writes_of w2 = writes_of w"
    using patch_clear [of w c c ClusterPhaseStopped] assms(2) key by auto
  define w3 where "w3 = k_event (r_client r) c2 ''Stopped'' ''Cluster stopped'' w2"
  have "Reconcile r fl ns n w = (Inr 0, w3)"
    using reconcile_stopping [OF assms(2) c(1,2) assms(3)] c(3) assms(4) key c2(1)
    by (simp add: checkStopProgress_def allStatefulSetsAtScale_def all_at_scale_healthy w3_def)
  then show ?thesis
    using c2(2-) c assms(4) by (simp add: w3_def event is_down_def going_down_def order_of_status)
qed

lemma going_down_step:
  assumes "cluster_step r fl sts_of cluster_of writes_of ns n w w'" "going_down sts_of cluster_of ns n w"
  shows "going_down sts_of cluster_of ns n w' \<and> writes_of w' = writes_of w \<and>
    (is_down sts_of cluster_of ns n w \<longrightarrow> is_down sts_of cluster_of ns n w')"
  using assms
proof cases
  case (reconciles res)
  show ?thesis
  proof (cases "\<exists>c. cluster_of w ns n = Some c \<and> St_Phase (CC_Status c) = ClusterPhaseStopping \<and>
      list_all (\<lambda>m. at_scale 0 (sts_of w ns m)) (getScaleDownOrder c)")
    case True
    then show ?thesis using reconcile_down_finishes [OF assms(2), of _ fl] reconciles by fastforce
  next
    case False
    then have "w' = w" using reconcile_down_waits [OF assms(2) False, of fl] reconciles by simp
    then show ?thesis using assms(2) by simp
  qed
next
  case pods
  obtain c where c: "cluster_of w ns n = Some c" "list_all (\<lambda>m. \<not> below_scale 0 (sts_of w ns m)) (getScaleDownOrder c)"
    using assms(2) by (auto simp: going_down_def split: option.splits)
  then have below: "list_all (\<lambda>m. \<not> below_scale 0 (sts_of w' ns m)) (getScaleDownOrder c)"
    using pods(3) pods_move_scale(1) by (auto simp: list_all_iff)
  have "is_down sts_of cluster_of ns n w'" if "is_down sts_of cluster_of ns n w"
    using that c pods(1) pods_move_scale(2) [OF pods(3)] by (auto simp: is_down_def list_all_iff)
  then show ?thesis using assms(2) c(1) pods(1,2) below by (auto simp: going_down_def)
qed

lemma going_down_run:
  assumes "(cluster_step r fl sts_of cluster_of writes_of ns n)\<^sup>*\<^sup>* w w'" "going_down sts_of cluster_of ns n w"
  shows "going_down sts_of cluster_of ns n w' \<and> writes_of w' = writes_of w \<and>
    (is_down sts_of cluster_of ns n w \<longrightarrow> is_down sts_of cluster_of ns n w')"
  using assms by (induction rule: rtranclp_induct) (use going_down_step in \<open>metis+\<close>)

end

subsection \<open>Sample worlds\<close>

lemma sample_label: "dns_label ''c''" by code_simp

lemma sample_names: "CoordinatorName ''c'' = ''c-coordinator''" "SegmentPrimaryName ''c'' = ''c-segment-primary''"
  by code_simp+

lemma sample_order:
  "CC_Name c = ''c'' \<Longrightarrow> CC_Spec c = base_spec \<Longrightarrow> getScaleDownOrder c = [''c-segment-primary'', ''c-coordinator'']"
  by (simp add: getScaleDownOrder_def base_spec_def sample_names)

lemma sample_world_cluster:
  "CC_Name c = ''c'' \<Longrightarrow> CC_Namespace c = ''ns'' \<Longrightarrow> mem_cluster_of (sample_world c a b) ''ns'' ''c'' = Some c"
  by (simp add: mem_cluster_of_def sample_world_def)

lemma sample_world_sts:
  "mem_sts_of (sample_world c a b) ''ns'' ''c-coordinator'' = Some (sample_sts ''c-coordinator'' (fst a) (snd a))"
  "mem_sts_of (sample_world c a b) ''ns'' ''c-segment-primary'' = Some (sample_sts ''c-segment-primary'' (fst b) (snd b))"
  "mem_writes (sample_world c a b) = []"
  by (simp_all add: mem_sts_of_def sample_world_def sample_sts_def)

lemma sample_scale:
  "below_scale k (Some (sample_sts m j up)) = (j \<noteq> k)" "at_scale 0 (Some (sample_sts m j up)) = (up = 0)"
  "Sts_ReadyReplicas (sample_sts m j up) = up"
  by (simp_all add: below_scale_def at_scale_def sample_sts_def)

lemmas sample_simps = sample_order sample_order [unfolded down_order] sample_world_cluster sample_world_sts sample_scale sample_names

section \<open>Properties\<close>

text \<open>
  What a reconciliation does is decided by the fetched cluster alone, in a fixed order of
  gates: deletion always wins, then a requested action, then the lifecycle phases, then the steady
  state, then the finalizer, and only then the main reconciliation.
\<close>

theorem Reconcile_takes_first_gate:
  assumes "k_get_cluster (r_client r) ns n w = (Inr c, w1)"
  shows "Reconcile r fl ns n w = (case first_gate c of
      Route_Deletion \<Rightarrow> fl_handleDeletion fl c w1
    | Route_Action \<Rightarrow> handleAction r (reconcileCluster r fl) c (annotation c AnnotationAction) w1
    | Route_Stopped \<Rightarrow> (Inr 0, w1)
    | Route_StopProgress \<Rightarrow> checkStopProgress r (reconcileCluster r fl) c w1
    | Route_Limited \<Rightarrow> (Inr (requeueDefault r), w1)
    | Route_ScaleProgress \<Rightarrow> fl_checkScaleProgress fl c w1
    | Route_MirroringProgress \<Rightarrow> fl_checkMirroringProgress fl c w1
    | Route_ContinueUpgrade \<Rightarrow> fl_continueUpgrade fl c w1
    | Route_RestoreScaling \<Rightarrow>
        (case k_update_status (r_client r) (with_phase ClusterPhaseScaling c) w1 of
           (Inl e, w2) \<Rightarrow> (Inl (Ctrl_Error ''restoring scaling phase'' e), w2)
         | (Inr _, w2) \<Rightarrow> (Inr requeueAfterImmediate, w2))
    | Route_SteadyState \<Rightarrow> (Inr (requeueDefault r), refreshSteadyStateReadiness r c w1)
    | Route_AddFinalizer \<Rightarrow>
        (case k_update_cluster (r_client r) (c\<lparr>CC_Finalizers := CC_Finalizers c @ [FinalizerName]\<rparr>) w1 of
           (Inl e, w2) \<Rightarrow> (Inl (Ctrl_Error ''adding finalizer'' e), w2)
         | (Inr _, w2) \<Rightarrow> (Inr requeueAfterImmediate, w2))
    | Route_Reconcile \<Rightarrow> reconcileCluster r fl c w1)"
  by (rule Reconcile_by_gate [OF assms])

text \<open>
  C3. On a healthy API server a stop request (smart, fast or immediate) asks every StatefulSet of
  the cluster for zero pods, in the order mirrors, primaries, standby, coordinator and each at most
  once, and removes the request. The cluster is Stopped, with its readiness cleared, exactly when
  no pod is left, and otherwise Stopping with a requeue.
\<close>

theorem stop_request_scales_down:
  assumes "healthy_api r sts_of cluster_of writes_of"
    and "cluster_of w ns n = Some c" "CC_DeletionTimestamp c = None" "dns_label n" "length n \<le> 43"
    and "CC_Annotations c AnnotationAction = Some mode" "mode \<in> {ActionStop, ActionStopFast, ActionStopImmediate}"
  shows "\<exists>res w' c'. Reconcile r fl ns n w = (Inr res, w') \<and>
    (\<forall>m \<in> set (component_order c). \<not> below_scale 0 (sts_of w' ns m)) \<and>
    writes_of w' = writes_of w @ map (\<lambda>m. (m, Some 0))
      (filter (\<lambda>m. below_scale 0 (sts_of w ns m)) (component_order c)) \<and>
    cluster_of w' ns n = Some c' \<and> CC_Annotations c' = (CC_Annotations c)(AnnotationAction := None) \<and>
    (if list_all (\<lambda>m. at_scale 0 (sts_of w ns m)) (component_order c)
     then res = 0 \<and> St_Phase (CC_Status c') = ClusterPhaseStopped \<and> \<not> St_CoordinatorReady (CC_Status c') \<and>
       \<not> St_StandbyReady (CC_Status c') \<and> St_SegmentsReady (CC_Status c') = 0
     else res = requeueAfterStopping \<and> St_Phase (CC_Status c') = ClusterPhaseStopping)"
proof -
  have key: "CC_Namespace c = ns" "CC_Name c = n" using healthy_api.cluster_key [OF assms(1,2)] by auto
  have "distinct (getScaleDownOrder c)" using assms key by (simp add: down_order_distinct)
  then show ?thesis
    using healthy_api.stop_action_healthy [OF assms(1), of w c c mode "reconcileCluster r fl"] assms(2,7) key
      healthy_api.reconcile_action [OF assms(1-3,6), of fl] by (simp add: down_order)
qed

theorem stop_request_scales_down_witness:
  "\<exists>w' c'. Reconcile mem_reconciler sample_flows ''ns'' ''c''
       (sample_world (base_cluster\<lparr>CC_Annotations := [AnnotationAction \<mapsto> ActionStop]\<rparr>) (1, 1) (4, 4)) =
       (Inr requeueAfterStopping, w') \<and>
     mem_writes w' = [(''c-segment-primary'', Some 0), (''c-coordinator'', Some 0)] \<and>
     mem_cluster_of w' ''ns'' ''c'' = Some c' \<and> St_Phase (CC_Status c') = ClusterPhaseStopping"
  using stop_request_scales_down [OF mem.healthy_api_axioms,
      of "sample_world (base_cluster\<lparr>CC_Annotations := [AnnotationAction \<mapsto> ActionStop]\<rparr>) (1, 1) (4, 4)" "''ns''" "''c''"
        "base_cluster\<lparr>CC_Annotations := [AnnotationAction \<mapsto> ActionStop]\<rparr>" ActionStop sample_flows]
  by (simp add: sample_simps sample_label base_cluster_def) blast

text \<open>
  C7. A cluster that is stopping or stopped is never scaled again without a new request: however
  reconciliations and pod terminations interleave, no StatefulSet is written, the cluster stays
  stopping or down, and once down it stays down.
\<close>

theorem stopped_cluster_stays_down:
  assumes "healthy_api r sts_of cluster_of writes_of"
    and "(cluster_step r fl sts_of cluster_of writes_of ns n)\<^sup>*\<^sup>* w w'" "going_down sts_of cluster_of ns n w"
  shows "going_down sts_of cluster_of ns n w' \<and> writes_of w' = writes_of w \<and>
    (is_down sts_of cluster_of ns n w \<longrightarrow> is_down sts_of cluster_of ns n w')"
  by (rule healthy_api.going_down_run [OF assms])

theorem stopped_cluster_stays_down_witness:
  "going_down mem_sts_of mem_cluster_of ''ns'' ''c''
     (snd (Reconcile mem_reconciler sample_flows ''ns'' ''c''
        (sample_world (with_phase ClusterPhaseStopping base_cluster) (0, 1) (0, 0))))"
proof -
  let ?w = "sample_world (with_phase ClusterPhaseStopping base_cluster) (0, 1) (0, 0)"
  have "going_down mem_sts_of mem_cluster_of ''ns'' ''c'' ?w"
    by (simp add: going_down_def sample_simps base_cluster_def with_phase_def)
  moreover have "(cluster_step mem_reconciler sample_flows mem_sts_of mem_cluster_of mem_writes ''ns'' ''c'')\<^sup>*\<^sup>* ?w
      (snd (Reconcile mem_reconciler sample_flows ''ns'' ''c'' ?w))"
    by (intro r_into_rtranclp cluster_step.reconciles) (rule prod.collapse [symmetric])
  ultimately show ?thesis using stopped_cluster_stays_down [OF mem.healthy_api_axioms] by blast
qed

text \<open>
  A stop finishes: when a cluster is stopping and no pod of its StatefulSets is left, the next
  reconciliation puts it down.
\<close>

theorem stop_finishes:
  assumes "healthy_api r sts_of cluster_of writes_of"
    and "going_down sts_of cluster_of ns n w" "cluster_of w ns n = Some c"
    and "St_Phase (CC_Status c) = ClusterPhaseStopping"
    and "list_all (\<lambda>m. at_scale 0 (sts_of w ns m)) (getScaleDownOrder c)"
  shows "\<exists>w'. Reconcile r fl ns n w = (Inr 0, w') \<and> is_down sts_of cluster_of ns n w' \<and> writes_of w' = writes_of w"
  using healthy_api.reconcile_down_finishes [OF assms] by blast

text \<open>
  A restart comes back: when the pods of a stopping cluster with a pending restart are gone, the
  next reconciliation drops the restart mark, resets the phase to Initializing with the readiness
  cleared, and hands the stored cluster to the main reconciliation.
\<close>

theorem restart_comes_back:
  assumes "healthy_api r sts_of cluster_of writes_of"
    and "cluster_of w ns n = Some c" "CC_DeletionTimestamp c = None" "CC_Annotations c AnnotationAction = None"
    and "St_Phase (CC_Status c) = ClusterPhaseStopping" "CC_Annotations c AnnotationRestartPending \<noteq> None"
    and "list_all (\<lambda>m. at_scale 0 (sts_of w ns m)) (getScaleDownOrder c)"
  shows "\<exists>w' c'. Reconcile r fl ns n w = reconcileCluster r fl c' w' \<and> cluster_of w' ns n = Some c' \<and>
    CC_Annotations c' = (CC_Annotations c)(AnnotationRestartPending := None) \<and> CC_Spec c' = CC_Spec c \<and>
    St_Phase (CC_Status c') = ClusterPhaseInitializing \<and> \<not> St_CoordinatorReady (CC_Status c') \<and>
    \<not> St_StandbyReady (CC_Status c') \<and> St_SegmentsReady (CC_Status c') = 0"
proof -
  have key: "CC_Namespace c = ns" "CC_Name c = n" using healthy_api.cluster_key [OF assms(1,2)] by auto
  show ?thesis
    using healthy_api.restart_progress_healthy [OF assms(1), of w c "reconcileCluster r fl"] assms(2,6,7) key
      healthy_api.reconcile_stopping [OF assms(1-5), of fl] by simp
qed

text \<open>
  A restricted start asks every StatefulSet for its desired replicas, in the reverse of the
  order of a stop, and leaves the cluster in the phase Restricted with the request removed.
\<close>

theorem restricted_start_scales_up:
  assumes "healthy_api r sts_of cluster_of writes_of"
    and "cluster_of w ns n = Some c" "CC_DeletionTimestamp c = None" "dns_label n" "length n \<le> 43"
    and "CC_Annotations c AnnotationAction = Some ActionStartRestricted"
  shows "\<exists>w' c'. Reconcile r fl ns n w = (Inr 0, w') \<and> cluster_of w' ns n = Some c' \<and>
    St_Phase (CC_Status c') = ClusterPhaseRestricted \<and>
    CC_Annotations c' = (CC_Annotations c)(AnnotationAction := None) \<and> CC_Spec c' = CC_Spec c \<and>
    (\<forall>m \<in> set (component_order c). \<not> below_scale (getDesiredReplicas c m) (sts_of w' ns m)) \<and>
    writes_of w' = writes_of w @ map (\<lambda>m. (m, Some (getDesiredReplicas c m)))
      (filter (\<lambda>m. below_scale (getDesiredReplicas c m) (sts_of w ns m)) (rev (component_order c)))"
proof -
  have key: "CC_Namespace c = ns" "CC_Name c = n" using healthy_api.cluster_key [OF assms(1,2)] by auto
  have "distinct (rev (getScaleDownOrder c))" using assms key by (simp add: down_order_distinct)
  then have "distinct (getScaleUpOrder c)" by (simp only: rev_down_order)
  moreover have "set (getScaleDownOrder c) = set (getScaleUpOrder c)" by (metis rev_down_order set_rev)
  ultimately show ?thesis
    using healthy_api.restricted_start_healthy [OF assms(1), of w c "reconcileCluster r fl"] assms(2) key
      healthy_api.reconcile_action [OF assms(1-3,6), of fl] by (simp only: rev_down_order flip: down_order)
qed

text \<open>
  The cluster controller removes every action it does not know, with no other effect. The
  requests \<^verbatim>\<open>rebalance\<close> and \<^verbatim>\<open>activate-standby\<close>, which the HA controller carries out from the same
  annotation, are among them: they are lost when the cluster controller reconciles first.
\<close>

theorem foreign_action_discarded:
  assumes "healthy_api r sts_of cluster_of writes_of"
    and "cluster_of w ns n = Some c" "CC_DeletionTimestamp c = None"
    and "CC_Annotations c AnnotationAction = Some action" "action \<in> {ActionRebalance, ActionActivateStandby}"
  shows "\<exists>w'. Reconcile r fl ns n w = (Inr 0, w') \<and>
    cluster_of w' ns n = Some (c\<lparr>CC_Annotations := (CC_Annotations c)(AnnotationAction := None)\<rparr>) \<and>
    sts_of w' = sts_of w \<and> writes_of w' = writes_of w"
proof -
  have key: "CC_Namespace c = ns" "CC_Name c = n" using healthy_api.cluster_key [OF assms(1,2)] by auto
  show ?thesis
    using healthy_api.action_done [OF assms(1), of w c c action "reconcileCluster r fl" w 0] assms(2,5) key
      healthy_api.reconcile_action [OF assms(1-4), of fl] by auto
qed

text \<open>
  A status update reports what the StatefulSets show. The coordinator counts as ready when a
  pod of it is, the ready segments are the ready primaries, the generation is marked as observed
  unless a scale-in waits for its confirmation, and outside the phases the action handlers own the
  ClusterReady condition says exactly whether the coordinator and all segments are ready, which
  makes the cluster Running. Phases the handlers own and all other conditions stay.
\<close>

theorem updateStatus_reports:
  assumes "healthy_api r sts_of cluster_of writes_of" "cluster_of w (CC_Namespace c) (CC_Name c) = Some c0"
  shows "\<exists>c' w'. updateStatus r c w = (Inr c', w') \<and> cluster_of w' (CC_Namespace c) (CC_Name c) = Some c' \<and>
    c' = c0\<lparr>CC_Status := CC_Status c'\<rparr> \<and> sts_of w' = sts_of w \<and> writes_of w' = writes_of w \<and>
    St_SegmentsTotal (CC_Status c') = Seg_Count (Spec_Segments (CC_Spec c)) \<and>
    St_ObservedGeneration (CC_Status c') =
      (if blocked_scale_in (sts_of w (CC_Namespace c) (SegmentPrimaryName (CC_Name c))) c
       then St_ObservedGeneration (CC_Status c) else CC_Generation c) \<and>
    St_CoordinatorReady (CC_Status c') =
      ready_of (St_CoordinatorReady (CC_Status c)) (sts_of w (CC_Namespace c) (CoordinatorName (CC_Name c))) \<and>
    St_SegmentsReady (CC_Status c') =
      ready_count (St_SegmentsReady (CC_Status c)) (sts_of w (CC_Namespace c) (SegmentPrimaryName (CC_Name c))) \<and>
    (let ready = St_CoordinatorReady (CC_Status c') \<and> St_SegmentsReady (CC_Status c') = St_SegmentsTotal (CC_Status c')
     in if St_Phase (CC_Status c) \<in> set lifecycle_phases
        then St_Phase (CC_Status c') = St_Phase (CC_Status c) \<and> St_Conditions (CC_Status c') = St_Conditions (CC_Status c)
        else (ready \<longrightarrow> St_Phase (CC_Status c') = ClusterPhaseRunning) \<and>
          IsConditionTrue (St_Conditions (CC_Status c')) ConditionClusterReady = ready \<and>
          (\<forall>t. t \<noteq> ConditionClusterReady \<longrightarrow>
             FindCondition (St_Conditions (CC_Status c')) t = FindCondition (St_Conditions (CC_Status c)) t))"
  using healthy_api.update_status_healthy [OF assms] by blast

text \<open>
  In the steady state the counters follow the live StatefulSets: after a reconciliation of a
  running cluster whose generation is observed, the stored readiness is that of the StatefulSets,
  also when it dropped to zero, and nothing else changed.
\<close>

theorem steady_state_readiness:
  assumes "healthy_api r sts_of cluster_of writes_of"
    and "cluster_of w ns n = Some c" "first_gate c = Route_SteadyState"
  shows "\<exists>w' c'. Reconcile r fl ns n w = (Inr (requeueDefault r), w') \<and> cluster_of w' ns n = Some c' \<and>
    c' = c\<lparr>CC_Status := CC_Status c'\<rparr> \<and> St_Phase (CC_Status c') = St_Phase (CC_Status c) \<and>
    St_CoordinatorReady (CC_Status c') = ready_of (St_CoordinatorReady (CC_Status c)) (sts_of w ns (CoordinatorName n)) \<and>
    (standby_on c \<longrightarrow>
      St_StandbyReady (CC_Status c') = ready_of (St_StandbyReady (CC_Status c)) (sts_of w ns (StandbyName n))) \<and>
    St_SegmentsReady (CC_Status c') = ready_count (St_SegmentsReady (CC_Status c)) (sts_of w ns (SegmentPrimaryName n)) \<and>
    sts_of w' = sts_of w \<and> writes_of w' = writes_of w"
proof -
  have key: "CC_Namespace c = ns" "CC_Name c = n" using healthy_api.cluster_key [OF assms(1,2)] by auto
  have "Reconcile r fl ns n w = (Inr (requeueDefault r), refreshSteadyStateReadiness r c w)"
    using Reconcile_by_gate [OF healthy_api.get_stored [OF assms(1,2)], of fl] assms(3) by simp
  then show ?thesis
    using healthy_api.steady_refresh [OF assms(1), of w c] assms(2) by (simp add: key)
qed

text \<open>
  A rolled-back upgrade is forgotten: while the UpgradeFailed condition stands, the main
  reconciliation leaves the StatefulSets alone, but its status update records the version of the
  spec that failed as the running version, so that once the condition is removed no upgrade is
  seen as needed any more.
\<close>

theorem rolled_back_upgrade_forgotten:
  assumes "healthy_api r sts_of cluster_of writes_of" "cluster_of w (CC_Namespace c) (CC_Name c) = Some c"
    and "isUpgradeRolledBack c" "annotation c AnnotationUpgrade = []" "St_Phase (CC_Status c) \<noteq> []"
    and "fl_reconcileCoreResources fl c w = (Inr c, w)"
  shows "\<exists>w' c'. reconcileCluster r fl c w = (Inr (requeueDefault r), w') \<and> writes_of w' = writes_of w \<and>
    cluster_of w' (CC_Namespace c) (CC_Name c) = Some c' \<and>
    St_ClusterVersion (CC_Status c') = Spec_Version (CC_Spec c) \<and>
    (\<forall>conds. \<not> isUpgradeNeeded (c'\<lparr>CC_Status := (CC_Status c')\<lparr>St_Conditions := conds\<rparr>\<rparr>))"
proof -
  have need: "\<not> isUpgradeNeeded c" using assms(3,4) by (simp add: isUpgradeNeeded_def isUpgradeRolledBack_def)
  obtain c' w' where u: "updateStatus r c w = (Inr c', w')" "cluster_of w' (CC_Namespace c) (CC_Name c) = Some c'"
    "c' = c\<lparr>CC_Status := CC_Status c'\<rparr>" "writes_of w' = writes_of w"
    "St_ClusterVersion (CC_Status c') = Spec_Version (CC_Spec c)"
    using healthy_api.update_status_healthy [OF assms(1,2)] need by auto
  have "annotation c' AnnotationUpgrade = []" "Spec_Version (CC_Spec c') = Spec_Version (CC_Spec c)"
    using assms(4) by (subst u(3), simp)+
  then have "\<not> isUpgradeNeeded (c'\<lparr>CC_Status := (CC_Status c')\<lparr>St_Conditions := conds\<rparr>\<rparr>)" for conds
    by (simp add: isUpgradeNeeded_def u(5))
  moreover have "reconcileCluster r fl c w = (Inr (requeueDefault r), w')"
    using need assms(3,5,6) by (simp add: reconcileCluster_def finish_reconcile_def u(1))
  ultimately show ?thesis using u by blast
qed

end
