(* ===== verification/Rfc3339.thy ===== *)
theory Rfc3339
  imports GoTime
begin

text \<open>
  Timestamps as text: \<^verbatim>\<open>t.Format(time.RFC3339)\<close> and \<^verbatim>\<open>time.Parse(time.RFC3339, s)\<close> of Go's package
  \<^verbatim>\<open>time\<close>, which the controllers use to keep the start of an operation in an annotation and to
  decide on a later pass whether the operation has timed out. An instant is a number of
  nanoseconds since the Unix epoch. The main fact is that reading back a written timestamp gives
  the instant with the fraction of its second cut off.
\<close>

section \<open>Model\<close>

subsection \<open>Days\<close>

text \<open>Days from the first of January of year 1 to the first of January of a year.\<close>

definition days_before_year :: "int \<Rightarrow> int" where
  "days_before_year y = 365 * (y - 1) + (y - 1) div 4 - (y - 1) div 100 + (y - 1) div 400"

definition day_of_date :: "int \<Rightarrow> nat \<Rightarrow> nat \<Rightarrow> int" where
  "day_of_date y m d =
     days_before_year y - 719162 + int (sum_list (take (m - 1) (month_lens y))) + int d - 1"

subsection \<open>Format\<close>

text \<open>\<^verbatim>\<open>appendInt(b, n, width)\<close>: the decimal digits, padded with zeros to the width.\<close>

definition pad_int :: "nat \<Rightarrow> int \<Rightarrow> string" where
  "pad_int width n =
     (let s = show_nat (nat \<bar>n\<bar>)
      in (if n < 0 then ''-'' else []) @ replicate (width - length s) CHR ''0'' @ s)"

definition format_zone :: "int \<Rightarrow> string" where
  "format_zone offset =
     (if offset = 0 then ''Z''
      else (let zone = (if offset < 0 then - (\<bar>offset\<bar> div 60) else offset div 60)
            in (if zone < 0 then ''-'' else ''+'') @ pad_int 2 (\<bar>zone\<bar> div 60) @ '':'' @ pad_int 2 (\<bar>zone\<bar> mod 60)))"

definition Format_RFC3339 :: "Location \<Rightarrow> int \<Rightarrow> string" where
  "Format_RFC3339 loc t =
     (let sec = t div Second; offset = loc sec; s = sec + offset; (y, m, d) = date_of_day (s div 86400)
      in pad_int 4 y @ ''-'' @ pad_int 2 (int m) @ ''-'' @ pad_int 2 (int d) @ ''T'' @
         pad_int 2 (s div 3600 mod 24) @ '':'' @ pad_int 2 (s div 60 mod 60) @ '':'' @ pad_int 2 (s mod 60) @
         format_zone offset)"

subsection \<open>Parse\<close>

text \<open>
  \<^verbatim>\<open>getnum(s, fixed)\<close>: two digits, or one when it is not followed by a digit and the field is not of
  fixed width.
\<close>

fun getnum :: "bool \<Rightarrow> string \<Rightarrow> (nat \<times> string) option" where
  "getnum fixed [] = None"
| "getnum fixed [c] = (if is_digit c \<and> \<not> fixed then Some (digit_val c, []) else None)"
| "getnum fixed (c # d # s) =
     (if \<not> is_digit c then None
      else if is_digit d then Some (digit_val c * 10 + digit_val d, s)
      else if fixed then None else Some (digit_val c, d # s))"

definition expect :: "char \<Rightarrow> string \<Rightarrow> string option" where
  "expect c s = (case s of [] \<Rightarrow> None | d # r \<Rightarrow> if d = c then Some r else None)"

definition parse_year :: "string \<Rightarrow> (int \<times> string) option" where
  "parse_year s =
     (if length s < 4 then None
      else if list_all is_digit (take 4 s) then Some (int (digits_val 0 (take 4 s)), drop 4 s) else None)"

text \<open>
  A fraction after the seconds is accepted though the layout has none: a dot or a comma and at
  least one digit; digits after the ninth are ignored.
\<close>

definition parse_fraction :: "string \<Rightarrow> int \<times> string" where
  "parse_fraction s =
     (case s of
        c # d # _ \<Rightarrow>
          if (c = CHR ''.'' \<or> c = CHR '','') \<and> is_digit d then
            (let ds = takeWhile is_digit (tl s); ns = take 9 ds
             in (int (digits_val 0 ns * 10 ^ (9 - length ns)), dropWhile is_digit (tl s)))
          else (0, s)
      | _ \<Rightarrow> (0, s))"

text \<open>The offset from UTC in seconds; hours up to 24 and minutes up to 60 pass the range checks.\<close>

definition parse_zone :: "string \<Rightarrow> (int \<times> string) option" where
  "parse_zone s =
     (case s of
        [] \<Rightarrow> None
      | c # r \<Rightarrow>
          if c = CHR ''Z'' then Some (0, r)
          else if length s < 6 then None
          else if s ! 3 \<noteq> CHR '':'' then None
          else case getnum True (take 2 r) of None \<Rightarrow> None
          | Some (hh, _) \<Rightarrow>
              (case getnum True (take 2 (drop 4 s)) of None \<Rightarrow> None
               | Some (mm, _) \<Rightarrow>
                   if hh > 24 \<or> mm > 60 then None
                   else if c = CHR ''+'' then Some (int (hh * 60 + mm) * 60, drop 6 s)
                   else if c = CHR ''-'' then Some (- (int (hh * 60 + mm) * 60), drop 6 s)
                   else None))"

definition days_in :: "nat \<Rightarrow> int \<Rightarrow> nat" where
  "days_in m y = month_lens y ! (m - 1)"

definition parse_clock :: "string \<Rightarrow> ((nat \<times> nat \<times> nat \<times> int) \<times> string) option" where
  "parse_clock s =
     (case getnum False s of None \<Rightarrow> None | Some (hh, s) \<Rightarrow>
      if 24 \<le> hh then None else
      case expect CHR '':'' s of None \<Rightarrow> None | Some s \<Rightarrow>
      case getnum True s of None \<Rightarrow> None | Some (mi, s) \<Rightarrow>
      if 60 \<le> mi then None else
      case expect CHR '':'' s of None \<Rightarrow> None | Some s \<Rightarrow>
      case getnum True s of None \<Rightarrow> None | Some (ss, s) \<Rightarrow>
      if 60 \<le> ss then None else
      (let (ns, s) = parse_fraction s in Some ((hh, mi, ss, ns), s)))"

definition parse_date :: "string \<Rightarrow> ((int \<times> nat \<times> nat) \<times> string) option" where
  "parse_date s =
     (case parse_year s of None \<Rightarrow> None | Some (y, s) \<Rightarrow>
      case expect CHR ''-'' s of None \<Rightarrow> None | Some s \<Rightarrow>
      case getnum True s of None \<Rightarrow> None | Some (m, s) \<Rightarrow>
      if m = 0 \<or> 12 < m then None else
      case expect CHR ''-'' s of None \<Rightarrow> None | Some s \<Rightarrow>
      case getnum True s of None \<Rightarrow> None | Some (d, s) \<Rightarrow>
      case expect CHR ''T'' s of None \<Rightarrow> None | Some s \<Rightarrow>
      Some ((y, m, d), s))"

definition Parse_RFC3339 :: "string \<Rightarrow> int option" where
  "Parse_RFC3339 s =
     (case parse_date s of None \<Rightarrow> None | Some ((y, m, d), s) \<Rightarrow>
      case parse_clock s of None \<Rightarrow> None | Some ((hh, mi, ss, ns), s) \<Rightarrow>
      case parse_zone s of None \<Rightarrow> None | Some (offset, s) \<Rightarrow>
      if s \<noteq> [] then None
      else if d < 1 \<or> d > days_in m y then None
      else Some ((day_of_date y m d * 86400 + int hh * 3600 + int mi * 60 + int ss - offset) * Second + ns))"

subsection \<open>Durations as text\<close>

text \<open>\<^verbatim>\<open>fmtFrac\<close>: the last digits as a fraction without trailing zeros; nothing when they are all zero.\<close>

definition fmt_frac :: "nat \<Rightarrow> nat \<Rightarrow> string" where
  "fmt_frac prec u =
     (let s = pad_int prec (int (u mod 10 ^ prec)); t = rev (dropWhile (\<lambda>c. c = CHR ''0'') (rev s))
      in if prec = 0 \<or> t = [] then [] else CHR ''.'' # t)"

text \<open>\<^verbatim>\<open>d.String()\<close>.\<close>

definition Duration_String :: "Duration \<Rightarrow> string" where
  "Duration_String d =
     (let u = nat \<bar>d\<bar>; s = u div 1000000000; m = s div 60; h = m div 60
      in (if d < 0 then ''-'' else []) @
         (if u = 0 then ''0s''
          else if u < 1000 then show_nat u @ ''ns''
          else if u < 1000000 then show_nat (u div 1000) @ fmt_frac 3 u @ [CHR 0xC2, CHR 0xB5] @ ''s''
          else if u < 1000000000 then show_nat (u div 1000000) @ fmt_frac 6 u @ ''ms''
          else (if h > 0 then show_nat h @ ''h'' else []) @ (if m > 0 then show_nat (m mod 60) @ ''m'' else []) @
               show_nat (s mod 60) @ fmt_frac 9 u @ ''s''))"

section \<open>Lemmas\<close>

subsection \<open>The calendar\<close>

lemma div_step: "0 < k \<Longrightarrow> (y::int) div k = (y - 1) div k + (if k dvd y then 1 else 0)" for k :: int
proof -
  assume k: "0 < k"
  define q r where "q = y div k" and "r = y mod k"
  have y: "y = k * q + r" "0 \<le> r" "r < k" using k by (simp_all add: q_def r_def)
  show ?thesis
  proof (cases "k dvd y")
    case True
    then have "r = 0" by (simp add: r_def)
    have "(y - 1) div k = q - 1"
      by (rule int_div_pos_eq [of _ _ _ "k - 1"]) (use y \<open>r = 0\<close> k in \<open>auto simp: algebra_simps\<close>)
    then show ?thesis using True by (simp add: q_def)
  next
    case False
    then have "r \<noteq> 0" by (simp add: r_def dvd_eq_mod_eq_0)
    have "(y - 1) div k = q"
      by (rule int_div_pos_eq [of _ _ _ "r - 1"]) (use y \<open>r \<noteq> 0\<close> k in auto)
    then show ?thesis using False by (simp add: q_def)
  qed
qed

lemma days_before_year_Suc: "days_before_year (y + 1) = days_before_year y + int (year_len y)"
proof -
  have "4 dvd y" if "100 dvd y" using that by (rule dvd_trans [rotated]) simp
  moreover have "100 dvd y" if "400 dvd y" using that by (rule dvd_trans [rotated]) simp
  ultimately show ?thesis
    using div_step [of 4 y] div_step [of 100 y] div_step [of 400 y]
    by (auto simp: days_before_year_def year_len_def leap_year_def)
qed

lemma days_before_year_400: "days_before_year (y + 400 * q) = days_before_year y + 146097 * q"
proof -
  have "(y - 1 + 400 * q) div k = (y - 1) div k + (400 div k) * q" if "k \<in> {4, 100, 400}" for k :: int
    using that div_mult_self1 [of k "y - 1" "(400 div k) * q"] by (auto simp: algebra_simps)
  from this [of 4] this [of 100] this [of 400] show ?thesis
    by (simp add: days_before_year_def algebra_simps)
qed

lemma leap_year_400: "leap_year (y + 400 * q) = leap_year y"
proof -
  have "k dvd (y + 400 * q) \<longleftrightarrow> k dvd y" if "k dvd 400" for k :: int
    using that by (simp add: dvd_add_left_iff dvd_mult2)
  from this [of 4] this [of 100] this [of 400] show ?thesis by (simp add: leap_year_def)
qed

lemma month_lens_400: "month_lens (y + 400 * q) = month_lens y"
  by (simp add: month_lens_def leap_year_400)

lemma split_year_days: "split_year y d = (y', r) \<Longrightarrow> days_before_year y + int d = days_before_year y' + int r"
proof (induction y d rule: split_year.induct)
  case (1 y d)
  show ?case
  proof (cases "d < year_len y")
    case True
    then show ?thesis using "1.prems" by (simp add: split_year.simps [of y])
  next
    case False
    then have "days_before_year (y + 1) + int (d - year_len y) = days_before_year y' + int r"
      using "1.IH" "1.prems" by (simp add: split_year.simps [of y])
    then show ?thesis using False by (simp add: days_before_year_Suc)
  qed
qed

lemma split_month_days:
  "d < sum_list ls \<Longrightarrow> split_month ls m d = (m', d') \<Longrightarrow>
     m \<le> m' \<and> m' - m < length ls \<and> d' \<le> ls ! (m' - m) \<and> 1 \<le> d' \<and> d = sum_list (take (m' - m) ls) + d' - 1"
proof (induction ls m d rule: split_month.induct)
  case (3 l l' ls m d)
  show ?case
  proof (cases "d < l")
    case False
    then have IH: "Suc m \<le> m' \<and> m' - Suc m < length (l' # ls) \<and> d' \<le> (l' # ls) ! (m' - Suc m) \<and> 1 \<le> d' \<and>
      d - l = sum_list (take (m' - Suc m) (l' # ls)) + d' - 1" using 3 by auto
    then obtain k where k: "m' = Suc m + k" using le_Suc_ex by blast
    show ?thesis using IH False by (auto simp: k)
  qed (use 3 in auto)
qed auto

lemma date_of_day_exact:
  assumes "date_of_day day = (y, m, d)"
  shows "day_of_date y m d = day" "1 \<le> d" "d \<le> days_in m y"
proof -
  obtain y0 doy where sy: "split_year 1970 (nat (day mod 146097)) = (y0, doy)" by fastforce
  with assms have sm: "split_month (month_lens y0) 1 doy = (m, d)" and y: "y = y0 + 400 * (day div 146097)"
    by (auto simp: date_of_day_def split: prod.splits)
  have lens: "month_lens y = month_lens y0" by (simp add: y month_lens_400)
  have bound: "doy < sum_list (month_lens y0)" using split_year_bound [OF sy] by (simp add: month_lens_sum)
  from split_month_days [OF this sm] have "1 \<le> m" and d: "1 \<le> d" "d \<le> month_lens y0 ! (m - 1)"
    and doy: "doy = sum_list (take (m - 1) (month_lens y0)) + d - 1" by auto
  show "1 \<le> d" "d \<le> days_in m y" using d by (simp_all add: days_in_def lens)
  have "days_before_year 1970 + day mod 146097 = days_before_year y0 + int doy"
    using split_year_days [OF sy] by simp
  moreover have "days_before_year 1970 = 719162" by (simp add: days_before_year_def)
  moreover have "days_before_year y = days_before_year y0 + 146097 * (day div 146097)"
    unfolding y by (rule days_before_year_400)
  moreover have "146097 * (day div 146097) + day mod 146097 = day" by simp
  ultimately have "days_before_year y - 719162 + int doy = day" by linarith
  then show "day_of_date y m d = day"
    using doy d(1) by (simp add: day_of_date_def lens)
qed

lemma days_before_year_mono: "y \<le> y' \<Longrightarrow> days_before_year y \<le> days_before_year y'"
proof -
  assume le: "y \<le> y'"
  have "days_before_year y \<le> days_before_year (y + int n)" for n
  proof (induction n)
    case (Suc n)
    then show ?case using days_before_year_Suc [of "y + int n"] by (simp add: algebra_simps)
  qed simp
  from this [of "nat (y' - y)"] show ?thesis using le by simp
qed

text \<open>The days of the years 0 to 9999 are those from -719528 to 2932896.\<close>

lemma four_digit_years:
  assumes "date_of_day day = (y, m, d)" "-719528 \<le> day" "day \<le> 2932896"
  shows "0 \<le> y" "y \<le> 9999"
proof -
  have lt: "sum_list (take (m - 1) (month_lens y)) + d \<le> year_len y"
  proof -
    have "m - 1 < length (month_lens y)"
      using date_of_day_bounds [OF assms(1)] by (simp add: month_lens_def)
    from id_take_nth_drop [OF this] have "sum_list (month_lens y) =
        sum_list (take (m - 1) (month_lens y)) + month_lens y ! (m - 1) + sum_list (drop (Suc (m - 1)) (month_lens y))"
      by (metis add.assoc sum_list.Cons sum_list_append)
    then show ?thesis using date_of_day_exact(3) [OF assms(1)] by (simp add: month_lens_sum days_in_def)
  qed
  have day: "day = days_before_year y - 719162 + int (sum_list (take (m - 1) (month_lens y))) + int d - 1"
    using date_of_day_exact(1) [OF assms(1)] by (simp add: day_of_date_def)
  have lo: "days_before_year 0 = -366" and hi: "days_before_year 10000 = 3652059"
    by (simp_all add: days_before_year_def)
  show "0 \<le> y"
  proof (rule ccontr)
    assume "\<not> 0 \<le> y"
    then have "days_before_year (y + 1) \<le> days_before_year 0" by (intro days_before_year_mono) simp
    then show False using day lt lo assms(2) days_before_year_Suc [of y] by linarith
  qed
  show "y \<le> 9999"
  proof (rule ccontr)
    assume "\<not> y \<le> 9999"
    then have "days_before_year 10000 \<le> days_before_year y" by (intro days_before_year_mono) simp
    then show False using day hi assms(3) date_of_day_exact(2) [OF assms(1)] by linarith
  qed
qed

subsection \<open>Digits\<close>

lemma length_show_nat: "n < 10 ^ k \<Longrightarrow> 0 < k \<Longrightarrow> length (show_nat n) \<le> k"
proof (induction n arbitrary: k rule: show_nat.induct)
  case (1 n)
  show ?case
  proof (cases "n < 10")
    case False
    then obtain j where j: "k = Suc j" "0 < j" using "1.prems" by (cases k; cases "k - 1") auto
    then have "length (show_nat (n div 10)) \<le> j" using 1 False by (intro "1.IH") auto
    then show ?thesis using False j by (simp add: show_nat.simps [of n])
  qed (use "1.prems" in \<open>simp add: show_nat.simps [of n]\<close>)
qed

lemma digits_val_zeros: "digits_val 0 (replicate k CHR ''0'' @ s) = digits_val 0 s"
  by (induction k) (simp_all add: digit_val_def)

lemma pad_int_digits:
  assumes "n < 10 ^ k" "0 < k"
  shows "length (pad_int k (int n)) = k" "list_all is_digit (pad_int k (int n))" "digits_val 0 (pad_int k (int n)) = n"
  using length_show_nat [OF assms] show_nat_digits [of n]
  by (auto simp: pad_int_def Let_def list_all_iff digits_val_zeros is_digit_def)

lemma getnum_pad:
  assumes "n < 100"
  shows "getnum fixed (pad_int 2 (int n) @ s) = Some (n, s)"
proof -
  have p: "length (pad_int 2 (int n)) = 2" "list_all is_digit (pad_int 2 (int n))" "digits_val 0 (pad_int 2 (int n)) = n"
    using pad_int_digits [of n 2] assms by simp_all
  then obtain c d where cd: "pad_int 2 (int n) = [c, d]"
    by (auto simp: length_Suc_conv numeral_2_eq_2)
  show ?thesis using p by (simp add: cd)
qed

lemma parse_year_pad: "0 \<le> y \<Longrightarrow> y \<le> 9999 \<Longrightarrow> parse_year (pad_int 4 y @ s) = Some (y, s)"
  using pad_int_digits [of "nat y" 4] by (simp add: parse_year_def)

lemma expect_here [simp]: "expect c (c # s) = Some s"
  by (simp add: expect_def)

lemma parse_fraction_none: "s \<noteq> [] \<Longrightarrow> hd s \<noteq> CHR ''.'' \<Longrightarrow> hd s \<noteq> CHR '','' \<Longrightarrow> parse_fraction s = (0, s)"
  by (cases s) (auto simp: parse_fraction_def split: list.split)

lemma format_zone_head: "format_zone offset \<noteq> []" "hd (format_zone offset) \<in> {CHR ''Z'', CHR ''-'', CHR ''+''}"
  by (simp_all add: format_zone_def Let_def)

lemma parse_zone_format:
  assumes "60 dvd offset" "\<bar>offset\<bar> < 86400"
  shows "parse_zone (format_zone offset) = Some (offset, [])"
proof (cases "offset = 0")
  case False
  define z where "z = nat (\<bar>offset\<bar> div 60)"
  have abs: "int z * 60 = \<bar>offset\<bar>" using assms(1) by (simp add: z_def pos_imp_zdiv_nonneg_iff dvd_div_mult_self)
  have z: "z < 1440" "0 < z" using abs assms(2) False by linarith+
  have parts: "z div 60 < 100" "z mod 60 < 100" using z by auto
  have len: "length (pad_int 2 (int (z div 60))) = 2" "length (pad_int 2 (int (z mod 60))) = 2"
    using pad_int_digits(1) [of "z div 60" 2] pad_int_digits(1) [of "z mod 60" 2] parts by simp_all
  then obtain a b c d where ab: "pad_int 2 (int (z div 60)) = [a, b]" and cd: "pad_int 2 (int (z mod 60)) = [c, d]"
    by (auto simp: length_Suc_conv numeral_2_eq_2)
  have num: "getnum True [a, b] = Some (z div 60, [])" "getnum True [c, d] = Some (z mod 60, [])"
    using getnum_pad [OF parts(1), of True "[]"] getnum_pad [OF parts(2), of True "[]"] by (simp_all add: ab cd)
  have fmt: "format_zone offset = (if offset < 0 then CHR ''-'' else CHR ''+'') # [a, b, CHR '':'', c, d]"
    using False z abs by (auto simp: format_zone_def Let_def ab [symmetric] cd [symmetric] z_def zdiv_int zmod_int)
  have "z div 60 \<le> 24" "z mod 60 \<le> 60" using z by auto
  then show ?thesis using abs by (auto simp: fmt parse_zone_def num simp del: getnum.simps)
qed (simp add: parse_zone_def format_zone_def)

lemma clock_recompose: "(s::int) div 86400 * 86400 + s div 3600 mod 24 * 3600 + s div 60 mod 60 * 60 + s mod 60 = s"
proof -
  have nest: "s div 3600 = s div 60 div 60" "s div 86400 = s div 60 div 60 div 24"
    by (simp_all add: zdiv_zmult2_eq [symmetric])
  have sum: "s = m * 60 + c \<Longrightarrow> m = h * 60 + b \<Longrightarrow> h = d * 24 + a \<Longrightarrow> d * 86400 + a * 3600 + b * 60 + c = s"
    for m h d a b c :: int by simp
  show ?thesis unfolding nest
    by (rule sum [of "s div 60" _ "s div 60 div 60"]) simp_all
qed

lemma Parse_Format_RFC3339:
  assumes "60 dvd loc (t div Second)" "\<bar>loc (t div Second)\<bar> < 86400"
    and "-62167219200 \<le> t div Second + loc (t div Second)" "t div Second + loc (t div Second) < 253402300800"
  shows "Parse_RFC3339 (Format_RFC3339 loc t) = Some (Truncate t Second)"
proof -
  define off s where "off = loc (t div Second)" and "s = t div Second + off"
  obtain y m d where dt: "date_of_day (s div 86400) = (y, m, d)" by (metis prod_cases3)
  have y: "0 \<le> y" "y \<le> 9999"
    using four_digit_years [OF dt] assms(3,4) by (simp_all add: s_def off_def)
  note md = date_of_day_bounds [OF dt]
  define hh mi ss where "hh = nat (s div 3600 mod 24)" and "mi = nat (s div 60 mod 60)" and "ss = nat (s mod 60)"
  have num: "m < 100" "d < 100" "hh < 24" "mi < 60" "ss < 60"
    using md by (simp_all add: hh_def mi_def ss_def nat_less_iff)
  have lt: "hh < 100" "mi < 100" "ss < 100" using num by simp_all
  have fmt: "Format_RFC3339 loc t = pad_int 4 y @ CHR ''-'' # pad_int 2 (int m) @ CHR ''-'' # pad_int 2 (int d) @ CHR ''T'' #
      pad_int 2 (int hh) @ CHR '':'' # pad_int 2 (int mi) @ CHR '':'' # pad_int 2 (int ss) @ format_zone off"
    using dt by (simp add: Format_RFC3339_def Let_def off_def [symmetric] s_def [symmetric] hh_def mi_def ss_def)
  have frac: "parse_fraction (format_zone off) = (0, format_zone off)"
    using format_zone_head [of off] by (intro parse_fraction_none) auto
  have date: "parse_date (Format_RFC3339 loc t) = Some ((y, m, d),
      pad_int 2 (int hh) @ CHR '':'' # pad_int 2 (int mi) @ CHR '':'' # pad_int 2 (int ss) @ format_zone off)"
    using md num by (simp add: parse_date_def fmt parse_year_pad y getnum_pad)
  have clock: "parse_clock (pad_int 2 (int hh) @ CHR '':'' # pad_int 2 (int mi) @ CHR '':'' # pad_int 2 (int ss) @ format_zone off) =
      Some ((hh, mi, ss, 0), format_zone off)"
    using num by (simp add: parse_clock_def getnum_pad lt frac)
  have zone: "parse_zone (format_zone off) = Some (off, [])"
    using assms(1,2) by (intro parse_zone_format) (simp_all add: off_def)
  have sum: "s div 86400 * 86400 + int hh * 3600 + int mi * 60 + int ss = s"
    using clock_recompose [of s] by (simp add: hh_def mi_def ss_def)
  have "Parse_RFC3339 (Format_RFC3339 loc t) =
      Some ((day_of_date y m d * 86400 + int hh * 3600 + int mi * 60 + int ss - off) * Second + 0)"
    using date_of_day_exact [OF dt]
    by (simp only: Parse_RFC3339_def date clock zone option.case prod.case) simp
  also have "\<dots> = Some ((s - off) * Second)"
    using sum date_of_day_exact(1) [OF dt] by simp
  also have "(s - off) * Second = Truncate t Second"
    by (simp add: s_def Truncate_def minus_mod_eq_div_mult)
  finally show ?thesis .
qed

lemma UTC_zone [simp]: "UTC s = 0"
  by (simp add: UTC_def)

end
