(* ===== verification/Json.thy ===== *)
theory Json
  imports Names
begin

text \<open>
  The part of Go's package \<^verbatim>\<open>encoding/json\<close> the controllers use to keep the state of a multi-step
  operation in an annotation: \<^verbatim>\<open>json.Marshal\<close> and \<^verbatim>\<open>json.Unmarshal\<close> of a struct whose fields are
  strings, 32-bit integers and slices of strings. Texts are byte strings; the decoder is the scanner of the package,
  a machine over the bytes with a stack of open objects and arrays, followed by the assignment of
  the members to the fields. The main fact is the round trip of a struct whose strings are valid
  UTF-8.
\<close>

section \<open>Model\<close>

subsection \<open>Writing strings\<close>

text \<open>\<^verbatim>\<open>utf8.EncodeRune\<close>.\<close>

definition utf8_encode :: "nat \<Rightarrow> string" where
  "utf8_encode r =
     (if r < 128 then [char_of r]
      else if r < 2048 then map char_of [192 + r div 64, 128 + r mod 64]
      else if r < 65536 then map char_of [224 + r div 4096, 128 + r div 64 mod 64, 128 + r mod 64]
      else map char_of [240 + r div 262144, 128 + r div 4096 mod 64, 128 + r div 64 mod 64, 128 + r mod 64])"

definition hex_char :: "nat \<Rightarrow> char" where
  "hex_char d = (if d < 10 then char_of (48 + d) else char_of (87 + d))"

text \<open>
  One byte below 128, with the HTML-safe escaping that is the default of \<^verbatim>\<open>json.Marshal\<close>.
\<close>

definition escape_ascii :: "char \<Rightarrow> string" where
  "escape_ascii c =
     (let b = of_char c :: nat
      in if c = CHR 0x22 \<or> c = CHR 0x5C then [CHR 0x5C, c]
         else if b = 8 then [CHR 0x5C, CHR ''b'']
         else if b = 12 then [CHR 0x5C, CHR ''f'']
         else if b = 10 then [CHR 0x5C, CHR ''n'']
         else if b = 13 then [CHR 0x5C, CHR ''r'']
         else if b = 9 then [CHR 0x5C, CHR ''t'']
         else if b < 32 \<or> c = CHR ''<'' \<or> c = CHR ''>'' \<or> c = CHR ''&''
         then [CHR 0x5C, CHR ''u'', CHR ''0'', CHR ''0'', hex_char (b div 16), hex_char (b mod 16)]
         else [c])"

text \<open>
  The first rune of a text, escaped: an invalid byte becomes the replacement character, the line
  and paragraph separators U+2028 and U+2029 are escaped, every other rune is copied.
\<close>

definition escape_rune :: "string \<Rightarrow> nat \<Rightarrow> string" where
  "escape_rune s w =
     (if (of_char (hd s) :: nat) < 128 then escape_ascii (hd s)
      else if w = 1 then [CHR 0x5C, CHR ''u'', CHR ''f'', CHR ''f'', CHR ''f'', CHR ''d'']
      else if take w s = [CHR 0xE2, CHR 0x80, CHR 0xA8] then [CHR 0x5C, CHR ''u'', CHR ''2'', CHR ''0'', CHR ''2'', CHR ''8'']
      else if take w s = [CHR 0xE2, CHR 0x80, CHR 0xA9] then [CHR 0x5C, CHR ''u'', CHR ''2'', CHR ''0'', CHR ''2'', CHR ''9'']
      else take w s)"

definition first_width :: "string \<Rightarrow> nat" where
  "first_width s = rune_width (map of_char s)"

function quote_body :: "string \<Rightarrow> string" where
  "quote_body s =
     (if s = [] then [] else escape_rune s (first_width s) @ quote_body (drop (first_width s) s))"
  by pat_completeness auto
termination
  by (relation "measure length") (auto simp: first_width_def rune_width_pos)

declare quote_body.simps [simp del]

definition quote :: "string \<Rightarrow> string" where
  "quote s = CHR 0x22 # quote_body s @ [CHR 0x22]"

subsection \<open>Structs\<close>

text \<open>
  A struct as the list of its fields in declaration order: the name of the tag, whether the tag
  has \<^verbatim>\<open>omitempty\<close>, and the value.
\<close>

text \<open>A slice of strings is \<open>None\<close> when it is nil, which JSON writes as null.\<close>

datatype field_val = F_Str string | F_Int int32 | F_Strs "string list option"

record field =
  Fld_Name :: string
  Fld_OmitEmpty :: bool
  Fld_Val :: field_val

definition is_zero :: "field_val \<Rightarrow> bool" where
  "is_zero v = (case v of F_Str s \<Rightarrow> s = [] | F_Int n \<Rightarrow> n = 0 | F_Strs ss \<Rightarrow> ss = None \<or> ss = Some [])"

definition encode_strs :: "string list \<Rightarrow> string" where
  "encode_strs ss = ''['' @ Join (map quote ss) '','' @ '']''"

definition encode_val :: "field_val \<Rightarrow> string" where
  "encode_val v = (case v of F_Str s \<Rightarrow> quote s | F_Int n \<Rightarrow> show_int n
     | F_Strs ss \<Rightarrow> (case ss of None \<Rightarrow> ''null'' | Some ss \<Rightarrow> encode_strs ss))"

definition encode_field :: "field \<Rightarrow> string" where
  "encode_field f = quote (Fld_Name f) @ CHR '':'' # encode_val (Fld_Val f)"

definition Marshal :: "field list \<Rightarrow> string" where
  "Marshal fs =
     ''{'' @ Join (map encode_field (filter (\<lambda>f. \<not> (Fld_OmitEmpty f \<and> is_zero (Fld_Val f))) fs)) '','' @ ''}''"

subsection \<open>Reading strings\<close>

fun hex_val :: "char \<Rightarrow> nat option" where
  "hex_val c =
     (let b = of_char c :: nat
      in if 48 \<le> b \<and> b \<le> 57 then Some (b - 48)
         else if 97 \<le> b \<and> b \<le> 102 then Some (b - 87)
         else if 65 \<le> b \<and> b \<le> 70 then Some (b - 55) else None)"

declare hex_val.simps [simp del]

text \<open>\<^verbatim>\<open>getu4\<close>: the code unit of a \<^verbatim>\<open>\uXXXX\<close> at the head of the text.\<close>

fun getu4 :: "string \<Rightarrow> nat option" where
  "getu4 (c # u # a # b # d # e # s) =
     (if c = CHR 0x5C \<and> u = CHR ''u'' then
        (case (hex_val a, hex_val b, hex_val d, hex_val e) of
           (Some a, Some b, Some d, Some e) \<Rightarrow> Some (((a * 16 + b) * 16 + d) * 16 + e)
         | _ \<Rightarrow> None)
      else None)"
| "getu4 _ = None"

definition replacement_char :: string where
  "replacement_char = [CHR 0xEF, CHR 0xBF, CHR 0xBD]"

text \<open>\<^verbatim>\<open>utf16.DecodeRune\<close> of a high and a low surrogate.\<close>

definition surrogate_pair :: "nat \<Rightarrow> nat option \<Rightarrow> nat option" where
  "surrogate_pair r1 r2 =
     (case r2 of None \<Rightarrow> None
      | Some r2 \<Rightarrow>
          if 55296 \<le> r1 \<and> r1 < 56320 \<and> 56320 \<le> r2 \<and> r2 < 57344
          then Some ((r1 - 55296) * 1024 + (r2 - 56320) + 65536) else None)"

definition unescape :: "char \<Rightarrow> char" where
  "unescape c =
     (if c = CHR ''b'' then CHR 0x08 else if c = CHR ''f'' then CHR 0x0C
      else if c = CHR ''n'' then CHR 0x0A else if c = CHR ''r'' then CHR 0x0D
      else if c = CHR ''t'' then CHR 0x09 else c)"

text \<open>
  \<^verbatim>\<open>unquote\<close> of the text between the quotes, which the scanner has accepted.
\<close>

function unquote :: "string \<Rightarrow> string" where
  "unquote s =
     (case s of
        [] \<Rightarrow> []
      | c # r \<Rightarrow>
          if c = CHR 0x5C then
            (case getu4 s of
               Some rr \<Rightarrow>
                 if 55296 \<le> rr \<and> rr < 57344 then
                   (case surrogate_pair rr (getu4 (drop 6 s)) of
                      Some p \<Rightarrow> utf8_encode p @ unquote (drop 12 s)
                    | None \<Rightarrow> replacement_char @ unquote (drop 6 s))
                 else utf8_encode rr @ unquote (drop 6 s)
             | None \<Rightarrow> map unescape (take 1 r) @ unquote (drop 1 r))
          else if (of_char c :: nat) < 128 then c # unquote r
          else if first_width s = 1 then replacement_char @ unquote r
          else take (first_width s) s @ unquote (drop (first_width s) s))"
  by pat_completeness auto
termination
  by (relation "measure length") (auto simp: first_width_def rune_width_pos)

declare unquote.simps [simp del]

subsection \<open>Tokens\<close>

datatype token =
    T_Str string | T_Num string | T_True | T_False | T_Null
  | T_LBrace | T_RBrace | T_LBrack | T_RBrack | T_Colon | T_Comma

text \<open>
  The state of the scanner inside a value: between tokens, inside a string (the text so far,
  reversed), after a backslash, after \<^verbatim>\<open>\u\<close> with the number of hexadecimal digits still to come,
  inside a number or inside a literal name.
\<close>

datatype lex_state = L_Idle | L_Str string | L_Esc string | L_Hex nat string | L_Num string | L_Lit string

text \<open>The numbers of JSON: \<^verbatim>\<open>-?(0|[1-9][0-9]*)(\.[0-9]+)?([eE][+-]?[0-9]+)?\<close>.\<close>

definition number_exp :: "string \<Rightarrow> bool" where
  "number_exp s =
     (case s of [] \<Rightarrow> True
      | c # r \<Rightarrow> (c = CHR ''e'' \<or> c = CHR ''E'') \<and>
          (let ds = (case r of d # r' \<Rightarrow> if d = CHR ''+'' \<or> d = CHR ''-'' then r' else r | [] \<Rightarrow> r)
           in ds \<noteq> [] \<and> list_all is_digit ds))"

definition number_frac :: "string \<Rightarrow> bool" where
  "number_frac s =
     (case s of [] \<Rightarrow> True
      | c # r \<Rightarrow>
          if c = CHR ''.'' then takeWhile is_digit r \<noteq> [] \<and> number_exp (dropWhile is_digit r) else number_exp s)"

definition is_number :: "string \<Rightarrow> bool" where
  "is_number s =
     (let b = (case s of c # r \<Rightarrow> if c = CHR ''-'' then r else s | [] \<Rightarrow> s)
      in case b of [] \<Rightarrow> False
         | c # r \<Rightarrow>
             if c = CHR ''0'' then number_frac r
             else is_digit c \<and> number_frac (dropWhile is_digit r))"

definition number_char :: "char \<Rightarrow> bool" where
  "number_char c \<longleftrightarrow> is_digit c \<or> c \<in> {CHR ''-'', CHR ''+'', CHR ''.'', CHR ''e'', CHR ''E''}"

definition literal_char :: "char \<Rightarrow> bool" where
  "literal_char c \<longleftrightarrow> 97 \<le> (of_char c :: nat) \<and> (of_char c :: nat) \<le> 122"

definition number_token :: "string \<Rightarrow> token option" where
  "number_token s = (if is_number s then Some (T_Num s) else None)"

definition literal_token :: "string \<Rightarrow> token option" where
  "literal_token s =
     (if s = ''true'' then Some T_True else if s = ''false'' then Some T_False
      else if s = ''null'' then Some T_Null else None)"

definition json_space :: "char \<Rightarrow> bool" where
  "json_space c \<longleftrightarrow> c \<in> {CHR '' '', CHR 0x09, CHR 0x0A, CHR 0x0D}"

definition lex_idle :: "char \<Rightarrow> (token list \<times> lex_state) option" where
  "lex_idle c =
     (if json_space c then Some ([], L_Idle)
      else if c = CHR 0x22 then Some ([], L_Str [])
      else if c = CHR ''{'' then Some ([T_LBrace], L_Idle)
      else if c = CHR ''}'' then Some ([T_RBrace], L_Idle)
      else if c = CHR ''['' then Some ([T_LBrack], L_Idle)
      else if c = CHR '']'' then Some ([T_RBrack], L_Idle)
      else if c = CHR '':'' then Some ([T_Colon], L_Idle)
      else if c = CHR '','' then Some ([T_Comma], L_Idle)
      else if is_digit c \<or> c = CHR ''-'' then Some ([], L_Num [c])
      else if literal_char c then Some ([], L_Lit [c])
      else None)"

fun lex_step :: "lex_state \<Rightarrow> char \<Rightarrow> (token list \<times> lex_state) option" where
  "lex_step L_Idle c = lex_idle c"
| "lex_step (L_Str acc) c =
     (if c = CHR 0x22 then Some ([T_Str (unquote (rev acc))], L_Idle)
      else if c = CHR 0x5C then Some ([], L_Esc (c # acc))
      else if (of_char c :: nat) < 32 then None
      else Some ([], L_Str (c # acc)))"
| "lex_step (L_Esc acc) c =
     (if c = CHR ''u'' then Some ([], L_Hex 4 (c # acc))
      else if c \<in> {CHR ''b'', CHR ''f'', CHR ''n'', CHR ''r'', CHR ''t'', CHR 0x5C, CHR ''/'', CHR 0x22}
      then Some ([], L_Str (c # acc)) else None)"
| "lex_step (L_Hex n acc) c =
     (if hex_val c = None then None
      else Some ([], if n \<le> 1 then L_Str (c # acc) else L_Hex (n - 1) (c # acc)))"
| "lex_step (L_Num acc) c =
     (if number_char c then Some ([], L_Num (c # acc))
      else case number_token (rev acc) of None \<Rightarrow> None
      | Some t \<Rightarrow> map_option (\<lambda>(ts, st). (t # ts, st)) (lex_idle c))"
| "lex_step (L_Lit acc) c =
     (if literal_char c then Some ([], L_Lit (c # acc))
      else case literal_token (rev acc) of None \<Rightarrow> None
      | Some t \<Rightarrow> map_option (\<lambda>(ts, st). (t # ts, st)) (lex_idle c))"

fun lex :: "lex_state \<Rightarrow> string \<Rightarrow> token list option" where
  "lex st [] =
     (case st of L_Idle \<Rightarrow> Some []
      | L_Num acc \<Rightarrow> map_option (\<lambda>t. [t]) (number_token (rev acc))
      | L_Lit acc \<Rightarrow> map_option (\<lambda>t. [t]) (literal_token (rev acc))
      | _ \<Rightarrow> None)"
| "lex st (c # s) =
     (case lex_step st c of None \<Rightarrow> None
      | Some (ts, st') \<Rightarrow> map_option ((@) ts) (lex st' s))"

subsection \<open>Values\<close>

datatype json =
    J_Null | J_Bool bool | J_Num string | J_Str string | J_Arr "json list" | J_Obj "(string \<times> json) list"

text \<open>The open arrays and objects, innermost first, with what has been read of them, reversed.\<close>

datatype frame = Fr_Arr "json list" | Fr_Obj "(string \<times> json) list" string

datatype parse_mode =
    P_Value | P_Value_Or_End | P_Key "(string \<times> json) list" | P_Key_Or_End | P_Colon "(string \<times> json) list" string
  | P_After json

abbreviation maxNestingDepth :: nat where "maxNestingDepth \<equiv> 10000"

definition scalar_of :: "token \<Rightarrow> json option" where
  "scalar_of t =
     (case t of T_Str s \<Rightarrow> Some (J_Str s) | T_Num s \<Rightarrow> Some (J_Num s) | T_True \<Rightarrow> Some (J_Bool True)
      | T_False \<Rightarrow> Some (J_Bool False) | T_Null \<Rightarrow> Some J_Null | _ \<Rightarrow> None)"

text \<open>
  A step of the parser. In mode \<open>P_Key kvs\<close> and \<open>P_Colon kvs k\<close> the innermost object has the
  members \<open>kvs\<close>; it goes on the stack with its pending key when the value begins.
\<close>

definition begin_value :: "token \<Rightarrow> frame list \<Rightarrow> (parse_mode \<times> frame list) option" where
  "begin_value t stack =
     (if t = T_LBrace then
        (if length stack < maxNestingDepth then Some (P_Key_Or_End, stack) else None)
      else if t = T_LBrack then
        (if length stack < maxNestingDepth then Some (P_Value_Or_End, Fr_Arr [] # stack) else None)
      else map_option (\<lambda>v. (P_After v, stack)) (scalar_of t))"

definition parse_key :: "(string \<times> json) list \<Rightarrow> token \<Rightarrow> frame list \<Rightarrow> (parse_mode \<times> frame list) option" where
  "parse_key kvs t stack = (case t of T_Str k \<Rightarrow> Some (P_Colon kvs k, stack) | _ \<Rightarrow> None)"

fun parse_step :: "parse_mode \<Rightarrow> frame list \<Rightarrow> token \<Rightarrow> (parse_mode \<times> frame list) option" where
  "parse_step P_Value stack t = begin_value t stack"
| "parse_step P_Value_Or_End stack t =
     (if t = T_RBrack then (case stack of Fr_Arr vs # rest \<Rightarrow> Some (P_After (J_Arr (rev vs)), rest) | _ \<Rightarrow> None)
      else begin_value t stack)"
| "parse_step (P_Key kvs) stack t = parse_key kvs t stack"
| "parse_step P_Key_Or_End stack t =
     (if t = T_RBrace then Some (P_After (J_Obj []), stack) else parse_key [] t stack)"
| "parse_step (P_Colon kvs k) stack t =
     (if t = T_Colon then Some (P_Value, Fr_Obj kvs k # stack) else None)"
| "parse_step (P_After v) stack t =
     (case stack of
        Fr_Arr vs # rest \<Rightarrow>
          if t = T_Comma then Some (P_Value, Fr_Arr (v # vs) # rest)
          else if t = T_RBrack then Some (P_After (J_Arr (rev (v # vs))), rest) else None
      | Fr_Obj kvs k # rest \<Rightarrow>
          if t = T_Comma then Some (P_Key ((k, v) # kvs), rest)
          else if t = T_RBrace then Some (P_After (J_Obj (rev ((k, v) # kvs))), rest) else None
      | [] \<Rightarrow> None)"

fun parse_tokens :: "parse_mode \<Rightarrow> frame list \<Rightarrow> token list \<Rightarrow> json option" where
  "parse_tokens m stack [] = (case m of P_After v \<Rightarrow> if stack = [] then Some v else None | _ \<Rightarrow> None)"
| "parse_tokens m stack (t # ts) =
     (case parse_step m stack t of None \<Rightarrow> None | Some (m', stack') \<Rightarrow> parse_tokens m' stack' ts)"

definition parse_json :: "string \<Rightarrow> json option" where
  "parse_json s = (case lex L_Idle s of None \<Rightarrow> None | Some ts \<Rightarrow> parse_tokens P_Value [] ts)"

subsection \<open>Unmarshal\<close>

text \<open>
  A value for a field: null leaves a string or an integer alone and makes a slice nil, a number for
  an integer must be an integer literal in range, the elements of an array for a slice are strings or
  null, and any other mismatch is an error (which the callers answer by dropping the whole result).
  A null element is the empty string, as it is in a slice that was not filled before.
\<close>

fun assign_strs :: "json list \<Rightarrow> string list option" where
  "assign_strs [] = Some []"
| "assign_strs (J_Str s # vs) = map_option ((#) s) (assign_strs vs)"
| "assign_strs (J_Null # vs) = map_option ((#) []) (assign_strs vs)"
| "assign_strs (_ # vs) = None"

definition assign_val :: "json \<Rightarrow> field_val \<Rightarrow> field_val option" where
  "assign_val v old =
     (case (v, old) of
        (J_Null, F_Strs _) \<Rightarrow> Some (F_Strs None)
      | (J_Null, _) \<Rightarrow> Some old
      | (J_Arr vs, F_Strs _) \<Rightarrow> map_option (\<lambda>ss. F_Strs (Some ss)) (assign_strs vs)
      | (J_Str s, F_Str _) \<Rightarrow> Some (F_Str s)
      | (J_Num s, F_Int _) \<Rightarrow>
          (case Atoi s of None \<Rightarrow> None | Some n \<Rightarrow> if in_int32 n then Some (F_Int n) else None)
      | _ \<Rightarrow> None)"

text \<open>The field of a key: the one with that name, or the first that equals it up to case.\<close>

fun update_first :: "(field \<Rightarrow> bool) \<Rightarrow> json \<Rightarrow> field list \<Rightarrow> field list option" where
  "update_first P v [] = Some []"
| "update_first P v (f # fs) =
     (if P f then map_option (\<lambda>x. f\<lparr>Fld_Val := x\<rparr> # fs) (assign_val v (Fld_Val f))
      else map_option ((#) f) (update_first P v fs))"

definition assign_member :: "string \<times> json \<Rightarrow> field list \<Rightarrow> field list option" where
  "assign_member kv fs =
     (case kv of (k, v) \<Rightarrow>
        if k \<in> Fld_Name ` set fs then update_first (\<lambda>f. Fld_Name f = k) v fs
        else update_first (\<lambda>f. EqualFold (Fld_Name f) k) v fs)"

fun assign_members :: "(string \<times> json) list \<Rightarrow> field list \<Rightarrow> field list option" where
  "assign_members [] fs = Some fs"
| "assign_members (kv # kvs) fs =
     (case assign_member kv fs of None \<Rightarrow> None | Some fs' \<Rightarrow> assign_members kvs fs')"

definition Unmarshal :: "string \<Rightarrow> field list \<Rightarrow> field list option" where
  "Unmarshal s fs =
     (case parse_json s of
        None \<Rightarrow> None
      | Some v \<Rightarrow> (case v of J_Null \<Rightarrow> Some fs | J_Obj kvs \<Rightarrow> assign_members kvs fs | _ \<Rightarrow> None))"

section \<open>Reading back what was written\<close>

function valid_utf8 :: "string \<Rightarrow> bool" where
  "valid_utf8 s =
     (if s = [] then True
      else ((of_char (hd s) :: nat) < 128 \<or> 1 < first_width s) \<and> valid_utf8 (drop (first_width s) s))"
  by pat_completeness auto
termination
  by (relation "measure length") (auto simp: first_width_def rune_width_pos)

declare valid_utf8.simps [simp del]

text \<open>The fields of a struct before decoding: the zero value of each.\<close>

definition zero_val :: "field_val \<Rightarrow> field_val" where
  "zero_val v = (case v of F_Str _ \<Rightarrow> F_Str [] | F_Int _ \<Rightarrow> F_Int 0 | F_Strs _ \<Rightarrow> F_Strs None)"

definition zero_fields :: "field list \<Rightarrow> field list" where
  "zero_fields fs = map (\<lambda>f. f\<lparr>Fld_Val := zero_val (Fld_Val f)\<rparr>) fs"

text \<open>
  What a value of the program is: text that is valid UTF-8, an integer in range or a list of such
  texts, which is not empty where its tag would drop it.
\<close>

definition field_ok :: "field \<Rightarrow> bool" where
  "field_ok f \<longleftrightarrow> valid_utf8 (Fld_Name f) \<and>
     (case Fld_Val f of F_Str s \<Rightarrow> valid_utf8 s | F_Int n \<Rightarrow> in_int32 n
      | F_Strs ss \<Rightarrow> (case ss of None \<Rightarrow> True
          | Some ss \<Rightarrow> list_all valid_utf8 ss \<and> (Fld_OmitEmpty f \<longrightarrow> ss \<noteq> [])))"

subsection \<open>Runes\<close>

lemma ascii_valid_utf8: "list_all (\<lambda>c. (of_char c :: nat) < 128) s \<Longrightarrow> valid_utf8 s"
proof (induction s rule: valid_utf8.induct)
  case (1 s)
  show ?case
  proof (cases s)
    case (Cons c r)
    have "list_all (\<lambda>c. (of_char c :: nat) < 128) (drop (first_width s) s)"
      using 1(2) by (auto simp: list_all_iff dest: in_set_dropD)
    then have "valid_utf8 (drop (first_width s) s)" using 1 Cons by simp
    then show ?thesis using 1(2) Cons by (simp add: valid_utf8.simps [of "c # r"])
  qed (simp add: valid_utf8.simps [of "[]"])
qed

lemma first_width_ascii: "(of_char c :: nat) < 128 \<Longrightarrow> first_width (c # s) = 1"
  by (cases s) (simp_all add: first_width_def)

lemma rune_width_prefix: "1 < rune_width bs \<Longrightarrow> rune_width (take (rune_width bs) bs @ t) = rune_width bs"
  by (cases bs rule: rune_width.cases) (auto split: list.splits if_splits)

lemma rune_width_high: "1 < rune_width bs \<Longrightarrow> b \<in> set (take (rune_width bs) bs) \<Longrightarrow> 128 \<le> b"
  by (cases bs rule: rune_width.cases) (auto simp: cont_byte_def split: list.splits if_splits)

lemma first_width_prefix: "1 < first_width s \<Longrightarrow> first_width (take (first_width s) s @ t) = first_width s"
  using rune_width_prefix [of "map of_char s" "map of_char t"] by (simp add: first_width_def take_map)

lemma first_width_high: "1 < first_width s \<Longrightarrow> c \<in> set (take (first_width s) s) \<Longrightarrow> 128 \<le> (of_char c :: nat)"
  using rune_width_high [of "map of_char s" "of_char c"] by (auto simp: first_width_def take_map)

lemma first_width_pos [simp]: "0 < first_width s"
  by (simp add: first_width_def rune_width_pos)

subsection \<open>Strings\<close>

lemma hex_val_char [simp]: "d < 16 \<Longrightarrow> hex_val (hex_char d) = Some d"
  by (auto simp: hex_val.simps hex_char_def Let_def)

lemma hex_val_numeral: "hex_val CHR ''0'' = Some 0" "hex_val CHR ''2'' = Some 2" "hex_val CHR ''8'' = Some 8"
  "hex_val CHR ''9'' = Some 9" "hex_val CHR ''f'' = Some 15" "hex_val CHR ''d'' = Some 13"
  by (simp_all add: hex_val.simps)

lemma char_of_code: "(of_char c :: nat) = n \<Longrightarrow> c = char_of n"
  by auto

lemma char_of_controls: "char_of (8::nat) = CHR 0x08" "char_of (9::nat) = CHR 0x09" "char_of (10::nat) = CHR 0x0A"
  "char_of (12::nat) = CHR 0x0C" "char_of (13::nat) = CHR 0x0D" "char_of (226::nat) = CHR 0xE2"
  "char_of (128::nat) = CHR 0x80" "char_of (168::nat) = CHR 0xA8" "char_of (169::nat) = CHR 0xA9"
  by (simp_all add: char_of_def bit_0)

lemma map_option_Nil [simp]: "map_option ((@) []) x = x"
  by (cases x) simp_all

lemma lex_plain:
  "\<forall>c \<in> set p. 32 \<le> (of_char c :: nat) \<and> c \<noteq> CHR 0x22 \<and> c \<noteq> CHR 0x5C \<Longrightarrow>
     lex (L_Str acc) (p @ s) = lex (L_Str (rev p @ acc)) s"
proof (induction p arbitrary: acc)
  case (Cons c p)
  then have "lex (L_Str acc) ((c # p) @ s) = lex (L_Str (c # acc)) (p @ s)"
    by (simp add: not_less [symmetric])
  also have "\<dots> = lex (L_Str (rev p @ c # acc)) s" using Cons by simp
  finally show ?case by simp
qed simp

lemma lex_escape_ascii:
  assumes "(of_char c :: nat) < 128"
  shows "lex (L_Str acc) (escape_ascii c @ s) = lex (L_Str (rev (escape_ascii c) @ acc)) s"
  using assms by (auto simp: escape_ascii_def Let_def hex_val_numeral not_less)

lemma lex_escape_rune:
  "s \<noteq> [] \<Longrightarrow> lex (L_Str acc) (escape_rune s (first_width s) @ t) = lex (L_Str (rev (escape_rune s (first_width s)) @ acc)) t"
proof (cases "(of_char (hd s) :: nat) < 128")
  case False
  assume "s \<noteq> []"
  consider "first_width s = 1" | "1 < first_width s" using first_width_pos [of s] by linarith
  then show ?thesis
  proof cases
    case 2
    have "\<forall>c \<in> set (take (first_width s) s). 32 \<le> (of_char c :: nat) \<and> c \<noteq> CHR 0x22 \<and> c \<noteq> CHR 0x5C"
      using first_width_high [OF 2] by fastforce
    from lex_plain [OF this] show ?thesis using False 2 by (auto simp: escape_rune_def hex_val_numeral)
  qed (use False in \<open>simp add: escape_rune_def hex_val_numeral\<close>)
qed (simp add: escape_rune_def lex_escape_ascii)

lemma lex_quote_body: "lex (L_Str acc) (quote_body s @ t) = lex (L_Str (rev (quote_body s) @ acc)) t"
proof (induction s arbitrary: acc rule: quote_body.induct)
  case (1 s)
  show ?case
  proof (cases "s = []")
    case False
    then show ?thesis by (simp add: quote_body.simps [of s] lex_escape_rune 1)
  qed (simp add: quote_body.simps [of "[]"])
qed

lemma getu4_short: "u \<noteq> CHR ''u'' \<Longrightarrow> getu4 (CHR 0x5C # u # t) = None"
  by (cases "CHR 0x5C # u # t" rule: getu4.cases) auto

lemma unquote_escape_ascii:
  assumes "(of_char c :: nat) < 128"
  shows "unquote (escape_ascii c @ t) = c # unquote t"
proof -
  have hex: "of_char c div 16 < (16::nat)" using assms by simp
  have enc: "utf8_encode (of_char c) = [c]" using assms by (simp add: utf8_encode_def)
  have "of_char c div 16 * 16 + of_char c mod 16 = (of_char c :: nat)" by simp
  then show ?thesis using assms hex enc
    by (subst unquote.simps)
      (auto simp: escape_ascii_def Let_def getu4_short unescape_def hex_val_numeral char_of_controls
          dest: char_of_code)
qed

lemma unquote_escape_rune:
  assumes "s \<noteq> []" "(of_char (hd s) :: nat) < 128 \<or> 1 < first_width s"
  shows "unquote (escape_rune s (first_width s) @ t) = take (first_width s) s @ unquote t"
proof (cases "(of_char (hd s) :: nat) < 128")
  case True
  then show ?thesis using assms(1)
    by (cases s) (simp_all add: escape_rune_def unquote_escape_ascii first_width_ascii)
next
  case False
  then have w: "1 < first_width s" using assms(2) by simp
  obtain c r where s: "s = c # r" using assms(1) by (cases s) auto
  have pre: "first_width (take (first_width s) s @ t) = first_width s" using w by (rule first_width_prefix)
  have sep: "unquote (CHR 0x5C # CHR ''u'' # CHR ''2'' # CHR ''0'' # CHR ''2'' # d # t) = [CHR 0xE2, CHR 0x80, x] @ unquote t"
    if "(d, x) \<in> {(CHR ''8'', CHR 0xA8), (CHR ''9'', CHR 0xA9)}" for d x
    using that by (subst unquote.simps) (auto simp: hex_val_numeral utf8_encode_def char_of_controls)
  have len: "first_width s \<le> length s" 
    using w unfolding first_width_def
    by (cases "map of_char s :: nat list" rule: rune_width.cases) (auto split: if_splits list.splits simp: s)
  have cp: "unquote (take (first_width s) s @ t) = take (first_width s) s @ unquote t"
  proof -
    obtain k where k: "first_width s = Suc k" using w by (cases "first_width s") auto
    define q where "q = take k r @ t"
    have q: "take (first_width s) s @ t = c # q" by (simp add: s k [unfolded s] q_def)
    have "c \<noteq> CHR 0x5C" using False s by auto
    moreover have "take (Suc k) (c # q) = take (first_width s) s" "drop (Suc k) (c # q) = t"
      using len by (simp_all add: q_def k [unfolded s] s)
    ultimately show ?thesis using False pre w
      unfolding q unquote.simps [of "c # q"] by (simp add: s k [unfolded s])
  qed
  show ?thesis using False w sep cp by (auto simp: escape_rune_def)
qed

lemma unquote_quote_body: "valid_utf8 s \<Longrightarrow> unquote (quote_body s) = s"
proof (induction s rule: quote_body.induct)
  case (1 s)
  show ?case
  proof (cases "s = []")
    case True
    then show ?thesis by (simp add: quote_body.simps [of "[]"] unquote.simps [of "[]"])
  next
    case False
    with "1.prems" have "(of_char (hd s) :: nat) < 128 \<or> 1 < first_width s" "valid_utf8 (drop (first_width s) s)"
      by (simp_all add: valid_utf8.simps [of s])
    then show ?thesis using False 1
      by (simp add: quote_body.simps [of s] unquote_escape_rune)
  qed
qed

lemma lex_quote [simp]:
  "valid_utf8 s \<Longrightarrow> lex L_Idle (quote s @ t) = map_option ((#) (T_Str s)) (lex L_Idle t)"
  by (simp add: quote_def lex_idle_def json_space_def lex_quote_body unquote_quote_body option.map_comp comp_def)
    (cases "lex L_Idle t"; simp)

subsection \<open>Numbers\<close>

lemma show_nat_head: "0 < n \<Longrightarrow> hd (show_nat n) \<noteq> CHR ''0''"
proof (induction n rule: show_nat.induct)
  case (1 n)
  show ?case
  proof (cases "n < 10")
    case True
    have "(of_char (digit_char n) :: nat) \<noteq> of_char CHR ''0''"
      using True "1.prems" by (simp add: of_char_digit_char)
    then have "digit_char n \<noteq> CHR ''0''" by metis
    then show ?thesis using True by (simp add: show_nat.simps [of n])
  next
    case False
    then show ?thesis using 1 by (simp add: show_nat.simps [of n] hd_append)
  qed
qed

lemma digits_frac: "list_all is_digit r \<Longrightarrow> number_frac (dropWhile is_digit r)"
  by (induction r) (auto simp: number_frac_def)

lemma is_number_show_nat: "is_number (show_nat n)" "is_number (CHR ''-'' # show_nat n)"
proof -
  obtain c r where cr: "show_nat n = c # r" by (cases "show_nat n") auto
  have d: "is_digit c" "list_all is_digit r" using show_nat_digits [of n] by (simp_all add: cr)
  have "c = CHR ''0'' \<Longrightarrow> r = []"
    using show_nat_head [of n] cr by (cases "n = 0") (auto simp: show_nat.simps [of 0])
  then have "if c = CHR ''0'' then number_frac r else is_digit c \<and> number_frac (dropWhile is_digit r)"
    using d digits_frac by (auto simp: number_frac_def)
  moreover have "c \<noteq> CHR ''-''" using d by auto
  ultimately show "is_number (show_nat n)" "is_number (CHR ''-'' # show_nat n)"
    by (simp_all add: is_number_def cr Let_def)
qed

lemma is_number_show_int: "is_number (show_int n)"
  by (simp add: show_int_def is_number_show_nat)

lemma Atoi_show_int: "in_int32 n \<Longrightarrow> Atoi (show_int n) = Some n"
proof (cases "n < 0")
  case True
  assume "in_int32 n"
  then show ?thesis using True
    by (simp add: show_int_def Atoi_def Atoi_unsigned_def show_nat_digits in_int32_def in_int64_def)
qed (simp add: show_int_def in_int32_def)

lemma lex_digits:
  "list_all number_char p \<Longrightarrow> lex (L_Num acc) (p @ t) = lex (L_Num (rev p @ acc)) t"
  by (induction p arbitrary: acc) simp_all

lemma show_int_chars: "show_int n = c # r \<Longrightarrow> (is_digit c \<or> c = CHR ''-'') \<and> list_all number_char r"
proof -
  have "list_all number_char s" if "list_all is_digit s" for s
    using that by (auto simp: list_all_iff number_char_def)
  then show "show_int n = c # r \<Longrightarrow> (is_digit c \<or> c = CHR ''-'') \<and> list_all number_char r"
    using show_nat_digits [of "nat n"] show_nat_digits [of "nat (- n)"]
    by (auto simp: show_int_def split: if_splits)
qed

lemma lex_show_int:
  assumes "d = CHR '','' \<or> d = CHR ''}''"
  shows "lex L_Idle (show_int n @ d # t) = map_option ((#) (T_Num (show_int n))) (lex L_Idle (d # t))"
proof -
  obtain c r where cr: "show_int n = c # r" by (cases "show_int n") (auto simp: show_int_def split: if_splits)
  note ch = show_int_chars [OF cr]
  have c: "\<not> json_space c" "c \<notin> {CHR 0x22, CHR ''{'', CHR ''}'', CHR ''['', CHR '']'', CHR '':'', CHR '',''}"
    using ch by (auto simp: json_space_def is_digit_def)
  have "lex_idle c = Some ([], L_Num [c])" using c ch by (simp add: lex_idle_def)
  then have "lex L_Idle (show_int n @ d # t) = lex (L_Num (rev (show_int n))) (d # t)"
    using lex_digits [of r "[c]" "d # t"] ch by (simp add: cr)
  also have "\<dots> = map_option ((#) (T_Num (show_int n))) (lex L_Idle (d # t))"
    using assms by (cases "lex L_Idle t")
      (auto simp: number_token_def is_number_show_int number_char_def is_digit_def lex_idle_def json_space_def option.map_comp)
  finally show ?thesis .
qed

subsection \<open>Objects\<close>

fun str_tokens :: "string list \<Rightarrow> token list" where
  "str_tokens [] = []"
| "str_tokens [s] = [T_Str s]"
| "str_tokens (s # s' # ss) = T_Str s # T_Comma # str_tokens (s' # ss)"

definition val_tokens :: "field_val \<Rightarrow> token list" where
  "val_tokens v = (case v of F_Str s \<Rightarrow> [T_Str s] | F_Int n \<Rightarrow> [T_Num (show_int n)]
     | F_Strs ss \<Rightarrow> (case ss of None \<Rightarrow> [T_Null] | Some ss \<Rightarrow> T_LBrack # str_tokens ss @ [T_RBrack]))"

definition val_json :: "field_val \<Rightarrow> json" where
  "val_json v = (case v of F_Str s \<Rightarrow> J_Str s | F_Int n \<Rightarrow> J_Num (show_int n)
     | F_Strs ss \<Rightarrow> (case ss of None \<Rightarrow> J_Null | Some ss \<Rightarrow> J_Arr (map J_Str ss)))"

fun member_tokens :: "field list \<Rightarrow> token list" where
  "member_tokens [] = []"
| "member_tokens [f] = T_Str (Fld_Name f) # T_Colon # val_tokens (Fld_Val f)"
| "member_tokens (f # g # fs) =
     T_Str (Fld_Name f) # T_Colon # val_tokens (Fld_Val f) @ T_Comma # member_tokens (g # fs)"

abbreviation member :: "field \<Rightarrow> string \<times> json" where
  "member f \<equiv> (Fld_Name f, val_json (Fld_Val f))"

lemma lex_punct:
  "lex L_Idle (CHR '':'' # t) = map_option ((#) T_Colon) (lex L_Idle t)"
  "lex L_Idle (CHR '','' # t) = map_option ((#) T_Comma) (lex L_Idle t)"
  "lex L_Idle (CHR ''{'' # t) = map_option ((#) T_LBrace) (lex L_Idle t)"
  "lex L_Idle (CHR ''}'' # t) = map_option ((#) T_RBrace) (lex L_Idle t)"
  "lex L_Idle (CHR ''['' # t) = map_option ((#) T_LBrack) (lex L_Idle t)"
  "lex L_Idle (CHR '']'' # t) = map_option ((#) T_RBrack) (lex L_Idle t)"
  by (cases "lex L_Idle t"; simp add: lex_idle_def json_space_def is_digit_def)+

lemma lex_null:
  assumes "d = CHR '','' \<or> d = CHR ''}''"
  shows "lex L_Idle (''null'' @ d # t) = map_option ((#) T_Null) (lex L_Idle (d # t))"
  using assms
  by (cases "lex L_Idle t")
    (auto simp: lex_idle_def json_space_def is_digit_def literal_char_def literal_token_def option.map_comp)

lemma lex_strs:
  "list_all valid_utf8 ss \<Longrightarrow>
     lex L_Idle (Join (map quote ss) '','' @ CHR '']'' # t) = map_option (\<lambda>ts. str_tokens ss @ T_RBrack # ts) (lex L_Idle t)"
proof (induction ss rule: str_tokens.induct)
  case 1
  then show ?case by (simp add: lex_punct del: lex.simps)
next
  case (2 s)
  then show ?case by (simp add: lex_punct option.map_comp comp_def del: lex.simps)
next
  case (3 s s' ss)
  then show ?case by (simp add: lex_punct option.map_comp comp_def del: lex.simps)
qed

lemma lex_val:
  assumes "field_ok f" "d = CHR '','' \<or> d = CHR ''}''"
  shows "lex L_Idle (encode_val (Fld_Val f) @ d # t) =
    map_option ((@) (val_tokens (Fld_Val f))) (lex L_Idle (d # t))"
proof (cases "Fld_Val f")
  case (F_Str s)
  then show ?thesis using assms(1) lex_quote [of s "d # t"]
    by (cases "lex L_Idle (d # t)") (simp_all add: encode_val_def val_tokens_def field_ok_def del: lex.simps)
next
  case (F_Int n)
  then show ?thesis using lex_show_int [OF assms(2), of n t]
    by (cases "lex L_Idle (d # t)") (simp_all add: encode_val_def val_tokens_def del: lex.simps)
next
  case (F_Strs v)
  show ?thesis
  proof (cases v)
    case None
    then show ?thesis using F_Strs lex_null [OF assms(2), of t]
      by (cases "lex L_Idle (d # t)") (simp_all add: encode_val_def val_tokens_def del: lex.simps)
  next
    case (Some ss)
    then have "list_all valid_utf8 ss" using assms(1) F_Strs by (simp add: field_ok_def)
    then show ?thesis using F_Strs Some lex_strs [of ss "d # t"]
      by (cases "lex L_Idle (d # t)") (simp_all add: encode_val_def encode_strs_def val_tokens_def lex_punct del: lex.simps)
  qed
qed

lemma lex_field:
  assumes "field_ok f" "d = CHR '','' \<or> d = CHR ''}''"
  shows "lex L_Idle (encode_field f @ d # t) =
    map_option (\<lambda>ts. T_Str (Fld_Name f) # T_Colon # val_tokens (Fld_Val f) @ ts) (lex L_Idle (d # t))"
  using assms(1) lex_val [OF assms, of t]
  by (simp add: encode_field_def field_ok_def lex_punct option.map_comp comp_def del: lex.simps)

lemma lex_members:
  "fs \<noteq> [] \<Longrightarrow> list_all field_ok fs \<Longrightarrow>
     lex L_Idle (Join (map encode_field fs) '','' @ ''}'') = Some (member_tokens fs @ [T_RBrace])"
proof (induction fs rule: member_tokens.induct)
  case (2 f)
  then show ?case by (simp add: lex_field lex_punct del: lex.simps) simp
next
  case (3 f g fs)
  then show ?case by (simp add: lex_field lex_punct del: lex.simps)
qed simp

lemma parse_strs:
  "ss \<noteq> [] \<Longrightarrow> parse_tokens P_Value (Fr_Arr vs # stack) (str_tokens ss @ T_RBrack # ts) =
     parse_tokens (P_After (J_Arr (rev vs @ map J_Str ss))) stack ts"
  by (induction ss arbitrary: vs rule: str_tokens.induct) (simp_all add: begin_value_def scalar_of_def)

lemma parse_val_tokens:
  assumes "length stack < maxNestingDepth"
  shows "parse_tokens P_Value stack (val_tokens v @ ts) = parse_tokens (P_After (val_json v)) stack ts"
proof (cases "\<exists>ss. ss \<noteq> [] \<and> v = F_Strs (Some ss)")
  case True
  then obtain ss where ss: "ss \<noteq> []" "v = F_Strs (Some ss)" by blast
  moreover obtain s ts' where "str_tokens ss @ T_RBrack # ts = T_Str s # ts'"
    using ss(1) by (cases ss rule: str_tokens.cases) simp_all
  ultimately show ?thesis using assms parse_strs [OF ss(1), of "[]" stack ts]
    by (simp add: val_tokens_def val_json_def begin_value_def scalar_of_def)
next
  case False
  then consider s where "v = F_Str s" | n where "v = F_Int n" | "v = F_Strs None" | "v = F_Strs (Some [])"
    by (metis field_val.exhaust option.exhaust)
  then show ?thesis using assms
    by cases (simp_all add: val_tokens_def val_json_def begin_value_def scalar_of_def)
qed

lemma parse_members:
  "fs \<noteq> [] \<Longrightarrow> parse_tokens (P_Key kvs) [] (member_tokens fs @ [T_RBrace]) = Some (J_Obj (rev kvs @ map member fs))"
  by (induction fs arbitrary: kvs rule: member_tokens.induct) (simp_all add: parse_key_def parse_val_tokens)

lemma parse_json_Marshal:
  assumes "list_all field_ok fs"
  shows "parse_json (''{'' @ Join (map encode_field fs) '','' @ ''}'') = Some (J_Obj (map member fs))"
proof (cases "fs = []")
  case True
  then show ?thesis
    by (simp add: parse_json_def lex_punct begin_value_def del: lex.simps) (simp add: begin_value_def)
next
  case False
  then have "lex L_Idle (''{'' @ Join (map encode_field fs) '','' @ ''}'') = Some (T_LBrace # member_tokens fs @ [T_RBrace])"
    using lex_members [OF False assms] by (simp add: lex_punct del: lex.simps)
  moreover obtain k ts where "member_tokens fs = T_Str k # ts"
    using False by (cases fs rule: member_tokens.cases) simp_all
  ultimately show ?thesis
    using parse_members [OF False, of "[]"] by (simp add: parse_json_def begin_value_def parse_key_def)
qed

subsection \<open>Fields\<close>

lemma assign_strs_map [simp]: "assign_strs (map J_Str ss) = Some ss"
  by (induction ss) simp_all

lemma assign_val_json:
  "(case v of F_Int n \<Rightarrow> in_int32 n | _ \<Rightarrow> True) \<Longrightarrow> assign_val (val_json v) (zero_val v) = Some v"
  by (cases v) (simp_all add: assign_val_def val_json_def zero_val_def Atoi_show_int split: option.split)

lemma update_first_at:
  "\<forall>g \<in> set gs. \<not> P g \<Longrightarrow> P f \<Longrightarrow>
     update_first P v (gs @ f # fs) = map_option (\<lambda>x. gs @ f\<lparr>Fld_Val := x\<rparr> # fs) (assign_val v (Fld_Val f))"
  by (induction gs) (auto simp: option.map_comp comp_def)

text \<open>Decoding the encoding of a struct into some of its fields gives the values of these fields.\<close>

lemma Unmarshal_part:
  assumes "distinct (map Fld_Name fs)" "list_all field_ok fs"
    and "\<And>f g. f \<in> set fs \<Longrightarrow> g \<in> set fs \<Longrightarrow> \<not> P f \<Longrightarrow> P g \<Longrightarrow> \<not> EqualFold (Fld_Name g) (Fld_Name f)"
  shows "Unmarshal (Marshal fs) (zero_fields (filter P fs)) = Some (filter P fs)"
proof -
  let ?keep = "\<lambda>f. \<not> (Fld_OmitEmpty f \<and> is_zero (Fld_Val f))"
  have skip: "update_first Q v gs = Some gs" if "\<forall>g \<in> set gs. \<not> Q g" for Q v gs
    using that by (induction gs) auto
  have "assign_members (map member (filter ?keep hs)) (gs @ zero_fields (filter P hs)) = Some (gs @ filter P hs)"
    if "distinct (map Fld_Name (gs @ hs))" "set gs \<subseteq> set fs" "list_all P gs" "set hs \<subseteq> set fs" for gs hs
    using that
  proof (induction hs arbitrary: gs)
    case (Cons f hs)
    let ?z = "f\<lparr>Fld_Val := zero_val (Fld_Val f)\<rparr>"
    have f: "f \<in> set fs" "field_ok f" using Cons.prems(4) assms(2) by (auto simp: list_all_iff)
    show ?case
    proof (cases "P f")
      case True
      have IH: "assign_members (map member (filter ?keep hs)) ((gs @ [f]) @ zero_fields (filter P hs)) =
          Some ((gs @ [f]) @ filter P hs)"
        using Cons.prems True by (intro Cons.IH) auto
      have zero: "?z = f" if "Fld_OmitEmpty f" "is_zero (Fld_Val f)"
        using that f(2) by (cases f) (auto simp: is_zero_def zero_val_def field_ok_def split: field_val.splits)
      have val: "assign_val (val_json (Fld_Val f)) (zero_val (Fld_Val f)) = Some (Fld_Val f)"
        using f(2) by (intro assign_val_json) (auto simp: field_ok_def split: field_val.splits)
      have new: "\<forall>g \<in> set gs. Fld_Name g \<noteq> Fld_Name f" using Cons.prems(1) by (auto simp: image_iff)
      have "assign_member (member f) (gs @ ?z # zero_fields (filter P hs)) = Some (gs @ f # zero_fields (filter P hs))"
        using val new update_first_at [of gs "\<lambda>g. Fld_Name g = Fld_Name f" ?z "val_json (Fld_Val f)" "zero_fields (filter P hs)"]
        by (auto simp: assign_member_def)
      then show ?thesis using IH zero True
        by (cases "Fld_OmitEmpty f \<and> is_zero (Fld_Val f)") (auto simp: zero_fields_def)
    next
      case False
      have IH: "assign_members (map member (filter ?keep hs)) (gs @ zero_fields (filter P hs)) = Some (gs @ filter P hs)"
        using Cons.prems by (intro Cons.IH) auto
      have names: "\<forall>g \<in> set (gs @ zero_fields (filter P hs)). Fld_Name g \<noteq> Fld_Name f \<and> \<not> EqualFold (Fld_Name g) (Fld_Name f)"
      proof
        fix g assume "g \<in> set (gs @ zero_fields (filter P hs))"
        then have "\<exists>g'. (g' \<in> set gs \<or> g' \<in> set (filter P hs)) \<and> Fld_Name g = Fld_Name g'"
          by (auto simp: zero_fields_def)
        then obtain g' where g': "g' \<in> set gs \<or> g' \<in> set (filter P hs)" "Fld_Name g = Fld_Name g'" by blast
        then have "g' \<in> set fs" "P g'" using Cons.prems(2-4) by (auto simp: list_all_iff)
        moreover have "Fld_Name g' \<noteq> Fld_Name f" using Cons.prems(1) g'(1) by (auto simp: image_iff)
        ultimately show "Fld_Name g \<noteq> Fld_Name f \<and> \<not> EqualFold (Fld_Name g) (Fld_Name f)"
          using assms(3) [OF f(1)] False g'(2) by auto
      qed
      then have "assign_member (member f) (gs @ zero_fields (filter P hs)) = Some (gs @ zero_fields (filter P hs))"
        by (auto simp: assign_member_def skip image_iff)
      then show ?thesis using IH False by simp
    qed
  qed (simp add: zero_fields_def)
  from this [of "[]" fs] have "assign_members (map member (filter ?keep fs)) (zero_fields (filter P fs)) = Some (filter P fs)"
    using assms(1) by simp
  moreover have "list_all field_ok (filter ?keep fs)" using assms(2) by (auto simp: list_all_iff)
  ultimately show ?thesis
    by (simp add: Unmarshal_def Marshal_def parse_json_Marshal [simplified])
qed

text \<open>Decoding the encoding of a struct into its zero value gives the struct back.\<close>

lemma Unmarshal_Marshal:
  assumes "distinct (map Fld_Name fs)" "list_all field_ok fs"
  shows "Unmarshal (Marshal fs) (zero_fields fs) = Some fs"
  using Unmarshal_part [OF assms, of "\<lambda>_. True"] by simp

end
