(* ===== verification/Workloads.thy ===== *)
theory Workloads
  imports Lifecycle Rfc3339 Json
begin

text \<open>
  The objects the long-running operations of the cluster controller act on beside the cluster and
  its StatefulSets: Jobs, Pods and volume claims, the rollout state and the pod template of a
  StatefulSet, and the services these operations call. A \<open>services\<close> record holds, next to a
  \<open>reconciler\<close>, the rest of the Kubernetes client, the calls of \<^verbatim>\<open>db.Client\<close> that scale and
  mirror a cluster, the \<^verbatim>\<open>builder.ResourceBuilder\<close> of the reconciler, the steps of the
  reconciliation that only keep secrets, ConfigMaps, policies and volumes, and the local time zone
  of the process. It also holds the helpers every operation uses: annotations that are removed with
  the error only logged, timestamps, conditions.
\<close>

section \<open>Model\<close>

subsection \<open>Objects\<close>

record Container =
  Ctr_Name :: string
  Ctr_Image :: string
  Ctr_Env :: "string list"

record PodTemplate =
  Tpl_Containers :: "Container list"
  Tpl_Annotations :: string_map

text \<open>A StatefulSet with the parts only some operations read; the lifecycle handlers see the rest.\<close>

record StatefulSetFull = StatefulSet +
  Sts_Template :: PodTemplate
  Sts_Generation :: int64
  Sts_ObservedGeneration :: int64
  Sts_CurrentRevision :: string
  Sts_UpdateRevision :: string

text \<open>
  A Pod: the messages of its terminated containers are \<open>None\<close> for a container that has not
  terminated. Conditions are pairs of a type and a status.
\<close>

record Pod =
  Pod_Name :: string
  Pod_Phase :: string
  Pod_Conditions :: "(string \<times> string) list"
  Pod_Deleting :: bool
  Pod_Terminated :: "string option list"

record Job =
  KJob_Namespace :: string
  KJob_Name :: string
  KJob_Annotations :: string_map
  KJob_Deleting :: bool
  KJob_Succeeded :: int32
  KJob_Failed :: int32
  KJob_Active :: int32
  KJob_Conditions :: "(string \<times> string) list"

subsection \<open>Services\<close>

record 'w services =
  s_get_sts :: "string \<Rightarrow> string \<Rightarrow> 'w \<Rightarrow> (api_error + StatefulSetFull) \<times> 'w"
  s_create_sts :: "StatefulSetFull \<Rightarrow> 'w \<Rightarrow> api_error option \<times> 'w"
  s_update_sts :: "StatefulSetFull \<Rightarrow> 'w \<Rightarrow> api_error option \<times> 'w"
  s_delete_sts :: "string \<Rightarrow> string \<Rightarrow> 'w \<Rightarrow> api_error option \<times> 'w"
  s_get_job :: "string \<Rightarrow> string \<Rightarrow> 'w \<Rightarrow> (api_error + Job) \<times> 'w"
  s_create_job :: "Job \<Rightarrow> 'w \<Rightarrow> api_error option \<times> 'w"
  s_delete_job :: "string \<Rightarrow> string \<Rightarrow> bool \<Rightarrow> 'w \<Rightarrow> api_error option \<times> 'w"
  s_list_pods :: "string \<Rightarrow> (string \<times> string) list \<Rightarrow> 'w \<Rightarrow> (api_error + Pod list) \<times> 'w"
  s_get_pod :: "string \<Rightarrow> string \<Rightarrow> 'w \<Rightarrow> (api_error + Pod) \<times> 'w"
  s_delete_pod :: "string \<Rightarrow> string \<Rightarrow> 'w \<Rightarrow> api_error option \<times> 'w"
  s_get_pvc :: "string \<Rightarrow> string \<Rightarrow> 'w \<Rightarrow> api_error option \<times> 'w"
  s_list_pvcs :: "string \<Rightarrow> (string \<times> string) list \<Rightarrow> 'w \<Rightarrow> (api_error + string list) \<times> 'w"
  s_delete_pvc :: "string \<Rightarrow> string \<Rightarrow> 'w \<Rightarrow> api_error option \<times> 'w"
  s_redistribute_before_scale_in :: "int32 \<Rightarrow> 'w \<Rightarrow> string option \<times> 'w"
  s_deregister_segments :: "int32 \<Rightarrow> 'w \<Rightarrow> string option \<times> 'w"
  s_gpexpand_schema_present :: "'w \<Rightarrow> (string + bool) \<times> 'w"
  s_finalize_gpexpand :: "'w \<Rightarrow> string option \<times> 'w"
  s_initialize_mirrors :: "string \<Rightarrow> int32 \<Rightarrow> int32 \<Rightarrow> 'w \<Rightarrow> string option \<times> 'w"
  s_configure_replication :: "string \<Rightarrow> 'w \<Rightarrow> string option \<times> 'w"
  s_mirror_sync_status :: "'w \<Rightarrow> (string + bool list) \<times> 'w"
  s_patch_annotations :: "string \<Rightarrow> string \<Rightarrow> (string \<times> string) list \<Rightarrow> 'w \<Rightarrow> (api_error + CloudberryCluster) \<times> 'w"
  s_tls_checksum :: "CloudberryCluster \<Rightarrow> StatefulSetFull \<Rightarrow> 'w \<Rightarrow> (ctrl_error + StatefulSetFull) \<times> 'w"
  s_ensure_pxf_config :: "CloudberryCluster \<Rightarrow> 'w \<Rightarrow> ctrl_error option \<times> 'w"
  s_ensure_network_policy :: "CloudberryCluster \<Rightarrow> 'w \<Rightarrow> ctrl_error option \<times> 'w"
  s_storage_expansion :: "CloudberryCluster \<Rightarrow> 'w \<Rightarrow> ctrl_error option \<times> 'w"
  s_build_coordinator :: "CloudberryCluster \<Rightarrow> string + StatefulSetFull"
  s_build_standby :: "CloudberryCluster \<Rightarrow> string + StatefulSetFull option"
  s_build_maintenance_job :: "CloudberryCluster \<Rightarrow> string \<Rightarrow> string \<Rightarrow> Job"
  s_build_primary :: "CloudberryCluster \<Rightarrow> string + StatefulSetFull"
  s_build_mirror :: "CloudberryCluster \<Rightarrow> string + StatefulSetFull option"
  s_build_gpexpand_job :: "CloudberryCluster \<Rightarrow> int32 \<Rightarrow> int32 \<Rightarrow> string \<Rightarrow> Job option"
  s_local :: Location

subsection \<open>Constants\<close>

abbreviation requeueAfterError :: int where "requeueAfterError \<equiv> 10000000000"
abbreviation AnnotationScaleStarted :: string where "AnnotationScaleStarted \<equiv> ''avsoft.io/scale-started''"
abbreviation AnnotationTLSCertChecksum :: string where "AnnotationTLSCertChecksum \<equiv> ''avsoft.io/tls-cert-checksum''"
abbreviation AnnotationGpexpandScriptHash :: string where
  "AnnotationGpexpandScriptHash \<equiv> ''avsoft.io/gpexpand-script-hash''"
abbreviation ComponentCoordinator :: string where "ComponentCoordinator \<equiv> ''coordinator''"
abbreviation ComponentStandby :: string where "ComponentStandby \<equiv> ''standby''"
abbreviation ComponentSegmentPrimary :: string where "ComponentSegmentPrimary \<equiv> ''segment-primary''"
abbreviation ComponentSegmentMirror :: string where "ComponentSegmentMirror \<equiv> ''segment-mirror''"

subsection \<open>Helpers\<close>

definition opTimeout :: "'w reconciler \<Rightarrow> int \<Rightarrow> int" where
  "opTimeout r fallback = (if r_operationTimeout r > 0 then r_operationTimeout r else fallback)"

definition now_text :: "'w reconciler \<Rightarrow> 'w services \<Rightarrow> 'w \<Rightarrow> string" where
  "now_text r sv w = Format_RFC3339 (s_local sv) (k_now (r_client r) w)"

text \<open>\<^verbatim>\<open>time.Since(started) > timeout\<close> for a timestamp that parses.\<close>

definition timed_out :: "'w reconciler \<Rightarrow> string \<Rightarrow> int \<Rightarrow> 'w \<Rightarrow> bool" where
  "timed_out r started timeout w =
     (case Parse_RFC3339 started of None \<Rightarrow> False | Some t \<Rightarrow> Sub (k_now (r_client r) w) t > timeout)"

definition mirroring_on :: "CloudberryCluster \<Rightarrow> bool" where
  "mirroring_on cluster =
     (case Seg_Mirroring (Spec_Segments (CC_Spec cluster)) of None \<Rightarrow> False | Some m \<Rightarrow> Mir_Enabled m)"

definition with_condition :: "int \<Rightarrow> string \<Rightarrow> string \<Rightarrow> string \<Rightarrow> string \<Rightarrow> CloudberryCluster \<Rightarrow> CloudberryCluster" where
  "with_condition now condType status reason message cluster =
     cluster\<lparr>CC_Status := (CC_Status cluster)\<lparr>St_Conditions :=
       SetCondition now (St_Conditions (CC_Status cluster)) condType status reason message\<rparr>\<rparr>"

text \<open>
  A removal of an annotation whose error is only logged: the object afterwards is the one read
  back, the answer of the patch when the read fails, and the old one when the patch fails.
\<close>

definition dropAnnotation :: "'w reconciler \<Rightarrow> CloudberryCluster \<Rightarrow> string \<Rightarrow> 'w \<Rightarrow> CloudberryCluster \<times> 'w" where
  "dropAnnotation r cluster key w =
     (case k_patch_annotation (r_client r) (CC_Namespace cluster) (CC_Name cluster) key None w of
        (Inl _, w1) \<Rightarrow> (cluster, w1)
      | (Inr patched, w1) \<Rightarrow>
          (case k_get_cluster (r_client r) (CC_Namespace cluster) (CC_Name cluster) w1 of
             (Inl _, w2) \<Rightarrow> (patched, w2)
           | (Inr c, w2) \<Rightarrow> (c, w2)))"

definition CommonLabels :: "string \<Rightarrow> string \<Rightarrow> (string \<times> string) list" where
  "CommonLabels cluster component =
     [(''app.kubernetes.io/managed-by'', ''cloudberry-operator''), (''avsoft.io/cluster'', cluster),
      (''avsoft.io/component'', component)]"

definition jobHasFailedCondition :: "Job \<Rightarrow> bool" where
  "jobHasFailedCondition job = list_ex (\<lambda>(t, s). t = ''Failed'' \<and> s = ConditionTrue) (KJob_Conditions job)"

fun podIsReady_conds :: "(string \<times> string) list \<Rightarrow> bool" where
  "podIsReady_conds [] = False"
| "podIsReady_conds ((t, s) # cs) = (if t = ''Ready'' then s = ConditionTrue else podIsReady_conds cs)"

definition podIsReady :: "Pod \<Rightarrow> bool" where
  "podIsReady pod = podIsReady_conds (Pod_Conditions pod)"

subsection \<open>StatefulSets\<close>

definition preserveTLSChecksumAnnotation :: "StatefulSetFull \<Rightarrow> StatefulSetFull \<Rightarrow> StatefulSetFull" where
  "preserveTLSChecksumAnnotation existing desired =
     (let new = Tpl_Annotations (Sts_Template desired); old = Tpl_Annotations (Sts_Template existing)
      in if new AnnotationTLSCertChecksum \<noteq> None then desired
         else (case old AnnotationTLSCertChecksum of None \<Rightarrow> desired
               | Some prev \<Rightarrow> desired\<lparr>Sts_Template := (Sts_Template desired)\<lparr>Tpl_Annotations :=
                   new(AnnotationTLSCertChecksum \<mapsto> prev)\<rparr>\<rparr>))"

definition createOrUpdateStatefulSet ::
  "'w services \<Rightarrow> StatefulSetFull \<Rightarrow> 'w \<Rightarrow> ctrl_error option \<times> 'w" where
  "createOrUpdateStatefulSet sv desired0 w =
     (case s_get_sts sv (Sts_Namespace desired0) (Sts_Name desired0) w of
        (Inl NotFound, w1) \<Rightarrow>
          (case s_create_sts sv desired0 w1 of
             (Some e, w2) \<Rightarrow> (Some (Ctrl_Error (''creating statefulset '' @ Sts_Name desired0) e), w2)
           | (None, w2) \<Rightarrow> (None, w2))
      | (Inl e, w1) \<Rightarrow> (Some (Ctrl_Error (''getting statefulset '' @ Sts_Name desired0) e), w1)
      | (Inr existing, w1) \<Rightarrow>
          (let desired = preserveTLSChecksumAnnotation existing desired0
           in if Sts_Template existing \<noteq> Sts_Template desired \<or> Sts_Replicas existing \<noteq> Sts_Replicas desired
              then (case s_update_sts sv (existing\<lparr>Sts_Template := Sts_Template desired,
                            Sts_Replicas := Sts_Replicas desired\<rparr>) w1 of
                      (Some e, w2) \<Rightarrow> (Some (Ctrl_Error (''updating statefulset '' @ Sts_Name desired0) e), w2)
                    | (None, w2) \<Rightarrow> (None, w2))
              else (None, w1)))"

definition allSegmentStatefulSetsReady :: "'w reconciler \<Rightarrow> CloudberryCluster \<Rightarrow> 'w \<Rightarrow> bool \<times> 'w" where
  "allSegmentStatefulSetsReady r cluster w =
     (let desiredCount = Seg_Count (Spec_Segments (CC_Spec cluster))
      in case isStatefulSetAtScale r (CC_Namespace cluster) (SegmentPrimaryName (CC_Name cluster)) desiredCount w of
           ((ready, _), w1) \<Rightarrow>
             if \<not> ready then (False, w1)
             else if mirroring_on cluster then
               (case isStatefulSetAtScale r (CC_Namespace cluster) (SegmentMirrorName (CC_Name cluster)) desiredCount w1 of
                  ((mirrorReady, _), w2) \<Rightarrow> (mirrorReady, w2))
             else (True, w1))"

end
