(* ===== verification/Scale.thy ===== *)
theory Scale
  imports Workloads
begin

text \<open>
  Scaling of the segments, after \<^verbatim>\<open>internal/controller/cluster_controller.go\<close>. A change of
  \<^verbatim>\<open>spec.segments.count\<close> of a running cluster starts a multi-step operation whose state is JSON in
  an annotation of the cluster: scale-out raises the replicas, waits for the new pods, and runs a
  \<^verbatim>\<open>gpexpand\<close> Job with a bounded number of attempts; scale-in moves the data off the segments to
  be removed, deregisters them, lowers the mirrors and then the primaries, and deletes the volumes.
  Each pass of the controller over a cluster in phase Scaling moves the operation on by at most one
  step. Handlers that change the in-memory cluster answer it.
\<close>

section \<open>Model\<close>

subsection \<open>Constants\<close>

abbreviation scaleTimeout :: int where "scaleTimeout \<equiv> 600000000000"
abbreviation requeueAfterCoordinatorRecovery :: int where "requeueAfterCoordinatorRecovery \<equiv> 20000000000"
abbreviation requeueAfterGpexpandPoll :: int where "requeueAfterGpexpandPoll \<equiv> 15000000000"
abbreviation maxRedistributeAttempts :: int32 where "maxRedistributeAttempts \<equiv> 5"
abbreviation EnvCloudberryExpansionBaseCount :: string where
  "EnvCloudberryExpansionBaseCount \<equiv> ''CLOUDBERRY_EXPANSION_BASE_COUNT''"

abbreviation scalePhaseScalingSTS :: string where "scalePhaseScalingSTS \<equiv> ''scaling-sts''"
abbreviation scalePhaseExpanding :: string where "scalePhaseExpanding \<equiv> ''expanding''"
abbreviation scalePhaseRegistering :: string where "scalePhaseRegistering \<equiv> ''registering''"
abbreviation scalePhaseRedistributing :: string where "scalePhaseRedistributing \<equiv> ''redistributing''"
abbreviation scalePhaseCompleted :: string where "scalePhaseCompleted \<equiv> ''completed''"

abbreviation scaleInPhaseRedistributing :: string where "scaleInPhaseRedistributing \<equiv> ''redistributing''"
abbreviation scaleInPhaseDeregistering :: string where "scaleInPhaseDeregistering \<equiv> ''deregistering''"
abbreviation scaleInPhaseScalingMirrors :: string where "scaleInPhaseScalingMirrors \<equiv> ''scaling-mirrors''"
abbreviation scaleInPhaseScalingPrimaries :: string where "scaleInPhaseScalingPrimaries \<equiv> ''scaling-primaries''"
abbreviation scaleInPhaseCleanup :: string where "scaleInPhaseCleanup \<equiv> ''cleanup''"
abbreviation scaleInPhaseCompleted :: string where "scaleInPhaseCompleted \<equiv> ''completed''"

subsection \<open>State annotations\<close>

record scaleStateData =
  SS_Phase :: string
  SS_OldCount :: int32
  SS_NewCount :: int32
  SS_StartedAt :: string
  SS_PhaseStartedAt :: string
  SS_RedistributeAttempts :: int32
  SS_ExpandJobName :: string

record scaleInStateData =
  SI_Phase :: string
  SI_OldCount :: int32
  SI_NewCount :: int32
  SI_StartedAt :: string
  SI_PhaseStartedAt :: string

definition str_field :: "string \<Rightarrow> bool \<Rightarrow> string \<Rightarrow> field" where
  "str_field name omitempty v = \<lparr>Fld_Name = name, Fld_OmitEmpty = omitempty, Fld_Val = F_Str v\<rparr>"

definition int_field :: "string \<Rightarrow> bool \<Rightarrow> int32 \<Rightarrow> field" where
  "int_field name omitempty v = \<lparr>Fld_Name = name, Fld_OmitEmpty = omitempty, Fld_Val = F_Int v\<rparr>"

definition scaleState_fields :: "scaleStateData \<Rightarrow> field list" where
  "scaleState_fields s =
     [str_field ''phase'' False (SS_Phase s), int_field ''oldCount'' False (SS_OldCount s),
      int_field ''newCount'' False (SS_NewCount s), str_field ''startedAt'' False (SS_StartedAt s),
      str_field ''phaseStartedAt'' True (SS_PhaseStartedAt s),
      int_field ''redistributeAttempts'' True (SS_RedistributeAttempts s),
      str_field ''expandJobName'' True (SS_ExpandJobName s)]"

definition scaleInState_fields :: "scaleInStateData \<Rightarrow> field list" where
  "scaleInState_fields s =
     [str_field ''phase'' False (SI_Phase s), int_field ''oldCount'' False (SI_OldCount s),
      int_field ''newCount'' False (SI_NewCount s), str_field ''startedAt'' False (SI_StartedAt s),
      str_field ''phaseStartedAt'' True (SI_PhaseStartedAt s)]"

definition scaleState_zero :: scaleStateData where
  "scaleState_zero = \<lparr>SS_Phase = [], SS_OldCount = 0, SS_NewCount = 0, SS_StartedAt = [], SS_PhaseStartedAt = [],
     SS_RedistributeAttempts = 0, SS_ExpandJobName = []\<rparr>"

definition scaleInState_zero :: scaleInStateData where
  "scaleInState_zero = \<lparr>SI_Phase = [], SI_OldCount = 0, SI_NewCount = 0, SI_StartedAt = [], SI_PhaseStartedAt = []\<rparr>"

definition scaleState_of :: "field list \<Rightarrow> scaleStateData" where
  "scaleState_of fs =
     (case map Fld_Val fs of
        [F_Str p, F_Int a, F_Int b, F_Str s, F_Str q, F_Int n, F_Str j] \<Rightarrow>
          \<lparr>SS_Phase = p, SS_OldCount = a, SS_NewCount = b, SS_StartedAt = s, SS_PhaseStartedAt = q,
            SS_RedistributeAttempts = n, SS_ExpandJobName = j\<rparr>
      | _ \<Rightarrow> scaleState_zero)"

definition scaleInState_of :: "field list \<Rightarrow> scaleInStateData" where
  "scaleInState_of fs =
     (case map Fld_Val fs of
        [F_Str p, F_Int a, F_Int b, F_Str s, F_Str q] \<Rightarrow>
          \<lparr>SI_Phase = p, SI_OldCount = a, SI_NewCount = b, SI_StartedAt = s, SI_PhaseStartedAt = q\<rparr>
      | _ \<Rightarrow> scaleInState_zero)"

definition marshal_scaleState :: "scaleStateData \<Rightarrow> string" where
  "marshal_scaleState s = Marshal (scaleState_fields s)"

definition unmarshal_scaleState :: "string \<Rightarrow> scaleStateData option" where
  "unmarshal_scaleState raw = map_option scaleState_of (Unmarshal raw (scaleState_fields scaleState_zero))"

definition marshal_scaleInState :: "scaleInStateData \<Rightarrow> string" where
  "marshal_scaleInState s = Marshal (scaleInState_fields s)"

definition unmarshal_scaleInState :: "string \<Rightarrow> scaleInStateData option" where
  "unmarshal_scaleInState raw = map_option scaleInState_of (Unmarshal raw (scaleInState_fields scaleInState_zero))"

text \<open>Two readers of the same annotation that look at some of its keys only.\<close>

definition scaleOutInProgress :: "CloudberryCluster \<Rightarrow> bool" where
  "scaleOutInProgress cluster =
     (let raw = annotation cluster annotationScaleState
      in if raw = [] then False
         else case Unmarshal raw [str_field ''phase'' False []] of
           None \<Rightarrow> False
         | Some fs \<Rightarrow> map Fld_Val fs \<in> (\<lambda>p. [F_Str p]) `
             {scalePhaseScalingSTS, scalePhaseExpanding, scalePhaseRegistering, scalePhaseRedistributing})"

definition ScaleOutBaseCount :: "CloudberryCluster \<Rightarrow> int32 \<times> bool" where
  "ScaleOutBaseCount cluster =
     (let raw = annotation cluster annotationScaleState
      in if raw = [] then (0, False)
         else case Unmarshal raw [int_field ''oldCount'' False 0, int_field ''newCount'' False 0] of
           None \<Rightarrow> (0, False)
         | Some fs \<Rightarrow>
             (case map Fld_Val fs of
                [F_Int oldCount, F_Int newCount] \<Rightarrow>
                  if newCount \<le> oldCount \<or> oldCount < 0 then (0, False) else (oldCount, True)
              | _ \<Rightarrow> (0, False)))"

subsection \<open>Starting an operation\<close>

definition segmentTemplateHasExpansionBaseCount :: "StatefulSetFull \<Rightarrow> bool" where
  "segmentTemplateHasExpansionBaseCount sts =
     list_ex (\<lambda>c. EnvCloudberryExpansionBaseCount \<in> set (Ctr_Env c)) (Tpl_Containers (Sts_Template sts))"

type_synonym 'w step = "'w \<Rightarrow> (ctrl_error option \<times> CloudberryCluster) \<times> 'w"

definition plain_error :: "string \<Rightarrow> ctrl_error" where
  "plain_error msg = Ctrl_Error msg (Other_Error [])"

definition wrap_error :: "string \<Rightarrow> ctrl_error \<Rightarrow> ctrl_error" where
  "wrap_error ctx e = (case e of Ctrl_Error msg cause \<Rightarrow> Ctrl_Error (ctx @ '': '' @ msg) cause)"

definition applyScaleOutStatefulSets ::
  "'w reconciler \<Rightarrow> 'w services \<Rightarrow> CloudberryCluster \<Rightarrow> int32 \<Rightarrow> string \<Rightarrow> 'w step" where
  "applyScaleOutStatefulSets r sv cluster0 oldCount stateJSON w =
     (case setAnnotationPatch r cluster0 annotationScaleState stateJSON w of
        (Inl e, w1) \<Rightarrow> ((Some (Ctrl_Error ''setting scale-state annotation'' e), cluster0), w1)
      | (Inr cluster, w1) \<Rightarrow>
          (case ScaleOutBaseCount cluster of (base, ok) \<Rightarrow>
           if \<not> ok \<or> base \<noteq> oldCount
           then ((Some (plain_error ''scale-state annotation not persisted with expansion base count before scaling''), cluster), w1)
           else case s_build_primary sv cluster of
             Inl e \<Rightarrow> ((Some (Ctrl_Error (''building primary segment StatefulSet for cluster '' @ CC_Name cluster) (Other_Error e)), cluster), w1)
           | Inr primarySts \<Rightarrow>
               if \<not> segmentTemplateHasExpansionBaseCount primarySts
               then ((Some (plain_error (''built segment StatefulSet '' @ Sts_Name primarySts @
                      '' is missing CLOUDBERRY_EXPANSION_BASE_COUNT before scale-up'')), cluster), w1)
               else (case createOrUpdateStatefulSet sv primarySts w1 of
                 (Some e, w2) \<Rightarrow> ((Some (wrap_error ''scaling primary segments'' e), cluster), w2)
               | (None, w2) \<Rightarrow>
                   if mirroring_on cluster then
                     (case s_build_mirror sv cluster of
                        Inl e \<Rightarrow> ((Some (Ctrl_Error (''building mirror segment StatefulSet for cluster '' @ CC_Name cluster) (Other_Error e)), cluster), w2)
                      | Inr None \<Rightarrow> ((None, cluster), w2)
                      | Inr (Some mirrorSts) \<Rightarrow>
                          (case createOrUpdateStatefulSet sv mirrorSts w2 of
                             (Some e, w3) \<Rightarrow> ((Some (wrap_error ''scaling mirror segments'' e), cluster), w3)
                           | (None, w3) \<Rightarrow> ((None, cluster), w3)))
                   else ((None, cluster), w2))))"

definition handleScaleOut ::
  "'w reconciler \<Rightarrow> 'w services \<Rightarrow> CloudberryCluster \<Rightarrow> int32 \<Rightarrow> int32 \<Rightarrow> 'w step" where
  "handleScaleOut r sv cluster0 oldCount newCount w =
     (if St_Phase (CC_Status cluster0) \<noteq> ClusterPhaseRunning
      then ((None, cluster0), k_event (r_client r) cluster0 ''ScaleOutBlocked''
             (''Scale-out blocked: cluster is in '' @ St_Phase (CC_Status cluster0) @ '' phase, must be Running'') w)
      else (let scaleStartTime = now_text r sv w
            in case setAnnotationPatch r cluster0 AnnotationScaleStarted scaleStartTime w of
        (Inl e, w1) \<Rightarrow> ((Some (Ctrl_Error ''setting scale-started annotation'' e), cluster0), w1)
      | (Inr cluster1, w1) \<Rightarrow>
          (let state = \<lparr>SS_Phase = scalePhaseScalingSTS, SS_OldCount = oldCount, SS_NewCount = newCount,
                 SS_StartedAt = scaleStartTime, SS_PhaseStartedAt = scaleStartTime,
                 SS_RedistributeAttempts = 0, SS_ExpandJobName = []\<rparr>
           in case applyScaleOutStatefulSets r sv cluster1 oldCount (marshal_scaleState state) w1 of
                ((Some e, cluster2), w2) \<Rightarrow> ((Some e, cluster2), w2)
              | ((None, cluster2), w2) \<Rightarrow>
                  (let cluster3 = with_condition (k_now (r_client r) w2) ConditionDataRedistribution ConditionFalse
                         ''ScaleOutStarted'' (''Scaling from '' @ show_int oldCount @ '' to '' @ show_int newCount @ '' segments'')
                         (with_phase ClusterPhaseScaling cluster2)
                   in case k_update_status (r_client r) cluster3 w2 of
                        (Inl e, w3) \<Rightarrow> ((Some (Ctrl_Error ''setting scaling phase'' e), cluster3), w3)
                      | (Inr cluster4, w3) \<Rightarrow>
                          (let w4 = k_event (r_client r) cluster4 ''ScaleOutStarted''
                                 (''Scale-out from '' @ show_int oldCount @ '' to '' @ show_int newCount @ '' segments initiated'') w3;
                               cluster5 = with_condition (k_now (r_client r) w4) ConditionDataRedistribution ConditionTrue
                                 ''InProgress'' ''Waiting for new segment pods to be ready'' cluster4
                           in case patchStatus r cluster5 w4 of
                                (Inl e, w5) \<Rightarrow> ((Some (Ctrl_Error ''updating redistribution status'' e), cluster5), w5)
                              | (Inr cluster6, w5) \<Rightarrow> ((None, cluster6), w5))))))"

text \<open>
  \<^verbatim>\<open>float64(newCount) < float64(oldCount)*0.5\<close>: 32-bit integers and their halves are exact in
  binary64, so the comparison is that of the integers.
\<close>

definition more_than_half :: "int32 \<Rightarrow> int32 \<Rightarrow> bool" where
  "more_than_half oldCount newCount \<longleftrightarrow> 2 * newCount < oldCount"

definition handleScaleIn ::
  "'w reconciler \<Rightarrow> 'w services \<Rightarrow> CloudberryCluster \<Rightarrow> int32 \<Rightarrow> int32 \<Rightarrow> 'w step" where
  "handleScaleIn r sv cluster0 oldCount newCount w =
     (if St_Phase (CC_Status cluster0) \<noteq> ClusterPhaseRunning
      then ((None, cluster0), k_event (r_client r) cluster0 ''ScaleInBlocked''
             (''Scale-in blocked: cluster is in '' @ St_Phase (CC_Status cluster0) @ '' phase, must be Running'') w)
      else if more_than_half oldCount newCount \<and> annotation cluster0 AnnotationConfirmScaleIn \<noteq> ''true''
      then ((None, cluster0), k_event (r_client r) cluster0 ''ScaleInBlocked''
             (''Scale-in from '' @ show_int oldCount @ '' to '' @ show_int newCount @ '' requires annotation '' @
              AnnotationConfirmScaleIn @ ''=true'') w)
      else (let scaleStartTime = now_text r sv w
            in case setAnnotationPatch r cluster0 AnnotationScaleStarted scaleStartTime w of
        (Inl e, w1) \<Rightarrow> ((Some (Ctrl_Error ''setting scale-started annotation'' e), cluster0), w1)
      | (Inr cluster1, w1) \<Rightarrow>
          (let state = \<lparr>SI_Phase = scaleInPhaseRedistributing, SI_OldCount = oldCount, SI_NewCount = newCount,
                 SI_StartedAt = scaleStartTime, SI_PhaseStartedAt = scaleStartTime\<rparr>
           in case setAnnotationPatch r cluster1 annotationScaleInState (marshal_scaleInState state) w1 of
                (Inl e, w2) \<Rightarrow> ((Some (Ctrl_Error ''setting scale-in-state annotation'' e), cluster1), w2)
              | (Inr cluster2, w2) \<Rightarrow>
                  (let cluster3 = with_condition (k_now (r_client r) w2) ConditionDataRedistribution ConditionTrue
                         ''ScaleInRedistributing'' (''Redistributing data off segments '' @ show_int newCount @ ''-'' @
                           show_int (wrap32 (oldCount - 1)) @ '' before scale-in'')
                         (with_phase ClusterPhaseScaling cluster2)
                   in case k_update_status (r_client r) cluster3 w2 of
                        (Inl e, w3) \<Rightarrow> ((Some (Ctrl_Error ''setting scaling phase'' e), cluster3), w3)
                      | (Inr cluster4, w3) \<Rightarrow>
                          ((None, cluster4), k_event (r_client r) cluster4 ''ScaleInStarted''
                             (''Scale-in from '' @ show_int oldCount @ '' to '' @ show_int newCount @
                              '' segments initiated '' @ [CHR 0xE2, CHR 0x80, CHR 0x94] @ '' redistributing data'') w3)))))"

text \<open>\<open>None\<close> is \<^verbatim>\<open>(false, nil)\<close>: no scale operation, the reconciliation goes on.\<close>

definition detectAndHandleScale ::
  "'w reconciler \<Rightarrow> 'w services \<Rightarrow> CloudberryCluster \<Rightarrow> api_error + StatefulSet \<Rightarrow> 'w \<Rightarrow>
     ((ctrl_error option \<times> CloudberryCluster) \<times> 'w) option" where
  "detectAndHandleScale r sv cluster existingSts w =
     (case existingSts of
        Inl _ \<Rightarrow> None
      | Inr sts \<Rightarrow>
          (case Sts_Replicas sts of None \<Rightarrow> None
           | Some currentCount \<Rightarrow>
               (let desiredCount = Seg_Count (Spec_Segments (CC_Spec cluster))
                in if currentCount > 0 \<and> desiredCount > currentCount
                   then Some (handleScaleOut r sv cluster currentCount desiredCount w)
                   else if currentCount > 0 \<and> desiredCount < currentCount
                   then Some (handleScaleIn r sv cluster currentCount desiredCount w)
                   else None)))"

subsection \<open>Volumes of removed segments\<close>

text \<open>
  The loop over the ordinals from \<^verbatim>\<open>newCount\<close> ends at the first claim that is not found or cannot be
  read; the ordinal is a 32-bit integer, so after \<open>2^32\<close> rounds it has visited every name.
\<close>

fun delete_claims :: "nat \<Rightarrow> 'w services \<Rightarrow> string \<Rightarrow> string \<Rightarrow> int32 \<Rightarrow> 'w \<Rightarrow> 'w" where
  "delete_claims 0 sv namespace stsName i w = w"
| "delete_claims (Suc n) sv namespace stsName i w =
     (let pvcName = ''data-'' @ stsName @ ''-'' @ show_int i
      in case s_get_pvc sv namespace pvcName w of
           (Some _, w1) \<Rightarrow> w1
         | (None, w1) \<Rightarrow>
             delete_claims n sv namespace stsName (wrap32 (i + 1)) (snd (s_delete_pvc sv namespace pvcName w1)))"

definition cleanupOrphanedPVCs :: "'w services \<Rightarrow> CloudberryCluster \<Rightarrow> int32 \<Rightarrow> 'w \<Rightarrow> 'w" where
  "cleanupOrphanedPVCs sv cluster newCount w =
     fold (\<lambda>component. delete_claims 4294967296 sv (CC_Namespace cluster)
             (SanitizeK8sName (CC_Name cluster @ ''-'' @ component)) newCount)
       [ComponentSegmentPrimary, ComponentSegmentMirror] w"

subsection \<open>Ending an operation\<close>

definition cleanupScaleAnnotations :: "'w reconciler \<Rightarrow> CloudberryCluster \<Rightarrow> bool \<Rightarrow> 'w \<Rightarrow> 'w" where
  "cleanupScaleAnnotations r cluster0 isScaleIn w =
     (let (cluster1, w1) = dropAnnotation r cluster0 AnnotationScaleStarted w;
          (cluster2, w2) = (if isScaleIn \<and> annotation cluster1 AnnotationConfirmScaleIn = ''true''
                            then dropAnnotation r cluster1 AnnotationConfirmScaleIn w1 else (cluster1, w1))
      in if CC_Annotations cluster2 annotationScaleInState \<noteq> None
         then snd (dropAnnotation r cluster2 annotationScaleInState w2) else w2)"

definition finaliseScaleIn :: "'w reconciler \<Rightarrow> 'w services \<Rightarrow> CloudberryCluster \<Rightarrow> 'w \<Rightarrow> 'w" where
  "finaliseScaleIn r sv cluster w =
     (let count = Seg_Count (Spec_Segments (CC_Spec cluster));
          w1 = (if Spec_DeletionPolicy (CC_Spec cluster) = DeletionPolicyDelete
                then cleanupOrphanedPVCs sv cluster count w else w)
      in k_event (r_client r) cluster ''ScaleInCompleted'' (''Scale-in completed, segments: '' @ show_int count) w1)"

definition completeScaleOperation :: "'w reconciler \<Rightarrow> 'w services \<Rightarrow> CloudberryCluster \<Rightarrow> 'w handler" where
  "completeScaleOperation r sv cluster0 w =
     (let count = Seg_Count (Spec_Segments (CC_Spec cluster0));
          isScaleIn = (count < St_SegmentsTotal (CC_Status cluster0));
          cluster1 = with_phase ClusterPhaseRunning cluster0;
          cluster2 = cluster1\<lparr>CC_Status := (CC_Status cluster1)\<lparr>St_SegmentsReady := count\<rparr>\<rparr>;
          cluster3 = with_condition (k_now (r_client r) w) ConditionDataRedistribution ConditionTrue ''Completed''
            ''Data redistribution completed'' cluster2;
          w1 = (if isScaleIn then finaliseScaleIn r sv cluster3 w
                else k_event (r_client r) cluster3 ''ScaleOutCompleted'' (''Scale-out completed, segments: '' @ show_int count) w);
          cluster4 = cluster3\<lparr>CC_Status := (CC_Status cluster3)\<lparr>St_SegmentsTotal := count\<rparr>\<rparr>
      in case k_update_status (r_client r) cluster4 w1 of
           (Inl e, w2) \<Rightarrow> (Inl (Ctrl_Error ''updating status after scale completion'' e), w2)
         | (Inr cluster5, w2) \<Rightarrow> (Inr requeueAfterImmediate, cleanupScaleAnnotations r cluster5 isScaleIn w2))"

definition failed_range :: "string \<Rightarrow> string \<Rightarrow> string \<Rightarrow> int32 \<Rightarrow> int32 \<Rightarrow> FailedSegment list" where
  "failed_range stsName role status lo hi =
     map (\<lambda>i. \<lparr>FS_ContentID = i, FS_Hostname = stsName @ ''-'' @ show_int i, FS_Role = role, FS_Status = status\<rparr>)
       [lo..hi - 1]"

text \<open>The segments of a StatefulSet that are not ready, by count; an unreadable one adds none.\<close>

definition unready_segments ::
  "'w reconciler \<Rightarrow> string \<Rightarrow> string \<Rightarrow> string \<Rightarrow> 'w \<Rightarrow> FailedSegment list \<times> 'w" where
  "unready_segments r namespace stsName role w =
     (case k_get_sts (r_client r) namespace stsName w of
        (Inl _, w1) \<Rightarrow> ([], w1)
      | (Inr sts, w1) \<Rightarrow>
          ((case Sts_Replicas sts of None \<Rightarrow> []
            | Some n \<Rightarrow> failed_range stsName role ''NotReady'' (Sts_ReadyReplicas sts) n), w1))"

definition handleScaleFailure :: "'w reconciler \<Rightarrow> 'w services \<Rightarrow> CloudberryCluster \<Rightarrow> 'w handler" where
  "handleScaleFailure r sv cluster0 w =
     (let n = CC_Name cluster0; ns = CC_Namespace cluster0;
          (primaries, w1) = unready_segments r ns (SegmentPrimaryName n) ''primary'' w;
          (mirrors, w2) = (if mirroring_on cluster0 then unready_segments r ns (SegmentMirrorName n) ''mirror'' w1 else ([], w1));
          failedSegments = primaries @ mirrors;
          cluster1 = with_condition (k_now (r_client r) w2) ConditionScaleOutFailed ConditionTrue ''SegmentsNotReady''
            (''Scale-out failed: '' @ show_nat (length failedSegments) @ '' segments not ready after '' @
              Duration_String (opTimeout r scaleTimeout))
            (cluster0\<lparr>CC_Status := (CC_Status cluster0)\<lparr>St_FailedSegments := failedSegments\<rparr>\<rparr>)
      in case k_update_status (r_client r) cluster1 w2 of
           (Inl e, w3) \<Rightarrow> (Inl (Ctrl_Error ''updating scale failure status'' e), w3)
         | (Inr cluster2, w3) \<Rightarrow>
             (let w4 = k_event (r_client r) cluster2 ''ScaleOutFailed''
                    (''Scale-out failed: '' @ show_nat (length failedSegments) @ '' segments not ready after timeout'') w3
              in (Inr (requeueDefault r), snd (dropAnnotation r cluster2 AnnotationScaleStarted w4))))"

subsection \<open>Scale-in\<close>

definition advanceScaleInPhase ::
  "'w reconciler \<Rightarrow> 'w services \<Rightarrow> CloudberryCluster \<Rightarrow> scaleInStateData \<Rightarrow> string \<Rightarrow> 'w handler" where
  "advanceScaleInPhase r sv cluster state nextPhase w =
     (case setAnnotationPatch r cluster annotationScaleInState
             (marshal_scaleInState (state\<lparr>SI_Phase := nextPhase, SI_PhaseStartedAt := now_text r sv w\<rparr>)) w of
        (Inl e, w1) \<Rightarrow> (Inl (Ctrl_Error ''updating scale-in-state annotation'' e), w1)
      | (Inr _, w1) \<Rightarrow> (Inr requeueAfterImmediate, w1))"

definition redistributeBeforeScaleIn ::
  "'w reconciler \<Rightarrow> 'w services \<Rightarrow> CloudberryCluster \<Rightarrow> scaleInStateData \<Rightarrow> 'w \<Rightarrow> (string + CloudberryCluster) \<times> 'w" where
  "redistributeBeforeScaleIn r sv cluster state w =
     (case r_dbFactory r of None \<Rightarrow> (Inr cluster, w)
      | Some db \<Rightarrow>
          (case d_new db cluster w of
             (Inl e, w1) \<Rightarrow> (Inl (''creating db client for scale-in redistribution: '' @ e), w1)
           | (Inr _, w1) \<Rightarrow>
               (case s_redistribute_before_scale_in sv (SI_NewCount state) w1 of
                  (Some e, w2) \<Rightarrow> (Inl (''redistributing data before scale-in: '' @ e), d_close db w2)
                | (None, w2) \<Rightarrow>
                    (let cluster1 = with_condition (k_now (r_client r) w2) ConditionDataRedistribution ConditionTrue
                           ''ScaleInRedistributed'' ''Data redistributed off segments being removed'' cluster;
                         (cluster2, w3) = (case patchStatus r cluster1 w2 of (Inl _, w3) \<Rightarrow> (cluster1, w3) | (Inr c, w3) \<Rightarrow> (c, w3));
                         w4 = k_event (r_client r) cluster2 ''ScaleInRedistributed''
                           (''Data redistributed off segments '' @ show_int (SI_NewCount state) @ ''-'' @
                            show_int (wrap32 (SI_OldCount state - 1))) w3
                     in (Inr cluster2, d_close db w4)))))"

definition deregisterSegments ::
  "'w reconciler \<Rightarrow> 'w services \<Rightarrow> CloudberryCluster \<Rightarrow> scaleInStateData \<Rightarrow> 'w \<Rightarrow> string option \<times> 'w" where
  "deregisterSegments r sv cluster state w =
     (case r_dbFactory r of None \<Rightarrow> (None, w)
      | Some db \<Rightarrow>
          (case d_new db cluster w of
             (Inl e, w1) \<Rightarrow> (Some (''creating db client for segment deregistration: '' @ e), w1)
           | (Inr _, w1) \<Rightarrow>
               (case s_deregister_segments sv (SI_NewCount state) w1 of
                  (Some e, w2) \<Rightarrow> (Some (''deregistering segments: '' @ e), d_close db w2)
                | (None, w2) \<Rightarrow>
                    (None, d_close db (k_event (r_client r) cluster ''SegmentsDeregistered''
                       (''Deregistered segments with content >= '' @ show_int (SI_NewCount state) @
                        '' from gp_segment_configuration'') w2)))))"

definition processScaleInRedistributing ::
  "'w reconciler \<Rightarrow> 'w services \<Rightarrow> CloudberryCluster \<Rightarrow> scaleInStateData \<Rightarrow> 'w handler" where
  "processScaleInRedistributing r sv cluster state w =
     (case redistributeBeforeScaleIn r sv cluster state w of
        (Inl _, w1) \<Rightarrow> (Inr requeueAfterError, w1)
      | (Inr c, w1) \<Rightarrow> advanceScaleInPhase r sv c state scaleInPhaseDeregistering w1)"

definition processScaleInDeregistering ::
  "'w reconciler \<Rightarrow> 'w services \<Rightarrow> CloudberryCluster \<Rightarrow> scaleInStateData \<Rightarrow> 'w handler" where
  "processScaleInDeregistering r sv cluster state w =
     (case deregisterSegments r sv cluster state w of
        (Some _, w1) \<Rightarrow> (Inr requeueAfterError, w1)
      | (None, w1) \<Rightarrow>
          advanceScaleInPhase r sv cluster state
            (if mirroring_on cluster then scaleInPhaseScalingMirrors else scaleInPhaseScalingPrimaries) w1)"

text \<open>The two scale-down phases: lower the replicas, wait, advance.\<close>

definition scale_in_sts ::
  "'w reconciler \<Rightarrow> 'w services \<Rightarrow> CloudberryCluster \<Rightarrow> scaleInStateData \<Rightarrow> string \<Rightarrow> string \<Rightarrow> string \<Rightarrow> 'w handler" where
  "scale_in_sts r sv cluster state stsName errCtx nextPhase w =
     (case scaleStatefulSet r (CC_Namespace cluster) stsName (SI_NewCount state) w of
        (Some e, w1) \<Rightarrow> (Inl (wrap_error errCtx e), w1)
      | (None, w1) \<Rightarrow>
          (case isStatefulSetAtScale r (CC_Namespace cluster) stsName (SI_NewCount state) w1 of
             ((ready, _), w2) \<Rightarrow>
               if \<not> ready then (Inr requeueAfterStopping, w2)
               else advanceScaleInPhase r sv cluster state nextPhase w2))"

definition processScaleInScalingMirrors ::
  "'w reconciler \<Rightarrow> 'w services \<Rightarrow> CloudberryCluster \<Rightarrow> scaleInStateData \<Rightarrow> 'w handler" where
  "processScaleInScalingMirrors r sv cluster state =
     scale_in_sts r sv cluster state (SegmentMirrorName (CC_Name cluster)) ''scaling down mirrors'' scaleInPhaseScalingPrimaries"

definition processScaleInScalingPrimaries ::
  "'w reconciler \<Rightarrow> 'w services \<Rightarrow> CloudberryCluster \<Rightarrow> scaleInStateData \<Rightarrow> 'w handler" where
  "processScaleInScalingPrimaries r sv cluster state =
     scale_in_sts r sv cluster state (SegmentPrimaryName (CC_Name cluster)) ''scaling down primaries'' scaleInPhaseCleanup"

definition processScaleInCleanup ::
  "'w reconciler \<Rightarrow> 'w services \<Rightarrow> CloudberryCluster \<Rightarrow> scaleInStateData \<Rightarrow> 'w handler" where
  "processScaleInCleanup r sv cluster state w =
     advanceScaleInPhase r sv cluster state scaleInPhaseCompleted
       (if Spec_DeletionPolicy (CC_Spec cluster) = DeletionPolicyDelete
        then cleanupOrphanedPVCs sv cluster (SI_NewCount state) w else w)"

definition processScaleInCompleted :: "'w reconciler \<Rightarrow> 'w services \<Rightarrow> CloudberryCluster \<Rightarrow> 'w handler" where
  "processScaleInCompleted r sv cluster w =
     (case dropAnnotation r cluster annotationScaleInState w of (c, w1) \<Rightarrow> completeScaleOperation r sv c w1)"

definition fallback_scale_check :: "'w reconciler \<Rightarrow> 'w services \<Rightarrow> CloudberryCluster \<Rightarrow> 'w handler" where
  "fallback_scale_check r sv cluster w =
     (case allSegmentStatefulSetsReady r cluster w of
        (True, w1) \<Rightarrow> completeScaleOperation r sv cluster w1
      | (False, w1) \<Rightarrow> (Inr requeueAfterStopping, w1))"

definition checkScaleInPhases :: "'w reconciler \<Rightarrow> 'w services \<Rightarrow> CloudberryCluster \<Rightarrow> string \<Rightarrow> 'w handler" where
  "checkScaleInPhases r sv cluster stateJSON w =
     (case unmarshal_scaleInState stateJSON of
        None \<Rightarrow> fallback_scale_check r sv cluster w
      | Some state \<Rightarrow>
          if SI_Phase state = scaleInPhaseRedistributing then processScaleInRedistributing r sv cluster state w
          else if SI_Phase state = scaleInPhaseDeregistering then processScaleInDeregistering r sv cluster state w
          else if SI_Phase state = scaleInPhaseScalingMirrors then processScaleInScalingMirrors r sv cluster state w
          else if SI_Phase state = scaleInPhaseScalingPrimaries then processScaleInScalingPrimaries r sv cluster state w
          else if SI_Phase state = scaleInPhaseCleanup then processScaleInCleanup r sv cluster state w
          else processScaleInCompleted r sv cluster w)"

subsection \<open>Scale-out\<close>

definition coordinatorWedgeSignatures :: "string list" where
  "coordinatorWedgeSignatures =
     [''the database system is shutting down'', ''the database system is starting up'',
      ''the database system is in recovery mode'', ''cannot connect now'', ''57p03'']"

text \<open>The causes passed here are texts, so that only the textual test of the source applies.\<close>

definition IsCoordinatorShuttingDown :: "string \<Rightarrow> bool" where
  "IsCoordinatorShuttingDown msg = list_ex (Contains (ToLower msg)) coordinatorWedgeSignatures"

text \<open>The answer is \<open>None\<close> when the error is not that of a wedged coordinator.\<close>

definition recoverWedgedCoordinator ::
  "'w reconciler \<Rightarrow> 'w services \<Rightarrow> CloudberryCluster \<Rightarrow> string \<Rightarrow> string \<Rightarrow> 'w \<Rightarrow> (int \<times> 'w) option" where
  "recoverWedgedCoordinator r sv cluster phase cause w =
     (if \<not> IsCoordinatorShuttingDown cause then None
      else (let podName = CoordinatorPodName (CC_Name cluster)
            in case s_get_pod sv (CC_Namespace cluster) podName w of
                 (Inl NotFound, w1) \<Rightarrow> Some (requeueAfterCoordinatorRecovery, w1)
               | (Inl _, w1) \<Rightarrow> Some (requeueAfterError, w1)
               | (Inr pod, w1) \<Rightarrow>
                   (case s_delete_pod sv (CC_Namespace cluster) podName w1 of
                      (err, w2) \<Rightarrow>
                        if err \<noteq> None \<and> err \<noteq> Some NotFound then Some (requeueAfterError, w2)
                        else Some (requeueAfterCoordinatorRecovery,
                               k_event (r_client r) cluster ''CoordinatorRecovered''
                                 (''Deleted wedged coordinator pod '' @ podName @
                                  '' (shutting-down/57P03) during scale '' @ phase @ '' to recover'') w2))))"

definition persistScaleState ::
  "'w reconciler \<Rightarrow> CloudberryCluster \<Rightarrow> scaleStateData \<Rightarrow> 'w \<Rightarrow> (api_error + CloudberryCluster) \<times> 'w" where
  "persistScaleState r cluster state = setAnnotationPatch r cluster annotationScaleState (marshal_scaleState state)"

definition advanceScalePhase ::
  "'w reconciler \<Rightarrow> 'w services \<Rightarrow> CloudberryCluster \<Rightarrow> scaleStateData \<Rightarrow> string \<Rightarrow> 'w handler" where
  "advanceScalePhase r sv cluster state nextPhase w =
     (case setAnnotationPatch r cluster annotationScaleState
             (marshal_scaleState (state\<lparr>SS_Phase := nextPhase, SS_PhaseStartedAt := now_text r sv w\<rparr>)) w of
        (Inl e, w1) \<Rightarrow> (Inl (Ctrl_Error ''updating scale-state annotation'' e), w1)
      | (Inr _, w1) \<Rightarrow> (Inr requeueAfterImmediate, w1))"

definition failScaleOutRedistribution ::
  "'w reconciler \<Rightarrow> CloudberryCluster \<Rightarrow> scaleStateData \<Rightarrow> string \<Rightarrow> 'w handler" where
  "failScaleOutRedistribution r cluster0 state cause w =
     (let failedSegments = failed_range (SegmentPrimaryName (CC_Name cluster0)) ''primary'' ''RedistributionFailed''
            (SS_OldCount state) (SS_NewCount state);
          cluster1 = with_phase ClusterPhaseFailed cluster0;
          cluster2 = cluster1\<lparr>CC_Status := (CC_Status cluster1)\<lparr>St_FailedSegments := failedSegments\<rparr>\<rparr>;
          cluster3 = with_condition (k_now (r_client r) w) ConditionScaleOutFailed ConditionTrue ''RedistributionFailed''
            (''Scale-out redistribution failed after '' @ show_int (SS_RedistributeAttempts state) @ '' attempts: '' @ cause)
            cluster2;
          (cluster4, w1) = (case k_update_status (r_client r) cluster3 w of (Inl _, w1) \<Rightarrow> (cluster3, w1) | (Inr c, w1) \<Rightarrow> (c, w1));
          w2 = k_event (r_client r) cluster4 ''ScaleOutFailed''
            (''Scale-out failed: data redistribution did not succeed after '' @ show_int (SS_RedistributeAttempts state) @
             '' attempts ('' @ cause @ '')'') w1;
          (cluster5, w3) = dropAnnotation r cluster4 annotationScaleState w2
      in (Inr 0, snd (dropAnnotation r cluster5 AnnotationScaleStarted w3)))"

definition gpexpandJobSuperseded :: "Job \<Rightarrow> Job \<Rightarrow> string option" where
  "gpexpandJobSuperseded existing fresh =
     (if jobHasFailedCondition existing \<or> KJob_Failed existing > 0 then Some ''previous run failed''
      else let hash = (\<lambda>j. case KJob_Annotations j AnnotationGpexpandScriptHash of None \<Rightarrow> [] | Some h \<Rightarrow> h)
           in if hash existing \<noteq> hash fresh then Some ''script changed (operator upgrade)'' else None)"

text \<open>The answer is \<open>None\<close> when the caller may create the Job, otherwise the delay to requeue after.\<close>

definition ensureFreshGpexpandJob ::
  "'w reconciler \<Rightarrow> 'w services \<Rightarrow> CloudberryCluster \<Rightarrow> Job \<Rightarrow> 'w \<Rightarrow> int option \<times> 'w" where
  "ensureFreshGpexpandJob r sv cluster fresh w =
     (case s_get_job sv (KJob_Namespace fresh) (KJob_Name fresh) w of
        (Inl NotFound, w1) \<Rightarrow> (None, w1)
      | (Inl _, w1) \<Rightarrow> (Some requeueAfterError, w1)
      | (Inr existing, w1) \<Rightarrow>
          if KJob_Deleting existing then (Some requeueAfterStopping, w1)
          else case gpexpandJobSuperseded existing fresh of
            None \<Rightarrow> (None, w1)
          | Some reason \<Rightarrow>
              (let w2 = k_event (r_client r) cluster ''GpexpandJobRecreated''
                     (''Deleting superseded gpexpand job '' @ KJob_Name existing @ '' ('' @ reason @
                      '') and recreating a fresh one'') w1
               in case s_delete_job sv (KJob_Namespace existing) (KJob_Name existing) True w2 of
                    (err, w3) \<Rightarrow>
                      if err \<noteq> None \<and> err \<noteq> Some NotFound then (Some requeueAfterError, w3)
                      else (Some requeueAfterStopping, w3)))"

definition startGpexpandJob ::
  "'w reconciler \<Rightarrow> 'w services \<Rightarrow> CloudberryCluster \<Rightarrow> scaleStateData \<Rightarrow> 'w handler" where
  "startGpexpandJob r sv cluster state w =
     (case s_build_gpexpand_job sv cluster (SS_OldCount state) (SS_NewCount state) (SS_StartedAt state) of
        None \<Rightarrow> failScaleOutRedistribution r cluster state ''gpexpand job could not be built'' w
      | Some job \<Rightarrow>
          (case ensureFreshGpexpandJob r sv cluster job w of
             (Some delay, w1) \<Rightarrow> (Inr delay, w1)
           | (None, w1) \<Rightarrow>
               (case s_create_job sv job w1 of
                  (err, w2) \<Rightarrow>
                    if err \<noteq> None \<and> err \<noteq> Some AlreadyExists then (Inr requeueAfterError, w2)
                    else (case persistScaleState r cluster (state\<lparr>SS_ExpandJobName := KJob_Name job\<rparr>) w2 of
                            (Inl _, w3) \<Rightarrow> (Inr requeueAfterError, w3)
                          | (Inr c, w3) \<Rightarrow>
                              (Inr requeueAfterGpexpandPoll,
                               k_event (r_client r) c ''GpexpandStarted''
                                 (''Started gpexpand job '' @ KJob_Name job @ '' to add '' @
                                  show_int (wrap32 (SS_NewCount state - SS_OldCount state)) @ '' new segment(s)'') w3)))))"

text \<open>The first non-empty message of a terminated container, in the order of the pods and containers.\<close>

definition gpexpandFailureMessage :: "'w services \<Rightarrow> CloudberryCluster \<Rightarrow> Job \<Rightarrow> 'w \<Rightarrow> string \<times> 'w" where
  "gpexpandFailureMessage sv cluster job w =
     (case s_list_pods sv (CC_Namespace cluster) [(''job-name'', KJob_Name job)] w of
        (Inl _, w1) \<Rightarrow> (''gpexpand job failed (pod message unavailable)'', w1)
      | (Inr pods, w1) \<Rightarrow>
          ((case filter (\<lambda>m. m \<noteq> None \<and> m \<noteq> Some []) (concat (map Pod_Terminated pods)) of
              Some m # _ \<Rightarrow> TrimSpace m
            | _ \<Rightarrow> ''gpexpand job failed (no terminated container message)''), w1))"

definition handleGpexpandJobFailure ::
  "'w reconciler \<Rightarrow> 'w services \<Rightarrow> CloudberryCluster \<Rightarrow> scaleStateData \<Rightarrow> Job \<Rightarrow> 'w handler" where
  "handleGpexpandJobFailure r sv cluster state job w =
     (case gpexpandFailureMessage sv cluster job w of
        (msg, w1) \<Rightarrow>
          (let cause = ''gpexpand job '' @ KJob_Name job @ '' failed: '' @ msg
           in case recoverWedgedCoordinator r sv cluster scalePhaseExpanding cause w1 of
                Some (delay, w2) \<Rightarrow> (Inr delay, w2)
              | None \<Rightarrow>
                  (let state1 = state\<lparr>SS_RedistributeAttempts := wrap32 (SS_RedistributeAttempts state + 1)\<rparr>
                   in if SS_RedistributeAttempts state1 \<ge> maxRedistributeAttempts
                      then failScaleOutRedistribution r cluster state1 cause w1
                      else (let w2 = snd (s_delete_job sv (KJob_Namespace job) (KJob_Name job) False w1);
                                (_, w3) = persistScaleState r cluster (state1\<lparr>SS_ExpandJobName := []\<rparr>) w2
                            in (Inr requeueAfterError, w3)))))"

definition finalizeGpexpandSchema :: "'w reconciler \<Rightarrow> 'w services \<Rightarrow> CloudberryCluster \<Rightarrow> 'w \<Rightarrow> 'w" where
  "finalizeGpexpandSchema r sv cluster w =
     (case r_dbFactory r of None \<Rightarrow> w
      | Some db \<Rightarrow>
          (case d_new db cluster w of
             (Inl _, w1) \<Rightarrow> w1
           | (Inr _, w1) \<Rightarrow>
               (case s_gpexpand_schema_present sv w1 of
                  (Inl _, w2) \<Rightarrow> d_close db w2
                | (Inr False, w2) \<Rightarrow> d_close db w2
                | (Inr True, w2) \<Rightarrow>
                    (case s_finalize_gpexpand sv w2 of
                       (Some _, w3) \<Rightarrow> d_close db w3
                     | (None, w3) \<Rightarrow>
                         d_close db (k_event (r_client r) cluster ''GpexpandFinalized''
                           ''Dropped lingering gpexpand expansion schema to unblock subsequent backups'' w3)))))"

definition processScaleOutExpanding ::
  "'w reconciler \<Rightarrow> 'w services \<Rightarrow> CloudberryCluster \<Rightarrow> scaleStateData \<Rightarrow> 'w handler" where
  "processScaleOutExpanding r sv cluster state w =
     (if SS_ExpandJobName state = [] then startGpexpandJob r sv cluster state w
      else case s_get_job sv (CC_Namespace cluster) (SS_ExpandJobName state) w of
        (Inl NotFound, w1) \<Rightarrow> startGpexpandJob r sv cluster (state\<lparr>SS_ExpandJobName := []\<rparr>) w1
      | (Inl e, w1) \<Rightarrow> (Inl (Ctrl_Error (''fetching gpexpand job '' @ SS_ExpandJobName state) e), w1)
      | (Inr job, w1) \<Rightarrow>
          if KJob_Succeeded job > 0 then
            advanceScalePhase r sv cluster state scalePhaseCompleted
              (finalizeGpexpandSchema r sv cluster
                (k_event (r_client r) cluster ''SegmentsExpanded''
                  (''gpexpand added and redistributed '' @ show_int (wrap32 (SS_NewCount state - SS_OldCount state)) @
                   '' new segment(s)'') w1))
          else if jobHasFailedCondition job \<or> KJob_Failed job > 0
          then handleGpexpandJobFailure r sv cluster state job w1
          else (Inr requeueAfterGpexpandPoll, w1))"

subsection \<open>The gates before gpexpand\<close>

text \<open>The last pod of a name in the list decides whether it runs, as in the map the source fills.\<close>

definition pod_running :: "Pod list \<Rightarrow> string \<Rightarrow> bool" where
  "pod_running pods name =
     (case filter (\<lambda>p. Pod_Name p = name) (rev pods) of [] \<Rightarrow> False | p # _ \<Rightarrow> Pod_Phase p = ''Running'')"

definition segmentPodsRunning ::
  "'w services \<Rightarrow> CloudberryCluster \<Rightarrow> string \<Rightarrow> int32 \<Rightarrow> int32 \<Rightarrow> 'w \<Rightarrow> bool \<times> 'w" where
  "segmentPodsRunning sv cluster component oldCount newCount w =
     (case s_list_pods sv (CC_Namespace cluster) (CommonLabels (CC_Name cluster) component) w of
        (Inl _, w1) \<Rightarrow> (False, w1)
      | (Inr pods, w1) \<Rightarrow>
          (let stsName = (if component = ComponentSegmentMirror then SegmentMirrorName (CC_Name cluster)
                          else SegmentPrimaryName (CC_Name cluster))
           in (list_all (\<lambda>ordinal. pod_running pods (stsName @ ''-'' @ show_int ordinal)) [oldCount..newCount - 1], w1)))"

definition scaleOutSegmentPodsProvisioned ::
  "'w reconciler \<Rightarrow> 'w services \<Rightarrow> CloudberryCluster \<Rightarrow> int32 \<Rightarrow> int32 \<Rightarrow> 'w \<Rightarrow> bool \<times> 'w" where
  "scaleOutSegmentPodsProvisioned r sv cluster oldCount newCount w =
     (case isStatefulSetAtScale r (CC_Namespace cluster) (SegmentPrimaryName (CC_Name cluster)) oldCount w of
        ((ready, _), w1) \<Rightarrow>
          if \<not> ready then (False, w1)
          else (case (if mirroring_on cluster
                      then isStatefulSetAtScale r (CC_Namespace cluster) (SegmentMirrorName (CC_Name cluster)) oldCount w1
                      else ((True, None), w1)) of
                  ((ready, _), w2) \<Rightarrow>
                    if \<not> ready then (False, w2)
                    else (case segmentPodsRunning sv cluster ComponentSegmentPrimary oldCount newCount w2 of
                            (False, w3) \<Rightarrow> (False, w3)
                          | (True, w3) \<Rightarrow>
                              if mirroring_on cluster
                              then segmentPodsRunning sv cluster ComponentSegmentMirror oldCount newCount w3
                              else (True, w3))))"

definition statefulSetFullyRolled :: "StatefulSetFull \<Rightarrow> bool" where
  "statefulSetFullyRolled sts =
     (case Sts_Replicas sts of None \<Rightarrow> False
      | Some desired \<Rightarrow>
          desired \<noteq> 0 \<and> Sts_ObservedGeneration sts = Sts_Generation sts \<and> Sts_ReadyReplicas sts = desired \<and>
          Sts_UpdatedReplicas sts = desired \<and> Sts_StatusReplicas sts = desired \<and>
          Sts_CurrentRevision sts = Sts_UpdateRevision sts)"

text \<open>\<^verbatim>\<open>strings.TrimSuffix\<close>.\<close>

definition TrimSuffix :: "string \<Rightarrow> string \<Rightarrow> string" where
  "TrimSuffix s suffix =
     (if length suffix \<le> length s \<and> drop (length s - length suffix) s = suffix
      then take (length s - length suffix) s else s)"

definition clusterNameFromComponentSts :: "string \<Rightarrow> string \<Rightarrow> string" where
  "clusterNameFromComponentSts stsName component =
     TrimSuffix stsName (if component = ComponentStandby then ''-coordinator-standby'' else ''-coordinator'')"

definition componentPodStable :: "'w services \<Rightarrow> string \<Rightarrow> string \<Rightarrow> string \<Rightarrow> 'w \<Rightarrow> bool \<times> 'w" where
  "componentPodStable sv namespace stsName component w =
     (case s_list_pods sv namespace (CommonLabels (clusterNameFromComponentSts stsName component) component) w of
        (Inl _, w1) \<Rightarrow> (False, w1)
      | (Inr pods, w1) \<Rightarrow>
          ((case filter (\<lambda>p. Pod_Name p = stsName @ ''-0'') pods of
              [] \<Rightarrow> False
            | pod # _ \<Rightarrow> \<not> Pod_Deleting pod \<and> Pod_Phase pod = ''Running'' \<and> podIsReady pod), w1))"

definition statefulSetStable :: "'w services \<Rightarrow> string \<Rightarrow> string \<Rightarrow> string \<Rightarrow> 'w \<Rightarrow> bool \<times> 'w" where
  "statefulSetStable sv namespace name component w =
     (case s_get_sts sv namespace name w of
        (Inl _, w1) \<Rightarrow> (False, w1)
      | (Inr sts, w1) \<Rightarrow>
          if \<not> statefulSetFullyRolled sts then (False, w1) else componentPodStable sv namespace name component w1)"

definition coordinatorStableForGpexpand :: "'w services \<Rightarrow> CloudberryCluster \<Rightarrow> 'w \<Rightarrow> bool \<times> 'w" where
  "coordinatorStableForGpexpand sv cluster w =
     (case statefulSetStable sv (CC_Namespace cluster) (CoordinatorName (CC_Name cluster)) ComponentCoordinator w of
        (False, w1) \<Rightarrow> (False, w1)
      | (True, w1) \<Rightarrow>
          (case Spec_Standby (CC_Spec cluster) of
             Some s \<Rightarrow>
               if Standby_Enabled s
               then statefulSetStable sv (CC_Namespace cluster) (StandbyName (CC_Name cluster)) ComponentStandby w1
               else (True, w1)
           | None \<Rightarrow> (True, w1)))"

subsection \<open>A pass over a scaling cluster\<close>

definition finish_scale_out :: "'w reconciler \<Rightarrow> 'w services \<Rightarrow> CloudberryCluster \<Rightarrow> 'w handler" where
  "finish_scale_out r sv cluster w =
     (case dropAnnotation r cluster annotationScaleState w of (c, w1) \<Rightarrow> completeScaleOperation r sv c w1)"

definition checkScaleOutPhases :: "'w reconciler \<Rightarrow> 'w services \<Rightarrow> CloudberryCluster \<Rightarrow> string \<Rightarrow> 'w handler" where
  "checkScaleOutPhases r sv cluster stateJSON w =
     (case unmarshal_scaleState stateJSON of
        None \<Rightarrow> fallback_scale_check r sv cluster w
      | Some state \<Rightarrow>
          if SS_Phase state = scalePhaseScalingSTS then
            (case scaleOutSegmentPodsProvisioned r sv cluster (SS_OldCount state) (SS_NewCount state) w of
               (False, w1) \<Rightarrow> (Inr requeueAfterStopping, w1)
             | (True, w1) \<Rightarrow>
                 (case coordinatorStableForGpexpand sv cluster w1 of
                    (False, w2) \<Rightarrow> (Inr requeueAfterStopping, w2)
                  | (True, w2) \<Rightarrow> advanceScalePhase r sv cluster state scalePhaseExpanding w2))
          else if SS_Phase state \<in> {scalePhaseExpanding, scalePhaseRegistering, scalePhaseRedistributing}
          then processScaleOutExpanding r sv cluster state w
          else finish_scale_out r sv cluster w)"

definition checkScaleProgress :: "'w reconciler \<Rightarrow> 'w services \<Rightarrow> CloudberryCluster \<Rightarrow> 'w handler" where
  "checkScaleProgress r sv cluster w =
     (let startedStr = annotation cluster AnnotationScaleStarted;
          scaleInJSON = annotation cluster annotationScaleInState;
          stateJSON = annotation cluster annotationScaleState
      in if startedStr \<noteq> [] \<and> timed_out r startedStr (opTimeout r scaleTimeout) w
         then handleScaleFailure r sv cluster w
         else if scaleInJSON \<noteq> [] then checkScaleInPhases r sv cluster scaleInJSON w
         else if stateJSON \<noteq> [] then checkScaleOutPhases r sv cluster stateJSON w
         else fallback_scale_check r sv cluster w)"

end
