(* ===== verification/ApiServer.thy ===== *)
theory ApiServer
  imports Workloads
begin

text \<open>
  A reference API server: what the Kubernetes API, the event recorder, the clock and the database
  answer when nothing fails and nobody else writes, as functions on a store of objects. It gives
  the operations of \<open>kube_client\<close>, \<open>db_client\<close> and \<open>services\<close> their documented behaviour (reads
  return what is stored, an update keeps the status subresource, a merge patch changes the fields
  it carries), records the operations that move data in a log, and lets the database answer any
  error the store prescribes. The end-to-end properties of the long-running operations are stated
  over it; it satisfies the contract \<open>healthy_api\<close> of the lifecycle theorems.
\<close>

section \<open>Model\<close>

datatype operation =
    Op_Annotation string "string option"
  | Op_Scale string "int32 option"
  | Op_Apply string "int32 option"
  | Op_Redistribute int32
  | Op_Deregister int32
  | Op_Job string
  | Op_Delete_Job string
  | Op_Delete_Pod string
  | Op_Delete_Claim string
  | Op_Delete_Sts string
  | Op_Init_Mirrors string int32
  | Op_Replication string
  | Op_Trigger_FTS
  | Op_Rebalance string string string
  | Op_Promote

record store =
  srv_cluster :: "string \<Rightarrow> string \<Rightarrow> CloudberryCluster option"
  srv_sts :: "string \<Rightarrow> string \<Rightarrow> StatefulSetFull option"
  srv_jobs :: "string \<Rightarrow> string \<Rightarrow> Job option"
  srv_pods :: "string \<Rightarrow> (string_map \<times> Pod) list"
  srv_claims :: "string \<Rightarrow> (string_map \<times> string) list"
  srv_db_error :: "string \<Rightarrow> string option"
  srv_mirror_sync :: "bool list"
  srv_log :: "operation list"
  srv_now :: int

definition put2 :: "string \<Rightarrow> string \<Rightarrow> 'a option \<Rightarrow> (string \<Rightarrow> string \<Rightarrow> 'a option) \<Rightarrow> string \<Rightarrow> string \<Rightarrow> 'a option" where
  "put2 ns n v m = m(ns := (m ns)(n := v))"

definition logged :: "operation \<Rightarrow> store \<Rightarrow> store" where
  "logged e w = w\<lparr>srv_log := srv_log w @ [e]\<rparr>"

subsection \<open>Status patches\<close>

text \<open>A merge patch leaves a field alone that is missing from it, as a zero one tagged \<^verbatim>\<open>omitempty\<close> is.\<close>

definition keep_zero :: "'a \<Rightarrow> 'a \<Rightarrow> 'a \<Rightarrow> 'a" where
  "keep_zero zero new old = (if new = zero then old else new)"

definition merge_full :: "CloudberryClusterStatus \<Rightarrow> CloudberryClusterStatus \<Rightarrow> CloudberryClusterStatus" where
  "merge_full p st = \<lparr>
     St_Phase = keep_zero [] (St_Phase p) (St_Phase st),
     St_CoordinatorReady = keep_zero False (St_CoordinatorReady p) (St_CoordinatorReady st),
     St_StandbyReady = keep_zero False (St_StandbyReady p) (St_StandbyReady st),
     St_SegmentsReady = keep_zero 0 (St_SegmentsReady p) (St_SegmentsReady st),
     St_SegmentsTotal = keep_zero 0 (St_SegmentsTotal p) (St_SegmentsTotal st),
     St_MirroringStatus = keep_zero [] (St_MirroringStatus p) (St_MirroringStatus st),
     St_ClusterVersion = keep_zero [] (St_ClusterVersion p) (St_ClusterVersion st),
     St_LastReconcileTime = keep_zero None (St_LastReconcileTime p) (St_LastReconcileTime st),
     St_LastConfigChangeTime = keep_zero None (St_LastConfigChangeTime p) (St_LastConfigChangeTime st),
     St_ActiveQueries = keep_zero 0 (St_ActiveQueries p) (St_ActiveQueries st),
     St_QueuedQueries = keep_zero 0 (St_QueuedQueries p) (St_QueuedQueries st),
     St_BlockedQueries = keep_zero 0 (St_BlockedQueries p) (St_BlockedQueries st),
     St_LastBackupTime = keep_zero None (St_LastBackupTime p) (St_LastBackupTime st),
     St_LastBackupStatus = keep_zero [] (St_LastBackupStatus p) (St_LastBackupStatus st),
     St_LastBackupTimestamp = keep_zero [] (St_LastBackupTimestamp p) (St_LastBackupTimestamp st),
     St_LastBackupType = keep_zero [] (St_LastBackupType p) (St_LastBackupType st),
     St_LastBackupJobName = keep_zero [] (St_LastBackupJobName p) (St_LastBackupJobName st),
     St_CronJobName = keep_zero [] (St_CronJobName p) (St_CronJobName st),
     St_BackupHistory = keep_zero [] (St_BackupHistory p) (St_BackupHistory st),
     St_DataLoadingJobs = keep_zero 0 (St_DataLoadingJobs p) (St_DataLoadingJobs st),
     St_DataLoading = keep_zero None (St_DataLoading p) (St_DataLoading st),
     St_DiskUsagePercent = St_DiskUsagePercent p,
     St_RecommendationCount = St_RecommendationCount p,
     St_RecommendationScanTruncated = St_RecommendationScanTruncated p,
     St_LastRecommendationScanTime = keep_zero None (St_LastRecommendationScanTime p) (St_LastRecommendationScanTime st),
     St_ObservedGeneration = keep_zero 0 (St_ObservedGeneration p) (St_ObservedGeneration st),
     St_Conditions = keep_zero [] (St_Conditions p) (St_Conditions st),
     St_FailedSegments = keep_zero [] (St_FailedSegments p) (St_FailedSegments st)\<rparr>"

definition merge_status :: "status_patch \<Rightarrow> CloudberryClusterStatus \<Rightarrow> CloudberryClusterStatus" where
  "merge_status p st =
     (case p of
        Full_Status s \<Rightarrow> merge_full s st
      | Clear_Readiness ph \<Rightarrow> st\<lparr>St_Phase := ph, St_CoordinatorReady := False, St_StandbyReady := False, St_SegmentsReady := 0\<rparr>
      | Set_Readiness c s n \<Rightarrow> st\<lparr>St_CoordinatorReady := c, St_StandbyReady := s, St_SegmentsReady := n\<rparr>)"

subsection \<open>Operations\<close>

definition srv_get_cluster :: "string \<Rightarrow> string \<Rightarrow> store \<Rightarrow> CloudberryCluster option" where
  "srv_get_cluster ns n w = map_option (\<lambda>c. c\<lparr>CC_Namespace := ns, CC_Name := n\<rparr>) (srv_cluster w ns n)"

definition srv_get_sts :: "string \<Rightarrow> string \<Rightarrow> store \<Rightarrow> StatefulSetFull option" where
  "srv_get_sts ns n w = map_option (\<lambda>s. s\<lparr>Sts_Namespace := ns, Sts_Name := n\<rparr>) (srv_sts w ns n)"

definition found :: "'a option \<Rightarrow> api_error + 'a" where
  "found x = (case x of None \<Rightarrow> Inl NotFound | Some v \<Rightarrow> Inr v)"

definition change_cluster ::
  "(CloudberryCluster \<Rightarrow> CloudberryCluster) \<Rightarrow> string \<Rightarrow> string \<Rightarrow> store \<Rightarrow> (api_error + CloudberryCluster) \<times> store" where
  "change_cluster f ns n w =
     (case srv_get_cluster ns n w of
        None \<Rightarrow> (Inl NotFound, w)
      | Some c \<Rightarrow> (Inr (f c), w\<lparr>srv_cluster := put2 ns n (Some (f c)) (srv_cluster w)\<rparr>))"

definition change_sts ::
  "(StatefulSetFull \<Rightarrow> StatefulSetFull) \<Rightarrow> string \<Rightarrow> string \<Rightarrow> store \<Rightarrow> api_error option \<times> store" where
  "change_sts f ns n w =
     (case srv_get_sts ns n w of
        None \<Rightarrow> (Some NotFound, w)
      | Some s \<Rightarrow> (None, w\<lparr>srv_sts := put2 ns n (Some (f s)) (srv_sts w)\<rparr>))"

definition map_snd :: "('b \<Rightarrow> 'c) \<Rightarrow> 'a \<times> 'b \<Rightarrow> 'a \<times> 'c" where
  "map_snd f p = (fst p, f (snd p))"

definition srv_client :: "store kube_client" where
  "srv_client = \<lparr>
     k_get_sts = (\<lambda>ns n w. (found (map_option StatefulSet.truncate (srv_get_sts ns n w)), w)),
     k_update_sts = (\<lambda>s w. map_snd (logged (Op_Scale (Sts_Name s) (Sts_Replicas s)))
       (change_sts (\<lambda>old. old\<lparr>Sts_Replicas := Sts_Replicas s, Sts_Generation := Sts_Generation old + 1\<rparr>)
          (Sts_Namespace s) (Sts_Name s) w)),
     k_get_cluster = (\<lambda>ns n w. (found (srv_get_cluster ns n w), w)),
     k_update_cluster = (\<lambda>d. change_cluster (\<lambda>c. d\<lparr>CC_Status := CC_Status c\<rparr>) (CC_Namespace d) (CC_Name d)),
     k_patch_annotation = (\<lambda>ns n key val w. map_snd (logged (Op_Annotation key val))
       (change_cluster (\<lambda>c. c\<lparr>CC_Annotations := (CC_Annotations c)(key := val)\<rparr>) ns n w)),
     k_patch_status = (\<lambda>ns n p. change_cluster (\<lambda>c. c\<lparr>CC_Status := merge_status p (CC_Status c)\<rparr>) ns n),
     k_update_status = (\<lambda>d. change_cluster (\<lambda>c. c\<lparr>CC_Status := CC_Status d\<rparr>) (CC_Namespace d) (CC_Name d)),
     k_event = (\<lambda>c t m w. w), k_now = srv_now\<rparr>"

definition db_answer :: "string \<Rightarrow> 'a \<Rightarrow> store \<Rightarrow> (string + 'a) \<times> store" where
  "db_answer call v w = ((case srv_db_error w call of None \<Rightarrow> Inr v | Some e \<Rightarrow> Inl e), w)"

definition srv_db :: "store db_client" where
  "srv_db = \<lparr>d_new = (\<lambda>c. db_answer ''NewClient'' ()), d_cancel_all_queries = db_answer ''CancelAllQueries'' 0,
     d_terminate_all_backends = db_answer ''TerminateAllBackends'' 0, d_close = (\<lambda>w. w)\<rparr>"

definition srv_reconciler :: "store reconciler" where
  "srv_reconciler = \<lparr>r_client = srv_client, r_dbFactory = Some srv_db, r_reconcileInterval = 0, r_operationTimeout = 0\<rparr>"

text \<open>The pods or claims whose labels have every pair of the selector.\<close>

definition selected :: "(string \<times> string) list \<Rightarrow> (string_map \<times> 'a) list \<Rightarrow> 'a list" where
  "selected sel xs = map snd (filter (\<lambda>(labels, _). list_all (\<lambda>(k, v). labels k = Some v) sel) xs)"

text \<open>A database call that changes the data: it is logged when it succeeds.\<close>

definition db_change :: "string \<Rightarrow> operation \<Rightarrow> store \<Rightarrow> string option \<times> store" where
  "db_change call e w = (case srv_db_error w call of None \<Rightarrow> (None, logged e w) | Some msg \<Rightarrow> (Some msg, w))"

definition srv_delete_claim :: "string \<Rightarrow> string \<Rightarrow> store \<Rightarrow> api_error option \<times> store" where
  "srv_delete_claim ns n w =
     (if n \<in> snd ` set (srv_claims w ns)
      then (None, logged (Op_Delete_Claim n)
             (w\<lparr>srv_claims := (srv_claims w)(ns := filter (\<lambda>c. snd c \<noteq> n) (srv_claims w ns))\<rparr>))
      else (Some NotFound, w))"

definition srv_delete_pod :: "string \<Rightarrow> string \<Rightarrow> store \<Rightarrow> api_error option \<times> store" where
  "srv_delete_pod ns n w =
     (if n \<in> (\<lambda>p. Pod_Name (snd p)) ` set (srv_pods w ns)
      then (None, logged (Op_Delete_Pod n)
             (w\<lparr>srv_pods := (srv_pods w)(ns := filter (\<lambda>p. Pod_Name (snd p) \<noteq> n) (srv_pods w ns))\<rparr>))
      else (Some NotFound, w))"

text \<open>The builder of the resources and the time zone are arguments of the server.\<close>

record builder =
  bld_primary :: "CloudberryCluster \<Rightarrow> string + StatefulSetFull"
  bld_mirror :: "CloudberryCluster \<Rightarrow> string + StatefulSetFull option"
  bld_gpexpand :: "CloudberryCluster \<Rightarrow> int32 \<Rightarrow> int32 \<Rightarrow> string \<Rightarrow> Job option"
  bld_coordinator :: "CloudberryCluster \<Rightarrow> string + StatefulSetFull"
  bld_standby :: "CloudberryCluster \<Rightarrow> string + StatefulSetFull option"
  bld_maintenance :: "CloudberryCluster \<Rightarrow> string \<Rightarrow> string \<Rightarrow> Job"

definition srv_services :: "builder \<Rightarrow> Location \<Rightarrow> store services" where
  "srv_services b loc = \<lparr>
     s_get_sts = (\<lambda>ns n w. (found (srv_get_sts ns n w), w)),
     s_create_sts = (\<lambda>s w. if srv_sts w (Sts_Namespace s) (Sts_Name s) \<noteq> None then (Some AlreadyExists, w)
       else (None, logged (Op_Apply (Sts_Name s) (Sts_Replicas s))
              (w\<lparr>srv_sts := put2 (Sts_Namespace s) (Sts_Name s) (Some s) (srv_sts w)\<rparr>))),
     s_update_sts = (\<lambda>s w. map_snd (logged (Op_Apply (Sts_Name s) (Sts_Replicas s)))
       (change_sts (\<lambda>old. old\<lparr>Sts_Replicas := Sts_Replicas s, Sts_Template := Sts_Template s,
          Sts_Generation := Sts_Generation old + 1\<rparr>) (Sts_Namespace s) (Sts_Name s) w)),
     s_delete_sts = (\<lambda>ns n w. if srv_sts w ns n = None then (Some NotFound, w)
       else (None, logged (Op_Delete_Sts n) (w\<lparr>srv_sts := put2 ns n None (srv_sts w)\<rparr>))),
     s_get_job = (\<lambda>ns n w. (found (srv_jobs w ns n), w)),
     s_create_job = (\<lambda>j w. if srv_jobs w (KJob_Namespace j) (KJob_Name j) \<noteq> None then (Some AlreadyExists, w)
       else (None, logged (Op_Job (KJob_Name j))
              (w\<lparr>srv_jobs := put2 (KJob_Namespace j) (KJob_Name j) (Some j) (srv_jobs w)\<rparr>))),
     s_delete_job = (\<lambda>ns n fg w. if srv_jobs w ns n = None then (Some NotFound, w)
       else (None, logged (Op_Delete_Job n) (w\<lparr>srv_jobs := put2 ns n None (srv_jobs w)\<rparr>))),
     s_list_pods = (\<lambda>ns sel w. (Inr (selected sel (srv_pods w ns)), w)),
     s_get_pod = (\<lambda>ns n w. (found (find (\<lambda>p. Pod_Name p = n) (map snd (srv_pods w ns))), w)),
     s_delete_pod = srv_delete_pod,
     s_get_pvc = (\<lambda>ns n w. ((if n \<in> snd ` set (srv_claims w ns) then None else Some NotFound), w)),
     s_list_pvcs = (\<lambda>ns sel w. (Inr (selected sel (srv_claims w ns)), w)),
     s_delete_pvc = srv_delete_claim,
     s_redistribute_before_scale_in = (\<lambda>n. db_change ''RedistributeBeforeScaleIn'' (Op_Redistribute n)),
     s_deregister_segments = (\<lambda>n. db_change ''DeregisterSegments'' (Op_Deregister n)),
     s_gpexpand_schema_present = db_answer ''GpexpandSchemaPresent'' False,
     s_finalize_gpexpand = (\<lambda>w. (srv_db_error w ''FinalizeGpexpand'', w)),
     s_initialize_mirrors = (\<lambda>layout n par. db_change ''InitializeMirrors'' (Op_Init_Mirrors layout n)),
     s_configure_replication = (\<lambda>mode. db_change ''ConfigureReplication'' (Op_Replication mode)),
     s_mirror_sync_status = (\<lambda>w. db_answer ''GetMirrorSyncStatus'' (srv_mirror_sync w) w),
     s_patch_annotations = (\<lambda>ns n kvs w. map_snd (fold (\<lambda>(k, v). logged (Op_Annotation k (Some v))) kvs)
       (change_cluster (\<lambda>c. c\<lparr>CC_Annotations := CC_Annotations c ++ map_of (rev kvs)\<rparr>) ns n w)),
     s_tls_checksum = (\<lambda>c s w. (Inr s, w)), s_ensure_pxf_config = (\<lambda>c w. (None, w)),
     s_ensure_network_policy = (\<lambda>c w. (None, w)), s_storage_expansion = (\<lambda>c w. (None, w)),
     s_build_coordinator = bld_coordinator b, s_build_standby = bld_standby b, s_build_maintenance_job = bld_maintenance b,
     s_build_primary = bld_primary b, s_build_mirror = bld_mirror b, s_build_gpexpand_job = bld_gpexpand b,
     s_local = loc\<rparr>"

section \<open>Lemmas\<close>

lemma srv_services_simps [simp]:
  "s_get_sts (srv_services b loc) ns n w = (found (srv_get_sts ns n w), w)"
  "s_get_job (srv_services b loc) ns n w = (found (srv_jobs w ns n), w)"
  "s_list_pods (srv_services b loc) ns sel w = (Inr (selected sel (srv_pods w ns)), w)"
  "s_get_pod (srv_services b loc) ns n w = (found (find (\<lambda>p. Pod_Name p = n) (map snd (srv_pods w ns))), w)"
  "s_delete_pod (srv_services b loc) = srv_delete_pod"
  "s_get_pvc (srv_services b loc) ns n w = ((if n \<in> snd ` set (srv_claims w ns) then None else Some NotFound), w)"
  "s_list_pvcs (srv_services b loc) ns sel w = (Inr (selected sel (srv_claims w ns)), w)"
  "s_delete_pvc (srv_services b loc) = srv_delete_claim"
  "s_redistribute_before_scale_in (srv_services b loc) k = db_change ''RedistributeBeforeScaleIn'' (Op_Redistribute k)"
  "s_deregister_segments (srv_services b loc) k = db_change ''DeregisterSegments'' (Op_Deregister k)"
  "s_gpexpand_schema_present (srv_services b loc) = db_answer ''GpexpandSchemaPresent'' False"
  "s_build_primary (srv_services b loc) = bld_primary b" "s_build_mirror (srv_services b loc) = bld_mirror b"
  "s_build_gpexpand_job (srv_services b loc) = bld_gpexpand b" "s_local (srv_services b loc) = loc"
  "s_initialize_mirrors (srv_services b loc) layout k par = db_change ''InitializeMirrors'' (Op_Init_Mirrors layout k)"
  "s_configure_replication (srv_services b loc) mode = db_change ''ConfigureReplication'' (Op_Replication mode)"
  "s_mirror_sync_status (srv_services b loc) w = db_answer ''GetMirrorSyncStatus'' (srv_mirror_sync w) w"
  "s_tls_checksum (srv_services b loc) c s w = (Inr s, w)" "s_ensure_pxf_config (srv_services b loc) c w = (None, w)"
  "s_ensure_network_policy (srv_services b loc) c w = (None, w)" "s_storage_expansion (srv_services b loc) c w = (None, w)"
  "s_build_coordinator (srv_services b loc) = bld_coordinator b" "s_build_standby (srv_services b loc) = bld_standby b"
  "s_build_maintenance_job (srv_services b loc) = bld_maintenance b"
  by (simp_all add: srv_services_def)

lemma put2_simps [simp]: "put2 ns n v m ns n = v" "n' \<noteq> n \<Longrightarrow> put2 ns n v m ns n' = m ns n'"
  "ns' \<noteq> ns \<Longrightarrow> put2 ns n v m ns' n' = m ns' n'"
  by (simp_all add: put2_def)

lemma logged_simps [simp]:
  "srv_cluster (logged e w) = srv_cluster w" "srv_sts (logged e w) = srv_sts w" "srv_jobs (logged e w) = srv_jobs w"
  "srv_pods (logged e w) = srv_pods w" "srv_claims (logged e w) = srv_claims w"
  "srv_db_error (logged e w) = srv_db_error w" "srv_mirror_sync (logged e w) = srv_mirror_sync w" "srv_now (logged e w) = srv_now w"
  "srv_log (logged e w) = srv_log w @ [e]"
  by (simp_all add: logged_def)

lemma get_logged [simp]: "srv_get_cluster ns n (logged e w) = srv_get_cluster ns n w"
  "srv_get_sts ns n (logged e w) = srv_get_sts ns n w"
  by (simp_all add: srv_get_cluster_def srv_get_sts_def)

lemma map_snd_pair [simp]: "map_snd f (a, b) = (a, f b)"
  by (simp add: map_snd_def)

lemma found_simps [simp]: "found None = Inl NotFound" "found (Some v) = Inr v"
  by (simp_all add: found_def)

lemma srv_get_cluster_key: "srv_get_cluster ns n w = Some c \<Longrightarrow> CC_Namespace c = ns \<and> CC_Name c = n"
  by (auto simp: srv_get_cluster_def)

lemma srv_get_sts_key: "srv_get_sts ns n w = Some s \<Longrightarrow> Sts_Namespace s = ns \<and> Sts_Name s = n"
  by (auto simp: srv_get_sts_def)

lemma merge_status_patched:
  "St_Phase (merge_status p st) = patched_phase p (St_Phase st)"
  "St_CoordinatorReady (merge_status p st) = patched_coordinator p (St_CoordinatorReady st)"
  "St_StandbyReady (merge_status p st) = patched_standby p (St_StandbyReady st)"
  "St_SegmentsReady (merge_status p st) = patched_segments p (St_SegmentsReady st)"
  by (auto simp: merge_status_def merge_full_def keep_zero_def patched_defs split: status_patch.split)

subsection \<open>The server satisfies the contract of the lifecycle handlers\<close>

definition srv_writes :: "store \<Rightarrow> (string \<times> int32 option) list" where
  "srv_writes w = List.map_filter (\<lambda>e. case e of Op_Scale n k \<Rightarrow> Some (n, k) | _ \<Rightarrow> None) (srv_log w)"

definition srv_sts_view :: "store \<Rightarrow> string \<Rightarrow> string \<Rightarrow> StatefulSet option" where
  "srv_sts_view w ns n = map_option StatefulSet.truncate (srv_get_sts ns n w)"

definition srv_cluster_view :: "store \<Rightarrow> string \<Rightarrow> string \<Rightarrow> CloudberryCluster option" where
  "srv_cluster_view w ns n = srv_get_cluster ns n w"

lemma srv_writes_logged:
  "srv_writes (logged e w) = srv_writes w @ (case e of Op_Scale n k \<Rightarrow> [(n, k)] | _ \<Rightarrow> [])"
  by (cases e) (simp_all add: srv_writes_def List.map_filter_def)

lemma srv_views_logged: "srv_sts_view (logged e w) = srv_sts_view w" "srv_cluster_view (logged e w) = srv_cluster_view w"
  by (simp_all add: fun_eq_iff srv_sts_view_def srv_cluster_view_def)

lemma change_cluster_ok:
  assumes "srv_get_cluster ns n w = Some c" "CC_Namespace (f c) = ns" "CC_Name (f c) = n"
  shows "\<exists>w'. change_cluster f ns n w = (Inr (f c), w') \<and>
    srv_cluster_view w' = (srv_cluster_view w)(ns := (srv_cluster_view w ns)(n \<mapsto> f c)) \<and>
    srv_sts_view w' = srv_sts_view w \<and> srv_writes w' = srv_writes w"
  using assms
  by (auto simp: change_cluster_def fun_eq_iff srv_cluster_view_def srv_sts_view_def srv_get_cluster_def srv_get_sts_def
      srv_writes_def put2_def)

lemmas srv_defs = srv_reconciler_def srv_client_def srv_db_def

interpretation srv: healthy_api srv_reconciler srv_sts_view srv_cluster_view srv_writes
proof unfold_locales
  fix w and s old :: StatefulSet assume old: "srv_sts_view w (Sts_Namespace s) (Sts_Name s) = Some old"
  then obtain full where full: "srv_get_sts (Sts_Namespace s) (Sts_Name s) w = Some full" "old = StatefulSet.truncate full"
    by (auto simp: srv_sts_view_def)
  show "\<exists>w'. k_update_sts (r_client srv_reconciler) s w = (None, w') \<and>
      srv_sts_view w' = (srv_sts_view w)(Sts_Namespace s := (srv_sts_view w (Sts_Namespace s))(Sts_Name s \<mapsto>
        old\<lparr>Sts_Replicas := Sts_Replicas s\<rparr>)) \<and>
      srv_cluster_view w' = srv_cluster_view w \<and> srv_writes w' = srv_writes w @ [(Sts_Name s, Sts_Replicas s)]"
    using full srv_get_sts_key [OF full(1)]
    by (auto simp: srv_defs change_sts_def srv_writes_logged srv_views_logged fun_eq_iff srv_sts_view_def
        srv_cluster_view_def srv_get_sts_def srv_get_cluster_def put2_def StatefulSet.defs srv_writes_def List.map_filter_def)
next
  fix w and d c :: CloudberryCluster assume c: "srv_cluster_view w (CC_Namespace d) (CC_Name d) = Some c"
  then show "\<exists>w' c'. k_update_cluster (r_client srv_reconciler) d w = (Inr c', w') \<and> c' = d\<lparr>CC_Status := CC_Status c\<rparr> \<and>
      srv_cluster_view w' = (srv_cluster_view w)(CC_Namespace d := (srv_cluster_view w (CC_Namespace d))(CC_Name d \<mapsto> c')) \<and>
      srv_sts_view w' = srv_sts_view w \<and> srv_writes w' = srv_writes w"
    using change_cluster_ok [of _ _ w c "\<lambda>c. d\<lparr>CC_Status := CC_Status c\<rparr>"] by (auto simp: srv_defs srv_cluster_view_def)
next
  fix w ns n c key val assume "srv_cluster_view w ns n = Some c"
  then have c: "srv_get_cluster ns n w = Some c" by (simp add: srv_cluster_view_def)
  then show "\<exists>w' c'. k_patch_annotation (r_client srv_reconciler) ns n key val w = (Inr c', w') \<and>
      c' = c\<lparr>CC_Annotations := (CC_Annotations c)(key := val)\<rparr> \<and>
      srv_cluster_view w' = (srv_cluster_view w)(ns := (srv_cluster_view w ns)(n \<mapsto> c')) \<and>
      srv_sts_view w' = srv_sts_view w \<and> srv_writes w' = srv_writes w"
    using change_cluster_ok [OF c, of "\<lambda>c. c\<lparr>CC_Annotations := (CC_Annotations c)(key := val)\<rparr>"] srv_get_cluster_key [OF c]
    by (auto simp: srv_defs srv_writes_logged srv_views_logged)
next
  fix w ns n c p assume "srv_cluster_view w ns n = Some c"
  then have c: "srv_get_cluster ns n w = Some c" by (simp add: srv_cluster_view_def)
  then show "\<exists>w' c'. k_patch_status (r_client srv_reconciler) ns n p w = (Inr c', w') \<and>
      (\<exists>st. c' = c\<lparr>CC_Status := st\<rparr> \<and> St_Phase st = patched_phase p (St_Phase (CC_Status c)) \<and>
        St_CoordinatorReady st = patched_coordinator p (St_CoordinatorReady (CC_Status c)) \<and>
        St_StandbyReady st = patched_standby p (St_StandbyReady (CC_Status c)) \<and>
        St_SegmentsReady st = patched_segments p (St_SegmentsReady (CC_Status c))) \<and>
      srv_cluster_view w' = (srv_cluster_view w)(ns := (srv_cluster_view w ns)(n \<mapsto> c')) \<and>
      srv_sts_view w' = srv_sts_view w \<and> srv_writes w' = srv_writes w"
    using change_cluster_ok [OF c, of "\<lambda>c. c\<lparr>CC_Status := merge_status p (CC_Status c)\<rparr>"] srv_get_cluster_key [OF c]
    by (auto simp: srv_defs intro!: exI [of _ "merge_status p (CC_Status c)"]) (simp_all add: merge_status_patched)
next
  fix w and d c :: CloudberryCluster assume "srv_cluster_view w (CC_Namespace d) (CC_Name d) = Some c"
  then have c: "srv_get_cluster (CC_Namespace d) (CC_Name d) w = Some c" by (simp add: srv_cluster_view_def)
  then show "\<exists>w' c'. k_update_status (r_client srv_reconciler) d w = (Inr c', w') \<and> c' = c\<lparr>CC_Status := CC_Status d\<rparr> \<and>
      srv_cluster_view w' = (srv_cluster_view w)(CC_Namespace d := (srv_cluster_view w (CC_Namespace d))(CC_Name d \<mapsto> c')) \<and>
      srv_sts_view w' = srv_sts_view w \<and> srv_writes w' = srv_writes w"
    using change_cluster_ok [OF c, of "\<lambda>c. c\<lparr>CC_Status := CC_Status d\<rparr>"] srv_get_cluster_key [OF c]
    by (auto simp: srv_defs)
qed (auto simp: srv_defs db_answer_def srv_sts_view_def srv_cluster_view_def found_def StatefulSet.defs
    dest: srv_get_cluster_key srv_get_sts_key split: option.split)

subsection \<open>Running the operations on a stored cluster\<close>

definition annotated :: "string \<Rightarrow> string option \<Rightarrow> CloudberryCluster \<Rightarrow> CloudberryCluster" where
  "annotated key val c = c\<lparr>CC_Annotations := (CC_Annotations c)(key := val)\<rparr>"

definition set_cluster :: "CloudberryCluster \<Rightarrow> store \<Rightarrow> store" where
  "set_cluster c w = w\<lparr>srv_cluster := put2 (CC_Namespace c) (CC_Name c) (Some c) (srv_cluster w)\<rparr>"

definition stored :: "CloudberryCluster \<Rightarrow> store \<Rightarrow> bool" where
  "stored c w \<longleftrightarrow> srv_get_cluster (CC_Namespace c) (CC_Name c) w = Some c"

definition same_key :: "CloudberryCluster \<Rightarrow> CloudberryCluster \<Rightarrow> bool" where
  "same_key d c \<longleftrightarrow> CC_Namespace d = CC_Namespace c \<and> CC_Name d = CC_Name c"

lemma set_cluster_simps [simp]:
  "srv_sts (set_cluster c w) = srv_sts w" "srv_jobs (set_cluster c w) = srv_jobs w"
  "srv_pods (set_cluster c w) = srv_pods w" "srv_claims (set_cluster c w) = srv_claims w"
  "srv_db_error (set_cluster c w) = srv_db_error w" "srv_mirror_sync (set_cluster c w) = srv_mirror_sync w" "srv_now (set_cluster c w) = srv_now w"
  "srv_log (set_cluster c w) = srv_log w" "srv_get_sts ns n (set_cluster c w) = srv_get_sts ns n w"
  by (simp_all add: set_cluster_def srv_get_sts_def)

lemma stored_set [simp]: "stored c (set_cluster c w)"
  by (simp add: stored_def set_cluster_def srv_get_cluster_def)

lemma stored_logged [simp]: "stored c (logged e w) = stored c w"
  by (simp add: stored_def)

lemma stored_cong: "srv_cluster w' = srv_cluster w \<Longrightarrow> stored c w' = stored c w"
  by (simp add: stored_def srv_get_cluster_def)

lemma annotated_simps [simp]:
  "CC_Namespace (annotated k v c) = CC_Namespace c" "CC_Name (annotated k v c) = CC_Name c"
  "CC_Spec (annotated k v c) = CC_Spec c" "CC_Status (annotated k v c) = CC_Status c"
  "CC_DeletionTimestamp (annotated k v c) = CC_DeletionTimestamp c" "CC_Finalizers (annotated k v c) = CC_Finalizers c"
  "CC_Generation (annotated k v c) = CC_Generation c"
  "CC_Annotations (annotated k v c) = (CC_Annotations c)(k := v)"
  by (simp_all add: annotated_def)

lemma same_key_simps [simp]: "same_key c c" "same_key (annotated k v d) c = same_key d c"
  "same_key (d\<lparr>CC_Status := st\<rparr>) c = same_key d c" "same_key d (annotated k v c) = same_key d c"
  "same_key d (c\<lparr>CC_Status := st\<rparr>) = same_key d c"
  by (simp_all add: same_key_def)

lemma srv_get: "stored c w \<Longrightarrow> same_key d c \<Longrightarrow>
    k_get_cluster srv_client (CC_Namespace d) (CC_Name d) w = (Inr c, w)"
  by (simp add: srv_client_def stored_def same_key_def)

lemma exec_annotation:
  assumes "stored c w" "same_key d c"
  shows "k_patch_annotation srv_client (CC_Namespace d) (CC_Name d) key val w =
    (Inr (annotated key val c), logged (Op_Annotation key val) (set_cluster (annotated key val c) w))"
  using assms by (simp add: srv_client_def change_cluster_def stored_def same_key_def set_cluster_def annotated_def)

lemma exec_patch_status:
  assumes "stored c w" "same_key d c"
  shows "k_patch_status srv_client (CC_Namespace d) (CC_Name d) p w =
    (Inr (c\<lparr>CC_Status := merge_status p (CC_Status c)\<rparr>), set_cluster (c\<lparr>CC_Status := merge_status p (CC_Status c)\<rparr>) w)"
  using assms by (simp add: srv_client_def change_cluster_def stored_def same_key_def set_cluster_def)

lemma exec_update_status:
  assumes "stored c w" "same_key d c"
  shows "k_update_status srv_client d w = (Inr (c\<lparr>CC_Status := CC_Status d\<rparr>), set_cluster (c\<lparr>CC_Status := CC_Status d\<rparr>) w)"
  using assms by (simp add: srv_client_def change_cluster_def stored_def same_key_def set_cluster_def)

lemma srv_reconciler_simps [simp]: "r_client srv_reconciler = srv_client" "r_dbFactory srv_reconciler = Some srv_db"
  "r_reconcileInterval srv_reconciler = 0" "r_operationTimeout srv_reconciler = 0"
  by (simp_all add: srv_reconciler_def)

lemma srv_event_now [simp]: "k_event srv_client c t m w = w" "k_now srv_client w = srv_now w"
  by (simp_all add: srv_client_def)

lemma srv_db_simps [simp]: "d_new srv_db c w = db_answer ''NewClient'' () w" "d_close srv_db w = w"
  by (simp_all add: srv_db_def)

lemma exec_drop:
  assumes "stored c w" "same_key d c"
  shows "dropAnnotation srv_reconciler d key w =
    (annotated key None c, logged (Op_Annotation key None) (set_cluster (annotated key None c) w))"
proof -
  have "stored (annotated key None c) (logged (Op_Annotation key None) (set_cluster (annotated key None c) w))" by simp
  from srv_get [OF this, of d] show ?thesis using assms
    by (simp add: dropAnnotation_def exec_annotation)
qed

lemma merge_full_self: "cs \<noteq> [] \<Longrightarrow> merge_full (st\<lparr>St_Conditions := cs\<rparr>) st = st\<lparr>St_Conditions := cs\<rparr>"
  by (simp add: merge_full_def keep_zero_def)

lemma SetCondition_nonempty [simp]: "SetCondition now cs t s r m \<noteq> []"
  by (cases cs) simp_all

lemma exec_condition:
  assumes "stored c w"
  shows "patchStatus srv_reconciler (with_condition now t s rs m c) w =
    (Inr (with_condition now t s rs m c), set_cluster (with_condition now t s rs m c) w)"
proof -
  have "same_key (with_condition now t s rs m c) c" by (simp add: same_key_def with_condition_def)
  from exec_patch_status [OF assms this] show ?thesis
    by (simp add: patchStatus_def merge_status_def with_condition_def merge_full_self)
qed

end
