(* ===== verification/ScaleTheorems.thy ===== *)
theory ScaleTheorems
  imports Scale ApiServer LifecycleTheorems
begin

text \<open>
  What holds of the scaling of the segments: the state annotation reads back as written, a large
  scale-in needs its confirmation, the steps of a scale-in come in the order that keeps the data, a
  scale-in on the reference API server runs to its end, and a failing expansion is given up after a
  bounded number of attempts.
\<close>

section \<open>The state annotations\<close>

text \<open>The values the operator writes: valid UTF-8 and 32-bit integers.\<close>

definition scaleState_ok :: "scaleStateData \<Rightarrow> bool" where
  "scaleState_ok s \<longleftrightarrow> valid_utf8 (SS_Phase s) \<and> in_int32 (SS_OldCount s) \<and> in_int32 (SS_NewCount s) \<and>
     valid_utf8 (SS_StartedAt s) \<and> valid_utf8 (SS_PhaseStartedAt s) \<and> in_int32 (SS_RedistributeAttempts s) \<and>
     valid_utf8 (SS_ExpandJobName s)"

definition scaleInState_ok :: "scaleInStateData \<Rightarrow> bool" where
  "scaleInState_ok s \<longleftrightarrow> valid_utf8 (SI_Phase s) \<and> in_int32 (SI_OldCount s) \<and> in_int32 (SI_NewCount s) \<and>
     valid_utf8 (SI_StartedAt s) \<and> valid_utf8 (SI_PhaseStartedAt s)"

abbreviation ascii :: "string \<Rightarrow> bool" where
  "ascii \<equiv> list_all (\<lambda>c. (of_char c :: nat) < 128)"

lemmas field_defs = str_field_def int_field_def

lemma state_names_ascii:
  "valid_utf8 ''phase''" "valid_utf8 ''oldCount''" "valid_utf8 ''newCount''" "valid_utf8 ''startedAt''"
  "valid_utf8 ''phaseStartedAt''" "valid_utf8 ''redistributeAttempts''" "valid_utf8 ''expandJobName''"
  by (rule ascii_valid_utf8, simp)+

lemma scaleState_fields_ok: "scaleState_ok s \<Longrightarrow> list_all field_ok (scaleState_fields s)"
  by (simp add: scaleState_ok_def scaleState_fields_def field_ok_def field_defs state_names_ascii)

lemma scaleInState_fields_ok: "scaleInState_ok s \<Longrightarrow> list_all field_ok (scaleInState_fields s)"
  by (simp add: scaleInState_ok_def scaleInState_fields_def field_ok_def field_defs state_names_ascii)

lemma scaleState_read:
  assumes "scaleState_ok s"
  shows "unmarshal_scaleState (marshal_scaleState s) = Some s"
proof -
  have "zero_fields (scaleState_fields s) = scaleState_fields scaleState_zero"
    by (simp add: zero_fields_def scaleState_fields_def field_defs zero_val_def scaleState_zero_def)
  moreover have "distinct (map Fld_Name (scaleState_fields s))" by (simp add: scaleState_fields_def field_defs)
  ultimately have "Unmarshal (marshal_scaleState s) (scaleState_fields scaleState_zero) = Some (scaleState_fields s)"
    using Unmarshal_Marshal [OF _ scaleState_fields_ok [OF assms]] by (simp add: marshal_scaleState_def)
  then show ?thesis
    by (simp add: unmarshal_scaleState_def scaleState_of_def scaleState_fields_def field_defs)
qed

lemma scaleInState_read:
  assumes "scaleInState_ok s"
  shows "unmarshal_scaleInState (marshal_scaleInState s) = Some s"
proof -
  have "zero_fields (scaleInState_fields s) = scaleInState_fields scaleInState_zero"
    by (simp add: zero_fields_def scaleInState_fields_def field_defs zero_val_def scaleInState_zero_def)
  moreover have "distinct (map Fld_Name (scaleInState_fields s))" by (simp add: scaleInState_fields_def field_defs)
  ultimately have "Unmarshal (marshal_scaleInState s) (scaleInState_fields scaleInState_zero) = Some (scaleInState_fields s)"
    using Unmarshal_Marshal [OF _ scaleInState_fields_ok [OF assms]] by (simp add: marshal_scaleInState_def)
  then show ?thesis
    by (simp add: unmarshal_scaleInState_def scaleInState_of_def scaleInState_fields_def field_defs)
qed

text \<open>The readers that decode a part of the annotation see the same values.\<close>

lemma folded_names:
  "ToLower ''phase'' = ''phase''" "ToLower ''oldCount'' = ''oldcount''" "ToLower ''newCount'' = ''newcount''"
  "ToLower ''startedAt'' = ''startedat''" "ToLower ''phaseStartedAt'' = ''phasestartedat''"
  "ToLower ''redistributeAttempts'' = ''redistributeattempts''" "ToLower ''expandJobName'' = ''expandjobname''"
  by code_simp+

lemma ScaleOutBaseCount_read:
  assumes "scaleState_ok s" "CC_Annotations c annotationScaleState = Some (marshal_scaleState s)"
  shows "ScaleOutBaseCount c =
    (if SS_NewCount s \<le> SS_OldCount s \<or> SS_OldCount s < 0 then (0, False) else (SS_OldCount s, True))"
proof -
  let ?P = "\<lambda>f. Fld_Name f = ''oldCount'' \<or> Fld_Name f = ''newCount''"
  have part: "Unmarshal (Marshal (scaleState_fields s)) (zero_fields (filter ?P (scaleState_fields s))) =
      Some (filter ?P (scaleState_fields s))"
    by (rule Unmarshal_part)
      (use scaleState_fields_ok [OF assms(1)] in \<open>auto simp: scaleState_fields_def field_defs EqualFold_def folded_names\<close>)
  have "filter ?P (scaleState_fields s) =
      [int_field ''oldCount'' False (SS_OldCount s), int_field ''newCount'' False (SS_NewCount s)]"
    by (simp add: scaleState_fields_def field_defs)
  moreover have "zero_fields [int_field ''oldCount'' False (SS_OldCount s), int_field ''newCount'' False (SS_NewCount s)] =
      [int_field ''oldCount'' False 0, int_field ''newCount'' False 0]"
    by (simp add: zero_fields_def field_defs zero_val_def)
  moreover have "marshal_scaleState s \<noteq> []" by (simp add: marshal_scaleState_def Marshal_def)
  ultimately show ?thesis using part assms(2)
    by (simp add: ScaleOutBaseCount_def annotation_def marshal_scaleState_def) (simp add: field_defs)
qed

lemma scaleOutInProgress_read:
  assumes "scaleState_ok s" "CC_Annotations c annotationScaleState = Some (marshal_scaleState s)"
  shows "scaleOutInProgress c \<longleftrightarrow>
    SS_Phase s \<in> {scalePhaseScalingSTS, scalePhaseExpanding, scalePhaseRegistering, scalePhaseRedistributing}"
proof -
  let ?P = "\<lambda>f. Fld_Name f = ''phase''"
  have part: "Unmarshal (Marshal (scaleState_fields s)) (zero_fields (filter ?P (scaleState_fields s))) =
      Some (filter ?P (scaleState_fields s))"
    by (rule Unmarshal_part)
      (use scaleState_fields_ok [OF assms(1)] in \<open>auto simp: scaleState_fields_def field_defs EqualFold_def folded_names\<close>)
  have "filter ?P (scaleState_fields s) = [str_field ''phase'' False (SS_Phase s)]"
    by (simp add: scaleState_fields_def field_defs)
  moreover have "zero_fields [str_field ''phase'' False (SS_Phase s)] = [str_field ''phase'' False []]"
    by (simp add: zero_fields_def field_defs zero_val_def)
  moreover have "marshal_scaleState s \<noteq> []" by (simp add: marshal_scaleState_def Marshal_def)
  ultimately show ?thesis using part assms(2)
    by (simp add: scaleOutInProgress_def annotation_def marshal_scaleState_def) (auto simp: field_defs)
qed

subsection \<open>Timestamps are ASCII\<close>

lemma digit_ascii: "is_digit c \<Longrightarrow> (of_char c :: nat) < 128"
  by (simp add: is_digit_def)

lemma show_nat_ascii: "ascii (show_nat n)"
  using show_nat_digits [of n] by (auto simp: list_all_iff digit_ascii)

lemma pad_int_ascii: "ascii (pad_int k n)"
  using show_nat_ascii [of "nat \<bar>n\<bar>"] by (auto simp: pad_int_def Let_def list_all_iff)

lemma format_zone_ascii: "ascii (format_zone offset)"
  by (simp add: format_zone_def Let_def pad_int_ascii)

lemma Format_RFC3339_ascii: "ascii (Format_RFC3339 loc t)"
  by (simp add: Format_RFC3339_def Let_def pad_int_ascii format_zone_ascii split: prod.split)

lemma now_text_utf8: "valid_utf8 (now_text r sv w)"
  by (simp add: now_text_def ascii_valid_utf8 Format_RFC3339_ascii)

section \<open>A scale-in on the reference server\<close>

text \<open>
  The operations that move data or pods, without the annotations; a cluster in the middle of a
  scale-in with state \<open>st\<close> that has not timed out; and what a step leaves of the cluster.
\<close>

definition data_log :: "store \<Rightarrow> operation list" where
  "data_log w = filter (\<lambda>e. case e of Op_Annotation _ _ \<Rightarrow> False | _ \<Rightarrow> True) (srv_log w)"

definition scaling_in :: "scaleInStateData \<Rightarrow> CloudberryCluster \<Rightarrow> store \<Rightarrow> bool" where
  "scaling_in st c w \<longleftrightarrow> stored c w \<and> St_Phase (CC_Status c) = ClusterPhaseScaling \<and> CC_DeletionTimestamp c = None \<and>
     CC_Annotations c AnnotationAction = None \<and>
     CC_Annotations c annotationScaleInState = Some (marshal_scaleInState st) \<and> scaleInState_ok st \<and>
     \<not> (annotation c AnnotationScaleStarted \<noteq> [] \<and>
        timed_out srv_reconciler (annotation c AnnotationScaleStarted) scaleTimeout w)"

definition carried :: "CloudberryCluster \<Rightarrow> CloudberryCluster \<Rightarrow> bool" where
  "carried c c' \<longleftrightarrow> same_key c' c \<and> CC_Spec c' = CC_Spec c \<and>
     (\<forall>k. k \<noteq> annotationScaleInState \<longrightarrow> CC_Annotations c' k = CC_Annotations c k) \<and>
     St_SegmentsTotal (CC_Status c') = St_SegmentsTotal (CC_Status c)"

text \<open>The state after a step to phase \<open>p\<close> with the data operations \<open>ops\<close>.\<close>

definition stepped ::
  "scaleInStateData \<Rightarrow> CloudberryCluster \<Rightarrow> store \<Rightarrow> string \<Rightarrow> operation list \<Rightarrow> scaleInStateData \<Rightarrow> CloudberryCluster \<Rightarrow> store \<Rightarrow> bool" where
  "stepped st c w p ops st' c' w' \<longleftrightarrow> scaling_in st' c' w' \<and> SI_Phase st' = p \<and> SI_NewCount st' = SI_NewCount st \<and>
     SI_OldCount st' = SI_OldCount st \<and> carried c c' \<and> data_log w' = data_log w @ ops \<and>
     srv_db_error w' = srv_db_error w \<and> srv_now w' = srv_now w"

fun passes :: "(store \<Rightarrow> 'r \<times> store) \<Rightarrow> nat \<Rightarrow> store \<Rightarrow> store" where
  "passes pass 0 w = w"
| "passes pass (Suc k) w = passes pass k (snd (pass w))"

lemma data_log_simps [simp]: "data_log (set_cluster c w) = data_log w"
  "data_log (logged e w) = data_log w @ (case e of Op_Annotation _ _ \<Rightarrow> [] | _ \<Rightarrow> [e])"
  by (simp_all add: data_log_def split: operation.split)

lemma timed_out_now: "srv_now w' = srv_now w \<Longrightarrow> timed_out srv_reconciler t k w' = timed_out srv_reconciler t k w"
  by (simp add: timed_out_def split: option.split)

lemma scaling_pass:
  assumes "scaling_in st c w" "fl_checkScaleProgress fs = checkScaleProgress srv_reconciler sv"
  shows "Reconcile srv_reconciler fs (CC_Namespace c) (CC_Name c) w =
    checkScaleInPhases srv_reconciler sv c (marshal_scaleInState st) w"
proof -
  have "k_get_cluster (r_client srv_reconciler) (CC_Namespace c) (CC_Name c) w = (Inr c, w)"
    using assms(1) srv_get [of c w c] by (simp add: scaling_in_def)
  moreover have "first_gate c = Route_ScaleProgress"
    using assms(1) by (simp add: scaling_in_def gate_defs)
  ultimately have "Reconcile srv_reconciler fs (CC_Namespace c) (CC_Name c) w = checkScaleProgress srv_reconciler sv c w"
    using assms(2) by (simp add: Reconcile_by_gate)
  moreover have "marshal_scaleInState st \<noteq> []" by (simp add: marshal_scaleInState_def Marshal_def)
  moreover have "annotation c annotationScaleInState = marshal_scaleInState st"
    using assms(1) by (simp add: scaling_in_def annotation_def)
  ultimately show ?thesis using assms(1)
    by (auto simp: checkScaleProgress_def scaling_in_def opTimeout_def Let_def)
qed

lemma advance_step:
  assumes "scaling_in st c w" "same_key d c" "valid_utf8 p" "data_log w = data_log w0 @ ops"
    and "srv_db_error w = srv_db_error w0" "srv_now w = srv_now w0" "carried c0 c"
  shows "\<exists>st' c' w'. advanceScaleInPhase srv_reconciler sv d st p w = (Inr requeueAfterImmediate, w') \<and>
    stepped st c0 w0 p ops st' c' w' \<and> srv_sts w' = srv_sts w \<and> srv_claims w' = srv_claims w"
proof -
  define st' where "st' = st\<lparr>SI_Phase := p, SI_PhaseStartedAt := now_text srv_reconciler sv w\<rparr>"
  define c' where "c' = annotated annotationScaleInState (Some (marshal_scaleInState st')) c"
  define w' where "w' = logged (Op_Annotation annotationScaleInState (Some (marshal_scaleInState st'))) (set_cluster c' w)"
  have run: "advanceScaleInPhase srv_reconciler sv d st p w = (Inr requeueAfterImmediate, w')"
    using assms(1,2) exec_annotation [of c w d annotationScaleInState "Some (marshal_scaleInState st')"]
    by (simp add: advanceScaleInPhase_def setAnnotationPatch_def scaling_in_def st'_def [symmetric] w'_def c'_def)
  have "scaleInState_ok st'"
    using assms(1,3) by (simp add: st'_def scaling_in_def scaleInState_ok_def now_text_utf8)
  then have "scaling_in st' c' w'"
    using assms(1) timed_out_now [of w' w] by (simp add: scaling_in_def c'_def w'_def annotation_def cong: option.case_cong)
  moreover have "carried c0 c'"
    using assms(7) by (auto simp: carried_def c'_def)
  ultimately have "stepped st c0 w0 p ops st' c' w'"
    using assms(4-6) by (simp add: stepped_def w'_def st'_def)
  then show ?thesis using run by (intro exI [of _ st'] exI [of _ c'] exI [of _ w']) (simp add: w'_def)
qed

lemma scale_in_phase_names:
  "valid_utf8 scaleInPhaseDeregistering" "valid_utf8 scaleInPhaseScalingMirrors" "valid_utf8 scaleInPhaseScalingPrimaries"
  "valid_utf8 scaleInPhaseCleanup" "valid_utf8 scaleInPhaseCompleted" "valid_utf8 scaleInPhaseRedistributing"
  by (rule ascii_valid_utf8, simp)+

lemma scaling_in_read: "scaling_in st c w \<Longrightarrow> unmarshal_scaleInState (marshal_scaleInState st) = Some st"
  by (simp add: scaling_in_def scaleInState_read)

lemma carried_refl [simp]: "carried c c"
  by (simp add: carried_def)

lemma with_condition_simps [simp]:
  "CC_Spec (with_condition now t s rs m c) = CC_Spec c" "CC_Annotations (with_condition now t s rs m c) = CC_Annotations c"
  "CC_Namespace (with_condition now t s rs m c) = CC_Namespace c" "CC_Name (with_condition now t s rs m c) = CC_Name c"
  "CC_DeletionTimestamp (with_condition now t s rs m c) = CC_DeletionTimestamp c"
  "St_Phase (CC_Status (with_condition now t s rs m c)) = St_Phase (CC_Status c)"
  "St_SegmentsTotal (CC_Status (with_condition now t s rs m c)) = St_SegmentsTotal (CC_Status c)"
  by (simp_all add: with_condition_def)

lemma step_redistributing:
  assumes "scaling_in st c w" "SI_Phase st = scaleInPhaseRedistributing"
    and "srv_db_error w ''NewClient'' = None" "srv_db_error w ''RedistributeBeforeScaleIn'' = None"
  shows "\<exists>st' c' w'. checkScaleInPhases srv_reconciler (srv_services b loc) c (marshal_scaleInState st) w = (Inr requeueAfterImmediate, w') \<and>
    stepped st c w scaleInPhaseDeregistering [Op_Redistribute (SI_NewCount st)] st' c' w' \<and>
    srv_sts w' = srv_sts w \<and> srv_claims w' = srv_claims w"
proof -
  define w1 where "w1 = logged (Op_Redistribute (SI_NewCount st)) w"
  define c1 where "c1 = with_condition (srv_now w1) ConditionDataRedistribution ConditionTrue
    ''ScaleInRedistributed'' ''Data redistributed off segments being removed'' c"
  have st1: "stored c w1" using assms(1) by (simp add: w1_def scaling_in_def)
  have "redistributeBeforeScaleIn srv_reconciler (srv_services b loc) c st w = (Inr c1, set_cluster c1 w1)"
    using assms(3,4) exec_condition [OF st1]
    by (simp add: redistributeBeforeScaleIn_def db_answer_def db_change_def w1_def c1_def Let_def)
  then have run: "checkScaleInPhases srv_reconciler (srv_services b loc) c (marshal_scaleInState st) w =
      advanceScaleInPhase srv_reconciler (srv_services b loc) c1 st scaleInPhaseDeregistering (set_cluster c1 w1)"
    using scaling_in_read [OF assms(1)] assms(2)
    by (simp add: checkScaleInPhases_def processScaleInRedistributing_def)
  have "scaling_in st c1 (set_cluster c1 w1)"
    using assms(1) timed_out_now [of "set_cluster c1 w1" w]
    by (simp add: scaling_in_def c1_def w1_def annotation_def cong: option.case_cong)
  moreover have "carried c c1" by (simp add: carried_def c1_def same_key_def)
  ultimately show ?thesis unfolding run
    using advance_step [of st c1 "set_cluster c1 w1" c1 scaleInPhaseDeregistering w "[Op_Redistribute (SI_NewCount st)]" c]
    by (simp add: scale_in_phase_names w1_def)
qed

lemma step_deregistering:
  assumes "scaling_in st c w" "SI_Phase st = scaleInPhaseDeregistering"
    and "srv_db_error w ''NewClient'' = None" "srv_db_error w ''DeregisterSegments'' = None"
  shows "\<exists>st' c' w'. checkScaleInPhases srv_reconciler (srv_services b loc) c (marshal_scaleInState st) w = (Inr requeueAfterImmediate, w') \<and>
    stepped st c w (if mirroring_on c then scaleInPhaseScalingMirrors else scaleInPhaseScalingPrimaries)
      [Op_Deregister (SI_NewCount st)] st' c' w' \<and>
    srv_sts w' = srv_sts w \<and> srv_claims w' = srv_claims w"
proof -
  define w1 where "w1 = logged (Op_Deregister (SI_NewCount st)) w"
  let ?p = "if mirroring_on c then scaleInPhaseScalingMirrors else scaleInPhaseScalingPrimaries"
  have "deregisterSegments srv_reconciler (srv_services b loc) c st w = (None, w1)"
    using assms(3,4) by (simp add: deregisterSegments_def db_answer_def db_change_def w1_def)
  then have run: "checkScaleInPhases srv_reconciler (srv_services b loc) c (marshal_scaleInState st) w =
      advanceScaleInPhase srv_reconciler (srv_services b loc) c st ?p w1"
    using scaling_in_read [OF assms(1)] assms(2)
    by (simp add: checkScaleInPhases_def processScaleInDeregistering_def)
  have "scaling_in st c w1"
    using assms(1) timed_out_now [of w1 w] by (simp add: scaling_in_def w1_def)
  then show ?thesis unfolding run
    using advance_step [of st c w1 c ?p w "[Op_Deregister (SI_NewCount st)]" c]
    by (simp add: scale_in_phase_names w1_def)
qed

definition rescaled :: "int32 \<Rightarrow> StatefulSetFull \<Rightarrow> StatefulSetFull" where
  "rescaled n s = s\<lparr>Sts_Replicas := Some n, Sts_Generation := Sts_Generation s + 1\<rparr>"

text \<open>
  The scale-down phases. The wait looks at the ready replicas only, which are still those of the
  old count, so that a step that lowers the replicas moves on at once.
\<close>

lemma step_scaling:
  assumes "scaling_in st c w" "0 < SI_NewCount st" "srv_get_sts (CC_Namespace c) m w = Some s"
    and "SI_NewCount st \<le> Sts_ReadyReplicas s" "Sts_Replicas s \<noteq> Some (SI_NewCount st)" "valid_utf8 p"
  shows "\<exists>st' c' w'. scale_in_sts srv_reconciler (srv_services b loc) c st m ctx p w = (Inr requeueAfterImmediate, w') \<and>
    stepped st c w p [Op_Scale m (Some (SI_NewCount st))] st' c' w' \<and>
    srv_sts w' = put2 (CC_Namespace c) m (Some (rescaled (SI_NewCount st) s)) (srv_sts w) \<and> srv_claims w' = srv_claims w"
proof -
  let ?n = "SI_NewCount st" and ?ns = "CC_Namespace c"
  define w1 where "w1 = logged (Op_Scale m (Some ?n)) (w\<lparr>srv_sts := put2 ?ns m (Some (rescaled ?n s)) (srv_sts w)\<rparr>)"
  have s: "Sts_Namespace s = ?ns" "Sts_Name s = m" using srv_get_sts_key [OF assms(3)] by simp_all
  have "scaleStatefulSet srv_reconciler ?ns m ?n w = (None, w1)"
    using assms(3,5) s
    by (simp add: scaleStatefulSet_def srv_client_def StatefulSet.defs change_sts_def w1_def rescaled_def)
  moreover have "srv_get_sts ?ns m w1 = Some (rescaled ?n s)"
    using s by (simp add: w1_def srv_get_sts_def rescaled_def)
  then have "isStatefulSetAtScale srv_reconciler ?ns m ?n w1 = ((True, None), w1)"
    using assms(2,4) by (simp add: isStatefulSetAtScale_def srv_client_def StatefulSet.defs rescaled_def)
  ultimately have run: "scale_in_sts srv_reconciler (srv_services b loc) c st m ctx p w =
      advanceScaleInPhase srv_reconciler (srv_services b loc) c st p w1"
    by (simp add: scale_in_sts_def)
  have "scaling_in st c w1"
    using assms(1) timed_out_now [of w1 w] stored_cong [of w1 w c] by (simp add: scaling_in_def w1_def)
  from advance_step [OF this, of c p w "[Op_Scale m (Some ?n)]" c] show ?thesis unfolding run
    using assms(6) by (simp add: w1_def data_log_def)
qed

lemma step_mirrors:
  assumes "scaling_in st c w" "SI_Phase st = scaleInPhaseScalingMirrors"
  shows "checkScaleInPhases srv_reconciler sv c (marshal_scaleInState st) w =
    scale_in_sts srv_reconciler sv c st (SegmentMirrorName (CC_Name c)) ''scaling down mirrors'' scaleInPhaseScalingPrimaries w"
  using scaling_in_read [OF assms(1)] assms(2) by (simp add: checkScaleInPhases_def processScaleInScalingMirrors_def)

lemma step_primaries:
  assumes "scaling_in st c w" "SI_Phase st = scaleInPhaseScalingPrimaries"
  shows "checkScaleInPhases srv_reconciler sv c (marshal_scaleInState st) w =
    scale_in_sts srv_reconciler sv c st (SegmentPrimaryName (CC_Name c)) ''scaling down primaries'' scaleInPhaseCleanup w"
  using scaling_in_read [OF assms(1)] assms(2) by (simp add: checkScaleInPhases_def processScaleInScalingPrimaries_def)

subsection \<open>Volume claims\<close>

definition claim :: "string \<Rightarrow> int32 \<Rightarrow> string" where
  "claim stsName i = ''data-'' @ stsName @ ''-'' @ show_int i"

text \<open>The claims of the ordinals from \<open>lo\<close> to \<open>hi\<close>, exclusive.\<close>

definition claims_between :: "string \<Rightarrow> int32 \<Rightarrow> int32 \<Rightarrow> string list" where
  "claims_between stsName lo hi = map (claim stsName) [lo..hi - 1]"

definition claim_names :: "store \<Rightarrow> string \<Rightarrow> string set" where
  "claim_names w ns = snd ` set (srv_claims w ns)"

text \<open>A contiguous run of claims that ends at \<open>hi\<close>, as a StatefulSet with \<open>hi\<close> replicas has.\<close>

definition claims_end :: "store \<Rightarrow> string \<Rightarrow> string \<Rightarrow> int32 \<Rightarrow> int32 \<Rightarrow> bool" where
  "claims_end w ns stsName lo hi \<longleftrightarrow> 0 \<le> lo \<and> lo \<le> hi \<and> hi \<le> 2147483647 \<and>
     set (claims_between stsName lo hi) \<subseteq> claim_names w ns \<and> claim stsName hi \<notin> claim_names w ns"

lemma show_int_no_dash: "0 \<le> i \<Longrightarrow> CHR ''-'' \<notin> set (show_int i)"
  using show_nat_no [of "CHR ''-''" "nat i"] by (simp add: show_int_def)

lemma show_int_inj: "0 \<le> i \<Longrightarrow> 0 \<le> j \<Longrightarrow> show_int i = show_int j \<Longrightarrow> i = j"
proof -
  assume i: "0 \<le> i" and j: "0 \<le> j" and "show_int i = show_int j"
  then have "show_nat (nat i) = show_nat (nat j)" by (simp add: show_int_def)
  then have "nat i = nat j" by (metis digits_val_show_nat)
  then show ?thesis using i j by simp
qed

lemma split_first: "x \<notin> set a \<Longrightarrow> x \<notin> set b \<Longrightarrow> a @ x # s = b @ x # t \<longleftrightarrow> a = b \<and> s = t"
proof (induction a arbitrary: b)
  case Nil
  then show ?case by (cases b) auto
next
  case (Cons y a)
  then show ?case by (cases b) auto
qed

lemma delete_claims_Suc:
  "delete_claims (Suc k) sv ns m i w =
     (case s_get_pvc sv ns (claim m i) w of
        (Some _, w1) \<Rightarrow> w1
      | (None, w1) \<Rightarrow> delete_claims k sv ns m (wrap32 (i + 1)) (snd (s_delete_pvc sv ns (claim m i) w1)))"
  by (simp only: delete_claims.simps Let_def claim_def)

lemma claim_inj:
  assumes "claim a i = claim b j" "0 \<le> i" "0 \<le> j"
  shows "a = b \<and> i = j"
proof -
  have "rev (show_int i) @ CHR ''-'' # rev a = rev (show_int j) @ CHR ''-'' # rev b"
    using arg_cong [OF assms(1), of rev] by (simp add: claim_def)
  then have "rev (show_int i) = rev (show_int j) \<and> rev a = rev b"
    using show_int_no_dash [OF assms(2)] show_int_no_dash [OF assms(3)] by (simp add: split_first)
  then show ?thesis using show_int_inj assms(2,3) by auto
qed

lemma delete_claims_run:
  assumes "claims_end w ns m lo hi" "nat (hi - lo) < k"
  shows "\<exists>w'. delete_claims k (srv_services b loc) ns m lo w = w' \<and>
    claim_names w' ns = claim_names w ns - set (claims_between m lo hi) \<and>
    data_log w' = data_log w @ map Op_Delete_Claim (claims_between m lo hi) \<and>
    srv_cluster w' = srv_cluster w \<and> srv_sts w' = srv_sts w \<and> srv_db_error w' = srv_db_error w \<and> srv_now w' = srv_now w"
  using assms
proof (induction "nat (hi - lo)" arbitrary: lo k w)
  case 0
  then have hi: "hi = lo" by (simp add: claims_end_def)
  obtain k' where "k = Suc k'" using 0 by (cases k) auto
  then show ?case using 0(2)
    by (simp add: claims_end_def hi claims_between_def claim_names_def delete_claims_Suc del: delete_claims.simps)
next
  case (Suc d)
  obtain k' where k: "k = Suc k'" using Suc.prems by (cases k) auto
  have lt: "lo < hi" using Suc.hyps(2) by simp
  then have split: "[lo..hi - 1] = lo # [lo + 1..hi - 1]" by (simp add: upto_rec1)
  have here: "claim m lo \<in> claim_names w ns"
    using Suc.prems(1) by (auto simp: claims_end_def claims_between_def split)
  define w1 where "w1 = snd (srv_delete_claim ns (claim m lo) w)"
  have w1: "claim_names w1 ns = claim_names w ns - {claim m lo}" "data_log w1 = data_log w @ [Op_Delete_Claim (claim m lo)]"
    "srv_cluster w1 = srv_cluster w" "srv_sts w1 = srv_sts w" "srv_db_error w1 = srv_db_error w" "srv_now w1 = srv_now w"
    using here by (auto simp: w1_def srv_delete_claim_def claim_names_def image_iff data_log_def)
  have run: "delete_claims k (srv_services b loc) ns m lo w = delete_claims k' (srv_services b loc) ns m (lo + 1) w1"
    using here lt Suc.prems(1)
    by (simp add: k delete_claims_Suc claim_names_def w1_def claims_end_def in_int32_def del: delete_claims.simps)
  have other: "claim m i \<noteq> claim m lo" if "lo < i" for i
    using claim_inj [of m i m lo] that Suc.prems(1) by (auto simp: claims_end_def)
  have "claims_end w1 ns m (lo + 1) hi"
    using Suc.prems(1) lt other unfolding claims_end_def w1(1) by (auto simp: claims_between_def split)
  moreover have "d = nat (hi - (lo + 1))" "nat (hi - (lo + 1)) < k'" using Suc.hyps(2) Suc.prems(2) k by simp_all
  ultimately have "\<exists>w'. delete_claims k' (srv_services b loc) ns m (lo + 1) w1 = w' \<and>
      claim_names w' ns = claim_names w1 ns - set (claims_between m (lo + 1) hi) \<and>
      data_log w' = data_log w1 @ map Op_Delete_Claim (claims_between m (lo + 1) hi) \<and>
      srv_cluster w' = srv_cluster w1 \<and> srv_sts w' = srv_sts w1 \<and> srv_db_error w' = srv_db_error w1 \<and> srv_now w' = srv_now w1"
    using Suc.hyps(1) by blast
  then show ?case unfolding run w1 by (auto simp: claims_between_def split)
qed

lemma cleanup_run:
  assumes "claims_end w (CC_Namespace c) (SegmentPrimaryName (CC_Name c)) lo hp"
    and "claims_end w (CC_Namespace c) (SegmentMirrorName (CC_Name c)) lo hm"
    and "SegmentPrimaryName (CC_Name c) \<noteq> SegmentMirrorName (CC_Name c)"
  shows "\<exists>w'. cleanupOrphanedPVCs (srv_services b loc) c lo w = w' \<and>
    data_log w' = data_log w @ map Op_Delete_Claim (claims_between (SegmentPrimaryName (CC_Name c)) lo hp @
      claims_between (SegmentMirrorName (CC_Name c)) lo hm) \<and>
    srv_cluster w' = srv_cluster w \<and> srv_sts w' = srv_sts w \<and> srv_db_error w' = srv_db_error w \<and> srv_now w' = srv_now w"
proof -
  let ?ns = "CC_Namespace c" and ?P = "SegmentPrimaryName (CC_Name c)" and ?M = "SegmentMirrorName (CC_Name c)"
  have names: "SanitizeK8sName (CC_Name c @ ''-'' @ ComponentSegmentPrimary) = ?P"
    "SanitizeK8sName (CC_Name c @ ''-'' @ ComponentSegmentMirror) = ?M"
    by (simp_all add: SegmentPrimaryName_def SegmentMirrorName_def)
  have fuel: "nat (hp - lo) < 4294967296" "nat (hm - lo) < 4294967296"
    using assms(1,2) by (auto simp: claims_end_def)
  obtain w1 where w1: "delete_claims 4294967296 (srv_services b loc) ?ns ?P lo w = w1"
    "claim_names w1 ?ns = claim_names w ?ns - set (claims_between ?P lo hp)"
    "data_log w1 = data_log w @ map Op_Delete_Claim (claims_between ?P lo hp)" "srv_cluster w1 = srv_cluster w"
    "srv_sts w1 = srv_sts w" "srv_db_error w1 = srv_db_error w" "srv_now w1 = srv_now w"
    using delete_claims_run [OF assms(1) fuel(1), of b loc] by blast
  have other: "claim ?M j \<notin> set (claims_between ?P lo hp)" if "0 \<le> j" for j
    using claim_inj [of ?M j ?P] that assms(1,3) by (fastforce simp: claims_between_def claims_end_def)
  have pos: "0 \<le> lo" "0 \<le> hm" using assms(2) by (auto simp: claims_end_def)
  then have "\<forall>x \<in> set (claims_between ?M lo hm). x \<notin> set (claims_between ?P lo hp)"
    using other by (auto simp: claims_between_def [of ?M])
  then have "claims_end w1 ?ns ?M lo hm"
    using assms(2) other [OF pos(2)] unfolding claims_end_def w1(2) by blast
  then obtain w2 where w2: "delete_claims 4294967296 (srv_services b loc) ?ns ?M lo w1 = w2"
    "data_log w2 = data_log w1 @ map Op_Delete_Claim (claims_between ?M lo hm)" "srv_cluster w2 = srv_cluster w1"
    "srv_sts w2 = srv_sts w1" "srv_db_error w2 = srv_db_error w1" "srv_now w2 = srv_now w1"
    using delete_claims_run [OF _ fuel(2), of w1 ?ns ?M b loc] by blast
  have "cleanupOrphanedPVCs (srv_services b loc) c lo w = w2"
    by (simp only: cleanupOrphanedPVCs_def fold.simps comp_apply id_apply names w1(1) w2(1))
  then show ?thesis using w1(3-7) w2(2-6) by (intro exI [of _ w2]) (simp only: map_append append_assoc simp_thms)
qed

lemma step_cleanup:
  assumes "scaling_in st c w" "SI_Phase st = scaleInPhaseCleanup" "Spec_DeletionPolicy (CC_Spec c) = DeletionPolicyDelete"
    and "claims_end w (CC_Namespace c) (SegmentPrimaryName (CC_Name c)) (SI_NewCount st) hp"
    and "claims_end w (CC_Namespace c) (SegmentMirrorName (CC_Name c)) (SI_NewCount st) hm"
    and "SegmentPrimaryName (CC_Name c) \<noteq> SegmentMirrorName (CC_Name c)"
  shows "\<exists>st' c' w'. checkScaleInPhases srv_reconciler (srv_services b loc) c (marshal_scaleInState st) w = (Inr requeueAfterImmediate, w') \<and>
    stepped st c w scaleInPhaseCompleted (map Op_Delete_Claim
      (claims_between (SegmentPrimaryName (CC_Name c)) (SI_NewCount st) hp @
       claims_between (SegmentMirrorName (CC_Name c)) (SI_NewCount st) hm)) st' c' w' \<and> srv_sts w' = srv_sts w"
proof -
  obtain w1 where w1: "cleanupOrphanedPVCs (srv_services b loc) c (SI_NewCount st) w = w1"
    "data_log w1 = data_log w @ map Op_Delete_Claim (claims_between (SegmentPrimaryName (CC_Name c)) (SI_NewCount st) hp @
      claims_between (SegmentMirrorName (CC_Name c)) (SI_NewCount st) hm)"
    "srv_cluster w1 = srv_cluster w" "srv_sts w1 = srv_sts w" "srv_db_error w1 = srv_db_error w" "srv_now w1 = srv_now w"
    using cleanup_run [OF assms(4-6), of b loc] by blast
  have run: "checkScaleInPhases srv_reconciler (srv_services b loc) c (marshal_scaleInState st) w =
      advanceScaleInPhase srv_reconciler (srv_services b loc) c st scaleInPhaseCompleted w1"
    using scaling_in_read [OF assms(1)] assms(2,3) w1(1)
    by (simp add: checkScaleInPhases_def processScaleInCleanup_def)
  have "scaling_in st c w1"
    using assms(1) timed_out_now [OF w1(6)] stored_cong [OF w1(3)] by (simp add: scaling_in_def)
  from advance_step [OF this _ scale_in_phase_names(5) w1(2,5,6) carried_refl, of c "srv_services b loc"]
  show ?thesis unfolding run using w1(4) by auto
qed

subsection \<open>Completion\<close>

text \<open>
  A completed scale operation on a cluster whose recorded total is already the new count: the
  cluster runs again, the scale annotations are gone, and the confirmation of a large scale-in, if
  there was one, is still there.
\<close>

lemma complete_run:
  assumes "stored c w" "St_SegmentsTotal (CC_Status c) = Seg_Count (Spec_Segments (CC_Spec c))"
    and "CC_Annotations c annotationScaleInState = None"
  shows "\<exists>c' w'. completeScaleOperation srv_reconciler sv c w = (Inr requeueAfterImmediate, w') \<and> stored c' w' \<and>
    same_key c' c \<and> CC_Spec c' = CC_Spec c \<and> St_Phase (CC_Status c') = ClusterPhaseRunning \<and>
    CC_Annotations c' = (CC_Annotations c)(AnnotationScaleStarted := None) \<and>
    data_log w' = data_log w \<and> srv_sts w' = srv_sts w"
proof -
  let ?n = "Seg_Count (Spec_Segments (CC_Spec c))"
  define d where "d = with_condition (srv_now w) ConditionDataRedistribution ConditionTrue ''Completed''
    ''Data redistribution completed'' (with_phase ClusterPhaseRunning c\<lparr>CC_Status :=
      (CC_Status (with_phase ClusterPhaseRunning c))\<lparr>St_SegmentsReady := ?n\<rparr>\<rparr>)"
  define d' where "d' = d\<lparr>CC_Status := (CC_Status d)\<lparr>St_SegmentsTotal := ?n\<rparr>\<rparr>"
  define c1 where "c1 = c\<lparr>CC_Status := CC_Status d'\<rparr>"
  have d': "same_key d' c" "St_Phase (CC_Status d') = ClusterPhaseRunning"
    by (simp_all add: d'_def d_def same_key_def with_phase_def)
  have run: "completeScaleOperation srv_reconciler sv c w =
      (Inr requeueAfterImmediate, cleanupScaleAnnotations srv_reconciler c1 False (set_cluster c1 w))"
    using exec_update_status [OF assms(1) d'(1)] assms(2)
    by (simp only: completeScaleOperation_def Let_def srv_reconciler_simps srv_event_now d_def [symmetric] d'_def [symmetric]
        c1_def [symmetric] prod.case sum.case less_irrefl if_False)
  define w2 where "w2 = logged (Op_Annotation AnnotationScaleStarted None)
    (set_cluster (annotated AnnotationScaleStarted None c1) (set_cluster c1 w))"
  have "cleanupScaleAnnotations srv_reconciler c1 False (set_cluster c1 w) = w2"
    using exec_drop [of c1 "set_cluster c1 w" c1 AnnotationScaleStarted] assms(3)
    by (simp add: cleanupScaleAnnotations_def c1_def w2_def)
  moreover have "stored (annotated AnnotationScaleStarted None c1) w2" "data_log w2 = data_log w" "srv_sts w2 = srv_sts w"
    by (simp_all add: w2_def)
  moreover have "same_key c1 c" "St_Phase (CC_Status c1) = ClusterPhaseRunning" "CC_Spec c1 = CC_Spec c"
    "CC_Annotations c1 = CC_Annotations c" by (simp_all add: c1_def d')
  ultimately show ?thesis unfolding run
    by (intro exI [of _ "annotated AnnotationScaleStarted None c1"] exI [of _ w2]) simp
qed

lemma step_completed:
  assumes "scaling_in st c w" "SI_Phase st = scaleInPhaseCompleted"
    and "St_SegmentsTotal (CC_Status c) = Seg_Count (Spec_Segments (CC_Spec c))"
  shows "\<exists>c' w'. checkScaleInPhases srv_reconciler sv c (marshal_scaleInState st) w = (Inr requeueAfterImmediate, w') \<and> stored c' w' \<and>
    same_key c' c \<and> CC_Spec c' = CC_Spec c \<and> St_Phase (CC_Status c') = ClusterPhaseRunning \<and>
    CC_Annotations c' = (CC_Annotations c)(annotationScaleInState := None, AnnotationScaleStarted := None) \<and>
    data_log w' = data_log w \<and> srv_sts w' = srv_sts w"
proof -
  let ?c1 = "annotated annotationScaleInState None c"
  define w1 where "w1 = logged (Op_Annotation annotationScaleInState None) (set_cluster ?c1 w)"
  have "stored c w" using assms(1) by (simp add: scaling_in_def)
  from exec_drop [OF this, of c annotationScaleInState]
  have run: "checkScaleInPhases srv_reconciler sv c (marshal_scaleInState st) w = completeScaleOperation srv_reconciler sv ?c1 w1"
    using scaling_in_read [OF assms(1)] assms(2)
    by (simp add: checkScaleInPhases_def processScaleInCompleted_def w1_def)
  have "stored ?c1 w1" by (simp add: w1_def)
  from complete_run [OF this, of sv] show ?thesis unfolding run
    using assms(3) by (auto simp: w1_def same_key_def)
qed

text \<open>Passes of the controller over one cluster.\<close>

abbreviation reconciles :: "store flows \<Rightarrow> CloudberryCluster \<Rightarrow> nat \<Rightarrow> store \<Rightarrow> store" where
  "reconciles fs c \<equiv> passes (Reconcile srv_reconciler fs (CC_Namespace c) (CC_Name c))"

lemma reconciles_key: "same_key c' c \<Longrightarrow> reconciles fs c' k w = reconciles fs c k w"
  by (simp add: same_key_def)

lemma pass_step:
  assumes "fl_checkScaleProgress fs = checkScaleProgress srv_reconciler sv" "scaling_in st c w"
    and "checkScaleInPhases srv_reconciler sv c (marshal_scaleInState st) w = (res, w')" "carried c0 c"
  shows "reconciles fs c0 (Suc k) w = reconciles fs c0 k w'"
  using scaling_pass [OF assms(2,1)] assms(3,4) by (simp add: carried_def same_key_def)

lemma carried_trans: "carried a b \<Longrightarrow> carried b c \<Longrightarrow> carried a c"
  by (simp add: carried_def same_key_def)

lemma carried_eqs: "carried a b \<Longrightarrow> CC_Namespace b = CC_Namespace a \<and> CC_Name b = CC_Name a \<and> CC_Spec b = CC_Spec a \<and>
    mirroring_on b = mirroring_on a \<and> St_SegmentsTotal (CC_Status b) = St_SegmentsTotal (CC_Status a)"
  by (simp add: carried_def same_key_def mirroring_on_def)

lemma srv_get_sts_put:
  "srv_sts w' = put2 ns m (Some s) (srv_sts w) \<Longrightarrow> srv_get_sts ns n w' = (if n = m then Some (s\<lparr>Sts_Namespace := ns, Sts_Name := m\<rparr>) else srv_get_sts ns n w)"
  by (simp add: srv_get_sts_def put2_def)

lemma scale_in_run:
  assumes fs: "fl_checkScaleProgress fs = checkScaleProgress srv_reconciler (srv_services b loc)"
    and start: "scaling_in st c w" "SI_Phase st = scaleInPhaseRedistributing" "0 < SI_NewCount st"
    and db: "srv_db_error w = (\<lambda>_. None)" and mirrors: "mirroring_on c"
    and prim: "srv_get_sts (CC_Namespace c) (SegmentPrimaryName (CC_Name c)) w = Some p"
      "SI_NewCount st \<le> Sts_ReadyReplicas p" "Sts_Replicas p \<noteq> Some (SI_NewCount st)"
    and mir: "srv_get_sts (CC_Namespace c) (SegmentMirrorName (CC_Name c)) w = Some m"
      "SI_NewCount st \<le> Sts_ReadyReplicas m" "Sts_Replicas m \<noteq> Some (SI_NewCount st)"
    and names: "SegmentPrimaryName (CC_Name c) \<noteq> SegmentMirrorName (CC_Name c)"
    and policy: "Spec_DeletionPolicy (CC_Spec c) = DeletionPolicyDelete"
    and claims: "claims_end w (CC_Namespace c) (SegmentPrimaryName (CC_Name c)) (SI_NewCount st) hp"
      "claims_end w (CC_Namespace c) (SegmentMirrorName (CC_Name c)) (SI_NewCount st) hm"
    and total: "St_SegmentsTotal (CC_Status c) = Seg_Count (Spec_Segments (CC_Spec c))"
  shows "\<exists>c' p' m'. stored c' (reconciles fs c 6 w) \<and> same_key c' c \<and> St_Phase (CC_Status c') = ClusterPhaseRunning \<and>
    CC_Annotations c' annotationScaleInState = None \<and> CC_Annotations c' AnnotationScaleStarted = None \<and>
    CC_Annotations c' AnnotationConfirmScaleIn = CC_Annotations c AnnotationConfirmScaleIn \<and>
    srv_get_sts (CC_Namespace c) (SegmentPrimaryName (CC_Name c)) (reconciles fs c 6 w) = Some p' \<and>
    Sts_Replicas p' = Some (SI_NewCount st) \<and>
    srv_get_sts (CC_Namespace c) (SegmentMirrorName (CC_Name c)) (reconciles fs c 6 w) = Some m' \<and>
    Sts_Replicas m' = Some (SI_NewCount st) \<and>
    data_log (reconciles fs c 6 w) = data_log w @
      [Op_Redistribute (SI_NewCount st), Op_Deregister (SI_NewCount st),
       Op_Scale (SegmentMirrorName (CC_Name c)) (Some (SI_NewCount st)),
       Op_Scale (SegmentPrimaryName (CC_Name c)) (Some (SI_NewCount st))] @
      map Op_Delete_Claim (claims_between (SegmentPrimaryName (CC_Name c)) (SI_NewCount st) hp @
        claims_between (SegmentMirrorName (CC_Name c)) (SI_NewCount st) hm)"
proof -
  let ?sv = "srv_services b loc" and ?n = "SI_NewCount st" and ?ns = "CC_Namespace c"
  let ?P = "SegmentPrimaryName (CC_Name c)" and ?M = "SegmentMirrorName (CC_Name c)"
  obtain st1 c1 w1 where 1: "checkScaleInPhases srv_reconciler ?sv c (marshal_scaleInState st) w = (Inr requeueAfterImmediate, w1)"
    "stepped st c w scaleInPhaseDeregistering [Op_Redistribute ?n] st1 c1 w1" "srv_sts w1 = srv_sts w" "srv_claims w1 = srv_claims w"
    using step_redistributing [OF start(1,2), of b loc] db by (metis (no_types, lifting))
  note s1 = 1(2) [unfolded stepped_def]
  obtain st2 c2 w2 where 2: "checkScaleInPhases srv_reconciler ?sv c1 (marshal_scaleInState st1) w1 = (Inr requeueAfterImmediate, w2)"
    "stepped st1 c1 w1 scaleInPhaseScalingMirrors [Op_Deregister ?n] st2 c2 w2" "srv_sts w2 = srv_sts w1" "srv_claims w2 = srv_claims w1"
    using step_deregistering [of st1 c1 w1 b loc] s1 db mirrors carried_eqs [of c c1] by auto
  note s2 = 2(2) [unfolded stepped_def]
  have k2: "carried c c2" using s1 s2 carried_trans by blast
  note e2 = carried_eqs [OF k2]
  obtain st3 c3 w3 where 3: "checkScaleInPhases srv_reconciler ?sv c2 (marshal_scaleInState st2) w2 = (Inr requeueAfterImmediate, w3)"
    "stepped st2 c2 w2 scaleInPhaseScalingPrimaries [Op_Scale ?M (Some ?n)] st3 c3 w3"
    "srv_sts w3 = put2 ?ns ?M (Some (rescaled ?n m)) (srv_sts w2)" "srv_claims w3 = srv_claims w2"
    using step_scaling [of st2 c2 w2 ?M m scaleInPhaseScalingPrimaries b loc "''scaling down mirrors''"]
      step_mirrors [of st2 c2 w2 ?sv] s1 s2 e2 start(3) mir 1(3) 2(3) by (simp add: scale_in_phase_names srv_get_sts_def) metis
  note s3 = 3(2) [unfolded stepped_def]
  have k3: "carried c c3" using k2 s3 carried_trans by blast
  note e3 = carried_eqs [OF k3]
  have p3: "srv_get_sts ?ns ?P w3 = Some p"
    using prim(1) names srv_get_sts_put [OF 3(3), of ?P] 1(3) 2(3) by (simp add: srv_get_sts_def)
  obtain st4 c4 w4 where 4: "checkScaleInPhases srv_reconciler ?sv c3 (marshal_scaleInState st3) w3 = (Inr requeueAfterImmediate, w4)"
    "stepped st3 c3 w3 scaleInPhaseCleanup [Op_Scale ?P (Some ?n)] st4 c4 w4"
    "srv_sts w4 = put2 ?ns ?P (Some (rescaled ?n p)) (srv_sts w3)" "srv_claims w4 = srv_claims w3"
    using step_scaling [of st3 c3 w3 ?P p scaleInPhaseCleanup b loc "''scaling down primaries''"]
      step_primaries [of st3 c3 w3 ?sv] s1 s2 s3 e3 start(3) prim(2,3) p3 by (simp add: scale_in_phase_names) metis
  note s4 = 4(2) [unfolded stepped_def]
  have k4: "carried c c4" using k3 s4 carried_trans by blast
  note e4 = carried_eqs [OF k4]
  have cl: "claims_end w4 ?ns sts ?n h = claims_end w ?ns sts ?n h" for sts h
    using 1(4) 2(4) 3(4) 4(4) by (simp add: claims_end_def claim_names_def)
  obtain st5 c5 w5 where 5: "checkScaleInPhases srv_reconciler ?sv c4 (marshal_scaleInState st4) w4 = (Inr requeueAfterImmediate, w5)"
    "stepped st4 c4 w4 scaleInPhaseCompleted (map Op_Delete_Claim (claims_between ?P ?n hp @ claims_between ?M ?n hm)) st5 c5 w5"
    "srv_sts w5 = srv_sts w4"
    using step_cleanup [of st4 c4 w4 hp hm b loc] s1 s2 s3 s4 e4 policy claims names cl by auto
  note s5 = 5(2) [unfolded stepped_def]
  have k5: "carried c c5" using k4 s5 carried_trans by blast
  note e5 = carried_eqs [OF k5]
  obtain c6 w6 where 6: "checkScaleInPhases srv_reconciler ?sv c5 (marshal_scaleInState st5) w5 = (Inr requeueAfterImmediate, w6)"
    "stored c6 w6" "same_key c6 c5" "St_Phase (CC_Status c6) = ClusterPhaseRunning"
    "CC_Annotations c6 = (CC_Annotations c5)(annotationScaleInState := None, AnnotationScaleStarted := None)"
    "data_log w6 = data_log w5" "srv_sts w6 = srv_sts w5"
    using step_completed [of st5 c5 w5 ?sv] s5 e5 total by auto
  have run: "reconciles fs c 6 w = w6"
    using pass_step [OF fs start(1) 1(1) carried_refl, of 5] pass_step [OF fs _ 2(1), of c 4] pass_step [OF fs _ 3(1), of c 3]
      pass_step [OF fs _ 4(1), of c 2] pass_step [OF fs _ 5(1), of c 1] pass_step [OF fs _ 6(1), of c 0]
      s1 s2 s3 s4 s5 k2 k3 k4 k5 by (simp add: eval_nat_numeral del: passes.simps(2))
  have "CC_Annotations c5 AnnotationConfirmScaleIn = CC_Annotations c AnnotationConfirmScaleIn"
    using k5 by (simp add: carried_def)
  moreover have "srv_get_sts ?ns ?P w6 = Some (rescaled ?n p\<lparr>Sts_Namespace := ?ns, Sts_Name := ?P\<rparr>)"
    "srv_get_sts ?ns ?M w6 = Some (rescaled ?n m\<lparr>Sts_Namespace := ?ns, Sts_Name := ?M\<rparr>)"
    using 6(7) 5(3) srv_get_sts_put [OF 4(3)] srv_get_sts_put [OF 3(3)] names by (simp_all add: srv_get_sts_def)
  moreover have "same_key c6 c" using 6(3) e5 by (simp add: same_key_def)
  ultimately show ?thesis unfolding run
    using 6 s1 s2 s3 s4 s5 by (auto simp: rescaled_def)
qed

section \<open>A scale-out on the reference server\<close>

text \<open>A cluster in the middle of a scale-out with state \<open>st\<close> that has not timed out.\<close>

definition scaling_out :: "scaleStateData \<Rightarrow> CloudberryCluster \<Rightarrow> store \<Rightarrow> bool" where
  "scaling_out st c w \<longleftrightarrow> stored c w \<and> St_Phase (CC_Status c) = ClusterPhaseScaling \<and> CC_DeletionTimestamp c = None \<and>
     CC_Annotations c AnnotationAction = None \<and> CC_Annotations c annotationScaleInState = None \<and>
     CC_Annotations c annotationScaleState = Some (marshal_scaleState st) \<and> scaleState_ok st \<and>
     \<not> (annotation c AnnotationScaleStarted \<noteq> [] \<and>
        timed_out srv_reconciler (annotation c AnnotationScaleStarted) scaleTimeout w)"

lemma scale_out_pass:
  assumes "scaling_out st c w" "fl_checkScaleProgress fs = checkScaleProgress srv_reconciler sv"
  shows "Reconcile srv_reconciler fs (CC_Namespace c) (CC_Name c) w =
    checkScaleOutPhases srv_reconciler sv c (marshal_scaleState st) w"
proof -
  have "k_get_cluster (r_client srv_reconciler) (CC_Namespace c) (CC_Name c) w = (Inr c, w)"
    using assms(1) srv_get [of c w c] by (simp add: scaling_out_def)
  moreover have "first_gate c = Route_ScaleProgress"
    using assms(1) by (simp add: scaling_out_def gate_defs)
  ultimately have "Reconcile srv_reconciler fs (CC_Namespace c) (CC_Name c) w = checkScaleProgress srv_reconciler sv c w"
    using assms(2) by (simp add: Reconcile_by_gate)
  moreover have "marshal_scaleState st \<noteq> []" by (simp add: marshal_scaleState_def Marshal_def)
  moreover have "annotation c annotationScaleState = marshal_scaleState st" "annotation c annotationScaleInState = []"
    using assms(1) by (simp_all add: scaling_out_def annotation_def)
  ultimately show ?thesis using assms(1)
    by (auto simp: checkScaleProgress_def scaling_out_def opTimeout_def Let_def)
qed

lemma scaling_out_read: "scaling_out st c w \<Longrightarrow> unmarshal_scaleState (marshal_scaleState st) = Some st"
  by (simp add: scaling_out_def scaleState_read)

text \<open>The cause a failed Job is reported with, from the pods of the Job.\<close>

definition failure_cause :: "store \<Rightarrow> string \<Rightarrow> string \<Rightarrow> string" where
  "failure_cause w ns job = ''gpexpand job '' @ job @ '' failed: '' @
     (case filter (\<lambda>m. m \<noteq> None \<and> m \<noteq> Some []) (concat (map Pod_Terminated (selected [(''job-name'', job)] (srv_pods w ns)))) of
        Some m # _ \<Rightarrow> TrimSpace m | _ \<Rightarrow> ''gpexpand job failed (no terminated container message)'')"

text \<open>The tracked Job has failed, and not because the coordinator is shutting down.\<close>

definition expansion_failed :: "scaleStateData \<Rightarrow> CloudberryCluster \<Rightarrow> store \<Rightarrow> Job \<Rightarrow> bool" where
  "expansion_failed st c w job \<longleftrightarrow> SS_Phase st = scalePhaseExpanding \<and> SS_ExpandJobName st \<noteq> [] \<and>
     srv_jobs w (CC_Namespace c) (SS_ExpandJobName st) = Some job \<and> KJob_Name job = SS_ExpandJobName st \<and>
     KJob_Namespace job = CC_Namespace c \<and> KJob_Succeeded job \<le> 0 \<and> (jobHasFailedCondition job \<or> KJob_Failed job > 0) \<and>
     \<not> IsCoordinatorShuttingDown (failure_cause w (CC_Namespace c) (KJob_Name job))"

lemma failed_pass:
  assumes "scaling_out st c w" "expansion_failed st c w job" "fl_checkScaleProgress fs = checkScaleProgress srv_reconciler (srv_services b loc)"
  shows "Reconcile srv_reconciler fs (CC_Namespace c) (CC_Name c) w =
    (let st1 = st\<lparr>SS_RedistributeAttempts := wrap32 (SS_RedistributeAttempts st + 1)\<rparr>
     in if SS_RedistributeAttempts st1 \<ge> maxRedistributeAttempts
        then failScaleOutRedistribution srv_reconciler c st1 (failure_cause w (CC_Namespace c) (KJob_Name job)) w
        else (let w2 = snd (s_delete_job (srv_services b loc) (KJob_Namespace job) (KJob_Name job) False w);
                  (_, w3) = persistScaleState srv_reconciler c (st1\<lparr>SS_ExpandJobName := []\<rparr>) w2
              in (Inr requeueAfterError, w3)))"
proof -
  have "gpexpandFailureMessage (srv_services b loc) c job w =
      (case filter (\<lambda>m. m \<noteq> None \<and> m \<noteq> Some []) (concat (map Pod_Terminated (selected [(''job-name'', KJob_Name job)] (srv_pods w (CC_Namespace c))))) of
        Some m # _ \<Rightarrow> TrimSpace m | _ \<Rightarrow> ''gpexpand job failed (no terminated container message)'', w)"
    by (simp add: gpexpandFailureMessage_def)
  moreover have "recoverWedgedCoordinator srv_reconciler (srv_services b loc) c scalePhaseExpanding
      (failure_cause w (CC_Namespace c) (KJob_Name job)) w = None"
    using assms(2) by (auto simp: recoverWedgedCoordinator_def expansion_failed_def)
  ultimately have "handleGpexpandJobFailure srv_reconciler (srv_services b loc) c st job w =
    (let st1 = st\<lparr>SS_RedistributeAttempts := wrap32 (SS_RedistributeAttempts st + 1)\<rparr>
     in if SS_RedistributeAttempts st1 \<ge> maxRedistributeAttempts
        then failScaleOutRedistribution srv_reconciler c st1 (failure_cause w (CC_Namespace c) (KJob_Name job)) w
        else (let w2 = snd (s_delete_job (srv_services b loc) (KJob_Namespace job) (KJob_Name job) False w);
                  (_, w3) = persistScaleState srv_reconciler c (st1\<lparr>SS_ExpandJobName := []\<rparr>) w2
              in (Inr requeueAfterError, w3)))"
    by (simp only: handleGpexpandJobFailure_def prod.case Let_def failure_cause_def [symmetric] option.case)
  then show ?thesis
    using assms(2) scaling_out_read [OF assms(1)] scale_out_pass [OF assms(1,3)]
    by (auto simp: checkScaleOutPhases_def expansion_failed_def processScaleOutExpanding_def)
qed

lemma fail_run:
  assumes "stored c w"
  shows "\<exists>c' w'. failScaleOutRedistribution srv_reconciler c st cause w = (Inr 0, w') \<and> stored c' w' \<and> same_key c' c \<and>
    St_Phase (CC_Status c') = ClusterPhaseFailed \<and>
    CC_Annotations c' = (CC_Annotations c)(annotationScaleState := None, AnnotationScaleStarted := None) \<and>
    St_FailedSegments (CC_Status c') = failed_range (SegmentPrimaryName (CC_Name c)) ''primary'' ''RedistributionFailed''
      (SS_OldCount st) (SS_NewCount st)"
proof -
  define d where "d = with_condition (srv_now w) ConditionScaleOutFailed ConditionTrue ''RedistributionFailed''
    (''Scale-out redistribution failed after '' @ show_int (SS_RedistributeAttempts st) @ '' attempts: '' @ cause)
    (with_phase ClusterPhaseFailed c\<lparr>CC_Status := (CC_Status (with_phase ClusterPhaseFailed c))\<lparr>St_FailedSegments :=
      failed_range (SegmentPrimaryName (CC_Name c)) ''primary'' ''RedistributionFailed'' (SS_OldCount st) (SS_NewCount st)\<rparr>\<rparr>)"
  define c1 where "c1 = c\<lparr>CC_Status := CC_Status d\<rparr>"
  have d: "same_key d c" "St_Phase (CC_Status d) = ClusterPhaseFailed"
    "St_FailedSegments (CC_Status d) = failed_range (SegmentPrimaryName (CC_Name c)) ''primary'' ''RedistributionFailed''
      (SS_OldCount st) (SS_NewCount st)"
    by (simp_all add: d_def same_key_def with_phase_def) (simp add: with_condition_def)
  define c2 where "c2 = annotated annotationScaleState None c1"
  define w2 where "w2 = logged (Op_Annotation annotationScaleState None) (set_cluster c2 (set_cluster c1 w))"
  have drop1: "dropAnnotation srv_reconciler c1 annotationScaleState (set_cluster c1 w) = (c2, w2)"
    using exec_drop [of c1 "set_cluster c1 w" c1 annotationScaleState] by (simp add: c2_def w2_def)
  have drop2: "dropAnnotation srv_reconciler c2 AnnotationScaleStarted w2 = (annotated AnnotationScaleStarted None c2,
      logged (Op_Annotation AnnotationScaleStarted None) (set_cluster (annotated AnnotationScaleStarted None c2) w2))"
    by (rule exec_drop) (simp_all add: w2_def)
  define w3 where "w3 = logged (Op_Annotation AnnotationScaleStarted None) (set_cluster (annotated AnnotationScaleStarted None c2) w2)"
  have "failScaleOutRedistribution srv_reconciler c st cause w = (Inr 0, w3)"
    using exec_update_status [OF assms d(1)] drop1 drop2
    by (simp only: failScaleOutRedistribution_def Let_def srv_reconciler_simps srv_event_now d_def [symmetric]
        c1_def [symmetric] prod.case sum.case snd_conv w3_def)
  moreover have "stored (annotated AnnotationScaleStarted None c2) w3" by (simp add: w3_def)
  ultimately show ?thesis using d
    by (intro exI [of _ "annotated AnnotationScaleStarted None c2"] exI [of _ w3]) (simp add: c2_def c1_def)
qed

lemma retry_run:
  assumes "scaling_out st c w" "expansion_failed st c w job" "SS_RedistributeAttempts st + 1 < maxRedistributeAttempts"
    and "0 \<le> SS_RedistributeAttempts st"
  shows "\<exists>c' w'. (let w2 = snd (s_delete_job (srv_services b loc) (KJob_Namespace job) (KJob_Name job) False w);
          (_, w3) = persistScaleState srv_reconciler c
            (st\<lparr>SS_RedistributeAttempts := SS_RedistributeAttempts st + 1, SS_ExpandJobName := []\<rparr>) w2
        in (Inr requeueAfterError, w3)) = (Inr requeueAfterError, w') \<and>
    scaling_out (st\<lparr>SS_RedistributeAttempts := SS_RedistributeAttempts st + 1, SS_ExpandJobName := []\<rparr>) c' w' \<and>
    same_key c' c \<and> srv_jobs w' (CC_Namespace c) (SS_ExpandJobName st) = None"
proof -
  let ?st = "st\<lparr>SS_RedistributeAttempts := SS_RedistributeAttempts st + 1, SS_ExpandJobName := []\<rparr>"
  define w2 where "w2 = snd (s_delete_job (srv_services b loc) (KJob_Namespace job) (KJob_Name job) False w)"
  have w2: "srv_cluster w2 = srv_cluster w" "srv_now w2 = srv_now w" "srv_jobs w2 (CC_Namespace c) (SS_ExpandJobName st) = None"
    using assms(2) by (simp_all add: w2_def srv_services_def expansion_failed_def)
  define c' where "c' = annotated annotationScaleState (Some (marshal_scaleState ?st)) c"
  define w' where "w' = logged (Op_Annotation annotationScaleState (Some (marshal_scaleState ?st))) (set_cluster c' w2)"
  have "stored c w2" using assms(1) stored_cong [OF w2(1)] by (simp add: scaling_out_def)
  then have run: "persistScaleState srv_reconciler c ?st w2 = (Inr c', w')"
    using exec_annotation [of c w2 c] by (simp add: persistScaleState_def setAnnotationPatch_def c'_def w'_def)
  have "scaleState_ok ?st"
    using assms(1,3,4) by (simp add: scaling_out_def scaleState_ok_def in_int32_def valid_utf8.simps [of "[]"])
  then have "scaling_out ?st c' w'"
    using assms(1) timed_out_now [of w' w] w2(2)
    by (simp add: scaling_out_def c'_def w'_def annotation_def cong: option.case_cong)
  then show ?thesis using run w2(3) by (intro exI [of _ c'] exI [of _ w']) (simp add: w2_def [symmetric] w'_def c'_def)
qed

subsection \<open>The gate before gpexpand\<close>

text \<open>
  What gpexpand needs: the segments of the old count ready, the pods of the new ordinals running,
  and the coordinator (and the standby, if there is one) rolled out with a ready pod.
\<close>

definition pods_running :: "store \<Rightarrow> CloudberryCluster \<Rightarrow> string \<Rightarrow> string \<Rightarrow> int32 \<Rightarrow> int32 \<Rightarrow> bool" where
  "pods_running w c component stsName lo hi \<longleftrightarrow>
     (\<forall>i \<in> {lo..<hi}. pod_running (selected (CommonLabels (CC_Name c) component) (srv_pods w (CC_Namespace c)))
        (stsName @ ''-'' @ show_int i))"

definition component_up :: "store \<Rightarrow> string \<Rightarrow> string \<Rightarrow> string \<Rightarrow> bool" where
  "component_up w ns stsName component \<longleftrightarrow>
     (case srv_get_sts ns stsName w of None \<Rightarrow> False | Some s \<Rightarrow> statefulSetFullyRolled s) \<and>
     (case filter (\<lambda>p. Pod_Name p = stsName @ ''-0'')
        (selected (CommonLabels (clusterNameFromComponentSts stsName component) component) (srv_pods w ns)) of
        [] \<Rightarrow> False | p # _ \<Rightarrow> \<not> Pod_Deleting p \<and> Pod_Phase p = ''Running'' \<and> podIsReady p)"

definition expansion_ready :: "scaleStateData \<Rightarrow> CloudberryCluster \<Rightarrow> store \<Rightarrow> bool" where
  "expansion_ready st c w \<longleftrightarrow>
     (let ns = CC_Namespace c; P = SegmentPrimaryName (CC_Name c); M = SegmentMirrorName (CC_Name c)
      in at_scale (SS_OldCount st) (srv_sts_view w ns P) \<and> (mirroring_on c \<longrightarrow> at_scale (SS_OldCount st) (srv_sts_view w ns M)) \<and>
         pods_running w c ComponentSegmentPrimary P (SS_OldCount st) (SS_NewCount st) \<and>
         (mirroring_on c \<longrightarrow> pods_running w c ComponentSegmentMirror M (SS_OldCount st) (SS_NewCount st)) \<and>
         component_up w ns (CoordinatorName (CC_Name c)) ComponentCoordinator \<and>
         (standby_on c \<longrightarrow> component_up w ns (StandbyName (CC_Name c)) ComponentStandby))"

lemma segmentPodsRunning_srv:
  "segmentPodsRunning (srv_services b loc) c ComponentSegmentPrimary lo hi w =
     (pods_running w c ComponentSegmentPrimary (SegmentPrimaryName (CC_Name c)) lo hi, w)"
  "segmentPodsRunning (srv_services b loc) c ComponentSegmentMirror lo hi w =
     (pods_running w c ComponentSegmentMirror (SegmentMirrorName (CC_Name c)) lo hi, w)"
  by (auto simp: segmentPodsRunning_def pods_running_def list_all_iff Let_def)

lemma provisioned_srv:
  "scaleOutSegmentPodsProvisioned srv_reconciler (srv_services b loc) c lo hi w =
     (at_scale lo (srv_sts_view w (CC_Namespace c) (SegmentPrimaryName (CC_Name c))) \<and>
      (mirroring_on c \<longrightarrow> at_scale lo (srv_sts_view w (CC_Namespace c) (SegmentMirrorName (CC_Name c)))) \<and>
      pods_running w c ComponentSegmentPrimary (SegmentPrimaryName (CC_Name c)) lo hi \<and>
      (mirroring_on c \<longrightarrow> pods_running w c ComponentSegmentMirror (SegmentMirrorName (CC_Name c)) lo hi), w)"
  unfolding scaleOutSegmentPodsProvisioned_def srv.at_scale_one segmentPodsRunning_srv
  by (simp add: case_bool_if)

lemma stable_srv: "statefulSetStable (srv_services b loc) ns stsName component w = (component_up w ns stsName component, w)"
  by (simp add: statefulSetStable_def component_up_def componentPodStable_def split: option.split list.split)

lemma coordinator_srv:
  "coordinatorStableForGpexpand (srv_services b loc) c w =
     (component_up w (CC_Namespace c) (CoordinatorName (CC_Name c)) ComponentCoordinator \<and>
      (standby_on c \<longrightarrow> component_up w (CC_Namespace c) (StandbyName (CC_Name c)) ComponentStandby), w)"
  unfolding coordinatorStableForGpexpand_def stable_srv
  by (simp add: case_bool_if standby_on_def split: option.split)

lemma advance_out:
  assumes "scaling_out st c w" "valid_utf8 p"
  shows "\<exists>c' w' t. advanceScalePhase srv_reconciler sv c st p w = (Inr requeueAfterImmediate, w') \<and>
    scaling_out (st\<lparr>SS_Phase := p, SS_PhaseStartedAt := t\<rparr>) c' w' \<and> same_key c' c \<and> data_log w' = data_log w \<and>
    srv_sts w' = srv_sts w \<and> CC_Spec c' = CC_Spec c \<and> CC_Status c' = CC_Status c \<and>
    (\<forall>k. k \<noteq> annotationScaleState \<longrightarrow> CC_Annotations c' k = CC_Annotations c k)"
proof -
  define st' where "st' = st\<lparr>SS_Phase := p, SS_PhaseStartedAt := now_text srv_reconciler sv w\<rparr>"
  define c' where "c' = annotated annotationScaleState (Some (marshal_scaleState st')) c"
  define w' where "w' = logged (Op_Annotation annotationScaleState (Some (marshal_scaleState st'))) (set_cluster c' w)"
  have run: "advanceScalePhase srv_reconciler sv c st p w = (Inr requeueAfterImmediate, w')"
    using assms(1) exec_annotation [of c w c annotationScaleState "Some (marshal_scaleState st')"]
    by (simp add: advanceScalePhase_def setAnnotationPatch_def scaling_out_def st'_def [symmetric] w'_def c'_def)
  have "scaleState_ok st'"
    using assms by (simp add: st'_def scaling_out_def scaleState_ok_def now_text_utf8)
  then have "scaling_out st' c' w'"
    using assms(1) timed_out_now [of w' w] by (simp add: scaling_out_def c'_def w'_def annotation_def cong: option.case_cong)
  then show ?thesis using run unfolding st'_def
    by (intro exI [of _ c'] exI [of _ w'] exI [of _ "now_text srv_reconciler sv w"]) (simp add: w'_def c'_def)
qed

subsection \<open>Names recovered from StatefulSets\<close>

lemma sanitized_chars: "c \<in> set (SanitizeK8sName s) \<Longrightarrow> name_char c"
proof -
  assume "c \<in> set (SanitizeK8sName s)"
  then have "c \<in> set (trim_char CHR ''-'' (replace_invalid (ToLower s)))"
    by (auto simp: SanitizeK8sName_def TruncateName_def split: if_splits dest: in_set_takeD)
  then have "c \<in> set (replace_invalid (ToLower s))" using set_trim_char by fastforce
  then show ?thesis using replace_invalid_chars [of "ToLower s"] by (simp add: list_all_iff)
qed

lemma set_TrimSuffix: "set (TrimSuffix s t) \<subseteq> set s"
  by (auto simp: TrimSuffix_def dest: in_set_takeD)

lemma TrimSuffix_append: "TrimSuffix (a @ t) t = a"
  by (simp add: TrimSuffix_def)

lemma recovered_name:
  assumes "dns_label n" "length n \<le> 43"
  shows "clusterNameFromComponentSts (CoordinatorName n) ComponentCoordinator = n"
    "clusterNameFromComponentSts (StandbyName n) ComponentStandby = n"
  using component_names(1,2) [OF assms] by (simp_all add: clusterNameFromComponentSts_def TrimSuffix_append)

end
