(* ===== verification/ScaleProperties.thy ===== *)
theory ScaleProperties
  imports ScaleTheorems
begin

text \<open>
  The properties of scaling, with concrete clusters on which they apply: a cluster of four mirrored
  segments that shrinks to two, and one that grows from two to four.
\<close>

section \<open>Samples\<close>

definition sample_sts :: "string \<Rightarrow> int32 \<Rightarrow> StatefulSetFull" where
  "sample_sts n k = \<lparr>Sts_Namespace = ''ns'', Sts_Name = n, Sts_Replicas = Some k, Sts_StatusReplicas = k,
     Sts_ReadyReplicas = k, Sts_UpdatedReplicas = k, Sts_Template = \<lparr>Tpl_Containers = [], Tpl_Annotations = Map.empty\<rparr>,
     Sts_Generation = 1, Sts_ObservedGeneration = 1, Sts_CurrentRevision = ''r'', Sts_UpdateRevision = ''r''\<rparr>"

definition failed_job :: Job where
  "failed_job = \<lparr>KJob_Namespace = ''ns'', KJob_Name = ''j'', KJob_Annotations = Map.empty, KJob_Deleting = False,
     KJob_Succeeded = 0, KJob_Failed = 1, KJob_Active = 0, KJob_Conditions = []\<rparr>"

definition sample_services :: "store services" where
  "sample_services = srv_services \<lparr>bld_primary = (\<lambda>c. Inr (sample_sts (SegmentPrimaryName (CC_Name c)) (Seg_Count (Spec_Segments (CC_Spec c))))),
     bld_mirror = (\<lambda>c. Inr None), bld_gpexpand = (\<lambda>c a b t. None), bld_coordinator = (\<lambda>c. Inl []), bld_standby = (\<lambda>c. Inr None), bld_maintenance = (\<lambda>c op t. failed_job)\<rparr> UTC"

definition scale_flows :: "store flows" where
  "scale_flows = sample_flows\<lparr>fl_checkScaleProgress := checkScaleProgress srv_reconciler sample_services\<rparr>"

definition resized :: "int32 \<Rightarrow> CloudberryCluster \<Rightarrow> CloudberryCluster" where
  "resized n c = c\<lparr>CC_Spec := (CC_Spec c)\<lparr>Spec_Segments := (Spec_Segments (CC_Spec c))\<lparr>Seg_Count := n\<rparr>,
     Spec_DeletionPolicy := DeletionPolicyDelete\<rparr>,
     CC_Status := (CC_Status c)\<lparr>St_Phase := ClusterPhaseScaling, St_SegmentsTotal := n\<rparr>\<rparr>"

definition shrink_state :: scaleInStateData where
  "shrink_state = \<lparr>SI_Phase = scaleInPhaseRedistributing, SI_OldCount = 4, SI_NewCount = 2, SI_StartedAt = [], SI_PhaseStartedAt = []\<rparr>"

definition shrinking :: CloudberryCluster where
  "shrinking = annotated annotationScaleInState (Some (marshal_scaleInState shrink_state))
     (resized 2 (with_mirroring MirroringLayoutSpread base_cluster))"

definition grow_state :: "string \<Rightarrow> int32 \<Rightarrow> scaleStateData" where
  "grow_state phase attempts = \<lparr>SS_Phase = phase, SS_OldCount = 2, SS_NewCount = 4, SS_StartedAt = [], SS_PhaseStartedAt = [],
     SS_RedistributeAttempts = attempts, SS_ExpandJobName = ''j''\<rparr>"

definition growing :: "scaleStateData \<Rightarrow> CloudberryCluster" where
  "growing st = annotated annotationScaleState (Some (marshal_scaleState st)) (resized 4 base_cluster)"

text \<open>A store with the cluster, primaries and mirrors of \<open>k\<close> replicas, their claims, pods and a failed Job.\<close>

definition sample_store :: "CloudberryCluster \<Rightarrow> int32 \<Rightarrow> (string_map \<times> Pod) list \<Rightarrow> store" where
  "sample_store c k pods = \<lparr>
     srv_cluster = (\<lambda>ns n. if ns = ''ns'' \<and> n = ''c'' then Some c else None),
     srv_sts = (\<lambda>ns n. if ns = ''ns'' \<and> n \<in> {''c-segment-primary'', ''c-segment-mirror''} then Some (sample_sts n k)
       else if ns = ''ns'' \<and> n = ''c-coordinator'' then Some (sample_sts n 1) else None),
     srv_jobs = (\<lambda>ns n. if ns = ''ns'' \<and> n = ''j'' then Some failed_job else None),
     srv_pods = (\<lambda>ns. pods),
     srv_claims = (\<lambda>ns. map (Pair Map.empty) (claims_between ''c-segment-primary'' 0 k @ claims_between ''c-segment-mirror'' 0 k)),
     srv_db_error = (\<lambda>_. None), srv_mirror_sync = [], srv_log = [], srv_now = 0\<rparr>"

lemmas sample_record_simps = sample_sts_def resized_def with_mirroring_def base_cluster_def base_spec_def base_status_def
  annotated_def

lemma sample_mirror_name: "SegmentMirrorName ''c'' = ''c-segment-mirror''" by code_simp

lemma sample_store_simps [simp]: "srv_db_error (sample_store c k pods) = (\<lambda>_. None)" "srv_now (sample_store c k pods) = 0"
  "srv_get_cluster ''ns'' ''c'' (sample_store c k pods) = Some (c\<lparr>CC_Namespace := ''ns'', CC_Name := ''c''\<rparr>)"
  "data_log (sample_store c k pods) = []"
  by (simp_all add: sample_store_def srv_get_cluster_def data_log_def)

lemma sample_store_sts [simp]:
  "srv_get_sts ''ns'' ''c-segment-primary'' (sample_store c k pods) = Some (sample_sts ''c-segment-primary'' k)"
  "srv_get_sts ''ns'' ''c-segment-mirror'' (sample_store c k pods) = Some (sample_sts ''c-segment-mirror'' k)"
  "srv_get_sts ''ns'' ''c-coordinator'' (sample_store c k pods) = Some (sample_sts ''c-coordinator'' 1)"
  by (simp_all add: sample_store_def srv_get_sts_def) (simp_all add: sample_sts_def)

lemma sample_claims:
  assumes "0 \<le> lo" "lo \<le> k" "k \<le> 2147483647" "n \<in> {''c-segment-primary'', ''c-segment-mirror''}"
  shows "claims_end (sample_store c k pods) ns n lo k"
proof -
  have names: "claim_names (sample_store c k pods) ns =
      set (claims_between ''c-segment-primary'' 0 k) \<union> set (claims_between ''c-segment-mirror'' 0 k)"
    by (simp add: claim_names_def sample_store_def image_Un image_image)
  have "claim n k \<noteq> claim m i" if "i \<in> {0..k - 1}" for m i
    using claim_inj [of n k m i] that by auto
  then have "claim n k \<notin> claim_names (sample_store c k pods) ns"
    unfolding names claims_between_def set_map set_upto by blast
  moreover have "set (claims_between n lo k) \<subseteq> claim_names (sample_store c k pods) ns"
    unfolding names using assms(1,4) by (auto simp: claims_between_def)
  ultimately show ?thesis using assms(1-3) by (simp add: claims_end_def)
qed

lemma shrinking_simps: "CC_Namespace shrinking = ''ns''" "CC_Name shrinking = ''c''" "mirroring_on shrinking"
  "Spec_DeletionPolicy (CC_Spec shrinking) = DeletionPolicyDelete" "Seg_Count (Spec_Segments (CC_Spec shrinking)) = 2"
  "St_SegmentsTotal (CC_Status shrinking) = 2" "shrinking\<lparr>CC_Namespace := ''ns'', CC_Name := ''c''\<rparr> = shrinking"
  by (simp_all add: shrinking_def sample_record_simps mirroring_on_def)

lemma shrinking_scales: "scaling_in shrink_state shrinking (sample_store shrinking 4 pods)"
proof -
  have "scaleInState_ok shrink_state"
    by (simp add: scaleInState_ok_def shrink_state_def in_int32_def scale_in_phase_names valid_utf8.simps [of "[]"])
  then show ?thesis
    by (simp add: scaling_in_def stored_def shrinking_simps)
      (simp add: shrinking_def sample_record_simps annotation_def)
qed

lemma scale_flows_progress: "fl_checkScaleProgress scale_flows = checkScaleProgress srv_reconciler sample_services"
  by (simp add: scale_flows_def)


section \<open>Properties\<close>

text \<open>
  C9. The state of a scale operation survives its annotation: what the operator writes it reads
  back, and the two readers that decode a part of it (the gate of a running scale-out, and the
  builder of the segments) agree with the whole.
\<close>

theorem scale_state_roundtrip:
  assumes "scaleState_ok s" "scaleInState_ok i" "CC_Annotations c annotationScaleState = Some (marshal_scaleState s)"
  shows "unmarshal_scaleState (marshal_scaleState s) = Some s \<and>
    unmarshal_scaleInState (marshal_scaleInState i) = Some i \<and>
    (scaleOutInProgress c \<longleftrightarrow>
      SS_Phase s \<in> {scalePhaseScalingSTS, scalePhaseExpanding, scalePhaseRegistering, scalePhaseRedistributing}) \<and>
    ScaleOutBaseCount c =
      (if SS_OldCount s < SS_NewCount s \<and> 0 \<le> SS_OldCount s then (SS_OldCount s, True) else (0, False))"
proof -
  have "ScaleOutBaseCount c =
      (if SS_OldCount s < SS_NewCount s \<and> 0 \<le> SS_OldCount s then (SS_OldCount s, True) else (0, False))"
    unfolding ScaleOutBaseCount_read [OF assms(1,3)] by auto
  then show ?thesis
    using scaleState_read [OF assms(1)] scaleInState_read [OF assms(2)] scaleOutInProgress_read [OF assms(1,3)] by blast
qed

lemma grow_state_ok: "0 \<le> n \<Longrightarrow> n \<le> 5 \<Longrightarrow> p \<in> {scalePhaseScalingSTS, scalePhaseExpanding} \<Longrightarrow> scaleState_ok (grow_state p n)"
  using ascii_valid_utf8 [of p] ascii_valid_utf8 [of "''j''"]
  by (auto simp: scaleState_ok_def grow_state_def in_int32_def valid_utf8.simps [of "[]"])

lemma shrink_state_ok: "scaleInState_ok shrink_state"
  using shrinking_scales by (simp add: scaling_in_def)

theorem scale_state_roundtrip_witness:
  "unmarshal_scaleState (marshal_scaleState (grow_state scalePhaseExpanding 3)) = Some (grow_state scalePhaseExpanding 3) \<and>
   unmarshal_scaleInState (marshal_scaleInState shrink_state) = Some shrink_state \<and>
   scaleOutInProgress (growing (grow_state scalePhaseExpanding 3)) \<and>
   ScaleOutBaseCount (growing (grow_state scalePhaseExpanding 3)) = (2, True)"
  using scale_state_roundtrip [of "grow_state scalePhaseExpanding 3" shrink_state "growing (grow_state scalePhaseExpanding 3)"]
    grow_state_ok [of 3 scalePhaseExpanding] shrink_state_ok
  by (simp add: growing_def) (simp add: grow_state_def)

text \<open>
  C13. A large scale-in needs its confirmation: once the primary StatefulSet has been read, a request to
  drop more than half of the segments it requests, without the confirming annotation, is handled by the
  detection of scale operations, which changes nothing but the events, whatever the API server would
  answer to further calls. (A read that fails is not covered: the detection is then skipped.)
\<close>

theorem large_scale_in_needs_confirmation:
  assumes "Sts_Replicas sts = Some current" "0 < current" "2 * Seg_Count (Spec_Segments (CC_Spec c)) < current"
    and "annotation c AnnotationConfirmScaleIn \<noteq> ''true''"
  shows "\<exists>reason. detectAndHandleScale r sv c (Inr sts) w =
    Some ((None, c), k_event (r_client r) c ''ScaleInBlocked'' reason w)"
proof -
  let ?n = "Seg_Count (Spec_Segments (CC_Spec c))"
  have "\<exists>reason. handleScaleIn r sv c current ?n w = ((None, c), k_event (r_client r) c ''ScaleInBlocked'' reason w)"
    using assms(3,4) by (auto simp: handleScaleIn_def more_than_half_def)
  moreover have "detectAndHandleScale r sv c (Inr sts) w = Some (handleScaleIn r sv c current ?n w)"
    using assms(1-3) by (simp add: detectAndHandleScale_def Let_def)
  ultimately show ?thesis by simp
qed

theorem large_scale_in_needs_confirmation_witness:
  "\<exists>reason. detectAndHandleScale srv_reconciler sample_services
      (base_cluster\<lparr>CC_Spec := base_spec\<lparr>Spec_Segments := (Spec_Segments base_spec)\<lparr>Seg_Count := 1\<rparr>\<rparr>\<rparr>)
      (Inr (StatefulSet.truncate (sample_sts ''c-segment-primary'' 4))) (sample_store base_cluster 4 []) =
    Some ((None, base_cluster\<lparr>CC_Spec := base_spec\<lparr>Spec_Segments := (Spec_Segments base_spec)\<lparr>Seg_Count := 1\<rparr>\<rparr>\<rparr>),
      k_event srv_client base_cluster ''ScaleInBlocked'' reason (sample_store base_cluster 4 []))"
  using large_scale_in_needs_confirmation [of "StatefulSet.truncate (sample_sts ''c-segment-primary'' 4)" 4
      "base_cluster\<lparr>CC_Spec := base_spec\<lparr>Spec_Segments := (Spec_Segments base_spec)\<lparr>Seg_Count := 1\<rparr>\<rparr>\<rparr>"
      srv_reconciler sample_services "sample_store base_cluster 4 []"]
  by (simp add: sample_sts_def StatefulSet.defs base_cluster_def annotation_def)



lemma failed_range_ids: "map FS_ContentID (failed_range s r t lo hi) = [lo..hi - 1]"
  by (simp add: failed_range_def comp_def)

text \<open>
  C11. A failing expansion is given up after a bounded number of attempts: when the tracked Job has
  failed (and the coordinator is not shutting down), the pass counts the attempt, deletes the Job and
  stays in the operation while fewer than five have failed; at the fifth it ends the operation with
  the cluster Failed, the state and start annotations removed and the new segments listed as failed.
\<close>

theorem failed_expansion_is_bounded:
  assumes "scaling_out st c w" "expansion_failed st c w job" "0 \<le> SS_RedistributeAttempts st"
    and "SS_RedistributeAttempts st < 2147483647"
    and "fl_checkScaleProgress fs = checkScaleProgress srv_reconciler (srv_services b loc)"
  shows "\<exists>c' w' delay. Reconcile srv_reconciler fs (CC_Namespace c) (CC_Name c) w = (Inr delay, w') \<and> stored c' w' \<and> same_key c' c \<and>
    (if SS_RedistributeAttempts st + 1 < maxRedistributeAttempts
     then delay = requeueAfterError \<and> srv_jobs w' (CC_Namespace c) (SS_ExpandJobName st) = None \<and>
       scaling_out (st\<lparr>SS_RedistributeAttempts := SS_RedistributeAttempts st + 1, SS_ExpandJobName := []\<rparr>) c' w'
     else delay = 0 \<and> St_Phase (CC_Status c') = ClusterPhaseFailed \<and>
       CC_Annotations c' = (CC_Annotations c)(annotationScaleState := None, AnnotationScaleStarted := None) \<and>
       map FS_ContentID (St_FailedSegments (CC_Status c')) = [SS_OldCount st..SS_NewCount st - 1])"
proof -
  let ?n = "SS_RedistributeAttempts st + 1"
  have n: "wrap32 ?n = ?n" using assms(3,4) by (simp add: wrap32_id in_int32_def)
  show ?thesis
  proof (cases "?n < maxRedistributeAttempts")
    case True
    then show ?thesis
      using failed_pass [OF assms(1,2,5)] retry_run [OF assms(1,2) True assms(3), of b loc] n
      by (auto simp: scaling_out_def)
  next
    case False
    have "stored c w" using assms(1) by (simp add: scaling_out_def)
    then obtain c' w' where f: "failScaleOutRedistribution srv_reconciler c (st\<lparr>SS_RedistributeAttempts := ?n\<rparr>)
          (failure_cause w (CC_Namespace c) (KJob_Name job)) w = (Inr 0, w')" "stored c' w'" "same_key c' c"
        "St_Phase (CC_Status c') = ClusterPhaseFailed"
        "CC_Annotations c' = (CC_Annotations c)(annotationScaleState := None, AnnotationScaleStarted := None)"
        "St_FailedSegments (CC_Status c') = failed_range (SegmentPrimaryName (CC_Name c)) ''primary'' ''RedistributionFailed''
          (SS_OldCount st) (SS_NewCount st)"
      using fail_run [of c w "st\<lparr>SS_RedistributeAttempts := ?n\<rparr>" "failure_cause w (CC_Namespace c) (KJob_Name job)"] by auto
    then show ?thesis
      using failed_pass [OF assms(1,2,5)] n False
      by (intro exI [of _ c'] exI [of _ w'] exI [of _ 0]) (simp add: failed_range_ids)
  qed
qed

lemma growing_simps [simp]: "CC_Namespace (growing st) = ''ns''" "CC_Name (growing st) = ''c''"
  "(growing st)\<lparr>CC_Namespace := ''ns'', CC_Name := ''c''\<rparr> = growing st" "\<not> mirroring_on (growing st)" "\<not> standby_on (growing st)"
  by (simp_all add: growing_def sample_record_simps mirroring_on_def standby_on_def)

lemma growing_scales:
  assumes "scaleState_ok st"
  shows "scaling_out st (growing st) (sample_store (growing st) k pods)"
  using assms by (simp add: scaling_out_def stored_def) (simp add: growing_def sample_record_simps annotation_def)

lemma growing_failed: "expansion_failed (grow_state scalePhaseExpanding n) (growing st) (sample_store c k []) failed_job"
proof -
  have "\<not> IsCoordinatorShuttingDown (failure_cause (sample_store c k []) ''ns'' ''j'')"
    by (simp add: failure_cause_def sample_store_def selected_def) code_simp
  then show ?thesis by (simp add: expansion_failed_def) (simp add: grow_state_def failed_job_def sample_store_def)
qed

theorem failed_expansion_is_bounded_witness:
  "\<exists>c' w'. Reconcile srv_reconciler scale_flows ''ns'' ''c'' (sample_store (growing (grow_state scalePhaseExpanding 4)) 4 []) = (Inr 0, w') \<and>
    stored c' w' \<and> St_Phase (CC_Status c') = ClusterPhaseFailed \<and> map FS_ContentID (St_FailedSegments (CC_Status c')) = [2, 3]"
proof -
  have a: "SS_RedistributeAttempts (grow_state scalePhaseExpanding 4) = 4" "SS_OldCount (grow_state scalePhaseExpanding 4) = 2"
    "SS_NewCount (grow_state scalePhaseExpanding 4) = 4" by (simp_all add: grow_state_def)
  have r: "[2..4 - 1] = [2, 3 :: int]" by (simp add: upto.simps)
  have "scaleState_ok (grow_state scalePhaseExpanding 4)" by (rule grow_state_ok) simp_all
  from failed_expansion_is_bounded [OF growing_scales [OF this, of 4 "[]"] growing_failed _ _
      scale_flows_progress [unfolded sample_services_def]]
  show ?thesis unfolding a r by (simp del: upto.simps) (elim exE conjE, intro exI conjI)
qed


definition sample_pod :: "string \<Rightarrow> Pod" where
  "sample_pod n = \<lparr>Pod_Name = n, Pod_Phase = ''Running'', Pod_Conditions = [(''Ready'', ConditionTrue)],
     Pod_Deleting = False, Pod_Terminated = []\<rparr>"

definition grown_pods :: "(string_map \<times> Pod) list" where
  "grown_pods = map (\<lambda>n. (map_of (CommonLabels ''c'' ComponentSegmentPrimary), sample_pod n))
       [''c-segment-primary-2'', ''c-segment-primary-3''] @
     [(map_of (CommonLabels ''c'' ComponentCoordinator), sample_pod ''c-coordinator-0'')]"

lemma growing_ready: "expansion_ready (grow_state scalePhaseScalingSTS 0) (growing st) (sample_store c 4 grown_pods)"
proof -
  have pods: "srv_pods (sample_store c 4 grown_pods) ''ns'' = grown_pods" by (simp add: sample_store_def)
  have sel: "selected (CommonLabels ''c'' ComponentSegmentPrimary) grown_pods = map sample_pod [''c-segment-primary-2'', ''c-segment-primary-3'']"
    "selected (CommonLabels ''c'' ComponentCoordinator) grown_pods = [sample_pod ''c-coordinator-0'']"
    by (simp_all add: selected_def grown_pods_def CommonLabels_def)
  have names: "show_int 2 = ''2''" "show_int 3 = ''3''" "clusterNameFromComponentSts ''c-coordinator'' ComponentCoordinator = ''c''"
    by code_simp+
  have ord: "i \<in> {2..<4} \<Longrightarrow> i = 2 \<or> i = 3" for i :: int by auto
  have "pods_running (sample_store c 4 grown_pods) (growing st) ComponentSegmentPrimary ''c-segment-primary'' 2 4"
    unfolding pods_running_def growing_simps pods sel
    by (auto dest!: ord simp: names pod_running_def sample_pod_def)
  moreover have "component_up (sample_store c 4 grown_pods) ''ns'' ''c-coordinator'' ComponentCoordinator"
    unfolding component_up_def pods names sel
    by (simp add: sample_sts_def statefulSetFullyRolled_def sample_pod_def podIsReady_def)
  moreover have "at_scale 2 (srv_sts_view (sample_store c 4 grown_pods) ''ns'' ''c-segment-primary'')"
    by (simp add: srv_sts_view_def sample_sts_def StatefulSet.defs at_scale_def)
  ultimately show ?thesis
    by (simp add: expansion_ready_def sample_names Let_def) (simp add: grow_state_def)
qed


text \<open>The state a scale-out starts with.\<close>

definition started_state :: "int32 \<Rightarrow> int32 \<Rightarrow> string \<Rightarrow> scaleStateData" where
  "started_state old new t = \<lparr>SS_Phase = scalePhaseScalingSTS, SS_OldCount = old, SS_NewCount = new, SS_StartedAt = t,
     SS_PhaseStartedAt = t, SS_RedistributeAttempts = 0, SS_ExpandJobName = []\<rparr>"

lemma started_state_ok: "in_int32 old \<Longrightarrow> in_int32 new \<Longrightarrow> valid_utf8 t \<Longrightarrow> scaleState_ok (started_state old new t)"
  using ascii_valid_utf8 [of scalePhaseScalingSTS]
  by (simp add: scaleState_ok_def started_state_def in_int32_def valid_utf8.simps [of "[]"])

lemma apply_existing:
  assumes "srv_get_sts (Sts_Namespace p) (Sts_Name p) w = Some s" "Sts_Replicas s \<noteq> Sts_Replicas p"
  shows "\<exists>w' s'. createOrUpdateStatefulSet (srv_services b loc) p w = (None, w') \<and>
    srv_log w' = srv_log w @ [Op_Apply (Sts_Name p) (Sts_Replicas p)] \<and> srv_cluster w' = srv_cluster w \<and> srv_now w' = srv_now w \<and>
    srv_get_sts (Sts_Namespace p) (Sts_Name p) w' = Some s' \<and> Sts_Replicas s' = Sts_Replicas p"
proof -
  define q where "q = preserveTLSChecksumAnnotation s p"
  have q: "Sts_Replicas q = Sts_Replicas p" by (simp add: q_def preserveTLSChecksumAnnotation_def Let_def split: option.split)
  have s: "Sts_Namespace s = Sts_Namespace p" "Sts_Name s = Sts_Name p" using srv_get_sts_key [OF assms(1)] by simp_all
  define s' where "s' = s\<lparr>Sts_Replicas := Sts_Replicas p, Sts_Template := Sts_Template q, Sts_Generation := Sts_Generation s + 1\<rparr>"
  define w' where "w' = logged (Op_Apply (Sts_Name p) (Sts_Replicas p))
    (w\<lparr>srv_sts := put2 (Sts_Namespace p) (Sts_Name p) (Some s') (srv_sts w)\<rparr>)"
  have "createOrUpdateStatefulSet (srv_services b loc) p w = (None, w')"
    using assms s q by (simp add: createOrUpdateStatefulSet_def q_def [symmetric])
      (simp add: srv_services_def change_sts_def w'_def s'_def)
  then show ?thesis using s
    by (intro exI [of _ w'] exI [of _ "s'\<lparr>Sts_Namespace := Sts_Namespace p, Sts_Name := Sts_Name p\<rparr>"])
      (simp add: w'_def srv_get_sts_def s'_def)
qed

lemma started_unmarshal:
  assumes "scaleState_ok s" "CC_Annotations c annotationScaleState = Some (marshal_scaleState s)"
    and "SS_OldCount s < SS_NewCount s" "0 \<le> SS_OldCount s"
  shows "ScaleOutBaseCount c = (SS_OldCount s, True)"
  using ScaleOutBaseCount_read [OF assms(1,2)] assms(3,4) by simp

text \<open>
  A scale-out raises the replicas only after its state is on the cluster. Started on a running
  cluster without mirrors, it writes the start time, then the state with the old count, then the
  primary StatefulSet (once) at the new count, and leaves the cluster Scaling with that state.
\<close>

theorem scale_out_starts:
  fixes c w old new loc
  defines "t \<equiv> Format_RFC3339 loc (srv_now w)"
  assumes "stored c w" "St_Phase (CC_Status c) = ClusterPhaseRunning" "\<not> mirroring_on c"
    and "0 \<le> old" "old < new" "in_int32 new"
    and built: "\<And>d. same_key d c \<Longrightarrow> CC_Spec d = CC_Spec c \<Longrightarrow> ScaleOutBaseCount d = (old, True) \<Longrightarrow> bld_primary b d = Inr p"
    and "segmentTemplateHasExpansionBaseCount p" "Sts_Replicas p = Some new"
    and "srv_get_sts (Sts_Namespace p) (Sts_Name p) w = Some s" "Sts_Replicas s = Some old"
  shows "\<exists>c' w'. handleScaleOut srv_reconciler (srv_services b loc) c old new w = ((None, c'), w') \<and> stored c' w' \<and> same_key c' c \<and>
    St_Phase (CC_Status c') = ClusterPhaseScaling \<and>
    CC_Annotations c' annotationScaleState = Some (marshal_scaleState (started_state old new t)) \<and>
    srv_log w' = srv_log w @ [Op_Annotation AnnotationScaleStarted (Some t),
      Op_Annotation annotationScaleState (Some (marshal_scaleState (started_state old new t))), Op_Apply (Sts_Name p) (Some new)]"
proof -
  let ?st = "started_state old new t" and ?sv = "srv_services b loc"
  define c1 where "c1 = annotated AnnotationScaleStarted (Some t) c"
  define w1 where "w1 = logged (Op_Annotation AnnotationScaleStarted (Some t)) (set_cluster c1 w)"
  have r1: "setAnnotationPatch srv_reconciler c AnnotationScaleStarted t w = (Inr c1, w1)"
    using exec_annotation [OF assms(2), of c] by (simp add: setAnnotationPatch_def c1_def w1_def)
  define c2 where "c2 = annotated annotationScaleState (Some (marshal_scaleState ?st)) c1"
  define w2 where "w2 = logged (Op_Annotation annotationScaleState (Some (marshal_scaleState ?st))) (set_cluster c2 w1)"
  have r2: "setAnnotationPatch srv_reconciler c1 annotationScaleState (marshal_scaleState ?st) w1 = (Inr c2, w2)"
    using exec_annotation [of c1 w1 c1] by (simp add: setAnnotationPatch_def c2_def w2_def w1_def)
  have "scaleState_ok ?st"
    using assms(5-7) by (intro started_state_ok) (auto simp: in_int32_def t_def Format_RFC3339_ascii intro: ascii_valid_utf8)
  then have base: "ScaleOutBaseCount c2 = (old, True)"
    using started_unmarshal [of ?st c2] assms(5,6) by (simp add: c2_def) (simp add: started_state_def)
  have p: "bld_primary b c2 = Inr p" by (rule built) (simp_all add: base, simp_all add: c2_def c1_def)
  have "srv_get_sts (Sts_Namespace p) (Sts_Name p) w2 = Some s" using assms(11) by (simp add: w2_def w1_def)
  from apply_existing [OF this, of b loc] obtain w3 where r3: "createOrUpdateStatefulSet ?sv p w2 = (None, w3)"
    "srv_log w3 = srv_log w2 @ [Op_Apply (Sts_Name p) (Some new)]" "srv_cluster w3 = srv_cluster w2" "srv_now w3 = srv_now w2"
    using assms(6,10,12) by auto
  have "\<not> mirroring_on c2" using assms(4) by (simp add: c2_def c1_def mirroring_on_def)
  then have ap: "applyScaleOutStatefulSets srv_reconciler ?sv c1 old (marshal_scaleState ?st) w1 = ((None, c2), w3)"
    using r2 base p assms(9) r3(1) by (simp add: applyScaleOutStatefulSets_def)
  have s3: "stored c2 w3" using stored_cong [OF r3(3), of c2] by (simp add: w2_def)
  define d where "d = with_condition (srv_now w3) ConditionDataRedistribution ConditionFalse ''ScaleOutStarted''
    (''Scaling from '' @ show_int old @ '' to '' @ show_int new @ '' segments'') (with_phase ClusterPhaseScaling c2)"
  have d: "same_key d c2" "St_Phase (CC_Status d) = ClusterPhaseScaling"
    by (simp_all add: d_def same_key_def with_phase_def)
  define c4 where "c4 = c2\<lparr>CC_Status := CC_Status d\<rparr>"
  define c5 where "c5 = with_condition (srv_now w3) ConditionDataRedistribution ConditionTrue ''InProgress''
    ''Waiting for new segment pods to be ready'' c4"
  have r5: "patchStatus srv_reconciler c5 (set_cluster c4 w3) = (Inr c5, set_cluster c5 (set_cluster c4 w3))"
    unfolding c5_def by (rule exec_condition) simp
  have st: "now_text srv_reconciler ?sv w = t" by (simp add: now_text_def t_def)
  have "handleScaleOut srv_reconciler ?sv c old new w = ((None, c5), set_cluster c5 (set_cluster c4 w3))"
    by (simp only: handleScaleOut_def Let_def st assms(3) r1 started_state_def [symmetric] ap srv_reconciler_simps srv_event_now
        d_def [symmetric] exec_update_status [OF s3 d(1)] c4_def [symmetric] set_cluster_simps c5_def [symmetric] r5
        prod.case sum.case option.case not_True_eq_False if_False HOL.simp_thms)
  moreover have "CC_Annotations c5 annotationScaleState = Some (marshal_scaleState ?st)" "same_key c5 c"
    "St_Phase (CC_Status c5) = ClusterPhaseScaling"
    by (simp_all add: c5_def c4_def c2_def c1_def d same_key_def)
  ultimately show ?thesis using r3(2)
    by (intro exI [of _ c5] exI [of _ "set_cluster c5 (set_cluster c4 w3)"]) (simp add: w2_def w1_def)
qed

definition expanding_sts :: "string \<Rightarrow> int32 \<Rightarrow> StatefulSetFull" where
  "expanding_sts n k = (sample_sts n k)\<lparr>Sts_Template := \<lparr>Tpl_Containers = [\<lparr>Ctr_Name = ''segment'', Ctr_Image = ''img'',
     Ctr_Env = [EnvCloudberryExpansionBaseCount]\<rparr>], Tpl_Annotations = Map.empty\<rparr>\<rparr>"

text \<open>
  C12. A successful expansion ends the scale-out: once the tracked Job has succeeded, two passes of
  the controller leave the cluster Running with the annotations of the operation removed, and touch
  neither StatefulSets nor data.
\<close>

theorem scale_out_completes:
  assumes "scaling_out st c w" "SS_Phase st = scalePhaseExpanding" "SS_ExpandJobName st \<noteq> []"
    and "srv_jobs w (CC_Namespace c) (SS_ExpandJobName st) = Some job" "0 < KJob_Succeeded job"
    and "St_SegmentsTotal (CC_Status c) = Seg_Count (Spec_Segments (CC_Spec c))"
    and "fl_checkScaleProgress fs = checkScaleProgress srv_reconciler (srv_services b loc)"
  shows "\<exists>c'. stored c' (reconciles fs c 2 w) \<and> same_key c' c \<and> St_Phase (CC_Status c') = ClusterPhaseRunning \<and>
    CC_Annotations c' = (CC_Annotations c)(annotationScaleState := None, AnnotationScaleStarted := None) \<and>
    data_log (reconciles fs c 2 w) = data_log w \<and> srv_sts (reconciles fs c 2 w) = srv_sts w"
proof -
  let ?sv = "srv_services b loc"
  have fin: "finalizeGpexpandSchema srv_reconciler ?sv c w = w"
    by (auto simp: finalizeGpexpandSchema_def db_answer_def split: option.split)
  have p: "valid_utf8 scalePhaseCompleted" by (rule ascii_valid_utf8) simp
  have pass1: "Reconcile srv_reconciler fs (CC_Namespace c) (CC_Name c) w =
      advanceScalePhase srv_reconciler ?sv c st scalePhaseCompleted w"
    using scaling_out_read [OF assms(1)] assms(2-5) scale_out_pass [OF assms(1,7)]
    by (simp add: checkScaleOutPhases_def processScaleOutExpanding_def fin)
  obtain c1 w1 t where a: "advanceScalePhase srv_reconciler ?sv c st scalePhaseCompleted w = (Inr requeueAfterImmediate, w1)"
    "scaling_out (st\<lparr>SS_Phase := scalePhaseCompleted, SS_PhaseStartedAt := t\<rparr>) c1 w1" "same_key c1 c" "data_log w1 = data_log w"
    "srv_sts w1 = srv_sts w" "CC_Spec c1 = CC_Spec c" "CC_Status c1 = CC_Status c"
    "\<forall>k. k \<noteq> annotationScaleState \<longrightarrow> CC_Annotations c1 k = CC_Annotations c k"
    using advance_out [OF assms(1) p, of ?sv] by blast
  let ?c2 = "annotated annotationScaleState None c1"
  define w2 where "w2 = logged (Op_Annotation annotationScaleState None) (set_cluster ?c2 w1)"
  have s1: "stored c1 w1" using a(2) by (simp add: scaling_out_def)
  have pass2: "Reconcile srv_reconciler fs (CC_Namespace c1) (CC_Name c1) w1 = completeScaleOperation srv_reconciler ?sv ?c2 w2"
    using scaling_out_read [OF a(2)] scale_out_pass [OF a(2) assms(7)] exec_drop [OF s1, of c1 annotationScaleState]
    by (simp add: checkScaleOutPhases_def finish_scale_out_def w2_def)
  have "stored ?c2 w2" "CC_Annotations ?c2 annotationScaleInState = None"
    using a(2) by (simp_all add: w2_def scaling_out_def)
  with complete_run [of ?c2 w2 ?sv] obtain c3 w3 where f: "completeScaleOperation srv_reconciler ?sv ?c2 w2 = (Inr requeueAfterImmediate, w3)"
    "stored c3 w3" "same_key c3 ?c2" "St_Phase (CC_Status c3) = ClusterPhaseRunning"
    "CC_Annotations c3 = (CC_Annotations ?c2)(AnnotationScaleStarted := None)" "data_log w3 = data_log w2" "srv_sts w3 = srv_sts w2"
    using a(6,7) assms(6) by auto
  have "reconciles fs c 2 w = w3"
    using pass1 pass2 a(1,3) f(1) by (simp add: eval_nat_numeral same_key_def)
  moreover have "CC_Annotations c3 = (CC_Annotations c)(annotationScaleState := None, AnnotationScaleStarted := None)"
    using f(5) a(8) by (auto simp: fun_eq_iff)
  moreover have "same_key c3 c" using f(3) a(3) by (simp add: same_key_def)
  ultimately show ?thesis using f(2,4,6,7) a(4,5) by (intro exI [of _ c3]) (simp add: w2_def)
qed

theorem scale_out_completes_witness:
  "\<exists>c'. stored c' (reconciles scale_flows (growing (grow_state scalePhaseExpanding 0)) 2
      ((sample_store (growing (grow_state scalePhaseExpanding 0)) 4 [])\<lparr>srv_jobs := \<lambda>ns n. Some (failed_job\<lparr>KJob_Succeeded := 1\<rparr>)\<rparr>)) \<and>
    St_Phase (CC_Status c') = ClusterPhaseRunning"
proof -
  let ?st = "grow_state scalePhaseExpanding 0"
  let ?w = "(sample_store (growing ?st) 4 [])\<lparr>srv_jobs := \<lambda>ns n. Some (failed_job\<lparr>KJob_Succeeded := 1\<rparr>)\<rparr>"
  have "scaleState_ok ?st" by (rule grow_state_ok) simp_all
  from growing_scales [OF this, of 4 "[]"] have s: "scaling_out ?st (growing ?st) ?w"
    using timed_out_now [of ?w "sample_store (growing ?st) 4 []"] stored_cong [of ?w "sample_store (growing ?st) 4 []"]
    by (simp add: scaling_out_def)
  have t: "St_SegmentsTotal (CC_Status (growing ?st)) = Seg_Count (Spec_Segments (CC_Spec (growing ?st)))"
    by (simp add: growing_def sample_record_simps)
  show ?thesis
    using scale_out_completes [OF s _ _ _ _ t scale_flows_progress [unfolded sample_services_def]]
    by (auto simp: grow_state_def)
qed

section \<open>Limits of the code\<close>

text \<open>
  The gate before gpexpand looks for the coordinator pod under the cluster name it recovers from the
  StatefulSet name. That name has no dot, so with a dot in the cluster name no labelled pod of the
  cluster is ever found, and the scale-out never leaves its first phase.
\<close>

lemma dotted_name_not_recovered:
  assumes "CHR ''.'' \<in> set n"
  shows "clusterNameFromComponentSts (CoordinatorName n) ComponentCoordinator \<noteq> n"
proof
  assume "clusterNameFromComponentSts (CoordinatorName n) ComponentCoordinator = n"
  then have "set n \<subseteq> set (CoordinatorName n)"
    by (simp add: clusterNameFromComponentSts_def) (metis set_TrimSuffix)
  then have "name_char CHR ''.''" using assms sanitized_chars by (auto simp: CoordinatorName_def)
  then show False by (simp add: name_char_def)
qed

text \<open>
  The clean-up after a scale-in removes the confirmation only if it sees a scale-in, by the total
  the status recorded; the pass that started the operation has already set that total to the new
  count, so a completed scale-in keeps its confirmation.
\<close>

lemma confirmation_outlives_scale_in:
  assumes "stored c w" "St_SegmentsTotal (CC_Status c) = Seg_Count (Spec_Segments (CC_Spec c))"
    and "CC_Annotations c annotationScaleInState = None" "annotation c AnnotationConfirmScaleIn = ''true''"
  shows "\<exists>c' w'. completeScaleOperation srv_reconciler sv c w = (Inr requeueAfterImmediate, w') \<and> stored c' w' \<and>
    St_Phase (CC_Status c') = ClusterPhaseRunning \<and> annotation c' AnnotationConfirmScaleIn = ''true''"
proof -
  obtain c' w' where run: "completeScaleOperation srv_reconciler sv c w = (Inr requeueAfterImmediate, w')" "stored c' w'"
    "St_Phase (CC_Status c') = ClusterPhaseRunning" "CC_Annotations c' = (CC_Annotations c)(AnnotationScaleStarted := None)"
    using complete_run [OF assms(1-3), of sv] by blast
  then have "annotation c' AnnotationConfirmScaleIn = ''true''" using assms(4) by (simp add: annotation_def)
  then show ?thesis using run by blast
qed

end
