(* ===== verification/Mirroring.thy ===== *)
theory Mirroring
  imports Scale
begin

text \<open>
  Mirroring switched on or off on a running cluster, after \<^verbatim>\<open>internal/controller/cluster_controller.go\<close>.
  Switching on puts the cluster in the phase Updating, records the state of the operation in an
  annotation, creates the mirror StatefulSet and then, pass by pass, waits for its pods, initialises
  the mirrors in the database and waits until they are in sync, or gives up after thirty minutes.
  Switching off deletes the StatefulSet and, under the deletion policy Delete, its volume claims.
\<close>

section \<open>Model\<close>

abbreviation mirroringEnableTimeout :: int where "mirroringEnableTimeout \<equiv> 1800000000000"

abbreviation mirroringPhaseCreatingSTS :: string where "mirroringPhaseCreatingSTS \<equiv> ''creating-sts''"
abbreviation mirroringPhaseInit :: string where "mirroringPhaseInit \<equiv> ''initializing''"
abbreviation mirroringPhaseSyncing :: string where "mirroringPhaseSyncing \<equiv> ''syncing''"
abbreviation mirroringPhaseCompleted :: string where "mirroringPhaseCompleted \<equiv> ''completed''"

abbreviation ConditionMirroringHealthy :: string where "ConditionMirroringHealthy \<equiv> ''MirroringHealthy''"
abbreviation EventReasonMirroringEnabled :: string where "EventReasonMirroringEnabled \<equiv> ''MirroringEnabled''"
abbreviation EventReasonMirroringDisabled :: string where "EventReasonMirroringDisabled \<equiv> ''MirroringDisabled''"
abbreviation EventReasonMirroringInitializing :: string where "EventReasonMirroringInitializing \<equiv> ''MirroringInitializing''"
abbreviation EventReasonMirroringInSync :: string where "EventReasonMirroringInSync \<equiv> ''MirroringInSync''"
abbreviation EventReasonMirroringFailed :: string where "EventReasonMirroringFailed \<equiv> ''MirroringFailed''"

subsection \<open>State annotation\<close>

record mirroringStateData =
  MS_Phase :: string
  MS_StartedAt :: string
  MS_PhaseStartedAt :: string
  MS_Layout :: string

definition mirroringState_fields :: "mirroringStateData \<Rightarrow> field list" where
  "mirroringState_fields s =
     [str_field ''phase'' False (MS_Phase s), str_field ''startedAt'' False (MS_StartedAt s),
      str_field ''phaseStartedAt'' False (MS_PhaseStartedAt s), str_field ''layout'' False (MS_Layout s)]"

definition mirroringState_zero :: mirroringStateData where
  "mirroringState_zero = \<lparr>MS_Phase = [], MS_StartedAt = [], MS_PhaseStartedAt = [], MS_Layout = []\<rparr>"

definition mirroringState_of :: "field list \<Rightarrow> mirroringStateData" where
  "mirroringState_of fs =
     (case map Fld_Val fs of
        [F_Str p, F_Str s, F_Str q, F_Str l] \<Rightarrow> \<lparr>MS_Phase = p, MS_StartedAt = s, MS_PhaseStartedAt = q, MS_Layout = l\<rparr>
      | _ \<Rightarrow> mirroringState_zero)"

definition marshal_mirroringState :: "mirroringStateData \<Rightarrow> string" where
  "marshal_mirroringState s = Marshal (mirroringState_fields s)"

definition unmarshal_mirroringState :: "string \<Rightarrow> mirroringStateData option" where
  "unmarshal_mirroringState raw = map_option mirroringState_of (Unmarshal raw (mirroringState_fields mirroringState_zero))"

subsection \<open>Helpers\<close>

text \<open>A StatefulSet that does not exist counts as ready.\<close>

definition isStatefulSetReady :: "'w reconciler \<Rightarrow> string \<Rightarrow> string \<Rightarrow> 'w \<Rightarrow> bool \<times> 'w" where
  "isStatefulSetReady r namespace name w =
     (case k_get_sts (r_client r) namespace name w of
        (Inl NotFound, w1) \<Rightarrow> (True, w1)
      | (Inl _, w1) \<Rightarrow> (False, w1)
      | (Inr sts, w1) \<Rightarrow>
          (let desired = (case Sts_Replicas sts of None \<Rightarrow> 1 | Some n \<Rightarrow> n)
           in (Sts_ReadyReplicas sts \<ge> desired \<and> Sts_UpdatedReplicas sts \<ge> desired, w1)))"

definition with_mirroring_status :: "MirroringStatus \<Rightarrow> CloudberryCluster \<Rightarrow> CloudberryCluster" where
  "with_mirroring_status m cluster = cluster\<lparr>CC_Status := (CC_Status cluster)\<lparr>St_MirroringStatus := m\<rparr>\<rparr>"

definition validateMirroringNodeCount :: "CloudberryCluster \<Rightarrow> MirroringLayout \<Rightarrow> int32 \<Rightarrow> bool" where
  "validateMirroringNodeCount cluster layout primariesPerHost =
     (let count = Seg_Count (Spec_Segments (CC_Spec cluster))
      in if layout = MirroringLayoutGroup then count \<ge> wrap32 (2 * primariesPerHost)
         else if layout = MirroringLayoutSpread then count > primariesPerHost
         else count \<ge> wrap32 (2 * primariesPerHost))"

subsection \<open>Detection\<close>

definition isMirroringEnableNeeded :: "'w reconciler \<Rightarrow> CloudberryCluster \<Rightarrow> 'w \<Rightarrow> bool \<times> 'w" where
  "isMirroringEnableNeeded r cluster w =
     (if \<not> mirroring_on cluster then (False, w)
      else if St_Phase (CC_Status cluster) \<noteq> ClusterPhaseRunning then (False, w)
      else if St_MirroringStatus (CC_Status cluster) \<noteq> MirroringNotConfigured then (False, w)
      else (case k_get_sts (r_client r) (CC_Namespace cluster) (SegmentMirrorName (CC_Name cluster)) w of
              (Inl NotFound, w1) \<Rightarrow> (True, w1)
            | (_, w1) \<Rightarrow> (False, w1)))"

definition isMirroringDisableNeeded :: "'w reconciler \<Rightarrow> CloudberryCluster \<Rightarrow> 'w \<Rightarrow> bool \<times> 'w" where
  "isMirroringDisableNeeded r cluster w =
     (if mirroring_on cluster then (False, w)
      else if St_Phase (CC_Status cluster) \<noteq> ClusterPhaseRunning then (False, w)
      else if St_MirroringStatus (CC_Status cluster) = MirroringNotConfigured \<or> St_MirroringStatus (CC_Status cluster) = []
      then (False, w)
      else (case k_get_sts (r_client r) (CC_Namespace cluster) (SegmentMirrorName (CC_Name cluster)) w of
              (Inl _, w1) \<Rightarrow> (False, w1)
            | (Inr _, w1) \<Rightarrow> (True, w1)))"

subsection \<open>Switching on\<close>

text \<open>
  The caller has checked that the mirroring section is present; a nil pointer would panic, which
  the controller runtime turns into an error.
\<close>

definition handleEnableMirroring :: "'w reconciler \<Rightarrow> 'w services \<Rightarrow> CloudberryCluster \<Rightarrow> 'w step" where
  "handleEnableMirroring r sv cluster0 w =
     (if St_Phase (CC_Status cluster0) \<noteq> ClusterPhaseRunning
      then ((None, cluster0), k_event (r_client r) cluster0 EventReasonMirroringFailed
             (''Mirroring enable blocked: cluster is in '' @ St_Phase (CC_Status cluster0) @ '' phase, must be Running'') w)
      else case Seg_Mirroring (Spec_Segments (CC_Spec cluster0)) of
        None \<Rightarrow> ((Some (plain_error ''panic: nil pointer dereference''), cluster0), w)
      | Some m \<Rightarrow>
          (let layout = (if Mir_Layout m = [] then MirroringLayoutGroup else Mir_Layout m);
               given = Seg_PrimariesPerHost (Spec_Segments (CC_Spec cluster0));
               primariesPerHost = (if given = 0 then 2 else given)
           in if \<not> validateMirroringNodeCount cluster0 layout primariesPerHost
              then ((None, cluster0), k_event (r_client r) cluster0 EventReasonMirroringFailed
                     (''Mirroring enable blocked: insufficient segments ('' @
                      show_int (Seg_Count (Spec_Segments (CC_Spec cluster0))) @ '') for '' @ layout @ '' layout'') w)
              else
                (let now = now_text r sv w;
                     state = \<lparr>MS_Phase = mirroringPhaseCreatingSTS, MS_StartedAt = now, MS_PhaseStartedAt = now, MS_Layout = layout\<rparr>;
                     cluster1 = with_condition (k_now (r_client r) w) ConditionMirroringHealthy ConditionFalse
                       ''MirroringInitializing'' ''Mirror initialization in progress''
                       (with_mirroring_status MirroringInitializing (with_phase ClusterPhaseUpdating cluster0))
                 in case k_update_status (r_client r) cluster1 w of
                      (Inl e, w1) \<Rightarrow> ((Some (Ctrl_Error ''setting updating phase for mirroring'' e), cluster1), w1)
                    | (Inr cluster2, w1) \<Rightarrow>
                        (let w2 = k_event (r_client r) cluster2 EventReasonMirroringEnabled
                               (''Mirroring enable initiated with '' @ layout @ '' layout'') w1
                         in case setAnnotationPatch r cluster2 AnnotationMirroringState (marshal_mirroringState state) w2 of
                              (Inl e, w3) \<Rightarrow> ((Some (Ctrl_Error ''setting mirroring state annotation'' e), cluster2), w3)
                            | (Inr cluster3, w3) \<Rightarrow>
                                (case s_build_mirror sv cluster3 of
                                   Inl e \<Rightarrow> ((Some (Ctrl_Error (''building mirror StatefulSet for cluster '' @ CC_Name cluster3)
                                     (Other_Error e)), cluster3), w3)
                                 | Inr mirrorSts \<Rightarrow>
                                     (case (case mirrorSts of None \<Rightarrow> (None, w3)
                                            | Some sts \<Rightarrow> createOrUpdateStatefulSet sv sts w3) of
                                        (Some e, w4) \<Rightarrow> ((Some (wrap_error ''creating mirror StatefulSet'' e), cluster3), w4)
                                      | (None, w4) \<Rightarrow>
                                          ((None, cluster3), k_event (r_client r) cluster3 EventReasonMirroringInitializing
                                             ''Mirror StatefulSet created, waiting for pods to be ready'' w4)))))))"

definition advanceMirroringPhase ::
  "'w reconciler \<Rightarrow> 'w services \<Rightarrow> CloudberryCluster \<Rightarrow> mirroringStateData \<Rightarrow> string \<Rightarrow> 'w handler" where
  "advanceMirroringPhase r sv cluster state nextPhase w =
     (case setAnnotationPatch r cluster AnnotationMirroringState
             (marshal_mirroringState (state\<lparr>MS_Phase := nextPhase, MS_PhaseStartedAt := now_text r sv w\<rparr>)) w of
        (Inl e, w1) \<Rightarrow> (Inl (Ctrl_Error ''updating mirroring state annotation'' e), w1)
      | (Inr _, w1) \<Rightarrow> (Inr requeueAfterImmediate, w1))"

definition completeMirroringEnable :: "'w reconciler \<Rightarrow> CloudberryCluster \<Rightarrow> 'w handler" where
  "completeMirroringEnable r cluster0 w =
     (let cluster1 = with_condition (k_now (r_client r) w) ConditionMirroringHealthy ConditionTrue
            ''MirroringInSync'' ''All mirrors are synchronized''
            (with_mirroring_status MirroringInSync (with_phase ClusterPhaseRunning cluster0))
      in case k_update_status (r_client r) cluster1 w of
           (Inl e, w1) \<Rightarrow> (Inl (Ctrl_Error ''updating status after mirroring enable'' e), w1)
         | (Inr cluster2, w1) \<Rightarrow>
             (case dropAnnotation r cluster2 AnnotationMirroringState w1 of
                (cluster3, w2) \<Rightarrow>
                  (Inr (requeueDefault r), k_event (r_client r) cluster3 EventReasonMirroringInSync
                     ''Mirroring enabled and all mirrors are synchronized'' w2)))"

definition handleMirroringTimeout :: "'w reconciler \<Rightarrow> CloudberryCluster \<Rightarrow> 'w handler" where
  "handleMirroringTimeout r cluster0 w =
     (let message = ''Mirroring initialization timed out after '' @ Duration_String mirroringEnableTimeout;
          cluster1 = with_condition (k_now (r_client r) w) ConditionMirroringHealthy ConditionFalse
            ''MirroringTimeout'' message (with_mirroring_status MirroringDegraded cluster0)
      in case k_update_status (r_client r) cluster1 w of
           (Inl e, w1) \<Rightarrow> (Inl (Ctrl_Error ''updating status after mirroring timeout'' e), w1)
         | (Inr cluster2, w1) \<Rightarrow>
             (case dropAnnotation r cluster2 AnnotationMirroringState w1 of
                (cluster3, w2) \<Rightarrow>
                  (Inr (requeueDefault r), k_event (r_client r) cluster3 EventReasonMirroringFailed message w2)))"

definition initializeMirrors :: "'w reconciler \<Rightarrow> 'w services \<Rightarrow> CloudberryCluster \<Rightarrow> 'w \<Rightarrow> ctrl_error option \<times> 'w" where
  "initializeMirrors r sv cluster w =
     (case r_dbFactory r of None \<Rightarrow> (None, w)
      | Some db \<Rightarrow>
          (case d_new db cluster w of
             (Inl e, w1) \<Rightarrow> (Some (Ctrl_Error ''creating db client for mirror initialization'' (Other_Error e)), w1)
           | (Inr _, w1) \<Rightarrow>
               (let layout = (case Seg_Mirroring (Spec_Segments (CC_Spec cluster)) of
                      Some m \<Rightarrow> if Mir_Layout m \<noteq> [] then Mir_Layout m else MirroringLayoutGroup
                    | None \<Rightarrow> MirroringLayoutGroup)
                in case s_initialize_mirrors sv layout (Seg_Count (Spec_Segments (CC_Spec cluster))) 2 w1 of
                     (Some e, w2) \<Rightarrow> (Some (Ctrl_Error ''initializing mirrors'' (Other_Error e)), d_close db w2)
                   | (None, w2) \<Rightarrow>
                       (case s_configure_replication sv ''sync'' w2 of
                          (Some e, w3) \<Rightarrow> (Some (Ctrl_Error ''configuring replication'' (Other_Error e)), d_close db w3)
                        | (None, w3) \<Rightarrow>
                            (None, d_close db (k_event (r_client r) cluster EventReasonMirroringInitializing
                               ''Mirror initialization and replication configuration completed'' w3))))))"

text \<open>The database answers, per mirror, whether it is in sync.\<close>

definition monitorMirrorSync :: "'w reconciler \<Rightarrow> 'w services \<Rightarrow> CloudberryCluster \<Rightarrow> 'w \<Rightarrow> (ctrl_error + bool) \<times> 'w" where
  "monitorMirrorSync r sv cluster w =
     (let by_sts = (\<lambda>w. case isStatefulSetReady r (CC_Namespace cluster) (SegmentMirrorName (CC_Name cluster)) w of
            (ready, w1) \<Rightarrow> (Inr ready, w1))
      in case r_dbFactory r of None \<Rightarrow> by_sts w
         | Some db \<Rightarrow>
             (case d_new db cluster w of
                (Inl e, w1) \<Rightarrow> (Inl (Ctrl_Error ''creating db client for sync monitoring'' (Other_Error e)), w1)
              | (Inr _, w1) \<Rightarrow>
                  (case s_mirror_sync_status sv w1 of
                     (Inl e, w2) \<Rightarrow> (Inl (Ctrl_Error ''getting mirror sync status'' (Other_Error e)), d_close db w2)
                   | (Inr syncStatus, w2) \<Rightarrow>
                       if syncStatus = [] then (case by_sts w2 of (res, w3) \<Rightarrow> (res, d_close db w3))
                       else (Inr (list_all id syncStatus), d_close db w2))))"

definition checkMirroringProgress :: "'w reconciler \<Rightarrow> 'w services \<Rightarrow> CloudberryCluster \<Rightarrow> 'w handler" where
  "checkMirroringProgress r sv cluster w =
     (let stateJSON = annotation cluster AnnotationMirroringState
      in if stateJSON = [] then (Inr (requeueDefault r), w)
         else case unmarshal_mirroringState stateJSON of
           None \<Rightarrow> (Inr requeueAfterError, w)
         | Some state \<Rightarrow>
             if MS_StartedAt state \<noteq> [] \<and> timed_out r (MS_StartedAt state) mirroringEnableTimeout w
             then handleMirroringTimeout r cluster w
             else if MS_Phase state = mirroringPhaseCreatingSTS then
               (case isStatefulSetReady r (CC_Namespace cluster) (SegmentMirrorName (CC_Name cluster)) w of
                  (True, w1) \<Rightarrow> advanceMirroringPhase r sv cluster state mirroringPhaseInit w1
                | (False, w1) \<Rightarrow> (Inr requeueAfterStopping, w1))
             else if MS_Phase state = mirroringPhaseInit then
               (case initializeMirrors r sv cluster w of
                  (Some _, w1) \<Rightarrow> (Inr requeueAfterError, w1)
                | (None, w1) \<Rightarrow> advanceMirroringPhase r sv cluster state mirroringPhaseSyncing w1)
             else if MS_Phase state = mirroringPhaseSyncing then
               (case monitorMirrorSync r sv cluster w of
                  (Inl _, w1) \<Rightarrow> (Inr requeueAfterError, w1)
                | (Inr True, w1) \<Rightarrow> completeMirroringEnable r cluster w1
                | (Inr False, w1) \<Rightarrow>
                    (Inr requeueAfterStopping, snd (patchStatus r (with_mirroring_status MirroringSyncing cluster) w1)))
             else completeMirroringEnable r cluster w)"

subsection \<open>Switching off\<close>

text \<open>The claims of the ordinals below the segment count; errors are logged and skipped.\<close>

definition cleanupMirrorPVCs :: "'w services \<Rightarrow> CloudberryCluster \<Rightarrow> 'w \<Rightarrow> 'w" where
  "cleanupMirrorPVCs sv cluster w =
     fold (\<lambda>i w. let pvcName = ''data-'' @ SegmentMirrorName (CC_Name cluster) @ ''-'' @ show_int i
            in case s_get_pvc sv (CC_Namespace cluster) pvcName w of
                 (Some _, w1) \<Rightarrow> w1
               | (None, w1) \<Rightarrow> snd (s_delete_pvc sv (CC_Namespace cluster) pvcName w1))
       [0..Seg_Count (Spec_Segments (CC_Spec cluster)) - 1] w"

definition handleDisableMirroring :: "'w reconciler \<Rightarrow> 'w services \<Rightarrow> CloudberryCluster \<Rightarrow> 'w step" where
  "handleDisableMirroring r sv cluster0 w =
     (if St_Phase (CC_Status cluster0) \<noteq> ClusterPhaseRunning
      then ((None, cluster0), k_event (r_client r) cluster0 EventReasonMirroringFailed
             (''Mirroring disable blocked: cluster is in '' @ St_Phase (CC_Status cluster0) @ '' phase, must be Running'') w)
      else
        (let ns = CC_Namespace cluster0; mirrorName = SegmentMirrorName (CC_Name cluster0);
             w1 = k_event (r_client r) cluster0 EventReasonMirroringDisabled
               (''Mirroring disable initiated '' @ [CHR 0xE2, CHR 0x80, CHR 0x94] @ '' data protection will be reduced'') w
         in case (case s_get_sts sv ns mirrorName w1 of
                    (Inl _, w2) \<Rightarrow> (None, w2)
                  | (Inr _, w2) \<Rightarrow>
                      (case s_delete_sts sv ns mirrorName w2 of
                         (Some NotFound, w3) \<Rightarrow> (None, w3)
                       | (err, w3) \<Rightarrow> (err, w3))) of
              (Some e, w4) \<Rightarrow> ((Some (Ctrl_Error (''deleting mirror StatefulSet '' @ mirrorName) e), cluster0), w4)
            | (None, w4) \<Rightarrow>
                (let w5 = (if Spec_DeletionPolicy (CC_Spec cluster0) = DeletionPolicyDelete
                           then cleanupMirrorPVCs sv cluster0 w4 else w4);
                     cluster1 = with_condition (k_now (r_client r) w5) ConditionMirroringHealthy ConditionFalse
                       ''MirroringDisabled'' ''Mirroring has been disabled''
                       (with_mirroring_status MirroringNotConfigured cluster0)
                 in case k_update_status (r_client r) cluster1 w5 of
                      (Inl e, w6) \<Rightarrow> ((Some (Ctrl_Error ''updating status after mirroring disable'' e), cluster1), w6)
                    | (Inr cluster2, w6) \<Rightarrow>
                        ((None, cluster2), k_event (r_client r) cluster2 EventReasonMirroringDisabled
                           ''Mirroring disabled successfully'' w6))))"

end
