(* ===== verification/Upgrade.thy ===== *)
theory Upgrade
  imports Mirroring
begin

text \<open>
  The rolling upgrade, after \<^verbatim>\<open>internal/controller/cluster_controller.go\<close>: a change of
  \<^verbatim>\<open>spec.version\<close> on a running cluster sets the new image on the mirrors, the primaries, the standby
  and the coordinator, one phase at a time, verifies the result and records the new version. A phase
  that takes too long rolls every StatefulSet back to the image the coordinator had.
\<close>

section \<open>Model\<close>

abbreviation upgradePhaseTimeout :: int where "upgradePhaseTimeout \<equiv> 600000000000"

abbreviation upgradePhaseMirrors :: string where "upgradePhaseMirrors \<equiv> ''mirrors''"
abbreviation upgradePhasePrimaries :: string where "upgradePhasePrimaries \<equiv> ''primaries''"
abbreviation upgradePhaseStandby :: string where "upgradePhaseStandby \<equiv> ''standby''"
abbreviation upgradePhaseCoordinator :: string where "upgradePhaseCoordinator \<equiv> ''coordinator''"
abbreviation upgradePhaseVerify :: string where "upgradePhaseVerify \<equiv> ''verify''"

abbreviation EventReasonUpgradeStarted :: string where "EventReasonUpgradeStarted \<equiv> ''UpgradeStarted''"
abbreviation EventReasonUpgradeCompleted :: string where "EventReasonUpgradeCompleted \<equiv> ''UpgradeCompleted''"
abbreviation EventReasonUpgradeRollback :: string where "EventReasonUpgradeRollback \<equiv> ''UpgradeRollback''"

subsection \<open>State annotation\<close>

record upgradeStateData =
  US_PreviousImage :: string
  US_PreviousVersion :: string
  US_Phase :: string
  US_StartedAt :: string
  US_PhaseStartedAt :: string

definition upgradeState_fields :: "upgradeStateData \<Rightarrow> field list" where
  "upgradeState_fields s =
     [str_field ''previousImage'' False (US_PreviousImage s), str_field ''previousVersion'' False (US_PreviousVersion s),
      str_field ''phase'' False (US_Phase s), str_field ''startedAt'' False (US_StartedAt s),
      str_field ''phaseStartedAt'' False (US_PhaseStartedAt s)]"

definition upgradeState_zero :: upgradeStateData where
  "upgradeState_zero = \<lparr>US_PreviousImage = [], US_PreviousVersion = [], US_Phase = [], US_StartedAt = [], US_PhaseStartedAt = []\<rparr>"

definition upgradeState_of :: "field list \<Rightarrow> upgradeStateData" where
  "upgradeState_of fs =
     (case map Fld_Val fs of
        [F_Str i, F_Str v, F_Str p, F_Str s, F_Str q] \<Rightarrow>
          \<lparr>US_PreviousImage = i, US_PreviousVersion = v, US_Phase = p, US_StartedAt = s, US_PhaseStartedAt = q\<rparr>
      | _ \<Rightarrow> upgradeState_zero)"

definition marshal_upgradeState :: "upgradeStateData \<Rightarrow> string" where
  "marshal_upgradeState s = Marshal (upgradeState_fields s)"

definition unmarshal_upgradeState :: "string \<Rightarrow> upgradeStateData option" where
  "unmarshal_upgradeState raw = map_option upgradeState_of (Unmarshal raw (upgradeState_fields upgradeState_zero))"

subsection \<open>Images\<close>

definition getCurrentImage :: "'w services \<Rightarrow> CloudberryCluster \<Rightarrow> 'w \<Rightarrow> string \<times> 'w" where
  "getCurrentImage sv cluster w =
     (case s_get_sts sv (CC_Namespace cluster) (CoordinatorName (CC_Name cluster)) w of
        (Inl _, w1) \<Rightarrow> (Spec_Image (CC_Spec cluster), w1)
      | (Inr sts, w1) \<Rightarrow>
          ((case filter (\<lambda>c. Ctr_Image c \<noteq> []) (Tpl_Containers (Sts_Template sts)) of
              c # _ \<Rightarrow> Ctr_Image c
            | [] \<Rightarrow> Spec_Image (CC_Spec cluster)), w1))"

text \<open>The image is set on every container of the pod template.\<close>

definition with_image :: "string \<Rightarrow> StatefulSetFull \<Rightarrow> StatefulSetFull" where
  "with_image img sts = sts\<lparr>Sts_Template := (Sts_Template sts)\<lparr>Tpl_Containers :=
     map (\<lambda>c. c\<lparr>Ctr_Image := img\<rparr>) (Tpl_Containers (Sts_Template sts))\<rparr>\<rparr>"

definition updateStatefulSetImage ::
  "'w services \<Rightarrow> string \<Rightarrow> string \<Rightarrow> string \<Rightarrow> 'w \<Rightarrow> ctrl_error option \<times> 'w" where
  "updateStatefulSetImage sv namespace name img w =
     (case s_get_sts sv namespace name w of
        (Inl NotFound, w1) \<Rightarrow> (None, w1)
      | (Inl e, w1) \<Rightarrow> (Some (Ctrl_Error (''getting statefulset '' @ name) e), w1)
      | (Inr sts, w1) \<Rightarrow>
          if list_all (\<lambda>c. Ctr_Image c = img) (Tpl_Containers (Sts_Template sts)) then (None, w1)
          else (case s_update_sts sv (with_image img sts) w1 of
                  (Some e, w2) \<Rightarrow> (Some (Ctrl_Error (''updating statefulset '' @ name @ '' image'') e), w2)
                | (None, w2) \<Rightarrow> (None, w2)))"

definition revertStatefulSetImage ::
  "'w services \<Rightarrow> string \<Rightarrow> string \<Rightarrow> string \<Rightarrow> 'w \<Rightarrow> ctrl_error option \<times> 'w" where
  "revertStatefulSetImage = updateStatefulSetImage"

definition getAllStatefulSetNames :: "CloudberryCluster \<Rightarrow> string list" where
  "getAllStatefulSetNames cluster = getScaleDownOrder cluster"

subsection \<open>Ending an upgrade\<close>

definition with_version :: "string \<Rightarrow> CloudberryCluster \<Rightarrow> CloudberryCluster" where
  "with_version v cluster = cluster\<lparr>CC_Status := (CC_Status cluster)\<lparr>St_ClusterVersion := v\<rparr>\<rparr>"

definition completeUpgrade :: "'w reconciler \<Rightarrow> CloudberryCluster \<Rightarrow> upgradeStateData \<Rightarrow> 'w handler" where
  "completeUpgrade r cluster0 state w =
     (let version = Spec_Version (CC_Spec cluster0);
          cluster1 = with_condition (k_now (r_client r) w) ConditionUpgradeCompleted ConditionTrue ''UpgradeSucceeded''
            (''Upgraded from '' @ US_PreviousVersion state @ '' to '' @ version)
            (with_version version (with_phase ClusterPhaseRunning cluster0))
      in case k_update_status (r_client r) cluster1 w of
           (Inl e, w1) \<Rightarrow> (Inl (Ctrl_Error ''updating status after upgrade'' e), w1)
         | (Inr cluster2, w1) \<Rightarrow>
             (case dropAnnotation r cluster2 AnnotationUpgrade w1 of
                (cluster3, w2) \<Rightarrow>
                  (Inr (requeueDefault r), k_event (r_client r) cluster3 EventReasonUpgradeCompleted
                     (''Upgrade from '' @ US_PreviousVersion state @ '' to '' @ Spec_Version (CC_Spec cluster3) @ '' completed'') w2)))"

text \<open>Errors of a revert are logged and the loop goes on.\<close>

definition rollbackUpgrade :: "'w reconciler \<Rightarrow> 'w services \<Rightarrow> CloudberryCluster \<Rightarrow> upgradeStateData \<Rightarrow> string \<Rightarrow> 'w handler" where
  "rollbackUpgrade r sv cluster0 state reason w =
     (let w1 = fold (\<lambda>stsName w. snd (revertStatefulSetImage sv (CC_Namespace cluster0) stsName (US_PreviousImage state) w))
                 (getAllStatefulSetNames cluster0) w;
          cluster1 = with_condition (k_now (r_client r) w1) ConditionUpgradeFailed ConditionTrue ''RolledBack'' reason
            (with_version (US_PreviousVersion state) (with_phase ClusterPhaseRunning cluster0))
      in case k_update_status (r_client r) cluster1 w1 of
           (Inl e, w2) \<Rightarrow> (Inl (Ctrl_Error ''updating status after rollback'' e), w2)
         | (Inr cluster2, w2) \<Rightarrow>
             (case dropAnnotation r cluster2 AnnotationUpgrade w2 of
                (cluster3, w3) \<Rightarrow>
                  (Inr (requeueDefault r), k_event (r_client r) cluster3 EventReasonUpgradeRollback
                     (''Upgrade rolled back: '' @ reason) w3)))"

subsection \<open>Phases\<close>

definition advanceUpgradePhase ::
  "'w reconciler \<Rightarrow> 'w services \<Rightarrow> CloudberryCluster \<Rightarrow> upgradeStateData \<Rightarrow> string \<Rightarrow> 'w handler" where
  "advanceUpgradePhase r sv cluster state nextPhase w =
     (case setAnnotationPatch r cluster AnnotationUpgrade
             (marshal_upgradeState (state\<lparr>US_Phase := nextPhase, US_PhaseStartedAt := now_text r sv w\<rparr>)) w of
        (Inl e, w1) \<Rightarrow> (Inl (Ctrl_Error ''updating upgrade annotation'' e), w1)
      | (Inr _, w1) \<Rightarrow> (Inr requeueAfterImmediate, w1))"

definition upgradePhase ::
  "'w reconciler \<Rightarrow> 'w services \<Rightarrow> CloudberryCluster \<Rightarrow> upgradeStateData \<Rightarrow> string \<Rightarrow> string \<Rightarrow> bool \<Rightarrow> string \<Rightarrow> 'w handler" where
  "upgradePhase r sv cluster state newImage stsName componentEnabled nextPhase w =
     (if \<not> componentEnabled then advanceUpgradePhase r sv cluster state nextPhase w
      else (case updateStatefulSetImage sv (CC_Namespace cluster) stsName newImage w of
              (Some _, w1) \<Rightarrow> (Inr requeueAfterError, w1)
            | (None, w1) \<Rightarrow>
                (case isStatefulSetReady r (CC_Namespace cluster) stsName w1 of
                   (True, w2) \<Rightarrow> advanceUpgradePhase r sv cluster state nextPhase w2
                 | (False, w2) \<Rightarrow> (Inr requeueAfterStopping, w2))))"

definition verifyUpgrade :: "'w reconciler \<Rightarrow> CloudberryCluster \<Rightarrow> upgradeStateData \<Rightarrow> 'w handler" where
  "verifyUpgrade r cluster state w =
     (case isStatefulSetReady r (CC_Namespace cluster) (CoordinatorName (CC_Name cluster)) w of
        (False, w1) \<Rightarrow> (Inr requeueAfterStopping, w1)
      | (True, w1) \<Rightarrow>
          (case isStatefulSetReady r (CC_Namespace cluster) (SegmentPrimaryName (CC_Name cluster)) w1 of
             (False, w2) \<Rightarrow> (Inr requeueAfterStopping, w2)
           | (True, w2) \<Rightarrow> completeUpgrade r cluster state w2))"

text \<open>
  \<^verbatim>\<open>%q\<close> of a phase name, as \<^verbatim>\<open>strconv.Quote\<close> writes ASCII; bytes from 128 on are kept, as those of printable
  characters are. The names the operator writes are plain words.
\<close>

definition quoted_byte :: "char \<Rightarrow> string" where
  "quoted_byte c =
     (let n = of_char c :: nat; bs = CHR 0x5C
      in if n = 34 \<or> n = 92 then [bs, c]
         else if n = 7 then [bs, CHR ''a''] else if n = 8 then [bs, CHR ''b''] else if n = 12 then [bs, CHR ''f'']
         else if n = 10 then [bs, CHR ''n''] else if n = 13 then [bs, CHR ''r''] else if n = 9 then [bs, CHR ''t'']
         else if n = 11 then [bs, CHR ''v'']
         else if n < 32 \<or> n = 127 then [bs, CHR ''x'', hex_char (n div 16), hex_char (n mod 16)]
         else [c])"

definition quoted :: "string \<Rightarrow> string" where
  "quoted s = [CHR 0x22] @ concat (map quoted_byte s) @ [CHR 0x22]"

definition continueUpgrade :: "'w reconciler \<Rightarrow> 'w services \<Rightarrow> CloudberryCluster \<Rightarrow> 'w handler" where
  "continueUpgrade r sv cluster w =
     (let stateJSON = annotation cluster AnnotationUpgrade; newImage = Spec_Image (CC_Spec cluster); n = CC_Name cluster
      in if stateJSON = [] then (Inr (requeueDefault r), w)
         else case unmarshal_upgradeState stateJSON of
           None \<Rightarrow> (Inr requeueAfterError, w)
         | Some state \<Rightarrow>
             if US_PhaseStartedAt state \<noteq> [] \<and> timed_out r (US_PhaseStartedAt state) (opTimeout r upgradePhaseTimeout) w
             then rollbackUpgrade r sv cluster state
                    (''phase '' @ quoted (US_Phase state) @ '' timed out after '' @ Duration_String (opTimeout r upgradePhaseTimeout)) w
             else if US_Phase state = upgradePhaseMirrors
             then upgradePhase r sv cluster state newImage (SegmentMirrorName n) (mirroring_on cluster) upgradePhasePrimaries w
             else if US_Phase state = upgradePhasePrimaries
             then upgradePhase r sv cluster state newImage (SegmentPrimaryName n) True upgradePhaseStandby w
             else if US_Phase state = upgradePhaseStandby
             then upgradePhase r sv cluster state newImage (StandbyName n)
                    (case Spec_Standby (CC_Spec cluster) of None \<Rightarrow> False | Some s \<Rightarrow> Standby_Enabled s) upgradePhaseCoordinator w
             else if US_Phase state = upgradePhaseCoordinator
             then upgradePhase r sv cluster state newImage (CoordinatorName n) True upgradePhaseVerify w
             else if US_Phase state = upgradePhaseVerify then verifyUpgrade r cluster state w
             else completeUpgrade r cluster state w)"

definition handleUpgrade :: "'w reconciler \<Rightarrow> 'w services \<Rightarrow> CloudberryCluster \<Rightarrow> 'w handler" where
  "handleUpgrade r sv cluster0 w =
     (if annotation cluster0 AnnotationUpgrade \<noteq> [] then continueUpgrade r sv cluster0 w
      else if St_Phase (CC_Status cluster0) \<noteq> ClusterPhaseRunning
      then (Inr 0, k_event (r_client r) cluster0 ''UpgradeBlocked''
             (''Cluster must be Running to upgrade, current phase: '' @ St_Phase (CC_Status cluster0)) w)
      else (case getCurrentImage sv cluster0 w of
              (currentImage, w1) \<Rightarrow>
                (let now = now_text r sv w1;
                     state = \<lparr>US_PreviousImage = currentImage, US_PreviousVersion = St_ClusterVersion (CC_Status cluster0),
                       US_Phase = upgradePhaseMirrors, US_StartedAt = now, US_PhaseStartedAt = now\<rparr>
                 in case k_update_status (r_client r) (with_phase ClusterPhaseUpdating cluster0) w1 of
                      (Inl e, w2) \<Rightarrow> (Inl (Ctrl_Error ''setting updating phase'' e), w2)
                    | (Inr cluster1, w2) \<Rightarrow>
                        (case setAnnotationPatch r cluster1 AnnotationUpgrade (marshal_upgradeState state) w2 of
                           (Inl e, w3) \<Rightarrow> (Inl (Ctrl_Error ''setting upgrade annotation'' e), w3)
                         | (Inr cluster2, w3) \<Rightarrow>
                             continueUpgrade r sv cluster2
                               (k_event (r_client r) cluster2 EventReasonUpgradeStarted
                                  (''Upgrade from '' @ US_PreviousVersion state @ '' to '' @ Spec_Version (CC_Spec cluster2) @
                                   '' initiated'') w3)))))"

end
