(* ===== verification/Deletion.thy ===== *)
theory Deletion
  imports Scale
begin

text \<open>
  The deletion of a cluster, after \<^verbatim>\<open>internal/controller/cluster_controller.go\<close>. A cluster carries a
  finalizer, which the controller removes last: after the backup that was asked for has reached an
  end (under the policy Delete) and after the volume claims are deleted (under the same policy).
\<close>

section \<open>Model\<close>

abbreviation deletionBackupTimeout :: int where "deletionBackupTimeout \<equiv> 1800000000000"
abbreviation requeueAfterDeletionBackup :: int where "requeueAfterDeletionBackup \<equiv> 15000000000"
abbreviation MaintenanceBackupOnDelete :: string where "MaintenanceBackupOnDelete \<equiv> ''backup-on-delete''"
abbreviation AnnotationDeletionBackupJob :: string where "AnnotationDeletionBackupJob \<equiv> ''avsoft.io/deletion-backup-job''"
abbreviation AnnotationDeletionBackupDeadline :: string where
  "AnnotationDeletionBackupDeadline \<equiv> ''avsoft.io/deletion-backup-deadline''"

text \<open>\<^verbatim>\<open>Format("20060102-150405")\<close> in UTC.\<close>

definition backup_timestamp :: "int \<Rightarrow> string" where
  "backup_timestamp t =
     (let s = t div Second; (y, m, d) = date_of_day (s div 86400)
      in pad_int 4 y @ pad_int 2 (int m) @ pad_int 2 (int d) @ ''-'' @
         pad_int 2 (s div 3600 mod 24) @ pad_int 2 (s div 60 mod 60) @ pad_int 2 (s mod 60))"

definition deletionBackupTimestamp :: "'w reconciler \<Rightarrow> CloudberryCluster \<Rightarrow> 'w \<Rightarrow> string" where
  "deletionBackupTimestamp r cluster w =
     backup_timestamp (case CC_DeletionTimestamp cluster of Some ts \<Rightarrow> ts | None \<Rightarrow> k_now (r_client r) w)"

definition triggerBestEffortDeletionBackup ::
  "'w reconciler \<Rightarrow> 'w services \<Rightarrow> CloudberryCluster \<Rightarrow> 'w \<Rightarrow> 'w" where
  "triggerBestEffortDeletionBackup r sv cluster w =
     (case s_create_job sv (s_build_maintenance_job sv cluster MaintenanceBackupOnDelete (deletionBackupTimestamp r cluster w)) w of
        (err, w1) \<Rightarrow>
          if err \<noteq> None \<and> err \<noteq> Some AlreadyExists then w1
          else k_event (r_client r) cluster ''BackupOnDelete'' ''Backup triggered before cluster deletion'' w1)"

text \<open>
  The answer of the two steps of the backup: \<open>Inl\<close> an error, otherwise whether the deletion may go on
  and the delay to come back after, with the cluster as it is afterwards. The error of a Job that
  cannot be created is part of the event; its text is that of the client.
\<close>

definition startDeletionBackup ::
  "'w reconciler \<Rightarrow> 'w services \<Rightarrow> CloudberryCluster \<Rightarrow> 'w \<Rightarrow> (ctrl_error + bool \<times> int \<times> CloudberryCluster) \<times> 'w" where
  "startDeletionBackup r sv cluster w =
     (let backupJob = s_build_maintenance_job sv cluster MaintenanceBackupOnDelete (deletionBackupTimestamp r cluster w)
      in case s_create_job sv backupJob w of
           (err, w1) \<Rightarrow>
             if err \<noteq> None \<and> err \<noteq> Some AlreadyExists
             then (Inr (True, 0, cluster), k_event (r_client r) cluster ''BackupOnDeleteFailed''
                    (''Failed to create backup job before deletion: '' @
                     (case err of Some (Other_Error msg) \<Rightarrow> msg | _ \<Rightarrow> []) @ ''; proceeding with deletion'') w1)
             else (let deadline = Format_RFC3339 UTC (k_now (r_client r) w1 + deletionBackupTimeout)
                   in case s_patch_annotations sv (CC_Namespace cluster) (CC_Name cluster)
                             [(AnnotationDeletionBackupJob, KJob_Name backupJob), (AnnotationDeletionBackupDeadline, deadline)] w1 of
                        (Inl e, w2) \<Rightarrow> (Inl (Ctrl_Error ''recording deletion-backup annotations'' e), w2)
                      | (Inr cluster1, w2) \<Rightarrow>
                          (Inr (False, requeueAfterDeletionBackup, cluster1),
                           k_event (r_client r) cluster1 ''BackupOnDelete''
                             (''Backup job '' @ KJob_Name backupJob @ '' started; PVC deletion deferred until it completes'') w2)))"

definition deletionBackupDeadlineExceeded :: "'w reconciler \<Rightarrow> CloudberryCluster \<Rightarrow> 'w \<Rightarrow> bool" where
  "deletionBackupDeadlineExceeded r cluster w =
     (let raw = annotation cluster AnnotationDeletionBackupDeadline
      in if raw = [] then False
         else case Parse_RFC3339 raw of None \<Rightarrow> True | Some deadline \<Rightarrow> k_now (r_client r) w > deadline)"

definition ensureDeletionBackupComplete ::
  "'w reconciler \<Rightarrow> 'w services \<Rightarrow> CloudberryCluster \<Rightarrow> 'w \<Rightarrow> (ctrl_error + bool \<times> int \<times> CloudberryCluster) \<times> 'w" where
  "ensureDeletionBackupComplete r sv cluster w =
     (let jobName = annotation cluster AnnotationDeletionBackupJob
      in if jobName = [] then startDeletionBackup r sv cluster w
         else case s_get_job sv (CC_Namespace cluster) jobName w of
           (Inl NotFound, w1) \<Rightarrow>
             (Inr (True, 0, cluster), k_event (r_client r) cluster ''BackupOnDeleteFailed''
                (''Backup job '' @ jobName @ '' disappeared before completion; proceeding with deletion'') w1)
         | (Inl e, w1) \<Rightarrow> (Inl (Ctrl_Error (''fetching deletion-backup job '' @ jobName) e), w1)
         | (Inr job, w1) \<Rightarrow>
             if KJob_Succeeded job > 0
             then (Inr (True, 0, cluster), k_event (r_client r) cluster ''BackupOnDeleteCompleted''
                    (''Backup job '' @ jobName @ '' completed; proceeding with deletion'') w1)
             else if jobHasFailedCondition job
             then (Inr (True, 0, cluster), k_event (r_client r) cluster ''BackupOnDeleteFailed''
                    (''Backup job '' @ jobName @ '' failed; proceeding with deletion without a backup'') w1)
             else if deletionBackupDeadlineExceeded r cluster w1
             then (Inr (True, 0, cluster), k_event (r_client r) cluster ''BackupOnDeleteFailed''
                    (''Backup job '' @ jobName @ '' did not finish within '' @ Duration_String deletionBackupTimeout @
                     ''; proceeding with deletion'') w1)
             else (Inr (False, requeueAfterDeletionBackup, cluster), w1))"

text \<open>The first claim that cannot be deleted ends the loop.\<close>

fun delete_pvcs :: "'w services \<Rightarrow> string \<Rightarrow> string list \<Rightarrow> 'w \<Rightarrow> ctrl_error option \<times> 'w" where
  "delete_pvcs sv namespace [] w = (None, w)"
| "delete_pvcs sv namespace (n # ns) w =
     (case s_delete_pvc sv namespace n w of
        (err, w1) \<Rightarrow>
          (case err of
             Some NotFound \<Rightarrow> delete_pvcs sv namespace ns w1
           | Some e \<Rightarrow> (Some (Ctrl_Error (''deleting PVC '' @ n) e), w1)
           | None \<Rightarrow> delete_pvcs sv namespace ns w1))"

definition deletePVCs :: "'w services \<Rightarrow> CloudberryCluster \<Rightarrow> 'w \<Rightarrow> ctrl_error option \<times> 'w" where
  "deletePVCs sv cluster w =
     (case s_list_pvcs sv (CC_Namespace cluster) [(''avsoft.io/cluster'', CC_Name cluster)] w of
        (Inl e, w1) \<Rightarrow> (Some (Ctrl_Error ''listing PVCs'' e), w1)
      | (Inr names, w1) \<Rightarrow> delete_pvcs sv (CC_Namespace cluster) names w1)"

text \<open>The last part: claims and finalizer, once no backup is to be waited for.\<close>

definition finish_deletion :: "'w reconciler \<Rightarrow> 'w services \<Rightarrow> CloudberryCluster \<Rightarrow> 'w handler" where
  "finish_deletion r sv cluster w =
     (case (if Spec_DeletionPolicy (CC_Spec cluster) = DeletionPolicyDelete
            then (case deletePVCs sv cluster w of
                    (Some e, w1) \<Rightarrow> (Some e, w1)
                  | (None, w1) \<Rightarrow> (None, k_event (r_client r) cluster ''PVCsDeleted'' ''All PVCs deleted (deletionPolicy: Delete)'' w1))
            else (None, k_event (r_client r) cluster ''PVCsRetained'' ''PVCs retained (deletionPolicy: Retain)'' w)) of
        (Some e, w1) \<Rightarrow> (Inl e, w1)
      | (None, w1) \<Rightarrow>
          (case k_update_cluster (r_client r)
                  (cluster\<lparr>CC_Finalizers := filter (\<lambda>f. f \<noteq> FinalizerName) (CC_Finalizers cluster)\<rparr>) w1 of
             (Inl e, w2) \<Rightarrow> (Inl (Ctrl_Error ''removing finalizer'' e), w2)
           | (Inr cluster1, w2) \<Rightarrow>
               (Inr 0, k_event (r_client r) cluster1 ''Deleted'' ''Cluster deletion completed'' w2)))"

definition handleDeletion :: "'w reconciler \<Rightarrow> 'w services \<Rightarrow> CloudberryCluster \<Rightarrow> 'w handler" where
  "handleDeletion r sv cluster0 w =
     (if FinalizerName \<notin> set (CC_Finalizers cluster0) then (Inr 0, w)
      else case (if St_Phase (CC_Status cluster0) \<noteq> ClusterPhaseDeleting
                 then (case k_update_status (r_client r) (with_phase ClusterPhaseDeleting cluster0) w of
                         (Inl e, w1) \<Rightarrow> (Inl (Ctrl_Error (''updating phase to '' @ ClusterPhaseDeleting) e), w1)
                       | (Inr c, w1) \<Rightarrow> (Inr c, k_event (r_client r) c ''Deleting'' ''Cluster deletion initiated'' w1))
                 else (Inr cluster0, w)) of
        (Inl e, w1) \<Rightarrow> (Inl e, w1)
      | (Inr cluster, w1) \<Rightarrow>
          if Spec_BackupOnDelete (CC_Spec cluster) then
            (if Spec_DeletionPolicy (CC_Spec cluster) = DeletionPolicyDelete then
               (case ensureDeletionBackupComplete r sv cluster w1 of
                  (Inl e, w2) \<Rightarrow> (Inl e, w2)
                | (Inr (False, delay, _), w2) \<Rightarrow> (Inr delay, w2)
                | (Inr (True, _, cluster), w2) \<Rightarrow> finish_deletion r sv cluster w2)
             else finish_deletion r sv cluster (triggerBestEffortDeletionBackup r sv cluster w1))
          else finish_deletion r sv cluster w1)"

end
