(* ===== verification/Segments.thy ===== *)
theory Segments
  imports Mirroring
begin

text \<open>
  The reconciliation of the StatefulSets, after \<^verbatim>\<open>reconcileStatefulSets\<close> of
  \<^verbatim>\<open>internal/controller/cluster_controller.go\<close>: the coordinator, the standby and the segments are
  built from the spec and applied; a changed segment count starts a scale operation instead, a
  changed mirroring section switches mirroring on or off, and replicas are never lowered here. The
  builders, the TLS checksum of the pod template, the PXF objects and the volume resizing are
  services.
\<close>

section \<open>Model\<close>

definition applyBuilt ::
  "'w services \<Rightarrow> CloudberryCluster \<Rightarrow> StatefulSetFull \<Rightarrow> 'w \<Rightarrow> ctrl_error option \<times> 'w" where
  "applyBuilt sv cluster desired w =
     (case s_tls_checksum sv cluster desired w of
        (Inl e, w1) \<Rightarrow> (Some e, w1)
      | (Inr desired1, w1) \<Rightarrow> createOrUpdateStatefulSet sv desired1 w1)"

definition reconcileCoordinator :: "'w services \<Rightarrow> CloudberryCluster \<Rightarrow> 'w \<Rightarrow> ctrl_error option \<times> 'w" where
  "reconcileCoordinator sv cluster w =
     (case s_build_coordinator sv cluster of
        Inl e \<Rightarrow> (Some (Ctrl_Error (''building coordinator StatefulSet for cluster '' @ CC_Name cluster) (Other_Error e)), w)
      | Inr desired \<Rightarrow> applyBuilt sv cluster desired w)"

definition reconcileStandby :: "'w services \<Rightarrow> CloudberryCluster \<Rightarrow> 'w \<Rightarrow> ctrl_error option \<times> 'w" where
  "reconcileStandby sv cluster w =
     (case s_build_standby sv cluster of
        Inl e \<Rightarrow> (Some (Ctrl_Error (''building standby StatefulSet for cluster '' @ CC_Name cluster) (Other_Error e)), w)
      | Inr None \<Rightarrow> (None, w)
      | Inr (Some desired) \<Rightarrow> applyBuilt sv cluster desired w)"

text \<open>The replicas to write when the StatefulSet already has some: never fewer.\<close>

definition keep_replicas :: "int32 option \<Rightarrow> StatefulSetFull \<Rightarrow> StatefulSetFull" where
  "keep_replicas existing desired =
     (case (Sts_Replicas desired, existing) of
        (Some n, Some k) \<Rightarrow> if n < k then desired\<lparr>Sts_Replicas := existing\<rparr> else desired
      | _ \<Rightarrow> desired)"

definition reconcileSegmentPrimary ::
  "'w services \<Rightarrow> CloudberryCluster \<Rightarrow> api_error + StatefulSet \<Rightarrow> 'w \<Rightarrow> ctrl_error option \<times> 'w" where
  "reconcileSegmentPrimary sv cluster existingSts w =
     (case s_build_primary sv cluster of
        Inl e \<Rightarrow> (Some (Ctrl_Error (''building primary segment StatefulSet for cluster '' @ CC_Name cluster) (Other_Error e)), w)
      | Inr primarySts \<Rightarrow>
          (case s_tls_checksum sv cluster primarySts w of
             (Inl e, w1) \<Rightarrow> (Some e, w1)
           | (Inr primarySts1, w1) \<Rightarrow>
               (let primarySts2 = (case existingSts of Inl _ \<Rightarrow> primarySts1
                      | Inr existing \<Rightarrow> keep_replicas (Sts_Replicas existing) primarySts1)
                in case createOrUpdateStatefulSet sv primarySts2 w1 of
                     (Some e, w2) \<Rightarrow> (Some (wrap_error ''primary segments'' e), w2)
                   | (None, w2) \<Rightarrow> (None, w2))))"

definition preserveMirrorReplicasIfNeeded ::
  "'w services \<Rightarrow> StatefulSetFull \<Rightarrow> bool \<Rightarrow> 'w \<Rightarrow> StatefulSetFull \<times> 'w" where
  "preserveMirrorReplicasIfNeeded sv mirrorSts primaryGetErr w =
     (if primaryGetErr then (mirrorSts, w)
      else case s_get_sts sv (Sts_Namespace mirrorSts) (Sts_Name mirrorSts) w of
        (Inl _, w1) \<Rightarrow> (mirrorSts, w1)
      | (Inr mirrorExisting, w1) \<Rightarrow> (keep_replicas (Sts_Replicas mirrorExisting) mirrorSts, w1))"

definition reconcileSegments :: "'w reconciler \<Rightarrow> 'w services \<Rightarrow> CloudberryCluster \<Rightarrow> 'w step" where
  "reconcileSegments r sv cluster w =
     (case k_get_sts (r_client r) (CC_Namespace cluster) (SegmentPrimaryName (CC_Name cluster)) w of
        (existingSts, w1) \<Rightarrow>
          (case detectAndHandleScale r sv cluster existingSts w1 of
             Some handled \<Rightarrow> handled
           | None \<Rightarrow>
          (case isMirroringEnableNeeded r cluster w1 of
             (True, w2) \<Rightarrow> handleEnableMirroring r sv cluster w2
           | (False, w2) \<Rightarrow>
          (case isMirroringDisableNeeded r cluster w2 of
             (True, w3) \<Rightarrow> handleDisableMirroring r sv cluster w3
           | (False, w3) \<Rightarrow>
          (case s_ensure_pxf_config sv cluster w3 of
             (Some e, w4) \<Rightarrow> ((Some (wrap_error (''ensuring PXF servers ConfigMap for cluster '' @ CC_Name cluster) e), cluster), w4)
           | (None, w4) \<Rightarrow>
          (case s_ensure_network_policy sv cluster w4 of
             (Some e, w5) \<Rightarrow> ((Some (wrap_error (''ensuring PXF NetworkPolicy for cluster '' @ CC_Name cluster) e), cluster), w5)
           | (None, w5) \<Rightarrow>
          (case reconcileSegmentPrimary sv cluster existingSts w5 of
             (Some e, w6) \<Rightarrow> ((Some e, cluster), w6)
           | (None, w6) \<Rightarrow>
          (case s_build_mirror sv cluster of
             Inl e \<Rightarrow> ((Some (Ctrl_Error (''building mirror segment StatefulSet for cluster '' @ CC_Name cluster) (Other_Error e)), cluster), w6)
           | Inr None \<Rightarrow> ((None, cluster), w6)
           | Inr (Some mirrorSts) \<Rightarrow>
          (case s_tls_checksum sv cluster mirrorSts w6 of
             (Inl e, w7) \<Rightarrow> ((Some e, cluster), w7)
           | (Inr mirrorSts1, w7) \<Rightarrow>
          (case preserveMirrorReplicasIfNeeded sv mirrorSts1 (isl existingSts) w7 of
             (mirrorSts2, w8) \<Rightarrow>
          (case createOrUpdateStatefulSet sv mirrorSts2 w8 of
             (Some e, w9) \<Rightarrow> ((Some (wrap_error ''mirror segments'' e), cluster), w9)
           | (None, w9) \<Rightarrow> ((None, cluster), w9))))))))))))"

definition reconcileStatefulSets ::
  "'w reconciler \<Rightarrow> 'w services \<Rightarrow> CloudberryCluster \<Rightarrow> 'w \<Rightarrow> (ctrl_error + CloudberryCluster) \<times> 'w" where
  "reconcileStatefulSets r sv cluster w =
     (if scaleOutInProgress cluster then (Inr cluster, w)
      else case reconcileCoordinator sv cluster w of
        (Some e, w1) \<Rightarrow> (Inl (wrap_error ''reconciling coordinator'' e), w1)
      | (None, w1) \<Rightarrow>
          (case (if (case Spec_Standby (CC_Spec cluster) of None \<Rightarrow> False | Some s \<Rightarrow> Standby_Enabled s)
                 then reconcileStandby sv cluster w1 else (None, w1)) of
             (Some e, w2) \<Rightarrow> (Inl (wrap_error ''reconciling standby'' e), w2)
           | (None, w2) \<Rightarrow>
               (case reconcileSegments r sv cluster w2 of
                  ((Some e, _), w3) \<Rightarrow> (Inl (wrap_error ''reconciling segments'' e), w3)
                | ((None, cluster1), w3) \<Rightarrow>
                    (case s_storage_expansion sv cluster1 w3 of
                       (Some e, w4) \<Rightarrow> (Inl (wrap_error ''reconciling storage expansion'' e), w4)
                     | (None, w4) \<Rightarrow> (Inr cluster1, w4)))))"

end
