(* ===== verification/OperationTheorems.thy ===== *)
theory OperationTheorems
  imports ScaleProperties Upgrade Deletion Segments
begin

text \<open>
  What holds of the other long-running operations of the cluster controller on the reference
  server: switching mirroring on, the rolling upgrade and its rollback, the deletion with its backup,
  and the reconciliation of the StatefulSets.
\<close>

section \<open>Mirroring\<close>

definition mirroringState_ok :: "mirroringStateData \<Rightarrow> bool" where
  "mirroringState_ok s \<longleftrightarrow> valid_utf8 (MS_Phase s) \<and> valid_utf8 (MS_StartedAt s) \<and> valid_utf8 (MS_PhaseStartedAt s) \<and>
     valid_utf8 (MS_Layout s)"

lemma mirroring_names_ascii: "valid_utf8 ''layout''" "valid_utf8 mirroringPhaseInit" "valid_utf8 mirroringPhaseSyncing"
  "valid_utf8 mirroringPhaseCreatingSTS" "valid_utf8 mirroringPhaseCompleted"
  by (rule ascii_valid_utf8, simp)+

lemma mirroringState_read:
  assumes "mirroringState_ok s"
  shows "unmarshal_mirroringState (marshal_mirroringState s) = Some s"
proof -
  have "list_all field_ok (mirroringState_fields s)"
    using assms by (simp add: mirroringState_ok_def mirroringState_fields_def field_ok_def field_defs state_names_ascii mirroring_names_ascii)
  moreover have "zero_fields (mirroringState_fields s) = mirroringState_fields mirroringState_zero"
    by (simp add: zero_fields_def mirroringState_fields_def field_defs zero_val_def mirroringState_zero_def)
  moreover have "distinct (map Fld_Name (mirroringState_fields s))" by (simp add: mirroringState_fields_def field_defs)
  ultimately have "Unmarshal (marshal_mirroringState s) (mirroringState_fields mirroringState_zero) = Some (mirroringState_fields s)"
    using Unmarshal_Marshal [of "mirroringState_fields s"] by (simp add: marshal_mirroringState_def)
  then show ?thesis
    by (simp add: unmarshal_mirroringState_def mirroringState_of_def mirroringState_fields_def field_defs)
qed

text \<open>A cluster in the phase Updating that nobody stops, deletes or acts on, and what an operation leaves of it.\<close>

definition updating :: "CloudberryCluster \<Rightarrow> store \<Rightarrow> bool" where
  "updating c w \<longleftrightarrow> stored c w \<and> St_Phase (CC_Status c) = ClusterPhaseUpdating \<and> CC_DeletionTimestamp c = None \<and>
     CC_Annotations c AnnotationAction = None"

definition enabling :: "mirroringStateData \<Rightarrow> CloudberryCluster \<Rightarrow> store \<Rightarrow> bool" where
  "enabling st c w \<longleftrightarrow> updating c w \<and> CC_Annotations c AnnotationMirroringState = Some (marshal_mirroringState st) \<and> mirroringState_ok st"

definition mirroring_expired :: "mirroringStateData \<Rightarrow> store \<Rightarrow> bool" where
  "mirroring_expired st w \<longleftrightarrow> MS_StartedAt st \<noteq> [] \<and> timed_out srv_reconciler (MS_StartedAt st) mirroringEnableTimeout w"

definition same_servers :: "store \<Rightarrow> store \<Rightarrow> bool" where
  "same_servers w' w \<longleftrightarrow> srv_sts w' = srv_sts w \<and> srv_db_error w' = srv_db_error w \<and> srv_mirror_sync w' = srv_mirror_sync w \<and>
     srv_now w' = srv_now w"

lemma same_servers_simps [simp]: "same_servers w w" "same_servers (set_cluster c w') w = same_servers w' w"
  "same_servers (logged e w') w = same_servers w' w"
  by (simp_all add: same_servers_def)

lemma same_servers_trans: "same_servers w2 w1 \<Longrightarrow> same_servers w1 w \<Longrightarrow> same_servers w2 w"
  by (simp add: same_servers_def)

lemma same_servers_sts: "same_servers w' w \<Longrightarrow> srv_get_sts ns n w' = srv_get_sts ns n w"
  by (simp add: same_servers_def srv_get_sts_def)

lemma mirroring_pass:
  assumes "enabling st c w" "fl_checkMirroringProgress fs = checkMirroringProgress srv_reconciler sv"
  shows "Reconcile srv_reconciler fs (CC_Namespace c) (CC_Name c) w =
    (if mirroring_expired st w then handleMirroringTimeout srv_reconciler c w
     else if MS_Phase st = mirroringPhaseCreatingSTS then
       (case isStatefulSetReady srv_reconciler (CC_Namespace c) (SegmentMirrorName (CC_Name c)) w of
          (True, w1) \<Rightarrow> advanceMirroringPhase srv_reconciler sv c st mirroringPhaseInit w1
        | (False, w1) \<Rightarrow> (Inr requeueAfterStopping, w1))
     else if MS_Phase st = mirroringPhaseInit then
       (case initializeMirrors srv_reconciler sv c w of
          (Some _, w1) \<Rightarrow> (Inr requeueAfterError, w1)
        | (None, w1) \<Rightarrow> advanceMirroringPhase srv_reconciler sv c st mirroringPhaseSyncing w1)
     else if MS_Phase st = mirroringPhaseSyncing then
       (case monitorMirrorSync srv_reconciler sv c w of
          (Inl _, w1) \<Rightarrow> (Inr requeueAfterError, w1)
        | (Inr True, w1) \<Rightarrow> completeMirroringEnable srv_reconciler c w1
        | (Inr False, w1) \<Rightarrow>
            (Inr requeueAfterStopping, snd (patchStatus srv_reconciler (with_mirroring_status MirroringSyncing c) w1)))
     else completeMirroringEnable srv_reconciler c w)"
proof -
  have "k_get_cluster (r_client srv_reconciler) (CC_Namespace c) (CC_Name c) w = (Inr c, w)"
    using assms(1) srv_get [of c w c] by (simp add: enabling_def updating_def)
  moreover have ann: "annotation c AnnotationMirroringState = marshal_mirroringState st" "marshal_mirroringState st \<noteq> []"
    using assms(1) by (simp_all add: enabling_def annotation_def marshal_mirroringState_def Marshal_def)
  moreover have "first_gate c = Route_MirroringProgress"
    using assms(1) ann by (simp add: enabling_def updating_def gate_defs)
  ultimately have "Reconcile srv_reconciler fs (CC_Namespace c) (CC_Name c) w = checkMirroringProgress srv_reconciler sv c w"
    using assms(2) by (simp add: Reconcile_by_gate)
  moreover have "unmarshal_mirroringState (marshal_mirroringState st) = Some st"
    using assms(1) by (simp add: enabling_def mirroringState_read)
  ultimately show ?thesis using ann
    by (simp only: checkMirroringProgress_def Let_def mirroring_expired_def option.case if_False)
qed

lemma advance_mirroring:
  assumes "enabling st c w" "valid_utf8 p"
  shows "\<exists>c' w' t. advanceMirroringPhase srv_reconciler sv c st p w = (Inr requeueAfterImmediate, w') \<and>
    enabling (st\<lparr>MS_Phase := p, MS_PhaseStartedAt := t\<rparr>) c' w' \<and> same_key c' c \<and> CC_Spec c' = CC_Spec c \<and>
    (\<forall>k. k \<noteq> AnnotationMirroringState \<longrightarrow> CC_Annotations c' k = CC_Annotations c k) \<and>
    same_servers w' w \<and> data_log w' = data_log w"
proof -
  define st' where "st' = st\<lparr>MS_Phase := p, MS_PhaseStartedAt := now_text srv_reconciler sv w\<rparr>"
  define c' where "c' = annotated AnnotationMirroringState (Some (marshal_mirroringState st')) c"
  define w' where "w' = logged (Op_Annotation AnnotationMirroringState (Some (marshal_mirroringState st'))) (set_cluster c' w)"
  have run: "advanceMirroringPhase srv_reconciler sv c st p w = (Inr requeueAfterImmediate, w')"
    using assms(1) exec_annotation [of c w c AnnotationMirroringState "Some (marshal_mirroringState st')"]
    by (simp add: advanceMirroringPhase_def setAnnotationPatch_def enabling_def updating_def st'_def [symmetric] w'_def c'_def)
  have "mirroringState_ok st'"
    using assms by (simp add: st'_def enabling_def mirroringState_ok_def now_text_utf8)
  then have "enabling st' c' w'"
    using assms(1) by (simp add: enabling_def updating_def c'_def w'_def)
  then show ?thesis using run unfolding st'_def
    by (intro exI [of _ c'] exI [of _ w'] exI [of _ "now_text srv_reconciler sv w"]) (simp add: w'_def c'_def)
qed

lemma ready_srv:
  "isStatefulSetReady srv_reconciler ns n w =
     (case srv_get_sts ns n w of None \<Rightarrow> True
      | Some s \<Rightarrow> (let d = (case Sts_Replicas s of None \<Rightarrow> 1 | Some k \<Rightarrow> k) in d \<le> Sts_ReadyReplicas s \<and> d \<le> Sts_UpdatedReplicas s), w)"
  by (simp add: isStatefulSetReady_def srv_client_def found_def StatefulSet.defs Let_def split: option.split)

lemma status_simps [simp]:
  "same_key (with_mirroring_status m c) d = same_key c d" "CC_Spec (with_mirroring_status m c) = CC_Spec c"
  "St_Phase (CC_Status (with_mirroring_status m c)) = St_Phase (CC_Status c)"
  "St_MirroringStatus (CC_Status (with_mirroring_status m c)) = m"
  "CC_Annotations (with_mirroring_status m c) = CC_Annotations c"
  "same_key (with_phase p c) d = same_key c d" "St_Phase (CC_Status (with_phase p c)) = p" "CC_Spec (with_phase p c) = CC_Spec c"
  "same_key (with_condition now t s rs m c) d = same_key c d"
  "St_MirroringStatus (CC_Status (with_condition now t s rs m' c)) = St_MirroringStatus (CC_Status c)"
  "St_ClusterVersion (CC_Status (with_condition now t s rs m' c)) = St_ClusterVersion (CC_Status c)"
  by (simp_all add: with_mirroring_status_def with_phase_def with_condition_def same_key_def)

text \<open>The shape all final steps share: a status update, then the removal of the state annotation.\<close>

lemma finish_run:
  assumes "stored c w" "same_key d c"
  shows "\<exists>c' w'. (case k_update_status srv_client d w of
       (Inl e, w1) \<Rightarrow> (Inl (Ctrl_Error ctx e), w1)
     | (Inr c1, w1) \<Rightarrow> (case dropAnnotation srv_reconciler c1 key w1 of (c2, w2) \<Rightarrow> (Inr res, k_event srv_client c2 (t c2) (m c2) w2))) =
      (Inr res, w') \<and> stored c' w' \<and> c' = annotated key None (c\<lparr>CC_Status := CC_Status d\<rparr>) \<and>
    same_servers w' w \<and> data_log w' = data_log w \<and> srv_claims w' = srv_claims w"
proof -
  let ?c1 = "c\<lparr>CC_Status := CC_Status d\<rparr>"
  have "dropAnnotation srv_reconciler ?c1 key (set_cluster ?c1 w) = (annotated key None ?c1,
      logged (Op_Annotation key None) (set_cluster (annotated key None ?c1) (set_cluster ?c1 w)))"
    by (rule exec_drop) simp_all
  then show ?thesis using exec_update_status [OF assms]
    by (intro exI [of _ "annotated key None ?c1"]
        exI [of _ "logged (Op_Annotation key None) (set_cluster (annotated key None ?c1) (set_cluster ?c1 w))"]) simp
qed

lemma complete_mirroring_run:
  assumes "stored c w"
  shows "\<exists>c' w'. completeMirroringEnable srv_reconciler c w = (Inr (requeueDefault srv_reconciler), w') \<and> stored c' w' \<and> same_key c' c \<and>
    St_Phase (CC_Status c') = ClusterPhaseRunning \<and> St_MirroringStatus (CC_Status c') = MirroringInSync \<and>
    CC_Annotations c' = (CC_Annotations c)(AnnotationMirroringState := None) \<and> same_servers w' w \<and> data_log w' = data_log w"
proof -
  define d where "d = with_condition (srv_now w) ConditionMirroringHealthy ConditionTrue ''MirroringInSync''
    ''All mirrors are synchronized'' (with_mirroring_status MirroringInSync (with_phase ClusterPhaseRunning c))"
  have d: "same_key d c" "St_Phase (CC_Status d) = ClusterPhaseRunning" "St_MirroringStatus (CC_Status d) = MirroringInSync"
    by (simp_all add: d_def)
  from finish_run [OF assms d(1), where ctx = "''updating status after mirroring enable''" and key = AnnotationMirroringState
      and res = "requeueDefault srv_reconciler" and t = "\<lambda>_. EventReasonMirroringInSync"
      and m = "\<lambda>_. ''Mirroring enabled and all mirrors are synchronized''"]
  obtain c' w' where "completeMirroringEnable srv_reconciler c w = (Inr (requeueDefault srv_reconciler), w')" "stored c' w'"
    "c' = annotated AnnotationMirroringState None (c\<lparr>CC_Status := CC_Status d\<rparr>)" "same_servers w' w" "data_log w' = data_log w"
    by (auto simp only: completeMirroringEnable_def Let_def srv_reconciler_simps srv_event_now d_def [symmetric])
  then show ?thesis using d by (intro exI [of _ c'] exI [of _ w']) simp
qed

lemma timeout_run:
  assumes "stored c w"
  shows "\<exists>c' w'. handleMirroringTimeout srv_reconciler c w = (Inr (requeueDefault srv_reconciler), w') \<and> stored c' w' \<and> same_key c' c \<and>
    CC_DeletionTimestamp c' = CC_DeletionTimestamp c \<and>
    St_Phase (CC_Status c') = St_Phase (CC_Status c) \<and> St_MirroringStatus (CC_Status c') = MirroringDegraded \<and>
    CC_Annotations c' = (CC_Annotations c)(AnnotationMirroringState := None) \<and> same_servers w' w \<and> data_log w' = data_log w"
proof -
  define msg where "msg = ''Mirroring initialization timed out after '' @ Duration_String mirroringEnableTimeout"
  define d where "d = with_condition (srv_now w) ConditionMirroringHealthy ConditionFalse ''MirroringTimeout'' msg
    (with_mirroring_status MirroringDegraded c)"
  have d: "same_key d c" "St_Phase (CC_Status d) = St_Phase (CC_Status c)" "St_MirroringStatus (CC_Status d) = MirroringDegraded"
    by (simp_all add: d_def)
  from finish_run [OF assms d(1), where ctx = "''updating status after mirroring timeout''" and key = AnnotationMirroringState
      and res = "requeueDefault srv_reconciler" and t = "\<lambda>_. EventReasonMirroringFailed" and m = "\<lambda>_. msg"]
  obtain c' w' where "handleMirroringTimeout srv_reconciler c w = (Inr (requeueDefault srv_reconciler), w')" "stored c' w'"
    "c' = annotated AnnotationMirroringState None (c\<lparr>CC_Status := CC_Status d\<rparr>)" "same_servers w' w" "data_log w' = data_log w"
    by (auto simp only: handleMirroringTimeout_def Let_def srv_reconciler_simps srv_event_now msg_def [symmetric] d_def [symmetric])
  then show ?thesis using d by (intro exI [of _ c'] exI [of _ w']) simp
qed

lemma expired_cong: "same_servers w' w \<Longrightarrow> MS_StartedAt st' = MS_StartedAt st \<Longrightarrow> mirroring_expired st' w' = mirroring_expired st w"
  using timed_out_now [of w' w] by (simp add: mirroring_expired_def same_servers_def)

lemma pass_Suc: "Reconcile srv_reconciler fs (CC_Namespace c) (CC_Name c) w = (res, w') \<Longrightarrow> same_key c' c \<Longrightarrow>
    reconciles fs c (Suc k) w = reconciles fs c' k w'"
  by (simp add: same_key_def)

text \<open>
  C32. Mirroring comes up: on an API server and a database without failures, once the pods of the
  mirror StatefulSet are ready, three reconciliations initialise the mirrors with the layout and the
  segment count of the spec, configure synchronous replication, see all mirrors in sync, and leave
  the cluster Running with mirroring in sync and the state of the operation removed.
\<close>

theorem mirroring_enable_completes:
  assumes "fl_checkMirroringProgress fs = checkMirroringProgress srv_reconciler (srv_services b loc)"
    and "enabling st c w" "\<not> mirroring_expired st w" "MS_Phase st = mirroringPhaseCreatingSTS"
    and "srv_db_error w = (\<lambda>_. None)" "list_all id (srv_mirror_sync w)"
    and "srv_get_sts (CC_Namespace c) (SegmentMirrorName (CC_Name c)) w = Some s" "Sts_Replicas s = Some k"
      "k \<le> Sts_ReadyReplicas s" "k \<le> Sts_UpdatedReplicas s"
    and "Seg_Mirroring (Spec_Segments (CC_Spec c)) = Some m" "Mir_Layout m \<noteq> []"
  shows "\<exists>c'. stored c' (reconciles fs c 3 w) \<and> same_key c' c \<and> St_Phase (CC_Status c') = ClusterPhaseRunning \<and>
    St_MirroringStatus (CC_Status c') = MirroringInSync \<and>
    CC_Annotations c' = (CC_Annotations c)(AnnotationMirroringState := None) \<and> srv_sts (reconciles fs c 3 w) = srv_sts w \<and>
    data_log (reconciles fs c 3 w) =
      data_log w @ [Op_Init_Mirrors (Mir_Layout m) (Seg_Count (Spec_Segments (CC_Spec c))), Op_Replication ''sync'']"
proof -
  let ?sv = "srv_services b loc" and ?n = "Seg_Count (Spec_Segments (CC_Spec c))"
  have ready: "isStatefulSetReady srv_reconciler (CC_Namespace c) (SegmentMirrorName (CC_Name c)) v = (True, v)"
    if "same_servers v w" for v
    using assms(7-10) same_servers_sts [OF that] by (simp add: ready_srv)
  obtain c1 w1 t1 where 1: "advanceMirroringPhase srv_reconciler ?sv c st mirroringPhaseInit w = (Inr requeueAfterImmediate, w1)"
    "enabling (st\<lparr>MS_Phase := mirroringPhaseInit, MS_PhaseStartedAt := t1\<rparr>) c1 w1" "same_key c1 c" "CC_Spec c1 = CC_Spec c"
    "\<forall>k. k \<noteq> AnnotationMirroringState \<longrightarrow> CC_Annotations c1 k = CC_Annotations c k" "same_servers w1 w" "data_log w1 = data_log w"
    using advance_mirroring [OF assms(2) mirroring_names_ascii(2), of ?sv] by blast
  let ?st1 = "st\<lparr>MS_Phase := mirroringPhaseInit, MS_PhaseStartedAt := t1\<rparr>"
  have pass1: "Reconcile srv_reconciler fs (CC_Namespace c) (CC_Name c) w = (Inr requeueAfterImmediate, w1)"
    using mirroring_pass [OF assms(2,1)] assms(3,4) ready [of w] 1(1) by simp
  define v where "v = logged (Op_Replication ''sync'') (logged (Op_Init_Mirrors (Mir_Layout m) ?n) w1)"
  have init: "initializeMirrors srv_reconciler ?sv c1 w1 = (None, v)"
    using assms(5,11,12) 1(4,6) by (simp add: initializeMirrors_def db_answer_def db_change_def v_def same_servers_def)
  have en1: "enabling ?st1 c1 v" using 1(2) by (simp add: enabling_def updating_def v_def)
  obtain c2 w2 t2 where 2: "advanceMirroringPhase srv_reconciler ?sv c1 ?st1 mirroringPhaseSyncing v = (Inr requeueAfterImmediate, w2)"
    "enabling (?st1\<lparr>MS_Phase := mirroringPhaseSyncing, MS_PhaseStartedAt := t2\<rparr>) c2 w2" "same_key c2 c1"
    "\<forall>k. k \<noteq> AnnotationMirroringState \<longrightarrow> CC_Annotations c2 k = CC_Annotations c1 k" "same_servers w2 v" "data_log w2 = data_log v"
    using advance_mirroring [OF en1 mirroring_names_ascii(3), of ?sv] by blast
  have pass2: "Reconcile srv_reconciler fs (CC_Namespace c1) (CC_Name c1) w1 = (Inr requeueAfterImmediate, w2)"
    using mirroring_pass [OF 1(2) assms(1)] expired_cong [OF 1(6), of ?st1 st] assms(3) init 2(1) by simp
  have s2: "same_servers w2 w" using 2(5) 1(6) by (simp add: v_def same_servers_def)
  have sync: "monitorMirrorSync srv_reconciler ?sv c2 w2 = (Inr True, w2)"
    using assms(5,6) ready [OF s2] s2 2(3) 1(3)
    by (simp add: monitorMirrorSync_def db_answer_def same_servers_def same_key_def)
  obtain c3 w3 where 3: "completeMirroringEnable srv_reconciler c2 w2 = (Inr (requeueDefault srv_reconciler), w3)" "stored c3 w3"
    "same_key c3 c2" "St_Phase (CC_Status c3) = ClusterPhaseRunning" "St_MirroringStatus (CC_Status c3) = MirroringInSync"
    "CC_Annotations c3 = (CC_Annotations c2)(AnnotationMirroringState := None)" "same_servers w3 w2" "data_log w3 = data_log w2"
    using complete_mirroring_run [of c2 w2] 2(2) by (auto simp: enabling_def updating_def)
  have pass3: "Reconcile srv_reconciler fs (CC_Namespace c2) (CC_Name c2) w2 = (Inr (requeueDefault srv_reconciler), w3)"
    using mirroring_pass [OF 2(2) assms(1)] expired_cong [OF s2, of _ st] assms(3) sync 3(1) by simp
  have "reconciles fs c 3 w = w3"
    using pass_Suc [OF pass1 1(3), of 2] pass_Suc [OF pass2 2(3), of 1] pass_Suc [OF pass3 3(3), of 0]
    by (simp add: eval_nat_numeral del: passes.simps(2))
  moreover have "CC_Annotations c3 = (CC_Annotations c)(AnnotationMirroringState := None)"
    using 3(6) 2(4) 1(5) by (auto simp: fun_eq_iff)
  moreover have "same_key c3 c" using 3(3) 2(3) 1(3) by (simp add: same_key_def)
  moreover have "srv_sts w3 = srv_sts w" using 3(7) s2 by (simp add: same_servers_def)
  ultimately show ?thesis using 3(2,4,5,8) 2(6) 1(7)
    by (intro exI [of _ c3]) (simp add: v_def)
qed

text \<open>
  A timed-out attempt to switch mirroring on is never left: the pass that notices it removes the
  state annotation but keeps the phase Updating, which from then on belongs to the upgrade; with no
  upgrade under way every later pass changes nothing and comes back.
\<close>

lemma mirroring_timeout_sticks:
  assumes "fl_checkMirroringProgress fs = checkMirroringProgress srv_reconciler (srv_services b loc)"
    and "fl_continueUpgrade fs = continueUpgrade srv_reconciler (srv_services b loc)"
    and "enabling st c w" "mirroring_expired st w" "annotation c AnnotationUpgrade = []"
  shows "\<exists>c' w'. stored c' w' \<and> same_key c' c \<and> St_Phase (CC_Status c') = ClusterPhaseUpdating \<and>
    annotation c' AnnotationMirroringState = [] \<and> annotation c' AnnotationUpgrade = [] \<and>
    (\<forall>k. reconciles fs c (Suc k) w = w')"
proof -
  have stored: "stored c w" using assms(3) by (simp add: enabling_def updating_def)
  obtain c' w' where r: "handleMirroringTimeout srv_reconciler c w = (Inr (requeueDefault srv_reconciler), w')" "stored c' w'"
    "same_key c' c" "CC_DeletionTimestamp c' = CC_DeletionTimestamp c" "St_Phase (CC_Status c') = St_Phase (CC_Status c)"
    "CC_Annotations c' = (CC_Annotations c)(AnnotationMirroringState := None)"
    using timeout_run [OF stored] by blast
  have u: "St_Phase (CC_Status c') = ClusterPhaseUpdating" "annotation c' AnnotationMirroringState = []"
    "annotation c' AnnotationUpgrade = []" "CC_DeletionTimestamp c' = None" "CC_Annotations c' AnnotationAction = None"
    using r(4-6) assms(3,5) by (simp_all add: enabling_def updating_def annotation_def)
  have pass: "Reconcile srv_reconciler fs (CC_Namespace c) (CC_Name c) w = (Inr (requeueDefault srv_reconciler), w')"
    using mirroring_pass [OF assms(3,1)] assms(4) r(1) by simp
  have gate: "first_gate c' = Route_ContinueUpgrade" using u by (simp add: gate_defs)
  have "k_get_cluster (r_client srv_reconciler) (CC_Namespace c') (CC_Name c') w' = (Inr c', w')"
    using srv_get [OF r(2), of c'] by simp
  then have idle: "Reconcile srv_reconciler fs (CC_Namespace c') (CC_Name c') w' = (Inr (requeueDefault srv_reconciler), w')"
    using gate assms(2) u(3) by (simp add: Reconcile_by_gate continueUpgrade_def)
  have "reconciles fs c' k w' = w'" for k by (induction k) (simp_all add: idle)
  then have "reconciles fs c (Suc k) w = w'" for k using pass_Suc [OF pass r(3)] by simp
  then show ?thesis using r(2,3) u by blast
qed

section \<open>Upgrade\<close>

definition upgradeState_ok :: "upgradeStateData \<Rightarrow> bool" where
  "upgradeState_ok s \<longleftrightarrow> valid_utf8 (US_PreviousImage s) \<and> valid_utf8 (US_PreviousVersion s) \<and> valid_utf8 (US_Phase s) \<and>
     valid_utf8 (US_StartedAt s) \<and> valid_utf8 (US_PhaseStartedAt s)"

lemma upgrade_names_ascii: "valid_utf8 ''previousImage''" "valid_utf8 ''previousVersion''" "valid_utf8 upgradePhasePrimaries"
  "valid_utf8 upgradePhaseStandby" "valid_utf8 upgradePhaseCoordinator" "valid_utf8 upgradePhaseVerify" "valid_utf8 upgradePhaseMirrors"
  by (rule ascii_valid_utf8, simp)+

lemma upgradeState_read:
  assumes "upgradeState_ok s"
  shows "unmarshal_upgradeState (marshal_upgradeState s) = Some s"
proof -
  have "list_all field_ok (upgradeState_fields s)"
    using assms by (simp add: upgradeState_ok_def upgradeState_fields_def field_ok_def field_defs state_names_ascii upgrade_names_ascii)
  moreover have "zero_fields (upgradeState_fields s) = upgradeState_fields upgradeState_zero"
    by (simp add: zero_fields_def upgradeState_fields_def field_defs zero_val_def upgradeState_zero_def)
  moreover have "distinct (map Fld_Name (upgradeState_fields s))" by (simp add: upgradeState_fields_def field_defs)
  ultimately have "Unmarshal (marshal_upgradeState s) (upgradeState_fields upgradeState_zero) = Some (upgradeState_fields s)"
    using Unmarshal_Marshal [of "upgradeState_fields s"] by (simp add: marshal_upgradeState_def)
  then show ?thesis
    by (simp add: unmarshal_upgradeState_def upgradeState_of_def upgradeState_fields_def field_defs)
qed

definition upgrading :: "upgradeStateData \<Rightarrow> CloudberryCluster \<Rightarrow> store \<Rightarrow> bool" where
  "upgrading st c w \<longleftrightarrow> updating c w \<and> annotation c AnnotationMirroringState = [] \<and>
     CC_Annotations c AnnotationUpgrade = Some (marshal_upgradeState st) \<and> upgradeState_ok st"

definition phase_expired :: "upgradeStateData \<Rightarrow> store \<Rightarrow> bool" where
  "phase_expired st w \<longleftrightarrow> US_PhaseStartedAt st \<noteq> [] \<and> timed_out srv_reconciler (US_PhaseStartedAt st) upgradePhaseTimeout w"

lemma upgrade_pass:
  assumes "upgrading st c w" "fl_continueUpgrade fs = continueUpgrade srv_reconciler sv"
  shows "Reconcile srv_reconciler fs (CC_Namespace c) (CC_Name c) w = continueUpgrade srv_reconciler sv c w"
proof -
  have "k_get_cluster (r_client srv_reconciler) (CC_Namespace c) (CC_Name c) w = (Inr c, w)"
    using assms(1) srv_get [of c w c] by (simp add: upgrading_def updating_def)
  moreover have "first_gate c = Route_ContinueUpgrade"
    using assms(1) by (simp add: upgrading_def updating_def gate_defs)
  ultimately show ?thesis using assms(2) by (simp add: Reconcile_by_gate)
qed

lemma upgrade_state_facts:
  assumes "upgrading st c w"
  shows "annotation c AnnotationUpgrade = marshal_upgradeState st" "marshal_upgradeState st \<noteq> []"
    "unmarshal_upgradeState (marshal_upgradeState st) = Some st" "stored c w"
proof -
  show "unmarshal_upgradeState (marshal_upgradeState st) = Some st" "stored c w" "annotation c AnnotationUpgrade = marshal_upgradeState st"
    using assms by (simp_all add: upgrading_def updating_def upgradeState_read annotation_def)
  show "marshal_upgradeState st \<noteq> []" by (simp add: marshal_upgradeState_def Marshal_def)
qed

subsection \<open>Setting the image\<close>

definition has_image :: "string \<Rightarrow> StatefulSetFull \<Rightarrow> bool" where
  "has_image img s \<longleftrightarrow> list_all (\<lambda>c. Ctr_Image c = img) (Tpl_Containers (Sts_Template s))"

definition imaged :: "string \<Rightarrow> StatefulSetFull \<Rightarrow> StatefulSetFull" where
  "imaged img s = (if has_image img s then s else (with_image img s)\<lparr>Sts_Generation := Sts_Generation s + 1\<rparr>)"

definition image_set :: "string \<Rightarrow> string \<Rightarrow> string \<Rightarrow> store \<Rightarrow> store" where
  "image_set img ns n w =
     (case srv_get_sts ns n w of None \<Rightarrow> w
      | Some s \<Rightarrow> if has_image img s then w
          else logged (Op_Apply n (Sts_Replicas s)) (w\<lparr>srv_sts := put2 ns n (Some (imaged img s)) (srv_sts w)\<rparr>))"

text \<open>The part of a store an upgrade changes beside the cluster.\<close>

definition image_view :: "store \<Rightarrow> (string \<Rightarrow> string \<Rightarrow> StatefulSetFull option) \<times> operation list" where
  "image_view w = (srv_sts w, data_log w)"

lemma imaged_simps [simp]: "has_image img (imaged img s)" "Sts_Replicas (imaged img s) = Sts_Replicas s"
  "Sts_ReadyReplicas (imaged img s) = Sts_ReadyReplicas s" "Sts_UpdatedReplicas (imaged img s) = Sts_UpdatedReplicas s"
  "Sts_Namespace (imaged img s) = Sts_Namespace s" "Sts_Name (imaged img s) = Sts_Name s"
  by (simp_all add: imaged_def has_image_def with_image_def list_all_iff)

lemma update_image_srv: "updateStatefulSetImage (srv_services b loc) ns n img w = (None, image_set img ns n w)"
proof (cases "srv_get_sts ns n w")
  case None
  then show ?thesis by (simp add: updateStatefulSetImage_def image_set_def)
next
  case (Some s)
  then have "Sts_Namespace s = ns" "Sts_Name s = n" using srv_get_sts_key by auto
  then show ?thesis using Some
    by (simp add: updateStatefulSetImage_def image_set_def has_image_def [symmetric])
      (simp add: srv_services_def change_sts_def with_image_def imaged_def)
qed

lemma image_set_get:
  "srv_get_sts ns m (image_set img ns n w) = (if m = n then map_option (imaged img) (srv_get_sts ns n w) else srv_get_sts ns m w)"
proof (cases "srv_get_sts ns n w")
  case None
  then show ?thesis by (simp add: image_set_def)
next
  case (Some s)
  then have key: "Sts_Namespace s = ns" "Sts_Name s = n" using srv_get_sts_key by auto
  then have "(imaged img s)\<lparr>Sts_Namespace := ns, Sts_Name := n\<rparr> = imaged img s"
    by (simp add: imaged_def with_image_def)
  then have "srv_get_sts ns m (w\<lparr>srv_sts := put2 ns n (Some (imaged img s)) (srv_sts w)\<rparr>) =
      (if m = n then Some (imaged img s) else srv_get_sts ns m w)"
    by (subst srv_get_sts_put [where w = w and ns = ns and m = n and s = "imaged img s"]) simp_all
  moreover have "has_image img s \<Longrightarrow> imaged img s = s" by (simp add: imaged_def)
  ultimately show ?thesis using Some by (cases "m = n") (simp_all add: image_set_def)
qed

lemma image_set_frame [simp]: "srv_cluster (image_set img ns n w) = srv_cluster w" "srv_now (image_set img ns n w) = srv_now w"
  by (simp_all add: image_set_def split: option.split)

lemma image_set_log:
  "data_log (image_set img ns n w) = data_log w @
     (case srv_get_sts ns n w of None \<Rightarrow> [] | Some s \<Rightarrow> if has_image img s then [] else [Op_Apply n (Sts_Replicas s)])"
  by (simp add: image_set_def split: option.split) (simp add: data_log_def)

lemma image_set_view: "image_view w' = image_view w \<Longrightarrow> image_view (image_set img ns n w') = image_view (image_set img ns n w)"
proof -
  assume v: "image_view w' = image_view w"
  then have "srv_get_sts ns n w' = srv_get_sts ns n w" by (simp add: image_view_def srv_get_sts_def)
  then have "srv_sts (image_set img ns n w') = srv_sts (image_set img ns n w)"
    using v by (simp add: image_view_def image_set_def split: option.split)
  then show ?thesis using v \<open>srv_get_sts ns n w' = srv_get_sts ns n w\<close> by (simp add: image_view_def image_set_log)
qed

lemma image_all_get:
  "distinct names \<Longrightarrow> srv_get_sts ns m (fold (image_set img ns) names w) =
     (if m \<in> set names then map_option (imaged img) (srv_get_sts ns m w) else srv_get_sts ns m w)"
  by (induction names arbitrary: w) (auto simp: image_set_get)

lemma image_all_frame [simp]: "srv_cluster (fold (image_set img ns) names w) = srv_cluster w"
  "srv_now (fold (image_set img ns) names w) = srv_now w"
  by (induction names arbitrary: w) simp_all

text \<open>The StatefulSets among the names that are there without the image, and the writes that give it to them.\<close>

definition image_writes :: "string \<Rightarrow> string \<Rightarrow> store \<Rightarrow> string list \<Rightarrow> operation list" where
  "image_writes img ns w names =
     concat (map (\<lambda>n. case srv_get_sts ns n w of None \<Rightarrow> [] | Some s \<Rightarrow> if has_image img s then [] else [Op_Apply n (Sts_Replicas s)]) names)"

lemma image_all_log:
  "distinct names \<Longrightarrow> data_log (fold (image_set img ns) names w) = data_log w @ image_writes img ns w names"
proof (induction names arbitrary: w)
  case (Cons n names)
  have "image_writes img ns (image_set img ns n w) names = image_writes img ns w names"
    using Cons.prems by (auto simp: image_writes_def image_set_get intro!: arg_cong [of _ _ concat] map_cong)
  then show ?case using Cons by (simp add: image_set_log image_writes_def [of _ _ w "n # names"]) (simp add: image_writes_def)
qed (simp add: image_writes_def)

subsection \<open>Phases\<close>

definition clock_readable :: "Location \<Rightarrow> int \<Rightarrow> bool" where
  "clock_readable loc t \<longleftrightarrow> 60 dvd loc (t div Second) \<and> \<bar>loc (t div Second)\<bar> < 86400 \<and>
     -62167219200 \<le> t div Second + loc (t div Second) \<and> t div Second + loc (t div Second) < 253402300800"

lemma just_started:
  assumes "clock_readable loc (srv_now w)" "0 < timeout" "Second \<le> timeout"
  shows "\<not> timed_out srv_reconciler (Format_RFC3339 loc (srv_now w)) timeout w"
proof -
  have "Parse_RFC3339 (Format_RFC3339 loc (srv_now w)) = Some (Truncate (srv_now w) Second)"
    using assms(1) Parse_Format_RFC3339 [of loc "srv_now w"] by (simp add: clock_readable_def)
  then have "timed_out srv_reconciler (Format_RFC3339 loc (srv_now w)) timeout w = (timeout < Sub (srv_now w) (Truncate (srv_now w) Second))"
    by (simp add: timed_out_def)
  moreover obtain r where "srv_now w mod Second = r" "0 \<le> r" "r < Second" by simp
  ultimately show ?thesis using assms(2,3) by (simp add: Sub_def Truncate_def Let_def)
qed

definition sts_up :: "store \<Rightarrow> string \<Rightarrow> string \<Rightarrow> bool" where
  "sts_up w ns n \<longleftrightarrow> fst (isStatefulSetReady srv_reconciler ns n w)"

lemma sts_up: "isStatefulSetReady srv_reconciler ns n w = (sts_up w ns n, w)"
  by (simp add: sts_up_def ready_srv)

lemma sts_up_image [simp]: "sts_up (image_set img ns n w) ns m = sts_up w ns m"
  by (simp add: sts_up_def ready_srv image_set_get split: option.split)

lemma sts_up_view: "image_view w' = image_view w \<Longrightarrow> sts_up w' ns n = sts_up w ns n"
  by (simp add: sts_up_def ready_srv image_view_def srv_get_sts_def)

text \<open>The store after one phase: the image is set if the component is enabled.\<close>

definition rolled :: "bool \<Rightarrow> string \<Rightarrow> string \<Rightarrow> string \<Rightarrow> store \<Rightarrow> store" where
  "rolled enabled img ns n w = (if enabled then image_set img ns n w else w)"

definition upgrade_kept :: "CloudberryCluster \<Rightarrow> CloudberryCluster \<Rightarrow> bool" where
  "upgrade_kept c' c \<longleftrightarrow> same_key c' c \<and> CC_Spec c' = CC_Spec c \<and>
     (\<forall>k. k \<noteq> AnnotationUpgrade \<longrightarrow> CC_Annotations c' k = CC_Annotations c k)"

lemma upgrade_kept_trans: "upgrade_kept c2 c1 \<Longrightarrow> upgrade_kept c1 c \<Longrightarrow> upgrade_kept c2 c"
  by (simp add: upgrade_kept_def same_key_def)

lemma upgrade_kept_eqs: "upgrade_kept c' c \<Longrightarrow> CC_Namespace c' = CC_Namespace c \<and> CC_Name c' = CC_Name c \<and> CC_Spec c' = CC_Spec c \<and>
    mirroring_on c' = mirroring_on c \<and> standby_on c' = standby_on c"
  by (simp add: upgrade_kept_def same_key_def mirroring_on_def standby_on_def)

lemma upgrade_step:
  assumes "upgrading st c w" "clock_readable loc (srv_now w)" "enabled \<longrightarrow> sts_up w (CC_Namespace c) n" "valid_utf8 p"
  shows "\<exists>c' w' t. upgradePhase srv_reconciler (srv_services b loc) c st img n enabled p w = (Inr requeueAfterImmediate, w') \<and>
    upgrading (st\<lparr>US_Phase := p, US_PhaseStartedAt := t\<rparr>) c' w' \<and>
    \<not> phase_expired (st\<lparr>US_Phase := p, US_PhaseStartedAt := t\<rparr>) w' \<and> upgrade_kept c' c \<and>
    image_view w' = image_view (rolled enabled img (CC_Namespace c) n w) \<and> srv_now w' = srv_now w"
proof -
  let ?sv = "srv_services b loc"
  define w1 where "w1 = rolled enabled img (CC_Namespace c) n w"
  have w1: "srv_cluster w1 = srv_cluster w" "srv_now w1 = srv_now w" by (simp_all add: w1_def rolled_def)
  have run1: "upgradePhase srv_reconciler ?sv c st img n enabled p w = advanceUpgradePhase srv_reconciler ?sv c st p w1"
    using assms(3) by (simp add: upgradePhase_def update_image_srv sts_up w1_def rolled_def)
  have s1: "stored c w1" using upgrade_state_facts(4) [OF assms(1)] stored_cong [OF w1(1)] by simp
  define st' where "st' = st\<lparr>US_Phase := p, US_PhaseStartedAt := now_text srv_reconciler ?sv w1\<rparr>"
  define c' where "c' = annotated AnnotationUpgrade (Some (marshal_upgradeState st')) c"
  define w' where "w' = logged (Op_Annotation AnnotationUpgrade (Some (marshal_upgradeState st'))) (set_cluster c' w1)"
  have run2: "advanceUpgradePhase srv_reconciler ?sv c st p w1 = (Inr requeueAfterImmediate, w')"
    using exec_annotation [OF s1, of c AnnotationUpgrade "Some (marshal_upgradeState st')"]
    by (simp add: advanceUpgradePhase_def setAnnotationPatch_def st'_def [symmetric] w'_def c'_def)
  have "upgradeState_ok st'"
    using assms(1,4) by (simp add: st'_def upgrading_def upgradeState_ok_def now_text_utf8)
  then have up: "upgrading st' c' w'"
    using assms(1) by (simp add: upgrading_def updating_def c'_def w'_def annotation_def)
  have "\<not> phase_expired st' w'"
    using just_started [of loc w' upgradePhaseTimeout] assms(2) w1(2)
    by (simp add: phase_expired_def st'_def w'_def now_text_def)
  moreover have "image_view w' = image_view w1" by (simp add: image_view_def w'_def)
  moreover have "upgrade_kept c' c" by (simp add: upgrade_kept_def c'_def)
  ultimately show ?thesis using up run1 run2 w1(2) unfolding st'_def
    by (intro exI [of _ c'] exI [of _ w'] exI [of _ "now_text srv_reconciler ?sv w1"]) (simp add: w1_def w'_def)
qed

lemma complete_upgrade_run:
  assumes "stored c w"
  shows "\<exists>c' w'. completeUpgrade srv_reconciler c st w = (Inr (requeueDefault srv_reconciler), w') \<and> stored c' w' \<and> same_key c' c \<and>
    St_Phase (CC_Status c') = ClusterPhaseRunning \<and> St_ClusterVersion (CC_Status c') = Spec_Version (CC_Spec c) \<and>
    CC_Annotations c' = (CC_Annotations c)(AnnotationUpgrade := None) \<and> image_view w' = image_view w"
proof -
  define d where "d = with_condition (srv_now w) ConditionUpgradeCompleted ConditionTrue ''UpgradeSucceeded''
    (''Upgraded from '' @ US_PreviousVersion st @ '' to '' @ Spec_Version (CC_Spec c))
    (with_version (Spec_Version (CC_Spec c)) (with_phase ClusterPhaseRunning c))"
  have d: "same_key d c" "St_Phase (CC_Status d) = ClusterPhaseRunning" "St_ClusterVersion (CC_Status d) = Spec_Version (CC_Spec c)"
    by (simp_all add: d_def with_version_def)
  from finish_run [OF assms d(1), where ctx = "''updating status after upgrade''" and key = AnnotationUpgrade
      and res = "requeueDefault srv_reconciler" and t = "\<lambda>_. EventReasonUpgradeCompleted"
      and m = "\<lambda>c. ''Upgrade from '' @ US_PreviousVersion st @ '' to '' @ Spec_Version (CC_Spec c) @ '' completed''"]
  obtain c' w' where "completeUpgrade srv_reconciler c st w = (Inr (requeueDefault srv_reconciler), w')" "stored c' w'"
    "c' = annotated AnnotationUpgrade None (c\<lparr>CC_Status := CC_Status d\<rparr>)" "same_servers w' w" "data_log w' = data_log w"
    by (auto simp only: completeUpgrade_def Let_def srv_reconciler_simps srv_event_now d_def [symmetric])
  then show ?thesis using d
    by (intro exI [of _ c'] exI [of _ w']) (simp add: image_view_def same_servers_def)
qed

lemma upgrade_phases:
  assumes "upgrading st c w" "\<not> phase_expired st w"
  defines "img \<equiv> Spec_Image (CC_Spec c)"
  shows "US_Phase st = upgradePhaseMirrors \<Longrightarrow> continueUpgrade srv_reconciler sv c w =
      upgradePhase srv_reconciler sv c st img (SegmentMirrorName (CC_Name c)) (mirroring_on c) upgradePhasePrimaries w"
    and "US_Phase st = upgradePhasePrimaries \<Longrightarrow> continueUpgrade srv_reconciler sv c w =
      upgradePhase srv_reconciler sv c st img (SegmentPrimaryName (CC_Name c)) True upgradePhaseStandby w"
    and "US_Phase st = upgradePhaseStandby \<Longrightarrow> continueUpgrade srv_reconciler sv c w =
      upgradePhase srv_reconciler sv c st img (StandbyName (CC_Name c)) (standby_on c) upgradePhaseCoordinator w"
    and "US_Phase st = upgradePhaseCoordinator \<Longrightarrow> continueUpgrade srv_reconciler sv c w =
      upgradePhase srv_reconciler sv c st img (CoordinatorName (CC_Name c)) True upgradePhaseVerify w"
    and "US_Phase st = upgradePhaseVerify \<Longrightarrow> continueUpgrade srv_reconciler sv c w = verifyUpgrade srv_reconciler c st w"
  using upgrade_state_facts [OF assms(1)] assms(2)
  by (auto simp: continueUpgrade_def phase_expired_def opTimeout_def standby_on_def img_def Let_def)

text \<open>
  Where an upgrade of \<open>c0\<close> that started in \<open>w0\<close> stands: in a phase that has not timed out, with the
  StatefulSets and the log of \<open>v\<close>.
\<close>

definition at_phase :: "string \<Rightarrow> CloudberryCluster \<Rightarrow> store \<Rightarrow> store \<Rightarrow> CloudberryCluster \<Rightarrow> store \<Rightarrow> bool" where
  "at_phase p c0 w0 v c w \<longleftrightarrow> (\<exists>st. upgrading st c w \<and> US_Phase st = p \<and> \<not> phase_expired st w) \<and> upgrade_kept c c0 \<and>
     image_view w = image_view v \<and> srv_now w = srv_now w0"

definition phase_table :: "CloudberryCluster \<Rightarrow> (string \<times> string \<times> bool \<times> string) set" where
  "phase_table c = {(upgradePhaseMirrors, SegmentMirrorName (CC_Name c), mirroring_on c, upgradePhasePrimaries),
     (upgradePhasePrimaries, SegmentPrimaryName (CC_Name c), True, upgradePhaseStandby),
     (upgradePhaseStandby, StandbyName (CC_Name c), standby_on c, upgradePhaseCoordinator),
     (upgradePhaseCoordinator, CoordinatorName (CC_Name c), True, upgradePhaseVerify)}"

lemma rolled_view: "image_view x = image_view y \<Longrightarrow> image_view (rolled e img ns n x) = image_view (rolled e img ns n y)"
  using image_set_view [of x y img ns n] by (cases e) (simp_all add: rolled_def)

lemma sts_up_rolled [simp]: "sts_up (rolled e img ns n w) ns m = sts_up w ns m"
  by (simp add: rolled_def)

lemma phase_step:
  assumes "fl_continueUpgrade fs = continueUpgrade srv_reconciler (srv_services b loc)" "at_phase p c0 w0 v c w"
    and "clock_readable loc (srv_now w0)" "(p, n, e, q) \<in> phase_table c0" "e \<longrightarrow> sts_up v (CC_Namespace c0) n"
  shows "\<exists>c' w'. Reconcile srv_reconciler fs (CC_Namespace c0) (CC_Name c0) w = (Inr requeueAfterImmediate, w') \<and>
    at_phase q c0 w0 (rolled e (Spec_Image (CC_Spec c0)) (CC_Namespace c0) n v) c' w'"
proof -
  obtain st where st: "upgrading st c w" "US_Phase st = p" "\<not> phase_expired st w" and k: "upgrade_kept c c0"
    and v: "image_view w = image_view v" "srv_now w = srv_now w0"
    using assms(2) by (auto simp: at_phase_def)
  note eqs = upgrade_kept_eqs [OF k]
  have cont: "continueUpgrade srv_reconciler (srv_services b loc) c w =
      upgradePhase srv_reconciler (srv_services b loc) c st (Spec_Image (CC_Spec c0)) n e q w"
    using assms(4) upgrade_phases [OF st(1,3), of "srv_services b loc"] st(2) eqs by (auto simp: phase_table_def)
  have "valid_utf8 q" using assms(4) upgrade_names_ascii by (auto simp: phase_table_def)
  moreover have "e \<longrightarrow> sts_up w (CC_Namespace c) n" using assms(5) sts_up_view [OF v(1)] eqs by simp
  ultimately obtain c' w' t where s: "upgradePhase srv_reconciler (srv_services b loc) c st (Spec_Image (CC_Spec c0)) n e q w =
      (Inr requeueAfterImmediate, w')" "upgrading (st\<lparr>US_Phase := q, US_PhaseStartedAt := t\<rparr>) c' w'"
    "\<not> phase_expired (st\<lparr>US_Phase := q, US_PhaseStartedAt := t\<rparr>) w'" "upgrade_kept c' c"
    "image_view w' = image_view (rolled e (Spec_Image (CC_Spec c0)) (CC_Namespace c) n w)" "srv_now w' = srv_now w"
    using upgrade_step [OF st(1), of loc e n q b "Spec_Image (CC_Spec c0)"] assms(3) v(2) by auto
  have "Reconcile srv_reconciler fs (CC_Namespace c0) (CC_Name c0) w = (Inr requeueAfterImmediate, w')"
    using upgrade_pass [OF st(1) assms(1)] cont s(1) eqs by simp
  moreover have "at_phase q c0 w0 (rolled e (Spec_Image (CC_Spec c0)) (CC_Namespace c0) n v) c' w'"
    unfolding at_phase_def using s(2,3,5,6) v upgrade_kept_trans [OF s(4) k] rolled_view [OF v(1)] eqs
    by (intro conjI exI [of _ "st\<lparr>US_Phase := q, US_PhaseStartedAt := t\<rparr>"]) simp_all
  ultimately show ?thesis by blast
qed

text \<open>
  C27. An upgrade runs to its end in order: while every StatefulSet of the cluster reports its
  replicas ready and updated, five reconciliations set the new image on the mirrors, the primaries,
  the standby and the coordinator, each once and in this order, and leave the cluster Running at the
  new version with the state of the upgrade removed.
\<close>

theorem upgrade_completes:
  assumes "fl_continueUpgrade fs = continueUpgrade srv_reconciler (srv_services b loc)"
    and "upgrading st c w" "\<not> phase_expired st w" "US_Phase st = upgradePhaseMirrors" "clock_readable loc (srv_now w)"
    and "list_all (sts_up w (CC_Namespace c)) (getScaleDownOrder c)" "distinct (getScaleDownOrder c)"
  shows "\<exists>c'. stored c' (reconciles fs c 5 w) \<and> same_key c' c \<and> St_Phase (CC_Status c') = ClusterPhaseRunning \<and>
    St_ClusterVersion (CC_Status c') = Spec_Version (CC_Spec c) \<and>
    CC_Annotations c' = (CC_Annotations c)(AnnotationUpgrade := None) \<and>
    (\<forall>n \<in> set (getScaleDownOrder c). srv_get_sts (CC_Namespace c) n (reconciles fs c 5 w) =
       map_option (imaged (Spec_Image (CC_Spec c))) (srv_get_sts (CC_Namespace c) n w)) \<and>
    data_log (reconciles fs c 5 w) =
      data_log w @ image_writes (Spec_Image (CC_Spec c)) (CC_Namespace c) w (getScaleDownOrder c)"
proof -
  let ?sv = "srv_services b loc" and ?img = "Spec_Image (CC_Spec c)" and ?ns = "CC_Namespace c"
  let ?M = "SegmentMirrorName (CC_Name c)" and ?P = "SegmentPrimaryName (CC_Name c)"
  let ?S = "StandbyName (CC_Name c)" and ?C = "CoordinatorName (CC_Name c)"
  have up: "mirroring_on c \<longrightarrow> sts_up w ?ns ?M" "sts_up w ?ns ?P" "standby_on c \<longrightarrow> sts_up w ?ns ?S" "sts_up w ?ns ?C"
    using assms(6) by (auto simp: getScaleDownOrder_def mirroring_on_def standby_on_def split: option.splits if_splits)
  define v1 where "v1 = rolled (mirroring_on c) ?img ?ns ?M w"
  define v2 where "v2 = rolled True ?img ?ns ?P v1"
  define v3 where "v3 = rolled (standby_on c) ?img ?ns ?S v2"
  define v4 where "v4 = rolled True ?img ?ns ?C v3"
  have u: "sts_up v1 ?ns m = sts_up w ?ns m" "sts_up v2 ?ns m = sts_up w ?ns m" "sts_up v3 ?ns m = sts_up w ?ns m"
    "sts_up v4 ?ns m = sts_up w ?ns m" for m
    by (simp_all add: v1_def v2_def v3_def v4_def)
  note step = phase_step [OF assms(1) _ assms(5)]
  have "at_phase upgradePhaseMirrors c w w c w"
    using assms(2-4) by (auto simp: at_phase_def upgrade_kept_def)
  from step [OF this, of ?M "mirroring_on c"] up(1) obtain c1 w1 where
    1: "Reconcile srv_reconciler fs ?ns (CC_Name c) w = (Inr requeueAfterImmediate, w1)" "at_phase upgradePhasePrimaries c w v1 c1 w1"
    by (auto simp: phase_table_def v1_def)
  from step [OF 1(2), of ?P True] up(2) u obtain c2 w2 where
    2: "Reconcile srv_reconciler fs ?ns (CC_Name c) w1 = (Inr requeueAfterImmediate, w2)" "at_phase upgradePhaseStandby c w v2 c2 w2"
    by (auto simp: phase_table_def v2_def)
  from step [OF 2(2), of ?S "standby_on c"] up(3) u obtain c3 w3 where
    3: "Reconcile srv_reconciler fs ?ns (CC_Name c) w2 = (Inr requeueAfterImmediate, w3)" "at_phase upgradePhaseCoordinator c w v3 c3 w3"
    by (auto simp: phase_table_def v3_def)
  from step [OF 3(2), of ?C True] up(4) u obtain c4 w4 where
    4: "Reconcile srv_reconciler fs ?ns (CC_Name c) w3 = (Inr requeueAfterImmediate, w4)" "at_phase upgradePhaseVerify c w v4 c4 w4"
    by (auto simp: phase_table_def v4_def)
  obtain st4 where st4: "upgrading st4 c4 w4" "US_Phase st4 = upgradePhaseVerify" "\<not> phase_expired st4 w4"
    and k4: "upgrade_kept c4 c" and view4: "image_view w4 = image_view v4"
    using 4(2) by (auto simp: at_phase_def)
  note e4 = upgrade_kept_eqs [OF k4]
  have ready: "sts_up w4 ?ns ?C" "sts_up w4 ?ns ?P" using up u(4) sts_up_view [OF view4] by simp_all
  obtain c5 w5 where 5: "completeUpgrade srv_reconciler c4 st4 w4 = (Inr (requeueDefault srv_reconciler), w5)" "stored c5 w5"
    "same_key c5 c4" "St_Phase (CC_Status c5) = ClusterPhaseRunning" "St_ClusterVersion (CC_Status c5) = Spec_Version (CC_Spec c4)"
    "CC_Annotations c5 = (CC_Annotations c4)(AnnotationUpgrade := None)" "image_view w5 = image_view w4"
    using complete_upgrade_run [OF upgrade_state_facts(4) [OF st4(1)]] by blast
  have "Reconcile srv_reconciler fs ?ns (CC_Name c) w4 = (Inr (requeueDefault srv_reconciler), w5)"
    using upgrade_pass [OF st4(1) assms(1)] upgrade_phases(5) [OF st4(1,3,2), of ?sv] ready 5(1) e4
    by (simp add: verifyUpgrade_def sts_up)
  then have run: "reconciles fs c 5 w = w5" using 1(1) 2(1) 3(1) 4(1) by (simp add: eval_nat_numeral)
  have "v4 = fold (image_set ?img ?ns) (getScaleDownOrder c) w"
    by (auto simp: v4_def v3_def v2_def v1_def rolled_def getScaleDownOrder_def mirroring_on_def standby_on_def split: option.split)
  then have view: "image_view w5 = image_view (fold (image_set ?img ?ns) (getScaleDownOrder c) w)" using 5(7) view4 by simp
  then have "srv_get_sts ?ns n w5 = srv_get_sts ?ns n (fold (image_set ?img ?ns) (getScaleDownOrder c) w)" for n
    by (simp add: image_view_def srv_get_sts_def)
  then have "\<forall>n \<in> set (getScaleDownOrder c). srv_get_sts ?ns n w5 = map_option (imaged ?img) (srv_get_sts ?ns n w)"
    using image_all_get [OF assms(7)] by simp
  moreover have "data_log w5 = data_log w @ image_writes ?img ?ns w (getScaleDownOrder c)"
    using view image_all_log [OF assms(7)] by (simp add: image_view_def)
  moreover have "CC_Annotations c5 = (CC_Annotations c)(AnnotationUpgrade := None)"
    using 5(6) k4 by (auto simp: fun_eq_iff upgrade_kept_def)
  moreover have "same_key c5 c" using 5(3) e4 by (simp add: same_key_def)
  ultimately show ?thesis unfolding run using 5(2,4,5) e4 by auto
qed

lemma SetCondition_present: "list_ex (\<lambda>c. Cond_Type c = t \<and> Cond_Status c = s) (SetCondition now cs t s r m)"
  by (induction cs) auto

lemma revert_all: "fold (\<lambda>n w. snd (revertStatefulSetImage (srv_services b loc) ns n img w)) names w = fold (image_set img ns) names w"
  by (simp add: revertStatefulSetImage_def update_image_srv)

text \<open>
  C28. A phase that takes too long rolls the upgrade back: one reconciliation gives every StatefulSet of
  the cluster the image recorded at the start, in the order of the upgrade, and leaves the cluster
  Running at the old version, marked as rolled back, so that no new attempt starts by itself.
\<close>

theorem upgrade_rolls_back:
  assumes "fl_continueUpgrade fs = continueUpgrade srv_reconciler (srv_services b loc)"
    and "upgrading st c w" "phase_expired st w" "distinct (getScaleDownOrder c)"
  shows "\<exists>c' w'. Reconcile srv_reconciler fs (CC_Namespace c) (CC_Name c) w = (Inr (requeueDefault srv_reconciler), w') \<and>
    stored c' w' \<and> same_key c' c \<and> St_Phase (CC_Status c') = ClusterPhaseRunning \<and>
    St_ClusterVersion (CC_Status c') = US_PreviousVersion st \<and> isUpgradeRolledBack c' \<and> \<not> isUpgradeNeeded c' \<and>
    (\<forall>n \<in> set (getScaleDownOrder c). srv_get_sts (CC_Namespace c) n w' =
       map_option (imaged (US_PreviousImage st)) (srv_get_sts (CC_Namespace c) n w)) \<and>
    data_log w' = data_log w @ image_writes (US_PreviousImage st) (CC_Namespace c) w (getScaleDownOrder c)"
proof -
  let ?sv = "srv_services b loc" and ?img = "US_PreviousImage st" and ?ns = "CC_Namespace c" and ?names = "getScaleDownOrder c"
  define reason where "reason = ''phase '' @ quoted (US_Phase st) @ '' timed out after '' @ Duration_String (opTimeout srv_reconciler upgradePhaseTimeout)"
  have pass: "Reconcile srv_reconciler fs ?ns (CC_Name c) w = rollbackUpgrade srv_reconciler ?sv c st reason w"
    using upgrade_pass [OF assms(2,1)] upgrade_state_facts [OF assms(2)] assms(3)
    by (simp add: continueUpgrade_def phase_expired_def reason_def opTimeout_def)
  define w1 where "w1 = fold (image_set ?img ?ns) ?names w"
  have s1: "stored c w1" using upgrade_state_facts(4) [OF assms(2)] stored_cong [of w1 w c] by (simp add: w1_def)
  define d where "d = with_condition (srv_now w1) ConditionUpgradeFailed ConditionTrue ''RolledBack'' reason
    (with_version (US_PreviousVersion st) (with_phase ClusterPhaseRunning c))"
  have d: "same_key d c" "St_Phase (CC_Status d) = ClusterPhaseRunning" "St_ClusterVersion (CC_Status d) = US_PreviousVersion st"
    by (simp_all add: d_def with_version_def)
  have failed: "list_ex (\<lambda>c. Cond_Type c = ConditionUpgradeFailed \<and> Cond_Status c = ConditionTrue) (St_Conditions (CC_Status d))"
    by (simp add: d_def with_condition_def SetCondition_present)
  from finish_run [OF s1 d(1), where ctx = "''updating status after rollback''" and key = AnnotationUpgrade
      and res = "requeueDefault srv_reconciler" and t = "\<lambda>_. EventReasonUpgradeRollback" and m = "\<lambda>_. ''Upgrade rolled back: '' @ reason"]
  obtain c' w' where r: "rollbackUpgrade srv_reconciler ?sv c st reason w = (Inr (requeueDefault srv_reconciler), w')" "stored c' w'"
    "c' = annotated AnnotationUpgrade None (c\<lparr>CC_Status := CC_Status d\<rparr>)" "same_servers w' w1" "data_log w' = data_log w1"
    by (auto simp only: rollbackUpgrade_def getAllStatefulSetNames_def revert_all Let_def srv_reconciler_simps srv_event_now
        w1_def [symmetric] d_def [symmetric])
  have "\<forall>n \<in> set ?names. srv_get_sts ?ns n w' = map_option (imaged ?img) (srv_get_sts ?ns n w)"
    using same_servers_sts [OF r(4)] image_all_get [OF assms(4)] by (simp add: w1_def)
  moreover have "data_log w' = data_log w @ image_writes ?img ?ns w ?names"
    using r(5) image_all_log [OF assms(4)] by (simp add: w1_def)
  moreover have "isUpgradeRolledBack c'" "\<not> isUpgradeNeeded c'"
    using failed by (simp_all add: r(3) isUpgradeRolledBack_def isUpgradeNeeded_def annotation_def)
  ultimately show ?thesis unfolding pass using r(1-3) d by (intro exI [of _ c'] exI [of _ w']) simp
qed

section \<open>Deletion\<close>

definition being_deleted :: "CloudberryCluster \<Rightarrow> store \<Rightarrow> bool" where
  "being_deleted c w \<longleftrightarrow> stored c w \<and> CC_DeletionTimestamp c \<noteq> None \<and> FinalizerName \<in> set (CC_Finalizers c)"

text \<open>The tracked backup Job has come to an end: it is gone, has succeeded, has failed, or is overdue.\<close>

definition backup_over :: "CloudberryCluster \<Rightarrow> store \<Rightarrow> bool" where
  "backup_over c w \<longleftrightarrow>
     (let job = annotation c AnnotationDeletionBackupJob
      in job \<noteq> [] \<and>
         (case srv_jobs w (CC_Namespace c) job of None \<Rightarrow> True
          | Some j \<Rightarrow> KJob_Succeeded j > 0 \<or> jobHasFailedCondition j \<or> deletionBackupDeadlineExceeded srv_reconciler c w))"

definition owned_claims :: "CloudberryCluster \<Rightarrow> store \<Rightarrow> string list" where
  "owned_claims c w = selected [(''avsoft.io/cluster'', CC_Name c)] (srv_claims w (CC_Namespace c))"

lemma delete_pvcs_srv:
  "\<exists>w'. delete_pvcs (srv_services b loc) ns names w = (None, w') \<and> srv_cluster w' = srv_cluster w \<and>
     claim_names w' ns = claim_names w ns - set names"
proof (induction names arbitrary: w)
  case (Cons n names)
  let ?w1 = "snd (srv_delete_claim ns n w)"
  have step: "delete_pvcs (srv_services b loc) ns (n # names) w = delete_pvcs (srv_services b loc) ns names ?w1"
    by (simp add: srv_delete_claim_def)
  have "srv_cluster ?w1 = srv_cluster w" "claim_names ?w1 ns = claim_names w ns - {n}"
    by (auto simp: srv_delete_claim_def claim_names_def)
  then show ?case using Cons.IH [of ?w1] unfolding step by auto
qed simp

lemma finish_deletion_run:
  assumes "stored c w"
  shows "\<exists>c' w'. finish_deletion srv_reconciler (srv_services b loc) c w = (Inr 0, w') \<and> stored c' w' \<and> same_key c' c \<and>
    FinalizerName \<notin> set (CC_Finalizers c') \<and>
    claim_names w' (CC_Namespace c) = claim_names w (CC_Namespace c) -
      (if Spec_DeletionPolicy (CC_Spec c) = DeletionPolicyDelete then set (owned_claims c w) else {})"
proof -
  obtain w1 where w1: "deletePVCs (srv_services b loc) c w = (None, w1)" "srv_cluster w1 = srv_cluster w"
    "claim_names w1 (CC_Namespace c) = claim_names w (CC_Namespace c) - set (owned_claims c w)"
    using delete_pvcs_srv [of b loc "CC_Namespace c" "owned_claims c w" w] by (auto simp: deletePVCs_def owned_claims_def)
  define v where "v = (if Spec_DeletionPolicy (CC_Spec c) = DeletionPolicyDelete then w1 else w)"
  have "stored c v" using assms stored_cong [OF w1(2)] by (simp add: v_def)
  define d where "d = c\<lparr>CC_Finalizers := filter (\<lambda>f. f \<noteq> FinalizerName) (CC_Finalizers c)\<rparr>"
  have d: "k_update_cluster srv_client (c\<lparr>CC_Finalizers := filter (\<lambda>f. f \<noteq> FinalizerName) (CC_Finalizers c)\<rparr>) v = (Inr d, set_cluster d v)"
    using \<open>stored c v\<close> by (simp add: srv_client_def change_cluster_def stored_def d_def set_cluster_def)
  have "finish_deletion srv_reconciler (srv_services b loc) c w = (Inr 0, set_cluster d v)"
  proof (cases "Spec_DeletionPolicy (CC_Spec c) = DeletionPolicyDelete")
    case True
    then have "v = w1" by (simp add: v_def)
    with d show ?thesis unfolding finish_deletion_def srv_reconciler_simps srv_event_now if_P [OF True] w1(1) by simp
  next
    case False
    then have "v = w" by (simp add: v_def)
    with d show ?thesis unfolding finish_deletion_def srv_reconciler_simps srv_event_now if_not_P [OF False] by simp
  qed
  moreover have "claim_names (set_cluster d v) (CC_Namespace c) = claim_names v (CC_Namespace c)" by (simp add: claim_names_def)
  ultimately show ?thesis using w1(3)
    by (intro exI [of _ d] exI [of _ "set_cluster d v"]) (simp add: d_def v_def same_key_def)
qed

lemma stored_phase:
  assumes "stored c w"
  shows "\<exists>c1 w1. handleDeletion srv_reconciler sv c w = (if FinalizerName \<notin> set (CC_Finalizers c) then (Inr 0, w)
      else if Spec_BackupOnDelete (CC_Spec c1) then
        (if Spec_DeletionPolicy (CC_Spec c1) = DeletionPolicyDelete then
           (case ensureDeletionBackupComplete srv_reconciler sv c1 w1 of
              (Inl e, w2) \<Rightarrow> (Inl e, w2)
            | (Inr (False, delay, _), w2) \<Rightarrow> (Inr delay, w2)
            | (Inr (True, _, c2), w2) \<Rightarrow> finish_deletion srv_reconciler sv c2 w2)
         else finish_deletion srv_reconciler sv c1 (triggerBestEffortDeletionBackup srv_reconciler sv c1 w1))
      else finish_deletion srv_reconciler sv c1 w1) \<and> stored c1 w1 \<and> same_key c1 c \<and> CC_Annotations c1 = CC_Annotations c \<and>
    CC_Spec c1 = CC_Spec c \<and> CC_Finalizers c1 = CC_Finalizers c \<and> srv_claims w1 = srv_claims w \<and> srv_jobs w1 = srv_jobs w \<and>
    srv_now w1 = srv_now w"
proof (cases "St_Phase (CC_Status c) = ClusterPhaseDeleting")
  case True
  then show ?thesis using assms by (intro exI [of _ c] exI [of _ w]) (simp add: handleDeletion_def)
next
  case False
  define c1 where "c1 = c\<lparr>CC_Status := CC_Status (with_phase ClusterPhaseDeleting c)\<rparr>"
  have "same_key (with_phase ClusterPhaseDeleting c) c" by simp
  from exec_update_status [OF assms this] show ?thesis using False
    by (intro exI [of _ c1] exI [of _ "set_cluster c1 w"]) (simp add: handleDeletion_def c1_def [symmetric], simp add: c1_def)
qed

lemma backup_gate_open:
  assumes "backup_over c w"
  shows "\<exists>d. ensureDeletionBackupComplete srv_reconciler (srv_services b loc) c w = (Inr (True, d, c), w)"
  using assms unfolding backup_over_def ensureDeletionBackupComplete_def srv_reconciler_simps srv_event_now srv_services_simps Let_def
  by (auto split: option.splits)

lemma backup_gate_shut:
  assumes "\<not> backup_over c w" "annotation c AnnotationDeletionBackupJob \<noteq> []"
  shows "ensureDeletionBackupComplete srv_reconciler (srv_services b loc) c w = (Inr (False, requeueAfterDeletionBackup, c), w)"
  using assms unfolding backup_over_def ensureDeletionBackupComplete_def srv_reconciler_simps srv_event_now srv_services_simps Let_def
  by (auto split: option.splits)

lemma backup_overdue:
  assumes "annotation c AnnotationDeletionBackupDeadline = Format_RFC3339 UTC t" "clock_readable UTC t" "t < srv_now w"
    and "annotation c AnnotationDeletionBackupJob \<noteq> []"
  shows "backup_over c w"
proof -
  have p: "Parse_RFC3339 (Format_RFC3339 UTC t) = Some (Truncate t Second)"
    using assms(2) Parse_Format_RFC3339 [of UTC t] by (simp add: clock_readable_def)
  have "Format_RFC3339 UTC t \<noteq> []" by (simp add: Format_RFC3339_def Let_def split: prod.split)
  moreover have "Truncate t Second \<le> t" by (simp add: Truncate_def)
  ultimately have "deletionBackupDeadlineExceeded srv_reconciler c w"
    using assms(1,3) p by (simp add: deletionBackupDeadlineExceeded_def)
  then show ?thesis using assms(4) by (auto simp: backup_over_def Let_def split: option.split)
qed

text \<open>The Job builder names the Job and puts it beside the cluster.\<close>

definition names_backup_jobs :: "builder \<Rightarrow> bool" where
  "names_backup_jobs b \<longleftrightarrow> (\<forall>c ts. KJob_Name (bld_maintenance b c MaintenanceBackupOnDelete ts) \<noteq> [] \<and>
     KJob_Namespace (bld_maintenance b c MaintenanceBackupOnDelete ts) = CC_Namespace c)"

lemma start_backup_run:
  assumes "stored c w"
  shows "\<exists>c' w'. startDeletionBackup srv_reconciler (srv_services b loc) c w = (Inr (False, requeueAfterDeletionBackup, c'), w') \<and>
    stored c' w' \<and> same_key c' c \<and> CC_Finalizers c' = CC_Finalizers c \<and> srv_claims w' = srv_claims w \<and>
    (let job = bld_maintenance b c MaintenanceBackupOnDelete (deletionBackupTimestamp srv_reconciler c w)
     in srv_jobs w' (KJob_Namespace job) (KJob_Name job) \<noteq> None \<and> annotation c' AnnotationDeletionBackupJob = KJob_Name job) \<and>
    annotation c' AnnotationDeletionBackupDeadline = Format_RFC3339 UTC (srv_now w + deletionBackupTimeout)"
proof -
  define job where "job = bld_maintenance b c MaintenanceBackupOnDelete (deletionBackupTimestamp srv_reconciler c w)"
  obtain err w1 where w1: "s_create_job (srv_services b loc) job w = (err, w1)" "err = None \<or> err = Some AlreadyExists"
    "srv_jobs w1 (KJob_Namespace job) (KJob_Name job) \<noteq> None" "srv_cluster w1 = srv_cluster w" "srv_claims w1 = srv_claims w"
    "srv_now w1 = srv_now w"
    by (cases "srv_jobs w (KJob_Namespace job) (KJob_Name job)") (auto simp: srv_services_def)
  have s1: "stored c w1" using assms stored_cong [OF w1(4)] by simp
  define kvs where "kvs = [(AnnotationDeletionBackupJob, KJob_Name job),
    (AnnotationDeletionBackupDeadline, Format_RFC3339 UTC (srv_now w1 + deletionBackupTimeout))]"
  define c' where "c' = c\<lparr>CC_Annotations := CC_Annotations c ++ map_of (rev kvs)\<rparr>"
  define w' where "w' = fold (\<lambda>(k, v). logged (Op_Annotation k (Some v))) kvs (set_cluster c' w1)"
  have "s_patch_annotations (srv_services b loc) (CC_Namespace c) (CC_Name c) kvs w1 = (Inr c', w')"
    using s1 by (simp add: srv_services_def change_cluster_def stored_def c'_def w'_def set_cluster_def)
  then have run: "startDeletionBackup srv_reconciler (srv_services b loc) c w = (Inr (False, requeueAfterDeletionBackup, c'), w')"
    using w1(1,2) unfolding startDeletionBackup_def srv_reconciler_simps srv_event_now srv_services_simps job_def [symmetric] Let_def
    by (auto simp: kvs_def)
  have "stored c' w'" "srv_jobs w' = srv_jobs w1" "srv_claims w' = srv_claims w"
    using w1(5) by (simp_all add: w'_def kvs_def)
  moreover have "annotation c' AnnotationDeletionBackupJob = KJob_Name job"
    "annotation c' AnnotationDeletionBackupDeadline = Format_RFC3339 UTC (srv_now w + deletionBackupTimeout)"
    using w1(6) by (simp_all add: c'_def kvs_def annotation_def)
  moreover have "same_key c' c" "CC_Finalizers c' = CC_Finalizers c" by (simp_all add: c'_def same_key_def)
  ultimately show ?thesis using run w1(3) by (intro exI [of _ c'] exI [of _ w']) (simp add: job_def)
qed

text \<open>
  A backup Job that cannot be created does not hold the deletion up: the gate opens at once, and the
  claims go without a backup.
\<close>

lemma failed_creation_skips_backup:
  assumes "annotation c AnnotationDeletionBackupJob = []"
    "s_create_job sv (s_build_maintenance_job sv c MaintenanceBackupOnDelete (deletionBackupTimestamp r c w)) w = (Some (Other_Error msg), w1)"
  shows "\<exists>reason. ensureDeletionBackupComplete r sv c w =
    (Inr (True, 0, c), k_event (r_client r) c ''BackupOnDeleteFailed'' reason w1)"
  unfolding ensureDeletionBackupComplete_def startDeletionBackup_def Let_def if_P [OF assms(1)] assms(2) prod.case
  by (simp only: option.distinct option.inject api_error.distinct simp_thms if_True) (rule exI, rule refl)


end
