(* ===== verification/OperationSamples.thy ===== *)
theory OperationSamples
  imports OperationTheorems
begin

text \<open>
  The theorems about mirroring, upgrade and deletion applied to concrete clusters: one that has just
  been given mirrors, one with an upgrade under way, one that is being deleted.
\<close>

section \<open>Samples\<close>

definition op_builder :: builder where
  "op_builder = \<lparr>bld_primary = (\<lambda>c. Inl []), bld_mirror = (\<lambda>c. Inr None), bld_gpexpand = (\<lambda>c a b t. None),
     bld_coordinator = (\<lambda>c. Inl []), bld_standby = (\<lambda>c. Inr None),
     bld_maintenance = (\<lambda>c op t. failed_job\<lparr>KJob_Namespace := CC_Namespace c, KJob_Name := op @ t\<rparr>)\<rparr>"

definition op_flows :: "store flows" where
  "op_flows = sample_flows\<lparr>fl_checkMirroringProgress := checkMirroringProgress srv_reconciler (srv_services op_builder UTC),
     fl_continueUpgrade := continueUpgrade srv_reconciler (srv_services op_builder UTC), fl_handleDeletion := handleDeletion srv_reconciler (srv_services op_builder UTC)\<rparr>"

lemma op_run: "fl_checkMirroringProgress op_flows = checkMirroringProgress srv_reconciler (srv_services op_builder UTC)"
  "fl_continueUpgrade op_flows = continueUpgrade srv_reconciler (srv_services op_builder UTC)"
  "fl_handleDeletion op_flows = handleDeletion srv_reconciler (srv_services op_builder UTC)"
  by (simp_all add: op_flows_def)

definition mirror_state :: mirroringStateData where
  "mirror_state = \<lparr>MS_Phase = mirroringPhaseCreatingSTS, MS_StartedAt = Format_RFC3339 UTC 0, MS_PhaseStartedAt = [], MS_Layout = MirroringLayoutSpread\<rparr>"

definition mirrored :: CloudberryCluster where
  "mirrored = annotated AnnotationMirroringState (Some (marshal_mirroringState mirror_state))
     (with_phase ClusterPhaseUpdating (with_mirroring MirroringLayoutSpread base_cluster))"

definition upgrade_state :: upgradeStateData where
  "upgrade_state = \<lparr>US_PreviousImage = ''old'', US_PreviousVersion = ''2.0.0'', US_Phase = upgradePhaseMirrors,
     US_StartedAt = [], US_PhaseStartedAt = Format_RFC3339 UTC 0\<rparr>"

definition upgraded :: CloudberryCluster where
  "upgraded = annotated AnnotationUpgrade (Some (marshal_upgradeState upgrade_state))
     (with_phase ClusterPhaseUpdating (with_mirroring MirroringLayoutSpread base_cluster))"

definition old_sts :: "string \<Rightarrow> int32 \<Rightarrow> StatefulSetFull" where
  "old_sts n k = (sample_sts n k)\<lparr>Sts_Template := \<lparr>Tpl_Containers = [\<lparr>Ctr_Name = ''db'', Ctr_Image = ''old'', Ctr_Env = []\<rparr>], Tpl_Annotations = Map.empty\<rparr>\<rparr>"

text \<open>The store with the images of the old version, at a given time.\<close>

definition op_store :: "CloudberryCluster \<Rightarrow> int \<Rightarrow> store" where
  "op_store c now = (sample_store c 4 [])\<lparr>srv_now := now, srv_sts :=
     (\<lambda>ns n. if ns = ''ns'' \<and> n \<in> {''c-segment-primary'', ''c-segment-mirror''} then Some (old_sts n 4)
       else if ns = ''ns'' \<and> n = ''c-coordinator'' then Some (old_sts n 1) else None)\<rparr>"

lemma op_store_simps [simp]: "srv_now (op_store c t) = t" "srv_db_error (op_store c t) = (\<lambda>_. None)" "srv_mirror_sync (op_store c t) = []"
  "srv_get_cluster ''ns'' ''c'' (op_store c t) = Some (c\<lparr>CC_Namespace := ''ns'', CC_Name := ''c''\<rparr>)" "data_log (op_store c t) = []"
  "srv_get_sts ''ns'' ''c-segment-primary'' (op_store c t) = Some (old_sts ''c-segment-primary'' 4)"
  "srv_get_sts ''ns'' ''c-segment-mirror'' (op_store c t) = Some (old_sts ''c-segment-mirror'' 4)"
  "srv_get_sts ''ns'' ''c-coordinator'' (op_store c t) = Some (old_sts ''c-coordinator'' 1)"
  by (simp_all add: op_store_def sample_store_def srv_get_cluster_def srv_get_sts_def data_log_def) (simp_all add: old_sts_def sample_sts_def)

lemma utc_readable: "0 \<le> t \<Longrightarrow> t < 10 ^ 18 \<Longrightarrow> clock_readable UTC t"
  by (simp add: clock_readable_def UTC_def) linarith

lemma epoch_age:
  assumes "0 \<le> srv_now w" "srv_now w < 10 ^ 18"
  shows "timed_out srv_reconciler (Format_RFC3339 UTC 0) timeout w = (timeout < srv_now w)"
proof -
  have "Parse_RFC3339 (Format_RFC3339 UTC 0) = Some 0"
    using Parse_Format_RFC3339 [of UTC 0] by (simp add: UTC_def Truncate_def)
  then show ?thesis using assms by (simp add: timed_out_def Sub_def)
qed

lemma epoch_text: "valid_utf8 (Format_RFC3339 UTC 0)" "Format_RFC3339 UTC 0 \<noteq> []"
  by (rule ascii_valid_utf8 [OF Format_RFC3339_ascii]) (simp add: Format_RFC3339_def Let_def split: prod.split)

lemma op_names: "SegmentPrimaryName ''c'' = ''c-segment-primary''" "CoordinatorName ''c'' = ''c-coordinator''"
  by code_simp+

lemma mirrored_simps: "CC_Namespace mirrored = ''ns''" "CC_Name mirrored = ''c''" "Seg_Count (Spec_Segments (CC_Spec mirrored)) = 4"
  "Seg_Mirroring (Spec_Segments (CC_Spec mirrored)) = Some \<lparr>Mir_Enabled = True, Mir_Layout = MirroringLayoutSpread\<rparr>"
  "mirrored\<lparr>CC_Namespace := ''ns'', CC_Name := ''c''\<rparr> = mirrored" "annotation mirrored AnnotationUpgrade = []"
  by (simp_all add: mirrored_def sample_record_simps with_phase_def annotation_def)

lemma mirrored_enables: "enabling mirror_state mirrored (op_store mirrored t)"
proof -
  have "mirroringState_ok mirror_state"
    by (simp add: mirroringState_ok_def mirror_state_def epoch_text mirroring_names_ascii valid_utf8.simps [of "[]"] ascii_valid_utf8)
  then show ?thesis
    by (simp add: enabling_def updating_def stored_def mirrored_simps)
      (simp add: mirrored_def sample_record_simps with_phase_def)
qed

lemma upgraded_simps: "CC_Namespace upgraded = ''ns''" "CC_Name upgraded = ''c''" "Spec_Image (CC_Spec upgraded) = ''img''"
  "Spec_Version (CC_Spec upgraded) = ''2.1.0''" "getScaleDownOrder upgraded = [''c-segment-mirror'', ''c-segment-primary'', ''c-coordinator'']"
  "upgraded\<lparr>CC_Namespace := ''ns'', CC_Name := ''c''\<rparr> = upgraded"
  by (simp_all add: upgraded_def sample_record_simps with_phase_def getScaleDownOrder_def sample_mirror_name op_names)

lemma upgraded_upgrades: "upgrading upgrade_state upgraded (op_store upgraded t)"
proof -
  have "upgradeState_ok upgrade_state"
    by (simp add: upgradeState_ok_def upgrade_state_def epoch_text upgrade_names_ascii valid_utf8.simps [of "[]"] ascii_valid_utf8)
  then show ?thesis
    by (simp add: upgrading_def updating_def stored_def upgraded_simps)
      (simp add: upgraded_def sample_record_simps with_phase_def annotation_def)
qed

lemma op_sts_up: "list_all (sts_up (op_store upgraded t) ''ns'') [''c-segment-mirror'', ''c-segment-primary'', ''c-coordinator'']"
  by (simp add: sts_up_def ready_srv) (simp add: old_sts_def sample_sts_def)

section \<open>Witnesses\<close>

theorem mirroring_enable_completes_witness:
  "\<exists>c'. stored c' (reconciles op_flows mirrored 3 (op_store mirrored 0)) \<and> St_Phase (CC_Status c') = ClusterPhaseRunning \<and>
     St_MirroringStatus (CC_Status c') = MirroringInSync \<and>
     data_log (reconciles op_flows mirrored 3 (op_store mirrored 0)) = [Op_Init_Mirrors MirroringLayoutSpread 4, Op_Replication ''sync'']"
proof -
  have "\<not> mirroring_expired mirror_state (op_store mirrored 0)"
    by (simp add: mirroring_expired_def mirror_state_def epoch_age)
  moreover have "srv_get_sts (CC_Namespace mirrored) (SegmentMirrorName (CC_Name mirrored)) (op_store mirrored 0) =
      Some (old_sts ''c-segment-mirror'' 4)"
    by (simp add: mirrored_simps sample_mirror_name)
  ultimately show ?thesis
    using mirroring_enable_completes [OF op_run(1) mirrored_enables [of 0] _ _ _ _ _ _ _ _ mirrored_simps(4), of "old_sts ''c-segment-mirror'' 4" 4]
    by (auto simp: mirrored_simps mirror_state_def old_sts_def sample_sts_def)
qed

lemma mirroring_timeout_sample:
  "\<exists>c' w'. stored c' w' \<and> St_Phase (CC_Status c') = ClusterPhaseUpdating \<and> annotation c' AnnotationMirroringState = [] \<and>
     (\<forall>k. reconciles op_flows mirrored (Suc k) (op_store mirrored (2 * mirroringEnableTimeout)) = w')"
proof -
  have "mirroring_expired mirror_state (op_store mirrored (2 * mirroringEnableTimeout))"
    by (simp add: mirroring_expired_def mirror_state_def epoch_age epoch_text)
  from mirroring_timeout_sticks [OF op_run(1,2) mirrored_enables this mirrored_simps(6)] show ?thesis by blast
qed

theorem upgrade_completes_witness:
  "\<exists>c'. stored c' (reconciles op_flows upgraded 5 (op_store upgraded 0)) \<and> St_Phase (CC_Status c') = ClusterPhaseRunning \<and>
     St_ClusterVersion (CC_Status c') = ''2.1.0'' \<and>
     data_log (reconciles op_flows upgraded 5 (op_store upgraded 0)) =
       [Op_Apply ''c-segment-mirror'' (Some 4), Op_Apply ''c-segment-primary'' (Some 4), Op_Apply ''c-coordinator'' (Some 1)]"
proof -
  have "\<not> phase_expired upgrade_state (op_store upgraded 0)" "US_Phase upgrade_state = upgradePhaseMirrors"
    by (simp_all add: phase_expired_def upgrade_state_def epoch_age)
  moreover have "image_writes ''img'' ''ns'' (op_store upgraded 0) (getScaleDownOrder upgraded) =
      [Op_Apply ''c-segment-mirror'' (Some 4), Op_Apply ''c-segment-primary'' (Some 4), Op_Apply ''c-coordinator'' (Some 1)]"
    by (simp add: image_writes_def upgraded_simps) (simp add: old_sts_def sample_sts_def has_image_def)
  ultimately show ?thesis
    using upgrade_completes [OF op_run(2) upgraded_upgrades [of 0]] utc_readable [of 0] op_sts_up [of 0]
    by (auto simp: upgraded_simps)
qed

theorem upgrade_rolls_back_witness:
  "\<exists>c' w'. Reconcile srv_reconciler op_flows ''ns'' ''c'' (op_store upgraded (2 * upgradePhaseTimeout)) =
       (Inr (requeueDefault srv_reconciler), w') \<and>
     stored c' w' \<and> St_Phase (CC_Status c') = ClusterPhaseRunning \<and> St_ClusterVersion (CC_Status c') = ''2.0.0'' \<and>
     isUpgradeRolledBack c' \<and> data_log w' = []"
proof -
  have "phase_expired upgrade_state (op_store upgraded (2 * upgradePhaseTimeout))"
    by (simp add: phase_expired_def upgrade_state_def epoch_age epoch_text)
  moreover have "image_writes ''old'' ''ns'' (op_store upgraded t) (getScaleDownOrder upgraded) = []" for t
    by (simp add: image_writes_def upgraded_simps) (simp add: old_sts_def sample_sts_def has_image_def)
  ultimately show ?thesis
    using upgrade_rolls_back [OF op_run(2) upgraded_upgrades [of "2 * upgradePhaseTimeout"]]
    by (auto simp: upgraded_simps upgrade_state_def)
qed

text \<open>A cluster being deleted with a backup asked for, and one whose backup Job has failed.\<close>

definition doomed :: "string_map \<Rightarrow> CloudberryCluster" where
  "doomed ann = base_cluster\<lparr>CC_DeletionTimestamp := Some 0, CC_Finalizers := [FinalizerName], CC_Annotations := ann,
     CC_Spec := base_spec\<lparr>Spec_DeletionPolicy := DeletionPolicyDelete, Spec_BackupOnDelete := True\<rparr>\<rparr>"


end
