(* ===== verification/StsBuilders.thy ===== *)
theory StsBuilders
  imports ApiServer
begin

text \<open>
  The StatefulSets of \<^verbatim>\<open>builder.go\<close>: name, namespace and replicas of each, and when none is built. The pod
  template (containers, volumes, affinity) and the errors of its construction are an argument, by
  component and cluster.
\<close>

section \<open>Model\<close>

definition new_sts :: "CloudberryCluster \<Rightarrow> string \<Rightarrow> int32 \<Rightarrow> PodTemplate \<Rightarrow> StatefulSetFull" where
  "new_sts cluster name replicas template =
     \<lparr>Sts_Namespace = CC_Namespace cluster, Sts_Name = name, Sts_Replicas = Some replicas, Sts_StatusReplicas = 0,
      Sts_ReadyReplicas = 0, Sts_UpdatedReplicas = 0, Sts_Template = template, Sts_Generation = 0, Sts_ObservedGeneration = 0,
      Sts_CurrentRevision = [], Sts_UpdateRevision = []\<rparr>"

definition BuildCoordinatorStatefulSet ::
  "(string \<Rightarrow> CloudberryCluster \<Rightarrow> string + PodTemplate) \<Rightarrow> CloudberryCluster \<Rightarrow> string + StatefulSetFull" where
  "BuildCoordinatorStatefulSet pods cluster =
     (let replicas = (case Coord_Replicas (Spec_Coordinator (CC_Spec cluster)) of None \<Rightarrow> 1 | Some n \<Rightarrow> n)
      in map_sum id (new_sts cluster (CoordinatorName (CC_Name cluster)) replicas) (pods ComponentCoordinator cluster))"

definition BuildStandbyStatefulSet ::
  "(string \<Rightarrow> CloudberryCluster \<Rightarrow> string + PodTemplate) \<Rightarrow> CloudberryCluster \<Rightarrow> string + StatefulSetFull option" where
  "BuildStandbyStatefulSet pods cluster =
     (case Spec_Standby (CC_Spec cluster) of
        None \<Rightarrow> Inr None
      | Some standby \<Rightarrow>
          if \<not> Standby_Enabled standby then Inr None
          else map_sum id (Some \<circ> new_sts cluster (StandbyName (CC_Name cluster)) 1) (pods ComponentStandby cluster))"

definition BuildSegmentPrimaryStatefulSet ::
  "(string \<Rightarrow> CloudberryCluster \<Rightarrow> string + PodTemplate) \<Rightarrow> CloudberryCluster \<Rightarrow> string + StatefulSetFull" where
  "BuildSegmentPrimaryStatefulSet pods cluster =
     map_sum id (new_sts cluster (SegmentPrimaryName (CC_Name cluster)) (Seg_Count (Spec_Segments (CC_Spec cluster))))
       (pods ComponentSegmentPrimary cluster)"

definition BuildSegmentMirrorStatefulSet ::
  "(string \<Rightarrow> CloudberryCluster \<Rightarrow> string + PodTemplate) \<Rightarrow> CloudberryCluster \<Rightarrow> string + StatefulSetFull option" where
  "BuildSegmentMirrorStatefulSet pods cluster =
     (case Seg_Mirroring (Spec_Segments (CC_Spec cluster)) of
        None \<Rightarrow> Inr None
      | Some mirroring \<Rightarrow>
          if \<not> Mir_Enabled mirroring then Inr None
          else map_sum id (Some \<circ> new_sts cluster (SegmentMirrorName (CC_Name cluster)) (Seg_Count (Spec_Segments (CC_Spec cluster))))
                 (pods ComponentSegmentMirror cluster))"

text \<open>The builder of the reconciler; the Jobs are arguments.\<close>

definition default_builder ::
  "(string \<Rightarrow> CloudberryCluster \<Rightarrow> string + PodTemplate) \<Rightarrow> (CloudberryCluster \<Rightarrow> int32 \<Rightarrow> int32 \<Rightarrow> string \<Rightarrow> Job option) \<Rightarrow>
   (CloudberryCluster \<Rightarrow> string \<Rightarrow> string \<Rightarrow> Job) \<Rightarrow> builder" where
  "default_builder pods gpexpand maintenance =
     \<lparr>bld_primary = BuildSegmentPrimaryStatefulSet pods, bld_mirror = BuildSegmentMirrorStatefulSet pods, bld_gpexpand = gpexpand,
      bld_coordinator = BuildCoordinatorStatefulSet pods, bld_standby = BuildStandbyStatefulSet pods, bld_maintenance = maintenance\<rparr>"

section \<open>Lemmas\<close>

text \<open>The names of the four components are apart, for the names of clusters that are not cut.\<close>

lemma component_names_apart:
  assumes "dns_label n" "length n \<le> 43"
  shows "distinct [CoordinatorName n, StandbyName n, SegmentPrimaryName n, SegmentMirrorName n]"
  by (simp add: component_names [OF assms])

text \<open>
  What the builder promises: the primaries are built under their name in the namespace of the
  cluster with the segment count as replicas, every other StatefulSet under another name.
\<close>

definition builds_segments :: "builder \<Rightarrow> string \<Rightarrow> bool" where
  "builds_segments b n \<longleftrightarrow> (\<forall>c s. CC_Name c = n \<longrightarrow>
     (bld_primary b c = Inr s \<longrightarrow> Sts_Namespace s = CC_Namespace c \<and> Sts_Name s = SegmentPrimaryName (CC_Name c) \<and>
        Sts_Replicas s = Some (Seg_Count (Spec_Segments (CC_Spec c)))) \<and>
     (bld_mirror b c = Inr (Some s) \<or> bld_standby b c = Inr (Some s) \<or> bld_coordinator b c = Inr s \<longrightarrow>
        Sts_Name s \<noteq> SegmentPrimaryName (CC_Name c)))"

lemma map_sum_Inr: "map_sum id f x = Inr y \<longleftrightarrow> (\<exists>z. x = Inr z \<and> y = f z)"
  by (cases x) auto

lemma default_builds:
  assumes "dns_label n" "length n \<le> 43"
  shows "builds_segments (default_builder pods gpexpand maintenance) n"
  using component_names_apart [OF assms]
  by (auto simp: builds_segments_def default_builder_def BuildCoordinatorStatefulSet_def BuildStandbyStatefulSet_def
      BuildSegmentPrimaryStatefulSet_def BuildSegmentMirrorStatefulSet_def map_sum_Inr new_sts_def Let_def
      split: option.splits if_splits)

end
