(* ===== verification/SegmentTheorems.thy ===== *)
theory SegmentTheorems
  imports OperationTheorems StsBuilders
begin

text \<open>
  What holds of the reconciliation of the StatefulSets on the reference server, whose reads succeed: the
  requested replicas of the primaries are never lowered, whatever branch it takes. Lowering them is left
  to the scale-in, which moves the data off the segments first. When the read of the primaries fails
  instead, the same code lowers them.
\<close>

section \<open>Requested replicas\<close>

definition requested :: "string \<Rightarrow> string \<Rightarrow> store \<Rightarrow> int32 option" where
  "requested ns n w = (case srv_get_sts ns n w of None \<Rightarrow> None | Some s \<Rightarrow> Sts_Replicas s)"

text \<open>A StatefulSet with requested replicas keeps them, or is given the larger number \<open>m\<close>.\<close>

definition grown :: "string \<Rightarrow> string \<Rightarrow> int32 \<Rightarrow> store \<Rightarrow> store \<Rightarrow> bool" where
  "grown ns n m w w' \<longleftrightarrow> (\<forall>k. requested ns n w = Some k \<longrightarrow> requested ns n w' = Some k \<or> k < m \<and> requested ns n w' = Some m)"

lemma requested_sts: "srv_sts w' = srv_sts w \<Longrightarrow> requested ns n w' = requested ns n w"
  by (simp add: requested_def srv_get_sts_def)

lemma grown_same: "requested ns n w' = requested ns n w \<Longrightarrow> grown ns n m w w'"
  by (simp add: grown_def)

lemma grown_sts: "srv_sts w' = srv_sts w \<Longrightarrow> grown ns n m w w'"
  by (rule grown_same) (rule requested_sts)

lemma grown_trans: "grown ns n m w w1 \<Longrightarrow> grown ns n m w1 w2 \<Longrightarrow> grown ns n m w w2"
  by (fastforce simp: grown_def)

section \<open>Writes that leave the StatefulSets alone\<close>

lemma change_cluster_sts: "change_cluster f ns n w = (res, w') \<Longrightarrow> srv_sts w' = srv_sts w"
  by (auto simp: change_cluster_def split: option.splits)

lemma client_writes_sts:
  "k_update_status srv_client d w = (res, w') \<Longrightarrow> srv_sts w' = srv_sts w"
  "k_patch_annotation srv_client ns n key val w = (res, w') \<Longrightarrow> srv_sts w' = srv_sts w"
  "k_patch_status srv_client ns n p w = (res, w') \<Longrightarrow> srv_sts w' = srv_sts w"
  by (auto simp: srv_client_def map_snd_def split: prod.splits intro: change_cluster_sts [OF prod.collapse [symmetric]] change_cluster_sts)

lemma annotation_patch_sts: "setAnnotationPatch srv_reconciler c key val w = (res, w') \<Longrightarrow> srv_sts w' = srv_sts w"
  unfolding setAnnotationPatch_def srv_reconciler_simps
  by (auto split: sum.splits prod.splits dest: client_writes_sts)

lemma patchStatus_sts: "patchStatus srv_reconciler c w = (res, w') \<Longrightarrow> srv_sts w' = srv_sts w"
  unfolding patchStatus_def srv_reconciler_simps
  by (auto split: sum.splits prod.splits dest: client_writes_sts)

lemmas writes_sts = client_writes_sts annotation_patch_sts patchStatus_sts

section \<open>Applying a StatefulSet\<close>

lemma requested_put: "requested ns n (logged e (w\<lparr>srv_sts := put2 a c (Some s) (srv_sts w)\<rparr>)) =
    (if ns = a \<and> n = c then Sts_Replicas s else requested ns n w)"
  by (simp add: requested_def srv_get_sts_def put2_def)

lemma apply_requested:
  assumes "createOrUpdateStatefulSet (srv_services b loc) s w = (res, w')"
  shows "requested ns n w' = (if ns = Sts_Namespace s \<and> n = Sts_Name s then Sts_Replicas s else requested ns n w)"
proof (cases "srv_get_sts (Sts_Namespace s) (Sts_Name s) w")
  case None
  then have "w' = logged (Op_Apply (Sts_Name s) (Sts_Replicas s))
      (w\<lparr>srv_sts := put2 (Sts_Namespace s) (Sts_Name s) (Some s) (srv_sts w)\<rparr>)"
    using assms by (simp add: createOrUpdateStatefulSet_def srv_services_def srv_get_sts_def)
  then show ?thesis by (simp add: requested_put)
next
  case (Some old)
  note key = srv_get_sts_key [OF Some]
  define d where "d = preserveTLSChecksumAnnotation old s"
  have reps: "Sts_Replicas d = Sts_Replicas s" by (simp add: d_def preserveTLSChecksumAnnotation_def Let_def split: option.split)
  show ?thesis
  proof (cases "Sts_Template old \<noteq> Sts_Template d \<or> Sts_Replicas old \<noteq> Sts_Replicas d")
    case True
    then have "w' = logged (Op_Apply (Sts_Name s) (Sts_Replicas s)) (w\<lparr>srv_sts := put2 (Sts_Namespace s) (Sts_Name s)
        (Some (old\<lparr>Sts_Replicas := Sts_Replicas s, Sts_Template := Sts_Template d, Sts_Generation := Sts_Generation old + 1\<rparr>)) (srv_sts w)\<rparr>)"
      using assms Some key by (auto simp: createOrUpdateStatefulSet_def srv_services_def change_sts_def Let_def d_def [symmetric] reps)
    then show ?thesis by (simp add: requested_put)
  next
    case False
    then have "w' = w" using assms Some by (simp add: createOrUpdateStatefulSet_def Let_def d_def [symmetric])
    then show ?thesis using False Some reps by (auto simp: requested_def)
  qed
qed

lemma builds_other:
  "builds_segments b (CC_Name c) \<Longrightarrow> bld_mirror b c = Inr (Some s) \<Longrightarrow> Sts_Name s \<noteq> SegmentPrimaryName (CC_Name c)"
  "builds_segments b (CC_Name c) \<Longrightarrow> bld_standby b c = Inr (Some s) \<Longrightarrow> Sts_Name s \<noteq> SegmentPrimaryName (CC_Name c)"
  "builds_segments b (CC_Name c) \<Longrightarrow> bld_coordinator b c = Inr s \<Longrightarrow> Sts_Name s \<noteq> SegmentPrimaryName (CC_Name c)"
  by (simp_all add: builds_segments_def)

lemma builds_primary:
  assumes "builds_segments b (CC_Name c)" "bld_primary b c = Inr s"
  shows "Sts_Namespace s = CC_Namespace c" "Sts_Name s = SegmentPrimaryName (CC_Name c)"
    "Sts_Replicas s = Some (Seg_Count (Spec_Segments (CC_Spec c)))"
  using assms by (simp_all add: builds_segments_def)

lemma apply_other:
  assumes "createOrUpdateStatefulSet (srv_services b loc) s w = (res, w')" "Sts_Name s \<noteq> n"
  shows "requested ns n w' = requested ns n w"
  using apply_requested [OF assms(1)] assms(2) by simp

lemma coordinator_requested:
  assumes "reconcileCoordinator (srv_services b loc) c w = (res, w')" "builds_segments b (CC_Name c)"
  shows "requested ns (SegmentPrimaryName (CC_Name c)) w' = requested ns (SegmentPrimaryName (CC_Name c)) w"
  using assms by (auto simp: reconcileCoordinator_def applyBuilt_def split: sum.splits intro!: apply_other dest: builds_other)

lemma standby_requested:
  assumes "reconcileStandby (srv_services b loc) c w = (res, w')" "builds_segments b (CC_Name c)"
  shows "requested ns (SegmentPrimaryName (CC_Name c)) w' = requested ns (SegmentPrimaryName (CC_Name c)) w"
  using assms by (auto simp: reconcileStandby_def applyBuilt_def split: sum.splits option.splits intro!: apply_other dest: builds_other)

section \<open>The branches\<close>

lemma change_cluster_key:
  assumes "change_cluster f ns n w = (Inr c', w')" "\<And>c. CC_Name c = n \<Longrightarrow> CC_Name (f c) = n"
  shows "CC_Name c' = n"
  using assms srv_get_cluster_key by (fastforce simp: change_cluster_def split: option.splits)

lemma update_key: "k_update_status srv_client d w = (Inr c', w') \<Longrightarrow> CC_Name c' = CC_Name d"
  using change_cluster_key [of "\<lambda>c. c\<lparr>CC_Status := CC_Status d\<rparr>" "CC_Namespace d" "CC_Name d" w c' w'] by (simp add: srv_client_def)

lemma patch_key:
  assumes "setAnnotationPatch srv_reconciler d key val w = (Inr c', w')"
  shows "CC_Name c' = CC_Name d"
proof -
  obtain v where "change_cluster (\<lambda>c. c\<lparr>CC_Annotations := (CC_Annotations c)(key := Some val)\<rparr>) (CC_Namespace d) (CC_Name d) w = (Inr c', v)"
    using assms by (auto simp: setAnnotationPatch_def srv_client_def map_snd_def prod_eq_iff)
  then show ?thesis by (rule change_cluster_key) simp
qed

lemma step_facts:
  "k_update_status srv_client d w = (Inl e, w') \<Longrightarrow> srv_sts w' = srv_sts w"
  "k_update_status srv_client d w = (Inr c', w') \<Longrightarrow> CC_Name c' = CC_Name d \<and> srv_sts w' = srv_sts w"
  "setAnnotationPatch srv_reconciler d key val w = (Inl e, w') \<Longrightarrow> srv_sts w' = srv_sts w"
  "setAnnotationPatch srv_reconciler d key val w = (Inr c', w') \<Longrightarrow> CC_Name c' = CC_Name d \<and> srv_sts w' = srv_sts w"
  by (simp_all add: writes_sts) (metis update_key writes_sts(1), metis patch_key writes_sts(4))

lemma mirror_applied:
  assumes "createOrUpdateStatefulSet (srv_services b loc) s w1 = (res, w')" "builds_segments b nm" "bld_mirror b c' = Inr (Some s)"
    and "CC_Name c' = nm" "srv_sts w1 = srv_sts w"
  shows "requested ns (SegmentPrimaryName nm) w' = requested ns (SegmentPrimaryName nm) w"
  using apply_other [OF assms(1)] builds_other(1) [OF _ assms(3)] assms(2,4) requested_sts [OF assms(5)] by metis

lemma scale_in_requested:
  assumes "handleScaleIn srv_reconciler sv c old new w = (res, w')"
  shows "srv_sts w' = srv_sts w"
  using assms unfolding handleScaleIn_def srv_reconciler_simps srv_event_now Let_def
  by (auto split: if_splits prod.splits sum.splits dest!: writes_sts)

lemma enable_requested:
  assumes "handleEnableMirroring srv_reconciler (srv_services b loc) c w = (res, w')" "builds_segments b (CC_Name c)"
  shows "requested ns (SegmentPrimaryName (CC_Name c)) w' = requested ns (SegmentPrimaryName (CC_Name c)) w"
proof (cases "St_Phase (CC_Status c) = ClusterPhaseRunning")
  case True
  show ?thesis
  proof (cases "Seg_Mirroring (Spec_Segments (CC_Spec c))")
    case (Some m)
    define layout where "layout = (if Mir_Layout m = [] then MirroringLayoutGroup else Mir_Layout m)"
    define given where "given = Seg_PrimariesPerHost (Spec_Segments (CC_Spec c))"
    define hosts where "hosts = (if given = 0 then 2 else given)"
    show ?thesis
    proof (cases "validateMirroringNodeCount c layout hosts")
      case valid: True
      define d where "d = with_condition (srv_now w) ConditionMirroringHealthy ConditionFalse ''MirroringInitializing''
        ''Mirror initialization in progress'' (with_mirroring_status MirroringInitializing (with_phase ClusterPhaseUpdating c))"
      have d: "CC_Name d = CC_Name c" by (simp add: d_def with_condition_def with_mirroring_status_def with_phase_def)
      show ?thesis using assms True Some valid
        unfolding handleEnableMirroring_def srv_reconciler_simps srv_event_now srv_services_simps
        apply (simp only: option.case Let_def layout_def [symmetric] given_def [symmetric] hosts_def [symmetric] d_def [symmetric])
        by (auto split: prod.splits sum.splits option.splits dest!: step_facts simp: d intro: requested_sts mirror_applied)
    next
      case False
      then show ?thesis using assms True Some
        by (simp only: handleEnableMirroring_def option.case Let_def layout_def [symmetric] given_def [symmetric] hosts_def [symmetric]) simp
    qed
  qed (use assms True in \<open>simp add: handleEnableMirroring_def\<close>)
qed (use assms in \<open>simp add: handleEnableMirroring_def\<close>)

lemma cleanup_sts [simp]: "srv_sts (cleanupMirrorPVCs (srv_services b loc) c w) = srv_sts w"
proof -
  have "srv_sts (fold (\<lambda>i w. let pvcName = f i in case s_get_pvc (srv_services b loc) ns pvcName w of (Some _, w1) \<Rightarrow> w1
      | (None, w1) \<Rightarrow> snd (s_delete_pvc (srv_services b loc) ns pvcName w1)) is w) = srv_sts w" for f ns and "is" :: "int list"
    by (induction "is" arbitrary: w) (simp_all add: srv_delete_claim_def Let_def)
  then show ?thesis by (simp add: cleanupMirrorPVCs_def)
qed

lemma disable_requested:
  assumes "handleDisableMirroring srv_reconciler (srv_services b loc) c w = (res, w')"
    and "SegmentPrimaryName (CC_Name c) \<noteq> SegmentMirrorName (CC_Name c)"
  shows "requested ns (SegmentPrimaryName (CC_Name c)) w' = requested ns (SegmentPrimaryName (CC_Name c)) w"
proof (cases "St_Phase (CC_Status c) = ClusterPhaseRunning")
  case True
  let ?ns = "CC_Namespace c" and ?M = "SegmentMirrorName (CC_Name c)" and ?P = "SegmentPrimaryName (CC_Name c)"
  define v where "v = (if srv_sts w ?ns ?M = None then w else logged (Op_Delete_Sts ?M) (w\<lparr>srv_sts := put2 ?ns ?M None (srv_sts w)\<rparr>))"
  have v: "requested ns ?P v = requested ns ?P w"
    by (simp add: v_def requested_def srv_get_sts_def put2_def assms(2))
  have "(case s_get_sts (srv_services b loc) ?ns ?M w of (Inl _, w2) \<Rightarrow> (None, w2) | (Inr _, w2) \<Rightarrow>
      (case s_delete_sts (srv_services b loc) ?ns ?M w2 of (Some NotFound, w3) \<Rightarrow> (None, w3) | (err, w3) \<Rightarrow> (err, w3))) = (None, v)"
    by (simp add: v_def srv_get_sts_def srv_services_def found_def split: option.split)
  then have "srv_sts w' = srv_sts v" using assms(1) True
    unfolding handleDisableMirroring_def srv_reconciler_simps srv_event_now Let_def
    by (auto split: prod.splits sum.splits if_splits dest!: step_facts)
  then show ?thesis using v requested_sts by metis
qed (use assms in \<open>simp add: handleDisableMirroring_def\<close>)

lemma apply_scale_out_requested:
  assumes "applyScaleOutStatefulSets srv_reconciler (srv_services b loc) c old json w = (res, w')" "builds_segments b (CC_Name c)" "stored c w"
    and "m = Seg_Count (Spec_Segments (CC_Spec c))" "requested (CC_Namespace c) (SegmentPrimaryName (CC_Name c)) w = Some old" "old < m"
  shows "grown (CC_Namespace c) (SegmentPrimaryName (CC_Name c)) m w w'"
proof -
  let ?ns = "CC_Namespace c" and ?n = "SegmentPrimaryName (CC_Name c)" and ?sv = "srv_services b loc"
  define d where "d = annotated annotationScaleState (Some json) c"
  define w1 where "w1 = logged (Op_Annotation annotationScaleState (Some json)) (set_cluster d w)"
  have 1: "setAnnotationPatch srv_reconciler c annotationScaleState json w = (Inr d, w1)"
    using assms(3) by (simp add: setAnnotationPatch_def exec_annotation d_def w1_def)
  have d: "CC_Namespace d = ?ns" "CC_Name d = CC_Name c" "CC_Spec d = CC_Spec c" by (simp_all add: d_def)
  have same: "grown ?ns ?n m w w1" by (rule grown_sts) (simp add: w1_def)
  have b: "builds_segments b (CC_Name d)" using assms(2) d by simp
  have new: "requested ?ns ?n v = Some m" if "createOrUpdateStatefulSet ?sv s w1 = (r, v)" "bld_primary b d = Inr s" for s r v
    using apply_requested [OF that(1)] builds_primary [OF b that(2)] d assms(4) by simp
  have both: "requested ?ns ?n v = Some m"
    if "createOrUpdateStatefulSet ?sv s w1 = (r, u)" "bld_primary b d = Inr s" "createOrUpdateStatefulSet ?sv s' u = (r', v)"
      "bld_mirror b d = Inr (Some s')" for s s' r r' u v
    using apply_other [OF that(3)] builds_other(1) [OF b that(4)] new [OF that(1,2)] d by metis
  have "grown ?ns ?n m w v" if "requested ?ns ?n v = Some m" for v
    using that assms(5,6) by (simp add: grown_def)
  then show ?thesis using assms(1) 1 same unfolding applyScaleOutStatefulSets_def srv_services_simps
    by (auto split: prod.splits sum.splits option.splits if_splits dest: new both)
qed

lemma scale_out_requested:
  assumes "handleScaleOut srv_reconciler (srv_services b loc) c old m w = (res, w')" "builds_segments b (CC_Name c)" "stored c w"
    and "m = Seg_Count (Spec_Segments (CC_Spec c))" "requested (CC_Namespace c) (SegmentPrimaryName (CC_Name c)) w = Some old" "old < m"
  shows "grown (CC_Namespace c) (SegmentPrimaryName (CC_Name c)) m w w'"
proof (cases "St_Phase (CC_Status c) = ClusterPhaseRunning")
  case True
  define t where "t = now_text srv_reconciler (srv_services b loc) w"
  define c1 where "c1 = annotated AnnotationScaleStarted (Some t) c"
  define w1 where "w1 = logged (Op_Annotation AnnotationScaleStarted (Some t)) (set_cluster c1 w)"
  have 1: "setAnnotationPatch srv_reconciler c AnnotationScaleStarted t w = (Inr c1, w1)"
    using assms(3) by (simp add: setAnnotationPatch_def exec_annotation c1_def w1_def)
  have c1: "stored c1 w1" "CC_Spec c1 = CC_Spec c" "CC_Namespace c1 = CC_Namespace c" "CC_Name c1 = CC_Name c" "srv_sts w1 = srv_sts w"
    by (simp_all add: w1_def c1_def)
  then have old: "requested (CC_Namespace c1) (SegmentPrimaryName (CC_Name c1)) w1 = Some old"
    using assms(5) by (simp add: requested_sts [OF c1(5)])
  have "grown (CC_Namespace c) (SegmentPrimaryName (CC_Name c)) m w v'"
    if "applyScaleOutStatefulSets srv_reconciler (srv_services b loc) c1 old json w1 = (r, v)" "srv_sts v' = srv_sts v" for json r v v'
    using apply_scale_out_requested [OF that(1) _ c1(1) _ old assms(6)] assms(2,4) c1 requested_sts [OF c1(5)] requested_sts [OF that(2)]
    by (simp add: grown_def)
  then show ?thesis using assms(1) True 1
    unfolding handleScaleOut_def srv_reconciler_simps srv_event_now Let_def t_def [symmetric]
    by (auto split: prod.splits sum.splits option.splits dest!: writes_sts)
qed (use assms in \<open>simp add: handleScaleOut_def grown_def\<close>)

lemma primary_requested:
  assumes "reconcileSegmentPrimary (srv_services b loc) c (found (map_option StatefulSet.truncate (srv_get_sts (CC_Namespace c) (SegmentPrimaryName (CC_Name c)) w))) w = (res, w')"
    and "builds_segments b (CC_Name c)" "m = Seg_Count (Spec_Segments (CC_Spec c))"
  shows "grown (CC_Namespace c) (SegmentPrimaryName (CC_Name c)) m w w'"
proof (cases "bld_primary b c")
  case (Inr s)
  note s = builds_primary [OF assms(2) Inr]
  let ?ns = "CC_Namespace c" and ?n = "SegmentPrimaryName (CC_Name c)"
  define t where "t = (case found (map_option StatefulSet.truncate (srv_get_sts ?ns ?n w)) of Inl _ \<Rightarrow> s
    | Inr old \<Rightarrow> keep_replicas (Sts_Replicas old) s)"
  obtain res' where run: "createOrUpdateStatefulSet (srv_services b loc) t w = (res', w')"
    using assms(1) Inr by (auto simp: reconcileSegmentPrimary_def t_def Let_def split: option.splits prod.splits)
  have t: "Sts_Namespace t = ?ns" "Sts_Name t = ?n"
    using s by (auto simp: t_def keep_replicas_def split: option.split sum.split)
  have "Sts_Replicas t = Some k \<or> k < m \<and> Sts_Replicas t = Some m" if "requested ?ns ?n w = Some k" for k
    using that s assms(3) by (auto simp: requested_def t_def keep_replicas_def StatefulSet.defs split: option.splits)
  then show ?thesis using apply_requested [OF run] t by (simp add: grown_def)
qed (use assms in \<open>simp add: reconcileSegmentPrimary_def grown_def\<close>)

lemma preserve_mirror:
  "preserveMirrorReplicasIfNeeded (srv_services b loc) s e w = (s', w') \<Longrightarrow> w' = w \<and> Sts_Name s' = Sts_Name s"
  by (auto simp: preserveMirrorReplicasIfNeeded_def keep_replicas_def split: if_splits sum.splits option.splits)

lemma segments_requested:
  assumes "reconcileSegments srv_reconciler (srv_services b loc) c w = (res, w')" "builds_segments b (CC_Name c)" "stored c w"
    and "SegmentPrimaryName (CC_Name c) \<noteq> SegmentMirrorName (CC_Name c)"
  shows "grown (CC_Namespace c) (SegmentPrimaryName (CC_Name c)) (Seg_Count (Spec_Segments (CC_Spec c))) w w'"
proof -
  let ?ns = "CC_Namespace c" and ?n = "SegmentPrimaryName (CC_Name c)" and ?sv = "srv_services b loc" and ?m = "Seg_Count (Spec_Segments (CC_Spec c))"
  define old where "old = found (map_option StatefulSet.truncate (srv_get_sts ?ns ?n w))"
  have get: "k_get_sts srv_client ?ns ?n w = (old, w)" by (simp add: srv_client_def old_def)
  show ?thesis
  proof (cases "detectAndHandleScale srv_reconciler ?sv c old w")
    case (Some handled)
    then have run: "handled = (res, w')" using assms(1) get by (simp add: reconcileSegments_def)
    from Some obtain s k where k: "old = Inr s" "Sts_Replicas s = Some k"
      by (auto simp: detectAndHandleScale_def split: sum.splits option.splits)
    then have "requested ?ns ?n w = Some k"
      by (auto simp: old_def found_def requested_def StatefulSet.defs split: option.splits)
    then show ?thesis using Some run k scale_out_requested [of b loc c k ?m w res w'] scale_in_requested [of ?sv c k ?m w res w'] assms(2,3)
      by (auto simp: detectAndHandleScale_def Let_def grown_sts split: if_splits)
  next
    case None
    have needed: "isMirroringEnableNeeded srv_reconciler c w = (e, w1) \<Longrightarrow> w1 = w" "isMirroringDisableNeeded srv_reconciler c w = (e, w1) \<Longrightarrow> w1 = w" for e w1
      by (auto simp: isMirroringEnableNeeded_def isMirroringDisableNeeded_def srv_client_def split: if_splits sum.splits api_error.splits)
    note run = assms(1) [unfolded reconcileSegments_def srv_reconciler_simps get prod.case None option.case]
    consider "handleEnableMirroring srv_reconciler ?sv c w = (res, w')" | "handleDisableMirroring srv_reconciler ?sv c w = (res, w')"
      | e v where "reconcileSegmentPrimary ?sv c old w = (e, v)" "w' = v \<or> (\<exists>s s' r. bld_mirror b c = Inr (Some s) \<and>
          createOrUpdateStatefulSet ?sv s' v = (r, w') \<and> Sts_Name s' = Sts_Name s)"
      using run needed by (auto split: prod.splits sum.splits option.splits bool.splits if_splits dest!: preserve_mirror)
    then show ?thesis
    proof cases
      case 1 then show ?thesis using enable_requested assms(2) by (simp add: grown_same)
    next
      case 2 then show ?thesis using disable_requested assms(4) by (simp add: grown_same)
    next
      case 3
      then have v: "grown ?ns ?n ?m w v" using primary_requested assms(2) by (simp add: old_def)
      from 3(2) have "requested ?ns ?n w' = requested ?ns ?n v"
        using apply_other builds_other(1) [OF assms(2)] by metis
      then show ?thesis using v grown_same grown_trans by blast
    qed
  qed
qed

lemma apply_cluster: "createOrUpdateStatefulSet (srv_services b loc) s w = (res, w') \<Longrightarrow> srv_cluster w' = srv_cluster w"
  by (auto simp: createOrUpdateStatefulSet_def srv_services_def found_def change_sts_def map_snd_def Let_def split: option.splits if_splits)

lemma coordinator_cluster: "reconcileCoordinator (srv_services b loc) c w = (res, w') \<Longrightarrow> srv_cluster w' = srv_cluster w"
  by (auto simp: reconcileCoordinator_def applyBuilt_def split: sum.splits dest: apply_cluster)

lemma standby_cluster: "reconcileStandby (srv_services b loc) c w = (res, w') \<Longrightarrow> srv_cluster w' = srv_cluster w"
  by (auto simp: reconcileStandby_def applyBuilt_def split: sum.splits option.splits dest: apply_cluster)

lemma statefulsets_requested:
  assumes "builds_segments b (CC_Name c)" "stored c w" "SegmentPrimaryName (CC_Name c) \<noteq> SegmentMirrorName (CC_Name c)"
    and "reconcileStatefulSets srv_reconciler (srv_services b loc) c w = (res, w')"
  shows "grown (CC_Namespace c) (SegmentPrimaryName (CC_Name c)) (Seg_Count (Spec_Segments (CC_Spec c))) w w'"
proof -
  let ?ns = "CC_Namespace c" and ?n = "SegmentPrimaryName (CC_Name c)" and ?m = "Seg_Count (Spec_Segments (CC_Spec c))"
  let ?sv = "srv_services b loc"
  have segments: "grown ?ns ?n ?m w v"
    if "reconcileSegments srv_reconciler ?sv c u = (r, v)" "requested ?ns ?n u = requested ?ns ?n w" "srv_cluster u = srv_cluster w" for r u v
    using segments_requested [OF that(1) assms(1) _ assms(3)] assms(2) stored_cong [OF that(3)] that(2) by (simp add: grown_def)
  show ?thesis
  proof (cases "scaleOutInProgress c")
    case False
    obtain e1 w1 where 1: "reconcileCoordinator ?sv c w = (e1, w1)" by fastforce
    define standby where "standby = (case Spec_Standby (CC_Spec c) of None \<Rightarrow> False | Some s \<Rightarrow> Standby_Enabled s)"
    obtain e2 w2 where 2: "(if standby then reconcileStandby ?sv c w1 else (None, w1)) = (e2, w2)" by fastforce
    have r: "requested ?ns ?n w1 = requested ?ns ?n w" "requested ?ns ?n w2 = requested ?ns ?n w" "srv_cluster w2 = srv_cluster w"
      using 1 2 coordinator_requested [OF 1 assms(1)] standby_requested [OF _ assms(1)] coordinator_cluster [OF 1] standby_cluster
      by (fastforce split: if_splits)+
    show ?thesis using assms(4) False 1 2 r segments [OF _ r(2,3)]
      unfolding reconcileStatefulSets_def standby_def [symmetric] if_not_P [OF False] 1 prod.case 2
      by (auto split: option.splits prod.splits intro: grown_same)
  qed (use assms(4) in \<open>simp add: reconcileStatefulSets_def grown_def\<close>)
qed

text \<open>
  When the read of the primaries fails with an error, the detection of a scale operation is skipped and
  so is the guard that keeps the replicas: the update then lowers them to the segment count, without a
  confirmation and without moving the data.
\<close>

lemma failed_read_lowers_primaries:
  assumes "builds_segments b (CC_Name c)" "bld_primary b c = Inr s"
    and "reconcileSegmentPrimary (srv_services b loc) c (Inl err) w = (res, w')"
  shows "detectAndHandleScale r sv c (Inl err) v = None \<and>
    requested (CC_Namespace c) (SegmentPrimaryName (CC_Name c)) w' = Some (Seg_Count (Spec_Segments (CC_Spec c)))"
proof
  show "detectAndHandleScale r sv c (Inl err) v = None" by (simp add: detectAndHandleScale_def)
  obtain res' where "createOrUpdateStatefulSet (srv_services b loc) s w = (res', w')"
    using assms(2,3) by (auto simp: reconcileSegmentPrimary_def Let_def split: option.splits prod.splits)
  from apply_requested [OF this] show "requested (CC_Namespace c) (SegmentPrimaryName (CC_Name c)) w' = Some (Seg_Count (Spec_Segments (CC_Spec c)))"
    using builds_primary [OF assms(1,2)] by simp
qed

section \<open>Property\<close>

text \<open>
  C31. While the StatefulSets can be read, their reconciliation never shrinks the primaries: on the
  reference API server, whose reads succeed, with the StatefulSets of the repository's builder and a
  cluster name that is a DNS label of at most 43 characters, whatever the spec asks for and whichever
  branch it takes (the start of a scale operation, mirroring switched on or off, the plain update, an
  error of a builder on the way), the primaries afterwards request the replicas they had, or the
  segment count of the spec when that is larger.
\<close>

theorem primaries_never_shrink:
  assumes "dns_label (CC_Name c)" "length (CC_Name c) \<le> 43" "stored c w"
    and "srv_get_sts (CC_Namespace c) (SegmentPrimaryName (CC_Name c)) w = Some s" "Sts_Replicas s = Some k"
    and "reconcileStatefulSets srv_reconciler (srv_services (default_builder pods gpexpand maintenance) loc) c w = (res, w')"
  shows "\<exists>s'. srv_get_sts (CC_Namespace c) (SegmentPrimaryName (CC_Name c)) w' = Some s' \<and>
    (Sts_Replicas s' = Some k \<or>
     k < Seg_Count (Spec_Segments (CC_Spec c)) \<and> Sts_Replicas s' = Some (Seg_Count (Spec_Segments (CC_Spec c))))"
proof -
  have "SegmentPrimaryName (CC_Name c) \<noteq> SegmentMirrorName (CC_Name c)" using component_names_apart [OF assms(1,2)] by simp
  from statefulsets_requested [OF default_builds [OF assms(1,2)] assms(3) this assms(6)]
  show ?thesis using assms(4,5) by (auto simp: grown_def requested_def split: option.splits)
qed

theorem primaries_never_shrink_witness:
  "\<exists>s'. srv_get_sts ''ns'' ''c-segment-primary''
       (snd (reconcileStatefulSets srv_reconciler
          (srv_services (default_builder (\<lambda>_ _. Inr \<lparr>Tpl_Containers = [], Tpl_Annotations = Map.empty\<rparr>) (\<lambda>c a b t. None) (\<lambda>c op t. failed_job)) UTC)
          base_cluster (sample_store base_cluster 6 []))) = Some s' \<and>
     Sts_Replicas s' = Some 6"
proof -
  have c: "CC_Namespace base_cluster = ''ns''" "CC_Name base_cluster = ''c''" "Seg_Count (Spec_Segments (CC_Spec base_cluster)) = 4"
    "base_cluster\<lparr>CC_Namespace := ''ns'', CC_Name := ''c''\<rparr> = base_cluster"
    by (simp_all add: base_cluster_def base_spec_def)
  have n: "SegmentPrimaryName ''c'' = ''c-segment-primary''" by code_simp
  have label: "dns_label (CC_Name base_cluster)" unfolding c by code_simp
  have "stored base_cluster (sample_store base_cluster 6 [])" by (simp add: stored_def c)
  from primaries_never_shrink [OF label _ this _ _ prod.collapse [symmetric], of "sample_sts ''c-segment-primary'' 6" 6]
  show ?thesis by (simp add: c n) (simp add: sample_sts_def)
qed

end
