(* ===== verification/Glob.thy ===== *)
theory Glob
  imports Prelude
begin

text \<open>
  \<^verbatim>\<open>filepath.Match\<close> of Go's standard library on a system with \<^verbatim>\<open>/\<close> as the separator, as the controller
  uses it for exclusion patterns: the pattern is cut into chunks at its stars, a chunk is matched at
  the current position or, after a star, at the first position that fits. A malformed pattern is an
  error, which the callers take for no match; here it is \<open>None\<close> in a chunk and \<open>False\<close> as a whole.
\<close>

section \<open>Model\<close>

text \<open>The first rune of a byte string: its value and its width; an invalid byte is U+FFFD.\<close>

fun rune_value :: "nat list \<Rightarrow> nat" where
  "rune_value bs =
     (case (rune_width bs, bs) of
        (Suc 0, b0 # _) \<Rightarrow> if b0 < 128 then b0 else 65533
      | (Suc (Suc 0), b0 # b1 # _) \<Rightarrow> (b0 - 192) * 64 + (b1 - 128)
      | (Suc (Suc (Suc 0)), b0 # b1 # b2 # _) \<Rightarrow> ((b0 - 224) * 64 + (b1 - 128)) * 64 + (b2 - 128)
      | (_, b0 # b1 # b2 # b3 # _) \<Rightarrow> (((b0 - 240) * 64 + (b1 - 128)) * 64 + (b2 - 128)) * 64 + (b3 - 128)
      | _ \<Rightarrow> 65533)"

definition rune_of :: "string \<Rightarrow> nat" where
  "rune_of s = rune_value (map of_char s)"

definition after_rune :: "string \<Rightarrow> string" where
  "after_rune s = drop (rune_width (map of_char s)) s"

abbreviation Separator :: char where "Separator \<equiv> CHR ''/''"
abbreviation Backslash :: char where "Backslash \<equiv> CHR 0x5C"

definition getEsc :: "string \<Rightarrow> (nat \<times> string) option" where
  "getEsc chunk =
     (if chunk = [] \<or> hd chunk = CHR ''-'' \<or> hd chunk = CHR '']'' then None
      else let chunk1 = (if hd chunk = Backslash then tl chunk else chunk)
           in if chunk1 = [] then None
              else if rune_of chunk1 = 65533 \<and> rune_width (map of_char chunk1) = 1 then None
              else if after_rune chunk1 = [] then None
              else Some (rune_of chunk1, after_rune chunk1))"

lemma after_rune_shorter: "s \<noteq> [] \<Longrightarrow> length (after_rune s) < length s"
  using rune_width_pos [of "map of_char s"] by (simp add: after_rune_def)

lemma getEsc_shorter: "getEsc chunk = Some (r, rest) \<Longrightarrow> length rest < length chunk"
  using after_rune_shorter [of chunk] after_rune_shorter [of "tl chunk"]
  by (cases chunk) (auto simp: getEsc_def Let_def split: if_splits)

text \<open>The ranges of a class up to its closing bracket: whether the rune is in one, and what follows.\<close>

function match_ranges :: "nat \<Rightarrow> bool \<Rightarrow> nat \<Rightarrow> string \<Rightarrow> (bool \<times> string) option" where
  "match_ranges r m nrange chunk =
     (if chunk \<noteq> [] \<and> hd chunk = CHR '']'' \<and> 0 < nrange then Some (m, tl chunk)
      else case getEsc chunk of
        None \<Rightarrow> None
      | Some (lo, chunk1) \<Rightarrow>
          (case (if hd chunk1 = CHR ''-'' then getEsc (tl chunk1) else Some (lo, chunk1)) of
             None \<Rightarrow> None
           | Some (hi, chunk2) \<Rightarrow> match_ranges r (m \<or> lo \<le> r \<and> r \<le> hi) (nrange + 1) chunk2))"
  by pat_completeness auto
termination
proof (relation "measure (\<lambda>(r, m, n, chunk). length chunk)")
  fix r m nrange chunk x lo chunk1 y hi chunk2
  assume "getEsc chunk = Some x" "(lo, chunk1) = x"
    and "(if hd chunk1 = CHR ''-'' then getEsc (tl chunk1) else Some (lo, chunk1)) = Some y" "(hi, chunk2) = y"
  then have "length chunk1 < length chunk" "length chunk2 \<le> length chunk1"
    using getEsc_shorter [of chunk lo chunk1] getEsc_shorter [of "tl chunk1" hi chunk2]
    by (auto split: if_splits)
  then show "((r, m \<or> lo \<le> r \<and> r \<le> hi, nrange + 1, chunk2), (r, m, nrange, chunk)) \<in> measure (\<lambda>(r, m, n, chunk). length chunk)"
    by simp
qed simp

declare match_ranges.simps [simp del]

lemma match_ranges_shorter: "match_ranges r m n chunk = Some (b, rest) \<Longrightarrow> length rest < length chunk"
proof (induction r m n chunk rule: match_ranges.induct)
  case (1 r m nrange chunk)
  show ?case
  proof (cases "chunk \<noteq> [] \<and> hd chunk = CHR '']'' \<and> 0 < nrange")
    case True
    then have "rest = tl chunk" "chunk \<noteq> []" using "1.prems" by (simp_all add: match_ranges.simps [of r m nrange chunk])
    then show ?thesis by (cases chunk) simp_all
  next
    case False
    with "1.prems" obtain lo chunk1 hi chunk2 where
      e: "getEsc chunk = Some (lo, chunk1)" "(if hd chunk1 = CHR ''-'' then getEsc (tl chunk1) else Some (lo, chunk1)) = Some (hi, chunk2)"
      "match_ranges r (m \<or> lo \<le> r \<and> r \<le> hi) (nrange + 1) chunk2 = Some (b, rest)"
      by (auto simp: match_ranges.simps [of r m nrange chunk] split: option.splits)
    have "length rest < length chunk2" using "1.IH" [OF False e(1) refl e(2) refl e(3)] .
    moreover have "length chunk2 \<le> length chunk1" using e(2) getEsc_shorter [of "tl chunk1" hi chunk2] by (auto split: if_splits)
    ultimately show ?thesis using getEsc_shorter [OF e(1)] by simp
  qed
qed

text \<open>\<open>None\<close> is a malformed pattern, \<open>Some None\<close> no match, \<open>Some (Some rest)\<close> a match and what is left.\<close>

function matchChunk :: "bool \<Rightarrow> string \<Rightarrow> string \<Rightarrow> string option option" where
  "matchChunk failed chunk s =
     (if chunk = [] then Some (if failed then None else Some s)
      else let failed1 = failed \<or> s = []; c = hd chunk
           in if c = CHR ''['' then
                (let negated = (tl chunk \<noteq> [] \<and> hd (tl chunk) = CHR ''^'')
                 in case match_ranges (if failed1 then 0 else rune_of s) False 0 (if negated then tl (tl chunk) else tl chunk) of
                      None \<Rightarrow> None
                    | Some (m, rest) \<Rightarrow> matchChunk (failed1 \<or> m = negated) rest (if failed1 then s else after_rune s))
              else if c = CHR ''?'' then
                matchChunk (failed1 \<or> hd s = Separator) (tl chunk) (if failed1 then s else after_rune s)
              else let lit = (if c = Backslash then tl chunk else chunk)
                   in if lit = [] then None
                      else matchChunk (failed1 \<or> hd lit \<noteq> hd s) (tl lit) (if failed1 then s else tl s))"
  by pat_completeness auto
termination
proof (relation "measure (\<lambda>(f, chunk, s). length chunk)", goal_cases)
  case (2 failed chunk s failed1 c negated x m rest)
  then have "length rest < length (if negated then tl (tl chunk) else tl chunk)" using match_ranges_shorter by fastforce
  then show ?case using 2 by (cases chunk) (auto split: if_splits)
next
  case (4 failed chunk s failed1 c lit)
  then show ?case by (cases chunk) (auto split: if_splits)
qed (auto simp: neq_Nil_conv)

declare matchChunk.simps [simp del]

text \<open>The chunk up to the next star outside a class, and the rest of the pattern.\<close>

fun scan_body :: "bool \<Rightarrow> string \<Rightarrow> string \<times> string" where
  "scan_body inrange [] = ([], [])"
| "scan_body inrange (c # cs) =
     (if c = Backslash then
        (case cs of [] \<Rightarrow> ([c], [])
         | d # ds \<Rightarrow> (case scan_body inrange ds of (chunk, rest) \<Rightarrow> (c # d # chunk, rest)))
      else if c = CHR ''*'' \<and> \<not> inrange then ([], c # cs)
      else case scan_body (if c = CHR ''['' then True else if c = CHR '']'' then False else inrange) cs of
             (chunk, rest) \<Rightarrow> (c # chunk, rest))"

definition scanChunk :: "string \<Rightarrow> bool \<times> string \<times> string" where
  "scanChunk pattern =
     (pattern \<noteq> [] \<and> hd pattern = CHR ''*'', scan_body False (dropWhile (\<lambda>c. c = CHR ''*'') pattern))"

lemma scan_body_length: "scan_body r p = (chunk, rest) \<Longrightarrow> length chunk + length rest = length p"
proof (induction r p arbitrary: chunk rest rule: scan_body.induct)
  case (2 inrange c cs)
  let ?r = "if c = CHR ''['' then True else if c = CHR '']'' then False else inrange"
  consider "c = Backslash" "cs = []" | d ds where "c = Backslash" "cs = d # ds"
    | "c \<noteq> Backslash" "c = CHR ''*'' \<and> \<not> inrange" | "c \<noteq> Backslash" "\<not> (c = CHR ''*'' \<and> \<not> inrange)"
    by (cases cs) auto
  then show ?case
  proof cases
    case (2 d ds)
    then show ?thesis using "2.prems" "2.IH"(1) by (cases "scan_body inrange ds") auto
  next
    case 4
    obtain a b where ab: "scan_body ?r cs = (a, b)" by fastforce
    then have "chunk = c # a" "rest = b" using "2.prems" 4 by (simp_all only: scan_body.simps if_False prod.case) auto
    then show ?thesis using "2.IH"(2) [OF 4 ab] by simp
  qed (use "2.prems" in auto)
qed simp

lemma scan_shorter:
  assumes "p \<noteq> []" "scanChunk p = (star, chunk, rest)"
  shows "length rest < length p"
proof (cases "hd p = CHR ''*''")
  case True
  then have "length (dropWhile (\<lambda>c. c = CHR ''*'') p) < length p" using assms(1) length_dropWhile_le
    by (cases p) (auto simp: less_Suc_eq_le)
  then show ?thesis using assms(2) scan_body_length [of False "dropWhile (\<lambda>c. c = CHR ''*'') p" chunk rest]
    by (simp add: scanChunk_def)
next
  case False
  then obtain c cs where p: "p = c # cs" "c \<noteq> CHR ''*''" using assms(1) by (cases p) auto
  then have body: "scan_body False p = (chunk, rest)" using assms(2) by (simp add: scanChunk_def)
  have "chunk \<noteq> []"
  proof (cases "c = Backslash")
    case True
    then show ?thesis using body p by (cases cs) (auto split: prod.splits)
  next
    case False
    then show ?thesis using body p by (auto split: prod.splits)
  qed
  then show ?thesis using scan_body_length [OF body] by (cases chunk) auto
qed

text \<open>The positions a star can skip to: the first one where the chunk fits, if it is the last chunk up to the end.\<close>

fun skip_match :: "string \<Rightarrow> bool \<Rightarrow> string \<Rightarrow> string option" where
  "skip_match chunk final [] = None"
| "skip_match chunk final (c # cs) =
     (if c = Separator then None
      else case matchChunk False chunk cs of
        None \<Rightarrow> None
      | Some None \<Rightarrow> skip_match chunk final cs
      | Some (Some t) \<Rightarrow> if final \<and> t \<noteq> [] then skip_match chunk final cs else Some t)"

function Match :: "string \<Rightarrow> string \<Rightarrow> bool" where
  "Match pattern name =
     (if pattern = [] then name = []
      else case scanChunk pattern of (star, chunk, rest) \<Rightarrow>
        if star \<and> chunk = [] then Separator \<notin> set name
        else case matchChunk False chunk name of
          None \<Rightarrow> False
        | Some hit \<Rightarrow>
            (case (case hit of Some t \<Rightarrow> if t = [] \<or> rest \<noteq> [] then Some t else None | None \<Rightarrow> None) of
               Some t \<Rightarrow> Match rest t
             | None \<Rightarrow> (if star then (case skip_match chunk (rest = []) name of None \<Rightarrow> False | Some t \<Rightarrow> Match rest t) else False)))"
  by pat_completeness auto
termination
  by (relation "measure (\<lambda>(p, n). length p)") (auto dest: scan_shorter [OF _ sym] scan_shorter)

declare Match.simps [simp del]

section \<open>Plain names and prefixes\<close>

definition plain :: "string \<Rightarrow> bool" where
  "plain p \<longleftrightarrow> list_all (\<lambda>c. c \<noteq> CHR ''*'' \<and> c \<noteq> CHR ''?'' \<and> c \<noteq> CHR ''['' \<and> c \<noteq> Backslash) p"

lemma plain_simps [simp]: "plain []"
  "plain (c # cs) \<longleftrightarrow> c \<noteq> CHR ''*'' \<and> c \<noteq> CHR ''?'' \<and> c \<noteq> CHR ''['' \<and> c \<noteq> Backslash \<and> plain cs"
  by (simp_all add: plain_def)

lemma matchChunk_literal:
  assumes "c \<noteq> CHR ''?''" "c \<noteq> CHR ''[''" "c \<noteq> Backslash"
  shows "matchChunk f (c # cs) s = matchChunk (f \<or> s = [] \<or> c \<noteq> hd s) cs (if f \<or> s = [] then s else tl s)"
  using assms by (simp add: matchChunk.simps [of f "c # cs" s])

lemma matchChunk_failed: "plain p \<Longrightarrow> matchChunk True p s = Some None"
  by (induction p) (simp_all add: matchChunk_literal matchChunk.simps [of _ "[]"])

lemma matchChunk_plain: "plain p \<Longrightarrow> matchChunk False p s = Some (if take (length p) s = p then Some (drop (length p) s) else None)"
proof (induction p arbitrary: s)
  case (Cons c p)
  show ?case
  proof (cases s)
    case (Cons d t)
    then show ?thesis using Cons.IH Cons.prems matchChunk_failed [of p t] by (cases "c = d") (simp_all add: matchChunk_literal)
  qed (use Cons.prems in \<open>simp add: matchChunk_literal matchChunk_failed\<close>)
qed (simp add: matchChunk.simps)

lemma scan_body_plain: "plain p \<Longrightarrow> scan_body False (p @ CHR ''*'' # q) = (p, CHR ''*'' # q)" "plain p \<Longrightarrow> scan_body False p = (p, [])"
  by (induction p) auto

lemma dropWhile_plain: "plain p \<Longrightarrow> p \<noteq> [] \<Longrightarrow> dropWhile (\<lambda>c. c = CHR ''*'') (p @ q) = p @ q"
  by (cases p) auto

lemma scan_plain: "plain p \<Longrightarrow> p \<noteq> [] \<Longrightarrow> scanChunk p = (False, p, [])"
  "plain p \<Longrightarrow> p \<noteq> [] \<Longrightarrow> scanChunk (p @ ''*'') = (False, p, ''*'')"
  using dropWhile_plain [of p "[]"] dropWhile_plain [of p "''*''"] scan_body_plain [of p] scan_body_plain(1) [of p "[]"]
  by (cases p; simp add: scanChunk_def)+

lemma Match_star: "Match ''*'' s \<longleftrightarrow> Separator \<notin> set s"
  by (simp add: Match.simps [of "''*''"] scanChunk_def)

lemma Match_plain:
  assumes "plain p"
  shows "Match p s \<longleftrightarrow> s = p"
proof (cases p)
  case Nil
  then show ?thesis by (simp add: Match.simps)
next
  case Cons
  then have scan: "scanChunk p = (False, p, [])" "p \<noteq> []" using scan_plain(1) [OF assms] by simp_all
  then show ?thesis by (auto simp: Match.simps [of p] matchChunk_plain assms Match.simps [of "[]"])
qed

lemma Match_prefix:
  assumes "plain p"
  shows "Match (p @ ''*'') s \<longleftrightarrow> (\<exists>t. s = p @ t \<and> Separator \<notin> set t)"
proof (cases p)
  case Nil
  then show ?thesis by (simp add: Match_star)
next
  case Cons
  then have scan: "scanChunk (p @ ''*'') = (False, p, ''*'')" "p \<noteq> []" using scan_plain(2) [OF assms] by simp_all
  have "Match (p @ ''*'') s \<longleftrightarrow> take (length p) s = p \<and> Separator \<notin> set (drop (length p) s)"
    by (simp add: Match.simps [of "p @ ''*''"] scan matchChunk_plain assms Match_star)
  also have "\<dots> \<longleftrightarrow> (\<exists>t. s = p @ t \<and> Separator \<notin> set t)"
  proof
    assume h: "take (length p) s = p \<and> Separator \<notin> set (drop (length p) s)"
    then have "s = p @ drop (length p) s" by (metis append_take_drop_id)
    with h show "\<exists>t. s = p @ t \<and> Separator \<notin> set t" by blast
  qed auto
  finally show ?thesis .
qed

end
