(* ===== verification/HighAvailability.thy ===== *)
theory HighAvailability
  imports Complex_Main Glob Deletion
begin

text \<open>
  The high-availability controller, after \<^verbatim>\<open>internal/controller/ha_controller.go\<close>: requests found in the
  annotations (standby activation, rebalance, recovery), else the periodic health checks (the fault
  tolerance probe with its failover, and the replication lag of the standby).
\<close>

section \<open>Model\<close>

subsection \<open>Data\<close>

record SegmentInfo =
  Seg_ContentID :: int32
  Seg_DBID :: int32
  Seg_Role :: string
  Seg_PreferredRole :: string
  Seg_Mode :: string
  Seg_Status :: string
  Seg_Hostname :: string
  Seg_Address :: string
  Seg_Port :: int32
  Seg_DataDirectory :: string
  Seg_ReplicationLag :: int64

text \<open>
  The skew is a percentage, a \<^verbatim>\<open>float64\<close>: a finite one is a rational, and the 32-bit thresholds it is
  compared with are exact.
\<close>

datatype float64_value = F_Finite rat | F_NaN | F_PosInf | F_NegInf

fun float64_ge :: "float64_value \<Rightarrow> rat \<Rightarrow> bool" where
  "float64_ge (F_Finite q) x \<longleftrightarrow> x \<le> q"
| "float64_ge F_PosInf x \<longleftrightarrow> True"
| "float64_ge F_NaN x \<longleftrightarrow> False"
| "float64_ge F_NegInf x \<longleftrightarrow> False"

record TableSkewInfo =
  Skew_Database :: string
  Skew_Schema :: string
  Skew_Table :: string
  Skew_Coefficient :: float64_value
  Skew_DistributionKey :: string
  Skew_RowCount :: int64

text \<open>The operations of \<^verbatim>\<open>db.Client\<close> the controller calls; an error is its text.\<close>

record 'w ha_db =
  h_new :: "CloudberryCluster \<Rightarrow> 'w \<Rightarrow> (string + unit) \<times> 'w"
  h_segments :: "'w \<Rightarrow> (string + SegmentInfo list) \<times> 'w"
  h_trigger_fts :: "'w \<Rightarrow> string option \<times> 'w"
  h_mirror_sync :: "'w \<Rightarrow> 'w"
  h_replication_lag :: "'w \<Rightarrow> (string + int64) \<times> 'w"
  h_list_databases :: "'w \<Rightarrow> (string + string list) \<times> 'w"
  h_analyze_skew :: "string \<Rightarrow> 'w \<Rightarrow> (string + TableSkewInfo list) \<times> 'w"
  h_rebalance_table :: "TableSkewInfo \<Rightarrow> 'w \<Rightarrow> string option \<times> 'w"
  h_promote_standby :: "'w \<Rightarrow> string option \<times> 'w"
  h_close :: "'w \<Rightarrow> 'w"

text \<open>
  The reconciler: its client and intervals, the Job operations and the builder among the services,
  the database factory, which may be nil, the status patch of the probe, and the order in which the
  workers of a rebalance get their statements to the database, by the number of slots and of tables.
\<close>

record 'w ha_reconciler =
  ha_base :: "'w reconciler"
  ha_services :: "'w services"
  ha_dbFactory :: "'w ha_db option"
  ha_patch_fts :: "string \<Rightarrow> string \<Rightarrow> MirroringStatus \<Rightarrow> FailedSegment list \<Rightarrow> 'w \<Rightarrow> (api_error + CloudberryCluster) \<times> 'w"
  ha_schedule :: "int32 \<Rightarrow> nat \<Rightarrow> 'w \<Rightarrow> nat list"

subsection \<open>Constants\<close>

abbreviation AnnotationRecovery :: string where "AnnotationRecovery \<equiv> ''avsoft.io/recovery''"
abbreviation AnnotationRebalanceJob :: string where "AnnotationRebalanceJob \<equiv> ''avsoft.io/rebalance-job''"
abbreviation ActionRebalance :: string where "ActionRebalance \<equiv> ''rebalance''"
abbreviation ActionActivateStandby :: string where "ActionActivateStandby \<equiv> ''activate-standby''"
abbreviation MaintenanceRebalance :: string where "MaintenanceRebalance \<equiv> ''rebalance''"
abbreviation ConditionStandbyReady :: string where "ConditionStandbyReady \<equiv> ''StandbyReady''"
abbreviation defaultSkewThreshold :: int32 where "defaultSkewThreshold \<equiv> 10"
abbreviation defaultParallelism :: int32 where "defaultParallelism \<equiv> 2"
abbreviation requeueAfterRebalanceJob :: int where "requeueAfterRebalanceJob \<equiv> 15000000000"

definition error_text :: "ctrl_error \<Rightarrow> string" where
  "error_text e = (case e of Ctrl_Error ctx (Other_Error []) \<Rightarrow> ctx | Ctrl_Error ctx (Other_Error msg) \<Rightarrow> ctx @ '': '' @ msg
     | Ctrl_Error ctx _ \<Rightarrow> ctx)"

definition ha_event :: "'w ha_reconciler \<Rightarrow> CloudberryCluster \<Rightarrow> string \<Rightarrow> string \<Rightarrow> 'w \<Rightarrow> 'w" where
  "ha_event r = k_event (r_client (ha_base r))"

definition ha_condition :: "'w ha_reconciler \<Rightarrow> string \<Rightarrow> string \<Rightarrow> string \<Rightarrow> string \<Rightarrow> CloudberryCluster \<Rightarrow> 'w \<Rightarrow> CloudberryCluster" where
  "ha_condition r t s reason message cluster w = with_condition (k_now (r_client (ha_base r)) w) t s reason message cluster"

subsection \<open>Probe settings\<close>

definition probeInterval :: "CloudberryCluster \<Rightarrow> int" where
  "probeInterval cluster =
     (case Spec_HA (CC_Spec cluster) of None \<Rightarrow> 60 * Second
      | Some ha \<Rightarrow> if HA_FTSProbeInterval ha > 0 then HA_FTSProbeInterval ha * Second else 60 * Second)"

definition probeRetries :: "CloudberryCluster \<Rightarrow> int" where
  "probeRetries cluster =
     (case Spec_HA (CC_Spec cluster) of None \<Rightarrow> 5 | Some ha \<Rightarrow> if HA_FTSProbeRetries ha > 0 then HA_FTSProbeRetries ha else 5)"

text \<open>The attempts of the probe; the timeout of an attempt is part of the call.\<close>

fun probe_attempts :: "'w ha_db \<Rightarrow> nat \<Rightarrow> string \<Rightarrow> 'w \<Rightarrow> (string + SegmentInfo list) \<times> 'w" where
  "probe_attempts db 0 lastErr w = (Inl lastErr, w)"
| "probe_attempts db (Suc n) lastErr w =
     (case h_segments db w of
        (Inr segments, w1) \<Rightarrow> (Inr segments, w1)
      | (Inl err, w1) \<Rightarrow> probe_attempts db n err w1)"

definition probeSegmentConfigWithRetries :: "CloudberryCluster \<Rightarrow> 'w ha_db \<Rightarrow> 'w \<Rightarrow> (ctrl_error + SegmentInfo list) \<times> 'w" where
  "probeSegmentConfigWithRetries cluster db w =
     (case probe_attempts db (nat (probeRetries cluster)) [] w of
        (Inr segments, w1) \<Rightarrow> (Inr segments, w1)
      | (Inl err, w1) \<Rightarrow>
          (Inl (Ctrl_Error (''getting segment configuration after '' @ show_int (probeRetries cluster) @ '' retries'') (Other_Error err)), w1))"

subsection \<open>Fault tolerance probe\<close>

record segmentAnalysisResult =
  failedSegments :: "FailedSegment list"
  failedPrimaries :: "SegmentInfo list"
  allHealthy :: bool

fun analyze_loop :: "segmentAnalysisResult \<Rightarrow> SegmentInfo list \<Rightarrow> segmentAnalysisResult" where
  "analyze_loop result [] = result"
| "analyze_loop result (seg # segs) =
     (if Seg_ContentID seg < 0 \<or> Seg_Status seg = ''u'' then analyze_loop result segs
      else analyze_loop (result\<lparr>
             allHealthy := False,
             failedSegments := failedSegments result @ [\<lparr>FS_ContentID = Seg_ContentID seg, FS_Hostname = Seg_Hostname seg,
               FS_Role = Seg_Role seg, FS_Status = Seg_Status seg\<rparr>],
             failedPrimaries := failedPrimaries result @ (if Seg_Role seg = ''p'' then [seg] else [])\<rparr>) segs)"

definition analyzeSegments :: "SegmentInfo list \<Rightarrow> segmentAnalysisResult" where
  "analyzeSegments segments = analyze_loop \<lparr>failedSegments = [], failedPrimaries = [], allHealthy = True\<rparr> segments"

text \<open>The last segment of a content and role in the list, as in the map the code builds.\<close>

definition updatedMap :: "SegmentInfo list \<Rightarrow> int32 \<Rightarrow> string \<Rightarrow> SegmentInfo option" where
  "updatedMap segments content role = find (\<lambda>s. Seg_ContentID s = content \<and> Seg_Role s = role) (rev segments)"

definition failover_message :: "SegmentInfo list \<Rightarrow> SegmentInfo \<Rightarrow> string" where
  "failover_message updated fp =
     (case updatedMap updated (Seg_ContentID fp) ''p'' of
        Some mirror \<Rightarrow>
          if Seg_DBID mirror \<noteq> Seg_DBID fp
          then ''Segment failover completed: contentID='' @ show_int (Seg_ContentID fp) @ '', original primary='' @
            Seg_Hostname fp @ '', new primary='' @ Seg_Hostname mirror
          else ''Primary segment failed: contentID='' @ show_int (Seg_ContentID fp) @ '', hostname='' @ Seg_Hostname fp @
            '', mirror promotion pending''
      | None \<Rightarrow> ''Primary segment failed: contentID='' @ show_int (Seg_ContentID fp) @ '', hostname='' @ Seg_Hostname fp @
          '', mirror promotion pending'')"

definition handleFailover ::
  "'w ha_reconciler \<Rightarrow> CloudberryCluster \<Rightarrow> 'w ha_db \<Rightarrow> SegmentInfo list \<Rightarrow> 'w \<Rightarrow> ctrl_error option \<times> 'w" where
  "handleFailover r cluster db failed w =
     (case h_trigger_fts db w of
        (_, w1) \<Rightarrow>
          (case h_segments db w1 of
             (Inl err, w2) \<Rightarrow>
               (Some (Ctrl_Error ''re-reading segment configuration after failover'' (Other_Error err)),
                fold (\<lambda>fp. ha_event r cluster ''SegmentFailover''
                  (''Primary segment failover detected: contentID='' @ show_int (Seg_ContentID fp) @ '', hostname='' @ Seg_Hostname fp))
                  failed w2)
           | (Inr updated, w2) \<Rightarrow>
               (None, fold (\<lambda>fp. ha_event r cluster ''SegmentFailover'' (failover_message updated fp)) failed w2)))"

definition updateFTSProbeStatus :: "'w ha_reconciler \<Rightarrow> CloudberryCluster \<Rightarrow> segmentAnalysisResult \<Rightarrow> 'w \<Rightarrow> CloudberryCluster \<times> 'w" where
  "updateFTSProbeStatus r cluster analysis w =
     (let status = (CC_Status cluster)\<lparr>St_FailedSegments := failedSegments analysis,
            St_MirroringStatus := (if allHealthy analysis then MirroringInSync else MirroringDegraded)\<rparr>;
          cluster1 = cluster\<lparr>CC_Status := status\<rparr>
      in (cluster1, if allHealthy analysis then w
            else ha_event r cluster1 ''MirroringDegraded'' (show_int (int (length (failedSegments analysis))) @ '' segments are down'') w))"

definition runFTSProbe :: "'w ha_reconciler \<Rightarrow> CloudberryCluster \<Rightarrow> 'w step" where
  "runFTSProbe r cluster w =
     (case ha_dbFactory r of
        None \<Rightarrow> ((Some (plain_error ''database client factory is not configured''), cluster), w)
      | Some db \<Rightarrow>
          (case h_new db cluster w of
             (Inl err, w1) \<Rightarrow> ((Some (Ctrl_Error ''creating db client for FTS probe'' (Other_Error err)), cluster), w1)
           | (Inr _, w1) \<Rightarrow>
               (case probeSegmentConfigWithRetries cluster db w1 of
                  (Inl e, w2) \<Rightarrow> ((Some e, cluster), h_close db w2)
                | (Inr segments, w2) \<Rightarrow>
                    (let analysis = analyzeSegments segments;
                         w3 = (if failedPrimaries analysis \<noteq> [] \<and> mirroring_on cluster
                               then snd (handleFailover r cluster db (failedPrimaries analysis) w2) else w2)
                     in case updateFTSProbeStatus r cluster analysis w3 of
                          (cluster1, w4) \<Rightarrow>
                            (case ha_patch_fts r (CC_Namespace cluster1) (CC_Name cluster1) (St_MirroringStatus (CC_Status cluster1))
                                    (failedSegments analysis) (h_mirror_sync db w4) of
                               (Inl e, w5) \<Rightarrow> ((Some (Ctrl_Error ''updating cluster status after FTS probe'' e), cluster1), h_close db w5)
                             | (Inr cluster2, w5) \<Rightarrow> ((None, cluster2), h_close db w5))))))"

subsection \<open>Standby\<close>

definition monitorStandby :: "'w ha_reconciler \<Rightarrow> CloudberryCluster \<Rightarrow> 'w step" where
  "monitorStandby r cluster w =
     (case ha_dbFactory r of
        None \<Rightarrow> ((Some (plain_error ''database client factory is not configured''), cluster), w)
      | Some db \<Rightarrow>
          (case h_new db cluster w of
             (Inl err, w1) \<Rightarrow> ((Some (Ctrl_Error ''creating db client for standby monitoring'' (Other_Error err)), cluster), w1)
           | (Inr _, w1) \<Rightarrow>
               (case h_replication_lag db w1 of
                  (Inl err, w2) \<Rightarrow>
                    ((Some (Ctrl_Error ''getting replication lag'' (Other_Error err)),
                      ha_condition r ConditionStandbyReady ConditionFalse ''ReplicationCheckFailed''
                        (''Failed to check replication lag: '' @ err) cluster w2), h_close db w2)
                | (Inr lag, w2) \<Rightarrow>
                    (let cluster1 = ha_condition r ConditionStandbyReady ConditionTrue ''StandbyInSync''
                           (''Standby replication lag: '' @ show_int lag @ '' bytes'') cluster w2
                     in case patchStatus (ha_base r) cluster1 w2 of
                          (Inl e, w3) \<Rightarrow> ((Some (Ctrl_Error [] e), cluster1), h_close db w3)
                        | (Inr cluster2, w3) \<Rightarrow> ((None, cluster2), h_close db w3)))))"

definition standby_enabled :: "CloudberryCluster \<Rightarrow> bool" where
  "standby_enabled cluster = (case Spec_Standby (CC_Spec cluster) of None \<Rightarrow> False | Some s \<Rightarrow> Standby_Enabled s)"

definition runHealthChecks :: "'w ha_reconciler \<Rightarrow> CloudberryCluster \<Rightarrow> 'w \<Rightarrow> CloudberryCluster \<times> 'w" where
  "runHealthChecks r cluster w =
     (case (if mirroring_on cluster then (case runFTSProbe r cluster w of ((_, c), w1) \<Rightarrow> (c, w1)) else (cluster, w)) of
        (cluster1, w1) \<Rightarrow>
          (if standby_enabled cluster1 then (case monitorStandby r cluster1 w1 of ((_, c), w2) \<Rightarrow> (c, w2)) else (cluster1, w1)))"

text \<open>The in-memory condition of a failed activation is not written back; the event is.\<close>

definition recordStandbyActivationFailure :: "'w ha_reconciler \<Rightarrow> CloudberryCluster \<Rightarrow> ctrl_error \<Rightarrow> 'w \<Rightarrow> 'w" where
  "recordStandbyActivationFailure r cluster err w =
     ha_event r (ha_condition r ConditionStandbyReady ConditionFalse ''StandbyPromotionFailed'' (''Standby promotion failed: '' @ error_text err) cluster w)
       ''CoordinatorFailover'' (''Standby coordinator activation failed: '' @ error_text err) w"

definition handleStandbyActivation :: "'w ha_reconciler \<Rightarrow> CloudberryCluster \<Rightarrow> 'w handler" where
  "handleStandbyActivation r cluster0 w =
     (case removeAnnotationPatch (ha_base r) cluster0 AnnotationAction w of
        (Inl e, w1) \<Rightarrow> (Inl (Ctrl_Error ''removing standby activation annotation'' e), w1)
      | (Inr cluster, w1) \<Rightarrow>
          if \<not> standby_enabled cluster
          then (Inr (requeueDefault (ha_base r)), ha_event r cluster ''CoordinatorFailover''
                 ''Standby activation skipped: no enabled standby coordinator configured'' w1)
          else (case ha_dbFactory r of
             None \<Rightarrow> (let e = plain_error ''database client factory is not configured''
                      in (Inl e, recordStandbyActivationFailure r cluster e w1))
           | Some db \<Rightarrow>
               (case h_new db cluster (ha_event r cluster ''CoordinatorFailover'' ''Standby coordinator activation initiated'' w1) of
                  (Inl err, w2) \<Rightarrow> (let e = Ctrl_Error ''creating db client for standby activation'' (Other_Error err)
                                   in (Inl e, recordStandbyActivationFailure r cluster e w2))
                | (Inr _, w2) \<Rightarrow>
                    (case h_promote_standby db w2 of
                       (Some err, w3) \<Rightarrow> (let e = Ctrl_Error ''promoting standby coordinator'' (Other_Error err)
                                         in (Inl e, h_close db (recordStandbyActivationFailure r cluster e w3)))
                     | (None, w3) \<Rightarrow>
                         (let cluster1 = ha_condition r ConditionStandbyReady ConditionFalse ''StandbyPromoted''
                                ''Standby coordinator was promoted to primary'' cluster w3
                          in case patchStatus (ha_base r) cluster1 w3 of
                               (res, w4) \<Rightarrow>
                                 (Inr (requeueDefault (ha_base r)),
                                  h_close db (ha_event r (case res of Inr c \<Rightarrow> c | Inl _ \<Rightarrow> cluster1) ''CoordinatorFailover''
                                    ''CoordinatorFailover completed: standby promoted to primary'' w4)))))))"

subsection \<open>Recovery\<close>

text \<open>Recovery is acknowledged and not carried out, as the code says of itself.\<close>

definition handleRecovery :: "'w ha_reconciler \<Rightarrow> CloudberryCluster \<Rightarrow> string \<Rightarrow> 'w handler" where
  "handleRecovery r cluster recoveryType w =
     (case removeAnnotationPatch (ha_base r) cluster AnnotationRecovery w of
        (Inl e, w1) \<Rightarrow> (Inl (Ctrl_Error ''removing recovery annotation'' e), w1)
      | (Inr cluster1, w1) \<Rightarrow>
          (Inr (requeueDefault (ha_base r)), ha_event r cluster1 ''RecoveryNotImplemented''
             (''Recovery type '' @ recoveryType @ '' requested but segment recovery is not implemented; no action taken'') w1))"

subsection \<open>Rebalance\<close>

text \<open>\<^verbatim>\<open>splitSchemaTable\<close> cuts at the first dot; a name without one is a single part.\<close>

definition splitSchemaTable :: "string \<Rightarrow> string list" where
  "splitSchemaTable name = (case Cut name CHR ''.'' of (schema, table, found) \<Rightarrow> if found then [schema, table] else [name])"

definition table_excluded_by :: "string \<Rightarrow> string \<Rightarrow> bool" where
  "table_excluded_by tableName pattern \<longleftrightarrow>
     pattern = tableName \<or> Match pattern tableName \<or>
     (case splitSchemaTable tableName of
        [schema, table] \<Rightarrow> Match pattern table \<or> Match pattern (schema @ ''.'' @ table)
      | _ \<Rightarrow> False)"

definition isTableExcluded :: "string \<Rightarrow> string list \<Rightarrow> bool" where
  "isTableExcluded tableName excludePatterns = list_ex (table_excluded_by tableName) excludePatterns"

text \<open>The skew of the databases that can be analysed, in their order.\<close>

fun analyze_databases :: "'w ha_db \<Rightarrow> string list \<Rightarrow> 'w \<Rightarrow> TableSkewInfo list \<times> 'w" where
  "analyze_databases db [] w = ([], w)"
| "analyze_databases db (d # ds) w =
     (case h_analyze_skew db d w of
        (Inl _, w1) \<Rightarrow> analyze_databases db ds w1
      | (Inr skew, w1) \<Rightarrow> (case analyze_databases db ds w1 of (rest, w2) \<Rightarrow> (skew @ rest, w2)))"

definition needs_rebalance :: "int32 \<Rightarrow> string list \<Rightarrow> TableSkewInfo \<Rightarrow> bool" where
  "needs_rebalance skewThreshold excludeTables info \<longleftrightarrow>
     \<not> isTableExcluded (Skew_Schema info @ ''.'' @ Skew_Table info) excludeTables \<and> float64_ge (Skew_Coefficient info) (rat_of_int skewThreshold)"

text \<open>When the databases cannot be listed there is nothing to rebalance.\<close>

definition analyzeAndFilterSkew ::
  "'w ha_db \<Rightarrow> int32 \<Rightarrow> string list \<Rightarrow> 'w \<Rightarrow> (TableSkewInfo list \<times> TableSkewInfo list) \<times> 'w" where
  "analyzeAndFilterSkew db skewThreshold excludeTables w =
     (case h_list_databases db w of
        (Inl _, w1) \<Rightarrow> (([], []), w1)
      | (Inr databases, w1) \<Rightarrow>
          (case analyze_databases db databases w1 of
             (skewResults, w2) \<Rightarrow> ((skewResults, filter (needs_rebalance skewThreshold excludeTables) skewResults), w2)))"

text \<open>
  The statements of the workers of \<^verbatim>\<open>dispatchRebalanceTables\<close>, in the order in which they take effect in
  the database: the index of a table for every worker that sent its statement. That order, and which
  tables a cancelled context leaves out, is up to the semaphore and the scheduler: it is what a run of
  the workers in \<^verbatim>\<open>RebalanceWorkers\<close> records. An entry that is no index of a table is left out.
\<close>

fun worker_statements :: "'w ha_db \<Rightarrow> TableSkewInfo list \<Rightarrow> nat list \<Rightarrow> nat \<Rightarrow> 'w \<Rightarrow> nat \<times> 'w" where
  "worker_statements db tables [] failed w = (failed, w)"
| "worker_statements db tables (i # order) failed w =
     (case h_rebalance_table db (tables ! i) w of
        (err, w1) \<Rightarrow> worker_statements db tables order (if err = None then failed else failed + 1) w1)"

definition dispatchRebalanceTables ::
  "'w ha_reconciler \<Rightarrow> 'w ha_db \<Rightarrow> TableSkewInfo list \<Rightarrow> int32 \<Rightarrow> 'w \<Rightarrow> ctrl_error option \<times> 'w" where
  "dispatchRebalanceTables r db tablesToRebalance parallelism w =
     (let order = filter (\<lambda>i. i < length tablesToRebalance) (ha_schedule r parallelism (length tablesToRebalance) w)
      in case worker_statements db tablesToRebalance order 0 w of
           (failed, w1) \<Rightarrow>
             (if 0 < failed
              then Some (plain_error (show_int (int failed) @ '' of '' @ show_int (int (length tablesToRebalance)) @ '' tables failed to rebalance''))
              else None, w1))"

definition executeRebalanceViaDB ::
  "'w ha_reconciler \<Rightarrow> 'w ha_db \<Rightarrow> CloudberryCluster \<Rightarrow> int32 \<Rightarrow> int32 \<Rightarrow> string list \<Rightarrow> 'w \<Rightarrow> ctrl_error option \<times> 'w" where
  "executeRebalanceViaDB r db cluster skewThreshold parallelism excludeTables w =
     (case h_new db cluster w of
        (Inl err, w1) \<Rightarrow> (Some (Ctrl_Error ''creating db client for rebalance'' (Other_Error err)), w1)
      | (Inr _, w1) \<Rightarrow>
          (case analyzeAndFilterSkew db skewThreshold excludeTables w1 of
             ((_, tablesToRebalance), w2) \<Rightarrow>
               if tablesToRebalance = [] then (None, h_close db w2)
               else (case dispatchRebalanceTables r db tablesToRebalance parallelism w2 of (err, w3) \<Rightarrow> (err, h_close db w3))))"

definition recordRebalanceFailure ::
  "'w ha_reconciler \<Rightarrow> CloudberryCluster \<Rightarrow> string \<Rightarrow> string \<Rightarrow> 'w \<Rightarrow> CloudberryCluster \<times> 'w" where
  "recordRebalanceFailure r cluster reason message w =
     (let cluster1 = ha_condition r ConditionDataRedistribution ConditionFalse reason message cluster w
      in case patchStatus (ha_base r) cluster1 w of
           (res, w1) \<Rightarrow>
             (let cluster2 = (case res of Inr c \<Rightarrow> c | Inl _ \<Rightarrow> cluster1)
              in (cluster2, ha_event r cluster2 ''RebalanceFailed'' message w1)))"

definition clearRebalanceJobAnnotation :: "'w ha_reconciler \<Rightarrow> CloudberryCluster \<Rightarrow> 'w handler" where
  "clearRebalanceJobAnnotation r cluster w =
     (case removeAnnotationPatch (ha_base r) cluster AnnotationRebalanceJob w of
        (Inl e, w1) \<Rightarrow> (Inl (Ctrl_Error ''removing rebalance-job annotation'' e), w1)
      | (Inr _, w1) \<Rightarrow> (Inr (requeueDefault (ha_base r)), w1))"

text \<open>
  The timestamp of the Job is in the local zone. The builder knows the operation, so it always
  yields a Job.
\<close>

definition startRebalanceJob :: "'w ha_reconciler \<Rightarrow> CloudberryCluster \<Rightarrow> 'w handler" where
  "startRebalanceJob r cluster w =
     (let sv = ha_services r; now = k_now (r_client (ha_base r)) w;
          timestamp = backup_timestamp (now + s_local sv (now div Second) * Second);
          job = s_build_maintenance_job sv cluster MaintenanceRebalance timestamp
      in case s_create_job sv job w of
           (err, w1) \<Rightarrow>
             if err \<noteq> None \<and> err \<noteq> Some AlreadyExists
             then (let e = Ctrl_Error ''creating rebalance job'' (case err of Some a \<Rightarrow> a | None \<Rightarrow> NotFound)
                   in case recordRebalanceFailure r cluster ''RebalanceJobCreateFailed''
                             (''Failed to create rebalance Job: '' @ (case err of Some (Other_Error msg) \<Rightarrow> msg | _ \<Rightarrow> [])) w1 of
                        (_, w2) \<Rightarrow> (Inl e, w2))
             else (case setAnnotationPatch (ha_base r) cluster AnnotationRebalanceJob (KJob_Name job) w1 of
                     (Inl e, w2) \<Rightarrow> (Inl (Ctrl_Error ''recording rebalance-job annotation'' e), w2)
                   | (Inr cluster1, w2) \<Rightarrow>
                       (Inr requeueAfterRebalanceJob, ha_event r cluster1 ''RebalanceStarted''
                          (''Rebalance Job '' @ KJob_Name job @ '' started; completion tracked across reconciles'') w2)))"

text \<open>A rebalance that has come to its end.\<close>

definition rebalance_completed :: "'w ha_reconciler \<Rightarrow> CloudberryCluster \<Rightarrow> 'w \<Rightarrow> (ctrl_error + CloudberryCluster) \<times> 'w" where
  "rebalance_completed r cluster w =
     (let cluster1 = ha_condition r ConditionDataRedistribution ConditionTrue ''RebalanceCompleted''
            ''Rebalance completed successfully'' cluster w
      in case patchStatus (ha_base r) cluster1 w of
           (Inl e, w1) \<Rightarrow> (Inl (Ctrl_Error ''updating rebalance completion'' e), w1)
         | (Inr cluster2, w1) \<Rightarrow> (Inr cluster2, ha_event r cluster2 ''RebalanceCompleted'' ''Segment rebalance completed'' w1))"

definition observeRebalanceJob :: "'w ha_reconciler \<Rightarrow> CloudberryCluster \<Rightarrow> string \<Rightarrow> 'w handler" where
  "observeRebalanceJob r cluster jobName w =
     (case s_get_job (ha_services r) (CC_Namespace cluster) jobName w of
        (Inl NotFound, w1) \<Rightarrow>
          (case recordRebalanceFailure r cluster ''RebalanceJobLost''
                  (''Rebalance Job '' @ jobName @ '' disappeared before completion'') w1 of
             (cluster1, w2) \<Rightarrow> clearRebalanceJobAnnotation r cluster1 w2)
      | (Inl e, w1) \<Rightarrow> (Inl (Ctrl_Error (''fetching rebalance job '' @ jobName) e), w1)
      | (Inr job, w1) \<Rightarrow>
          if KJob_Succeeded job > 0
          then (case rebalance_completed r cluster w1 of
                  (Inl e, w2) \<Rightarrow> (Inl e, w2)
                | (Inr cluster1, w2) \<Rightarrow> clearRebalanceJobAnnotation r cluster1 w2)
          else if KJob_Failed job > 0 \<or> jobHasFailedCondition job
          then (case recordRebalanceFailure r cluster ''RebalanceJobFailed'' (''Rebalance Job '' @ jobName @ '' failed'') w1 of
                  (cluster1, w2) \<Rightarrow> clearRebalanceJobAnnotation r cluster1 w2)
          else (Inr requeueAfterRebalanceJob, w1))"

definition rebalance_config :: "CloudberryCluster \<Rightarrow> int32 \<times> int32 \<times> string list" where
  "rebalance_config cluster =
     (case Seg_Rebalance (Spec_Segments (CC_Spec cluster)) of
        None \<Rightarrow> (defaultParallelism, defaultSkewThreshold, [])
      | Some cfg \<Rightarrow>
          (if Reb_Parallelism cfg > 0 then Reb_Parallelism cfg else defaultParallelism,
           if Reb_SkewThreshold cfg > 0 then Reb_SkewThreshold cfg else defaultSkewThreshold,
           Reb_ExcludeTables cfg))"

definition handleRebalance :: "'w ha_reconciler \<Rightarrow> CloudberryCluster \<Rightarrow> 'w handler" where
  "handleRebalance r cluster0 w =
     (case removeAnnotationPatch (ha_base r) cluster0 AnnotationAction w of
        (Inl e, w1) \<Rightarrow> (Inl (Ctrl_Error ''removing rebalance annotation'' e), w1)
      | (Inr cluster, w1) \<Rightarrow>
          (case rebalance_config cluster of (parallelism, skewThreshold, excludeTables) \<Rightarrow>
             (case patchStatus (ha_base r) (ha_condition r ConditionDataRedistribution ConditionTrue ''RebalanceStarted''
                     (''Rebalance started: threshold='' @ show_int skewThreshold @ ''%, parallelism='' @ show_int parallelism @
                      '', excluded=['' @ Join excludeTables '' '' @ '']'') cluster w1) w1 of
                (Inl e, w2) \<Rightarrow> (Inl (Ctrl_Error ''updating rebalance status'' e), w2)
              | (Inr cluster1, w2) \<Rightarrow>
                  (let w3 = ha_event r cluster1 ''RebalanceStarted'' (''Segment rebalance initiated: threshold='' @
                         show_int skewThreshold @ ''%, parallelism='' @ show_int parallelism) w2
                   in case ha_dbFactory r of
                        None \<Rightarrow> startRebalanceJob r cluster1 w3
                      | Some db \<Rightarrow>
                          (case executeRebalanceViaDB r db cluster1 skewThreshold parallelism excludeTables w3 of
                             (Some _, w4) \<Rightarrow> startRebalanceJob r cluster1 w4
                           | (None, w4) \<Rightarrow>
                               (case rebalance_completed r cluster1 w4 of
                                  (Inl e, w5) \<Rightarrow> (Inl e, w5)
                                | (Inr _, w5) \<Rightarrow> (Inr (requeueDefault (ha_base r)), w5)))))))"

subsection \<open>Reconciliation\<close>

text \<open>\<open>None\<close> when no request was found.\<close>

definition handleAnnotations :: "'w ha_reconciler \<Rightarrow> CloudberryCluster \<Rightarrow> 'w \<Rightarrow> ((ctrl_error + int) \<times> 'w) option" where
  "handleAnnotations r cluster w =
     (if annotation cluster AnnotationRebalanceJob \<noteq> []
      then Some (observeRebalanceJob r cluster (annotation cluster AnnotationRebalanceJob) w)
      else case CC_Annotations cluster AnnotationRecovery of
        Some recoveryType \<Rightarrow> Some (handleRecovery r cluster recoveryType w)
      | None \<Rightarrow>
          if annotation cluster AnnotationAction = ActionRebalance then Some (handleRebalance r cluster w)
          else if annotation cluster AnnotationAction = ActionActivateStandby then Some (handleStandbyActivation r cluster w)
          else None)"

definition ha_Reconcile :: "'w ha_reconciler \<Rightarrow> string \<Rightarrow> string \<Rightarrow> 'w handler" where
  "ha_Reconcile r namespace name w =
     (case k_get_cluster (r_client (ha_base r)) namespace name w of
        (Inl NotFound, w1) \<Rightarrow> (Inr 0, w1)
      | (Inl e, w1) \<Rightarrow> (Inl (Ctrl_Error ''fetching cluster'' e), w1)
      | (Inr cluster, w1) \<Rightarrow>
          if St_Phase (CC_Status cluster) \<noteq> ClusterPhaseRunning then (Inr (requeueDefault (ha_base r)), w1)
          else case handleAnnotations r cluster w1 of
            Some handled \<Rightarrow> handled
          | None \<Rightarrow> (case runHealthChecks r cluster w1 of (cluster1, w2) \<Rightarrow> (Inr (probeInterval cluster1), w2)))"

end
