(* ===== verification/RebalanceWorkers.thy ===== *)
theory RebalanceWorkers
  imports HighAvailability "HOL-Library.Multiset"
begin

text \<open>
  The workers of \<^verbatim>\<open>dispatchRebalanceTables\<close> in \<^verbatim>\<open>internal/controller/ha_controller.go\<close> in all their
  interleavings: a dispatcher that takes a slot of a weighted semaphore per table and launches a
  worker, workers that look at the context, rebalance their table and release the slot, a context
  that may be cancelled at any moment, and the final wait for the workers. Tables are numbered in
  their order; \<open>fails i\<close> says whether the database refuses table \<open>i\<close>.
\<close>

section \<open>Model\<close>

record pool =
  p_next :: nat
  p_stopped :: bool
  p_starting :: "nat set"
  p_working :: "nat set"
  p_attempts :: "nat list"
  p_failed :: nat
  p_cancelled :: bool
  p_returned :: "nat option"

definition start_pool :: pool where
  "start_pool = \<lparr>p_next = 0, p_stopped = False, p_starting = {}, p_working = {}, p_attempts = [], p_failed = 0,
     p_cancelled = False, p_returned = None\<rparr>"

definition slots_used :: "pool \<Rightarrow> nat" where
  "slots_used p = card (p_starting p) + card (p_working p)"

text \<open>
  \<open>Acquire\<close> needs a free slot; both it and the pause before it give up only when the context is
  cancelled, which ends the loop. A worker whose context is cancelled when it starts skips its
  table; one that has looked at the context goes on.
\<close>

inductive worker_step :: "nat \<Rightarrow> nat \<Rightarrow> (nat \<Rightarrow> bool) \<Rightarrow> pool \<Rightarrow> pool \<Rightarrow> bool" for n par fails where
  dispatch: "p_returned p = None \<Longrightarrow> \<not> p_stopped p \<Longrightarrow> p_next p < n \<Longrightarrow> slots_used p < par \<Longrightarrow>
    worker_step n par fails p (p\<lparr>p_next := Suc (p_next p), p_starting := insert (p_next p) (p_starting p)\<rparr>)"
| stop: "p_returned p = None \<Longrightarrow> \<not> p_stopped p \<Longrightarrow> p_next p < n \<Longrightarrow> p_cancelled p \<Longrightarrow>
    worker_step n par fails p (p\<lparr>p_stopped := True\<rparr>)"
| cancel: "\<not> p_cancelled p \<Longrightarrow> worker_step n par fails p (p\<lparr>p_cancelled := True\<rparr>)"
| check: "i \<in> p_starting p \<Longrightarrow> \<not> p_cancelled p \<Longrightarrow>
    worker_step n par fails p (p\<lparr>p_starting := p_starting p - {i}, p_working := insert i (p_working p)\<rparr>)"
| skip: "i \<in> p_starting p \<Longrightarrow> p_cancelled p \<Longrightarrow>
    worker_step n par fails p (p\<lparr>p_starting := p_starting p - {i}\<rparr>)"
| finish: "i \<in> p_working p \<Longrightarrow>
    worker_step n par fails p (p\<lparr>p_working := p_working p - {i}, p_attempts := p_attempts p @ [i],
      p_failed := p_failed p + (if fails i then 1 else 0)\<rparr>)"
| return: "p_returned p = None \<Longrightarrow> p_next p = n \<or> p_stopped p \<Longrightarrow> p_starting p = {} \<Longrightarrow> p_working p = {} \<Longrightarrow>
    worker_step n par fails p (p\<lparr>p_returned := Some (p_failed p)\<rparr>)"

section \<open>Invariant\<close>

definition pool_ok :: "nat \<Rightarrow> nat \<Rightarrow> (nat \<Rightarrow> bool) \<Rightarrow> pool \<Rightarrow> bool" where
  "pool_ok n par fails p \<longleftrightarrow>
     p_next p \<le> n \<and> slots_used p \<le> par \<and> finite (p_starting p) \<and> finite (p_working p) \<and>
     p_starting p \<inter> p_working p = {} \<and> distinct (p_attempts p) \<and> set (p_attempts p) \<inter> (p_starting p \<union> p_working p) = {} \<and>
     p_starting p \<union> p_working p \<union> set (p_attempts p) \<subseteq> {..<p_next p} \<and>
     (p_cancelled p \<or> \<not> p_stopped p \<and> p_starting p \<union> p_working p \<union> set (p_attempts p) = {..<p_next p}) \<and>
     p_failed p = length (filter fails (p_attempts p)) \<and>
     (\<forall>f. p_returned p = Some f \<longrightarrow> f = p_failed p \<and> p_starting p = {} \<and> p_working p = {} \<and> (p_next p = n \<or> p_stopped p))"

lemma pool_ok_start: "pool_ok n par fails start_pool"
  by (simp add: pool_ok_def start_pool_def slots_used_def)

lemma pool_ok_step:
  assumes "worker_step n par fails p q" "pool_ok n par fails p"
  shows "pool_ok n par fails q"
  using assms(1)
proof cases
  case dispatch
  then have "p_next p \<notin> p_starting p" using assms(2) by (auto simp: pool_ok_def)
  then show ?thesis using dispatch assms(2) by (auto simp: pool_ok_def slots_used_def)
next
  case (check i)
  then have "i \<notin> p_working p" "0 < card (p_starting p)" using assms(2) by (auto simp: pool_ok_def card_gt_0_iff)
  then show ?thesis using check assms(2) by (auto simp: pool_ok_def slots_used_def)
next
  case (skip i)
  then show ?thesis using assms(2) by (auto simp: pool_ok_def slots_used_def)
next
  case (finish i)
  then show ?thesis using assms(2) by (auto simp: pool_ok_def slots_used_def)
qed (use assms(2) in \<open>auto simp: pool_ok_def slots_used_def\<close>)

lemma pool_ok_reachable: "(worker_step n par fails)\<^sup>*\<^sup>* start_pool p \<Longrightarrow> pool_ok n par fails p"
  by (induction rule: rtranclp_induct) (auto intro: pool_ok_start pool_ok_step)

section \<open>Progress and termination\<close>

definition work_left :: "nat \<Rightarrow> pool \<Rightarrow> nat" where
  "work_left n p = 3 * (n - p_next p) + 2 * card (p_starting p) + card (p_working p) + (if p_stopped p then 0 else 1) +
     (if p_cancelled p then 0 else 1) + (if p_returned p = None then 1 else 0)"

lemma work_left_decreases:
  assumes "worker_step n par fails p q" "pool_ok n par fails p"
  shows "work_left n q < work_left n p"
  using assms(1)
proof cases
  case dispatch
  then have "p_next p \<notin> p_starting p" "finite (p_starting p)" using assms(2) by (auto simp: pool_ok_def)
  then show ?thesis using dispatch by (simp add: work_left_def)
next
  case (check i)
  then have "i \<notin> p_working p" "finite (p_working p)" "0 < card (p_starting p)"
    using assms(2) by (auto simp: pool_ok_def card_gt_0_iff)
  then show ?thesis using check by (simp add: work_left_def)
next
  case (skip i)
  then have "0 < card (p_starting p)" using assms(2) by (auto simp: pool_ok_def card_gt_0_iff)
  then show ?thesis using skip by (simp add: work_left_def)
next
  case (finish i)
  then have "0 < card (p_working p)" using assms(2) by (auto simp: pool_ok_def card_gt_0_iff)
  then show ?thesis using finish by (simp add: work_left_def)
qed (simp_all add: work_left_def)

lemma not_stuck:
  assumes "pool_ok n par fails p" "0 < par" "p_returned p = None"
  shows "\<exists>q. worker_step n par fails p q"
proof (cases "p_starting p = {} \<and> p_working p = {}")
  case idle: True
  show ?thesis
  proof (cases "p_next p = n \<or> p_stopped p")
    case True
    then show ?thesis using return assms(3) idle by blast
  next
    case False
    then have "p_next p < n" "slots_used p < par" using assms(1,2) idle by (auto simp: pool_ok_def slots_used_def)
    then show ?thesis using dispatch assms(3) False by blast
  qed
next
  case False
  then show ?thesis using check skip finish by blast
qed

section \<open>The order of the statements\<close>

text \<open>The orders in which the statements of a run that was not cancelled reach the database.\<close>

definition worker_order :: "nat \<Rightarrow> nat \<Rightarrow> nat list \<Rightarrow> bool" where
  "worker_order n par order \<longleftrightarrow> (\<exists>fails p. (worker_step n par fails)\<^sup>*\<^sup>* start_pool p \<and> p_returned p \<noteq> None \<and>
     \<not> p_cancelled p \<and> p_attempts p = order)"

lemma worker_order_permutes:
  assumes "worker_order n par order"
  shows "distinct order" "set order = {..<n}"
proof -
  obtain fails p where p: "(worker_step n par fails)\<^sup>*\<^sup>* start_pool p" "p_returned p \<noteq> None" "\<not> p_cancelled p" "p_attempts p = order"
    using assms by (auto simp: worker_order_def)
  from pool_ok_reachable [OF p(1)] p(2-4) show "distinct order" "set order = {..<n}"
    by (auto simp: pool_ok_def)
qed

text \<open>One worker after another is among them.\<close>

lemma sequential_order:
  assumes "0 < par"
  shows "worker_order n par [0..<n]"
proof -
  let ?p = "\<lambda>k. start_pool\<lparr>p_next := k, p_attempts := [0..<k]\<rparr>" and ?step = "worker_step n par (\<lambda>_. False)"
  have one: "?step\<^sup>*\<^sup>* (?p k) (?p (Suc k))" if "k < n" for k
  proof -
    have "?step (?p k) ((?p k)\<lparr>p_next := Suc k, p_starting := {k}\<rparr>)"
      using dispatch [of "?p k" n par "\<lambda>_. False"] that assms by (simp add: start_pool_def slots_used_def)
    moreover have "?step ((?p k)\<lparr>p_next := Suc k, p_starting := {k}\<rparr>) ((?p k)\<lparr>p_next := Suc k, p_working := {k}\<rparr>)"
      using check [of k "(?p k)\<lparr>p_next := Suc k, p_starting := {k}\<rparr>" n par "\<lambda>_. False"] by (simp add: start_pool_def)
    moreover have "?step ((?p k)\<lparr>p_next := Suc k, p_working := {k}\<rparr>) (?p (Suc k))"
      using finish [of k "(?p k)\<lparr>p_next := Suc k, p_working := {k}\<rparr>" n par "\<lambda>_. False"] by (simp add: start_pool_def)
    ultimately show ?thesis by (meson converse_rtranclp_into_rtranclp r_into_rtranclp)
  qed
  have "?step\<^sup>*\<^sup>* (?p 0) (?p k)" if "k \<le> n" for k
    using that
  proof (induction k)
    case (Suc k)
    then have "?step\<^sup>*\<^sup>* (?p 0) (?p k)" "?step\<^sup>*\<^sup>* (?p k) (?p (Suc k))" using one by simp_all
    then show ?case by (rule rtranclp_trans)
  qed simp
  moreover have "?p 0 = start_pool" by (simp add: start_pool_def)
  ultimately have "?step\<^sup>*\<^sup>* start_pool (?p n)" by (metis order_refl)
  moreover have "?step (?p n) ((?p n)\<lparr>p_returned := Some 0\<rparr>)"
    using return [of "?p n" n par "\<lambda>_. False"] by (simp add: start_pool_def)
  ultimately have "?step\<^sup>*\<^sup>* start_pool ((?p n)\<lparr>p_returned := Some 0\<rparr>)" by (rule rtranclp.rtrancl_into_rtrancl)
  then show ?thesis unfolding worker_order_def
    by (intro exI [of _ "\<lambda>_. False"] exI [of _ "(?p n)\<lparr>p_returned := Some 0\<rparr>"]) (simp add: start_pool_def)
qed

lemma order_mset:
  assumes "distinct order" "set order = {..<length xs}"
  shows "mset (map ((!) xs) order) = mset xs"
proof -
  have "mset order = mset [0..<length xs]"
    using assms set_eq_iff_mset_eq_distinct [of order "[0..<length xs]"] by (simp add: atLeast0LessThan)
  then have "mset (map ((!) xs) order) = mset (map ((!) xs) [0..<length xs])" by simp
  then show ?thesis by (simp only: map_nth)
qed

section \<open>Properties\<close>

text \<open>
  C36. However the workers interleave and whenever the context is cancelled, at most \<open>par\<close> slots are in
  use and no table is rebalanced twice; when the function returns, no slot is in use, the count it
  returns is that of the tables the database refused, and unless the context was cancelled every
  table has been attempted.
\<close>

theorem rebalance_workers_bounded:
  assumes "(worker_step n par fails)\<^sup>*\<^sup>* start_pool p"
  shows "slots_used p \<le> par \<and> distinct (p_attempts p) \<and> set (p_attempts p) \<subseteq> {..<n} \<and>
    (\<forall>f. p_returned p = Some f \<longrightarrow> slots_used p = 0 \<and> f = length (filter fails (p_attempts p)) \<and>
       (\<not> p_cancelled p \<longrightarrow> set (p_attempts p) = {..<n}))"
  using pool_ok_reachable [OF assms] by (auto simp: pool_ok_def slots_used_def)

text \<open>
  C37. The dispatch never hangs: with at least one slot, every run has at most \<open>3 n + 3\<close> steps, and as long
  as the function has not returned some step is possible, whether or not the context is cancelled.
\<close>

theorem rebalance_workers_return:
  assumes "0 < par" "((worker_step n par fails) ^^ k) start_pool p"
  shows "k \<le> 3 * n + 3 \<and> (p_returned p = None \<longrightarrow> (\<exists>q. worker_step n par fails p q))"
proof -
  have "pool_ok n par fails q \<and> k + work_left n q \<le> 3 * n + 3" if "((worker_step n par fails) ^^ k) start_pool q" for k q
    using that
  proof (induction k arbitrary: q)
    case 0
    then show ?case using pool_ok_start by (auto simp: work_left_def start_pool_def)
  next
    case (Suc k)
    then obtain r where "((worker_step n par fails) ^^ k) start_pool r" "worker_step n par fails r q" by auto
    then show ?case using Suc.IH [of r] pool_ok_step [of n par fails r q] work_left_decreases [of n par fails r q] by auto
  qed
  from this [OF assms(2)] show ?thesis using not_stuck [OF _ assms(1)] by auto
qed

text \<open>One table and one slot: the run that rebalances it, and the one whose context is cancelled at once.\<close>

definition done_pool :: pool where
  "done_pool = \<lparr>p_next = 1, p_stopped = False, p_starting = {}, p_working = {}, p_attempts = [0], p_failed = 0,
     p_cancelled = False, p_returned = Some 0\<rparr>"

lemma one_table_run: "((worker_step 1 1 (\<lambda>_. False)) ^^ 4) start_pool done_pool"
proof -
  let ?step = "worker_step 1 1 (\<lambda>_. False)"
  define p1 where "p1 = start_pool\<lparr>p_next := 1, p_starting := {0}\<rparr>"
  define p2 where "p2 = p1\<lparr>p_starting := {}, p_working := {0}\<rparr>"
  define p3 where "p3 = p2\<lparr>p_working := {}, p_attempts := [0]\<rparr>"
  have "?step start_pool p1" using dispatch [of start_pool 1 1 "\<lambda>_. False"] by (simp add: p1_def start_pool_def slots_used_def)
  moreover have "?step p1 p2" using check [of 0 p1 1 1 "\<lambda>_. False"] by (simp add: p2_def p1_def start_pool_def)
  moreover have "?step p2 p3" using finish [of 0 p2 1 1 "\<lambda>_. False"] by (simp add: p3_def p2_def p1_def start_pool_def)
  moreover have "?step p3 done_pool" using return [of p3 1 1 "\<lambda>_. False"] by (simp add: done_pool_def p3_def p2_def p1_def start_pool_def)
  ultimately show ?thesis by (auto simp: eval_nat_numeral)
qed

theorem rebalance_workers_bounded_witness:
  "slots_used done_pool = 0 \<and> set (p_attempts done_pool) = {..<1} \<and> p_returned done_pool = Some 0"
proof -
  have "(worker_step 1 1 (\<lambda>_. False))\<^sup>*\<^sup>* start_pool done_pool" using one_table_run by (rule relpowp_imp_rtranclp)
  from rebalance_workers_bounded [OF this] show ?thesis by (simp add: done_pool_def)
qed

theorem rebalance_workers_return_witness: "(4::nat) \<le> 3 * 1 + 3 \<and> p_returned done_pool \<noteq> None"
  using rebalance_workers_return [OF _ one_table_run] by (simp add: done_pool_def)

lemma cancelled_run_reports_success:
  "\<exists>p. (worker_step 1 1 fails)\<^sup>*\<^sup>* start_pool p \<and> p_returned p = Some 0 \<and> p_attempts p = []"
proof -
  define p1 where "p1 = start_pool\<lparr>p_cancelled := True\<rparr>"
  define p2 where "p2 = p1\<lparr>p_stopped := True\<rparr>"
  have "worker_step 1 1 fails start_pool p1" using cancel [of start_pool] by (simp add: p1_def start_pool_def)
  moreover have "worker_step 1 1 fails p1 p2" using stop [of p1] by (simp add: p2_def p1_def start_pool_def)
  moreover have "worker_step 1 1 fails p2 (p2\<lparr>p_returned := Some 0\<rparr>)" using return [of p2] by (simp add: p2_def p1_def start_pool_def)
  ultimately have "(worker_step 1 1 fails)\<^sup>*\<^sup>* start_pool (p2\<lparr>p_returned := Some 0\<rparr>)"
    by (meson rtranclp.rtrancl_into_rtrancl rtranclp.rtrancl_refl)
  then show ?thesis by (intro exI [of _ "p2\<lparr>p_returned := Some 0\<rparr>"]) (simp add: p2_def p1_def start_pool_def)
qed

end
