(* ===== verification/HATheorems.thy ===== *)
theory HATheorems
  imports OperationTheorems RebalanceWorkers
begin

text \<open>
  What holds of the high-availability controller on the reference server, whose database answers
  with fixed facts (segments, lag, skew) or with the errors the store prescribes, and logs what
  changes the cluster. The order in which the workers of a rebalance reach it is one of these facts.
\<close>

section \<open>The database of the reference server\<close>

record ha_facts =
  hf_segments :: "SegmentInfo list"
  hf_lag :: int64
  hf_databases :: "string list"
  hf_skew :: "string \<Rightarrow> TableSkewInfo list"
  hf_schedule :: "int32 \<Rightarrow> nat \<Rightarrow> nat list"

definition skew_name :: "TableSkewInfo \<Rightarrow> string" where
  "skew_name t = Skew_Schema t @ ''.'' @ Skew_Table t"

definition op_rebalance :: "TableSkewInfo \<Rightarrow> operation" where
  "op_rebalance t = Op_Rebalance (Skew_Database t) (Skew_Schema t) (Skew_Table t)"

definition srv_ha :: "ha_facts \<Rightarrow> store ha_db" where
  "srv_ha f = \<lparr>h_new = (\<lambda>c. db_answer ''NewClient'' ()),
     h_segments = db_answer ''GetSegmentConfiguration'' (hf_segments f),
     h_trigger_fts = db_change ''TriggerFTSProbe'' Op_Trigger_FTS, h_mirror_sync = (\<lambda>w. w),
     h_replication_lag = db_answer ''GetReplicationLag'' (hf_lag f),
     h_list_databases = db_answer ''ListUserDatabases'' (hf_databases f),
     h_analyze_skew = (\<lambda>d. db_answer (''AnalyzeSkew '' @ d) (hf_skew f d)),
     h_rebalance_table = (\<lambda>t. db_change (''RebalanceTable '' @ skew_name t) (op_rebalance t)),
     h_promote_standby = (\<lambda>w. (srv_db_error w ''PromoteStandby'', logged Op_Promote w)), h_close = (\<lambda>w. w)\<rparr>"

definition srv_hactl :: "builder \<Rightarrow> Location \<Rightarrow> ha_facts \<Rightarrow> store ha_reconciler" where
  "srv_hactl b loc f = \<lparr>ha_base = srv_reconciler, ha_services = srv_services b loc, ha_dbFactory = Some (srv_ha f),
     ha_patch_fts = (\<lambda>ns n m fs. change_cluster (\<lambda>c. c\<lparr>CC_Status := (CC_Status c)\<lparr>St_MirroringStatus := m, St_FailedSegments := fs\<rparr>\<rparr>) ns n),
     ha_schedule = (\<lambda>par n _. hf_schedule f par n)\<rparr>"

lemma srv_ha_simps [simp]:
  "h_new (srv_ha f) c w = db_answer ''NewClient'' () w" "h_segments (srv_ha f) w = db_answer ''GetSegmentConfiguration'' (hf_segments f) w"
  "h_trigger_fts (srv_ha f) w = db_change ''TriggerFTSProbe'' Op_Trigger_FTS w" "h_mirror_sync (srv_ha f) w = w"
  "h_replication_lag (srv_ha f) w = db_answer ''GetReplicationLag'' (hf_lag f) w"
  "h_list_databases (srv_ha f) w = db_answer ''ListUserDatabases'' (hf_databases f) w"
  "h_analyze_skew (srv_ha f) d w = db_answer (''AnalyzeSkew '' @ d) (hf_skew f d) w"
  "h_rebalance_table (srv_ha f) t w = db_change (''RebalanceTable '' @ skew_name t) (op_rebalance t) w"
  "h_promote_standby (srv_ha f) w = (srv_db_error w ''PromoteStandby'', logged Op_Promote w)" "h_close (srv_ha f) w = w"
  by (simp_all add: srv_ha_def)

lemma srv_hactl_simps [simp]:
  "ha_base (srv_hactl b loc f) = srv_reconciler" "ha_services (srv_hactl b loc f) = srv_services b loc"
  "ha_dbFactory (srv_hactl b loc f) = Some (srv_ha f)" "ha_schedule (srv_hactl b loc f) par n w = hf_schedule f par n"
  "ha_event (srv_hactl b loc f) c t m w = w"
  "ha_condition (srv_hactl b loc f) t s rs m c w = with_condition (srv_now w) t s rs m c"
  by (simp_all add: srv_hactl_def ha_event_def ha_condition_def)

lemma exec_patch_fts:
  assumes "stored c w" "same_key d c"
  shows "ha_patch_fts (srv_hactl b loc f) (CC_Namespace d) (CC_Name d) m fs w =
    (Inr (c\<lparr>CC_Status := (CC_Status c)\<lparr>St_MirroringStatus := m, St_FailedSegments := fs\<rparr>\<rparr>),
     set_cluster (c\<lparr>CC_Status := (CC_Status c)\<lparr>St_MirroringStatus := m, St_FailedSegments := fs\<rparr>\<rparr>) w)"
  using assms by (simp add: srv_hactl_def change_cluster_def stored_def same_key_def set_cluster_def)

lemma exec_remove:
  assumes "stored c w" "same_key d c"
  shows "removeAnnotationPatch srv_reconciler d key w =
    (Inr (annotated key None c), logged (Op_Annotation key None) (set_cluster (annotated key None c) w))"
  using assms srv_get [of "annotated key None c" "logged (Op_Annotation key None) (set_cluster (annotated key None c) w)" d]
  by (simp add: removeAnnotationPatch_def exec_annotation)

text \<open>The database answers; the calls that change the cluster may still be refused.\<close>

definition db_up :: "store \<Rightarrow> bool" where
  "db_up w \<longleftrightarrow> (\<forall>call \<in> {''NewClient'', ''GetSegmentConfiguration'', ''TriggerFTSProbe'', ''GetReplicationLag'', ''ListUserDatabases''}.
     srv_db_error w call = None) \<and> (\<forall>d. srv_db_error w (''AnalyzeSkew '' @ d) = None)"

lemma db_up_simps [simp]: "db_up (logged e w) = db_up w" "db_up (set_cluster c w) = db_up w"
  by (simp_all add: db_up_def)

lemma db_up_answers:
  assumes "db_up w"
  shows "db_answer ''NewClient'' v w = (Inr v, w)" "db_answer ''GetSegmentConfiguration'' segs w = (Inr segs, w)"
    "db_answer ''GetReplicationLag'' lag w = (Inr lag, w)" "db_answer ''ListUserDatabases'' dbs w = (Inr dbs, w)"
    "db_answer (''AnalyzeSkew '' @ d) skew w = (Inr skew, w)"
    "db_change ''TriggerFTSProbe'' Op_Trigger_FTS w = (None, logged Op_Trigger_FTS w)"
  using assms by (simp_all add: db_up_def db_answer_def db_change_def)

section \<open>Analysis of the segments\<close>

definition down :: "SegmentInfo \<Rightarrow> bool" where
  "down s \<longleftrightarrow> 0 \<le> Seg_ContentID s \<and> Seg_Status s \<noteq> ''u''"

definition failed_of :: "SegmentInfo \<Rightarrow> FailedSegment" where
  "failed_of s = \<lparr>FS_ContentID = Seg_ContentID s, FS_Hostname = Seg_Hostname s, FS_Role = Seg_Role s, FS_Status = Seg_Status s\<rparr>"

lemma analyze_loop_eq:
  "analyze_loop res segs = res\<lparr>failedSegments := failedSegments res @ map failed_of (filter down segs),
     failedPrimaries := failedPrimaries res @ filter (\<lambda>s. down s \<and> Seg_Role s = ''p'') segs,
     allHealthy := (allHealthy res \<and> \<not> list_ex down segs)\<rparr>"
  by (induction segs arbitrary: res) (auto simp: down_def failed_of_def)

lemma analyzeSegments_eq:
  "analyzeSegments segs = \<lparr>failedSegments = map failed_of (filter down segs),
     failedPrimaries = filter (\<lambda>s. down s \<and> Seg_Role s = ''p'') segs, allHealthy = (\<not> list_ex down segs)\<rparr>"
  by (simp add: analyzeSegments_def analyze_loop_eq)

section \<open>Probe and standby\<close>

lemma probe_first:
  assumes "db_up w"
  shows "probeSegmentConfigWithRetries c (srv_ha f) w = (Inr (hf_segments f), w)"
proof -
  obtain k where "nat (probeRetries c) = Suc k"
  proof -
    have "0 < probeRetries c" by (simp add: probeRetries_def split: option.split)
    then show thesis using that [of "nat (probeRetries c) - 1"] by simp
  qed
  then show ?thesis using assms by (simp add: probeSegmentConfigWithRetries_def db_up_answers)
qed

text \<open>A cluster in the phase Running without a request for this controller.\<close>

definition ha_quiet :: "CloudberryCluster \<Rightarrow> store \<Rightarrow> bool" where
  "ha_quiet c w \<longleftrightarrow> stored c w \<and> St_Phase (CC_Status c) = ClusterPhaseRunning \<and> annotation c AnnotationRebalanceJob = [] \<and>
     CC_Annotations c AnnotationRecovery = None \<and> annotation c AnnotationAction \<notin> {ActionRebalance, ActionActivateStandby}"

definition probe_log :: "ha_facts \<Rightarrow> operation list" where
  "probe_log f = (if list_ex (\<lambda>s. down s \<and> Seg_Role s = ''p'') (hf_segments f) then [Op_Trigger_FTS] else [])"

definition probed :: "ha_facts \<Rightarrow> CloudberryCluster \<Rightarrow> CloudberryCluster" where
  "probed f c = c\<lparr>CC_Status := (CC_Status c)\<lparr>
     St_MirroringStatus := (if list_ex down (hf_segments f) then MirroringDegraded else MirroringInSync),
     St_FailedSegments := map failed_of (filter down (hf_segments f))\<rparr>\<rparr>"

lemma failover_run:
  assumes "db_up w"
  shows "handleFailover (srv_hactl b loc f) c (srv_ha f) fs w = (None, logged Op_Trigger_FTS w)"
proof -
  have "ha_event (srv_hactl b loc f) c t m = (\<lambda>w. w)" for t m by (simp add: fun_eq_iff)
  moreover have "fold (\<lambda>_ w. w) fs v = v" for v :: store by (induction fs) simp_all
  ultimately show ?thesis using assms by (simp add: handleFailover_def db_up_answers)
qed

lemma probed_simps [simp]: "same_key (probed f c) d = same_key c d" "CC_Annotations (probed f c) = CC_Annotations c"
  "CC_Spec (probed f c) = CC_Spec c" "St_Phase (CC_Status (probed f c)) = St_Phase (CC_Status c)"
  "CC_DeletionTimestamp (probed f c) = CC_DeletionTimestamp c"
  by (simp_all add: probed_def same_key_def)

lemma probe_run:
  assumes "stored c w" "db_up w" "mirroring_on c"
  shows "\<exists>w'. runFTSProbe (srv_hactl b loc f) c w = ((None, probed f c), w') \<and> stored (probed f c) w' \<and>
    db_up w' \<and> srv_log w' = srv_log w @ probe_log f"
proof -
  let ?r = "srv_hactl b loc f"
  define a where "a = analyzeSegments (hf_segments f)"
  define w1 where "w1 = (if failedPrimaries a \<noteq> [] \<and> mirroring_on c then snd (handleFailover ?r c (srv_ha f) (failedPrimaries a) w) else w)"
  have "failedPrimaries a = [] \<longleftrightarrow> \<not> list_ex (\<lambda>s. down s \<and> Seg_Role s = ''p'') (hf_segments f)"
    by (simp add: a_def analyzeSegments_eq filter_empty_conv list_ex_iff)
  then have w1: "w1 = (if probe_log f = [] then w else logged Op_Trigger_FTS w)" "srv_log w1 = srv_log w @ probe_log f"
    using assms(2,3) failover_run [of w b loc f c] by (auto simp: w1_def probe_log_def)
  then have s1: "stored c w1" using assms(1) by simp
  have u: "updateFTSProbeStatus ?r c a w1 = (probed f c, w1)"
    by (simp add: updateFTSProbeStatus_def a_def analyzeSegments_eq probed_def Let_def)
  have d: "failedSegments a = St_FailedSegments (CC_Status (probed f c))" by (simp add: a_def analyzeSegments_eq probed_def)
  have p: "ha_patch_fts ?r (CC_Namespace (probed f c)) (CC_Name (probed f c)) (St_MirroringStatus (CC_Status (probed f c)))
      (St_FailedSegments (CC_Status (probed f c))) w1 = (Inr (probed f c), set_cluster (probed f c) w1)"
    using exec_patch_fts [OF s1, of "probed f c"] by (simp add: probed_def)
  have "runFTSProbe ?r c w = ((None, probed f c), set_cluster (probed f c) w1)"
    using assms(2) probe_first [of w c f] u p
    by (simp add: runFTSProbe_def db_up_answers Let_def a_def [symmetric] w1_def [symmetric] d)
  then show ?thesis using w1 assms(2) by (intro exI [of _ "set_cluster (probed f c) w1"]) auto
qed

lemma monitor_run:
  assumes "stored c w" "db_up w"
  shows "\<exists>c' w'. monitorStandby (srv_hactl b loc f) c w = ((None, c'), w') \<and> stored c' w' \<and> same_key c' c \<and>
    CC_Annotations c' = CC_Annotations c \<and> CC_Spec c' = CC_Spec c \<and>
    (\<exists>cs. CC_Status c' = (CC_Status c)\<lparr>St_Conditions := cs\<rparr> \<and>
      list_ex (\<lambda>d. Cond_Type d = ConditionStandbyReady \<and> Cond_Status d = ConditionTrue) cs) \<and>
    db_up w' \<and> srv_log w' = srv_log w"
proof -
  define msg where "msg = ''Standby replication lag: '' @ show_int (hf_lag f) @ '' bytes''"
  define c' where "c' = with_condition (srv_now w) ConditionStandbyReady ConditionTrue ''StandbyInSync'' msg c"
  have "patchStatus srv_reconciler c' w = (Inr c', set_cluster c' w)" using exec_condition [OF assms(1)] by (simp add: c'_def)
  then have "monitorStandby (srv_hactl b loc f) c w = ((None, c'), set_cluster c' w)"
    by (simp only: monitorStandby_def srv_hactl_simps srv_ha_simps db_up_answers [OF assms(2)] option.case prod.case sum.case Let_def
        msg_def [symmetric] c'_def [symmetric])
  moreover define cs where "cs = SetCondition (srv_now w) (St_Conditions (CC_Status c)) ConditionStandbyReady ConditionTrue ''StandbyInSync'' msg"
  moreover have "c' = c\<lparr>CC_Status := (CC_Status c)\<lparr>St_Conditions := cs\<rparr>\<rparr>" by (simp add: c'_def with_condition_def cs_def)
  moreover have "list_ex (\<lambda>d. Cond_Type d = ConditionStandbyReady \<and> Cond_Status d = ConditionTrue) cs"
    unfolding cs_def by (rule SetCondition_present)
  ultimately show ?thesis using assms(2) by (intro exI [of _ c'] exI [of _ "set_cluster c' w"]) auto
qed

lemma ha_quiet_pass:
  assumes "ha_quiet c w"
  shows "ha_Reconcile (srv_hactl b loc f) (CC_Namespace c) (CC_Name c) w =
    (case runHealthChecks (srv_hactl b loc f) c w of (c1, w1) \<Rightarrow> (Inr (probeInterval c1), w1))"
  using assms srv_get [of c w c] by (simp add: ha_Reconcile_def ha_quiet_def handleAnnotations_def)

lemma health_checks_run:
  assumes "stored c w" "db_up w"
  shows "\<exists>c' w' cs. runHealthChecks (srv_hactl b loc f) c w = (c', w') \<and> stored c' w' \<and> same_key c' c \<and>
    CC_Annotations c' = CC_Annotations c \<and> CC_Spec c' = CC_Spec c \<and>
    CC_Status c' = (CC_Status (if mirroring_on c then probed f c else c))\<lparr>St_Conditions := cs\<rparr> \<and>
    (standby_enabled c \<longrightarrow> list_ex (\<lambda>d. Cond_Type d = ConditionStandbyReady \<and> Cond_Status d = ConditionTrue) cs) \<and>
    db_up w' \<and> srv_log w' = srv_log w @ (if mirroring_on c then probe_log f else [])"
proof -
  let ?r = "srv_hactl b loc f" and ?c1 = "if mirroring_on c then probed f c else c"
  obtain w1 where 1: "(if mirroring_on c then (case runFTSProbe ?r c w of ((_, d), w1) \<Rightarrow> (d, w1)) else (c, w)) = (?c1, w1)"
    "stored ?c1 w1" "db_up w1" "srv_log w1 = srv_log w @ (if mirroring_on c then probe_log f else [])"
    using probe_run [OF assms, of b loc f] assms by (cases "mirroring_on c") auto
  have e: "standby_enabled ?c1 = standby_enabled c" by (simp add: standby_enabled_def)
  show ?thesis
  proof (cases "standby_enabled c")
    case True
    from monitor_run [OF 1(2,3), of b loc f] obtain c2 w2 cs where 2: "monitorStandby ?r ?c1 w1 = ((None, c2), w2)" "stored c2 w2"
      "same_key c2 ?c1" "CC_Annotations c2 = CC_Annotations ?c1" "CC_Spec c2 = CC_Spec ?c1" "CC_Status c2 = (CC_Status ?c1)\<lparr>St_Conditions := cs\<rparr>"
      "list_ex (\<lambda>d. Cond_Type d = ConditionStandbyReady \<and> Cond_Status d = ConditionTrue) cs" "db_up w2" "srv_log w2 = srv_log w1"
      by blast
    have "runHealthChecks ?r c w = (c2, w2)" using 1(1) 2(1) True e by (simp add: runHealthChecks_def)
    moreover have "same_key c2 c" "CC_Annotations c2 = CC_Annotations c" "CC_Spec c2 = CC_Spec c"
      using 2(3-5) by (auto simp: same_key_def probed_def split: if_splits)
    ultimately show ?thesis using 2 1 assms(2) by (intro exI [of _ c2] exI [of _ w2] exI [of _ cs]) simp
  next
    case False
    have "runHealthChecks ?r c w = (?c1, w1)" using 1(1) False e by (simp add: runHealthChecks_def)
    then show ?thesis using 1 assms(2) False
      by (intro exI [of _ ?c1] exI [of _ w1] exI [of _ "St_Conditions (CC_Status ?c1)"]) (simp add: same_key_def probed_def)
  qed
qed

section \<open>Properties\<close>


definition promotions :: "store \<Rightarrow> nat" where
  "promotions w = length (filter (\<lambda>e. e = Op_Promote) (srv_log w))"

lemma promotions_simps [simp]: "promotions (set_cluster c w) = promotions w"
  "promotions (logged e w) = promotions w + (if e = Op_Promote then 1 else 0)"
  by (simp_all add: promotions_def)

subsection \<open>What the controller does of its own accord\<close>

text \<open>A stored request for the activation of the standby, and a step that neither asks for one nor promotes.\<close>

definition wants_standby :: "string \<Rightarrow> string \<Rightarrow> store \<Rightarrow> bool" where
  "wants_standby ns n w \<longleftrightarrow> (\<exists>c. srv_cluster w ns n = Some c \<and> annotation c AnnotationAction = ActionActivateStandby)"

definition calm :: "string \<Rightarrow> string \<Rightarrow> store \<Rightarrow> store \<Rightarrow> bool" where
  "calm ns n w w' \<longleftrightarrow> promotions w' = promotions w \<and> (wants_standby ns n w' \<longrightarrow> wants_standby ns n w)"

lemma wants_standby_get:
  "wants_standby ns n w \<longleftrightarrow> (\<exists>c. srv_get_cluster ns n w = Some c \<and> annotation c AnnotationAction = ActionActivateStandby)"
  by (auto simp: wants_standby_def srv_get_cluster_def annotation_def)

lemma calm_refl [simp, intro]: "calm ns n w w"
  by (simp add: calm_def)

lemma calm_trans [trans]: "calm ns n u v \<Longrightarrow> calm ns n v w \<Longrightarrow> calm ns n u w"
  by (simp add: calm_def)

lemma calm_logged [simp]: "e \<noteq> Op_Promote \<Longrightarrow> calm ns n w (logged e w)"
  by (simp add: calm_def wants_standby_def)

lemma calm_after_log [simp]: "e \<noteq> Op_Promote \<Longrightarrow> calm ns n w (logged e v) = calm ns n w v"
  by (simp add: calm_def wants_standby_def)

lemma calm_change:
  assumes "\<And>c. annotation (g c) AnnotationAction \<in> {[], annotation c AnnotationAction}"
  shows "calm ns n w (snd (change_cluster g ns' n' w))"
proof (cases "srv_cluster w ns' n'")
  case (Some c)
  let ?c = "c\<lparr>CC_Namespace := ns', CC_Name := n'\<rparr>"
  have "annotation (g ?c) AnnotationAction = ActionActivateStandby \<longrightarrow> annotation c AnnotationAction = ActionActivateStandby"
    using assms [of ?c] by (auto simp: annotation_def)
  then show ?thesis using Some
    by (auto simp: calm_def wants_standby_def promotions_def change_cluster_def srv_get_cluster_def put2_def)
qed (simp add: change_cluster_def srv_get_cluster_def)

lemma calm_writes:
  "calm ns n w (snd (patchStatus srv_reconciler c w))"
  "calm ns n w (snd (removeAnnotationPatch srv_reconciler c key w))"
  "key \<noteq> AnnotationAction \<Longrightarrow> calm ns n w (snd (setAnnotationPatch srv_reconciler c key val w))"
  "calm ns n w (snd (ha_patch_fts (srv_hactl b loc f) ns' n' m fs w))"
proof -
  show "calm ns n w (snd (patchStatus srv_reconciler c w))"
    unfolding patchStatus_def by (simp add: srv_defs) (rule calm_change, simp add: annotation_def)
  show "calm ns n w (snd (ha_patch_fts (srv_hactl b loc f) ns' n' m fs w))"
    by (simp add: srv_hactl_def) (rule calm_change, simp add: annotation_def)
  have p: "calm ns n w (snd (k_patch_annotation (r_client srv_reconciler) ns' n' k v w))" if "v = None \<or> k \<noteq> AnnotationAction" for ns' n' k v
  proof -
    let ?g = "\<lambda>c. c\<lparr>CC_Annotations := (CC_Annotations c)(k := v)\<rparr>"
    have "calm ns n w (snd (change_cluster ?g ns' n' w))"
      by (rule calm_change) (use that in \<open>auto simp: annotation_def\<close>)
    then show ?thesis by (cases "change_cluster ?g ns' n' w") (simp add: srv_defs)
  qed
  show "calm ns n w (snd (removeAnnotationPatch srv_reconciler c key w))"
  proof -
    obtain res w1 where r: "k_patch_annotation (r_client srv_reconciler) (CC_Namespace c) (CC_Name c) key None w = (res, w1)"
      by (meson surj_pair)
    have "snd (k_get_cluster (r_client srv_reconciler) (CC_Namespace c) (CC_Name c) w1) = w1" by (simp add: srv_defs)
    then show ?thesis using p [of None key "CC_Namespace c" "CC_Name c"] r by (cases res) (simp_all add: removeAnnotationPatch_def)
  qed
  show "calm ns n w (snd (setAnnotationPatch srv_reconciler c key val w))" if "key \<noteq> AnnotationAction"
    using p that by (simp add: setAnnotationPatch_def)
qed

lemma calm_then:
  assumes "calm ns n w (snd p)" "\<And>a v. p = (a, v) \<Longrightarrow> calm ns n w v \<Longrightarrow> calm ns n w (snd (k a v))"
  shows "calm ns n w (snd (case p of (a, v) \<Rightarrow> k a v))"
  using assms by (cases p) simp

lemma calm_result:
  assumes "calm ns n w v" "\<And>d. calm ns n v (snd (k d))"
  shows "calm ns n w (snd (case a of Inl e \<Rightarrow> (g e, v) | Inr d \<Rightarrow> k d))"
  using assms by (cases a) (auto intro: calm_trans)

lemma probe_attempts_reads: "snd (probe_attempts (srv_ha f) k err w) = w"
  by (induction k arbitrary: err) (simp_all add: db_answer_def split: option.split)

lemma calm_probe: "calm ns n w (snd (runFTSProbe (srv_hactl b loc f) c w))"
proof -
  let ?r = "srv_hactl b loc f"
  have "snd (probeSegmentConfigWithRetries c (srv_ha f) w) = w"
    using probe_attempts_reads [of f "nat (probeRetries c)" "[]" w] by (auto simp: probeSegmentConfigWithRetries_def split: prod.split sum.split)
  then obtain res where p: "probeSegmentConfigWithRetries c (srv_ha f) w = (res, w)" by (metis prod.collapse)
  have events: "fold (\<lambda>_ w. w) fs v = v" for fs :: "SegmentInfo list" and v :: store by (induction fs) simp_all
  have ev: "ha_event ?r d t m = (\<lambda>w. w)" for d t m by (simp add: fun_eq_iff)
  have h: "calm ns n w (snd (handleFailover ?r c (srv_ha f) fs w))" for fs
    by (simp add: handleFailover_def ev events db_change_def db_answer_def split: option.split)
  have u: "snd (updateFTSProbeStatus ?r c a v) = v" for a v by (simp add: updateFTSProbeStatus_def Let_def)
  have patched: "calm ns n w (snd (ha_patch_fts ?r ns' n' m fs v))" if "calm ns n w v" for ns' n' m fs v
    using that calm_writes(4) by (rule calm_trans)
  show ?thesis
  proof (cases "srv_db_error w ''NewClient''")
    case None
    then show ?thesis
    proof (cases res)
      case (Inr segs)
      define w3 where "w3 = (if failedPrimaries (analyzeSegments segs) \<noteq> [] \<and> mirroring_on c
        then snd (handleFailover ?r c (srv_ha f) (failedPrimaries (analyzeSegments segs)) w) else w)"
      obtain d where d: "updateFTSProbeStatus ?r c (analyzeSegments segs) w3 = (d, w3)" using u by (metis prod.collapse)
      obtain ans w5 where w5: "ha_patch_fts ?r (CC_Namespace d) (CC_Name d) (St_MirroringStatus (CC_Status d))
          (failedSegments (analyzeSegments segs)) w3 = (ans, w5)" by (meson surj_pair)
      have "calm ns n w w3" using h by (simp add: w3_def)
      then have "calm ns n w w5" using patched [of w3] w5 by (metis snd_conv)
      then show ?thesis using None p Inr d w5
        by (cases ans) (simp_all add: runFTSProbe_def db_answer_def Let_def w3_def [symmetric])
    qed (simp add: runFTSProbe_def db_answer_def p)
  qed (simp add: runFTSProbe_def db_answer_def)
qed

lemma calm_monitor: "calm ns n w (snd (monitorStandby (srv_hactl b loc f) c w))"
proof -
  define msg where "msg = ''Standby replication lag: '' @ show_int (hf_lag f) @ '' bytes''"
  obtain ans v where v: "patchStatus srv_reconciler (with_condition (srv_now w) ConditionStandbyReady ConditionTrue ''StandbyInSync'' msg c) w = (ans, v)"
    by (meson surj_pair)
  then have c: "calm ns n w v" using calm_writes(1) by (metis snd_conv)
  show ?thesis
  proof (cases "srv_db_error w ''NewClient''")
    case None
    note r = monitorStandby_def srv_hactl_simps srv_ha_simps db_answer_def None option.case prod.case sum.case Let_def msg_def [symmetric] v
    show ?thesis
    proof (cases "srv_db_error w ''GetReplicationLag''")
      case lag: None
      show ?thesis using c by (cases ans) (simp_all only: r lag prod.sel)
    qed (simp_all only: r prod.sel calm_refl)
  qed (simp add: monitorStandby_def db_answer_def)
qed

lemma calm_health_checks: "calm ns n w (snd (runHealthChecks (srv_hactl b loc f) c w))"
proof -
  define p where "p = (if mirroring_on c then (case runFTSProbe (srv_hactl b loc f) c w of ((_, c), w1) \<Rightarrow> (c, w1)) else (c, w))"
  have "calm ns n w (snd p)"
    using calm_probe [of ns n w b loc f c] by (cases "runFTSProbe (srv_hactl b loc f) c w") (auto simp: p_def split: prod.split)
  moreover have "calm ns n v (snd (if standby_enabled d then (case monitorStandby (srv_hactl b loc f) d v of ((_, c), w2) \<Rightarrow> (c, w2)) else (d, v)))" for d v
    using calm_monitor [of ns n v b loc f d] by (cases "monitorStandby (srv_hactl b loc f) d v") (auto split: prod.split)
  ultimately show ?thesis unfolding runHealthChecks_def p_def [symmetric] by (blast intro: calm_then calm_trans)
qed

lemma calm_rebalance_ends:
  "calm ns n w (snd (recordRebalanceFailure (srv_hactl b loc f) c reason msg w))"
  "calm ns n w (snd (clearRebalanceJobAnnotation (srv_hactl b loc f) c w))"
  "calm ns n w (snd (rebalance_completed (srv_hactl b loc f) c w))"
  "calm ns n w (snd (handleRecovery (srv_hactl b loc f) c kind w))"
  unfolding recordRebalanceFailure_def clearRebalanceJobAnnotation_def rebalance_completed_def handleRecovery_def Let_def srv_hactl_simps
  by (rule calm_then, rule calm_writes, simp split: sum.split)+

lemma calm_start_job: "calm ns n w (snd (startRebalanceJob (srv_hactl b loc f) c w))"
proof -
  define job where "job = bld_maintenance b c MaintenanceRebalance
    (backup_timestamp (srv_now w + loc (srv_now w div Second) * Second))"
  define err where "err = fst (s_create_job (srv_services b loc) job w)"
  define w1 where "w1 = snd (s_create_job (srv_services b loc) job w)"
  have c: "s_create_job (srv_services b loc) job w = (err, w1)" by (simp add: err_def w1_def)
  have ok: "err = None \<or> err = Some AlreadyExists" by (simp add: err_def srv_services_def)
  have "calm ns n w w1" by (simp add: w1_def srv_services_def calm_def wants_standby_def promotions_def)
  moreover obtain res v where v: "setAnnotationPatch srv_reconciler c AnnotationRebalanceJob (KJob_Name job) w1 = (res, v)"
    by (meson surj_pair)
  moreover have "calm ns n w1 v" using calm_writes(3) [of AnnotationRebalanceJob ns n w1 c "KJob_Name job"] v by simp
  ultimately have "calm ns n w v" by (blast intro: calm_trans)
  have now: "k_now (r_client srv_reconciler) w = srv_now w" by (simp add: srv_defs)
  show ?thesis using \<open>calm ns n w v\<close> ok c v
    by (cases res) (auto simp: startRebalanceJob_def Let_def now job_def [symmetric])
qed

lemma calm_observe: "calm ns n w (snd (observeRebalanceJob (srv_hactl b loc f) c job w))"
proof -
  have clear: "calm ns n w (snd (case p of (d, v) \<Rightarrow> clearRebalanceJobAnnotation (srv_hactl b loc f) d v))" if "calm ns n w (snd p)" for p
    using that calm_rebalance_ends(2) by (auto intro: calm_trans split: prod.split)
  have "calm ns n w (snd (case rebalance_completed (srv_hactl b loc f) c w of (Inl e, w2) \<Rightarrow> (Inl e, w2)
      | (Inr d, w2) \<Rightarrow> clearRebalanceJobAnnotation (srv_hactl b loc f) d w2))"
    by (rule calm_then, rule calm_rebalance_ends) (auto intro: calm_trans [OF _ calm_rebalance_ends(2)] split: sum.split)
  then show ?thesis
    using clear [OF calm_rebalance_ends(1)] by (cases "srv_jobs w (CC_Namespace c) job") (auto simp: observeRebalanceJob_def)
qed

definition refused :: "store \<Rightarrow> TableSkewInfo \<Rightarrow> bool" where
  "refused w t \<longleftrightarrow> srv_db_error w (''RebalanceTable '' @ skew_name t) \<noteq> None"

text \<open>The tables of all databases that are skewed enough and not excluded.\<close>

definition skewed :: "ha_facts \<Rightarrow> CloudberryCluster \<Rightarrow> TableSkewInfo list" where
  "skewed f c = (case rebalance_config c of (_, threshold, excluded) \<Rightarrow>
     filter (needs_rebalance threshold excluded) (concat (map (hf_skew f) (hf_databases f))))"

text \<open>Those tables in the order in which the workers' statements reach the database.\<close>

definition sent :: "ha_facts \<Rightarrow> CloudberryCluster \<Rightarrow> TableSkewInfo list" where
  "sent f c = (case rebalance_config c of (par, _, _) \<Rightarrow>
     map ((!) (skewed f c)) (filter (\<lambda>i. i < length (skewed f c)) (hf_schedule f par (length (skewed f c)))))"

definition rebalances :: "store \<Rightarrow> operation list" where
  "rebalances w = filter (\<lambda>e. case e of Op_Rebalance _ _ _ \<Rightarrow> True | _ \<Rightarrow> False) (srv_log w)"

definition moved :: "TableSkewInfo list \<Rightarrow> store \<Rightarrow> store" where
  "moved ts w = fold (\<lambda>t. logged (op_rebalance t)) ts w"

lemma moved_simps [simp]: "srv_db_error (moved ts w) = srv_db_error w" "srv_cluster (moved ts w) = srv_cluster w"
  "srv_jobs (moved ts w) = srv_jobs w" "srv_now (moved ts w) = srv_now w" "rebalances (moved ts w) = rebalances w @ map op_rebalance ts"
proof -
  have "srv_db_error (moved ts w) = srv_db_error w \<and> srv_cluster (moved ts w) = srv_cluster w \<and> srv_jobs (moved ts w) = srv_jobs w \<and>
      srv_now (moved ts w) = srv_now w \<and> rebalances (moved ts w) = rebalances w @ map op_rebalance ts"
    by (induction ts arbitrary: w) (simp_all add: moved_def rebalances_def op_rebalance_def)
  then show "srv_db_error (moved ts w) = srv_db_error w" "srv_cluster (moved ts w) = srv_cluster w"
    "srv_jobs (moved ts w) = srv_jobs w" "srv_now (moved ts w) = srv_now w" "rebalances (moved ts w) = rebalances w @ map op_rebalance ts"
    by simp_all
qed

lemma refused_logged [simp]: "refused (logged e w) = refused w" "refused (set_cluster c w) = refused w"
  by (simp_all add: refused_def fun_eq_iff)

lemma statements_run:
  "worker_statements (srv_ha f) ts order k w =
     (k + length (filter (refused w) (map ((!) ts) order)), moved (filter (\<lambda>t. \<not> refused w t) (map ((!) ts) order)) w)"
proof (induction order arbitrary: k w)
  case (Cons i order)
  let ?t = "ts ! i"
  show ?case
  proof (cases "refused w ?t")
    case True
    then show ?thesis using Cons.IH [of "k + 1" w] by (auto simp: refused_def db_change_def)
  next
    case False
    then have "db_change (''RebalanceTable '' @ skew_name ?t) (op_rebalance ?t) w = (None, logged (op_rebalance ?t) w)"
      by (simp add: refused_def db_change_def)
    then show ?thesis using Cons.IH [of k "logged (op_rebalance ?t) w"] False by (simp add: moved_def)
  qed
qed (simp add: moved_def)

lemma databases_run: "db_up w \<Longrightarrow> analyze_databases (srv_ha f) ds w = (concat (map (hf_skew f) ds), w)"
proof (induction ds)
  case (Cons d ds)
  have "h_analyze_skew (srv_ha f) d w = (Inr (hf_skew f d), w)" unfolding srv_ha_simps using db_up_answers(5) [OF Cons.prems] .
  then show ?case using Cons by (simp del: srv_ha_simps)
qed simp

lemma execute_run:
  assumes "db_up w" "rebalance_config c = (par, threshold, excluded)"
  shows "executeRebalanceViaDB (srv_hactl b loc f) (srv_ha f) d threshold par excluded w =
    (if list_ex (refused w) (sent f c)
     then Some (plain_error (show_int (int (length (filter (refused w) (sent f c)))) @ '' of '' @ show_int (int (length (skewed f c))) @
       '' tables failed to rebalance'')) else None, moved (filter (\<lambda>t. \<not> refused w t) (sent f c)) w)"
proof -
  have "analyzeAndFilterSkew (srv_ha f) threshold excluded w = ((concat (map (hf_skew f) (hf_databases f)), skewed f c), w)"
    using assms by (simp add: analyzeAndFilterSkew_def db_up_answers databases_run skewed_def)
  moreover have "0 < length (filter (refused w) (sent f c)) \<longleftrightarrow> list_ex (refused w) (sent f c)"
    by (simp add: filter_empty_conv list_ex_iff)
  moreover have "h_new (srv_ha f) d w = (Inr (), w)" unfolding srv_ha_simps using db_up_answers(1) [OF assms(1)] .
  moreover have "moved (filter (\<lambda>t. \<not> refused w t) []) w = w" by (simp add: moved_def)
  moreover have "sent f c = map ((!) (skewed f c)) (filter (\<lambda>i. i < length (skewed f c)) (hf_schedule f par (length (skewed f c))))"
    by (simp add: sent_def assms(2))
  moreover from this have "skewed f c = [] \<Longrightarrow> sent f c = []" by simp
  ultimately show ?thesis
    unfolding executeRebalanceViaDB_def dispatchRebalanceTables_def statements_run Let_def
    by (cases "skewed f c = []") (simp_all del: length_greater_0_conv)
qed

lemma moved_calm: "calm ns n w (moved ts w)"
proof -
  have "calm ns n v (moved ts v)" for v
  proof (induction ts arbitrary: v)
    case (Cons t ts)
    have "calm ns n v (logged (op_rebalance t) v)" by (simp add: op_rebalance_def)
    then show ?case using Cons.IH [of "logged (op_rebalance t) v"] by (auto simp: moved_def intro: calm_trans)
  qed (simp add: moved_def)
  then show ?thesis .
qed

lemma databases_read: "snd (analyze_databases (srv_ha f) ds w) = w"
  by (induction ds) (auto simp: db_answer_def split: option.split prod.split)

lemma calm_execute: "calm ns n w (snd (executeRebalanceViaDB (srv_hactl b loc f) (srv_ha f) c t par ex w))"
proof (cases "srv_db_error w ''NewClient''")
  case None
  have d: "calm ns n v (snd (dispatchRebalanceTables (srv_hactl b loc f) (srv_ha f) ts par v))" for ts v
    by (simp add: dispatchRebalanceTables_def Let_def statements_run moved_calm)
  have "snd (analyzeAndFilterSkew (srv_ha f) t ex w) = w"
    using databases_read [of f "hf_databases f" w]
    by (auto simp: analyzeAndFilterSkew_def db_answer_def split: option.split prod.split sum.split)
  then obtain p where "analyzeAndFilterSkew (srv_ha f) t ex w = (p, w)" by (metis prod.collapse)
  then show ?thesis using None d [of w "snd p"]
    by (cases p) (auto simp: executeRebalanceViaDB_def db_answer_def split: prod.split)
qed (simp add: executeRebalanceViaDB_def db_answer_def)

lemma calm_rebalance: "calm ns n w (snd (handleRebalance (srv_hactl b loc f) c w))"
proof -
  let ?r = "srv_hactl b loc f"
  have ends: "calm ns n v (snd (case rebalance_completed ?r d v of (Inl e, w5) \<Rightarrow> (Inl e, w5) | (Inr _, w5) \<Rightarrow> (Inr (k::int), w5)))" for d v k
    by (rule calm_then, rule calm_rebalance_ends) (simp split: sum.split)
  have run: "calm ns n v (snd (case executeRebalanceViaDB ?r (srv_ha f) d t par ex v of (Some _, w4) \<Rightarrow> startRebalanceJob ?r d w4
      | (None, w4) \<Rightarrow> (case rebalance_completed ?r d w4 of (Inl e, w5) \<Rightarrow> (Inl e, w5) | (Inr _, w5) \<Rightarrow> (Inr k, w5))))" for d t par ex v k
    by (rule calm_then, rule calm_execute) (auto intro: calm_trans [OF _ calm_start_job] calm_trans [OF _ ends] split: option.split)
  have patch: "calm ns n v (snd (case patchStatus srv_reconciler d v of (Inl e, w2) \<Rightarrow> (Inl (Ctrl_Error ctx e), w2)
      | (Inr c1, w2) \<Rightarrow> (case executeRebalanceViaDB ?r (srv_ha f) c1 t par ex w2 of (Some _, w4) \<Rightarrow> startRebalanceJob ?r c1 w4
      | (None, w4) \<Rightarrow> (case rebalance_completed ?r c1 w4 of (Inl e, w5) \<Rightarrow> (Inl e, w5) | (Inr _, w5) \<Rightarrow> (Inr k, w5)))))" for d ctx t par ex v k
    by (rule calm_then, rule calm_writes) (auto intro: calm_trans [OF _ run] split: sum.split)
  have config: "calm ns n v (snd (case cfg of (par, t, ex) \<Rightarrow> k par t ex))" if "\<And>par t ex. calm ns n v (snd (k par t ex))" for cfg k v
    using that by (cases cfg) simp
  show ?thesis unfolding handleRebalance_def srv_hactl_simps option.case Let_def
    by (rule calm_then, rule calm_writes, rule calm_result, assumption, rule config, rule patch)
qed

text \<open>Without a request a pass is calm, whatever else it finds to do.\<close>

lemma calm_pass:
  assumes "\<not> wants_standby ns n w"
  shows "calm ns n w (snd (ha_Reconcile (srv_hactl b loc f) ns n w))"
proof (cases "srv_cluster w ns n")
  case (Some c0)
  define c where "c = c0\<lparr>CC_Namespace := ns, CC_Name := n\<rparr>"
  let ?r = "srv_hactl b loc f"
  have g: "k_get_cluster (r_client srv_reconciler) ns n w = (Inr c, w)" using Some by (simp add: srv_defs srv_get_cluster_def c_def)
  have "annotation c AnnotationAction \<noteq> ActionActivateStandby" using assms Some by (auto simp: wants_standby_def c_def annotation_def)
  then have "calm ns n w (snd p)" if "handleAnnotations ?r c w = Some p" for p
    using that calm_observe calm_rebalance_ends(4) calm_rebalance by (auto simp: handleAnnotations_def split: if_splits option.splits)
  then show ?thesis using g calm_health_checks [of ns n w b loc f c]
    by (auto simp: ha_Reconcile_def split: option.split prod.splits)
qed (simp add: ha_Reconcile_def srv_defs srv_get_cluster_def)

section \<open>The activation of the standby\<close>

definition activation_requested :: "CloudberryCluster \<Rightarrow> store \<Rightarrow> bool" where
  "activation_requested c w \<longleftrightarrow> stored c w \<and> St_Phase (CC_Status c) = ClusterPhaseRunning \<and> annotation c AnnotationRebalanceJob = [] \<and>
     CC_Annotations c AnnotationRecovery = None \<and> annotation c AnnotationAction = ActionActivateStandby"

lemma activation_run:
  assumes "activation_requested c w" "ns = CC_Namespace c" "n = CC_Name c"
  shows "\<not> wants_standby ns n (snd (ha_Reconcile (srv_hactl b loc f) ns n w)) \<and>
    promotions (snd (ha_Reconcile (srv_hactl b loc f) ns n w)) =
      promotions w + (if standby_enabled c \<and> srv_db_error w ''NewClient'' = None then 1 else 0)"
proof -
  let ?r = "srv_hactl b loc f"
  define c1 where "c1 = annotated AnnotationAction None c"
  define w1 where "w1 = logged (Op_Annotation AnnotationAction None) (set_cluster c1 w)"
  have pass: "ha_Reconcile ?r ns n w = handleStandbyActivation ?r c w"
    using assms srv_get [of c w c] by (simp add: ha_Reconcile_def activation_requested_def handleAnnotations_def)
  have 1: "removeAnnotationPatch srv_reconciler c AnnotationAction w = (Inr c1, w1)"
    using assms(1) exec_remove [of c w c] by (simp add: activation_requested_def c1_def w1_def)
  have c1: "stored c1 w1" "srv_db_error w1 = srv_db_error w" "standby_enabled c1 = standby_enabled c" "promotions w1 = promotions w"
    by (simp_all add: w1_def c1_def standby_enabled_def)
  have "CC_Namespace c1 = ns" "CC_Name c1 = n" "annotation c1 AnnotationAction = []"
    using assms(2,3) by (simp_all add: c1_def annotated_def annotation_def)
  then have gone: "\<not> wants_standby ns n w1" using c1(1) by (simp add: wants_standby_get stored_def)
  have tried: "\<not> wants_standby ns n (logged Op_Promote w1)" "promotions (logged Op_Promote w1) = promotions w + 1"
    using gone c1(4) by (simp_all add: wants_standby_def)
  have wrote: "calm ns n (logged Op_Promote w1) (snd (patchStatus srv_reconciler d (logged Op_Promote w1)))" for d
    by (rule calm_writes)
  show ?thesis
  proof (cases "standby_enabled c \<and> srv_db_error w ''NewClient'' = None")
    case False
    then have "snd (handleStandbyActivation ?r c w) = w1"
      using 1 c1(2,3) by (auto simp: handleStandbyActivation_def db_answer_def Let_def recordStandbyActivationFailure_def split: option.split)
    then show ?thesis using pass gone c1(4) False by simp
  next
    case True
    define v where "v = snd (handleStandbyActivation ?r c w)"
    have "calm ns n (logged Op_Promote w1) v"
    proof (cases "srv_db_error w ''PromoteStandby''")
      case (Some e)
      then have "v = logged Op_Promote w1" using 1 c1(2,3) True
        by (simp add: v_def handleStandbyActivation_def db_answer_def Let_def recordStandbyActivationFailure_def)
      then show ?thesis by simp
    next
      case None
      then have "v = snd (patchStatus srv_reconciler (with_condition (srv_now w1) ConditionStandbyReady ConditionFalse ''StandbyPromoted''
          ''Standby coordinator was promoted to primary'' c1) (logged Op_Promote w1))"
        using 1 c1(2,3) True by (simp add: v_def handleStandbyActivation_def db_answer_def Let_def case_prod_beta)
      then show ?thesis using wrote by simp
    qed
    then show ?thesis using tried pass True by (simp add: v_def calm_def)
  qed
qed

text \<open>
  Passes of the controller, each with the facts and the errors the database gives it, and after each
  whatever the other controllers and users do to the store.
\<close>

fun ha_run :: "builder \<Rightarrow> Location \<Rightarrow> string \<Rightarrow> string \<Rightarrow>
  (ha_facts \<times> (string \<Rightarrow> string option) \<times> (store \<Rightarrow> store)) list \<Rightarrow> store \<Rightarrow> store" where
  "ha_run b loc ns n [] w = w"
| "ha_run b loc ns n ((f, err, others) # rounds) w =
     ha_run b loc ns n rounds (others (snd (ha_Reconcile (srv_hactl b loc f) ns n (w\<lparr>srv_db_error := err\<rparr>))))"

definition no_new_request :: "string \<Rightarrow> string \<Rightarrow> (store \<Rightarrow> store) \<Rightarrow> bool" where
  "no_new_request ns n others \<longleftrightarrow>
     (\<forall>w. promotions (others w) = promotions w \<and> (wants_standby ns n (others w) \<longrightarrow> wants_standby ns n w))"

lemma calm_run:
  assumes "\<not> wants_standby ns n w" "\<forall>(f, err, others) \<in> set rounds. no_new_request ns n others"
  shows "promotions (ha_run b loc ns n rounds w) = promotions w"
  using assms
proof (induction rounds arbitrary: w)
  case (Cons round rounds)
  obtain f err others where r: "round = (f, err, others)" by (cases round) auto
  let ?w = "w\<lparr>srv_db_error := err\<rparr>" and ?v = "snd (ha_Reconcile (srv_hactl b loc f) ns n (w\<lparr>srv_db_error := err\<rparr>))"
  have w: "\<not> wants_standby ns n ?w" "promotions ?w = promotions w" using Cons.prems(1) by (simp_all add: wants_standby_def promotions_def)
  then have "promotions ?v = promotions w" "\<not> wants_standby ns n ?v" using calm_pass [OF w(1), of b loc f] by (auto simp: calm_def)
  then have "promotions (others ?v) = promotions w" "\<not> wants_standby ns n (others ?v)"
    using Cons.prems(2) r by (auto simp: no_new_request_def)
  then show ?case using Cons.IH [of "others ?v"] Cons.prems(2) r by simp
qed simp

text \<open>
  C34. A request to activate the standby that the high-availability controller finds is tried at most
  once. The pass that finds it asks the database for one promotion when a standby is enabled and the
  database can be reached, and for none otherwise; whether that succeeds or not, no later pass asks
  again, however many passes follow, whatever segments, lag, skew and errors the database gives each of
  them and whatever requests of other kinds they find, as long as nobody asks for the activation anew.
  Nobody else writes during a pass, and a request another controller removes before it is not covered.
\<close>

theorem standby_promoted_once:
  assumes "activation_requested c w" "\<forall>(f, err, others) \<in> set ((f0, err0, others0) # rounds). no_new_request (CC_Namespace c) (CC_Name c) others"
  shows "promotions (ha_run b loc (CC_Namespace c) (CC_Name c) ((f0, err0, others0) # rounds) w) =
    promotions w + (if standby_enabled c \<and> err0 ''NewClient'' = None then 1 else 0)"
proof -
  let ?ns = "CC_Namespace c" and ?n = "CC_Name c" and ?w = "w\<lparr>srv_db_error := err0\<rparr>"
  define v where "v = snd (ha_Reconcile (srv_hactl b loc f0) ?ns ?n ?w)"
  have "activation_requested c ?w" "promotions ?w = promotions w" using assms(1)
    by (simp_all add: activation_requested_def stored_def srv_get_cluster_def promotions_def)
  then have "\<not> wants_standby ?ns ?n v" "promotions v = promotions w + (if standby_enabled c \<and> err0 ''NewClient'' = None then 1 else 0)"
    using activation_run [of c ?w ?ns ?n b loc f0] by (simp_all add: v_def)
  then have "\<not> wants_standby ?ns ?n (others0 v)"
    "promotions (others0 v) = promotions w + (if standby_enabled c \<and> err0 ''NewClient'' = None then 1 else 0)"
    using assms(2) by (auto simp: no_new_request_def)
  then show ?thesis using calm_run [of ?ns ?n "others0 v" rounds b loc] assms(2) by (simp add: v_def)
qed

section \<open>The rebalance of skewed tables\<close>

definition redistribution_reason :: "CloudberryCluster \<Rightarrow> string" where
  "redistribution_reason c = (case FindCondition (St_Conditions (CC_Status c)) ConditionDataRedistribution of None \<Rightarrow> [] | Some d \<Rightarrow> Cond_Reason d)"

lemma reason_with_condition [simp]: "redistribution_reason (with_condition now ConditionDataRedistribution s rs m c) = rs"
  by (simp add: redistribution_reason_def with_condition_def write_condition_def split: option.split)

lemma reason_annotated [simp]: "redistribution_reason (annotated k v c) = redistribution_reason c"
  by (simp add: redistribution_reason_def)

definition rebalance_requested :: "CloudberryCluster \<Rightarrow> store \<Rightarrow> bool" where
  "rebalance_requested c w \<longleftrightarrow> stored c w \<and> St_Phase (CC_Status c) = ClusterPhaseRunning \<and> annotation c AnnotationRebalanceJob = [] \<and>
     CC_Annotations c AnnotationRecovery = None \<and> annotation c AnnotationAction = ActionRebalance"

lemma completed_run:
  assumes "stored c w"
  shows "\<exists>c'. rebalance_completed (srv_hactl b loc f) c w = (Inr c', set_cluster c' w) \<and> same_key c' c \<and>
    CC_Annotations c' = CC_Annotations c \<and> redistribution_reason c' = ''RebalanceCompleted''"
proof -
  define c' where "c' = with_condition (srv_now w) ConditionDataRedistribution ConditionTrue ''RebalanceCompleted'' ''Rebalance completed successfully'' c"
  have "patchStatus srv_reconciler c' w = (Inr c', set_cluster c' w)" using exec_condition [OF assms] by (simp add: c'_def)
  then have "rebalance_completed (srv_hactl b loc f) c w = (Inr c', set_cluster c' w)"
    by (simp only: rebalance_completed_def srv_hactl_simps Let_def c'_def [symmetric] prod.case sum.case)
  moreover have "redistribution_reason c' = ''RebalanceCompleted''" by (simp add: c'_def)
  moreover have "same_key c' c" "CC_Annotations c' = CC_Annotations c" by (simp_all add: c'_def with_condition_def same_key_def)
  ultimately show ?thesis by blast
qed

lemma start_job_run:
  assumes "stored c w"
  shows "\<exists>w' ts. let job = bld_maintenance b c MaintenanceRebalance ts; c' = annotated AnnotationRebalanceJob (Some (KJob_Name job)) c
    in startRebalanceJob (srv_hactl b loc f) c w = (Inr requeueAfterRebalanceJob, w') \<and> stored c' w' \<and>
       srv_jobs w' (KJob_Namespace job) (KJob_Name job) \<noteq> None \<and> rebalances w' = rebalances w"
proof -
  define ts where "ts = backup_timestamp (srv_now w + loc (srv_now w div Second) * Second)"
  define job where "job = bld_maintenance b c MaintenanceRebalance ts"
  define c' where "c' = annotated AnnotationRebalanceJob (Some (KJob_Name job)) c"
  obtain err w1 where w1: "s_create_job (srv_services b loc) job w = (err, w1)" "err = None \<or> err = Some AlreadyExists"
    "srv_jobs w1 (KJob_Namespace job) (KJob_Name job) \<noteq> None" "srv_cluster w1 = srv_cluster w" "rebalances w1 = rebalances w"
    by (cases "srv_jobs w (KJob_Namespace job) (KJob_Name job)") (auto simp: srv_services_def rebalances_def)
  have s1: "stored c w1" using assms stored_cong [OF w1(4)] by simp
  define w' where "w' = logged (Op_Annotation AnnotationRebalanceJob (Some (KJob_Name job))) (set_cluster c' w1)"
  have "setAnnotationPatch srv_reconciler c AnnotationRebalanceJob (KJob_Name job) w1 = (Inr c', w')"
    using exec_annotation [OF s1, of c] by (simp add: setAnnotationPatch_def c'_def w'_def)
  then have "startRebalanceJob (srv_hactl b loc f) c w = (Inr requeueAfterRebalanceJob, w')"
    using w1(1,2) unfolding startRebalanceJob_def srv_hactl_simps srv_reconciler_simps srv_event_now srv_services_simps Let_def
      ts_def [symmetric] job_def [symmetric] by auto
  moreover have "stored c' w'" "srv_jobs w' = srv_jobs w1" "rebalances w' = rebalances w"
    using w1(5) by (simp_all add: w'_def rebalances_def set_cluster_simps)
  ultimately show ?thesis using w1(3) by (intro exI [of _ w'] exI [of _ ts]) (simp add: job_def [symmetric] c'_def [symmetric] Let_def)
qed

lemma rebalance_run:
  assumes "rebalance_requested c w" "db_up w" "\<And>d ts. KJob_Name (bld_maintenance b d MaintenanceRebalance ts) \<noteq> []"
  shows "\<exists>c' w' delay. ha_Reconcile (srv_hactl b loc f) (CC_Namespace c) (CC_Name c) w = (Inr delay, w') \<and> stored c' w' \<and> same_key c' c \<and>
    rebalances w' = rebalances w @ map op_rebalance (filter (\<lambda>t. \<not> refused w t) (sent f c)) \<and>
    (if list_ex (refused w) (sent f c)
     then delay = requeueAfterRebalanceJob \<and> redistribution_reason c' = ''RebalanceStarted'' \<and> annotation c' AnnotationRebalanceJob \<noteq> [] \<and>
       (\<exists>ns. srv_jobs w' ns (annotation c' AnnotationRebalanceJob) \<noteq> None)
     else delay = requeueDefault srv_reconciler \<and> redistribution_reason c' = ''RebalanceCompleted'' \<and> annotation c' AnnotationRebalanceJob = [])"
proof -
  let ?r = "srv_hactl b loc f"
  define c1 where "c1 = annotated AnnotationAction None c"
  define w1 where "w1 = logged (Op_Annotation AnnotationAction None) (set_cluster c1 w)"
  have pass: "ha_Reconcile ?r (CC_Namespace c) (CC_Name c) w = handleRebalance ?r c w"
    using assms(1) srv_get [of c w c] by (simp add: ha_Reconcile_def rebalance_requested_def handleAnnotations_def)
  have 1: "removeAnnotationPatch srv_reconciler c AnnotationAction w = (Inr c1, w1)"
    using assms(1) exec_remove [of c w c] by (simp add: rebalance_requested_def c1_def w1_def)
  have s1: "stored c1 w1" by (simp add: w1_def)
  obtain par threshold excluded where cfg: "rebalance_config c1 = (par, threshold, excluded)" by (cases "rebalance_config c1")
  define msg where "msg = ''Rebalance started: threshold='' @ show_int threshold @ ''%, parallelism='' @ show_int par @ '', excluded=['' @ Join excluded '' '' @ '']''"
  define c2 where "c2 = with_condition (srv_now w1) ConditionDataRedistribution ConditionTrue ''RebalanceStarted'' msg c1"
  define w2 where "w2 = set_cluster c2 w1"
  have 2: "patchStatus srv_reconciler c2 w1 = (Inr c2, w2)" using exec_condition [OF s1] by (simp add: c2_def w2_def)
  have reason: "redistribution_reason c2 = ''RebalanceStarted''" by (simp add: c2_def)
  have "annotation c2 AnnotationRebalanceJob = []"
    using assms(1) by (simp add: rebalance_requested_def c2_def c1_def annotation_def with_condition_def)
  with reason have c2: "stored c2 w2" "same_key c2 c" "redistribution_reason c2 = ''RebalanceStarted''" "annotation c2 AnnotationRebalanceJob = []"
    "db_up w2" "refused w2 = refused w" "rebalances w2 = rebalances w" "sent f c1 = sent f c"
    using assms(2) by (simp_all add: w2_def w1_def rebalances_def c2_def c1_def with_condition_def sent_def skewed_def rebalance_config_def)
  define w3 where "w3 = moved (filter (\<lambda>t. \<not> refused w t) (sent f c)) w2"
  have s3: "stored c2 w3" using c2(1) stored_cong [of w3 w2 c2] by (simp add: w3_def)
  have run: "handleRebalance ?r c w = (if list_ex (refused w) (sent f c) then startRebalanceJob ?r c2 w3
      else case rebalance_completed ?r c2 w3 of (Inl e, w5) \<Rightarrow> (Inl e, w5) | (Inr _, w5) \<Rightarrow> (Inr (requeueDefault srv_reconciler), w5))"
    using execute_run [OF c2(5) cfg, of b loc f c2] c2(6,8)
    unfolding handleRebalance_def srv_hactl_simps 1 prod.case sum.case cfg msg_def [symmetric] c2_def [symmetric] 2 Let_def option.case
    by (simp add: w3_def)
  have moves: "rebalances w3 = rebalances w @ map op_rebalance (filter (\<lambda>t. \<not> refused w t) (sent f c))"
    using c2(7) by (simp add: w3_def)
  show ?thesis
  proof (cases "list_ex (refused w) (sent f c)")
    case True
    obtain w' ts where j: "startRebalanceJob ?r c2 w3 = (Inr requeueAfterRebalanceJob, w')"
      "stored (annotated AnnotationRebalanceJob (Some (KJob_Name (bld_maintenance b c2 MaintenanceRebalance ts))) c2) w'"
      "srv_jobs w' (KJob_Namespace (bld_maintenance b c2 MaintenanceRebalance ts)) (KJob_Name (bld_maintenance b c2 MaintenanceRebalance ts)) \<noteq> None"
      "rebalances w' = rebalances w3"
      using start_job_run [OF s3, of b loc f] by (auto simp: Let_def)
    then show ?thesis unfolding pass run if_P [OF True] using c2 moves assms(3) True
      by (intro exI [of _ "annotated AnnotationRebalanceJob (Some (KJob_Name (bld_maintenance b c2 MaintenanceRebalance ts))) c2"]
          exI [of _ w'] exI [of _ requeueAfterRebalanceJob]) (auto simp: annotation_def)
  next
    case False
    obtain c' where d: "rebalance_completed ?r c2 w3 = (Inr c', set_cluster c' w3)" "same_key c' c2" "CC_Annotations c' = CC_Annotations c2"
      "redistribution_reason c' = ''RebalanceCompleted''" using completed_run [OF s3, of b loc f] by blast
    then show ?thesis unfolding pass run if_not_P [OF False] using c2 moves False
      by (intro exI [of _ c'] exI [of _ "set_cluster c' w3"] exI [of _ "requeueDefault srv_reconciler"])
        (simp add: annotation_def same_key_def rebalances_def)
  qed
qed

text \<open>What a table is measured by: a skew clearly above or below the threshold, and the exclusion patterns.\<close>

definition above :: "int32 \<Rightarrow> TableSkewInfo \<Rightarrow> bool" where
  "above threshold t \<longleftrightarrow> Skew_Coefficient t = F_PosInf \<or> (\<exists>q. Skew_Coefficient t = F_Finite q \<and> rat_of_int threshold < q)"

definition below :: "int32 \<Rightarrow> TableSkewInfo \<Rightarrow> bool" where
  "below threshold t \<longleftrightarrow> Skew_Coefficient t = F_NegInf \<or> (\<exists>q. Skew_Coefficient t = F_Finite q \<and> q < rat_of_int threshold)"

definition excluded_by :: "string list \<Rightarrow> TableSkewInfo \<Rightarrow> bool" where
  "excluded_by patterns t \<longleftrightarrow> (\<exists>p \<in> set patterns. p = skew_name t \<or> Match p (skew_name t) \<or>
     (\<exists>a b. skew_name t = a @ ''.'' @ b \<and> CHR ''.'' \<notin> set a \<and> Match p b))"

lemma first_dot: "\<exists>a b. skew_name t = a @ CHR ''.'' # b \<and> CHR ''.'' \<notin> set a"
  unfolding skew_name_def by (rule split_list_first) simp

lemma isTableExcluded_iff: "isTableExcluded (skew_name t) patterns \<longleftrightarrow> excluded_by patterns t"
proof -
  obtain a b where ab: "skew_name t = a @ CHR ''.'' # b" "CHR ''.'' \<notin> set a" using first_dot by blast
  have unique: "a' = a \<and> b' = b" if "skew_name t = a' @ CHR ''.'' # b'" "CHR ''.'' \<notin> set a'" for a' b'
  proof -
    have "takeWhile (\<lambda>x. x \<noteq> CHR ''.'') (xs @ CHR ''.'' # ys) = xs" if "CHR ''.'' \<notin> set xs" for xs ys using that by (induction xs) auto
    then have "a' = a" using that ab by metis
    then show ?thesis using that ab by simp
  qed
  have "splitSchemaTable (skew_name t) = [a, b]" using ab by (simp add: splitSchemaTable_def)
  then have "table_excluded_by (skew_name t) p \<longleftrightarrow> p = skew_name t \<or> Match p (skew_name t) \<or> Match p b" for p
    using ab(1) by (auto simp: table_excluded_by_def)
  moreover have "(\<exists>a' b'. skew_name t = a' @ ''.'' @ b' \<and> CHR ''.'' \<notin> set a' \<and> Match p b') \<longleftrightarrow> Match p b" for p
    using ab unique by (metis append_Cons append_Nil)
  ultimately show ?thesis by (simp add: isTableExcluded_def excluded_by_def list_ex_iff)
qed

lemma needs_rebalance_above: "above threshold t \<Longrightarrow> \<not> excluded_by patterns t \<Longrightarrow> needs_rebalance threshold patterns t"
  using isTableExcluded_iff [of t patterns] by (auto simp: needs_rebalance_def above_def skew_name_def)

lemma needs_rebalance_below: "needs_rebalance threshold patterns t \<Longrightarrow> \<not> below threshold t \<and> \<not> excluded_by patterns t"
  using isTableExcluded_iff [of t patterns] by (auto simp: needs_rebalance_def below_def skew_name_def)

text \<open>
  C33. A rebalance moves what it should and reports what happened. For every order in which the
  concurrent workers of a pass that is not cancelled can reach the database, the tables sent to be
  moved are, each as often as the databases report it, all those whose skew is above the threshold and
  that no exclusion pattern matches (in full, or after the first dot of their name), and none whose skew
  is below it or that a pattern matches. Exactly those of them the database did not refuse are
  rebalanced. Completion is reported only when it refused none; otherwise a Job is created and tracked,
  and completion is not reported. What happens at the threshold itself is left open.
\<close>

theorem rebalance_moves_skewed_tables:
  assumes "rebalance_requested c w" "db_up w" "\<And>d ts. KJob_Name (bld_maintenance b d MaintenanceRebalance ts) \<noteq> []"
    "rebalance_config c = (par, threshold, patterns)" "\<And>n. worker_order n (nat par) (hf_schedule f par n)"
    "reported = concat (map (hf_skew f) (hf_databases f))"
  shows "\<exists>c' w' delay sent_tables. ha_Reconcile (srv_hactl b loc f) (CC_Namespace c) (CC_Name c) w = (Inr delay, w') \<and> stored c' w' \<and> same_key c' c \<and>
    (\<forall>t \<in> set reported. above threshold t \<and> \<not> excluded_by patterns t \<longrightarrow> count_list sent_tables t = count_list reported t) \<and>
    (\<forall>t \<in> set sent_tables. t \<in> set reported \<and> \<not> below threshold t \<and> \<not> excluded_by patterns t) \<and>
    rebalances w' = rebalances w @ map op_rebalance (filter (\<lambda>t. \<not> refused w t) sent_tables) \<and>
    (if list_ex (refused w) sent_tables
     then delay = requeueAfterRebalanceJob \<and> redistribution_reason c' = ''RebalanceStarted'' \<and> annotation c' AnnotationRebalanceJob \<noteq> [] \<and>
       (\<exists>ns. srv_jobs w' ns (annotation c' AnnotationRebalanceJob) \<noteq> None)
     else delay = requeueDefault srv_reconciler \<and> redistribution_reason c' = ''RebalanceCompleted'' \<and> annotation c' AnnotationRebalanceJob = [])"
proof -
  have sk: "skewed f c = filter (needs_rebalance threshold patterns) reported" by (simp add: skewed_def assms(4,6))
  define order where "order = hf_schedule f par (length (skewed f c))"
  have o: "distinct order" "set order = {..<length (skewed f c)}" using worker_order_permutes [OF assms(5)] by (simp_all add: order_def)
  then have "filter (\<lambda>i. i < length (skewed f c)) order = order" by (simp add: filter_id_conv)
  then have "sent f c = map ((!) (skewed f c)) order" by (simp add: sent_def assms(4) order_def)
  then have m: "mset (sent f c) = mset (skewed f c)" using order_mset [OF o] by simp
  then have mem: "set (sent f c) = set (skewed f c)" by (metis set_mset_mset)
  have "count_list (sent f c) t = count_list reported t" if "needs_rebalance threshold patterns t" for t
  proof -
    have "count_list (sent f c) t = count_list (skewed f c) t" using m by (metis count_mset)
    also have "\<dots> = count_list reported t" unfolding sk using that by (induction reported) auto
    finally show ?thesis .
  qed
  then have "\<forall>t \<in> set reported. above threshold t \<and> \<not> excluded_by patterns t \<longrightarrow> count_list (sent f c) t = count_list reported t"
    using needs_rebalance_above by blast
  moreover have "\<forall>t \<in> set (sent f c). t \<in> set reported \<and> \<not> below threshold t \<and> \<not> excluded_by patterns t"
    using mem sk needs_rebalance_below by auto
  ultimately show ?thesis using rebalance_run [OF assms(1-3), of loc f] by blast
qed

text \<open>Databases that cannot be listed end the rebalance as if there were nothing to do.\<close>

lemma listing_failure_counts_as_success:
  assumes "h_new db d w = (Inr u, w1)" "h_list_databases db w1 = (Inl e, w2)"
  shows "executeRebalanceViaDB r db d threshold par excluded w = (None, h_close db w2)"
  using assms by (simp add: executeRebalanceViaDB_def analyzeAndFilterSkew_def)

text \<open>A standby whose lag cannot be read keeps the condition it had in the stored cluster.\<close>

lemma lag_failure_not_stored:
  assumes "db_up w" "srv_db_error v = (srv_db_error w)(''GetReplicationLag'' := Some e)"
  shows "snd (monitorStandby (srv_hactl b loc f) c v) = v"
proof -
  have "srv_db_error v ''NewClient'' = None" "srv_db_error v ''GetReplicationLag'' = Some e"
    using assms by (simp_all add: db_up_def)
  then show ?thesis by (simp add: monitorStandby_def db_answer_def)
qed

section \<open>Witnesses\<close>

definition down_segment :: SegmentInfo where
  "down_segment = \<lparr>Seg_ContentID = 0, Seg_DBID = 2, Seg_Role = ''p'', Seg_PreferredRole = ''p'', Seg_Mode = ''s'', Seg_Status = ''d'',
     Seg_Hostname = ''h0'', Seg_Address = ''h0'', Seg_Port = 6000, Seg_DataDirectory = ''d'', Seg_ReplicationLag = 0\<rparr>"

definition skewed_table :: TableSkewInfo where
  "skewed_table = \<lparr>Skew_Database = ''db'', Skew_Schema = ''public'', Skew_Table = ''t'', Skew_Coefficient = F_Finite 40,
     Skew_DistributionKey = ''id'', Skew_RowCount = 100\<rparr>"

definition sample_facts :: ha_facts where
  "sample_facts = \<lparr>hf_segments = [down_segment\<lparr>Seg_ContentID := -1\<rparr>, down_segment], hf_lag = 0, hf_databases = [''db''],
     hf_skew = (\<lambda>_. [skewed_table]), hf_schedule = (\<lambda>_ n. [0..<n])\<rparr>"

definition ha_sample :: "string option \<Rightarrow> CloudberryCluster" where
  "ha_sample action = base_cluster\<lparr>CC_Annotations := (\<lambda>k. if k = AnnotationAction then action else None),
     CC_Spec := base_spec\<lparr>Spec_Standby := Some \<lparr>Standby_Enabled = True, Standby_Resources = None, Standby_Storage = None,
       Standby_NodeSelector = Map.empty, Standby_Tolerations = []\<rparr>,
       Spec_Segments := (Spec_Segments base_spec)\<lparr>Seg_Mirroring := Some \<lparr>Mir_Enabled = True, Mir_Layout = MirroringLayoutSpread\<rparr>\<rparr>\<rparr>\<rparr>"

abbreviation ha_sample_store :: "string option \<Rightarrow> store" where
  "ha_sample_store action \<equiv> sample_store (ha_sample action) 4 []"

definition ha_builder :: builder where
  "ha_builder = \<lparr>bld_primary = (\<lambda>c. Inl []), bld_mirror = (\<lambda>c. Inr None), bld_gpexpand = (\<lambda>c a b t. None), bld_coordinator = (\<lambda>c. Inl []),
     bld_standby = (\<lambda>c. Inr None), bld_maintenance = (\<lambda>c op t. failed_job\<lparr>KJob_Namespace := CC_Namespace c, KJob_Name := op @ t\<rparr>)\<rparr>"

lemma ha_sample_facts: "stored (ha_sample a) (ha_sample_store a)" "St_Phase (CC_Status (ha_sample a)) = ClusterPhaseRunning"
  "annotation (ha_sample a) AnnotationRebalanceJob = []" "CC_Annotations (ha_sample a) AnnotationRecovery = None"
  "annotation (ha_sample a) AnnotationAction = (case a of None \<Rightarrow> [] | Some v \<Rightarrow> v)" "mirroring_on (ha_sample a)" "standby_enabled (ha_sample a)"
  "CC_Namespace (ha_sample a) = ''ns''" "CC_Name (ha_sample a) = ''c''" "db_up (ha_sample_store a)"
  by (simp_all add: stored_def ha_sample_def annotation_def mirroring_on_def standby_enabled_def db_up_def)
    (simp_all add: base_cluster_def base_status_def)

text \<open>
  Three passes: the first is refused the promotion, then time passes, the second cannot reach the
  database, the third can.
\<close>

definition ha_rounds :: "(ha_facts \<times> (string \<Rightarrow> string option) \<times> (store \<Rightarrow> store)) list" where
  "ha_rounds = [(sample_facts, \<lambda>call. if call = ''NewClient'' then Some ''refused'' else None, \<lambda>w. w), (sample_facts, \<lambda>_. None, \<lambda>w. w)]"

theorem standby_promoted_once_witness:
  "promotions (ha_run ha_builder UTC ''ns'' ''c'' ((sample_facts, \<lambda>call. if call = ''PromoteStandby'' then Some ''refused'' else None,
     \<lambda>w. w\<lparr>srv_now := srv_now w + 1\<rparr>) # ha_rounds) (ha_sample_store (Some ActionActivateStandby))) = 1"
proof -
  let ?c = "ha_sample (Some ActionActivateStandby)" and ?w = "ha_sample_store (Some ActionActivateStandby)"
  have "activation_requested ?c ?w" by (simp add: activation_requested_def ha_sample_facts)
  moreover have "promotions ?w = 0" by (simp add: promotions_def sample_store_def)
  moreover have "no_new_request ns n (\<lambda>w. w\<lparr>srv_now := srv_now w + 1\<rparr>)" "no_new_request ns n (\<lambda>w. w)" for ns n
    by (simp_all add: no_new_request_def promotions_def wants_standby_def)
  ultimately show ?thesis
    using standby_promoted_once [of ?c ?w sample_facts "\<lambda>call. if call = ''PromoteStandby'' then Some ''refused'' else None"
        "\<lambda>w. w\<lparr>srv_now := srv_now w + 1\<rparr>" ha_rounds ha_builder UTC]
    by (simp add: ha_sample_facts ha_rounds_def)
qed


theorem rebalance_moves_skewed_tables_witness:
  "\<exists>c' w'. ha_Reconcile (srv_hactl ha_builder UTC sample_facts) ''ns'' ''c'' (ha_sample_store (Some ActionRebalance)) =
       (Inr (requeueDefault srv_reconciler), w') \<and> stored c' w' \<and> Op_Rebalance ''db'' ''public'' ''t'' \<in> set (rebalances w') \<and>
       redistribution_reason c' = ''RebalanceCompleted''"
proof -
  let ?c = "ha_sample (Some ActionRebalance)" and ?w = "ha_sample_store (Some ActionRebalance)"
  have req: "rebalance_requested ?c ?w" by (simp add: rebalance_requested_def ha_sample_facts)
  have job: "KJob_Name (bld_maintenance ha_builder d MaintenanceRebalance ts) \<noteq> []" for d ts by (simp add: ha_builder_def)
  have cfg: "rebalance_config ?c = (2, 10, [])" by (simp add: rebalance_config_def ha_sample_def base_spec_def)
  have ord: "worker_order m (nat 2) (hf_schedule sample_facts 2 m)" for m by (simp add: sample_facts_def sequential_order)
  have rep: "[skewed_table] = concat (map (hf_skew sample_facts) (hf_databases sample_facts))" by (simp add: sample_facts_def)
  have ok: "\<not> refused ?w t" for t by (simp add: refused_def)
  have high: "above 10 skewed_table" "\<not> excluded_by [] skewed_table" by (simp_all add: above_def excluded_by_def skewed_table_def)
  have op: "op_rebalance skewed_table = Op_Rebalance ''db'' ''public'' ''t''" by (simp add: op_rebalance_def skewed_table_def)
  show ?thesis using rebalance_moves_skewed_tables [OF req ha_sample_facts(10) job cfg ord rep, of UTC]
  proof (elim exE conjE, goal_cases)
    case (1 c' w' delay ts)
    have "skewed_table \<in> set ts" using 1(4) high count_list_0_iff [of ts skewed_table] by auto
    then have "Op_Rebalance ''db'' ''public'' ''t'' \<in> set (rebalances w')" using 1(6) ok op by force
    moreover have "\<not> list_ex (refused ?w) ts" using ok by (simp add: list_ex_iff)
    ultimately show ?case using 1(1,2,7) by (auto simp: ha_sample_facts)
  qed
qed

end
