(* ===== verification/Http.thy ===== *)
theory Http
  imports Prelude
begin

text \<open>
  What the REST server uses of Go's \<^verbatim>\<open>net/http\<close> and \<^verbatim>\<open>encoding/base64\<close>: requests and responses,
  handlers and middlewares over an arbitrary world, the Basic credentials of the Authorization
  header, and the pattern matching of \<^verbatim>\<open>http.ServeMux\<close>.
\<close>

section \<open>Requests, responses, handlers\<close>

text \<open>
  The path is the list of its segments; a missing header is the empty string, as
  \<^verbatim>\<open>Header.Get\<close> answers it. \<open>Req_PathValues\<close> are the wildcards bound by the router.
\<close>

record request =
  Req_Method :: string
  Req_Path :: "string list"
  Req_Query :: "string \<Rightarrow> string"
  Req_Header :: "string \<Rightarrow> string"
  Req_RemoteAddr :: string
  Req_Body :: string
  Req_PathValues :: "(string \<times> string) list"

definition PathValue :: "request \<Rightarrow> string \<Rightarrow> string" where
  "PathValue r name = (case map_of (Req_PathValues r) name of None \<Rightarrow> [] | Some v \<Rightarrow> v)"

text \<open>An error envelope has a code and a message; other bodies are of the type of the application.\<close>

datatype 'b body = Error_Body string string | No_Body | Body 'b

record 'b response =
  Resp_Status :: int
  Resp_Header :: "string \<rightharpoonup> string"
  Resp_Body :: "'b body"

abbreviation StatusOK :: int where "StatusOK \<equiv> 200"
abbreviation StatusCreated :: int where "StatusCreated \<equiv> 201"
abbreviation StatusAccepted :: int where "StatusAccepted \<equiv> 202"
abbreviation StatusBadRequest :: int where "StatusBadRequest \<equiv> 400"
abbreviation StatusUnauthorized :: int where "StatusUnauthorized \<equiv> 401"
abbreviation StatusForbidden :: int where "StatusForbidden \<equiv> 403"
abbreviation StatusNotFound :: int where "StatusNotFound \<equiv> 404"
abbreviation StatusMethodNotAllowed :: int where "StatusMethodNotAllowed \<equiv> 405"
abbreviation StatusConflict :: int where "StatusConflict \<equiv> 409"
abbreviation StatusTooManyRequests :: int where "StatusTooManyRequests \<equiv> 429"
abbreviation StatusInternalServerError :: int where "StatusInternalServerError \<equiv> 500"

definition error_response :: "int \<Rightarrow> string \<Rightarrow> string \<Rightarrow> 'b response" where
  "error_response status code message = \<lparr>Resp_Status = status, Resp_Header = Map.empty, Resp_Body = Error_Body code message\<rparr>"

definition body_response :: "int \<Rightarrow> 'b \<Rightarrow> 'b response" where
  "body_response status b = \<lparr>Resp_Status = status, Resp_Header = Map.empty, Resp_Body = Body b\<rparr>"

text \<open>A handler sees the value the middlewares put in the context (\<open>'i\<close>), if any.\<close>

type_synonym ('i, 'b, 'w) http_handler = "'i option \<Rightarrow> request \<Rightarrow> 'w \<Rightarrow> 'b response \<times> 'w"
type_synonym ('i, 'b, 'w) middleware = "('i, 'b, 'w) http_handler \<Rightarrow> ('i, 'b, 'w) http_handler"

section \<open>Base 64\<close>

text \<open>The alphabet of \<^verbatim>\<open>StdEncoding\<close>: upper case, lower case, digits, plus, slash.\<close>

definition b64_char :: "nat \<Rightarrow> char" where
  "b64_char n = char_of (if n < 26 then 65 + n else if n < 52 then 71 + n else if n < 62 then n - 4 else if n = 62 then 43 else 47)"

definition b64_val :: "char \<Rightarrow> nat option" where
  "b64_val c = (let n = of_char c in
     if 65 \<le> n \<and> n \<le> 90 then Some (n - 65)
     else if 97 \<le> n \<and> n \<le> 122 then Some (n - 71)
     else if 48 \<le> n \<and> n \<le> 57 then Some (n + 4)
     else if n = 43 then Some 62 else if n = 47 then Some 63 else None)"

fun b64_encode :: "nat list \<Rightarrow> string" where
  "b64_encode [] = []"
| "b64_encode [x] = [b64_char (x div 4), b64_char ((x mod 4) * 16), CHR ''='', CHR ''='']"
| "b64_encode [x, y] = [b64_char (x div 4), b64_char ((x mod 4) * 16 + y div 16), b64_char ((y mod 16) * 4), CHR ''='']"
| "b64_encode (x # y # z # bs) =
     b64_char (x div 4) # b64_char ((x mod 4) * 16 + y div 16) # b64_char ((y mod 16) * 4 + z div 64) # b64_char (z mod 64) # b64_encode bs"

text \<open>
  The decoder of \<^verbatim>\<open>StdEncoding\<close>: line ends are skipped, padding is required and ends the input, and
  the unused bits of the last character are not checked.
\<close>

fun b64_quanta :: "string \<Rightarrow> nat list option" where
  "b64_quanta [] = Some []"
| "b64_quanta (a # b # c # d # s) =
     (case (b64_val a, b64_val b) of
        (Some i, Some j) \<Rightarrow>
          if c = CHR ''='' \<and> d = CHR ''='' \<and> s = [] then Some [(i * 4 + j div 16) mod 256]
          else (case b64_val c of
             None \<Rightarrow> None
           | Some k \<Rightarrow>
               if d = CHR ''='' \<and> s = [] then Some [(i * 4 + j div 16) mod 256, ((j mod 16) * 16 + k div 4) mod 256]
               else (case (b64_val d, b64_quanta s) of
                  (Some l, Some bs) \<Rightarrow> Some ([(i * 4 + j div 16) mod 256, ((j mod 16) * 16 + k div 4) mod 256, ((k mod 4) * 64 + l) mod 256] @ bs)
                | _ \<Rightarrow> None))
      | _ \<Rightarrow> None)"
| "b64_quanta _ = None"

definition DecodeString :: "string \<Rightarrow> string option" where
  "DecodeString s = map_option (map char_of) (b64_quanta (filter (\<lambda>c. of_char c \<noteq> (10::nat) \<and> of_char c \<noteq> (13::nat)) s))"

definition EncodeToString :: "string \<Rightarrow> string" where
  "EncodeToString s = b64_encode (map of_char s)"

lemma b64_val_char: "n < 64 \<Longrightarrow> b64_val (b64_char n) = Some n"
  by (auto simp: b64_val_def b64_char_def Let_def)

lemma b64_char_plain: "n < 64 \<Longrightarrow> b64_char n \<noteq> CHR ''='' \<and> of_char (b64_char n) \<noteq> (10::nat) \<and> of_char (b64_char n) \<noteq> (13::nat)"
proof -
  assume "n < 64"
  then have "(of_char (b64_char n) :: nat) \<notin> {61, 10, 13}" by (auto simp: b64_char_def)
  moreover have "(of_char (CHR ''='') :: nat) = 61" by simp
  ultimately show ?thesis by (metis insertCI)
qed

lemma b64_split:
  "x < 256 \<Longrightarrow> x div 4 < 64" "(x mod 4) * 16 < (64::nat)" "y < 256 \<Longrightarrow> (x mod 4) * 16 + y div 16 < (64::nat)"
  "(y mod 16) * 4 < (64::nat)" "z < 256 \<Longrightarrow> (y mod 16) * 4 + z div 64 < (64::nat)" "z mod 64 < (64::nat)"
  by auto

lemma b64_roundtrip: "list_all (\<lambda>b. b < 256) bs \<Longrightarrow> b64_quanta (b64_encode bs) = Some bs"
proof (induction bs rule: b64_encode.induct)
  case (2 x)
  then show ?case by (simp add: b64_val_char b64_split b64_char_plain)
next
  case (3 x y)
  then have "y div 16 < 16" by auto
  then have "(x mod 4 * 16 + y div 16) mod 16 * 16 + y mod 16 * 4 div 4 = y" by simp
  then show ?case using 3 by (simp add: b64_val_char b64_split b64_char_plain)
next
  case (4 x y z bs)
  then have "y div 16 < 16" "z div 64 < 4" by auto
  then have "(x mod 4 * 16 + y div 16) mod 16 * 16 + (y mod 16 * 4 + z div 64) div 4 = y"
    "(y mod 16 * 4 + z div 64) mod 4 * 64 + z mod 64 = z" by simp_all
  then show ?case using 4 by (simp add: b64_val_char b64_split b64_char_plain)
qed simp

lemma b64_encode_plain:
  "list_all (\<lambda>b. b < 256) bs \<Longrightarrow> list_all (\<lambda>c. of_char c \<noteq> (10::nat) \<and> of_char c \<noteq> (13::nat)) (b64_encode bs)"
  by (induction bs rule: b64_encode.induct) (simp_all add: b64_char_plain b64_split)

lemma DecodeString_EncodeToString [simp]: "DecodeString (EncodeToString s) = Some s"
proof -
  have b: "list_all (\<lambda>b. b < 256) (map of_char s :: nat list)" by (simp add: list_all_iff of_char_def) 
  have "filter (\<lambda>c. of_char c \<noteq> (10::nat) \<and> of_char c \<noteq> (13::nat)) (b64_encode (map of_char s)) = b64_encode (map of_char s)"
    using b64_encode_plain [OF b] by (simp add: filter_id_conv list_all_iff)
  then show ?thesis by (simp add: DecodeString_def EncodeToString_def b64_roundtrip [OF b] comp_def map_idI)
qed

section \<open>Basic credentials\<close>

definition BasicAuth :: "request \<Rightarrow> (string \<times> string) option" where
  "BasicAuth r = (let auth = Req_Header r ''Authorization'' in
     if length auth < 6 \<or> \<not> EqualFold (take 6 auth) ''Basic '' then None
     else (case DecodeString (drop 6 auth) of
        None \<Rightarrow> None
      | Some c \<Rightarrow> (case Cut c CHR '':'' of (username, password, ok) \<Rightarrow> if ok then Some (username, password) else None)))"

definition SetBasicAuth :: "string \<Rightarrow> string \<Rightarrow> request \<Rightarrow> request" where
  "SetBasicAuth username password r =
     r\<lparr>Req_Header := (Req_Header r)(''Authorization'' := ''Basic '' @ EncodeToString (username @ '':'' @ password))\<rparr>"

lemma BasicAuth_SetBasicAuth: "CHR '':'' \<notin> set u \<Longrightarrow> BasicAuth (SetBasicAuth u p r) = Some (u, p)"
  by (simp add: BasicAuth_def SetBasicAuth_def Let_def EqualFold_def)

section \<open>Routing\<close>

datatype pattern_seg = Lit string | Wild string

definition parse_seg :: "string \<Rightarrow> pattern_seg" where
  "parse_seg s = (if HasPrefix s ''{'' then Wild (butlast (tl s)) else Lit s)"

text \<open>A pattern begins with a slash.\<close>

definition parse_pattern :: "string \<Rightarrow> pattern_seg list" where
  "parse_pattern p = map parse_seg (Split (tl p) CHR ''/'')"

text \<open>
  The search of the routing tree: at every segment the branch of its literal first, and the
  wildcard branch, for a non-empty segment, when nothing is found there.
\<close>

fun match_path :: "(pattern_seg list \<times> 'h) list \<Rightarrow> string list \<Rightarrow> ('h \<times> string list) option" where
  "match_path rs [] = (case filter (\<lambda>(p, h). p = []) rs of [] \<Rightarrow> None | (_, h) # _ \<Rightarrow> Some (h, []))"
| "match_path rs (s # ss) =
     (case match_path (List.map_filter (\<lambda>(p, h). case p of Lit l # p' \<Rightarrow> if l = s then Some (p', h) else None | _ \<Rightarrow> None) rs) ss of
        Some m \<Rightarrow> Some m
      | None \<Rightarrow>
          if s = [] then None
          else (case match_path (List.map_filter (\<lambda>(p, h). case p of Wild _ # p' \<Rightarrow> Some (p', h) | _ \<Rightarrow> None) rs) ss of
             None \<Rightarrow> None
           | Some (h, vs) \<Rightarrow> Some (h, s # vs)))"

fun seg_matches :: "pattern_seg list \<Rightarrow> string list \<Rightarrow> bool" where
  "seg_matches [] [] \<longleftrightarrow> True"
| "seg_matches (Lit l # p) (s # ss) \<longleftrightarrow> l = s \<and> seg_matches p ss"
| "seg_matches (Wild _ # p) (s # ss) \<longleftrightarrow> s \<noteq> [] \<and> seg_matches p ss"
| "seg_matches _ _ \<longleftrightarrow> False"

fun wild_names :: "pattern_seg list \<Rightarrow> string list" where
  "wild_names [] = []"
| "wild_names (Lit _ # p) = wild_names p"
| "wild_names (Wild x # p) = x # wild_names p"

lemma match_path_sound: "match_path rs ss = Some (h, vs) \<Longrightarrow> \<exists>p. (p, h) \<in> set rs \<and> seg_matches p ss"
proof (induction rs ss arbitrary: h vs rule: match_path.induct)
  case (1 rs)
  then obtain p xs where "filter (\<lambda>(p, h). p = []) rs = (p, h) # xs" by (auto split: list.splits prod.splits)
  then have "(p, h) \<in> set (filter (\<lambda>(p, h). p = []) rs)" by simp
  then show ?case by (intro exI [of _ p]) auto
next
  case (2 rs s ss)
  let ?L = "List.map_filter (\<lambda>(p, h). case p of Lit l # p' \<Rightarrow> if l = s then Some (p', h) else None | _ \<Rightarrow> None) rs"
  let ?W = "List.map_filter (\<lambda>(p, h). case p of Wild _ # p' \<Rightarrow> Some (p', h) | _ \<Rightarrow> None) rs"
  show ?case
  proof (cases "match_path ?L ss")
    case (Some m)
    then have "match_path ?L ss = Some (h, vs)" using 2(3) by simp
    from 2(1) [OF this] obtain p where p: "(p, h) \<in> set ?L" "seg_matches p ss" by blast
    then have "(Lit s # p, h) \<in> set rs" by (auto simp: List.map_filter_def split: list.splits pattern_seg.splits if_splits)
    then show ?thesis using p(2) by (intro exI [of _ "Lit s # p"]) simp
  next
    case None
    then obtain vs' where m: "s \<noteq> []" "match_path ?W ss = Some (h, vs')" using 2(3) by (auto split: if_splits option.splits)
    from 2(2) [OF None m] obtain p where p: "(p, h) \<in> set ?W" "seg_matches p ss" by blast
    then obtain x where "(Wild x # p, h) \<in> set rs" by (auto simp: List.map_filter_def split: list.splits pattern_seg.splits)
    then show ?thesis using p(2) m(1) by (intro exI [of _ "Wild x # p"]) simp
  qed
qed

end
