(* ===== verification/Auth.thy ===== *)
theory Auth
  imports Http Json
begin

text \<open>
  Authentication and authorisation of the REST server, after \<^verbatim>\<open>internal/auth\<close>: permission levels and
  identities (\<^verbatim>\<open>types.go\<close>), Basic credentials with their in-memory store (\<^verbatim>\<open>basic.go\<close>), bearer tokens
  with the mapping of roles (\<^verbatim>\<open>oidc.go\<close>) and the middlewares (\<^verbatim>\<open>middleware.go\<close>). The hash functions of
  bcrypt and the OIDC client are third-party code: arguments of the definitions.
\<close>

section \<open>Model\<close>

subsection \<open>Permission levels and identities\<close>

type_synonym PermissionLevel = int

abbreviation PermissionSelfOnly :: PermissionLevel where "PermissionSelfOnly \<equiv> 0"
abbreviation PermissionBasic :: PermissionLevel where "PermissionBasic \<equiv> 1"
abbreviation PermissionOperatorBasic :: PermissionLevel where "PermissionOperatorBasic \<equiv> 2"
abbreviation PermissionOperator :: PermissionLevel where "PermissionOperator \<equiv> 3"
abbreviation PermissionAdmin :: PermissionLevel where "PermissionAdmin \<equiv> 4"

definition PermissionLevel_String :: "PermissionLevel \<Rightarrow> string" where
  "PermissionLevel_String p =
     (if p = PermissionSelfOnly then ''Self Only''
      else if p = PermissionBasic then ''Basic''
      else if p = PermissionOperatorBasic then ''Operator Basic''
      else if p = PermissionOperator then ''Operator''
      else if p = PermissionAdmin then ''Admin''
      else ''Unknown('' @ show_int p @ '')'')"

definition ParsePermissionLevel :: "string \<Rightarrow> PermissionLevel" where
  "ParsePermissionLevel s =
     (if s = ''Self Only'' then PermissionSelfOnly
      else if s = ''Basic'' then PermissionBasic
      else if s = ''Operator Basic'' then PermissionOperatorBasic
      else if s = ''Operator'' then PermissionOperator
      else if s = ''Admin'' then PermissionAdmin
      else PermissionSelfOnly)"

record Identity =
  Id_Username :: string
  Id_Email :: string
  Id_Groups :: "string list"
  Id_Roles :: "string list"
  Id_Permission :: PermissionLevel
  Id_AuthMethod :: string
  Id_TokenExpiry :: int

definition empty_identity :: Identity where
  "empty_identity = \<lparr>Id_Username = [], Id_Email = [], Id_Groups = [], Id_Roles = [], Id_Permission = 0, Id_AuthMethod = [], Id_TokenExpiry = 0\<rparr>"

datatype auth_error = AuthenticationError string string | Auth_Failure string string

text \<open>The interface \<^verbatim>\<open>Provider\<close>: a request either fails or yields an identity.\<close>

type_synonym 'w provider = "request \<Rightarrow> 'w \<Rightarrow> (auth_error + Identity) \<times> 'w"

subsection \<open>Basic authentication\<close>

text \<open>The functions of \<^verbatim>\<open>golang.org/x/crypto/bcrypt\<close>; generating a hash draws a salt.\<close>

record 'w bcrypt =
  CompareHashAndPassword :: "string \<Rightarrow> string \<Rightarrow> bool"
  GenerateFromPassword :: "int \<Rightarrow> string \<Rightarrow> 'w \<Rightarrow> (string + string) \<times> 'w"

text \<open>The interface \<^verbatim>\<open>CredentialStore\<close>.\<close>

record 'w credential_store =
  cs_GetPassword :: "string \<Rightarrow> 'w \<Rightarrow> (string + string) \<times> 'w"
  cs_GetPermissionLevel :: "string \<Rightarrow> 'w \<Rightarrow> (string + PermissionLevel) \<times> 'w"

text \<open>The comparison with a dummy hash for an unknown user takes time and has no other effect.\<close>

definition basic_Authenticate :: "'w bcrypt \<Rightarrow> 'w credential_store \<Rightarrow> 'w provider" where
  "basic_Authenticate bc cs r w =
     (case BasicAuth r of
        None \<Rightarrow> (Inl (AuthenticationError ''basic'' ''missing or malformed Authorization header''), w)
      | Some (username, password) \<Rightarrow>
          (case cs_GetPassword cs username w of
             (Inl err, w1) \<Rightarrow> (Inl (Auth_Failure ''retrieving credentials'' err), w1)
           | (Inr storedHash, w1) \<Rightarrow>
               if storedHash = [] then (Inl (AuthenticationError ''basic'' ''invalid credentials''), w1)
               else if \<not> CompareHashAndPassword bc storedHash password
               then (Inl (AuthenticationError ''basic'' ''invalid credentials''), w1)
               else (case cs_GetPermissionLevel cs username w1 of
                  (Inl err, w2) \<Rightarrow> (Inl (Auth_Failure ''retrieving permission level'' err), w2)
                | (Inr permission, w2) \<Rightarrow>
                    (Inr (empty_identity\<lparr>Id_Username := username, Id_Permission := permission, Id_AuthMethod := ''basic''\<rparr>), w2))))"

record InMemoryCredentialStore =
  credentials :: "string \<rightharpoonup> string"
  permissions :: "string \<rightharpoonup> PermissionLevel"
  cost :: int

abbreviation bcrypt_MinCost :: int where "bcrypt_MinCost \<equiv> 4"
abbreviation bcrypt_MaxCost :: int where "bcrypt_MaxCost \<equiv> 31"
abbreviation bcrypt_DefaultCost :: int where "bcrypt_DefaultCost \<equiv> 10"

definition NewInMemoryCredentialStore :: InMemoryCredentialStore where
  "NewInMemoryCredentialStore = \<lparr>credentials = Map.empty, permissions = Map.empty, cost = bcrypt_DefaultCost\<rparr>"

definition NewInMemoryCredentialStoreWithCost :: "int \<Rightarrow> InMemoryCredentialStore" where
  "NewInMemoryCredentialStoreWithCost c =
     \<lparr>credentials = Map.empty, permissions = Map.empty,
      cost = (if c < bcrypt_MinCost \<or> bcrypt_MaxCost < c then bcrypt_DefaultCost else c)\<rparr>"

definition SetCredentials ::
  "'w bcrypt \<Rightarrow> string \<Rightarrow> string \<Rightarrow> PermissionLevel \<Rightarrow> InMemoryCredentialStore \<Rightarrow> 'w \<Rightarrow> InMemoryCredentialStore \<times> 'w" where
  "SetCredentials bc username password permission s w =
     (case GenerateFromPassword bc (cost s) password w of
        (Inl _, w1) \<Rightarrow> (s, w1)
      | (Inr hash, w1) \<Rightarrow>
          (s\<lparr>credentials := (credentials s)(username \<mapsto> hash), permissions := (permissions s)(username \<mapsto> permission)\<rparr>, w1))"

definition GetPassword :: "InMemoryCredentialStore \<Rightarrow> string \<Rightarrow> string" where
  "GetPassword s username = (case credentials s username of None \<Rightarrow> [] | Some h \<Rightarrow> h)"

definition GetPermissionLevel :: "InMemoryCredentialStore \<Rightarrow> string \<Rightarrow> PermissionLevel" where
  "GetPermissionLevel s username = (case permissions s username of None \<Rightarrow> PermissionSelfOnly | Some level \<Rightarrow> level)"

text \<open>The in-memory store as a credential store of a world that holds it.\<close>

definition memory_store :: "('w \<Rightarrow> InMemoryCredentialStore) \<Rightarrow> 'w credential_store" where
  "memory_store store_of =
     \<lparr>cs_GetPassword = \<lambda>u w. (Inr (GetPassword (store_of w) u), w),
      cs_GetPermissionLevel = \<lambda>u w. (Inr (GetPermissionLevel (store_of w) u), w)\<rparr>"

subsection \<open>Bearer tokens\<close>

record OIDCConfig =
  Oidc_IssuerURL :: string
  Oidc_ClientID :: string
  Oidc_ClientSecret :: string
  Oidc_Scopes :: "string list"
  Oidc_RoleClaimPath :: string
  Oidc_RoleClaimSource :: string
  Oidc_RoleMatchMode :: string
  Oidc_RoleMapping :: "(string \<times> string) list"

text \<open>
  A connected client of \<^verbatim>\<open>go-oidc\<close>: the verification of a token, with its claims, if they can be
  read, and its expiry, and the claims of the userinfo endpoint.
\<close>

record 'w oidc_client =
  oc_Verify :: "string \<Rightarrow> 'w \<Rightarrow> (string + (string + json) \<times> int) \<times> 'w"
  oc_UserInfo :: "string \<Rightarrow> 'w \<Rightarrow> (string + json) \<times> 'w"

record 'w OIDCProvider =
  op_config :: OIDCConfig
  op_client :: "'w oidc_client"

definition NewOIDCProvider ::
  "(string \<Rightarrow> 'w \<Rightarrow> (string + 'w oidc_client) \<times> 'w) \<Rightarrow> OIDCConfig \<Rightarrow> 'w \<Rightarrow> (string + 'w OIDCProvider) \<times> 'w" where
  "NewOIDCProvider discover cfg w =
     (if Oidc_IssuerURL cfg = [] then (Inl ''OIDC issuer URL is required'', w)
      else if Oidc_ClientID cfg = [] then (Inl ''OIDC client ID is required'', w)
      else
        (let cfg1 = cfg\<lparr>
           Oidc_Scopes := (if Oidc_Scopes cfg = [] then [''openid'', ''profile'', ''email''] else Oidc_Scopes cfg),
           Oidc_RoleClaimPath := (if Oidc_RoleClaimPath cfg = [] then ''realm_access.roles'' else Oidc_RoleClaimPath cfg),
           Oidc_RoleClaimSource := (if Oidc_RoleClaimSource cfg = [] then ''id_token'' else Oidc_RoleClaimSource cfg),
           Oidc_RoleMatchMode := (if Oidc_RoleMatchMode cfg = [] then ''exact'' else Oidc_RoleMatchMode cfg)\<rparr>
         in case discover (Oidc_IssuerURL cfg) w of
              (Inl err, w1) \<Rightarrow> (Inl (''creating OIDC provider: '' @ err), w1)
            | (Inr client, w1) \<Rightarrow> (Inr \<lparr>op_config = cfg1, op_client = client\<rparr>, w1)))"

definition extractBearerToken :: "request \<Rightarrow> string" where
  "extractBearerToken r =
     (let authHeader = Req_Header r ''Authorization'' in
      if \<not> HasPrefix authHeader ''Bearer '' then [] else drop 7 authHeader)"

text \<open>A key of a Go map read from JSON: the last member of that name, nil when there is none.\<close>

definition claim_member :: "json \<Rightarrow> string \<Rightarrow> json option" where
  "claim_member v part = (case v of J_Obj kvs \<Rightarrow> Some (case map_of (rev kvs) part of None \<Rightarrow> J_Null | Some x \<Rightarrow> x) | _ \<Rightarrow> None)"

definition claim_string :: "json \<Rightarrow> string \<Rightarrow> string option" where
  "claim_string claims key = (case claim_member claims key of Some (J_Str s) \<Rightarrow> Some s | _ \<Rightarrow> None)"

fun claim_path :: "json \<Rightarrow> string list \<Rightarrow> json option" where
  "claim_path current [] = Some current"
| "claim_path current (part # parts) =
     (case claim_member current part of None \<Rightarrow> None | Some v \<Rightarrow> claim_path v parts)"

text \<open>\<^verbatim>\<open>json.Unmarshal\<close> into a slice of strings: null is the empty slice, a null element the empty string.\<close>

definition unmarshal_strings :: "string \<Rightarrow> string list option" where
  "unmarshal_strings s =
     (case parse_json s of
        Some J_Null \<Rightarrow> Some []
      | Some (J_Arr vs) \<Rightarrow> those (map (\<lambda>v. case v of J_Str x \<Rightarrow> Some x | J_Null \<Rightarrow> Some [] | _ \<Rightarrow> None) vs)
      | _ \<Rightarrow> None)"

definition interfaceToStringSlice :: "json \<Rightarrow> string list" where
  "interfaceToStringSlice v =
     (case v of
        J_Arr vs \<Rightarrow> List.map_filter (\<lambda>item. case item of J_Str s \<Rightarrow> Some s | _ \<Rightarrow> None) vs
      | J_Str val \<Rightarrow> (case unmarshal_strings val of Some arr \<Rightarrow> arr | None \<Rightarrow> [val])
      | _ \<Rightarrow> [])"

definition extractRoles :: "OIDCConfig \<Rightarrow> json \<Rightarrow> string list" where
  "extractRoles cfg claims =
     (case claim_path claims (Split (Oidc_RoleClaimPath cfg) CHR ''.'') of None \<Rightarrow> [] | Some v \<Rightarrow> interfaceToStringSlice v)"

definition HasSuffix :: "string \<Rightarrow> string \<Rightarrow> bool" where
  "HasSuffix s p \<longleftrightarrow> HasPrefix (rev s) (rev p)"

definition matchRole :: "OIDCConfig \<Rightarrow> string \<Rightarrow> string \<Rightarrow> bool" where
  "matchRole cfg role pattern =
     (if Oidc_RoleMatchMode cfg = ''suffix'' then HasSuffix role pattern
      else if Oidc_RoleMatchMode cfg = ''prefix'' then HasPrefix role pattern
      else if Oidc_RoleMatchMode cfg = ''contains'' then Contains role pattern
      else role = pattern)"

text \<open>The mapping in any order of its entries.\<close>

definition resolvePermission :: "OIDCConfig \<Rightarrow> string list \<Rightarrow> PermissionLevel" where
  "resolvePermission cfg roles =
     fold (\<lambda>role highest. fold (\<lambda>(idpRole, permName) highest.
         if matchRole cfg role idpRole
         then (let level = ParsePermissionLevel permName in if level > highest then level else highest)
         else highest) (Oidc_RoleMapping cfg) highest) roles PermissionSelfOnly"

definition resolveRoles :: "'w OIDCProvider \<Rightarrow> string \<Rightarrow> json \<Rightarrow> 'w \<Rightarrow> string list \<times> 'w" where
  "resolveRoles p rawToken idTokenClaims w =
     (if Oidc_RoleClaimSource (op_config p) \<noteq> ''userinfo'' then (extractRoles (op_config p) idTokenClaims, w)
      else case oc_UserInfo (op_client p) rawToken w of
        (Inl _, w1) \<Rightarrow> (extractRoles (op_config p) idTokenClaims, w1)
      | (Inr userinfoClaims, w1) \<Rightarrow>
          (let roles = extractRoles (op_config p) userinfoClaims
           in (if roles \<noteq> [] then roles else extractRoles (op_config p) idTokenClaims, w1)))"

definition oidc_Authenticate :: "'w OIDCProvider \<Rightarrow> 'w provider" where
  "oidc_Authenticate p r w =
     (let rawToken = extractBearerToken r in
      if rawToken = [] then (Inl (AuthenticationError ''oidc'' ''missing or malformed Bearer token''), w)
      else case oc_Verify (op_client p) rawToken w of
        (Inl err, w1) \<Rightarrow> (Inl (AuthenticationError ''oidc'' (''token verification failed: '' @ err)), w1)
      | (Inr (Inl err, _), w1) \<Rightarrow> (Inl (Auth_Failure ''extracting token claims'' err), w1)
      | (Inr (Inr claims, expiry), w1) \<Rightarrow>
          (case resolveRoles p rawToken claims w1 of
             (roles, w2) \<Rightarrow>
               (Inr \<lparr>Id_Username = (case claim_string claims ''preferred_username'' of Some u \<Rightarrow> u
                       | None \<Rightarrow> (case claim_string claims ''sub'' of Some s \<Rightarrow> s | None \<Rightarrow> [])),
                     Id_Email = (case claim_string claims ''email'' of Some e \<Rightarrow> e | None \<Rightarrow> []),
                     Id_Groups = [], Id_Roles = roles, Id_Permission = resolvePermission (op_config p) roles,
                     Id_AuthMethod = ''oidc'', Id_TokenExpiry = expiry\<rparr>, w2)))"

subsection \<open>Middlewares\<close>

record 'w AuthMiddleware =
  basicProvider :: "'w provider option"
  oidcProvider :: "'w provider option"

definition challengeValue :: "'w AuthMiddleware \<Rightarrow> string" where
  "challengeValue m =
     (let schemes = (if basicProvider m \<noteq> None then [''Basic realm=\"cloudberry\"''] else []) @
            (if oidcProvider m \<noteq> None then [''Bearer''] else [])
      in if schemes = [] then ''Basic realm=\"cloudberry\"'' else Join schemes '', '')"

definition writeUnauthorized :: "'w AuthMiddleware \<Rightarrow> string \<Rightarrow> 'b response" where
  "writeUnauthorized m message =
     (error_response StatusUnauthorized ''UNAUTHORIZED'' message)\<lparr>Resp_Header := [''WWW-Authenticate'' \<mapsto> challengeValue m]\<rparr>"

definition resolveProvider :: "'w AuthMiddleware \<Rightarrow> request \<Rightarrow> string + 'w provider" where
  "resolveProvider m r =
     (let authHeader = Req_Header r ''Authorization'' in
      if authHeader = [] then Inl ''missing Authorization header''
      else if HasPrefix authHeader ''Basic '' then
        (case basicProvider m of None \<Rightarrow> Inl ''basic auth not configured'' | Some p \<Rightarrow> Inr p)
      else if HasPrefix authHeader ''Bearer '' then
        (case oidcProvider m of None \<Rightarrow> Inl ''OIDC auth not configured'' | Some p \<Rightarrow> Inr p)
      else Inl ''unsupported authorization type'')"

definition auth_Handler :: "'w AuthMiddleware \<Rightarrow> (Identity, 'b, 'w) middleware" where
  "auth_Handler m nxt ctx r w =
     (case resolveProvider m r of
        Inl _ \<Rightarrow> (writeUnauthorized m ''authentication required'', w)
      | Inr p \<Rightarrow>
          (case p r w of
             (Inl _, w1) \<Rightarrow> (writeUnauthorized m ''authentication failed'', w1)
           | (Inr identity, w1) \<Rightarrow> nxt (Some identity) r w1))"

definition guestIdentity :: Identity where
  "guestIdentity = empty_identity\<lparr>Id_Username := ''guest'', Id_Permission := PermissionBasic, Id_AuthMethod := ''guest''\<rparr>"

definition GuestHandler :: "'w AuthMiddleware \<Rightarrow> (request \<Rightarrow> 'w \<Rightarrow> bool \<times> 'w) \<Rightarrow> (Identity, 'b, 'w) middleware" where
  "GuestHandler m guestAccessEnabled nxt ctx r w =
     (if Req_Header r ''Authorization'' \<noteq> [] then auth_Handler m nxt ctx r w
      else case guestAccessEnabled r w of
        (enabled, w1) \<Rightarrow>
          if \<not> enabled then (writeUnauthorized m ''authentication required'', w1)
          else if Req_Method r \<noteq> ''GET'' \<and> Req_Method r \<noteq> ''HEAD'' \<and> Req_Method r \<noteq> ''OPTIONS''
          then (writeUnauthorized m ''authentication required for write operations'', w1)
          else nxt (Some guestIdentity) r w1)"

definition RequirePermission :: "PermissionLevel \<Rightarrow> (Identity, 'b, 'w) middleware" where
  "RequirePermission level nxt ctx r w =
     (case ctx of
        None \<Rightarrow> (error_response StatusUnauthorized ''UNAUTHORIZED'' ''not authenticated'', w)
      | Some identity \<Rightarrow>
          if Id_Permission identity < level
          then (error_response StatusForbidden ''FORBIDDEN'' (''insufficient permissions: requires '' @ PermissionLevel_String level), w)
          else nxt ctx r w)"

definition security_headers :: "string \<rightharpoonup> string" where
  "security_headers =
     [''Cache-Control'' \<mapsto> ''no-store'',
      ''Content-Security-Policy'' \<mapsto> ''default-src '' @ [CHR 0x27] @ ''self'' @ [CHR 0x27],
      ''Permissions-Policy'' \<mapsto> ''camera=(), microphone=()'',
      ''Referrer-Policy'' \<mapsto> ''strict-origin-when-cross-origin'',
      ''Strict-Transport-Security'' \<mapsto> ''max-age=31536000; includeSubDomains'',
      ''X-Content-Type-Options'' \<mapsto> ''nosniff'',
      ''X-Frame-Options'' \<mapsto> ''DENY'',
      ''X-XSS-Protection'' \<mapsto> ''1; mode=block'']"

definition SecurityHeaders :: "('i, 'b, 'w) middleware" where
  "SecurityHeaders nxt ctx r w =
     (case nxt ctx r w of (resp, w1) \<Rightarrow> (resp\<lparr>Resp_Header := security_headers ++ Resp_Header resp\<rparr>, w1))"

end
