(* ===== verification/AuthTheorems.thy ===== *)
theory AuthTheorems
  imports Auth
begin

text \<open>
  What authentication promises: identities carry one of the five permission levels, a token gets the
  highest level its roles are mapped to, and credentials that were stored let their owner in.
\<close>

section \<open>Permission levels\<close>

definition declared :: "PermissionLevel \<Rightarrow> bool" where
  "declared p \<longleftrightarrow> PermissionSelfOnly \<le> p \<and> p \<le> PermissionAdmin"

lemma ParsePermissionLevel_declared [simp]: "declared (ParsePermissionLevel s)"
  by (simp add: ParsePermissionLevel_def declared_def)

lemma ParsePermissionLevel_String: "declared p \<Longrightarrow> ParsePermissionLevel (PermissionLevel_String p) = p"
proof -
  assume "declared p"
  then consider "p = 0" | "p = 1" | "p = 2" | "p = 3" | "p = 4" unfolding declared_def by linarith
  then show ?thesis by cases (simp_all add: PermissionLevel_String_def ParsePermissionLevel_def)
qed

text \<open>The roles of a token give the highest level one of them is mapped to, in any order.\<close>

lemma fold_max_fold: "fold (\<lambda>x h. if P x then (let l = f x in if l > h then l else h) else h) xs h = fold max (map f (filter P xs)) (h :: int)"
  by (induction xs arbitrary: h) (auto simp: Let_def max_def)

lemma resolvePermission_eq:
  "resolvePermission cfg roles = Max (insert PermissionSelfOnly
     {ParsePermissionLevel permName | role idpRole permName. role \<in> set roles \<and> (idpRole, permName) \<in> set (Oidc_RoleMapping cfg) \<and> matchRole cfg role idpRole})"
proof -
  let ?ls = "\<lambda>role. map (\<lambda>(x, n). ParsePermissionLevel n) (filter (\<lambda>(x, n). matchRole cfg role x) (Oidc_RoleMapping cfg))"
  have step: "(\<lambda>role highest. fold (\<lambda>(idpRole, permName) highest.
         if matchRole cfg role idpRole
         then (let level = ParsePermissionLevel permName in if level > highest then level else highest)
         else highest) (Oidc_RoleMapping cfg) highest) = (\<lambda>role. fold max (?ls role))"
    by (intro ext) (simp add: fold_max_fold [where P = "\<lambda>x. matchRole cfg _ (fst x)" and f = "\<lambda>x. ParsePermissionLevel (snd x)"] split_def)
  have "fold (\<lambda>role. fold max (?ls role)) roles h = fold max (concat (map ?ls roles)) h" for h :: int
    by (induction roles arbitrary: h) simp_all
  then have "resolvePermission cfg roles = fold max (concat (map ?ls roles)) PermissionSelfOnly" by (simp only: resolvePermission_def step)
  also have "\<dots> = Max (set (PermissionSelfOnly # concat (map ?ls roles)))" by (rule Max.set_eq_fold [symmetric])
  also have "set (PermissionSelfOnly # concat (map ?ls roles)) = insert PermissionSelfOnly
     {ParsePermissionLevel permName | role idpRole permName. role \<in> set roles \<and> (idpRole, permName) \<in> set (Oidc_RoleMapping cfg) \<and> matchRole cfg role idpRole}"
    by force
  finally show ?thesis .
qed

lemma resolvePermission_declared [simp]: "declared (resolvePermission cfg roles)"
proof -
  let ?S = "{ParsePermissionLevel permName | role idpRole permName. role \<in> set roles \<and> (idpRole, permName) \<in> set (Oidc_RoleMapping cfg) \<and> matchRole cfg role idpRole}"
  have "?S \<subseteq> (\<lambda>(x, n). ParsePermissionLevel n) ` set (Oidc_RoleMapping cfg)" by force
  then have "finite ?S" by (rule finite_subset) simp
  then have "resolvePermission cfg roles \<in> insert PermissionSelfOnly ?S" unfolding resolvePermission_eq by (intro Max_in) auto
  then show ?thesis by (auto simp: declared_def [of 0])
qed

section \<open>Credential stores\<close>

text \<open>
  The contract of a credential store: as long as the world is in order, the levels it answers are
  declared, and reading keeps the world in order.
\<close>

locale typed_store =
  fixes cs :: "'w credential_store" and in_order :: "'w \<Rightarrow> bool"
  assumes password: "in_order w \<Longrightarrow> cs_GetPassword cs u w = (x, w') \<Longrightarrow> in_order w'"
    and level: "in_order w \<Longrightarrow> cs_GetPermissionLevel cs u w = (Inr l, w') \<Longrightarrow> declared l"
begin

lemma identity: "in_order w \<Longrightarrow> basic_Authenticate bc cs r w = (Inr i, w') \<Longrightarrow> declared (Id_Permission i) \<and> Id_AuthMethod i = ''basic''"
  by (auto simp: basic_Authenticate_def split: option.splits prod.splits sum.splits if_splits dest: level [OF password])

end

text \<open>Users and levels are stored together, and the levels are declared.\<close>

definition store_ok :: "InMemoryCredentialStore \<Rightarrow> bool" where
  "store_ok s \<longleftrightarrow> dom (credentials s) = dom (permissions s) \<and> (\<forall>u l. permissions s u = Some l \<longrightarrow> declared l)"

lemma SetCredentials_ok: "store_ok s \<Longrightarrow> declared l \<Longrightarrow> store_ok (fst (SetCredentials bc u p l s w))"
  by (auto simp: SetCredentials_def store_ok_def split: prod.splits sum.splits if_splits)

interpretation memory: typed_store "memory_store store_of" "\<lambda>w. store_ok (store_of w)" for store_of :: "'w \<Rightarrow> InMemoryCredentialStore"
  by unfold_locales (auto simp: memory_store_def GetPermissionLevel_def store_ok_def declared_def split: option.splits)

fun set_all :: "'w bcrypt \<Rightarrow> (string \<times> string \<times> PermissionLevel) list \<Rightarrow> InMemoryCredentialStore \<Rightarrow> 'w \<Rightarrow> InMemoryCredentialStore \<times> 'w" where
  "set_all bc [] s w = (s, w)"
| "set_all bc ((u, p, l) # us) s w = (case SetCredentials bc u p l s w of (s1, w1) \<Rightarrow> set_all bc us s1 w1)"

lemma set_all_ok: "store_ok s \<Longrightarrow> (\<forall>(u, p, l) \<in> set us. declared l) \<Longrightarrow> store_ok (fst (set_all bc us s w))"
proof (induction us arbitrary: s w)
  case (Cons x us)
  obtain u p l where x: "x = (u, p, l)" by (cases x)
  show ?case using Cons.IH [of "fst (SetCredentials bc u p l s w)"] SetCredentials_ok [of s l bc u p w] Cons.prems
    by (auto simp: x split: prod.splits)
qed simp

lemma new_store_ok: "store_ok (NewInMemoryCredentialStoreWithCost c)" "store_ok NewInMemoryCredentialStore"
  by (simp_all add: NewInMemoryCredentialStoreWithCost_def NewInMemoryCredentialStore_def store_ok_def)

section \<open>Middlewares\<close>

definition identity_ok :: "Identity \<Rightarrow> bool" where
  "identity_ok i \<longleftrightarrow> declared (Id_Permission i) \<and> Id_AuthMethod i \<in> {''basic'', ''oidc'', ''guest''}"

lemma oidc_identity: "oidc_Authenticate p r w = (Inr i, w') \<Longrightarrow> identity_ok i"
  by (auto simp: oidc_Authenticate_def identity_ok_def Let_def split: prod.splits sum.splits if_splits)

lemma guest_identity_ok [simp]: "identity_ok guestIdentity"
  by (simp add: identity_ok_def guestIdentity_def declared_def empty_identity_def)

text \<open>The middleware of the server: Basic over the store in memory, bearer tokens when configured.\<close>

definition server_auth :: "'w bcrypt \<Rightarrow> ('w \<Rightarrow> InMemoryCredentialStore) \<Rightarrow> 'w OIDCProvider option \<Rightarrow> 'w AuthMiddleware" where
  "server_auth bc store_of oidc =
     \<lparr>basicProvider = Some (basic_Authenticate bc (memory_store store_of)), oidcProvider = map_option oidc_Authenticate oidc\<rparr>"

lemma server_identity:
  assumes "store_ok (store_of w)" "resolveProvider (server_auth bc store_of oidc) r = Inr p" "p r w = (Inr i, w')"
  shows "identity_ok i"
  using assms memory.identity [of store_of w bc r i w'] oidc_identity [of _ r w i w']
  by (auto simp: resolveProvider_def server_auth_def identity_ok_def Let_def split: if_splits option.splits)

lemma Handler_cong:
  assumes "\<And>p i w'. resolveProvider m r = Inr p \<Longrightarrow> p r w = (Inr i, w') \<Longrightarrow> nxt (Some i) r w' = nxt' (Some i) r w'"
  shows "auth_Handler m nxt ctx r w = auth_Handler m nxt' ctx r w"
  using assms by (auto simp: auth_Handler_def split: sum.splits prod.splits)

text \<open>
  Over a credential store that holds declared levels only, however it was filled, the middlewares hand
  to the next handler only identities with one of the five permission levels and a known scheme:
  handlers that agree on those identities cannot be told apart.
\<close>

lemma identities_typed:
  assumes "\<forall>(u, p, l) \<in> set us. declared l" "store_of w = fst (set_all bc us (NewInMemoryCredentialStoreWithCost c) v)"
    "\<And>i r w. identity_ok i \<Longrightarrow> nxt (Some i) r w = nxt' (Some i) r w"
  shows "GuestHandler (server_auth bc store_of oidc) g nxt ctx r w = GuestHandler (server_auth bc store_of oidc) g nxt' ctx r w"
proof -
  have "store_ok (store_of w)" using set_all_ok [OF new_store_ok(1) assms(1)] assms(2) by simp
  then have "resolveProvider (server_auth bc store_of oidc) r = Inr p \<Longrightarrow> p r w = (Inr i, w') \<Longrightarrow> identity_ok i" for p i w'
    using server_identity [of store_of w] by blast
  then have "auth_Handler (server_auth bc store_of oidc) nxt ctx r w = auth_Handler (server_auth bc store_of oidc) nxt' ctx r w"
    by (intro Handler_cong) (blast intro: assms(3))
  then show ?thesis by (simp add: GuestHandler_def assms(3) split: prod.splits)
qed

section \<open>bcrypt\<close>

text \<open>
  What bcrypt documents: a password of at most 72 bytes is hashed at every cost from 4 to 31, and a
  generated hash matches its password. Longer passwords and higher costs may be refused.
\<close>

abbreviation bcrypt_MaxPassword :: nat where "bcrypt_MaxPassword \<equiv> 72"

definition valid_cost :: "InMemoryCredentialStore \<Rightarrow> bool" where
  "valid_cost s \<longleftrightarrow> bcrypt_MinCost \<le> cost s \<and> cost s \<le> bcrypt_MaxCost"

lemma valid_cost_new [simp]: "valid_cost NewInMemoryCredentialStore" "valid_cost (NewInMemoryCredentialStoreWithCost c)"
  by (simp_all add: valid_cost_def NewInMemoryCredentialStore_def NewInMemoryCredentialStoreWithCost_def)

lemma valid_cost_SetCredentials [simp]: "valid_cost (fst (SetCredentials bc u p l s w)) = valid_cost s"
  by (simp add: valid_cost_def SetCredentials_def split: prod.split sum.split)

locale bcrypt_law =
  fixes bc :: "'w bcrypt"
  assumes generates: "\<lbrakk>bcrypt_MinCost \<le> k; k \<le> bcrypt_MaxCost; length p \<le> bcrypt_MaxPassword\<rbrakk>
      \<Longrightarrow> \<exists>h w1. GenerateFromPassword bc k p w = (Inr h, w1)"
    and matches: "GenerateFromPassword bc k p w = (Inr h, w1) \<Longrightarrow> h \<noteq> [] \<and> CompareHashAndPassword bc h p"
begin

lemma stored_hash:
  assumes "valid_cost s" "length p \<le> bcrypt_MaxPassword" "SetCredentials bc u p l s w = (s1, w1)"
  shows "\<exists>h. GenerateFromPassword bc (cost s) p w = (Inr h, w1) \<and> GetPassword s1 u = h \<and> h \<noteq> [] \<and>
    CompareHashAndPassword bc h p \<and> GetPermissionLevel s1 u = l"
proof -
  obtain h w2 where h: "GenerateFromPassword bc (cost s) p w = (Inr h, w2)"
    using generates [of "cost s" p w] assms(1,2) by (auto simp: valid_cost_def)
  then show ?thesis using matches [OF h] assms(3) by (auto simp: SetCredentials_def GetPassword_def GetPermissionLevel_def)
qed

end

section \<open>Roles\<close>

text \<open>When a role matches a pattern of the mapping, and the levels that have a name.\<close>

definition role_matches :: "string \<Rightarrow> string \<Rightarrow> string \<Rightarrow> bool" where
  "role_matches mode role pat \<longleftrightarrow>
     (if mode = ''suffix'' then \<exists>a. role = a @ pat
      else if mode = ''prefix'' then \<exists>b. role = pat @ b
      else if mode = ''contains'' then \<exists>a b. role = a @ pat @ b
      else role = pat)"

definition named_levels :: "(string \<times> PermissionLevel) set" where
  "named_levels = {(''Basic'', 1), (''Operator Basic'', 2), (''Operator'', 3), (''Admin'', 4)}"

lemma HasSuffix_iff: "HasSuffix s p \<longleftrightarrow> (\<exists>a. s = a @ p)"
proof -
  have "(\<exists>r. rev s = rev p @ r) \<longleftrightarrow> (\<exists>a. s = a @ p)" by (metis rev_append rev_rev_ident)
  then show ?thesis by (simp add: HasSuffix_def HasPrefix_iff)
qed

lemma matchRole_iff: "matchRole cfg role pat \<longleftrightarrow> role_matches (Oidc_RoleMatchMode cfg) role pat"
  unfolding matchRole_def role_matches_def HasSuffix_iff HasPrefix_iff Contains_iff ..

lemma ParsePermissionLevel_ge: "0 < k \<Longrightarrow> k \<le> ParsePermissionLevel n \<longleftrightarrow> (\<exists>l. (n, l) \<in> named_levels \<and> k \<le> l)"
  by (auto simp: ParsePermissionLevel_def named_levels_def)

lemma resolvePermission_ge:
  "k \<le> resolvePermission cfg roles \<longleftrightarrow> k \<le> PermissionSelfOnly \<or>
     (\<exists>role pat n. role \<in> set roles \<and> (pat, n) \<in> set (Oidc_RoleMapping cfg) \<and> matchRole cfg role pat \<and> k \<le> ParsePermissionLevel n)"
proof -
  let ?S = "{ParsePermissionLevel n | role pat n. role \<in> set roles \<and> (pat, n) \<in> set (Oidc_RoleMapping cfg) \<and> matchRole cfg role pat}"
  have "?S \<subseteq> (\<lambda>(x, n). ParsePermissionLevel n) ` set (Oidc_RoleMapping cfg)" by force
  then have "finite (insert PermissionSelfOnly ?S)" by (meson finite_imageI finite_insert finite_set finite_subset)
  then show ?thesis unfolding resolvePermission_eq by (subst Max_ge_iff) auto
qed

section \<open>Properties\<close>

text \<open>
  C14. A bearer token gets the highest permission level its roles are mapped to, and no higher: the
  identity of an authenticated token reaches the level k above Self Only exactly when one of its
  roles matches, in the configured mode (suffix, prefix, substring or equality), a pattern that is mapped to
  the name of a level of at least k. The order of roles and of the mapping plays no part, and unknown
  names grant nothing.
\<close>

theorem oidc_highest_level:
  assumes "oidc_Authenticate p r w = (Inr i, w')" "PermissionSelfOnly < k"
  shows "k \<le> Id_Permission i \<longleftrightarrow>
    (\<exists>role pat n l. role \<in> set (Id_Roles i) \<and> (pat, n) \<in> set (Oidc_RoleMapping (op_config p)) \<and>
       role_matches (Oidc_RoleMatchMode (op_config p)) role pat \<and> (n, l) \<in> named_levels \<and> k \<le> l)"
proof -
  have "Id_Permission i = resolvePermission (op_config p) (Id_Roles i)"
    using assms(1) by (auto simp: oidc_Authenticate_def Let_def split: prod.splits sum.splits if_splits)
  then show ?thesis using assms(2)
    by (simp add: resolvePermission_ge matchRole_iff ParsePermissionLevel_ge [OF assms(2)])
qed

text \<open>
  C22. Credentials round trip, for a bcrypt that keeps its documentation: after a user's password of at
  most 72 bytes has been stored, a request that carries the user's name (without a colon) and that
  password the way the command line client writes them passes Basic authentication with the stored
  level; a request with a password that does not match the stored hash is answered 401.
\<close>

theorem credentials_roundtrip:
  assumes "bcrypt_law bc" "valid_cost s" "length p \<le> 72" "CHR '':'' \<notin> set u"
    "store_of w = fst (SetCredentials bc u p l s v)"
  shows "auth_Handler (server_auth bc store_of oidc) nxt ctx (SetBasicAuth u p r) w =
      nxt (Some (empty_identity\<lparr>Id_Username := u, Id_Permission := l, Id_AuthMethod := ''basic''\<rparr>)) (SetBasicAuth u p r) w \<and>
    (\<forall>q. \<not> CompareHashAndPassword bc (GetPassword (store_of w) u) q \<longrightarrow>
      auth_Handler (server_auth bc store_of oidc) nxt ctx (SetBasicAuth u q r) w =
        (writeUnauthorized (server_auth bc store_of oidc) ''authentication failed'', w))"
proof -
  let ?m = "server_auth bc store_of oidc"
  obtain s1 v1 where s1: "SetCredentials bc u p l s v = (s1, v1)" by fastforce
  then obtain h where h: "GetPassword (store_of w) u = h" "h \<noteq> []" "CompareHashAndPassword bc h p" "GetPermissionLevel (store_of w) u = l"
    using bcrypt_law.stored_hash [OF assms(1-3) s1] assms(5) by auto
  have "resolveProvider ?m (SetBasicAuth u q r) = Inr (basic_Authenticate bc (memory_store store_of))" for q
    by (simp add: resolveProvider_def SetBasicAuth_def server_auth_def Let_def HasPrefix_def)
  moreover have "BasicAuth (SetBasicAuth u q r) = Some (u, q)" for q using assms(4) by (rule BasicAuth_SetBasicAuth)
  ultimately show ?thesis using h by (simp add: auth_Handler_def basic_Authenticate_def memory_store_def)
qed

section \<open>Samples\<close>

text \<open>A stand-in for bcrypt that keeps its documentation, limits included.\<close>

definition plain_bcrypt :: "'w bcrypt" where
  "plain_bcrypt = \<lparr>CompareHashAndPassword = \<lambda>h p. h = CHR ''$'' # p,
     GenerateFromPassword = \<lambda>c p w.
       if bcrypt_MaxPassword < length p then (Inl ''bcrypt: password length exceeds 72 bytes'', w)
       else if bcrypt_MaxCost < c then (Inl ''crypto/bcrypt: cost is outside allowed range'', w)
       else (Inr (CHR ''$'' # p), w)\<rparr>"

interpretation plain: bcrypt_law plain_bcrypt
  by unfold_locales (auto simp: plain_bcrypt_def split: if_splits)

definition plain_request :: request where
  "plain_request = \<lparr>Req_Method = ''GET'', Req_Path = [], Req_Query = (\<lambda>_. []), Req_Header = (\<lambda>_. []), Req_RemoteAddr = [], Req_Body = [], Req_PathValues = []\<rparr>"

definition report_level :: "(Identity, int, 'w) http_handler" where
  "report_level ctx r w = (body_response StatusOK (case ctx of None \<Rightarrow> - 1 | Some i \<Rightarrow> Id_Permission i), w)"

definition admin_store :: InMemoryCredentialStore where
  "admin_store = fst (set_all plain_bcrypt [(''admin'', ''s3cret'', PermissionAdmin)] (NewInMemoryCredentialStoreWithCost 4) ())"

text \<open>A provider whose tokens carry two roles, of which one ends in a mapped name.\<close>

definition sample_oidc :: "unit OIDCProvider" where
  "sample_oidc = \<lparr>
     op_config = \<lparr>Oidc_IssuerURL = ''iss'', Oidc_ClientID = ''id'', Oidc_ClientSecret = [], Oidc_Scopes = [], Oidc_RoleClaimPath = ''roles'',
       Oidc_RoleClaimSource = ''id_token'', Oidc_RoleMatchMode = ''suffix'', Oidc_RoleMapping = [(''-ops'', ''Operator''), (''-dba'', ''Admin'')]\<rparr>,
     op_client = \<lparr>oc_Verify = \<lambda>t w. (Inr (Inr (J_Obj [(''roles'', J_Arr [J_Str ''user'', J_Str ''eu-ops''])]), 0), w),
       oc_UserInfo = \<lambda>t w. (Inl ''off'', w)\<rparr>\<rparr>"

theorem oidc_highest_level_witness:
  "\<exists>i. oidc_Authenticate sample_oidc (plain_request\<lparr>Req_Header := \<lambda>_. ''Bearer x''\<rparr>) () = (Inr i, ()) \<and> 3 \<le> Id_Permission i"
proof -
  have roles: "extractRoles (op_config sample_oidc) (J_Obj [(''roles'', J_Arr [J_Str ''user'', J_Str ''eu-ops''])]) = [''user'', ''eu-ops'']"
    by (simp add: extractRoles_def sample_oidc_def claim_member_def interfaceToStringSlice_def List.map_filter_def)
  obtain i where i: "oidc_Authenticate sample_oidc (plain_request\<lparr>Req_Header := \<lambda>_. ''Bearer x''\<rparr>) () = (Inr i, ())"
    "Id_Roles i = [''user'', ''eu-ops'']"
    using roles by (simp add: oidc_Authenticate_def extractBearerToken_def plain_request_def HasPrefix_def resolveRoles_def sample_oidc_def)
  have "''eu-ops'' = ''eu'' @ ''-ops''" by simp
  then have "role_matches ''suffix'' ''eu-ops'' ''-ops''" unfolding role_matches_def by auto
  then have "3 \<le> Id_Permission i"
    using i(2) by (subst oidc_highest_level [OF i(1)]) (auto simp: sample_oidc_def named_levels_def)
  with i(1) show ?thesis by blast
qed

theorem credentials_roundtrip_witness:
  "fst (auth_Handler (server_auth plain_bcrypt id None) report_level None (SetBasicAuth ''admin'' ''s3cret'' plain_request) admin_store) =
    body_response StatusOK PermissionAdmin"
proof -
  have "id admin_store = fst (SetCredentials plain_bcrypt ''admin'' ''s3cret'' PermissionAdmin (NewInMemoryCredentialStoreWithCost 4) admin_store)"
    by (simp add: admin_store_def plain_bcrypt_def SetCredentials_def NewInMemoryCredentialStoreWithCost_def)
  from credentials_roundtrip [where store_of = id and w = admin_store and oidc = None and nxt = report_level and ctx = None and r = plain_request,
      OF plain.bcrypt_law_axioms _ _ _ this]
  show ?thesis by (simp add: report_level_def)
qed

end
