(* ===== verification/Float64.thy ===== *)
theory Float64
  imports Prelude "HOL-Library.Log_Nat"
begin

text \<open>
  The rounding of \<^verbatim>\<open>float64\<close> arithmetic: IEEE 754 binary64, to nearest with ties to even, as a function on
  the rationals. An operation of Go on finite numbers is the exact operation followed by \<open>f64\<close>. The
  locale \<open>float_rounding\<close> collects the laws the clients use; overflow to infinity is left out, since
  the clients stay far below the range.
\<close>

section \<open>Model\<close>

text \<open>The exponent of a positive number: \<open>2 powi log2 x \<le> x < 2 powi (log2 x + 1)\<close>.\<close>

definition log2 :: "rat \<Rightarrow> int" where
  "log2 x = (case quotient_of x of (p, q) \<Rightarrow>
     let e = bitlen p - bitlen q in if 2 powi e \<le> x then e else e - 1)"

definition round_even :: "rat \<Rightarrow> int" where
  "round_even x =
     (let f = \<lfloor>x\<rfloor>; d = x - of_int f
      in if d < 1/2 then f else if 1/2 < d then f + 1 else if even f then f else f + 1)"

text \<open>The distance of neighbouring numbers at \<open>x\<close>; the smallest is that of the subnormal numbers.\<close>

definition ulp :: "rat \<Rightarrow> rat" where
  "ulp x = 2 powi max (log2 x - 52) (-1074)"

definition f64_pos :: "rat \<Rightarrow> rat" where
  "f64_pos x = of_int (round_even (x / ulp x)) * ulp x"

definition f64 :: "rat \<Rightarrow> rat" where
  "f64 x = (if x = 0 then 0 else if 0 < x then f64_pos x else - f64_pos (- x))"

text \<open>The conversion of a float64 to an integer drops the fraction.\<close>

definition truncated :: "rat \<Rightarrow> int" where
  "truncated x = (if 0 \<le> x then \<lfloor>x\<rfloor> else \<lceil>x\<rceil>)"

section \<open>Laws\<close>

lemma round_even_mono: "x \<le> y \<Longrightarrow> round_even x \<le> round_even y"
proof -
  assume xy: "x \<le> y"
  then have f: "\<lfloor>x\<rfloor> \<le> \<lfloor>y\<rfloor>" by (rule floor_mono)
  show ?thesis
  proof (cases "\<lfloor>x\<rfloor> = \<lfloor>y\<rfloor>")
    case True
    then show ?thesis using xy by (auto simp: round_even_def Let_def)
  next
    case False
    then have "round_even x \<le> \<lfloor>y\<rfloor>" using f by (auto simp: round_even_def Let_def)
    moreover have "\<lfloor>y\<rfloor> \<le> round_even y" by (auto simp: round_even_def Let_def)
    ultimately show ?thesis by simp
  qed
qed

lemma round_even_of_int [simp]: "round_even (of_int n) = n"
  by (simp add: round_even_def)

lemma round_even_near: "of_int (round_even x) \<le> x + 1/2" "x - 1/2 \<le> of_int (round_even x)"
proof -
  have "of_int \<lfloor>x\<rfloor> \<le> x" "x < of_int \<lfloor>x\<rfloor> + 1" using floor_correct [of x] by simp_all
  then show "of_int (round_even x) \<le> x + 1/2" "x - 1/2 \<le> of_int (round_even x)"
    unfolding round_even_def Let_def by (simp_all split: if_split; linarith)+
qed

lemma log2_bounds:
  assumes "0 < x" shows "2 powi log2 x \<le> x" "x < 2 powi (log2 x + 1)"
proof -
  obtain p q where q: "quotient_of x = (p, q)" by (cases "quotient_of x")
  then have x: "x = of_int p / of_int q" "0 < q" using quotient_of_div quotient_of_denom_pos by auto
  then have "0 < p" using assms by (simp add: zero_less_divide_iff)
  have b: "2 powi (bitlen n - 1) \<le> (of_int n :: rat)" "(of_int n :: rat) < 2 powi bitlen n" if "0 < n" for n
  proof -
    have n: "2 ^ nat (bitlen n - 1) \<le> n" "n < 2 ^ nat (bitlen n)" "0 < bitlen n"
      using bitlen_bounds [OF that] bitlen_nonneg [of n] that by (auto simp: bitlen_eq_zero_iff order_less_le)
    have "(2::rat) powi (bitlen n - 1) = of_int (2 ^ nat (bitlen n - 1))" "(2::rat) powi bitlen n = of_int (2 ^ nat (bitlen n))"
      using n(3) by (simp_all add: power_int_def)
    then show "2 powi (bitlen n - 1) \<le> (of_int n :: rat)" "(of_int n :: rat) < 2 powi bitlen n"
      using n(1,2) by (simp_all only: of_int_le_iff of_int_less_iff)
  qed
  define e where "e = bitlen p - bitlen q"
  note P = b [OF \<open>0 < p\<close>] and Q = b [OF \<open>0 < q\<close>]
  have "2 powi (e - 1) = (2::rat) powi (bitlen p - 1) / 2 powi bitlen q"
    by (simp add: e_def power_int_diff)
  also have "\<dots> \<le> x" unfolding x(1) using P Q \<open>0 < p\<close> x(2) by (intro frac_le) (simp_all add: less_imp_le)
  finally have lo: "2 powi (e - 1) \<le> x" .
  have "x < 2 powi bitlen p / 2 powi (bitlen q - 1)" unfolding x(1) using P Q \<open>0 < p\<close> x(2) by (intro frac_less) simp_all
  also have "\<dots> = 2 powi (e + 1)" by (simp add: e_def power_int_diff power_int_add)
  finally have hi: "x < 2 powi (e + 1)" .
  show "2 powi log2 x \<le> x" "x < 2 powi (log2 x + 1)" using lo hi by (auto simp: log2_def q Let_def e_def)
qed

lemma log2_mono:
  assumes "0 < x" "x \<le> y" shows "log2 x \<le> log2 y"
proof (rule ccontr)
  assume "\<not> ?thesis"
  then have "(2::rat) powi (log2 y + 1) \<le> 2 powi log2 x" by (intro power_int_increasing) auto
  then show False using log2_bounds [of x] log2_bounds [of y] assms by linarith
qed

lemma ulp_pos [simp]: "0 < ulp x"
  by (simp add: ulp_def)

lemma powi_multiple:
  assumes "n \<le> m" shows "\<exists>k. (2::rat) powi m = of_int k * 2 powi n"
proof (intro exI)
  show "(2::rat) powi m = of_int (2 ^ nat (m - n)) * 2 powi n"
    using assms power_int_add [of "2::rat" "m - n" n] by (simp add: power_int_def)
qed

lemma f64_pos_le_power:
  assumes "0 < x" "x \<le> 2 powi m" "log2 x < m" "-1074 \<le> m" shows "f64_pos x \<le> 2 powi m"
proof -
  have "max (log2 x - 52) (- 1074) \<le> m" using assms by auto
  then obtain k where k: "(2::rat) powi m = of_int k * ulp x" unfolding ulp_def using powi_multiple by blast
  have "x / ulp x \<le> of_int k" using assms(2) k by (simp add: divide_le_eq)
  then have "round_even (x / ulp x) \<le> k" using round_even_mono [of "x / ulp x" "of_int k"] by simp
  then show ?thesis unfolding f64_pos_def k by (simp add: mult_right_mono less_imp_le)
qed

lemma f64_pos_ge_power:
  assumes "0 < x" "2 powi m \<le> x" "m = log2 x" "-1074 \<le> m" shows "2 powi m \<le> f64_pos x"
proof -
  have "max (log2 x - 52) (- 1074) \<le> m" using assms by auto
  then obtain k where k: "(2::rat) powi m = of_int k * ulp x" unfolding ulp_def using powi_multiple by blast
  have "of_int k \<le> x / ulp x" using assms(2) k by (simp add: le_divide_eq)
  then have "k \<le> round_even (x / ulp x)" using round_even_mono [of "of_int k" "x / ulp x"] by simp
  then show ?thesis unfolding f64_pos_def k by (simp add: mult_right_mono less_imp_le)
qed

lemma f64_pos_mono:
  assumes "0 < x" "x \<le> y" shows "f64_pos x \<le> f64_pos y"
proof (cases "ulp x = ulp y")
  case True
  then have "x / ulp x \<le> y / ulp y" using assms(2) by (simp add: divide_right_mono less_imp_le)
  then show ?thesis unfolding f64_pos_def True using round_even_mono by (simp add: mult_right_mono less_imp_le)
next
  case False
  then have "log2 x < log2 y" "-1074 < log2 y - 52" 
    using log2_mono [OF assms] unfolding ulp_def by (metis order_le_less, smt (verit) max_def)
  moreover have "x \<le> 2 powi log2 y"
    using log2_bounds(2) [OF assms(1)] calculation(1) power_int_increasing [of "log2 x + 1" "log2 y" "2::rat"] by linarith
  ultimately have "f64_pos x \<le> 2 powi log2 y" using assms(1) by (intro f64_pos_le_power) auto
  also have "\<dots> \<le> f64_pos y" using assms \<open>-1074 < log2 y - 52\<close> log2_bounds(1) [of y] by (intro f64_pos_ge_power) auto
  finally show ?thesis .
qed

lemma f64_pos_nonneg: "0 \<le> x \<Longrightarrow> 0 \<le> f64_pos x"
  using round_even_mono [of 0 "x / ulp x"] by (simp add: f64_pos_def round_even_def less_imp_le)

lemma f64_mono: "x \<le> y \<Longrightarrow> f64 x \<le> f64 y"
  using f64_pos_mono [of x y] f64_pos_mono [of "- y" "- x"] f64_pos_nonneg [of y] f64_pos_nonneg [of "- x"]
  by (auto simp: f64_def)

lemma f64_pos_of_int:
  assumes "0 < n" "n \<le> 2 ^ 53" shows "f64_pos (of_int n) = of_int n"
proof (cases "n = 2 ^ 53")
  case False
  have "log2 (of_int n) \<le> 52"
  proof (rule ccontr)
    assume "\<not> ?thesis"
    then have "(2::rat) powi 53 \<le> 2 powi log2 (of_int n)" by (intro power_int_increasing) auto
    also have "\<dots> \<le> of_int n" using log2_bounds(1) [of "of_int n"] assms(1) by simp
    finally have "(of_int (2 ^ 53) :: rat) \<le> of_int n" by (simp add: power_int_def)
    then show False using assms(2) False by (simp only: of_int_le_iff)
  qed
  then have "max (log2 (of_int n) - 52) (- 1074) \<le> 0" by simp
  then obtain k where k: "(2::rat) powi 0 = of_int k * ulp (of_int n)" unfolding ulp_def using powi_multiple by blast
  then have "of_int n / ulp (of_int n) = (of_int (n * k) :: rat)" 
    using ulp_pos [of "of_int n"] by (simp add: divide_eq_eq less_imp_neq [symmetric])
  then have "f64_pos (of_int n) = of_int (n * k) * ulp (of_int n)" by (simp only: f64_pos_def round_even_of_int)
  then show ?thesis using k by simp
next
  case True
  have l: "log2 (2 ^ 53) = 53"
  proof -
    have "bitlen (2 ^ 53) = 54" "bitlen 1 = 1" by code_simp+
    moreover have "quotient_of (2 ^ 53) = (2 ^ 53, 1)" by code_simp
    ultimately show ?thesis by (simp add: log2_def power_int_def)
  qed
  have "ulp (2 ^ 53) = 2" using l by (simp add: ulp_def)
  moreover have "round_even (2 ^ 53 / 2) = 2 ^ 52" by (simp add: round_even_def)
  ultimately have "f64_pos (2 ^ 53) = 2 ^ 53" by (simp add: f64_pos_def)
  then show ?thesis using True by simp
qed

lemma f64_of_int: "\<bar>n\<bar> \<le> 2 ^ 53 \<Longrightarrow> f64 (of_int n) = of_int n"
  using f64_pos_of_int [of n] f64_pos_of_int [of "- n"] by (auto simp: f64_def)

lemma f64_near:
  assumes "2 powi (-100) \<le> x" shows "9/10 * x \<le> f64 x" "f64 x \<le> 11/10 * x"
proof -
  have x: "0 < x" using assms by (rule less_le_trans [rotated]) simp
  have "-100 \<le> log2 x"
  proof (rule ccontr)
    assume "\<not> ?thesis"
    then have "(2::rat) powi (log2 x + 1) \<le> 2 powi (-100)" by (intro power_int_increasing) auto
    then show False using log2_bounds(2) [OF x] assms by linarith
  qed
  then have "ulp x = 2 powi (log2 x - 52)" by (simp add: ulp_def max_def)
  also have "\<dots> = 2 powi log2 x / 2 ^ 52" by (simp add: power_int_diff)
  finally have u: "ulp x \<le> x / 10" using log2_bounds(1) [OF x] x by (simp add: field_simps)
  have "f64 x = of_int (round_even (x / ulp x)) * ulp x" using x by (simp add: f64_def f64_pos_def)
  moreover have "(x / ulp x - 1/2) * ulp x \<le> of_int (round_even (x / ulp x)) * ulp x"
    "of_int (round_even (x / ulp x)) * ulp x \<le> (x / ulp x + 1/2) * ulp x"
    using round_even_near [of "x / ulp x"] by (simp_all add: mult_right_mono less_imp_le)
  moreover have "(x / ulp x - 1/2) * ulp x = x - ulp x / 2" "(x / ulp x + 1/2) * ulp x = x + ulp x / 2"
    using ulp_pos [of x] by (simp_all add: left_diff_distrib distrib_right less_imp_neq [symmetric])
  ultimately show "9/10 * x \<le> f64 x" "f64 x \<le> 11/10 * x" using u by linarith+
qed

section \<open>Interface\<close>

locale float_rounding =
  fixes rnd :: "rat \<Rightarrow> rat"
  assumes mono: "x \<le> y \<Longrightarrow> rnd x \<le> rnd y"
    and of_int: "\<bar>n\<bar> \<le> 2 ^ 53 \<Longrightarrow> rnd (of_int n) = of_int n"
    and near: "2 powi (-100) \<le> x \<Longrightarrow> 9/10 * x \<le> rnd x \<and> rnd x \<le> 11/10 * x"
begin

lemma zero [simp]: "rnd 0 = 0" and one [simp]: "rnd 1 = 1"
  using of_int [of 0] of_int [of 1] by simp_all

lemma nonneg: "0 \<le> x \<Longrightarrow> 0 \<le> rnd x"
  using mono [of 0 x] by simp

lemma ge_int: "\<bar>n\<bar> \<le> 2 ^ 53 \<Longrightarrow> of_int n \<le> x \<Longrightarrow> of_int n \<le> rnd x"
  using mono [of "of_int n" x] of_int [of n] by simp

lemma le_int: "\<bar>n\<bar> \<le> 2 ^ 53 \<Longrightarrow> x \<le> of_int n \<Longrightarrow> rnd x \<le> of_int n"
  using mono [of x "of_int n"] of_int [of n] by simp

end

interpretation f64: float_rounding f64
  by unfold_locales (use f64_mono f64_of_int f64_near in blast)+

end
