(* ===== verification/RateLimit.thy ===== *)
theory RateLimit
  imports Http Float64 GoTime Names
begin

text \<open>
  The rate limiter of the REST server, \<^verbatim>\<open>internal/api/ratelimit.go\<close>: a token bucket per client address
  with \<^verbatim>\<open>float64\<close> tokens, the periodic removal of idle entries, and the identification of clients.
\<close>

section \<open>Model\<close>

record rateLimitEntry =
  tokens :: rat
  lastRefill :: int

type_synonym rate_entries = "string \<rightharpoonup> rateLimitEntry"

text \<open>
  The settings of a limiter. A trusted network is the test whether a textual address is an IP
  address inside it.
\<close>

record RateLimiter =
  limit :: int
  interval :: int
  trustedProxies :: "(string \<Rightarrow> bool) list"

abbreviation defaultRateLimit :: int where "defaultRateLimit \<equiv> 10"
abbreviation defaultRateInterval :: int where "defaultRateInterval \<equiv> 60 * Second"

definition NewRateLimiter :: "int \<Rightarrow> int \<Rightarrow> RateLimiter" where
  "NewRateLimiter rate every =
     \<lparr>limit = (if rate \<le> 0 then defaultRateLimit else rate), interval = (if every \<le> 0 then defaultRateInterval else every),
      trustedProxies = []\<rparr>"

text \<open>\<^verbatim>\<open>Time.Sub\<close> saturates; \<^verbatim>\<open>Duration.Seconds\<close> adds the whole seconds and the rest.\<close>

definition time_Sub :: "int \<Rightarrow> int \<Rightarrow> int64" where
  "time_Sub t u = max (- 9223372036854775808) (min 9223372036854775807 (t - u))"

definition Seconds :: "int64 \<Rightarrow> rat" where
  "Seconds d = f64 (f64 (of_int (sgn d * (\<bar>d\<bar> div Second))) + f64 (f64 (of_int (sgn d * (\<bar>d\<bar> mod Second))) / 1000000000))"

definition refillRate :: "RateLimiter \<Rightarrow> rat" where
  "refillRate rl = f64 (f64 (of_int (limit rl)) / Seconds (interval rl))"

text \<open>
  The tokens of an entry after its refill. Product and sum are rounded one after the other, as on amd64;
  Go may fuse them on other architectures (arm64, for one).
\<close>

definition refilled :: "RateLimiter \<Rightarrow> int \<Rightarrow> rateLimitEntry \<Rightarrow> rat" where
  "refilled rl now entry =
     (let t = f64 (tokens entry + f64 (Seconds (time_Sub now (lastRefill entry)) * refillRate rl))
      in if t > f64 (of_int (limit rl)) then f64 (of_int (limit rl)) else t)"

definition Allow :: "RateLimiter \<Rightarrow> int \<Rightarrow> string \<Rightarrow> rate_entries \<Rightarrow> bool \<times> rate_entries" where
  "Allow rl now ip entries =
     (case entries ip of
        None \<Rightarrow> (True, entries(ip \<mapsto> \<lparr>tokens = f64 (f64 (of_int (limit rl)) - 1), lastRefill = now\<rparr>))
      | Some entry \<Rightarrow>
          (let t = refilled rl now entry in
           if t < 1 then (False, entries(ip \<mapsto> \<lparr>tokens = t, lastRefill = now\<rparr>))
           else (True, entries(ip \<mapsto> \<lparr>tokens = f64 (t - 1), lastRefill = now\<rparr>))))"

definition RetryAfterSeconds :: "RateLimiter \<Rightarrow> int" where
  "RetryAfterSeconds rl =
     (if refillRate rl \<le> 0 then 1
      else let seconds = \<lfloor>f64 (1 / refillRate rl)\<rfloor> + 1 in if seconds < 1 then 1 else seconds)"

definition cleanup :: "RateLimiter \<Rightarrow> int \<Rightarrow> rate_entries \<Rightarrow> rate_entries" where
  "cleanup rl now entries = (\<lambda>ip. case entries ip of
     None \<Rightarrow> None
   | Some entry \<Rightarrow> if time_Sub now (lastRefill entry) > wrap64 (interval rl * 2) then None else Some entry)"

subsection \<open>Clients\<close>

text \<open>\<^verbatim>\<open>net.SplitHostPort\<close>: the host, or \<open>None\<close> on its errors.\<close>

definition last_colon :: "string \<Rightarrow> (string \<times> string) option" where
  "last_colon s = (if CHR '':'' \<notin> set s then None
     else Some (rev (tl (dropWhile (\<lambda>c. c \<noteq> CHR '':'') (rev s))), rev (takeWhile (\<lambda>c. c \<noteq> CHR '':'') (rev s))))"

definition split_host :: "string \<Rightarrow> string option" where
  "split_host s =
     (case last_colon s of
        None \<Rightarrow> None
      | Some (before, port) \<Rightarrow>
          if HasPrefix s ''['' then
            (let host = takeWhile (\<lambda>c. c \<noteq> CHR '']'') (tl s)
             in if before = CHR ''['' # host @ '']'' \<and> CHR ''['' \<notin> set host \<and> CHR ''['' \<notin> set port \<and> CHR '']'' \<notin> set port
                then Some host else None)
          else if CHR '':'' \<in> set before \<or> CHR ''['' \<in> set s \<or> CHR '']'' \<in> set s then None
          else Some before)"

definition extractRemoteHost :: "string \<Rightarrow> string" where
  "extractRemoteHost remoteAddr = (case split_host remoteAddr of None \<Rightarrow> remoteAddr | Some host \<Rightarrow> host)"

definition isTrustedProxy :: "RateLimiter \<Rightarrow> string \<Rightarrow> bool" where
  "isTrustedProxy rl ip = list_ex (\<lambda>net. net ip) (trustedProxies rl)"

definition extractClientIP :: "RateLimiter \<Rightarrow> request \<Rightarrow> string" where
  "extractClientIP rl r =
     (let remoteHost = extractRemoteHost (Req_RemoteAddr r);
          xff = Req_Header r ''X-Forwarded-For''; xri = Req_Header r ''X-Real-IP''
      in if isTrustedProxy rl remoteHost then
           if xff \<noteq> [] then TrimSpace (fst (Cut xff CHR '',''))
           else if xri \<noteq> [] then TrimSpace xri else remoteHost
         else remoteHost)"

text \<open>The limiter in the world of a server: its entries and the clock.\<close>

record 'w rate_world =
  rw_now :: "'w \<Rightarrow> int"
  rw_entries :: "'w \<Rightarrow> rate_entries"
  rw_set :: "rate_entries \<Rightarrow> 'w \<Rightarrow> 'w"

definition rate_Middleware :: "RateLimiter \<Rightarrow> 'w rate_world \<Rightarrow> ('i, 'b, 'w) middleware" where
  "rate_Middleware rl rw nxt ctx r w =
     (case Allow rl (rw_now rw w) (extractClientIP rl r) (rw_entries rw w) of
        (False, es) \<Rightarrow>
          ((error_response StatusTooManyRequests ''RATE_LIMITED'' ''too many requests, please retry later'')
             \<lparr>Resp_Header := [''Retry-After'' \<mapsto> show_int (RetryAfterSeconds rl)]\<rparr>, rw_set rw es w)
      | (True, es) \<Rightarrow> nxt ctx r (rw_set rw es w))"

subsection \<open>Runs\<close>

datatype rate_event = Request string | Cleanup

fun rate_run :: "RateLimiter \<Rightarrow> (int \<times> rate_event) list \<Rightarrow> rate_entries \<Rightarrow> bool list \<times> rate_entries" where
  "rate_run rl [] es = ([], es)"
| "rate_run rl ((t, Cleanup) # evs) es = rate_run rl evs (cleanup rl t es)"
| "rate_run rl ((t, Request ip) # evs) es =
     (case Allow rl t ip es of (b, es1) \<Rightarrow> (case rate_run rl evs es1 of (bs, es2) \<Rightarrow> (b # bs, es2)))"

lemma run_Request:
  "fst (rate_run rl ((t, Request ip) # evs) es) = fst (Allow rl t ip es) # fst (rate_run rl evs (snd (Allow rl t ip es)))"
  by (simp split: prod.splits)

section \<open>Arithmetic of the buckets\<close>

text \<open>A limiter whose settings are in the range where \<^verbatim>\<open>float64\<close> counts exactly.\<close>

definition limiter_ok :: "RateLimiter \<Rightarrow> bool" where
  "limiter_ok rl \<longleftrightarrow> 0 < limit rl \<and> limit rl \<le> 2 ^ 53 \<and> 0 < interval rl \<and> interval rl \<le> 2 ^ 61"

lemma f64_limit [simp]: "limiter_ok rl \<Longrightarrow> f64 (of_int (limit rl)) = of_int (limit rl)"
  by (rule f64.of_int) (simp add: limiter_ok_def)

lemma Seconds_nonneg: "0 \<le> d \<Longrightarrow> 0 \<le> Seconds d"
  unfolding Seconds_def by (intro f64.nonneg add_nonneg_nonneg divide_nonneg_nonneg) (auto simp: sgn_if)

lemma Seconds_zero [simp]: "Seconds 0 = 0"
  by (simp add: Seconds_def)

lemma Seconds_pos_eq:
  assumes "0 < d" "d \<le> 2 ^ 63"
  shows "Seconds d = f64 (of_int (d div Second) + f64 (of_int (d mod Second) / 1000000000))"
proof -
  have s: "sgn d = 1" "\<bar>d\<bar> = d" using assms by auto
  have "f64 (of_int (d div Second)) = of_int (d div Second)" using assms by (intro f64.of_int) simp
  moreover have "f64 (of_int (d mod Second)) = of_int (d mod Second)" by (intro f64.of_int) simp
  ultimately show ?thesis by (simp only: Seconds_def s mult_1)
qed

lemma Seconds_ge_int: "0 \<le> k \<Longrightarrow> k * Second \<le> d \<Longrightarrow> d \<le> 2 ^ 63 \<Longrightarrow> of_int k \<le> Seconds d"
proof (cases "d = 0")
  case False
  assume a: "0 \<le> k" "k * Second \<le> d" "d \<le> 2 ^ 63"
  then have k: "k \<le> d div Second" "0 < d" using False by auto
  have "of_int k \<le> of_int (d div Second) + f64 (of_int (d mod Second) / 1000000000)"
    using k f64.nonneg [of "of_int (d mod Second) / 1000000000"] by (simp add: add_increasing2)
  then show ?thesis unfolding Seconds_pos_eq [OF k(2) a(3)] using a k by (intro f64.ge_int) auto
qed simp

lemma Seconds_bounds:
  assumes "0 < d" "d \<le> 2 ^ 63"
  shows "81/100 * (of_int d / 1000000000) \<le> Seconds d" "Seconds d \<le> 121/100 * (of_int d / 1000000000)"
proof -
  define s n where "s = d div Second" and "n = d mod Second"
  define f where "f = f64 (of_int n / 1000000000)"
  have d: "of_int d / 1000000000 = (of_int s + of_int n / 1000000000 :: rat)"
  proof -
    have "d = 1000000000 * s + n" unfolding s_def n_def by simp
    then have "(of_int d :: rat) = 1000000000 * of_int s + of_int n" by simp
    then show ?thesis by (simp add: add_divide_distrib)
  qed
  have small: "(2::rat) powi (-100) \<le> 1/1000000000" by simp
  have f: "9/10 * (of_int n / 1000000000) \<le> f" "f \<le> 11/10 * (of_int n / 1000000000)" "n \<noteq> 0 \<Longrightarrow> 9/10 * (1/1000000000) \<le> f"
  proof -
    have "n = 0 \<or> (2::rat) powi (-100) \<le> of_int n / 1000000000"
    proof (cases "n = 0")
      case False
      then have "(1::rat) \<le> of_int n" by (simp add: n_def order_less_le)
      then have "(1::rat)/1000000000 \<le> of_int n / 1000000000" by (simp add: divide_right_mono)
      then show ?thesis using small by linarith
    qed simp
    then show "9/10 * (of_int n / 1000000000) \<le> f" "f \<le> 11/10 * (of_int n / 1000000000)"
      unfolding f_def using f64.near [of "of_int n / 1000000000"] by auto
    then show "9/10 * (1/1000000000) \<le> f" if "n \<noteq> 0"
    proof -
      have "(1::rat) \<le> of_int n" using that by (simp add: n_def order_less_le)
      then show ?thesis using \<open>9/10 * (of_int n / 1000000000) \<le> f\<close> by (simp add: field_simps)
    qed
  qed
  have s: "0 \<le> s" using assms by (simp add: s_def pos_imp_zdiv_nonneg_iff)
  have "2 powi (-100) \<le> of_int s + f"
  proof (cases "n = 0")
    case True
    then have "1 \<le> s" using assms d by (simp add: s_def n_def)
    then have "(1::rat) \<le> of_int s" by simp
    moreover have "0 \<le> f" unfolding f_def using True by simp
    ultimately show ?thesis using small by linarith
  next
    case False
    then have "9/10 * (1/1000000000) \<le> f" by (rule f(3))
    moreover have "(2::rat) powi (-100) \<le> 9/10 * (1/1000000000)" by simp
    ultimately show ?thesis using s by (simp add: add_increasing)
  qed
  note near = f64.near [OF this]
  have S: "Seconds d = f64 (of_int s + f)" unfolding Seconds_pos_eq [OF assms] s_def f_def n_def ..
  have s': "(0::rat) \<le> of_int s" using s by simp
  have n': "(0::rat) \<le> of_int n / 1000000000" by (simp add: n_def)
  have "81/100 * (of_int s + of_int n / 1000000000) \<le> (9/10 * (of_int s + f) :: rat)" using f(1) s' by (simp add: field_simps)
  then show "81/100 * (of_int d / 1000000000) \<le> Seconds d" unfolding S d using near by linarith
  have "(11/10 * (of_int s + f) :: rat) \<le> 121/100 * (of_int s + of_int n / 1000000000)" using f(2) s' by (simp add: field_simps)
  then show "Seconds d \<le> 121/100 * (of_int d / 1000000000)" unfolding S d using near by linarith
qed

lemma rate_ge:
  assumes "limiter_ok rl"
  shows "9/10 * (of_int (limit rl) / Seconds (interval rl)) \<le> refillRate rl" "0 < refillRate rl" "0 < Seconds (interval rl)"
    "Seconds (interval rl) \<le> 121/100 * (of_int (interval rl) / 1000000000)"
proof -
  let ?I = "Seconds (interval rl)" and ?i = "of_int (interval rl) :: rat"
  have i: "0 < interval rl" "interval rl \<le> 2 ^ 63" "0 < limit rl" using assms by (auto simp: limiter_ok_def)
  have b: "81/100 * (?i / 1000000000) \<le> ?I" "?I \<le> 121/100 * (?i / 1000000000)" using Seconds_bounds [OF i(1,2)] by auto
  have "0 < 81/100 * (?i / 1000000000)" using i by simp
  then show I: "0 < ?I" using b by linarith
  show "?I \<le> 121/100 * (?i / 1000000000)" using b by simp
  have "?i \<le> 2 ^ 61" using assms by (simp add: limiter_ok_def)
  then have "?I \<le> 2 ^ 61" using b by simp
  then have "?I * 2 powi (-100) \<le> 2 ^ 61 * 2 powi (-100)" by (intro mult_right_mono) auto
  then have "?I * 2 powi (-100) \<le> 1" by simp
  moreover have "(1::rat) \<le> of_int (limit rl)" using i by simp
  ultimately have "2 powi (-100) \<le> of_int (limit rl) / ?I" using I by (simp add: pos_le_divide_eq mult.commute)
  from f64.near [OF this] show r: "9/10 * (of_int (limit rl) / ?I) \<le> refillRate rl" using assms by (simp add: refillRate_def)
  have "0 < 9/10 * (of_int (limit rl) / ?I)" using I i by simp
  then show "0 < refillRate rl" using r by linarith
qed


section \<open>Invariant\<close>

text \<open>Every bucket holds at least nothing and at most the limit.\<close>

definition buckets_ok :: "RateLimiter \<Rightarrow> rate_entries \<Rightarrow> bool" where
  "buckets_ok rl es \<longleftrightarrow> (\<forall>ip e. es ip = Some e \<longrightarrow> 0 \<le> tokens e \<and> tokens e \<le> of_int (limit rl))"

lemma refilled_le: "limiter_ok rl \<Longrightarrow> refilled rl now e \<le> of_int (limit rl)"
  by (simp add: refilled_def Let_def)

lemma refilled_ge:
  assumes "limiter_ok rl" "0 \<le> tokens e" "\<bar>n\<bar> \<le> 2 ^ 53" "n \<le> limit rl"
    "of_int n \<le> Seconds (time_Sub now (lastRefill e)) * refillRate rl"
  shows "of_int n \<le> refilled rl now e"
proof -
  have "of_int n \<le> f64 (Seconds (time_Sub now (lastRefill e)) * refillRate rl)" using assms(3,5) by (rule f64.ge_int)
  then have "of_int n \<le> tokens e + f64 (Seconds (time_Sub now (lastRefill e)) * refillRate rl)" using assms(2) by linarith
  then have "of_int n \<le> f64 (tokens e + f64 (Seconds (time_Sub now (lastRefill e)) * refillRate rl))" by (rule f64.ge_int [OF assms(3)])
  then show ?thesis using assms(1,4) by (simp add: refilled_def Let_def)
qed

lemma refilled_nonneg:
  "limiter_ok rl \<Longrightarrow> 0 \<le> tokens e \<Longrightarrow> lastRefill e \<le> now \<Longrightarrow> 0 \<le> refilled rl now e"
  using refilled_ge [of rl e 0 now] rate_ge(2) [of rl] Seconds_nonneg [of "time_Sub now (lastRefill e)"]
  by (auto simp: time_Sub_def limiter_ok_def)

lemma pred_le:
  assumes "t \<le> of_int n" "\<bar>n\<bar> \<le> 2 ^ 53" "1 \<le> n" shows "f64 (t - 1) \<le> of_int (n - 1)"
  using assms by (intro f64.le_int) auto

text \<open>The times of the entries lie in the past.\<close>

definition in_past :: "int \<Rightarrow> rate_entries \<Rightarrow> bool" where
  "in_past now es \<longleftrightarrow> (\<forall>ip e. es ip = Some e \<longrightarrow> lastRefill e \<le> now)"

lemma Allow_ok:
  assumes "limiter_ok rl" "buckets_ok rl es" "in_past now es"
  shows "buckets_ok rl (snd (Allow rl now ip es))" "in_past now (snd (Allow rl now ip es))"
proof -
  have l: "1 \<le> limit rl" "\<bar>limit rl\<bar> \<le> 2 ^ 53" using assms(1) by (auto simp: limiter_ok_def)
  have "buckets_ok rl (es(ip \<mapsto> \<lparr>tokens = t, lastRefill = now\<rparr>))" if "0 \<le> t" "t \<le> of_int (limit rl)" for t
    using that assms(2) by (auto simp: buckets_ok_def)
  moreover have "0 \<le> f64 (t - 1) \<and> f64 (t - 1) \<le> of_int (limit rl)" if "1 \<le> t" "t \<le> of_int (limit rl)" for t
    using that pred_le [OF _ l(2,1), of t] f64.nonneg [of "t - 1"] by auto
  moreover have "0 \<le> refilled rl now e" "refilled rl now e \<le> of_int (limit rl)" if "es ip = Some e" for e
    using that assms refilled_nonneg refilled_le by (auto simp: buckets_ok_def in_past_def)
  ultimately show "buckets_ok rl (snd (Allow rl now ip es))"
    using l assms(1) by (auto simp: Allow_def Let_def split: option.splits)
  show "in_past now (snd (Allow rl now ip es))" using assms(3) by (auto simp: Allow_def Let_def in_past_def split: option.splits)
qed

lemma cleanup_ok: "buckets_ok rl es \<Longrightarrow> buckets_ok rl (cleanup rl now es)" "in_past t es \<Longrightarrow> in_past t (cleanup rl now es)"
  by (auto simp: buckets_ok_def in_past_def cleanup_def split: option.splits if_splits)

lemma in_past_later: "in_past t es \<Longrightarrow> t \<le> u \<Longrightarrow> in_past u es"
  by (force simp: in_past_def)

section \<open>Cleanup\<close>

text \<open>After two intervals a bucket is full.\<close>

lemma idle_bucket_full:
  assumes "limiter_ok rl" "0 \<le> tokens e" "interval rl * 2 < time_Sub now (lastRefill e)"
  shows "refilled rl now e = of_int (limit rl)"
proof -
  let ?d = "time_Sub now (lastRefill e)" and ?i = "of_int (interval rl) :: rat" and ?l = "of_int (limit rl) :: rat" and ?I = "Seconds (interval rl)"
  have ok: "0 < interval rl" "0 < limit rl" "limit rl \<le> 2 ^ 53" using assms(1) by (auto simp: limiter_ok_def)
  have d: "0 < ?d" "?d \<le> 2 ^ 63" using assms(3) ok by (auto simp: time_Sub_def)
  note r = rate_ge [OF assms(1)]
  have "2 * ?i \<le> of_int ?d" using assms(3) by (metis less_imp_le mult.commute of_int_le_iff of_int_mult of_int_numeral)
  then have "162/100 * (?i / 1000000000) \<le> 81/100 * (of_int ?d / 1000000000)" by simp
  then have E: "162/100 * (?i / 1000000000) \<le> Seconds ?d" using Seconds_bounds(1) [OF d] by linarith
  have "121/100 * (?i / 1000000000) * ?l \<le> 162/100 * (?i / 1000000000) * (9/10 * ?l)" using ok by simp
  then have "?I * ?l \<le> 162/100 * (?i / 1000000000) * (9/10 * ?l)" using mult_right_mono [OF r(4), of ?l] ok by simp
  then have "?l \<le> 162/100 * (?i / 1000000000) * (9/10 * (?l / ?I))" using r(3) by (simp add: field_simps)
  also have "\<dots> \<le> Seconds ?d * refillRate rl"
    using E r ok by (intro mult_mono) (auto intro: order_trans [OF _ E])
  finally have "of_int (limit rl) \<le> refilled rl now e" using assms(1,2) ok by (intro refilled_ge) auto
  then show ?thesis using refilled_le [OF assms(1), of now e] by simp
qed

text \<open>\<open>es'\<close> is \<open>es\<close> without some entries that have been idle for two intervals.\<close>

definition thinned :: "RateLimiter \<Rightarrow> int \<Rightarrow> rate_entries \<Rightarrow> rate_entries \<Rightarrow> bool" where
  "thinned rl now es es' \<longleftrightarrow> (\<forall>ip. es' ip = es ip \<or>
     es' ip = None \<and> (\<exists>e. es ip = Some e \<and> interval rl * 2 < time_Sub now (lastRefill e)))"

lemma thinned_later: "thinned rl t es es' \<Longrightarrow> t \<le> u \<Longrightarrow> thinned rl u es es'"
proof -
  assume "t \<le> u"
  then have "time_Sub t x \<le> time_Sub u x" for x by (auto simp: time_Sub_def)
  then show "thinned rl t es es' \<Longrightarrow> thinned rl u es es'" unfolding thinned_def by (meson less_le_trans)
qed

lemma thinned_cleanup: "limiter_ok rl \<Longrightarrow> thinned rl t es es' \<Longrightarrow> thinned rl t es (cleanup rl t es')"
proof -
  assume "limiter_ok rl"
  then have "wrap64 (interval rl * 2) = interval rl * 2" by (intro wrap64_id) (auto simp: limiter_ok_def in_int64_def)
  then show "thinned rl t es es' \<Longrightarrow> thinned rl t es (cleanup rl t es')"
    unfolding thinned_def cleanup_def by (auto split: option.splits) (metis option.distinct(1) option.inject)+
qed

lemma thinned_Allow:
  assumes "limiter_ok rl" "buckets_ok rl es" "thinned rl t es es'"
  shows "fst (Allow rl t ip es') = fst (Allow rl t ip es)" "thinned rl t (snd (Allow rl t ip es)) (snd (Allow rl t ip es'))"
proof -
  have l: "(1::rat) \<le> of_int (limit rl)" using assms(1) by (simp add: limiter_ok_def)
  have full: "refilled rl t e = of_int (limit rl)" if "es ip = Some e" "interval rl * 2 < time_Sub t (lastRefill e)" for e
    using that assms by (intro idle_bucket_full) (auto simp: buckets_ok_def)
  consider "es' ip = es ip" | e where "es' ip = None" "es ip = Some e" "interval rl * 2 < time_Sub t (lastRefill e)"
    using assms(3) unfolding thinned_def by blast
  then have "fst (Allow rl t ip es') = fst (Allow rl t ip es) \<and> snd (Allow rl t ip es') ip = snd (Allow rl t ip es) ip"
  proof cases
    case 1
    then show ?thesis by (auto simp: Allow_def Let_def split: option.splits)
  next
    case 2
    then show ?thesis using full [OF 2(2,3)] l assms(1) by (simp add: Allow_def)
  qed
  moreover have "snd (Allow rl t ip s) j = s j" if "j \<noteq> ip" for s j using that by (auto simp: Allow_def Let_def split: option.splits)
  ultimately show "fst (Allow rl t ip es') = fst (Allow rl t ip es)" "thinned rl t (snd (Allow rl t ip es)) (snd (Allow rl t ip es'))"
    using assms(3) unfolding thinned_def by (blast, metis)
qed

lemma run_thinned:
  assumes "limiter_ok rl"
  shows "sorted (map fst evs) \<Longrightarrow> (\<forall>t \<in> set (map fst evs). now \<le> t) \<Longrightarrow> buckets_ok rl es \<Longrightarrow> in_past now es \<Longrightarrow> thinned rl now es es' \<Longrightarrow>
    fst (rate_run rl evs es') = fst (rate_run rl (filter (\<lambda>(t, e). e \<noteq> Cleanup) evs) es)"
proof (induction evs arbitrary: now es es')
  case (Cons ev evs)
  obtain t e where ev: "ev = (t, e)" by (cases ev)
  have t: "now \<le> t" "sorted (map fst evs)" "\<forall>u \<in> set (map fst evs). t \<le> u" using Cons.prems by (auto simp: ev)
  have th: "thinned rl t es es'" "in_past t es" using Cons.prems(4,5) t(1) thinned_later in_past_later by blast+
  show ?case
  proof (cases e)
    case Cleanup
    then show ?thesis using Cons.IH [OF t(2,3) Cons.prems(3) th(2) thinned_cleanup [OF assms th(1)]] by (simp add: ev)
  next
    case (Request ip)
    note A = thinned_Allow [OF assms Cons.prems(3) th(1), of ip] and ok = Allow_ok [OF assms Cons.prems(3) th(2), of ip]
    from Cons.IH [OF t(2,3) ok A(2)] show ?thesis
      using A(1) by (simp add: ev Request run_Request del: rate_run.simps)
  qed
qed simp

section \<open>Properties\<close>

text \<open>
  C19. Removing idle entries saves memory and changes no decision: for any sequence of requests and
  cleanups in the order of time, the answers are those of a limiter that never cleans up.
\<close>

theorem cleanup_unobservable:
  assumes "limiter_ok rl" "sorted (map fst evs)"
  shows "fst (rate_run rl evs Map.empty) = fst (rate_run rl (filter (\<lambda>(t, e). e \<noteq> Cleanup) evs) Map.empty)"
proof (cases evs)
  case (Cons ev evs')
  then have "\<forall>t \<in> set (map fst evs). fst ev \<le> t" using assms(2) by auto
  then show ?thesis using run_thinned [OF assms, of "fst ev" Map.empty Map.empty] by (simp add: buckets_ok_def in_past_def thinned_def)
qed simp

text \<open>A bucket that was last refilled at this instant gains nothing.\<close>

lemma refilled_same_instant:
  "lastRefill e = t \<Longrightarrow> tokens e \<le> of_int n \<Longrightarrow> \<bar>n\<bar> \<le> 2 ^ 53 \<Longrightarrow> refilled rl t e \<le> of_int n"
  using f64.le_int [of n "tokens e"] by (simp add: refilled_def Let_def time_Sub_def)

lemma burst_count:
  assumes "limiter_ok rl"
  shows "(\<forall>r \<in> set rs. r = ip) \<Longrightarrow> (case es ip of None \<Rightarrow> n = limit rl | Some e \<Rightarrow> refilled rl t e \<le> of_int n) \<Longrightarrow> 0 \<le> n \<Longrightarrow>
    n \<le> limit rl \<Longrightarrow> int (length (filter id (fst (rate_run rl (map (\<lambda>r. (t, Request r)) rs) es)))) \<le> n"
proof (induction rs arbitrary: es n)
  case (Cons r rs)
  have l: "\<bar>n\<bar> \<le> 2 ^ 53" "\<bar>n - 1\<bar> \<le> 2 ^ 53" "0 < limit rl" using assms Cons.prems by (auto simp: limiter_ok_def)
  have r: "r = ip" "\<forall>r \<in> set rs. r = ip" using Cons.prems(1) by auto
  let ?es = "snd (Allow rl t ip es)"
  show ?case
  proof (cases "fst (Allow rl t ip es)")
    case True
    have "1 \<le> n \<and> (\<exists>e. ?es ip = Some e \<and> lastRefill e = t \<and> tokens e \<le> of_int (n - 1))"
    proof (cases "es ip")
      case None
      then show ?thesis using Cons.prems(2) l pred_le [of "of_int n" n] assms by (simp add: Allow_def)
    next
      case (Some e)
      then have n: "refilled rl t e \<le> of_int n" using Cons.prems(2) by simp
      have one: "1 \<le> refilled rl t e" using True Some by (auto simp: Allow_def Let_def split: if_splits)
      then have "1 \<le> n" using n by (metis of_int_1_le_iff order_trans)
      then show ?thesis using pred_le [OF n l(1)] one Some by (simp add: Allow_def Let_def)
    qed
    then obtain e where e: "1 \<le> n" "?es ip = Some e" "refilled rl t e \<le> of_int (n - 1)" using refilled_same_instant l(2) by blast
    then show ?thesis using Cons.IH [where es = ?es and n = "n - 1", OF r(2)] Cons.prems(4) True
      by (auto simp: r(1) run_Request simp del: rate_run.simps)
  next
    case False
    then obtain e where e: "es ip = Some e" "?es ip = Some \<lparr>tokens = refilled rl t e, lastRefill = t\<rparr>"
      by (auto simp: Allow_def Let_def split: option.splits if_splits)
    then have "refilled rl t \<lparr>tokens = refilled rl t e, lastRefill = t\<rparr> \<le> of_int n"
      using Cons.prems(2) l(1) by (intro refilled_same_instant) auto
    then show ?thesis using Cons.IH [where es = ?es and n = n, OF r(2)] Cons.prems(3,4) False e
      by (auto simp: r(1) run_Request simp del: rate_run.simps)
  qed
qed simp

text \<open>
  C20. A burst is bounded: of any number of requests that come from one remote host at one instant, with
  whatever forwarding headers, at most the limit pass, in whatever state the buckets are.
\<close>

theorem burst_bounded:
  assumes "limiter_ok rl" "trustedProxies rl = []" "\<forall>r \<in> set rs. extractRemoteHost (Req_RemoteAddr r) = host"
  shows "int (length (filter id (fst (rate_run rl (map (\<lambda>r. (t, Request (extractClientIP rl r))) rs) es)))) \<le> limit rl"
proof -
  have "\<forall>ip \<in> set (map (extractClientIP rl) rs). ip = host" using assms(2,3) by (auto simp: extractClientIP_def isTrustedProxy_def Let_def)
  then show ?thesis
    using burst_count [where rs = "map (extractClientIP rl) rs" and ip = host and es = es and n = "limit rl" and t = t, OF assms(1)] refilled_le [OF assms(1), of t] assms(1)
    by (auto simp: comp_def limiter_ok_def split: option.splits)
qed

lemma run_ok:
  assumes "limiter_ok rl"
  shows "sorted (map fst evs) \<Longrightarrow> (\<forall>t \<in> set (map fst evs). now \<le> t \<and> t \<le> later) \<Longrightarrow> now \<le> later \<Longrightarrow> buckets_ok rl es \<Longrightarrow> in_past now es \<Longrightarrow>
    buckets_ok rl (snd (rate_run rl evs es)) \<and> in_past later (snd (rate_run rl evs es))"
proof (induction evs arbitrary: now es)
  case (Cons ev evs)
  obtain t e where ev: "ev = (t, e)" by (cases ev)
  have t: "now \<le> t" "t \<le> later" "sorted (map fst evs)" "\<forall>u \<in> set (map fst evs). t \<le> u \<and> u \<le> later" using Cons.prems by (auto simp: ev)
  have p: "in_past t es" using Cons.prems(5) t(1) in_past_later by blast
  show ?case
  proof (cases e)
    case Cleanup
    then show ?thesis using Cons.IH [OF t(3,4,2)] cleanup_ok(1) [OF Cons.prems(4)] cleanup_ok(2) [OF p] by (simp add: ev)
  next
    case (Request ip)
    have "snd (rate_run rl (ev # evs) es) = snd (rate_run rl evs (snd (Allow rl t ip es)))" by (simp add: ev Request split: prod.splits)
    then show ?thesis using Cons.IH [OF t(3,4,2)] Allow_ok [OF assms Cons.prems(4) p] by metis
  qed
qed (auto intro: in_past_later)

lemma retry_delay:
  assumes "limiter_ok rl"
  shows "1 \<le> RetryAfterSeconds rl" "RetryAfterSeconds rl * Second \<le> 9223372036854775807" "1 \<le> of_int (RetryAfterSeconds rl) * refillRate rl"
proof -
  let ?r = "refillRate rl" and ?I = "Seconds (interval rl)" and ?l = "of_int (limit rl) :: rat"
  note r = rate_ge [OF assms]
  define k where "k = \<lfloor>f64 (1 / ?r)\<rfloor> + 1"
  have nn: "0 \<le> f64 (1 / ?r)" using r(2) by (intro f64.nonneg) simp
  then have k: "RetryAfterSeconds rl = k" "1 \<le> k" using r(2) by (auto simp: RetryAfterSeconds_def k_def Let_def)
  have l: "1 \<le> ?l" using assms by (simp add: limiter_ok_def)
  have "interval rl \<le> 2305843009213693952" using assms by (simp add: limiter_ok_def)
  then have "(of_int (interval rl) :: rat) \<le> 2305843009213693952" by (metis of_int_le_iff of_int_numeral)
  then have I: "?I \<le> 2790070042" using r(4) by simp
  have "9/10 \<le> 9/10 * ?l" using l by simp
  also have "\<dots> \<le> ?I * ?r" using mult_left_mono [OF r(1), of ?I] r(3) by simp
  finally have "1 / ?r \<le> 10/9 * ?I" using r(2) by (simp add: field_simps)
  then have "1 / ?r \<le> of_int 3100077825" using I by simp
  then have "f64 (1 / ?r) \<le> of_int 3100077825" by (intro f64.le_int) simp_all
  then have f: "\<lfloor>f64 (1 / ?r)\<rfloor> \<le> 3100077825" by (simp add: floor_le_iff)
  then have "k \<le> 3100077826" by (simp only: k_def)
  then show "1 \<le> RetryAfterSeconds rl" "RetryAfterSeconds rl * Second \<le> 9223372036854775807" using k by (simp_all only: k(1))
  have "1 / ?r \<le> of_int k"
  proof (rule ccontr)
    assume "\<not> ?thesis"
    then have "of_int k \<le> f64 (1 / ?r)" using k(2) f by (intro f64.ge_int) (simp_all add: k_def)
    then show False unfolding k_def using floor_correct [of "f64 (1 / ?r)"] by simp
  qed
  then show "1 \<le> of_int (RetryAfterSeconds rl) * ?r" using r(2) by (simp add: k(1) field_simps)
qed

lemma bucket_untouched:
  assumes "\<forall>ev \<in> set evs. snd ev \<noteq> Request ip"
  shows "snd (rate_run rl evs es) ip = es ip \<or> snd (rate_run rl evs es) ip = None"
  using assms
proof (induction rl evs es rule: rate_run.induct)
  case (2 rl t evs es)
  then show ?case by (auto simp: cleanup_def split: option.splits if_splits)
next
  case (3 rl t ip' evs es)
  then have "snd (Allow rl t ip' es) ip = es ip" by (auto simp: Allow_def Let_def split: option.splits)
  with 3 show ?case by (auto split: prod.splits)
qed simp

lemma Allow_after_delay:
  assumes "limiter_ok rl" "buckets_ok rl es" "in_past t es" "t + RetryAfterSeconds rl * Second \<le> now"
    "es' ip = snd (Allow rl t ip es) ip \<or> es' ip = None"
  shows "fst (Allow rl now ip es')"
  using assms(5)
proof
  assume same: "es' ip = snd (Allow rl t ip es) ip"
  note ok = Allow_ok [OF assms(1-3), of ip]
  obtain e where e: "snd (Allow rl t ip es) ip = Some e" "lastRefill e = t" "0 \<le> tokens e"
    using ok(1) by (auto simp: Allow_def Let_def buckets_ok_def split: option.splits if_splits)
  note k = retry_delay [OF assms(1)]
  let ?k = "RetryAfterSeconds rl" and ?d = "time_Sub now t"
  have "?k * Second \<le> ?d" "?d \<le> 2 ^ 63" using assms(4) k by (auto simp: time_Sub_def)
  then have "of_int ?k \<le> Seconds ?d" using k(1) by (intro Seconds_ge_int) auto
  then have "of_int ?k * refillRate rl \<le> Seconds ?d * refillRate rl" using rate_ge(2) [OF assms(1)] by (intro mult_right_mono) auto
  then have "of_int 1 \<le> refilled rl now e" using k(3) e assms(1) by (intro refilled_ge) (auto simp: limiter_ok_def)
  then show ?thesis using e(1) same by (simp add: Allow_def Let_def)
qed (simp add: Allow_def)

lemma run_from_start:
  assumes "limiter_ok rl" "sorted (map fst evs)" "\<forall>u \<in> set (map fst evs). u \<le> t"
  shows "buckets_ok rl (snd (rate_run rl evs Map.empty))" "in_past t (snd (rate_run rl evs Map.empty))"
proof -
  define first where "first = (case evs of [] \<Rightarrow> t | ev # _ \<Rightarrow> fst ev)"
  have "\<forall>u \<in> set (map fst evs). first \<le> u \<and> u \<le> t" "first \<le> t" using assms(2,3) by (force simp: first_def split: list.splits)+
  from run_ok [OF assms(1,2) this, of Map.empty]
  show "buckets_ok rl (snd (rate_run rl evs Map.empty))" "in_past t (snd (rate_run rl evs Map.empty))"
    by (simp_all add: buckets_ok_def in_past_def)
qed

text \<open>
  C21. The header Retry-After keeps its promise. After any history in the order of time, let the
  middleware reject a request with 429, where the handlers behind it never answer 429 themselves. The
  response carries Retry-After with a number k of seconds, and a request of the same client address,
  as the middleware determines it, is handed on at every instant at least k seconds later, when nobody
  at that address has asked in between, whatever other clients and the clean-up did.
\<close>

theorem retry_after_admits:
  assumes "limiter_ok rl" "\<And>es w. rw_entries rw (rw_set rw es w) = es"
    "sorted (map fst evs)" "\<forall>u \<in> set (map fst evs). u \<le> rw_now rw w" "rw_entries rw w = snd (rate_run rl evs Map.empty)"
    "\<And>c r w. Resp_Status (fst (nxt c r w)) \<noteq> 429"
    "rate_Middleware rl rw nxt ctx r w = (resp, w1)" "Resp_Status resp = 429"
  shows "\<exists>k. Resp_Header resp ''Retry-After'' = Some (show_int k) \<and> 1 \<le> k \<and>
    (\<forall>between ctx2 r2 w2. (\<forall>ev \<in> set between. snd ev \<noteq> Request (extractClientIP rl r)) \<and>
       rw_entries rw w2 = snd (rate_run rl between (rw_entries rw w1)) \<and>
       extractClientIP rl r2 = extractClientIP rl r \<and> rw_now rw w + k * Second \<le> rw_now rw w2 \<longrightarrow>
       (\<exists>es. rate_Middleware rl rw nxt ctx2 r2 w2 = nxt ctx2 r2 (rw_set rw es w2)))"
proof (intro exI [of _ "RetryAfterSeconds rl"] conjI allI impI)
  let ?ip = "extractClientIP rl r" and ?es = "rw_entries rw w" and ?t = "rw_now rw w"
  obtain b es where al: "Allow rl ?t ?ip ?es = (b, es)" by fastforce
  have "\<not> b" using assms(6) [of ctx r "rw_set rw es w"] assms(7,8) al by (auto simp: rate_Middleware_def)
  then have rej: "Resp_Header resp ''Retry-After'' = Some (show_int (RetryAfterSeconds rl))" "w1 = rw_set rw es w"
    using assms(7) al by (auto simp: rate_Middleware_def)
  show "Resp_Header resp ''Retry-After'' = Some (show_int (RetryAfterSeconds rl))" by (rule rej)
  show "1 \<le> RetryAfterSeconds rl" using retry_delay [OF assms(1)] by simp
  fix between ctx2 r2 w2
  assume as: "(\<forall>ev \<in> set between. snd ev \<noteq> Request ?ip) \<and> rw_entries rw w2 = snd (rate_run rl between (rw_entries rw w1)) \<and>
    extractClientIP rl r2 = ?ip \<and> ?t + RetryAfterSeconds rl * Second \<le> rw_now rw w2"
  then have "rw_entries rw w2 ?ip = snd (Allow rl ?t ?ip ?es) ?ip \<or> rw_entries rw w2 ?ip = None"
    using bucket_untouched [of between ?ip rl es] rej(2) assms(2) al by auto
  then have "fst (Allow rl (rw_now rw w2) ?ip (rw_entries rw w2))"
    using as assms(5) by (intro Allow_after_delay [OF assms(1) run_from_start [OF assms(1,3,4)]]) auto
  then show "\<exists>es. rate_Middleware rl rw nxt ctx2 r2 w2 = nxt ctx2 r2 (rw_set rw es w2)"
    using as by (auto simp: rate_Middleware_def split: prod.splits)
qed

section \<open>The limiter of the server\<close>

definition server_limiter :: RateLimiter where
  "server_limiter = NewRateLimiter 2 0"

lemma server_limiter_ok: "limiter_ok server_limiter" "trustedProxies server_limiter = []"
  by (simp_all add: server_limiter_def NewRateLimiter_def limiter_ok_def)

theorem cleanup_unobservable_witness:
  "fst (rate_run server_limiter [(0, Request ''a''), (300 * Second, Cleanup), (301 * Second, Request ''a'')] Map.empty) =
    fst (rate_run server_limiter [(0, Request ''a''), (301 * Second, Request ''a'')] Map.empty)"
  using cleanup_unobservable [OF server_limiter_ok(1), of "[(0, Request ''a''), (300 * Second, Cleanup), (301 * Second, Request ''a'')]"] by simp

definition guess :: "nat \<Rightarrow> request" where
  "guess n = \<lparr>Req_Method = ''GET'', Req_Path = [], Req_Query = (\<lambda>_. []), Req_Header = (\<lambda>_. [])(''X-Forwarded-For'' := show_nat n),
     Req_RemoteAddr = ''10.0.0.1:5000'', Req_Body = [], Req_PathValues = []\<rparr>"

theorem burst_bounded_witness:
  "int (length (filter id (fst (rate_run server_limiter (map (\<lambda>r. (0, Request (extractClientIP server_limiter r))) (map guess [0..<100])) Map.empty)))) \<le> 2"
proof -
  have "limit server_limiter = 2" by (simp add: server_limiter_def NewRateLimiter_def)
  then show ?thesis
    using burst_bounded [OF server_limiter_ok, of "map guess [0..<100]" "extractRemoteHost ''10.0.0.1:5000''" 0 Map.empty] by (simp add: guess_def)
qed

text \<open>A world of a clock and the entries; the third request of one instant is rejected.\<close>

definition clock_world :: "(int \<times> rate_entries) rate_world" where
  "clock_world = \<lparr>rw_now = fst, rw_entries = snd, rw_set = \<lambda>es w. (fst w, es)\<rparr>"

definition serve :: "(unit, string, int \<times> rate_entries) http_handler" where
  "serve ctx r w = (body_response StatusOK ''served'', w)"

lemma third_request_rejected:
  assumes "ip = extractClientIP server_limiter (guess 0)"
  shows "Resp_Status (fst (rate_Middleware server_limiter clock_world serve None (guess 0)
    (0, snd (rate_run server_limiter [(0, Request ip), (0, Request ip)] Map.empty)))) = 429"
proof -
  have l: "limit server_limiter = 2" by (simp add: server_limiter_def NewRateLimiter_def)
  have f: "f64 2 = 2" "f64 1 = 1" "f64 0 = 0" using f64.of_int [of 2] f64.of_int [of 1] f64.of_int [of 0] by simp_all
  show ?thesis
    by (simp add: rate_Middleware_def clock_world_def assms Allow_def refilled_def time_Sub_def l f error_response_def Let_def)
qed

lemma guess_client: "extractClientIP server_limiter (guess n) = extractRemoteHost ''10.0.0.1:5000''"
  by (simp add: guess_def extractClientIP_def isTrustedProxy_def server_limiter_ok Let_def)

theorem retry_after_admits_witness:
  "\<exists>k es w'. 1 \<le> k \<and> rate_Middleware server_limiter clock_world serve None (guess 1) (k * Second, es) = serve None (guess 1) w'"
proof -
  let ?ip = "extractClientIP server_limiter (guess 0)" and ?rl = server_limiter
  let ?evs = "[(0, Request ?ip), (0, Request ?ip)]"
  let ?w = "(0 :: int, snd (rate_run ?rl ?evs Map.empty))"
  obtain resp w1 where r: "rate_Middleware ?rl clock_world serve None (guess 0) ?w = (resp, w1)" by (meson surj_pair)
  have st: "Resp_Status resp = 429" using third_request_rejected [OF refl] r by simp
  have "\<exists>k. Resp_Header resp ''Retry-After'' = Some (show_int k) \<and> 1 \<le> k \<and>
    (\<forall>between ctx2 r2 w2. (\<forall>ev \<in> set between. snd ev \<noteq> Request ?ip) \<and>
       rw_entries clock_world w2 = snd (rate_run ?rl between (rw_entries clock_world w1)) \<and>
       extractClientIP ?rl r2 = ?ip \<and> rw_now clock_world ?w + k * Second \<le> rw_now clock_world w2 \<longrightarrow>
       (\<exists>es. rate_Middleware ?rl clock_world serve ctx2 r2 w2 = serve ctx2 r2 (rw_set clock_world es w2)))"
    by (rule retry_after_admits [OF server_limiter_ok(1) _ _ _ _ _ r st, where evs = ?evs])
      (simp_all add: clock_world_def serve_def body_response_def)
  then obtain k where k: "1 \<le> k" and later: "\<And>between ctx2 r2 w2. \<lbrakk>\<forall>ev \<in> set between. snd ev \<noteq> Request ?ip;
      rw_entries clock_world w2 = snd (rate_run ?rl between (rw_entries clock_world w1)); extractClientIP ?rl r2 = ?ip;
      rw_now clock_world ?w + k * Second \<le> rw_now clock_world w2\<rbrakk> \<Longrightarrow>
      \<exists>es. rate_Middleware ?rl clock_world serve ctx2 r2 w2 = serve ctx2 r2 (rw_set clock_world es w2)" by blast
  have "\<exists>es. rate_Middleware ?rl clock_world serve None (guess 1) (k * Second, snd w1) =
      serve None (guess 1) (rw_set clock_world es (k * Second, snd w1))"
    by (rule later [of "[]"]) (simp_all only: guess_client, simp_all add: clock_world_def)
  with k show ?thesis by blast
qed

end
