(* ===== verification/ApiRoutes.thy ===== *)
theory ApiRoutes
  imports AuthTheorems RateLimit Kube
begin

text \<open>
  The routes of the REST server, after \<^verbatim>\<open>internal/api/server.go\<close>: the route tables as they are
  registered, each entry with the wrapping of its handler (rate limit, authentication or guest
  access, required permission), and the dispatch of a request. Handlers are an argument, named by
  their method of \<^verbatim>\<open>Server\<close>.
\<close>

section \<open>Model\<close>

datatype route_access = Open | With_Auth PermissionLevel | With_Guest PermissionLevel

type_synonym route = "string \<times> string \<times> route_access \<times> string"

definition apiPrefix :: string where
  "apiPrefix = ''/api/v1alpha1''"

definition api :: "string \<Rightarrow> string" where
  "api path = apiPrefix @ path"

subsection \<open>Route tables\<close>

definition registerDataLoadingRoutes :: "route list" where
  "registerDataLoadingRoutes =
     [(''GET'', api ''/clusters/{name}/data-loading/jobs'', With_Auth PermissionBasic, ''handleListDataLoadingJobs''),
      (''POST'', api ''/clusters/{name}/data-loading/jobs'', With_Auth PermissionOperator, ''handleCreateDataLoadingJob''),
      (''GET'', api ''/clusters/{name}/data-loading/jobs/{job}'', With_Auth PermissionBasic, ''handleGetDataLoadingJob''),
      (''PUT'', api ''/clusters/{name}/data-loading/jobs/{job}'', With_Auth PermissionOperator, ''handleUpdateDataLoadingJob''),
      (''DELETE'', api ''/clusters/{name}/data-loading/jobs/{job}'', With_Auth PermissionAdmin, ''handleDeleteDataLoadingJob''),
      (''POST'', api ''/clusters/{name}/data-loading/jobs/{job}/start'', With_Auth PermissionOperator, ''handleStartDataLoadingJob''),
      (''POST'', api ''/clusters/{name}/data-loading/jobs/{job}/stop'', With_Auth PermissionOperator, ''handleStopDataLoadingJob''),
      (''GET'', api ''/clusters/{name}/data-loading/jobs/{job}/logs'', With_Auth PermissionBasic, ''handleDataLoadingJobLogs''),
      (''GET'', api ''/clusters/{name}/data-loading/external-tables'', With_Auth PermissionBasic, ''handleListExternalTables''),
      (''GET'', api ''/clusters/{name}/data-loading/test-read'', With_Auth PermissionBasic, ''handleTestReadPXFSource''),
      (''GET'', api ''/clusters/{name}/data-loading/pxf/status'', With_Auth PermissionBasic, ''handlePXFStatus''),
      (''POST'', api ''/clusters/{name}/data-loading/pxf/restart'', With_Auth PermissionOperator, ''handlePXFRestart''),
      (''POST'', api ''/clusters/{name}/data-loading/pxf/sync'', With_Auth PermissionOperator, ''handlePXFSync''),
      (''GET'', api ''/clusters/{name}/data-loading/pxf/servers'', With_Auth PermissionBasic, ''handleListPXFServers''),
      (''GET'', api ''/clusters/{name}/data-loading/pxf/servers/{server}'', With_Auth PermissionBasic, ''handleGetPXFServer''),
      (''POST'', api ''/clusters/{name}/data-loading/pxf/servers'', With_Auth PermissionOperator, ''handleCreatePXFServer''),
      (''PUT'', api ''/clusters/{name}/data-loading/pxf/servers/{server}'', With_Auth PermissionOperator, ''handleUpdatePXFServer''),
      (''DELETE'', api ''/clusters/{name}/data-loading/pxf/servers/{server}'', With_Auth PermissionAdmin, ''handleDeletePXFServer'')]"

definition registerWorkloadRoutes :: "route list" where
  "registerWorkloadRoutes =
     [(''GET'', api ''/clusters/{name}/workload'', With_Auth PermissionBasic, ''handleGetWorkload''),
      (''GET'', api ''/clusters/{name}/workload/resource-groups'', With_Auth PermissionBasic, ''handleListResourceGroups''),
      (''GET'', api ''/clusters/{name}/workload/rules'', With_Auth PermissionBasic, ''handleListWorkloadRules''),
      (''POST'', api ''/clusters/{name}/workload/resource-groups'', With_Auth PermissionOperator, ''handleCreateResourceGroup''),
      (''PUT'', api ''/clusters/{name}/workload/resource-groups/{groupName}'', With_Auth PermissionOperator, ''handleUpdateResourceGroup''),
      (''DELETE'', api ''/clusters/{name}/workload/resource-groups/{groupName}'', With_Auth PermissionAdmin, ''handleDeleteResourceGroup''),
      (''POST'', api ''/clusters/{name}/workload/resource-groups/{groupName}/assign'', With_Auth PermissionOperator, ''handleAssignResourceGroup''),
      (''POST'', api ''/clusters/{name}/workload/rules'', With_Auth PermissionOperator, ''handleCreateWorkloadRule''),
      (''PUT'', api ''/clusters/{name}/workload/rules/{ruleName}'', With_Auth PermissionOperator, ''handleUpdateWorkloadRule''),
      (''DELETE'', api ''/clusters/{name}/workload/rules/{ruleName}'', With_Auth PermissionOperator, ''handleDeleteWorkloadRule''),
      (''GET'', api ''/clusters/{name}/workload/resource-queues'', With_Auth PermissionBasic, ''handleListResourceQueues''),
      (''POST'', api ''/clusters/{name}/workload/resource-queues'', With_Auth PermissionOperator, ''handleCreateResourceQueue''),
      (''DELETE'', api ''/clusters/{name}/workload/resource-queues/{queueName}'', With_Auth PermissionOperator, ''handleDeleteResourceQueue'')]"

definition registerQueryRoutes :: "route list" where
  "registerQueryRoutes =
     [(''GET'', api ''/clusters/{name}/queries'', With_Guest PermissionOperatorBasic, ''handleGetQueryMonitoring''),
      (''GET'', api ''/clusters/{name}/queries/active'', With_Guest PermissionBasic, ''handleGetActiveQueries''),
      (''POST'', api ''/clusters/{name}/queries/monitor/pause'', With_Auth PermissionOperator, ''handlePauseMonitor''),
      (''POST'', api ''/clusters/{name}/queries/monitor/resume'', With_Auth PermissionOperator, ''handleResumeMonitor''),
      (''GET'', api ''/clusters/{name}/queries/monitor/state'', With_Auth PermissionBasic, ''handleGetMonitorState''),
      (''GET'', api ''/clusters/{name}/queries/history'', With_Auth PermissionOperatorBasic, ''handleGetQueryHistory''),
      (''GET'', api ''/clusters/{name}/queries/history/{qid}'', With_Auth PermissionOperatorBasic, ''handleGetQueryHistoryDetail''),
      (''POST'', api ''/clusters/{name}/queries/history/export'', With_Auth PermissionOperatorBasic, ''handleExportQueryHistory''),
      (''POST'', api ''/clusters/{name}/queries/export'', With_Auth PermissionOperatorBasic, ''handleExportActiveQueries''),
      (''POST'', api ''/clusters/{name}/queries/plan-check'', With_Auth PermissionBasic, ''handlePlanCheck''),
      (''POST'', api ''/clusters/{name}/queries/{pid}/cancel'', With_Auth PermissionOperator, ''handleCancelQueryByPID''),
      (''POST'', api ''/clusters/{name}/queries/{pid}/move'', With_Auth PermissionOperator, ''handleMoveQuery''),
      (''GET'', api ''/clusters/{name}/queries/{pid}'', With_Auth PermissionOperatorBasic, ''handleGetQueryDetail'')]"

definition registerRoutes :: "route list" where
  "registerRoutes =
     [(''GET'', ''/healthz'', Open, ''handleHealthz''),
      (''GET'', ''/readyz'', Open, ''handleReadyz''),
      (''POST'', api ''/auth/rotate-password'', With_Auth PermissionAdmin, ''handleRotatePassword''),
      (''GET'', api ''/clusters'', With_Auth PermissionBasic, ''handleListClusters''),
      (''GET'', api ''/clusters/{name}'', With_Auth PermissionBasic, ''handleGetCluster''),
      (''GET'', api ''/clusters/{name}/status'', With_Auth PermissionBasic, ''handleGetClusterStatus''),
      (''POST'', api ''/clusters'', With_Auth PermissionAdmin, ''handleCreateCluster''),
      (''DELETE'', api ''/clusters/{name}'', With_Auth PermissionAdmin, ''handleDeleteCluster''),
      (''GET'', api ''/clusters/{name}/scale/status'', With_Auth PermissionBasic, ''handleGetScaleStatus''),
      (''POST'', api ''/clusters/{name}/start'', With_Auth PermissionOperator, ''handleStartCluster''),
      (''POST'', api ''/clusters/{name}/stop'', With_Auth PermissionOperator, ''handleStopCluster''),
      (''POST'', api ''/clusters/{name}/restart'', With_Auth PermissionOperator, ''handleRestartCluster''),
      (''POST'', api ''/clusters/{name}/reload'', With_Auth PermissionOperator, ''handleReloadConfig''),
      (''GET'', api ''/clusters/{name}/config'', With_Auth PermissionOperatorBasic, ''handleGetConfig''),
      (''PUT'', api ''/clusters/{name}/config'', With_Auth PermissionOperator, ''handleUpdateConfig''),
      (''GET'', api ''/clusters/{name}/segments'', With_Auth PermissionBasic, ''handleListSegments''),
      (''GET'', api ''/clusters/{name}/mirroring'', With_Auth PermissionBasic, ''handleGetMirroring''),
      (''GET'', api ''/clusters/{name}/sessions'', With_Auth PermissionOperatorBasic, ''handleListSessions''),
      (''POST'', api ''/clusters/{name}/sessions/{pid}/cancel'', With_Auth PermissionOperator, ''handleCancelQuery''),
      (''DELETE'', api ''/clusters/{name}/sessions/{pid}'', With_Auth PermissionOperator, ''handleTerminateSession''),
      (''POST'', api ''/clusters/{name}/maintenance/vacuum'', With_Auth PermissionOperator, ''handleVacuum''),
      (''POST'', api ''/clusters/{name}/maintenance/analyze'', With_Auth PermissionOperator, ''handleAnalyze''),
      (''POST'', api ''/clusters/{name}/maintenance/reindex'', With_Auth PermissionOperator, ''handleReindex''),
      (''GET'', api ''/clusters/{name}/standby'', With_Auth PermissionBasic, ''handleGetStandby''),
      (''POST'', api ''/clusters/{name}/standby/activate'', With_Auth PermissionAdmin, ''handleActivateStandby''),
      (''POST'', api ''/clusters/{name}/recovery'', With_Auth PermissionOperator, ''handleStartRecovery''),
      (''POST'', api ''/clusters/{name}/rebalance'', With_Auth PermissionOperator, ''handleRebalance''),
      (''GET'', api ''/clusters/{name}/rebalance/status'', With_Auth PermissionBasic, ''handleGetRebalanceStatus'')] @
     registerWorkloadRoutes @
     registerQueryRoutes @
     [(''GET'', api ''/clusters/{name}/metrics/exporters'', With_Guest PermissionBasic, ''handleGetExporterHealth''),
      (''GET'', api ''/clusters/{name}/backups'', With_Auth PermissionBasic, ''handleListBackups''),
      (''POST'', api ''/clusters/{name}/backups'', With_Auth PermissionOperator, ''handleCreateBackup''),
      (''GET'', api ''/clusters/{name}/backups/jobs'', With_Auth PermissionBasic, ''handleListBackupJobs''),
      (''GET'', api ''/clusters/{name}/backups/jobs/{job}/logs'', With_Auth PermissionBasic, ''handleBackupJobLogs''),
      (''GET'', api ''/clusters/{name}/backups/schedule'', With_Auth PermissionBasic, ''handleGetBackupSchedule''),
      (''PATCH'', api ''/clusters/{name}/backups/schedule'', With_Auth PermissionOperator, ''handleUpdateBackupSchedule''),
      (''GET'', api ''/clusters/{name}/backups/{timestamp}'', With_Auth PermissionBasic, ''handleGetBackup''),
      (''DELETE'', api ''/clusters/{name}/backups/{timestamp}'', With_Auth PermissionAdmin, ''handleDeleteBackup''),
      (''POST'', api ''/clusters/{name}/backups/{timestamp}/restore'', With_Auth PermissionAdmin, ''handleRestoreBackup''),
      (''POST'', api ''/clusters/{name}/migrate'', With_Auth PermissionAdmin, ''handleMigrate''),
      (''GET'', api ''/clusters/{name}/storage/pvcs'', With_Auth PermissionBasic, ''handleListPVCs''),
      (''GET'', api ''/clusters/{name}/storage/disk-usage'', With_Auth PermissionBasic, ''handleGetDiskUsage''),
      (''GET'', api ''/clusters/{name}/storage/tables'', With_Auth PermissionBasic, ''handleListTables''),
      (''GET'', api ''/clusters/{name}/storage/tables/{schema}/{table}'', With_Auth PermissionBasic, ''handleGetTableDetail''),
      (''GET'', api ''/clusters/{name}/storage/recommendations'', With_Auth PermissionBasic, ''handleListRecommendations''),
      (''POST'', api ''/clusters/{name}/storage/recommendations/scan'', With_Auth PermissionOperator, ''handleTriggerRecommendationScan''),
      (''GET'', api ''/clusters/{name}/storage/usage-report'', With_Auth PermissionBasic, ''handleGetUsageReport'')] @
     registerDataLoadingRoutes"

subsection \<open>Server\<close>

text \<open>
  A server: its authentication, which may be nil, its rate limiter, and the Kubernetes client with
  the list of all clusters.
\<close>

record 'w Server =
  as_authMW :: "'w AuthMiddleware option"
  as_rateLimiter :: RateLimiter
  as_rate :: "'w rate_world"
  as_kube :: "'w kube_client"
  as_list :: "'w \<Rightarrow> (api_error + CloudberryCluster list) \<times> 'w"

definition withAuth :: "'w Server \<Rightarrow> (Identity, 'b, 'w) middleware" where
  "withAuth s h = (case as_authMW s of None \<Rightarrow> h | Some m \<Rightarrow> rate_Middleware (as_rateLimiter s) (as_rate s) (auth_Handler m h))"

definition withPermission :: "PermissionLevel \<Rightarrow> (Identity, 'b, 'w) middleware" where
  "withPermission level fn = RequirePermission level fn"

definition guest_access :: "CloudberryCluster \<Rightarrow> bool" where
  "guest_access c = (case Spec_QueryMonitoring (CC_Spec c) of None \<Rightarrow> False | Some q \<Rightarrow> QM_GuestAccess q)"

definition isGuestAccessEnabled :: "'w Server \<Rightarrow> request \<Rightarrow> 'w \<Rightarrow> bool \<times> 'w" where
  "isGuestAccessEnabled s r w =
     (let clusterName = PathValue r ''name''; namespace = Req_Query r ''namespace'' in
      if clusterName = [] then (False, w)
      else if namespace = [] then
        (case as_list s w of
           (Inl _, w1) \<Rightarrow> (False, w1)
         | (Inr items, w1) \<Rightarrow>
             (case find (\<lambda>c. CC_Name c = clusterName) items of None \<Rightarrow> (False, w1) | Some c \<Rightarrow> (guest_access c, w1)))
      else (case k_get_cluster (as_kube s) namespace clusterName w of
              (Inl _, w1) \<Rightarrow> (False, w1)
            | (Inr cluster, w1) \<Rightarrow> (guest_access cluster, w1)))"

definition withGuestAuth :: "'w Server \<Rightarrow> (Identity, 'b, 'w) middleware" where
  "withGuestAuth s h =
     (case as_authMW s of None \<Rightarrow> h
      | Some m \<Rightarrow> rate_Middleware (as_rateLimiter s) (as_rate s) (GuestHandler m (isGuestAccessEnabled s) h))"

definition wrapped :: "'w Server \<Rightarrow> route_access \<Rightarrow> (Identity, 'b, 'w) middleware" where
  "wrapped s access h =
     (case access of Open \<Rightarrow> h | With_Auth level \<Rightarrow> withAuth s (withPermission level h)
      | With_Guest level \<Rightarrow> withGuestAuth s (withPermission level h))"

subsection \<open>Dispatch\<close>

text \<open>
  \<^verbatim>\<open>ServeMux\<close>: the routes of the method, for HEAD also those of GET; a path with empty, dot or dot-dot
  segments is redirected to its clean form; without a match the answer depends on whether another
  method has the path.
\<close>

definition routes_of :: "route list \<Rightarrow> string \<Rightarrow> (pattern_seg list \<times> route) list" where
  "routes_of rs method = map (\<lambda>r. (parse_pattern (fst (snd r)), r)) (filter (\<lambda>r. fst r = method) rs)"

definition mux_match :: "route list \<Rightarrow> string \<Rightarrow> string list \<Rightarrow> (route \<times> string list) option" where
  "mux_match rs method path =
     (case match_path (routes_of rs method) path of
        Some m \<Rightarrow> Some m
      | None \<Rightarrow> if method = ''HEAD'' then match_path (routes_of rs ''GET'') path else None)"

definition clean_path :: "string list \<Rightarrow> bool" where
  "clean_path path \<longleftrightarrow> list_all (\<lambda>s. s \<noteq> [] \<and> s \<noteq> ''.'' \<and> s \<noteq> ''..'') (butlast path) \<and> (path \<noteq> [] \<longrightarrow> last path \<noteq> ''.'' \<and> last path \<noteq> ''..'')"

definition matching_methods :: "route list \<Rightarrow> string list \<Rightarrow> string list" where
  "matching_methods rs path = filter (\<lambda>m. match_path (routes_of rs m) path \<noteq> None) (remdups (map fst rs))"

definition mux_ServeHTTP :: "'w Server \<Rightarrow> (string \<Rightarrow> (Identity, 'b, 'w) http_handler) \<Rightarrow> (Identity, 'b, 'w) http_handler" where
  "mux_ServeHTTP s fn ctx r w =
     (if \<not> clean_path (Req_Path r) then (\<lparr>Resp_Status = 301, Resp_Header = Map.empty, Resp_Body = No_Body\<rparr>, w)
      else case mux_match registerRoutes (Req_Method r) (Req_Path r) of
        Some ((_, pattern, access, name), vals) \<Rightarrow>
          wrapped s access (fn name) ctx (r\<lparr>Req_PathValues := zip (wild_names (parse_pattern pattern)) vals\<rparr>) w
      | None \<Rightarrow>
          if matching_methods registerRoutes (Req_Path r) \<noteq> []
          then (\<lparr>Resp_Status = StatusMethodNotAllowed, Resp_Header = [''Allow'' \<mapsto> Join (matching_methods registerRoutes (Req_Path r)) '', ''], Resp_Body = No_Body\<rparr>, w)
          else (\<lparr>Resp_Status = StatusNotFound, Resp_Header = Map.empty, Resp_Body = No_Body\<rparr>, w))"

definition server_Handler :: "'w Server \<Rightarrow> (string \<Rightarrow> (Identity, 'b, 'w) http_handler) \<Rightarrow> request \<Rightarrow> 'w \<Rightarrow> 'b response \<times> 'w" where
  "server_Handler s fn r w = SecurityHeaders (mux_ServeHTTP s fn) None r w"

section \<open>Access\<close>

lemma mux_match_route:
  assumes "mux_match rs mth path = Some (route, vals)"
  shows "route \<in> set rs \<and> (fst route = mth \<or> mth = ''HEAD'' \<and> fst route = ''GET'')"
proof -
  have "route \<in> set rs \<and> fst route = m" if "match_path (routes_of rs m) path = Some (route, vals)" for m
    using match_path_sound [OF that] by (auto simp: routes_of_def)
  then show ?thesis using assms by (auto simp: mux_match_def split: option.splits if_splits)
qed

text \<open>What a wrapped handler can do: run with an identity of the required level, or not run at all.\<close>

lemma auth_runs:
  assumes "auth_Handler m h ctx r w = res"
  shows "(\<exists>p i w1. resolveProvider m r = Inr p \<and> p r w = (Inr i, w1) \<and> res = h (Some i) r w1) \<or> (\<forall>h'. auth_Handler m h' ctx r w = res)"
  using assms by (auto simp: auth_Handler_def split: sum.splits prod.splits)

lemma permission_runs:
  assumes "RequirePermission level h (Some i) r w = res"
  shows "level \<le> Id_Permission i \<and> res = h (Some i) r w \<or> (\<forall>h'. RequirePermission level h' (Some i) r w = res)"
  using assms by (auto simp: RequirePermission_def)

text \<open>The identity \<open>i\<close> was established from the request: by a provider, or as the guest.\<close>

definition established :: "'w AuthMiddleware \<Rightarrow> request \<Rightarrow> Identity \<Rightarrow> bool" where
  "established m r i \<longleftrightarrow> (\<exists>p w w'. resolveProvider m r = Inr p \<and> p r w = (Inr i, w'))"

lemma auth_permission_runs:
  assumes "auth_Handler m (RequirePermission level h) ctx r w = res"
  shows "(\<exists>i w1. established m r i \<and> level \<le> Id_Permission i \<and> res = h (Some i) r w1) \<or>
    (\<forall>h'. auth_Handler m (RequirePermission level h') ctx r w = res)"
proof (cases "\<exists>p i w1. resolveProvider m r = Inr p \<and> p r w = (Inr i, w1)")
  case True
  then obtain p i w1 where p: "resolveProvider m r = Inr p" "p r w = (Inr i, w1)" by blast
  then have "established m r i" by (auto simp: established_def)
  then show ?thesis using permission_runs [of level h i r w1] assms p by (auto simp: auth_Handler_def)
next
  case False
  then have "auth_Handler m h1 ctx r w = auth_Handler m h2 ctx r w" for h1 h2 by (auto simp: auth_Handler_def split: sum.splits prod.splits)
  then show ?thesis using assms by metis
qed

lemma withAuth_runs:
  assumes "as_authMW s = Some m" "withAuth s (withPermission level h) ctx r w = res"
  shows "(\<exists>i w1. established m r i \<and> level \<le> Id_Permission i \<and> res = h (Some i) r w1) \<or> (\<forall>h'. withAuth s (withPermission level h') ctx r w = res)"
proof (cases "Allow (as_rateLimiter s) (rw_now (as_rate s) w) (extractClientIP (as_rateLimiter s) r) (rw_entries (as_rate s) w)")
  case (Pair b es)
  show ?thesis
  proof (cases b)
    case True
    have eq: "withAuth s (withPermission level k) ctx r w = auth_Handler m (RequirePermission level k) ctx r (rw_set (as_rate s) es w)" for k
      by (simp add: withAuth_def withPermission_def rate_Middleware_def assms(1) Pair True)
    from auth_permission_runs [OF assms(2) [unfolded eq]] show ?thesis unfolding eq .
  qed (use assms Pair in \<open>auto simp: withAuth_def rate_Middleware_def\<close>)
qed

text \<open>Guests: no header, a reading method, the permission Basic, and access enabled for the cluster.\<close>

definition guest_allowed :: "'w Server \<Rightarrow> request \<Rightarrow> bool" where
  "guest_allowed s r \<longleftrightarrow> Req_Header r ''Authorization'' = [] \<and> Req_Method r \<in> {''GET'', ''HEAD'', ''OPTIONS''} \<and> (\<exists>w w'. isGuestAccessEnabled s r w = (True, w'))"

lemma withGuestAuth_runs:
  assumes "as_authMW s = Some m" "withGuestAuth s (withPermission level h) ctx r w = res"
  shows "(\<exists>i w1. (established m r i \<or> i = guestIdentity \<and> guest_allowed s r) \<and> level \<le> Id_Permission i \<and> res = h (Some i) r w1) \<or>
    (\<forall>h'. withGuestAuth s (withPermission level h') ctx r w = res)"
proof (cases "Allow (as_rateLimiter s) (rw_now (as_rate s) w) (extractClientIP (as_rateLimiter s) r) (rw_entries (as_rate s) w)")
  case (Pair b es)
  show ?thesis
  proof (cases b)
    case True
    let ?w = "rw_set (as_rate s) es w"
    have eq: "withGuestAuth s (withPermission level k) ctx r w = GuestHandler m (isGuestAccessEnabled s) (RequirePermission level k) ctx r ?w" for k
      by (simp add: withGuestAuth_def withPermission_def rate_Middleware_def assms(1) Pair True)
    show ?thesis
    proof (cases "Req_Header r ''Authorization'' = []")
      case False
      then have eq': "withGuestAuth s (withPermission level k) ctx r w = auth_Handler m (RequirePermission level k) ctx r ?w" for k
        by (simp add: eq GuestHandler_def)
      from auth_permission_runs [OF assms(2) [unfolded eq']] show ?thesis unfolding eq' by blast
    next
      case header: True
      obtain enabled w1 where g: "isGuestAccessEnabled s r ?w = (enabled, w1)" by (cases "isGuestAccessEnabled s r ?w")
      show ?thesis
      proof (cases "enabled \<and> Req_Method r \<in> {''GET'', ''HEAD'', ''OPTIONS''}")
        case run: True
        then have eq': "withGuestAuth s (withPermission level k) ctx r w = RequirePermission level k (Some guestIdentity) r w1" for k
          using header g by (auto simp: eq GuestHandler_def)
        have "guest_allowed s r" using run header g by (auto simp: guest_allowed_def)
        with permission_runs [OF assms(2) [unfolded eq']] show ?thesis unfolding eq' by blast
      next
        case False
        then have "withGuestAuth s (withPermission level k) ctx r w = withGuestAuth s (withPermission level h) ctx r w" for k
          unfolding eq using header g by (auto simp: GuestHandler_def)
        then show ?thesis using assms(2) by blast
      qed
    qed
  qed (use assms Pair in \<open>auto simp: withGuestAuth_def rate_Middleware_def\<close>)
qed


text \<open>A dispatch runs the handler of the matching route, wrapped, or none.\<close>

lemma mux_cases:
  fixes fn :: "string \<Rightarrow> (Identity, 'b, 'w) http_handler"
  shows "(\<exists>mth pat access name vs. (mth, pat, access, name) \<in> set registerRoutes \<and>
      (mth = Req_Method r \<or> Req_Method r = ''HEAD'' \<and> mth = ''GET'') \<and>
      (\<forall>fn' :: string \<Rightarrow> (Identity, 'b, 'w) http_handler. mux_ServeHTTP s fn' ctx r w = wrapped s access (fn' name) ctx (r\<lparr>Req_PathValues := vs\<rparr>) w)) \<or>
   (\<forall>fn'. mux_ServeHTTP s fn' ctx r w = mux_ServeHTTP s fn ctx r w)"
proof (cases "clean_path (Req_Path r) \<and> mux_match registerRoutes (Req_Method r) (Req_Path r) \<noteq> None")
  case True
  then obtain mth pat access name vals where m: "mux_match registerRoutes (Req_Method r) (Req_Path r) = Some ((mth, pat, access, name), vals)" by auto
  have "mux_ServeHTTP s fn' ctx r w = wrapped s access (fn' name) ctx (r\<lparr>Req_PathValues := zip (wild_names (parse_pattern pat)) vals\<rparr>) w" for fn'
    using True m by (simp add: mux_ServeHTTP_def)
  moreover have "(mth, pat, access, name) \<in> set registerRoutes \<and> (mth = Req_Method r \<or> Req_Method r = ''HEAD'' \<and> mth = ''GET'')"
    using mux_match_route [OF m] by simp
  ultimately show ?thesis by blast
next
  case False
  then have "mux_ServeHTTP s fn' ctx r w = mux_ServeHTTP s fn ctx r w" for fn'
    unfolding mux_ServeHTTP_def by (cases "mux_match registerRoutes (Req_Method r) (Req_Path r)"; cases "clean_path (Req_Path r)"; simp)
  then show ?thesis by blast
qed

section \<open>Route tables\<close>

definition mutating :: "string \<Rightarrow> bool" where
  "mutating mth \<longleftrightarrow> mth \<in> {''POST'', ''PUT'', ''PATCH'', ''DELETE''}"

text \<open>The three POST routes that only read.\<close>

definition reading_posts :: "string list" where
  "reading_posts = [''handlePlanCheck'', ''handleExportQueryHistory'', ''handleExportActiveQueries'']"

definition route_ok :: "route \<Rightarrow> bool" where
  "route_ok r = (case r of (mth, _, access, name) \<Rightarrow>
     (case access of
        Open \<Rightarrow> mth = ''GET'' \<and> name \<in> {''handleHealthz'', ''handleReadyz''}
      | With_Auth level \<Rightarrow> PermissionBasic \<le> level \<and>
          (mutating mth \<longrightarrow> PermissionOperator \<le> level \<or> name \<in> set reading_posts) \<and>
          (mth = ''DELETE'' \<longrightarrow> level = PermissionAdmin \<or> name \<in> {''handleTerminateSession'', ''handleDeleteWorkloadRule'', ''handleDeleteResourceQueue''})
      | With_Guest level \<Rightarrow> mth = ''GET'' \<and> (PermissionBasic < level \<or> name \<in> {''handleGetActiveQueries'', ''handleGetExporterHealth''})))"

lemma routes_ok: "route \<in> set registerRoutes \<Longrightarrow> route_ok route"
proof -
  have "list_all route_ok registerRoutes" by code_simp
  then show "route \<in> set registerRoutes \<Longrightarrow> route_ok route" by (simp add: list_all_iff)
qed

section \<open>Properties\<close>

text \<open>
  C5. Nobody changes anything without the permission of an operator: when a POST, PUT, PATCH or DELETE
  request makes a handler run, the request was authenticated and the identity has at least the level
  Operator, or the handler is one of the three that read and the level is at least Basic; in every
  other case no handler runs at all, so the answer does not depend on what the handlers do.
\<close>

theorem mutations_need_operator:
  fixes fn :: "string \<Rightarrow> (Identity, 'b, 'w) http_handler"
  assumes "as_authMW s = Some m" "mutating (Req_Method r)"
  shows "(\<exists>name i vs w1. let r1 = r\<lparr>Req_PathValues := vs\<rparr> in established m r1 i \<and> PermissionBasic \<le> Id_Permission i \<and>
      (PermissionOperator \<le> Id_Permission i \<or> name \<in> set reading_posts) \<and> mux_ServeHTTP s fn ctx r w = fn name (Some i) r1 w1) \<or>
    (\<forall>fn'. mux_ServeHTTP s fn' ctx r w = mux_ServeHTTP s fn ctx r w)"
proof -
  consider mth pat access name vs where "(mth, pat, access, name) \<in> set registerRoutes"
      "mth = Req_Method r \<or> Req_Method r = ''HEAD'' \<and> mth = ''GET''"
      "\<forall>fn' :: string \<Rightarrow> (Identity, 'b, 'w) http_handler. mux_ServeHTTP s fn' ctx r w = wrapped s access (fn' name) ctx (r\<lparr>Req_PathValues := vs\<rparr>) w"
    | "\<forall>fn'. mux_ServeHTTP s fn' ctx r w = mux_ServeHTTP s fn ctx r w"
    using mux_cases [of r s ctx w fn] by blast
  then show ?thesis
  proof cases
    case (1 mth pat access name vs)
    define r1 where "r1 = r\<lparr>Req_PathValues := vs\<rparr>"
    have "mth = Req_Method r" using 1(2) assms(2) by (auto simp: mutating_def)
    then obtain level where a: "access = With_Auth level" "PermissionBasic \<le> level" "PermissionOperator \<le> level \<or> name \<in> set reading_posts"
      using routes_ok [OF 1(1)] assms(2) by (auto simp: route_ok_def mutating_def split: route_access.splits)
    have eq: "mux_ServeHTTP s fn' ctx r w = withAuth s (withPermission level (fn' name)) ctx r1 w" for fn' :: "string \<Rightarrow> (Identity, 'b, 'w) http_handler"
      by (simp add: 1(3) wrapped_def a(1) r1_def)
    from withAuth_runs [where level = level and h = "fn name" and ctx = ctx and r = r1 and w = w, OF assms(1) refl] show ?thesis
    proof (elim disjE exE conjE)
      fix i w1
      assume "established m r1 i" "level \<le> Id_Permission i" "withAuth s (withPermission level (fn name)) ctx r1 w = fn name (Some i) r1 w1"
      then show ?thesis using a(2,3) unfolding eq Let_def r1_def by (intro disjI1 exI [of _ name] exI [of _ i] exI [of _ vs] exI [of _ w1]) auto
    qed (simp add: eq)
  qed simp
qed

text \<open>
  C15. Without credentials only four handlers can be reached, and only for reading: when a request
  without Authorization header makes a handler run, its method is GET or HEAD, and the handler is one
  of the two health probes, or it runs as the guest with the level Basic, is one of the two monitoring
  handlers open to guests, and the cluster the path names grants guest access.
\<close>

theorem guests_only_read:
  fixes fn :: "string \<Rightarrow> (Identity, 'b, 'w) http_handler"
  assumes "as_authMW s = Some m" "Req_Header r ''Authorization'' = []"
  shows "(\<exists>name vs i w1. let r1 = r\<lparr>Req_PathValues := vs\<rparr> in Req_Method r \<in> {''GET'', ''HEAD''} \<and> mux_ServeHTTP s fn ctx r w = fn name i r1 w1 \<and>
      (name \<in> {''handleHealthz'', ''handleReadyz''} \<or>
       name \<in> {''handleGetActiveQueries'', ''handleGetExporterHealth''} \<and> i = Some guestIdentity \<and> (\<exists>v v'. isGuestAccessEnabled s r1 v = (True, v')))) \<or>
    (\<forall>fn'. mux_ServeHTTP s fn' ctx r w = mux_ServeHTTP s fn ctx r w)"
proof -
  consider mth pat access name vs where "(mth, pat, access, name) \<in> set registerRoutes"
      "mth = Req_Method r \<or> Req_Method r = ''HEAD'' \<and> mth = ''GET''"
      "\<forall>fn' :: string \<Rightarrow> (Identity, 'b, 'w) http_handler. mux_ServeHTTP s fn' ctx r w = wrapped s access (fn' name) ctx (r\<lparr>Req_PathValues := vs\<rparr>) w"
    | "\<forall>fn'. mux_ServeHTTP s fn' ctx r w = mux_ServeHTTP s fn ctx r w"
    using mux_cases [of r s ctx w fn] by blast
  then show ?thesis
  proof cases
    case (1 mth pat access name vs)
    define r1 where "r1 = r\<lparr>Req_PathValues := vs\<rparr>"
    have header: "Req_Header r1 ''Authorization'' = []" using assms(2) by (simp add: r1_def)
    have none: "\<not> established m r1 i" for i using header by (auto simp: established_def resolveProvider_def)
    have eq: "mux_ServeHTTP s fn' ctx r w = wrapped s access (fn' name) ctx r1 w" for fn' :: "string \<Rightarrow> (Identity, 'b, 'w) http_handler" by (simp add: 1(3) r1_def)
    note ok = routes_ok [OF 1(1)]
    show ?thesis
    proof (cases access)
      case Open
      then have "Req_Method r \<in> {''GET'', ''HEAD''}" "name \<in> {''handleHealthz'', ''handleReadyz''}" using ok 1(2) by (auto simp: route_ok_def)
      moreover have "mux_ServeHTTP s fn ctx r w = fn name ctx r1 w" using eq Open by (simp add: wrapped_def)
      ultimately show ?thesis unfolding Let_def r1_def by blast
    next
      case (With_Auth level)
      then show ?thesis using withAuth_runs [where level = level and h = "fn name" and ctx = ctx and r = r1 and w = w, OF assms(1) refl] none unfolding eq by (simp add: wrapped_def)
    next
      case (With_Guest level)
      then have meth: "Req_Method r \<in> {''GET'', ''HEAD''}" "PermissionBasic < level \<or> name \<in> {''handleGetActiveQueries'', ''handleGetExporterHealth''}"
        using ok 1(2) by (auto simp: route_ok_def)
      from withGuestAuth_runs [where level = level and h = "fn name" and ctx = ctx and r = r1 and w = w, OF assms(1) refl] show ?thesis
      proof (elim disjE exE conjE)
        fix i w1
        assume "i = guestIdentity" "guest_allowed s r1" "level \<le> Id_Permission i" "withGuestAuth s (withPermission level (fn name)) ctx r1 w = fn name (Some i) r1 w1"
        moreover then have "name \<in> {''handleGetActiveQueries'', ''handleGetExporterHealth''}" using meth(2) by (auto simp: guestIdentity_def)
        ultimately show ?thesis using meth(1) unfolding eq Let_def r1_def With_Guest wrapped_def
          by (intro disjI1 exI [of _ name] exI [of _ vs] exI [of _ "Some i"] exI [of _ w1]) (auto simp: guest_allowed_def)
      qed (use none With_Guest in \<open>auto simp: eq wrapped_def\<close>)
    qed
  qed simp
qed

end
