(* ===== verification/ApiHandlers.thy ===== *)
theory ApiHandlers
  imports ApiRoutes Scale
begin

text \<open>
  Handlers of the REST server, after \<^verbatim>\<open>internal/api/server.go\<close>: the rotation of the administrator's
  password, the cluster resource and its lifecycle requests, sessions, resource groups, resource
  queues and workload rules. A handler reads the request, calls the Kubernetes API or the database,
  which are arguments, and answers a status with a body. Logging, metrics and spans are left out.
\<close>

section \<open>Model\<close>

subsection \<open>Bodies\<close>

datatype api_value =
    V_Str string | V_Int int | V_Bool bool | V_Null
  | V_Obj "(string \<times> api_value) list" | V_List "api_value list"
  | V_Cluster CloudberryCluster | V_Status CloudberryClusterStatus | V_Failed "FailedSegment list"
  | V_Config "ConfigSpec option" | V_Workload WorkloadSpec | V_Rule WorkloadRule | V_Group ResourceGroupSpec

text \<open>
  \<^verbatim>\<open>json.NewDecoder(r.Body).Decode\<close> after \<^verbatim>\<open>limitBody\<close>: the first value of the first mebibyte; what follows
  it is not read. Struct fields are set member by member, by their name or else up to case.
\<close>

definition maxBodySize :: nat where
  "maxBodySize = 1048576"

definition first_json :: "string \<Rightarrow> json option" where
  "first_json s = (case find (\<lambda>n. parse_json (take n s) \<noteq> None) [0..<Suc (length s)] of None \<Rightarrow> None | Some n \<Rightarrow> parse_json (take n s))"

definition decode_body :: "request \<Rightarrow> json option" where
  "decode_body r = first_json (take maxBodySize (Req_Body r))"

datatype struct_val = S_Str string | S_Int int32 | S_Bool bool | S_Float rat

text \<open>The value of a JSON number, exactly.\<close>

definition number_value :: "string \<Rightarrow> rat" where
  "number_value s =
     (let neg = HasPrefix s ''-''; b = (if neg then tl s else s);
          ip = takeWhile is_digit b; r1 = dropWhile is_digit b;
          fp = (if HasPrefix r1 ''.'' then takeWhile is_digit (tl r1) else []);
          r2 = (if HasPrefix r1 ''.'' then dropWhile is_digit (tl r1) else r1);
          e = (if r2 = [] then 0 else if HasPrefix (tl r2) ''-'' then - int (digits_val 0 (drop 2 r2))
               else if HasPrefix (tl r2) ''+'' then int (digits_val 0 (drop 2 r2)) else int (digits_val 0 (tl r2)))
      in (if neg then -1 else 1) * rat_of_nat (digits_val 0 (ip @ fp)) * 10 powi (e - int (length fp)))"

definition decode_field :: "json \<Rightarrow> struct_val \<Rightarrow> struct_val option" where
  "decode_field v old =
     (case (v, old) of
        (J_Null, _) \<Rightarrow> Some old
      | (J_Str s, S_Str _) \<Rightarrow> Some (S_Str s)
      | (J_Bool b, S_Bool _) \<Rightarrow> Some (S_Bool b)
      | (J_Num s, S_Int _) \<Rightarrow> (case Atoi s of None \<Rightarrow> None | Some n \<Rightarrow> if in_int32 n then Some (S_Int n) else None)
      | (J_Num s, S_Float _) \<Rightarrow> if \<bar>number_value s\<bar> < 2 ^ 1024 - 2 ^ 970 then Some (S_Float (f64 (number_value s))) else None
      | _ \<Rightarrow> None)"

fun decode_first :: "(string \<Rightarrow> bool) \<Rightarrow> json \<Rightarrow> (string \<times> struct_val) list \<Rightarrow> (string \<times> struct_val) list option" where
  "decode_first P v [] = Some []"
| "decode_first P v ((n, x) # fs) =
     (if P n then map_option (\<lambda>y. (n, y) # fs) (decode_field v x) else map_option ((#) (n, x)) (decode_first P v fs))"

fun decode_members :: "(string \<times> json) list \<Rightarrow> (string \<times> struct_val) list \<Rightarrow> (string \<times> struct_val) list option" where
  "decode_members [] fs = Some fs"
| "decode_members ((k, v) # kvs) fs =
     (case decode_first (\<lambda>n. if list_ex (\<lambda>f. fst f = k) fs then n = k else EqualFold n k) v fs of
        None \<Rightarrow> None | Some fs1 \<Rightarrow> decode_members kvs fs1)"

definition decode_struct :: "(string \<times> struct_val) list \<Rightarrow> request \<Rightarrow> (string \<times> struct_val) list option" where
  "decode_struct fs r =
     (case decode_body r of Some J_Null \<Rightarrow> Some fs | Some (J_Obj kvs) \<Rightarrow> decode_members kvs fs | _ \<Rightarrow> None)"

text \<open>When the error is ignored: a member of the wrong type is skipped, a text that is not JSON sets nothing.\<close>

fun lenient_members :: "(string \<times> json) list \<Rightarrow> (string \<times> struct_val) list \<Rightarrow> (string \<times> struct_val) list" where
  "lenient_members [] fs = fs"
| "lenient_members ((k, v) # kvs) fs =
     lenient_members kvs (case decode_members [(k, v)] fs of None \<Rightarrow> fs | Some fs1 \<Rightarrow> fs1)"

definition decode_lenient :: "(string \<times> struct_val) list \<Rightarrow> request \<Rightarrow> (string \<times> struct_val) list" where
  "decode_lenient fs r = (case decode_body r of Some (J_Obj kvs) \<Rightarrow> lenient_members kvs fs | _ \<Rightarrow> fs)"

definition str_of :: "(string \<times> struct_val) list \<Rightarrow> string \<Rightarrow> string" where
  "str_of fs n = (case map_of fs n of Some (S_Str s) \<Rightarrow> s | _ \<Rightarrow> [])"

definition int_of :: "(string \<times> struct_val) list \<Rightarrow> string \<Rightarrow> int32" where
  "int_of fs n = (case map_of fs n of Some (S_Int i) \<Rightarrow> i | _ \<Rightarrow> 0)"

definition bool_of :: "(string \<times> struct_val) list \<Rightarrow> string \<Rightarrow> bool" where
  "bool_of fs n = (case map_of fs n of Some (S_Bool b) \<Rightarrow> b | _ \<Rightarrow> False)"

definition float_of :: "(string \<times> struct_val) list \<Rightarrow> string \<Rightarrow> rat" where
  "float_of fs n = (case map_of fs n of Some (S_Float x) \<Rightarrow> x | _ \<Rightarrow> 0)"

subsection \<open>Environment\<close>

record ResourceGroupOptions =
  RGO_Name :: string
  RGO_Concurrency :: int32
  RGO_CPUMaxPercent :: int32
  RGO_CPUWeight :: int32
  RGO_MemoryLimit :: int32
  RGO_MinCost :: int32

record ResourceQueueOptions =
  RQO_Name :: string
  RQO_ActiveStatements :: int32
  RQO_MemoryLimit :: string
  RQO_Priority :: string
  RQO_MaxCost :: rat
  RQO_MinCost :: rat

text \<open>The operations of \<^verbatim>\<open>db.Client\<close> the handlers call; lists are answered as they are written.\<close>

record 'w api_db =
  a_new :: "CloudberryCluster \<Rightarrow> 'w \<Rightarrow> (string + unit) \<times> 'w"
  a_cancel :: "int32 \<Rightarrow> 'w \<Rightarrow> (string + bool) \<times> 'w"
  a_terminate :: "int32 \<Rightarrow> 'w \<Rightarrow> (string + bool) \<times> 'w"
  a_list_groups :: "'w \<Rightarrow> (string + api_value list) \<times> 'w"
  a_create_group :: "ResourceGroupOptions \<Rightarrow> 'w \<Rightarrow> string option \<times> 'w"
  a_alter_group :: "ResourceGroupOptions \<Rightarrow> 'w \<Rightarrow> string option \<times> 'w"
  a_drop_group :: "string \<Rightarrow> 'w \<Rightarrow> string option \<times> 'w"
  a_assign_group :: "string \<Rightarrow> string \<Rightarrow> 'w \<Rightarrow> string option \<times> 'w"
  a_list_queues :: "'w \<Rightarrow> (string + api_value list) \<times> 'w"
  a_create_queue :: "ResourceQueueOptions \<Rightarrow> 'w \<Rightarrow> string option \<times> 'w"
  a_drop_queue :: "string \<Rightarrow> 'w \<Rightarrow> string option \<times> 'w"
  a_close :: "'w \<Rightarrow> 'w"

datatype update_error = Conflict string | Update_Failed string

text \<open>
  What the handlers use beside the server itself: creation and deletion of clusters, the update that
  can conflict, with the number of times \<^verbatim>\<open>retry.RetryOnConflict\<close> tries again, the Secret of the
  administrator's password (\<open>None\<close>: no data), the credential store, which may be nil, bcrypt and the
  generator of passwords.
\<close>

record 'w api_env =
  ae_server :: "'w Server"
  ae_db :: "'w api_db option"
  ae_create :: "CloudberryCluster \<Rightarrow> 'w \<Rightarrow> (api_error + CloudberryCluster) \<times> 'w"
  ae_delete :: "CloudberryCluster \<Rightarrow> 'w \<Rightarrow> api_error option \<times> 'w"
  ae_update :: "CloudberryCluster \<Rightarrow> 'w \<Rightarrow> (update_error + CloudberryCluster) \<times> 'w"
  ae_retries :: nat
  ae_get_secret :: "string \<Rightarrow> string \<Rightarrow> 'w \<Rightarrow> (api_error + (string \<rightharpoonup> string)) \<times> 'w"
  ae_update_secret :: "string \<Rightarrow> string \<Rightarrow> (string \<rightharpoonup> string) \<Rightarrow> 'w \<Rightarrow> api_error option \<times> 'w"
  ae_create_secret :: "string \<Rightarrow> string \<Rightarrow> (string \<rightharpoonup> string) \<Rightarrow> 'w \<Rightarrow> api_error option \<times> 'w"
  ae_has_store :: bool
  ae_store :: "'w \<Rightarrow> InMemoryCredentialStore"
  ae_set_store :: "InMemoryCredentialStore \<Rightarrow> 'w \<Rightarrow> 'w"
  ae_bcrypt :: "'w bcrypt"
  ae_random_password :: "'w \<Rightarrow> (string + string) \<times> 'w"
  ae_pod_namespace :: string
  ae_decode_cluster :: "request \<Rightarrow> CloudberryCluster option"
  ae_decode_config :: "request \<Rightarrow> ConfigSpec option"

type_synonym 'w api_handler = "(Identity, api_value, 'w) http_handler"

subsection \<open>Helpers\<close>

definition lower_alnum :: "char \<Rightarrow> bool" where
  "lower_alnum c \<longleftrightarrow> is_digit c \<or> 97 \<le> (of_char c :: nat) \<and> (of_char c :: nat) \<le> 122"

definition isValidDNS1123Name :: "string \<Rightarrow> bool" where
  "isValidDNS1123Name name \<longleftrightarrow> name \<noteq> [] \<and> length name \<le> 253 \<and> lower_alnum (hd name) \<and> lower_alnum (last name) \<and>
     list_all (\<lambda>c. lower_alnum c \<or> c = CHR ''-'') name"

definition ident_start :: "char \<Rightarrow> bool" where
  "ident_start c \<longleftrightarrow> c = CHR ''_'' \<or> 65 \<le> (of_char c :: nat) \<and> (of_char c :: nat) \<le> 90 \<or> 97 \<le> (of_char c :: nat) \<and> (of_char c :: nat) \<le> 122"

definition isValidIdentifier :: "string \<Rightarrow> bool" where
  "isValidIdentifier name = (case name of [] \<Rightarrow> False | c # cs \<Rightarrow> ident_start c \<and> length cs \<le> 62 \<and> list_all (\<lambda>d. ident_start d \<or> is_digit d) cs)"

definition writeClusterNotFound :: "string \<Rightarrow> api_value response" where
  "writeClusterNotFound name = error_response StatusNotFound ''CLUSTER_NOT_FOUND'' (''cluster \"'' @ name @ ''\" not found'')"

definition internal_error :: "string \<Rightarrow> api_value response" where
  "internal_error message = error_response StatusInternalServerError ''INTERNAL_ERROR'' message"

definition invalid_request :: "string \<Rightarrow> api_value response" where
  "invalid_request message = error_response StatusBadRequest ''INVALID_REQUEST'' message"

definition db_unavailable :: "api_value response" where
  "db_unavailable = error_response 503 ''DB_UNAVAILABLE'' ''cannot connect to database''"

definition answer :: "int \<Rightarrow> (string \<times> api_value) list \<Rightarrow> api_value response" where
  "answer status kvs = body_response status (V_Obj kvs)"

definition getCluster :: "'w Server \<Rightarrow> string \<Rightarrow> string \<Rightarrow> 'w \<Rightarrow> (string + CloudberryCluster) \<times> 'w" where
  "getCluster s name namespace w =
     (if \<not> isValidDNS1123Name name then (Inl ''invalid cluster name'', w)
      else if namespace \<noteq> [] \<and> \<not> isValidDNS1123Name namespace then (Inl ''invalid namespace'', w)
      else if namespace = [] then
        (case as_list s w of
           (Inl _, w1) \<Rightarrow> (Inl ''list'', w1)
         | (Inr items, w1) \<Rightarrow>
             (case find (\<lambda>c. CC_Name c = name) items of None \<Rightarrow> (Inl ''not found'', w1) | Some c \<Rightarrow> (Inr c, w1)))
      else (case k_get_cluster (as_kube s) namespace name w of
              (Inl _, w1) \<Rightarrow> (Inl ''get'', w1)
            | (Inr c, w1) \<Rightarrow> (Inr c, w1)))"

text \<open>The opening of almost every handler: the cluster of the path and the query, or 404.\<close>

definition with_cluster :: "'w api_env \<Rightarrow> request \<Rightarrow> (CloudberryCluster \<Rightarrow> 'w \<Rightarrow> api_value response \<times> 'w) \<Rightarrow> 'w \<Rightarrow> api_value response \<times> 'w" where
  "with_cluster e r k w =
     (case getCluster (ae_server e) (PathValue r ''name'') (Req_Query r ''namespace'') w of
        (Inl _, w1) \<Rightarrow> (writeClusterNotFound (PathValue r ''name''), w1)
      | (Inr cluster, w1) \<Rightarrow> k cluster w1)"

text \<open>The database of a cluster: the answer when none is configured, 503 when it cannot be reached.\<close>

definition with_db ::
  "'w api_env \<Rightarrow> CloudberryCluster \<Rightarrow> api_value response \<Rightarrow> ('w api_db \<Rightarrow> 'w \<Rightarrow> api_value response \<times> 'w) \<Rightarrow> 'w \<Rightarrow> api_value response \<times> 'w" where
  "with_db e cluster unavailable k w =
     (case ae_db e of
        None \<Rightarrow> (unavailable, w)
      | Some db \<Rightarrow>
          (case a_new db cluster w of
             (Inl _, w1) \<Rightarrow> (db_unavailable, w1)
           | (Inr _, w1) \<Rightarrow> (case k db w1 of (resp, w2) \<Rightarrow> (resp, a_close db w2))))"

definition patchClusterAnnotation :: "'w api_env \<Rightarrow> CloudberryCluster \<Rightarrow> string \<Rightarrow> string \<Rightarrow> 'w \<Rightarrow> (api_error + CloudberryCluster) \<times> 'w" where
  "patchClusterAnnotation e cluster key value = k_patch_annotation (as_kube (ae_server e)) (CC_Namespace cluster) (CC_Name cluster) key (Some value)"

definition setClusterAnnotation :: "'w api_env \<Rightarrow> string \<Rightarrow> 'w api_handler" where
  "setClusterAnnotation e action ctx r =
     with_cluster e r (\<lambda>cluster w.
       case patchClusterAnnotation e cluster AnnotationAction action w of
         (Inl _, w1) \<Rightarrow> (internal_error ''failed to set action'', w1)
       | (Inr _, w1) \<Rightarrow> (answer StatusAccepted [(''status'', V_Str (action @ '' initiated''))], w1))"

abbreviation AnnotationMaintenance :: string where "AnnotationMaintenance \<equiv> ''avsoft.io/maintenance''"

definition setMaintenanceAnnotation :: "'w api_env \<Rightarrow> string \<Rightarrow> 'w api_handler" where
  "setMaintenanceAnnotation e op ctx r =
     with_cluster e r (\<lambda>cluster w.
       case patchClusterAnnotation e cluster AnnotationMaintenance op w of
         (Inl _, w1) \<Rightarrow> (internal_error ''failed to set maintenance'', w1)
       | (Inr _, w1) \<Rightarrow> (answer StatusAccepted [(''status'', V_Str (op @ '' initiated''))], w1))"

text \<open>
  \<^verbatim>\<open>updateClusterWithConflictRetry\<close>: the change is applied to a fresh object in every attempt; it may give
  up with an error of its own, and only conflicts are tried again. The answer is the object that was
  sent and the object that was stored.
\<close>

datatype 'x retry_error = Mutate_Error 'x | Conflict_Error string | Retry_Error string

definition api_text :: "api_error \<Rightarrow> string" where
  "api_text e = (case e of NotFound \<Rightarrow> ''not found'' | AlreadyExists \<Rightarrow> ''already exists'' | Other_Error msg \<Rightarrow> msg)"

definition update_attempt ::
  "'w api_env \<Rightarrow> CloudberryCluster \<Rightarrow> (CloudberryCluster \<Rightarrow> 'x + CloudberryCluster) \<Rightarrow> 'w \<Rightarrow> ('x retry_error + CloudberryCluster \<times> CloudberryCluster) \<times> 'w" where
  "update_attempt e cluster mutate w =
     (case k_get_cluster (as_kube (ae_server e)) (CC_Namespace cluster) (CC_Name cluster) w of
        (Inl err, w1) \<Rightarrow> (Inl (Retry_Error (api_text err)), w1)
      | (Inr latest, w1) \<Rightarrow>
          (case mutate latest of
             Inl x \<Rightarrow> (Inl (Mutate_Error x), w1)
           | Inr latest1 \<Rightarrow>
               (case ae_update e latest1 w1 of
                  (Inr latest2, w2) \<Rightarrow> (Inr (latest1, latest2), w2)
                | (Inl (Update_Failed msg), w2) \<Rightarrow> (Inl (Retry_Error msg), w2)
                | (Inl (Conflict msg), w2) \<Rightarrow> (Inl (Conflict_Error msg), w2))))"

fun updateClusterWithConflictRetry ::
  "'w api_env \<Rightarrow> nat \<Rightarrow> CloudberryCluster \<Rightarrow> (CloudberryCluster \<Rightarrow> 'x + CloudberryCluster) \<Rightarrow> 'w \<Rightarrow> ('x retry_error + CloudberryCluster \<times> CloudberryCluster) \<times> 'w" where
  "updateClusterWithConflictRetry e 0 cluster mutate w = update_attempt e cluster mutate w"
| "updateClusterWithConflictRetry e (Suc n) cluster mutate w =
     (case update_attempt e cluster mutate w of
        (Inl (Conflict_Error _), w1) \<Rightarrow> updateClusterWithConflictRetry e n cluster mutate w1
      | res \<Rightarrow> res)"

definition retry_text :: "'x retry_error \<Rightarrow> string" where
  "retry_text err = (case err of Mutate_Error _ \<Rightarrow> [] | Conflict_Error msg \<Rightarrow> msg | Retry_Error msg \<Rightarrow> msg)"

subsection \<open>Password rotation\<close>

abbreviation adminUsername :: string where "adminUsername \<equiv> ''admin''"
abbreviation OperatorNamespace :: string where "OperatorNamespace \<equiv> ''cloudberry-system''"
abbreviation OperatorAdminPasswordSecretName :: string where "OperatorAdminPasswordSecretName \<equiv> ''cloudberry-operator-admin-password''"
abbreviation PasswordSecretKey :: string where "PasswordSecretKey \<equiv> ''password''"

definition createAdminPasswordSecret :: "'w api_env \<Rightarrow> string \<Rightarrow> string \<Rightarrow> 'w \<Rightarrow> bool \<times> 'w" where
  "createAdminPasswordSecret e operatorNS newPassword w =
     (case ae_create_secret e operatorNS OperatorAdminPasswordSecretName [PasswordSecretKey \<mapsto> newPassword] w of
        (None, w1) \<Rightarrow> (True, w1)
      | (Some AlreadyExists, w1) \<Rightarrow>
          (case ae_get_secret e operatorNS OperatorAdminPasswordSecretName w1 of
             (Inl _, w2) \<Rightarrow> (False, w2)
           | (Inr raced, w2) \<Rightarrow>
               (case ae_update_secret e operatorNS OperatorAdminPasswordSecretName (raced(PasswordSecretKey \<mapsto> newPassword)) w2 of
                  (None, w3) \<Rightarrow> (True, w3)
                | (Some _, w3) \<Rightarrow> (False, w3)))
      | (Some _, w1) \<Rightarrow> (False, w1))"

definition rotated :: "'w api_env \<Rightarrow> string \<Rightarrow> 'w \<Rightarrow> api_value response \<times> 'w" where
  "rotated e newPassword w =
     (case SetCredentials (ae_bcrypt e) adminUsername newPassword PermissionAdmin (ae_store e w) w of
        (s1, w1) \<Rightarrow>
          (answer StatusOK [(''status'', V_Str ''rotated''), (''message'', V_Str ''Admin password rotated successfully'')], ae_set_store e s1 w1))"

definition handleRotatePassword :: "'w api_env \<Rightarrow> 'w api_handler" where
  "handleRotatePassword e ctx r w =
     (if \<not> ae_has_store e then (internal_error ''credential store not configured'', w)
      else case ae_random_password e w of
        (Inl _, w1) \<Rightarrow> (internal_error ''failed to generate new password'', w1)
      | (Inr newPassword, w1) \<Rightarrow>
          (let operatorNS = (if ae_pod_namespace e = [] then OperatorNamespace else ae_pod_namespace e)
           in case ae_get_secret e operatorNS OperatorAdminPasswordSecretName w1 of
                (Inr existing, w2) \<Rightarrow>
                  (case ae_update_secret e operatorNS OperatorAdminPasswordSecretName (existing(PasswordSecretKey \<mapsto> newPassword)) w2 of
                     (Some _, w3) \<Rightarrow> (internal_error ''failed to update admin password secret'', w3)
                   | (None, w3) \<Rightarrow> rotated e newPassword w3)
              | (Inl NotFound, w2) \<Rightarrow>
                  (case createAdminPasswordSecret e operatorNS newPassword w2 of
                     (False, w3) \<Rightarrow> (internal_error ''failed to create admin password secret'', w3)
                   | (True, w3) \<Rightarrow> rotated e newPassword w3)
              | (Inl _, w2) \<Rightarrow> (internal_error ''failed to read admin password secret'', w2)))"

subsection \<open>Clusters\<close>

definition handleHealthz :: "'w api_handler" where
  "handleHealthz ctx r w = (answer StatusOK [(''status'', V_Str ''ok'')], w)"

definition handleReadyz :: "'w api_handler" where
  "handleReadyz ctx r w = (answer StatusOK [(''status'', V_Str ''ready'')], w)"

definition handleListClusters :: "'w api_env \<Rightarrow> 'w api_handler" where
  "handleListClusters e ctx r w =
     (case as_list (ae_server e) w of
        (Inl _, w1) \<Rightarrow> (internal_error ''failed to list clusters'', w1)
      | (Inr cs, w1) \<Rightarrow>
          (let items = map (\<lambda>c. V_Obj [(''name'', V_Str (CC_Name c)), (''namespace'', V_Str (CC_Namespace c)),
                 (''phase'', V_Str (St_Phase (CC_Status c))), (''version'', V_Str (Spec_Version (CC_Spec c)))]) cs
           in (answer StatusOK [(''items'', V_List items), (''total'', V_Int (int (length items)))], w1)))"

definition handleGetCluster :: "'w api_env \<Rightarrow> 'w api_handler" where
  "handleGetCluster e ctx r = with_cluster e r (\<lambda>cluster w. (body_response StatusOK (V_Cluster cluster), w))"

definition handleGetClusterStatus :: "'w api_env \<Rightarrow> 'w api_handler" where
  "handleGetClusterStatus e ctx r = with_cluster e r (\<lambda>cluster w.
     (answer StatusOK [(''name'', V_Str (CC_Name cluster)), (''namespace'', V_Str (CC_Namespace cluster)), (''status'', V_Status (CC_Status cluster))], w))"

text \<open>The first DataRedistribution condition, with its time for the rebalance status.\<close>

definition redistribution_field :: "bool \<Rightarrow> CloudberryCluster \<Rightarrow> (string \<times> api_value) list" where
  "redistribution_field with_time cluster =
     (case FindCondition (St_Conditions (CC_Status cluster)) ConditionDataRedistribution of
        None \<Rightarrow> []
      | Some cond \<Rightarrow> [(''redistribution'', V_Obj ([(''status'', V_Str (Cond_Status cond)), (''reason'', V_Str (Cond_Reason cond)),
          (''message'', V_Str (Cond_Message cond))] @ (if with_time then [(''lastTransition'', V_Int (Cond_LastTransitionTime cond))] else [])))])"

definition handleGetScaleStatus :: "'w api_env \<Rightarrow> 'w api_handler" where
  "handleGetScaleStatus e ctx r = with_cluster e r (\<lambda>cluster w.
     (answer StatusOK ([(''name'', V_Str (CC_Name cluster)), (''namespace'', V_Str (CC_Namespace cluster)),
        (''scaling'', V_Bool (St_Phase (CC_Status cluster) = ''Scaling'')), (''phase'', V_Str (St_Phase (CC_Status cluster))),
        (''segmentsReady'', V_Int (St_SegmentsReady (CC_Status cluster))), (''segmentsTotal'', V_Int (St_SegmentsTotal (CC_Status cluster)))] @
        redistribution_field False cluster), w))"

definition handleCreateCluster :: "'w api_env \<Rightarrow> 'w api_handler" where
  "handleCreateCluster e ctx r w =
     (case ae_decode_cluster e r of
        None \<Rightarrow> (invalid_request ''invalid request body'', w)
      | Some cluster \<Rightarrow>
          if \<not> isValidDNS1123Name (CC_Name cluster) then (invalid_request ''cluster name must be a valid DNS-1123 subdomain'', w)
          else (case ae_create e cluster w of
             (Inl _, w1) \<Rightarrow> (internal_error ''failed to create cluster'', w1)
           | (Inr created, w1) \<Rightarrow> (body_response StatusCreated (V_Cluster created), w1)))"

definition handleDeleteCluster :: "'w api_env \<Rightarrow> 'w api_handler" where
  "handleDeleteCluster e ctx r = with_cluster e r (\<lambda>cluster w.
     case ae_delete e cluster w of
       (Some _, w1) \<Rightarrow> (internal_error ''failed to delete cluster'', w1)
     | (None, w1) \<Rightarrow> (answer StatusOK [(''status'', V_Str ''deleting'')], w1))"

definition handleStartCluster :: "'w api_env \<Rightarrow> 'w api_handler" where
  "handleStartCluster e = setClusterAnnotation e ''start''"

definition handleStopCluster :: "'w api_env \<Rightarrow> 'w api_handler" where
  "handleStopCluster e = setClusterAnnotation e ''stop''"

definition handleRestartCluster :: "'w api_env \<Rightarrow> 'w api_handler" where
  "handleRestartCluster e = setClusterAnnotation e ''restart''"

definition handleReloadConfig :: "'w api_env \<Rightarrow> 'w api_handler" where
  "handleReloadConfig e = setClusterAnnotation e ''reload''"

definition handleActivateStandby :: "'w api_env \<Rightarrow> 'w api_handler" where
  "handleActivateStandby e = setClusterAnnotation e ''activate-standby''"

definition handleRebalance_api :: "'w api_env \<Rightarrow> 'w api_handler" where
  "handleRebalance_api e = setClusterAnnotation e ''rebalance''"

definition handleVacuum :: "'w api_env \<Rightarrow> 'w api_handler" where
  "handleVacuum e = setMaintenanceAnnotation e ''vacuum''"

definition handleAnalyze :: "'w api_env \<Rightarrow> 'w api_handler" where
  "handleAnalyze e = setMaintenanceAnnotation e ''analyze''"

definition handleReindex :: "'w api_env \<Rightarrow> 'w api_handler" where
  "handleReindex e = setMaintenanceAnnotation e ''reindex''"

definition handleGetConfig :: "'w api_env \<Rightarrow> 'w api_handler" where
  "handleGetConfig e ctx r = with_cluster e r (\<lambda>cluster w. (body_response StatusOK (V_Config (Spec_Config (CC_Spec cluster))), w))"

definition handleUpdateConfig :: "'w api_env \<Rightarrow> 'w api_handler" where
  "handleUpdateConfig e ctx r = with_cluster e r (\<lambda>cluster w.
     case ae_decode_config e r of
       None \<Rightarrow> (invalid_request ''invalid request body'', w)
     | Some configUpdate \<Rightarrow>
         (case updateClusterWithConflictRetry e (ae_retries e) cluster
                 (\<lambda>latest. Inr (latest\<lparr>CC_Spec := (CC_Spec latest)\<lparr>Spec_Config := Some configUpdate\<rparr>\<rparr>) :: unit + CloudberryCluster) w of
            (Inl err, w1) \<Rightarrow> (internal_error (''failed to update config: '' @ retry_text err), w1)
          | (Inr _, w1) \<Rightarrow> (answer StatusOK [(''status'', V_Str ''updated'')], w1)))"

definition handleListSegments :: "'w api_env \<Rightarrow> 'w api_handler" where
  "handleListSegments e ctx r = with_cluster e r (\<lambda>cluster w.
     (answer StatusOK [(''segmentsReady'', V_Int (St_SegmentsReady (CC_Status cluster))), (''segmentsTotal'', V_Int (St_SegmentsTotal (CC_Status cluster))),
        (''failedSegments'', V_Failed (St_FailedSegments (CC_Status cluster)))], w))"

definition handleGetMirroring :: "'w api_env \<Rightarrow> 'w api_handler" where
  "handleGetMirroring e ctx r = with_cluster e r (\<lambda>cluster w. (answer StatusOK [(''status'', V_Str (St_MirroringStatus (CC_Status cluster)))], w))"

definition handleGetStandby :: "'w api_env \<Rightarrow> 'w api_handler" where
  "handleGetStandby e ctx r = with_cluster e r (\<lambda>cluster w.
     (answer StatusOK [(''enabled'', V_Bool (case Spec_Standby (CC_Spec cluster) of None \<Rightarrow> False | Some s \<Rightarrow> Standby_Enabled s)),
        (''ready'', V_Bool (St_StandbyReady (CC_Status cluster)))], w))"

definition handleGetRebalanceStatus :: "'w api_env \<Rightarrow> 'w api_handler" where
  "handleGetRebalanceStatus e ctx r = with_cluster e r (\<lambda>cluster w.
     (answer StatusOK ([(''name'', V_Str (CC_Name cluster)), (''namespace'', V_Str (CC_Namespace cluster))] @
        (case Seg_Rebalance (Spec_Segments (CC_Spec cluster)) of
           None \<Rightarrow> []
         | Some rb \<Rightarrow> [(''config'', V_Obj [(''skewThreshold'', V_Int (Reb_SkewThreshold rb)), (''parallelism'', V_Int (Reb_Parallelism rb)),
             (''excludeTables'', V_List (map V_Str (Reb_ExcludeTables rb)))])]) @
        redistribution_field True cluster), w))"

text \<open>The annotation names the type of recovery the controller is asked for.\<close>

definition handleStartRecovery :: "'w api_env \<Rightarrow> 'w api_handler" where
  "handleStartRecovery e ctx r w =
     (case decode_struct [(''type'', S_Str [])] r of
        None \<Rightarrow> (invalid_request ''invalid request body'', w)
      | Some req \<Rightarrow>
          (let ty = str_of req ''type'' in
           if ty \<notin> {''incremental'', ''full'', ''differential''}
           then (invalid_request (''invalid recovery type \"'' @ ty @ ''\"; valid types: incremental, full, differential''), w)
           else with_cluster e r (\<lambda>cluster w.
             case patchClusterAnnotation e cluster ''avsoft.io/recovery'' ty w of
               (Inl _, w1) \<Rightarrow> (internal_error ''failed to start recovery'', w1)
             | (Inr _, w1) \<Rightarrow> (answer StatusAccepted [(''status'', V_Str ''recovery started''), (''type'', V_Str ty)], w1)) w))"

subsection \<open>Sessions\<close>

record cancelBackendOptions =
  co_terminate :: bool
  co_parseReason :: bool
  co_includeStatus :: bool
  co_operation :: string
  co_resultKey :: string

text \<open>\<^verbatim>\<open>strconv.ParseInt(s, 10, 32)\<close>.\<close>

definition ParseInt32 :: "string \<Rightarrow> int option" where
  "ParseInt32 s = (case Atoi s of None \<Rightarrow> None | Some n \<Rightarrow> if in_int32 n then Some n else None)"

definition cancelBackendByPID :: "'w api_env \<Rightarrow> cancelBackendOptions \<Rightarrow> 'w api_handler" where
  "cancelBackendByPID e opts ctx r w =
     (case ParseInt32 (PathValue r ''pid'') of
        None \<Rightarrow> (invalid_request ''invalid PID'', w)
      | Some pid \<Rightarrow>
          if pid \<le> 0 then (invalid_request ''PID must be a positive integer'', w)
          else
            (let reason = (if co_parseReason opts then str_of (decode_lenient [(''reason'', S_Str [])] r) ''reason'' else [])
             in with_cluster e r (\<lambda>cluster.
                  with_db e cluster
                    (answer StatusOK [(''pid'', V_Int pid), (co_resultKey opts, V_Bool False), (''message'', V_Str ''database connection not available'')])
                    (\<lambda>db w. case (if co_terminate opts then a_terminate db pid w else a_cancel db pid w) of
                       (Inl _, w1) \<Rightarrow> (internal_error (''failed to '' @ co_operation opts), w1)
                     | (Inr result, w1) \<Rightarrow>
                         (answer StatusOK ([(''pid'', V_Int pid), (co_resultKey opts, V_Bool result)] @
                            (if co_includeStatus opts then [(''status'', V_Str ''canceled'')] else []) @
                            (if co_parseReason opts \<and> reason \<noteq> [] then [(''reason'', V_Str reason)] else [])), w1))) w))"

definition handleCancelQuery :: "'w api_env \<Rightarrow> 'w api_handler" where
  "handleCancelQuery e = cancelBackendByPID e
     \<lparr>co_terminate = False, co_parseReason = True, co_includeStatus = False, co_operation = ''cancel query'', co_resultKey = ''canceled''\<rparr>"

definition handleTerminateSession :: "'w api_env \<Rightarrow> 'w api_handler" where
  "handleTerminateSession e = cancelBackendByPID e
     \<lparr>co_terminate = True, co_parseReason = False, co_includeStatus = False, co_operation = ''terminate session'', co_resultKey = ''terminated''\<rparr>"

definition handleCancelQueryByPID :: "'w api_env \<Rightarrow> 'w api_handler" where
  "handleCancelQueryByPID e = cancelBackendByPID e
     \<lparr>co_terminate = False, co_parseReason = True, co_includeStatus = True, co_operation = ''cancel query'', co_resultKey = ''canceled''\<rparr>"

end
