(* ===== verification/ApiWorkloads.thy ===== *)
theory ApiWorkloads
  imports ApiHandlers
begin

text \<open>
  Workload management of the REST server, after \<^verbatim>\<open>internal/api/server.go\<close>: resource groups and queues,
  which are changed in the database, and workload rules, which are changed in the resource. The names
  that reach the database are SQL identifiers whatever a client sends, and the rule handlers act on a
  finite map from names to rules.
\<close>

section \<open>Model\<close>

subsection \<open>Resource groups\<close>

definition handleGetWorkload :: "'w api_env \<Rightarrow> 'w api_handler" where
  "handleGetWorkload e ctx r = with_cluster e r (\<lambda>cluster w.
     case Spec_Workload (CC_Spec cluster) of
       None \<Rightarrow> (answer StatusOK [(''enabled'', V_Bool False)], w)
     | Some wl \<Rightarrow> (body_response StatusOK (V_Workload wl), w))"

definition listed :: "string \<Rightarrow> api_value list \<Rightarrow> api_value response" where
  "listed key vs = answer StatusOK [(key, V_List vs), (''total'', V_Int (int (length vs)))]"

definition spec_groups :: "CloudberryCluster \<Rightarrow> api_value list" where
  "spec_groups cluster = (case Spec_Workload (CC_Spec cluster) of None \<Rightarrow> [] | Some wl \<Rightarrow> map V_Group (WL_ResourceGroups wl))"

definition handleListResourceGroups :: "'w api_env \<Rightarrow> 'w api_handler" where
  "handleListResourceGroups e ctx r = with_cluster e r (\<lambda>cluster w.
     let fallback = listed ''resourceGroups'' (spec_groups cluster)
     in case ae_db e of
          None \<Rightarrow> (fallback, w)
        | Some db \<Rightarrow>
            (case a_new db cluster w of
               (Inl _, w1) \<Rightarrow> (fallback, w1)
             | (Inr _, w1) \<Rightarrow>
                 (case a_list_groups db w1 of
                    (Inl _, w2) \<Rightarrow> (fallback, a_close db w2)
                  | (Inr dbGroups, w2) \<Rightarrow> (listed ''resourceGroups'' dbGroups, a_close db w2))))"

definition group_fields :: "(string \<times> struct_val) list" where
  "group_fields = [(''concurrency'', S_Int 0), (''cpuMaxPercent'', S_Int 0), (''cpuWeight'', S_Int 0), (''memoryLimit'', S_Int 0), (''minCost'', S_Int 0)]"

definition group_options :: "string \<Rightarrow> (string \<times> struct_val) list \<Rightarrow> ResourceGroupOptions" where
  "group_options name req = \<lparr>RGO_Name = name, RGO_Concurrency = int_of req ''concurrency'', RGO_CPUMaxPercent = int_of req ''cpuMaxPercent'',
     RGO_CPUWeight = int_of req ''cpuWeight'', RGO_MemoryLimit = int_of req ''memoryLimit'', RGO_MinCost = int_of req ''minCost''\<rparr>"

text \<open>A statement of the database with the answers for its failure and its success.\<close>

definition ddl :: "(string option \<times> 'w) \<Rightarrow> string \<Rightarrow> api_value response \<Rightarrow> api_value response \<times> 'w" where
  "ddl res failure success = (case res of (Some _, w) \<Rightarrow> (internal_error failure, w) | (None, w) \<Rightarrow> (success, w))"

abbreviation msgDBNotAvailable :: string where "msgDBNotAvailable \<equiv> ''database connection not available''"

definition handleCreateResourceGroup :: "'w api_env \<Rightarrow> 'w api_handler" where
  "handleCreateResourceGroup e ctx r = with_cluster e r (\<lambda>cluster w.
     case decode_struct ((''name'', S_Str []) # group_fields) r of
       None \<Rightarrow> (invalid_request ''invalid request body'', w)
     | Some req \<Rightarrow>
         (let name = str_of req ''name'' in
          if name = [] then (invalid_request ''resource group name is required'', w)
          else if \<not> isValidIdentifier name then (invalid_request ''invalid resource group name: must be a valid SQL identifier'', w)
          else with_db e cluster
            (answer StatusCreated [(''name'', V_Str name), (''concurrency'', V_Int (int_of req ''concurrency'')), (''cpuMaxPercent'', V_Int (int_of req ''cpuMaxPercent'')),
               (''cpuWeight'', V_Int (int_of req ''cpuWeight'')), (''memoryLimit'', V_Int (int_of req ''memoryLimit'')),
               (''message'', V_Str ''resource group creation pending; database connection not available'')])
            (\<lambda>db w. ddl (a_create_group db (group_options name req) w) ''failed to create resource group''
               (answer StatusCreated [(''name'', V_Str name), (''concurrency'', V_Int (int_of req ''concurrency'')), (''cpuMaxPercent'', V_Int (int_of req ''cpuMaxPercent'')),
                  (''memoryLimit'', V_Int (int_of req ''memoryLimit'')), (''status'', V_Str ''created'')])) w))"

definition handleDeleteResourceGroup :: "'w api_env \<Rightarrow> 'w api_handler" where
  "handleDeleteResourceGroup e ctx r w =
     (let groupName = PathValue r ''groupName'' in
      if \<not> isValidIdentifier groupName then (invalid_request ''invalid resource group name: must be a valid SQL identifier'', w)
      else with_cluster e r (\<lambda>cluster.
        with_db e cluster (answer StatusOK [(''group'', V_Str groupName), (''status'', V_Str ''pending''), (''message'', V_Str msgDBNotAvailable)])
          (\<lambda>db w. ddl (a_drop_group db groupName w) ''failed to drop resource group''
             (answer StatusOK [(''group'', V_Str groupName), (''status'', V_Str ''deleted'')]))) w)"

definition handleUpdateResourceGroup :: "'w api_env \<Rightarrow> 'w api_handler" where
  "handleUpdateResourceGroup e ctx r w =
     (let groupName = PathValue r ''groupName'' in
      if \<not> isValidIdentifier groupName then (invalid_request ''invalid resource group name: must be a valid SQL identifier'', w)
      else with_cluster e r (\<lambda>cluster w.
        case decode_struct group_fields r of
          None \<Rightarrow> (invalid_request ''invalid request body'', w)
        | Some req \<Rightarrow>
            (let shown = [(''group'', V_Str groupName), (''concurrency'', V_Int (int_of req ''concurrency'')), (''cpuMaxPercent'', V_Int (int_of req ''cpuMaxPercent'')),
                   (''cpuWeight'', V_Int (int_of req ''cpuWeight''))]
             in with_db e cluster (answer StatusOK (shown @ [(''status'', V_Str ''pending''), (''message'', V_Str msgDBNotAvailable)]))
                  (\<lambda>db w. ddl (a_alter_group db (group_options groupName req) w) ''failed to alter resource group''
                     (answer StatusOK (shown @ [(''status'', V_Str ''updated'')]))) w)) w)"

definition handleAssignResourceGroup :: "'w api_env \<Rightarrow> 'w api_handler" where
  "handleAssignResourceGroup e ctx r w =
     (let groupName = PathValue r ''groupName'' in
      if \<not> isValidIdentifier groupName then (invalid_request ''invalid resource group name: must be a valid SQL identifier'', w)
      else with_cluster e r (\<lambda>cluster w.
        case decode_struct [(''role'', S_Str [])] r of
          None \<Rightarrow> (invalid_request ''invalid request body'', w)
        | Some req \<Rightarrow>
            (let role = str_of req ''role'' in
             if role = [] then (invalid_request ''role is required'', w)
             else if \<not> isValidIdentifier role then (invalid_request ''invalid role name: must be a valid SQL identifier'', w)
             else with_db e cluster
               (answer StatusOK [(''group'', V_Str groupName), (''role'', V_Str role), (''status'', V_Str ''pending''), (''message'', V_Str msgDBNotAvailable)])
               (\<lambda>db w. ddl (a_assign_group db role groupName w) ''failed to assign role to resource group''
                  (answer StatusOK [(''group'', V_Str groupName), (''role'', V_Str role), (''status'', V_Str ''assigned'')])) w)) w)"

subsection \<open>Resource queues\<close>

definition handleListResourceQueues :: "'w api_env \<Rightarrow> 'w api_handler" where
  "handleListResourceQueues e ctx r = with_cluster e r (\<lambda>cluster.
     with_db e cluster (answer StatusOK [(''resourceQueues'', V_List []), (''total'', V_Int 0), (''message'', V_Str msgDBNotAvailable)])
       (\<lambda>db w. case a_list_queues db w of
          (Inl _, w1) \<Rightarrow> (internal_error ''failed to list resource queues'', w1)
        | (Inr queues, w1) \<Rightarrow> (listed ''resourceQueues'' queues, w1)))"

definition queue_options :: "string \<Rightarrow> (string \<times> struct_val) list \<Rightarrow> ResourceQueueOptions" where
  "queue_options name req = \<lparr>RQO_Name = name, RQO_ActiveStatements = int_of req ''activeStatements'', RQO_MemoryLimit = str_of req ''memoryLimit'',
     RQO_Priority = str_of req ''priority'', RQO_MaxCost = float_of req ''maxCost'', RQO_MinCost = float_of req ''minCost''\<rparr>"

definition handleCreateResourceQueue :: "'w api_env \<Rightarrow> 'w api_handler" where
  "handleCreateResourceQueue e ctx r = with_cluster e r (\<lambda>cluster w.
     case decode_struct [(''name'', S_Str []), (''activeStatements'', S_Int 0), (''memoryLimit'', S_Str []), (''priority'', S_Str []),
            (''maxCost'', S_Float 0), (''minCost'', S_Float 0)] r of
       None \<Rightarrow> (invalid_request ''invalid request body'', w)
     | Some req \<Rightarrow>
         (let name = str_of req ''name'';
              shown = [(''name'', V_Str name), (''activeStatements'', V_Int (int_of req ''activeStatements'')), (''memoryLimit'', V_Str (str_of req ''memoryLimit'')),
                (''priority'', V_Str (str_of req ''priority''))]
          in if name = [] then (invalid_request ''resource queue name is required'', w)
             else if \<not> isValidIdentifier name then (invalid_request ''invalid resource queue name: must be a valid SQL identifier'', w)
             else with_db e cluster
               (answer StatusCreated (shown @ [(''message'', V_Str ''resource queue creation pending; database connection not available'')]))
               (\<lambda>db w. ddl (a_create_queue db (queue_options name req) w) ''failed to create resource queue''
                  (answer StatusCreated (shown @ [(''status'', V_Str ''created'')]))) w))"

definition handleDeleteResourceQueue :: "'w api_env \<Rightarrow> 'w api_handler" where
  "handleDeleteResourceQueue e ctx r w =
     (let queueName = PathValue r ''queueName'' in
      if \<not> isValidIdentifier queueName then (invalid_request ''invalid resource queue name: must be a valid SQL identifier'', w)
      else with_cluster e r (\<lambda>cluster.
        with_db e cluster (answer StatusOK [(''name'', V_Str queueName), (''status'', V_Str ''pending''), (''message'', V_Str msgDBNotAvailable)])
          (\<lambda>db w. ddl (a_drop_queue db queueName w) ''failed to drop resource queue''
             (answer StatusOK [(''name'', V_Str queueName), (''status'', V_Str ''deleted'')]))) w)"

subsection \<open>Workload rules\<close>

definition cluster_rules :: "CloudberryCluster \<Rightarrow> WorkloadRule list" where
  "cluster_rules cluster = (case Spec_Workload (CC_Spec cluster) of None \<Rightarrow> [] | Some wl \<Rightarrow> WL_Rules wl)"

definition has_rule :: "string \<Rightarrow> CloudberryCluster \<Rightarrow> bool" where
  "has_rule name cluster = list_ex (\<lambda>rule. WR_Name rule = name) (cluster_rules cluster)"

definition handleListWorkloadRules :: "'w api_env \<Rightarrow> 'w api_handler" where
  "handleListWorkloadRules e ctx r = with_cluster e r (\<lambda>cluster w. (listed ''rules'' (map V_Rule (cluster_rules cluster)), w))"

definition empty_workload :: WorkloadSpec where
  "empty_workload = \<lparr>WL_Enabled = False, WL_ResourceGroups = [], WL_Rules = [], WL_IdleRules = []\<rparr>"

definition with_rules :: "WorkloadRule list \<Rightarrow> CloudberryCluster \<Rightarrow> CloudberryCluster" where
  "with_rules rules cluster =
     cluster\<lparr>CC_Spec := (CC_Spec cluster)\<lparr>Spec_Workload := Some ((case Spec_Workload (CC_Spec cluster) of None \<Rightarrow> empty_workload | Some wl \<Rightarrow> wl)
       \<lparr>WL_Rules := rules\<rparr>)\<rparr>\<rparr>"

definition rule_fields :: "(string \<times> struct_val) list" where
  "rule_fields = [(''name'', S_Str []), (''enabled'', S_Bool False), (''resourceGroup'', S_Str []), (''queryTag'', S_Str []), (''role'', S_Str []),
     (''action'', S_Str []), (''moveTarget'', S_Str []), (''threshold'', S_Str []), (''thresholdType'', S_Str []), (''priority'', S_Int 0)]"

definition rule_of :: "(string \<times> struct_val) list \<Rightarrow> WorkloadRule" where
  "rule_of req = \<lparr>WR_Name = str_of req ''name'', WR_Enabled = bool_of req ''enabled'', WR_ResourceGroup = str_of req ''resourceGroup'',
     WR_QueryTag = str_of req ''queryTag'', WR_Role = str_of req ''role'', WR_Action = str_of req ''action'', WR_MoveTarget = str_of req ''moveTarget'',
     WR_Threshold = str_of req ''threshold'', WR_ThresholdType = str_of req ''thresholdType'', WR_Priority = int_of req ''priority''\<rparr>"

datatype rule_error = Duplicate_Rule | Rule_Not_Found

definition duplicate_rule :: "string \<Rightarrow> api_value response" where
  "duplicate_rule name = error_response StatusBadRequest ''DUPLICATE_RULE'' (''workload rule \"'' @ name @ ''\" already exists'')"

definition rule_not_found :: "string \<Rightarrow> api_value response" where
  "rule_not_found name = error_response StatusNotFound ''RULE_NOT_FOUND'' (''workload rule \"'' @ name @ ''\" not found'')"

definition add_rule :: "WorkloadRule \<Rightarrow> CloudberryCluster \<Rightarrow> rule_error + CloudberryCluster" where
  "add_rule rule latest =
     (if has_rule (WR_Name rule) latest then Inl Duplicate_Rule else Inr (with_rules (cluster_rules latest @ [rule]) latest))"

definition handleCreateWorkloadRule :: "'w api_env \<Rightarrow> 'w api_handler" where
  "handleCreateWorkloadRule e ctx r = with_cluster e r (\<lambda>cluster w.
     case decode_struct rule_fields r of
       None \<Rightarrow> (invalid_request ''invalid request body'', w)
     | Some req \<Rightarrow>
         (let rule = rule_of req; name = WR_Name rule in
          if name = [] then (invalid_request ''rule name is required'', w)
          else if \<not> isValidIdentifier name then (invalid_request ''invalid rule name: must be a valid SQL identifier'', w)
          else if has_rule name cluster then (duplicate_rule name, w)
          else (case updateClusterWithConflictRetry e (ae_retries e) cluster (add_rule rule) w of
             (Inl (Mutate_Error _), w1) \<Rightarrow> (duplicate_rule name, w1)
           | (Inl err, w1) \<Rightarrow> (internal_error (''failed to create workload rule: '' @ retry_text err), w1)
           | (Inr _, w1) \<Rightarrow> (answer StatusCreated [(''rule'', V_Rule rule), (''status'', V_Str ''created'')], w1))))"

text \<open>
  Partial updates: a member of the wrong type is ignored. A number for the priority is truncated to 32
  bits; outside that range the conversion is that of the processor, here the low bits.
\<close>

definition update_string :: "(string \<times> json) list \<Rightarrow> string \<Rightarrow> string \<Rightarrow> string" where
  "update_string updates key old = (case map_of (rev updates) key of Some (J_Str s) \<Rightarrow> s | _ \<Rightarrow> old)"

definition applyWorkloadRuleUpdates :: "(string \<times> json) list \<Rightarrow> WorkloadRule \<Rightarrow> WorkloadRule" where
  "applyWorkloadRuleUpdates updates rule = rule\<lparr>
     WR_Enabled := (case map_of (rev updates) ''enabled'' of Some (J_Bool b) \<Rightarrow> b | _ \<Rightarrow> WR_Enabled rule),
     WR_ResourceGroup := update_string updates ''resourceGroup'' (WR_ResourceGroup rule),
     WR_Action := update_string updates ''action'' (WR_Action rule),
     WR_Threshold := update_string updates ''threshold'' (WR_Threshold rule),
     WR_ThresholdType := update_string updates ''thresholdType'' (WR_ThresholdType rule),
     WR_MoveTarget := update_string updates ''moveTarget'' (WR_MoveTarget rule),
     WR_QueryTag := update_string updates ''queryTag'' (WR_QueryTag rule),
     WR_Priority := (case map_of (rev updates) ''priority'' of Some (J_Num s) \<Rightarrow> wrap32 (truncated (f64 (number_value s))) | _ \<Rightarrow> WR_Priority rule)\<rparr>"

fun update_rule :: "string \<Rightarrow> (WorkloadRule \<Rightarrow> WorkloadRule) \<Rightarrow> WorkloadRule list \<Rightarrow> WorkloadRule list" where
  "update_rule name f [] = []"
| "update_rule name f (rule # rules) = (if WR_Name rule = name then f rule # rules else rule # update_rule name f rules)"

definition change_rule :: "string \<Rightarrow> (string \<times> json) list \<Rightarrow> CloudberryCluster \<Rightarrow> rule_error + CloudberryCluster" where
  "change_rule name updates latest =
     (if has_rule name latest then Inr (with_rules (update_rule name (applyWorkloadRuleUpdates updates) (cluster_rules latest)) latest)
      else Inl Rule_Not_Found)"

definition decode_map :: "request \<Rightarrow> (string \<times> json) list option" where
  "decode_map r = (case decode_body r of Some J_Null \<Rightarrow> Some [] | Some (J_Obj kvs) \<Rightarrow> Some kvs | _ \<Rightarrow> None)"

definition handleUpdateWorkloadRule :: "'w api_env \<Rightarrow> 'w api_handler" where
  "handleUpdateWorkloadRule e ctx r w =
     (let ruleName = PathValue r ''ruleName'' in
      if \<not> isValidIdentifier ruleName then (invalid_request ''invalid rule name: must be a valid SQL identifier'', w)
      else with_cluster e r (\<lambda>cluster w.
        case decode_map r of
          None \<Rightarrow> (invalid_request ''invalid request body'', w)
        | Some updates \<Rightarrow>
            if \<not> has_rule ruleName cluster then (rule_not_found ruleName, w)
            else (case updateClusterWithConflictRetry e (ae_retries e) cluster (change_rule ruleName updates) w of
               (Inl (Mutate_Error _), w1) \<Rightarrow> (rule_not_found ruleName, w1)
             | (Inl err, w1) \<Rightarrow> (internal_error (''failed to update workload rule: '' @ retry_text err), w1)
             | (Inr (sent, _), w1) \<Rightarrow>
                 (answer StatusOK [(''rule'', case find (\<lambda>rule. WR_Name rule = ruleName) (cluster_rules sent) of Some rule \<Rightarrow> V_Rule rule | None \<Rightarrow> V_Null),
                    (''status'', V_Str ''updated'')], w1))) w)"

fun remove_rule :: "string \<Rightarrow> WorkloadRule list \<Rightarrow> WorkloadRule list" where
  "remove_rule name [] = []"
| "remove_rule name (rule # rules) = (if WR_Name rule = name then rules else rule # remove_rule name rules)"

definition drop_rule :: "string \<Rightarrow> CloudberryCluster \<Rightarrow> rule_error + CloudberryCluster" where
  "drop_rule name latest =
     Inr (if has_rule name latest then with_rules (remove_rule name (cluster_rules latest)) latest else latest)"

definition handleDeleteWorkloadRule :: "'w api_env \<Rightarrow> 'w api_handler" where
  "handleDeleteWorkloadRule e ctx r w =
     (let ruleName = PathValue r ''ruleName'' in
      if \<not> isValidIdentifier ruleName then (invalid_request ''invalid rule name: must be a valid SQL identifier'', w)
      else with_cluster e r (\<lambda>cluster w.
        if \<not> has_rule ruleName cluster then (rule_not_found ruleName, w)
        else (case updateClusterWithConflictRetry e (ae_retries e) cluster (drop_rule ruleName) w of
           (Inl err, w1) \<Rightarrow> (internal_error (''failed to delete workload rule: '' @ retry_text err), w1)
         | (Inr _, w1) \<Rightarrow> (answer StatusOK [(''rule'', V_Str ruleName), (''status'', V_Str ''deleted'')], w1))) w)"

end
