(* ===== verification/ApiWorld.thy ===== *)
theory ApiWorld
  imports ApiWorkloads ApiServer LifecycleTheorems
begin

text \<open>
  A reference world for the REST server: the reference API server together with the buckets of the
  rate limiter, the credentials in memory, the Secrets and the order in which clusters are listed.
  The controllers run on it unchanged: what holds for the API server alone holds for the part of the
  world it is.
\<close>

section \<open>Model\<close>

record api_world =
  aw_store :: store
  aw_rates :: rate_entries
  aw_creds :: InMemoryCredentialStore
  aw_secrets :: "string \<Rightarrow> string \<Rightarrow> (string \<rightharpoonup> string) option"
  aw_keys :: "(string \<times> string) list"

text \<open>An operation of the API server, on its part of the world.\<close>

definition on_store :: "(store \<Rightarrow> 'a \<times> store) \<Rightarrow> api_world \<Rightarrow> 'a \<times> api_world" where
  "on_store f w = (case f (aw_store w) of (a, s) \<Rightarrow> (a, w\<lparr>aw_store := s\<rparr>))"

definition aw_client :: "api_world kube_client" where
  "aw_client = \<lparr>
     k_get_sts = (\<lambda>ns n. on_store (k_get_sts srv_client ns n)),
     k_update_sts = (\<lambda>s. on_store (k_update_sts srv_client s)),
     k_get_cluster = (\<lambda>ns n. on_store (k_get_cluster srv_client ns n)),
     k_update_cluster = (\<lambda>d. on_store (k_update_cluster srv_client d)),
     k_patch_annotation = (\<lambda>ns n key val. on_store (k_patch_annotation srv_client ns n key val)),
     k_patch_status = (\<lambda>ns n p. on_store (k_patch_status srv_client ns n p)),
     k_update_status = (\<lambda>d. on_store (k_update_status srv_client d)),
     k_event = (\<lambda>c t m w. w), k_now = (\<lambda>w. srv_now (aw_store w))\<rparr>"

definition aw_reconciler :: "api_world reconciler" where
  "aw_reconciler = \<lparr>r_client = aw_client, r_dbFactory = None, r_reconcileInterval = 0, r_operationTimeout = 0\<rparr>"

definition aw_sts :: "api_world \<Rightarrow> string \<Rightarrow> string \<Rightarrow> StatefulSet option" where
  "aw_sts w = srv_sts_view (aw_store w)"

definition aw_cluster :: "api_world \<Rightarrow> string \<Rightarrow> string \<Rightarrow> CloudberryCluster option" where
  "aw_cluster w = srv_cluster_view (aw_store w)"

definition aw_writes :: "api_world \<Rightarrow> (string \<times> int32 option) list" where
  "aw_writes w = srv_writes (aw_store w)"

lemmas aw_defs = aw_reconciler_def aw_client_def aw_sts_def aw_cluster_def aw_writes_def on_store_def

interpretation aw: healthy_api aw_reconciler aw_sts aw_cluster aw_writes
proof unfold_locales
  fix w and s old :: StatefulSet assume "aw_sts w (Sts_Namespace s) (Sts_Name s) = Some old"
  then show "\<exists>w'. k_update_sts (r_client aw_reconciler) s w = (None, w') \<and>
      aw_sts w' = (aw_sts w)(Sts_Namespace s := (aw_sts w (Sts_Namespace s))(Sts_Name s \<mapsto> old\<lparr>Sts_Replicas := Sts_Replicas s\<rparr>)) \<and>
      aw_cluster w' = aw_cluster w \<and> aw_writes w' = aw_writes w @ [(Sts_Name s, Sts_Replicas s)]"
    using srv.update_sts [of "aw_store w" s old] by (auto simp: aw_defs)
next
  fix w and d c :: CloudberryCluster
  assume "aw_cluster w (CC_Namespace d) (CC_Name d) = Some c" "CC_Spec d = CC_Spec c" "CC_Generation d = CC_Generation c"
  then show "\<exists>w' c'. k_update_cluster (r_client aw_reconciler) d w = (Inr c', w') \<and> c' = d\<lparr>CC_Status := CC_Status c\<rparr> \<and>
      aw_cluster w' = (aw_cluster w)(CC_Namespace d := (aw_cluster w (CC_Namespace d))(CC_Name d \<mapsto> c')) \<and>
      aw_sts w' = aw_sts w \<and> aw_writes w' = aw_writes w"
    using srv.update_cluster [of "aw_store w" d c] by (auto simp: aw_defs)
next
  fix w ns n c key val assume "aw_cluster w ns n = Some c"
  then show "\<exists>w' c'. k_patch_annotation (r_client aw_reconciler) ns n key val w = (Inr c', w') \<and>
      c' = c\<lparr>CC_Annotations := (CC_Annotations c)(key := val)\<rparr> \<and>
      aw_cluster w' = (aw_cluster w)(ns := (aw_cluster w ns)(n \<mapsto> c')) \<and> aw_sts w' = aw_sts w \<and> aw_writes w' = aw_writes w"
    using srv.patch_annotation [of "aw_store w" ns n c key val] by (auto simp: aw_defs)
next
  fix w ns n c p assume "aw_cluster w ns n = Some c"
  then obtain s' c' where s: "k_patch_status srv_client ns n p (aw_store w) = (Inr c', s')"
    "\<exists>st. c' = c\<lparr>CC_Status := st\<rparr> \<and> St_Phase st = patched_phase p (St_Phase (CC_Status c)) \<and>
        St_CoordinatorReady st = patched_coordinator p (St_CoordinatorReady (CC_Status c)) \<and>
        St_StandbyReady st = patched_standby p (St_StandbyReady (CC_Status c)) \<and>
        St_SegmentsReady st = patched_segments p (St_SegmentsReady (CC_Status c))"
    "srv_cluster_view s' = (srv_cluster_view (aw_store w))(ns := (srv_cluster_view (aw_store w) ns)(n \<mapsto> c'))"
    "srv_sts_view s' = srv_sts_view (aw_store w)" "srv_writes s' = srv_writes (aw_store w)"
    using srv.patch_status [of "aw_store w" ns n c p] by (auto simp: aw_cluster_def)
  then show "\<exists>w' c'. k_patch_status (r_client aw_reconciler) ns n p w = (Inr c', w') \<and>
      (\<exists>st. c' = c\<lparr>CC_Status := st\<rparr> \<and> St_Phase st = patched_phase p (St_Phase (CC_Status c)) \<and>
        St_CoordinatorReady st = patched_coordinator p (St_CoordinatorReady (CC_Status c)) \<and>
        St_StandbyReady st = patched_standby p (St_StandbyReady (CC_Status c)) \<and>
        St_SegmentsReady st = patched_segments p (St_SegmentsReady (CC_Status c))) \<and>
      aw_cluster w' = (aw_cluster w)(ns := (aw_cluster w ns)(n \<mapsto> c')) \<and> aw_sts w' = aw_sts w \<and> aw_writes w' = aw_writes w"
    by (intro exI [of _ "w\<lparr>aw_store := s'\<rparr>"] exI [of _ c']) (simp add: aw_defs)
next
  fix w and d c :: CloudberryCluster assume "aw_cluster w (CC_Namespace d) (CC_Name d) = Some c"
  then show "\<exists>w' c'. k_update_status (r_client aw_reconciler) d w = (Inr c', w') \<and> c' = c\<lparr>CC_Status := CC_Status d\<rparr> \<and>
      aw_cluster w' = (aw_cluster w)(CC_Namespace d := (aw_cluster w (CC_Namespace d))(CC_Name d \<mapsto> c')) \<and>
      aw_sts w' = aw_sts w \<and> aw_writes w' = aw_writes w"
    using srv.update_status [of "aw_store w" d c] by (auto simp: aw_defs)
qed (use srv.get_sts srv.sts_key srv.get_cluster srv.cluster_key in \<open>auto simp: aw_defs split: option.split\<close>)

section \<open>The server on it\<close>

definition aw_list :: "api_world \<Rightarrow> (api_error + CloudberryCluster list) \<times> api_world" where
  "aw_list w = (Inr (List.map_filter (\<lambda>(ns, n). aw_cluster w ns n) (aw_keys w)), w)"

definition aw_rate :: "api_world rate_world" where
  "aw_rate = \<lparr>rw_now = \<lambda>w. srv_now (aw_store w), rw_entries = aw_rates, rw_set = \<lambda>es w. w\<lparr>aw_rates := es\<rparr>\<rparr>"

definition aw_server :: "api_world bcrypt \<Rightarrow> RateLimiter \<Rightarrow> api_world Server" where
  "aw_server bc rl = \<lparr>as_authMW = Some (server_auth bc aw_creds None), as_rateLimiter = rl, as_rate = aw_rate, as_kube = aw_client, as_list = aw_list\<rparr>"

text \<open>An update of a stored cluster: a changed spec gets a new generation.\<close>

definition aw_update :: "CloudberryCluster \<Rightarrow> api_world \<Rightarrow> (update_error + CloudberryCluster) \<times> api_world" where
  "aw_update d w =
     (case on_store (change_cluster (\<lambda>c. d\<lparr>CC_Status := CC_Status c,
             CC_Generation := (if CC_Spec d = CC_Spec c then CC_Generation c else CC_Generation c + 1)\<rparr>) (CC_Namespace d) (CC_Name d)) w of
        (Inl e, w1) \<Rightarrow> (Inl (Update_Failed (api_text e)), w1)
      | (Inr c, w1) \<Rightarrow> (Inr c, w1))"

definition aw_get_secret :: "string \<Rightarrow> string \<Rightarrow> api_world \<Rightarrow> (api_error + (string \<rightharpoonup> string)) \<times> api_world" where
  "aw_get_secret ns n w = (found (aw_secrets w ns n), w)"

definition aw_put_secret :: "bool \<Rightarrow> string \<Rightarrow> string \<Rightarrow> (string \<rightharpoonup> string) \<Rightarrow> api_world \<Rightarrow> api_error option \<times> api_world" where
  "aw_put_secret new ns n d w =
     (if new \<and> aw_secrets w ns n \<noteq> None then (Some AlreadyExists, w)
      else if \<not> new \<and> aw_secrets w ns n = None then (Some NotFound, w)
      else (None, w\<lparr>aw_secrets := (aw_secrets w)(ns := (aw_secrets w ns)(n \<mapsto> d))\<rparr>))"

definition aw_env :: "api_world bcrypt \<Rightarrow> RateLimiter \<Rightarrow> api_world api_db option \<Rightarrow> string \<Rightarrow> api_world api_env" where
  "aw_env bc rl db password = \<lparr>
     ae_server = aw_server bc rl, ae_db = db,
     ae_create = (\<lambda>c w. if aw_cluster w (CC_Namespace c) (CC_Name c) \<noteq> None then (Inl AlreadyExists, w)
        else (Inr c, w\<lparr>aw_store := set_cluster c (aw_store w), aw_keys := aw_keys w @ [(CC_Namespace c, CC_Name c)]\<rparr>)),
     ae_delete = (\<lambda>c w. case on_store (change_cluster (\<lambda>d. d\<lparr>CC_DeletionTimestamp := Some (srv_now (aw_store w))\<rparr>) (CC_Namespace c) (CC_Name c)) w of
        (Inl e, w1) \<Rightarrow> (Some e, w1) | (Inr _, w1) \<Rightarrow> (None, w1)),
     ae_update = aw_update, ae_retries = 3,
     ae_get_secret = aw_get_secret, ae_update_secret = aw_put_secret False, ae_create_secret = aw_put_secret True,
     ae_has_store = True, ae_store = aw_creds, ae_set_store = (\<lambda>s w. w\<lparr>aw_creds := s\<rparr>),
     ae_bcrypt = bc, ae_random_password = (\<lambda>w. (Inr password, w)), ae_pod_namespace = [],
     ae_decode_cluster = (\<lambda>r. None), ae_decode_config = (\<lambda>r. None)\<rparr>"

lemma aw_server_simps [simp]:
  "as_authMW (aw_server bc rl) = Some (server_auth bc aw_creds None)" "as_rateLimiter (aw_server bc rl) = rl" "as_rate (aw_server bc rl) = aw_rate"
  "as_kube (aw_server bc rl) = aw_client" "as_list (aw_server bc rl) = aw_list" "r_client aw_reconciler = aw_client"
  by (simp_all add: aw_server_def aw_reconciler_def)

lemma aw_env_simps [simp]:
  "ae_server (aw_env bc rl db p) = aw_server bc rl" "ae_db (aw_env bc rl db p) = db" "ae_update (aw_env bc rl db p) = aw_update"
  "ae_get_secret (aw_env bc rl db p) = aw_get_secret" "ae_update_secret (aw_env bc rl db p) = aw_put_secret False"
  "ae_create_secret (aw_env bc rl db p) = aw_put_secret True" "ae_has_store (aw_env bc rl db p)" "ae_store (aw_env bc rl db p) = aw_creds"
  "ae_set_store (aw_env bc rl db p) = (\<lambda>s w. w\<lparr>aw_creds := s\<rparr>)" "ae_bcrypt (aw_env bc rl db p) = bc"
  "ae_random_password (aw_env bc rl db p) = (\<lambda>w. (Inr p, w))" "ae_retries (aw_env bc rl db p) = 3" "ae_pod_namespace (aw_env bc rl db p) = []"
  by (simp_all add: aw_env_def)

end
