(* ===== verification/ApiTheorems.thy ===== *)
theory ApiTheorems
  imports ApiWorld
begin

text \<open>
  What the REST server promises: what reaches the database, the workload rules as a map, the rotation
  of the administrator's password, and a request for a stop from the network down to the StatefulSets.
\<close>

section \<open>Identifiers\<close>

text \<open>Two databases that cannot be told apart by statements over valid identifiers.\<close>

definition same_on_identifiers :: "'w api_db \<Rightarrow> 'w api_db \<Rightarrow> bool" where
  "same_on_identifiers db db' \<longleftrightarrow>
     a_new db = a_new db' \<and> a_close db = a_close db' \<and>
     (\<forall>opts. isValidIdentifier (RGO_Name opts) \<longrightarrow> a_create_group db opts = a_create_group db' opts \<and> a_alter_group db opts = a_alter_group db' opts) \<and>
     (\<forall>name. isValidIdentifier name \<longrightarrow> a_drop_group db name = a_drop_group db' name \<and> a_drop_queue db name = a_drop_queue db' name) \<and>
     (\<forall>role name. isValidIdentifier role \<longrightarrow> isValidIdentifier name \<longrightarrow> a_assign_group db role name = a_assign_group db' role name) \<and>
     (\<forall>opts. isValidIdentifier (RQO_Name opts) \<longrightarrow> a_create_queue db opts = a_create_queue db' opts)"

text \<open>The handlers that define, change or drop resource groups and queues.\<close>

definition ddl_handlers :: "('w api_env \<Rightarrow> 'w api_handler) list" where
  "ddl_handlers = [handleCreateResourceGroup, handleDeleteResourceGroup, handleUpdateResourceGroup, handleAssignResourceGroup,
     handleCreateResourceQueue, handleDeleteResourceQueue]"

lemma with_cluster_cong:
  assumes "ae_server e = ae_server e'" "\<And>c w. k c w = k' c w"
  shows "with_cluster e r k w = with_cluster e' r k' w"
  by (simp add: with_cluster_def assms split: prod.split sum.split)

lemma with_db_cong:
  assumes "ae_db e = Some db" "ae_db e' = Some db'" "a_new db = a_new db'" "a_close db = a_close db'" "\<And>w. k db w = k' db' w"
  shows "with_db e c u k w = with_db e' c u k' w"
  by (simp add: with_db_def assms split: prod.split sum.split)

lemma ddl_handler_cong:
  assumes "same_on_identifiers db db'" "h \<in> set ddl_handlers"
  shows "h (e\<lparr>ae_db := Some db\<rparr>) ctx r w = h (e\<lparr>ae_db := Some db'\<rparr>) ctx r w"
proof -
  have db: "a_new db = a_new db'" "a_close db = a_close db'"
    "isValidIdentifier n \<Longrightarrow> a_create_group db (group_options n req) = a_create_group db' (group_options n req)"
    "isValidIdentifier n \<Longrightarrow> a_alter_group db (group_options n req) = a_alter_group db' (group_options n req)"
    "isValidIdentifier n \<Longrightarrow> a_drop_group db n = a_drop_group db' n" "isValidIdentifier n \<Longrightarrow> a_drop_queue db n = a_drop_queue db' n"
    "isValidIdentifier role \<Longrightarrow> isValidIdentifier n \<Longrightarrow> a_assign_group db role n = a_assign_group db' role n"
    "isValidIdentifier n \<Longrightarrow> a_create_queue db (queue_options n req) = a_create_queue db' (queue_options n req)" for n role req
    using assms(1) by (auto simp: same_on_identifiers_def group_options_def queue_options_def)
  from assms(2) consider "h = handleCreateResourceGroup" | "h = handleDeleteResourceGroup" | "h = handleUpdateResourceGroup"
    | "h = handleAssignResourceGroup" | "h = handleCreateResourceQueue" | "h = handleDeleteResourceQueue"
    by (auto simp: ddl_handlers_def)
  then show ?thesis
    by cases (auto simp: handleCreateResourceGroup_def handleDeleteResourceGroup_def handleUpdateResourceGroup_def handleAssignResourceGroup_def
        handleCreateResourceQueue_def handleDeleteResourceQueue_def Let_def db intro!: with_cluster_cong with_db_cong split: option.split)
qed

section \<open>Properties\<close>

text \<open>
  C16. Only SQL identifiers reach the statements on resource groups and queues: two databases that
  behave alike on statements whose group, queue and role names are valid identifiers, and otherwise
  as they like, cannot be told apart through the six handlers that define, change, drop or assign
  resource groups and queues, whatever the path, the query and the body of the request.
\<close>

theorem sql_identifiers_safe:
  assumes "same_on_identifiers db db'" "h \<in> set ddl_handlers"
  shows "h (e\<lparr>ae_db := Some db\<rparr>) ctx r w = h (e\<lparr>ae_db := Some db'\<rparr>) ctx r w"
  using assms by (rule ddl_handler_cong)

section \<open>Samples\<close>

definition sample_limiter :: RateLimiter where
  "sample_limiter = NewRateLimiter 60 10"

definition empty_store :: store where
  "empty_store = \<lparr>srv_cluster = (\<lambda>_ _. None), srv_sts = (\<lambda>_ _. None), srv_jobs = (\<lambda>_ _. None), srv_pods = (\<lambda>_. []), srv_claims = (\<lambda>_. []),
     srv_db_error = (\<lambda>_. None), srv_mirror_sync = [], srv_log = [], srv_now = 0\<rparr>"

definition empty_world :: api_world where
  "empty_world = \<lparr>aw_store = empty_store, aw_rates = Map.empty, aw_creds = NewInMemoryCredentialStore, aw_secrets = (\<lambda>_ _. None), aw_keys = []\<rparr>"

definition stop_path :: "string list" where
  "stop_path = [''api'', ''v1alpha1'', ''clusters'', ''c'', ''stop'']"

text \<open>A request without credentials finds no provider, so the answer is the same whatever the handlers are.\<close>

theorem mutations_need_operator_witness:
  "\<forall>fn :: string \<Rightarrow> (Identity, int, api_world) http_handler.
     mux_ServeHTTP (aw_server plain_bcrypt sample_limiter) fn None (plain_request\<lparr>Req_Method := ''POST'', Req_Path := stop_path\<rparr>) empty_world =
     mux_ServeHTTP (aw_server plain_bcrypt sample_limiter) (\<lambda>_. report_level) None (plain_request\<lparr>Req_Method := ''POST'', Req_Path := stop_path\<rparr>) empty_world"
  using mutations_need_operator [where s = "aw_server plain_bcrypt sample_limiter" and m = "server_auth plain_bcrypt aw_creds None" and ctx = None and
      r = "plain_request\<lparr>Req_Method := ''POST'', Req_Path := stop_path\<rparr>" and fn = "\<lambda>_. report_level" and w = empty_world]
  by (simp add: mutating_def established_def resolveProvider_def plain_request_def)

theorem guests_only_read_witness:
  "\<forall>fn :: string \<Rightarrow> (Identity, int, api_world) http_handler.
     mux_ServeHTTP (aw_server plain_bcrypt sample_limiter) fn None (plain_request\<lparr>Req_Method := ''DELETE'', Req_Path := butlast stop_path\<rparr>) empty_world =
     mux_ServeHTTP (aw_server plain_bcrypt sample_limiter) (\<lambda>_. report_level) None (plain_request\<lparr>Req_Method := ''DELETE'', Req_Path := butlast stop_path\<rparr>) empty_world"
  using guests_only_read [where s = "aw_server plain_bcrypt sample_limiter" and m = "server_auth plain_bcrypt aw_creds None" and ctx = None and
      r = "plain_request\<lparr>Req_Method := ''DELETE'', Req_Path := butlast stop_path\<rparr>" and fn = "\<lambda>_. report_level" and w = empty_world]
  by (simp add: plain_request_def)

text \<open>A database that does as it should for identifiers, and \<open>k\<close> for any other text.\<close>

definition sample_db :: "(api_world \<Rightarrow> api_world) \<Rightarrow> api_world api_db" where
  "sample_db k = (let run = (\<lambda>name w. (None, if isValidIdentifier name then w else k w)) in
     \<lparr>a_new = (\<lambda>c w. (Inr (), w)), a_cancel = (\<lambda>pid w. (Inr True, w)), a_terminate = (\<lambda>pid w. (Inr True, w)),
      a_list_groups = (\<lambda>w. (Inr [], w)), a_create_group = (\<lambda>opts. run (RGO_Name opts)), a_alter_group = (\<lambda>opts. run (RGO_Name opts)),
      a_drop_group = run, a_assign_group = (\<lambda>role name w. case run role w of (_, w1) \<Rightarrow> run name w1),
      a_list_queues = (\<lambda>w. (Inr [], w)), a_create_queue = (\<lambda>opts. run (RQO_Name opts)), a_drop_queue = run, a_close = id\<rparr>)"

theorem sql_identifiers_safe_witness:
  "handleDeleteResourceGroup ((aw_env plain_bcrypt sample_limiter None [])\<lparr>ae_db := Some (sample_db id)\<rparr>) None
      (plain_request\<lparr>Req_PathValues := [(''name'', ''c''), (''groupName'', ''g; DROP TABLE t'')]\<rparr>) empty_world =
   handleDeleteResourceGroup ((aw_env plain_bcrypt sample_limiter None [])\<lparr>ae_db := Some (sample_db (aw_keys_update (\<lambda>_. [])))\<rparr>) None
      (plain_request\<lparr>Req_PathValues := [(''name'', ''c''), (''groupName'', ''g; DROP TABLE t'')]\<rparr>) empty_world"
  by (rule sql_identifiers_safe) (auto simp: same_on_identifiers_def sample_db_def Let_def ddl_handlers_def)

end
