(* ===== verification/ApiStack.thy ===== *)
theory ApiStack
  imports ApiTheorems ScaleProperties
begin

text \<open>
  From the network to the StatefulSets: a request of the REST server passes the rate limiter, the
  authentication and the permission check, its handler annotates the cluster, and the controller acts
  on the annotation.
\<close>

section \<open>Routing\<close>

definition lits :: "string \<Rightarrow> (pattern_seg list \<times> 'h) list \<Rightarrow> (pattern_seg list \<times> 'h) list" where
  "lits s rs = List.map_filter (\<lambda>(p, h). case p of Lit l # p' \<Rightarrow> if l = s then Some (p', h) else None | _ \<Rightarrow> None) rs"

definition wilds :: "(pattern_seg list \<times> 'h) list \<Rightarrow> (pattern_seg list \<times> 'h) list" where
  "wilds rs = List.map_filter (\<lambda>(p, h). case p of Wild _ # p' \<Rightarrow> Some (p', h) | _ \<Rightarrow> None) rs"

text \<open>No pattern goes on with a literal.\<close>

definition no_lits :: "(pattern_seg list \<times> 'h) list \<Rightarrow> bool" where
  "no_lits rs = list_all (\<lambda>(p, h). case p of Lit _ # _ \<Rightarrow> False | _ \<Rightarrow> True) rs"

lemma match_path_Nil [simp]: "match_path [] ss = None"
  by (induction ss) (simp_all add: List.map_filter_simps)

lemma no_lits_empty: "no_lits rs \<Longrightarrow> lits s rs = []"
  by (induction rs) (auto simp: no_lits_def lits_def List.map_filter_simps split: list.splits pattern_seg.splits)

lemma match_lit: "match_path (lits s rs) ss = Some m \<Longrightarrow> match_path rs (s # ss) = Some m"
  by (simp add: lits_def)

lemma match_wild: "no_lits rs \<Longrightarrow> s \<noteq> [] \<Longrightarrow> match_path (wilds rs) ss = Some (h, vs) \<Longrightarrow> match_path rs (s # ss) = Some (h, s # vs)"
  using no_lits_empty [of rs s] by (simp add: lits_def wilds_def)

text \<open>The routes below one cluster.\<close>

definition below_cluster :: "string \<Rightarrow> (pattern_seg list \<times> ApiRoutes.route) list" where
  "below_cluster method = lits ''clusters'' (lits ''v1alpha1'' (lits ''api'' (routes_of registerRoutes method)))"

lemma match_cluster:
  assumes "no_lits (below_cluster method)" "n \<noteq> []" "match_path (wilds (below_cluster method)) ss = Some (rt, vs)"
  shows "mux_match registerRoutes method (''api'' # ''v1alpha1'' # ''clusters'' # n # ss) = Some (rt, n # vs)"
proof -
  have "match_path (below_cluster method) (n # ss) = Some (rt, n # vs)" using assms by (rule match_wild)
  then show ?thesis unfolding mux_match_def below_cluster_def by (simp only: match_lit option.case)
qed

text \<open>The lifecycle requests: method POST, permission of an operator, the cluster as the only wildcard.\<close>

definition lifecycle_route :: "string \<Rightarrow> string \<Rightarrow> bool" where
  "lifecycle_route verb name \<longleftrightarrow> no_lits (below_cluster ''POST'') \<and>
     match_path (wilds (below_cluster ''POST'')) [verb] =
       Some ((''POST'', api (''/clusters/{name}/'' @ verb), With_Auth PermissionOperator, name), []) \<and>
     wild_names (parse_pattern (api (''/clusters/{name}/'' @ verb))) = [''name''] \<and> verb \<noteq> ''.'' \<and> verb \<noteq> ''..''"

lemma lifecycle_routes:
  "lifecycle_route ''stop'' ''handleStopCluster''" "lifecycle_route ''start'' ''handleStartCluster''" "lifecycle_route ''restart'' ''handleRestartCluster''"
  by code_simp+

lemma dns_label_segment: "dns_label n \<Longrightarrow> n \<noteq> [] \<and> n \<noteq> ''.'' \<and> n \<noteq> ''..''"
  by (auto simp: dns_label_def name_char_def)

lemma dns_label_valid: "dns_label n \<Longrightarrow> isValidDNS1123Name n"
proof -
  assume n: "dns_label n"
  then have "list_all (\<lambda>c. lower_alnum c \<or> c = CHR ''-'') n" "n \<noteq> []" "hd n \<noteq> CHR ''-''" "last n \<noteq> CHR ''-''"
    by (auto simp: dns_label_def name_char_def lower_alnum_def is_digit_def list_all_iff Let_def)
  then show ?thesis using n unfolding isValidDNS1123Name_def list_all_iff by (auto simp: dns_label_def)
qed

lemma serve_lifecycle:
  assumes "lifecycle_route verb name" "dns_label n" "Req_Method req = ''POST''"
    "Req_Path req = [''api'', ''v1alpha1'', ''clusters'', n, verb]"
  shows "mux_ServeHTTP s fn ctx req w = withAuth s (withPermission PermissionOperator (fn name)) ctx (req\<lparr>Req_PathValues := [(''name'', n)]\<rparr>) w"
proof -
  have "clean_path (Req_Path req)" using assms dns_label_segment [OF assms(2)] by (simp add: clean_path_def lifecycle_route_def)
  moreover have "mux_match registerRoutes (Req_Method req) (Req_Path req) =
      Some ((''POST'', api (''/clusters/{name}/'' @ verb), With_Auth PermissionOperator, name), [n])"
    using assms dns_label_segment [OF assms(2)] unfolding lifecycle_route_def assms(3,4) by (intro match_cluster) auto
  ultimately show ?thesis using assms(1) by (simp add: mux_ServeHTTP_def wrapped_def lifecycle_route_def)
qed

section \<open>The stack\<close>

text \<open>The store knows the user, the password is his, and his level is at least \<open>level\<close>.\<close>

definition known :: "'w bcrypt \<Rightarrow> InMemoryCredentialStore \<Rightarrow> PermissionLevel \<Rightarrow> string \<Rightarrow> string \<Rightarrow> bool" where
  "known bc st level u p \<longleftrightarrow> CHR '':'' \<notin> set u \<and> GetPassword st u \<noteq> [] \<and>
     CompareHashAndPassword bc (GetPassword st u) p \<and> level \<le> GetPermissionLevel st u"

text \<open>The rate limiter lets the request pass.\<close>

definition admitted :: "'w Server \<Rightarrow> request \<Rightarrow> 'w \<Rightarrow> bool" where
  "admitted s req w = fst (Allow (as_rateLimiter s) (rw_now (as_rate s) w) (extractClientIP (as_rateLimiter s) req) (rw_entries (as_rate s) w))"

text \<open>
  A healthy API server under a REST server that authenticates with Basic over a store in memory: the
  limiter keeps its buckets apart from the objects and the credentials.
\<close>

locale api_stack = healthy_api r sts_of cluster_of writes_of
  for r :: "'w reconciler" and sts_of :: "'w \<Rightarrow> string \<Rightarrow> string \<Rightarrow> StatefulSet option"
    and cluster_of :: "'w \<Rightarrow> string \<Rightarrow> string \<Rightarrow> CloudberryCluster option" and writes_of :: "'w \<Rightarrow> (string \<times> int32 option) list" +
  fixes s :: "'w Server" and bc :: "'w bcrypt" and store_of :: "'w \<Rightarrow> InMemoryCredentialStore" and oidc :: "'w OIDCProvider option"
  assumes kube: "as_kube s = r_client r"
    and auth: "as_authMW s = Some (server_auth bc store_of oidc)"
    and buckets: "sts_of (rw_set (as_rate s) es w) = sts_of w" "cluster_of (rw_set (as_rate s) es w) = cluster_of w"
      "writes_of (rw_set (as_rate s) es w) = writes_of w" "store_of (rw_set (as_rate s) es w) = store_of w"
begin

lemma authorized_runs:
  assumes "known bc (store_of w) level u p" "admitted s (SetBasicAuth u p req) w"
  shows "\<exists>i es. withAuth s (withPermission level h) ctx (SetBasicAuth u p req) w = h (Some i) (SetBasicAuth u p req) (rw_set (as_rate s) es w)"
proof -
  let ?m = "server_auth bc store_of oidc" and ?r = "SetBasicAuth u p req"
  obtain es where es: "Allow (as_rateLimiter s) (rw_now (as_rate s) w) (extractClientIP (as_rateLimiter s) ?r) (rw_entries (as_rate s) w) = (True, es)"
    using assms(2) by (metis admitted_def prod.collapse)
  have "resolveProvider ?m ?r = Inr (basic_Authenticate bc (memory_store store_of))"
    by (simp add: resolveProvider_def SetBasicAuth_def server_auth_def Let_def HasPrefix_def)
  moreover have "BasicAuth ?r = Some (u, p)" using assms(1) by (intro BasicAuth_SetBasicAuth) (simp add: known_def)
  ultimately show ?thesis using assms(1) es
    by (auto simp: withAuth_def withPermission_def auth rate_Middleware_def auth_Handler_def basic_Authenticate_def memory_store_def
        RequirePermission_def known_def buckets)
qed

lemma annotates:
  assumes "cluster_of w ns n = Some c" "dns_label n" "isValidDNS1123Name ns" "ae_server e = s"
    "PathValue req ''name'' = n" "Req_Query req ''namespace'' = ns"
  shows "\<exists>w1. setClusterAnnotation e action ctx req w = (answer StatusAccepted [(''status'', V_Str (action @ '' initiated''))], w1) \<and>
    cluster_of w1 = (cluster_of w)(ns := (cluster_of w ns)(n \<mapsto> c\<lparr>CC_Annotations := (CC_Annotations c)(AnnotationAction \<mapsto> action)\<rparr>)) \<and>
    sts_of w1 = sts_of w \<and> writes_of w1 = writes_of w"
proof -
  have "getCluster s n ns w = (Inr c, w)"
    using assms(1,3) dns_label_valid [OF assms(2)] by (auto simp: getCluster_def kube get_cluster isValidDNS1123Name_def)
  moreover have "CC_Namespace c = ns" "CC_Name c = n" using cluster_key [OF assms(1)] by auto
  ultimately show ?thesis using patch_annotation [OF assms(1), of AnnotationAction "Some action"] assms(4-6)
    by (auto simp: setClusterAnnotation_def with_cluster_def patchClusterAnnotation_def kube)
qed

lemma lifecycle_request:
  assumes "cluster_of w ns n = Some c" "dns_label n" "isValidDNS1123Name ns" "ae_server e = s"
    "lifecycle_route verb name" "fn name = setClusterAnnotation e verb"
    "known bc (store_of w) PermissionOperator u p" "admitted s (SetBasicAuth u p req) w"
    "Req_Method req = ''POST''" "Req_Path req = [''api'', ''v1alpha1'', ''clusters'', n, verb]" "Req_Query req ''namespace'' = ns"
  shows "\<exists>resp w1. server_Handler s fn (SetBasicAuth u p req) w = (resp, w1) \<and> Resp_Status resp = StatusAccepted \<and>
    cluster_of w1 = (cluster_of w)(ns := (cluster_of w ns)(n \<mapsto> c\<lparr>CC_Annotations := (CC_Annotations c)(AnnotationAction \<mapsto> verb)\<rparr>)) \<and>
    sts_of w1 = sts_of w \<and> writes_of w1 = writes_of w"
proof -
  let ?req = "req\<lparr>Req_PathValues := [(''name'', n)]\<rparr>"
  have req: "(SetBasicAuth u p req)\<lparr>Req_PathValues := [(''name'', n)]\<rparr> = SetBasicAuth u p ?req" "Req_Method (SetBasicAuth u p req) = ''POST''"
    "Req_Path (SetBasicAuth u p req) = [''api'', ''v1alpha1'', ''clusters'', n, verb]"
    "PathValue (SetBasicAuth u p ?req) ''name'' = n" "Req_Query (SetBasicAuth u p ?req) ''namespace'' = ns"
    using assms(9-11) by (simp_all add: SetBasicAuth_def PathValue_def)
  have "admitted s (SetBasicAuth u p ?req) w"
    using assms(8) by (simp add: admitted_def extractClientIP_def SetBasicAuth_def)
  from authorized_runs [OF assms(7) this, where h = "fn name" and ctx = None] obtain i es where
    run: "withAuth s (withPermission PermissionOperator (fn name)) None (SetBasicAuth u p ?req) w = fn name (Some i) (SetBasicAuth u p ?req) (rw_set (as_rate s) es w)"
    by blast
  have "cluster_of (rw_set (as_rate s) es w) ns n = Some c" by (simp add: buckets assms(1))
  from annotates [OF this assms(2-4) req(4,5), where action = verb and ctx = "Some i"] obtain w1 where
    w1: "fn name (Some i) (SetBasicAuth u p ?req) (rw_set (as_rate s) es w) = (answer StatusAccepted [(''status'', V_Str (verb @ '' initiated''))], w1)"
    "cluster_of w1 = (cluster_of w)(ns := (cluster_of w ns)(n \<mapsto> c\<lparr>CC_Annotations := (CC_Annotations c)(AnnotationAction \<mapsto> verb)\<rparr>))"
    "sts_of w1 = sts_of w" "writes_of w1 = writes_of w"
    by (auto simp: assms(6) buckets)
  have "mux_ServeHTTP s fn None (SetBasicAuth u p req) w = (answer StatusAccepted [(''status'', V_Str (verb @ '' initiated''))], w1)"
    using serve_lifecycle [OF assms(5,2) req(2,3), of s fn None w] by (simp add: req(1) run w1(1))
  then show ?thesis using w1(2-4) by (simp add: server_Handler_def SecurityHeaders_def answer_def body_response_def)
qed

end

interpretation aws: api_stack aw_reconciler aw_sts aw_cluster aw_writes "aw_server bc rl" bc aw_creds None for bc :: "api_world bcrypt" and rl
  by unfold_locales (simp_all add: aw_defs aw_rate_def)

section \<open>Properties\<close>

text \<open>
  C4. A stop from the network to the StatefulSets: when an operator with valid credentials, whom the
  rate limiter admits, posts to the stop route of a cluster on a healthy API server, the answer is 202,
  and the next reconciliation asks every StatefulSet of the cluster for zero pods, in the order mirrors,
  primaries, standby, coordinator, writes nothing else, and takes the request off the cluster.
\<close>

theorem api_stop_scales_down:
  assumes "api_stack r sts_of cluster_of writes_of s bc store_of oidc"
    and "cluster_of w ns n = Some c" "CC_DeletionTimestamp c = None" "dns_label n" "length n \<le> 43" "isValidDNS1123Name ns"
    and "ae_server e = s" "fn ''handleStopCluster'' = handleStopCluster e"
    and "known bc (store_of w) PermissionOperator u p" "admitted s (SetBasicAuth u p req) w"
    and "Req_Method req = ''POST''" "Req_Path req = [''api'', ''v1alpha1'', ''clusters'', n, ''stop'']" "Req_Query req ''namespace'' = ns"
  shows "\<exists>resp w1 res w' c'. server_Handler s fn (SetBasicAuth u p req) w = (resp, w1) \<and> Resp_Status resp = StatusAccepted \<and>
    Reconcile r fs ns n w1 = (Inr res, w') \<and> (\<forall>m \<in> set (component_order c). \<not> below_scale 0 (sts_of w' ns m)) \<and>
    writes_of w' = writes_of w @ map (\<lambda>m. (m, Some 0)) (filter (\<lambda>m. below_scale 0 (sts_of w ns m)) (component_order c)) \<and>
    cluster_of w' ns n = Some c' \<and> CC_Annotations c' AnnotationAction = None"
proof -
  let ?c = "c\<lparr>CC_Annotations := (CC_Annotations c)(AnnotationAction \<mapsto> ''stop'')\<rparr>"
  have healthy: "healthy_api r sts_of cluster_of writes_of" using assms(1) by (simp add: api_stack_def)
  have key: "CC_Namespace c = ns" "CC_Name c = n" using healthy_api.cluster_key [OF healthy assms(2)] by auto
  have "fn ''handleStopCluster'' = setClusterAnnotation e ''stop''" by (simp add: assms(8) handleStopCluster_def)
  from api_stack.lifecycle_request [where fn = fn and name = "''handleStopCluster''" and w = w, OF assms(1,2,4,6,7) lifecycle_routes(1) this assms(9-13)] obtain resp w1 where
    w1: "server_Handler s fn (SetBasicAuth u p req) w = (resp, w1)" "Resp_Status resp = StatusAccepted"
    "cluster_of w1 ns n = Some ?c" "sts_of w1 = sts_of w" "writes_of w1 = writes_of w" by auto
  have "getScaleDownOrder ?c = component_order c" by (simp add: down_order component_order_def mirrors_on_def standby_on_def)
  moreover have "distinct (getScaleDownOrder ?c)" using assms(4,5) key by (intro down_order_distinct) simp_all
  ultimately show ?thesis
    using healthy_api.stop_action_healthy [OF healthy, of w1 ?c ?c ActionStop "reconcileCluster r fs"] key w1
      healthy_api.reconcile_action [OF healthy w1(3), of ActionStop fs] assms(3) by auto
qed

section \<open>Samples\<close>

definition stop_world :: api_world where
  "stop_world = \<lparr>aw_store = sample_store base_cluster 4 [], aw_rates = Map.empty,
     aw_creds = fst (SetCredentials plain_bcrypt ''op'' ''pw'' PermissionOperator NewInMemoryCredentialStore ()), aw_secrets = (\<lambda>_ _. None), aw_keys = [(''ns'', ''c'')]\<rparr>"

definition stop_request :: request where
  "stop_request = plain_request\<lparr>Req_Method := ''POST'', Req_Path := [''api'', ''v1alpha1'', ''clusters'', ''c'', ''stop''], Req_Query := (\<lambda>_. ''ns'')\<rparr>"

lemma stop_world_simps:
  "aw_cluster stop_world ''ns'' ''c'' = Some base_cluster" "aw_writes stop_world = []"
  "map_option Sts_Replicas (aw_sts stop_world ''ns'' ''c-segment-primary'') = Some (Some 4)"
  "map_option Sts_Replicas (aw_sts stop_world ''ns'' ''c-coordinator'') = Some (Some 1)"
  by (simp_all add: stop_world_def aw_cluster_def aw_sts_def aw_writes_def srv_cluster_view_def srv_sts_view_def srv_writes_def base_cluster_def)
    (simp_all add: sample_store_def ScaleProperties.sample_sts_def StatefulSet.defs)

lemma stop_world_scale: "below_scale 0 (aw_sts stop_world ''ns'' ''c-segment-primary'')" "below_scale 0 (aw_sts stop_world ''ns'' ''c-coordinator'')"
  using stop_world_simps(3,4) by (auto simp: below_scale_def)

lemma stop_admitted: "admitted (aw_server plain_bcrypt sample_limiter) req stop_world"
  by (simp add: admitted_def aw_rate_def Allow_def stop_world_def)

lemma stop_known: "known (plain_bcrypt :: api_world bcrypt) (aw_creds stop_world) PermissionOperator ''op'' ''pw''"
  by (simp add: known_def stop_world_def SetCredentials_def plain_bcrypt_def GetPassword_def GetPermissionLevel_def NewInMemoryCredentialStore_def NewInMemoryCredentialStoreWithCost_def)

theorem api_stop_scales_down_witness:
  "\<exists>resp w1 res w'. server_Handler (aw_server plain_bcrypt sample_limiter) (\<lambda>_. handleStopCluster (aw_env plain_bcrypt sample_limiter None []))
       (SetBasicAuth ''op'' ''pw'' stop_request) stop_world = (resp, w1) \<and> Resp_Status resp = StatusAccepted \<and>
     Reconcile aw_reconciler sample_flows ''ns'' ''c'' w1 = (Inr res, w') \<and> aw_writes w' = [(''c-segment-primary'', Some 0), (''c-coordinator'', Some 0)]"
proof -
  have "component_order base_cluster = [''c-segment-primary'', ''c-coordinator'']" using sample_simps(1) [of base_cluster] by (simp add: down_order base_cluster_def)
  moreover have "isValidDNS1123Name ''ns''" by code_simp
  ultimately show ?thesis
    using api_stop_scales_down [where fs = sample_flows and fn = "\<lambda>_. handleStopCluster (aw_env plain_bcrypt sample_limiter None [])" and e = "aw_env plain_bcrypt sample_limiter None []" and w = stop_world and req = stop_request,
        OF aws.api_stack_axioms stop_world_simps(1) _ sample_label _ _ _ _ stop_known stop_admitted]
    by (auto simp: stop_world_scale stop_world_simps(2) stop_request_def base_cluster_def)
qed

end
