(* ===== verification/ApiRules.thy ===== *)
theory ApiRules
  imports Admission ApiStack
begin

text \<open>
  The workload rules of a cluster as a finite map from names to rules: whatever other writers do
  between the calls of a handler, creating, updating and deleting a rule acts on the rules stored at
  the instant of its write, and on nothing else of the cluster, or writes nothing.
\<close>

section \<open>Specification\<close>

datatype rule_op = Create_Rule WorkloadRule | Update_Rule string "(string \<times> json) list" | Delete_Rule string

definition rule_change :: "rule_op \<Rightarrow> (string \<rightharpoonup> WorkloadRule) \<Rightarrow> (string \<rightharpoonup> WorkloadRule) \<Rightarrow> bool" where
  "rule_change op m m' =
     (case op of
        Create_Rule rule \<Rightarrow> m (WR_Name rule) = None \<and> m' = m(WR_Name rule \<mapsto> rule)
      | Update_Rule name updates \<Rightarrow> \<exists>old. m name = Some old \<and> m' = m(name \<mapsto> applyWorkloadRuleUpdates updates old)
      | Delete_Rule name \<Rightarrow> m' = m(name := None))"

definition success_status :: "rule_op \<Rightarrow> int" where
  "success_status op = (case op of Create_Rule _ \<Rightarrow> 201 | _ \<Rightarrow> 200)"

text \<open>The operation a request asks of a handler; none when the name or the body is not valid.\<close>

definition create_op :: "request \<Rightarrow> rule_op option" where
  "create_op r = (case decode_struct rule_fields r of None \<Rightarrow> None
     | Some req \<Rightarrow> if isValidIdentifier (str_of req ''name'') then Some (Create_Rule (rule_of req)) else None)"

definition update_op :: "request \<Rightarrow> rule_op option" where
  "update_op r = (if isValidIdentifier (PathValue r ''ruleName'') then map_option (Update_Rule (PathValue r ''ruleName'')) (decode_map r) else None)"

definition delete_op :: "request \<Rightarrow> rule_op option" where
  "delete_op r = (if isValidIdentifier (PathValue r ''ruleName'') then Some (Delete_Rule (PathValue r ''ruleName'')) else None)"

definition rule_handlers :: "(('w api_env \<Rightarrow> 'w api_handler) \<times> (request \<Rightarrow> rule_op option)) list" where
  "rule_handlers = [(handleCreateWorkloadRule, create_op), (handleUpdateWorkloadRule, update_op), (handleDeleteWorkloadRule, delete_op)]"

section \<open>Lists of rules\<close>

definition rules_map :: "WorkloadRule list \<Rightarrow> string \<rightharpoonup> WorkloadRule" where
  "rules_map rs = map_of (map (\<lambda>rule. (WR_Name rule, rule)) rs)"

lemma rules_map_simps [simp]: "rules_map [] = Map.empty" "rules_map (rule # rs) = (rules_map rs)(WR_Name rule \<mapsto> rule)"
  by (simp_all add: rules_map_def)

lemma rules_map_dom: "rules_map rs name \<noteq> None \<longleftrightarrow> name \<in> WR_Name ` set rs"
  by (induction rs) auto

lemma rules_map_None: "rules_map rs name = None \<longleftrightarrow> name \<notin> WR_Name ` set rs"
  using rules_map_dom by metis

lemma has_rule_map: "has_rule name c \<longleftrightarrow> rules_map (cluster_rules c) name \<noteq> None"
  unfolding rules_map_dom has_rule_def list_ex_iff by (simp add: image_iff) metis

lemma rules_map_append: "name \<notin> WR_Name ` set rs \<Longrightarrow> WR_Name rule = name \<Longrightarrow> rules_map (rs @ [rule]) = (rules_map rs)(name \<mapsto> rule)"
  by (induction rs) (auto simp: fun_upd_twist)

lemma applyWorkloadRuleUpdates_name [simp]: "WR_Name (applyWorkloadRuleUpdates updates rule) = WR_Name rule"
  by (simp add: applyWorkloadRuleUpdates_def)

lemma update_rule_names [simp]: "map WR_Name (update_rule name (applyWorkloadRuleUpdates updates) rs) = map WR_Name rs"
  by (induction rs) auto

lemma rules_map_update:
  "rules_map rs name = Some old \<Longrightarrow> rules_map (update_rule name (applyWorkloadRuleUpdates updates) rs) = (rules_map rs)(name \<mapsto> applyWorkloadRuleUpdates updates old)"
  by (induction rs) (auto simp: fun_upd_twist)

lemma rules_map_remove: "distinct (map WR_Name rs) \<Longrightarrow> rules_map (remove_rule name rs) = (rules_map rs)(name := None)"
proof (induction rs)
  case (Cons rule rs)
  have "rules_map rs name = None" if "WR_Name rule = name" using Cons.prems that by (auto simp: rules_map_None)
  then show ?case using Cons by (auto simp: fun_upd_twist fun_upd_idem)
qed simp

lemma remove_rule_names: "distinct (map WR_Name rs) \<Longrightarrow> distinct (map WR_Name (remove_rule name rs)) \<and> set (remove_rule name rs) \<subseteq> set rs"
  by (induction rs) auto

lemma with_rules_simps [simp]: "cluster_rules (with_rules rs c) = rs" "CC_Namespace (with_rules rs c) = CC_Namespace c" "CC_Name (with_rules rs c) = CC_Name c"
  by (simp_all add: with_rules_def cluster_rules_def)

lemma cluster_rules_cong: "CC_Spec c = CC_Spec d \<Longrightarrow> cluster_rules c = cluster_rules d"
  by (simp add: cluster_rules_def)

lemma decode_name: "isValidIdentifier (str_of req ''name'') \<Longrightarrow> str_of req ''name'' \<noteq> []"
  by (auto simp: isValidIdentifier_def)

lemma cluster_rules_defaults [simp]: "cluster_rules (setClusterDefaults c) = cluster_rules c"
  by (simp add: cluster_rules_def setWorkloadDefaults_def split: option.split)

section \<open>A cluster among other writers\<close>

text \<open>
  What the server stores for an object it was sent: its spec as it is, or with the defaults the mutating
  webhook fills in.
\<close>

definition stores :: "CloudberryCluster \<Rightarrow> CloudberryCluster \<Rightarrow> bool" where
  "stores sent c \<longleftrightarrow> CC_Namespace c = CC_Namespace sent \<and> CC_Name c = CC_Name sent \<and>
     (CC_Spec c = CC_Spec sent \<or> CC_Spec c = CC_Spec (setClusterDefaults sent))"

text \<open>
  A write made of the object \<open>read\<close>: at some instant that object is still the stored one, and the
  object sent is put in its place.
\<close>

definition committed ::
  "('w \<Rightarrow> CloudberryCluster option) \<Rightarrow> (CloudberryCluster \<Rightarrow> 'w \<Rightarrow> 'w) \<Rightarrow> ('w \<Rightarrow> 'w \<Rightarrow> bool) \<Rightarrow>
   CloudberryCluster \<Rightarrow> CloudberryCluster \<Rightarrow> 'w \<Rightarrow> 'w \<Rightarrow> bool" where
  "committed cluster_of put others read sent w w' \<longleftrightarrow>
     (\<exists>w1 c. others w w1 \<and> cluster_of w1 = Some read \<and> stores sent c \<and> others (put c w1) w')"

text \<open>
  What a rule request may have done when it is answered. Either nothing was written, and the status
  is an error; a refusal as a duplicate rests on an object the server delivered, which has the rule.
  Or there is one write of this cluster: the object stored at that instant is replaced by one that differs
  in its rules only, in the way the operation says (where the names of its rules are distinct);
  the status is that of success, or 500 when the server's answer to the write was lost.
\<close>

definition rule_outcome ::
  "('w \<Rightarrow> CloudberryCluster option) \<Rightarrow> ('w \<Rightarrow> CloudberryCluster option) \<Rightarrow> (CloudberryCluster \<Rightarrow> 'w \<Rightarrow> 'w) \<Rightarrow>
   ('w \<Rightarrow> 'w \<Rightarrow> bool) \<Rightarrow> rule_op option \<Rightarrow> int \<Rightarrow> 'w \<Rightarrow> 'w \<Rightarrow> bool" where
  "rule_outcome cluster_of base put others op status w w' \<longleftrightarrow>
     others w w' \<and> status \<in> {400, 404, 500} \<and>
       (\<forall>rule. op = Some (Create_Rule rule) \<and> status = 400 \<longrightarrow>
          (\<exists>v c. others w v \<and> base v = Some c \<and> has_rule (WR_Name rule) c)) \<or>
     (\<exists>o' w1 c1 sent c. op = Some o' \<and> status \<in> {success_status o', 500} \<and>
        others w w1 \<and> cluster_of w1 = Some c1 \<and> (sent = c1 \<or> (\<exists>rs. sent = with_rules rs c1)) \<and> stores sent c \<and>
        (distinct (map WR_Name (cluster_rules c1)) \<longrightarrow>
           rule_change o' (rules_map (cluster_rules c1)) (rules_map (cluster_rules c))) \<and>
        others (put c w1) w')"

lemma stores_rules: "stores sent c \<Longrightarrow> cluster_rules c = cluster_rules sent"
  using cluster_rules_cong [of c sent] cluster_rules_cong [of c "setClusterDefaults sent"] by (auto simp: stores_def)

text \<open>
  The contract of the API server for one cluster. \<open>others\<close> is what writers other than this handler can
  do to the world, during any call. A read delivers an object, perhaps an old one from a cache; \<open>base\<close>
  is the object last delivered, whose resource version the handler's writes carry. An accepted update
  replaces that very object; a conflict writes nothing; any other error of an update leaves open
  whether it was stored.
\<close>

locale rule_store =
  fixes e :: "'w api_env" and ns n :: string and cluster_of base :: "'w \<Rightarrow> CloudberryCluster option"
    and put :: "CloudberryCluster \<Rightarrow> 'w \<Rightarrow> 'w" and others :: "'w \<Rightarrow> 'w \<Rightarrow> bool"
  assumes others_refl: "others w w"
    and others_trans: "others w w1 \<Longrightarrow> others w1 w2 \<Longrightarrow> others w w2"
    and put: "CC_Namespace c = ns \<Longrightarrow> CC_Name c = n \<Longrightarrow> cluster_of (put c w) = Some c"
    and get: "k_get_cluster (as_kube (ae_server e)) ns n w = (res, w1) \<Longrightarrow> others w w1"
    and get_base: "k_get_cluster (as_kube (ae_server e)) ns n w = (Inr c, w1) \<Longrightarrow> base w1 = Some c \<and> CC_Namespace c = ns \<and> CC_Name c = n"
    and update: "base w = Some c \<Longrightarrow> CC_Namespace d = ns \<Longrightarrow> CC_Name d = n \<Longrightarrow> ae_update e d w = (Inr c', w') \<Longrightarrow>
      committed cluster_of put others c d w w'"
    and conflict: "ae_update e d w = (Inl (Conflict msg), w') \<Longrightarrow> others w w'"
    and failure: "base w = Some c \<Longrightarrow> CC_Namespace d = ns \<Longrightarrow> CC_Name d = n \<Longrightarrow> ae_update e d w = (Inl (Update_Failed msg), w') \<Longrightarrow>
      others w w' \<or> committed cluster_of put others c d w w'"
begin

abbreviation commits :: "CloudberryCluster \<Rightarrow> CloudberryCluster \<Rightarrow> 'w \<Rightarrow> 'w \<Rightarrow> bool" where
  "commits \<equiv> committed cluster_of put others"

definition acts :: "(CloudberryCluster \<Rightarrow> 'x + CloudberryCluster) \<Rightarrow> 'w \<Rightarrow> 'w \<Rightarrow> bool" where
  "acts mutate w w' \<longleftrightarrow> (\<exists>c sent. mutate c = Inr sent \<and> commits c sent w w')"

definition gives_up :: "(CloudberryCluster \<Rightarrow> 'x + CloudberryCluster) \<Rightarrow> 'w \<Rightarrow> 'w \<Rightarrow> bool" where
  "gives_up mutate w w' \<longleftrightarrow> others w w' \<and> (\<exists>c x. base w' = Some c \<and> mutate c = Inl x)"

definition retried :: "(CloudberryCluster \<Rightarrow> 'x + CloudberryCluster) \<Rightarrow> 'w \<Rightarrow> ('x retry_error + CloudberryCluster \<times> CloudberryCluster) \<Rightarrow> 'w \<Rightarrow> bool" where
  "retried mutate w res w' = (case res of Inr _ \<Rightarrow> acts mutate w w' | Inl (Mutate_Error x) \<Rightarrow> gives_up mutate w w'
     | Inl (Conflict_Error _) \<Rightarrow> others w w' | Inl (Retry_Error _) \<Rightarrow> others w w' \<or> acts mutate w w')"

lemma committed_later: "\<lbrakk>others w w1; commits c d w1 w'\<rbrakk> \<Longrightarrow> commits c d w w'"
  unfolding committed_def using others_trans by blast

lemma later: "\<lbrakk>others w w1; retried mutate w1 res w'\<rbrakk> \<Longrightarrow> retried mutate w res w'"
  unfolding retried_def acts_def gives_up_def
  by (auto split: sum.splits retry_error.splits intro: others_trans committed_later)

lemma sent_update:
  assumes "base w = Some latest" "mutate latest = Inr sent" "CC_Namespace sent = ns" "CC_Name sent = n"
  shows "retried mutate w
    (case fst (ae_update e sent w) of Inr st \<Rightarrow> Inr (sent, st) | Inl (Update_Failed msg) \<Rightarrow> Inl (Retry_Error msg)
     | Inl (Conflict msg) \<Rightarrow> Inl (Conflict_Error msg)) (snd (ae_update e sent w))"
proof (cases "ae_update e sent w")
  case (Pair res w')
  then show ?thesis
    using update [OF assms(1,3,4)] failure [OF assms(1,3,4)] conflict [of sent w] assms(2)
    by (auto simp: retried_def acts_def split: sum.splits update_error.splits)
qed

lemma attempt:
  assumes "CC_Namespace c = ns" "CC_Name c = n" "\<And>l l'. mutate l = Inr l' \<Longrightarrow> CC_Namespace l' = CC_Namespace l \<and> CC_Name l' = CC_Name l"
    "update_attempt e c mutate w = (res, w')"
  shows "retried mutate w res w'"
proof (cases "k_get_cluster (as_kube (ae_server e)) ns n w")
  case (Pair got w1)
  then have o: "others w w1" by (rule get)
  show ?thesis
  proof (cases got)
    case (Inl err)
    then show ?thesis using assms o Pair by (auto simp: update_attempt_def retried_def)
  next
    case (Inr latest)
    then have l: "base w1 = Some latest" "CC_Namespace latest = ns" "CC_Name latest = n" using get_base Pair by auto
    show ?thesis
    proof (cases "mutate latest")
      case (Inl x)
      then show ?thesis using assms o l Pair Inr by (auto simp: update_attempt_def retried_def gives_up_def)
    next
      case m: (Inr sent)
      then have "res = (case fst (ae_update e sent w1) of Inr st \<Rightarrow> Inr (sent, st) | Inl (Update_Failed msg) \<Rightarrow> Inl (Retry_Error msg)
          | Inl (Conflict msg) \<Rightarrow> Inl (Conflict_Error msg))" "w' = snd (ae_update e sent w1)"
        using assms(1,2,4) Pair Inr by (auto simp: update_attempt_def split: prod.splits sum.splits update_error.splits)
      then show ?thesis using later [OF o sent_update [where mutate = mutate, OF l(1) m]] assms(3) [OF m] l by simp
    qed
  qed
qed

lemma retry:
  assumes "CC_Namespace c = ns" "CC_Name c = n" "\<And>l l'. mutate l = Inr l' \<Longrightarrow> CC_Namespace l' = CC_Namespace l \<and> CC_Name l' = CC_Name l"
    "updateClusterWithConflictRetry e k c mutate w = (res, w')"
  shows "retried mutate w res w'"
  using assms(4)
proof (induction k arbitrary: w)
  case 0
  then show ?case using attempt [OF assms(1-3)] by auto
next
  case (Suc k)
  obtain r w1 where a: "update_attempt e c mutate w = (r, w1)" by (cases "update_attempt e c mutate w")
  note once = attempt [OF assms(1-3) a]
  show ?case
  proof (cases "\<exists>msg. r = Inl (Conflict_Error msg)")
    case True
    then have "others w w1" "updateClusterWithConflictRetry e k c mutate w1 = (res, w')" using once Suc.prems a by (auto simp: retried_def)
    then show ?thesis using Suc.IH later by blast
  next
    case False
    then have "(res, w') = (r, w1)" using Suc.prems a by (auto split: sum.splits retry_error.splits)
    then show ?thesis using once by simp
  qed
qed

text \<open>The effect of a handler.\<close>

abbreviation outcome :: "rule_op option \<Rightarrow> int \<Rightarrow> 'w \<Rightarrow> 'w \<Rightarrow> bool" where
  "outcome \<equiv> rule_outcome cluster_of base put others"

lemma no_write:
  assumes "others w w'" "status \<in> {400, 404, 500}" "\<And>rule. op = Some (Create_Rule rule) \<Longrightarrow> status \<noteq> 400"
  shows "outcome op status w w'"
  using assms by (auto simp: rule_outcome_def)

definition edits :: "(CloudberryCluster \<Rightarrow> 'x + CloudberryCluster) \<Rightarrow> rule_op \<Rightarrow> bool" where
  "edits mutate op \<longleftrightarrow> (\<forall>l l'. mutate l = Inr l' \<longrightarrow> (l' = l \<or> (\<exists>rs. l' = with_rules rs l)) \<and>
     (distinct (map WR_Name (cluster_rules l)) \<longrightarrow> rule_change op (rules_map (cluster_rules l)) (rules_map (cluster_rules l'))))"

lemma edits_key: "edits mutate op \<Longrightarrow> mutate l = Inr l' \<Longrightarrow> CC_Namespace l' = CC_Namespace l \<and> CC_Name l' = CC_Name l"
  unfolding edits_def by (metis with_rules_simps(2,3))

lemma acts_outcome:
  assumes "acts mutate w1 w'" "others w w1" "edits mutate op" "status \<in> {success_status op, 500}"
  shows "outcome (Some op) status w w'"
proof -
  obtain c1 sent w2 c where a: "mutate c1 = Inr sent" "others w1 w2" "cluster_of w2 = Some c1" "stores sent c" "others (put c w2) w'"
    using assms(1) unfolding acts_def committed_def by blast
  have "others w w2" using others_trans [OF assms(2) a(2)] .
  moreover have "sent = c1 \<or> (\<exists>rs. sent = with_rules rs c1)"
    "distinct (map WR_Name (cluster_rules c1)) \<longrightarrow> rule_change op (rules_map (cluster_rules c1)) (rules_map (cluster_rules c))"
    using assms(3) a(1) stores_rules [OF a(4)] by (simp_all add: edits_def)
  ultimately show ?thesis using a(3-5) assms(4) unfolding rule_outcome_def by blast
qed

lemma retry_outcome:
  assumes "others w w1" "CC_Namespace c = ns" "CC_Name c = n" "updateClusterWithConflictRetry e k c mutate w1 = (res, w')"
    "edits mutate op" "refused \<in> {400, 404, 500}"
    "\<And>rule l x. \<lbrakk>op = Create_Rule rule; refused = 400; mutate l = Inl x\<rbrakk> \<Longrightarrow> has_rule (WR_Name rule) l"
  shows "outcome (Some op) (case res of Inr _ \<Rightarrow> success_status op | Inl (Mutate_Error _) \<Rightarrow> refused | Inl _ \<Rightarrow> 500) w w'"
proof -
  have t: "retried mutate w1 res w'" by (rule retry [OF assms(2,3) edits_key [OF assms(5)] assms(4)])
  consider (acted) x where "res = Inr x" "acts mutate w1 w'" | (gave_up) x where "res = Inl (Mutate_Error x)" "gives_up mutate w1 w'"
    | (failed) "\<And>x y z. (case res of Inr _ \<Rightarrow> x | Inl (Mutate_Error _) \<Rightarrow> y | Inl _ \<Rightarrow> z) = (z :: int)" "others w1 w' \<or> acts mutate w1 w'"
    using t by (auto simp: retried_def split: sum.splits retry_error.splits)
  then show ?thesis
  proof cases
    case acted
    then show ?thesis using acts_outcome [OF acted(2) assms(1,5)] by simp
  next
    case gave_up
    then obtain l x' where g: "others w1 w'" "base w' = Some l" "mutate l = Inl x'" by (auto simp: gives_up_def)
    have o: "others w w'" using others_trans [OF assms(1) g(1)] .
    show ?thesis unfolding gave_up(1) sum.case retry_error.case rule_outcome_def
      using o assms(6) assms(7) [OF _ _ g(3)] g(2) by blast
  next
    case failed
    show ?thesis unfolding failed(1)
      using failed(2) acts_outcome [OF _ assms(1,5)] no_write [OF others_trans [OF assms(1)]] by auto
  qed
qed

text \<open>The cluster a handler starts from, as the server delivers it, or the answer 404.\<close>

lemma getCluster_read:
  assumes "ns \<noteq> []" "getCluster (ae_server e) n ns w = (got, w1)"
  shows "others w w1" "got = Inr c \<Longrightarrow> base w1 = Some c \<and> CC_Namespace c = ns \<and> CC_Name c = n"
proof -
  obtain x v where k: "k_get_cluster (as_kube (ae_server e)) ns n w = (x, v)" by fastforce
  then show "others w w1" using assms others_refl get [OF k] by (auto simp: getCluster_def split: if_splits sum.splits)
  show "base w1 = Some c \<and> CC_Namespace c = ns \<and> CC_Name c = n" if "got = Inr c"
    using assms k that get_base [of w c w1] by (auto simp: getCluster_def split: if_splits sum.splits)
qed

lemma cluster_read:
  assumes "PathValue r ''name'' = n" "Req_Query r ''namespace'' = ns" "ns \<noteq> []" "with_cluster e r k w = (resp, w')"
    and "\<And>c w1. others w w1 \<Longrightarrow> base w1 = Some c \<Longrightarrow> CC_Namespace c = ns \<Longrightarrow> CC_Name c = n \<Longrightarrow> k c w1 = (resp, w') \<Longrightarrow> outcome op (Resp_Status resp) w w'"
  shows "outcome op (Resp_Status resp) w w'"
proof -
  obtain got w1 where g: "getCluster (ae_server e) n ns w = (got, w1)" by fastforce
  show ?thesis
  proof (cases got)
    case (Inl x)
    then have "Resp_Status resp = 404" "w' = w1" using assms(1,2,4) g by (auto simp: with_cluster_def writeClusterNotFound_def error_response_def)
    then show ?thesis using getCluster_read(1) [OF assms(3) g] no_write by simp
  next
    case (Inr c)
    then show ?thesis using assms(1,2,4) g getCluster_read [OF assms(3) g] by (intro assms(5) [of w1 c]) (auto simp: with_cluster_def)
  qed
qed

lemmas statuses = error_response_def invalid_request_def internal_error_def duplicate_rule_def rule_not_found_def answer_def body_response_def

lemma add_edits: "edits (add_rule rule) (Create_Rule rule)"
  by (auto simp: edits_def add_rule_def rule_change_def has_rule_map rules_map_None rules_map_append)

lemma change_edits: "edits (change_rule name updates) (Update_Rule name updates)"
  by (auto simp: edits_def change_rule_def rule_change_def has_rule_map rules_map_update)

lemma drop_edits: "edits (drop_rule name) (Delete_Rule name)"
  by (auto simp: edits_def drop_rule_def rule_change_def has_rule_map rules_map_remove fun_upd_idem)

lemma create_outcome:
  assumes "PathValue r ''name'' = n" "Req_Query r ''namespace'' = ns" "ns \<noteq> []" "handleCreateWorkloadRule e ctx r w = (resp, w')"
  shows "outcome (create_op r) (Resp_Status resp) w w'"
  using assms(1-3) assms(4) [unfolded handleCreateWorkloadRule_def]
proof (rule cluster_read, goal_cases)
  case (1 c w1)
  note c = 1(1-4) and k = 1(5)
  show ?case
  proof (cases "create_op r")
    case None
    then have "Resp_Status resp = 400 \<and> w' = w1" using k by (auto simp: create_op_def rule_of_def statuses isValidIdentifier_def Let_def split: option.splits if_splits)
    then show ?thesis using c(1) None by (auto intro!: no_write)
  next
    case (Some op)
    then obtain req where req: "decode_struct rule_fields r = Some req" "isValidIdentifier (str_of req ''name'')" "op = Create_Rule (rule_of req)"
      by (auto simp: create_op_def split: option.splits if_splits)
    define rule where "rule = rule_of req"
    have name: "WR_Name rule \<noteq> []" "isValidIdentifier (WR_Name rule)" using req(2) decode_name by (auto simp: rule_def rule_of_def)
    show ?thesis
    proof (cases "has_rule (WR_Name rule) c")
      case True
      then have "Resp_Status resp = 400 \<and> w' = w1" using k req(1) name by (auto simp: Let_def rule_def statuses)
      then show ?thesis using c(1,2) True unfolding Some req(3) rule_outcome_def by (auto simp: rule_def)
    next
      case False
      obtain res w2 where u: "updateClusterWithConflictRetry e (ae_retries e) c (add_rule rule) w1 = (res, w2)" by fastforce
      then have st: "Resp_Status resp = (case res of Inr _ \<Rightarrow> success_status (Create_Rule rule) | Inl (Mutate_Error _) \<Rightarrow> 400 | Inl _ \<Rightarrow> 500)" "w2 = w'"
        using k req(1) name False by (auto simp: Let_def rule_def statuses success_status_def split: sum.splits retry_error.splits)
      show ?thesis unfolding Some req(3) rule_def [symmetric] st(1)
        by (rule retry_outcome [OF c(1,3,4) u [unfolded st(2)] add_edits]) (auto simp: add_rule_def split: if_splits)
    qed
  qed
qed

lemma update_outcome:
  assumes "PathValue r ''name'' = n" "Req_Query r ''namespace'' = ns" "ns \<noteq> []" "handleUpdateWorkloadRule e ctx r w = (resp, w')"
  shows "outcome (update_op r) (Resp_Status resp) w w'"
proof (cases "isValidIdentifier (PathValue r ''ruleName'')")
  case False
  then show ?thesis using assms(4) by (auto simp: handleUpdateWorkloadRule_def update_op_def statuses others_refl intro!: no_write)
next
  case valid: True
  then have checked: "\<not> \<not> isValidIdentifier (PathValue r ''ruleName'')" by simp
  define name where "name = PathValue r ''ruleName''"
  show ?thesis using assms(1-3) assms(4) [unfolded handleUpdateWorkloadRule_def Let_def if_not_P [OF checked]]
  proof (rule cluster_read, goal_cases)
    case (1 c w1)
    note c = 1(1-4) and k = 1(5)
    show ?case
    proof (cases "decode_map r")
      case None
      then have "Resp_Status resp = 400 \<and> w' = w1" using k by (auto simp: statuses)
      then show ?thesis using c(1) None by (auto simp: update_op_def intro!: no_write)
    next
      case (Some updates)
      then have op: "update_op r = Some (Update_Rule name updates)" using valid by (simp add: update_op_def name_def)
      show ?thesis
      proof (cases "has_rule name c")
        case False
        then have "Resp_Status resp = 404 \<and> w' = w1" using k Some by (auto simp: name_def statuses)
        then show ?thesis using c(1) unfolding op by (auto intro!: no_write)
      next
        case True
        obtain res w2 where u: "updateClusterWithConflictRetry e (ae_retries e) c (change_rule name updates) w1 = (res, w2)" by fastforce
        then have st: "Resp_Status resp = (case res of Inr _ \<Rightarrow> success_status (Update_Rule name updates) | Inl (Mutate_Error _) \<Rightarrow> 404 | Inl _ \<Rightarrow> 500)" "w2 = w'"
          using k Some True by (auto simp: name_def statuses success_status_def split: sum.splits retry_error.splits)
        show ?thesis unfolding op st(1)
          by (rule retry_outcome [OF c(1,3,4) u [unfolded st(2)] change_edits]) auto
      qed
    qed
  qed
qed

lemma delete_outcome:
  assumes "PathValue r ''name'' = n" "Req_Query r ''namespace'' = ns" "ns \<noteq> []" "handleDeleteWorkloadRule e ctx r w = (resp, w')"
  shows "outcome (delete_op r) (Resp_Status resp) w w'"
proof (cases "isValidIdentifier (PathValue r ''ruleName'')")
  case False
  then show ?thesis using assms(4) by (auto simp: handleDeleteWorkloadRule_def delete_op_def statuses others_refl intro!: no_write)
next
  case valid: True
  then have checked: "\<not> \<not> isValidIdentifier (PathValue r ''ruleName'')" by simp
  define name where "name = PathValue r ''ruleName''"
  then have op: "delete_op r = Some (Delete_Rule name)" using valid by (simp add: delete_op_def)
  show ?thesis using assms(1-3) assms(4) [unfolded handleDeleteWorkloadRule_def Let_def if_not_P [OF checked]]
  proof (rule cluster_read, goal_cases)
    case (1 c w1)
    note c = 1(1-4) and k = 1(5)
    show ?case
    proof (cases "has_rule name c")
      case False
      then have "Resp_Status resp = 404 \<and> w' = w1" using k by (auto simp: name_def statuses)
      then show ?thesis using c(1) unfolding op by (auto intro!: no_write)
    next
      case True
      obtain res w2 where u: "updateClusterWithConflictRetry e (ae_retries e) c (drop_rule name) w1 = (res, w2)" by fastforce
      then have st: "Resp_Status resp = (case res of Inr _ \<Rightarrow> success_status (Delete_Rule name) | Inl (Mutate_Error _) \<Rightarrow> 500 | Inl _ \<Rightarrow> 500)" "w2 = w'"
        using k True by (auto simp: name_def statuses success_status_def split: sum.splits retry_error.splits)
      show ?thesis unfolding op st(1)
        by (rule retry_outcome [OF c(1,3,4) u [unfolded st(2)] drop_edits]) auto
    qed
  qed
qed

end

section \<open>On the reference world\<close>

text \<open>
  The reference world shared with another writer: \<open>meddle\<close> happens before every read and every update
  of a cluster, an update of an object that has changed since is a conflict, and the answer to an
  update is lost where \<open>lost\<close> says so.
\<close>

definition shared_env :: "(api_world \<Rightarrow> api_world) \<Rightarrow> (api_world \<Rightarrow> bool) \<Rightarrow> api_world api_env \<Rightarrow> api_world api_env" where
  "shared_env meddle lost e = e\<lparr>
     ae_server := (ae_server e)\<lparr>as_kube := (as_kube (ae_server e))\<lparr>
       k_get_cluster := (\<lambda>ns n w. k_get_cluster (as_kube (ae_server e)) ns n (meddle w))\<rparr>\<rparr>,
     ae_update := (\<lambda>d w. let w1 = meddle w in
       if aw_cluster w1 (CC_Namespace d) (CC_Name d) \<noteq> aw_cluster w (CC_Namespace d) (CC_Name d) then (Inl (Conflict ''modified''), w1)
       else if lost w1 then (Inl (Update_Failed ''timeout''), snd (ae_update e d w1))
       else ae_update e d w1)\<rparr>"

definition meddled :: "(api_world \<Rightarrow> api_world) \<Rightarrow> api_world \<Rightarrow> api_world \<Rightarrow> bool" where
  "meddled meddle w w' \<longleftrightarrow> (\<exists>k. w' = (meddle ^^ k) w)"

definition aw_put :: "string \<Rightarrow> string \<Rightarrow> CloudberryCluster \<Rightarrow> api_world \<Rightarrow> api_world" where
  "aw_put ns n c w = w\<lparr>aw_store := (aw_store w)\<lparr>srv_cluster := put2 ns n (Some c) (srv_cluster (aw_store w))\<rparr>\<rparr>"

lemma meddled_once: "meddled meddle w (meddle w)"
  unfolding meddled_def by (rule exI [of _ 1]) simp

lemma meddled_refl: "meddled meddle w w"
  unfolding meddled_def by (rule exI [of _ 0]) simp

lemma meddled_trans: "\<lbrakk>meddled meddle w w1; meddled meddle w1 w2\<rbrakk> \<Longrightarrow> meddled meddle w w2"
  unfolding meddled_def by (metis comp_apply funpow_add)

lemma aw_put_cluster: "CC_Namespace c = ns \<Longrightarrow> CC_Name c = n \<Longrightarrow> aw_cluster (aw_put ns n c w) ns n = Some c"
  by (simp add: aw_put_def aw_cluster_def srv_cluster_view_def srv_get_cluster_def put2_def)

lemma aw_update_puts:
  assumes "aw_cluster w ns n = Some c" "CC_Namespace d = ns" "CC_Name d = n"
  shows "\<exists>c0. stores d c0 \<and> aw_update d w = (Inr c0, aw_put ns n c0 w)"
  using assms
  by (auto simp: aw_update_def on_store_def aw_cluster_def srv_cluster_view_def change_cluster_def aw_put_def stores_def)

lemma meddled_update:
  assumes "aw_cluster w ns n = Some c" "CC_Namespace d = ns" "CC_Name d = n"
    "ae_update (shared_env meddle lost (aw_env bc rl db pw)) d w = (res, w')" "\<And>msg. res \<noteq> Inl (Conflict msg)"
  shows "committed (\<lambda>w. aw_cluster w ns n) (aw_put ns n) (meddled meddle) c d w w'"
proof -
  have same: "aw_cluster (meddle w) ns n = Some c"
    using assms by (auto simp: shared_env_def Let_def split: if_splits)
  from aw_update_puts [OF this assms(2,3)] obtain c0 where c0: "stores d c0" "aw_update d (meddle w) = (Inr c0, aw_put ns n c0 (meddle w))"
    by blast
  then have "w' = aw_put ns n c0 (meddle w)"
    using assms same by (auto simp: shared_env_def Let_def split: if_splits)
  then show ?thesis unfolding committed_def using same c0(1) meddled_once meddled_refl by blast
qed

interpretation awr: rule_store "shared_env meddle lost (aw_env bc rl db pw)" ns n "\<lambda>w. aw_cluster w ns n" "\<lambda>w. aw_cluster w ns n"
    "aw_put ns n" "meddled meddle"
  for meddle lost and bc :: "api_world bcrypt" and rl db pw ns n
proof unfold_locales
  let ?e = "shared_env meddle lost (aw_env bc rl db pw)"
  have get: "k_get_cluster (as_kube (ae_server ?e)) ns n w = k_get_cluster aw_client ns n (meddle w)" for w
    by (simp add: shared_env_def)
  fix w w1 w' c c' d res msg
  show "meddled meddle w w" by (rule meddled_refl)
  show "meddled meddle w w1 \<Longrightarrow> meddled meddle w1 w' \<Longrightarrow> meddled meddle w w'" by (rule meddled_trans)
  show "CC_Namespace c = ns \<Longrightarrow> CC_Name c = n \<Longrightarrow> aw_cluster (aw_put ns n c w) ns n = Some c" by (rule aw_put_cluster)
  show "k_get_cluster (as_kube (ae_server ?e)) ns n w = (res, w1) \<Longrightarrow> meddled meddle w w1"
    unfolding get using aw.get_cluster [of ns n "meddle w"] meddled_once [of meddle w] by (auto split: option.splits)
  show "k_get_cluster (as_kube (ae_server ?e)) ns n w = (Inr c, w1) \<Longrightarrow>
      aw_cluster w1 ns n = Some c \<and> CC_Namespace c = ns \<and> CC_Name c = n"
    unfolding get using aw.get_cluster [of ns n "meddle w"] aw.cluster_key [of "meddle w" ns n c] by (auto split: option.splits)
  show "\<lbrakk>aw_cluster w ns n = Some c; CC_Namespace d = ns; CC_Name d = n; ae_update ?e d w = (Inr c', w')\<rbrakk>
      \<Longrightarrow> committed (\<lambda>w. aw_cluster w ns n) (aw_put ns n) (meddled meddle) c d w w'"
    by (rule meddled_update) (assumption | rule sum.distinct)+
  show "\<lbrakk>aw_cluster w ns n = Some c; CC_Namespace d = ns; CC_Name d = n; ae_update ?e d w = (Inl (Update_Failed msg), w')\<rbrakk>
      \<Longrightarrow> meddled meddle w w' \<or> committed (\<lambda>w. aw_cluster w ns n) (aw_put ns n) (meddled meddle) c d w w'"
    by (rule disjI2, rule meddled_update) (assumption | simp only: sum.inject update_error.distinct simp_thms)+
  show "ae_update ?e d w = (Inl (Conflict msg), w') \<Longrightarrow> meddled meddle w w'"
    using meddled_once [of meddle w]
    by (auto simp: shared_env_def Let_def aw_update_def split: if_splits prod.splits sum.splits)
qed

section \<open>Properties\<close>


section \<open>Samples\<close>

definition rule_request :: request where
  "rule_request = plain_request\<lparr>Req_PathValues := [(''name'', ''c''), (''ruleName'', ''r1'')], Req_Query := (\<lambda>_. ''ns'')\<rparr>"

definition named_rule :: "string \<Rightarrow> WorkloadRule" where
  "named_rule name = rule_of [(''name'', S_Str name)]"

definition rule_world :: api_world where
  "rule_world = stop_world\<lparr>aw_store := sample_store (with_rules [named_rule ''r1'', named_rule ''r2''] base_cluster) 4 []\<rparr>"

text \<open>The other writer adds the rule \<open>r3\<close> to a cluster that lacks it.\<close>

definition add_r3 :: "api_world \<Rightarrow> api_world" where
  "add_r3 w = (case aw_cluster w ''ns'' ''c'' of None \<Rightarrow> w
     | Some c \<Rightarrow> if has_rule ''r3'' c then w else aw_put ''ns'' ''c'' (with_rules (cluster_rules c @ [named_rule ''r3'']) c) w)"


end
