(* ===== verification/ApiRotation.thy ===== *)
theory ApiRotation
  imports ApiRules
begin

text \<open>
  The rotation of the administrator's password writes it to two places, the Secret and the credential
  store in memory: either both hold the new password, or the store still holds the old one.
\<close>

section \<open>Generated passwords\<close>

text \<open>
  \<^verbatim>\<open>GenerateRandomPassword\<close> (\<^verbatim>\<open>strings.go\<close>); \<open>rand_Int\<close> is \<^verbatim>\<open>rand.Int\<close> of \<^verbatim>\<open>crypto/rand\<close>, which
  answers a number below its bound or an error.
\<close>

abbreviation defaultPasswordLength :: nat where "defaultPasswordLength \<equiv> 32"

definition passwordChars :: string where
  "passwordChars = ''abcdefghijklmnopqrstuvwxyzABCDEFGHIJKLMNOPQRSTUVWXYZ0123456789!@#$%^&*()-_=+''"

fun fill_password :: "(int \<Rightarrow> 'w \<Rightarrow> (string + int) \<times> 'w) \<Rightarrow> nat \<Rightarrow> string \<Rightarrow> 'w \<Rightarrow> (string + string) \<times> 'w" where
  "fill_password rand_Int 0 password w = (Inr password, w)"
| "fill_password rand_Int (Suc k) password w =
     (case rand_Int (int (length passwordChars)) w of
        (Inl err, w1) \<Rightarrow> (Inl err, w1)
      | (Inr idx, w1) \<Rightarrow> fill_password rand_Int k (password @ [passwordChars ! nat idx]) w1)"

definition GenerateRandomPassword :: "(int \<Rightarrow> 'w \<Rightarrow> (string + int) \<times> 'w) \<Rightarrow> 'w \<Rightarrow> (string + string) \<times> 'w" where
  "GenerateRandomPassword rand_Int = fill_password rand_Int defaultPasswordLength []"

lemma fill_password_length:
  "fill_password rand_Int k password w = (Inr pw, w') \<Longrightarrow> length pw = length password + k"
  by (induction k arbitrary: password w) (auto split: prod.splits sum.splits)

lemma fill_password_frame:
  assumes "\<And>b x w w1. rand_Int b w = (x, w1) \<Longrightarrow> f w1 = f w" "fill_password rand_Int k password w = (res, w')"
  shows "f w' = f w"
  using assms(2) by (induction k arbitrary: password w) (auto split: prod.splits sum.splits dest: assms(1))

section \<open>Contract\<close>

text \<open>A password that opens the API for the administrator.\<close>

definition opens :: "'w bcrypt \<Rightarrow> ('w \<Rightarrow> InMemoryCredentialStore) \<Rightarrow> string \<Rightarrow> 'w \<Rightarrow> bool" where
  "opens bc store_of pw w \<longleftrightarrow> (\<forall>req. \<exists>i. basic_Authenticate bc (memory_store store_of) (SetBasicAuth adminUsername pw req) w = (Inr i, w) \<and>
     Id_Permission i = PermissionAdmin)"

text \<open>
  The Secret and the store of the server are apart: writing one leaves the other, a successful write of
  the Secret is stored, bcrypt keeps its documentation and touches neither, and the password comes from
  \<open>GenerateRandomPassword\<close>.
\<close>

locale rotation_env = bcrypt_law "ae_bcrypt e" for e :: "'w api_env" +
  fixes secret_of :: "'w \<Rightarrow> string \<Rightarrow> string \<Rightarrow> (string \<rightharpoonup> string) option" and rand_Int :: "int \<Rightarrow> 'w \<Rightarrow> (string + int) \<times> 'w"
  assumes get: "ae_get_secret e ns n w = (got, w1) \<Longrightarrow> ae_store e w1 = ae_store e w"
    and update: "ae_update_secret e ns n d w = (res, w1) \<Longrightarrow> ae_store e w1 = ae_store e w \<and> (res = None \<longrightarrow> secret_of w1 ns n = Some d)"
    and create: "ae_create_secret e ns n d w = (res, w1) \<Longrightarrow> ae_store e w1 = ae_store e w \<and> (res = None \<longrightarrow> secret_of w1 ns n = Some d)"
    and password: "ae_random_password e = GenerateRandomPassword rand_Int"
    and randomness: "rand_Int b w = (idx, w1) \<Longrightarrow> ae_store e w1 = ae_store e w"
    and set_store: "ae_store e (ae_set_store e st w) = st \<and> secret_of (ae_set_store e st w) = secret_of w"
    and hashing: "GenerateFromPassword (ae_bcrypt e) k p w = (x, w1) \<Longrightarrow> secret_of w1 = secret_of w"
begin

lemma random: "ae_random_password e w = (x, w1) \<Longrightarrow> ae_store e w1 = ae_store e w"
  unfolding password GenerateRandomPassword_def using randomness by (rule fill_password_frame)

lemma random_length: "ae_random_password e w = (Inr pw, w1) \<Longrightarrow> length pw \<le> bcrypt_MaxPassword"
  unfolding password GenerateRandomPassword_def using fill_password_length by fastforce

definition secret_password :: "string \<Rightarrow> 'w \<Rightarrow> string option" where
  "secret_password ns w = (case secret_of w ns OperatorAdminPasswordSecretName of None \<Rightarrow> None | Some d \<Rightarrow> d PasswordSecretKey)"

lemma created:
  assumes "createAdminPasswordSecret e ns pw w = (ok, w')"
  shows "ae_store e w' = ae_store e w \<and> (ok \<longrightarrow> secret_password ns w' = Some pw)"
proof -
  obtain res w1 where c: "ae_create_secret e ns OperatorAdminPasswordSecretName [PasswordSecretKey \<mapsto> pw] w = (res, w1)" by fastforce
  obtain got w2 where g: "ae_get_secret e ns OperatorAdminPasswordSecretName w1 = (got, w2)" by fastforce
  show ?thesis
  proof (cases "res = Some AlreadyExists \<and> (\<exists>d. got = Inr d)")
    case True
    then obtain d where d: "got = Inr d" by blast
    obtain upd w3 where u: "ae_update_secret e ns OperatorAdminPasswordSecretName (d(PasswordSecretKey \<mapsto> pw)) w2 = (upd, w3)" by fastforce
    show ?thesis using assms c g True d u update [OF u] get [OF g] create [OF c]
      by (auto simp: createAdminPasswordSecret_def secret_password_def split: option.splits)
  next
    case False
    then show ?thesis using assms c g get [OF g] create [OF c]
      by (auto simp: createAdminPasswordSecret_def secret_password_def split: option.splits api_error.splits sum.splits)
  qed
qed

lemma rotates:
  assumes "rotated e pw w = (resp, w')" "secret_password ns w = Some pw" "length pw \<le> bcrypt_MaxPassword" "valid_cost (ae_store e w)"
  shows "Resp_Status resp = 200 \<and> secret_password ns w' = Some pw \<and> opens (ae_bcrypt e) (ae_store e) pw w'"
proof -
  obtain s1 w1 where s1: "SetCredentials (ae_bcrypt e) adminUsername pw PermissionAdmin (ae_store e w) w = (s1, w1)" by fastforce
  then obtain h where h: "GenerateFromPassword (ae_bcrypt e) (cost (ae_store e w)) pw w = (Inr h, w1)" "GetPassword s1 adminUsername = h" "h \<noteq> []"
    "CompareHashAndPassword (ae_bcrypt e) h pw" "GetPermissionLevel s1 adminUsername = PermissionAdmin"
    using stored_hash [OF assms(4,3) s1] by blast
  then show ?thesis using assms(1,2) s1 hashing [OF h(1)] set_store
    by (auto simp: rotated_def answer_def body_response_def opens_def basic_Authenticate_def memory_store_def BasicAuth_SetBasicAuth secret_password_def)
qed

definition outcome :: "string \<Rightarrow> 'w \<Rightarrow> api_value response \<times> 'w \<Rightarrow> bool" where
  "outcome ns w res = (case res of (resp, w') \<Rightarrow>
     if Resp_Status resp = 200 then \<exists>pw. secret_password ns w' = Some pw \<and> opens (ae_bcrypt e) (ae_store e) pw w'
     else ae_store e w' = ae_store e w)"

lemma failed: "ae_store e w' = ae_store e w \<Longrightarrow> outcome ns w (internal_error msg, w')"
  by (simp add: outcome_def internal_error_def error_response_def)

lemma succeeded:
  "\<lbrakk>secret_password ns w1 = Some pw; length pw \<le> bcrypt_MaxPassword; valid_cost (ae_store e w1)\<rbrakk> \<Longrightarrow> outcome ns w (rotated e pw w1)"
  by (cases "rotated e pw w1") (auto simp: outcome_def dest: rotates)

lemma rotation:
  assumes "ns = (if ae_pod_namespace e = [] then OperatorNamespace else ae_pod_namespace e)" "valid_cost (ae_store e w)"
  shows "outcome ns w (handleRotatePassword e ctx r w)"
proof -
  obtain x w1 where p: "ae_random_password e w = (x, w1)" by fastforce
  obtain got w2 where g: "ae_get_secret e ns OperatorAdminPasswordSecretName w1 = (got, w2)" by fastforce
  note same = random [OF p] get [OF g]
  show ?thesis
  proof (cases "ae_has_store e \<and> x \<in> range Inr")
    case False
    then show ?thesis using same by (auto simp: handleRotatePassword_def p intro!: failed split: sum.splits)
  next
    case True
    then obtain pw where store: "ae_has_store e" "x = Inr pw" by auto
    have len: "length pw \<le> bcrypt_MaxPassword" using random_length p store(2) by simp
    note h = handleRotatePassword_def p store Let_def assms(1) [symmetric] g
    show ?thesis
    proof (cases got)
      case (Inr d)
      obtain upd w3 where u: "ae_update_secret e ns OperatorAdminPasswordSecretName (d(PasswordSecretKey \<mapsto> pw)) w2 = (upd, w3)" by fastforce
      show ?thesis using update [OF u] same len assms(2) by (cases upd) (simp_all add: h Inr u failed succeeded secret_password_def)
    next
      case (Inl err)
      obtain ok w3 where c: "createAdminPasswordSecret e ns pw w2 = (ok, w3)" by fastforce
      show ?thesis using created [OF c] same len assms(2) by (cases err; cases ok) (simp_all add: h Inl c failed succeeded)
    qed
  qed
qed

end

text \<open>The reference world, where every random number is \<open>i\<close> below its bound.\<close>

definition aw_rand :: "int \<Rightarrow> int \<Rightarrow> api_world \<Rightarrow> (string + int) \<times> api_world" where
  "aw_rand i b w = (Inr (i mod b), w)"

definition rotation_world_env :: "int \<Rightarrow> RateLimiter \<Rightarrow> api_world api_db option \<Rightarrow> api_world api_env" where
  "rotation_world_env i rl db = (aw_env plain_bcrypt rl db [])\<lparr>ae_random_password := GenerateRandomPassword (aw_rand i)\<rparr>"

interpretation awp: rotation_env "rotation_world_env i rl db" aw_secrets "aw_rand i" for i rl db
  by unfold_locales (auto simp: rotation_world_env_def aw_rand_def aw_get_secret_def aw_put_secret_def plain_bcrypt_def split: if_splits)

section \<open>Properties\<close>

text \<open>
  C17. A rotation is all or nothing, with a bcrypt that keeps its documentation (passwords up to 72
  bytes, costs from 4 to 31) and a store of such a cost, as its constructors make it: after an answer of
  200 the Secret holds a password that opens the API with the level Admin, since generated passwords have
  32 bytes; after any other answer, whichever call failed, the credential store is what it was, so the
  old password still does.
\<close>

theorem rotation_all_or_nothing:
  assumes "rotation_env e secret_of rand_Int" "valid_cost (ae_store e w)"
    "ns = (if ae_pod_namespace e = [] then OperatorNamespace else ae_pod_namespace e)"
    "handleRotatePassword e ctx r w = (resp, w')"
  shows "if Resp_Status resp = 200
    then \<exists>d pw. secret_of w' ns OperatorAdminPasswordSecretName = Some d \<and> d PasswordSecretKey = Some pw \<and> opens (ae_bcrypt e) (ae_store e) pw w'
    else ae_store e w' = ae_store e w"
  using rotation_env.rotation [OF assms(1,3,2), of ctx r] assms(4)
  by (auto simp: rotation_env.outcome_def [OF assms(1)] rotation_env.secret_password_def [OF assms(1)] split: option.splits if_splits)

theorem rotation_all_or_nothing_witness:
  "\<exists>w' d pw. handleRotatePassword (rotation_world_env 7 sample_limiter None) None plain_request stop_world =
       (answer StatusOK [(''status'', V_Str ''rotated''), (''message'', V_Str ''Admin password rotated successfully'')], w') \<and>
     aw_secrets w' OperatorNamespace OperatorAdminPasswordSecretName = Some d \<and> d PasswordSecretKey = Some pw \<and> opens plain_bcrypt aw_creds pw w'"
proof -
  let ?e = "rotation_world_env 7 sample_limiter None"
  have cost: "valid_cost (ae_store ?e stop_world)"
    by (simp add: rotation_world_env_def stop_world_def)
  have pw: "\<exists>pw. GenerateRandomPassword (aw_rand 7) w = (Inr pw, w)" for w
  proof -
    have "\<exists>pw. fill_password (aw_rand 7) k acc w = (Inr pw, w)" for k acc
      by (induction k arbitrary: acc) (auto simp: aw_rand_def)
    then show ?thesis by (simp add: GenerateRandomPassword_def)
  qed
  then obtain pw where "GenerateRandomPassword (aw_rand 7) stop_world = (Inr pw, stop_world)" by blast
  then have "\<exists>w'. handleRotatePassword ?e None plain_request stop_world =
      (answer StatusOK [(''status'', V_Str ''rotated''), (''message'', V_Str ''Admin password rotated successfully'')], w')"
    by (simp add: handleRotatePassword_def rotation_world_env_def aw_get_secret_def found_def createAdminPasswordSecret_def aw_put_secret_def stop_world_def rotated_def
        split: prod.split)
  then obtain w' where h: "handleRotatePassword ?e None plain_request stop_world =
      (answer StatusOK [(''status'', V_Str ''rotated''), (''message'', V_Str ''Admin password rotated successfully'')], w')" by blast
  from rotation_all_or_nothing [OF awp.rotation_env_axioms cost _ h] show ?thesis
    using h by (simp add: answer_def body_response_def rotation_world_env_def)
qed

end
