(* ===== verification/Retry.thy ===== *)
theory Retry
  imports Float64 GoTime
begin

text \<open>
  Retries with exponential backoff, after \<^verbatim>\<open>internal/util/retry.go\<close>. The context, the timer and the
  random source are an argument; the counter of attempts stays far below its width.
\<close>

section \<open>Model\<close>

record RetryOptions =
  MaxRetries :: int
  InitialBackoff :: Duration
  MaxBackoff :: Duration
  Multiplier :: rat
  JitterFraction :: rat

definition DefaultRetryOptions :: RetryOptions where
  "DefaultRetryOptions = \<lparr>MaxRetries = 5, InitialBackoff = Second, MaxBackoff = 30 * Second, Multiplier = 2, JitterFraction = f64 (1 / 10)\<rparr>"

text \<open>Whether the context is cancelled, a wait that ends early when it is, and a number in \<open>[0, 1)\<close>.\<close>

record 'w retry_env =
  re_cancelled :: "'w \<Rightarrow> bool"
  re_sleep :: "Duration \<Rightarrow> 'w \<Rightarrow> bool \<times> 'w"
  re_rand :: "'w \<Rightarrow> rat \<times> 'w"

datatype 'e retry_failure =
    Context_Canceled int "'e option"
  | Canceled_In_Backoff int 'e
  | ErrRetryExhausted int "'e option"

definition to_int64 :: "rat \<Rightarrow> int64" where
  "to_int64 x = wrap64 (truncated x)"

definition calculateBackoff :: "'w retry_env \<Rightarrow> Duration \<Rightarrow> Duration \<Rightarrow> rat \<Rightarrow> 'w \<Rightarrow> Duration \<times> 'w" where
  "calculateBackoff e base maxBackoff jitterFraction w =
     (let base1 = (if base > maxBackoff then maxBackoff else base)
      in if jitterFraction \<le> 0 then (base1, w)
         else case re_rand e w of (r, w1) \<Rightarrow> (wrap64 (base1 + to_int64 (f64 (f64 (f64 (of_int base1) * jitterFraction) * r))), w1))"

definition normalized :: "RetryOptions \<Rightarrow> RetryOptions" where
  "normalized opts = \<lparr>
     MaxRetries = (if MaxRetries opts < 0 then 0 else MaxRetries opts),
     InitialBackoff = (if InitialBackoff opts \<le> 0 then Second else InitialBackoff opts),
     MaxBackoff = (if MaxBackoff opts \<le> 0 then 30 * Second else MaxBackoff opts),
     Multiplier = (if Multiplier opts \<le> 0 then 2 else Multiplier opts),
     JitterFraction = JitterFraction opts\<rparr>"

definition next_backoff :: "RetryOptions \<Rightarrow> Duration \<Rightarrow> Duration" where
  "next_backoff opts backoff = to_int64 (min (f64 (f64 (of_int backoff) * Multiplier opts)) (f64 (of_int (MaxBackoff opts))))"

function retry_loop ::
  "'w retry_env \<Rightarrow> RetryOptions \<Rightarrow> ('w \<Rightarrow> 'e option \<times> 'w) \<Rightarrow> int \<Rightarrow> Duration \<Rightarrow> 'e option \<Rightarrow> 'w \<Rightarrow> 'e retry_failure option \<times> 'w" where
  "retry_loop e opts fn attempt backoff lastErr w =
     (if attempt > MaxRetries opts then (Some (ErrRetryExhausted (MaxRetries opts + 1) lastErr), w)
      else if re_cancelled e w then (Some (Context_Canceled attempt lastErr), w)
      else case fn w of
        (None, w1) \<Rightarrow> (None, w1)
      | (Some err, w1) \<Rightarrow>
          if attempt < MaxRetries opts then
            (case calculateBackoff e backoff (MaxBackoff opts) (JitterFraction opts) w1 of
               (sleepDuration, w2) \<Rightarrow>
                 (case re_sleep e sleepDuration w2 of
                    (False, w3) \<Rightarrow> (Some (Canceled_In_Backoff (attempt + 1) err), w3)
                  | (True, w3) \<Rightarrow> retry_loop e opts fn (attempt + 1) (next_backoff opts backoff) (Some err) w3))
          else retry_loop e opts fn (attempt + 1) backoff (Some err) w1)"
  by pat_completeness auto
termination by (relation "measure (\<lambda>(e, opts, fn, attempt, backoff, lastErr, w). nat (MaxRetries opts + 1 - attempt))") auto

declare retry_loop.simps [simp del]

definition RetryWithBackoff :: "'w retry_env \<Rightarrow> RetryOptions \<Rightarrow> ('w \<Rightarrow> 'e option \<times> 'w) \<Rightarrow> 'w \<Rightarrow> 'e retry_failure option \<times> 'w" where
  "RetryWithBackoff e opts fn w = retry_loop e (normalized opts) fn 0 (InitialBackoff (normalized opts)) None w"

section \<open>Attempts\<close>

text \<open>
  What an operation and its retries keep: \<open>tries\<close> counts the calls of the operation, which nothing else
  moves; the operation succeeds at most once, as the last thing that happens.
\<close>

locale counted =
  fixes e :: "'w retry_env" and fn :: "'w \<Rightarrow> 'e option \<times> 'w" and tries :: "'w \<Rightarrow> nat"
  assumes fn: "fn w = (res, w') \<Longrightarrow> tries w' = Suc (tries w)"
    and sleep: "re_sleep e d w = (fired, w') \<Longrightarrow> tries w' = tries w"
    and rand: "re_rand e w = (x, w') \<Longrightarrow> tries w' = tries w"
begin

lemma backoff_tries: "calculateBackoff e b m j w = (d, w') \<Longrightarrow> tries w' = tries w"
  by (auto simp: calculateBackoff_def Let_def dest: rand split: if_splits prod.splits)

lemma loop_tries:
  "0 \<le> attempt \<Longrightarrow> attempt \<le> MaxRetries opts + 1 \<Longrightarrow> retry_loop e opts fn attempt b err w = (res, w') \<Longrightarrow>
     int (tries w') \<le> int (tries w) + (MaxRetries opts + 1 - attempt) \<and>
     (\<forall>n x. res = Some (ErrRetryExhausted n x) \<longrightarrow> int (tries w') = int (tries w) + (MaxRetries opts + 1 - attempt))"
proof (induction "nat (MaxRetries opts + 1 - attempt)" arbitrary: attempt b err w)
  case 0
  then show ?case by (auto simp: retry_loop.simps [of _ _ _ attempt])
next
  case (Suc k)
  obtain r w1 where f: "fn w = (r, w1)" by fastforce
  obtain d w2 where c: "calculateBackoff e b (MaxBackoff opts) (JitterFraction opts) w1 = (d, w2)" by fastforce
  obtain fired w3 where s: "re_sleep e d w2 = (fired, w3)" by fastforce
  note counts = fn [OF f] backoff_tries [OF c] sleep [OF s]
  have IH: "int (tries w') \<le> int (tries v) + (MaxRetries opts + 1 - (attempt + 1)) \<and>
     (\<forall>n x. res = Some (ErrRetryExhausted n x) \<longrightarrow> int (tries w') = int (tries v) + (MaxRetries opts + 1 - (attempt + 1)))"
    if "retry_loop e opts fn (attempt + 1) b' err' v = (res, w')" for b' err' v
    using Suc.hyps(1) [OF _ _ _ that] Suc.hyps(2) Suc.prems(1,2) by simp
  have loop: "retry_loop e opts fn attempt b err w = (res, w')" by (rule Suc.prems(3))
  show ?case
  proof (cases "re_cancelled e w \<or> r = None")
    case True
    then show ?thesis using loop f counts Suc.hyps(2) by (auto simp: retry_loop.simps [of _ _ _ attempt] split: if_splits)
  next
    case False
    then obtain x where x: "r = Some x" "\<not> re_cancelled e w" by auto
    show ?thesis
    proof (cases "attempt < MaxRetries opts")
      case True
      then show ?thesis using loop f x c s counts IH [of "next_backoff opts b" "Some x" w3] Suc.hyps(2)
        by (cases fired) (auto simp: retry_loop.simps [of _ _ _ attempt])
    next
      case False
      then have top: "attempt = MaxRetries opts" using Suc.hyps(2) by linarith
      then have "retry_loop e opts fn (attempt + 1) b (Some x) w1 = (res, w')" using loop f x by (simp add: retry_loop.simps [of _ _ _ "MaxRetries opts"])
      from IH [OF this] show ?thesis using counts by (simp add: top)
    qed
  qed
qed

lemma retry_tries:
  assumes "RetryWithBackoff e opts fn w = (res, w')"
  shows "int (tries w') \<le> int (tries w) + (max 0 (MaxRetries opts) + 1)"
  using loop_tries [of 0 "normalized opts" _ None w res w'] assms by (auto simp: RetryWithBackoff_def normalized_def split: if_splits)

end

text \<open>What the operation, the waits and the random numbers keep, a retry keeps.\<close>

lemma loop_invariant:
  assumes "\<And>w res w'. I w \<Longrightarrow> fn w = (res, w') \<Longrightarrow> I w'" "\<And>d w fired w'. I w \<Longrightarrow> re_sleep e d w = (fired, w') \<Longrightarrow> I w'"
    "\<And>w x w'. I w \<Longrightarrow> re_rand e w = (x, w') \<Longrightarrow> I w'"
  shows "I w \<Longrightarrow> retry_loop e opts fn attempt b err w = (res, w') \<Longrightarrow> I w'"
proof (induction "nat (MaxRetries opts + 1 - attempt)" arbitrary: attempt b err w)
  case 0
  then show ?case by (auto simp: retry_loop.simps [of _ _ _ attempt])
next
  case (Suc k)
  obtain r w1 where f: "fn w = (r, w1)" by fastforce
  obtain d w2 where c: "calculateBackoff e b (MaxBackoff opts) (JitterFraction opts) w1 = (d, w2)" by fastforce
  obtain fired w3 where s: "re_sleep e d w2 = (fired, w3)" by fastforce
  have w1: "I w1" using assms(1) Suc.prems(1) f by blast
  then have w2: "I w2" using c assms(3) by (auto simp: calculateBackoff_def Let_def split: if_splits prod.splits)
  have w3: "I w3" using assms(2) [OF w2 s] .
  have IH: "I w'" if "I v" "retry_loop e opts fn (attempt + 1) b' err' v = (res, w')" for b' err' v
    using Suc.hyps(1) [OF _ that] Suc.hyps(2) by simp
  show ?case
  proof (cases r)
    case None
    then show ?thesis using Suc.prems f w1 by (auto simp: retry_loop.simps [of _ _ _ attempt] split: if_splits)
  next
    case (Some x)
    then show ?thesis using Suc.prems f c s w1 w3 IH [OF w1, of b "Some x"] IH [OF w3, of "next_backoff opts b" "Some x"]
      by (cases fired) (auto simp: retry_loop.simps [of _ _ _ attempt] split: if_splits)
  qed
qed

lemma retry_invariant:
  assumes "\<And>w res w'. I w \<Longrightarrow> fn w = (res, w') \<Longrightarrow> I w'" "\<And>d w fired w'. I w \<Longrightarrow> re_sleep e d w = (fired, w') \<Longrightarrow> I w'"
    "\<And>w x w'. I w \<Longrightarrow> re_rand e w = (x, w') \<Longrightarrow> I w'" "I w"
  shows "I (snd (RetryWithBackoff e opts fn w))"
proof -
  obtain res w' where r: "retry_loop e (normalized opts) fn 0 (InitialBackoff (normalized opts)) None w = (res, w')" by fastforce
  have "I w'" by (rule loop_invariant [where I = I, OF _ _ _ assms(4) r]) (erule (1) assms)+
  then show ?thesis by (simp add: RetryWithBackoff_def r)
qed

text \<open>An operation that succeeds at once is not tried again.\<close>

lemma retry_first_success: "fn w = (None, w1) \<Longrightarrow> \<not> re_cancelled e w \<Longrightarrow> RetryWithBackoff e opts fn w = (None, w1)"
  by (simp add: RetryWithBackoff_def retry_loop.simps [of _ _ _ 0] normalized_def)

end
