(* ===== verification/Idle.thy ===== *)
theory Idle
  imports Retry ApiTypes
begin

text \<open>
  The idle-session daemon, after \<^verbatim>\<open>internal/idle/daemon.go\<close>: its rules, one scan of the sessions, the
  health check and the reconnection. The database, its factory and the clock are arguments. Logging,
  metrics and spans are left out.
\<close>

section \<open>Model\<close>

subsection \<open>Sessions and rules\<close>

record Session =
  Sess_PID :: int32
  Sess_Username :: string
  Sess_Database :: string
  Sess_Application :: string
  Sess_ClientAddress :: string
  Sess_State :: string
  Sess_WaitEventType :: string
  Sess_Query :: string
  Sess_QueryStart :: int
  Sess_Duration :: string

record SessionWithGroup = Session +
  Sess_ResourceGroup :: string

record IdleRule =
  IR_Name :: string
  IR_Enabled :: bool
  IR_ResourceGroup :: string
  IR_IdleTimeout :: Duration
  IR_ExcludeInTransaction :: bool
  IR_TerminateMessage :: string

abbreviation stateIdle :: string where "stateIdle \<equiv> ''idle''"
abbreviation stateActive :: string where "stateActive \<equiv> ''active''"
abbreviation stateIdleInTransaction :: string where "stateIdleInTransaction \<equiv> ''idle in transaction''"
abbreviation stateIdleInTransactionAbort :: string where "stateIdleInTransactionAbort \<equiv> ''idle in transaction (aborted)''"

definition isSessionIdle :: "SessionWithGroup \<Rightarrow> IdleRule \<Rightarrow> int \<Rightarrow> bool" where
  "isSessionIdle session rule now =
     (if \<not> IR_Enabled rule then False
      else if IR_ResourceGroup rule \<noteq> [] \<and> Sess_ResourceGroup session \<noteq> IR_ResourceGroup rule then False
      else if Sess_State session = stateActive then False
      else if Sess_State session \<in> {stateIdleInTransaction, stateIdleInTransactionAbort} \<and> IR_ExcludeInTransaction rule then False
      else if Sess_State session \<notin> {stateIdleInTransaction, stateIdleInTransactionAbort, stateIdle} then False
      else Sub now (Sess_QueryStart session) > IR_IdleTimeout rule)"

text \<open>\<open>ParseIdleRules\<close>: the rules, or the timeout and the name of the first rule whose timeout is no duration.\<close>

fun parse_idle_rules :: "IdleSessionRule list \<Rightarrow> (string \<times> string) + IdleRule list" where
  "parse_idle_rules [] = Inr []"
| "parse_idle_rules (cr # crs) =
     (case ParseDuration (ISR_IdleTimeout cr) of
        None \<Rightarrow> Inl (ISR_IdleTimeout cr, ISR_Name cr)
      | Some timeout \<Rightarrow>
          (case parse_idle_rules crs of
             Inl err \<Rightarrow> Inl err
           | Inr rules \<Rightarrow> Inr (\<lparr>IR_Name = ISR_Name cr, IR_Enabled = ISR_Enabled cr, IR_ResourceGroup = ISR_ResourceGroup cr,
                IR_IdleTimeout = timeout, IR_ExcludeInTransaction = ISR_ExcludeInTransaction cr, IR_TerminateMessage = ISR_TerminateMessage cr\<rparr> # rules)))"

definition ParseIdleRules :: "IdleSessionRule list \<Rightarrow> (string \<times> string) + IdleRule list" where
  "ParseIdleRules crdRules = parse_idle_rules crdRules"

subsection \<open>The daemon\<close>

text \<open>The operations on a client of the database, the factory for new ones, which may be nil, and the clock.\<close>

record ('c, 'w) idle_env =
  ie_list :: "'c \<Rightarrow> 'w \<Rightarrow> (string + SessionWithGroup list) \<times> 'w"
  ie_terminate :: "'c \<Rightarrow> int32 \<Rightarrow> 'w \<Rightarrow> (string + bool) \<times> 'w"
  ie_ping :: "'c \<Rightarrow> 'w \<Rightarrow> string option \<times> 'w"
  ie_close :: "'c \<Rightarrow> 'w \<Rightarrow> 'w"
  ie_factory :: "('w \<Rightarrow> (string + 'c) \<times> 'w) option"
  ie_retry :: "'w retry_env"
  ie_now :: "'w \<Rightarrow> int"

record 'c Daemon =
  dm_client :: "'c option"
  dm_rules :: "IdleRule list"
  dm_consecutiveFails :: int

definition UpdateRules :: "IdleRule list \<Rightarrow> 'c Daemon \<Rightarrow> 'c Daemon" where
  "UpdateRules rules d = d\<lparr>dm_rules := rules\<rparr>"

definition terminateSession :: "('c, 'w) idle_env \<Rightarrow> 'c \<Rightarrow> SessionWithGroup \<Rightarrow> 'w \<Rightarrow> bool \<times> 'w" where
  "terminateSession e c session w =
     (case ie_terminate e c (Sess_PID session) w of
        (Inl _, w1) \<Rightarrow> (False, w1)
      | (Inr terminated, w1) \<Rightarrow> (terminated, w1))"

fun enforce_rules :: "('c, 'w) idle_env \<Rightarrow> 'c \<Rightarrow> int \<Rightarrow> SessionWithGroup \<Rightarrow> IdleRule list \<Rightarrow> 'w \<Rightarrow> bool \<times> 'w" where
  "enforce_rules e c now session [] w = (False, w)"
| "enforce_rules e c now session (rule # rules) w =
     (if \<not> IR_Enabled rule then enforce_rules e c now session rules w
      else if \<not> isSessionIdle session rule now then enforce_rules e c now session rules w
      else case terminateSession e c session w of
        (True, w1) \<Rightarrow> (True, w1)
      | (False, w1) \<Rightarrow> enforce_rules e c now session rules w1)"

fun enforce_sessions :: "('c, 'w) idle_env \<Rightarrow> 'c \<Rightarrow> int \<Rightarrow> IdleRule list \<Rightarrow> SessionWithGroup list \<Rightarrow> int \<Rightarrow> 'w \<Rightarrow> int \<times> 'w" where
  "enforce_sessions e c now rules [] terminated w = (terminated, w)"
| "enforce_sessions e c now rules (session # sessions) terminated w =
     (case enforce_rules e c now session rules w of
        (ended, w1) \<Rightarrow> enforce_sessions e c now rules sessions (if ended then terminated + 1 else terminated) w1)"

text \<open>A scan answers the numbers of sessions evaluated and terminated and its error; \<open>None\<close> is the panic on a nil client.\<close>

definition scanAndEnforce :: "('c, 'w) idle_env \<Rightarrow> 'c Daemon \<Rightarrow> 'w \<Rightarrow> ((int \<times> int \<times> string option) \<times> 'w) option" where
  "scanAndEnforce e d w =
     (let rules = dm_rules d in
      if rules = [] then Some ((0, 0, None), w)
      else if \<not> list_ex IR_Enabled rules then Some ((0, 0, None), w)
      else case dm_client d of
        None \<Rightarrow> None
      | Some c \<Rightarrow>
          (case ie_list e c w of
             (Inl err, w1) \<Rightarrow> Some ((0, 0, Some (''listing sessions with resource group: '' @ err)), w1)
           | (Inr sessions, w1) \<Rightarrow>
               (case enforce_sessions e c (ie_now e w1) rules sessions 0 w1 of
                  (terminated, w2) \<Rightarrow> Some ((int (length sessions), terminated, None), w2))))"

subsection \<open>Reconnection\<close>

abbreviation reconnectMaxAttempts :: int where "reconnectMaxAttempts \<equiv> 5"

definition reconnect_options :: RetryOptions where
  "reconnect_options = \<lparr>MaxRetries = reconnectMaxAttempts - 1, InitialBackoff = 1 * Second, MaxBackoff = 60 * Second, Multiplier = 2, JitterFraction = f64 (1 / 10)\<rparr>"

text \<open>The retries run on the daemon together with the world.\<close>

definition beside :: "'w retry_env \<Rightarrow> ('d \<times> 'w) retry_env" where
  "beside e = \<lparr>
     re_cancelled = (\<lambda>(d, w). re_cancelled e w),
     re_sleep = (\<lambda>t (d, w). case re_sleep e t w of (fired, w1) \<Rightarrow> (fired, (d, w1))),
     re_rand = (\<lambda>(d, w). case re_rand e w of (x, w1) \<Rightarrow> (x, (d, w1)))\<rparr>"

definition reconnect_once :: "('c, 'w) idle_env \<Rightarrow> ('w \<Rightarrow> (string + 'c) \<times> 'w) \<Rightarrow> 'c Daemon \<times> 'w \<Rightarrow> string option \<times> ('c Daemon \<times> 'w)" where
  "reconnect_once e new s =
     (case s of (d, w) \<Rightarrow>
        (case new w of
           (Inl err, w1) \<Rightarrow> (Some err, (d, w1))
         | (Inr c, w1) \<Rightarrow>
             (None, (d\<lparr>dm_client := Some c, dm_consecutiveFails := 0\<rparr>, case dm_client d of None \<Rightarrow> w1 | Some old \<Rightarrow> ie_close e old w1))))"

definition attemptReconnect :: "('c, 'w) idle_env \<Rightarrow> 'c Daemon \<Rightarrow> 'w \<Rightarrow> 'c Daemon \<times> 'w" where
  "attemptReconnect e d w =
     (case ie_factory e of
        None \<Rightarrow> (d, w)
      | Some new \<Rightarrow> snd (RetryWithBackoff (beside (ie_retry e)) reconnect_options (reconnect_once e new) (d, w)))"

definition runScanCycle :: "('c, 'w) idle_env \<Rightarrow> 'c Daemon \<Rightarrow> 'w \<Rightarrow> ('c Daemon \<times> 'w) option" where
  "runScanCycle e d w =
     (case scanAndEnforce e d w of
        None \<Rightarrow> None
      | Some ((evaluated, terminated, None), w1) \<Rightarrow> Some (d\<lparr>dm_consecutiveFails := 0\<rparr>, w1)
      | Some ((evaluated, terminated, Some err), w1) \<Rightarrow>
          (let d1 = d\<lparr>dm_consecutiveFails := dm_consecutiveFails d + 1\<rparr>
           in Some (if dm_consecutiveFails d1 \<ge> 3 then attemptReconnect e d1 w1 else (d1, w1))))"

definition healthCheck :: "('c, 'w) idle_env \<Rightarrow> 'c Daemon \<Rightarrow> 'w \<Rightarrow> 'c Daemon \<times> 'w" where
  "healthCheck e d w =
     (case dm_client d of
        None \<Rightarrow> (d, w)
      | Some c \<Rightarrow>
          (case ie_ping e c w of
             (None, w1) \<Rightarrow> (d, w1)
           | (Some _, w1) \<Rightarrow> attemptReconnect e d w1))"

text \<open>The loop of \<open>scanLoop\<close> between its start and its end, by the ticks that fired.\<close>

datatype tick = Scan_Tick | Health_Tick

fun scan_ticks :: "('c, 'w) idle_env \<Rightarrow> tick list \<Rightarrow> 'c Daemon \<Rightarrow> 'w \<Rightarrow> ('c Daemon \<times> 'w) option" where
  "scan_ticks e [] d w = Some (d, w)"
| "scan_ticks e (t # ts) d w =
     (case (case t of Scan_Tick \<Rightarrow> runScanCycle e d w | Health_Tick \<Rightarrow> Some (healthCheck e d w)) of
        None \<Rightarrow> None
      | Some (d1, w1) \<Rightarrow> scan_ticks e ts d1 w1)"

section \<open>Scans\<close>

text \<open>
  The contract of the database for a scan, with whatever answers: \<open>log_of\<close> lists the calls that ask for
  the end of a backend, with their result.
\<close>

locale session_log =
  fixes e :: "('c, 'w) idle_env" and c :: 'c and log_of :: "'w \<Rightarrow> (int32 \<times> bool) list"
  assumes terminates: "ie_terminate e c pid w = (res, w') \<Longrightarrow> log_of w' = log_of w @ [(pid, res = Inr True)]"
    and lists: "ie_list e c w = (got, w') \<Longrightarrow> log_of w' = log_of w"

text \<open>
  The calls for one session: none without a rule that matches, one per matching rule until the first
  that succeeds.
\<close>

definition calls_ok :: "IdleRule list \<Rightarrow> int \<Rightarrow> SessionWithGroup \<Rightarrow> bool list \<Rightarrow> bool" where
  "calls_ok rules now session bs \<longleftrightarrow>
     (let m = length (filter (\<lambda>rule. isSessionIdle session rule now) rules) in
      length bs \<le> m \<and> list_all Not (butlast bs) \<and> (bs = [] \<or> \<not> last bs \<longrightarrow> length bs = m))"

context session_log
begin

lemma terminate_logged:
  "terminateSession e c session w = (ended, w') \<Longrightarrow> log_of w' = log_of w @ [(Sess_PID session, ended)]"
  by (auto simp: terminateSession_def dest!: terminates split: prod.splits sum.splits)

lemma rules_enforced:
  "enforce_rules e c now session rules w = (ended, w') \<Longrightarrow>
     \<exists>bs. calls_ok rules now session bs \<and> log_of w' = log_of w @ map (Pair (Sess_PID session)) bs \<and> ended = (bs \<noteq> [] \<and> last bs)"
proof (induction rules arbitrary: w)
  case (Cons rule rules)
  show ?case
  proof (cases "isSessionIdle session rule now")
    case False
    then have "enforce_rules e c now session rules w = (ended, w')" using Cons.prems by (simp split: if_splits)
    from Cons.IH [OF this] False show ?thesis by (auto simp: calls_ok_def)
  next
    case True
    obtain b w1 where t: "terminateSession e c session w = (b, w1)" by fastforce
    have "IR_Enabled rule" using True by (simp add: isSessionIdle_def split: if_splits)
    show ?thesis
    proof (cases b)
      case ended: True
      then show ?thesis using Cons.prems t True \<open>IR_Enabled rule\<close> terminate_logged [OF t]
        by (intro exI [of _ "[True]"]) (auto simp: calls_ok_def)
    next
      case goes_on: False
      then have "enforce_rules e c now session rules w1 = (ended, w')" using Cons.prems t True \<open>IR_Enabled rule\<close> by simp
      from Cons.IH [OF this] obtain bs where "calls_ok rules now session bs" "log_of w' = log_of w1 @ map (Pair (Sess_PID session)) bs"
        "ended = (bs \<noteq> [] \<and> last bs)" by blast
      then show ?thesis using terminate_logged [OF t] goes_on True by (intro exI [of _ "False # bs"]) (auto simp: calls_ok_def Let_def)
    qed
  qed
qed (auto simp: calls_ok_def)

lemma sessions_enforced:
  "enforce_sessions e c now rules sessions k w = (terminated, w') \<Longrightarrow>
     \<exists>bss. list_all2 (calls_ok rules now) sessions bss \<and>
       log_of w' = log_of w @ concat (map2 (\<lambda>s. map (Pair (Sess_PID s))) sessions bss) \<and>
       terminated = k + int (length (filter (\<lambda>bs. bs \<noteq> [] \<and> last bs) bss))"
proof (induction sessions arbitrary: k w)
  case (Cons session sessions)
  obtain ended w1 where r: "enforce_rules e c now session rules w = (ended, w1)" by fastforce
  from rules_enforced [OF r] obtain bs where bs: "calls_ok rules now session bs" "log_of w1 = log_of w @ map (Pair (Sess_PID session)) bs"
    "ended = (bs \<noteq> [] \<and> last bs)" by blast
  have "enforce_sessions e c now rules sessions (if ended then k + 1 else k) w1 = (terminated, w')" using Cons.prems r by simp
  from Cons.IH [OF this] obtain bss where "list_all2 (calls_ok rules now) sessions bss"
    "log_of w' = log_of w1 @ concat (map2 (\<lambda>s. map (Pair (Sess_PID s))) sessions bss)"
    "terminated = (if ended then k + 1 else k) + int (length (filter (\<lambda>bs. bs \<noteq> [] \<and> last bs) bss))" by blast
  then show ?case using bs by (intro exI [of _ "bs # bss"]) auto
qed simp

end

section \<open>Reconnections\<close>

text \<open>
  Clients do not leak: \<open>open_of\<close> counts the open clients, a new one adds one, closing takes one away, and
  nothing else moves the count. Whatever the factory answers, a daemon ends a reconnection with as many
  open clients as before, and with a client when it had one.
\<close>

locale client_count =
  fixes e :: "('c, 'w) idle_env" and open_of :: "'w \<Rightarrow> int"
  assumes new: "ie_factory e = Some f \<Longrightarrow> f w = (Inr c, w') \<Longrightarrow> open_of w' = open_of w + 1"
    and new_failed: "ie_factory e = Some f \<Longrightarrow> f w = (Inl err, w') \<Longrightarrow> open_of w' = open_of w"
    and close: "open_of (ie_close e c w) = open_of w - 1"
    and sleep: "re_sleep (ie_retry e) t w = (fired, w') \<Longrightarrow> open_of w' = open_of w"
    and rand: "re_rand (ie_retry e) w = (x, w') \<Longrightarrow> open_of w' = open_of w"
    and listing: "ie_list e c w = (got, w') \<Longrightarrow> open_of w' = open_of w"
    and ending: "ie_terminate e c pid w = (ended, w') \<Longrightarrow> open_of w' = open_of w"
    and ping: "ie_ping e c w = (failure, w') \<Longrightarrow> open_of w' = open_of w"
begin

definition balanced :: "int \<Rightarrow> 'c Daemon \<times> 'w \<Rightarrow> bool" where
  "balanced k s = (case s of (d, w) \<Rightarrow> dm_client d \<noteq> None \<and> open_of w = k)"

lemma once_balanced: "ie_factory e = Some f \<Longrightarrow> balanced k s \<Longrightarrow> reconnect_once e f s = (res, s') \<Longrightarrow> balanced k s'"
  using new new_failed close by (fastforce simp: reconnect_once_def balanced_def split: prod.splits sum.splits)

lemma reconnect_balanced: "balanced k (d, w) \<Longrightarrow> balanced k (attemptReconnect e d w)"
proof (cases "ie_factory e")
  case (Some f)
  assume "balanced k (d, w)"
  then have "balanced k (snd (RetryWithBackoff (beside (ie_retry e)) reconnect_options (reconnect_once e f) (d, w)))"
    by (rule retry_invariant [rotated 3])
      (use once_balanced [OF Some] sleep rand in \<open>auto simp: beside_def balanced_def split: prod.splits\<close>)
  then show ?thesis by (simp add: attemptReconnect_def Some)
qed (simp add: attemptReconnect_def)

lemma rules_open: "enforce_rules e c now session rules w = (ended, w') \<Longrightarrow> open_of w' = open_of w"
  by (induction rules arbitrary: w) (auto simp: terminateSession_def dest!: ending split: if_splits prod.splits sum.splits bool.splits)

lemma sessions_open: "enforce_sessions e c now rules sessions k w = (terminated, w') \<Longrightarrow> open_of w' = open_of w"
  by (induction sessions arbitrary: k w) (auto dest!: rules_open split: prod.splits)

lemma scan_balanced:
  assumes "balanced k (d, w)"
  shows "\<exists>res w'. scanAndEnforce e d w = Some (res, w') \<and> balanced k (d, w')"
  using assms by (auto simp: scanAndEnforce_def balanced_def Let_def dest!: listing sessions_open split: option.splits prod.splits sum.splits)

lemma cycle_balanced:
  assumes "balanced k (d, w)"
  shows "\<exists>s. runScanCycle e d w = Some s \<and> balanced k s"
proof -
  obtain n m err w1 where s: "scanAndEnforce e d w = Some ((n, m, err), w1)" "balanced k (d, w1)" using scan_balanced [OF assms] by (metis prod.collapse)
  then have "balanced k (d\<lparr>dm_consecutiveFails := x\<rparr>, w1)" for x by (simp add: balanced_def)
  then show ?thesis using s(1) reconnect_balanced by (cases err) (simp_all add: runScanCycle_def Let_def del: split_paired_Ex)
qed

lemma check_balanced: "balanced k (d, w) \<Longrightarrow> balanced k (healthCheck e d w)"
proof -
  assume b: "balanced k (d, w)"
  then obtain c where c: "dm_client d = Some c" "open_of w = k" by (auto simp: balanced_def)
  obtain failure w1 where p: "ie_ping e c w = (failure, w1)" by fastforce
  then have "balanced k (d, w1)" using c ping [OF p] by (simp add: balanced_def)
  then show ?thesis using reconnect_balanced by (cases failure) (simp_all add: healthCheck_def c p)
qed

lemma ticks_balanced: "balanced k (d, w) \<Longrightarrow> \<exists>s. scan_ticks e ts d w = Some s \<and> balanced k s"
proof (induction ts arbitrary: d w)
  case (Cons t ts)
  obtain s where s: "(case t of Scan_Tick \<Rightarrow> runScanCycle e d w | Health_Tick \<Rightarrow> Some (healthCheck e d w)) = Some s" "balanced k s"
    using cycle_balanced [OF Cons.prems] check_balanced [OF Cons.prems] by (cases t) auto
  then show ?case using Cons.IH [of "fst s" "snd s"] by (cases s) auto
qed simp

end

section \<open>A database in memory\<close>

text \<open>Backends that can be listed and ended, behind clients that are counted.\<close>

record mem_db =
  md_sessions :: "SessionWithGroup list"
  md_log :: "(int32 \<times> bool) list"
  md_open :: int
  md_now :: int

definition mem_idle :: "(unit, mem_db) idle_env" where
  "mem_idle = \<lparr>
     ie_list = (\<lambda>c w. (Inr (md_sessions w), w)),
     ie_terminate = (\<lambda>c pid w. let there = list_ex (\<lambda>s. Sess_PID s = pid) (md_sessions w) in
       (Inr there, w\<lparr>md_sessions := filter (\<lambda>s. Sess_PID s \<noteq> pid) (md_sessions w), md_log := md_log w @ [(pid, there)]\<rparr>)),
     ie_ping = (\<lambda>c w. (None, w)),
     ie_close = (\<lambda>c w. w\<lparr>md_open := md_open w - 1\<rparr>),
     ie_factory = Some (\<lambda>w. (Inr (), w\<lparr>md_open := md_open w + 1\<rparr>)),
     ie_retry = \<lparr>re_cancelled = (\<lambda>w. False), re_sleep = (\<lambda>t w. (True, w\<lparr>md_now := md_now w + t\<rparr>)), re_rand = (\<lambda>w. (0, w))\<rparr>,
     ie_now = md_now\<rparr>"

interpretation mem_log: session_log mem_idle "()" md_log
  by unfold_locales (auto simp: mem_idle_def Let_def)

interpretation mem_count: client_count mem_idle md_open
  by unfold_locales (auto simp: mem_idle_def Let_def)

section \<open>Properties\<close>

text \<open>
  C25. A scan does what the rules say: for every session the database lists, whatever it answers, a
  scan asks for the end of the backend once for every rule that matches, in order, until one succeeds:
  never without a matching rule, never again after a success; and it reports the number of sessions
  seen and ended.
\<close>

theorem idle_scan_enforces_rules:
  assumes "session_log e c log_of" "dm_client d = Some c" "list_ex IR_Enabled (dm_rules d)" "ie_list e c w = (Inr sessions, w1)"
  shows "\<exists>bss w'. list_all2 (calls_ok (dm_rules d) (ie_now e w1)) sessions bss \<and>
    scanAndEnforce e d w = Some ((int (length sessions), int (length (filter (\<lambda>bs. bs \<noteq> [] \<and> last bs) bss)), None), w') \<and>
    log_of w' = log_of w @ concat (map2 (\<lambda>s. map (Pair (Sess_PID s))) sessions bss)"
proof -
  obtain k w' where s: "enforce_sessions e c (ie_now e w1) (dm_rules d) sessions 0 w1 = (k, w')" by fastforce
  have "scanAndEnforce e d w = Some ((int (length sessions), k, None), w')"
    using assms(2-4) s by (cases "dm_rules d") (auto simp: scanAndEnforce_def)
  then show ?thesis using session_log.sessions_enforced [OF assms(1) s] session_log.lists [OF assms(1,4)] by auto
qed

text \<open>
  The daemon neither panics nor leaks: through any sequence of scans and health checks, whatever
  the database, its factory and the context answer, a daemon that was started with a client always has
  one when it needs it, and exactly one stays open.
\<close>

lemma idle_daemon_keeps_one_client:
  assumes "client_count e open_of" "dm_client d \<noteq> None"
  shows "\<exists>d' w'. scan_ticks e ts d w = Some (d', w') \<and> dm_client d' \<noteq> None \<and> open_of w' = open_of w"
  using client_count.ticks_balanced [OF assms(1), of "open_of w" d w ts] assms(2)
  by (fastforce simp: client_count.balanced_def [OF assms(1)])

section \<open>Samples\<close>

definition idle_session :: "int32 \<Rightarrow> string \<Rightarrow> int \<Rightarrow> SessionWithGroup" where
  "idle_session pid st since = \<lparr>Sess_PID = pid, Sess_Username = ''u'', Sess_Database = ''d'', Sess_Application = [], Sess_ClientAddress = [], Sess_State = st,
     Sess_WaitEventType = [], Sess_Query = [], Sess_QueryStart = since, Sess_Duration = [], Sess_ResourceGroup = ''g''\<rparr>"

definition idle_rule :: "string \<Rightarrow> Duration \<Rightarrow> IdleRule" where
  "idle_rule grp t = \<lparr>IR_Name = ''r'', IR_Enabled = True, IR_ResourceGroup = grp, IR_IdleTimeout = t, IR_ExcludeInTransaction = True, IR_TerminateMessage = []\<rparr>"

definition idle_world :: mem_db where
  "idle_world = \<lparr>md_sessions = [idle_session 1 stateIdle 0, idle_session 2 stateActive 0, idle_session 3 stateIdle (9 * Second), idle_session 4 stateIdleInTransaction 0],
     md_log = [], md_open = 1, md_now = 10 * Second\<rparr>"

definition idle_daemon :: "unit Daemon" where
  "idle_daemon = \<lparr>dm_client = Some (), dm_rules = [idle_rule ''h'' 0, idle_rule ''g'' (5 * Second)], dm_consecutiveFails = 0\<rparr>"

theorem idle_scan_enforces_rules_witness:
  "\<exists>w'. scanAndEnforce mem_idle idle_daemon idle_world = Some ((4, 1, None), w') \<and> md_log w' = [(1, True)]"
proof -
  have "\<exists>bss w'. list_all2 (calls_ok (dm_rules idle_daemon) (ie_now mem_idle idle_world)) (md_sessions idle_world) bss \<and>
    scanAndEnforce mem_idle idle_daemon idle_world = Some ((int (length (md_sessions idle_world)), int (length (filter (\<lambda>bs. bs \<noteq> [] \<and> last bs) bss)), None), w') \<and>
    md_log w' = md_log idle_world @ concat (map2 (\<lambda>s. map (Pair (Sess_PID s))) (md_sessions idle_world) bss)"
    by (rule idle_scan_enforces_rules [OF mem_log.session_log_axioms]) (simp_all add: idle_daemon_def idle_rule_def mem_idle_def)
  moreover have "scanAndEnforce mem_idle idle_daemon idle_world = Some ((4, 1, None), snd (the (scanAndEnforce mem_idle idle_daemon idle_world)))"
    by code_simp
  moreover have "md_log (snd (the (scanAndEnforce mem_idle idle_daemon idle_world))) = [(1, True)]" by code_simp
  ultimately show ?thesis by blast
qed

end
