(* ===== verification/IdleHandover.thy ===== *)
theory IdleHandover
  imports Idle
begin

text \<open>
  Starting and stopping the idle-session daemon, after \<^verbatim>\<open>Start\<close>, \<^verbatim>\<open>Stop\<close> and \<^verbatim>\<open>scanLoop\<close> of
  \<^verbatim>\<open>internal/idle/daemon.go\<close>, as a step relation over any number of threads. Loops are numbered by
  generation; a generation stands for its context, its cancel function and its done channel. A step is
  a critical section of the mutex, a receive from a channel, a call of a cancel function, or the end
  of a loop.
\<close>

section \<open>Model\<close>

text \<open>
  Where a thread is: outside, before the critical section of \<open>Start\<close>, waiting for a generation to drain,
  before clearing its channel; before the critical section of \<open>Stop\<close>, before cancelling, waiting.
\<close>

datatype thread_pc =
    Outside
  | Start_Check | Start_Wait nat | Start_Clear nat
  | Stop_Take | Stop_Cancel nat "nat option" | Stop_Wait nat

record handover =
  ho_cancel :: "nat option"
  ho_done :: "nat option"
  ho_running :: "nat list"
  ho_closed :: "nat list"
  ho_canceled :: "nat list"
  ho_next :: nat
  ho_pcs :: "thread_pc list"

definition is_at :: "handover \<Rightarrow> nat \<Rightarrow> thread_pc \<Rightarrow> bool" where
  "is_at s t pc \<longleftrightarrow> t < length (ho_pcs s) \<and> ho_pcs s ! t = pc"

definition go :: "nat \<Rightarrow> thread_pc \<Rightarrow> handover \<Rightarrow> handover" where
  "go t pc s = s\<lparr>ho_pcs := (ho_pcs s)[t := pc]\<rparr>"

text \<open>What the calls that are under way and the loops do.\<close>

inductive daemon_step :: "handover \<Rightarrow> handover \<Rightarrow> bool" where
  start_running: "is_at s t Start_Check \<Longrightarrow> ho_cancel s \<noteq> None \<Longrightarrow> daemon_step s (go t Outside s)"
| start_spawns: "is_at s t Start_Check \<Longrightarrow> ho_cancel s = None \<Longrightarrow> ho_done s = None \<Longrightarrow>
    daemon_step s (go t Outside (s\<lparr>ho_cancel := Some (ho_next s), ho_done := Some (ho_next s), ho_running := ho_next s # ho_running s, ho_next := Suc (ho_next s)\<rparr>))"
| start_waits: "is_at s t Start_Check \<Longrightarrow> ho_cancel s = None \<Longrightarrow> ho_done s = Some g \<Longrightarrow> daemon_step s (go t (Start_Wait g) s)"
| start_woken: "is_at s t (Start_Wait g) \<Longrightarrow> g \<in> set (ho_closed s) \<Longrightarrow> daemon_step s (go t (Start_Clear g) s)"
| start_clears: "is_at s t (Start_Clear g) \<Longrightarrow>
    daemon_step s (go t Start_Check (s\<lparr>ho_done := (if ho_done s = Some g then None else ho_done s)\<rparr>))"
| stop_takes: "is_at s t Stop_Take \<Longrightarrow>
    daemon_step s (go t (case ho_cancel s of None \<Rightarrow> Outside | Some g \<Rightarrow> Stop_Cancel g (ho_done s)) (s\<lparr>ho_cancel := None\<rparr>))"
| stop_cancels: "is_at s t (Stop_Cancel g dn) \<Longrightarrow>
    daemon_step s (go t (case dn of None \<Rightarrow> Outside | Some h \<Rightarrow> Stop_Wait h) (s\<lparr>ho_canceled := g # ho_canceled s\<rparr>))"
| stop_woken: "is_at s t (Stop_Wait g) \<Longrightarrow> g \<in> set (ho_closed s) \<Longrightarrow> daemon_step s (go t Outside s)"
| loop_exits: "g \<in> set (ho_running s) \<Longrightarrow> g \<in> set (ho_canceled s) \<Longrightarrow>
    daemon_step s (s\<lparr>ho_running := removeAll g (ho_running s), ho_closed := g # ho_closed s\<rparr>)"

text \<open>What their callers do: call, and cancel the context a loop was started with.\<close>

inductive daemon_call :: "handover \<Rightarrow> handover \<Rightarrow> bool" where
  calls_start: "is_at s t Outside \<Longrightarrow> daemon_call s (go t Start_Check s)"
| calls_stop: "is_at s t Outside \<Longrightarrow> daemon_call s (go t Stop_Take s)"
| parent_canceled: "g < ho_next s \<Longrightarrow> daemon_call s (s\<lparr>ho_canceled := g # ho_canceled s\<rparr>)"

definition fresh_daemon :: "nat \<Rightarrow> handover" where
  "fresh_daemon n = \<lparr>ho_cancel = None, ho_done = None, ho_running = [], ho_closed = [], ho_canceled = [], ho_next = 0, ho_pcs = replicate n Outside\<rparr>"

definition daemon_reachable :: "handover \<Rightarrow> bool" where
  "daemon_reachable s \<longleftrightarrow> (\<exists>n. (\<lambda>s s'. daemon_step s s' \<or> daemon_call s s')\<^sup>*\<^sup>* (fresh_daemon n) s)"

section \<open>Invariant\<close>

text \<open>A thread that names a generation names one that was started.\<close>

definition alive :: "handover \<Rightarrow> nat \<Rightarrow> bool" where
  "alive s g \<longleftrightarrow> g \<in> set (ho_running s) \<or> g \<in> set (ho_closed s)"

definition pc_ok :: "handover \<Rightarrow> thread_pc \<Rightarrow> bool" where
  "pc_ok s pc = (case pc of
     Start_Wait g \<Rightarrow> alive s g \<and> ho_cancel s \<noteq> Some g
   | Start_Clear g \<Rightarrow> g \<in> set (ho_closed s) \<and> ho_cancel s \<noteq> Some g
   | Stop_Cancel g dn \<Rightarrow> dn = Some g \<and> alive s g
   | Stop_Wait g \<Rightarrow> g \<in> set (ho_canceled s) \<and> alive s g
   | _ \<Rightarrow> True)"

definition loops_ok :: "handover \<Rightarrow> bool" where
  "loops_ok s \<longleftrightarrow> distinct (ho_running s) \<and> (\<forall>g \<in> set (ho_running s). ho_done s = Some g \<and> g \<notin> set (ho_closed s)) \<and>
     (\<forall>g. alive s g \<longrightarrow> g < ho_next s) \<and> (\<forall>g. ho_cancel s = Some g \<longrightarrow> ho_done s = Some g) \<and> (\<forall>g. ho_done s = Some g \<longrightarrow> alive s g)"

text \<open>A running loop without a cancel function is cancelled, or a thread is about to.\<close>

definition drains :: "handover \<Rightarrow> bool" where
  "drains s \<longleftrightarrow> (\<forall>g \<in> set (ho_running s). ho_cancel s = None \<longrightarrow> g \<in> set (ho_canceled s) \<or> (\<exists>t. is_at s t (Stop_Cancel g (Some g))))"

definition handover_ok :: "handover \<Rightarrow> bool" where
  "handover_ok s \<longleftrightarrow> loops_ok s \<and> list_all (pc_ok s) (ho_pcs s) \<and> drains s"

lemma go_simps [simp]:
  "ho_cancel (go t pc s) = ho_cancel s" "ho_done (go t pc s) = ho_done s" "ho_running (go t pc s) = ho_running s"
  "ho_closed (go t pc s) = ho_closed s" "ho_canceled (go t pc s) = ho_canceled s" "ho_next (go t pc s) = ho_next s"
  "ho_pcs (go t pc s) = (ho_pcs s)[t := pc]"
  by (simp_all add: go_def)

lemma loops_ok_go [simp]: "loops_ok (go t pc s) = loops_ok s"
  by (simp add: loops_ok_def alive_def)

lemma pc_ok_go [simp]: "pc_ok (go t pc s) = pc_ok s"
  by (simp add: pc_ok_def alive_def fun_eq_iff split: thread_pc.split)

lemma is_at_go: "is_at (go t pc s) t' pc' \<longleftrightarrow> (if t' = t then t < length (ho_pcs s) \<and> pc' = pc else is_at s t' pc')"
  by (auto simp: is_at_def)

lemma list_all_update: "list_all P xs \<Longrightarrow> P x \<Longrightarrow> list_all P (xs[i := x])"
  by (induction xs arbitrary: i) (auto split: nat.split)

lemma drains_go:
  assumes "drains s" "is_at s t old" "\<And>g. old = Stop_Cancel g (Some g) \<Longrightarrow> g \<in> set (ho_canceled s)"
  shows "drains (go t pc s)"
  using assms unfolding drains_def is_at_go by (metis is_at_def go_simps(1,3,5))

lemma pcs_cong: "list_all (pc_ok s) xs \<Longrightarrow> (\<And>pc. pc_ok s pc \<Longrightarrow> pc_ok s' pc) \<Longrightarrow> list_all (pc_ok s') xs"
  by (rule list.pred_mono_strong)

lemma handover_ok_go:
  assumes "handover_ok s" "is_at s t old" "\<And>g. old = Stop_Cancel g (Some g) \<Longrightarrow> g \<in> set (ho_canceled s)" "pc_ok s pc"
  shows "handover_ok (go t pc s)"
  using assms drains_go [OF _ assms(2,3)] by (simp add: handover_ok_def list_all_update)

lemma pc_ok_at: "handover_ok s \<Longrightarrow> is_at s t pc \<Longrightarrow> pc_ok s pc"
  by (auto simp: handover_ok_def is_at_def list_all_length)

lemma running_done: "loops_ok s \<Longrightarrow> ho_running s = (case ho_done s of None \<Rightarrow> [] | Some g \<Rightarrow> if g \<in> set (ho_running s) then [g] else [])"
proof -
  assume ok: "loops_ok s"
  then have all: "\<forall>g \<in> set (ho_running s). ho_done s = Some g" "distinct (ho_running s)" by (auto simp: loops_ok_def)
  show ?thesis
  proof (cases "ho_running s")
    case (Cons g gs)
    then have "gs = []" using all by (cases gs) auto
    then show ?thesis using Cons all by simp
  qed (auto split: option.split)
qed

lemma spawn_ok:
  assumes "handover_ok s" "ho_cancel s = None" "ho_done s = None"
  shows "handover_ok (s\<lparr>ho_cancel := Some (ho_next s), ho_done := Some (ho_next s), ho_running := ho_next s # ho_running s, ho_next := Suc (ho_next s)\<rparr>)"
    (is "handover_ok ?s")
proof -
  have l: "loops_ok s" and p: "list_all (pc_ok s) (ho_pcs s)" using assms(1) by (auto simp: handover_ok_def)
  have r: "ho_running s = []" using running_done [OF l] assms(3) by simp
  have before: "g < ho_next s" if "alive s g" for g using l that by (auto simp: loops_ok_def)
  then have "loops_ok ?s" using l r by (auto simp: loops_ok_def alive_def less_Suc_eq)
  moreover have "pc_ok ?s pc" if "pc_ok s pc" for pc
    using that before by (fastforce simp: pc_ok_def alive_def split: thread_pc.splits)
  ultimately show ?thesis using p pcs_cong [OF p, of ?s] by (simp add: handover_ok_def drains_def)
qed

lemma clear_ok:
  assumes "handover_ok s" "is_at s t (Start_Clear g)"
  shows "handover_ok (s\<lparr>ho_done := (if ho_done s = Some g then None else ho_done s)\<rparr>)" (is "handover_ok ?s")
proof -
  have l: "loops_ok s" and p: "list_all (pc_ok s) (ho_pcs s)" "drains s" using assms(1) by (auto simp: handover_ok_def)
  have "g \<in> set (ho_closed s)" "ho_cancel s \<noteq> Some g" using pc_ok_at [OF assms] by (auto simp: pc_ok_def)
  then have "loops_ok ?s" using l by (auto simp: loops_ok_def alive_def)
  moreover have "pc_ok ?s pc" if "pc_ok s pc" for pc using that by (simp add: pc_ok_def alive_def split: thread_pc.splits)
  ultimately show ?thesis using p pcs_cong [OF p(1), of ?s] by (simp add: handover_ok_def drains_def is_at_def)
qed

lemma take_ok:
  assumes "handover_ok s" "is_at s t Stop_Take"
  shows "handover_ok (go t (case ho_cancel s of None \<Rightarrow> Outside | Some g \<Rightarrow> Stop_Cancel g (ho_done s)) (s\<lparr>ho_cancel := None\<rparr>))"
proof -
  let ?s = "s\<lparr>ho_cancel := None\<rparr>"
  have l: "loops_ok s" and p: "list_all (pc_ok s) (ho_pcs s)" "drains s" using assms(1) by (auto simp: handover_ok_def)
  have l': "loops_ok ?s" using l by (simp add: loops_ok_def alive_def)
  have p': "list_all (pc_ok ?s) (ho_pcs s)" by (rule pcs_cong [OF p(1)]) (auto simp: pc_ok_def alive_def split: thread_pc.splits)
  show ?thesis
  proof (cases "ho_cancel s")
    case None
    then have same: "?s = s" by simp
    show ?thesis unfolding None option.case same by (rule handover_ok_go [OF assms]) (simp_all add: pc_ok_def)
  next
    case (Some g)
    then have "ho_done s = Some g" "alive s g" using l by (auto simp: loops_ok_def)
    then have "pc_ok ?s (Stop_Cancel g (ho_done s))" by (simp add: pc_ok_def alive_def)
    moreover have "drains (go t (Stop_Cancel g (Some g)) ?s)"
      using assms(2) l \<open>ho_done s = Some g\<close> by (auto simp: drains_def is_at_go is_at_def loops_ok_def intro!: exI [of _ t])
    ultimately show ?thesis using l' p' Some \<open>ho_done s = Some g\<close> by (simp add: handover_ok_def list_all_update)
  qed
qed

lemma canceled_ok:
  assumes "handover_ok s"
  shows "handover_ok (s\<lparr>ho_canceled := g # ho_canceled s\<rparr>)" (is "handover_ok ?s")
proof -
  have p: "list_all (pc_ok s) (ho_pcs s)" using assms by (simp add: handover_ok_def)
  have "list_all (pc_ok ?s) (ho_pcs s)" by (rule pcs_cong [OF p]) (auto simp: pc_ok_def alive_def split: thread_pc.splits)
  then show ?thesis using assms by (auto simp: handover_ok_def loops_ok_def alive_def drains_def is_at_def)
qed

lemma exit_ok:
  assumes "handover_ok s" "g \<in> set (ho_running s)"
  shows "handover_ok (s\<lparr>ho_running := removeAll g (ho_running s), ho_closed := g # ho_closed s\<rparr>)" (is "handover_ok ?s")
proof -
  have l: "loops_ok s" and p: "list_all (pc_ok s) (ho_pcs s)" "drains s" using assms(1) by (auto simp: handover_ok_def)
  have alive: "alive ?s h \<longleftrightarrow> alive s h" for h using assms(2) by (auto simp: alive_def)
  have "loops_ok ?s" using l unfolding loops_ok_def alive by (auto simp: distinct_removeAll)
  moreover have "list_all (pc_ok ?s) (ho_pcs s)" by (rule pcs_cong [OF p(1)]) (auto simp: pc_ok_def alive split: thread_pc.splits)
  moreover have "drains ?s" using p(2) by (auto simp: drains_def is_at_def)
  ultimately show ?thesis by (simp add: handover_ok_def)
qed

lemma step_ok: "daemon_step s s' \<Longrightarrow> handover_ok s \<Longrightarrow> handover_ok s'"
proof (induction rule: daemon_step.induct)
  case (start_running s t)
  then show ?case using handover_ok_go [of s t Start_Check Outside] by (simp add: pc_ok_def)
next
  case (start_spawns s t)
  then show ?case by (intro handover_ok_go [OF spawn_ok, where old = Start_Check]) (simp_all add: is_at_def pc_ok_def)
next
  case (start_waits s t g)
  then have "alive s g" by (auto simp: handover_ok_def loops_ok_def)
  then show ?case using start_waits handover_ok_go [of s t Start_Check "Start_Wait g"] by (simp add: pc_ok_def)
next
  case (start_woken s t g)
  then show ?case using pc_ok_at [of s t "Start_Wait g"] handover_ok_go [of s t "Start_Wait g" "Start_Clear g"] by (simp add: pc_ok_def)
next
  case (start_clears s t g)
  then show ?case by (intro handover_ok_go [OF clear_ok, where old = "Start_Clear g"]) (auto simp: is_at_def pc_ok_def)
next
  case (stop_takes s t)
  then show ?case by (rule take_ok [rotated])
next
  case (stop_cancels s t g dn)
  then have "dn = Some g" "alive s g" using pc_ok_at [of s t "Stop_Cancel g dn"] by (simp_all add: pc_ok_def)
  then show ?case using stop_cancels
    by (intro handover_ok_go [OF canceled_ok, where old = "Stop_Cancel g dn"]) (auto simp: is_at_def pc_ok_def alive_def)
next
  case (stop_woken s t g)
  then show ?case using handover_ok_go [of s t "Stop_Wait g" Outside] by (simp add: pc_ok_def)
qed (rule exit_ok)

lemma call_ok: "daemon_call s s' \<Longrightarrow> handover_ok s \<Longrightarrow> handover_ok s'"
proof (induction rule: daemon_call.induct)
  case (calls_start s t)
  then show ?case using handover_ok_go [of s t Outside Start_Check] by (simp add: pc_ok_def)
next
  case (calls_stop s t)
  then show ?case using handover_ok_go [of s t Outside Stop_Take] by (simp add: pc_ok_def)
qed (rule canceled_ok)

lemma fresh_ok: "handover_ok (fresh_daemon n)"
  by (simp add: handover_ok_def fresh_daemon_def loops_ok_def alive_def drains_def list_all_iff pc_ok_def)

lemma reachable_ok: "daemon_reachable s \<Longrightarrow> handover_ok s"
  unfolding daemon_reachable_def
proof (elim exE)
  fix n assume "(\<lambda>s s'. daemon_step s s' \<or> daemon_call s s')\<^sup>*\<^sup>* (fresh_daemon n) s"
  then show ?thesis by (induction rule: rtranclp_induct) (auto simp: fresh_ok dest: step_ok call_ok)
qed

section \<open>Progress\<close>

text \<open>How far a thread is from the end of its call, while no new generation is started.\<close>

definition pc_weight :: "nat option \<Rightarrow> thread_pc \<Rightarrow> nat" where
  "pc_weight dn pc = (case pc of
     Outside \<Rightarrow> 0
   | Start_Check \<Rightarrow> (if dn = None then 1 else 4)
   | Start_Wait g \<Rightarrow> (if dn \<in> {None, Some g} then 3 else 6)
   | Start_Clear g \<Rightarrow> (if dn \<in> {None, Some g} then 2 else 5)
   | Stop_Take \<Rightarrow> 3 | Stop_Cancel _ _ \<Rightarrow> 2 | Stop_Wait _ \<Rightarrow> 1)"

definition calls_open :: "handover \<Rightarrow> nat" where
  "calls_open s = length (filter (\<lambda>pc. pc \<noteq> Outside) (ho_pcs s))"

definition work_left :: "handover \<Rightarrow> nat" where
  "work_left s = sum_list (map (pc_weight (ho_done s)) (ho_pcs s)) + length (ho_running s)"

lemma filter_update:
  "t < length xs \<Longrightarrow> length (filter P (xs[t := x])) + (if P (xs ! t) then 1 else 0) = length (filter P xs) + (if P x then 1 else 0)"
proof (induction xs arbitrary: t)
  case (Cons y ys)
  then show ?case by (cases t) auto
qed simp

lemma calls_open_go: "is_at s t old \<Longrightarrow> old \<noteq> Outside \<Longrightarrow> calls_open (go t Outside s) < calls_open s"
  using filter_update [of t "ho_pcs s" "\<lambda>pc. pc \<noteq> Outside" Outside] by (auto simp: calls_open_def is_at_def)

lemma calls_open_same: "is_at s t old \<Longrightarrow> old \<noteq> Outside \<Longrightarrow> pc \<noteq> Outside \<Longrightarrow> calls_open (go t pc s) = calls_open s"
  using filter_update [of t "ho_pcs s" "\<lambda>pc. pc \<noteq> Outside" pc] by (auto simp: calls_open_def is_at_def)

lemma work_go:
  assumes "is_at s t old" "pc_weight (ho_done s) pc < pc_weight (ho_done s) old"
  shows "work_left (go t pc s) < work_left s"
proof -
  let ?w = "map (pc_weight (ho_done s)) (ho_pcs s)"
  have "sum_list (?w[t := pc_weight (ho_done s) pc]) + ?w ! t = sum_list ?w + pc_weight (ho_done s) pc"
    using assms(1) elem_le_sum_list [of t ?w] by (simp add: sum_list_update is_at_def)
  then show ?thesis using assms by (simp add: work_left_def map_update is_at_def)
qed

lemma cleared_weight: "pc_weight (if dn = Some g then None else dn) pc \<le> pc_weight dn pc"
  by (auto simp: pc_weight_def split: thread_pc.split)

lemma work_clear:
  assumes "is_at s t (Start_Clear g)"
  shows "work_left (go t Start_Check (s\<lparr>ho_done := (if ho_done s = Some g then None else ho_done s)\<rparr>)) < work_left s"
proof -
  let ?s = "s\<lparr>ho_done := (if ho_done s = Some g then None else ho_done s)\<rparr>"
  have "work_left (go t Start_Check ?s) < work_left ?s"
    using assms by (intro work_go [where old = "Start_Clear g"]) (auto simp: is_at_def pc_weight_def)
  moreover have "work_left ?s \<le> work_left s"
    using sum_list_mono [of "ho_pcs s" "pc_weight (ho_done ?s)" "pc_weight (ho_done s)"] cleared_weight by (simp add: work_left_def)
  ultimately show ?thesis by simp
qed

lemma step_decreases:
  "daemon_step s s' \<Longrightarrow> calls_open s' < calls_open s \<or> calls_open s' = calls_open s \<and> work_left s' < work_left s"
proof (induction rule: daemon_step.induct)
  case (start_spawns s t)
  then show ?case using calls_open_go [of s t Start_Check] by (simp add: calls_open_def)
next
  case (start_waits s t g)
  then show ?case using calls_open_same [of s t Start_Check "Start_Wait g"] work_go [of s t Start_Check "Start_Wait g"] by (simp add: pc_weight_def)
next
  case (start_woken s t g)
  then show ?case using calls_open_same [of s t "Start_Wait g" "Start_Clear g"] work_go [of s t "Start_Wait g" "Start_Clear g"] by (simp add: pc_weight_def)
next
  case (start_clears s t g)
  then show ?case using calls_open_same [of s t "Start_Clear g" Start_Check] work_clear [of s t g] by (simp add: calls_open_def)
next
  case (stop_takes s t)
  show ?case
  proof (cases "ho_cancel s")
    case None
    then show ?thesis using stop_takes calls_open_go [of s t Stop_Take] by (simp add: calls_open_def)
  next
    case (Some g)
    then show ?thesis using stop_takes calls_open_same [of s t Stop_Take "Stop_Cancel g (ho_done s)"] work_go [of s t Stop_Take "Stop_Cancel g (ho_done s)"]
      by (simp add: calls_open_def work_left_def pc_weight_def)
  qed
next
  case (stop_cancels s t g dn)
  show ?case
  proof (cases dn)
    case None
    then show ?thesis using stop_cancels calls_open_go [of s t "Stop_Cancel g dn"] by (simp add: calls_open_def)
  next
    case (Some h)
    then show ?thesis using stop_cancels calls_open_same [of s t "Stop_Cancel g dn" "Stop_Wait h"] work_go [of s t "Stop_Cancel g dn" "Stop_Wait h"]
      by (simp add: calls_open_def work_left_def pc_weight_def)
  qed
next
  case (loop_exits g s)
  then have "length (removeAll g (ho_running s)) < length (ho_running s)" by (metis length_removeAll_less)
  then show ?case by (simp add: calls_open_def work_left_def)
qed (use calls_open_go in fastforce)+

lemma waiting_progress:
  assumes "handover_ok s" "g \<in> set (ho_running s)" "g \<in> set (ho_canceled s) \<or> ho_cancel s \<noteq> Some g"
  shows "\<exists>s'. daemon_step s s'"
proof -
  have "ho_cancel s = None \<or> ho_cancel s = Some g" using assms(1,2) by (cases "ho_cancel s") (auto simp: handover_ok_def loops_ok_def)
  then have "g \<in> set (ho_canceled s) \<or> (\<exists>t. is_at s t (Stop_Cancel g (Some g)))"
    using assms by (auto simp: handover_ok_def drains_def)
  then show ?thesis using assms(2) daemon_step.loop_exits [of g s] daemon_step.stop_cancels [of s _ g "Some g"] by blast
qed

lemma progress:
  assumes "handover_ok s" "is_at s t pc" "pc \<noteq> Outside"
  shows "\<exists>s'. daemon_step s s'"
proof (cases pc)
  case Start_Check
  then show ?thesis using assms(2) daemon_step.start_running [of s t] daemon_step.start_spawns [of s t] daemon_step.start_waits [of s t] by (cases "ho_done s") blast+
next
  case (Start_Wait g)
  then have "alive s g" "ho_cancel s \<noteq> Some g" using pc_ok_at [OF assms(1,2)] by (simp_all add: pc_ok_def)
  then show ?thesis using waiting_progress [OF assms(1)] daemon_step.start_woken [of s t g] assms(2) Start_Wait by (auto simp: alive_def)
next
  case (Stop_Wait g)
  then have "alive s g" "g \<in> set (ho_canceled s)" using pc_ok_at [OF assms(1,2)] by (simp_all add: pc_ok_def)
  then show ?thesis using waiting_progress [OF assms(1)] daemon_step.stop_woken [of s t g] assms(2) Stop_Wait by (auto simp: alive_def)
qed (use assms daemon_step.start_clears daemon_step.stop_takes daemon_step.stop_cancels in blast)+

lemma steps_ok: "daemon_step\<^sup>*\<^sup>* s s' \<Longrightarrow> handover_ok s \<Longrightarrow> handover_ok s'"
  by (induction rule: rtranclp_induct) (auto dest: step_ok)

lemma no_endless_run: "\<nexists>f. \<forall>i. daemon_step (f i) (f (Suc i))"
proof
  assume "\<exists>f. \<forall>i. daemon_step (f i) (f (Suc i))"
  then obtain f where f: "\<And>i. daemon_step (f i) (f (Suc i))" by blast
  let ?m = "inv_image (less_than <*lex*> less_than) (\<lambda>s. (calls_open s, work_left s))"
  have "(f (Suc i), f i) \<in> ?m" for i using step_decreases [OF f [of i]] by auto
  moreover have "wf ?m" by (intro wf_inv_image wf_lex_prod wf_less_than)
  ultimately show False unfolding wf_iff_no_infinite_down_chain by blast
qed

section \<open>Properties\<close>

text \<open>
  C23. At most one scan loop runs: however the calls of Start and Stop of any number of threads, the
  ends of loops and the cancellation of their contexts interleave, there is no loop, or the one loop
  is that of the daemon's current generation, whose channel it has still to close, so that no channel
  is closed twice.
\<close>

theorem idle_single_loop:
  assumes "daemon_reachable s"
  shows "ho_running s = [] \<or> (\<exists>g. ho_running s = [g] \<and> ho_done s = Some g \<and> g \<notin> set (ho_closed s))"
proof -
  have l: "loops_ok s" using reachable_ok [OF assms] by (simp add: handover_ok_def)
  show ?thesis
  proof (cases "ho_running s")
    case (Cons g gs)
    then have "ho_done s = Some g" "g \<notin> set (ho_closed s)" using l by (auto simp: loops_ok_def)
    then show ?thesis using running_done [OF l] Cons by auto
  qed simp
qed

text \<open>
  C24. Start and Stop always return: from any reachable state, once no further calls are made, every
  run of the threads and loops ends, and when it has ended no thread is left inside Start or Stop.
\<close>

theorem idle_calls_return:
  assumes "daemon_reachable s"
  shows "(\<nexists>f. f 0 = s \<and> (\<forall>i. daemon_step (f i) (f (Suc i)))) \<and>
    (\<forall>s'. daemon_step\<^sup>*\<^sup>* s s' \<and> (\<nexists>s''. daemon_step s' s'') \<longrightarrow> list_all (\<lambda>pc. pc = Outside) (ho_pcs s'))"
proof (intro conjI allI impI)
  show "\<nexists>f. f 0 = s \<and> (\<forall>i. daemon_step (f i) (f (Suc i)))" using no_endless_run by blast
  fix s' assume run: "daemon_step\<^sup>*\<^sup>* s s' \<and> (\<nexists>s''. daemon_step s' s'')"
  then have "handover_ok s'" using steps_ok reachable_ok [OF assms] by blast
  then show "list_all (\<lambda>pc. pc = Outside) (ho_pcs s')"
    using progress [of s'] run by (auto simp: list_all_length is_at_def)
qed

section \<open>Samples\<close>

text \<open>One thread has started the daemon; it runs.\<close>

definition started_daemon :: handover where
  "started_daemon = \<lparr>ho_cancel = Some 0, ho_done = Some 0, ho_running = [0], ho_closed = [], ho_canceled = [], ho_next = 1, ho_pcs = [Outside]\<rparr>"

lemma started_reachable: "daemon_reachable started_daemon"
proof -
  let ?R = "\<lambda>s s'. daemon_step s s' \<or> daemon_call s s'"
  let ?s = "go 0 Start_Check (fresh_daemon 1)"
  have "?R (fresh_daemon 1) ?s" using daemon_call.calls_start [of "fresh_daemon 1" 0] by (simp add: is_at_def fresh_daemon_def)
  moreover have "?R ?s started_daemon"
    using daemon_step.start_spawns [of ?s 0] by (simp add: is_at_def fresh_daemon_def go_def started_daemon_def)
  ultimately show ?thesis unfolding daemon_reachable_def by (intro exI [of _ 1]) (rule converse_rtranclp_into_rtranclp [OF _ r_into_rtranclp])
qed

theorem idle_single_loop_witness: "\<exists>g. ho_running started_daemon = [g] \<and> ho_done started_daemon = Some g \<and> g \<notin> set (ho_closed started_daemon)"
  using idle_single_loop [OF started_reachable] by (simp add: started_daemon_def)

theorem idle_calls_return_witness: "\<nexists>f. f 0 = started_daemon \<and> (\<forall>i. daemon_step (f i) (f (Suc i)))"
  using idle_calls_return [OF started_reachable] by blast

end
