(* ===== verification/Regex.thy ===== *)
theory Regex
  imports Prelude
begin

text \<open>
  What the sources use of Go's \<^verbatim>\<open>regexp\<close>: matching with capture groups, where of all matches at the
  leftmost position the one a backtracking search finds first is taken. A match is a list of outcomes in
  that order, each the rest of the text and the groups captured so far, the latest first.
\<close>

section \<open>Model\<close>

datatype regex =
    Empty_Re
  | Class_Re "char \<Rightarrow> bool"
  | Seq_Re regex regex
  | Alt_Re regex regex
  | Star_Re bool regex
  | Group_Re nat regex

type_synonym captures = "(nat \<times> string) list"
type_synonym outcomes = "(string \<times> captures) list"

text \<open>
  Repetition, greedy or lazy: every round has to consume something, so that the length of the text bounds
  the number of rounds.
\<close>

fun star_outcomes :: "nat \<Rightarrow> (string \<Rightarrow> captures \<Rightarrow> outcomes) \<Rightarrow> bool \<Rightarrow> string \<Rightarrow> captures \<Rightarrow> outcomes" where
  "star_outcomes 0 f greedy s c = [(s, c)]"
| "star_outcomes (Suc n) f greedy s c =
     (let more = concat (map (\<lambda>(s', c'). if length s' < length s then star_outcomes n f greedy s' c' else []) (f s c))
      in if greedy then more @ [(s, c)] else (s, c) # more)"

primrec outcomes :: "regex \<Rightarrow> string \<Rightarrow> captures \<Rightarrow> outcomes" where
  "outcomes Empty_Re s c = [(s, c)]"
| "outcomes (Class_Re p) s c = (case s of [] \<Rightarrow> [] | x # xs \<Rightarrow> if p x then [(xs, c)] else [])"
| "outcomes (Seq_Re a b) s c = concat (map (\<lambda>(s', c'). outcomes b s' c') (outcomes a s c))"
| "outcomes (Alt_Re a b) s c = outcomes a s c @ outcomes b s c"
| "outcomes (Star_Re greedy a) s c = star_outcomes (length s) (outcomes a) greedy s c"
| "outcomes (Group_Re n a) s c = map (\<lambda>(s', c'). (s', (n, take (length s - length s') s) # c')) (outcomes a s c)"

text \<open>\<^verbatim>\<open>FindStringSubmatch\<close>, for an expression that begins with \<^verbatim>\<open>^\<close> and for one that does not.\<close>

definition match_start :: "regex \<Rightarrow> string \<Rightarrow> captures option" where
  "match_start r s = (case outcomes r s [] of [] \<Rightarrow> None | (_, c) # _ \<Rightarrow> Some c)"

fun match_anywhere :: "regex \<Rightarrow> string \<Rightarrow> captures option" where
  "match_anywhere r [] = match_start r []"
| "match_anywhere r (x # xs) = (case match_start r (x # xs) of Some c \<Rightarrow> Some c | None \<Rightarrow> match_anywhere r xs)"

text \<open>A group that did not take part is the empty string.\<close>

definition group :: "captures \<Rightarrow> nat \<Rightarrow> string" where
  "group c n = (case map_of c n of None \<Rightarrow> [] | Some s \<Rightarrow> s)"

subsection \<open>Notation\<close>

definition seq :: "regex list \<Rightarrow> regex" where
  "seq rs = foldr Seq_Re rs Empty_Re"

definition lit :: "string \<Rightarrow> regex" where
  "lit s = seq (map (\<lambda>x. Class_Re (\<lambda>y. y = x)) s)"

definition many :: "regex \<Rightarrow> regex" where "many r = Star_Re True r"
definition some :: "regex \<Rightarrow> regex" where "some r = Seq_Re r (Star_Re True r)"
definition maybe :: "regex \<Rightarrow> regex" where "maybe r = Alt_Re r Empty_Re"

definition re_space :: regex where
  "re_space = Class_Re (\<lambda>x. x \<in> {CHR '' '', CHR 0x09, CHR 0x0A, CHR 0x0C, CHR 0x0D})"

definition re_digit :: regex where "re_digit = Class_Re is_digit"

definition word_char :: "char \<Rightarrow> bool" where
  "word_char x \<longleftrightarrow> is_digit x \<or> x = CHR ''_'' \<or> 65 \<le> (of_char x :: nat) \<and> (of_char x :: nat) \<le> 90 \<or> 97 \<le> (of_char x :: nat) \<and> (of_char x :: nat) \<le> 122"

definition re_word :: regex where "re_word = Class_Re word_char"

definition re_any :: regex where "re_any = Class_Re (\<lambda>x. x \<noteq> CHR 0x0A)"

section \<open>Soundness\<close>

text \<open>Every outcome leaves a suffix of the text.\<close>

lemma star_outcomes_suffix:
  assumes "\<And>s c s' c'. (s', c') \<in> set (f s c) \<Longrightarrow> \<exists>p. s = p @ s'"
  shows "(s', c') \<in> set (star_outcomes n f g s c) \<Longrightarrow> \<exists>p. s = p @ s'"
proof (induction n arbitrary: s c)
  case (Suc n)
  show ?case
  proof (cases "(s', c') = (s, c)")
    case False
    then obtain t d where "(t, d) \<in> set (f s c)" "(s', c') \<in> set (star_outcomes n f g t d)"
      using Suc.prems by (auto simp: Let_def split: if_splits)
    then obtain p q where "s = p @ t" "t = q @ s'" using assms Suc.IH by blast
    then show ?thesis by (intro exI [of _ "p @ q"]) simp
  qed auto
qed simp

lemma outcomes_suffix: "(s', c') \<in> set (outcomes r s c) \<Longrightarrow> \<exists>p. s = p @ s'"
proof (induction r arbitrary: s c s' c')
  case (Class_Re p)
  then show ?case by (auto split: list.splits if_splits)
next
  case (Seq_Re a b)
  then obtain t d where "(t, d) \<in> set (outcomes a s c)" "(s', c') \<in> set (outcomes b t d)" by auto
  then obtain p q where "s = p @ t" "t = q @ s'" using Seq_Re.IH by blast
  then show ?case by (intro exI [of _ "p @ q"]) simp
next
  case (Star_Re g a)
  then show ?case using star_outcomes_suffix [of "outcomes a"] by (metis outcomes.simps(5))
qed auto

text \<open>A captured group is a piece of the text.\<close>

lemma captured_piece:
  assumes "(s', c') \<in> set (outcomes (Group_Re n r) s c)"
  shows "\<exists>p. s = p @ s' \<and> group c' n = p"
proof -
  obtain d where d: "(s', d) \<in> set (outcomes r s c)" "c' = (n, take (length s - length s') s) # d" using assms by auto
  then obtain p where "s = p @ s'" using outcomes_suffix by blast
  then show ?thesis using d(2) by (simp add: group_def)
qed

end
