(* ===== verification/PlanChecker.thy ===== *)
theory PlanChecker
  imports Regex Float64 Names
begin

text \<open>
  The plan checker, after \<^verbatim>\<open>internal/planchecker\<close>: the parser of EXPLAIN ANALYZE output with its regular
  expressions, the tree it builds by indentation, and the six checks. Nodes live in a store, since the
  parser appends children and attributes to nodes it has already linked; a node is named by its
  position there.
\<close>

section \<open>Model\<close>

subsection \<open>Numbers\<close>

text \<open>A float64 that \<^verbatim>\<open>ParseFloat\<close> answers for digits and points: a number, or infinity out of range.\<close>

datatype go_float = Fin rat | Inf

definition ParseFloat_digits :: "string \<Rightarrow> go_float" where
  "ParseFloat_digits s =
     (let ip = takeWhile is_digit s; r = dropWhile is_digit s; fp = drop 1 r
      in if (r = [] \<and> ip \<noteq> []) \<or> (r \<noteq> [] \<and> list_all is_digit fp \<and> (ip \<noteq> [] \<or> fp \<noteq> []))
         then (let x = rat_of_nat (digits_val 0 (ip @ fp)) / 10 ^ length fp
               in if x < 2 ^ 1024 - 2 ^ 970 then Fin (f64 x) else Inf)
         else Fin 0)"

text \<open>\<^verbatim>\<open>ParseInt\<close> on digits: out of range it answers the largest value beside the error, which is ignored.\<close>

definition ParseInt_digits :: "string \<Rightarrow> int64" where
  "ParseInt_digits s = min 9223372036854775807 (int (digits_val 0 s))"

definition float_gt :: "go_float \<Rightarrow> rat \<Rightarrow> bool" where
  "float_gt x y = (case x of Fin v \<Rightarrow> v > y | Inf \<Rightarrow> True)"

definition two_digits :: "nat \<Rightarrow> string" where
  "two_digits n = (if n < 10 then ''0'' else []) @ show_nat n"

text \<open>The verbs \<^verbatim>\<open>%.0f\<close> and \<^verbatim>\<open>%.2f\<close>, for values that are not negative.\<close>

definition fmt_f0 :: "go_float \<Rightarrow> string" where
  "fmt_f0 x = (case x of Fin v \<Rightarrow> show_int (round_even v) | Inf \<Rightarrow> ''+Inf'')"

definition fmt_f2 :: "go_float \<Rightarrow> string" where
  "fmt_f2 x = (case x of
     Fin v \<Rightarrow> (let n = nat (round_even (v * 100)) in show_nat (n div 100) @ ''.'' @ two_digits (n mod 100))
   | Inf \<Rightarrow> ''+Inf'')"

subsection \<open>Types\<close>

abbreviation SeverityWarning :: string where "SeverityWarning \<equiv> ''warning''"
abbreviation SeverityInfo :: string where "SeverityInfo \<equiv> ''info''"

record PlanNode =
  NodeType :: string
  Relation :: string
  Alias :: string
  StartupCost :: go_float
  TotalCost :: go_float
  PlanRows :: int64
  PlanWidth :: int64
  ActualStartup :: go_float
  ActualTotal :: go_float
  ActualRows :: int64
  ActualLoops :: int64
  Filter_cond :: string
  RowsRemoved :: int64
  SortKey :: string
  SortMethod :: string
  SortSpaceUsed :: int64
  SortSpaceType :: string
  JoinType :: string
  HashCond :: string
  JoinFilter :: string
  IndexName :: string
  IndexCond :: string
  Children :: "nat list"
  Depth :: int
  RawLines :: "string list"

definition empty_node :: PlanNode where
  "empty_node = \<lparr>NodeType = [], Relation = [], Alias = [], StartupCost = Fin 0, TotalCost = Fin 0, PlanRows = 0, PlanWidth = 0,
     ActualStartup = Fin 0, ActualTotal = Fin 0, ActualRows = 0, ActualLoops = 0, Filter_cond = [], RowsRemoved = 0, SortKey = [], SortMethod = [],
     SortSpaceUsed = 0, SortSpaceType = [], JoinType = [], HashCond = [], JoinFilter = [], IndexName = [], IndexCond = [], Children = [], Depth = 0, RawLines = []\<rparr>"

datatype detail = D_Int int64 | D_Float go_float | D_Str string

record PlanIssue =
  Iss_Severity :: string
  Iss_Category :: string
  Iss_NodeType :: string
  Iss_Relation :: string
  Iss_Description :: string
  Iss_Recommendation :: string
  Iss_Details :: "(string \<times> detail) list"

record PlanCheckResult =
  PCR_Issues :: "PlanIssue list"
  PCR_Summary :: string
  PCR_TotalNodes :: int
  PCR_PlanText :: string
  PCR_ExecutionTime :: go_float

subsection \<open>Expressions\<close>

definition re_number :: regex where
  "re_number = some (Class_Re (\<lambda>x. is_digit x \<or> x = CHR ''.''))"

definition cost_part :: "nat \<Rightarrow> regex list" where
  "cost_part n = [lit ''(cost='', Group_Re n re_number, lit ''..'', Group_Re (n + 1) re_number, some re_space,
     lit ''rows='', Group_Re (n + 2) (some re_digit), some re_space, lit ''width='', Group_Re (n + 3) (some re_digit), lit '')'']"

definition nodePattern :: regex where
  "nodePattern = seq ([Group_Re 1 (many re_space), maybe (Group_Re 2 (lit ''->'')), many re_space,
     Group_Re 3 (seq [re_word, Star_Re False (Class_Re (\<lambda>x. word_char x \<or> x \<in> {CHR '' '', CHR 0x09, CHR 0x0A, CHR 0x0C, CHR 0x0D}))]), some re_space,
     maybe (seq [lit ''on'', some re_space, Group_Re 4 (some re_word), some re_space, maybe (seq [Group_Re 5 (some re_word), some re_space])])] @ cost_part 6)"

definition actualPattern :: regex where
  "actualPattern = seq [lit ''(actual time='', Group_Re 1 re_number, lit ''..'', Group_Re 2 re_number, some re_space,
     lit ''rows='', Group_Re 3 (some re_digit), some re_space, lit ''loops='', Group_Re 4 (some re_digit), lit '')'']"

text \<open>A line of the form \<^verbatim>\<open>^\s*NAME:\s+(...)\<close>.\<close>

definition labelled :: "string \<Rightarrow> regex \<Rightarrow> regex" where
  "labelled name value = seq [many re_space, lit name, lit '':'', some re_space, value]"

definition sortMethodPattern :: regex where
  "sortMethodPattern = labelled ''Sort Method'' (seq [Group_Re 1 (seq [re_any, Star_Re False re_any]), some re_space,
     Group_Re 2 (Alt_Re (lit ''Memory'') (lit ''Disk'')), lit '':'', some re_space, Group_Re 3 (some re_digit), lit ''kB''])"

definition filterPattern :: regex where "filterPattern = labelled ''Filter'' (Group_Re 1 (some re_any))"
definition rowsRemovedPattern :: regex where "rowsRemovedPattern = labelled ''Rows Removed by Filter'' (Group_Re 1 (some re_digit))"
definition sortKeyPattern :: regex where "sortKeyPattern = labelled ''Sort Key'' (Group_Re 1 (some re_any))"
definition hashCondPattern :: regex where "hashCondPattern = labelled ''Hash Cond'' (Group_Re 1 (some re_any))"
definition indexCondPattern :: regex where "indexCondPattern = labelled ''Index Cond'' (Group_Re 1 (some re_any))"
definition indexNamePattern :: regex where "indexNamePattern = labelled ''Index Name'' (Group_Re 1 (some re_word))"
definition joinFilterPattern :: regex where "joinFilterPattern = labelled ''Join Filter'' (Group_Re 1 (some re_any))"

definition execTimePattern :: regex where
  "execTimePattern = seq [lit ''Execution Time:'', some re_space, Group_Re 1 re_number, some re_space, lit ''ms'']"

definition indexUsingPattern :: regex where
  "indexUsingPattern = seq [Group_Re 1 (seq [lit ''Index'', some re_space, maybe (seq [lit ''Only'', some re_space]), lit ''Scan'']),
     some re_space, lit ''using'', some re_space, Group_Re 2 (some re_word)]"

definition motionPattern :: regex where
  "motionPattern = seq ([Group_Re 1 (many re_space), maybe (Group_Re 2 (lit ''->'')), many re_space,
     Group_Re 3 (seq [Alt_Re (lit ''Gather'') (Alt_Re (lit ''Redistribute'') (lit ''Broadcast'')), some re_space, lit ''Motion'',
       some re_space, some (Class_Re (\<lambda>x. x \<noteq> CHR ''('')),
       many (seq [lit ''('', many (Class_Re (\<lambda>x. x \<noteq> CHR '')'')), lit '')'', some re_space])])] @ cost_part 4)"

subsection \<open>Lines\<close>

definition with_actual :: "string \<Rightarrow> PlanNode \<Rightarrow> PlanNode" where
  "with_actual line node =
     (case match_anywhere actualPattern line of
        None \<Rightarrow> node
      | Some c \<Rightarrow> node\<lparr>ActualStartup := ParseFloat_digits (group c 1), ActualTotal := ParseFloat_digits (group c 2),
          ActualRows := ParseInt_digits (group c 3), ActualLoops := ParseInt_digits (group c 4)\<rparr>)"

definition depth_of :: "captures \<Rightarrow> int" where
  "depth_of c = int (length (group c 1)) + (if group c 2 \<noteq> [] then int (length (group c 2)) else 0)"

definition parseNodeLine :: "string \<Rightarrow> (PlanNode \<times> int) option" where
  "parseNodeLine line =
     (case match_start nodePattern line of
        None \<Rightarrow> None
      | Some c \<Rightarrow>
          (let nodeType = TrimSpace (group c 3);
               node = empty_node\<lparr>NodeType := nodeType, Relation := group c 4, Alias := group c 5, StartupCost := ParseFloat_digits (group c 6),
                 TotalCost := ParseFloat_digits (group c 7), PlanRows := ParseInt_digits (group c 8), PlanWidth := ParseInt_digits (group c 9)\<rparr>;
               node1 = (case match_start indexUsingPattern nodeType of
                  None \<Rightarrow> node | Some i \<Rightarrow> node\<lparr>NodeType := group i 1, IndexName := group i 2\<rparr>)
           in Some (with_actual line node1, depth_of c)))"

definition parseMotionLine :: "string \<Rightarrow> (PlanNode \<times> int) option" where
  "parseMotionLine line =
     (case match_start motionPattern line of
        None \<Rightarrow> None
      | Some c \<Rightarrow>
          Some (with_actual line (empty_node\<lparr>NodeType := TrimSpace (group c 3), StartupCost := ParseFloat_digits (group c 4),
             TotalCost := ParseFloat_digits (group c 5), PlanRows := ParseInt_digits (group c 6), PlanWidth := ParseInt_digits (group c 7)\<rparr>), depth_of c))"

definition parseAttributeLine :: "string \<Rightarrow> PlanNode \<Rightarrow> PlanNode" where
  "parseAttributeLine line node =
     (case match_start filterPattern line of Some m \<Rightarrow> node\<lparr>Filter_cond := TrimSpace (group m 1)\<rparr>
      | None \<Rightarrow> case match_start rowsRemovedPattern line of Some m \<Rightarrow> node\<lparr>RowsRemoved := ParseInt_digits (group m 1)\<rparr>
      | None \<Rightarrow> case match_start sortKeyPattern line of Some m \<Rightarrow> node\<lparr>SortKey := TrimSpace (group m 1)\<rparr>
      | None \<Rightarrow> case match_start sortMethodPattern line of
            Some m \<Rightarrow> node\<lparr>SortMethod := TrimSpace (group m 1), SortSpaceType := group m 2, SortSpaceUsed := ParseInt_digits (group m 3)\<rparr>
      | None \<Rightarrow> case match_start hashCondPattern line of Some m \<Rightarrow> node\<lparr>HashCond := TrimSpace (group m 1)\<rparr>
      | None \<Rightarrow> case match_start indexCondPattern line of Some m \<Rightarrow> node\<lparr>IndexCond := TrimSpace (group m 1)\<rparr>
      | None \<Rightarrow> case match_start indexNamePattern line of Some m \<Rightarrow> node\<lparr>IndexName := TrimSpace (group m 1)\<rparr>
      | None \<Rightarrow> case match_start joinFilterPattern line of Some m \<Rightarrow> node\<lparr>JoinFilter := TrimSpace (group m 1)\<rparr>
      | None \<Rightarrow> node)"

subsection \<open>Trees\<close>

record plan_state =
  pl_nodes :: "PlanNode list"
  pl_roots :: "nat list"
  pl_stack :: "(nat \<times> int) list"

definition parse_line :: "string \<Rightarrow> plan_state \<Rightarrow> plan_state" where
  "parse_line line s =
     (case (case parseNodeLine line of Some nd \<Rightarrow> Some nd | None \<Rightarrow> parseMotionLine line) of
        Some (node, depth) \<Rightarrow>
          (let n = length (pl_nodes s);
               nodes = pl_nodes s @ [node\<lparr>Depth := depth, RawLines := RawLines node @ [line]\<rparr>];
               stack = dropWhile (\<lambda>(_, d). d \<ge> depth) (pl_stack s)
           in case stack of
                [] \<Rightarrow> \<lparr>pl_nodes = nodes, pl_roots = pl_roots s @ [n], pl_stack = [(n, depth)]\<rparr>
              | (parent, _) # _ \<Rightarrow>
                  \<lparr>pl_nodes = nodes[parent := (nodes ! parent)\<lparr>Children := Children (nodes ! parent) @ [n]\<rparr>],
                   pl_roots = pl_roots s, pl_stack = (n, depth) # stack\<rparr>)
      | None \<Rightarrow>
          (case pl_stack s of
             [] \<Rightarrow> s
           | (current, _) # _ \<Rightarrow>
               (let node = parseAttributeLine line (pl_nodes s ! current)
                in s\<lparr>pl_nodes := (pl_nodes s)[current := node\<lparr>RawLines := RawLines node @ [line]\<rparr>]\<rparr>)))"

definition Parse_plan :: "string \<Rightarrow> plan_state option" where
  "Parse_plan planText =
     (let text = TrimSpace planText
      in if text = [] then None
         else Some (fold parse_line (Split text CHR 0x0A) \<lparr>pl_nodes = [], pl_roots = [], pl_stack = []\<rparr>))"

text \<open>A descent visits fewer nodes than there are, which is its fuel.\<close>

fun flattenRecursive :: "nat \<Rightarrow> PlanNode list \<Rightarrow> nat \<Rightarrow> nat list" where
  "flattenRecursive 0 nodes i = []"
| "flattenRecursive (Suc fuel) nodes i = i # concat (map (flattenRecursive fuel nodes) (Children (nodes ! i)))"

definition FlattenNodes :: "PlanNode list \<Rightarrow> nat list \<Rightarrow> nat list" where
  "FlattenNodes nodes roots = concat (map (flattenRecursive (length nodes) nodes) roots)"

definition ExtractExecutionTime :: "string \<Rightarrow> go_float" where
  "ExtractExecutionTime planText = (case match_anywhere execTimePattern planText of Some m \<Rightarrow> ParseFloat_digits (group m 1) | None \<Rightarrow> Fin 0)"

subsection \<open>Checks\<close>

abbreviation seqScanRowThreshold :: int64 where "seqScanRowThreshold \<equiv> 10000"
abbreviation rowEstimateMismatchFactor :: rat where "rowEstimateMismatchFactor \<equiv> 10"
abbreviation nestedLoopRowThreshold :: int64 where "nestedLoopRowThreshold \<equiv> 100000"
abbreviation filterRowsRemovedFactor :: int64 where "filterRowsRemovedFactor \<equiv> 10"
abbreviation filterRowsRemovedMinimum :: int64 where "filterRowsRemovedMinimum \<equiv> 1000"
abbreviation highCostThreshold :: rat where "highCostThreshold \<equiv> 10000"

definition checkSequentialScan :: "PlanNode \<Rightarrow> PlanIssue option" where
  "checkSequentialScan node =
     (if \<not> HasPrefix (NodeType node) ''Seq Scan'' then None
      else if ActualRows node \<le> seqScanRowThreshold then None
      else Some \<lparr>Iss_Severity = SeverityWarning, Iss_Category = ''sequential_scan'', Iss_NodeType = NodeType node, Iss_Relation = Relation node,
        Iss_Description = ''Sequential scan on '' @ Relation node @ '' returned '' @ show_int (ActualRows node) @ '' rows'',
        Iss_Recommendation = (if Filter_cond node \<noteq> []
          then ''Consider creating an index on '' @ Relation node @ '' for filter condition '' @ Filter_cond node
          else ''Consider creating an index on '' @ Relation node),
        Iss_Details = [(''actualRows'', D_Int (ActualRows node)), (''filter'', D_Str (Filter_cond node)), (''totalCost'', D_Float (TotalCost node))]\<rparr>)"

definition mismatch_ratio :: "PlanNode \<Rightarrow> rat" where
  "mismatch_ratio node =
     (let planRows = f64 (of_int (PlanRows node)); actualRows = f64 (of_int (ActualRows node))
      in f64 (\<bar>f64 (planRows - actualRows)\<bar> / max planRows 1))"

definition checkRowEstimateMismatch :: "PlanNode \<Rightarrow> PlanIssue option" where
  "checkRowEstimateMismatch node =
     (if ActualRows node = 0 \<and> ActualLoops node = 0 then None
      else if mismatch_ratio node \<le> rowEstimateMismatchFactor then None
      else let relation = (if Relation node = [] then NodeType node else Relation node)
           in Some \<lparr>Iss_Severity = SeverityWarning, Iss_Category = ''row_estimate_mismatch'', Iss_NodeType = NodeType node, Iss_Relation = relation,
        Iss_Description = ''Row estimate mismatch on '' @ relation @ '': estimated '' @ show_int (PlanRows node) @ '' rows, actual '' @
          show_int (ActualRows node) @ '' rows ('' @ fmt_f0 (Fin (mismatch_ratio node)) @ ''x off)'',
        Iss_Recommendation = ''Run ANALYZE on the tables involved to update statistics'',
        Iss_Details = [(''planRows'', D_Int (PlanRows node)), (''actualRows'', D_Int (ActualRows node)), (''ratio'', D_Float (Fin (mismatch_ratio node)))]\<rparr>)"

definition checkSortSpill :: "PlanNode \<Rightarrow> PlanIssue option" where
  "checkSortSpill node =
     (if SortSpaceType node \<noteq> ''Disk'' then None
      else Some \<lparr>Iss_Severity = SeverityWarning, Iss_Category = ''sort_spill'', Iss_NodeType = NodeType node, Iss_Relation = Relation node,
        Iss_Description = ''Sort spilled to disk using '' @ show_int (SortSpaceUsed node) @ ''kB'',
        Iss_Recommendation = ''Increase work_mem (current sort used '' @ show_int (SortSpaceUsed node) @ ''kB on disk)'',
        Iss_Details = [(''sortMethod'', D_Str (SortMethod node)), (''sortSpaceUsed'', D_Int (SortSpaceUsed node)), (''sortSpaceType'', D_Str (SortSpaceType node))]\<rparr>)"

definition nested_rows :: "PlanNode \<Rightarrow> int64" where
  "nested_rows node = wrap64 (ActualRows node * max (ActualLoops node) 1)"

definition checkNestedLoopHighRows :: "PlanNode \<Rightarrow> PlanIssue option" where
  "checkNestedLoopHighRows node =
     (if \<not> HasPrefix (NodeType node) ''Nested Loop'' then None
      else if nested_rows node \<le> nestedLoopRowThreshold then None
      else Some \<lparr>Iss_Severity = SeverityWarning, Iss_Category = ''nested_loop_high_rows'', Iss_NodeType = NodeType node, Iss_Relation = Relation node,
        Iss_Description = ''Nested loop processed '' @ show_int (nested_rows node) @ '' total rows ('' @ show_int (ActualRows node) @ '' rows x '' @
          show_int (ActualLoops node) @ '' loops)'',
        Iss_Recommendation = ''Consider Hash Join or Merge Join; nested loop processed '' @ show_int (nested_rows node) @ '' rows'',
        Iss_Details = [(''actualRows'', D_Int (ActualRows node)), (''actualLoops'', D_Int (ActualLoops node)), (''totalRows'', D_Int (nested_rows node))]\<rparr>)"

definition checkLargeRowsRemovedByFilter :: "PlanNode \<Rightarrow> PlanIssue option" where
  "checkLargeRowsRemovedByFilter node =
     (if RowsRemoved node = 0 then None
      else if RowsRemoved node < filterRowsRemovedMinimum then None
      else let actualRows = max (ActualRows node) 1
           in if RowsRemoved node \<le> wrap64 (filterRowsRemovedFactor * actualRows) then None
              else let ratio = show_int (RowsRemoved node div actualRows)
                   in Some \<lparr>Iss_Severity = SeverityWarning, Iss_Category = ''excessive_filter_rows'', Iss_NodeType = NodeType node, Iss_Relation = Relation node,
        Iss_Description = ''Filter removed '' @ ratio @ ''x more rows than returned ('' @ show_int (RowsRemoved node) @ '' removed vs '' @
          show_int (ActualRows node) @ '' returned)'',
        Iss_Recommendation = ''Filter removed '' @ ratio @ ''x more rows than returned; consider adding index on filter column'',
        Iss_Details = [(''rowsRemoved'', D_Int (RowsRemoved node)), (''actualRows'', D_Int (ActualRows node)),
          (''ratio'', D_Int (RowsRemoved node div actualRows)), (''filter'', D_Str (Filter_cond node))]\<rparr>)"

definition checkHighCostNode :: "PlanNode \<Rightarrow> PlanIssue option" where
  "checkHighCostNode node =
     (if \<not> float_gt (TotalCost node) highCostThreshold then None
      else Some \<lparr>Iss_Severity = SeverityInfo, Iss_Category = ''high_cost_node'', Iss_NodeType = NodeType node, Iss_Relation = Relation node,
        Iss_Description = ''High-cost node '' @ NodeType node @ '' (cost='' @ fmt_f2 (TotalCost node) @ '')'',
        Iss_Recommendation = ''High-cost node ('' @ fmt_f0 (TotalCost node) @ ''); review for optimization'',
        Iss_Details = [(''totalCost'', D_Float (TotalCost node))]\<rparr>)"

definition checkers :: "(PlanNode \<Rightarrow> PlanIssue option) list" where
  "checkers = [checkSequentialScan, checkRowEstimateMismatch, checkSortSpill, checkNestedLoopHighRows, checkLargeRowsRemovedByFilter, checkHighCostNode]"

definition buildSummary :: "PlanIssue list \<Rightarrow> string" where
  "buildSummary issues =
     (if issues = [] then ''No performance issues found''
      else let warnings = length (filter (\<lambda>i. Iss_Severity i = SeverityWarning) issues);
               infos = length (filter (\<lambda>i. Iss_Severity i = SeverityInfo) issues);
               parts = (if warnings > 0 then [show_nat warnings @ '' warning(s)''] else []) @ (if infos > 0 then [show_nat infos @ '' info''] else [])
           in ''Found '' @ show_nat (length issues) @ '' performance '' @ (if length issues \<noteq> 1 then ''issues'' else ''issue'') @ '': '' @ Join parts '', '')"

definition CheckPlan :: "string \<Rightarrow> PlanCheckResult option" where
  "CheckPlan planText =
     (case Parse_plan planText of
        None \<Rightarrow> None
      | Some s \<Rightarrow>
          (let allNodes = map ((!) (pl_nodes s)) (FlattenNodes (pl_nodes s) (pl_roots s));
               issues = concat (map (\<lambda>node. List.map_filter (\<lambda>check. check node) checkers) allNodes)
           in Some \<lparr>PCR_Issues = issues, PCR_Summary = buildSummary issues, PCR_TotalNodes = int (length allNodes), PCR_PlanText = [],
                PCR_ExecutionTime = ExtractExecutionTime planText\<rparr>))"

end
