(* ===== verification/PlanTheorems.thy ===== *)
theory PlanTheorems
  imports PlanChecker
begin

text \<open>
  The plan checker sees the nodes of a plan in the order of their lines, each with the attribute lines
  up to the next node, however they are indented.
\<close>

section \<open>Trees\<close>

text \<open>
  \<open>covers nodes xs a b\<close>: the trees of the list \<open>xs\<close> hold exactly the positions from \<open>a\<close> up to \<open>b\<close>, in preorder.
\<close>

inductive covers :: "PlanNode list \<Rightarrow> nat list \<Rightarrow> nat \<Rightarrow> nat \<Rightarrow> bool" for nodes where
  covers_Nil: "covers nodes [] a a"
| covers_Cons: "a < length nodes \<Longrightarrow> covers nodes (Children (nodes ! a)) (Suc a) m \<Longrightarrow> covers nodes xs m b \<Longrightarrow> covers nodes (a # xs) a b"

inductive_cases covers_NilE: "covers nodes [] a b"
inductive_cases covers_ConsE: "covers nodes (x # xs) a b"

lemma covers_le: "covers nodes xs a b \<Longrightarrow> a \<le> b"
  by (induction rule: covers.induct) auto

lemma covers_bound: "covers nodes xs a b \<Longrightarrow> xs \<noteq> [] \<Longrightarrow> a < b \<and> a < length nodes"
proof (induction rule: covers.induct)
  case (covers_Cons a m xs b)
  then show ?case using covers_le [OF covers_Cons.hyps(2)] covers_le [OF covers_Cons.hyps(3)] by simp
qed simp

lemma covers_append: "covers nodes xs a m \<Longrightarrow> covers nodes ys m b \<Longrightarrow> covers nodes (xs @ ys) a b"
  by (induction rule: covers.induct) (auto intro: covers.intros)

lemma covers_one: "i < length nodes \<Longrightarrow> covers nodes (Children (nodes ! i)) (Suc i) b \<Longrightarrow> covers nodes [i] i b"
  by (rule covers_Cons [OF _ _ covers_Nil])

lemma covers_children: "covers nodes [i] i b \<Longrightarrow> covers nodes (Children (nodes ! i)) (Suc i) b"
  by (auto elim!: covers_ConsE covers_NilE)

text \<open>The descent gives the positions of the trees.\<close>

lemma flatten_covers:
  "covers nodes xs a b \<Longrightarrow> b - a \<le> fuel \<Longrightarrow> concat (map (flattenRecursive fuel nodes) xs) = [a..<b]"
proof (induction arbitrary: fuel rule: covers.induct)
  case (covers_Cons a m xs b)
  have le: "Suc a \<le> m" "m \<le> b" using covers_le covers_Cons.hyps(2,3) by blast+
  then obtain k where k: "fuel = Suc k" "m - Suc a \<le> k" "b - m \<le> fuel" using covers_Cons.prems by (cases fuel) auto
  have "flattenRecursive fuel nodes a = a # [Suc a..<m]" by (simp add: k(1) covers_Cons.IH(1) [OF k(2)])
  moreover have "concat (map (flattenRecursive fuel nodes) xs) = [m..<b]" by (rule covers_Cons.IH(2) [OF k(3)])
  moreover have "[a..<b] = a # [Suc a..<m] @ [m..<b]"
    using le upt_add_eq_append [of "Suc a" m "b - m"] by (simp add: upt_conv_Cons)
  ultimately show ?case by simp
qed simp

text \<open>Trees do not see what else changes in their nodes.\<close>

lemma covers_cong:
  "covers nodes xs a b \<Longrightarrow> length nodes \<le> length nodes' \<Longrightarrow> (\<And>i. a \<le> i \<Longrightarrow> i < b \<Longrightarrow> Children (nodes' ! i) = Children (nodes ! i)) \<Longrightarrow> covers nodes' xs a b"
proof (induction rule: covers.induct)
  case (covers_Cons a m xs b)
  have le: "Suc a \<le> m" "m \<le> b" using covers_le covers_Cons.hyps(2,3) by blast+
  have "covers nodes' (Children (nodes ! a)) (Suc a) m" using covers_Cons.IH(1) covers_Cons.prems le by simp
  moreover have "covers nodes' xs m b" using covers_Cons.IH(2) covers_Cons.prems le by simp
  moreover have "Children (nodes' ! a) = Children (nodes ! a)" using covers_Cons.prems(2) le by simp
  ultimately show ?case using covers_Cons.hyps(1) covers_Cons.prems(1) by (intro covers.covers_Cons [where m = m]) auto
qed (rule covers_Nil)

text \<open>
  A node appended as the last child of a position \<open>p\<close> whose tree ends at the end of the store: the trees
  that hold \<open>p\<close> grow by one, the others stay.
\<close>

lemma covers_unique: "covers nodes xs a b \<Longrightarrow> covers nodes xs a b' \<Longrightarrow> b = b'"
proof (induction arbitrary: b' rule: covers.induct)
  case (covers_Cons a m xs b)
  from covers_Cons.prems obtain m' where "covers nodes (Children (nodes ! a)) (Suc a) m'" "covers nodes xs m' b'" by (auto elim: covers_ConsE)
  then show ?case using covers_Cons.IH by blast
qed (auto elim: covers_NilE)

definition with_child :: "PlanNode list \<Rightarrow> nat \<Rightarrow> PlanNode \<Rightarrow> PlanNode list" where
  "with_child nodes p node =
     (nodes @ [node])[p := ((nodes @ [node]) ! p)\<lparr>Children := Children ((nodes @ [node]) ! p) @ [length nodes]\<rparr>]"

lemma with_child_nth:
  assumes "p < length nodes"
  shows "length (with_child nodes p node) = Suc (length nodes)" "with_child nodes p node ! length nodes = node"
    "Children (with_child nodes p node ! p) = Children (nodes ! p) @ [length nodes]"
    "i < length nodes \<Longrightarrow> i \<noteq> p \<Longrightarrow> with_child nodes p node ! i = nodes ! i"
  using assms by (simp_all add: with_child_def nth_append nth_list_update)

lemma covers_grow:
  assumes "p < length nodes" "covers nodes [p] p (length nodes)" "Children node = []"
  shows "covers nodes xs a b \<Longrightarrow> b \<le> length nodes \<Longrightarrow>
    covers (with_child nodes p node) xs a (if a \<le> p \<and> p < b then Suc (length nodes) else b) \<and> (a \<le> p \<and> p < b \<longrightarrow> b = length nodes)"
proof (induction rule: covers.induct)
  case (covers_Nil a)
  then show ?case by (auto simp: covers.covers_Nil)
next
  case (covers_Cons a m xs b)
  let ?n = "length nodes" and ?nodes = "with_child nodes p node"
  have le: "Suc a \<le> m" "m \<le> b" using covers_le covers_Cons.hyps(2,3) by blast+
  note nth = with_child_nth [OF assms(1), where node = node]
  have new: "covers ?nodes [?n] ?n (Suc ?n)" using nth assms(3) by (intro covers_one) (simp_all add: covers.covers_Nil)
  consider "p < a \<or> b \<le> p" | "p = a" | "a < p" "p < m" | "m \<le> p" "p < b" using le by linarith
  then show ?case
  proof cases
    case 1
    then have "?nodes ! i = nodes ! i" if "a \<le> i" "i < b" for i using that covers_Cons.prems nth(4) [of i] by auto
    then have "covers ?nodes (a # xs) a b" by (intro covers_cong [OF covers.covers_Cons [OF covers_Cons.hyps]]) (auto simp: nth(1))
    then show ?thesis using 1 by auto
  next
    case 2
    have whole: "covers nodes (Children (nodes ! p)) (Suc p) ?n" by (rule covers_children [OF assms(2)])
    then have m: "m = ?n" using covers_unique covers_Cons.hyps(2) 2 by blast
    then have xs: "xs = []" using covers_bound [OF covers_Cons.hyps(3)] by auto
    then have "b = ?n" using covers_Cons.hyps(3) m by (auto elim: covers_NilE)
    moreover have "covers ?nodes (Children (?nodes ! p)) (Suc p) (Suc ?n)"
      unfolding nth(3) by (rule covers_append [OF covers_cong [OF whole] new]) (auto simp: nth)
    ultimately show ?thesis using 2 assms(1) xs nth(1) by (auto intro!: covers_one)
  next
    case 3
    then have IH: "covers ?nodes (Children (nodes ! a)) (Suc a) (Suc ?n)" "m = ?n" using covers_Cons.IH(1) covers_Cons.prems le by auto
    then have xs: "xs = []" "b = ?n" using covers_bound [OF covers_Cons.hyps(3)] covers_Cons.hyps(3) covers_Cons.prems le by (auto elim: covers_NilE)
    then show ?thesis using 3 IH nth covers_Cons.hyps(1) by (auto intro!: covers_one)
  next
    case 4
    then have "covers ?nodes xs m (Suc ?n)" "b = ?n" using covers_Cons.IH(2) covers_Cons.prems by auto
    moreover have "covers ?nodes (Children (nodes ! a)) (Suc a) m" using covers_Cons.IH(1) covers_Cons.prems le 4 by simp
    ultimately show ?thesis using 4 le nth covers_Cons.hyps(1) by (auto intro!: covers.covers_Cons [where m = m])
  qed
qed

section \<open>Parsing\<close>

definition node_line :: "string \<Rightarrow> (PlanNode \<times> int) option" where
  "node_line line = (case parseNodeLine line of Some nd \<Rightarrow> Some nd | None \<Rightarrow> parseMotionLine line)"

lemma with_actual_children [simp]: "Children (with_actual line node) = Children node" "RawLines (with_actual line node) = RawLines node"
  by (simp_all add: with_actual_def split: option.split)

lemma node_line_fresh: "node_line line = Some (node, d) \<Longrightarrow> Children node = [] \<and> RawLines node = []"
  by (auto simp: node_line_def parseNodeLine_def parseMotionLine_def Let_def empty_node_def split: option.splits)

text \<open>Attributes do not depend on the children.\<close>

lemma attribute_children: "parseAttributeLine line (node\<lparr>Children := xs\<rparr>) = (parseAttributeLine line node)\<lparr>Children := xs\<rparr>"
  by (simp add: parseAttributeLine_def split: option.split)

lemma attribute_keeps [simp]: "Children (parseAttributeLine line node) = Children node"
  by (simp add: parseAttributeLine_def split: option.split)

definition attach :: "string \<Rightarrow> PlanNode \<Rightarrow> PlanNode" where
  "attach line node = (let node1 = parseAttributeLine line node in node1\<lparr>RawLines := RawLines node1 @ [line]\<rparr>)"

definition strip :: "PlanNode \<Rightarrow> PlanNode" where
  "strip node = node\<lparr>Children := []\<rparr>"

lemma strip_attach: "strip (attach line node) = attach line (strip node)"
  by (simp add: strip_def attach_def Let_def attribute_children)

lemma attach_children [simp]: "Children (attach line node) = Children node"
  by (simp add: attach_def Let_def)

lemma strip_fold_attach: "strip (fold attach ls node) = fold attach ls (strip node)"
  by (induction ls arbitrary: node) (simp_all add: strip_attach)

text \<open>The nodes in the store are one preorder, and the stack is the way from the last root to the last node.\<close>

definition plan_ok :: "plan_state \<Rightarrow> bool" where
  "plan_ok s \<longleftrightarrow> (let n = length (pl_nodes s) in covers (pl_nodes s) (pl_roots s) 0 n \<and>
     list_all (\<lambda>(q, d). q < n \<and> covers (pl_nodes s) [q] q n) (pl_stack s) \<and> sorted_wrt (\<lambda>x y. fst y < fst x) (pl_stack s) \<and>
     (case pl_stack s of [] \<Rightarrow> n = 0 | (q, d) # _ \<Rightarrow> Suc q = n))"

lemma dropWhile_ok: "list_all P xs \<Longrightarrow> list_all P (dropWhile Q xs)" "sorted_wrt R xs \<Longrightarrow> sorted_wrt R (dropWhile Q xs)"
  by (induction xs) auto

lemma plan_ok_root:
  assumes "plan_ok s" "Children node = []"
  shows "plan_ok \<lparr>pl_nodes = pl_nodes s @ [node], pl_roots = pl_roots s @ [length (pl_nodes s)], pl_stack = [(length (pl_nodes s), d)]\<rparr>"
proof -
  let ?n = "length (pl_nodes s)" and ?nodes = "pl_nodes s @ [node]"
  have "covers (pl_nodes s) (pl_roots s) 0 ?n" using assms(1) by (simp add: plan_ok_def Let_def)
  then have "covers ?nodes (pl_roots s) 0 ?n" by (rule covers_cong) (simp_all add: nth_append)
  moreover have new: "covers ?nodes [?n] ?n (Suc ?n)" using assms(2) by (intro covers_one) (simp_all add: covers_Nil)
  ultimately have "covers ?nodes (pl_roots s @ [?n]) 0 (Suc ?n)" by (rule covers_append)
  then show ?thesis using new by (simp add: plan_ok_def Let_def)
qed

lemma plan_ok_child:
  assumes "plan_ok s" "Children node = []" "dropWhile Q (pl_stack s) = (p, d0) # rest"
  shows "plan_ok \<lparr>pl_nodes = with_child (pl_nodes s) p node, pl_roots = pl_roots s, pl_stack = (length (pl_nodes s), d) # (p, d0) # rest\<rparr>"
proof -
  let ?n = "length (pl_nodes s)" and ?nodes = "with_child (pl_nodes s) p node"
  have all: "list_all (\<lambda>(q, d). q < ?n \<and> covers (pl_nodes s) [q] q ?n) ((p, d0) # rest)" "sorted_wrt (\<lambda>x y. fst y < fst x) ((p, d0) # rest)"
    using assms(1) dropWhile_ok [of _ "pl_stack s" Q] unfolding assms(3) [symmetric] by (auto simp: plan_ok_def Let_def)
  then have p: "p < ?n" "covers (pl_nodes s) [p] p ?n" by auto
  note grow = covers_grow [OF p assms(2)] and nth = with_child_nth [OF p(1), where node = node]
  have "covers ?nodes (pl_roots s) 0 (Suc ?n)" using grow [of "pl_roots s" 0 ?n] assms(1) p(1) by (auto simp: plan_ok_def Let_def)
  moreover have "covers ?nodes [?n] ?n (Suc ?n)" using assms(2) nth by (intro covers_one) (simp_all add: covers_Nil)
  moreover have "q < Suc ?n \<and> covers ?nodes [q] q (Suc ?n)" if "(q, dq) \<in> set ((p, d0) # rest)" for q dq
  proof -
    have "q < ?n" "covers (pl_nodes s) [q] q ?n" "q \<le> p" using all that by (auto simp: list_all_iff)
    then show ?thesis using grow [of "[q]" q ?n] p(1) by auto
  qed
  ultimately show ?thesis using all p nth by (fastforce simp: plan_ok_def Let_def list_all_iff)
qed

lemma parse_node:
  assumes "node_line line = Some (node, d)"
  shows "parse_line line s = (let n = length (pl_nodes s); node1 = node\<lparr>Depth := d, RawLines := [line]\<rparr> in
    case dropWhile (\<lambda>(_, e). e \<ge> d) (pl_stack s) of
      [] \<Rightarrow> \<lparr>pl_nodes = pl_nodes s @ [node1], pl_roots = pl_roots s @ [n], pl_stack = [(n, d)]\<rparr>
    | (p, d0) # rest \<Rightarrow> \<lparr>pl_nodes = with_child (pl_nodes s) p node1, pl_roots = pl_roots s, pl_stack = (n, d) # (p, d0) # rest\<rparr>)"
  using assms node_line_fresh [OF assms]
  by (cases "dropWhile (\<lambda>(_, e). e \<ge> d) (pl_stack s)") (auto simp: parse_line_def node_line_def Let_def with_child_def simp del: dropWhile_eq_Nil_conv)

lemma parse_attribute:
  assumes "node_line line = None"
  shows "parse_line line s = (case pl_stack s of [] \<Rightarrow> s | (q, _) # _ \<Rightarrow> s\<lparr>pl_nodes := (pl_nodes s)[q := attach line (pl_nodes s ! q)]\<rparr>)"
  using assms by (simp add: parse_line_def node_line_def attach_def Let_def split: list.split)

lemma parse_ok: "plan_ok s \<Longrightarrow> plan_ok (parse_line line s)"
proof (cases "node_line line")
  case None
  assume ok: "plan_ok s"
  show ?thesis
  proof (cases "pl_stack s")
    case (Cons x rest)
    obtain q d where x: "x = (q, d)" by fastforce
    let ?nodes = "(pl_nodes s)[q := attach line (pl_nodes s ! q)]"
    have "q < length (pl_nodes s)" using ok Cons x by (auto simp: plan_ok_def Let_def)
    then have "Children (?nodes ! i) = Children (pl_nodes s ! i)" for i by (cases "i = q") simp_all
    note same = this
    have "covers ?nodes xs a b" if "covers (pl_nodes s) xs a b" for xs a b using that by (rule covers_cong) (simp_all add: same)
    then have "plan_ok (s\<lparr>pl_nodes := ?nodes\<rparr>)" using ok by (fastforce simp: plan_ok_def Let_def list_all_iff)
    then show ?thesis by (simp add: parse_attribute [OF None] Cons x)
  qed (simp add: parse_attribute [OF None] ok)
next
  case (Some x)
  assume ok: "plan_ok s"
  obtain node d where x: "node_line line = Some (node, d)" using Some by (metis prod.collapse)
  then have "Children (node\<lparr>Depth := d, RawLines := [line]\<rparr>) = []" using node_line_fresh by simp
  then show ?thesis unfolding parse_node [OF x] Let_def
    using plan_ok_root [OF ok, of _ d] plan_ok_child [OF ok, where d = d] by (auto split: list.split)
qed

section \<open>Reference\<close>

text \<open>A node is the line that names it with the attribute lines up to the next; lines before the first are dropped.\<close>

fun plan_blocks :: "string list \<Rightarrow> PlanNode list" where
  "plan_blocks [] = []"
| "plan_blocks (line # ls) =
     (case node_line line of
        None \<Rightarrow> plan_blocks ls
      | Some (node, d) \<Rightarrow> fold attach (takeWhile (\<lambda>l. node_line l = None) ls) (node\<lparr>Depth := d, RawLines := [line]\<rparr>) # plan_blocks ls)"

definition node_issues :: "PlanNode \<Rightarrow> PlanIssue list" where
  "node_issues node = List.map_filter (\<lambda>check. check node) checkers"

lemma node_issues_strip [simp]: "node_issues (strip node) = node_issues node"
  by (simp add: node_issues_def checkers_def List.map_filter_simps strip_def checkSequentialScan_def checkRowEstimateMismatch_def mismatch_ratio_def checkSortSpill_def
      checkNestedLoopHighRows_def nested_rows_def checkLargeRowsRemovedByFilter_def checkHighCostNode_def cong: if_cong option.case_cong)

text \<open>The nodes of the store without their children, while the lines are read.\<close>

definition last_attached :: "string list \<Rightarrow> PlanNode list \<Rightarrow> PlanNode list" where
  "last_attached ls ns = (if ns = [] then [] else butlast ns @ [fold attach (takeWhile (\<lambda>l. node_line l = None) ls) (last ns)])"

lemma map_strip_with_child: "p < length ns \<Longrightarrow> map strip (with_child ns p node) = map strip ns @ [strip node]"
  by (rule nth_equalityI) (auto simp: with_child_def nth_append nth_list_update strip_def less_Suc_eq)

lemma stack_bound: "plan_ok s \<Longrightarrow> dropWhile Q (pl_stack s) = (p, d) # rest \<Longrightarrow> p < length (pl_nodes s)"
  using dropWhile_ok(1) [of "\<lambda>(q, d). q < length (pl_nodes s)" "pl_stack s" Q] by (auto simp: plan_ok_def Let_def list_all_iff)

lemma nodes_of_line:
  assumes "plan_ok s" "node_line line = Some (node, d)"
  shows "map strip (pl_nodes (parse_line line s)) = map strip (pl_nodes s) @ [node\<lparr>Depth := d, RawLines := [line]\<rparr>]"
proof -
  have node: "strip (node\<lparr>Depth := d, RawLines := [line]\<rparr>) = node\<lparr>Depth := d, RawLines := [line]\<rparr>" using node_line_fresh [OF assms(2)] by (simp add: strip_def)
  show ?thesis
  proof (cases "dropWhile (\<lambda>(_, e). e \<ge> d) (pl_stack s)")
    case Nil
    then show ?thesis by (simp add: parse_node [OF assms(2)] Let_def node del: dropWhile_eq_Nil_conv)
  next
    case (Cons x rest)
    obtain p d0 where x: "x = (p, d0)" by fastforce
    then show ?thesis using stack_bound [OF assms(1) Cons [unfolded x]]
      by (simp add: parse_node [OF assms(2)] Let_def Cons node map_strip_with_child)
  qed
qed

lemma nodes_of_attribute:
  assumes "plan_ok s" "node_line line = None"
  shows "map strip (pl_nodes (parse_line line s)) = (if pl_nodes s = [] then [] else butlast (map strip (pl_nodes s)) @ [attach line (last (map strip (pl_nodes s)))])"
proof (cases "pl_stack s")
  case Nil
  then show ?thesis using assms(1) by (simp add: parse_attribute [OF assms(2)] plan_ok_def Let_def)
next
  case (Cons x rest)
  obtain q d where x: "x = (q, d)" by fastforce
  then have q: "Suc q = length (pl_nodes s)" using assms(1) Cons by (simp add: plan_ok_def Let_def)
  obtain ns nd where ns: "pl_nodes s = ns @ [nd]" "length ns = q" using q by (metis Zero_not_Suc append_butlast_last_id length_butlast diff_Suc_1 list.size(3))
  show ?thesis by (simp add: parse_attribute [OF assms(2)] Cons x ns(1) ns(2) [symmetric] strip_attach)
qed

lemma nodes_are_blocks:
  "plan_ok s \<Longrightarrow> map strip (pl_nodes (fold parse_line ls s)) = last_attached ls (map strip (pl_nodes s)) @ plan_blocks ls"
proof (induction ls arbitrary: s)
  case Nil
  then show ?case by (auto simp: last_attached_def)
next
  case (Cons line ls)
  note IH = Cons.IH [OF parse_ok [OF Cons.prems]]
  show ?case
  proof (cases "node_line line")
    case None
    show ?thesis unfolding fold_simps(2) IH nodes_of_attribute [OF Cons.prems None]
      by (cases "pl_nodes s = []") (simp_all add: last_attached_def None)
  next
    case (Some x)
    obtain node d where x: "node_line line = Some (node, d)" using Some by (metis prod.collapse)
    show ?thesis unfolding fold_simps(2) IH nodes_of_line [OF Cons.prems x]
      by (cases "pl_nodes s = []") (simp_all add: last_attached_def x)
  qed
qed

lemma fold_parse_ok: "plan_ok s \<Longrightarrow> plan_ok (fold parse_line ls s)"
  by (induction ls arbitrary: s) (simp_all add: parse_ok)

section \<open>Properties\<close>

text \<open>
  C18. The plan checker reads a plan line by line: for every text it reports, in the order of the lines,
  the findings on exactly the nodes the text names, each with the attribute lines that follow it up to
  the next node, whatever the indentation and the tree that was built from it; and it counts each node
  once. Only a blank text is refused.
\<close>

theorem CheckPlan_by_lines:
  "CheckPlan planText =
     (if TrimSpace planText = [] then None
      else let blocks = plan_blocks (Split (TrimSpace planText) CHR 0x0A); issues = concat (map node_issues blocks)
           in Some \<lparr>PCR_Issues = issues, PCR_Summary = buildSummary issues, PCR_TotalNodes = int (length blocks), PCR_PlanText = [],
                PCR_ExecutionTime = ExtractExecutionTime planText\<rparr>)"
proof (cases "TrimSpace planText = []")
  case False
  define s where "s = fold parse_line (Split (TrimSpace planText) CHR 0x0A) \<lparr>pl_nodes = [], pl_roots = [], pl_stack = []\<rparr>"
  let ?start = "\<lparr>pl_nodes = [], pl_roots = [], pl_stack = []\<rparr> :: plan_state"
  have start: "plan_ok ?start" by (simp add: plan_ok_def covers_Nil)
  then have ok: "plan_ok s" unfolding s_def by (rule fold_parse_ok)
  have blocks: "map strip (pl_nodes s) = plan_blocks (Split (TrimSpace planText) CHR 0x0A)"
    unfolding s_def using nodes_are_blocks [OF start] by (simp add: last_attached_def)
  have "FlattenNodes (pl_nodes s) (pl_roots s) = [0..<length (pl_nodes s)]"
    unfolding FlattenNodes_def using ok by (intro flatten_covers) (simp_all add: plan_ok_def Let_def)
  then have all: "map ((!) (pl_nodes s)) (FlattenNodes (pl_nodes s) (pl_roots s)) = pl_nodes s" by (simp add: map_nth)
  have "map node_issues (pl_nodes s) = map node_issues (map strip (pl_nodes s))" by simp
  then have "concat (map (\<lambda>node. List.map_filter (\<lambda>check. check node) checkers) (pl_nodes s)) = concat (map node_issues (plan_blocks (Split (TrimSpace planText) CHR 0x0A)))"
    unfolding blocks node_issues_def by (rule arg_cong)
  moreover have "length (pl_nodes s) = length (plan_blocks (Split (TrimSpace planText) CHR 0x0A))" using blocks by (metis length_map)
  ultimately show ?thesis using False by (simp add: CheckPlan_def Parse_plan_def Let_def s_def [symmetric] all)
qed (simp add: CheckPlan_def Parse_plan_def)

text \<open>Wrap-around: a nested loop over \<open>2^32\<close> rows in \<open>2^32\<close> rounds is not reported.\<close>

lemma huge_nested_loop_missed:
  "checkNestedLoopHighRows (empty_node\<lparr>NodeType := ''Nested Loop'', ActualRows := 4294967296, ActualLoops := 4294967296\<rparr>) = None"
  by (simp add: checkNestedLoopHighRows_def nested_rows_def HasPrefix_def wrap64_def wrap_signed_def)

end
