(* ===== verification/Hash.thy ===== *)
theory Hash
  imports Names "HOL-Library.Word" "HOL-Library.List_Lexorder" "HOL-Library.Char_ord"
begin

text \<open>
  The hashes by which the operator notices a change, after \<^verbatim>\<open>internal/util/hash.go\<close>: a map of
  strings is written as its sorted lines and digested by SHA-256. The digest is that of the
  standard package \<^verbatim>\<open>crypto/sha256\<close>, on 32-bit words; strings are ordered by their bytes, as
  \<^verbatim>\<open>sort.Strings\<close> orders them.
\<close>

unbundle bit_operations_syntax

section \<open>Model\<close>

subsection \<open>SHA-256\<close>

definition sha256_K :: "32 word list" where
  "sha256_K =
     [0x428A2F98, 0x71374491, 0xB5C0FBCF, 0xE9B5DBA5, 0x3956C25B, 0x59F111F1, 0x923F82A4, 0xAB1C5ED5,
      0xD807AA98, 0x12835B01, 0x243185BE, 0x550C7DC3, 0x72BE5D74, 0x80DEB1FE, 0x9BDC06A7, 0xC19BF174,
      0xE49B69C1, 0xEFBE4786, 0x0FC19DC6, 0x240CA1CC, 0x2DE92C6F, 0x4A7484AA, 0x5CB0A9DC, 0x76F988DA,
      0x983E5152, 0xA831C66D, 0xB00327C8, 0xBF597FC7, 0xC6E00BF3, 0xD5A79147, 0x06CA6351, 0x14292967,
      0x27B70A85, 0x2E1B2138, 0x4D2C6DFC, 0x53380D13, 0x650A7354, 0x766A0ABB, 0x81C2C92E, 0x92722C85,
      0xA2BFE8A1, 0xA81A664B, 0xC24B8B70, 0xC76C51A3, 0xD192E819, 0xD6990624, 0xF40E3585, 0x106AA070,
      0x19A4C116, 0x1E376C08, 0x2748774C, 0x34B0BCB5, 0x391C0CB3, 0x4ED8AA4A, 0x5B9CCA4F, 0x682E6FF3,
      0x748F82EE, 0x78A5636F, 0x84C87814, 0x8CC70208, 0x90BEFFFA, 0xA4506CEB, 0xBEF9A3F7, 0xC67178F2]"

definition sha256_init :: "32 word list" where
  "sha256_init = [0x6A09E667, 0xBB67AE85, 0x3C6EF372, 0xA54FF53A, 0x510E527F, 0x9B05688C, 0x1F83D9AB, 0x5BE0CD19]"

definition rotr :: "nat \<Rightarrow> 32 word \<Rightarrow> 32 word" where
  "rotr n x = drop_bit n x OR push_bit (32 - n) x"

text \<open>The message is followed by a 1 bit, zeros and its length in bits as eight bytes.\<close>

definition sha256_pad :: "int list \<Rightarrow> int list" where
  "sha256_pad m =
     m @ 128 # replicate ((119 - length m mod 64) mod 64) 0 @
     map (\<lambda>i. 8 * int (length m) div 256 ^ (7 - i) mod 256) [0..<8]"

fun be_words :: "int list \<Rightarrow> 32 word list" where
  "be_words (a # b # c # d # bs) = of_int (((a * 256 + b) * 256 + c) * 256 + d) # be_words bs"
| "be_words _ = []"

definition be_bytes :: "32 word \<Rightarrow> int list" where
  "be_bytes x = (let n = uint x in [n div 16777216 mod 256, n div 65536 mod 256, n div 256 mod 256, n mod 256])"

text \<open>The schedule of a block: the last sixteen words, newest first, give the next one.\<close>

definition sha256_next :: "32 word list \<Rightarrow> 32 word" where
  "sha256_next ws =
     (let x = ws ! 1; y = ws ! 14
      in (rotr 17 x XOR rotr 19 x XOR drop_bit 10 x) + ws ! 6 + (rotr 7 y XOR rotr 18 y XOR drop_bit 3 y) + ws ! 15)"

definition sha256_schedule :: "32 word list \<Rightarrow> 32 word list" where
  "sha256_schedule block = rev (((\<lambda>ws. sha256_next ws # ws) ^^ 48) (rev block))"

fun sha256_round :: "32 word \<times> 32 word \<Rightarrow> 32 word list \<Rightarrow> 32 word list" where
  "sha256_round (k, w) [a, b, c, d, e, f, g, h] =
     (let t1 = h + (rotr 6 e XOR rotr 11 e XOR rotr 25 e) + ((e AND f) XOR (NOT e AND g)) + k + w;
          t2 = (rotr 2 a XOR rotr 13 a XOR rotr 22 a) + ((a AND b) XOR (a AND c) XOR (b AND c))
      in [t1 + t2, a, b, c, d + t1, e, f, g])"
| "sha256_round _ s = s"

definition sha256_block :: "32 word list \<Rightarrow> 32 word list \<Rightarrow> 32 word list" where
  "sha256_block block state =
     map2 (+) state (fold sha256_round (zip sha256_K (sha256_schedule block)) state)"

function sha256_blocks :: "32 word list \<Rightarrow> 32 word list \<Rightarrow> 32 word list" where
  "sha256_blocks ws state =
     (if ws = [] then state else sha256_blocks (drop 16 ws) (sha256_block (take 16 ws) state))"
  by pat_completeness auto
termination
  by (relation "measure (\<lambda>(ws, _). length ws)") auto

declare sha256_blocks.simps [simp del]

definition Sum256 :: "string \<Rightarrow> int list" where
  "Sum256 s = concat (map be_bytes (sha256_blocks (be_words (sha256_pad (map of_char s))) sha256_init))"

subsection \<open>Hashes\<close>

text \<open>\<^verbatim>\<open>hex.EncodeToString\<close>.\<close>

definition hex_digit :: "int \<Rightarrow> char" where
  "hex_digit d = (if d < 10 then char_of (48 + d) else char_of (87 + d))"

definition EncodeToString :: "int list \<Rightarrow> string" where
  "EncodeToString bs = concat (map (\<lambda>b. [hex_digit (b div 16), hex_digit (b mod 16)]) bs)"

text \<open>A map comes with its keys, in whatever order the range over it visits them.\<close>

definition hash_lines :: "(string \<rightharpoonup> string) \<Rightarrow> string list \<Rightarrow> string" where
  "hash_lines data keys = concat (map (\<lambda>k. k @ ''='' @ (case data k of None \<Rightarrow> [] | Some v \<Rightarrow> v) @ [CHR 0x0A]) (sort keys))"

definition ComputeHash :: "(string \<rightharpoonup> string) \<Rightarrow> string list \<Rightarrow> string" where
  "ComputeHash data keys = (if keys = [] then [] else EncodeToString (Sum256 (hash_lines data keys)))"

definition ComputeStringHash :: "string \<Rightarrow> string" where
  "ComputeStringHash s = EncodeToString (Sum256 s)"

definition ComputeSliceHash :: "string list \<Rightarrow> string" where
  "ComputeSliceHash items = EncodeToString (Sum256 (concat (map (\<lambda>s. s @ [CHR 0x0A]) items)))"

definition ShortHash :: "string \<Rightarrow> string" where
  "ShortHash hash = (if length hash \<le> 8 then hash else take 8 hash)"

definition HashesEqual :: "string \<Rightarrow> string \<Rightarrow> bool" where
  "HashesEqual a b = EqualFold a b"

section \<open>Lemmas\<close>

text \<open>The hash of a map does not depend on the order in which its keys are visited.\<close>

lemma sort_distinct_eq: "distinct xs \<Longrightarrow> distinct ys \<Longrightarrow> set xs = set ys \<Longrightarrow> sort xs = sort ys"
  by (rule sorted_distinct_set_unique) simp_all

lemma ComputeHash_order:
  assumes "distinct ks" "distinct ks'" "set ks = set ks'"
  shows "ComputeHash data ks = ComputeHash data ks'"
proof -
  have "ks = [] \<longleftrightarrow> ks' = []" using assms(3) by (metis set_empty)
  then show ?thesis using sort_distinct_eq [OF assms] by (simp add: ComputeHash_def hash_lines_def)
qed

end
