(* ===== verification/AdminRestart.thy ===== *)
theory AdminRestart
  imports HighAvailability Hash
begin

text \<open>
  The rolling restart of \<^verbatim>\<open>internal/controller/admin_controller.go\<close>: a change of a parameter that needs
  a restart stores a state in an annotation of the cluster and stamps the pod template of the first
  StatefulSet; every later pass waits until the StatefulSet of the phase has rolled and goes on to
  the next one, in the order mirrors, primaries, standby, coordinator. The stamp is that of
  \<^verbatim>\<open>internal/util/sts_restart.go\<close>.
\<close>

section \<open>Model\<close>

subsection \<open>Constants\<close>

abbreviation requeueAfterShort :: int where "requeueAfterShort \<equiv> 5000000000"
abbreviation configMapPropagationDelay :: int where "configMapPropagationDelay \<equiv> 30000000000"
abbreviation AnnotationRollingRestart :: string where "AnnotationRollingRestart \<equiv> ''avsoft.io/rolling-restart''"
abbreviation AnnotationRestartTrigger :: string where "AnnotationRestartTrigger \<equiv> ''avsoft.io/restart-trigger''"
abbreviation ConditionConfigApplied :: string where "ConditionConfigApplied \<equiv> ''ConfigApplied''"

abbreviation restartPhaseMirrors :: string where "restartPhaseMirrors \<equiv> ''mirrors''"
abbreviation restartPhasePrimaries :: string where "restartPhasePrimaries \<equiv> ''primaries''"
abbreviation restartPhaseStandby :: string where "restartPhaseStandby \<equiv> ''standby''"
abbreviation restartPhaseCoordinator :: string where "restartPhaseCoordinator \<equiv> ''coordinator''"
abbreviation restartPhaseCompleted :: string where "restartPhaseCompleted \<equiv> ''completed''"

subsection \<open>State annotation\<close>

record rollingRestartState =
  RR_Phase :: string
  RR_StartedAt :: string
  RR_RestartParams :: "string list option"

definition strs_field :: "string \<Rightarrow> bool \<Rightarrow> string list option \<Rightarrow> field" where
  "strs_field name omitempty v = \<lparr>Fld_Name = name, Fld_OmitEmpty = omitempty, Fld_Val = F_Strs v\<rparr>"

definition restartState_fields :: "rollingRestartState \<Rightarrow> field list" where
  "restartState_fields s =
     [str_field ''phase'' False (RR_Phase s), str_field ''startedAt'' False (RR_StartedAt s),
      strs_field ''restartParams'' False (RR_RestartParams s)]"

definition restartState_zero :: rollingRestartState where
  "restartState_zero = \<lparr>RR_Phase = [], RR_StartedAt = [], RR_RestartParams = None\<rparr>"

definition restartState_of :: "field list \<Rightarrow> rollingRestartState" where
  "restartState_of fs =
     (case map Fld_Val fs of
        [F_Str p, F_Str s, F_Strs ps] \<Rightarrow> \<lparr>RR_Phase = p, RR_StartedAt = s, RR_RestartParams = ps\<rparr>
      | _ \<Rightarrow> restartState_zero)"

definition marshal_restartState :: "rollingRestartState \<Rightarrow> string" where
  "marshal_restartState s = Marshal (restartState_fields s)"

definition unmarshal_restartState :: "string \<Rightarrow> rollingRestartState option" where
  "unmarshal_restartState raw = map_option restartState_of (Unmarshal raw (restartState_fields restartState_zero))"

definition join_params :: "string list option \<Rightarrow> string" where
  "join_params ps = (case ps of None \<Rightarrow> [] | Some ps \<Rightarrow> Join ps '', '')"

subsection \<open>Stamping a StatefulSet\<close>

text \<open>\<^verbatim>\<open>t.UTC().Format(time.RFC3339Nano)\<close>: the fraction without its trailing zeros.\<close>

definition nano_fraction :: "int \<Rightarrow> string" where
  "nano_fraction ns =
     (if ns = 0 then [] else CHR ''.'' # rev (dropWhile (\<lambda>c. c = CHR ''0'') (rev (pad_int 9 ns))))"

definition Format_RFC3339Nano :: "int \<Rightarrow> string" where
  "Format_RFC3339Nano t = butlast (Format_RFC3339 UTC t) @ nano_fraction (t mod Second) @ ''Z''"

definition PatchStatefulSetRestartTrigger ::
  "'w reconciler \<Rightarrow> 'w services \<Rightarrow> string \<Rightarrow> string \<Rightarrow> 'w \<Rightarrow> ctrl_error option \<times> 'w" where
  "PatchStatefulSetRestartTrigger r sv namespace name w =
     (case s_get_sts sv namespace name w of
        (Inl e, w1) \<Rightarrow> (Some (Ctrl_Error (''getting statefulset '' @ namespace @ ''/'' @ name) e), w1)
      | (Inr sts, w1) \<Rightarrow>
          (let tpl = Sts_Template sts;
               stamp = Format_RFC3339Nano (k_now (r_client r) w1)
           in case s_update_sts sv (sts\<lparr>Sts_Template := tpl\<lparr>Tpl_Annotations :=
                     (Tpl_Annotations tpl)(AnnotationRestartTrigger \<mapsto> stamp)\<rparr>\<rparr>) w1 of
                (Some e, w2) \<Rightarrow> (Some (Ctrl_Error (''updating statefulset '' @ namespace @ ''/'' @ name) e), w2)
              | (None, w2) \<Rightarrow> (None, w2)))"

definition restartStatefulSet ::
  "'w reconciler \<Rightarrow> 'w services \<Rightarrow> string \<Rightarrow> string \<Rightarrow> 'w \<Rightarrow> ctrl_error option \<times> 'w" where
  "restartStatefulSet r sv namespace name w = PatchStatefulSetRestartTrigger r sv namespace name w"

definition isStatefulSetRolled :: "'w services \<Rightarrow> string \<Rightarrow> string \<Rightarrow> 'w \<Rightarrow> (ctrl_error + bool) \<times> 'w" where
  "isStatefulSetRolled sv namespace name w =
     (case s_get_sts sv namespace name w of
        (Inl e, w1) \<Rightarrow> (Inl (Ctrl_Error (''getting statefulset '' @ namespace @ ''/'' @ name) e), w1)
      | (Inr sts, w1) \<Rightarrow>
          (case Sts_Replicas sts of
             None \<Rightarrow> (Inr False, w1)
           | Some desired \<Rightarrow>
               (Inr (Sts_ReadyReplicas sts = desired \<and> Sts_UpdatedReplicas sts = desired \<and>
                  Sts_CurrentRevision sts = Sts_UpdateRevision sts), w1)))"

subsection \<open>Phases\<close>

definition statefulSetNameForPhase :: "CloudberryCluster \<Rightarrow> string \<Rightarrow> string" where
  "statefulSetNameForPhase cluster phase =
     (if phase = restartPhaseMirrors then (if mirroring_on cluster then SegmentMirrorName (CC_Name cluster) else [])
      else if phase = restartPhasePrimaries then SegmentPrimaryName (CC_Name cluster)
      else if phase = restartPhaseStandby then (if standby_enabled cluster then StandbyName (CC_Name cluster) else [])
      else if phase = restartPhaseCoordinator then CoordinatorName (CC_Name cluster)
      else [])"

definition restart_phases :: "string list" where
  "restart_phases = [restartPhaseMirrors, restartPhasePrimaries, restartPhaseStandby, restartPhaseCoordinator]"

text \<open>The recursion of the code runs over the phases behind the current one.\<close>

fun next_applicable :: "CloudberryCluster \<Rightarrow> string list \<Rightarrow> string" where
  "next_applicable cluster [] = restartPhaseCompleted"
| "next_applicable cluster (p # ps) =
     (if statefulSetNameForPhase cluster p = [] then next_applicable cluster ps else p)"

definition nextRestartPhase :: "CloudberryCluster \<Rightarrow> string \<Rightarrow> string" where
  "nextRestartPhase cluster current =
     next_applicable cluster (drop 1 (dropWhile (\<lambda>p. p \<noteq> current) restart_phases))"

subsection \<open>Starting, continuing and completing\<close>

text \<open>The handler answers the cluster as the patches left it.\<close>

definition triggerRollingRestart ::
  "'w reconciler \<Rightarrow> 'w services \<Rightarrow> CloudberryCluster \<Rightarrow> string list \<Rightarrow> 'w step" where
  "triggerRollingRestart r sv cluster restartParams w =
     (let startPhase = (if mirroring_on cluster then restartPhaseMirrors else restartPhasePrimaries);
          state = \<lparr>RR_Phase = startPhase, RR_StartedAt = Format_RFC3339 UTC (k_now (r_client r) w),
            RR_RestartParams = Some restartParams\<rparr>
      in case setAnnotationPatch r cluster AnnotationRollingRestart (marshal_restartState state) w of
           (Inl e, w1) \<Rightarrow> ((Some (Ctrl_Error ''setting rolling restart annotation'' e), cluster), w1)
         | (Inr cluster1, w1) \<Rightarrow>
             (let stsName = statefulSetNameForPhase cluster1 startPhase
              in if stsName \<noteq> [] then
                   (case restartStatefulSet r sv (CC_Namespace cluster1) stsName w1 of
                      (_, w2) \<Rightarrow> ((None, cluster1), w2))
                 else ((None, cluster1), w1)))"

definition refreshPhaseFromServer :: "'w reconciler \<Rightarrow> CloudberryCluster \<Rightarrow> 'w \<Rightarrow> CloudberryCluster \<times> 'w" where
  "refreshPhaseFromServer r cluster w =
     (case k_get_cluster (r_client r) (CC_Namespace cluster) (CC_Name cluster) w of
        (Inl _, w1) \<Rightarrow> (cluster, w1)
      | (Inr latest, w1) \<Rightarrow> (with_phase (St_Phase (CC_Status latest)) cluster, w1))"

definition updateRestartAnnotation :: "'w reconciler \<Rightarrow> CloudberryCluster \<Rightarrow> rollingRestartState \<Rightarrow> 'w handler" where
  "updateRestartAnnotation r cluster state w =
     (case setAnnotationPatch r cluster AnnotationRollingRestart (marshal_restartState state) w of
        (Inl e, w1) \<Rightarrow> (Inl (Ctrl_Error ''updating rolling restart annotation'' e), w1)
      | (Inr _, w1) \<Rightarrow> (Inr requeueAfterShort, w1))"

definition completeRollingRestart :: "'w reconciler \<Rightarrow> CloudberryCluster \<Rightarrow> rollingRestartState \<Rightarrow> 'w handler" where
  "completeRollingRestart r cluster0 state w =
     (case removeAnnotationPatch r cluster0 AnnotationRollingRestart w of
        (Inl e, w1) \<Rightarrow> (Inl (Ctrl_Error ''removing rolling restart annotation'' e), w1)
      | (Inr cluster1, w1) \<Rightarrow>
          (let cluster2 = with_condition (k_now (r_client r) w1) ConditionConfigApplied ConditionTrue
                 ''ConfigAppliedAfterRestart''
                 (''Configuration applied after rolling restart of parameters: '' @ join_params (RR_RestartParams state)) cluster1
           in case refreshPhaseFromServer r cluster2 w1 of
                (cluster3, w2) \<Rightarrow>
                  (case patchStatus r cluster3 w2 of
                     (Inl e, w3) \<Rightarrow> (Inl (Ctrl_Error ''updating status after rolling restart'' e), w3)
                   | (Inr cluster4, w3) \<Rightarrow>
                       (Inr (requeueDefault r), k_event (r_client r) cluster4 ''RollingRestartCompleted''
                          (''Rolling restart completed for parameters: '' @ join_params (RR_RestartParams state)) w3))))"

text \<open>Leaving a phase that does not apply or whose StatefulSet cannot be read: no StatefulSet is stamped.\<close>

definition skip_phase :: "'w reconciler \<Rightarrow> CloudberryCluster \<Rightarrow> rollingRestartState \<Rightarrow> 'w handler" where
  "skip_phase r cluster state w =
     (let nextPhase = nextRestartPhase cluster (RR_Phase state)
      in if nextPhase = restartPhaseCompleted then completeRollingRestart r cluster state w
         else updateRestartAnnotation r cluster (state\<lparr>RR_Phase := nextPhase\<rparr>) w)"

definition continueRollingRestart :: "'w reconciler \<Rightarrow> 'w services \<Rightarrow> CloudberryCluster \<Rightarrow> 'w handler" where
  "continueRollingRestart r sv cluster w =
     (case unmarshal_restartState (annotation cluster AnnotationRollingRestart) of
        None \<Rightarrow>
          (case removeAnnotationPatch r cluster AnnotationRollingRestart w of
             (Inl e, w1) \<Rightarrow> (Inl (Ctrl_Error ''removing invalid rolling restart annotation'' e), w1)
           | (Inr _, w1) \<Rightarrow> (Inr requeueAfterShort, w1))
      | Some state \<Rightarrow>
          (let stsName = statefulSetNameForPhase cluster (RR_Phase state);
               nextPhase = nextRestartPhase cluster (RR_Phase state)
           in if stsName = [] then skip_phase r cluster state w
              else case isStatefulSetRolled sv (CC_Namespace cluster) stsName w of
                (Inl _, w1) \<Rightarrow> skip_phase r cluster state w1
              | (Inr False, w1) \<Rightarrow> (Inr requeueAfterShort, w1)
              | (Inr True, w1) \<Rightarrow>
                  if nextPhase = restartPhaseCompleted then completeRollingRestart r cluster state w1
                  else (let nextSTS = statefulSetNameForPhase cluster nextPhase
                        in if nextSTS \<noteq> [] then
                             (case restartStatefulSet r sv (CC_Namespace cluster) nextSTS w1 of
                                (Some e, w2) \<Rightarrow> (Inl e, w2)
                              | (None, w2) \<Rightarrow> updateRestartAnnotation r cluster (state\<lparr>RR_Phase := nextPhase\<rparr>) w2)
                           else updateRestartAnnotation r cluster (state\<lparr>RR_Phase := nextPhase\<rparr>) w1)))"

end
