(* ===== verification/AdminConfig.thy ===== *)
theory AdminConfig
  imports AdminRestart
begin

text \<open>
  The admin controller, after \<^verbatim>\<open>internal/controller/admin_controller.go\<close>: detection and
  classification of configuration changes, the ConfigMap with its retries, the parameters set in the
  database, the delayed reload, the maintenance operations, and the reconciliation that puts them in
  order. Between passes the controller remembers, per cluster, the hash of the last configuration it
  applied and its parameters. The parts that only keep other resources (query monitoring, backup, data
  loading, storage) and the workload part are arguments, as are the API client, the database and the
  builder of the ConfigMap; so is the order in which a range visits the keys of a map.
\<close>

section \<open>Model\<close>

subsection \<open>Environment and state\<close>

record ConfigMap =
  CM_Namespace :: string
  CM_Name :: string
  CM_Data :: string_map
  CM_Annotations :: string_map

datatype db_maintenance = DB_Vacuum bool bool | DB_Analyze string | DB_Reindex string | DB_LogRotate

text \<open>
  \<open>ae_set_parameter name value level target\<close> is \<^verbatim>\<open>SetParameter\<close>; \<open>ae_wait\<close> is the pause before a
  retry, which answers the error of a context that ended; \<open>ae_keys\<close> is the order of a range.
\<close>

record 'w admin_env =
  ae_reconciler :: "'w reconciler"
  ae_services :: "'w services"
  ae_get_cm :: "string \<Rightarrow> string \<Rightarrow> 'w \<Rightarrow> (api_error + ConfigMap) \<times> 'w"
  ae_create_cm :: "ConfigMap \<Rightarrow> 'w \<Rightarrow> api_error option \<times> 'w"
  ae_update_cm :: "ConfigMap \<Rightarrow> 'w \<Rightarrow> api_error option \<times> 'w"
  ae_is_conflict :: "api_error \<Rightarrow> bool"
  ae_wait :: "'w \<Rightarrow> string option \<times> 'w"
  ae_build_conf :: "CloudberryCluster \<Rightarrow> ConfigMap"
  ae_set_parameter :: "string \<Rightarrow> string \<Rightarrow> string \<Rightarrow> string \<Rightarrow> 'w \<Rightarrow> string option \<times> 'w"
  ae_reload_config :: "'w \<Rightarrow> string option \<times> 'w"
  ae_maintain :: "db_maintenance \<Rightarrow> 'w \<Rightarrow> string option \<times> 'w"
  ae_keys :: "string set \<Rightarrow> 'w \<Rightarrow> string list"
  ae_refresh_backup :: "CloudberryCluster \<Rightarrow> 'w \<Rightarrow> CloudberryCluster \<times> 'w"
  ae_refresh_dataloading :: "CloudberryCluster \<Rightarrow> 'w \<Rightarrow> CloudberryCluster \<times> 'w"
  ae_refresh_storage :: "CloudberryCluster \<Rightarrow> 'w \<Rightarrow> CloudberryCluster \<times> 'w"
  ae_query_monitoring :: "CloudberryCluster \<Rightarrow> 'w step"
  ae_workload :: "CloudberryCluster \<Rightarrow> 'w step"
  ae_backup :: "CloudberryCluster \<Rightarrow> 'w step"
  ae_dataloading :: "CloudberryCluster \<Rightarrow> 'w step"
  ae_storage :: "CloudberryCluster \<Rightarrow> 'w step"
  ae_stop_idle :: "string \<Rightarrow> string \<Rightarrow> 'w \<Rightarrow> 'w"

abbreviation ae_client :: "'w admin_env \<Rightarrow> 'w kube_client" where "ae_client a \<equiv> r_client (ae_reconciler a)"

record admin_state =
  configHashes :: "string \<rightharpoonup> string"
  configParams :: "string \<rightharpoonup> string_map"

abbreviation AnnotationPendingReload :: string where "AnnotationPendingReload \<equiv> ''avsoft.io/pending-reload''"
abbreviation AnnotationMaintenance :: string where "AnnotationMaintenance \<equiv> ''avsoft.io/maintenance''"
abbreviation AnnotationExporterRoleReady :: string where "AnnotationExporterRoleReady \<equiv> ''avsoft.io/exporter-role-ready''"

subsection \<open>Classifying changes\<close>

definition restartRequiredParams :: "string list" where
  "restartRequiredParams =
     [''shared_buffers'', ''max_connections'', ''max_prepared_transactions'', ''max_worker_processes'',
      ''max_wal_senders'', ''wal_level'', ''wal_buffers'', ''huge_pages'', ''shared_preload_libraries'',
      ''max_locks_per_transaction'', ''max_files_per_process'', ''port'', ''superuser_reserved_connections'',
      ''unix_socket_directories'', ''listen_addresses'', ''bonjour'', ''ssl'']"

record configChanges =
  restartNeeded :: "string list"
  reloadSafe :: "string list"

text \<open>The keys of the two maps come in the order of a range.\<close>

definition classifyConfigChanges :: "string_map \<Rightarrow> string list \<Rightarrow> string_map \<Rightarrow> string list \<Rightarrow> configChanges" where
  "classifyConfigChanges current curKeys previous prevKeys =
     (let changed = filter (\<lambda>k. previous k \<noteq> current k) curKeys @ filter (\<lambda>k. current k = None) prevKeys;
          restart = (\<lambda>k. k \<in> set restartRequiredParams)
      in \<lparr>restartNeeded = sort (filter restart changed), reloadSafe = sort (filter (\<lambda>k. \<not> restart k) changed)\<rparr>)"

definition map_entries :: "'w admin_env \<Rightarrow> 'w \<Rightarrow> string \<Rightarrow> string_map \<Rightarrow> (string \<times> string) list" where
  "map_entries a w prefix m =
     List.map_filter (\<lambda>k. map_option (\<lambda>v. (prefix @ k, v)) (m k)) (ae_keys a (dom m) w)"

definition nested_entries :: "'w admin_env \<Rightarrow> 'w \<Rightarrow> string \<Rightarrow> (string \<rightharpoonup> string_map) \<Rightarrow> (string \<times> string) list" where
  "nested_entries a w prefix m =
     concat (map (\<lambda>n. case m n of None \<Rightarrow> [] | Some ps \<Rightarrow> map_entries a w (prefix @ n @ '':'') ps) (ae_keys a (dom m) w))"

definition computeFullConfigHash :: "'w admin_env \<Rightarrow> 'w \<Rightarrow> ConfigSpec \<Rightarrow> string" where
  "computeFullConfigHash a w config =
     (let entries = map_entries a w ''param:'' (Config_Parameters config) @
            map_entries a w ''coord:'' (Config_CoordinatorParameters config) @
            nested_entries a w ''db:'' (Config_DatabaseParameters config) @
            nested_entries a w ''role:'' (Config_RoleParameters config)
      in ComputeHash (map_of (rev entries)) (remdups (map fst entries)))"

subsection \<open>The ConfigMap\<close>

definition mergeAnnotations :: "string_map \<Rightarrow> string_map \<Rightarrow> string_map" where
  "mergeAnnotations existing desired = existing ++ desired"

text \<open>The argument counts the attempts that are left.\<close>

fun updateConfigMap_loop :: "'w admin_env \<Rightarrow> ConfigMap \<Rightarrow> nat \<Rightarrow> 'w \<Rightarrow> ctrl_error option \<times> 'w" where
  "updateConfigMap_loop a desired 0 w = (None, w)"
| "updateConfigMap_loop a desired (Suc n) w =
     (case ae_get_cm a (CM_Namespace desired) (CM_Name desired) w of
        (Inl NotFound, w1) \<Rightarrow>
          (case ae_create_cm a desired w1 of
             (Some e, w2) \<Rightarrow> (Some (Ctrl_Error ''creating postgresql.conf configmap'' e), w2)
           | (None, w2) \<Rightarrow> (None, w2))
      | (Inl e, w1) \<Rightarrow> (Some (Ctrl_Error ''getting postgresql.conf configmap'' e), w1)
      | (Inr existing, w1) \<Rightarrow>
          (case ae_update_cm a (existing\<lparr>CM_Data := CM_Data desired,
                  CM_Annotations := mergeAnnotations (CM_Annotations existing) (CM_Annotations desired)\<rparr>) w1 of
             (None, w2) \<Rightarrow> (None, w2)
           | (Some e, w2) \<Rightarrow>
               if ae_is_conflict a e \<and> n > 0 then
                 (case ae_wait a w2 of
                    (Some msg, w3) \<Rightarrow> (Some (Ctrl_Error msg (Other_Error [])), w3)
                  | (None, w3) \<Rightarrow> updateConfigMap_loop a desired n w3)
               else (Some (Ctrl_Error ''updating postgresql.conf configmap'' e), w2)))"

definition updateConfigMap :: "'w admin_env \<Rightarrow> CloudberryCluster \<Rightarrow> 'w \<Rightarrow> ctrl_error option \<times> 'w" where
  "updateConfigMap a cluster = updateConfigMap_loop a (ae_build_conf a cluster) 3"

subsection \<open>Parameters in the database\<close>

text \<open>A parameter that cannot be set is logged and passed over.\<close>

fun set_parameters :: "'w admin_env \<Rightarrow> string \<Rightarrow> string \<Rightarrow> (string \<times> string) list \<Rightarrow> 'w \<Rightarrow> 'w" where
  "set_parameters a level target [] w = w"
| "set_parameters a level target ((name, v) # ps) w =
     set_parameters a level target ps (snd (ae_set_parameter a name v level target w))"

fun set_scoped :: "'w admin_env \<Rightarrow> string \<Rightarrow> (string \<rightharpoonup> string_map) \<Rightarrow> string list \<Rightarrow> 'w \<Rightarrow> 'w" where
  "set_scoped a level m [] w = w"
| "set_scoped a level m (n # ns) w =
     set_scoped a level m ns
       (case m n of None \<Rightarrow> w | Some ps \<Rightarrow> set_parameters a level n (map_entries a w [] ps) w)"

text \<open>\<open>client\<close> tells whether there is a database client.\<close>

definition applyCoordinatorParameters :: "'w admin_env \<Rightarrow> CloudberryCluster \<Rightarrow> ConfigSpec \<Rightarrow> bool \<Rightarrow> 'w \<Rightarrow> ctrl_error option \<times> 'w" where
  "applyCoordinatorParameters a cluster config client w =
     (let ps = map_entries a w [] (Config_CoordinatorParameters config)
      in if ps = [] \<or> \<not> client then (None, w)
         else case ae_reload_config a (set_parameters a ''cluster'' [] ps w) of
           (Some e, w1) \<Rightarrow> (Some (Ctrl_Error ''reloading config after coordinator parameters'' (Other_Error e)), w1)
         | (None, w1) \<Rightarrow>
             (None, k_event (ae_client a) cluster ''ConfigReloaded''
                (''Coordinator-only parameters applied: '' @ show_nat (length ps) @ '' parameters'') w1))"

definition applyDatabaseParameters :: "'w admin_env \<Rightarrow> CloudberryCluster \<Rightarrow> ConfigSpec \<Rightarrow> bool \<Rightarrow> 'w \<Rightarrow> 'w" where
  "applyDatabaseParameters a cluster config client w =
     (let ns = ae_keys a (dom (Config_DatabaseParameters config)) w
      in if ns = [] \<or> \<not> client then w
         else k_event (ae_client a) cluster ''ConfigReloaded''
                (''Database-specific parameters applied for '' @ show_nat (length ns) @ '' databases'')
                (set_scoped a ''database'' (Config_DatabaseParameters config) ns w))"

definition applyRoleParameters :: "'w admin_env \<Rightarrow> CloudberryCluster \<Rightarrow> ConfigSpec \<Rightarrow> bool \<Rightarrow> 'w \<Rightarrow> 'w" where
  "applyRoleParameters a cluster config client w =
     (let ns = ae_keys a (dom (Config_RoleParameters config)) w
      in if ns = [] \<or> \<not> client then w
         else k_event (ae_client a) cluster ''ConfigReloaded''
                (''Role-specific parameters applied for '' @ show_nat (length ns) @ '' roles'')
                (set_scoped a ''role'' (Config_RoleParameters config) ns w))"

subsection \<open>Restart or reload\<close>

definition applyRestartRequired :: "'w admin_env \<Rightarrow> CloudberryCluster \<Rightarrow> string list \<Rightarrow> 'w step" where
  "applyRestartRequired a cluster params w =
     (let r = ae_reconciler a;
          cluster1 = with_condition (k_now (r_client r) w) ConditionConfigApplied ConditionFalse ''RestartRequired''
            (''Parameters requiring restart changed: '' @ Join params '', '') cluster
      in case patchStatus r cluster1 w of
           (Inl e, w1) \<Rightarrow> ((Some (Ctrl_Error ''updating config status'' e), cluster1), w1)
         | (Inr cluster2, w1) \<Rightarrow>
             (case triggerRollingRestart r (ae_services a) cluster2 params
                     (k_event (r_client r) cluster2 ''RollingRestartStarted''
                        (''Rolling restart initiated for parameters: '' @ Join params '', '') w1) of
                ((Some e, cluster3), w2) \<Rightarrow> ((Some (wrap_error ''triggering rolling restart'' e), cluster3), w2)
              | ((None, cluster3), w2) \<Rightarrow> ((None, cluster3), w2)))"

definition applyReloadSafe :: "'w admin_env \<Rightarrow> CloudberryCluster \<Rightarrow> 'w step" where
  "applyReloadSafe a cluster w =
     (let r = ae_reconciler a;
          cluster1 = with_condition (k_now (r_client r) w) ConditionConfigApplied ConditionFalse ''ConfigReloadPending''
            ''Configuration updated, waiting for ConfigMap volume propagation before reload'' cluster
      in case patchStatus r cluster1 w of
           (Inl e, w1) \<Rightarrow> ((Some (Ctrl_Error ''updating config status'' e), cluster1), w1)
         | (Inr cluster2, w1) \<Rightarrow>
             (case setAnnotationPatch r cluster2 AnnotationPendingReload (Format_RFC3339 UTC (k_now (r_client r) w1)) w1 of
                (Inl e, w2) \<Rightarrow> ((Some (Ctrl_Error ''setting pending-reload annotation'' e), cluster2), w2)
              | (Inr cluster3, w2) \<Rightarrow> ((None, cluster3), w2)))"

definition applyConfigChange :: "'w admin_env \<Rightarrow> CloudberryCluster \<Rightarrow> configChanges \<Rightarrow> 'w step" where
  "applyConfigChange a cluster changes w =
     (let cluster1 = cluster\<lparr>CC_Status := (CC_Status cluster)\<lparr>St_LastConfigChangeTime := Some (k_now (ae_client a) w)\<rparr>\<rparr>
      in if restartNeeded changes \<noteq> [] then applyRestartRequired a cluster1 (restartNeeded changes) w
         else applyReloadSafe a cluster1 w)"

subsection \<open>Detecting a change\<close>

definition cluster_key :: "CloudberryCluster \<Rightarrow> string" where
  "cluster_key cluster = CC_Namespace cluster @ ''/'' @ CC_Name cluster"

definition storeConfigParams :: "string \<Rightarrow> string_map \<Rightarrow> admin_state \<Rightarrow> admin_state" where
  "storeConfigParams key params st = st\<lparr>configParams := (configParams st)(key \<mapsto> params)\<rparr>"

text \<open>The three layers of parameters, over one database client that is closed at the end of the function.\<close>

definition apply_layers :: "'w admin_env \<Rightarrow> CloudberryCluster \<Rightarrow> ConfigSpec \<Rightarrow> 'w \<Rightarrow> bool \<times> 'w" where
  "apply_layers a cluster config w =
     (let (client, w1) = (case r_dbFactory (ae_reconciler a) of
            None \<Rightarrow> (False, w)
          | Some db \<Rightarrow> (case d_new db cluster w of (Inl _, w1) \<Rightarrow> (False, w1) | (Inr _, w1) \<Rightarrow> (True, w1)))
      in (client, applyRoleParameters a cluster config client (applyDatabaseParameters a cluster config client
            (snd (applyCoordinatorParameters a cluster config client w1)))))"

definition close_client :: "'w admin_env \<Rightarrow> bool \<Rightarrow> 'w \<Rightarrow> 'w" where
  "close_client a client w =
     (case r_dbFactory (ae_reconciler a) of None \<Rightarrow> w | Some db \<Rightarrow> if client then d_close db w else w)"

definition reconcileConfig ::
  "'w admin_env \<Rightarrow> CloudberryCluster \<Rightarrow> admin_state \<Rightarrow> 'w \<Rightarrow> (ctrl_error option \<times> CloudberryCluster) \<times> admin_state \<times> 'w" where
  "reconcileConfig a cluster st w =
     (case Spec_Config (CC_Spec cluster) of
        None \<Rightarrow> ((None, cluster), st, w)
      | Some config \<Rightarrow>
          (let currentHash = computeFullConfigHash a w config;
               key = cluster_key cluster;
               lastHash = (case configHashes st key of None \<Rightarrow> [] | Some h \<Rightarrow> h);
               prevParams = (case configParams st key of None \<Rightarrow> Map.empty | Some m \<Rightarrow> m);
               params = Config_Parameters config;
               changes = classifyConfigChanges params (ae_keys a (dom params) w) prevParams (ae_keys a (dom prevParams) w)
           in if currentHash = lastHash then ((None, cluster), st, w)
              else case updateConfigMap a cluster w of
                (Some e, w1) \<Rightarrow> ((Some e, cluster), st, w1)
              | (None, w1) \<Rightarrow>
                  (case apply_layers a cluster config w1 of
                     (client, w2) \<Rightarrow>
                       (case applyConfigChange a cluster changes w2 of
                          ((Some e, cluster1), w3) \<Rightarrow> ((Some e, cluster1), st, close_client a client w3)
                        | ((None, cluster1), w3) \<Rightarrow>
                            ((None, cluster1),
                             storeConfigParams key params (st\<lparr>configHashes := (configHashes st)(key \<mapsto> currentHash)\<rparr>),
                             close_client a client w3)))))"

subsection \<open>The delayed reload\<close>

text \<open>The reload is tried; whether it worked makes no difference to what follows.\<close>

definition reload_now :: "'w admin_env \<Rightarrow> CloudberryCluster \<Rightarrow> 'w \<Rightarrow> bool \<times> 'w" where
  "reload_now a cluster w =
     (case r_dbFactory (ae_reconciler a) of
        None \<Rightarrow> (False, w)
      | Some db \<Rightarrow>
          (case d_new db cluster w of
             (Inl _, w1) \<Rightarrow> (False, w1)
           | (Inr _, w1) \<Rightarrow> (True, snd (ae_reload_config a w1))))"

definition finish_reload :: "'w admin_env \<Rightarrow> CloudberryCluster \<Rightarrow> 'w \<Rightarrow> int \<times> 'w" where
  "finish_reload a cluster w =
     (let r = ae_reconciler a
      in case reload_now a cluster w of
           (client, w1) \<Rightarrow>
             (case k_patch_annotation (r_client r) (CC_Namespace cluster) (CC_Name cluster) AnnotationPendingReload None w1 of
                (Inl _, w2) \<Rightarrow> (5 * Second, close_client a client w2)
              | (Inr cluster1, w2) \<Rightarrow>
                  (let cluster2 = with_condition (k_now (r_client r) w2) ConditionConfigApplied ConditionTrue ''ConfigReloaded''
                         ''All configuration parameters are applied via reload'' cluster1
                   in case patchStatus r cluster2 w2 of
                        (res, w3) \<Rightarrow>
                          (let cluster3 = (case res of Inl _ \<Rightarrow> cluster2 | Inr c \<Rightarrow> c)
                           in (0, close_client a client (k_event (r_client r) cluster3 ''ConfigReloaded''
                                 ''Configuration parameters reloaded without restart'' w3))))))"

text \<open>The answer is \<open>None\<close> when there is nothing to do, and the delay to come back after otherwise.\<close>

definition completePendingReload :: "'w admin_env \<Rightarrow> CloudberryCluster \<Rightarrow> 'w \<Rightarrow> (int \<times> 'w) option" where
  "completePendingReload a cluster w =
     (case CC_Annotations cluster AnnotationPendingReload of
        None \<Rightarrow> None
      | Some pendingTime \<Rightarrow>
          (case Parse_RFC3339 pendingTime of
             None \<Rightarrow> Some (finish_reload a cluster w)
           | Some parsedTime \<Rightarrow>
               (let elapsed = Sub (k_now (ae_client a) w) parsedTime
                in if elapsed < configMapPropagationDelay
                   then Some (wrap64 (configMapPropagationDelay - elapsed), w)
                   else Some (finish_reload a cluster w))))"

subsection \<open>Maintenance\<close>

definition maintenance_op :: "string \<Rightarrow> db_maintenance option" where
  "maintenance_op operation =
     (if operation = ''vacuum'' then Some (DB_Vacuum False False)
      else if operation = ''vacuum-analyze'' then Some (DB_Vacuum True False)
      else if operation = ''vacuum-full'' then Some (DB_Vacuum False True)
      else if operation = ''analyze'' then Some (DB_Analyze [])
      else if operation = ''reindex'' then Some (DB_Reindex ''postgres'')
      else if operation = ''log-rotate'' then Some DB_LogRotate
      else None)"

definition executeMaintenanceViaDB :: "'w admin_env \<Rightarrow> 'w db_client \<Rightarrow> CloudberryCluster \<Rightarrow> string \<Rightarrow> 'w \<Rightarrow> ctrl_error option \<times> 'w" where
  "executeMaintenanceViaDB a db cluster operation w =
     (case d_new db cluster w of
        (Inl e, w1) \<Rightarrow> (Some (Ctrl_Error ''creating database client'' (Other_Error e)), w1)
      | (Inr _, w1) \<Rightarrow>
          (case maintenance_op operation of
             None \<Rightarrow> (Some (plain_error (''unsupported maintenance operation for direct execution: '' @ operation)), d_close db w1)
           | Some oper \<Rightarrow>
               (case ae_maintain a oper w1 of
                  (res, w2) \<Rightarrow> (map_option plain_error res, d_close db w2))))"

definition valid_maintenance :: "string list" where
  "valid_maintenance = [''vacuum'', ''vacuum-analyze'', ''vacuum-full'', ''analyze'', ''reindex'', ''log-rotate'']"

definition maintenance_job :: "'w admin_env \<Rightarrow> CloudberryCluster \<Rightarrow> string \<Rightarrow> 'w handler" where
  "maintenance_job a cluster maintenance w =
     (let r = ae_reconciler a; sv = ae_services a; now = k_now (r_client r) w;
          timestamp = backup_timestamp (now + s_local sv (now div Second) * Second);
          job = s_build_maintenance_job sv cluster maintenance timestamp
      in case s_create_job sv job w of
           (err, w1) \<Rightarrow>
             if err \<noteq> None \<and> err \<noteq> Some AlreadyExists
             then (Inl (Ctrl_Error ''creating maintenance job'' (the err)), w1)
             else (Inr (requeueDefault r), k_event (r_client r) cluster ''MaintenanceStarted''
                     (''Maintenance operation '' @ maintenance @ '' initiated, job: '' @ KJob_Name job) w1))"

definition handleMaintenance :: "'w admin_env \<Rightarrow> CloudberryCluster \<Rightarrow> string \<Rightarrow> 'w handler" where
  "handleMaintenance a cluster0 maintenance w =
     (let r = ae_reconciler a
      in case removeAnnotationPatch r cluster0 AnnotationMaintenance w of
           (Inl e, w1) \<Rightarrow> (Inl (Ctrl_Error ''removing maintenance annotation'' e), w1)
         | (Inr cluster, w1) \<Rightarrow>
             if maintenance \<notin> set valid_maintenance
             then (Inr 0, k_event (r_client r) cluster ''MaintenanceUnknown'' (''Unknown maintenance operation: '' @ maintenance) w1)
             else (case r_dbFactory r of
                     None \<Rightarrow> maintenance_job a cluster maintenance w1
                   | Some db \<Rightarrow>
                       (case executeMaintenanceViaDB a db cluster maintenance w1 of
                          (Some _, w2) \<Rightarrow> maintenance_job a cluster maintenance w2
                        | (None, w2) \<Rightarrow>
                            (Inr (requeueDefault r), k_event (r_client r) cluster ''MaintenanceCompleted''
                               (''Maintenance operation '' @ maintenance @ '' completed successfully'') w2))))"

subsection \<open>Reconciliation\<close>

definition isExporterRoleReady :: "CloudberryCluster \<Rightarrow> bool" where
  "isExporterRoleReady cluster \<longleftrightarrow>
     annotation cluster AnnotationExporterRoleReady = ''true'' \<or>
     (case Spec_QueryMonitoring (CC_Spec cluster) of None \<Rightarrow> True | Some q \<Rightarrow> \<not> QM_Enabled q)"

definition generation_observed :: "CloudberryCluster \<Rightarrow> bool" where
  "generation_observed cluster \<longleftrightarrow> St_ObservedGeneration (CC_Status cluster) = CC_Generation cluster"

definition steady_refresh :: "'w admin_env \<Rightarrow> CloudberryCluster \<Rightarrow> 'w \<Rightarrow> 'w" where
  "steady_refresh a cluster w =
     (case ae_refresh_backup a cluster w of (cluster1, w1) \<Rightarrow>
      case ae_refresh_dataloading a cluster1 w1 of (cluster2, w2) \<Rightarrow> snd (ae_refresh_storage a cluster2 w2))"

definition handleAdminEarlyReturns :: "'w admin_env \<Rightarrow> CloudberryCluster \<Rightarrow> 'w \<Rightarrow> ((ctrl_error + int) \<times> 'w) option" where
  "handleAdminEarlyReturns a cluster w =
     (let r = ae_reconciler a
      in if CC_Annotations cluster AnnotationRollingRestart \<noteq> None
         then Some (continueRollingRestart r (ae_services a) cluster w)
         else case (if generation_observed cluster then completePendingReload a cluster w else None) of
           Some (delay, w1) \<Rightarrow> Some (Inr delay, w1)
         | None \<Rightarrow>
             if St_Phase (CC_Status cluster) \<noteq> ClusterPhaseRunning then Some (Inr (requeueDefault r), w)
             else if generation_observed cluster \<and> annotation cluster AnnotationMaintenance = [] \<and> isExporterRoleReady cluster
             then Some (Inr (requeueDefault r), steady_refresh a cluster w)
             else (case CC_Annotations cluster AnnotationMaintenance of
                     Some maintenance \<Rightarrow> Some (handleMaintenance a cluster maintenance w)
                   | None \<Rightarrow> None))"

definition handleConfigError :: "'w admin_env \<Rightarrow> CloudberryCluster \<Rightarrow> ctrl_error \<Rightarrow> 'w handler" where
  "handleConfigError a cluster e w =
     (let r = ae_reconciler a
      in (Inl e, snd (patchStatus r (with_condition (k_now (r_client r) w) ConditionConfigApplied ConditionFalse
            ''ConfigReconcileFailed'' (''Failed to reconcile configuration: '' @ error_text e) cluster) w)))"

text \<open>The five parts run one after another on the cluster the previous one left; their errors are only reported.\<close>

definition reconcileSubComponents :: "'w admin_env \<Rightarrow> CloudberryCluster \<Rightarrow> 'w \<Rightarrow> (ctrl_error list \<times> CloudberryCluster) \<times> 'w" where
  "reconcileSubComponents a cluster w =
     foldl (\<lambda>((errs, c), w) part. case part c w of ((e, c'), w') \<Rightarrow>
         ((errs @ (case e of None \<Rightarrow> [] | Some e \<Rightarrow> [e]), c'), w'))
       (([], cluster), w) [ae_query_monitoring a, ae_workload a, ae_backup a, ae_dataloading a, ae_storage a]"

definition admin_Reconcile :: "'w admin_env \<Rightarrow> string \<Rightarrow> string \<Rightarrow> admin_state \<Rightarrow> 'w \<Rightarrow> (ctrl_error + int) \<times> admin_state \<times> 'w" where
  "admin_Reconcile a namespace name st w =
     (let r = ae_reconciler a
      in case k_get_cluster (r_client r) namespace name w of
           (Inl NotFound, w1) \<Rightarrow> (Inr 0, st, ae_stop_idle a namespace name w1)
         | (Inl e, w1) \<Rightarrow> (Inl (Ctrl_Error ''fetching cluster'' e), st, w1)
         | (Inr cluster, w1) \<Rightarrow>
             (case handleAdminEarlyReturns a cluster w1 of
                Some (res, w2) \<Rightarrow> (res, st, w2)
              | None \<Rightarrow>
                  (case reconcileConfig a cluster st w1 of
                     ((Some e, cluster1), st1, w2) \<Rightarrow> (case handleConfigError a cluster1 e w2 of (res, w3) \<Rightarrow> (res, st1, w3))
                   | ((None, cluster1), st1, w2) \<Rightarrow>
                       (case reconcileSubComponents a cluster1 w2 of
                          ((_, cluster2), w3) \<Rightarrow>
                            (case refreshPhaseFromServer r cluster2 w3 of
                               (cluster3, w4) \<Rightarrow>
                                 (case patchStatus r cluster3 w4 of
                                    (Inl e, w5) \<Rightarrow> (Inl (Ctrl_Error ''updating cluster status'' e), st1, w5)
                                  | (Inr cluster4, w5) \<Rightarrow>
                                      (Inr (if isExporterRoleReady cluster4 then requeueDefault r else requeueAfterError), st1, w5)))))))"

end
