(* ===== verification/AdminTheorems.thy ===== *)
theory AdminTheorems
  imports AdminConfig OperationTheorems
begin

text \<open>
  Properties of the admin controller: the rolling restart visits the tiers of a cluster in order and
  comes to an end, and what a change of the configuration leads to.
\<close>

section \<open>Names\<close>

lemma last_replace_invalid: "s \<noteq> [] \<Longrightarrow> name_char (last s) \<Longrightarrow> replace_invalid s \<noteq> [] \<and> last (replace_invalid s) = last s"
proof (induction s rule: replace_invalid.induct)
  case (1 s)
  then obtain c r where s: "s = c # r" by (cases s) auto
  let ?w = "first_width s"
  have step: "replace_invalid s = (if ?w = 1 \<and> name_char c then c else CHR ''-'') # replace_invalid (drop ?w s)"
    by (subst replace_invalid.simps) (simp add: s first_width_def Let_def)
  show ?case
  proof (cases "drop ?w s = []")
    case True
    have "?w = 1"
    proof (rule ccontr)
      assume "?w \<noteq> 1"
      then have "1 < ?w" using first_width_pos [of s] by linarith
      moreover have "last s \<in> set (take ?w s)" using True 1(2) by simp
      ultimately have "128 \<le> (of_char (last s) :: nat)" by (rule first_width_high)
      then show False using name_char_ascii [OF 1(3)] by simp
    qed
    then have "r = []" using True s by simp
    then show ?thesis using step \<open>?w = 1\<close> 1(3) s by (simp add: replace_invalid.simps [of "[]"])
  next
    case False
    have "last (drop ?w s) = last s" using False by (simp add: last_drop)
    then have "replace_invalid (drop ?w s) \<noteq> [] \<and> last (replace_invalid (drop ?w s)) = last (drop ?w s)"
      using 1(1) [of c r ?w] False 1(3) s by (simp add: first_width_def)
    then show ?thesis using step \<open>last (drop ?w s) = last s\<close> by simp
  qed
qed

lemma trim_char_nonempty: "s \<noteq> [] \<Longrightarrow> last s \<noteq> x \<Longrightarrow> trim_char x s \<noteq> []"
proof -
  assume s: "s \<noteq> []" "last s \<noteq> x"
  let ?d = "dropWhile (\<lambda>c. c = x) s"
  have "?d \<noteq> []" using s last_in_set by (auto simp: dropWhile_eq_Nil_conv)
  then have "hd ?d \<in> set ?d" "hd ?d \<noteq> x" using hd_dropWhile [of "\<lambda>c. c = x" s] by simp_all
  then show ?thesis by (auto simp: trim_char_def dropWhile_eq_Nil_conv)
qed

lemma Sanitize_nonempty:
  assumes "s \<noteq> []" "name_char (last s)" "last s \<noteq> CHR ''-''"
  shows "SanitizeK8sName s \<noteq> []"
proof -
  have "last (ToLower s) = last s" using assms lower_name_char by (simp add: ToLower_def last_map)
  then have "replace_invalid (ToLower s) \<noteq> [] \<and> last (replace_invalid (ToLower s)) = last s"
    using last_replace_invalid [of "ToLower s"] assms by (simp add: ToLower_def)
  then have "trim_char CHR ''-'' (replace_invalid (ToLower s)) \<noteq> []" using assms(3) trim_char_nonempty by metis
  then show ?thesis by (simp add: SanitizeK8sName_def TruncateName_def)
qed

lemma component_names_nonempty [simp]: "CoordinatorName n \<noteq> []" "StandbyName n \<noteq> []" "SegmentPrimaryName n \<noteq> []" "SegmentMirrorName n \<noteq> []"
  unfolding CoordinatorName_def StandbyName_def SegmentPrimaryName_def SegmentMirrorName_def
  by (rule Sanitize_nonempty; simp add: name_char_def)+

section \<open>The state of a rolling restart\<close>

definition restartState_ok :: "rollingRestartState \<Rightarrow> bool" where
  "restartState_ok s \<longleftrightarrow> valid_utf8 (RR_Phase s) \<and> valid_utf8 (RR_StartedAt s) \<and>
     (case RR_RestartParams s of None \<Rightarrow> True | Some ps \<Rightarrow> list_all valid_utf8 ps)"

lemma restart_names_ascii: "valid_utf8 ''restartParams''"
  by (rule ascii_valid_utf8, simp)

lemma restart_phases_ascii: "p \<in> set restart_phases \<Longrightarrow> valid_utf8 p"
  by (rule ascii_valid_utf8) (auto simp: restart_phases_def)

lemma restartState_read:
  assumes "restartState_ok s"
  shows "unmarshal_restartState (marshal_restartState s) = Some s"
proof -
  have "list_all field_ok (restartState_fields s)"
    using assms by (simp add: restartState_ok_def restartState_fields_def field_ok_def field_defs strs_field_def
        state_names_ascii restart_names_ascii split: option.splits)
  moreover have "zero_fields (restartState_fields s) = restartState_fields restartState_zero"
    by (simp add: zero_fields_def restartState_fields_def field_defs strs_field_def zero_val_def restartState_zero_def)
  moreover have "distinct (map Fld_Name (restartState_fields s))" by (simp add: restartState_fields_def field_defs strs_field_def)
  ultimately have "Unmarshal (marshal_restartState s) (restartState_fields restartState_zero) = Some (restartState_fields s)"
    using Unmarshal_Marshal [of "restartState_fields s"] by (simp add: marshal_restartState_def)
  then show ?thesis
    by (simp add: unmarshal_restartState_def restartState_of_def restartState_fields_def field_defs strs_field_def)
qed

section \<open>Phases\<close>

text \<open>The phases behind a phase that apply to the cluster.\<close>

definition phases_after :: "CloudberryCluster \<Rightarrow> string \<Rightarrow> string list" where
  "phases_after c p = filter (\<lambda>q. statefulSetNameForPhase c q \<noteq> []) (drop 1 (dropWhile (\<lambda>q. q \<noteq> p) restart_phases))"

lemma next_applicable_filter:
  "next_applicable c ps = (case filter (\<lambda>q. statefulSetNameForPhase c q \<noteq> []) ps of [] \<Rightarrow> restartPhaseCompleted | q # _ \<Rightarrow> q)"
  by (induction ps) simp_all

lemma nextRestartPhase_after: "nextRestartPhase c p = (case phases_after c p of [] \<Rightarrow> restartPhaseCompleted | q # _ \<Rightarrow> q)"
  by (simp add: nextRestartPhase_def phases_after_def next_applicable_filter)

lemma name_for_phase:
  "statefulSetNameForPhase c restartPhaseMirrors = (if mirroring_on c then SegmentMirrorName (CC_Name c) else [])"
  "statefulSetNameForPhase c restartPhasePrimaries = SegmentPrimaryName (CC_Name c)"
  "statefulSetNameForPhase c restartPhaseStandby = (if standby_enabled c then StandbyName (CC_Name c) else [])"
  "statefulSetNameForPhase c restartPhaseCoordinator = CoordinatorName (CC_Name c)"
  by (simp_all add: statefulSetNameForPhase_def)

lemma phases_after_simps:
  "phases_after c restartPhaseMirrors =
     restartPhasePrimaries # (if standby_enabled c then [restartPhaseStandby] else []) @ [restartPhaseCoordinator]"
  "phases_after c restartPhasePrimaries = (if standby_enabled c then [restartPhaseStandby] else []) @ [restartPhaseCoordinator]"
  "phases_after c restartPhaseStandby = [restartPhaseCoordinator]"
  "phases_after c restartPhaseCoordinator = []"
  by (simp_all add: phases_after_def restart_phases_def name_for_phase)

lemma restart_phases_mem: "restartPhasePrimaries \<in> set restart_phases" "restartPhaseStandby \<in> set restart_phases"
  "restartPhaseCoordinator \<in> set restart_phases" "restartPhaseMirrors \<in> set restart_phases"
  by (simp_all add: restart_phases_def)

lemma phases_after_step:
  assumes "p \<in> set restart_phases" "phases_after c p = q # qs"
  shows "phases_after c q = qs \<and> q \<in> set restart_phases \<and> q \<noteq> restartPhaseCompleted \<and> statefulSetNameForPhase c q \<noteq> []"
proof -
  define P where "P = (\<lambda>p. case phases_after c p of [] \<Rightarrow> True | q # qs \<Rightarrow> phases_after c q = qs \<and> q \<in> set restart_phases \<and>
      q \<noteq> restartPhaseCompleted \<and> statefulSetNameForPhase c q \<noteq> [])"
  have "P restartPhaseMirrors" "P restartPhasePrimaries" "P restartPhaseStandby" "P restartPhaseCoordinator"
    unfolding P_def by (cases "standby_enabled c"; simp add: phases_after_simps name_for_phase restart_phases_mem)+
  then have "list_all P restart_phases" by (simp add: restart_phases_def)
  then have "P p" using assms(1) unfolding list_all_iff by (rule bspec)
  then show ?thesis unfolding P_def assms(2) list.case .
qed

definition start_phase :: "CloudberryCluster \<Rightarrow> string" where
  "start_phase c = (if mirroring_on c then restartPhaseMirrors else restartPhasePrimaries)"

lemma restart_order:
  "getScaleDownOrder c = map (statefulSetNameForPhase c) (start_phase c # phases_after c (start_phase c))"
  by (simp add: getScaleDownOrder_def start_phase_def phases_after_simps name_for_phase mirroring_on_def standby_enabled_def
      split: option.split)

lemma name_for_phase_cong:
  assumes "CC_Spec c' = CC_Spec c" "CC_Name c' = CC_Name c"
  shows "statefulSetNameForPhase c' = statefulSetNameForPhase c \<and> phases_after c' = phases_after c"
proof -
  have "mirroring_on c' = mirroring_on c" "standby_enabled c' = standby_enabled c"
    using assms by (simp_all add: mirroring_on_def standby_enabled_def)
  then have "statefulSetNameForPhase c' = statefulSetNameForPhase c"
    unfolding fun_eq_iff statefulSetNameForPhase_def assms(2) by simp
  then show ?thesis by (simp add: fun_eq_iff phases_after_def)
qed

section \<open>The restart on the reference server\<close>

text \<open>
  Between two passes the StatefulSet controller brings every StatefulSet to its replicas, all of
  them at the newest revision.
\<close>

definition settled :: "StatefulSetFull \<Rightarrow> StatefulSetFull" where
  "settled s = (case Sts_Replicas s of None \<Rightarrow> s
     | Some n \<Rightarrow> s\<lparr>Sts_ReadyReplicas := n, Sts_UpdatedReplicas := n, Sts_CurrentRevision := Sts_UpdateRevision s\<rparr>)"

definition settle :: "store \<Rightarrow> store" where
  "settle w = w\<lparr>srv_sts := \<lambda>ns n. map_option settled (srv_sts w ns n)\<rparr>"

fun admin_passes :: "store admin_env \<Rightarrow> CloudberryCluster \<Rightarrow> nat \<Rightarrow> admin_state \<Rightarrow> store \<Rightarrow> admin_state \<times> store" where
  "admin_passes a c 0 st w = (st, w)"
| "admin_passes a c (Suc k) st w =
     (case admin_Reconcile a (CC_Namespace c) (CC_Name c) st (settle w) of (_, st', w') \<Rightarrow> admin_passes a c k st' w')"

text \<open>The StatefulSets that were stamped, in order.\<close>

definition stamps :: "store \<Rightarrow> string list" where
  "stamps w = List.map_filter (\<lambda>e. case e of Op_Apply n _ \<Rightarrow> Some n | _ \<Rightarrow> None) (srv_log w)"

definition restarting :: "rollingRestartState \<Rightarrow> CloudberryCluster \<Rightarrow> store \<Rightarrow> bool" where
  "restarting st c w \<longleftrightarrow> stored c w \<and> CC_Annotations c AnnotationRollingRestart = Some (marshal_restartState st) \<and> restartState_ok st"

definition present :: "string \<Rightarrow> store \<Rightarrow> string \<Rightarrow> bool" where
  "present ns w n \<longleftrightarrow> (case srv_get_sts ns n w of None \<Rightarrow> False | Some s \<Rightarrow> Sts_Replicas s \<noteq> None)"

lemma settle_simps [simp]: "srv_cluster (settle w) = srv_cluster w" "srv_log (settle w) = srv_log w" "stamps (settle w) = stamps w"
  "stored c (settle w) = stored c w" "restarting st c (settle w) = restarting st c w" "srv_now (settle w) = srv_now w"
  by (simp_all add: settle_def stamps_def stored_def restarting_def srv_get_cluster_def)

lemma settle_get: "srv_get_sts ns n (settle w) = map_option settled (srv_get_sts ns n w)"
  by (cases "srv_sts w ns n") (simp_all add: settle_def srv_get_sts_def settled_def split: option.split)

lemma present_settle [simp]: "present ns (settle w) n = present ns w n"
  by (cases "srv_get_sts ns n w") (auto simp: present_def settle_get settled_def split: option.split)

lemma settled_rolled:
  assumes "present ns w n"
  shows "isStatefulSetRolled (srv_services b loc) ns n (settle w) = (Inr True, settle w)"
  using assms by (auto simp: isStatefulSetRolled_def present_def settle_get settled_def split: option.splits)

lemma stamps_logged [simp]: "stamps (logged e w) = stamps w @ (case e of Op_Apply n _ \<Rightarrow> [n] | _ \<Rightarrow> [])"
  by (cases e) (simp_all add: stamps_def List.map_filter_def)

lemma stamps_set [simp]: "stamps (set_cluster c w) = stamps w"
  by (simp add: stamps_def)

lemma present_set [simp]: "present ns (set_cluster c w) = present ns w" "present ns (logged e w) = present ns w"
  by (simp_all add: fun_eq_iff present_def)

text \<open>A stamp writes the StatefulSet once, touches nothing else and keeps its replicas.\<close>

lemma stamp_run:
  assumes "present ns w n"
  shows "\<exists>w'. restartStatefulSet srv_reconciler (srv_services b loc) ns n w = (None, w') \<and> stamps w' = stamps w @ [n] \<and>
    srv_cluster w' = srv_cluster w \<and> present ns w' = present ns w"
proof -
  obtain s where s: "srv_get_sts ns n w = Some s" "Sts_Replicas s \<noteq> None" using assms by (auto simp: present_def split: option.splits)
  note key = srv_get_sts_key [OF s(1)]
  let ?s = "s\<lparr>Sts_Template := (Sts_Template s)\<lparr>Tpl_Annotations := (Tpl_Annotations (Sts_Template s))
      (AnnotationRestartTrigger \<mapsto> Format_RFC3339Nano (srv_now w))\<rparr>\<rparr>"
  define w' where "w' = logged (Op_Apply n (Sts_Replicas s)) (w\<lparr>srv_sts := put2 ns n
      (Some (s\<lparr>Sts_Replicas := Sts_Replicas ?s, Sts_Template := Sts_Template ?s, Sts_Generation := Sts_Generation s + 1\<rparr>)) (srv_sts w)\<rparr>)"
  have "s_update_sts (srv_services b loc) ?s w = (None, w')"
    using s(1) key by (simp add: srv_services_def change_sts_def w'_def)
  then have "restartStatefulSet srv_reconciler (srv_services b loc) ns n w = (None, w')"
    using s(1) by (simp add: restartStatefulSet_def PatchStatefulSetRestartTrigger_def)
  moreover have "present ns w' m = present ns w m" for m
    using s by (cases "m = n") (auto simp: w'_def present_def srv_get_sts_def)
  moreover have "stamps w' = stamps w @ [n]" "srv_cluster w' = srv_cluster w"
    by (simp_all add: w'_def) (simp add: stamps_def)
  ultimately show ?thesis by blast
qed

definition restart_env :: "store admin_env \<Rightarrow> builder \<Rightarrow> Location \<Rightarrow> bool" where
  "restart_env a b loc \<longleftrightarrow> ae_reconciler a = srv_reconciler \<and> ae_services a = srv_services b loc"

lemma restart_pass:
  assumes "restarting rs c w" "restart_env a b loc"
  shows "admin_Reconcile a (CC_Namespace c) (CC_Name c) st w =
    (case continueRollingRestart srv_reconciler (srv_services b loc) c w of (res, w') \<Rightarrow> (res, st, w'))"
  using assms srv_get [of c w c]
  by (simp add: admin_Reconcile_def handleAdminEarlyReturns_def restarting_def restart_env_def split: prod.split)

lemma restart_state:
  assumes "restarting rs c w"
  shows "unmarshal_restartState (annotation c AnnotationRollingRestart) = Some rs" "stored c w"
  using assms by (simp_all add: restarting_def annotation_def restartState_read)

text \<open>What a restart keeps of the cluster.\<close>

definition restart_kept :: "CloudberryCluster \<Rightarrow> CloudberryCluster \<Rightarrow> bool" where
  "restart_kept c' c \<longleftrightarrow> same_key c' c \<and> CC_Spec c' = CC_Spec c \<and>
     (\<forall>k. k \<noteq> AnnotationRollingRestart \<longrightarrow> CC_Annotations c' k = CC_Annotations c k)"

lemma restart_kept_trans: "restart_kept c2 c1 \<Longrightarrow> restart_kept c1 c \<Longrightarrow> restart_kept c2 c"
  by (simp add: restart_kept_def same_key_def)

text \<open>A pass over a phase that is not the last one stamps the StatefulSet of the next.\<close>

lemma restart_step:
  assumes "restarting rs c w" "RR_Phase rs \<in> set restart_phases" "statefulSetNameForPhase c (RR_Phase rs) \<noteq> []"
    and "phases_after c (RR_Phase rs) = q # qs"
    and "present (CC_Namespace c) w (statefulSetNameForPhase c (RR_Phase rs))" "present (CC_Namespace c) w (statefulSetNameForPhase c q)"
  shows "\<exists>c' w'. continueRollingRestart srv_reconciler (srv_services b loc) c (settle w) = (Inr requeueAfterShort, w') \<and>
    restarting (rs\<lparr>RR_Phase := q\<rparr>) c' w' \<and> restart_kept c' c \<and> stamps w' = stamps w @ [statefulSetNameForPhase c q] \<and>
    present (CC_Namespace c) w' = present (CC_Namespace c) w"
proof -
  let ?sv = "srv_services b loc" and ?ns = "CC_Namespace c" and ?rs = "rs\<lparr>RR_Phase := q\<rparr>"
  note q = phases_after_step [OF assms(2,4)]
  obtain w1 where w1: "restartStatefulSet srv_reconciler ?sv ?ns (statefulSetNameForPhase c q) (settle w) = (None, w1)"
    "stamps w1 = stamps w @ [statefulSetNameForPhase c q]" "srv_cluster w1 = srv_cluster w" "present ?ns w1 = present ?ns w"
    using stamp_run [of ?ns "settle w" "statefulSetNameForPhase c q" b loc] assms(6) by (auto simp: fun_eq_iff)
  define c' where "c' = annotated AnnotationRollingRestart (Some (marshal_restartState ?rs)) c"
  define w' where "w' = logged (Op_Annotation AnnotationRollingRestart (Some (marshal_restartState ?rs))) (set_cluster c' w1)"
  have c: "stored c w1" using restart_state(2) [OF assms(1)] stored_cong [OF w1(3)] by simp
  have "updateRestartAnnotation srv_reconciler c ?rs w1 = (Inr requeueAfterShort, w')"
    using exec_annotation [OF c, of c] by (simp add: updateRestartAnnotation_def setAnnotationPatch_def c'_def w'_def)
  then have "continueRollingRestart srv_reconciler ?sv c (settle w) = (Inr requeueAfterShort, w')"
    using assms(3,4) q w1(1) settled_rolled [OF assms(5), of b loc]
    by (simp add: continueRollingRestart_def restart_state(1) [OF assms(1)] nextRestartPhase_after)
  moreover have "restartState_ok ?rs" using assms(1) q restart_phases_ascii by (simp add: restarting_def restartState_ok_def)
  then have "restarting ?rs c' w'" by (simp add: restarting_def w'_def c'_def)
  moreover have "restart_kept c' c" by (simp add: restart_kept_def c'_def)
  ultimately show ?thesis using w1(2,4) by (intro exI [of _ c'] exI [of _ w']) (simp add: w'_def)
qed

definition config_applied :: "CloudberryCluster \<Rightarrow> bool" where
  "config_applied c \<longleftrightarrow>
     list_ex (\<lambda>cond. Cond_Type cond = ConditionConfigApplied \<and> Cond_Status cond = ConditionTrue) (St_Conditions (CC_Status c))"

lemma restart_last:
  assumes "restarting rs c w" "statefulSetNameForPhase c (RR_Phase rs) \<noteq> []" "phases_after c (RR_Phase rs) = []"
    and "present (CC_Namespace c) w (statefulSetNameForPhase c (RR_Phase rs))"
  shows "\<exists>c' w'. continueRollingRestart srv_reconciler (srv_services b loc) c (settle w) = (Inr (requeueDefault srv_reconciler), w') \<and>
    stored c' w' \<and> restart_kept c' c \<and> CC_Annotations c' AnnotationRollingRestart = None \<and> config_applied c' \<and> stamps w' = stamps w"
proof -
  let ?sv = "srv_services b loc" and ?w = "settle w"
  let ?c1 = "annotated AnnotationRollingRestart None c"
  let ?w1 = "logged (Op_Annotation AnnotationRollingRestart None) (set_cluster ?c1 ?w)"
  define c' where "c' = with_condition (srv_now ?w1) ConditionConfigApplied ConditionTrue ''ConfigAppliedAfterRestart''
    (''Configuration applied after rolling restart of parameters: '' @ join_params (RR_RestartParams rs)) ?c1"
  define w' where "w' = set_cluster c' ?w1"
  have c: "stored c ?w" using restart_state(2) [OF assms(1)] by simp
  have c1: "stored ?c1 ?w1" by simp
  have remove: "removeAnnotationPatch srv_reconciler c AnnotationRollingRestart ?w = (Inr ?c1, ?w1)"
    using exec_annotation [OF c, of c AnnotationRollingRestart None] srv_get [OF c1, of c] by (simp add: removeAnnotationPatch_def)
  have "refreshPhaseFromServer srv_reconciler c' ?w1 = (c', ?w1)"
    using srv_get [OF c1, of c'] by (simp add: refreshPhaseFromServer_def c'_def with_condition_def with_phase_def same_key_def)
  moreover have "patchStatus srv_reconciler c' ?w1 = (Inr c', w')"
    unfolding c'_def w'_def by (rule exec_condition [OF c1])
  ultimately have "completeRollingRestart srv_reconciler c rs ?w = (Inr (requeueDefault srv_reconciler), w')"
    using remove by (simp add: completeRollingRestart_def c'_def [symmetric] c'_def [simplified, symmetric])
  then have "continueRollingRestart srv_reconciler ?sv c ?w = (Inr (requeueDefault srv_reconciler), w')"
    using assms(2,3) settled_rolled [OF assms(4), of b loc]
    by (simp add: continueRollingRestart_def restart_state(1) [OF assms(1)] nextRestartPhase_after)
  moreover have "config_applied c'" by (simp add: config_applied_def c'_def with_condition_def SetCondition_present)
  moreover have "restart_kept c' c" "CC_Annotations c' AnnotationRollingRestart = None"
    by (simp_all add: restart_kept_def same_key_def c'_def with_condition_def)
  ultimately show ?thesis by (intro exI [of _ c'] exI [of _ w']) (simp add: w'_def)
qed

text \<open>
  A phase whose StatefulSet cannot be read is left without a stamp for the next one, which then counts
  as rolled: two tiers are passed over.
\<close>

lemma missing_tier_skips_next:
  assumes "restarting rs c w" "RR_Phase rs \<in> set restart_phases" "phases_after c (RR_Phase rs) = q # qs"
    and "srv_get_sts (CC_Namespace c) (statefulSetNameForPhase c (RR_Phase rs)) w = None"
  shows "\<exists>c' w'. continueRollingRestart srv_reconciler (srv_services b loc) c w = (Inr requeueAfterShort, w') \<and>
    restarting (rs\<lparr>RR_Phase := q\<rparr>) c' w' \<and> stamps w' = stamps w"
proof -
  let ?rs = "rs\<lparr>RR_Phase := q\<rparr>"
  note q = phases_after_step [OF assms(2,3)]
  define c' where "c' = annotated AnnotationRollingRestart (Some (marshal_restartState ?rs)) c"
  define w' where "w' = logged (Op_Annotation AnnotationRollingRestart (Some (marshal_restartState ?rs))) (set_cluster c' w)"
  have "skip_phase srv_reconciler c rs w = (Inr requeueAfterShort, w')"
    using q exec_annotation [OF restart_state(2) [OF assms(1)], of c] assms(3)
    by (simp add: skip_phase_def nextRestartPhase_after updateRestartAnnotation_def setAnnotationPatch_def c'_def w'_def)
  then have "continueRollingRestart srv_reconciler (srv_services b loc) c w = (Inr requeueAfterShort, w')"
    using assms(4) by (simp add: continueRollingRestart_def restart_state(1) [OF assms(1)] isStatefulSetRolled_def Let_def)
  moreover have "restartState_ok ?rs" using assms(1) q restart_phases_ascii by (simp add: restarting_def restartState_ok_def)
  then have "restarting ?rs c' w'" by (simp add: restarting_def w'_def c'_def)
  ultimately show ?thesis by (intro exI [of _ c'] exI [of _ w']) (simp add: w'_def)
qed

lemma restart_kept_eqs: "restart_kept c' c \<Longrightarrow> CC_Namespace c' = CC_Namespace c \<and> CC_Name c' = CC_Name c \<and> CC_Spec c' = CC_Spec c"
  by (simp add: restart_kept_def same_key_def)

lemma restart_runs:
  assumes "restart_env a b loc" "restarting rs c w" "RR_Phase rs \<in> set restart_phases" "phases_after c (RR_Phase rs) = qs"
    and "list_all (\<lambda>q. statefulSetNameForPhase c q \<noteq> [] \<and> present (CC_Namespace c) w (statefulSetNameForPhase c q)) (RR_Phase rs # qs)"
  shows "\<exists>c' w'. admin_passes a c (Suc (length qs)) st w = (st, w') \<and> stored c' w' \<and> restart_kept c' c \<and>
    CC_Annotations c' AnnotationRollingRestart = None \<and> config_applied c' \<and> stamps w' = stamps w @ map (statefulSetNameForPhase c) qs"
  using assms(2-)
proof (induction qs arbitrary: rs c w)
  case Nil
  obtain c' w' where *: "continueRollingRestart srv_reconciler (srv_services b loc) c (settle w) = (Inr (requeueDefault srv_reconciler), w')"
    "stored c' w'" "restart_kept c' c" "CC_Annotations c' AnnotationRollingRestart = None" "config_applied c'" "stamps w' = stamps w"
    using restart_last [of rs c w b loc] Nil by auto
  moreover have "restarting rs c (settle w)" using Nil.prems(1) by simp
  ultimately show ?case using restart_pass [of rs c "settle w" a b loc st] assms(1) by auto
next
  case (Cons q qs)
  let ?n = "statefulSetNameForPhase c"
  note q = phases_after_step [OF Cons.prems(2,3)]
  obtain c1 w1 where 1: "continueRollingRestart srv_reconciler (srv_services b loc) c (settle w) = (Inr requeueAfterShort, w1)"
    "restarting (rs\<lparr>RR_Phase := q\<rparr>) c1 w1" "restart_kept c1 c" "stamps w1 = stamps w @ [?n q]" "present (CC_Namespace c) w1 = present (CC_Namespace c) w"
    using restart_step [OF Cons.prems(1,2) _ Cons.prems(3), of b loc] Cons.prems(4) by auto
  note k = restart_kept_eqs [OF 1(3)]
  have names: "statefulSetNameForPhase c1 = ?n" "phases_after c1 = phases_after c"
    using name_for_phase_cong [of c1 c] k by simp_all
  have ok: "RR_Phase (rs\<lparr>RR_Phase := q\<rparr>) \<in> set restart_phases" "phases_after c1 (RR_Phase (rs\<lparr>RR_Phase := q\<rparr>)) = qs"
    "list_all (\<lambda>q. statefulSetNameForPhase c1 q \<noteq> [] \<and> present (CC_Namespace c1) w1 (statefulSetNameForPhase c1 q)) (RR_Phase (rs\<lparr>RR_Phase := q\<rparr>) # qs)"
    using q Cons.prems(4) k 1(5) by (simp_all add: names)
  obtain c' w' where 2: "admin_passes a c1 (Suc (length qs)) st w1 = (st, w')" "stored c' w'" "restart_kept c' c1"
    "CC_Annotations c' AnnotationRollingRestart = None" "config_applied c'" "stamps w' = stamps w1 @ map ?n qs"
    using Cons.IH [OF 1(2) ok] by (auto simp: names)
  have same: "admin_passes a c1 m st x = admin_passes a c m st x" for m st x
    using k by (induction m arbitrary: st x) (simp_all split: prod.split)
  have "restarting rs c (settle w)" using Cons.prems(1) by simp
  then have "admin_passes a c (Suc (length (q # qs))) st w = (st, w')"
    using restart_pass [of rs c "settle w" a b loc st] assms(1) 1(1) 2(1) [unfolded same] by simp
  then show ?case using 2 1(4) restart_kept_trans [OF 2(3) 1(3)]
    by (intro exI [of _ c'] exI [of _ w']) simp
qed

text \<open>
  C29. A rolling restart visits every tier once and comes to an end: on an API server without
  failures, while the StatefulSet controller brings every StatefulSet to its newest revision between
  two passes, a restart that was triggered for some parameters stamps the mirrors, the primaries, the
  standby and the coordinator, those the cluster has, each once and in this order; after as many
  passes as there are tiers its annotation is gone and the condition ConfigApplied is true.
\<close>

theorem rolling_restart_completes:
  assumes "restart_env a b loc" "stored c w" "list_all valid_utf8 params"
    and "list_all (present (CC_Namespace c) w) (getScaleDownOrder c)"
  shows "\<exists>c' w'. admin_passes a c (length (getScaleDownOrder c)) st
      (snd (triggerRollingRestart srv_reconciler (srv_services b loc) c params w)) = (st, w') \<and>
    stored c' w' \<and> restart_kept c' c \<and> CC_Annotations c' AnnotationRollingRestart = None \<and> config_applied c' \<and>
    stamps w' = stamps w @ getScaleDownOrder c"
proof -
  let ?p = "start_phase c" and ?sv = "srv_services b loc" and ?n = "statefulSetNameForPhase c"
  define rs where "rs = \<lparr>RR_Phase = ?p, RR_StartedAt = Format_RFC3339 UTC (srv_now w), RR_RestartParams = Some params\<rparr>"
  define c1 where "c1 = annotated AnnotationRollingRestart (Some (marshal_restartState rs)) c"
  define w1 where "w1 = logged (Op_Annotation AnnotationRollingRestart (Some (marshal_restartState rs))) (set_cluster c1 w)"
  have p: "?p \<in> set restart_phases" "?n ?p \<noteq> []"
    by (simp_all add: start_phase_def restart_phases_mem name_for_phase)
  have names: "statefulSetNameForPhase c1 = ?n" "phases_after c1 = phases_after c"
    using name_for_phase_cong [of c1 c] by (simp_all add: c1_def)
  have ns: "CC_Namespace c1 = CC_Namespace c" by (simp add: c1_def)
  have here: "list_all (present (CC_Namespace c) w) (map ?n (?p # phases_after c ?p))" using assms(4) by (simp add: restart_order)
  obtain w2 where w2: "restartStatefulSet srv_reconciler ?sv (CC_Namespace c) (?n ?p) w1 = (None, w2)" "stamps w2 = stamps w @ [?n ?p]"
    "srv_cluster w2 = srv_cluster w1" "present (CC_Namespace c) w2 = present (CC_Namespace c) w"
    using stamp_run [of "CC_Namespace c" w1 "?n ?p" b loc] here by (auto simp: w1_def)
  have "setAnnotationPatch srv_reconciler c AnnotationRollingRestart (marshal_restartState rs) w = (Inr c1, w1)"
    using exec_annotation [OF assms(2), of c] by (simp add: setAnnotationPatch_def c1_def w1_def)
  then have run: "triggerRollingRestart srv_reconciler ?sv c params w = ((None, c1), w2)"
    using p(2) w2(1) by (simp add: triggerRollingRestart_def rs_def [symmetric] start_phase_def [symmetric] names c1_def [symmetric])
      (simp add: c1_def)
  have ok: "restartState_ok rs"
    using p(1) assms(3) restart_phases_ascii ascii_valid_utf8 [OF Format_RFC3339_ascii] by (simp add: restartState_ok_def rs_def)
  have "stored c1 w2" unfolding stored_cong [OF w2(3)] by (simp add: w1_def)
  then have "restarting rs c1 w2" using ok by (simp add: restarting_def c1_def)
  moreover have "list_all (\<lambda>q. statefulSetNameForPhase c1 q \<noteq> [] \<and> present (CC_Namespace c1) w2 (statefulSetNameForPhase c1 q))
      (RR_Phase rs # phases_after c ?p)"
    using here p(2) w2(4) by (auto simp: names ns rs_def list_all_iff phases_after_def)
  ultimately obtain c' w' where *: "admin_passes a c1 (Suc (length (phases_after c ?p))) st w2 = (st, w')" "stored c' w'" "restart_kept c' c1"
    "CC_Annotations c' AnnotationRollingRestart = None" "config_applied c'" "stamps w' = stamps w2 @ map ?n (phases_after c ?p)"
    using restart_runs [OF assms(1), of rs c1 w2 "phases_after c ?p" st] p(1) by (auto simp: names rs_def)
  have same: "admin_passes a c1 m st x = admin_passes a c m st x" for m st x
    by (induction m arbitrary: st x) (simp_all add: c1_def split: prod.split)
  have "restart_kept c' c" using *(3) by (auto simp: restart_kept_def same_key_def c1_def)
  then show ?thesis using *(1) [unfolded same] *(2-) w2(2) run
    by (intro exI [of _ c'] exI [of _ w']) (simp add: restart_order)
qed

text \<open>A cluster with mirrors and no standby whose three StatefulSets are there.\<close>

definition restart_sts :: "string \<Rightarrow> StatefulSetFull" where
  "restart_sts n = \<lparr>Sts_Namespace = ''ns'', Sts_Name = n, Sts_Replicas = Some 4, Sts_StatusReplicas = 4, Sts_ReadyReplicas = 4,
     Sts_UpdatedReplicas = 4, Sts_Template = \<lparr>Tpl_Containers = [], Tpl_Annotations = Map.empty\<rparr>, Sts_Generation = 1,
     Sts_ObservedGeneration = 1, Sts_CurrentRevision = ''a'', Sts_UpdateRevision = ''a''\<rparr>"

definition restart_store :: store where
  "restart_store = \<lparr>srv_cluster = (\<lambda>ns n. if ns = ''ns'' \<and> n = ''c'' then Some (with_mirroring ''spread'' base_cluster) else None),
     srv_sts = (\<lambda>ns n. Some (restart_sts n)), srv_jobs = (\<lambda>_ _. None), srv_pods = (\<lambda>_. []), srv_claims = (\<lambda>_. []),
     srv_db_error = (\<lambda>_. None), srv_mirror_sync = [], srv_log = [], srv_now = 0\<rparr>"

definition restart_sample :: "store admin_env" where
  "restart_sample = \<lparr>ae_reconciler = srv_reconciler,
     ae_services = srv_services \<lparr>bld_primary = \<lambda>_. Inl [], bld_mirror = \<lambda>_. Inl [], bld_gpexpand = \<lambda>_ _ _ _. None,
       bld_coordinator = \<lambda>_. Inl [], bld_standby = \<lambda>_. Inl [], bld_maintenance = \<lambda>c op ts. \<lparr>KJob_Namespace = CC_Namespace c,
         KJob_Name = op @ ts, KJob_Annotations = Map.empty, KJob_Deleting = False, KJob_Succeeded = 0, KJob_Failed = 0,
         KJob_Active = 0, KJob_Conditions = []\<rparr>\<rparr> UTC,
     ae_get_cm = \<lambda>_ _ w. (Inl NotFound, w), ae_create_cm = \<lambda>_ w. (None, w), ae_update_cm = \<lambda>_ w. (None, w),
     ae_is_conflict = \<lambda>_. False, ae_wait = \<lambda>w. (None, w),
     ae_build_conf = \<lambda>c. \<lparr>CM_Namespace = CC_Namespace c, CM_Name = ''conf'', CM_Data = Map.empty, CM_Annotations = Map.empty\<rparr>,
     ae_set_parameter = \<lambda>_ _ _ _ w. (None, w), ae_reload_config = \<lambda>w. (None, w), ae_maintain = \<lambda>_ w. (None, w),
     ae_keys = \<lambda>ks _. [], ae_refresh_backup = \<lambda>c w. (c, w), ae_refresh_dataloading = \<lambda>c w. (c, w), ae_refresh_storage = \<lambda>c w. (c, w),
     ae_query_monitoring = \<lambda>c w. ((None, c), w), ae_workload = \<lambda>c w. ((None, c), w), ae_backup = \<lambda>c w. ((None, c), w),
     ae_dataloading = \<lambda>c w. ((None, c), w), ae_storage = \<lambda>c w. ((None, c), w), ae_stop_idle = \<lambda>_ _ w. w\<rparr>"

theorem rolling_restart_completes_witness:
  "\<exists>c' w'. admin_passes restart_sample (with_mirroring ''spread'' base_cluster) 3
      \<lparr>configHashes = Map.empty, configParams = Map.empty\<rparr>
      (snd (triggerRollingRestart srv_reconciler (ae_services restart_sample) (with_mirroring ''spread'' base_cluster)
        [''shared_buffers''] restart_store)) = (\<lparr>configHashes = Map.empty, configParams = Map.empty\<rparr>, w') \<and>
    stored c' w' \<and> config_applied c' \<and> stamps w' = [''c-segment-mirror'', ''c-segment-primary'', ''c-coordinator'']"
proof -
  let ?c = "with_mirroring ''spread'' base_cluster"
  let ?st = "\<lparr>configHashes = Map.empty, configParams = Map.empty\<rparr> :: admin_state"
  have c: "stored ?c restart_store"
    by (simp add: stored_def srv_get_cluster_def restart_store_def with_mirroring_def base_cluster_def)
  have params: "list_all valid_utf8 [''shared_buffers'']" by (simp add: ascii_valid_utf8)
  have order: "getScaleDownOrder ?c = [''c-segment-mirror'', ''c-segment-primary'', ''c-coordinator'']"
    by (simp add: getScaleDownOrder_def with_mirroring_def base_cluster_def base_spec_def SegmentMirrorName_def SegmentPrimaryName_def
        CoordinatorName_def SanitizeK8sName_short name_char_def)
  have here: "list_all (present (CC_Namespace ?c) restart_store) (getScaleDownOrder ?c)"
    by (simp add: order present_def srv_get_sts_def restart_store_def restart_sts_def)
  have none: "stamps restart_store = []" by (simp add: stamps_def restart_store_def List.map_filter_def)
  obtain b where b: "restart_env restart_sample b UTC" "ae_services restart_sample = srv_services b UTC"
    by (auto simp: restart_env_def restart_sample_def)
  obtain c' w' where "admin_passes restart_sample ?c (length (getScaleDownOrder ?c)) ?st
      (snd (triggerRollingRestart srv_reconciler (srv_services b UTC) ?c [''shared_buffers''] restart_store)) = (?st, w')"
    "stored c' w'" "config_applied c'" "stamps w' = stamps restart_store @ getScaleDownOrder ?c"
    using rolling_restart_completes [OF b(1) c params here, of ?st] by blast
  then have "admin_passes restart_sample ?c 3 ?st
      (snd (triggerRollingRestart srv_reconciler (ae_services restart_sample) ?c [''shared_buffers''] restart_store)) = (?st, w') \<and>
    stored c' w' \<and> config_applied c' \<and> stamps w' = [''c-segment-mirror'', ''c-segment-primary'', ''c-coordinator'']"
    unfolding b(2) none order append_Nil by (simp only: list.size numeral_3_eq_3 add_Suc_right add_0_right simp_thms One_nat_def plus_nat.add_Suc plus_nat.add_0)
  then show ?thesis by blast
qed

end
