(* ===== verification/AdminProperties.thy ===== *)
theory AdminProperties
  imports AdminTheorems
begin

text \<open>
  What the admin controller does with a configuration: which changes restart the cluster, that a
  configuration is applied once, and the cases in which a change is lost or reported too early.
\<close>

section \<open>Classification\<close>

definition keys_of :: "string list \<Rightarrow> (string \<rightharpoonup> 'v) \<Rightarrow> bool" where
  "keys_of ks m \<longleftrightarrow> distinct ks \<and> set ks = dom m"

lemma classify_restart:
  assumes "keys_of ks cur" "keys_of ps prev"
  shows "set (restartNeeded (classifyConfigChanges cur ks prev ps)) = {k \<in> set restartRequiredParams. cur k \<noteq> prev k}"
    "set (reloadSafe (classifyConfigChanges cur ks prev ps)) = {k. k \<notin> set restartRequiredParams \<and> cur k \<noteq> prev k}"
proof -
  have "set (filter (\<lambda>k. prev k \<noteq> cur k) ks @ filter (\<lambda>k. cur k = None) ps) = {k. cur k \<noteq> prev k}"
    using assms by (auto simp: keys_of_def dom_def)
  then show "set (restartNeeded (classifyConfigChanges cur ks prev ps)) = {k \<in> set restartRequiredParams. cur k \<noteq> prev k}"
    "set (reloadSafe (classifyConfigChanges cur ks prev ps)) = {k. k \<notin> set restartRequiredParams \<and> cur k \<noteq> prev k}"
    unfolding classifyConfigChanges_def Let_def configChanges.simps set_sort set_filter by auto
qed

text \<open>
  An operator that has just started remembers no parameters: every parameter of the configuration
  that needs a restart counts as changed.
\<close>

lemma first_pass_restarts:
  assumes "keys_of ks cur" "k \<in> set restartRequiredParams" "cur k = Some v"
  shows "k \<in> set (restartNeeded (classifyConfigChanges cur ks Map.empty []))"
  using classify_restart(1) [OF assms(1), of "[]" Map.empty] assms(2,3) by (simp add: keys_of_def)

section \<open>Hashes of a configuration\<close>

definition ranges :: "'w admin_env \<Rightarrow> ConfigSpec \<Rightarrow> bool" where
  "ranges a config \<longleftrightarrow> (\<forall>w. keys_of (ae_keys a (dom (Config_Parameters config)) w) (Config_Parameters config) \<and>
     keys_of (ae_keys a (dom (Config_CoordinatorParameters config)) w) (Config_CoordinatorParameters config) \<and>
     keys_of (ae_keys a (dom (Config_DatabaseParameters config)) w) (Config_DatabaseParameters config) \<and>
     keys_of (ae_keys a (dom (Config_RoleParameters config)) w) (Config_RoleParameters config) \<and>
     (\<forall>m \<in> ran (Config_DatabaseParameters config) \<union> ran (Config_RoleParameters config). keys_of (ae_keys a (dom m) w) m))"

text \<open>The names of databases and roles have no colon, so that the layers stay apart.\<close>

definition plain_names :: "ConfigSpec \<Rightarrow> bool" where
  "plain_names config \<longleftrightarrow> (\<forall>n \<in> dom (Config_DatabaseParameters config) \<union> dom (Config_RoleParameters config). CHR '':'' \<notin> set n)"

definition all_entries :: "'w admin_env \<Rightarrow> 'w \<Rightarrow> ConfigSpec \<Rightarrow> (string \<times> string) list" where
  "all_entries a w config = map_entries a w ''param:'' (Config_Parameters config) @
     map_entries a w ''coord:'' (Config_CoordinatorParameters config) @
     nested_entries a w ''db:'' (Config_DatabaseParameters config) @ nested_entries a w ''role:'' (Config_RoleParameters config)"

lemma map_filter_keys:
  "set ks \<subseteq> dom m \<Longrightarrow> List.map_filter (\<lambda>k. map_option (\<lambda>v. (p @ k, v)) (m k)) ks = map (\<lambda>k. (p @ k, the (m k))) ks"
  by (induction ks) (auto simp: List.map_filter_def)

lemma map_entries_mem:
  "keys_of (ae_keys a (dom m) w) m \<Longrightarrow> (x, v) \<in> set (map_entries a w p m) \<longleftrightarrow> (\<exists>k. x = p @ k \<and> m k = Some v)"
  by (auto simp: map_entries_def keys_of_def map_filter_keys)

lemma nested_entries_mem:
  assumes "keys_of (ae_keys a (dom m) w) m" "\<forall>ps \<in> ran m. keys_of (ae_keys a (dom ps) w) ps"
  shows "(x, v) \<in> set (nested_entries a w p m) \<longleftrightarrow> (\<exists>n k ps. x = p @ n @ '':'' @ k \<and> m n = Some ps \<and> ps k = Some v)"
proof -
  let ?f = "\<lambda>n ps. map_entries a w (p @ n @ '':'') ps"
  have "(x, v) \<in> set (nested_entries a w p m) \<longleftrightarrow> (\<exists>n \<in> dom m. (x, v) \<in> set (case m n of None \<Rightarrow> [] | Some ps \<Rightarrow> ?f n ps))"
    using assms(1) by (simp add: nested_entries_def keys_of_def)
  also have "\<dots> \<longleftrightarrow> (\<exists>n ps. m n = Some ps \<and> (x, v) \<in> set (?f n ps))" by (force simp: dom_def)
  also have "\<dots> \<longleftrightarrow> (\<exists>n ps. m n = Some ps \<and> (\<exists>k. x = (p @ n @ '':'') @ k \<and> ps k = Some v))"
    using assms(2) map_entries_mem by (metis ranI)
  finally show ?thesis by auto
qed

text \<open>The four layers of a configuration: a prefix, and what stands behind it.\<close>

definition nested_graph :: "(string \<rightharpoonup> string_map) \<Rightarrow> string \<Rightarrow> string \<Rightarrow> bool" where
  "nested_graph m x v \<longleftrightarrow> (\<exists>n k ps. x = n @ '':'' @ k \<and> m n = Some ps \<and> ps k = Some v)"

definition config_layers :: "ConfigSpec \<Rightarrow> (string \<times> (string \<Rightarrow> string \<Rightarrow> bool)) list" where
  "config_layers config =
     [(''param:'', \<lambda>k v. Config_Parameters config k = Some v), (''coord:'', \<lambda>k v. Config_CoordinatorParameters config k = Some v),
      (''db:'', nested_graph (Config_DatabaseParameters config)), (''role:'', nested_graph (Config_RoleParameters config))]"

definition config_graph :: "ConfigSpec \<Rightarrow> string \<Rightarrow> string \<Rightarrow> bool" where
  "config_graph config x v \<longleftrightarrow> (\<exists>(p, Q) \<in> set (config_layers config). \<exists>y. x = p @ y \<and> Q y v)"

lemma all_entries_mem:
  assumes "ranges a config"
  shows "(x, v) \<in> set (all_entries a w config) \<longleftrightarrow> config_graph config x v"
proof -
  have r: "keys_of (ae_keys a (dom (Config_Parameters config)) w) (Config_Parameters config)"
    "keys_of (ae_keys a (dom (Config_CoordinatorParameters config)) w) (Config_CoordinatorParameters config)"
    "keys_of (ae_keys a (dom (Config_DatabaseParameters config)) w) (Config_DatabaseParameters config)"
    "keys_of (ae_keys a (dom (Config_RoleParameters config)) w) (Config_RoleParameters config)"
    "\<forall>ps \<in> ran (Config_DatabaseParameters config). keys_of (ae_keys a (dom ps) w) ps"
    "\<forall>ps \<in> ran (Config_RoleParameters config). keys_of (ae_keys a (dom ps) w) ps"
    using assms by (simp_all add: ranges_def)
  have nested: "(x, v) \<in> set (nested_entries a w p m) \<longleftrightarrow> (\<exists>y. x = p @ y \<and> nested_graph m y v)"
    if "keys_of (ae_keys a (dom m) w) m" "\<forall>ps \<in> ran m. keys_of (ae_keys a (dom ps) w) ps" for p m
    unfolding nested_entries_mem [OF that] nested_graph_def by blast
  show ?thesis
    unfolding all_entries_def config_graph_def config_layers_def set_append Un_iff map_entries_mem [OF r(1)] map_entries_mem [OF r(2)]
      nested [OF r(3,5)] nested [OF r(4,6)] by simp
qed

lemma colon_split: "n @ CHR '':'' # k = n' @ CHR '':'' # k' \<Longrightarrow> CHR '':'' \<notin> set n \<Longrightarrow> CHR '':'' \<notin> set n' \<Longrightarrow> n = n' \<and> k = k'"
proof (induction n arbitrary: n')
  case Nil
  then show ?case by (cases n') auto
next
  case (Cons c n)
  then show ?case by (cases n') auto
qed

lemma nested_graph_unique:
  assumes "\<forall>n \<in> dom m. CHR '':'' \<notin> set n" "nested_graph m x v" "nested_graph m x v'"
  shows "v = v'"
proof -
  obtain n k ps where 1: "x = n @ CHR '':'' # k" "m n = Some ps" "ps k = Some v" using assms(2) by (auto simp: nested_graph_def)
  obtain n' k' ps' where 2: "x = n' @ CHR '':'' # k'" "m n' = Some ps'" "ps' k' = Some v'" using assms(3) by (auto simp: nested_graph_def)
  have "n = n' \<and> k = k'" using colon_split [of n k n' k'] 1 2 assms(1) by auto
  then show ?thesis using 1 2 by simp
qed

lemma config_graph_unique:
  assumes "plain_names config" "config_graph config x v" "config_graph config x v'"
  shows "v = v'"
proof -
  obtain p Q y where 1: "(p, Q) \<in> set (config_layers config)" "x = p @ y" "Q y v" using assms(2) by (auto simp: config_graph_def)
  obtain p' Q' y' where 2: "(p', Q') \<in> set (config_layers config)" "x = p' @ y'" "Q' y' v'" using assms(3) by (auto simp: config_graph_def)
  have "p \<noteq> [] \<and> p' \<noteq> []" using 1(1) 2(1) by (auto simp: config_layers_def)
  then have "hd p = hd p'" using 1(2) 2(2) by (metis hd_append2)
  then have eq: "(p, Q) = (p', Q')" using 1(1) 2(1) by (auto simp: config_layers_def)
  have names: "\<forall>n \<in> dom (Config_DatabaseParameters config). CHR '':'' \<notin> set n" "\<forall>n \<in> dom (Config_RoleParameters config). CHR '':'' \<notin> set n"
    using assms(1) by (auto simp: plain_names_def)
  have "Q y v' \<Longrightarrow> v = v'"
    using 1(1,3) nested_graph_unique [OF names(1)] nested_graph_unique [OF names(2)] by (auto simp: config_layers_def)
  then show ?thesis using eq 1(2) 2(2,3) by simp
qed

lemma map_of_graph: "(\<And>v v'. (x, v) \<in> set xs \<Longrightarrow> (x, v') \<in> set xs \<Longrightarrow> v = v') \<Longrightarrow> (map_of xs x = Some v) = ((x, v) \<in> set xs)"
  by (metis map_of_SomeD not_None_eq map_of_eq_None_iff fst_conv image_eqI)

text \<open>The hash of a configuration does not depend on the order in which its maps are visited.\<close>

lemma config_hash_order:
  assumes "ranges a config" "plain_names config"
  shows "computeFullConfigHash a w config = computeFullConfigHash a w' config"
proof -
  let ?m = "\<lambda>w. map_of (rev (all_entries a w config))" and ?ks = "\<lambda>w. remdups (map fst (all_entries a w config))"
  have "?m w x = ?m w' x" for x
  proof (rule option.expand)
    have "(?m u x = Some v) = config_graph config x v" for u v
      using map_of_graph [of x "rev (all_entries a u config)" v] config_graph_unique [OF assms(2)]
      by (simp add: all_entries_mem [OF assms(1)])
    then show "(?m w x = None) = (?m w' x = None)" "?m w x \<noteq> None \<Longrightarrow> ?m w' x \<noteq> None \<Longrightarrow> the (?m w x) = the (?m w' x)"
      by (metis not_None_eq, metis option.collapse option.inject)
  qed
  then have m: "?m w = ?m w'" by (rule ext)
  have "set (?ks w) = set (?ks w')"
    using all_entries_mem [OF assms(1)] by (force simp: set_eq_iff image_iff)
  then have "ComputeHash (?m w) (?ks w) = ComputeHash (?m w) (?ks w')" by (intro ComputeHash_order) simp_all
  then show ?thesis using m by (simp add: computeFullConfigHash_def Let_def all_entries_def)
qed

section \<open>Reconciling a configuration\<close>

definition last_hash :: "admin_state \<Rightarrow> string \<Rightarrow> string" where
  "last_hash st key = (case configHashes st key of None \<Rightarrow> [] | Some h \<Rightarrow> h)"

lemma reconcileConfig_remembers:
  assumes "Spec_Config (CC_Spec c) = Some config" "reconcileConfig a c st w = ((None, c1), st1, w1)"
  shows "last_hash st1 (cluster_key c) = computeFullConfigHash a w config"
proof (cases "computeFullConfigHash a w config = last_hash st (cluster_key c)")
  case True
  then show ?thesis using assms by (simp add: reconcileConfig_def last_hash_def Let_def)
next
  case False
  then have "configHashes st1 (cluster_key c) = Some (computeFullConfigHash a w config)"
    using assms by (simp add: reconcileConfig_def last_hash_def Let_def storeConfigParams_def
        split: prod.splits option.splits) auto
  then show ?thesis by (simp add: last_hash_def)
qed

text \<open>Calls of \<open>reconcileConfig\<close> one after another, each in a world of its own; the memory is passed on.\<close>

fun config_calls :: "'w admin_env \<Rightarrow> (CloudberryCluster \<times> 'w) list \<Rightarrow> admin_state \<Rightarrow> admin_state" where
  "config_calls a [] st = st"
| "config_calls a ((c, w) # calls) st = config_calls a calls (fst (snd (reconcileConfig a c st w)))"

lemma other_key_untouched:
  "cluster_key d \<noteq> k \<Longrightarrow> last_hash (fst (snd (reconcileConfig a d st w))) k = last_hash st k"
  by (simp add: reconcileConfig_def last_hash_def Let_def storeConfigParams_def split: option.splits prod.splits)

lemma same_config_untouched:
  assumes "Spec_Config (CC_Spec c) = Some config" "last_hash st (cluster_key c) = computeFullConfigHash a w config"
  shows "reconcileConfig a c st w = ((None, c), st, w)"
  using assms by (simp add: reconcileConfig_def Let_def last_hash_def)

lemma calls_remember:
  assumes "ranges a config" "plain_names config"
    "\<forall>(d, v) \<in> set calls. cluster_key d \<noteq> k \<or> Spec_Config (CC_Spec d) = Some config" "last_hash st k = computeFullConfigHash a w config"
  shows "last_hash (config_calls a calls st) k = computeFullConfigHash a w config"
  using assms(3,4)
proof (induction calls arbitrary: st)
  case (Cons x calls)
  obtain d v where x: "x = (d, v)" by (cases x)
  have "last_hash (fst (snd (reconcileConfig a d st v))) k = computeFullConfigHash a w config"
  proof (cases "cluster_key d = k")
    case True
    then have "Spec_Config (CC_Spec d) = Some config" using Cons.prems(1) x by simp
    moreover have "last_hash st (cluster_key d) = computeFullConfigHash a v config"
      using Cons.prems(2) True config_hash_order [OF assms(1,2), of v w] by simp
    ultimately show ?thesis using same_config_untouched [of d config st a v] Cons.prems(2) by simp
  qed (use Cons.prems(2) other_key_untouched [of d k a st v] in auto)
  then show ?case using Cons x by simp
qed simp

text \<open>
  C30. A configuration is applied once, as long as the controller keeps its memory and the configuration
  stands: after a call of \<open>reconcileConfig\<close> that took a configuration over without an error, and any
  calls for other clusters or for this cluster with the same configuration, a call that finds that
  configuration in the spec leaves the cluster, the memory of the controller and the world alone. The
  maps of the configuration may be visited in any order each time; the names of its databases and roles
  have no colon. (A restart of the operator or another configuration in between applies it again.)
\<close>

theorem config_applied_once:
  assumes "Spec_Config (CC_Spec c) = Some config" "ranges a config" "plain_names config"
    and "reconcileConfig a c st w = ((None, c1), st1, w1)"
    and "\<forall>(d, v) \<in> set calls. cluster_key d \<noteq> cluster_key c \<or> Spec_Config (CC_Spec d) = Some config"
    and "Spec_Config (CC_Spec c2) = Some config" "cluster_key c2 = cluster_key c"
  shows "reconcileConfig a c2 (config_calls a calls st1) w2 = ((None, c2), config_calls a calls st1, w2)"
  using calls_remember [OF assms(2,3,5) reconcileConfig_remembers [OF assms(1,4)]] config_hash_order [OF assms(2,3), of w w2] assms(7)
  by (intro same_config_untouched [OF assms(6)]) simp

text \<open>A cluster with one parameter, which a reload takes over.\<close>

definition tuned_config :: ConfigSpec where
  "tuned_config = \<lparr>Config_Parameters = [''work_mem'' \<mapsto> ''64MB''], Config_CoordinatorParameters = Map.empty,
     Config_DatabaseParameters = Map.empty, Config_RoleParameters = Map.empty\<rparr>"

definition tuned_cluster :: CloudberryCluster where
  "tuned_cluster = base_cluster\<lparr>CC_Spec := base_spec\<lparr>Spec_Config := Some tuned_config\<rparr>\<rparr>"

definition tuned_store :: store where
  "tuned_store = set_cluster tuned_cluster restart_store"

definition tuned_env :: "store admin_env" where
  "tuned_env = restart_sample\<lparr>ae_keys := \<lambda>ks _. filter (\<lambda>k. k \<in> ks) [''work_mem'']\<rparr>"

lemma tuned_env_simps [simp]: "ae_reconciler tuned_env = srv_reconciler" "ae_keys tuned_env ks w = filter (\<lambda>k. k \<in> ks) [''work_mem'']"
  "ae_build_conf tuned_env = ae_build_conf restart_sample" "ae_get_cm tuned_env ns n w = (Inl NotFound, w)"
  "ae_create_cm tuned_env m w = (None, w)"
  by (simp_all add: tuned_env_def restart_sample_def)

lemma tuned_run:
  assumes "st = \<lparr>configHashes = Map.empty, configParams = Map.empty\<rparr>"
  shows "\<exists>c1 st1 w1. reconcileConfig tuned_env tuned_cluster st tuned_store = ((None, c1), st1, w1)"
proof -
  have conf: "Spec_Config (CC_Spec tuned_cluster) = Some tuned_config" by (simp add: tuned_cluster_def)
  have cm: "updateConfigMap tuned_env tuned_cluster tuned_store = (None, tuned_store)"
    by (simp add: updateConfigMap_def eval_nat_numeral)
  have layers: "\<exists>b. apply_layers tuned_env tuned_cluster tuned_config tuned_store = (b, tuned_store)"
    by (simp add: apply_layers_def applyCoordinatorParameters_def applyDatabaseParameters_def applyRoleParameters_def
        map_entries_def List.map_filter_def tuned_config_def db_answer_def split: option.split) blast
  have c: "stored tuned_cluster tuned_store" by (simp add: tuned_store_def)
  have safe: "\<exists>c1 w1. applyReloadSafe tuned_env d tuned_store = ((None, c1), w1)" if "same_key d tuned_cluster" for d
  proof -
    let ?d = "with_condition (srv_now tuned_store) ConditionConfigApplied ConditionFalse ''ConfigReloadPending''
        ''Configuration updated, waiting for ConfigMap volume propagation before reload'' d"
    have "same_key ?d tuned_cluster" using that by (simp add: with_condition_def same_key_def)
    from exec_patch_status [OF c this] obtain c2 w2 where 2: "patchStatus srv_reconciler ?d tuned_store = (Inr c2, w2)" "stored c2 w2"
      by (auto simp: patchStatus_def)
    show ?thesis using 2(1) exec_annotation [OF 2(2), of c2] by (simp add: applyReloadSafe_def setAnnotationPatch_def)
  qed
  have "restartNeeded (classifyConfigChanges (Config_Parameters tuned_config) [''work_mem''] Map.empty []) = []"
    by (simp add: classifyConfigChanges_def tuned_config_def restartRequiredParams_def)
  then have "\<exists>c1 w1. applyConfigChange tuned_env tuned_cluster
      (classifyConfigChanges (Config_Parameters tuned_config) [''work_mem''] Map.empty []) tuned_store = ((None, c1), w1)"
    using safe by (simp add: applyConfigChange_def same_key_def Let_def)
  moreover have "dom (Config_Parameters tuned_config) = {''work_mem''}" by (simp add: tuned_config_def)
  ultimately show ?thesis using conf cm layers assms by (auto simp: reconcileConfig_def Let_def)
qed

theorem config_applied_once_witness:
  "\<exists>c1 st1 w1. reconcileConfig tuned_env tuned_cluster \<lparr>configHashes = Map.empty, configParams = Map.empty\<rparr> tuned_store = ((None, c1), st1, w1) \<and>
     reconcileConfig tuned_env tuned_cluster (config_calls tuned_env [(base_cluster\<lparr>CC_Name := ''d''\<rparr>, w1), (tuned_cluster, w1)] st1) w1 =
       ((None, tuned_cluster), config_calls tuned_env [(base_cluster\<lparr>CC_Name := ''d''\<rparr>, w1), (tuned_cluster, w1)] st1, w1)"
proof -
  obtain c1 st1 w1 where run: "reconcileConfig tuned_env tuned_cluster \<lparr>configHashes = Map.empty, configParams = Map.empty\<rparr> tuned_store =
      ((None, c1), st1, w1)"
    using tuned_run by blast
  have conf: "Spec_Config (CC_Spec tuned_cluster) = Some tuned_config" by (simp add: tuned_cluster_def)
  have r: "ranges tuned_env tuned_config" by (simp add: ranges_def keys_of_def tuned_config_def)
  have p: "plain_names tuned_config" by (simp add: plain_names_def tuned_config_def)
  have "cluster_key (base_cluster\<lparr>CC_Name := ''d''\<rparr>) \<noteq> cluster_key tuned_cluster"
    by (simp add: cluster_key_def tuned_cluster_def base_cluster_def)
  then have "\<forall>(d, v) \<in> set [(base_cluster\<lparr>CC_Name := ''d''\<rparr>, w1), (tuned_cluster, w1)].
      cluster_key d \<noteq> cluster_key tuned_cluster \<or> Spec_Config (CC_Spec d) = Some tuned_config"
    using conf by simp
  from config_applied_once [OF conf r p run this conf refl, of w1] show ?thesis using run by blast
qed

section \<open>Lost and early reports\<close>

text \<open>
  A changed configuration whose generation the cluster controller has recorded first is not looked at:
  the pass refreshes the parts that follow Jobs and ends.
\<close>

lemma observed_change_skipped:
  assumes "k_get_cluster (ae_client a) ns n w = (Inr c, w1)"
    and "CC_Annotations c AnnotationRollingRestart = None" "CC_Annotations c AnnotationPendingReload = None"
    and "annotation c AnnotationMaintenance = []" "St_Phase (CC_Status c) = ClusterPhaseRunning"
    and "generation_observed c" "isExporterRoleReady c"
  shows "admin_Reconcile a ns n st w = (Inr (requeueDefault (ae_reconciler a)), st, steady_refresh a c w1)"
  using assms by (simp add: admin_Reconcile_def handleAdminEarlyReturns_def completePendingReload_def)

text \<open>A reload that fails is reported as applied, and its request is removed.\<close>

lemma failed_reload_reported_applied:
  assumes "ae_reconciler a = srv_reconciler" "stored c w" "srv_db_error w ''NewClient'' = None"
    and "ae_reload_config a w = (Some e, w)"
  shows "\<exists>c'. stored c' (snd (finish_reload a c w)) \<and> config_applied c' \<and> CC_Annotations c' AnnotationPendingReload = None"
proof -
  let ?c1 = "annotated AnnotationPendingReload None c"
  let ?w1 = "logged (Op_Annotation AnnotationPendingReload None) (set_cluster ?c1 w)"
  define c' where "c' = with_condition (srv_now w) ConditionConfigApplied ConditionTrue ''ConfigReloaded''
    ''All configuration parameters are applied via reload'' ?c1"
  have "reload_now a c w = (True, w)" using assms(1,3,4) by (simp add: reload_now_def db_answer_def)
  moreover have "patchStatus srv_reconciler c' ?w1 = (Inr c', set_cluster c' ?w1)"
    unfolding c'_def by (rule exec_condition) simp
  ultimately have "snd (finish_reload a c w) = set_cluster c' ?w1"
    using exec_annotation [OF assms(2), of c] assms(1)
    by (simp add: finish_reload_def close_client_def c'_def [symmetric])
  then show ?thesis
    by (intro exI [of _ c']) (simp add: config_applied_def c'_def with_condition_def SetCondition_present)
qed

end
