(* ===== verification/Spec2Isabelle.thy ===== *)
theory Spec2Isabelle
  imports Conditions Admission LifecycleTheorems ScaleProperties OperationSamples SegmentTheorems HATheorems ApiRotation IdleHandover PlanTheorems AdminProperties
begin

text \<open>
  A verification library of the Cloudberry Database Kubernetes operator.

  \<^bold>\<open>The program.\<close> The operator runs Cloudberry (a Greenplum descendant) clusters on Kubernetes. A user
  writes a \<^verbatim>\<open>CloudberryCluster\<close> resource; a mutating webhook fills its defaults and a validating
  webhook admits or rejects it (\<^verbatim>\<open>internal/webhook\<close>); controllers (\<^verbatim>\<open>internal/controller\<close>) then create
  and scale StatefulSets, jobs and services, talk to the database, and report in the status of the
  resource; a REST server (\<^verbatim>\<open>internal/api\<close>) with its authentication (\<^verbatim>\<open>internal/auth\<close>) lets operators
  read clusters and ask for actions, which it writes as annotations. Helper packages hold the cron engine (\<^verbatim>\<open>internal/cron\<close>), the policy for PXF profiles
  (\<^verbatim>\<open>internal/pxfpolicy\<close>), resource names and status conditions (\<^verbatim>\<open>internal/util\<close>).

  \<^bold>\<open>Theories and sources.\<close>

  \<^item> \<^verbatim>\<open>Prelude\<close>: machine integers with their wrap-around, Go strings as byte strings (case folding on
    ASCII, rune counting), integer parsing, and the combinators of validation (first error, checks
    over an indexed list), with the lemmas all components share.
  \<^item> \<^verbatim>\<open>ApiTypes\<close>: the structs of \<^verbatim>\<open>api/v1alpha1/types.go\<close> as records in the source's field order;
    pointers are options, enums are strings with their constants, maps are partial functions.
    \<^verbatim>\<open>Samples\<close> holds concrete resources on which theorems are applied.
  \<^item> \<^verbatim>\<open>Defaulting\<close>: \<^verbatim>\<open>internal/webhook/mutating.go\<close>, one definition per \<^verbatim>\<open>set...Defaults\<close> function. The
    locale \<open>filler\<close> is the contract of one step; the whole defaulter is idempotent.
  \<^item> \<^verbatim>\<open>Validation\<close>: \<^verbatim>\<open>internal/webhook/validating.go\<close>, one definition per function and one error value per
    error site. The data-loading validator accepts exactly an order-free rule set, from which follow
    the safety theorems on streaming jobs, source filters and writable exports; updates keep the
    mirroring layout; creation needs a name unused in other namespaces.
  \<^item> \<^verbatim>\<open>Admission\<close>: the two webhooks and the store of the API server as a step relation, in which a
    creation is judged on some past list of clusters (the cache of the webhook's client) and stored by
    a later step, among other writers. In every reachable state a namespace holds a name once, every
    cluster is valid, defaulting changes nothing, and its creation was judged on a list without its name
    in another namespace (which concurrent creations can still make two); defaulting never turns an
    accepted cluster into a rejected one.
  \<^item> \<^verbatim>\<open>GoTime\<close>, \<^verbatim>\<open>Cron\<close>: \<^verbatim>\<open>internal/cron/cron.go\<close> and \<^verbatim>\<open>internal/webhook/cron.go\<close>. The parser accepts
    exactly the expressions with five meaningful fields, the schedule it returns is their meaning,
    and \<open>Next\<close> finds the least matching minute in its window. Locations are offset functions.
  \<^item> \<^verbatim>\<open>PxfPolicy\<close>: \<^verbatim>\<open>internal/pxfpolicy/policy.go\<close> and the profile tables of the validator; the writable
    profiles are exactly the documented matrix.
  \<^item> \<^verbatim>\<open>Conditions\<close>: \<^verbatim>\<open>internal/util/conditions.go\<close>; a slice of conditions refines a map from types to
    conditions (locale \<open>condition_store\<close>), and transition times move only with the status.
  \<^item> \<^verbatim>\<open>Names\<close>: \<^verbatim>\<open>internal/util/names.go\<close> and \<^verbatim>\<open>internal/util/strings.go\<close>; when names are well formed
    and distinct, and when truncation makes them collide.
  \<^item> \<^verbatim>\<open>Kube\<close>: the clients a controller calls (Kubernetes API, event recorder, database, clock) as
    records of operations on an arbitrary world, each of which may fail. The locale \<open>healthy_api\<close>
    is the documented behaviour of an API server without failures; an in-memory server satisfies it.
  \<^item> \<^verbatim>\<open>Lifecycle\<close>, \<^verbatim>\<open>LifecycleTheorems\<close>: the part of \<^verbatim>\<open>internal/controller/cluster_controller.go\<close> that
    decides what a reconciliation does (\<open>Reconcile\<close> and its gates), starts, stops and restarts a
    cluster, and updates its status. \<open>Reconcile\<close> takes the first gate of a fixed list; on a healthy
    API server a stop scales every StatefulSet down in order and finishes, nothing scales a stopped
    cluster (a step relation of reconciliations and pod terminations), a restart comes back, and the
    status reports what the StatefulSets show.
  \<^item> \<^verbatim>\<open>Rfc3339\<close>, \<^verbatim>\<open>Json\<close>: what the controller uses of Go's \<^verbatim>\<open>time\<close> and \<^verbatim>\<open>encoding/json\<close>: timestamps in
    RFC 3339 and flat objects of strings and 32-bit integers, written and read back byte by byte.
  \<^item> \<^verbatim>\<open>Workloads\<close>: Jobs, Pods, volume claims and the rollout state of StatefulSets, the services the
    long-running operations call (record \<open>services\<close>), and the helpers they share.
  \<^item> \<^verbatim>\<open>Scale\<close>, \<^verbatim>\<open>ScaleTheorems\<close>, \<^verbatim>\<open>ScaleProperties\<close>: the scale-out and scale-in procedures of
    \<^verbatim>\<open>cluster_controller.go\<close> with their state annotations. The annotations read back as written, a
    large scale-in needs its confirmation once the StatefulSet has been read, a scale-in runs to its end
    in the order that keeps the data, a scale-out persists its state before it raises replicas and goes
    on to gpexpand only from a stable cluster, and a failing expansion is given up at the fifth attempt.
  \<^item> \<^verbatim>\<open>Mirroring\<close>, \<^verbatim>\<open>Upgrade\<close>, \<^verbatim>\<open>Deletion\<close>: the procedures of \<^verbatim>\<open>cluster_controller.go\<close> that switch mirroring on
    and off, roll a new image out and back, and delete a cluster. \<^verbatim>\<open>OperationTheorems\<close> (applied to
    concrete clusters in \<^verbatim>\<open>OperationSamples\<close>) shows that enabling comes to its end, that its timeout
    leaves the cluster stuck, that an upgrade visits the StatefulSets in order and that a late phase
    restores the recorded image everywhere, and that no volume goes before a backup Job that could be
    created has ended.
  \<^item> \<^verbatim>\<open>Segments\<close>, \<^verbatim>\<open>StsBuilders\<close>, \<^verbatim>\<open>SegmentTheorems\<close>: the reconciliation of the StatefulSets and, of
    \<^verbatim>\<open>internal/builder/builder.go\<close>, their names, replicas and the cases in which none is built (pod templates
    are an argument). While the StatefulSets can be read it never shrinks the primaries, whichever branch
    it takes; a failed read lets it.
  \<^item> \<^verbatim>\<open>Glob\<close>, \<^verbatim>\<open>HighAvailability\<close>, \<^verbatim>\<open>RebalanceWorkers\<close>, \<^verbatim>\<open>HATheorems\<close>: \<^verbatim>\<open>internal/controller/ha_controller.go\<close> with
    the part of \<^verbatim>\<open>filepath.Match\<close> it uses. A request the controller finds promotes the standby at most once,
    whatever the database answers and others write between the passes; a health check stores the segments
    that are down; a rebalance moves the skewed tables that no pattern excludes. The pool of workers is a
    step relation over all interleavings, with its bound and its end; the rebalance takes the order in
    which the workers reach the database as an argument, and its theorem holds for every order a run of
    the pool can give.
  \<^item> \<^verbatim>\<open>Http\<close>, \<^verbatim>\<open>Float64\<close>: what the REST server uses of \<^verbatim>\<open>net/http\<close> (requests, Basic credentials in base 64,
    the routing tree) and of float64 arithmetic (rounding to the nearest even, locale \<open>float_rounding\<close>).
  \<^item> \<^verbatim>\<open>Auth\<close>, \<^verbatim>\<open>AuthTheorems\<close>: \<^verbatim>\<open>internal/auth\<close>; identities carry one of the five levels (locale
    \<open>typed_store\<close>), a token gets the highest level its roles are mapped to, and stored credentials let
    their owner in, for a bcrypt within its documented limits of 72 bytes and costs from 4 to 31 (locale
    \<open>bcrypt_law\<close>).
  \<^item> \<^verbatim>\<open>RateLimit\<close>: \<^verbatim>\<open>internal/api/ratelimit.go\<close>; a burst is bounded by the limit, the cleanup of idle buckets
    cannot be observed, and a client that waits as the header Retry-After tells it is admitted, in
    float64 arithmetic.
  \<^item> \<^verbatim>\<open>ApiRoutes\<close>: the route tables of \<^verbatim>\<open>internal/api/server.go\<close> and their dispatch; no change without the
    permission of an operator, and guests read two routes. \<^verbatim>\<open>ApiHandlers\<close>, \<^verbatim>\<open>ApiWorkloads\<close>: handlers for
    clusters, lifecycle requests, the administrator's password, backends, resource groups and queues,
    workload rules. \<^verbatim>\<open>ApiWorld\<close> is a reference world for them; \<^verbatim>\<open>ApiTheorems\<close> shows that only identifiers
    reach the database, \<^verbatim>\<open>ApiRules\<close> that rules are a map under concurrent writers on a server with
    optimistic locking, stale reads and lost answers (locale \<open>rule_store\<close>),
    \<^verbatim>\<open>ApiRotation\<close> that a rotation is all or nothing (locale \<open>rotation_env\<close>), and \<^verbatim>\<open>ApiStack\<close> follows a stop
    from the network to the StatefulSets (locale \<open>api_stack\<close>).
  \<^item> \<^verbatim>\<open>Retry\<close>: \<^verbatim>\<open>internal/util/retry.go\<close>; the number of attempts is bounded, and a retry keeps what its
    operation keeps. \<^verbatim>\<open>Idle\<close>, \<^verbatim>\<open>IdleHandover\<close>: \<^verbatim>\<open>internal/idle/daemon.go\<close>; a scan ends backends exactly as its
    rules say (locale \<open>session_log\<close>), clients do not leak (locale \<open>client_count\<close>), and whatever threads
    call \<open>Start\<close> and \<open>Stop\<close>, one scan loop runs at most and every call returns.
  \<^item> \<^verbatim>\<open>Regex\<close>: regular expressions with captures, in the order of a backtracking search. \<^verbatim>\<open>PlanChecker\<close>,
    \<^verbatim>\<open>PlanTheorems\<close>: \<^verbatim>\<open>internal/planchecker\<close>; the findings are those of the nodes line by line, whatever
    tree the indentation gives.
  \<^item> \<^verbatim>\<open>Hash\<close>: \<^verbatim>\<open>internal/util/hash.go\<close> with SHA-256. \<^verbatim>\<open>AdminRestart\<close>, \<^verbatim>\<open>AdminConfig\<close>: of
    \<^verbatim>\<open>internal/controller/admin_controller.go\<close> the reconciliation with its early returns, configuration
    changes, reload, rolling restart and maintenance; its other parts are arguments (record \<open>admin_env\<close>).
    \<^verbatim>\<open>AdminTheorems\<close> shows that a rolling restart visits every tier once and ends, \<^verbatim>\<open>AdminProperties\<close> that a
    configuration is applied once, and which changes are lost or reported too early.
  \<^item> \<^verbatim>\<open>ApiServer\<close>: a reference API server with a log of the operations that move data, which
    satisfies \<open>healthy_api\<close>; the runs of the long operations are stated over it.

  \<^bold>\<open>Bounds and fuel.\<close> \<^verbatim>\<open>int32\<close> and \<^verbatim>\<open>int64\<close> values are integers; where arithmetic can overflow the
  wrap-around is written out. The range loop of the cron parser carries a fuel of 64 rounds: ranges
  span at most 60 values and a step is at least 1, and it is proved that the loop leaves by its own
  condition before that, also when the counter wraps. The search for the next cron run makes the
  527040 rounds of the source. The loop that deletes the volume claims of removed segments carries a
  fuel of \<open>2^32\<close> rounds, after which its 32-bit ordinal has visited every name; it is proved to end at
  the first missing claim. \<^verbatim>\<open>strings.ToLower\<close> and \<^verbatim>\<open>strings.EqualFold\<close> fold ASCII letters only; the
  keywords they are compared with are ASCII. Float64 operations are rounded one by one, as on amd64; on
  architectures where Go fuses a product into a sum the refill of a bucket may differ in the last bit.

  \<^bold>\<open>Not modelled.\<close> Logging, metrics and tracing have no effect on the state. Of the cluster controller
  the reconciliation of the core resources is an argument of the model (record \<open>flows\<close>), as are the
  TLS checksum, the PXF objects and the volume expansion (record \<open>services\<close>). Of the REST server the
  handlers for monitoring, backups, data loading and storage are left out, which pass a request on to
  the database or the builders; of authentication the lazy discovery of the OIDC provider; of
  the admin controller query monitoring, workload, backup, data loading and storage; further the auth and
  data-load controllers. The resource builders (but for what \<^verbatim>\<open>StsBuilders\<close> holds), the command
  line client and the database client (text of manifests, scripts and SQL) are left out, as is
  generated code.
\<close>

end
